(* ===== verification/Prelude.thy ===== *)
theory Prelude
  imports Main "HOL-Library.List_Lexorder" "HOL-Library.Char_ord" "HOL-Library.Sublist"
begin

text \<open>
  Shared vocabulary of the development: the parts of Go and of its standard library that the
  modelled packages use (clock values and durations, 64-bit wrap-around, byte strings, error
  values with their wrapping), directories as sorted association lists, the sum-type results,
  and the generic interfaces (locales) that several components instantiate.
\<close>

named_theorems go_simps \<open>unfolding rules for the Go runtime helpers\<close>
named_theorems dir_simps \<open>look-up laws of directories\<close>

section \<open>Integers, clock values and durations\<close>

text \<open>
  Go's \<open>int\<close> is 64 bits wide on the supported platforms. Values are \<open>int\<close>;
  where a product or a conversion can leave the range, \<open>wrap64\<close> is applied.
\<close>

definition wrap64 :: "int \<Rightarrow> int" where
  "wrap64 x = (x + 2 ^ 63) mod 2 ^ 64 - 2 ^ 63"

definition in_int64 :: "int \<Rightarrow> bool" where
  "in_int64 x \<longleftrightarrow> - (2 ^ 63) \<le> x \<and> x < 2 ^ 63"

lemma wrap64_id [simp]: "in_int64 x \<Longrightarrow> wrap64 x = x"
  unfolding wrap64_def in_int64_def by (simp add: mod_pos_pos_trivial)

lemma wrap64_range: "in_int64 (wrap64 x)"
proof -
  have "0 \<le> (x + 2 ^ 63) mod 2 ^ 64 \<and> (x + 2 ^ 63) mod 2 ^ 64 < (2 ^ 64 :: int)" by simp
  then show ?thesis unfolding wrap64_def in_int64_def by auto
qed

text \<open>
  A \<open>time.Time\<close> is its distance in nanoseconds from Go's zero time (year 1), so that
  \<open>IsZero\<close> is equality with 0. \<open>Time.Sub\<close> saturates at the bounds of
  \<open>time.Duration\<close>.
\<close>

type_synonym time = int
type_synonym duration = int

abbreviation (input) zero_time :: time where
  "zero_time \<equiv> 0"

definition max_duration :: duration where
  "max_duration = 2 ^ 63 - 1"

definition min_duration :: duration where
  "min_duration = - (2 ^ 63)"

definition time_sub :: "time \<Rightarrow> time \<Rightarrow> duration" where
  "time_sub a b = max min_duration (min max_duration (a - b))"

definition second_ns :: duration where
  "second_ns = 1000000000"

definition millisecond_ns :: duration where
  "millisecond_ns = 1000000"

text \<open>\<open>time.Duration(n) * unit\<close>, a wrapping 64-bit product.\<close>

definition duration_of :: "int \<Rightarrow> duration \<Rightarrow> duration" where
  "duration_of n unit = wrap64 (n * unit)"

lemma time_sub_greater:
  assumes "min_duration \<le> d" and "d < max_duration"
  shows "d < time_sub a b \<longleftrightarrow> d < a - b"
  using assms unfolding time_sub_def min_duration_def max_duration_def by auto

lemma time_sub_mono: "a \<le> a' \<Longrightarrow> time_sub a b \<le> time_sub a' b"
  unfolding time_sub_def by auto

lemma time_sub_self [simp]: "time_sub a a = 0"
  unfolding time_sub_def min_duration_def max_duration_def by simp

section \<open>Strings\<close>

text \<open>
  Go strings are byte sequences, ordered bytewise; so are HOL strings with the order of
  \<open>List_Lexorder\<close> and \<open>Char_ord\<close>. \<open>ToLower\<close> and \<open>TrimSpace\<close> are given on ASCII.
\<close>

definition char_lower :: "char \<Rightarrow> char" where
  "char_lower c = (let n = (of_char c :: nat) in
     if 65 \<le> n \<and> n \<le> 90 then char_of (n + 32) else c)"

definition to_lower :: "string \<Rightarrow> string" where
  "to_lower s = map char_lower s"

definition is_space :: "char \<Rightarrow> bool" where
  "is_space c \<longleftrightarrow> (of_char c :: nat) \<in> {9, 10, 11, 12, 13, 32}"

definition trim_space :: "string \<Rightarrow> string" where
  "trim_space s = rev (dropWhile is_space (rev (dropWhile is_space s)))"

definition has_suffix :: "string \<Rightarrow> string \<Rightarrow> bool" where
  "has_suffix s suf \<longleftrightarrow> drop (length s - length suf) s = suf"

definition has_prefix :: "string \<Rightarrow> string \<Rightarrow> bool" where
  "has_prefix s pre \<longleftrightarrow> take (length pre) s = pre"

fun str_contains :: "string \<Rightarrow> string \<Rightarrow> bool" where
  "str_contains [] sub = (sub = [])"
| "str_contains (c # s) sub = (has_prefix (c # s) sub \<or> str_contains s sub)"

definition equal_fold :: "string \<Rightarrow> string \<Rightarrow> bool" where
  "equal_fold s t \<longleftrightarrow> to_lower s = to_lower t"

lemma has_suffix_append [simp]: "has_suffix (s @ suf) suf"
  by (simp add: has_suffix_def)

lemma has_suffix_iff: "has_suffix s suf \<longleftrightarrow> (\<exists>p. s = p @ suf)"
proof
  assume "has_suffix s suf"
  then have "s = take (length s - length suf) s @ suf"
    unfolding has_suffix_def by (metis append_take_drop_id)
  then show "\<exists>p. s = p @ suf" by blast
qed auto

fun nat_digits :: "nat \<Rightarrow> string" where
  "nat_digits n = (if n < 10 then [char_of (48 + n)]
                   else nat_digits (n div 10) @ [char_of (48 + n mod 10)])"

declare nat_digits.simps [simp del]

text \<open>The \<open>%d\<close> verb of \<open>fmt.Sprintf\<close>.\<close>

definition fmt_int :: "int \<Rightarrow> string" where
  "fmt_int i = (if i < 0 then ''-'' @ nat_digits (nat (- i)) else nat_digits (nat i))"

definition hex_digit :: "nat \<Rightarrow> char" where
  "hex_digit n = (if n < 10 then char_of (48 + n) else char_of (87 + n))"

text \<open>The \<open>%q\<close> verb, on strings without characters to escape.\<close>

definition fmt_q :: "string \<Rightarrow> string" where
  "fmt_q s = [CHR 0x22] @ s @ [CHR 0x22]"

text \<open>\<open>strings.Join\<close>.\<close>

fun str_join :: "string \<Rightarrow> string list \<Rightarrow> string" where
  "str_join sep [] = []"
| "str_join sep [s] = s"
| "str_join sep (s # t # ts) = s @ sep @ str_join sep (t # ts)"

section \<open>Errors\<close>

text \<open>
  Error values. \<open>Wrap m e\<close> is \<open>fmt.Errorf("m: %w", e)\<close> and \<open>WrapPost e m\<close> is
  \<open>fmt.Errorf("%w: m", e)\<close>. \<open>errors_is\<close> follows the
  wrapping, \<open>os_IsNotExist\<close> does not: it only looks at the error itself, as documented for
  \<open>os.IsNotExist\<close>.
\<close>

datatype go_error =
    ErrNotExist
  | ErrSyntax
  | ErrIO string
  | ErrMsg string
  | ErrCanceled
  | ErrTaskNotFound
  | ErrVersionConflict
  | ErrTaskNotClaimable
  | ErrTaskBlocked
  | ErrInvalidClaim
  | ErrInvalidTransition
  | ErrFixLoopExceeded
  | ErrPhaseTerminal
  | ErrAgentNotRunning
  | Wrap string go_error
  | WrapPost go_error string

fun errors_is :: "go_error \<Rightarrow> go_error \<Rightarrow> bool" where
  "errors_is (Wrap m e) t = (Wrap m e = t \<or> errors_is e t)"
| "errors_is (WrapPost e m) t = (WrapPost e m = t \<or> errors_is e t)"
| "errors_is e t = (e = t)"

definition os_IsNotExist :: "go_error \<Rightarrow> bool" where
  "os_IsNotExist e \<longleftrightarrow> e = ErrNotExist"

type_synonym 'a result = "go_error + 'a"

section \<open>Directories\<close>

text \<open>
  A directory is an association list from file names to contents, kept in the byte order in
  which \<open>os.ReadDir\<close> lists it.
\<close>

type_synonym 'a fdir = "(string \<times> 'a) list"

fun fput :: "string \<Rightarrow> 'a \<Rightarrow> 'a fdir \<Rightarrow> 'a fdir" where
  "fput k v [] = [(k, v)]"
| "fput k v (p # d) = (if fst p = k then (k, v) # d
                       else if k < fst p then (k, v) # p # d
                       else p # fput k v d)"

definition fdel :: "string \<Rightarrow> 'a fdir \<Rightarrow> 'a fdir" where
  "fdel k d = filter (\<lambda>p. fst p \<noteq> k) d"

definition wf_dir :: "'a fdir \<Rightarrow> bool" where
  "wf_dir d \<longleftrightarrow> sorted_wrt (<) (map fst d)"

text \<open>What the components rely on when they use a directory.\<close>

locale kv_store =
  fixes lookup :: "'m \<Rightarrow> 'k \<Rightarrow> 'v option"
    and put :: "'k \<Rightarrow> 'v \<Rightarrow> 'm \<Rightarrow> 'm"
    and del :: "'k \<Rightarrow> 'm \<Rightarrow> 'm"
    and wf :: "'m \<Rightarrow> bool"
  assumes lookup_put: "lookup (put k v m) = (lookup m)(k \<mapsto> v)"
    and lookup_del: "lookup (del k m) = (lookup m)(k := None)"
    and wf_put: "wf m \<Longrightarrow> wf (put k v m)"
    and wf_del: "wf m \<Longrightarrow> wf (del k m)"
begin

lemma lookup_put_same: "lookup (put k v m) k = Some v"
  by (simp add: lookup_put)

lemma lookup_put_other: "k' \<noteq> k \<Longrightarrow> lookup (put k v m) k' = lookup m k'"
  by (simp add: lookup_put)

lemma lookup_put_put: "lookup (put k v (put k w m)) = lookup (put k v m)"
  by (simp add: lookup_put)

lemma lookup_del_put: "lookup m k = None \<Longrightarrow> lookup (del k (put k v m)) = lookup m"
  by (auto simp: lookup_put lookup_del fun_eq_iff)

end

lemma map_of_fput: "map_of (fput k v d) = (map_of d)(k \<mapsto> v)"
  by (induction d) (auto simp: fun_eq_iff)

lemma map_of_fdel: "map_of (fdel k d) = (map_of d)(k := None)"
  by (induction d) (auto simp: fdel_def fun_eq_iff)

lemma set_fput_names: "fst ` set (fput k v d) = insert k (fst ` set d)"
  by (induction d) auto

lemma fput_not_Nil [simp]: "fput k v d \<noteq> []"
  by (cases d) auto

lemma set_fput: "set (fput k v d) \<subseteq> insert (k, v) (set d)"
  by (induction d) auto

lemma wf_dir_fput: "wf_dir d \<Longrightarrow> wf_dir (fput k v d)"
proof (induction d)
  case Nil
  then show ?case by (simp add: wf_dir_def)
next
  case (Cons p d)
  then have IH: "wf_dir (fput k v d)" by (simp add: wf_dir_def)
  have names: "set (map fst (fput k v d)) = insert k (set (map fst d))"
    using set_fput_names [of k v d] by simp
  show ?case
    using Cons.prems IH names by (auto simp: wf_dir_def)
qed

lemma wf_dir_fdel: "wf_dir d \<Longrightarrow> wf_dir (fdel k d)"
  unfolding wf_dir_def fdel_def sorted_wrt_map by (rule sorted_wrt_filter)

interpretation fd: kv_store map_of fput fdel wf_dir
  by unfold_locales (simp_all add: map_of_fput map_of_fdel wf_dir_fput wf_dir_fdel)

lemmas dir_lookup [simp, dir_simps] = fd.lookup_put fd.lookup_del
lemmas dir_wf [intro] = fd.wf_put fd.wf_del

lemma wf_dir_Nil [simp]: "wf_dir []"
  by (simp add: wf_dir_def)

lemma wf_dir_distinct: "wf_dir d \<Longrightarrow> distinct (map fst d)"
  unfolding wf_dir_def by (simp add: strict_sorted_iff)

lemma wf_dir_lookup: "wf_dir d \<Longrightarrow> (k, v) \<in> set d \<longleftrightarrow> map_of d k = Some v"
  by (metis wf_dir_distinct map_of_eq_Some_iff)

text \<open>A loop that stores one file per element.\<close>

definition fput_all :: "('x \<Rightarrow> string) \<Rightarrow> ('x \<Rightarrow> 'a) \<Rightarrow> 'x list \<Rightarrow> 'a fdir \<Rightarrow> 'a fdir" where
  "fput_all key val xs d = foldl (\<lambda>d x. fput (key x) (val x) d) d xs"

lemma fput_all_simps [simp]:
  "fput_all key val [] d = d"
  "fput_all key val (x # xs) d = fput_all key val xs (fput (key x) (val x) d)"
  by (simp_all add: fput_all_def)

lemma fput_all_lookup:
  "distinct (map key xs) \<Longrightarrow>
   map_of (fput_all key val xs d) n =
     (case find (\<lambda>x. key x = n) xs of Some x \<Rightarrow> Some (val x) | None \<Rightarrow> map_of d n)"
proof (induction xs arbitrary: d)
  case Nil
  then show ?case by simp
next
  case (Cons x xs)
  then have "find (\<lambda>y. key y = key x) xs = None"
    by (auto simp: find_None_iff image_iff)
  with Cons show ?case by (auto split: option.splits)
qed

lemma fput_all_lookup_other: "n \<notin> key ` set xs \<Longrightarrow> map_of (fput_all key val xs d) n = map_of d n"
  by (induction xs arbitrary: d) auto

lemma fput_all_lookup_some:
  "n \<in> key ` set xs \<Longrightarrow> \<exists>x \<in> set xs. key x = n \<and> map_of (fput_all key val xs d) n = Some (val x)"
proof (induction xs arbitrary: d)
  case Nil
  then show ?case by simp
next
  case (Cons y xs)
  then show ?case
    by (cases "n \<in> key ` set xs") (auto simp: fput_all_lookup_other)
qed

lemma fput_all_lookup_mem:
  assumes "x \<in> set xs" and "\<And>y. y \<in> set xs \<Longrightarrow> key y = key x \<Longrightarrow> val y = val x"
  shows "map_of (fput_all key val xs d) (key x) = Some (val x)"
proof -
  obtain y where "y \<in> set xs" "key y = key x" "map_of (fput_all key val xs d) (key x) = Some (val y)"
    using fput_all_lookup_some [of "key x" key xs val d] assms(1) by blast
  with assms(2) [of y] show ?thesis by simp
qed

lemma wf_dir_fput_all: "wf_dir d \<Longrightarrow> wf_dir (fput_all key val xs d)"
  by (induction xs arbitrary: d) (auto simp: dir_wf)

text \<open>A loop that removes one file per element.\<close>

definition fdel_all :: "string list \<Rightarrow> 'a fdir \<Rightarrow> 'a fdir" where
  "fdel_all ns d = foldl (\<lambda>d n. fdel n d) d ns"

lemma fdel_all_simps [simp]: "fdel_all [] d = d" "fdel_all (n # ns) d = fdel_all ns (fdel n d)"
  by (simp_all add: fdel_all_def)

lemma fdel_all_lookup: "map_of (fdel_all ns d) n = (if n \<in> set ns then None else map_of d n)"
  by (induction ns arbitrary: d) auto

lemma wf_dir_fdel_all: "wf_dir d \<Longrightarrow> wf_dir (fdel_all ns d)"
  by (induction ns arbitrary: d) (auto simp: dir_wf)

lemma fdel_absent: "map_of d n = None \<Longrightarrow> fdel n d = d"
  by (auto simp: fdel_def map_of_eq_None_iff filter_id_conv)

section \<open>Runs of a state-transforming operation\<close>

text \<open>
  Every component is a step function on its state; a predicate kept by each step is kept by
  every sequence of steps.
\<close>

locale step_invariant =
  fixes step :: "'s \<Rightarrow> 'a \<Rightarrow> 's"
    and inv :: "'s \<Rightarrow> bool"
  assumes inv_step: "inv s \<Longrightarrow> inv (step s a)"
begin

lemma inv_run: "inv s \<Longrightarrow> inv (foldl step s as)"
  by (induction as arbitrary: s) (auto intro: inv_step)

lemma inv_prefix: "inv s \<Longrightarrow> as = bs @ cs \<Longrightarrow> inv (foldl step s bs)"
  by (simp add: inv_run)

end

text \<open>
  A reflexive and transitive relation that every admitted step establishes between the old and the
  new state holds across a run of admitted steps.
\<close>

locale step_relation =
  fixes step :: "'s \<Rightarrow> 'a \<Rightarrow> 's"
    and admitted :: "'a \<Rightarrow> bool"
    and R :: "'s \<Rightarrow> 's \<Rightarrow> bool"
  assumes R_refl: "R s s"
    and R_trans: "R s t \<Longrightarrow> R t u \<Longrightarrow> R s u"
    and R_step: "admitted a \<Longrightarrow> R s (step s a)"
begin

lemma R_run: "list_all admitted as \<Longrightarrow> R s (foldl step s as)"
proof (induction as arbitrary: s)
  case Nil
  then show ?case by (simp add: R_refl)
next
  case (Cons a as)
  then have "R s (step s a)" and "R (step s a) (foldl step (step s a) as)"
    by (simp_all add: R_step)
  then show ?case by (simp add: R_trans)
qed

end

end
