(* ===== verification/Config.thy ===== *)
theory Config
  imports Prelude
begin

text \<open>
  Models \<open>internal/config/config.go\<close>: the workflow configuration, its defaults and the functions the
  other packages read it through. A \<open>*WorkflowConfig\<close> is an \<open>option\<close>, since every getter accepts nil; other
  pointers are options as well. A slice is a list, a map a directory, both under an \<open>option\<close> that tells
  nil from empty. \<open>Clone\<close> makes a deep copy, which as a value is the configuration itself.
\<close>

named_theorems config_defaults \<open>the constants of the package\<close>

section \<open>Values\<close>

type_synonym 'a slice = "'a list option"
type_synonym 'a gomap = "'a fdir option"

text \<open>The elements of a slice or of a map, which Go ranges over: none when it is nil.\<close>

definition elems :: "'a list option \<Rightarrow> 'a list" where
  "elems s = (case s of None \<Rightarrow> [] | Some xs \<Rightarrow> xs)"

section \<open>The structures\<close>

record TrackerConfig =
  ct_Type :: string
  ct_ProjectURL :: string
  ct_TeamID :: string
  ct_AssigneeID :: string
  ct_BoardDir :: string
  ct_IssuePrefix :: string
  ct_Owner :: string
  ct_Repo :: string
  ct_Labels :: "string slice"
  ct_Assignee :: string
  ct_Token :: string
  ct_Endpoint :: string
  ct_HTTPTimeoutMsRaw :: int
  ct_MainRefRaw :: string
  ct_AutoCloseAlreadyImplementedRaw :: bool

record PollingConfig =
  cp_IntervalMs :: int
  cp_BackoffStrategy :: string

record WorkspaceConfig =
  ck_BaseDir :: string
  ck_BranchPrefix :: string

record HooksConfig =
  ch_BeforeRun :: string
  ch_AfterRun :: string
  ch_BeforeRemove :: string

record CodexConfig =
  cx_BinaryPath :: string
  cx_Model :: string
  cx_ApprovalPolicy :: string
  cx_Sandbox :: string
  cx_HandshakeTimeoutMsRaw :: int
  cx_OverloadRetryCapMsRaw :: int
  cx_OverloadStartDelayMsRaw :: int

record AgentConfig =
  ca_Type :: string

record OpenCodeConfig =
  co_BinaryPath :: string
  co_Port :: int
  co_Password :: string
  co_Username :: string

record OMXConfig =
  cm_BinaryPath :: string
  cm_TeamSpec :: string
  cm_PollIntervalMs :: int
  cm_StartupTimeoutMs :: int
  cm_Ralph :: bool

record OMCConfig =
  cc_BinaryPath :: string
  cc_TeamSpec :: string
  cc_PollIntervalMs :: int
  cc_StartupTimeoutMs :: int

record LinearIssueDetailsConfig =
  ld_Enabled :: "bool option"

record LinearSyncCommentsConfig =
  lc_Enabled :: bool
  lc_Mode :: string
  lc_QueueSize :: int
  lc_PollIntervalMs :: int

record LinearConfigSection =
  ls_IssueDetails :: LinearIssueDetailsConfig
  ls_SyncComments :: LinearSyncCommentsConfig

record OhMyOpenCodeAgent =
  oa_Model :: string

record OhMyOpenCodeCategory =
  og_Model :: string

record OhMyOpenCodeProvider =
  op_Name :: string
  op_BaseURL :: string
  op_APIKey :: string

record OhMyOpenCodeConfig =
  oh_PluginVersion :: string
  oh_Plugins :: "string slice"
  oh_Agents :: "OhMyOpenCodeAgent gomap"
  oh_Categories :: "OhMyOpenCodeCategory gomap"
  oh_Provider :: OhMyOpenCodeProvider

record TeamSectionConfig =
  cs_MaxWorkers :: int
  cs_MaxFixLoops :: int
  cs_ClaimLeaseSeconds :: int
  cs_StateDir :: string
  cs_ExecutionMode :: string
  cs_WorkerMode :: string
  cs_RestartGracePeriodMsRaw :: int
  cs_GovernanceRetryDelayMsRaw :: int
  cs_HeartbeatIntervalMsRaw :: int

record TimelineConfig =
  cl_Dir :: string

record WebConfig =
  cw_SSEKeepaliveIntervalMsRaw :: int

record WorkflowConfig =
  cf_MaxConcurrencyRaw :: int
  cf_PollIntervalMsRaw :: int
  cf_MaxRetryBackoffMsRaw :: int
  cf_ModelRaw :: string
  cf_ProjectURLRaw :: string
  cf_AgentTimeoutMsRaw :: int
  cf_StallTimeoutMsRaw :: int
  cf_Tracker :: TrackerConfig
  cf_Polling :: PollingConfig
  cf_Workspace :: WorkspaceConfig
  cf_Hooks :: HooksConfig
  cf_Codex :: CodexConfig
  cf_Agent :: AgentConfig
  cf_OpenCode :: OpenCodeConfig
  cf_OMX :: OMXConfig
  cf_OMC :: OMCConfig
  cf_Linear :: LinearConfigSection
  cf_OhMyOpenCode :: OhMyOpenCodeConfig
  cf_Team :: TeamSectionConfig
  cf_Timeline :: TimelineConfig
  cf_Web :: WebConfig
  cf_PromptTemplate :: string

section \<open>Constants\<close>

definition TeamExecutionModeTeam :: string where
  "TeamExecutionModeTeam = ''team''"

definition defaultMaxConcurrency :: int where
  "defaultMaxConcurrency = 10"

definition defaultPollIntervalMs :: int where
  "defaultPollIntervalMs = 30000"

definition defaultMaxRetryBackoffMs :: int where
  "defaultMaxRetryBackoffMs = 300000"

definition defaultAgentTimeoutMs :: int where
  "defaultAgentTimeoutMs = 600000"

definition defaultStallTimeoutMs :: int where
  "defaultStallTimeoutMs = 120000"

definition defaultTrackerType :: string where
  "defaultTrackerType = ''internal''"

definition defaultBackoffStrategy :: string where
  "defaultBackoffStrategy = ''exponential''"

definition defaultWorkspaceBaseDir :: string where
  "defaultWorkspaceBaseDir = ''.''"

definition defaultBranchPrefix :: string where
  "defaultBranchPrefix = ''symphony/''"

definition defaultCodexBinaryPath :: string where
  "defaultCodexBinaryPath = ''codex app-server''"

definition defaultApprovalPolicy :: string where
  "defaultApprovalPolicy = ''''"

definition defaultSandbox :: string where
  "defaultSandbox = ''''"

definition defaultAgentType :: string where
  "defaultAgentType = ''codex''"

definition defaultOpenCodeBinaryPath :: string where
  "defaultOpenCodeBinaryPath = ''opencode serve''"

definition defaultOMXBinaryPath :: string where
  "defaultOMXBinaryPath = ''omx''"

definition defaultOMXTeamSpec :: string where
  "defaultOMXTeamSpec = ''1:executor''"

definition defaultOMXPollIntervalMs :: int where
  "defaultOMXPollIntervalMs = 1000"

definition defaultOMXStartupTimeoutMs :: int where
  "defaultOMXStartupTimeoutMs = 15000"

definition defaultOMCBinaryPath :: string where
  "defaultOMCBinaryPath = ''omc''"

definition defaultOMCTeamSpec :: string where
  "defaultOMCTeamSpec = ''1:claude''"

definition defaultOMCPollIntervalMs :: int where
  "defaultOMCPollIntervalMs = 1000"

definition defaultOMCStartupTimeoutMs :: int where
  "defaultOMCStartupTimeoutMs = 15000"

definition defaultGitHubEndpoint :: string where
  "defaultGitHubEndpoint = ''https://api.github.com''"

definition defaultLocalBoardDir :: string where
  "defaultLocalBoardDir = ''.contrabass/board''"

definition defaultLocalIssuePrefix :: string where
  "defaultLocalIssuePrefix = ''CB''"

definition defaultOhMyOpenCodePluginVersion :: string where
  "defaultOhMyOpenCodePluginVersion = ''oh-my-opencode''"

definition defaultTeamMaxWorkers :: int where
  "defaultTeamMaxWorkers = 5"

definition defaultTeamMaxFixLoops :: int where
  "defaultTeamMaxFixLoops = 3"

definition defaultTeamClaimLeaseSeconds :: int where
  "defaultTeamClaimLeaseSeconds = 300"

definition defaultTeamStateDir :: string where
  "defaultTeamStateDir = ''.contrabass/state/team''"

definition defaultTeamExecutionMode :: string where
  "defaultTeamExecutionMode = TeamExecutionModeTeam"

definition defaultTeamWorkerMode :: string where
  "defaultTeamWorkerMode = ''tmux''"

definition defaultWorkflowTimelineDir :: string where
  "defaultWorkflowTimelineDir = ''.contrabass/state/workflow-timeline''"

definition defaultWebSSEKeepaliveIntervalMs :: int where
  "defaultWebSSEKeepaliveIntervalMs = 15000"

definition defaultCodexHandshakeTimeoutMs :: int where
  "defaultCodexHandshakeTimeoutMs = 30000"

definition defaultCodexOverloadRetryCapMs :: int where
  "defaultCodexOverloadRetryCapMs = 4000"

definition defaultCodexOverloadStartDelayMs :: int where
  "defaultCodexOverloadStartDelayMs = 100"

definition defaultTeamRestartGracePeriodMs :: int where
  "defaultTeamRestartGracePeriodMs = 5000"

definition defaultTeamGovernanceRetryDelayMs :: int where
  "defaultTeamGovernanceRetryDelayMs = 500"

definition defaultTeamHeartbeatIntervalMs :: int where
  "defaultTeamHeartbeatIntervalMs = 10000"

definition defaultTrackerHTTPTimeoutMs :: int where
  "defaultTrackerHTTPTimeoutMs = 30000"

definition TeamExecutionModeSingle :: string where
  "TeamExecutionModeSingle = ''single''"

definition TeamExecutionModeAuto :: string where
  "TeamExecutionModeAuto = ''auto''"

definition LinearSyncCommentsModeReplyThread :: string where
  "LinearSyncCommentsModeReplyThread = ''reply_thread''"

definition LinearSyncCommentsModeTopLevel :: string where
  "LinearSyncCommentsModeTopLevel = ''top_level''"

lemmas config_default_defs [config_defaults] =
  TeamExecutionModeTeam_def defaultMaxConcurrency_def defaultPollIntervalMs_def
  defaultMaxRetryBackoffMs_def defaultAgentTimeoutMs_def defaultStallTimeoutMs_def
  defaultTrackerType_def defaultBackoffStrategy_def defaultWorkspaceBaseDir_def
  defaultBranchPrefix_def defaultCodexBinaryPath_def defaultApprovalPolicy_def
  defaultSandbox_def defaultAgentType_def defaultOpenCodeBinaryPath_def
  defaultOMXBinaryPath_def defaultOMXTeamSpec_def defaultOMXPollIntervalMs_def
  defaultOMXStartupTimeoutMs_def defaultOMCBinaryPath_def defaultOMCTeamSpec_def
  defaultOMCPollIntervalMs_def defaultOMCStartupTimeoutMs_def defaultGitHubEndpoint_def
  defaultLocalBoardDir_def defaultLocalIssuePrefix_def defaultOhMyOpenCodePluginVersion_def
  defaultTeamMaxWorkers_def defaultTeamMaxFixLoops_def defaultTeamClaimLeaseSeconds_def
  defaultTeamStateDir_def defaultTeamExecutionMode_def defaultTeamWorkerMode_def
  defaultWorkflowTimelineDir_def defaultWebSSEKeepaliveIntervalMs_def defaultCodexHandshakeTimeoutMs_def
  defaultCodexOverloadRetryCapMs_def defaultCodexOverloadStartDelayMs_def defaultTeamRestartGracePeriodMs_def
  defaultTeamGovernanceRetryDelayMs_def defaultTeamHeartbeatIntervalMs_def defaultTrackerHTTPTimeoutMs_def
  TeamExecutionModeSingle_def TeamExecutionModeAuto_def LinearSyncCommentsModeReplyThread_def
  LinearSyncCommentsModeTopLevel_def

definition ErrModelRequired :: go_error where
  "ErrModelRequired = ErrMsg ''model is required''"

definition ErrProjectURLRequired :: go_error where
  "ErrProjectURLRequired = ErrMsg ''project_url is required''"

definition ErrLinearSyncCommentsModeInvalid :: go_error where
  "ErrLinearSyncCommentsModeInvalid = ErrMsg ''invalid linear.sync_comments.mode''"

definition ErrLinearSyncCommentsModeUnsupported :: go_error where
  "ErrLinearSyncCommentsModeUnsupported = ErrMsg ''unsupported linear.sync_comments.mode''"

section \<open>Getters\<close>

text \<open>
  The four forms most getters have: \<open>if c == nil || c.F <= 0 { return d }; return c.F\<close>, the same with an
  empty string, the same with a duration in milliseconds, and a field whose default is the zero value.
\<close>

definition positive_or :: "int \<Rightarrow> (WorkflowConfig \<Rightarrow> int) \<Rightarrow> WorkflowConfig option \<Rightarrow> int" where
  "positive_or d f c = (case c of None \<Rightarrow> d | Some c \<Rightarrow> if f c \<le> 0 then d else f c)"

definition nonempty_or :: "string \<Rightarrow> (WorkflowConfig \<Rightarrow> string) \<Rightarrow> WorkflowConfig option \<Rightarrow> string" where
  "nonempty_or d f c = (case c of None \<Rightarrow> d | Some c \<Rightarrow> if f c = [] then d else f c)"

definition positive_ms_or :: "int \<Rightarrow> (WorkflowConfig \<Rightarrow> int) \<Rightarrow> WorkflowConfig option \<Rightarrow> duration" where
  "positive_ms_or d f c = (case c of
     None \<Rightarrow> duration_of d millisecond_ns
   | Some c \<Rightarrow> if f c \<le> 0 then duration_of d millisecond_ns else duration_of (f c) millisecond_ns)"

definition field_or :: "'a \<Rightarrow> (WorkflowConfig \<Rightarrow> 'a) \<Rightarrow> WorkflowConfig option \<Rightarrow> 'a" where
  "field_or d f c = (case c of None \<Rightarrow> d | Some c \<Rightarrow> f c)"

definition MaxConcurrency :: "WorkflowConfig option \<Rightarrow> int" where
  "MaxConcurrency = positive_or defaultMaxConcurrency (\<lambda>c. cf_MaxConcurrencyRaw c)"

definition PollIntervalMs :: "WorkflowConfig option \<Rightarrow> int" where
  "PollIntervalMs c = (case c of
     None \<Rightarrow> defaultPollIntervalMs
   | Some c \<Rightarrow>
       if cf_PollIntervalMsRaw c > 0 then cf_PollIntervalMsRaw c
       else if cp_IntervalMs (cf_Polling c) > 0 then cp_IntervalMs (cf_Polling c)
       else defaultPollIntervalMs)"

definition TrackerType :: "WorkflowConfig option \<Rightarrow> string" where
  "TrackerType = nonempty_or defaultTrackerType (\<lambda>c. ct_Type (cf_Tracker c))"

definition TrackerTeamID :: "WorkflowConfig option \<Rightarrow> string" where
  "TrackerTeamID = field_or [] (\<lambda>c. ct_TeamID (cf_Tracker c))"

definition TrackerAssigneeID :: "WorkflowConfig option \<Rightarrow> string" where
  "TrackerAssigneeID = field_or [] (\<lambda>c. ct_AssigneeID (cf_Tracker c))"

definition TrackerProjectURL :: "WorkflowConfig option \<Rightarrow> string" where
  "TrackerProjectURL c = (case c of
     None \<Rightarrow> []
   | Some c \<Rightarrow> if ct_ProjectURL (cf_Tracker c) \<noteq> [] then ct_ProjectURL (cf_Tracker c) else cf_ProjectURLRaw c)"

definition LocalBoardDir :: "WorkflowConfig option \<Rightarrow> string" where
  "LocalBoardDir = nonempty_or defaultLocalBoardDir (\<lambda>c. ct_BoardDir (cf_Tracker c))"

definition LocalIssuePrefix :: "WorkflowConfig option \<Rightarrow> string" where
  "LocalIssuePrefix = nonempty_or defaultLocalIssuePrefix (\<lambda>c. ct_IssuePrefix (cf_Tracker c))"

definition PollingIntervalMs :: "WorkflowConfig option \<Rightarrow> int" where
  "PollingIntervalMs = positive_or defaultPollIntervalMs (\<lambda>c. cp_IntervalMs (cf_Polling c))"

definition WorkspaceBaseDir :: "WorkflowConfig option \<Rightarrow> string" where
  "WorkspaceBaseDir = nonempty_or defaultWorkspaceBaseDir (\<lambda>c. ck_BaseDir (cf_Workspace c))"

definition HookBeforeRun :: "WorkflowConfig option \<Rightarrow> string" where
  "HookBeforeRun = field_or [] (\<lambda>c. ch_BeforeRun (cf_Hooks c))"

definition HookAfterRun :: "WorkflowConfig option \<Rightarrow> string" where
  "HookAfterRun = field_or [] (\<lambda>c. ch_AfterRun (cf_Hooks c))"

definition HookBeforeRemove :: "WorkflowConfig option \<Rightarrow> string" where
  "HookBeforeRemove = field_or [] (\<lambda>c. ch_BeforeRemove (cf_Hooks c))"

definition CodexBinaryPath :: "WorkflowConfig option \<Rightarrow> string" where
  "CodexBinaryPath = nonempty_or defaultCodexBinaryPath (\<lambda>c. cx_BinaryPath (cf_Codex c))"

definition CodexModel :: "WorkflowConfig option \<Rightarrow> string" where
  "CodexModel c = (case c of
     None \<Rightarrow> []
   | Some c \<Rightarrow> if cx_Model (cf_Codex c) \<noteq> [] then cx_Model (cf_Codex c) else cf_ModelRaw c)"

definition CodexApprovalPolicy :: "WorkflowConfig option \<Rightarrow> string" where
  "CodexApprovalPolicy = nonempty_or defaultApprovalPolicy (\<lambda>c. cx_ApprovalPolicy (cf_Codex c))"

definition CodexSandbox :: "WorkflowConfig option \<Rightarrow> string" where
  "CodexSandbox = nonempty_or defaultSandbox (\<lambda>c. cx_Sandbox (cf_Codex c))"

definition AgentType :: "WorkflowConfig option \<Rightarrow> string" where
  "AgentType = nonempty_or defaultAgentType (\<lambda>c. ca_Type (cf_Agent c))"

definition OpenCodeBinaryPath :: "WorkflowConfig option \<Rightarrow> string" where
  "OpenCodeBinaryPath = nonempty_or defaultOpenCodeBinaryPath (\<lambda>c. co_BinaryPath (cf_OpenCode c))"

definition OpenCodePort :: "WorkflowConfig option \<Rightarrow> int" where
  "OpenCodePort = positive_or 0 (\<lambda>c. co_Port (cf_OpenCode c))"

definition OpenCodePassword :: "WorkflowConfig option \<Rightarrow> string" where
  "OpenCodePassword = field_or [] (\<lambda>c. co_Password (cf_OpenCode c))"

definition OpenCodeUsername :: "WorkflowConfig option \<Rightarrow> string" where
  "OpenCodeUsername = field_or [] (\<lambda>c. co_Username (cf_OpenCode c))"

definition OMXBinaryPath :: "WorkflowConfig option \<Rightarrow> string" where
  "OMXBinaryPath = nonempty_or defaultOMXBinaryPath (\<lambda>c. cm_BinaryPath (cf_OMX c))"

definition OMXTeamSpec :: "WorkflowConfig option \<Rightarrow> string" where
  "OMXTeamSpec = nonempty_or defaultOMXTeamSpec (\<lambda>c. cm_TeamSpec (cf_OMX c))"

definition OMXPollIntervalMs :: "WorkflowConfig option \<Rightarrow> int" where
  "OMXPollIntervalMs = positive_or defaultOMXPollIntervalMs (\<lambda>c. cm_PollIntervalMs (cf_OMX c))"

definition OMXStartupTimeoutMs :: "WorkflowConfig option \<Rightarrow> int" where
  "OMXStartupTimeoutMs = positive_or defaultOMXStartupTimeoutMs (\<lambda>c. cm_StartupTimeoutMs (cf_OMX c))"

definition OMXRalph :: "WorkflowConfig option \<Rightarrow> bool" where
  "OMXRalph = field_or False (\<lambda>c. cm_Ralph (cf_OMX c))"

definition OMCBinaryPath :: "WorkflowConfig option \<Rightarrow> string" where
  "OMCBinaryPath = nonempty_or defaultOMCBinaryPath (\<lambda>c. cc_BinaryPath (cf_OMC c))"

definition OMCTeamSpec :: "WorkflowConfig option \<Rightarrow> string" where
  "OMCTeamSpec = nonempty_or defaultOMCTeamSpec (\<lambda>c. cc_TeamSpec (cf_OMC c))"

definition OMCPollIntervalMs :: "WorkflowConfig option \<Rightarrow> int" where
  "OMCPollIntervalMs = positive_or defaultOMCPollIntervalMs (\<lambda>c. cc_PollIntervalMs (cf_OMC c))"

definition OMCStartupTimeoutMs :: "WorkflowConfig option \<Rightarrow> int" where
  "OMCStartupTimeoutMs = positive_or defaultOMCStartupTimeoutMs (\<lambda>c. cc_StartupTimeoutMs (cf_OMC c))"

definition LinearIssueDetailsEnabled :: "WorkflowConfig option \<Rightarrow> bool" where
  "LinearIssueDetailsEnabled cfg = (case cfg of
     None \<Rightarrow> False
   | Some c \<Rightarrow>
       if \<not> equal_fold (trim_space (TrackerType cfg)) ''linear'' then False
       else (case ld_Enabled (ls_IssueDetails (cf_Linear c)) of None \<Rightarrow> True | Some b \<Rightarrow> b))"

definition LinearSyncCommentsEnabled :: "WorkflowConfig option \<Rightarrow> bool" where
  "LinearSyncCommentsEnabled cfg = (case cfg of
     None \<Rightarrow> False
   | Some c \<Rightarrow>
       if \<not> equal_fold (trim_space (TrackerType cfg)) ''linear'' then False
       else lc_Enabled (ls_SyncComments (cf_Linear c)))"

definition sync_mode :: "WorkflowConfig \<Rightarrow> string" where
  "sync_mode c = lc_Mode (ls_SyncComments (cf_Linear c))"

definition LinearSyncCommentsMode :: "WorkflowConfig option \<Rightarrow> string" where
  "LinearSyncCommentsMode cfg = (case cfg of
     None \<Rightarrow> LinearSyncCommentsModeReplyThread
   | Some c \<Rightarrow>
      (let mode = trim_space (to_lower (sync_mode c)) in
       if mode = [] \<or> mode = LinearSyncCommentsModeReplyThread then LinearSyncCommentsModeReplyThread
       else if mode = LinearSyncCommentsModeTopLevel then LinearSyncCommentsModeTopLevel
       else mode))"

definition LinearSyncCommentsEffectiveMode :: "WorkflowConfig option \<Rightarrow> bool \<Rightarrow> string result" where
  "LinearSyncCommentsEffectiveMode cfg replyThreadSupported = (case cfg of
     None \<Rightarrow> Inr LinearSyncCommentsModeReplyThread
   | Some c \<Rightarrow>
      (let raw = trim_space (to_lower (sync_mode c)) in
       if raw = []
       then Inr (if replyThreadSupported then LinearSyncCommentsModeReplyThread else LinearSyncCommentsModeTopLevel)
       else if raw = LinearSyncCommentsModeReplyThread
       then (if \<not> replyThreadSupported
             then Inl (WrapPost ErrLinearSyncCommentsModeUnsupported ''reply_thread requires Linear threaded reply support'')
             else Inr LinearSyncCommentsModeReplyThread)
       else if raw = LinearSyncCommentsModeTopLevel then Inr LinearSyncCommentsModeTopLevel
       else Inl (WrapPost ErrLinearSyncCommentsModeInvalid (sync_mode c @ '' (valid values: reply_thread, top_level)''))))"

definition ValidateLinearSyncCommentsMode :: "WorkflowConfig option \<Rightarrow> go_error option" where
  "ValidateLinearSyncCommentsMode cfg =
     (case LinearSyncCommentsEffectiveMode cfg True of Inl e \<Rightarrow> Some e | Inr _ \<Rightarrow> None)"

definition LinearSyncCommentsModeExplicit :: "WorkflowConfig option \<Rightarrow> bool" where
  "LinearSyncCommentsModeExplicit cfg =
     (case cfg of None \<Rightarrow> False | Some c \<Rightarrow> trim_space (sync_mode c) \<noteq> [])"

definition LinearSyncCommentsQueueSize :: "WorkflowConfig option \<Rightarrow> int" where
  "LinearSyncCommentsQueueSize = positive_or 100 (\<lambda>c. lc_QueueSize (ls_SyncComments (cf_Linear c)))"

definition LinearSyncCommentsPollIntervalMs :: "WorkflowConfig option \<Rightarrow> int" where
  "LinearSyncCommentsPollIntervalMs = positive_or 5000 (\<lambda>c. lc_PollIntervalMs (ls_SyncComments (cf_Linear c)))"

definition OhMyOpenCodePluginVersion :: "WorkflowConfig option \<Rightarrow> string" where
  "OhMyOpenCodePluginVersion = nonempty_or defaultOhMyOpenCodePluginVersion (\<lambda>c. oh_PluginVersion (cf_OhMyOpenCode c))"

definition OhMyOpenCodePlugins :: "WorkflowConfig option \<Rightarrow> string list" where
  "OhMyOpenCodePlugins c = (case c of None \<Rightarrow> [] | Some c \<Rightarrow> elems (oh_Plugins (cf_OhMyOpenCode c)))"

definition OhMyOpenCodeAgents :: "WorkflowConfig option \<Rightarrow> OhMyOpenCodeAgent fdir" where
  "OhMyOpenCodeAgents c = (case c of None \<Rightarrow> [] | Some c \<Rightarrow> elems (oh_Agents (cf_OhMyOpenCode c)))"

definition OhMyOpenCodeCategories :: "WorkflowConfig option \<Rightarrow> OhMyOpenCodeCategory fdir" where
  "OhMyOpenCodeCategories c = (case c of None \<Rightarrow> [] | Some c \<Rightarrow> elems (oh_Categories (cf_OhMyOpenCode c)))"

definition OhMyOpenCodeProviderName :: "WorkflowConfig option \<Rightarrow> string" where
  "OhMyOpenCodeProviderName = nonempty_or [] (\<lambda>c. op_Name (oh_Provider (cf_OhMyOpenCode c)))"

definition OhMyOpenCodeProviderBaseURL :: "WorkflowConfig option \<Rightarrow> string" where
  "OhMyOpenCodeProviderBaseURL = field_or [] (\<lambda>c. op_BaseURL (oh_Provider (cf_OhMyOpenCode c)))"

definition OhMyOpenCodeProviderAPIKey :: "WorkflowConfig option \<Rightarrow> string" where
  "OhMyOpenCodeProviderAPIKey = field_or [] (\<lambda>c. op_APIKey (oh_Provider (cf_OhMyOpenCode c)))"

definition TeamMaxWorkers :: "WorkflowConfig option \<Rightarrow> int" where
  "TeamMaxWorkers = positive_or defaultTeamMaxWorkers (\<lambda>c. cs_MaxWorkers (cf_Team c))"

definition TeamMaxFixLoops :: "WorkflowConfig option \<Rightarrow> int" where
  "TeamMaxFixLoops = positive_or defaultTeamMaxFixLoops (\<lambda>c. cs_MaxFixLoops (cf_Team c))"

definition TeamClaimLeaseSeconds :: "WorkflowConfig option \<Rightarrow> int" where
  "TeamClaimLeaseSeconds = positive_or defaultTeamClaimLeaseSeconds (\<lambda>c. cs_ClaimLeaseSeconds (cf_Team c))"

definition TeamStateDir :: "WorkflowConfig option \<Rightarrow> string" where
  "TeamStateDir = nonempty_or defaultTeamStateDir (\<lambda>c. cs_StateDir (cf_Team c))"

definition WorkflowTimelineDir :: "WorkflowConfig option \<Rightarrow> string" where
  "WorkflowTimelineDir c = (case c of
     None \<Rightarrow> defaultWorkflowTimelineDir
   | Some c \<Rightarrow> if trim_space (cl_Dir (cf_Timeline c)) = [] then defaultWorkflowTimelineDir else cl_Dir (cf_Timeline c))"

definition TeamExecutionMode :: "WorkflowConfig option \<Rightarrow> string" where
  "TeamExecutionMode cfg = (case cfg of
     None \<Rightarrow> defaultTeamExecutionMode
   | Some c \<Rightarrow>
      (let mode = trim_space (to_lower (cs_ExecutionMode (cf_Team c))) in
       if mode = [] \<or> mode = TeamExecutionModeAuto
       then (if TrackerType cfg = ''internal'' \<or> TrackerType cfg = ''local''
             then TeamExecutionModeTeam else TeamExecutionModeSingle)
       else if mode = ''agent'' \<or> mode = ''orchestrator'' \<or> mode = TeamExecutionModeSingle
       then TeamExecutionModeSingle
       else if mode = TeamExecutionModeTeam then TeamExecutionModeTeam
       else mode))"

definition WorkerMode :: "WorkflowConfig option \<Rightarrow> string" where
  "WorkerMode c = (case c of
     None \<Rightarrow> defaultTeamWorkerMode
   | Some c \<Rightarrow>
      (let mode = trim_space (to_lower (cs_WorkerMode (cf_Team c))) in
       if mode = [] then defaultTeamWorkerMode
       else if mode = ''goroutine'' then ''goroutine''
       else defaultTeamWorkerMode))"

definition ValidateWorkerMode :: "WorkflowConfig option \<Rightarrow> go_error option" where
  "ValidateWorkerMode c = (case c of
     None \<Rightarrow> None
   | Some c \<Rightarrow>
      (let mode = trim_space (to_lower (cs_WorkerMode (cf_Team c))) in
       if mode = [] then None
       else if mode = ''goroutine'' \<or> mode = ''tmux'' then None
       else Some (ErrMsg (''unknown worker_mode: '' @ cs_WorkerMode (cf_Team c) @
         '' (valid values: goroutine, tmux)''))))"

definition GitHubOwner :: "WorkflowConfig option \<Rightarrow> string" where
  "GitHubOwner = field_or [] (\<lambda>c. ct_Owner (cf_Tracker c))"

definition GitHubRepo :: "WorkflowConfig option \<Rightarrow> string" where
  "GitHubRepo = field_or [] (\<lambda>c. ct_Repo (cf_Tracker c))"

definition GitHubToken :: "WorkflowConfig option \<Rightarrow> string" where
  "GitHubToken = field_or [] (\<lambda>c. ct_Token (cf_Tracker c))"

definition GitHubAssignee :: "WorkflowConfig option \<Rightarrow> string" where
  "GitHubAssignee = field_or [] (\<lambda>c. ct_Assignee (cf_Tracker c))"

definition GitHubLabels :: "WorkflowConfig option \<Rightarrow> string list" where
  "GitHubLabels c = (case c of None \<Rightarrow> [] | Some c \<Rightarrow> elems (ct_Labels (cf_Tracker c)))"

definition GitHubEndpoint :: "WorkflowConfig option \<Rightarrow> string" where
  "GitHubEndpoint = nonempty_or defaultGitHubEndpoint (\<lambda>c. ct_Endpoint (cf_Tracker c))"

definition MaxRetryBackoffMs :: "WorkflowConfig option \<Rightarrow> int" where
  "MaxRetryBackoffMs = positive_or defaultMaxRetryBackoffMs (\<lambda>c. cf_MaxRetryBackoffMsRaw c)"

definition AgentTimeoutMs :: "WorkflowConfig option \<Rightarrow> int" where
  "AgentTimeoutMs = positive_or defaultAgentTimeoutMs (\<lambda>c. cf_AgentTimeoutMsRaw c)"

definition StallTimeoutMs :: "WorkflowConfig option \<Rightarrow> int" where
  "StallTimeoutMs = positive_or defaultStallTimeoutMs (\<lambda>c. cf_StallTimeoutMsRaw c)"

definition WebSSEKeepaliveInterval :: "WorkflowConfig option \<Rightarrow> duration" where
  "WebSSEKeepaliveInterval = positive_ms_or defaultWebSSEKeepaliveIntervalMs (\<lambda>c. cw_SSEKeepaliveIntervalMsRaw (cf_Web c))"

definition CodexHandshakeTimeout :: "WorkflowConfig option \<Rightarrow> duration" where
  "CodexHandshakeTimeout = positive_ms_or defaultCodexHandshakeTimeoutMs (\<lambda>c. cx_HandshakeTimeoutMsRaw (cf_Codex c))"

definition CodexOverloadRetryCap :: "WorkflowConfig option \<Rightarrow> duration" where
  "CodexOverloadRetryCap = positive_ms_or defaultCodexOverloadRetryCapMs (\<lambda>c. cx_OverloadRetryCapMsRaw (cf_Codex c))"

definition CodexOverloadStartDelay :: "WorkflowConfig option \<Rightarrow> duration" where
  "CodexOverloadStartDelay = positive_ms_or defaultCodexOverloadStartDelayMs (\<lambda>c. cx_OverloadStartDelayMsRaw (cf_Codex c))"

definition TeamRestartGracePeriod :: "WorkflowConfig option \<Rightarrow> duration" where
  "TeamRestartGracePeriod = positive_ms_or defaultTeamRestartGracePeriodMs (\<lambda>c. cs_RestartGracePeriodMsRaw (cf_Team c))"

definition TeamGovernanceRetryDelay :: "WorkflowConfig option \<Rightarrow> duration" where
  "TeamGovernanceRetryDelay = positive_ms_or defaultTeamGovernanceRetryDelayMs (\<lambda>c. cs_GovernanceRetryDelayMsRaw (cf_Team c))"

definition TeamHeartbeatInterval :: "WorkflowConfig option \<Rightarrow> duration" where
  "TeamHeartbeatInterval = positive_ms_or defaultTeamHeartbeatIntervalMs (\<lambda>c. cs_HeartbeatIntervalMsRaw (cf_Team c))"

definition TrackerHTTPTimeout :: "WorkflowConfig option \<Rightarrow> duration" where
  "TrackerHTTPTimeout = positive_ms_or defaultTrackerHTTPTimeoutMs (\<lambda>c. ct_HTTPTimeoutMsRaw (cf_Tracker c))"

definition TrackerMainRef :: "WorkflowConfig option \<Rightarrow> string" where
  "TrackerMainRef c = (case c of
     None \<Rightarrow> ''main''
   | Some c \<Rightarrow> if trim_space (ct_MainRefRaw (cf_Tracker c)) = [] then ''main'' else trim_space (ct_MainRefRaw (cf_Tracker c)))"

definition TrackerAutoCloseAlreadyImplemented :: "WorkflowConfig option \<Rightarrow> bool" where
  "TrackerAutoCloseAlreadyImplemented = field_or False (\<lambda>c. ct_AutoCloseAlreadyImplementedRaw (cf_Tracker c))"

definition Model :: "WorkflowConfig option \<Rightarrow> string result" where
  "Model c = (case c of
     None \<Rightarrow> Inl ErrModelRequired
   | Some c \<Rightarrow>
       if cf_ModelRaw c \<noteq> [] then Inr (cf_ModelRaw c)
       else if cx_Model (cf_Codex c) \<noteq> [] then Inr (cx_Model (cf_Codex c))
       else Inl ErrModelRequired)"

definition ProjectURL :: "WorkflowConfig option \<Rightarrow> string result" where
  "ProjectURL c = (case c of
     None \<Rightarrow> Inl ErrProjectURLRequired
   | Some c \<Rightarrow>
       if cf_ProjectURLRaw c \<noteq> [] then Inr (cf_ProjectURLRaw c)
       else if ct_ProjectURL (cf_Tracker c) \<noteq> [] then Inr (ct_ProjectURL (cf_Tracker c))
       else Inl ErrProjectURLRequired)"

end
