(* ===== verification/Config_Parser.thy ===== *)
theory Config_Parser
  imports Config
begin

text \<open>
  Models \<open>internal/config/parser.go\<close>: a workflow file is a prompt under an optional front matter, which is
  YAML. The YAML library is a parameter (\<open>yaml_lib\<close>), and so are the file system (\<open>read\<close>, the outcome of
  \<open>os.ReadFile\<close>) and the environment (\<open>getenv\<close>, empty for an unset variable).
\<close>

section \<open>Zero values\<close>

definition zero_TrackerConfig :: TrackerConfig where
  "zero_TrackerConfig = \<lparr>
     ct_Type = [], ct_ProjectURL = [], ct_TeamID = [], ct_AssigneeID = [], ct_BoardDir = [],
     ct_IssuePrefix = [], ct_Owner = [], ct_Repo = [], ct_Labels = None, ct_Assignee = [], ct_Token = [],
     ct_Endpoint = [], ct_HTTPTimeoutMsRaw = 0, ct_MainRefRaw = [],
     ct_AutoCloseAlreadyImplementedRaw = False\<rparr>"

definition zero_PollingConfig :: PollingConfig where
  "zero_PollingConfig = \<lparr>
     cp_IntervalMs = 0, cp_BackoffStrategy = []\<rparr>"

definition zero_WorkspaceConfig :: WorkspaceConfig where
  "zero_WorkspaceConfig = \<lparr>
     ck_BaseDir = [], ck_BranchPrefix = []\<rparr>"

definition zero_HooksConfig :: HooksConfig where
  "zero_HooksConfig = \<lparr>
     ch_BeforeRun = [], ch_AfterRun = [], ch_BeforeRemove = []\<rparr>"

definition zero_CodexConfig :: CodexConfig where
  "zero_CodexConfig = \<lparr>
     cx_BinaryPath = [], cx_Model = [], cx_ApprovalPolicy = [], cx_Sandbox = [],
     cx_HandshakeTimeoutMsRaw = 0, cx_OverloadRetryCapMsRaw = 0, cx_OverloadStartDelayMsRaw = 0\<rparr>"

definition zero_AgentConfig :: AgentConfig where
  "zero_AgentConfig = \<lparr>
     ca_Type = []\<rparr>"

definition zero_OpenCodeConfig :: OpenCodeConfig where
  "zero_OpenCodeConfig = \<lparr>
     co_BinaryPath = [], co_Port = 0, co_Password = [], co_Username = []\<rparr>"

definition zero_OMXConfig :: OMXConfig where
  "zero_OMXConfig = \<lparr>
     cm_BinaryPath = [], cm_TeamSpec = [], cm_PollIntervalMs = 0, cm_StartupTimeoutMs = 0,
     cm_Ralph = False\<rparr>"

definition zero_OMCConfig :: OMCConfig where
  "zero_OMCConfig = \<lparr>
     cc_BinaryPath = [], cc_TeamSpec = [], cc_PollIntervalMs = 0, cc_StartupTimeoutMs = 0\<rparr>"

definition zero_LinearIssueDetailsConfig :: LinearIssueDetailsConfig where
  "zero_LinearIssueDetailsConfig = \<lparr>
     ld_Enabled = None\<rparr>"

definition zero_LinearSyncCommentsConfig :: LinearSyncCommentsConfig where
  "zero_LinearSyncCommentsConfig = \<lparr>
     lc_Enabled = False, lc_Mode = [], lc_QueueSize = 0, lc_PollIntervalMs = 0\<rparr>"

definition zero_LinearConfigSection :: LinearConfigSection where
  "zero_LinearConfigSection = \<lparr>
     ls_IssueDetails = zero_LinearIssueDetailsConfig, ls_SyncComments = zero_LinearSyncCommentsConfig\<rparr>"

definition zero_OhMyOpenCodeProvider :: OhMyOpenCodeProvider where
  "zero_OhMyOpenCodeProvider = \<lparr>
     op_Name = [], op_BaseURL = [], op_APIKey = []\<rparr>"

definition zero_OhMyOpenCodeConfig :: OhMyOpenCodeConfig where
  "zero_OhMyOpenCodeConfig = \<lparr>
     oh_PluginVersion = [], oh_Plugins = None, oh_Agents = None, oh_Categories = None,
     oh_Provider = zero_OhMyOpenCodeProvider\<rparr>"

definition zero_TeamSectionConfig :: TeamSectionConfig where
  "zero_TeamSectionConfig = \<lparr>
     cs_MaxWorkers = 0, cs_MaxFixLoops = 0, cs_ClaimLeaseSeconds = 0, cs_StateDir = [],
     cs_ExecutionMode = [], cs_WorkerMode = [], cs_RestartGracePeriodMsRaw = 0,
     cs_GovernanceRetryDelayMsRaw = 0, cs_HeartbeatIntervalMsRaw = 0\<rparr>"

definition zero_TimelineConfig :: TimelineConfig where
  "zero_TimelineConfig = \<lparr>
     cl_Dir = []\<rparr>"

definition zero_WebConfig :: WebConfig where
  "zero_WebConfig = \<lparr>
     cw_SSEKeepaliveIntervalMsRaw = 0\<rparr>"

definition zero_WorkflowConfig :: WorkflowConfig where
  "zero_WorkflowConfig = \<lparr>
     cf_MaxConcurrencyRaw = 0, cf_PollIntervalMsRaw = 0, cf_MaxRetryBackoffMsRaw = 0, cf_ModelRaw = [],
     cf_ProjectURLRaw = [], cf_AgentTimeoutMsRaw = 0, cf_StallTimeoutMsRaw = 0,
     cf_Tracker = zero_TrackerConfig, cf_Polling = zero_PollingConfig,
     cf_Workspace = zero_WorkspaceConfig, cf_Hooks = zero_HooksConfig, cf_Codex = zero_CodexConfig,
     cf_Agent = zero_AgentConfig, cf_OpenCode = zero_OpenCodeConfig, cf_OMX = zero_OMXConfig,
     cf_OMC = zero_OMCConfig, cf_Linear = zero_LinearConfigSection,
     cf_OhMyOpenCode = zero_OhMyOpenCodeConfig, cf_Team = zero_TeamSectionConfig,
     cf_Timeline = zero_TimelineConfig, cf_Web = zero_WebConfig, cf_PromptTemplate = []\<rparr>"

section \<open>Environment references\<close>

text \<open>
  \<open>envVarPattern\<close>, and one field of \<open>resolveEnvReferencesValue\<close>. That function walks the structure by
  reflection: it visits the strings of a struct and of the structs in it, except \<open>PromptTemplate\<close>, and no
  slice or map. Its only other fields that it enters are pointers to booleans. The walk of each type is written out.
\<close>

definition is_alpha :: "char \<Rightarrow> bool" where
  "is_alpha c \<longleftrightarrow> (let n = (of_char c :: nat) in (65 \<le> n \<and> n \<le> 90) \<or> (97 \<le> n \<and> n \<le> 122) \<or> n = 95)"

definition is_alnum :: "char \<Rightarrow> bool" where
  "is_alnum c \<longleftrightarrow> is_alpha c \<or> (let n = (of_char c :: nat) in 48 \<le> n \<and> n \<le> 57)"

fun envVarPattern :: "string \<Rightarrow> bool" where
  "envVarPattern [] = False"
| "envVarPattern (c # s) = (is_alpha c \<and> list_all is_alnum s)"

definition resolveEnvToken :: "(string \<Rightarrow> string) \<Rightarrow> string \<Rightarrow> string option" where
  "resolveEnvToken getenv value =
     (if \<not> has_prefix value ''$'' then None
      else (let name = drop 1 value in
        if \<not> envVarPattern name then None else Some (getenv name)))"

definition resolve_string :: "(string \<Rightarrow> string) \<Rightarrow> string \<Rightarrow> string" where
  "resolve_string getenv s = (case resolveEnvToken getenv s of None \<Rightarrow> s | Some r \<Rightarrow> r)"

definition resolve_TrackerConfig :: "(string \<Rightarrow> string) \<Rightarrow> TrackerConfig \<Rightarrow> TrackerConfig" where
  "resolve_TrackerConfig getenv c = c\<lparr>
     ct_Type := resolve_string getenv (ct_Type c),
     ct_ProjectURL := resolve_string getenv (ct_ProjectURL c),
     ct_TeamID := resolve_string getenv (ct_TeamID c),
     ct_AssigneeID := resolve_string getenv (ct_AssigneeID c),
     ct_BoardDir := resolve_string getenv (ct_BoardDir c),
     ct_IssuePrefix := resolve_string getenv (ct_IssuePrefix c),
     ct_Owner := resolve_string getenv (ct_Owner c),
     ct_Repo := resolve_string getenv (ct_Repo c),
     ct_Assignee := resolve_string getenv (ct_Assignee c),
     ct_Token := resolve_string getenv (ct_Token c),
     ct_Endpoint := resolve_string getenv (ct_Endpoint c),
     ct_MainRefRaw := resolve_string getenv (ct_MainRefRaw c)\<rparr>"

definition resolve_PollingConfig :: "(string \<Rightarrow> string) \<Rightarrow> PollingConfig \<Rightarrow> PollingConfig" where
  "resolve_PollingConfig getenv c = c\<lparr>
     cp_BackoffStrategy := resolve_string getenv (cp_BackoffStrategy c)\<rparr>"

definition resolve_WorkspaceConfig :: "(string \<Rightarrow> string) \<Rightarrow> WorkspaceConfig \<Rightarrow> WorkspaceConfig" where
  "resolve_WorkspaceConfig getenv c = c\<lparr>
     ck_BaseDir := resolve_string getenv (ck_BaseDir c),
     ck_BranchPrefix := resolve_string getenv (ck_BranchPrefix c)\<rparr>"

definition resolve_HooksConfig :: "(string \<Rightarrow> string) \<Rightarrow> HooksConfig \<Rightarrow> HooksConfig" where
  "resolve_HooksConfig getenv c = c\<lparr>
     ch_BeforeRun := resolve_string getenv (ch_BeforeRun c),
     ch_AfterRun := resolve_string getenv (ch_AfterRun c),
     ch_BeforeRemove := resolve_string getenv (ch_BeforeRemove c)\<rparr>"

definition resolve_CodexConfig :: "(string \<Rightarrow> string) \<Rightarrow> CodexConfig \<Rightarrow> CodexConfig" where
  "resolve_CodexConfig getenv c = c\<lparr>
     cx_BinaryPath := resolve_string getenv (cx_BinaryPath c),
     cx_Model := resolve_string getenv (cx_Model c),
     cx_ApprovalPolicy := resolve_string getenv (cx_ApprovalPolicy c),
     cx_Sandbox := resolve_string getenv (cx_Sandbox c)\<rparr>"

definition resolve_AgentConfig :: "(string \<Rightarrow> string) \<Rightarrow> AgentConfig \<Rightarrow> AgentConfig" where
  "resolve_AgentConfig getenv c = c\<lparr>
     ca_Type := resolve_string getenv (ca_Type c)\<rparr>"

definition resolve_OpenCodeConfig :: "(string \<Rightarrow> string) \<Rightarrow> OpenCodeConfig \<Rightarrow> OpenCodeConfig" where
  "resolve_OpenCodeConfig getenv c = c\<lparr>
     co_BinaryPath := resolve_string getenv (co_BinaryPath c),
     co_Password := resolve_string getenv (co_Password c),
     co_Username := resolve_string getenv (co_Username c)\<rparr>"

definition resolve_OMXConfig :: "(string \<Rightarrow> string) \<Rightarrow> OMXConfig \<Rightarrow> OMXConfig" where
  "resolve_OMXConfig getenv c = c\<lparr>
     cm_BinaryPath := resolve_string getenv (cm_BinaryPath c),
     cm_TeamSpec := resolve_string getenv (cm_TeamSpec c)\<rparr>"

definition resolve_OMCConfig :: "(string \<Rightarrow> string) \<Rightarrow> OMCConfig \<Rightarrow> OMCConfig" where
  "resolve_OMCConfig getenv c = c\<lparr>
     cc_BinaryPath := resolve_string getenv (cc_BinaryPath c),
     cc_TeamSpec := resolve_string getenv (cc_TeamSpec c)\<rparr>"

definition resolve_LinearSyncCommentsConfig :: "(string \<Rightarrow> string) \<Rightarrow> LinearSyncCommentsConfig \<Rightarrow> LinearSyncCommentsConfig" where
  "resolve_LinearSyncCommentsConfig getenv c = c\<lparr>
     lc_Mode := resolve_string getenv (lc_Mode c)\<rparr>"

definition resolve_LinearConfigSection :: "(string \<Rightarrow> string) \<Rightarrow> LinearConfigSection \<Rightarrow> LinearConfigSection" where
  "resolve_LinearConfigSection getenv c = c\<lparr>
     ls_SyncComments := resolve_LinearSyncCommentsConfig getenv (ls_SyncComments c)\<rparr>"

definition resolve_OhMyOpenCodeProvider :: "(string \<Rightarrow> string) \<Rightarrow> OhMyOpenCodeProvider \<Rightarrow> OhMyOpenCodeProvider" where
  "resolve_OhMyOpenCodeProvider getenv c = c\<lparr>
     op_Name := resolve_string getenv (op_Name c),
     op_BaseURL := resolve_string getenv (op_BaseURL c),
     op_APIKey := resolve_string getenv (op_APIKey c)\<rparr>"

definition resolve_OhMyOpenCodeConfig :: "(string \<Rightarrow> string) \<Rightarrow> OhMyOpenCodeConfig \<Rightarrow> OhMyOpenCodeConfig" where
  "resolve_OhMyOpenCodeConfig getenv c = c\<lparr>
     oh_PluginVersion := resolve_string getenv (oh_PluginVersion c),
     oh_Provider := resolve_OhMyOpenCodeProvider getenv (oh_Provider c)\<rparr>"

definition resolve_TeamSectionConfig :: "(string \<Rightarrow> string) \<Rightarrow> TeamSectionConfig \<Rightarrow> TeamSectionConfig" where
  "resolve_TeamSectionConfig getenv c = c\<lparr>
     cs_StateDir := resolve_string getenv (cs_StateDir c),
     cs_ExecutionMode := resolve_string getenv (cs_ExecutionMode c),
     cs_WorkerMode := resolve_string getenv (cs_WorkerMode c)\<rparr>"

definition resolve_TimelineConfig :: "(string \<Rightarrow> string) \<Rightarrow> TimelineConfig \<Rightarrow> TimelineConfig" where
  "resolve_TimelineConfig getenv c = c\<lparr>
     cl_Dir := resolve_string getenv (cl_Dir c)\<rparr>"

definition resolve_WorkflowConfig :: "(string \<Rightarrow> string) \<Rightarrow> WorkflowConfig \<Rightarrow> WorkflowConfig" where
  "resolve_WorkflowConfig getenv c = c\<lparr>
     cf_ModelRaw := resolve_string getenv (cf_ModelRaw c),
     cf_ProjectURLRaw := resolve_string getenv (cf_ProjectURLRaw c),
     cf_Tracker := resolve_TrackerConfig getenv (cf_Tracker c),
     cf_Polling := resolve_PollingConfig getenv (cf_Polling c),
     cf_Workspace := resolve_WorkspaceConfig getenv (cf_Workspace c),
     cf_Hooks := resolve_HooksConfig getenv (cf_Hooks c),
     cf_Codex := resolve_CodexConfig getenv (cf_Codex c),
     cf_Agent := resolve_AgentConfig getenv (cf_Agent c),
     cf_OpenCode := resolve_OpenCodeConfig getenv (cf_OpenCode c),
     cf_OMX := resolve_OMXConfig getenv (cf_OMX c),
     cf_OMC := resolve_OMCConfig getenv (cf_OMC c),
     cf_Linear := resolve_LinearConfigSection getenv (cf_Linear c),
     cf_OhMyOpenCode := resolve_OhMyOpenCodeConfig getenv (cf_OhMyOpenCode c),
     cf_Team := resolve_TeamSectionConfig getenv (cf_Team c),
     cf_Timeline := resolve_TimelineConfig getenv (cf_Timeline c)\<rparr>"

section \<open>Front matter\<close>

text \<open>\<open>strings.SplitAfter\<close> at line ends: every piece but the last keeps its line feed.\<close>

fun split_after :: "string \<Rightarrow> string list" where
  "split_after [] = [[]]"
| "split_after (c # s) =
     (if c = CHR 0x0A then [c] # split_after s
      else (case split_after s of [] \<Rightarrow> [[c]] | l # ls \<Rightarrow> (c # l) # ls))"

definition trim_line_end :: "string \<Rightarrow> string" where
  "trim_line_end l = rev (dropWhile (\<lambda>c. c = CHR 0x0D \<or> c = CHR 0x0A) (rev l))"

text \<open>The loop over the lines: what was collected, the rest after the closing line, and whether there was one.\<close>

fun front_matter_loop :: "string \<Rightarrow> string \<Rightarrow> nat \<Rightarrow> string list \<Rightarrow> string \<times> string \<times> bool" where
  "front_matter_loop remainder yaml offset [] = (yaml, [], False)"
| "front_matter_loop remainder yaml offset (line # lines) =
     (let offset' = offset + length line in
      if trim_line_end line = ''---'' then (yaml, drop offset' remainder, True)
      else front_matter_loop remainder (yaml @ line) offset' lines)"

definition splitFrontMatter :: "string \<Rightarrow> string \<times> string \<times> bool \<times> bool" where
  "splitFrontMatter content =
     (if \<not> has_prefix content ''---'' then ([], content, False, False)
      else if length content > 3 \<and> content ! 3 \<noteq> CHR 0x0A \<and> content ! 3 \<noteq> CHR 0x0D
      then ([], content, False, False)
      else
       (let startOffset = (if has_prefix content (''---'' @ [CHR 0x0D, CHR 0x0A]) then 5 else 4) in
        if length content \<le> startOffset then ([], [], True, True)
        else
         (let remainder = drop startOffset content;
              (yaml, prompt, terminated) = front_matter_loop remainder [] 0 (split_after remainder)
          in (yaml, prompt, True, terminated))))"

section \<open>Parsing\<close>

text \<open>
  What the code asks of the YAML library: whether a document is a map, and the configuration that a
  document makes of another one; an error comes as its text.
\<close>

record yaml_lib =
  ym_is_map :: "string \<Rightarrow> string + bool"
  ym_decode :: "string \<Rightarrow> WorkflowConfig \<Rightarrow> string + WorkflowConfig"

definition ErrUnterminatedFrontMatter :: go_error where
  "ErrUnterminatedFrontMatter = ErrMsg ''unterminated front matter''"

definition ErrInvalidYAML :: go_error where
  "ErrInvalidYAML = ErrMsg ''invalid workflow yaml''"

definition ErrFrontMatterNotMap :: go_error where
  "ErrFrontMatterNotMap = ErrMsg ''workflow front matter must be a map''"

definition validateLinearConfig :: "WorkflowConfig option \<Rightarrow> go_error option" where
  "validateLinearConfig cfg =
     (if cfg = None \<or> \<not> LinearSyncCommentsEnabled cfg then None else ValidateLinearSyncCommentsMode cfg)"

text \<open>The result is a pair, since an unterminated front matter gives a configuration and an error.\<close>

definition ParseWorkflow ::
  "yaml_lib \<Rightarrow> (string \<Rightarrow> string) \<Rightarrow> (string \<Rightarrow> string result) \<Rightarrow> string \<Rightarrow> WorkflowConfig option \<times> go_error option" where
  "ParseWorkflow ym getenv read path = (case read path of
     Inl err \<Rightarrow> (None, Some err)
   | Inr content \<Rightarrow>
      (let (frontMatter, promptTemplate, hasFrontMatter, terminated) = splitFrontMatter content;
           config = zero_WorkflowConfig\<lparr>cf_PromptTemplate := trim_space promptTemplate\<rparr>;
           unterminated = Some (WrapPost ErrUnterminatedFrontMatter path)
       in if \<not> hasFrontMatter then (Some config, None)
          else if trim_space frontMatter = []
          then (Some config, if \<not> terminated then unterminated else None)
          else (case ym_is_map ym frontMatter of
            Inl e \<Rightarrow> (None, Some (WrapPost ErrInvalidYAML e))
          | Inr False \<Rightarrow> (None, Some ErrFrontMatterNotMap)
          | Inr True \<Rightarrow>
             (case ym_decode ym frontMatter config of
                Inl e \<Rightarrow> (None, Some (WrapPost ErrInvalidYAML e))
              | Inr decoded \<Rightarrow>
                 (let resolved = resolve_WorkflowConfig getenv decoded in
                  case validateLinearConfig (Some resolved) of
                    Some e \<Rightarrow> (None, Some e)
                  | None \<Rightarrow> (Some resolved, if \<not> terminated then unterminated else None))))))"

end
