(* ===== verification/Config_Compose.thy ===== *)
theory Config_Compose
  imports Config_Parser
begin

text \<open>
  Models \<open>internal/config/composition.go\<close>: a document of defaults, named trackers, named agents and
  presets, from which \<open>Resolve\<close> makes the configuration of one preset in four layers. A pointer that is
  nil leaves what the layers below set.
\<close>

section \<open>The structures\<close>

record WorkflowDefaults =
  wd_MaxConcurrencyRaw :: int
  wd_PollIntervalMsRaw :: int
  wd_MaxRetryBackoffMsRaw :: int
  wd_ModelRaw :: string
  wd_AgentTimeoutMsRaw :: int
  wd_StallTimeoutMsRaw :: int
  wd_Polling :: PollingConfig
  wd_Workspace :: WorkspaceConfig
  wd_Hooks :: HooksConfig
  wd_Codex :: CodexConfig
  wd_Agent :: AgentConfig
  wd_OpenCode :: OpenCodeConfig
  wd_OMX :: OMXConfig
  wd_OMC :: OMCConfig
  wd_Linear :: LinearConfigSection
  wd_OhMyOpenCode :: OhMyOpenCodeConfig
  wd_Team :: TeamSectionConfig
  wd_Timeline :: TimelineConfig
  wd_Web :: WebConfig

record TrackerTemplate =
  tt_Type :: "string option"
  tt_ProjectURL :: "string option"
  tt_TeamID :: "string option"
  tt_AssigneeID :: "string option"
  tt_BoardDir :: "string option"
  tt_IssuePrefix :: "string option"
  tt_Owner :: "string option"
  tt_Repo :: "string option"
  tt_Labels :: "string slice option"
  tt_Assignee :: "string option"
  tt_Token :: "string option"
  tt_Endpoint :: "string option"
  tt_HTTPTimeoutMsRaw :: "int option"
  tt_MainRefRaw :: "string option"
  tt_AutoCloseAlreadyImplementedRaw :: "bool option"

record CodexTemplateConfig =
  tx_BinaryPath :: "string option"
  tx_Model :: "string option"
  tx_ApprovalPolicy :: "string option"
  tx_Sandbox :: "string option"
  tx_HandshakeTimeoutMsRaw :: "int option"
  tx_OverloadRetryCapMsRaw :: "int option"
  tx_OverloadStartDelayMsRaw :: "int option"

record OpenCodeTemplateConfig =
  to_BinaryPath :: "string option"
  to_Port :: "int option"
  to_Password :: "string option"
  to_Username :: "string option"

record OMXTemplateConfig =
  tm_BinaryPath :: "string option"
  tm_TeamSpec :: "string option"
  tm_PollIntervalMs :: "int option"
  tm_StartupTimeoutMs :: "int option"
  tm_Ralph :: "bool option"

record OMCTemplateConfig =
  tn_BinaryPath :: "string option"
  tn_TeamSpec :: "string option"
  tn_PollIntervalMs :: "int option"
  tn_StartupTimeoutMs :: "int option"

record OhMyOpenCodeProviderTemplate =
  tp_Name :: "string option"
  tp_BaseURL :: "string option"
  tp_APIKey :: "string option"

record OhMyOpenCodeTemplate =
  th_PluginVersion :: "string option"
  th_Plugins :: "string slice option"
  th_Agents :: "OhMyOpenCodeAgent gomap"
  th_Categories :: "OhMyOpenCodeCategory gomap"
  th_Provider :: "OhMyOpenCodeProviderTemplate option"

record AgentTemplate =
  at_Type :: "string option"
  at_Codex :: CodexTemplateConfig
  at_OpenCode :: OpenCodeTemplateConfig
  at_OMX :: OMXTemplateConfig
  at_OMC :: OMCTemplateConfig
  at_OhMyOpenCode :: OhMyOpenCodeTemplate

record WorkspaceTemplateConfig =
  tk_BaseDir :: "string option"
  tk_BranchPrefix :: "string option"

record HooksTemplateConfig =
  tf_BeforeRun :: "string option"
  tf_AfterRun :: "string option"
  tf_BeforeRemove :: "string option"

record LinearIssueDetailsTemplateConfig =
  td_Enabled :: "bool option"

record LinearSyncCommentsTemplateConfig =
  ts_Enabled :: "bool option"
  ts_Mode :: "string option"
  ts_QueueSize :: "int option"
  ts_PollIntervalMs :: "int option"

record LinearTemplateConfig =
  tl_IssueDetails :: "LinearIssueDetailsTemplateConfig option"
  tl_SyncComments :: "LinearSyncCommentsTemplateConfig option"

record TeamTemplateConfig =
  te_MaxWorkers :: "int option"
  te_MaxFixLoops :: "int option"
  te_ClaimLeaseSeconds :: "int option"
  te_StateDir :: "string option"
  te_ExecutionMode :: "string option"
  te_WorkerMode :: "string option"
  te_RestartGracePeriodMsRaw :: "int option"
  te_GovernanceRetryDelayMsRaw :: "int option"
  te_HeartbeatIntervalMsRaw :: "int option"

record WebTemplateConfig =
  tw_SSEKeepaliveIntervalMsRaw :: "int option"

record PresetConfig =
  pc_Tracker :: string
  pc_AgentRef :: string
  pc_Agent :: "AgentTemplate option"
  pc_PromptRef :: string
  pc_MaxConcurrencyRaw :: "int option"
  pc_PollIntervalMsRaw :: "int option"
  pc_MaxRetryBackoffMsRaw :: "int option"
  pc_AgentTimeoutMsRaw :: "int option"
  pc_StallTimeoutMsRaw :: "int option"
  pc_ModelRaw :: "string option"
  pc_Workspace :: "WorkspaceTemplateConfig option"
  pc_Hooks :: "HooksTemplateConfig option"
  pc_Linear :: "LinearTemplateConfig option"
  pc_Team :: "TeamTemplateConfig option"
  pc_Web :: "WebTemplateConfig option"
  pc_Codex :: "CodexTemplateConfig option"
  pc_OpenCode :: "OpenCodeTemplateConfig option"
  pc_OMX :: "OMXTemplateConfig option"
  pc_OMC :: "OMCTemplateConfig option"
  pc_OhMyOpenCode :: "OhMyOpenCodeTemplate option"

record RootConfig =
  rc_Defaults :: WorkflowDefaults
  rc_Trackers :: "TrackerTemplate gomap"
  rc_Agents :: "AgentTemplate gomap"
  rc_Presets :: "PresetConfig gomap"

section \<open>Merging\<close>

text \<open>
  \<open>if src.F != nil { dst.F = *src.F }\<close>; the same for a slice, whose copy is never nil, for a pointer, for a
  map, which is merged by key, and for a block of fields.
\<close>

definition overlay :: "'a \<Rightarrow> 'a option \<Rightarrow> 'a" where
  "overlay d p = (case p of None \<Rightarrow> d | Some v \<Rightarrow> v)"

definition overlay_slice :: "'a slice \<Rightarrow> 'a slice option \<Rightarrow> 'a slice" where
  "overlay_slice d p = (case p of None \<Rightarrow> d | Some xs \<Rightarrow> Some (elems xs))"

definition overlay_pointer :: "'a option \<Rightarrow> 'a option \<Rightarrow> 'a option" where
  "overlay_pointer d p = (case p of None \<Rightarrow> d | Some v \<Rightarrow> Some v)"

definition overlay_map :: "'a gomap \<Rightarrow> 'a gomap \<Rightarrow> 'a gomap" where
  "overlay_map d m = (if elems m = [] then d else Some (fput_all fst snd (elems m) (elems d)))"

definition merge_block :: "('a \<Rightarrow> 'b \<Rightarrow> 'a) \<Rightarrow> 'a \<Rightarrow> 'b option \<Rightarrow> 'a" where
  "merge_block merge dst p = (case p of None \<Rightarrow> dst | Some src \<Rightarrow> merge dst src)"

definition mergeTrackerTemplate :: "TrackerConfig \<Rightarrow> TrackerTemplate \<Rightarrow> TrackerConfig" where
  "mergeTrackerTemplate dst src = dst\<lparr>
     ct_Type := overlay (ct_Type dst) (tt_Type src),
     ct_ProjectURL := overlay (ct_ProjectURL dst) (tt_ProjectURL src),
     ct_TeamID := overlay (ct_TeamID dst) (tt_TeamID src),
     ct_AssigneeID := overlay (ct_AssigneeID dst) (tt_AssigneeID src),
     ct_BoardDir := overlay (ct_BoardDir dst) (tt_BoardDir src),
     ct_IssuePrefix := overlay (ct_IssuePrefix dst) (tt_IssuePrefix src),
     ct_Owner := overlay (ct_Owner dst) (tt_Owner src),
     ct_Repo := overlay (ct_Repo dst) (tt_Repo src),
     ct_Labels := overlay_slice (ct_Labels dst) (tt_Labels src),
     ct_Assignee := overlay (ct_Assignee dst) (tt_Assignee src),
     ct_Token := overlay (ct_Token dst) (tt_Token src),
     ct_Endpoint := overlay (ct_Endpoint dst) (tt_Endpoint src),
     ct_HTTPTimeoutMsRaw := overlay (ct_HTTPTimeoutMsRaw dst) (tt_HTTPTimeoutMsRaw src),
     ct_MainRefRaw := overlay (ct_MainRefRaw dst) (tt_MainRefRaw src),
     ct_AutoCloseAlreadyImplementedRaw := overlay (ct_AutoCloseAlreadyImplementedRaw dst) (tt_AutoCloseAlreadyImplementedRaw src)\<rparr>"

definition mergeCodexTemplateConfig :: "CodexConfig \<Rightarrow> CodexTemplateConfig \<Rightarrow> CodexConfig" where
  "mergeCodexTemplateConfig dst src = dst\<lparr>
     cx_BinaryPath := overlay (cx_BinaryPath dst) (tx_BinaryPath src),
     cx_Model := overlay (cx_Model dst) (tx_Model src),
     cx_ApprovalPolicy := overlay (cx_ApprovalPolicy dst) (tx_ApprovalPolicy src),
     cx_Sandbox := overlay (cx_Sandbox dst) (tx_Sandbox src),
     cx_HandshakeTimeoutMsRaw := overlay (cx_HandshakeTimeoutMsRaw dst) (tx_HandshakeTimeoutMsRaw src),
     cx_OverloadRetryCapMsRaw := overlay (cx_OverloadRetryCapMsRaw dst) (tx_OverloadRetryCapMsRaw src),
     cx_OverloadStartDelayMsRaw := overlay (cx_OverloadStartDelayMsRaw dst) (tx_OverloadStartDelayMsRaw src)\<rparr>"

definition mergeOpenCodeTemplateConfig :: "OpenCodeConfig \<Rightarrow> OpenCodeTemplateConfig \<Rightarrow> OpenCodeConfig" where
  "mergeOpenCodeTemplateConfig dst src = dst\<lparr>
     co_BinaryPath := overlay (co_BinaryPath dst) (to_BinaryPath src),
     co_Port := overlay (co_Port dst) (to_Port src),
     co_Password := overlay (co_Password dst) (to_Password src),
     co_Username := overlay (co_Username dst) (to_Username src)\<rparr>"

definition mergeOMXTemplateConfig :: "OMXConfig \<Rightarrow> OMXTemplateConfig \<Rightarrow> OMXConfig" where
  "mergeOMXTemplateConfig dst src = dst\<lparr>
     cm_BinaryPath := overlay (cm_BinaryPath dst) (tm_BinaryPath src),
     cm_TeamSpec := overlay (cm_TeamSpec dst) (tm_TeamSpec src),
     cm_PollIntervalMs := overlay (cm_PollIntervalMs dst) (tm_PollIntervalMs src),
     cm_StartupTimeoutMs := overlay (cm_StartupTimeoutMs dst) (tm_StartupTimeoutMs src),
     cm_Ralph := overlay (cm_Ralph dst) (tm_Ralph src)\<rparr>"

definition mergeOMCTemplateConfig :: "OMCConfig \<Rightarrow> OMCTemplateConfig \<Rightarrow> OMCConfig" where
  "mergeOMCTemplateConfig dst src = dst\<lparr>
     cc_BinaryPath := overlay (cc_BinaryPath dst) (tn_BinaryPath src),
     cc_TeamSpec := overlay (cc_TeamSpec dst) (tn_TeamSpec src),
     cc_PollIntervalMs := overlay (cc_PollIntervalMs dst) (tn_PollIntervalMs src),
     cc_StartupTimeoutMs := overlay (cc_StartupTimeoutMs dst) (tn_StartupTimeoutMs src)\<rparr>"

definition merge_provider :: "OhMyOpenCodeProvider \<Rightarrow> OhMyOpenCodeProviderTemplate \<Rightarrow> OhMyOpenCodeProvider" where
  "merge_provider dst src = dst\<lparr>
     op_Name := overlay (op_Name dst) (tp_Name src),
     op_BaseURL := overlay (op_BaseURL dst) (tp_BaseURL src),
     op_APIKey := overlay (op_APIKey dst) (tp_APIKey src)\<rparr>"

definition mergeOhMyOpenCodeTemplate :: "OhMyOpenCodeConfig \<Rightarrow> OhMyOpenCodeTemplate \<Rightarrow> OhMyOpenCodeConfig" where
  "mergeOhMyOpenCodeTemplate dst src = dst\<lparr>
     oh_PluginVersion := overlay (oh_PluginVersion dst) (th_PluginVersion src),
     oh_Plugins := overlay_slice (oh_Plugins dst) (th_Plugins src),
     oh_Agents := overlay_map (oh_Agents dst) (th_Agents src),
     oh_Categories := overlay_map (oh_Categories dst) (th_Categories src),
     oh_Provider := merge_block merge_provider (oh_Provider dst) (th_Provider src)\<rparr>"

definition merge_workspace :: "WorkspaceConfig \<Rightarrow> WorkspaceTemplateConfig \<Rightarrow> WorkspaceConfig" where
  "merge_workspace dst src = dst\<lparr>
     ck_BaseDir := overlay (ck_BaseDir dst) (tk_BaseDir src),
     ck_BranchPrefix := overlay (ck_BranchPrefix dst) (tk_BranchPrefix src)\<rparr>"

definition merge_hooks :: "HooksConfig \<Rightarrow> HooksTemplateConfig \<Rightarrow> HooksConfig" where
  "merge_hooks dst src = dst\<lparr>
     ch_BeforeRun := overlay (ch_BeforeRun dst) (tf_BeforeRun src),
     ch_AfterRun := overlay (ch_AfterRun dst) (tf_AfterRun src),
     ch_BeforeRemove := overlay (ch_BeforeRemove dst) (tf_BeforeRemove src)\<rparr>"

definition merge_issue_details :: "LinearIssueDetailsConfig \<Rightarrow> LinearIssueDetailsTemplateConfig \<Rightarrow> LinearIssueDetailsConfig" where
  "merge_issue_details dst src = dst\<lparr>
     ld_Enabled := overlay_pointer (ld_Enabled dst) (td_Enabled src)\<rparr>"

definition merge_sync_comments :: "LinearSyncCommentsConfig \<Rightarrow> LinearSyncCommentsTemplateConfig \<Rightarrow> LinearSyncCommentsConfig" where
  "merge_sync_comments dst src = dst\<lparr>
     lc_Enabled := overlay (lc_Enabled dst) (ts_Enabled src),
     lc_Mode := overlay (lc_Mode dst) (ts_Mode src),
     lc_QueueSize := overlay (lc_QueueSize dst) (ts_QueueSize src),
     lc_PollIntervalMs := overlay (lc_PollIntervalMs dst) (ts_PollIntervalMs src)\<rparr>"

definition merge_linear :: "LinearConfigSection \<Rightarrow> LinearTemplateConfig \<Rightarrow> LinearConfigSection" where
  "merge_linear dst src = dst\<lparr>
     ls_IssueDetails := merge_block merge_issue_details (ls_IssueDetails dst) (tl_IssueDetails src),
     ls_SyncComments := merge_block merge_sync_comments (ls_SyncComments dst) (tl_SyncComments src)\<rparr>"

definition merge_team :: "TeamSectionConfig \<Rightarrow> TeamTemplateConfig \<Rightarrow> TeamSectionConfig" where
  "merge_team dst src = dst\<lparr>
     cs_MaxWorkers := overlay (cs_MaxWorkers dst) (te_MaxWorkers src),
     cs_MaxFixLoops := overlay (cs_MaxFixLoops dst) (te_MaxFixLoops src),
     cs_ClaimLeaseSeconds := overlay (cs_ClaimLeaseSeconds dst) (te_ClaimLeaseSeconds src),
     cs_StateDir := overlay (cs_StateDir dst) (te_StateDir src),
     cs_ExecutionMode := overlay (cs_ExecutionMode dst) (te_ExecutionMode src),
     cs_WorkerMode := overlay (cs_WorkerMode dst) (te_WorkerMode src),
     cs_RestartGracePeriodMsRaw := overlay (cs_RestartGracePeriodMsRaw dst) (te_RestartGracePeriodMsRaw src),
     cs_GovernanceRetryDelayMsRaw := overlay (cs_GovernanceRetryDelayMsRaw dst) (te_GovernanceRetryDelayMsRaw src),
     cs_HeartbeatIntervalMsRaw := overlay (cs_HeartbeatIntervalMsRaw dst) (te_HeartbeatIntervalMsRaw src)\<rparr>"

definition merge_web :: "WebConfig \<Rightarrow> WebTemplateConfig \<Rightarrow> WebConfig" where
  "merge_web dst src = dst\<lparr>
     cw_SSEKeepaliveIntervalMsRaw := overlay (cw_SSEKeepaliveIntervalMsRaw dst) (tw_SSEKeepaliveIntervalMsRaw src)\<rparr>"

definition mergeAgentTemplate :: "WorkflowConfig \<Rightarrow> AgentTemplate \<Rightarrow> WorkflowConfig" where
  "mergeAgentTemplate dst src = dst\<lparr>
     cf_Agent := (cf_Agent dst)\<lparr>ca_Type := overlay (ca_Type (cf_Agent dst)) (at_Type src)\<rparr>,
     cf_Codex := mergeCodexTemplateConfig (cf_Codex dst) (at_Codex src),
     cf_OpenCode := mergeOpenCodeTemplateConfig (cf_OpenCode dst) (at_OpenCode src),
     cf_OMX := mergeOMXTemplateConfig (cf_OMX dst) (at_OMX src),
     cf_OMC := mergeOMCTemplateConfig (cf_OMC dst) (at_OMC src),
     cf_OhMyOpenCode := mergeOhMyOpenCodeTemplate (cf_OhMyOpenCode dst) (at_OhMyOpenCode src)\<rparr>"

definition mergePresetOverrides :: "WorkflowConfig \<Rightarrow> PresetConfig \<Rightarrow> WorkflowConfig" where
  "mergePresetOverrides dst p = dst\<lparr>
     cf_MaxConcurrencyRaw := overlay (cf_MaxConcurrencyRaw dst) (pc_MaxConcurrencyRaw p),
     cf_PollIntervalMsRaw := overlay (cf_PollIntervalMsRaw dst) (pc_PollIntervalMsRaw p),
     cf_MaxRetryBackoffMsRaw := overlay (cf_MaxRetryBackoffMsRaw dst) (pc_MaxRetryBackoffMsRaw p),
     cf_AgentTimeoutMsRaw := overlay (cf_AgentTimeoutMsRaw dst) (pc_AgentTimeoutMsRaw p),
     cf_StallTimeoutMsRaw := overlay (cf_StallTimeoutMsRaw dst) (pc_StallTimeoutMsRaw p),
     cf_ModelRaw := overlay (cf_ModelRaw dst) (pc_ModelRaw p),
     cf_Workspace := merge_block merge_workspace (cf_Workspace dst) (pc_Workspace p),
     cf_Hooks := merge_block merge_hooks (cf_Hooks dst) (pc_Hooks p),
     cf_Linear := merge_block merge_linear (cf_Linear dst) (pc_Linear p),
     cf_Team := merge_block merge_team (cf_Team dst) (pc_Team p),
     cf_Web := merge_block merge_web (cf_Web dst) (pc_Web p),
     cf_Codex := merge_block mergeCodexTemplateConfig (cf_Codex dst) (pc_Codex p),
     cf_OpenCode := merge_block mergeOpenCodeTemplateConfig (cf_OpenCode dst) (pc_OpenCode p),
     cf_OMX := merge_block mergeOMXTemplateConfig (cf_OMX dst) (pc_OMX p),
     cf_OMC := merge_block mergeOMCTemplateConfig (cf_OMC dst) (pc_OMC p),
     cf_OhMyOpenCode := merge_block mergeOhMyOpenCodeTemplate (cf_OhMyOpenCode dst) (pc_OhMyOpenCode p)\<rparr>"

text \<open>\<open>append([]string(nil), xs...)\<close>: nil when \<open>xs\<close> has no elements.\<close>

definition copy_slice :: "'a slice \<Rightarrow> 'a slice" where
  "copy_slice s = (if elems s = [] then None else s)"

definition workflowConfigFromDefaults :: "WorkflowDefaults \<Rightarrow> WorkflowConfig" where
  "workflowConfigFromDefaults d = zero_WorkflowConfig\<lparr>
     cf_MaxConcurrencyRaw := wd_MaxConcurrencyRaw d,
     cf_PollIntervalMsRaw := wd_PollIntervalMsRaw d,
     cf_MaxRetryBackoffMsRaw := wd_MaxRetryBackoffMsRaw d,
     cf_ModelRaw := wd_ModelRaw d,
     cf_AgentTimeoutMsRaw := wd_AgentTimeoutMsRaw d,
     cf_StallTimeoutMsRaw := wd_StallTimeoutMsRaw d,
     cf_Polling := wd_Polling d,
     cf_Workspace := wd_Workspace d,
     cf_Hooks := wd_Hooks d,
     cf_Codex := wd_Codex d,
     cf_Agent := wd_Agent d,
     cf_OpenCode := wd_OpenCode d,
     cf_OMX := wd_OMX d,
     cf_OMC := wd_OMC d,
     cf_Linear := wd_Linear d,
     cf_OhMyOpenCode := (wd_OhMyOpenCode d)\<lparr>oh_Plugins := copy_slice (oh_Plugins (wd_OhMyOpenCode d))\<rparr>,
     cf_Team := wd_Team d,
     cf_Timeline := wd_Timeline d,
     cf_Web := wd_Web d\<rparr>"

section \<open>Loading and resolving\<close>

definition sortedKeys :: "'a gomap \<Rightarrow> string list" where
  "sortedKeys m = map fst (elems m)"

definition FilePromptLoader_Load :: "(string \<Rightarrow> string result) \<Rightarrow> string \<Rightarrow> string \<Rightarrow> string result" where
  "FilePromptLoader_Load read root0 ref =
     (let root = (if root0 = [] then ''.'' else root0);
          path = root @ ''/'' @ ref
      in case read path of
           Inl err \<Rightarrow> Inl (Wrap (''prompt loader: read '' @ fmt_q path) err)
         | Inr data \<Rightarrow> Inr data)"

text \<open>
  The two decodings of \<open>LoadRoot\<close> are parameters: the top-level keys in the order in which the loop
  meets them, and the document.
\<close>

definition LoadRoot ::
  "(string \<Rightarrow> go_error + string list) \<Rightarrow> (string \<Rightarrow> RootConfig result) \<Rightarrow> string result \<Rightarrow> RootConfig result" where
  "LoadRoot yaml_keys yaml_root r = (case r of
     Inl err \<Rightarrow> Inl (Wrap ''LoadRoot: read'' err)
   | Inr data \<Rightarrow>
       if trim_space data = [] then Inl (ErrMsg ''LoadRoot: input is empty'')
       else (case yaml_keys data of
         Inl err \<Rightarrow> Inl (Wrap ''LoadRoot: invalid yaml'' err)
       | Inr keys \<Rightarrow>
          (case find (\<lambda>k. k \<notin> {''defaults'', ''trackers'', ''agents'', ''presets''}) keys of
             Some key \<Rightarrow> Inl (ErrMsg (''LoadRoot: unknown top-level section '' @ fmt_q key @
               '' (allowed: defaults, trackers, agents, presets)''))
           | None \<Rightarrow>
              (case yaml_root data of
                 Inl err \<Rightarrow> Inl (Wrap ''LoadRoot: unmarshal'' err)
               | Inr cfg \<Rightarrow> Inr cfg))))"

text \<open>The layers of \<open>Resolve\<close>; each may fail on a name that is not defined.\<close>

definition tracker_layer :: "RootConfig \<Rightarrow> string \<Rightarrow> PresetConfig \<Rightarrow> WorkflowConfig \<Rightarrow> WorkflowConfig result" where
  "tracker_layer rc presetName preset result =
     (if pc_Tracker preset = [] then Inr result
      else (case map_of (elems (rc_Trackers rc)) (pc_Tracker preset) of
        None \<Rightarrow> Inl (ErrMsg (''Resolve: preset '' @ fmt_q presetName @ '' references unknown tracker '' @
          fmt_q (pc_Tracker preset) @ '' (available: '' @ str_join '', '' (sortedKeys (rc_Trackers rc)) @ '')''))
      | Some tmpl \<Rightarrow> Inr (result\<lparr>cf_Tracker := mergeTrackerTemplate (cf_Tracker result) tmpl\<rparr>)))"

definition agent_layer :: "RootConfig \<Rightarrow> string \<Rightarrow> PresetConfig \<Rightarrow> WorkflowConfig \<Rightarrow> WorkflowConfig result" where
  "agent_layer rc presetName preset result =
     (if pc_AgentRef preset \<noteq> []
      then (case map_of (elems (rc_Agents rc)) (pc_AgentRef preset) of
        None \<Rightarrow> Inl (ErrMsg (''Resolve: preset '' @ fmt_q presetName @ '' references unknown agent '' @
          fmt_q (pc_AgentRef preset) @ '' (available: '' @ str_join '', '' (sortedKeys (rc_Agents rc)) @ '')''))
      | Some tmpl \<Rightarrow> Inr (mergeAgentTemplate result tmpl))
      else (case pc_Agent preset of
        Some tmpl \<Rightarrow> Inr (mergeAgentTemplate result tmpl)
      | None \<Rightarrow> Inr result))"

definition prompt_layer :: "(string \<Rightarrow> string result) \<Rightarrow> string \<Rightarrow> PresetConfig \<Rightarrow> WorkflowConfig \<Rightarrow> WorkflowConfig result" where
  "prompt_layer load presetName preset result =
     (if pc_PromptRef preset = [] then Inr result
      else (case load (pc_PromptRef preset) of
        Inl err \<Rightarrow> Inl (Wrap (''Resolve: preset '' @ fmt_q presetName @ '': prompt loader failed for ref '' @
          fmt_q (pc_PromptRef preset)) err)
      | Inr body \<Rightarrow> Inr (result\<lparr>cf_PromptTemplate := body\<rparr>)))"

definition Resolve ::
  "(string \<Rightarrow> string) \<Rightarrow> (string \<Rightarrow> string result) \<Rightarrow> RootConfig option \<Rightarrow> string \<Rightarrow> (string \<Rightarrow> string result) option
     \<Rightarrow> WorkflowConfig result" where
  "Resolve getenv read root presetName loader = (case root of
     None \<Rightarrow> Inl (ErrMsg ''config: nil RootConfig'')
   | Some rc \<Rightarrow>
       if rc_Presets rc = None then Inl (ErrMsg ''config: no presets defined'')
       else
        (let load = (case loader of None \<Rightarrow> FilePromptLoader_Load read ''.'' | Some l \<Rightarrow> l) in
         case map_of (elems (rc_Presets rc)) presetName of
           None \<Rightarrow> Inl (ErrMsg (''Resolve: unknown preset '' @ fmt_q presetName @
             '' (available: '' @ str_join '', '' (sortedKeys (rc_Presets rc)) @ '')''))
         | Some preset \<Rightarrow>
             if pc_AgentRef preset \<noteq> [] \<and> pc_Agent preset \<noteq> None
             then Inl (ErrMsg (''Resolve: preset '' @ fmt_q presetName @ '' sets both agent_ref (named ref '' @
               fmt_q (pc_AgentRef preset) @ '') and agent (inline) '' @ [CHR 0xE2, CHR 0x80, CHR 0x94] @ '' pick one''))
             else
              (case tracker_layer rc presetName preset (workflowConfigFromDefaults (rc_Defaults rc)) of
                 Inl err \<Rightarrow> Inl err
               | Inr result \<Rightarrow>
                  (case agent_layer rc presetName preset result of
                     Inl err \<Rightarrow> Inl err
                   | Inr result \<Rightarrow>
                      (case prompt_layer load presetName preset (mergePresetOverrides result preset) of
                         Inl err \<Rightarrow> Inl err
                       | Inr result \<Rightarrow> Inr (resolve_WorkflowConfig getenv result))))))"

end
