(* ===== verification/Config_Views.thy ===== *)
theory Config_Views
  imports Config_Compose
begin

text \<open>
  A configuration as a map from the paths of its YAML document to values, and a template as a partial
  map with the values it sets. On these, merging a layer is \<open>++\<close>: this is the specification that the
  package comment of \<open>composition.go\<close> gives, and the lemmas show that the merge functions implement it.
\<close>

section \<open>Paths and values\<close>

datatype cfg_value = VInt int | VStr string | VBool bool | VFlag "bool option" | VList "string list"

datatype cfg_section = STop | STracker | SPolling | SWorkspace | SHooks | SCodex | SAgent | SOpenCode
  | SOMX | SOMC | SLinear | SOhMyOpenCode | STeam | STimeline | SWeb

datatype path = Field cfg_section string | AgentModel string | CategoryModel string

text \<open>The fields of every section with their YAML names; those of a template with what it sets.\<close>

definition top_fields :: "WorkflowConfig \<Rightarrow> (string \<times> cfg_value) list" where
  "top_fields c = [
     (''max_concurrency'', VInt (cf_MaxConcurrencyRaw c)),
     (''poll_interval_ms'', VInt (cf_PollIntervalMsRaw c)),
     (''max_retry_backoff_ms'', VInt (cf_MaxRetryBackoffMsRaw c)),
     (''model'', VStr (cf_ModelRaw c)),
     (''project_url'', VStr (cf_ProjectURLRaw c)),
     (''agent_timeout_ms'', VInt (cf_AgentTimeoutMsRaw c)),
     (''stall_timeout_ms'', VInt (cf_StallTimeoutMsRaw c))]"

definition tracker_fields :: "TrackerConfig \<Rightarrow> (string \<times> cfg_value) list" where
  "tracker_fields c = [
     (''type'', VStr (ct_Type c)),
     (''project_url'', VStr (ct_ProjectURL c)),
     (''team_id'', VStr (ct_TeamID c)),
     (''assignee_id'', VStr (ct_AssigneeID c)),
     (''board_dir'', VStr (ct_BoardDir c)),
     (''issue_prefix'', VStr (ct_IssuePrefix c)),
     (''owner'', VStr (ct_Owner c)),
     (''repo'', VStr (ct_Repo c)),
     (''labels'', VList (elems (ct_Labels c))),
     (''assignee'', VStr (ct_Assignee c)),
     (''token'', VStr (ct_Token c)),
     (''endpoint'', VStr (ct_Endpoint c)),
     (''http_timeout_ms'', VInt (ct_HTTPTimeoutMsRaw c)),
     (''main_ref'', VStr (ct_MainRefRaw c)),
     (''auto_close_already_implemented'', VBool (ct_AutoCloseAlreadyImplementedRaw c))]"

definition tracker_tfields :: "TrackerTemplate \<Rightarrow> (string \<times> cfg_value option) list" where
  "tracker_tfields t = [
     (''type'', map_option VStr (tt_Type t)),
     (''project_url'', map_option VStr (tt_ProjectURL t)),
     (''team_id'', map_option VStr (tt_TeamID t)),
     (''assignee_id'', map_option VStr (tt_AssigneeID t)),
     (''board_dir'', map_option VStr (tt_BoardDir t)),
     (''issue_prefix'', map_option VStr (tt_IssuePrefix t)),
     (''owner'', map_option VStr (tt_Owner t)),
     (''repo'', map_option VStr (tt_Repo t)),
     (''labels'', map_option (VList \<circ> elems) (tt_Labels t)),
     (''assignee'', map_option VStr (tt_Assignee t)),
     (''token'', map_option VStr (tt_Token t)),
     (''endpoint'', map_option VStr (tt_Endpoint t)),
     (''http_timeout_ms'', map_option VInt (tt_HTTPTimeoutMsRaw t)),
     (''main_ref'', map_option VStr (tt_MainRefRaw t)),
     (''auto_close_already_implemented'', map_option VBool (tt_AutoCloseAlreadyImplementedRaw t))]"

definition polling_fields :: "PollingConfig \<Rightarrow> (string \<times> cfg_value) list" where
  "polling_fields c = [
     (''interval_ms'', VInt (cp_IntervalMs c)),
     (''backoff_strategy'', VStr (cp_BackoffStrategy c))]"

definition workspace_fields :: "WorkspaceConfig \<Rightarrow> (string \<times> cfg_value) list" where
  "workspace_fields c = [
     (''base_dir'', VStr (ck_BaseDir c)),
     (''branch_prefix'', VStr (ck_BranchPrefix c))]"

definition workspace_tfields :: "WorkspaceTemplateConfig \<Rightarrow> (string \<times> cfg_value option) list" where
  "workspace_tfields t = [
     (''base_dir'', map_option VStr (tk_BaseDir t)),
     (''branch_prefix'', map_option VStr (tk_BranchPrefix t))]"

definition hooks_fields :: "HooksConfig \<Rightarrow> (string \<times> cfg_value) list" where
  "hooks_fields c = [
     (''before_run'', VStr (ch_BeforeRun c)),
     (''after_run'', VStr (ch_AfterRun c)),
     (''before_remove'', VStr (ch_BeforeRemove c))]"

definition hooks_tfields :: "HooksTemplateConfig \<Rightarrow> (string \<times> cfg_value option) list" where
  "hooks_tfields t = [
     (''before_run'', map_option VStr (tf_BeforeRun t)),
     (''after_run'', map_option VStr (tf_AfterRun t)),
     (''before_remove'', map_option VStr (tf_BeforeRemove t))]"

definition codex_fields :: "CodexConfig \<Rightarrow> (string \<times> cfg_value) list" where
  "codex_fields c = [
     (''binary_path'', VStr (cx_BinaryPath c)),
     (''model'', VStr (cx_Model c)),
     (''approval_policy'', VStr (cx_ApprovalPolicy c)),
     (''sandbox'', VStr (cx_Sandbox c)),
     (''handshake_timeout_ms'', VInt (cx_HandshakeTimeoutMsRaw c)),
     (''overload_retry_cap_ms'', VInt (cx_OverloadRetryCapMsRaw c)),
     (''overload_start_delay_ms'', VInt (cx_OverloadStartDelayMsRaw c))]"

definition codex_tfields :: "CodexTemplateConfig \<Rightarrow> (string \<times> cfg_value option) list" where
  "codex_tfields t = [
     (''binary_path'', map_option VStr (tx_BinaryPath t)),
     (''model'', map_option VStr (tx_Model t)),
     (''approval_policy'', map_option VStr (tx_ApprovalPolicy t)),
     (''sandbox'', map_option VStr (tx_Sandbox t)),
     (''handshake_timeout_ms'', map_option VInt (tx_HandshakeTimeoutMsRaw t)),
     (''overload_retry_cap_ms'', map_option VInt (tx_OverloadRetryCapMsRaw t)),
     (''overload_start_delay_ms'', map_option VInt (tx_OverloadStartDelayMsRaw t))]"

definition agent_fields :: "AgentConfig \<Rightarrow> (string \<times> cfg_value) list" where
  "agent_fields c = [
     (''type'', VStr (ca_Type c))]"

definition opencode_fields :: "OpenCodeConfig \<Rightarrow> (string \<times> cfg_value) list" where
  "opencode_fields c = [
     (''binary_path'', VStr (co_BinaryPath c)),
     (''port'', VInt (co_Port c)),
     (''password'', VStr (co_Password c)),
     (''username'', VStr (co_Username c))]"

definition opencode_tfields :: "OpenCodeTemplateConfig \<Rightarrow> (string \<times> cfg_value option) list" where
  "opencode_tfields t = [
     (''binary_path'', map_option VStr (to_BinaryPath t)),
     (''port'', map_option VInt (to_Port t)),
     (''password'', map_option VStr (to_Password t)),
     (''username'', map_option VStr (to_Username t))]"

definition omx_fields :: "OMXConfig \<Rightarrow> (string \<times> cfg_value) list" where
  "omx_fields c = [
     (''binary_path'', VStr (cm_BinaryPath c)),
     (''team_spec'', VStr (cm_TeamSpec c)),
     (''poll_interval_ms'', VInt (cm_PollIntervalMs c)),
     (''startup_timeout_ms'', VInt (cm_StartupTimeoutMs c)),
     (''ralph'', VBool (cm_Ralph c))]"

definition omx_tfields :: "OMXTemplateConfig \<Rightarrow> (string \<times> cfg_value option) list" where
  "omx_tfields t = [
     (''binary_path'', map_option VStr (tm_BinaryPath t)),
     (''team_spec'', map_option VStr (tm_TeamSpec t)),
     (''poll_interval_ms'', map_option VInt (tm_PollIntervalMs t)),
     (''startup_timeout_ms'', map_option VInt (tm_StartupTimeoutMs t)),
     (''ralph'', map_option VBool (tm_Ralph t))]"

definition omc_fields :: "OMCConfig \<Rightarrow> (string \<times> cfg_value) list" where
  "omc_fields c = [
     (''binary_path'', VStr (cc_BinaryPath c)),
     (''team_spec'', VStr (cc_TeamSpec c)),
     (''poll_interval_ms'', VInt (cc_PollIntervalMs c)),
     (''startup_timeout_ms'', VInt (cc_StartupTimeoutMs c))]"

definition omc_tfields :: "OMCTemplateConfig \<Rightarrow> (string \<times> cfg_value option) list" where
  "omc_tfields t = [
     (''binary_path'', map_option VStr (tn_BinaryPath t)),
     (''team_spec'', map_option VStr (tn_TeamSpec t)),
     (''poll_interval_ms'', map_option VInt (tn_PollIntervalMs t)),
     (''startup_timeout_ms'', map_option VInt (tn_StartupTimeoutMs t))]"

definition linear_fields :: "LinearConfigSection \<Rightarrow> (string \<times> cfg_value) list" where
  "linear_fields c = [
     (''issue_details.enabled'', VFlag (ld_Enabled (ls_IssueDetails c))),
     (''sync_comments.enabled'', VBool (lc_Enabled (ls_SyncComments c))),
     (''sync_comments.mode'', VStr (lc_Mode (ls_SyncComments c))),
     (''sync_comments.queue_size'', VInt (lc_QueueSize (ls_SyncComments c))),
     (''sync_comments.poll_interval_ms'', VInt (lc_PollIntervalMs (ls_SyncComments c)))]"

definition linear_tfields :: "LinearTemplateConfig \<Rightarrow> (string \<times> cfg_value option) list" where
  "linear_tfields t = [
     (''issue_details.enabled'', Option.bind (tl_IssueDetails t) (\<lambda>s. map_option (VFlag \<circ> Some) (td_Enabled s))),
     (''sync_comments.enabled'', Option.bind (tl_SyncComments t) (\<lambda>s. map_option VBool (ts_Enabled s))),
     (''sync_comments.mode'', Option.bind (tl_SyncComments t) (\<lambda>s. map_option VStr (ts_Mode s))),
     (''sync_comments.queue_size'', Option.bind (tl_SyncComments t) (\<lambda>s. map_option VInt (ts_QueueSize s))),
     (''sync_comments.poll_interval_ms'', Option.bind (tl_SyncComments t) (\<lambda>s. map_option VInt (ts_PollIntervalMs s)))]"

definition ohmyopencode_fields :: "OhMyOpenCodeConfig \<Rightarrow> (string \<times> cfg_value) list" where
  "ohmyopencode_fields c = [
     (''plugin_version'', VStr (oh_PluginVersion c)),
     (''plugins'', VList (elems (oh_Plugins c))),
     (''provider.name'', VStr (op_Name (oh_Provider c))),
     (''provider.base_url'', VStr (op_BaseURL (oh_Provider c))),
     (''provider.api_key'', VStr (op_APIKey (oh_Provider c)))]"

definition ohmyopencode_tfields :: "OhMyOpenCodeTemplate \<Rightarrow> (string \<times> cfg_value option) list" where
  "ohmyopencode_tfields t = [
     (''plugin_version'', map_option VStr (th_PluginVersion t)),
     (''plugins'', map_option (VList \<circ> elems) (th_Plugins t)),
     (''provider.name'', Option.bind (th_Provider t) (\<lambda>s. map_option VStr (tp_Name s))),
     (''provider.base_url'', Option.bind (th_Provider t) (\<lambda>s. map_option VStr (tp_BaseURL s))),
     (''provider.api_key'', Option.bind (th_Provider t) (\<lambda>s. map_option VStr (tp_APIKey s)))]"

definition team_fields :: "TeamSectionConfig \<Rightarrow> (string \<times> cfg_value) list" where
  "team_fields c = [
     (''max_workers'', VInt (cs_MaxWorkers c)),
     (''max_fix_loops'', VInt (cs_MaxFixLoops c)),
     (''claim_lease_seconds'', VInt (cs_ClaimLeaseSeconds c)),
     (''state_dir'', VStr (cs_StateDir c)),
     (''execution_mode'', VStr (cs_ExecutionMode c)),
     (''worker_mode'', VStr (cs_WorkerMode c)),
     (''restart_grace_period_ms'', VInt (cs_RestartGracePeriodMsRaw c)),
     (''governance_retry_delay_ms'', VInt (cs_GovernanceRetryDelayMsRaw c)),
     (''heartbeat_interval_ms'', VInt (cs_HeartbeatIntervalMsRaw c))]"

definition team_tfields :: "TeamTemplateConfig \<Rightarrow> (string \<times> cfg_value option) list" where
  "team_tfields t = [
     (''max_workers'', map_option VInt (te_MaxWorkers t)),
     (''max_fix_loops'', map_option VInt (te_MaxFixLoops t)),
     (''claim_lease_seconds'', map_option VInt (te_ClaimLeaseSeconds t)),
     (''state_dir'', map_option VStr (te_StateDir t)),
     (''execution_mode'', map_option VStr (te_ExecutionMode t)),
     (''worker_mode'', map_option VStr (te_WorkerMode t)),
     (''restart_grace_period_ms'', map_option VInt (te_RestartGracePeriodMsRaw t)),
     (''governance_retry_delay_ms'', map_option VInt (te_GovernanceRetryDelayMsRaw t)),
     (''heartbeat_interval_ms'', map_option VInt (te_HeartbeatIntervalMsRaw t))]"

definition timeline_fields :: "TimelineConfig \<Rightarrow> (string \<times> cfg_value) list" where
  "timeline_fields c = [
     (''dir'', VStr (cl_Dir c))]"

definition web_fields :: "WebConfig \<Rightarrow> (string \<times> cfg_value) list" where
  "web_fields c = [
     (''sse_keepalive_interval_ms'', VInt (cw_SSEKeepaliveIntervalMsRaw c))]"

definition web_tfields :: "WebTemplateConfig \<Rightarrow> (string \<times> cfg_value option) list" where
  "web_tfields t = [
     (''sse_keepalive_interval_ms'', map_option VInt (tw_SSEKeepaliveIntervalMsRaw t))]"

definition top_tfields :: "PresetConfig \<Rightarrow> (string \<times> cfg_value option) list" where
  "top_tfields p = [
     (''max_concurrency'', map_option VInt (pc_MaxConcurrencyRaw p)),
     (''poll_interval_ms'', map_option VInt (pc_PollIntervalMsRaw p)),
     (''max_retry_backoff_ms'', map_option VInt (pc_MaxRetryBackoffMsRaw p)),
     (''model'', map_option VStr (pc_ModelRaw p)),
     (''project_url'', None),
     (''agent_timeout_ms'', map_option VInt (pc_AgentTimeoutMsRaw p)),
     (''stall_timeout_ms'', map_option VInt (pc_StallTimeoutMsRaw p))]"

definition top_dfields :: "WorkflowDefaults \<Rightarrow> (string \<times> cfg_value) list" where
  "top_dfields d = [
     (''max_concurrency'', VInt (wd_MaxConcurrencyRaw d)),
     (''poll_interval_ms'', VInt (wd_PollIntervalMsRaw d)),
     (''max_retry_backoff_ms'', VInt (wd_MaxRetryBackoffMsRaw d)),
     (''model'', VStr (wd_ModelRaw d)),
     (''project_url'', VStr []),
     (''agent_timeout_ms'', VInt (wd_AgentTimeoutMsRaw d)),
     (''stall_timeout_ms'', VInt (wd_StallTimeoutMsRaw d))]"

definition agent_tfields :: "AgentTemplate \<Rightarrow> (string \<times> cfg_value option) list" where
  "agent_tfields t = [(''type'', map_option VStr (at_Type t))]"

section \<open>Views\<close>

fun section_fields :: "WorkflowConfig \<Rightarrow> cfg_section \<Rightarrow> (string \<times> cfg_value) list" where
  "section_fields c STop = top_fields c"
| "section_fields c STracker = tracker_fields (cf_Tracker c)"
| "section_fields c SPolling = polling_fields (cf_Polling c)"
| "section_fields c SWorkspace = workspace_fields (cf_Workspace c)"
| "section_fields c SHooks = hooks_fields (cf_Hooks c)"
| "section_fields c SCodex = codex_fields (cf_Codex c)"
| "section_fields c SAgent = agent_fields (cf_Agent c)"
| "section_fields c SOpenCode = opencode_fields (cf_OpenCode c)"
| "section_fields c SOMX = omx_fields (cf_OMX c)"
| "section_fields c SOMC = omc_fields (cf_OMC c)"
| "section_fields c SLinear = linear_fields (cf_Linear c)"
| "section_fields c SOhMyOpenCode = ohmyopencode_fields (cf_OhMyOpenCode c)"
| "section_fields c STeam = team_fields (cf_Team c)"
| "section_fields c STimeline = timeline_fields (cf_Timeline c)"
| "section_fields c SWeb = web_fields (cf_Web c)"

definition agent_models :: "OhMyOpenCodeAgent gomap \<Rightarrow> string \<Rightarrow> cfg_value option" where
  "agent_models m k = map_option (VStr \<circ> oa_Model) (map_of (elems m) k)"

definition category_models :: "OhMyOpenCodeCategory gomap \<Rightarrow> string \<Rightarrow> cfg_value option" where
  "category_models m k = map_option (VStr \<circ> og_Model) (map_of (elems m) k)"

fun view :: "WorkflowConfig \<Rightarrow> path \<Rightarrow> cfg_value option" where
  "view c (Field s k) = map_of (section_fields c s) k"
| "view c (AgentModel k) = agent_models (oh_Agents (cf_OhMyOpenCode c)) k"
| "view c (CategoryModel k) = category_models (oh_Categories (cf_OhMyOpenCode c)) k"

fun defaults_fields :: "WorkflowDefaults \<Rightarrow> cfg_section \<Rightarrow> (string \<times> cfg_value) list" where
  "defaults_fields d STop = top_dfields d"
| "defaults_fields d STracker = tracker_fields zero_TrackerConfig"
| "defaults_fields d SPolling = polling_fields (wd_Polling d)"
| "defaults_fields d SWorkspace = workspace_fields (wd_Workspace d)"
| "defaults_fields d SHooks = hooks_fields (wd_Hooks d)"
| "defaults_fields d SCodex = codex_fields (wd_Codex d)"
| "defaults_fields d SAgent = agent_fields (wd_Agent d)"
| "defaults_fields d SOpenCode = opencode_fields (wd_OpenCode d)"
| "defaults_fields d SOMX = omx_fields (wd_OMX d)"
| "defaults_fields d SOMC = omc_fields (wd_OMC d)"
| "defaults_fields d SLinear = linear_fields (wd_Linear d)"
| "defaults_fields d SOhMyOpenCode = ohmyopencode_fields (wd_OhMyOpenCode d)"
| "defaults_fields d STeam = team_fields (wd_Team d)"
| "defaults_fields d STimeline = timeline_fields (wd_Timeline d)"
| "defaults_fields d SWeb = web_fields (wd_Web d)"

fun defaults_view :: "WorkflowDefaults \<Rightarrow> path \<Rightarrow> cfg_value option" where
  "defaults_view d (Field s k) = map_of (defaults_fields d s) k"
| "defaults_view d (AgentModel k) = agent_models (oh_Agents (wd_OhMyOpenCode d)) k"
| "defaults_view d (CategoryModel k) = category_models (oh_Categories (wd_OhMyOpenCode d)) k"

text \<open>The values that a list of template fields sets.\<close>

definition sets :: "(string \<times> cfg_value option) list \<Rightarrow> string \<Rightarrow> cfg_value option" where
  "sets ts k = Option.bind (map_of ts k) id"

fun tracker_view :: "TrackerTemplate \<Rightarrow> path \<Rightarrow> cfg_value option" where
  "tracker_view t (Field STracker k) = sets (tracker_tfields t) k"
| "tracker_view t _ = None"

fun agent_view :: "AgentTemplate \<Rightarrow> path \<Rightarrow> cfg_value option" where
  "agent_view t (Field SAgent k) = sets (agent_tfields t) k"
| "agent_view t (Field SCodex k) = sets (codex_tfields (at_Codex t)) k"
| "agent_view t (Field SOpenCode k) = sets (opencode_tfields (at_OpenCode t)) k"
| "agent_view t (Field SOMX k) = sets (omx_tfields (at_OMX t)) k"
| "agent_view t (Field SOMC k) = sets (omc_tfields (at_OMC t)) k"
| "agent_view t (Field SOhMyOpenCode k) = sets (ohmyopencode_tfields (at_OhMyOpenCode t)) k"
| "agent_view t (AgentModel k) = agent_models (th_Agents (at_OhMyOpenCode t)) k"
| "agent_view t (CategoryModel k) = category_models (th_Categories (at_OhMyOpenCode t)) k"
| "agent_view t _ = None"

text \<open>A block that is absent sets nothing.\<close>

definition block_view :: "('b \<Rightarrow> string \<Rightarrow> cfg_value option) \<Rightarrow> 'b option \<Rightarrow> string \<Rightarrow> cfg_value option" where
  "block_view f p k = Option.bind p (\<lambda>b. f b k)"

fun preset_view :: "PresetConfig \<Rightarrow> path \<Rightarrow> cfg_value option" where
  "preset_view p (Field STop k) = sets (top_tfields p) k"
| "preset_view p (Field SWorkspace k) = block_view (sets \<circ> workspace_tfields) (pc_Workspace p) k"
| "preset_view p (Field SHooks k) = block_view (sets \<circ> hooks_tfields) (pc_Hooks p) k"
| "preset_view p (Field SCodex k) = block_view (sets \<circ> codex_tfields) (pc_Codex p) k"
| "preset_view p (Field SOpenCode k) = block_view (sets \<circ> opencode_tfields) (pc_OpenCode p) k"
| "preset_view p (Field SOMX k) = block_view (sets \<circ> omx_tfields) (pc_OMX p) k"
| "preset_view p (Field SOMC k) = block_view (sets \<circ> omc_tfields) (pc_OMC p) k"
| "preset_view p (Field SLinear k) = block_view (sets \<circ> linear_tfields) (pc_Linear p) k"
| "preset_view p (Field SOhMyOpenCode k) = block_view (sets \<circ> ohmyopencode_tfields) (pc_OhMyOpenCode p) k"
| "preset_view p (Field STeam k) = block_view (sets \<circ> team_tfields) (pc_Team p) k"
| "preset_view p (Field SWeb k) = block_view (sets \<circ> web_tfields) (pc_Web p) k"
| "preset_view p (AgentModel k) = block_view (agent_models \<circ> th_Agents) (pc_OhMyOpenCode p) k"
| "preset_view p (CategoryModel k) = block_view (category_models \<circ> th_Categories) (pc_OhMyOpenCode p) k"
| "preset_view p _ = None"

text \<open>Environment references are resolved in plain string fields only.\<close>

fun resolve_value :: "(string \<Rightarrow> string) \<Rightarrow> cfg_value \<Rightarrow> cfg_value" where
  "resolve_value getenv (VStr s) = VStr (resolve_string getenv s)"
| "resolve_value getenv v = v"

fun env_view :: "(string \<Rightarrow> string) \<Rightarrow> (path \<Rightarrow> cfg_value option) \<Rightarrow> path \<Rightarrow> cfg_value option" where
  "env_view getenv v (Field s k) = map_option (resolve_value getenv) (v (Field s k))"
| "env_view getenv v p = v p"

section \<open>Merging a layer\<close>

fun overlaid :: "(string \<times> cfg_value) list \<Rightarrow> (string \<times> cfg_value option) list \<Rightarrow> (string \<times> cfg_value) list \<Rightarrow> bool" where
  "overlaid [] [] [] = True"
| "overlaid (x # xs) (t # ts) (y # ys) =
     (fst t = fst x \<and> fst y = fst x \<and> snd y = overlay (snd x) (snd t) \<and> overlaid xs ts ys)"
| "overlaid _ _ _ = False"

lemma overlaid_map_of: "overlaid xs ts ys \<Longrightarrow> map_of ys = map_of xs ++ sets ts"
proof (induction xs ts ys rule: overlaid.induct)
  case (2 x xs t ts y ys)
  then show ?case
    by (auto simp: fun_eq_iff sets_def map_add_def overlay_def split: option.splits if_splits)
qed (simp_all add: sets_def fun_eq_iff map_add_def)

lemma overlay_None [simp]: "overlay d None = d"
  by (simp add: overlay_def)

lemma overlay_value:
  "VInt (overlay n p) = overlay (VInt n) (map_option VInt p)"
  "VStr (overlay s q) = overlay (VStr s) (map_option VStr q)"
  "VBool (overlay b r) = overlay (VBool b) (map_option VBool r)"
  "VList (elems (overlay_slice l u)) = overlay (VList (elems l)) (map_option (VList \<circ> elems) u)"
  "VFlag (overlay_pointer f r) = overlay (VFlag f) (map_option (VFlag \<circ> Some) r)"
  by (auto simp: overlay_def overlay_slice_def overlay_pointer_def elems_def split: option.splits)

lemma merged_tracker: "map_of (tracker_fields (mergeTrackerTemplate d t)) = map_of (tracker_fields d) ++ sets (tracker_tfields t)"
  by (rule overlaid_map_of) (simp add: tracker_fields_def tracker_tfields_def mergeTrackerTemplate_def overlay_value)

lemma merged_codex: "map_of (codex_fields (mergeCodexTemplateConfig d t)) = map_of (codex_fields d) ++ sets (codex_tfields t)"
  by (rule overlaid_map_of) (simp add: codex_fields_def codex_tfields_def mergeCodexTemplateConfig_def overlay_value)

lemma merged_opencode: "map_of (opencode_fields (mergeOpenCodeTemplateConfig d t)) = map_of (opencode_fields d) ++ sets (opencode_tfields t)"
  by (rule overlaid_map_of) (simp add: opencode_fields_def opencode_tfields_def mergeOpenCodeTemplateConfig_def overlay_value)

lemma merged_omx: "map_of (omx_fields (mergeOMXTemplateConfig d t)) = map_of (omx_fields d) ++ sets (omx_tfields t)"
  by (rule overlaid_map_of) (simp add: omx_fields_def omx_tfields_def mergeOMXTemplateConfig_def overlay_value)

lemma merged_omc: "map_of (omc_fields (mergeOMCTemplateConfig d t)) = map_of (omc_fields d) ++ sets (omc_tfields t)"
  by (rule overlaid_map_of) (simp add: omc_fields_def omc_tfields_def mergeOMCTemplateConfig_def overlay_value)

lemma merged_ohmyopencode: "map_of (ohmyopencode_fields (mergeOhMyOpenCodeTemplate d t)) = map_of (ohmyopencode_fields d) ++ sets (ohmyopencode_tfields t)"
  by (rule overlaid_map_of, (cases "th_Provider t"))
    (simp_all add: ohmyopencode_fields_def ohmyopencode_tfields_def mergeOhMyOpenCodeTemplate_def overlay_value merge_block_def merge_provider_def)

lemma merged_workspace: "map_of (workspace_fields (merge_workspace d t)) = map_of (workspace_fields d) ++ sets (workspace_tfields t)"
  by (rule overlaid_map_of) (simp add: workspace_fields_def workspace_tfields_def merge_workspace_def overlay_value)

lemma merged_hooks: "map_of (hooks_fields (merge_hooks d t)) = map_of (hooks_fields d) ++ sets (hooks_tfields t)"
  by (rule overlaid_map_of) (simp add: hooks_fields_def hooks_tfields_def merge_hooks_def overlay_value)

lemma merged_linear: "map_of (linear_fields (merge_linear d t)) = map_of (linear_fields d) ++ sets (linear_tfields t)"
  by (rule overlaid_map_of, (cases "tl_IssueDetails t"; cases "tl_SyncComments t"))
    (simp_all add: linear_fields_def linear_tfields_def merge_linear_def overlay_value merge_block_def merge_issue_details_def merge_sync_comments_def)

lemma merged_team: "map_of (team_fields (merge_team d t)) = map_of (team_fields d) ++ sets (team_tfields t)"
  by (rule overlaid_map_of) (simp add: team_fields_def team_tfields_def merge_team_def overlay_value)

lemma merged_web: "map_of (web_fields (merge_web d t)) = map_of (web_fields d) ++ sets (web_tfields t)"
  by (rule overlaid_map_of) (simp add: web_fields_def web_tfields_def merge_web_def overlay_value)

lemma merged_block:
  assumes "\<And>d t. map_of (F (M d t)) = map_of (F d) ++ sets (T t)"
  shows "map_of (F (merge_block M d p)) = map_of (F d) ++ block_view (sets \<circ> T) p"
  using assms by (cases p) (auto simp: merge_block_def block_view_def fun_eq_iff map_add_def split: option.splits)

lemmas merged_blocks =
  merged_block [of codex_fields mergeCodexTemplateConfig codex_tfields, OF merged_codex]
  merged_block [of opencode_fields mergeOpenCodeTemplateConfig opencode_tfields, OF merged_opencode]
  merged_block [of omx_fields mergeOMXTemplateConfig omx_tfields, OF merged_omx]
  merged_block [of omc_fields mergeOMCTemplateConfig omc_tfields, OF merged_omc]
  merged_block [of ohmyopencode_fields mergeOhMyOpenCodeTemplate ohmyopencode_tfields, OF merged_ohmyopencode]
  merged_block [of workspace_fields merge_workspace workspace_tfields, OF merged_workspace]
  merged_block [of hooks_fields merge_hooks hooks_tfields, OF merged_hooks]
  merged_block [of linear_fields merge_linear linear_tfields, OF merged_linear]
  merged_block [of team_fields merge_team team_tfields, OF merged_team]
  merged_block [of web_fields merge_web web_tfields, OF merged_web]

lemma fput_all_map_of:
  "distinct (map fst xs) \<Longrightarrow> map_of (fput_all fst snd xs d) = map_of d ++ map_of xs"
proof (induction xs arbitrary: d)
  case (Cons x xs)
  then have "fst x \<notin> dom (map_of xs)" by (simp add: dom_map_of_conv_image_fst)
  with Cons show ?case by (cases x) (auto simp: fun_eq_iff map_add_def split: option.splits)
qed simp

lemma overlay_map_of:
  "wf_dir (elems m) \<Longrightarrow> map_of (elems (overlay_map d m)) = map_of (elems d) ++ map_of (elems m)"
  by (simp add: overlay_map_def elems_def [of "Some _"] fput_all_map_of wf_dir_distinct)

lemma overlay_models:
  "wf_dir (elems m) \<Longrightarrow> agent_models (overlay_map d m) k = (agent_models d ++ agent_models m) k"
  "wf_dir (elems m') \<Longrightarrow> category_models (overlay_map d' m') k = (category_models d' ++ category_models m') k"
  by (simp_all add: agent_models_def category_models_def overlay_map_of map_add_def split: option.splits)

section \<open>The layers\<close>

definition models_ok :: "OhMyOpenCodeTemplate \<Rightarrow> bool" where
  "models_ok t \<longleftrightarrow> wf_dir (elems (th_Agents t)) \<and> wf_dir (elems (th_Categories t))"

lemma view_tracker_layer:
  "view (c\<lparr>cf_Tracker := mergeTrackerTemplate (cf_Tracker c) t\<rparr>) = view c ++ tracker_view t"
proof
  fix p
  show "view (c\<lparr>cf_Tracker := mergeTrackerTemplate (cf_Tracker c) t\<rparr>) p = (view c ++ tracker_view t) p"
  proof (cases p)
    case (Field s k)
    then show ?thesis by (cases s) (simp_all add: map_add_def merged_tracker top_fields_def split: option.splits)
  qed (simp_all add: map_add_def)
qed

lemma agent_type_layer:
  "map_of (agent_fields (c\<lparr>ca_Type := overlay (ca_Type c) (at_Type t)\<rparr>)) = map_of (agent_fields c) ++ sets (agent_tfields t)"
  by (rule overlaid_map_of) (simp add: agent_fields_def agent_tfields_def overlay_value)

lemmas merged_sections =
  merged_codex merged_opencode merged_omx merged_omc merged_ohmyopencode agent_type_layer

lemma view_agent_layer:
  assumes "models_ok (at_OhMyOpenCode t)"
  shows "view (mergeAgentTemplate c t) = view c ++ agent_view t"
proof
  fix p
  show "view (mergeAgentTemplate c t) p = (view c ++ agent_view t) p"
  proof (cases p)
    case (Field s k)
    then show ?thesis
      by (cases s) (simp_all add: mergeAgentTemplate_def map_add_def merged_sections top_fields_def
          split: option.splits)
  qed (use assms in \<open>simp_all add: mergeAgentTemplate_def mergeOhMyOpenCodeTemplate_def models_ok_def overlay_models map_add_def split: option.splits\<close>)
qed

lemma top_preset_layer:
  "map_of (top_fields (mergePresetOverrides c p)) = map_of (top_fields c) ++ sets (top_tfields p)"
  by (rule overlaid_map_of) (simp add: top_fields_def top_tfields_def mergePresetOverrides_def overlay_value)

lemma block_models:
  assumes "pred_option models_ok p"
  shows "agent_models (oh_Agents (merge_block mergeOhMyOpenCodeTemplate c p)) k =
      (agent_models (oh_Agents c) ++ block_view (agent_models \<circ> th_Agents) p) k"
    and "category_models (oh_Categories (merge_block mergeOhMyOpenCodeTemplate c p)) k =
      (category_models (oh_Categories c) ++ block_view (category_models \<circ> th_Categories) p) k"
  using assms
  by (cases p; simp add: merge_block_def block_view_def mergeOhMyOpenCodeTemplate_def models_ok_def overlay_models map_add_def)+

lemma view_preset_layer:
  assumes "pred_option models_ok (pc_OhMyOpenCode p)"
  shows "view (mergePresetOverrides c p) = view c ++ preset_view p"
proof
  fix q
  show "view (mergePresetOverrides c p) q = (view c ++ preset_view p) q"
  proof (cases q)
    case (Field s k)
    then show ?thesis
    proof (cases s)
      case STop
      with Field show ?thesis by (simp add: top_preset_layer map_add_def split: option.splits)
    qed (simp_all add: mergePresetOverrides_def map_add_def merged_blocks split: option.splits)
  qed (use assms in \<open>simp_all add: mergePresetOverrides_def block_models map_add_def split: option.splits\<close>)
qed

lemma view_defaults: "view (workflowConfigFromDefaults d) = defaults_view d"
proof
  fix p
  have copy: "elems (copy_slice s) = elems s" for s :: "string slice"
    by (simp add: copy_slice_def elems_def split: option.splits)
  show "view (workflowConfigFromDefaults d) p = defaults_view d p"
  proof (cases p)
    case (Field s k)
    then show ?thesis
      by (cases s) (simp_all add: workflowConfigFromDefaults_def zero_WorkflowConfig_def top_fields_def
          top_dfields_def ohmyopencode_fields_def copy)
  qed (simp_all add: workflowConfigFromDefaults_def)
qed

lemmas field_lists =
  top_fields_def
  tracker_fields_def polling_fields_def workspace_fields_def hooks_fields_def
  codex_fields_def agent_fields_def opencode_fields_def omx_fields_def
  omc_fields_def linear_fields_def ohmyopencode_fields_def team_fields_def
  timeline_fields_def web_fields_def

lemmas walk_defs =
  resolve_TrackerConfig_def resolve_PollingConfig_def resolve_WorkspaceConfig_def
  resolve_HooksConfig_def resolve_CodexConfig_def resolve_AgentConfig_def
  resolve_OpenCodeConfig_def resolve_OMXConfig_def resolve_OMCConfig_def
  resolve_LinearConfigSection_def resolve_OhMyOpenCodeConfig_def resolve_TeamSectionConfig_def
  resolve_TimelineConfig_def resolve_LinearSyncCommentsConfig_def resolve_OhMyOpenCodeProvider_def

lemma walked_fields:
  "section_fields (resolve_WorkflowConfig getenv c) s = map (apsnd (resolve_value getenv)) (section_fields c s)"
  by (cases s) (simp_all add: resolve_WorkflowConfig_def walk_defs field_lists)

lemma map_of_apsnd: "map_of (map (apsnd f) xs) k = map_option f (map_of xs k)"
  by (induction xs) auto

lemma view_env: "view (resolve_WorkflowConfig getenv c) = env_view getenv (view c)"
proof
  fix p
  show "view (resolve_WorkflowConfig getenv c) p = env_view getenv (view c) p"
  proof (cases p)
    case (Field s k)
    then show ?thesis by (simp add: walked_fields map_of_apsnd)
  qed (simp_all add: resolve_WorkflowConfig_def resolve_OhMyOpenCodeConfig_def)
qed

end
