(* ===== verification/Config_Watcher.thy ===== *)
theory Config_Watcher
  imports Config_Parser
begin

text \<open>
  Models \<open>internal/config/watcher.go\<close>: the workflow file is parsed again 100 ms after the last event on
  it. A reload runs in the goroutine of its timer and is split where others can run: it parses, sleeps when
  the file is missing and parses again, and stores. Stopping a timer does not stop a reload under way.
  The list of a run holds what \<open>os.ReadFile\<close> gave to each parse.
\<close>

datatype reload = Started | Sleeping | Loaded "WorkflowConfig option"

record Watcher =
  wa_filePath :: string
  wa_config :: "WorkflowConfig option"
  wa_debounceTimer :: "time option"
  wa_reloads :: "reload list"
  wa_stopped :: bool

text \<open>What a parse of the file sees.\<close>

record file_world =
  fw_yaml :: yaml_lib
  fw_getenv :: "string \<Rightarrow> string"

definition parse_file :: "file_world \<Rightarrow> string \<Rightarrow> string result \<Rightarrow> WorkflowConfig option \<times> go_error option" where
  "parse_file f path content = ParseWorkflow (fw_yaml f) (fw_getenv f) (\<lambda>_. content) path"

definition NewWatcher :: "file_world \<Rightarrow> string \<Rightarrow> string result \<Rightarrow> go_error option \<Rightarrow> Watcher result" where
  "NewWatcher f path content fsnotify = (case parse_file f path content of
     (_, Some err) \<Rightarrow> Inl err
   | (cfg, None) \<Rightarrow>
      (case fsnotify of
         Some err \<Rightarrow> Inl err
       | None \<Rightarrow> Inr \<lparr>wa_filePath = path, wa_config = cfg, wa_debounceTimer = None, wa_reloads = [], wa_stopped = False\<rparr>))"

definition debounce :: duration where
  "debounce = 100 * millisecond_ns"

definition scheduleReload :: "time \<Rightarrow> Watcher \<Rightarrow> Watcher" where
  "scheduleReload now w = w\<lparr>wa_debounceTimer := Some (now + debounce)\<rparr>"

text \<open>The operations of an event; \<open>Chmod\<close> is the one that is not looked at.\<close>

datatype fs_op = OpCreate | OpWrite | OpRemove | OpRename | OpChmod

definition handleEvent :: "(string \<Rightarrow> string result) \<Rightarrow> string \<Rightarrow> fs_op list \<Rightarrow> time \<Rightarrow> Watcher \<Rightarrow> Watcher" where
  "handleEvent absolute name ops now w = (case (absolute name, absolute (wa_filePath w)) of
     (Inr eventPath, Inr watchPath) \<Rightarrow>
       if eventPath \<noteq> watchPath then w
       else if OpWrite \<notin> set ops \<and> OpCreate \<notin> set ops \<and> OpRename \<notin> set ops \<and> OpRemove \<notin> set ops then w
       else scheduleReload now w
   | _ \<Rightarrow> w)"

text \<open>
  The two halves of \<open>reloadWithRetry\<close>: \<open>exists\<close> is the answer of \<open>fileExists\<close> after a failed parse. A
  reload without a successor has only logged its error.
\<close>

definition loaded :: "WorkflowConfig option \<times> go_error option \<Rightarrow> reload option" where
  "loaded r = (case r of (_, Some err) \<Rightarrow> None | (cfg, None) \<Rightarrow> Some (Loaded cfg))"

definition first_parse :: "file_world \<Rightarrow> string \<Rightarrow> string result \<Rightarrow> bool \<Rightarrow> reload option" where
  "first_parse f path content exists =
     (let r = parse_file f path content in
      if snd r \<noteq> None \<and> \<not> exists then Some Sleeping else loaded r)"

definition second_parse :: "file_world \<Rightarrow> string \<Rightarrow> string result \<Rightarrow> reload option" where
  "second_parse f path content = loaded (parse_file f path content)"

definition Stop :: "Watcher \<Rightarrow> Watcher" where
  "Stop w = (if wa_stopped w then w else w\<lparr>wa_stopped := True, wa_debounceTimer := None\<rparr>)"

definition set_reload :: "nat \<Rightarrow> reload option \<Rightarrow> Watcher \<Rightarrow> Watcher" where
  "set_reload k r w = w\<lparr>wa_reloads := take k (wa_reloads w) @ (case r of None \<Rightarrow> [] | Some x \<Rightarrow> [x]) @ drop (Suc k) (wa_reloads w)\<rparr>"

text \<open>
  A run of the watcher. An event that \<open>Watch\<close> has received can still be handled after \<open>Stop\<close>, so the
  rule for events does not ask.
\<close>

inductive watch_reach :: "file_world \<Rightarrow> string result list \<Rightarrow> Watcher \<Rightarrow> bool" for f where
  start: "NewWatcher f path content fsnotify = Inr w \<Longrightarrow> watch_reach f [content] w"
| event: "watch_reach f cs w \<Longrightarrow> watch_reach f cs (handleEvent absolute name ops now w)"
| fire: "watch_reach f cs w \<Longrightarrow> wa_debounceTimer w = Some due \<Longrightarrow> due \<le> now \<Longrightarrow>
    watch_reach f cs (w\<lparr>wa_debounceTimer := None, wa_reloads := wa_reloads w @ [Started]\<rparr>)"
| parse: "watch_reach f cs w \<Longrightarrow> k < length (wa_reloads w) \<Longrightarrow> wa_reloads w ! k = Started \<Longrightarrow>
    watch_reach f (cs @ [content]) (set_reload k (first_parse f (wa_filePath w) content exists) w)"
| retry: "watch_reach f cs w \<Longrightarrow> k < length (wa_reloads w) \<Longrightarrow> wa_reloads w ! k = Sleeping \<Longrightarrow>
    watch_reach f (cs @ [content]) (set_reload k (second_parse f (wa_filePath w) content) w)"
| store: "watch_reach f cs w \<Longrightarrow> k < length (wa_reloads w) \<Longrightarrow> wa_reloads w ! k = Loaded cfg \<Longrightarrow>
    watch_reach f cs (set_reload k None w\<lparr>wa_config := cfg\<rparr>)"
| stop: "watch_reach f cs w \<Longrightarrow> watch_reach f cs (Stop w)"

definition GetConfig :: "Watcher \<Rightarrow> WorkflowConfig option" where
  "GetConfig w = wa_config w"

section \<open>What the watcher holds\<close>

definition parsed_from :: "file_world \<Rightarrow> string result list \<Rightarrow> string \<Rightarrow> WorkflowConfig option \<Rightarrow> bool" where
  "parsed_from f cs path cfg \<longleftrightarrow> (\<exists>content \<in> set cs. parse_file f path content = (cfg, None))"

definition watch_inv :: "file_world \<Rightarrow> string result list \<Rightarrow> Watcher \<Rightarrow> bool" where
  "watch_inv f cs w \<longleftrightarrow> parsed_from f cs (wa_filePath w) (wa_config w) \<and>
     (\<forall>cfg. Loaded cfg \<in> set (wa_reloads w) \<longrightarrow> parsed_from f cs (wa_filePath w) cfg)"

lemma parsed_from_mono: "parsed_from f cs p c \<Longrightarrow> parsed_from f (cs @ [x]) p c"
  by (auto simp: parsed_from_def)

lemma loaded_parsed: "loaded (parse_file f p x) = Some (Loaded c) \<Longrightarrow> parsed_from f (cs @ [x]) p c"
  by (auto simp: loaded_def parsed_from_def split: prod.splits option.splits)

lemma set_reload_simps [simp]:
  "wa_filePath (set_reload k r w) = wa_filePath w" "wa_config (set_reload k r w) = wa_config w"
  by (simp_all add: set_reload_def)

lemma set_reload_members: "x \<in> set (wa_reloads (set_reload k r w)) \<Longrightarrow> r = Some x \<or> x \<in> set (wa_reloads w)"
  by (auto simp: set_reload_def dest: in_set_takeD in_set_dropD split: option.splits)

lemma parse_inv:
  assumes "watch_inv f cs w" and "\<And>c. r = Some (Loaded c) \<Longrightarrow> parsed_from f (cs @ [x]) (wa_filePath w) c"
  shows "watch_inv f (cs @ [x]) (set_reload k r w)"
  using assms set_reload_members by (fastforce simp: watch_inv_def intro: parsed_from_mono)

lemma handleEvent_keeps [simp]:
  "wa_filePath (handleEvent absolute name ops now w) = wa_filePath w"
  "wa_config (handleEvent absolute name ops now w) = wa_config w"
  "wa_reloads (handleEvent absolute name ops now w) = wa_reloads w"
  by (auto simp: handleEvent_def scheduleReload_def split: sum.splits)

lemma watch_reach_inv: "watch_reach f cs w \<Longrightarrow> watch_inv f cs w"
proof (induction rule: watch_reach.induct)
  case (start path content fsnotify w)
  then show ?case
    by (auto simp: NewWatcher_def watch_inv_def parsed_from_def split: prod.splits option.splits)
next
  case (parse cs w k content exists)
  have "parsed_from f (cs @ [content]) (wa_filePath w) c"
    if "first_parse f (wa_filePath w) content exists = Some (Loaded c)" for c
    using that loaded_parsed by (auto simp: first_parse_def Let_def split: if_splits)
  then show ?case by (rule parse_inv [OF parse.IH])
next
  case (retry cs w k content)
  then show ?case using loaded_parsed by (auto simp: second_parse_def intro!: parse_inv)
next
  case (store cs w k cfg)
  then have "Loaded cfg \<in> set (wa_reloads w)" by (metis nth_mem)
  with store.IH show ?case using set_reload_members by (fastforce simp: watch_inv_def)
qed (auto simp: watch_inv_def Stop_def)

text \<open>A configuration that \<open>ParseWorkflow\<close> returns without an error has passed the check of the Linear mode.\<close>

lemma ParseWorkflow_valid:
  assumes "ParseWorkflow ym getenv read path = (cfg, None)"
  shows "cfg \<noteq> None \<and> validateLinearConfig cfg = None"
proof -
  have base: "validateLinearConfig (Some (zero_WorkflowConfig\<lparr>cf_PromptTemplate := t\<rparr>)) = None" for t
    by (simp add: validateLinearConfig_def LinearSyncCommentsEnabled_def zero_WorkflowConfig_def
        zero_LinearConfigSection_def zero_LinearSyncCommentsConfig_def)
  show ?thesis
    using assms base
    by (auto simp: ParseWorkflow_def Let_def split: sum.splits prod.splits if_splits bool.splits option.splits)
qed

end
