(* ===== verification/Config_Props.thy ===== *)
theory Config_Props
  imports Config_Views Config_Watcher
begin

text \<open>
  The properties of the configuration: every tunable that is read is in range; \<open>Resolve\<close> is the layering
  of the views and fails exactly on an undefined name, a doubly given agent or a prompt that does not load;
  front matter comes back as it was written; a watcher holds the result of a successful parse.
\<close>

section \<open>Ranges\<close>

lemma positive_or_pos: "0 < d \<Longrightarrow> 0 < positive_or d f c"
  by (cases c) (simp_all add: positive_or_def)

lemma nonempty_or_nonempty: "d \<noteq> [] \<Longrightarrow> nonempty_or d f c \<noteq> []"
  by (cases c) (simp_all add: nonempty_or_def)

lemmas count_getters =
  MaxConcurrency_def TeamMaxWorkers_def TeamMaxFixLoops_def TeamClaimLeaseSeconds_def
  MaxRetryBackoffMs_def AgentTimeoutMs_def StallTimeoutMs_def PollingIntervalMs_def
  LinearSyncCommentsQueueSize_def LinearSyncCommentsPollIntervalMs_def

text \<open>The longest interval in milliseconds whose nanoseconds fit into a \<open>time.Duration\<close>.\<close>

definition max_interval_ms :: int where
  "max_interval_ms = 9223372036854"

lemma positive_ms_or_pos:
  assumes "0 < d" "d \<le> max_interval_ms" "f c \<le> max_interval_ms"
  shows "0 < positive_ms_or d f (Some c)"
  using assms by (auto simp: positive_ms_or_def duration_of_def millisecond_ns_def max_interval_ms_def in_int64_def)

lemma positive_ms_or_wraps:
  assumes "f c = max_interval_ms + 1"
  shows "positive_ms_or d f (Some c) < 0"
  using assms by (simp add: positive_ms_or_def duration_of_def millisecond_ns_def max_interval_ms_def wrap64_def)

text \<open>
  Whatever the configuration, and without one, the counts and intervals that the program reads are
  positive and the kind of tracker and agent is not empty. An interval in milliseconds is converted by a
  64-bit product: up to about 292 years the result is positive; one millisecond more makes it negative,
  and \<open>time.NewTicker\<close>, which gets the heartbeat interval of a team, panics on such a value.
\<close>

theorem config_bounds:
  "0 < MaxConcurrency c \<and> 0 < PollIntervalMs c \<and> 0 < TeamMaxWorkers c \<and> 0 < TeamMaxFixLoops c \<and>
   0 < TeamClaimLeaseSeconds c \<and> 0 < MaxRetryBackoffMs c \<and> 0 < AgentTimeoutMs c \<and> 0 < StallTimeoutMs c \<and>
   0 < LinearSyncCommentsQueueSize c \<and> TrackerType c \<noteq> [] \<and> AgentType c \<noteq> [] \<and>
   (cs_HeartbeatIntervalMsRaw (cf_Team k) \<le> max_interval_ms \<longrightarrow> 0 < TeamHeartbeatInterval (Some k)) \<and>
   (cs_HeartbeatIntervalMsRaw (cf_Team k) = max_interval_ms + 1 \<longrightarrow> TeamHeartbeatInterval (Some k) < 0)"
proof -
  have "0 < PollIntervalMs c" by (cases c) (simp_all add: PollIntervalMs_def config_defaults)
  then show ?thesis
    by (auto simp: count_getters config_defaults TrackerType_def AgentType_def TeamHeartbeatInterval_def
        intro!: positive_or_pos positive_ms_or_pos positive_ms_or_wraps dest: nonempty_or_nonempty [rotated])
       (auto simp: max_interval_ms_def nonempty_or_def split: option.splits if_splits)
qed

definition with_heartbeat :: "int \<Rightarrow> WorkflowConfig" where
  "with_heartbeat ms = zero_WorkflowConfig\<lparr>cf_Team := zero_TeamSectionConfig\<lparr>cs_HeartbeatIntervalMsRaw := ms\<rparr>\<rparr>"

theorem config_bounds_witness:
  "0 < TeamHeartbeatInterval (Some (with_heartbeat max_interval_ms)) \<and>
   TeamHeartbeatInterval (Some (with_heartbeat (max_interval_ms + 1))) < 0"
  using config_bounds [of None "with_heartbeat max_interval_ms"] config_bounds [of None "with_heartbeat (max_interval_ms + 1)"]
  by (simp add: with_heartbeat_def)

text \<open>The two readings of the Linear mode agree where the mode is valid and replies are supported.\<close>

lemma modes_agree:
  "ValidateLinearSyncCommentsMode c = None \<Longrightarrow>
   LinearSyncCommentsEffectiveMode c True = Inr (LinearSyncCommentsMode c)"
  by (cases c)
     (auto simp: ValidateLinearSyncCommentsMode_def LinearSyncCommentsEffectiveMode_def LinearSyncCommentsMode_def
        Let_def split: if_splits)

section \<open>Resolving a preset\<close>

definition chosen_tracker :: "RootConfig \<Rightarrow> PresetConfig \<Rightarrow> TrackerTemplate option" where
  "chosen_tracker rc p = (if pc_Tracker p = [] then None else map_of (elems (rc_Trackers rc)) (pc_Tracker p))"

definition chosen_agent :: "RootConfig \<Rightarrow> PresetConfig \<Rightarrow> AgentTemplate option" where
  "chosen_agent rc p = (if pc_AgentRef p = [] then pc_Agent p else map_of (elems (rc_Agents rc)) (pc_AgentRef p))"

text \<open>The names a preset uses are defined, and it does not give its agent twice.\<close>

definition names_defined :: "RootConfig \<Rightarrow> PresetConfig \<Rightarrow> bool" where
  "names_defined rc p \<longleftrightarrow> (pc_Tracker p = [] \<or> chosen_tracker rc p \<noteq> None) \<and>
     (pc_AgentRef p = [] \<or> pc_Agent p = None \<and> chosen_agent rc p \<noteq> None)"

definition prompt_of :: "(string \<Rightarrow> string result) \<Rightarrow> (string \<Rightarrow> string result) option \<Rightarrow> PresetConfig \<Rightarrow> string result" where
  "prompt_of read loader p =
     (if pc_PromptRef p = [] then Inr []
      else (case loader of None \<Rightarrow> FilePromptLoader_Load read ''.'' | Some l \<Rightarrow> l) (pc_PromptRef p))"

definition with_tracker :: "TrackerTemplate option \<Rightarrow> WorkflowConfig \<Rightarrow> WorkflowConfig" where
  "with_tracker t c = (case t of None \<Rightarrow> c | Some t \<Rightarrow> c\<lparr>cf_Tracker := mergeTrackerTemplate (cf_Tracker c) t\<rparr>)"

definition with_agent :: "AgentTemplate option \<Rightarrow> WorkflowConfig \<Rightarrow> WorkflowConfig" where
  "with_agent t c = (case t of None \<Rightarrow> c | Some t \<Rightarrow> mergeAgentTemplate c t)"

definition layered :: "RootConfig \<Rightarrow> PresetConfig \<Rightarrow> WorkflowConfig" where
  "layered rc p = mergePresetOverrides
     (with_agent (chosen_agent rc p) (with_tracker (chosen_tracker rc p) (workflowConfigFromDefaults (rc_Defaults rc)))) p"

lemma layered_prompt: "cf_PromptTemplate (layered rc p) = []"
  by (simp add: layered_def with_agent_def with_tracker_def mergePresetOverrides_def mergeAgentTemplate_def
      workflowConfigFromDefaults_def zero_WorkflowConfig_def split: option.splits)

lemma case_Inr_iff: "(case x of Inl e \<Rightarrow> Inl e | Inr r \<Rightarrow> f r) = Inr c \<longleftrightarrow> (\<exists>r. x = Inr r \<and> f r = Inr c)"
  by (cases x) simp_all

lemma tracker_layer_Inr:
  "tracker_layer rc name p c = Inr c' \<longleftrightarrow>
   (pc_Tracker p = [] \<or> chosen_tracker rc p \<noteq> None) \<and> c' = with_tracker (chosen_tracker rc p) c"
  by (auto simp: tracker_layer_def chosen_tracker_def with_tracker_def split: option.splits)

lemma agent_layer_Inr:
  "agent_layer rc name p c = Inr c' \<longleftrightarrow>
   (pc_AgentRef p = [] \<or> chosen_agent rc p \<noteq> None) \<and> c' = with_agent (chosen_agent rc p) c"
  by (auto simp: agent_layer_def chosen_agent_def with_agent_def split: option.splits)

lemma prompt_layer_Inr:
  "cf_PromptTemplate c = [] \<Longrightarrow>
   prompt_layer (case loader of None \<Rightarrow> FilePromptLoader_Load read ''.'' | Some l \<Rightarrow> l) name p c = Inr c' \<longleftrightarrow>
   (\<exists>body. prompt_of read loader p = Inr body \<and> c' = c\<lparr>cf_PromptTemplate := body\<rparr>)"
  by (auto simp: prompt_layer_def prompt_of_def split: sum.splits)

lemma Resolve_eq:
  assumes "map_of (elems (rc_Presets rc)) name = Some p"
  shows "Resolve getenv read (Some rc) name loader = Inr c \<longleftrightarrow>
      names_defined rc p \<and> (\<exists>body. prompt_of read loader p = Inr body \<and>
        c = resolve_WorkflowConfig getenv (layered rc p\<lparr>cf_PromptTemplate := body\<rparr>))"
proof -
  have present: "rc_Presets rc \<noteq> None" using assms by (cases "rc_Presets rc") (auto simp: elems_def)
  show ?thesis
  proof (cases "pc_AgentRef p \<noteq> [] \<and> pc_Agent p \<noteq> None")
    case True
    with assms present show ?thesis by (auto simp: Resolve_def Let_def names_defined_def)
  next
    case False
    with assms present have "Resolve getenv read (Some rc) name loader = Inr c \<longleftrightarrow>
        (pc_Tracker p = [] \<or> chosen_tracker rc p \<noteq> None) \<and> (pc_AgentRef p = [] \<or> chosen_agent rc p \<noteq> None) \<and>
        (\<exists>r. prompt_layer (case loader of None \<Rightarrow> FilePromptLoader_Load read ''.'' | Some l \<Rightarrow> l) name p (layered rc p) = Inr r \<and>
          c = resolve_WorkflowConfig getenv r)"
      unfolding Resolve_def Let_def layered_def by (auto simp: case_Inr_iff tracker_layer_Inr agent_layer_Inr)
    with False show ?thesis
      by (auto simp: names_defined_def prompt_layer_Inr [OF layered_prompt])
  qed
qed

text \<open>Maps of a document have one entry per key.\<close>

definition root_ok :: "RootConfig \<Rightarrow> bool" where
  "root_ok rc \<longleftrightarrow> list_all (\<lambda>(n, t). models_ok (at_OhMyOpenCode t)) (elems (rc_Agents rc)) \<and>
     list_all (\<lambda>(n, p). pred_option (models_ok \<circ> at_OhMyOpenCode) (pc_Agent p) \<and>
       pred_option models_ok (pc_OhMyOpenCode p)) (elems (rc_Presets rc))"

definition layer :: "('t \<Rightarrow> path \<Rightarrow> cfg_value option) \<Rightarrow> 't option \<Rightarrow> path \<Rightarrow> cfg_value option" where
  "layer f t = (case t of None \<Rightarrow> Map.empty | Some t \<Rightarrow> f t)"

text \<open>The specification: the layers in order, the later one winning, and then the environment once.\<close>

definition resolved_view :: "(string \<Rightarrow> string) \<Rightarrow> RootConfig \<Rightarrow> PresetConfig \<Rightarrow> path \<Rightarrow> cfg_value option" where
  "resolved_view getenv rc p = env_view getenv
     (defaults_view (rc_Defaults rc) ++ layer tracker_view (chosen_tracker rc p) ++
      layer agent_view (chosen_agent rc p) ++ preset_view p)"

lemma view_layered:
  assumes "pred_option (models_ok \<circ> at_OhMyOpenCode) (chosen_agent rc p)" "pred_option models_ok (pc_OhMyOpenCode p)"
  shows "view (layered rc p) = defaults_view (rc_Defaults rc) ++ layer tracker_view (chosen_tracker rc p) ++
      layer agent_view (chosen_agent rc p) ++ preset_view p"
  using assms
  by (cases "chosen_tracker rc p"; cases "chosen_agent rc p")
     (simp_all add: layered_def with_agent_def with_tracker_def layer_def view_preset_layer view_agent_layer view_tracker_layer view_defaults)

lemma view_prompt [simp]: "view (c\<lparr>cf_PromptTemplate := b\<rparr>) = view c"
proof
  fix q
  have "section_fields (c\<lparr>cf_PromptTemplate := b\<rparr>) s = section_fields c s" for s
    by (cases s) (simp_all add: top_fields_def)
  then show "view (c\<lparr>cf_PromptTemplate := b\<rparr>) q = view c q"
    by (cases q) simp_all
qed

lemma resolved_prompt [simp]: "cf_PromptTemplate (resolve_WorkflowConfig getenv c) = cf_PromptTemplate c"
  by (simp add: resolve_WorkflowConfig_def)

lemma root_ok_chosen:
  assumes "root_ok rc" "map_of (elems (rc_Presets rc)) name = Some p"
  shows "pred_option (models_ok \<circ> at_OhMyOpenCode) (chosen_agent rc p) \<and> pred_option models_ok (pc_OhMyOpenCode p)"
  using assms map_of_SomeD [OF assms(2)] map_of_SomeD [of "elems (rc_Agents rc)" "pc_AgentRef p"]
  by (cases "map_of (elems (rc_Agents rc)) (pc_AgentRef p)")
     (auto simp: root_ok_def chosen_agent_def list_all_iff)

text \<open>
  C10. What \<open>Resolve\<close> returns for a preset is the layering that the package documents: for every field of
  the document the value of the last of defaults, tracker, agent and preset that sets it, an explicit zero
  or empty value included, maps of models merged by key; then every plain string field that is one
  environment reference is replaced once. The prompt is the loaded one, with its references left alone.
\<close>

theorem resolve_layers:
  assumes "root_ok rc" and "map_of (elems (rc_Presets rc)) name = Some p"
    and "Resolve getenv read (Some rc) name loader = Inr c"
  shows "view c = resolved_view getenv rc p \<and> prompt_of read loader p = Inr (cf_PromptTemplate c)"
proof -
  obtain body where body: "prompt_of read loader p = Inr body"
      and c: "c = resolve_WorkflowConfig getenv (layered rc p\<lparr>cf_PromptTemplate := body\<rparr>)"
    using assms(3) Resolve_eq [OF assms(2)] by blast
  have "view (layered rc p) = defaults_view (rc_Defaults rc) ++ layer tracker_view (chosen_tracker rc p) ++
      layer agent_view (chosen_agent rc p) ++ preset_view p"
    using root_ok_chosen [OF assms(1, 2)] view_layered by blast
  then show ?thesis using body c by (simp add: view_env resolved_view_def)
qed

definition empty_defaults :: WorkflowDefaults where
  "empty_defaults = \<lparr>wd_MaxConcurrencyRaw = 5, wd_PollIntervalMsRaw = 0, wd_MaxRetryBackoffMsRaw = 0, wd_ModelRaw = ''$MODEL'',
     wd_AgentTimeoutMsRaw = 0, wd_StallTimeoutMsRaw = 0, wd_Polling = zero_PollingConfig, wd_Workspace = zero_WorkspaceConfig,
     wd_Hooks = zero_HooksConfig, wd_Codex = zero_CodexConfig, wd_Agent = zero_AgentConfig, wd_OpenCode = zero_OpenCodeConfig,
     wd_OMX = zero_OMXConfig, wd_OMC = zero_OMCConfig, wd_Linear = zero_LinearConfigSection,
     wd_OhMyOpenCode = zero_OhMyOpenCodeConfig, wd_Team = zero_TeamSectionConfig, wd_Timeline = zero_TimelineConfig,
     wd_Web = zero_WebConfig\<rparr>"

definition empty_preset :: PresetConfig where
  "empty_preset = \<lparr>pc_Tracker = [], pc_AgentRef = [], pc_Agent = None, pc_PromptRef = [], pc_MaxConcurrencyRaw = None,
     pc_PollIntervalMsRaw = None, pc_MaxRetryBackoffMsRaw = None, pc_AgentTimeoutMsRaw = None, pc_StallTimeoutMsRaw = None,
     pc_ModelRaw = None, pc_Workspace = None, pc_Hooks = None, pc_Linear = None, pc_Team = None, pc_Web = None,
     pc_Codex = None, pc_OpenCode = None, pc_OMX = None, pc_OMC = None, pc_OhMyOpenCode = None\<rparr>"

definition linear_template :: TrackerTemplate where
  "linear_template = \<lparr>tt_Type = Some ''linear'', tt_ProjectURL = None, tt_TeamID = Some ''$TEAM'', tt_AssigneeID = None,
     tt_BoardDir = None, tt_IssuePrefix = None, tt_Owner = None, tt_Repo = None, tt_Labels = None, tt_Assignee = None,
     tt_Token = None, tt_Endpoint = None, tt_HTTPTimeoutMsRaw = None, tt_MainRefRaw = None,
     tt_AutoCloseAlreadyImplementedRaw = None\<rparr>"

definition sample_preset :: PresetConfig where
  "sample_preset = empty_preset\<lparr>pc_Tracker := ''lin'', pc_MaxConcurrencyRaw := Some 0,
     pc_Linear := Some \<lparr>tl_IssueDetails = None,
       tl_SyncComments = Some \<lparr>ts_Enabled = Some True, ts_Mode = Some ''threads'', ts_QueueSize = None, ts_PollIntervalMs = None\<rparr>\<rparr>\<rparr>"

definition sample_root :: RootConfig where
  "sample_root = \<lparr>rc_Defaults = empty_defaults, rc_Trackers = Some [(''lin'', linear_template)], rc_Agents = None,
     rc_Presets = Some [(''p'', sample_preset)]\<rparr>"

definition sample_getenv :: "string \<Rightarrow> string" where
  "sample_getenv n = (if n = ''MODEL'' then ''$OTHER'' else if n = ''TEAM'' then ''ops'' else [])"

lemma sample_presets: "map_of (elems (rc_Presets sample_root)) ''p'' = Some sample_preset"
  by (simp add: sample_root_def elems_def)

lemma sample_root_ok: "root_ok sample_root"
  by (simp add: root_ok_def sample_root_def elems_def sample_preset_def empty_preset_def)

lemma sample_resolves:
  obtains c where "Resolve sample_getenv read (Some sample_root) ''p'' None = Inr c"
proof -
  have "names_defined sample_root sample_preset \<and> (\<exists>body. prompt_of read None sample_preset = Inr body)"
    by (simp add: names_defined_def prompt_of_def chosen_tracker_def sample_preset_def empty_preset_def sample_root_def elems_def)
  with Resolve_eq [OF sample_presets] that show ?thesis by blast
qed

lemma sample_variables:
  "resolve_string sample_getenv ''$MODEL'' = ''$OTHER''" "resolve_string sample_getenv ''$TEAM'' = ''ops''"
  "resolve_string sample_getenv ''linear'' = ''linear''" "resolve_string sample_getenv ''threads'' = ''threads''"
  by (simp_all add: resolve_string_def resolveEnvToken_def has_prefix_def is_alpha_def is_alnum_def sample_getenv_def)

lemma sample_choices: "chosen_tracker sample_root sample_preset = Some linear_template" "chosen_agent sample_root sample_preset = None"
  by (simp_all add: chosen_tracker_def chosen_agent_def sample_root_def sample_preset_def empty_preset_def elems_def)

lemma layer_at: "(f ++ g) x = (case g x of None \<Rightarrow> f x | Some y \<Rightarrow> Some y)"
  by (simp add: map_add_def)

lemma sample_config_view:
  "resolved_view sample_getenv sample_root sample_preset (Field STop ''max_concurrency'') = Some (VInt 0)"
  "resolved_view sample_getenv sample_root sample_preset (Field STop ''model'') = Some (VStr ''$OTHER'')"
  "resolved_view sample_getenv sample_root sample_preset (Field STracker ''team_id'') = Some (VStr ''ops'')"
proof -
  have top: "sets (top_tfields sample_preset) ''max_concurrency'' = Some (VInt 0)" "sets (top_tfields sample_preset) ''model'' = None"
    by (simp_all add: sets_def top_tfields_def sample_preset_def empty_preset_def)
  have team: "sets (tracker_tfields linear_template) ''team_id'' = Some (VStr ''$TEAM'')"
    by (simp add: sets_def tracker_tfields_def linear_template_def)
  have model: "map_of (top_dfields (rc_Defaults sample_root)) ''model'' = Some (VStr ''$MODEL'')"
    by (simp add: top_dfields_def sample_root_def empty_defaults_def)
  show "resolved_view sample_getenv sample_root sample_preset (Field STop ''max_concurrency'') = Some (VInt 0)"
    "resolved_view sample_getenv sample_root sample_preset (Field STop ''model'') = Some (VStr ''$OTHER'')"
    "resolved_view sample_getenv sample_root sample_preset (Field STracker ''team_id'') = Some (VStr ''ops'')"
    by (simp_all add: resolved_view_def layer_at layer_def sample_choices top team model sample_variables)
qed

text \<open>The explicit zero wins over the default, the value of a variable is not resolved again.\<close>

theorem resolve_layers_witness:
  "\<exists>c. Resolve sample_getenv (\<lambda>_. Inr []) (Some sample_root) ''p'' None = Inr c \<and>
     view c (Field STop ''max_concurrency'') = Some (VInt 0) \<and>
     view c (Field STop ''model'') = Some (VStr ''$OTHER'') \<and>
     view c (Field STracker ''team_id'') = Some (VStr ''ops'')"
proof -
  obtain c where c: "Resolve sample_getenv (\<lambda>_. Inr []) (Some sample_root) ''p'' None = Inr c" by (rule sample_resolves)
  then show ?thesis using resolve_layers [OF sample_root_ok sample_presets c] sample_config_view by (intro exI [of _ c]) simp
qed

text \<open>
  \<open>Resolve\<close> fails exactly when there is no document, no preset of that name, a tracker or agent name
  that is not defined, an agent given both by name and inline, or a prompt that does not load.
\<close>

theorem Resolve_succeeds_iff:
  "(\<exists>c. Resolve getenv read root name loader = Inr c) \<longleftrightarrow>
   (\<exists>rc p body. root = Some rc \<and> map_of (elems (rc_Presets rc)) name = Some p \<and> names_defined rc p \<and>
      prompt_of read loader p = Inr body)"
proof (cases root)
  case (Some rc)
  show ?thesis
  proof (cases "map_of (elems (rc_Presets rc)) name")
    case None
    with Some show ?thesis by (auto simp: Resolve_def Let_def)
  next
    case p: (Some p)
    with Some show ?thesis using Resolve_eq [OF p] by auto
  qed
qed (simp add: Resolve_def)

text \<open>
  \<open>Resolve\<close> does not check the Linear mode, as \<open>ParseWorkflow\<close> does: a composed configuration with a
  misspelt mode is returned without an error.
\<close>

lemma resolve_skips_mode_check:
  "\<exists>c. Resolve sample_getenv (\<lambda>_. Inr []) (Some sample_root) ''p'' None = Inr c \<and> validateLinearConfig (Some c) \<noteq> None"
proof -
  obtain c where c: "Resolve sample_getenv (\<lambda>_. Inr []) (Some sample_root) ''p'' None = Inr c" by (rule sample_resolves)
  have "c = resolve_WorkflowConfig sample_getenv (layered sample_root sample_preset\<lparr>cf_PromptTemplate := []\<rparr>)"
    using c Resolve_eq [OF sample_presets] by (auto simp: prompt_of_def sample_preset_def empty_preset_def)
  then have "ct_Type (cf_Tracker c) = ''linear''" "lc_Enabled (ls_SyncComments (cf_Linear c))" "sync_mode c = ''threads''"
    by (simp_all add: layered_def with_agent_def with_tracker_def chosen_tracker_def chosen_agent_def mergePresetOverrides_def merge_block_def
        merge_linear_def merge_sync_comments_def overlay_def mergeTrackerTemplate_def workflowConfigFromDefaults_def
        zero_WorkflowConfig_def sample_root_def sample_preset_def empty_preset_def linear_template_def elems_def
        walk_defs resolve_WorkflowConfig_def sync_mode_def sample_variables)
  moreover have "to_lower ''threads'' = ''threads''" "trim_space ''threads'' = ''threads''" "trim_space ''linear'' = ''linear''"
    by (simp_all add: to_lower_def char_lower_def trim_space_def is_space_def)
  ultimately have "validateLinearConfig (Some c) \<noteq> None"
    by (simp add: validateLinearConfig_def LinearSyncCommentsEnabled_def TrackerType_def nonempty_or_def equal_fold_def
        ValidateLinearSyncCommentsMode_def LinearSyncCommentsEffectiveMode_def Let_def config_defaults)
  with c show ?thesis by blast
qed

section \<open>Front matter\<close>

lemma split_after_nonempty [simp]: "split_after s \<noteq> []"
  by (induction s) (auto split: list.splits)

lemma concat_split_after [simp]: "concat (split_after s) = s"
  by (induction s) (auto split: list.splits)

text \<open>A text that is empty or ends with a line feed.\<close>

definition ends_line :: "string \<Rightarrow> bool" where
  "ends_line s \<longleftrightarrow> s = [] \<or> last s = CHR 0x0A"

text \<open>The lines of a text whose last line is complete, with their line feeds.\<close>

definition full_lines :: "string \<Rightarrow> string list" where
  "full_lines s = butlast (split_after s)"

lemma split_after_pieces: "s \<noteq> [] \<Longrightarrow> last s = CHR 0x0A \<Longrightarrow> \<exists>l m ls. split_after s = l # m # ls"
  by (induction s) (auto split: list.splits if_splits)

lemma split_after_append: "ends_line s \<Longrightarrow> split_after (s @ t) = full_lines s @ split_after t"
proof (induction s)
  case (Cons c s)
  then have s: "ends_line s" by (auto simp: ends_line_def split: if_splits)
  show ?case
  proof (cases "c = CHR 0x0A")
    case True
    with Cons.IH [OF s] show ?thesis by (simp add: full_lines_def)
  next
    case False
    with Cons.prems have "s \<noteq> []" "last s = CHR 0x0A" by (auto simp: ends_line_def split: if_splits)
    then obtain l m ls where "split_after s = l # m # ls" using split_after_pieces by blast
    with Cons.IH [OF s] False show ?thesis by (simp add: full_lines_def)
  qed
qed (simp add: full_lines_def)

lemma concat_full_lines: "ends_line s \<Longrightarrow> concat (full_lines s) = s"
  using split_after_append [of s "[]"] concat_split_after [of s] by simp

lemma front_matter_loop_skip:
  "list_all (\<lambda>l. trim_line_end l \<noteq> ''---'') ls \<Longrightarrow>
   front_matter_loop r y n (ls @ ms) = front_matter_loop r (y @ concat ls) (n + length (concat ls)) ms"
  by (induction ls arbitrary: y n) (simp_all add: Let_def add.assoc)

definition fence :: string where
  "fence = ''---'' @ [CHR 0x0A]"

lemma front_matter_split:
  assumes "ends_line y" "list_all (\<lambda>l. trim_line_end l \<noteq> ''---'') (full_lines y)"
  shows "front_matter_loop (y @ fence @ prompt) [] 0 (split_after (y @ fence @ prompt)) = (y, prompt, True)"
proof -
  have "split_after (y @ fence @ prompt) = full_lines y @ fence # split_after prompt"
    by (simp add: split_after_append [OF assms(1)] fence_def)
  moreover have "trim_line_end fence = ''---''" by (simp add: trim_line_end_def fence_def)
  ultimately show ?thesis
    by (simp add: front_matter_loop_skip [OF assms(2)] concat_full_lines [OF assms(1)] Let_def)
qed

text \<open>
  A workflow file that is written as a fence, YAML whose lines are no fences, a fence and a prompt is
  split into exactly this YAML and this prompt, byte by byte.
\<close>

theorem front_matter_roundtrip:
  assumes "ends_line y" and "list_all (\<lambda>l. trim_line_end l \<noteq> ''---'') (full_lines y)"
  shows "splitFrontMatter (fence @ y @ fence @ prompt) = (y, prompt, True, True)"
  using front_matter_split [OF assms, of prompt]
  by (simp add: splitFrontMatter_def has_prefix_def fence_def)

theorem front_matter_roundtrip_witness:
  "splitFrontMatter (fence @ (''model: x'' @ [CHR 0x0A]) @ fence @ ''Fix --- it'') = (''model: x'' @ [CHR 0x0A], ''Fix --- it'', True, True)"
  by (rule front_matter_roundtrip) (simp_all add: ends_line_def full_lines_def trim_line_end_def)

section \<open>The watcher\<close>

text \<open>
  C23. Whatever happens to the file and in whatever order reloads run, also while it is stopped, the watcher
  hands out a configuration that some parse of the file returned without an error, and that has passed the
  check of the Linear mode: never a nil, a partial or an unterminated one.
\<close>

theorem watcher_keeps_good_config:
  assumes "watch_reach f contents w"
  shows "\<exists>cfg. GetConfig w = Some cfg \<and> validateLinearConfig (Some cfg) = None \<and>
    list_ex (\<lambda>content. parse_file f (wa_filePath w) content = (Some cfg, None)) contents"
proof -
  obtain content where content: "content \<in> set contents" "parse_file f (wa_filePath w) content = (wa_config w, None)"
    using watch_reach_inv [OF assms] by (auto simp: watch_inv_def parsed_from_def)
  then have valid: "wa_config w \<noteq> None \<and> validateLinearConfig (wa_config w) = None"
    by (metis parse_file_def ParseWorkflow_valid)
  with content show ?thesis by (cases "wa_config w") (auto simp: GetConfig_def list_ex_iff)
qed

text \<open>A file of white space, or without front matter, is a valid configuration: everything has its default.\<close>

lemma blank_file_parses: "parse_file f p (Inr []) = (Some zero_WorkflowConfig, None)"
proof -
  have "zero_WorkflowConfig\<lparr>cf_PromptTemplate := []\<rparr> = zero_WorkflowConfig" by (simp add: zero_WorkflowConfig_def)
  then show ?thesis
    by (simp add: parse_file_def ParseWorkflow_def splitFrontMatter_def has_prefix_def trim_space_def)
qed

definition plain_config :: "string \<Rightarrow> WorkflowConfig" where
  "plain_config prompt = zero_WorkflowConfig\<lparr>cf_PromptTemplate := prompt\<rparr>"

lemma plain_file_parses:
  "\<not> has_prefix s ''---'' \<Longrightarrow> parse_file f p (Inr s) = (Some (plain_config (trim_space s)), None)"
  by (simp add: parse_file_def ParseWorkflow_def splitFrontMatter_def plain_config_def)

lemma plain_samples:
  "parse_file f p (Inr ''old'') = (Some (plain_config ''old''), None)" "parse_file f p (Inr ''new'') = (Some (plain_config ''new''), None)"
  by (simp_all add: plain_file_parses has_prefix_def trim_space_def is_space_def)

definition started_watcher :: Watcher where
  "started_watcher = \<lparr>wa_filePath = ''W'', wa_config = Some (plain_config ''old''), wa_debounceTimer = None,
     wa_reloads = [], wa_stopped = False\<rparr>"

lemma started_reach: "watch_reach f [Inr ''old''] started_watcher"
  by (rule watch_reach.start [of f "''W''" _ None]) (simp add: NewWatcher_def plain_samples started_watcher_def)

text \<open>An event on the watched file, and then the firing of its timer.\<close>

lemma reload_started:
  assumes "watch_reach f cs w" "wa_debounceTimer w = None"
  shows "watch_reach f cs (w\<lparr>wa_reloads := wa_reloads w @ [Started]\<rparr>)"
proof -
  have ev: "handleEvent Inr (wa_filePath w) [OpWrite] 0 w = w\<lparr>wa_debounceTimer := Some debounce\<rparr>"
    by (simp add: handleEvent_def scheduleReload_def)
  from watch_reach.event [OF assms(1), of Inr "wa_filePath w" "[OpWrite]" 0]
  have "watch_reach f cs (w\<lparr>wa_debounceTimer := Some debounce\<rparr>)" by (simp add: ev)
  from watch_reach.fire [OF this, of debounce debounce] assms(2) show ?thesis by (cases w) simp
qed

text \<open>
  Two reloads may overlap, and the one that parsed first may store last: then the watcher ends with the
  older content although the newer one was read, and nothing is pending.
\<close>

lemma stale_reload_wins:
  "\<exists>w. watch_reach f [Inr ''old'', Inr ''old'', Inr ''new''] w \<and> wa_config w = Some (plain_config ''old'') \<and>
     wa_reloads w = [] \<and> wa_debounceTimer w = None"
proof -
  define loads where "loads = (\<lambda>xs cfg. started_watcher\<lparr>wa_reloads := xs, wa_config := Some (plain_config cfg)\<rparr>)"
  note sim = loads_def started_watcher_def set_reload_def first_parse_def loaded_def plain_samples
  have "watch_reach f [Inr ''old''] (loads [Started] ''old'')"
    using reload_started [OF started_reach] by (simp add: sim)
  then have "watch_reach f [Inr ''old'', Inr ''old''] (loads [Loaded (Some (plain_config ''old''))] ''old'')"
    using watch_reach.parse [of f "[Inr ''old'']" "loads [Started] ''old''" 0 "Inr ''old''" True] by (simp add: sim)
  then have "watch_reach f [Inr ''old'', Inr ''old''] (loads [Loaded (Some (plain_config ''old'')), Started] ''old'')"
    using reload_started [of f "[Inr ''old'', Inr ''old'']" "loads [Loaded (Some (plain_config ''old''))] ''old''"] by (simp add: sim)
  then have "watch_reach f [Inr ''old'', Inr ''old'', Inr ''new'']
      (loads [Loaded (Some (plain_config ''old'')), Loaded (Some (plain_config ''new''))] ''old'')"
    using watch_reach.parse [of f "[Inr ''old'', Inr ''old'']" "loads [Loaded (Some (plain_config ''old'')), Started] ''old''" 1 "Inr ''new''" True]
    by (simp add: sim)
  then have "watch_reach f [Inr ''old'', Inr ''old'', Inr ''new''] (loads [Loaded (Some (plain_config ''old''))] ''new'')"
    using watch_reach.store [of f "[Inr ''old'', Inr ''old'', Inr ''new'']"
        "loads [Loaded (Some (plain_config ''old'')), Loaded (Some (plain_config ''new''))] ''old''" 1]
    by (simp add: sim)
  then have "watch_reach f [Inr ''old'', Inr ''old'', Inr ''new''] (loads [] ''old'')"
    using watch_reach.store [of f "[Inr ''old'', Inr ''old'', Inr ''new'']" "loads [Loaded (Some (plain_config ''old''))] ''new''" 0]
    by (simp add: sim)
  then show ?thesis by (intro exI [of _ "loads [] ''old''"]) (simp add: loads_def started_watcher_def)
qed

definition sample_files :: file_world where
  "sample_files = \<lparr>fw_yaml = \<lparr>ym_is_map = (\<lambda>_. Inr True), ym_decode = (\<lambda>_ c. Inr c)\<rparr>, fw_getenv = sample_getenv\<rparr>"

theorem watcher_keeps_good_config_witness:
  "\<exists>w cfg. watch_reach sample_files [Inr ''old'', Inr ''old'', Inr ''new''] w \<and> GetConfig w = Some cfg \<and>
     validateLinearConfig (Some cfg) = None"
proof -
  obtain w where "watch_reach sample_files [Inr ''old'', Inr ''old'', Inr ''new''] w" using stale_reload_wins by blast
  then show ?thesis using watcher_keeps_good_config [of sample_files _ w] by blast
qed

end
