(* ===== verification/Team_Types.thy ===== *)
theory Team_Types
  imports Prelude
begin

text \<open>
  The data types of \<open>internal/types\<close> and \<open>internal/ipc\<close>: team phases and task states
  (string types in the source, hence a constructor for any other string), the orchestrator's
  issue states and run phases (integer types, hence a constructor for any other integer), and
  the structs that the components store, as records.
\<close>

section \<open>Team phases (types/team.go)\<close>

datatype TeamPhase =
    PhasePlan | PhasePRD | PhaseExec | PhaseVerify | PhaseFix
  | PhaseComplete | PhaseFailed | PhaseCancelled
  | PhaseOther string

fun phase_String :: "TeamPhase \<Rightarrow> string" where
  "phase_String PhasePlan = ''team-plan''"
| "phase_String PhasePRD = ''team-prd''"
| "phase_String PhaseExec = ''team-exec''"
| "phase_String PhaseVerify = ''team-verify''"
| "phase_String PhaseFix = ''team-fix''"
| "phase_String PhaseComplete = ''complete''"
| "phase_String PhaseFailed = ''failed''"
| "phase_String PhaseCancelled = ''cancelled''"
| "phase_String (PhaseOther s) = s"

fun IsTerminal :: "TeamPhase \<Rightarrow> bool" where
  "IsTerminal PhaseComplete = True"
| "IsTerminal PhaseFailed = True"
| "IsTerminal PhaseCancelled = True"
| "IsTerminal _ = False"

fun ValidTransitions :: "TeamPhase \<Rightarrow> TeamPhase list" where
  "ValidTransitions PhasePlan = [PhasePRD, PhaseCancelled]"
| "ValidTransitions PhasePRD = [PhaseExec, PhaseCancelled]"
| "ValidTransitions PhaseExec = [PhaseVerify, PhaseCancelled]"
| "ValidTransitions PhaseVerify = [PhaseFix, PhaseComplete, PhaseFailed, PhaseCancelled]"
| "ValidTransitions PhaseFix = [PhaseExec, PhaseVerify, PhaseComplete, PhaseFailed, PhaseCancelled]"
| "ValidTransitions _ = []"

lemma IsTerminal_no_transitions: "IsTerminal p \<Longrightarrow> ValidTransitions p = []"
  by (cases p) auto

section \<open>Tasks, messages, workers (types/team.go)\<close>

datatype TeamTaskStatus =
    TaskPending | TaskInProgress | TaskCompleted | TaskFailed | TaskOther string

fun task_status_string :: "TeamTaskStatus \<Rightarrow> string" where
  "task_status_string TaskPending = ''pending''"
| "task_status_string TaskInProgress = ''in_progress''"
| "task_status_string TaskCompleted = ''completed''"
| "task_status_string TaskFailed = ''failed''"
| "task_status_string (TaskOther s) = s"

datatype MailboxMessageStatus =
    MessagePending | MessageDelivered | MessageAcknowledged | MessageOther string

record TaskClaim =
  tc_WorkerID :: string
  tc_Token :: string
  tc_LeasedAt :: time
  tc_LeasedUntil :: time

record TeamTask =
  tt_ID :: string
  tt_Subject :: string
  tt_Description :: string
  tt_Status :: TeamTaskStatus
  tt_BlockedBy :: "string list"
  tt_DependsOn :: "string list"
  tt_Claim :: "TaskClaim option"
  tt_Version :: int
  tt_CreatedAt :: time
  tt_UpdatedAt :: time
  tt_Result :: string
  tt_FileOwnership :: "string list"

record WorkerState =
  ws_ID :: string
  ws_AgentType :: string
  ws_Status :: string
  ws_CurrentTask :: string
  ws_WorkDir :: string
  ws_PID :: int
  ws_StartedAt :: time
  ws_LastHeartbeat :: time

record MailboxMessage =
  mm_ID :: string
  mm_From :: string
  mm_To :: string
  mm_Content :: string
  mm_Timestamp :: time
  mm_Status :: MailboxMessageStatus

record PhaseTransition =
  pt_From :: TeamPhase
  pt_To :: TeamPhase
  pt_Reason :: string
  pt_Timestamp :: time

text \<open>
  \<open>Artifacts\<close> is a Go map; \<open>None\<close> is the nil map. The field is \<open>omitempty\<close>.
\<close>

record TeamPhaseState =
  ps_Phase :: TeamPhase
  ps_Artifacts :: "(string \<times> string) list option"
  ps_Transitions :: "PhaseTransition list"
  ps_FixLoopCount :: int

record TeamConfig =
  cf_MaxWorkers :: int
  cf_MaxFixLoops :: int
  cf_ClaimLeaseSeconds :: int
  cf_StateDir :: string
  cf_AgentType :: string
  cf_BoardIssueID :: string

record TeamManifest =
  tm_Name :: string
  tm_Workers :: "WorkerState list"
  tm_Config :: TeamConfig
  tm_CreatedAt :: time
  tm_UpdatedAt :: time

record FileOwnership =
  fo_Path :: string
  fo_WorkerID :: string
  fo_TaskID :: string
  fo_ClaimedAt :: time

section \<open>Dispatch entries and heartbeats (ipc/ipc.go)\<close>

record Heartbeat =
  hb_WorkerID :: string
  hb_PID :: int
  hb_CurrentTask :: string
  hb_Status :: string
  hb_Timestamp :: time

record DispatchEntry =
  de_TaskID :: string
  de_WorkerID :: string
  de_Prompt :: string
  de_DispatchedAt :: time
  de_AckedAt :: "time option"
  de_Status :: string

section \<open>Issue states and run phases (types/types.go)\<close>

datatype IssueState =
    Unclaimed | Claimed | Running | RetryQueued | Released | IssueOther int

datatype RunPhase =
    PreparingWorkspace | BuildingPrompt | LaunchingAgentProcess | InitializingSession
  | StreamingTurn | Finishing | Succeeded | Failed | TimedOut | Stalled
  | CanceledByReconciliation | RunOther int

fun issue_state_String :: "IssueState \<Rightarrow> string" where
  "issue_state_String Unclaimed = ''Unclaimed''"
| "issue_state_String Claimed = ''Claimed''"
| "issue_state_String Running = ''Running''"
| "issue_state_String RetryQueued = ''RetryQueued''"
| "issue_state_String Released = ''Released''"
| "issue_state_String (IssueOther n) = ''Unknown''"

fun run_phase_String :: "RunPhase \<Rightarrow> string" where
  "run_phase_String PreparingWorkspace = ''PreparingWorkspace''"
| "run_phase_String BuildingPrompt = ''BuildingPrompt''"
| "run_phase_String LaunchingAgentProcess = ''LaunchingAgentProcess''"
| "run_phase_String InitializingSession = ''InitializingSession''"
| "run_phase_String StreamingTurn = ''StreamingTurn''"
| "run_phase_String Finishing = ''Finishing''"
| "run_phase_String Succeeded = ''Succeeded''"
| "run_phase_String Failed = ''Failed''"
| "run_phase_String TimedOut = ''TimedOut''"
| "run_phase_String Stalled = ''Stalled''"
| "run_phase_String CanceledByReconciliation = ''CanceledByReconciliation''"
| "run_phase_String (RunOther n) = ''Unknown''"

fun Label :: "RunPhase \<Rightarrow> string" where
  "Label PreparingWorkspace = ''PreparingWorkspace''"
| "Label BuildingPrompt = ''PreparingWorkspace''"
| "Label LaunchingAgentProcess = ''RunningAgent''"
| "Label InitializingSession = ''RunningAgent''"
| "Label StreamingTurn = ''AgentRunning''"
| "Label Finishing = ''Releasing''"
| "Label Succeeded = ''Done''"
| "Label Failed = ''Failed''"
| "Label TimedOut = ''Failed''"
| "Label Stalled = ''Failed''"
| "Label CanceledByReconciliation = ''Canceled''"
| "Label (RunOther n) = ''''"

text \<open>\<open>TrackerMeta\<close> is never read by the modelled code and is left out of the record.\<close>

record Issue =
  is_ID :: string
  is_Identifier :: string
  is_Title :: string
  is_Description :: string
  is_State :: IssueState
  is_Priority :: int
  is_Labels :: "string list"
  is_URL :: string
  is_BranchName :: string
  is_BlockedBy :: "string list"
  is_ModelOverride :: string
  is_CreatedAt :: time
  is_UpdatedAt :: time

record RunAttempt =
  ra_IssueID :: string
  ra_IssueIdentifier :: string
  ra_Phase :: RunPhase
  ra_Attempt :: int
  ra_PID :: int
  ra_StartTime :: time
  ra_TokensIn :: int
  ra_TokensOut :: int
  ra_SessionID :: string
  ra_LastEvent :: string
  ra_Error :: string
  ra_WorkspacePath :: string
  ra_ClaimHeadSha :: string

record BackoffEntry =
  be_IssueID :: string
  be_Attempt :: int
  be_RetryAt :: time
  be_Error :: string

end
