(* ===== verification/Team_Store.thy ===== *)
theory Team_Store
  imports Team_Types
begin

text \<open>
  \<open>internal/team/store.go\<close>: reading and writing JSON documents of a team's state directory,
  and the manifest and phase-state documents. A file is a decoded document, a file whose bytes
  do not decode, a file that cannot be read, or a directory; \<open>ReadJSON\<close> turns each into the
  error the source returns. Every failure of the steps of \<open>WriteJSON\<close> (creating the
  directory, locking, writing the temporary file, renaming) leaves the target as it was, so the
  environment names, per file, the error of a write that fails.
\<close>

datatype 'a node = Doc 'a | Malformed | Unreadable string | SubDir

text \<open>
  What one call observes of the world: the clock, the outcome of \<open>crypto/rand\<close>, the
  failing writes, removals and \<open>os.Stat\<close> calls, by file name, and the error of
  \<open>os.ReadDir\<close>, if any. The clock is read once per call.
\<close>

record env =
  en_now :: time
  en_rand :: "string result"
  en_wfault :: "string \<Rightarrow> go_error option"
  en_rmfault :: "string \<Rightarrow> go_error option"
  en_dirfault :: "go_error option"
  en_statfault :: "string \<Rightarrow> go_error option"

text \<open>A call without faults.\<close>

definition quiet_env :: "time \<Rightarrow> string \<Rightarrow> env" where
  "quiet_env now rnd = \<lparr>en_now = now, en_rand = Inr rnd, en_wfault = (\<lambda>_. None),
     en_rmfault = (\<lambda>_. None), en_dirfault = None, en_statfault = (\<lambda>_. None)\<rparr>"

lemma quiet_env_simps [simp]:
  "en_now (quiet_env now rnd) = now"
  "en_rand (quiet_env now rnd) = Inr rnd"
  "en_wfault (quiet_env now rnd) = (\<lambda>_. None)"
  "en_rmfault (quiet_env now rnd) = (\<lambda>_. None)"
  "en_dirfault (quiet_env now rnd) = None"
  "en_statfault (quiet_env now rnd) = (\<lambda>_. None)"
  by (simp_all add: quiet_env_def)

definition ReadJSON :: "'a node fdir \<Rightarrow> string \<Rightarrow> 'a result" where
  "ReadJSON d name = (case map_of d name of
      None \<Rightarrow> Inl ErrNotExist
    | Some (Doc v) \<Rightarrow> Inr v
    | Some Malformed \<Rightarrow> Inl (Wrap (''unmarshal '' @ name) ErrSyntax)
    | Some (Unreadable m) \<Rightarrow> Inl (ErrIO m)
    | Some SubDir \<Rightarrow> Inl (ErrIO ''is a directory''))"

definition WriteJSON ::
  "env \<Rightarrow> 'a node fdir \<Rightarrow> string \<Rightarrow> 'a \<Rightarrow> unit result \<times> 'a node fdir" where
  "WriteJSON e d name v = (case en_wfault e name of
      Some err \<Rightarrow> (Inl err, d)
    | None \<Rightarrow> (if map_of d name = Some SubDir
                then (Inl (ErrIO ''rename: file exists''), d)
                else (Inr (), fput name (Doc v) d)))"

text \<open>\<open>os.Remove\<close> of a file; a missing file is \<open>ErrNotExist\<close>.\<close>

definition os_Remove ::
  "env \<Rightarrow> 'v fdir \<Rightarrow> string \<Rightarrow> unit result \<times> 'v fdir" where
  "os_Remove e d name = (case en_rmfault e name of
      Some err \<Rightarrow> (Inl err, d)
    | None \<Rightarrow> (case map_of d name of
          None \<Rightarrow> (Inl ErrNotExist, d)
        | Some _ \<Rightarrow> (Inr (), fdel name d)))"

text \<open>
  The files a scan of a directory visits: \<open>os.ReadDir\<close> in byte order, directories and
  names without the \<open>.json\<close> suffix skipped. A name with a slash is a file of a
  subdirectory, which \<open>os.ReadDir\<close> does not list.
\<close>

definition json_files :: "'a node fdir \<Rightarrow> string list" where
  "json_files d = [n. (n, v) \<leftarrow> d, v \<noteq> SubDir \<and> has_suffix n ''.json'' \<and> CHR ''/'' \<notin> set n]"

text \<open>The text of an error, for \<open>strings.Contains(err.Error(), ...)\<close> and for messages.\<close>

fun Error_text :: "go_error \<Rightarrow> string" where
  "Error_text (Wrap m e) = m @ '': '' @ Error_text e"
| "Error_text (WrapPost e m) = Error_text e @ '': '' @ m"
| "Error_text (ErrIO m) = m"
| "Error_text (ErrMsg m) = m"
| "Error_text ErrNotExist = ''file does not exist''"
| "Error_text ErrSyntax = ''invalid character''"
| "Error_text ErrCanceled = ''context canceled''"
| "Error_text ErrTaskNotFound = ''task not found''"
| "Error_text ErrVersionConflict = ''version conflict: task was modified concurrently''"
| "Error_text ErrTaskNotClaimable = ''task is not claimable''"
| "Error_text ErrTaskBlocked = ''task is blocked by unfinished dependencies''"
| "Error_text ErrInvalidClaim = ''invalid claim token''"
| "Error_text ErrInvalidTransition = ''invalid phase transition''"
| "Error_text ErrFixLoopExceeded = ''fix loop count exceeded maximum''"
| "Error_text ErrPhaseTerminal = ''phase is terminal, no transitions allowed''"
| "Error_text ErrAgentNotRunning = ''agent not running''"

definition isJSONUnmarshalError :: "go_error \<Rightarrow> bool" where
  "isJSONUnmarshalError e \<longleftrightarrow> errors_is e ErrSyntax \<or> str_contains (Error_text e) ''unmarshal''"

section \<open>The team directory\<close>

text \<open>
  The state directory of one team, one field per file or subdirectory of \<open>Paths\<close>. The
  mailbox holds one directory per worker; the heartbeat files, one per worker directory, carry
  their modification time.
\<close>

record team_dir =
  td_manifest :: "TeamManifest node fdir"
  td_phase :: "TeamPhaseState node fdir"
  td_tasks :: "TeamTask node fdir"
  td_dispatch :: "DispatchEntry node fdir"
  td_mailbox :: "(string \<times> MailboxMessage node fdir) list"
  td_ownership :: "((string \<times> FileOwnership) list option) node fdir"
  td_heartbeats :: "(time \<times> Heartbeat node) fdir"
  td_workers :: "WorkerState node fdir"

definition empty_team :: team_dir where
  "empty_team = \<lparr>td_manifest = [], td_phase = [], td_tasks = [], td_dispatch = [],
     td_mailbox = [], td_ownership = [], td_heartbeats = [],
     td_workers = []\<rparr>"

definition EnsureDirs :: "env \<Rightarrow> string \<Rightarrow> unit result" where
  "EnsureDirs e teamName =
     (case map (\<lambda>dir. (dir, en_wfault e dir))
             [teamName, ''tasks'', ''workers'', ''mailbox'', ''events''] of
        ds \<Rightarrow> (case filter (\<lambda>p. snd p \<noteq> None) ds of
           (dir, Some err) # _ \<Rightarrow> Inl (Wrap (''create dir '' @ dir) err)
         | _ \<Rightarrow> Inr ()))"

text \<open>
  Encoding drops an empty \<open>Artifacts\<close> map (\<open>omitempty\<close>), so it decodes as nil.
\<close>

definition json_PhaseState :: "TeamPhaseState \<Rightarrow> TeamPhaseState" where
  "json_PhaseState s = (if ps_Artifacts s = Some [] then s\<lparr>ps_Artifacts := None\<rparr> else s)"

abbreviation phase_file :: string where
  "phase_file \<equiv> ''phase-state.json''"

abbreviation manifest_file :: string where
  "manifest_file \<equiv> ''manifest.json''"

definition CreateManifest ::
  "env \<Rightarrow> team_dir \<Rightarrow> string \<Rightarrow> TeamConfig \<Rightarrow> TeamManifest result \<times> team_dir" where
  "CreateManifest e s teamName cfg =
     (case EnsureDirs e teamName of
        Inl err \<Rightarrow> (Inl (Wrap ''ensure dirs'' err), s)
      | Inr _ \<Rightarrow>
          (let manifest = \<lparr>tm_Name = teamName, tm_Workers = [], tm_Config = cfg,
                            tm_CreatedAt = en_now e, tm_UpdatedAt = en_now e\<rparr>;
               (r, md) = WriteJSON e (td_manifest s) manifest_file manifest;
               s1 = s\<lparr>td_manifest := md\<rparr>
           in case r of
                Inl err \<Rightarrow> (Inl (Wrap ''write manifest'' err), s1)
              | Inr _ \<Rightarrow>
                  (let phaseState = \<lparr>ps_Phase = PhasePlan, ps_Artifacts = Some [],
                                      ps_Transitions = [], ps_FixLoopCount = 0\<rparr>;
                       (r2, pd) = WriteJSON e (td_phase s1) phase_file (json_PhaseState phaseState);
                       s2 = s1\<lparr>td_phase := pd\<rparr>
                   in case r2 of
                        Inl err \<Rightarrow> (Inl (Wrap ''write phase state'' err), s2)
                      | Inr _ \<Rightarrow> (Inr manifest, s2))))"

definition LoadManifest :: "team_dir \<Rightarrow> TeamManifest result" where
  "LoadManifest s = (case ReadJSON (td_manifest s) manifest_file of
      Inl err \<Rightarrow> Inl (Wrap ''load manifest'' err)
    | Inr m \<Rightarrow> Inr m)"

definition UpdateManifest ::
  "env \<Rightarrow> team_dir \<Rightarrow> (TeamManifest \<Rightarrow> TeamManifest result) \<Rightarrow> unit result \<times> team_dir" where
  "UpdateManifest e s fn = (case ReadJSON (td_manifest s) manifest_file of
      Inl err \<Rightarrow> (Inl (Wrap ''load manifest'' err), s)
    | Inr m \<Rightarrow> (case fn m of
          Inl err \<Rightarrow> (Inl (Wrap ''update manifest'' err), s)
        | Inr m' \<Rightarrow>
            (let (r, md) = WriteJSON e (td_manifest s) manifest_file (m'\<lparr>tm_UpdatedAt := en_now e\<rparr>)
             in case r of
                  Inl err \<Rightarrow> (Inl (Wrap ''write manifest'' err), s\<lparr>td_manifest := md\<rparr>)
                | Inr _ \<Rightarrow> (Inr (), s\<lparr>td_manifest := md\<rparr>))))"

definition DeleteTeam :: "env \<Rightarrow> team_dir \<Rightarrow> string \<Rightarrow> unit result \<times> team_dir" where
  "DeleteTeam e s teamName = (case en_rmfault e teamName of
      Some err \<Rightarrow> (Inl (Wrap (''remove team dir '' @ teamName) err), s)
    | None \<Rightarrow> (Inr (), empty_team))"

definition TeamExists :: "team_dir \<Rightarrow> bool" where
  "TeamExists s \<longleftrightarrow> map_of (td_manifest s) manifest_file \<noteq> None"

definition LoadPhaseState :: "TeamPhaseState node fdir \<Rightarrow> TeamPhaseState result" where
  "LoadPhaseState d = (case ReadJSON d phase_file of
      Inl err \<Rightarrow> Inl (Wrap ''load phase state'' err)
    | Inr st \<Rightarrow> Inr st)"

definition SavePhaseState ::
  "env \<Rightarrow> TeamPhaseState node fdir \<Rightarrow> TeamPhaseState \<Rightarrow> unit result \<times> TeamPhaseState node fdir" where
  "SavePhaseState e d st = (case WriteJSON e d phase_file (json_PhaseState st) of
      (Inl err, d') \<Rightarrow> (Inl (Wrap ''save phase state'' err), d')
    | (Inr _, d') \<Rightarrow> (Inr (), d'))"

definition UpdatePhaseState ::
  "env \<Rightarrow> TeamPhaseState node fdir \<Rightarrow> (TeamPhaseState \<Rightarrow> TeamPhaseState result)
     \<Rightarrow> unit result \<times> TeamPhaseState node fdir" where
  "UpdatePhaseState e d fn = (case LoadPhaseState d of
      Inl err \<Rightarrow> (Inl err, d)
    | Inr st \<Rightarrow> (case fn st of
          Inl err \<Rightarrow> (Inl err, d)
        | Inr st' \<Rightarrow> SavePhaseState e d st'))"

section \<open>Laws of reading and writing\<close>

lemma ReadJSON_put [simp]: "ReadJSON (fput n (Doc v) d) n = Inr v"
  by (simp add: ReadJSON_def)

lemma ReadJSON_put_other: "m \<noteq> n \<Longrightarrow> ReadJSON (fput n v d) m = ReadJSON d m"
  by (simp add: ReadJSON_def)

lemma ReadJSON_Inr: "ReadJSON d n = Inr v \<longleftrightarrow> map_of d n = Some (Doc v)"
  by (auto simp: ReadJSON_def split: option.splits node.splits)

lemma WriteJSON_ok: "WriteJSON e d n v = (Inr (), d') \<longleftrightarrow>
    en_wfault e n = None \<and> map_of d n \<noteq> Some SubDir \<and> d' = fput n (Doc v) d"
  by (auto simp: WriteJSON_def split: option.splits if_splits)

lemma WriteJSON_err: "WriteJSON e d n v = (Inl err, d') \<Longrightarrow> d' = d"
  by (auto simp: WriteJSON_def split: option.splits if_splits)

lemma WriteJSON_cases:
  obtains (err) err where "WriteJSON e d n v = (Inl err, d)"
    | (ok) "WriteJSON e d n v = (Inr (), fput n (Doc v) d)"
  by (cases "en_wfault e n"; cases "map_of d n = Some SubDir") (auto simp: WriteJSON_def)

lemma ReadJSON_not_dir: "ReadJSON d n = Inr v \<Longrightarrow> map_of d n \<noteq> Some SubDir"
  by (simp add: ReadJSON_Inr)

lemma json_files_mem:
  "wf_dir d \<Longrightarrow> n \<in> set (json_files d) \<longleftrightarrow>
     (\<exists>v. map_of d n = Some v \<and> v \<noteq> SubDir \<and> has_suffix n ''.json'' \<and> CHR ''/'' \<notin> set n)"
  by (auto simp: json_files_def wf_dir_lookup [symmetric])

lemma json_files_filter:
  "wf_dir d \<Longrightarrow> json_files d = filter (\<lambda>n. map_of d n \<noteq> Some SubDir \<and> has_suffix n ''.json'' \<and> CHR ''/'' \<notin> set n) (map fst d)"
proof -
  assume wf: "wf_dir d"
  have "json_files d' = filter (\<lambda>n. map_of d n \<noteq> Some SubDir \<and> has_suffix n ''.json'' \<and> CHR ''/'' \<notin> set n) (map fst d')"
    if "set d' \<subseteq> set d" for d'
    using that wf by (induction d') (auto simp: json_files_def wf_dir_lookup)
  then show ?thesis by simp
qed

lemma names_fput: "map_of d n = Some v \<Longrightarrow> wf_dir d \<Longrightarrow> map fst (fput n w d) = map fst d"
proof (induction d)
  case Nil
  then show ?case by simp
next
  case (Cons p d)
  show ?case
  proof (cases "fst p = n")
    case True
    then show ?thesis by (cases p) simp
  next
    case False
    with Cons.prems have m: "map_of d n = Some v" and wf: "wf_dir d" by (auto simp: wf_dir_def)
    then have "n \<in> fst ` set d" by (auto intro: rev_image_eqI dest: map_of_SomeD)
    with Cons.prems(2) have "fst p < n" by (auto simp: wf_dir_def)
    with False m wf Cons.IH show ?thesis by auto
  qed
qed

lemma json_files_overwrite:
  "map_of d n = Some (Doc x) \<Longrightarrow> wf_dir d \<Longrightarrow> json_files (fput n (Doc y) d) = json_files d"
  by (simp add: json_files_filter wf_dir_fput names_fput) (rule filter_cong, auto)

lemma json_files_distinct: "wf_dir d \<Longrightarrow> distinct (json_files d)"
  by (simp add: json_files_filter wf_dir_distinct)

lemma json_PhaseState_simps [simp]:
  "ps_Phase (json_PhaseState s) = ps_Phase s"
  "ps_Transitions (json_PhaseState s) = ps_Transitions s"
  "ps_FixLoopCount (json_PhaseState s) = ps_FixLoopCount s"
  by (simp_all add: json_PhaseState_def)

end
