(* ===== verification/Orch_State.thy ===== *)
theory Orch_State
  imports Team_Types Team_Store "HOL-Library.Word"
begin

text \<open>
  \<open>internal/orchestrator/state.go\<close>: the state machines of issues and run attempts, and the retry
  back-off with its deterministic jitter. The jitter seed is a 64-bit FNV hash, kept as a word;
  Go's \<open>int\<close> arithmetic is written with \<open>wrap64\<close> where it can leave the range.
\<close>

unbundle bit_operations_syntax

definition continuationBackoffMs :: int where
  "continuationBackoffMs = 1000"

definition failureBackoffBaseMs :: int where
  "failureBackoffBaseMs = 10000"

text \<open>\<open>InvalidTransitionError\<close>, by its text.\<close>

definition InvalidTransitionError :: "string \<Rightarrow> string \<Rightarrow> go_error" where
  "InvalidTransitionError from to = ErrMsg (''invalid transition: '' @ from @ '' -> '' @ to)"

definition TransitionIssueState :: "IssueState \<Rightarrow> IssueState \<Rightarrow> go_error option" where
  "TransitionIssueState current target =
     (if target = Released then None
      else if (case current of
           Unclaimed \<Rightarrow> target = Claimed
         | Claimed \<Rightarrow> target = Running
         | Running \<Rightarrow> target = RetryQueued
         | RetryQueued \<Rightarrow> target = Claimed
         | _ \<Rightarrow> False) then None
      else Some (InvalidTransitionError (issue_state_String current) (issue_state_String target)))"

fun isActiveRunPhase :: "RunPhase \<Rightarrow> bool" where
  "isActiveRunPhase PreparingWorkspace = True"
| "isActiveRunPhase BuildingPrompt = True"
| "isActiveRunPhase LaunchingAgentProcess = True"
| "isActiveRunPhase InitializingSession = True"
| "isActiveRunPhase StreamingTurn = True"
| "isActiveRunPhase Finishing = True"
| "isActiveRunPhase _ = False"

fun isFailureRunPhase :: "RunPhase \<Rightarrow> bool" where
  "isFailureRunPhase Failed = True"
| "isFailureRunPhase TimedOut = True"
| "isFailureRunPhase Stalled = True"
| "isFailureRunPhase CanceledByReconciliation = True"
| "isFailureRunPhase _ = False"

definition canCompleteWithoutEvents :: "RunPhase \<Rightarrow> bool" where
  "canCompleteWithoutEvents phase \<longleftrightarrow> phase = InitializingSession"

definition TransitionRunPhase :: "RunPhase \<Rightarrow> RunPhase \<Rightarrow> go_error option" where
  "TransitionRunPhase current target =
     (if isActiveRunPhase current \<and> isFailureRunPhase target then None
      else if (case current of
           PreparingWorkspace \<Rightarrow> target = BuildingPrompt
         | BuildingPrompt \<Rightarrow> target = LaunchingAgentProcess
         | LaunchingAgentProcess \<Rightarrow> target = InitializingSession
         | InitializingSession \<Rightarrow> target = StreamingTurn
         | StreamingTurn \<Rightarrow> target = Finishing
         | Finishing \<Rightarrow> target = Succeeded
         | _ \<Rightarrow> False) then None
      else Some (InvalidTransitionError (run_phase_String current) (run_phase_String target)))"

section \<open>Back-off\<close>

text \<open>The loop over the steps after the first attempt; \<open>n\<close> is the number of steps left.\<close>

fun failure_backoff_loop :: "int \<Rightarrow> int \<Rightarrow> nat \<Rightarrow> int" where
  "failure_backoff_loop maxMs delay 0 = (if delay > maxMs then maxMs else delay)"
| "failure_backoff_loop maxMs delay (Suc n) =
     (if delay \<ge> maxMs then maxMs
      else if delay > maxMs div 2 then maxMs
      else failure_backoff_loop maxMs (wrap64 (delay * 2)) n)"

definition calculateFailureBackoff :: "int \<Rightarrow> int \<Rightarrow> int" where
  "calculateFailureBackoff attempt maxMs = failure_backoff_loop maxMs failureBackoffBaseMs (nat (attempt - 1))"

definition fnv_basis :: "64 word" where
  "fnv_basis = 1469598103934665603"

definition fnv_prime :: "64 word" where
  "fnv_prime = 1099511628211"

definition fnv_mix :: "64 word \<Rightarrow> 64 word \<Rightarrow> 64 word" where
  "fnv_mix seed v = (seed XOR v) * fnv_prime"

definition deterministicBackoffSeed :: "string \<Rightarrow> int \<Rightarrow> int \<Rightarrow> 64 word" where
  "deterministicBackoffSeed issueID attempt maxMs =
     (let seed = foldl (\<lambda>s c. fnv_mix s (of_nat (of_char c))) fnv_basis issueID
      in fnv_mix (fnv_mix seed (ucast (of_int attempt :: 32 word))) (ucast (of_int maxMs :: 32 word)))"

definition deterministicJitterOffset :: "string \<Rightarrow> int \<Rightarrow> int \<Rightarrow> int \<Rightarrow> int" where
  "deterministicJitterOffset issueID attempt maxMs jitterRange =
     (let span = wrap64 (2 * jitterRange + 1)
      in if span \<le> 0 then 0
         else uint (deterministicBackoffSeed issueID attempt maxMs) mod span - jitterRange)"

definition CalculateBackoff :: "string \<Rightarrow> int \<Rightarrow> int \<Rightarrow> int" where
  "CalculateBackoff issueID attempt maxMs =
     (if maxMs \<le> 0 then 0
      else if attempt \<le> 0 then (if continuationBackoffMs > maxMs then maxMs else continuationBackoffMs)
      else
        (let baseDelay = calculateFailureBackoff attempt maxMs;
             jitterRange = baseDelay div 10
         in if jitterRange \<le> 0 then baseDelay
            else
              (let offset = deterministicJitterOffset issueID attempt maxMs jitterRange;
                   delayMs = wrap64 (baseDelay + offset);
                   minBackoffMs = (if continuationBackoffMs \<le> 0 then 1000 else continuationBackoffMs);
                   minBackoffMs' = (if minBackoffMs > maxMs then maxMs else minBackoffMs);
                   delayMs' = (if delayMs < minBackoffMs' then minBackoffMs' else delayMs)
               in if delayMs' > maxMs then maxMs else delayMs')))"

definition checkBoundedConcurrency :: "int \<Rightarrow> int \<Rightarrow> bool" where
  "checkBoundedConcurrency running maxRunning \<longleftrightarrow> running < maxRunning"

definition detectStallAt :: "time \<Rightarrow> time \<Rightarrow> int \<Rightarrow> bool" where
  "detectStallAt now lastEventTime stallTimeoutMs =
     (if stallTimeoutMs \<le> 0 then False
      else time_sub now lastEventTime > duration_of stallTimeoutMs millisecond_ns)"

section \<open>The back-off in closed form\<close>

lemma failure_backoff_loop_closed:
  assumes "0 < delay" and "0 < maxMs" and "in_int64 maxMs"
  shows "failure_backoff_loop maxMs delay n = min maxMs (delay * 2 ^ n)"
  using assms(1)
proof (induction n arbitrary: delay)
  case 0
  then show ?case by simp
next
  case (Suc n)
  have one: "(1 :: int) \<le> 2 ^ n" by simp
  show ?case
  proof (cases "delay \<ge> maxMs \<or> delay > maxMs div 2")
    case True
    then have "maxMs \<le> 2 * delay" using Suc.prems by auto
    moreover have "2 * delay \<le> 2 * delay * 2 ^ n" using Suc.prems one by (simp add: mult_le_cancel_left1)
    ultimately have "maxMs \<le> delay * 2 ^ Suc n" by (simp add: mult.commute mult.left_commute)
    with True show ?thesis by auto
  next
    case False
    then have small: "delay * 2 \<le> maxMs" by auto
    then have "wrap64 (delay * 2) = delay * 2"
      using Suc.prems assms(3) by (intro wrap64_id) (auto simp: in_int64_def)
    with False Suc.IH [of "delay * 2"] Suc.prems show ?thesis by (simp add: mult.assoc)
  qed
qed

lemma calculateFailureBackoff_closed:
  assumes "1 \<le> attempt" and "0 < maxMs" and "in_int64 maxMs"
  shows "calculateFailureBackoff attempt maxMs = min maxMs (10000 * 2 ^ nat (attempt - 1))"
  using assms unfolding calculateFailureBackoff_def
  by (simp add: failure_backoff_loop_closed failureBackoffBaseMs_def)

lemma jitter_bounded: "0 \<le> r \<Longrightarrow> \<bar>deterministicJitterOffset i a m r\<bar> \<le> r"
proof -
  assume r: "0 \<le> r"
  let ?s = "uint (deterministicBackoffSeed i a m)" and ?w = "wrap64 (2 * r + 1)"
  have bound: "0 \<le> ?s mod ?w \<and> ?s mod ?w < 2 * r + 1" if "0 < ?w"
  proof (cases "in_int64 (2 * r + 1)")
    case True
    then have w: "?w = 2 * r + 1" by simp
    have "?s mod (2 * r + 1) < 2 * r + 1" "0 \<le> ?s mod (2 * r + 1)"
      using r by (intro pos_mod_bound pos_mod_sign; simp)+
    with w show ?thesis by simp
  next
    case False
    with r have "2 ^ 63 \<le> 2 * r + 1" by (simp add: in_int64_def)
    moreover have "?w < 2 ^ 63" using wrap64_range [of "2 * r + 1"] by (simp add: in_int64_def)
    moreover have "?s mod ?w < ?w" "0 \<le> ?s mod ?w" using that by auto
    ultimately show ?thesis by linarith
  qed
  show ?thesis
  proof (cases "0 < ?w")
    case True
    then have "deterministicJitterOffset i a m r = ?s mod ?w - r"
      by (simp add: deterministicJitterOffset_def Let_def)
    with bound [OF True] show ?thesis by linarith
  next
    case False
    with r show ?thesis by (simp add: deterministicJitterOffset_def Let_def)
  qed
qed

section \<open>Paths of run phases\<close>

fun run_path :: "RunPhase \<Rightarrow> RunPhase list \<Rightarrow> bool" where
  "run_path p [] \<longleftrightarrow> True"
| "run_path p (q # qs) \<longleftrightarrow> TransitionRunPhase p q = None \<and> run_path q qs"

definition run_order :: "RunPhase list" where
  "run_order = [BuildingPrompt, LaunchingAgentProcess, InitializingSession, StreamingTurn, Finishing, Succeeded]"

lemma terminal_stuck: "\<not> isActiveRunPhase p \<Longrightarrow> TransitionRunPhase p q \<noteq> None"
  by (cases p) (auto simp: TransitionRunPhase_def)

lemma run_path_suffix:
  "run_path (([PreparingWorkspace] @ run_order) ! k) qs \<Longrightarrow> k \<le> 6 \<Longrightarrow>
     (\<exists>m. qs = take m (drop k run_order)) \<or>
     (\<exists>m f. qs = take m (drop k run_order) @ [f] \<and> isFailureRunPhase f \<and> k + m \<le> 5)"
proof (induction qs arbitrary: k)
  case Nil
  then show ?case by (auto intro: exI [of _ 0])
next
  case (Cons q qs)
  let ?p = "([PreparingWorkspace] @ run_order) ! k"
  have tr: "TransitionRunPhase ?p q = None" and rest: "run_path q qs" using Cons.prems(1) by auto
  have k: "k \<in> {0, 1, 2, 3, 4, 5, 6}" using Cons.prems(2) by auto
  show ?case
  proof (cases "isFailureRunPhase q")
    case True
    then have "\<not> isActiveRunPhase q" by (cases q) auto
    with rest have "qs = []" using terminal_stuck by (cases qs) auto
    moreover have "k \<le> 5" using k tr True by (auto simp: run_order_def TransitionRunPhase_def)
    ultimately show ?thesis using True by (intro disjI2 exI [of _ 0] exI [of _ q]) simp
  next
    case False
    then have q: "k \<le> 5" "q = run_order ! k"
      using k tr by (auto simp: run_order_def TransitionRunPhase_def split: if_splits)
    have "k < length run_order" using q(1) by (simp add: run_order_def)
    then have drop: "drop k run_order = q # drop (Suc k) run_order"
      using q(2) Cons_nth_drop_Suc by metis
    have "run_path (([PreparingWorkspace] @ run_order) ! Suc k) qs" using rest q by simp
    from Cons.IH [OF this] q(1) have "(\<exists>m. qs = take m (drop (Suc k) run_order)) \<or>
        (\<exists>m f. qs = take m (drop (Suc k) run_order) @ [f] \<and> isFailureRunPhase f \<and> Suc k + m \<le> 5)" by simp
    then show ?thesis
    proof (elim disjE exE conjE)
      fix m assume "qs = take m (drop (Suc k) run_order)"
      then show ?thesis by (intro disjI1 exI [of _ "Suc m"]) (simp add: drop)
    next
      fix m f assume "qs = take m (drop (Suc k) run_order) @ [f]" "isFailureRunPhase f" "Suc k + m \<le> 5"
      then show ?thesis by (intro disjI2 exI [of _ "Suc m"] exI [of _ f]) (simp add: drop)
    qed
  qed
qed

section \<open>Properties\<close>

text \<open>
  The retry delay of a failed attempt: with a positive maximum it lies between one second (or
  the maximum, if that is less) and the maximum; it is within ten percent of
  \<open>min maxMs (10 s * 2 ^ (attempt - 1))\<close>, the exponential back-off, unless the lower or the upper
  bound cuts it off; the delay is a function of the issue, the attempt and the maximum. The first
  claim holds for every 64-bit maximum, also where the sum with the jitter overflows.
\<close>

theorem CalculateBackoff_bounds:
  assumes "1 \<le> attempt" and "0 < maxMs" and "in_int64 maxMs"
  shows "min 1000 maxMs \<le> CalculateBackoff issueID attempt maxMs \<and> CalculateBackoff issueID attempt maxMs \<le> maxMs
    \<and> (maxMs \<le> 2 ^ 62 \<longrightarrow>
        (let base = min maxMs (10000 * 2 ^ nat (attempt - 1)) in
         \<bar>CalculateBackoff issueID attempt maxMs - base\<bar> \<le> base div 10
       \<or> CalculateBackoff issueID attempt maxMs \<in> {min 1000 maxMs, maxMs}))"
proof -
  let ?b = "calculateFailureBackoff attempt maxMs"
  have b: "?b = min maxMs (10000 * 2 ^ nat (attempt - 1))"
    using assms by (rule calculateFailureBackoff_closed)
  have "(1 :: int) \<le> 2 ^ nat (attempt - 1)" by simp
  then have "(10000 :: int) \<le> 10000 * 2 ^ nat (attempt - 1)" by simp
  then have base: "min 1000 maxMs \<le> ?b" "?b \<le> maxMs" "0 < ?b" using assms(2) unfolding b by linarith+
  define off where "off = deterministicJitterOffset issueID attempt maxMs (?b div 10)"
  have off: "\<bar>off\<bar> \<le> ?b div 10" unfolding off_def using base by (intro jitter_bounded) simp
  have c: "CalculateBackoff issueID attempt maxMs =
      (if ?b div 10 \<le> 0 then ?b else min maxMs (max (min 1000 maxMs) (wrap64 (?b + off))))"
    using assms by (auto simp: CalculateBackoff_def Let_def off_def continuationBackoffMs_def)
  have "wrap64 (?b + off) = ?b + off" if "maxMs \<le> 2 ^ 62"
    using that off base by (intro wrap64_id) (auto simp: in_int64_def)
  then show ?thesis
    using base off assms(2) unfolding c Let_def b [symmetric] by (auto simp: min_def max_def)
qed

theorem CalculateBackoff_bounds_witness:
  "1000 \<le> CalculateBackoff ''ABC-1'' 3 60000 \<and> CalculateBackoff ''ABC-1'' 3 60000 \<le> 60000"
  using CalculateBackoff_bounds [of 3 60000 "''ABC-1''"] by (simp add: in_int64_def)

text \<open>
  A run attempt only moves forward: from the preparing phase every sequence of valid
  transitions is a prefix of building the prompt, launching, initialising, streaming, finishing,
  succeeded, possibly cut off before success by one failure phase, after which nothing follows; so
  an attempt makes at most six transitions, and succeeds only after all of them.
\<close>

theorem run_phases_move_forward:
  assumes "run_path PreparingWorkspace qs"
  shows "((\<exists>m. qs = take m run_order) \<or>
          (\<exists>m f. qs = take m run_order @ [f] \<and> isFailureRunPhase f \<and> m \<le> 5))
       \<and> length qs \<le> 6 \<and> (Succeeded \<in> set qs \<longrightarrow> qs = run_order)"
proof -
  have cases: "(\<exists>m. qs = take m run_order) \<or>
      (\<exists>m f. qs = take m run_order @ [f] \<and> isFailureRunPhase f \<and> m \<le> 5)"
    using run_path_suffix [of 0 qs] assms by auto
  have six: "length run_order = 6" by (simp add: run_order_def)
  have early: "Succeeded \<notin> set (take m run_order)" if "m \<le> 5" for m
    using that by (auto simp: run_order_def take_Cons' split: if_splits)
  from cases show ?thesis
  proof (elim disjE exE conjE)
    fix m assume qs: "qs = take m run_order"
    then have "Succeeded \<in> set qs \<longrightarrow> qs = run_order"
      using early [of m] six by (cases "m \<le> 5") (auto simp: take_all)
    with cases qs six show ?thesis by auto
  next
    fix m f assume qs: "qs = take m run_order @ [f]" "isFailureRunPhase f" "m \<le> 5"
    then have "Succeeded \<notin> set qs" using early [of m] by auto
    with cases qs six show ?thesis by auto
  qed
qed

theorem run_phases_move_forward_witness:
  "length [BuildingPrompt, LaunchingAgentProcess, TimedOut] \<le> (6 :: nat) \<and> run_path PreparingWorkspace [BuildingPrompt, LaunchingAgentProcess, TimedOut]"
  using run_phases_move_forward [of "[BuildingPrompt, LaunchingAgentProcess, TimedOut]"]
  by (simp add: TransitionRunPhase_def)

end
