(* ===== verification/Run_Events.thy ===== *)
theory Run_Events
  imports Orch_State
begin

text \<open>
  The pure part of \<open>internal/orchestrator/orchestrator_runtime.go\<close>: what the orchestrator reads off
  an agent event (token counters, errors, completion signals) and the final phase of a run. The
  payload of an event is decoded JSON; \<open>JFloat v\<close> stands for a \<open>float64\<close> by its integer part, the
  only thing the code takes of it.
\<close>

datatype json = JInt int | JInt64 int | JFloat int | JStr string | JObj "(string \<times> json) list" | JOther

type_synonym json_obj = "(string \<times> json) list"

record AgentEvent =
  ae_Type :: string
  ae_IssueID :: string
  ae_Data :: "json_obj option"
  ae_Timestamp :: time

section \<open>Token counters\<close>

fun parseInt64 :: "json \<Rightarrow> int result" where
  "parseInt64 (JInt v) = Inr v"
| "parseInt64 (JInt64 v) = Inr v"
| "parseInt64 (JFloat v) = Inr v"
| "parseInt64 _ = Inl (ErrMsg ''unsupported numeric type'')"

fun firstInt64 :: "json_obj \<Rightarrow> string list \<Rightarrow> int" where
  "firstInt64 values [] = 0"
| "firstInt64 values (key # keys) = (case map_of values key of
      None \<Rightarrow> firstInt64 values keys
    | Some v \<Rightarrow> (case parseInt64 v of Inr n \<Rightarrow> n | Inl _ \<Rightarrow> firstInt64 values keys))"

text \<open>A nested counter object under the names of all runners, if one of its counters is not zero.\<close>

definition counters_in :: "json_obj \<Rightarrow> string \<Rightarrow> (int \<times> int) option" where
  "counters_in tu key = (case map_of tu key of
      Some (JObj m) \<Rightarrow>
        (let i = firstInt64 m [''inputTokens'', ''input_tokens'', ''prompt_tokens''];
             out = firstInt64 m [''outputTokens'', ''output_tokens'', ''completion_tokens'']
         in if i \<noteq> 0 \<or> out \<noteq> 0 then Some (i, out) else None)
    | _ \<Rightarrow> None)"

definition usage_of :: "json_obj \<Rightarrow> int \<times> int" where
  "usage_of data = (case map_of data ''usage'' of
      Some (JObj usage) \<Rightarrow>
        (let tokensIn = firstInt64 usage [''prompt_tokens'', ''input_tokens''];
             tokensOut = firstInt64 usage [''completion_tokens'', ''output_tokens'']
         in if tokensIn = 0 \<and> tokensOut = 0 then (tokensIn, firstInt64 usage [''total_tokens''])
            else (tokensIn, tokensOut))
    | _ \<Rightarrow> (0, 0))"

definition parseUsageTokens :: "json_obj option \<Rightarrow> int \<times> int" where
  "parseUsageTokens data = (case data of
      None \<Rightarrow> (0, 0)
    | Some m \<Rightarrow>
        (case map_of m ''tokenUsage'' of
           Some (JObj tu) \<Rightarrow>
             (case counters_in tu ''total'' of
                Some p \<Rightarrow> p
              | None \<Rightarrow>
                  (case counters_in tu ''context'' of
                     Some p \<Rightarrow> p
                   | None \<Rightarrow>
                       (let total = firstInt64 tu [''total'']
                        in if total \<noteq> 0 then (0, total) else usage_of m)))
         | _ \<Rightarrow> usage_of m))"

section \<open>Kinds of events\<close>

definition isFailureAgentEvent :: "string \<Rightarrow> bool" where
  "isFailureAgentEvent eventType \<longleftrightarrow> eventType \<in> {''turn/failed'', ''turn/cancelled'', ''turn/canceled''}"

fun first_text :: "json_obj \<Rightarrow> string list \<Rightarrow> string" where
  "first_text data [] = []"
| "first_text data (key # keys) = (case map_of data key of
      Some (JStr text) \<Rightarrow> text
    | _ \<Rightarrow> first_text data keys)"

definition extractEventError :: "json_obj option \<Rightarrow> string" where
  "extractEventError data = (case data of
      None \<Rightarrow> []
    | Some m \<Rightarrow> first_text m [''error'', ''message'', ''reason''])"

text \<open>\<open>internal/agent/teamcli.go\<close>: the liveness events.\<close>

definition IsHeartbeatEvent :: "string \<Rightarrow> bool" where
  "IsHeartbeatEvent t \<longleftrightarrow> t \<in> {''team/stalled''}"

definition hasExplicitSuccessSignal :: "string \<Rightarrow> bool" where
  "hasExplicitSuccessSignal message =
     (let normalized = trim_space (to_lower message)
      in if normalized = [] then False
         else if normalized \<in> {''turn/completed'', ''item/completed'', ''task/completed'', ''session.status''} then True
         else str_contains normalized ''completed'' \<and> str_contains normalized ''success'')"

definition completionSignalFromEvent :: "string \<Rightarrow> string" where
  "completionSignalFromEvent eventType =
     (let normalized = trim_space (to_lower eventType)
      in if hasExplicitSuccessSignal normalized then normalized else [])"

section \<open>The final phase of a run\<close>

definition move_phase :: "RunPhase \<Rightarrow> RunPhase \<Rightarrow> RunPhase" where
  "move_phase current target = (if TransitionRunPhase current target = None then target else current)"

definition or_message :: "string \<Rightarrow> string \<Rightarrow> string" where
  "or_message message fallback = (if message = [] then fallback else message)"

definition resolveFinalPhase :: "RunPhase \<Rightarrow> string \<Rightarrow> go_error option \<Rightarrow> RunPhase \<times> string" where
  "resolveFinalPhase phase message doneErr = (case doneErr of
      Some err \<Rightarrow>
        (if errors_is err ErrCanceled
         then (if isActiveRunPhase phase then move_phase phase CanceledByReconciliation else phase,
               or_message message (Error_text err))
         else (if isActiveRunPhase phase then move_phase phase Failed else phase,
               or_message message (Error_text err)))
    | None \<Rightarrow>
        (if isFailureRunPhase phase then (phase, message)
         else
           (let p1 = (if isActiveRunPhase phase
                      then (if canCompleteWithoutEvents phase then Succeeded else move_phase phase Finishing)
                      else phase)
            in if p1 = Finishing
               then (if hasExplicitSuccessSignal message then (move_phase p1 Succeeded, message)
                     else (p1, or_message message ''missing explicit success signal''))
               else (p1, message))))"

text \<open>The attempt that \<open>completeRun\<close> reports: its final phase and error.\<close>

definition final_attempt :: "RunAttempt \<Rightarrow> go_error option \<Rightarrow> RunAttempt" where
  "final_attempt a doneErr =
     (let successSignal = completionSignalFromEvent (ra_LastEvent a);
          phaseMessage = (if ra_Error a = [] then successSignal else ra_Error a);
          (phase, err) = resolveFinalPhase (ra_Phase a) phaseMessage doneErr
      in a\<lparr>ra_Phase := phase,
           ra_Error := (if successSignal \<noteq> [] \<and> err = successSignal then [] else err)\<rparr>)"

section \<open>Properties of the final phase\<close>

lemma active_fails: "isActiveRunPhase p \<Longrightarrow> isFailureRunPhase q \<Longrightarrow> TransitionRunPhase p q = None"
  by (simp add: TransitionRunPhase_def)

lemma resolve_error:
  "resolveFinalPhase p m (Some err) =
     (if isActiveRunPhase p then (if errors_is err ErrCanceled then CanceledByReconciliation else Failed) else p,
      or_message m (Error_text err))"
  by (simp add: resolveFinalPhase_def move_phase_def active_fails)

lemma resolve_success_iff:
  "fst (resolveFinalPhase p m None) = Succeeded \<longleftrightarrow>
     p = Succeeded \<or> p = InitializingSession
   \<or> p \<in> {StreamingTurn, Finishing} \<and> hasExplicitSuccessSignal m"
  by (cases p) (auto simp: resolveFinalPhase_def move_phase_def TransitionRunPhase_def canCompleteWithoutEvents_def)

text \<open>
  When a run counts as a success. A run whose process reported an error never succeeds (unless
  it was recorded as succeeded before): an active run becomes canceled when the error is a
  cancellation and failed otherwise. A run whose process ended without an error succeeds exactly
  when it produced no event at all, or was streaming or finishing with an explicit success signal:
  its error text, or its last event when it has no error text. A run that failed, timed out or
  stalled before stays so.
\<close>

theorem final_attempt_phase:
  "(ra_Phase (final_attempt a None) = Succeeded \<longleftrightarrow>
      ra_Phase a = Succeeded \<or> ra_Phase a = InitializingSession
    \<or> ra_Phase a \<in> {StreamingTurn, Finishing}
      \<and> hasExplicitSuccessSignal (if ra_Error a = [] then completionSignalFromEvent (ra_LastEvent a) else ra_Error a))
   \<and> ra_Phase (final_attempt a (Some err)) =
       (if isActiveRunPhase (ra_Phase a)
        then (if errors_is err ErrCanceled then CanceledByReconciliation else Failed) else ra_Phase a)
   \<and> (isFailureRunPhase (ra_Phase a) \<longrightarrow> ra_Phase (final_attempt a d) = ra_Phase a)"
proof -
  have phase: "ra_Phase (final_attempt a d) = fst (resolveFinalPhase (ra_Phase a)
      (if ra_Error a = [] then completionSignalFromEvent (ra_LastEvent a) else ra_Error a) d)" for d
    by (simp add: final_attempt_def Let_def split: prod.split)
  have stays: "fst (resolveFinalPhase p m d) = p" if "isFailureRunPhase p" for p m d
    using that by (cases d; cases p) (auto simp: resolve_error, simp_all add: resolveFinalPhase_def)
  show ?thesis unfolding phase resolve_error by (simp only: resolve_success_iff fst_conv) (simp add: stays)
qed

definition sample_attempt :: RunAttempt where
  "sample_attempt = \<lparr>ra_IssueID = ''i1'', ra_IssueIdentifier = ''ABC-1'', ra_Phase = StreamingTurn, ra_Attempt = 1,
     ra_PID = 7, ra_StartTime = 10, ra_TokensIn = 0, ra_TokensOut = 0, ra_SessionID = ''s'',
     ra_LastEvent = ''turn/completed'', ra_Error = [], ra_WorkspacePath = ''w'', ra_ClaimHeadSha = ''abc''\<rparr>"

theorem final_attempt_phase_witness:
  "ra_Phase (final_attempt (sample_attempt\<lparr>ra_Phase := Stalled\<rparr>) None) = Stalled
 \<and> ra_Phase (final_attempt sample_attempt (Some ErrCanceled)) = CanceledByReconciliation"
  using final_attempt_phase [of "sample_attempt\<lparr>ra_Phase := Stalled\<rparr>" ErrCanceled None]
    final_attempt_phase [of sample_attempt ErrCanceled None]
  by (simp add: sample_attempt_def)

end
