(* ===== verification/Worker_Events.thy ===== *)
theory Worker_Events
  imports Run_Events
begin

text \<open>
  Models \<open>internal/cli/worker/worker_events.go\<close>: the events of an agent are turned into numbered lines,
  collected into batches and posted to the cloud, which limits a request to 200 lines and 512 KiB. What
  the JSON encoder gives (\<open>ec_marshal\<close> for the data of an event, \<open>ec_size\<close> for a line) is a parameter. The
  receiver of the posts is a state \<open>'s\<close> that a post function transforms.
\<close>

section \<open>Lines\<close>

datatype line_payload =
    LineError (ep_errorClass: string) (ep_message: string) (ep_fatal: bool)
  | LineLog (lp_message: string)

record WorkerEventLine =
  wl_ts :: int
  wl_seq :: int
  wl_payload :: line_payload

record event_codec =
  ec_marshal :: "json_obj \<Rightarrow> string result"
  ec_size :: "WorkerEventLine \<Rightarrow> int result"

definition unix_epoch :: time where
  "unix_epoch = 62135596800 * second_ns"

definition UnixMilli :: "time \<Rightarrow> int" where
  "UnixMilli t = (t - unix_epoch) div millisecond_ns"

definition truncateWorkerEventString :: "string \<Rightarrow> int \<Rightarrow> string" where
  "truncateWorkerEventString value maxLen =
     (if maxLen < 1 \<or> int (length value) \<le> maxLen then value else take (nat maxLen) value)"

definition isWorkerErrorAgentEvent :: "AgentEvent \<Rightarrow> bool" where
  "isWorkerErrorAgentEvent event \<longleftrightarrow> str_contains (to_lower (ae_Type event)) ''error''"

text \<open>A string under a key of the event's data that is not blank; a nil map has no keys.\<close>

definition data_text :: "AgentEvent \<Rightarrow> string \<Rightarrow> string option" where
  "data_text event key = (case map_of (case ae_Data event of None \<Rightarrow> [] | Some m \<Rightarrow> m) key of
     Some (JStr s) \<Rightarrow> if trim_space s \<noteq> [] then Some s else None
   | _ \<Rightarrow> None)"

definition workerAgentEventMessage :: "event_codec \<Rightarrow> AgentEvent \<Rightarrow> string" where
  "workerAgentEventMessage cd event = (case data_text event ''message'' of
     Some message \<Rightarrow> ae_Type event @ '': '' @ message
   | None \<Rightarrow>
      (case data_text event ''error'' of
         Some errText \<Rightarrow> ae_Type event @ '': '' @ errText
       | None \<Rightarrow>
          (case ae_Data event of
             None \<Rightarrow> ae_Type event
           | Some data \<Rightarrow>
               if data = [] then ae_Type event
               else (case ec_marshal cd data of
                 Inl _ \<Rightarrow> ae_Type event
               | Inr payload \<Rightarrow> ae_Type event @ '': '' @ payload))))"

definition workerEventLineFromAgentEvent :: "event_codec \<Rightarrow> AgentEvent \<Rightarrow> int \<Rightarrow> time \<Rightarrow> WorkerEventLine" where
  "workerEventLineFromAgentEvent cd event seq fallback =
     (let ts = (if ae_Timestamp event = zero_time then fallback else ae_Timestamp event);
          message = truncateWorkerEventString (workerAgentEventMessage cd event) 8192
      in \<lparr>wl_ts = UnixMilli ts, wl_seq = seq,
          wl_payload =
            (if isWorkerErrorAgentEvent event
             then LineError (truncateWorkerEventString (ae_Type event) 128) message (ae_Type event = ''session.error'')
             else LineLog message)\<rparr>)"

section \<open>Batches\<close>

definition workerEventsMaxPerBatch :: int where
  "workerEventsMaxPerBatch = 200"

definition workerEventsMaxBytes :: int where
  "workerEventsMaxBytes = 512 * 1024"

record workerEventBatcher =
  eb_maxEvents :: int
  eb_maxBytes :: int

definition newWorkerEventBatcher :: workerEventBatcher where
  "newWorkerEventBatcher = \<lparr>eb_maxEvents = workerEventsMaxPerBatch, eb_maxBytes = workerEventsMaxBytes\<rparr>"

definition batcher_defaults :: "workerEventBatcher \<Rightarrow> workerEventBatcher" where
  "batcher_defaults b = \<lparr>
     eb_maxEvents = (if eb_maxEvents b < 1 then workerEventsMaxPerBatch else eb_maxEvents b),
     eb_maxBytes = (if eb_maxBytes b < 1 then workerEventsMaxBytes else eb_maxBytes b)\<rparr>"

text \<open>The variables of the loop; \<open>bs_posted\<close> records the batches handed to the post function.\<close>

record 's batching =
  bs_batch :: "WorkerEventLine list"
  bs_batchBytes :: int
  bs_seq :: int
  bs_posted :: "WorkerEventLine list list"
  bs_sink :: 's

type_synonym 's post_func = "WorkerEventLine list \<Rightarrow> 's \<Rightarrow> go_error option \<times> 's"

definition flush :: "'s post_func \<Rightarrow> 's batching \<Rightarrow> go_error option \<times> 's batching" where
  "flush post s =
     (if bs_batch s = [] then (None, s)
      else (let (err, sink) = post (bs_batch s) (bs_sink s)
        in (err, s\<lparr>bs_batch := [], bs_batchBytes := 0, bs_posted := bs_posted s @ [bs_batch s], bs_sink := sink\<rparr>)))"

text \<open>The cases of the \<open>select\<close>; an event comes with the reading of the clock.\<close>

datatype batch_input = GotEvent AgentEvent time | TimerFired | EventsClosed | CtxDone

text \<open>A flush before a line that would make the batch too large, and one after a line that fills it.\<close>

definition make_room :: "workerEventBatcher \<Rightarrow> 's post_func \<Rightarrow> int \<Rightarrow> 's batching \<Rightarrow> go_error option \<times> 's batching" where
  "make_room b post lineBytes s =
     (if bs_batch s \<noteq> [] \<and> (int (length (bs_batch s)) \<ge> eb_maxEvents b \<or> bs_batchBytes s + lineBytes > eb_maxBytes b)
      then flush post s else (None, s))"

definition add_line :: "workerEventBatcher \<Rightarrow> 's post_func \<Rightarrow> WorkerEventLine \<Rightarrow> int \<Rightarrow> 's batching
    \<Rightarrow> go_error option \<times> 's batching" where
  "add_line b post line lineBytes s0 =
     (let s = s0\<lparr>bs_batch := bs_batch s0 @ [line], bs_batchBytes := bs_batchBytes s0 + lineBytes\<rparr>
      in if int (length (bs_batch s)) \<ge> eb_maxEvents b \<or> bs_batchBytes s \<ge> eb_maxBytes b
         then flush post s else (None, s))"

definition take_event :: "event_codec \<Rightarrow> workerEventBatcher \<Rightarrow> 's post_func \<Rightarrow> AgentEvent \<Rightarrow> time \<Rightarrow> 's batching
    \<Rightarrow> go_error option \<times> 's batching" where
  "take_event cd b post event now s0 =
     (let seq = bs_seq s0 + 1;
          s = s0\<lparr>bs_seq := seq\<rparr>;
          line = workerEventLineFromAgentEvent cd event seq now
      in case ec_size cd line of
           Inl err \<Rightarrow> (Some err, s)
         | Inr lineBytes \<Rightarrow>
            (case make_room b post lineBytes s of
               (Some err, s1) \<Rightarrow> (Some err, s1)
             | (None, s1) \<Rightarrow> add_line b post line lineBytes s1))"

text \<open>One turn of the loop: \<open>Some\<close> when \<open>Consume\<close> returns.\<close>

definition consume_step :: "event_codec \<Rightarrow> workerEventBatcher \<Rightarrow> 's post_func \<Rightarrow> batch_input \<Rightarrow> 's batching
    \<Rightarrow> go_error option option \<times> 's batching" where
  "consume_step cd b post inp s = (case inp of
     CtxDone \<Rightarrow> (let (err, s') = flush post s in (Some (case err of Some e \<Rightarrow> Some e | None \<Rightarrow> Some ErrCanceled), s'))
   | TimerFired \<Rightarrow> (let (err, s') = flush post s in (map_option Some err, s'))
   | EventsClosed \<Rightarrow> (let (err, s') = flush post s in (Some err, s'))
   | GotEvent event now \<Rightarrow> (let (err, s') = take_event cd b post event now s in (map_option Some err, s')))"

fun consume_loop :: "event_codec \<Rightarrow> workerEventBatcher \<Rightarrow> 's post_func \<Rightarrow> batch_input list \<Rightarrow> 's batching
    \<Rightarrow> go_error option option \<times> 's batching" where
  "consume_loop cd b post [] s = (None, s)"
| "consume_loop cd b post (i # is) s = (case consume_step cd b post i s of
     (Some r, s') \<Rightarrow> (Some r, s')
   | (None, s') \<Rightarrow> consume_loop cd b post is s')"

definition Consume :: "event_codec \<Rightarrow> workerEventBatcher \<Rightarrow> 's post_func \<Rightarrow> batch_input list \<Rightarrow> 's
    \<Rightarrow> go_error option option \<times> 's batching" where
  "Consume cd b post inputs sink = consume_loop cd (batcher_defaults b) post inputs
     \<lparr>bs_batch = [], bs_batchBytes = 0, bs_seq = 0, bs_posted = [], bs_sink = sink\<rparr>"

section \<open>Posting\<close>

text \<open>
  One request and its answer: accepted, too large, or another error. \<open>cl_answer\<close> may depend on the requests made
  before; the cloud keeps the lines of those it accepted.
\<close>

datatype post_answer = Accepted | TooLarge | Refused go_error

record cloud =
  cl_answer :: "WorkerEventLine list list \<Rightarrow> WorkerEventLine list \<Rightarrow> post_answer"
  cl_requests :: "WorkerEventLine list list"
  cl_received :: "WorkerEventLine list"

definition errWorkerEventsTooLarge :: go_error where
  "errWorkerEventsTooLarge = ErrMsg ''worker events batch too large''"

definition postWorkerEventsOnce :: "WorkerEventLine list \<Rightarrow> cloud \<Rightarrow> go_error option \<times> cloud" where
  "postWorkerEventsOnce events c =
     (let answer = cl_answer c (cl_requests c) events;
          c' = c\<lparr>cl_requests := cl_requests c @ [events]\<rparr>
      in case answer of
           Accepted \<Rightarrow> (None, c'\<lparr>cl_received := cl_received c @ events\<rparr>)
         | TooLarge \<Rightarrow> (Some (WrapPost errWorkerEventsTooLarge ''for run''), c')
         | Refused err \<Rightarrow> (Some err, c'))"

function postWorkerEvents :: "WorkerEventLine list \<Rightarrow> cloud \<Rightarrow> go_error option \<times> cloud" where
  "postWorkerEvents events c =
     (if events = [] then (None, c)
      else if int (length events) > workerEventsMaxPerBatch
      then (case postWorkerEvents (take (length events div 2) events) c of
          (Some err, c') \<Rightarrow> (Some err, c')
        | (None, c') \<Rightarrow> postWorkerEvents (drop (length events div 2) events) c')
      else (case postWorkerEventsOnce events c of
          (None, c0) \<Rightarrow> (None, c0)
        | (Some err, c0) \<Rightarrow>
            if errors_is err errWorkerEventsTooLarge \<and> length events > 1
            then (case postWorkerEvents (take (length events div 2) events) c0 of
                (Some err, c') \<Rightarrow> (Some err, c')
              | (None, c') \<Rightarrow> postWorkerEvents (drop (length events div 2) events) c')
            else (Some err, c0)))"
  by pat_completeness auto

termination
  by (relation "measure (length \<circ> fst)") (auto simp: workerEventsMaxPerBatch_def)

declare postWorkerEvents.simps [simp del]

end
