(* ===== verification/Worker_Events_Props.thy ===== *)
theory Worker_Events_Props
  imports Worker_Events
begin

text \<open>
  What the cloud receives of a run: the lines of the agent's events, numbered from 1, in order and each at
  most once, in requests within the limits. The locale \<open>event_sink\<close> states what the batcher relies on; the
  splitting post function provides it.
\<close>

section \<open>The batcher over any sink\<close>

text \<open>The lines of the events that the loop takes from a list of inputs, before it returns.\<close>

fun input_lines :: "event_codec \<Rightarrow> int \<Rightarrow> batch_input list \<Rightarrow> WorkerEventLine list" where
  "input_lines cd n [] = []"
| "input_lines cd n (GotEvent e now # is) = workerEventLineFromAgentEvent cd e (n + 1) now # input_lines cd (n + 1) is"
| "input_lines cd n (TimerFired # is) = input_lines cd n is"
| "input_lines cd n (_ # is) = []"

text \<open>What was accepted and what is waiting together are a prefix of the lines.\<close>

locale event_sink =
  fixes post :: "'s post_func"
    and received :: "'s \<Rightarrow> WorkerEventLine list"
  assumes post_ok: "post es s = (None, s') \<Longrightarrow> received s' = received s @ es"
    and post_part: "post es s = (Some err, s') \<Longrightarrow> prefix (received s') (received s @ es)"
begin

lemma flush_ok:
  assumes "flush post s = (None, s')"
  shows "received (bs_sink s') = received (bs_sink s) @ bs_batch s \<and> bs_batch s' = [] \<and> bs_seq s' = bs_seq s"
  using assms post_ok by (auto simp: flush_def split: if_splits prod.splits)

lemma flush_part: "flush post s = (Some err, s') \<Longrightarrow> prefix (received (bs_sink s')) (received (bs_sink s) @ bs_batch s)"
  using post_part by (auto simp: flush_def split: if_splits prod.splits)

lemma make_room_ok:
  "make_room b post n s = (None, s') \<Longrightarrow>
   received (bs_sink s') @ bs_batch s' = received (bs_sink s) @ bs_batch s \<and> bs_seq s' = bs_seq s"
  using flush_ok [of s s'] by (auto simp: make_room_def split: if_splits)

lemma add_line_ok:
  assumes "add_line b post l n s = (None, s')"
  shows "received (bs_sink s') @ bs_batch s' = received (bs_sink s) @ bs_batch s @ [l] \<and> bs_seq s' = bs_seq s"
  using assms flush_ok [of "s\<lparr>bs_batch := bs_batch s @ [l], bs_batchBytes := bs_batchBytes s + n\<rparr>" s']
  by (auto simp: add_line_def Let_def split: if_splits)

lemma take_event_ok:
  assumes "take_event cd b post e now s = (None, s')"
  shows "received (bs_sink s') @ bs_batch s' =
      received (bs_sink s) @ bs_batch s @ [workerEventLineFromAgentEvent cd e (bs_seq s + 1) now] \<and> bs_seq s' = bs_seq s + 1"
proof -
  obtain n s1 where n: "make_room b post n (s\<lparr>bs_seq := bs_seq s + 1\<rparr>) = (None, s1)"
      and add: "add_line b post (workerEventLineFromAgentEvent cd e (bs_seq s + 1) now) n s1 = (None, s')"
    using assms by (auto simp: take_event_def Let_def split: sum.splits prod.splits option.splits)
  from make_room_ok [OF n] add_line_ok [OF add] show ?thesis by (simp flip: append_assoc)
qed

lemma take_event_part:
  assumes "take_event cd b post e now s = (Some err, s')"
  shows "prefix (received (bs_sink s')) (received (bs_sink s) @ bs_batch s @ [workerEventLineFromAgentEvent cd e (bs_seq s + 1) now])"
proof -
  let ?line = "workerEventLineFromAgentEvent cd e (bs_seq s + 1) now" and ?s = "s\<lparr>bs_seq := bs_seq s + 1\<rparr>"
  consider "s' = ?s" | "flush post ?s = (Some err, s')"
    | n s1 where "make_room b post n ?s = (None, s1)" "add_line b post ?line n s1 = (Some err, s')"
    using assms by (auto simp: take_event_def Let_def make_room_def split: sum.splits prod.splits option.splits if_splits)
  then show ?thesis
  proof cases
    case 1
    then show ?thesis by simp
  next
    case 2
    then have "prefix (received (bs_sink s')) (received (bs_sink s) @ bs_batch s)" using flush_part [of ?s err s'] by simp
    then show ?thesis by (metis append_assoc prefix_prefix)
  next
    case (3 n s1)
    then have "flush post (s1\<lparr>bs_batch := bs_batch s1 @ [?line], bs_batchBytes := bs_batchBytes s1 + n\<rparr>) = (Some err, s')"
      by (auto simp: add_line_def Let_def split: if_splits)
    from flush_part [OF this] make_room_ok [OF 3(1)] show ?thesis by (simp flip: append_assoc)
  qed
qed

text \<open>Nothing is lost or duplicated by the loop, whatever the timer does.\<close>

definition due :: "event_codec \<Rightarrow> batch_input list \<Rightarrow> 's batching \<Rightarrow> WorkerEventLine list" where
  "due cd is s = received (bs_sink s) @ bs_batch s @ input_lines cd (bs_seq s) is"

lemma flush_due:
  assumes "flush post s = (err, s')"
  shows "prefix (received (bs_sink s')) (received (bs_sink s) @ bs_batch s)"
    and "err = None \<Longrightarrow> received (bs_sink s') = received (bs_sink s) @ bs_batch s \<and> due cd is s' = due cd is s"
proof -
  show "prefix (received (bs_sink s')) (received (bs_sink s) @ bs_batch s)"
    using assms flush_ok [of s s'] flush_part [of s _ s'] by (cases err) simp_all
  assume "err = None"
  with assms flush_ok [of s s'] show "received (bs_sink s') = received (bs_sink s) @ bs_batch s \<and> due cd is s' = due cd is s"
    by (simp add: due_def)
qed

lemma consume_step_due:
  assumes "consume_step cd b post i s = (q, s')"
  shows "prefix (received (bs_sink s')) (due cd (i # is) s)"
    and "q = None \<Longrightarrow> due cd is s' = due cd (i # is) s"
    and "q = Some None \<Longrightarrow> received (bs_sink s') = due cd (i # is) s"
proof -
  have "prefix (received (bs_sink s')) (due cd (i # is) s) \<and> (q = None \<longrightarrow> due cd is s' = due cd (i # is) s) \<and>
      (q = Some None \<longrightarrow> received (bs_sink s') = due cd (i # is) s)"
  proof (cases i)
    case (GotEvent e now)
    let ?line = "workerEventLineFromAgentEvent cd e (bs_seq s + 1) now"
    have due: "due cd (i # is) s = (received (bs_sink s) @ bs_batch s @ [?line]) @ input_lines cd (bs_seq s + 1) is"
      by (simp add: due_def GotEvent)
    from assms GotEvent obtain err where err: "take_event cd b post e now s = (err, s')" "q = map_option Some err"
      by (auto simp: consume_step_def split: prod.splits)
    show ?thesis
    proof (cases err)
      case None
      with err take_event_ok [of cd b e now s s'] have "received (bs_sink s') @ bs_batch s' = received (bs_sink s) @ bs_batch s @ [?line]"
        and "bs_seq s' = bs_seq s + 1" by simp_all
      then have "due cd is s' = due cd (i # is) s" unfolding due by (simp add: due_def flip: append_assoc)
      with None err show ?thesis by (simp add: due_def [of cd "is" s']) (metis prefixI)
    next
      case (Some x)
      with err take_event_part [of cd b e now s x s'] have "prefix (received (bs_sink s')) (received (bs_sink s) @ bs_batch s @ [?line])" by simp
      then have "prefix (received (bs_sink s')) (due cd (i # is) s)" unfolding due by (rule prefix_prefix)
      with Some err show ?thesis by simp
    qed
  next
    case TimerFired
    from assms TimerFired obtain err where err: "flush post s = (err, s')" "q = map_option Some err"
      by (auto simp: consume_step_def split: prod.splits)
    have same: "due cd (i # is) s = due cd is s" by (simp add: due_def TimerFired)
    have "due cd is s = (received (bs_sink s) @ bs_batch s) @ input_lines cd (bs_seq s) is" by (simp add: due_def)
    with flush_due(1) [OF err(1)] have "prefix (received (bs_sink s')) (due cd is s)" by (metis prefix_prefix)
    with flush_due(2) [OF err(1), of cd "is"] err(2) same show ?thesis by (cases err) simp_all
  next
    case EventsClosed
    with assms obtain err where err: "flush post s = (err, s')" "q = Some err"
      by (auto simp: consume_step_def split: prod.splits)
    with flush_due(1) [OF err(1)] flush_due(2) [OF err(1)] show ?thesis by (simp add: due_def EventsClosed)
  next
    case CtxDone
    with assms obtain err where err: "flush post s = (err, s')" "q = Some (case err of Some e \<Rightarrow> Some e | None \<Rightarrow> Some ErrCanceled)"
      by (auto simp: consume_step_def split: prod.splits)
    with flush_due(1) [OF err(1)] show ?thesis by (auto simp: due_def CtxDone split: option.splits)
  qed
  then show "prefix (received (bs_sink s')) (due cd (i # is) s)"
    and "q = None \<Longrightarrow> due cd is s' = due cd (i # is) s"
    and "q = Some None \<Longrightarrow> received (bs_sink s') = due cd (i # is) s" by auto
qed

lemma consume_loop_due:
  assumes "consume_loop cd b post is s = (r, s')"
  shows "prefix (received (bs_sink s')) (due cd is s) \<and>
    (r = None \<longrightarrow> received (bs_sink s') @ bs_batch s' = due cd is s) \<and> (r = Some None \<longrightarrow> received (bs_sink s') = due cd is s)"
  using assms
proof (induction "is" arbitrary: s)
  case Nil
  then show ?case by (auto simp: due_def prefix_def)
next
  case (Cons i "is")
  obtain q s1 where step: "consume_step cd b post i s = (q, s1)" by (meson surj_pair)
  note due = consume_step_due [OF step, of "is"]
  show ?case
  proof (cases q)
    case None
    with Cons.prems step have "consume_loop cd b post is s1 = (r, s')" by simp
    from Cons.IH [OF this] due(2) [OF None] show ?thesis by simp
  next
    case (Some x)
    with Cons.prems step have "r = Some x" "s' = s1" by auto
    with due Some show ?thesis by auto
  qed
qed

end

section \<open>The sizes of the batches\<close>

definition line_bytes :: "event_codec \<Rightarrow> WorkerEventLine \<Rightarrow> int" where
  "line_bytes cd l = (case ec_size cd l of Inr n \<Rightarrow> n | Inl _ \<Rightarrow> 0)"

definition batch_bytes :: "event_codec \<Rightarrow> WorkerEventLine list \<Rightarrow> int" where
  "batch_bytes cd ls = sum_list (map (line_bytes cd) ls)"

text \<open>A batch that may be posted, and one that waits for more lines.\<close>

definition batch_fits :: "event_codec \<Rightarrow> workerEventBatcher \<Rightarrow> WorkerEventLine list \<Rightarrow> bool" where
  "batch_fits cd b ls \<longleftrightarrow> ls \<noteq> [] \<and> int (length ls) \<le> eb_maxEvents b \<and>
     (batch_bytes cd ls \<le> eb_maxBytes b \<or> length ls = 1)"

definition batching_ok :: "event_codec \<Rightarrow> workerEventBatcher \<Rightarrow> 's batching \<Rightarrow> bool" where
  "batching_ok cd b s \<longleftrightarrow> bs_batchBytes s = batch_bytes cd (bs_batch s) \<and> int (length (bs_batch s)) < eb_maxEvents b \<and>
     bs_batchBytes s < eb_maxBytes b \<and> list_all (batch_fits cd b) (bs_posted s)"

lemma flush_batching_ok:
  assumes "batch_fits cd b (bs_batch s)" "list_all (batch_fits cd b) (bs_posted s)" "1 \<le> eb_maxEvents b" "1 \<le> eb_maxBytes b"
  shows "batching_ok cd b (snd (flush post s))"
  using assms by (auto simp: flush_def batching_ok_def batch_fits_def batch_bytes_def split: prod.splits)

lemma waiting_fits: "batching_ok cd b s \<Longrightarrow> bs_batch s \<noteq> [] \<Longrightarrow> batch_fits cd b (bs_batch s)"
  by (auto simp: batching_ok_def batch_fits_def)

lemma flush_waiting_ok:
  assumes "batching_ok cd b s" "1 \<le> eb_maxEvents b" "1 \<le> eb_maxBytes b"
  shows "batching_ok cd b (snd (flush post s))"
proof (cases "bs_batch s = []")
  case True
  with assms show ?thesis by (simp add: flush_def)
next
  case False
  with assms waiting_fits flush_batching_ok show ?thesis by (metis batching_ok_def)
qed

lemma take_event_batching_ok:
  assumes ok: "batching_ok cd b s" and b: "1 \<le> eb_maxEvents b" "1 \<le> eb_maxBytes b"
  shows "batching_ok cd b (snd (take_event cd b post e now s))"
proof -
  let ?line = "workerEventLineFromAgentEvent cd e (bs_seq s + 1) now" and ?s = "s\<lparr>bs_seq := bs_seq s + 1\<rparr>"
  have ok': "batching_ok cd b ?s" using ok by (simp add: batching_ok_def)
  show ?thesis
  proof (cases "ec_size cd ?line")
    case (Inl x)
    with ok' show ?thesis by (simp add: take_event_def Let_def)
  next
    case (Inr n)
    obtain r s1 where room: "make_room b post n ?s = (r, s1)" by (meson surj_pair)
    have s1: "batching_ok cd b s1"
      using room ok' flush_waiting_ok [OF ok' b, of post] by (auto simp: make_room_def split: if_splits)
    show ?thesis
    proof (cases r)
      case (Some x)
      with s1 room Inr show ?thesis by (simp add: take_event_def Let_def)
    next
      case None
      let ?s2 = "s1\<lparr>bs_batch := bs_batch s1 @ [?line], bs_batchBytes := bs_batchBytes s1 + n\<rparr>"
      have bytes: "batch_bytes cd (bs_batch s1 @ [?line]) = bs_batchBytes s1 + n"
        using s1 Inr by (simp add: batching_ok_def batch_bytes_def line_bytes_def)
      have "bs_batch s1 = [] \<or> bs_batchBytes s1 + n \<le> eb_maxBytes b"
        using room None ok' by (auto simp: make_room_def flush_def split: if_splits prod.splits)
      then have fits: "batch_fits cd b (bs_batch ?s2)"
        using s1 b bytes by (auto simp: batch_fits_def batching_ok_def)
      have "batching_ok cd b (snd (add_line b post ?line n s1))"
        using fits s1 b bytes flush_batching_ok [of cd b ?s2 post]
        by (auto simp: add_line_def Let_def batching_ok_def)
      with None room Inr show ?thesis by (simp add: take_event_def Let_def)
    qed
  qed
qed

lemma consume_loop_batching_ok:
  assumes "batching_ok cd b s" "1 \<le> eb_maxEvents b" "1 \<le> eb_maxBytes b"
  shows "batching_ok cd b (snd (consume_loop cd b post is s))"
  using assms
proof (induction "is" arbitrary: s)
  case (Cons i "is")
  obtain q s1 where step: "consume_step cd b post i s = (q, s1)" by (meson surj_pair)
  have "batching_ok cd b s1"
    using step flush_waiting_ok [OF Cons.prems, of post] take_event_batching_ok [OF Cons.prems, of post]
    by (auto simp: consume_step_def split: batch_input.splits prod.splits) (metis snd_conv)+
  with Cons step show ?case by (cases q) simp_all
qed simp

section \<open>Posting in halves\<close>

lemma postOnce_cases:
  "postWorkerEventsOnce events c = (r, c') \<Longrightarrow>
   cl_requests c' = cl_requests c @ [events] \<and> cl_answer c' = cl_answer c \<and>
   cl_received c' = (if r = None then cl_received c @ events else cl_received c)"
  by (auto simp: postWorkerEventsOnce_def Let_def split: post_answer.splits)

definition halves :: "WorkerEventLine list \<Rightarrow> cloud \<Rightarrow> go_error option \<times> cloud" where
  "halves events c = (case postWorkerEvents (take (length events div 2) events) c of
     (Some err, c') \<Rightarrow> (Some err, c')
   | (None, c') \<Rightarrow> postWorkerEvents (drop (length events div 2) events) c')"

lemma post_cases:
  assumes "postWorkerEvents events c = (r, c')"
  obtains (none) "events = []" "r = None" "c' = c"
  | (split) "length events > 1" "halves events c = (r, c')"
  | (once) "events \<noteq> []" "int (length events) \<le> workerEventsMaxPerBatch" "postWorkerEventsOnce events c = (r, c')"
  | (retry) err c0 where "length events > 1" "int (length events) \<le> workerEventsMaxPerBatch"
      "postWorkerEventsOnce events c = (Some err, c0)" "halves events c0 = (r, c')"
  using assms
  by (subst (asm) postWorkerEvents.simps)
     (auto simp: halves_def workerEventsMaxPerBatch_def split: if_splits prod.splits option.splits)

definition delivers :: "WorkerEventLine list \<Rightarrow> cloud \<Rightarrow> go_error option \<times> cloud \<Rightarrow> bool" where
  "delivers events c x \<longleftrightarrow> prefix (cl_received (snd x)) (cl_received c @ events) \<and>
     (fst x = None \<longrightarrow> cl_received (snd x) = cl_received c @ events)"

lemma halves_deliver:
  assumes "\<And>c. delivers (take (length events div 2) events) c (postWorkerEvents (take (length events div 2) events) c)"
    and "\<And>c. delivers (drop (length events div 2) events) c (postWorkerEvents (drop (length events div 2) events) c)"
  shows "delivers events c (halves events c)"
proof -
  let ?l = "take (length events div 2) events" and ?r = "drop (length events div 2) events"
  obtain q c1 where q: "postWorkerEvents ?l c = (q, c1)" by (meson surj_pair)
  have left: "prefix (cl_received c1) (cl_received c @ ?l) \<and> (q = None \<longrightarrow> cl_received c1 = cl_received c @ ?l)"
    using assms(1) [of c] q by (simp add: delivers_def)
  show ?thesis
  proof (cases q)
    case None
    with left q assms(2) [of c1] show ?thesis by (simp add: halves_def delivers_def)
  next
    case (Some x)
    from left have "prefix (cl_received c1) ((cl_received c @ ?l) @ ?r)" by (blast intro: prefix_prefix)
    with Some q show ?thesis by (simp add: halves_def delivers_def)
  qed
qed

lemma post_delivers: "delivers events c (postWorkerEvents events c)"
proof (induction events arbitrary: c rule: length_induct)
  case (1 events)
  have halves: "delivers events c (halves events c)" if "length events > 1" for c
    by (rule halves_deliver) (use 1 that in auto)
  obtain r c' where run: "postWorkerEvents events c = (r, c')" by (meson surj_pair)
  from run show ?case
  proof (cases rule: post_cases)
    case none
    with run show ?thesis by (simp add: delivers_def)
  next
    case split
    with run halves [of c] show ?thesis by simp
  next
    case once
    with run postOnce_cases [OF once(3)] show ?thesis by (auto simp: delivers_def)
  next
    case (retry err c0)
    with run halves [of c0] postOnce_cases [OF retry(3)] show ?thesis by (simp add: delivers_def)
  qed
qed

lemma post_received:
  assumes "postWorkerEvents events c = (r, c')"
  shows "prefix (cl_received c') (cl_received c @ events) \<and> (r = None \<longrightarrow> cl_received c' = cl_received c @ events)"
  using post_delivers [of events c] assms by (simp add: delivers_def)

text \<open>What every request keeps holds along all of them.\<close>

lemma post_keeps:
  assumes once: "\<And>es c. es \<noteq> [] \<Longrightarrow> int (length es) \<le> workerEventsMaxPerBatch \<Longrightarrow> P c \<Longrightarrow> P (snd (postWorkerEventsOnce es c))"
  shows "P c \<Longrightarrow> P (snd (postWorkerEvents events c))"
proof (induction events arbitrary: c rule: length_induct)
  case (1 events)
  have halves: "P (snd (halves events c))" if "length events > 1" "P c" for c
  proof -
    have l: "P (snd (postWorkerEvents (take (length events div 2) events) c))" and
      r: "\<And>c. P c \<Longrightarrow> P (snd (postWorkerEvents (drop (length events div 2) events) c))"
      using 1 that by auto
    obtain q c1 where q: "postWorkerEvents (take (length events div 2) events) c = (q, c1)" by (meson surj_pair)
    with l r show ?thesis by (cases q) (simp_all add: halves_def)
  qed
  obtain r c' where run: "postWorkerEvents events c = (r, c')" by (meson surj_pair)
  from run show ?case
  proof (cases rule: post_cases)
    case none
    with run "1.prems" show ?thesis by simp
  next
    case split
    with run halves [of c] "1.prems" show ?thesis by simp
  next
    case once'': once
    with run once [OF once''(1, 2) "1.prems"] show ?thesis by simp
  next
    case (retry err c0)
    then have "events \<noteq> []" by auto
    with once [OF _ retry(2) "1.prems"] retry(3) have "P c0" by (metis snd_conv)
    with run halves [of c0] retry show ?thesis by simp
  qed
qed

text \<open>No request is empty or has more than 200 lines.\<close>

definition small_requests :: "cloud \<Rightarrow> bool" where
  "small_requests c \<longleftrightarrow> list_all (\<lambda>r. r \<noteq> [] \<and> int (length r) \<le> workerEventsMaxPerBatch) (cl_requests c)"

lemma post_small_requests: "small_requests c \<Longrightarrow> small_requests (snd (postWorkerEvents events c))"
proof (rule post_keeps)
  fix es :: "WorkerEventLine list" and c
  assume "es \<noteq> []" "int (length es) \<le> workerEventsMaxPerBatch" "small_requests c"
  moreover obtain r c' where "postWorkerEventsOnce es c = (r, c')" by (meson surj_pair)
  ultimately show "small_requests (snd (postWorkerEventsOnce es c))"
    using postOnce_cases [of es c r c'] by (simp add: small_requests_def)
qed

interpretation upload: event_sink postWorkerEvents cl_received
  by unfold_locales (use post_received in blast)+

lemma consume_loop_keeps:
  assumes "\<And>es c. P c \<Longrightarrow> P (snd (post es c))"
  shows "P (bs_sink s) \<Longrightarrow> P (bs_sink (snd (consume_loop cd b post is s)))"
proof (induction "is" arbitrary: s)
  case (Cons i "is")
  have flush: "P (bs_sink s) \<Longrightarrow> P (bs_sink (snd (flush post s)))" for s
    using assms [of "bs_sink s" "bs_batch s"] by (auto simp: flush_def split: prod.splits)
  have take: "P (bs_sink (snd (take_event cd b post e now s)))" for e now
  proof (cases "ec_size cd (workerEventLineFromAgentEvent cd e (bs_seq s + 1) now)")
    case (Inl x)
    with Cons.prems show ?thesis by (simp add: take_event_def Let_def)
  next
    case (Inr n)
    obtain r s1 where room: "make_room b post n (s\<lparr>bs_seq := bs_seq s + 1\<rparr>) = (r, s1)" by (meson surj_pair)
    then have "P (bs_sink s1)" using flush [of "s\<lparr>bs_seq := bs_seq s + 1\<rparr>"] Cons.prems by (auto simp: make_room_def split: if_splits)
    then have "P (bs_sink (snd (add_line b post l n s1)))" for l by (auto simp: add_line_def Let_def intro: flush)
    with room Inr \<open>P (bs_sink s1)\<close> show ?thesis by (cases r) (simp_all add: take_event_def Let_def)
  qed
  obtain q s1 where step: "consume_step cd b post i s = (q, s1)" by (meson surj_pair)
  have "P (bs_sink s1)"
    using step flush [OF Cons.prems] take
    by (auto simp: consume_step_def split: batch_input.splits prod.splits) (metis snd_conv)+
  with Cons step show ?case by (cases q) simp_all
qed simp

section \<open>The properties\<close>

lemma input_lines_numbered: "map wl_seq (input_lines cd n is) = map (\<lambda>k. n + 1 + int k) [0..<length (input_lines cd n is)]"
proof (induction cd n "is" rule: input_lines.induct)
  case (2 cd n e now "is")
  then show ?case
    by (simp add: workerEventLineFromAgentEvent_def Let_def upt_conv_Cons map_Suc_upt [symmetric] del: upt_Suc)
qed simp_all

lemma defaults_positive: "1 \<le> eb_maxEvents (batcher_defaults b) \<and> 1 \<le> eb_maxBytes (batcher_defaults b)"
  by (simp add: batcher_defaults_def workerEventsMaxPerBatch_def workerEventsMaxBytes_def)

text \<open>
  C27. Whatever the agent emits, whenever the timer fires and whatever the cloud answers: the lines that the
  cloud has accepted are a prefix of the agent's events, numbered 1, 2, ..., each once and in order. When
  the events end and no request failed it has all of them, and while the loop runs only the lines of the
  current batch are missing. Every batch is within the limits unless it is a single line, and every
  request within 200 lines.
\<close>

theorem events_reach_cloud_once:
  assumes "Consume cd b postWorkerEvents inputs c = (r, s)" and "small_requests c"
  shows "let sent = input_lines cd 0 inputs; got = cl_received (bs_sink s) in
    prefix got (cl_received c @ sent) \<and> map wl_seq sent = map (\<lambda>k. 1 + int k) [0..<length sent] \<and>
    (r = Some None \<longrightarrow> got = cl_received c @ sent) \<and> (r = None \<longrightarrow> got @ bs_batch s = cl_received c @ sent) \<and>
    list_all (batch_fits cd (batcher_defaults b)) (bs_posted s) \<and> small_requests (bs_sink s)"
proof -
  let ?s0 = "\<lparr>bs_batch = [], bs_batchBytes = 0, bs_seq = 0, bs_posted = [], bs_sink = c\<rparr>" and ?b = "batcher_defaults b"
  have run: "consume_loop cd ?b postWorkerEvents inputs ?s0 = (r, s)" using assms(1) by (simp add: Consume_def)
  have "batching_ok cd ?b ?s0" using defaults_positive [of b] by (auto simp: batching_ok_def batch_bytes_def)
  then have "batching_ok cd ?b s"
    using consume_loop_batching_ok [of cd ?b ?s0 postWorkerEvents inputs] defaults_positive [of b] run by simp
  moreover have "small_requests (bs_sink s)"
    using consume_loop_keeps [of small_requests postWorkerEvents ?s0] post_small_requests assms(2) run by (metis batching.select_convs(5) snd_conv)
  ultimately show ?thesis
    using upload.consume_loop_due [OF run] input_lines_numbered [of cd 0 inputs]
    by (simp add: upload.due_def batching_ok_def Let_def)
qed

definition sample_codec :: event_codec where
  "sample_codec = \<lparr>ec_marshal = (\<lambda>_. Inr ''{}''), ec_size = (\<lambda>_. Inr 100)\<rparr>"

definition sample_cloud :: "(WorkerEventLine list \<Rightarrow> bool) \<Rightarrow> cloud" where
  "sample_cloud big = \<lparr>cl_answer = (\<lambda>_ es. if big es then TooLarge else Accepted), cl_requests = [], cl_received = []\<rparr>"

definition sample_event :: AgentEvent where
  "sample_event = \<lparr>ae_Type = ''log'', ae_IssueID = ''1'', ae_Data = None, ae_Timestamp = unix_epoch\<rparr>"

theorem events_reach_cloud_once_witness:
  "prefix (cl_received (bs_sink (snd (Consume sample_codec newWorkerEventBatcher postWorkerEvents
       [GotEvent sample_event 5, TimerFired, GotEvent sample_event 6, EventsClosed] (sample_cloud (\<lambda>_. False))))))
     (input_lines sample_codec 0 [GotEvent sample_event 5, TimerFired, GotEvent sample_event 6, EventsClosed])"
proof -
  let ?is = "[GotEvent sample_event 5, TimerFired, GotEvent sample_event 6, EventsClosed]"
  obtain r s where run: "Consume sample_codec newWorkerEventBatcher postWorkerEvents ?is (sample_cloud (\<lambda>_. False)) = (r, s)"
    by (meson surj_pair)
  have "small_requests (sample_cloud (\<lambda>_. False))" by (simp add: small_requests_def sample_cloud_def)
  from events_reach_cloud_once [OF run this] run show ?thesis by (simp add: Let_def sample_cloud_def)
qed

text \<open>A cloud that accepts a request exactly when its lines fit into a limit.\<close>

definition limits :: "event_codec \<Rightarrow> int \<Rightarrow> cloud \<Rightarrow> bool" where
  "limits cd m c \<longleftrightarrow> cl_answer c = (\<lambda>h es. if batch_bytes cd es \<le> m then Accepted else TooLarge)"

lemma post_limits: "limits cd m c \<Longrightarrow> limits cd m (snd (postWorkerEvents events c))"
proof (rule post_keeps)
  fix es :: "WorkerEventLine list" and c
  assume "limits cd m c"
  moreover obtain r c' where "postWorkerEventsOnce es c = (r, c')" by (meson surj_pair)
  ultimately show "limits cd m (snd (postWorkerEventsOnce es c))"
    using postOnce_cases [of es c r c'] by (simp add: limits_def)
qed

lemma halving_succeeds:
  assumes "limits cd m c" and "list_all (\<lambda>l. line_bytes cd l \<le> m) events"
  shows "fst (postWorkerEvents events c) = None"
  using assms(1, 2)
proof (induction events arbitrary: c rule: length_induct)
  case (1 events)
  have halves: "fst (halves events c) = None" if "length events > 1" "limits cd m c" for c
  proof -
    let ?l = "take (length events div 2) events" and ?r = "drop (length events div 2) events"
    have small: "list_all (\<lambda>l. line_bytes cd l \<le> m) ?l" "list_all (\<lambda>l. line_bytes cd l \<le> m) ?r"
      using "1.prems"(2) by (auto simp: list_all_iff dest: in_set_takeD in_set_dropD)
    then have l: "fst (postWorkerEvents ?l c) = None" and r: "\<And>c. limits cd m c \<Longrightarrow> fst (postWorkerEvents ?r c) = None"
      using 1 that by auto
    obtain q c1 where q: "postWorkerEvents ?l c = (q, c1)" by (meson surj_pair)
    with post_limits [OF that(2), of ?l] have "limits cd m c1" by simp
    with l r q show ?thesis by (simp add: halves_def)
  qed
  obtain r c' where run: "postWorkerEvents events c = (r, c')" by (meson surj_pair)
  from run show ?case
  proof (cases rule: post_cases)
    case none
    with run show ?thesis by simp
  next
    case split
    with run halves [of c] "1.prems" show ?thesis by simp
  next
    case once
    show ?thesis
    proof (cases r)
      case (Some err)
      with once(3) "1.prems"(1) have "\<not> batch_bytes cd events \<le> m" and err: "errors_is err errWorkerEventsTooLarge"
        by (auto simp: postWorkerEventsOnce_def limits_def Let_def errWorkerEventsTooLarge_def split: if_splits)
      with "1.prems"(2) have "length events > 1"
        using once(1) by (cases events; cases "tl events") (auto simp: batch_bytes_def)
      then have "postWorkerEvents events c = halves events c'"
        using once Some err by (subst postWorkerEvents.simps) (auto simp: halves_def)
      moreover have "limits cd m c'" using postOnce_cases [OF once(3)] "1.prems"(1) by (simp add: limits_def)
      ultimately show ?thesis using halves \<open>length events > 1\<close> by simp
    qed (use run in simp)
  next
    case (retry err c0)
    with postOnce_cases [OF retry(3)] "1.prems"(1) have "limits cd m c0" by (simp add: limits_def)
    with run halves [of c0] retry show ?thesis by simp
  qed
qed

text \<open>
  When the cloud refuses a request only for its size and every single line is within the limit, the
  halving of refused batches ends with all lines accepted, however large the batch.
\<close>

theorem halving_delivers_all:
  assumes "limits cd m c" and "list_all (\<lambda>l. line_bytes cd l \<le> m) events"
  shows "fst (postWorkerEvents events c) = None \<and> cl_received (snd (postWorkerEvents events c)) = cl_received c @ events"
proof -
  have "fst (postWorkerEvents events c) = None" by (rule halving_succeeds [OF assms])
  then show ?thesis using post_received [of events c] by (metis prod.collapse)
qed

theorem halving_delivers_all_witness:
  "cl_received (snd (postWorkerEvents (replicate 3 (workerEventLineFromAgentEvent sample_codec sample_event 1 5))
       (sample_cloud (\<lambda>es. 150 < batch_bytes sample_codec es)))) =
   replicate 3 (workerEventLineFromAgentEvent sample_codec sample_event 1 5)"
proof -
  have "limits sample_codec 150 (sample_cloud (\<lambda>es. 150 < batch_bytes sample_codec es))"
    by (auto simp: limits_def sample_cloud_def fun_eq_iff)
  then show ?thesis
    using halving_delivers_all [of sample_codec 150 _ "replicate 3 (workerEventLineFromAgentEvent sample_codec sample_event 1 5)"]
    by (simp add: line_bytes_def sample_codec_def sample_cloud_def numeral_eq_Suc)
qed

end
