(* ===== verification/Worker_Session.thy ===== *)
theory Worker_Session
  imports Worker_Events
begin

text \<open>
  Models the HTTP side of a cloud worker: \<open>internal/cli/worker/worker.go\<close> (registration), \<open>worker_session.go\<close>
  (the refreshed token) and \<open>worker_config_cache.go\<close>. The cloud is a parameter: \<open>nt_do\<close> answers a request given
  those made before. So are the functions of \<open>net/url\<close> (\<open>url_lib\<close>) and the decoding of the JSON answers
  (\<open>answer_codec\<close>). A request is what the code puts into it; the protocol version, a constant, is left out.
\<close>

section \<open>Requests\<close>

record url =
  ur_Scheme :: string
  ur_Host :: string
  ur_Path :: string
  ur_RawQuery :: string
  ur_Fragment :: string

record url_lib =
  ul_Parse :: "string \<Rightarrow> url result"
  ul_String :: "url \<Rightarrow> string"
  ul_PathEscape :: "string \<Rightarrow> string"
  ul_EscapedPath :: "url \<Rightarrow> string"
  ul_PathUnescape :: "string \<Rightarrow> string result"

datatype request_body =
    NoBody
  | EnrollBody string "string option"
  | RefreshBody string
  | RegisterBody string string "string list" int bool
  | AckBody (ab_Accept: bool) (ab_Reason: string)
  | HeartbeatBody (hbb_LastEventTs: int) (hbb_Progress: string)

record http_request =
  hq_Method :: string
  hq_URL :: string
  hq_Token :: "string option"
  hq_Body :: request_body

record http_response =
  hs_StatusCode :: int
  hs_Body :: string

record net =
  nt_do :: "http_request list \<Rightarrow> http_request \<Rightarrow> http_response result"
  nt_log :: "http_request list"

definition http_Do :: "http_request \<Rightarrow> net \<Rightarrow> http_response result \<times> net" where
  "http_Do q n = (nt_do n (nt_log n) q, n\<lparr>nt_log := nt_log n @ [q]\<rparr>)"

definition ok_status :: "int \<Rightarrow> bool" where
  "ok_status code \<longleftrightarrow> 200 \<le> code \<and> code < 300"

definition trim_right_slashes :: "string \<Rightarrow> string" where
  "trim_right_slashes s = rev (dropWhile (\<lambda>c. c = CHR 0x2F) (rev s))"

definition workerAPIEndpoint :: "url_lib \<Rightarrow> string \<Rightarrow> string \<Rightarrow> string result" where
  "workerAPIEndpoint ul apiBaseURL path =
     (if apiBaseURL = [] then Inl (ErrMsg ''api-url is required'')
      else (case ul_Parse ul apiBaseURL of
        Inl err \<Rightarrow> Inl (ErrMsg (''invalid api-url '' @ fmt_q apiBaseURL))
      | Inr parsed \<Rightarrow>
          if ur_Scheme parsed = [] \<or> ur_Host parsed = [] then Inl (ErrMsg (''invalid api-url '' @ fmt_q apiBaseURL))
          else Inr (ul_String ul (parsed\<lparr>ur_Path := trim_right_slashes (ur_Path parsed) @ path, ur_RawQuery := [], ur_Fragment := []\<rparr>))))"

section \<open>Sessions\<close>

record refresh_answer =
  fa_SessionToken :: string
  fa_Error :: string

record register_answer =
  ga_SessionToken :: string
  ga_RefreshToken :: string
  ga_WsURL :: string
  ga_LongPollURL :: string
  ga_HeartbeatIntervalSec :: int
  ga_LeaseSec :: int
  ga_Error :: string

record answer_codec =
  dc_refresh :: "string \<Rightarrow> refresh_answer result"
  dc_register :: "string \<Rightarrow> register_answer result"

definition http_suffix :: "int \<Rightarrow> string" where
  "http_suffix code = ''HTTP '' @ fmt_int code"

definition refreshWorkerSession :: "url_lib \<Rightarrow> answer_codec \<Rightarrow> string \<Rightarrow> string \<Rightarrow> net \<Rightarrow> string result \<times> net" where
  "refreshWorkerSession ul dc apiBaseURL refreshToken n = (case workerAPIEndpoint ul apiBaseURL ''/v1/workers/refresh'' of
     Inl err \<Rightarrow> (Inl err, n)
   | Inr endpoint \<Rightarrow>
      (case http_Do \<lparr>hq_Method = ''POST'', hq_URL = endpoint, hq_Token = None, hq_Body = RefreshBody refreshToken\<rparr> n of
         (Inl err, n) \<Rightarrow> (Inl (Wrap ''posting refresh request'' err), n)
       | (Inr resp, n) \<Rightarrow>
          (case dc_refresh dc (hs_Body resp) of
             Inl err \<Rightarrow> (Inl (Wrap ''decoding refresh response'' err), n)
           | Inr response \<Rightarrow>
              (if \<not> ok_status (hs_StatusCode resp)
               then (Inl (ErrMsg
                 (if fa_Error response \<in> {''refresh_revoked'', ''refresh_expired'', ''refresh_invalid''}
                  then ''worker refresh token is invalid; run '' @ fmt_q ''contrabass worker login'' @ '' again ('' @ fa_Error response @ '')''
                  else if fa_Error response = [] then ''worker session refresh failed: '' @ http_suffix (hs_StatusCode resp)
                  else ''worker session refresh failed: '' @ fa_Error response @ '' ('' @ http_suffix (hs_StatusCode resp) @ '')'')), n)
               else if fa_SessionToken response = [] then (Inl (ErrMsg ''refresh response missing sessionToken''), n)
               else (Inr (fa_SessionToken response), n)))))"

record workerEnrollment =
  we_TeamID :: string
  we_WorkerID :: string
  we_RefreshToken :: string

record workerOptions =
  wo_TeamID :: string
  wo_APIBaseURL :: string
  wo_MaxConcurrency :: int
  wo_Ephemeral :: bool

text \<open>The session manager is shared; it is passed beside the registration, \<open>None\<close> for a registration without one.\<close>

record workerRegistration =
  wr_APIBaseURL :: string
  wr_SessionToken :: string
  wr_RefreshToken :: string
  wr_WsURL :: string
  wr_LongPollURL :: string
  wr_HeartbeatIntervalSec :: int
  wr_LeaseSec :: int
  wr_Ephemeral :: bool

record workerSessionManager =
  sm_sessionToken :: string
  sm_refreshToken :: string
  sm_apiBaseURL :: string

definition workerEphemeralDefaultLeaseSec :: int where
  "workerEphemeralDefaultLeaseSec = 30"

definition registerWorker ::
  "url_lib \<Rightarrow> answer_codec \<Rightarrow> workerOptions \<Rightarrow> workerEnrollment \<Rightarrow> string list \<Rightarrow> net \<Rightarrow> workerRegistration result \<times> net" where
  "registerWorker ul dc opts enrollment capabilities n =
     (case refreshWorkerSession ul dc (wo_APIBaseURL opts) (we_RefreshToken enrollment) n of
        (Inl err, n) \<Rightarrow> (Inl err, n)
      | (Inr sessionToken, n) \<Rightarrow>
         (case workerAPIEndpoint ul (wo_APIBaseURL opts) ''/v1/workers/register'' of
            Inl err \<Rightarrow> (Inl err, n)
          | Inr endpoint \<Rightarrow>
             (case http_Do \<lparr>hq_Method = ''POST'', hq_URL = endpoint, hq_Token = Some sessionToken,
                  hq_Body = RegisterBody (we_TeamID enrollment) (we_WorkerID enrollment) capabilities
                    (wo_MaxConcurrency opts) (wo_Ephemeral opts)\<rparr> n of
                (Inl err, n) \<Rightarrow> (Inl (Wrap ''posting registration request'' err), n)
              | (Inr resp, n) \<Rightarrow>
                 (case dc_register dc (hs_Body resp) of
                    Inl err \<Rightarrow> (Inl (Wrap ''decoding registration response'' err), n)
                  | Inr response \<Rightarrow>
                     (if \<not> ok_status (hs_StatusCode resp)
                      then (Inl (ErrMsg
                        (if ga_Error response \<noteq> []
                         then ''worker registration failed: '' @ ga_Error response @ '' ('' @ http_suffix (hs_StatusCode resp) @ '')''
                         else ''worker registration failed: '' @ http_suffix (hs_StatusCode resp))), n)
                      else if ga_SessionToken response = [] \<or> ga_WsURL response = [] \<or> ga_LongPollURL response = []
                      then (Inl (ErrMsg ''registration response missing sessionToken, dispatchChannel.wsUrl, or dispatchChannel.longPollUrl''), n)
                      else (Inr \<lparr>wr_APIBaseURL = wo_APIBaseURL opts, wr_SessionToken = ga_SessionToken response,
                          wr_RefreshToken = ga_RefreshToken response, wr_WsURL = ga_WsURL response,
                          wr_LongPollURL = ga_LongPollURL response, wr_HeartbeatIntervalSec = ga_HeartbeatIntervalSec response,
                          wr_LeaseSec = (if ga_LeaseSec response = 0 \<and> wo_Ephemeral opts then workerEphemeralDefaultLeaseSec
                            else ga_LeaseSec response),
                          wr_Ephemeral = wo_Ephemeral opts\<rparr>, n))))))"

definition newWorkerSessionManager :: "workerRegistration \<Rightarrow> workerSessionManager" where
  "newWorkerSessionManager reg =
     \<lparr>sm_sessionToken = wr_SessionToken reg, sm_refreshToken = wr_RefreshToken reg, sm_apiBaseURL = wr_APIBaseURL reg\<rparr>"

definition currentToken :: "workerSessionManager option \<Rightarrow> workerRegistration \<Rightarrow> string" where
  "currentToken sm r = (case sm of Some m \<Rightarrow> sm_sessionToken m | None \<Rightarrow> wr_SessionToken r)"

definition session_Refresh ::
  "url_lib \<Rightarrow> answer_codec \<Rightarrow> workerSessionManager \<Rightarrow> net \<Rightarrow> go_error option \<times> workerSessionManager \<times> net" where
  "session_Refresh ul dc m n = (case refreshWorkerSession ul dc (sm_apiBaseURL m) (sm_refreshToken m) n of
     (Inl err, n) \<Rightarrow> (Some err, m, n)
   | (Inr token, n) \<Rightarrow> (None, m\<lparr>sm_sessionToken := token\<rparr>, n))"

text \<open>The ticks of \<open>RunProactiveRefresh\<close>; an error is discarded.\<close>

fun RunProactiveRefresh :: "url_lib \<Rightarrow> answer_codec \<Rightarrow> nat \<Rightarrow> workerSessionManager \<Rightarrow> net \<Rightarrow> workerSessionManager \<times> net" where
  "RunProactiveRefresh ul dc 0 m n = (m, n)"
| "RunProactiveRefresh ul dc (Suc ticks) m n =
     (let (_, m', n') = session_Refresh ul dc m n in RunProactiveRefresh ul dc ticks m' n')"

section \<open>Posts\<close>

text \<open>The requests about a run: an acknowledgement, a heartbeat.\<close>

definition post_run ::
  "url_lib \<Rightarrow> workerSessionManager option \<Rightarrow> workerRegistration \<Rightarrow> string \<Rightarrow> string \<Rightarrow> request_body \<Rightarrow> net
     \<Rightarrow> http_response result \<times> net" where
  "post_run ul sm reg runID what body n =
     (case workerAPIEndpoint ul (wr_APIBaseURL reg) (''/v1/runs/'' @ ul_PathEscape ul runID @ ''/'' @ what) of
        Inl err \<Rightarrow> (Inl err, n)
      | Inr endpoint \<Rightarrow>
         (case http_Do \<lparr>hq_Method = ''POST'', hq_URL = endpoint, hq_Token = Some (currentToken sm reg), hq_Body = body\<rparr> n of
            (Inl err, n) \<Rightarrow> (Inl (Wrap (''posting '' @ what @ '' request'') err), n)
          | (Inr resp, n) \<Rightarrow> (Inr resp, n)))"

definition refused :: "string \<Rightarrow> string \<Rightarrow> http_response \<Rightarrow> go_error" where
  "refused what runID resp = (let body = take 1024 (hs_Body resp) in
     ErrMsg (what @ '' request failed for run '' @ fmt_q runID @ '': '' @ http_suffix (hs_StatusCode resp) @
       (if body \<noteq> [] then '': '' @ body else [])))"

definition postWorkerDispatchAck ::
  "url_lib \<Rightarrow> workerSessionManager option \<Rightarrow> workerRegistration \<Rightarrow> string \<Rightarrow> request_body \<Rightarrow> net \<Rightarrow> go_error option \<times> net" where
  "postWorkerDispatchAck ul sm reg runID request n = (case post_run ul sm reg runID ''ack'' request n of
     (Inl err, n) \<Rightarrow> (Some err, n)
   | (Inr resp, n) \<Rightarrow> (if ok_status (hs_StatusCode resp) then None else Some (refused ''ack'' runID resp), n))"

definition errWorkerLeaseRevoked :: go_error where
  "errWorkerLeaseRevoked = ErrMsg ''worker lease revoked''"

definition postWorkerHeartbeat ::
  "url_lib \<Rightarrow> workerSessionManager option \<Rightarrow> workerRegistration \<Rightarrow> string \<Rightarrow> request_body \<Rightarrow> net \<Rightarrow> go_error option \<times> net" where
  "postWorkerHeartbeat ul sm reg runID request n = (case post_run ul sm reg runID ''heartbeat'' request n of
     (Inl err, n) \<Rightarrow> (Some err, n)
   | (Inr resp, n) \<Rightarrow>
      (if ok_status (hs_StatusCode resp) then None
       else if hs_StatusCode resp = 409 \<and> str_contains (take 1024 (hs_Body resp)) ''lease_revoked''
       then Some (WrapPost errWorkerLeaseRevoked
         (''for run '' @ fmt_q runID @ '': '' @ http_suffix (hs_StatusCode resp) @ '': '' @ take 1024 (hs_Body resp)))
       else Some (refused ''heartbeat'' runID resp), n))"

section \<open>The configuration cache\<close>

type_synonym config_cache = "string fdir"

definition fetchWorkerConfig ::
  "url_lib \<Rightarrow> workerRegistration \<Rightarrow> string \<Rightarrow> string \<Rightarrow> net \<Rightarrow> string result \<times> net" where
  "fetchWorkerConfig ul reg teamID hash n =
     (case workerAPIEndpoint ul (wr_APIBaseURL reg) (''/v1/teams/'' @ ul_PathEscape ul teamID @ ''/config/'' @ ul_PathEscape ul hash) of
        Inl err \<Rightarrow> (Inl (Wrap (''building config fetch URL for hash '' @ fmt_q hash) err), n)
      | Inr endpoint \<Rightarrow>
         (case http_Do \<lparr>hq_Method = ''GET'', hq_URL = endpoint, hq_Token = Some (wr_SessionToken reg), hq_Body = NoBody\<rparr> n of
            (Inl err, n) \<Rightarrow> (Inl (Wrap (''fetching config '' @ fmt_q hash) err), n)
          | (Inr resp, n) \<Rightarrow>
              (if hs_StatusCode resp = 404 then Inl (ErrMsg (''config hash '' @ fmt_q hash @ '' not found on server''))
               else if \<not> ok_status (hs_StatusCode resp)
               then Inl (ErrMsg (''fetching config '' @ fmt_q hash @ '': '' @ http_suffix (hs_StatusCode resp) @
                 (if hs_Body resp \<noteq> [] then '': '' @ take 512 (hs_Body resp) else [])))
               else Inr (take (2 ^ 20) (hs_Body resp)), n)))"

definition GetOrFetch ::
  "url_lib \<Rightarrow> workerRegistration \<Rightarrow> string \<Rightarrow> string \<Rightarrow> config_cache \<Rightarrow> net \<Rightarrow> string result \<times> config_cache \<times> net" where
  "GetOrFetch ul reg teamID hash cache n =
     (if hash = [] then (Inr [], cache, n)
      else (case map_of cache hash of
        Some cached \<Rightarrow> (Inr cached, cache, n)
      | None \<Rightarrow>
         (case fetchWorkerConfig ul reg teamID hash n of
            (Inl err, n) \<Rightarrow> (Inl err, cache, n)
          | (Inr content, n) \<Rightarrow> (Inr content, fput hash content cache, n))))"

definition sample_registration :: workerRegistration where
  "sample_registration = \<lparr>wr_APIBaseURL = ''https://c'', wr_SessionToken = ''t0'', wr_RefreshToken = ''r'', wr_WsURL = ''wss://c'',
     wr_LongPollURL = ''https://c/p'', wr_HeartbeatIntervalSec = 0, wr_LeaseSec = 30, wr_Ephemeral = True\<rparr>"

end
