(* ===== verification/Worker_Ack.thy ===== *)
theory Worker_Ack
  imports Worker_Session
begin

text \<open>
  Models \<open>internal/cli/worker/worker_ack.go\<close>: the handler of dispatch frames takes a place in the table of runs
  in flight, acknowledges the run to the cloud and starts a goroutine for it; a revoked lease cancels the
  context of the run. A cancel function is the number of its context, and \<open>ah_causes\<close> holds the cause of every
  context made so far, \<open>None\<close> while it is not cancelled. The goroutine of a run ends at any time.
\<close>

section \<open>Frames and contexts\<close>

record artifact_urls =
  au_Logs :: string
  au_Diff :: string
  au_Screenshots :: "string list"

record WorkerDispatchFrame =
  wf_RunID :: string
  wf_IssueRef :: string
  wf_Branch :: string
  wf_Prompt :: string
  wf_ConfigHash :: string
  wf_LeaseSec :: int
  wf_ArtifactUploadURLs :: artifact_urls
  wf_ProtocolVersion :: string

definition errLeaseRevoked :: go_error where
  "errLeaseRevoked = ErrMsg ''lease revoked by cloud''"

text \<open>
  \<open>context.CancelCauseFunc\<close>: the first cancellation of a context sets its cause, \<open>nil\<close> stands for
  \<open>context.Canceled\<close>.
\<close>

definition cancel_cause :: "nat \<Rightarrow> go_error option \<Rightarrow> go_error option list \<Rightarrow> go_error option list" where
  "cancel_cause c cause cs =
     (if c < length cs \<and> cs ! c = None
      then cs[c := Some (case cause of None \<Rightarrow> ErrCanceled | Some e \<Rightarrow> e)] else cs)"

section \<open>The handler\<close>

record ack_handler =
  ah_registration :: workerRegistration
  ah_maxConcurrency :: int
  ah_inFlight :: "nat fdir"
  ah_causes :: "go_error option list"
  ah_posting :: "(nat \<times> WorkerDispatchFrame) option"
  ah_running :: "(nat \<times> WorkerDispatchFrame) list"

definition newWorkerAckingDispatchHandler :: "workerRegistration \<Rightarrow> int \<Rightarrow> ack_handler" where
  "newWorkerAckingDispatchHandler registration maxConcurrency =
     \<lparr>ah_registration = registration, ah_maxConcurrency = (if maxConcurrency < 1 then 1 else maxConcurrency),
      ah_inFlight = [], ah_causes = [], ah_posting = None, ah_running = []\<rparr>"

definition tryAcquire :: "string \<Rightarrow> nat \<Rightarrow> ack_handler \<Rightarrow> bool \<times> ack_handler" where
  "tryAcquire runID c h =
     (if int (length (ah_inFlight h)) \<ge> ah_maxConcurrency h then (False, h)
      else (True, h\<lparr>ah_inFlight := fput runID c (ah_inFlight h)\<rparr>))"

definition release :: "string \<Rightarrow> ack_handler \<Rightarrow> ack_handler" where
  "release runID h = h\<lparr>ah_inFlight := fdel runID (ah_inFlight h)\<rparr>"

definition cancel_ctx :: "nat \<Rightarrow> go_error option \<Rightarrow> ack_handler \<Rightarrow> ack_handler" where
  "cancel_ctx c cause h = h\<lparr>ah_causes := cancel_cause c cause (ah_causes h)\<rparr>"

definition RevokeRun :: "string \<Rightarrow> ack_handler \<Rightarrow> ack_handler" where
  "RevokeRun runID h = (case map_of (ah_inFlight h) runID of
     Some c \<Rightarrow> cancel_ctx c (Some errLeaseRevoked) h
   | None \<Rightarrow> h)"

definition at_capacity :: request_body where
  "at_capacity = AckBody False ''at_capacity''"

definition accepted :: request_body where
  "accepted = AckBody True []"

text \<open>
  \<open>Handle\<close> up to the acknowledgement, with the answer when it returns at once, and from the answer of the cloud on. In
  between other goroutines run.
\<close>

definition handle_begin ::
  "url_lib \<Rightarrow> workerSessionManager option \<Rightarrow> WorkerDispatchFrame \<Rightarrow> ack_handler \<Rightarrow> net
     \<Rightarrow> go_error option option \<times> ack_handler \<times> net" where
  "handle_begin ul sm frame h n =
     (if wf_RunID frame = [] then (Some (Some (ErrMsg ''dispatch frame missing runId'')), h, n)
      else
       (let c = length (ah_causes h);
            (acquired, h1) = tryAcquire (wf_RunID frame) c (h\<lparr>ah_causes := ah_causes h @ [None]\<rparr>)
        in if \<not> acquired
           then (let (err, n1) = postWorkerDispatchAck ul sm (ah_registration h) (wf_RunID frame) at_capacity n
                 in (Some err, cancel_ctx c None h1, n1))
           else (None, h1\<lparr>ah_posting := Some (c, frame)\<rparr>, n)))"

definition handle_posted ::
  "url_lib \<Rightarrow> workerSessionManager option \<Rightarrow> ack_handler \<Rightarrow> net \<Rightarrow> go_error option \<times> ack_handler \<times> net" where
  "handle_posted ul sm h n = (case ah_posting h of
     None \<Rightarrow> (None, h, n)
   | Some (c, frame) \<Rightarrow>
      (case postWorkerDispatchAck ul sm (ah_registration h) (wf_RunID frame) accepted n of
         (Some err, n1) \<Rightarrow> (Some err, cancel_ctx c None (release (wf_RunID frame) (h\<lparr>ah_posting := None\<rparr>)), n1)
       | (None, n1) \<Rightarrow> (None, h\<lparr>ah_posting := None, ah_running := ah_running h @ [(c, frame)]\<rparr>, n1)))"

definition Handle ::
  "url_lib \<Rightarrow> workerSessionManager option \<Rightarrow> WorkerDispatchFrame \<Rightarrow> ack_handler \<Rightarrow> net
     \<Rightarrow> go_error option \<times> ack_handler \<times> net" where
  "Handle ul sm frame h n = (case handle_begin ul sm frame h n of
     (Some r, h1, n1) \<Rightarrow> (r, h1, n1)
   | (None, h1, n1) \<Rightarrow> handle_posted ul sm h1 n1)"

text \<open>The deferred calls at the end of the goroutine of a run.\<close>

definition run_ended :: "nat \<Rightarrow> ack_handler \<Rightarrow> ack_handler" where
  "run_ended k h =
     (if k < length (ah_running h)
      then (case ah_running h ! k of (c, frame) \<Rightarrow>
        cancel_ctx c None (release (wf_RunID frame)
          (h\<lparr>ah_running := take k (ah_running h) @ drop (Suc k) (ah_running h)\<rparr>)))
      else h)"

section \<open>Runs of the handler\<close>

text \<open>
  The dispatch loop calls \<open>Handle\<close> and \<open>RevokeRun\<close> one after the other, the goroutines end and the session
  is refreshed at any time.
\<close>

record ack_world =
  aw_handler :: ack_handler
  aw_session :: workerSessionManager
  aw_net :: net

datatype ack_act = Dispatched WorkerDispatchFrame | Posted | Revoked string | RunEnded nat | SessionTick

fun ack_step :: "url_lib \<Rightarrow> answer_codec \<Rightarrow> ack_world \<Rightarrow> ack_act \<Rightarrow> ack_world" where
  "ack_step ul dc w (Dispatched frame) =
     (if ah_posting (aw_handler w) \<noteq> None then w
      else (let (_, h, n) = handle_begin ul (Some (aw_session w)) frame (aw_handler w) (aw_net w)
            in w\<lparr>aw_handler := h, aw_net := n\<rparr>))"
| "ack_step ul dc w Posted =
     (let (_, h, n) = handle_posted ul (Some (aw_session w)) (aw_handler w) (aw_net w)
      in w\<lparr>aw_handler := h, aw_net := n\<rparr>)"
| "ack_step ul dc w (Revoked runID) =
     (if ah_posting (aw_handler w) \<noteq> None then w else w\<lparr>aw_handler := RevokeRun runID (aw_handler w)\<rparr>)"
| "ack_step ul dc w (RunEnded k) = w\<lparr>aw_handler := run_ended k (aw_handler w)\<rparr>"
| "ack_step ul dc w SessionTick =
     (let (_, m, n) = session_Refresh ul dc (aw_session w) (aw_net w) in w\<lparr>aw_session := m, aw_net := n\<rparr>)"

definition in_hand :: "ack_handler \<Rightarrow> (nat \<times> WorkerDispatchFrame) list" where
  "in_hand h = (case ah_posting h of None \<Rightarrow> [] | Some p \<Rightarrow> [p]) @ ah_running h"

definition ids_in_hand :: "ack_handler \<Rightarrow> string list" where
  "ids_in_hand h = map (wf_RunID \<circ> snd) (in_hand h)"

text \<open>No run is dispatched again while it is in hand.\<close>

fun no_redispatch :: "url_lib \<Rightarrow> answer_codec \<Rightarrow> ack_world \<Rightarrow> ack_act list \<Rightarrow> bool" where
  "no_redispatch ul dc w [] = True"
| "no_redispatch ul dc w (a # as) =
     ((case a of Dispatched frame \<Rightarrow> wf_RunID frame \<notin> set (ids_in_hand (aw_handler w)) | _ \<Rightarrow> True)
      \<and> no_redispatch ul dc (ack_step ul dc w a) as)"

definition ack_start :: "workerRegistration \<Rightarrow> int \<Rightarrow> net \<Rightarrow> ack_world" where
  "ack_start reg maxConcurrency n =
     \<lparr>aw_handler = newWorkerAckingDispatchHandler reg maxConcurrency, aw_session = newWorkerSessionManager reg, aw_net = n\<rparr>"

end
