(* ===== verification/Worker_Ack_Props.thy ===== *)
theory Worker_Ack_Props
  imports Worker_Ack "HOL-Library.Multiset"
begin

text \<open>
  The table of runs in flight: while no run is dispatched twice it is exactly the runs in hand, at most as many as
  the worker offered, and a revocation cancels exactly one of them. A run that is dispatched again while it is in
  hand breaks all three.
\<close>

section \<open>The table and the runs in hand\<close>

definition slots_ok :: "int \<Rightarrow> nat fdir \<Rightarrow> go_error option list \<Rightarrow> (nat \<times> WorkerDispatchFrame) list \<Rightarrow> bool" where
  "slots_ok m F cs L \<longleftrightarrow> wf_dir F \<and> int (length L) \<le> m \<and> distinct (map (wf_RunID \<circ> snd) L)
     \<and> fst ` set F = (wf_RunID \<circ> snd) ` set L
     \<and> distinct (map fst L) \<and> (\<forall>p \<in> set L. map_of F (wf_RunID (snd p)) = Some (fst p) \<and> fst p < length cs
         \<and> cs ! fst p \<in> {None, Some errLeaseRevoked})"

lemma slots_length:
  assumes "slots_ok m F cs L"
  shows "length F = length L"
proof -
  from assms have "distinct (map fst F)" and d: "distinct (map (wf_RunID \<circ> snd) L)"
    and "set (map fst F) = set (map (wf_RunID \<circ> snd) L)"
    by (simp_all add: slots_ok_def wf_dir_distinct)
  then have "length (map fst F) = length (map (wf_RunID \<circ> snd) L)" by (metis distinct_card)
  then show ?thesis by simp
qed

lemma slots_mset:
  assumes ok: "slots_ok m F cs L" and eq: "mset L = mset L'"
  shows "slots_ok m F cs L'"
proof -
  have d: "distinct (map g L) = distinct (map g L')" for g :: "nat \<times> WorkerDispatchFrame \<Rightarrow> 'x"
    by (rule mset_eq_imp_distinct_iff) (simp add: eq)
  from ok mset_eq_setD [OF eq] mset_eq_length [OF eq] show ?thesis
    by (simp add: slots_ok_def d [symmetric])
qed

lemma slots_append_ctx: "slots_ok m F cs L \<Longrightarrow> slots_ok m F (cs @ [x]) L"
  by (auto simp: slots_ok_def nth_append)

lemma length_cancel_cause [simp]: "length (cancel_cause c cause cs) = length cs"
  by (simp add: cancel_cause_def)

lemma cancel_cause_other: "c' \<noteq> c \<Longrightarrow> cancel_cause c cause cs ! c' = cs ! c'"
  by (simp add: cancel_cause_def)

lemma slots_cancel_other:
  "slots_ok m F cs L \<Longrightarrow> c \<notin> fst ` set L \<Longrightarrow> slots_ok m F (cancel_cause c cause cs) L"
  by (auto simp: slots_ok_def) (metis cancel_cause_other fst_conv image_eqI)+

lemma slots_revoke: "slots_ok m F cs L \<Longrightarrow> slots_ok m F (cancel_cause c (Some errLeaseRevoked) cs) L"
  by (auto simp: slots_ok_def cancel_cause_def nth_list_update)

lemma slots_add:
  assumes ok: "slots_ok m F cs L" and new: "wf_RunID f \<notin> (wf_RunID \<circ> snd) ` set L" and room: "int (length F) < m"
  shows "slots_ok m (fput (wf_RunID f) (length cs) F) (cs @ [None]) ((length cs, f) # L)"
proof -
  from slots_length [OF ok] room have "int (length ((length cs, f) # L)) \<le> m" by simp
  moreover from ok have "length cs \<notin> set (map fst L)" by (auto simp: slots_ok_def)
  moreover have "map_of (fput (wf_RunID f) (length cs) F) (wf_RunID (snd p)) = Some (fst p) \<and> fst p < length (cs @ [None])
      \<and> (cs @ [None]) ! fst p \<in> {None, Some errLeaseRevoked}" if "p \<in> set ((length cs, f) # L)" for p
  proof (cases "p \<in> set L")
    case True
    with new have "wf_RunID (snd p) \<noteq> wf_RunID f" by (metis comp_apply image_eqI)
    with ok True show ?thesis unfolding slots_ok_def by (simp add: map_of_fput nth_append less_Suc_eq)
  qed (use that in \<open>simp add: map_of_fput\<close>)
  ultimately show ?thesis
    using ok new wf_dir_fput [of F "wf_RunID f" "length cs"] unfolding slots_ok_def set_fput_names by simp
qed

lemma fdel_names: "fst ` set (fdel k F) = fst ` set F - {k}"
  by (auto simp: fdel_def)

lemma slots_remove_first:
  assumes "slots_ok m F cs ((c, f) # L)"
  shows "slots_ok m (fdel (wf_RunID f) F) (cancel_cause c None cs) L"
proof -
  from assms have "wf_RunID f \<notin> (wf_RunID \<circ> snd) ` set L" and c: "c \<notin> fst ` set L"
    by (simp_all add: slots_ok_def)
  then have "\<forall>p \<in> set L. wf_RunID (snd p) \<noteq> wf_RunID f" by force
  with assms have "slots_ok m (fdel (wf_RunID f) F) cs L"
    unfolding slots_ok_def fdel_names by (auto simp: map_of_fdel intro: wf_dir_fdel)
  then show ?thesis using c by (rule slots_cancel_other)
qed

section \<open>Every step keeps the table\<close>

definition hand_ok :: "ack_handler \<Rightarrow> bool" where
  "hand_ok h \<longleftrightarrow> slots_ok (ah_maxConcurrency h) (ah_inFlight h) (ah_causes h) (in_hand h)"

lemma new_hand_ok: "hand_ok (newWorkerAckingDispatchHandler reg m)"
  by (simp add: hand_ok_def slots_ok_def newWorkerAckingDispatchHandler_def in_hand_def)

lemma handle_begin_ok:
  assumes ok: "hand_ok h" and idle: "ah_posting h = None" and new: "wf_RunID f \<notin> set (ids_in_hand h)"
    and eq: "handle_begin ul sm f h n = (r, h', n')"
  shows "hand_ok h' \<and> ah_maxConcurrency h' = ah_maxConcurrency h"
proof (cases "wf_RunID f = [] \<or> \<not> int (length (ah_inFlight h)) < ah_maxConcurrency h")
  case True
  have "length (ah_causes h) \<notin> fst ` set (in_hand h)" using ok by (auto simp: hand_ok_def slots_ok_def)
  with ok have "slots_ok (ah_maxConcurrency h) (ah_inFlight h) (cancel_cause (length (ah_causes h)) None (ah_causes h @ [None])) (in_hand h)"
    unfolding hand_ok_def by (blast intro: slots_cancel_other slots_append_ctx)
  with True ok eq show ?thesis
    by (cases "wf_RunID f = []")
      (auto simp: handle_begin_def tryAcquire_def cancel_ctx_def hand_ok_def in_hand_def Let_def split: prod.splits)
next
  case False
  with ok idle new eq show ?thesis
    using slots_add [of "ah_maxConcurrency h" "ah_inFlight h" "ah_causes h" "in_hand h" f]
    by (auto simp: handle_begin_def tryAcquire_def hand_ok_def in_hand_def ids_in_hand_def Let_def)
qed

lemma handle_posted_ok:
  assumes ok: "hand_ok h" and eq: "handle_posted ul sm h n = (r, h', n')"
  shows "hand_ok h' \<and> ah_maxConcurrency h' = ah_maxConcurrency h"
proof (cases "ah_posting h")
  case None
  with ok eq show ?thesis by (simp add: handle_posted_def)
next
  case (Some p)
  obtain c f where p: "p = (c, f)" by fastforce
  obtain e n1 where post: "postWorkerDispatchAck ul sm (ah_registration h) (wf_RunID f) accepted n = (e, n1)" by fastforce
  have slots: "slots_ok (ah_maxConcurrency h) (ah_inFlight h) (ah_causes h) ((c, f) # ah_running h)"
    using ok Some p by (simp add: hand_ok_def in_hand_def)
  show ?thesis
  proof (cases e)
    case None
    with slots_mset [OF slots, of "ah_running h @ [(c, f)]"] eq Some p post show ?thesis
      by (auto simp: handle_posted_def hand_ok_def in_hand_def)
  next
    case (Some err)
    with slots_remove_first [OF slots] eq \<open>ah_posting h = Some p\<close> p post show ?thesis
      by (auto simp: handle_posted_def hand_ok_def in_hand_def release_def cancel_ctx_def)
  qed
qed

lemma run_ended_ok:
  assumes ok: "hand_ok h"
  shows "hand_ok (run_ended k h) \<and> ah_maxConcurrency (run_ended k h) = ah_maxConcurrency h"
proof (cases "k < length (ah_running h)")
  case True
  obtain c f where kth: "ah_running h ! k = (c, f)" by fastforce
  define rest where "rest = take k (ah_running h) @ drop (Suc k) (ah_running h)"
  have "ah_running h = take k (ah_running h) @ (c, f) # drop (Suc k) (ah_running h)" using True kth by (metis id_take_nth_drop)
  then have m: "mset (ah_running h) = mset ((c, f) # rest)" unfolding rest_def by (metis mset_append mset.simps(2) union_mset_add_mset_right)
  let ?p = "case ah_posting h of None \<Rightarrow> [] | Some p \<Rightarrow> [p]"
  have "slots_ok (ah_maxConcurrency h) (ah_inFlight h) (ah_causes h) ((c, f) # ?p @ rest)"
    using ok m unfolding hand_ok_def in_hand_def by (elim slots_mset) simp
  from slots_remove_first [OF this] True kth show ?thesis
    by (simp add: run_ended_def hand_ok_def in_hand_def release_def cancel_ctx_def rest_def)
qed (use ok in \<open>simp add: run_ended_def\<close>)

lemma RevokeRun_ok: "hand_ok h \<Longrightarrow> hand_ok (RevokeRun runID h) \<and> ah_maxConcurrency (RevokeRun runID h) = ah_maxConcurrency h"
  by (auto simp: RevokeRun_def hand_ok_def in_hand_def cancel_ctx_def intro: slots_revoke split: option.split)

lemma ack_step_ok:
  assumes "hand_ok (aw_handler w)" and "no_redispatch ul dc w [a]"
  shows "hand_ok (aw_handler (ack_step ul dc w a))
    \<and> ah_maxConcurrency (aw_handler (ack_step ul dc w a)) = ah_maxConcurrency (aw_handler w)"
proof (cases a)
  case (Dispatched f)
  obtain r h n where eq: "handle_begin ul (Some (aw_session w)) f (aw_handler w) (aw_net w) = (r, h, n)" by (metis prod_cases3)
  with assms Dispatched show ?thesis using handle_begin_ok [OF assms(1) _ _ eq]
    by (cases "ah_posting (aw_handler w)") auto
next
  case Posted
  obtain r h n where eq: "handle_posted ul (Some (aw_session w)) (aw_handler w) (aw_net w) = (r, h, n)" by (metis prod_cases3)
  with assms Posted show ?thesis using handle_posted_ok [OF assms(1) eq] by simp
next
  case (Revoked runID)
  with assms show ?thesis by (simp add: RevokeRun_ok)
next
  case (RunEnded k)
  with assms show ?thesis by (simp add: run_ended_ok)
next
  case SessionTick
  with assms show ?thesis by (auto split: prod.splits)
qed

lemma ack_run_ok:
  "hand_ok (aw_handler w) \<Longrightarrow> no_redispatch ul dc w as \<Longrightarrow>
   hand_ok (aw_handler (foldl (ack_step ul dc) w as))
   \<and> ah_maxConcurrency (aw_handler (foldl (ack_step ul dc) w as)) = ah_maxConcurrency (aw_handler w)"
proof (induction as arbitrary: w)
  case (Cons a as)
  then have "hand_ok (aw_handler (ack_step ul dc w a))
    \<and> ah_maxConcurrency (aw_handler (ack_step ul dc w a)) = ah_maxConcurrency (aw_handler w)"
    by (intro ack_step_ok) simp_all
  with Cons show ?case by simp
qed simp

lemma RevokeRun_hits:
  assumes "hand_ok h" "(c, f) \<in> set (in_hand h)"
  shows "ah_causes (RevokeRun (wf_RunID f) h) = (ah_causes h)[c := Some errLeaseRevoked]"
proof -
  from assms have "map_of (ah_inFlight h) (wf_RunID f) = Some c" "c < length (ah_causes h)"
    "ah_causes h ! c \<in> {None, Some errLeaseRevoked}"
    by (force simp: hand_ok_def slots_ok_def)+
  then show ?thesis by (auto simp: RevokeRun_def cancel_ctx_def cancel_cause_def) (metis list_update_id)
qed

section \<open>What holds of the worker\<close>

text \<open>
  C28. While no run is dispatched again before it has ended, in every order of dispatches, answers of the cloud,
  revocations, ends of runs and session refreshes: the worker never has more runs in hand than it offered,
  they are of different ids, and they are exactly the entries of the table; a revocation of a run in hand sets the cause
  of its context to the lapsed lease and touches no other context, and one of another run does nothing.
\<close>

theorem worker_runs_bounded:
  assumes "no_redispatch ul dc (ack_start reg m n) as"
    and "h = aw_handler (foldl (ack_step ul dc) (ack_start reg m n) as)"
  shows "int (length (in_hand h)) \<le> max 1 m \<and> distinct (ids_in_hand h)
    \<and> fst ` set (ah_inFlight h) = set (ids_in_hand h)
    \<and> (\<forall>c f. (c, f) \<in> set (in_hand h) \<longrightarrow>
         ah_causes (RevokeRun (wf_RunID f) h) = (ah_causes h)[c := Some errLeaseRevoked])
    \<and> (\<forall>runID. runID \<notin> set (ids_in_hand h) \<longrightarrow> RevokeRun runID h = h)"
proof -
  have "hand_ok h \<and> ah_maxConcurrency h = max 1 m"
    using ack_run_ok [of "ack_start reg m n" ul dc as] assms new_hand_ok [of reg m]
    by (simp add: ack_start_def newWorkerAckingDispatchHandler_def)
  then have ok: "hand_ok h" and "ah_maxConcurrency h = max 1 m" by blast+
  then have slots: "slots_ok (max 1 m) (ah_inFlight h) (ah_causes h) (in_hand h)" by (metis hand_ok_def)
  have "RevokeRun runID h = h" if "runID \<notin> set (ids_in_hand h)" for runID
  proof -
    from that slots have "map_of (ah_inFlight h) runID = None" by (simp add: slots_ok_def ids_in_hand_def map_of_eq_None_iff)
    then show ?thesis by (simp add: RevokeRun_def)
  qed
  with slots RevokeRun_hits [OF ok] show ?thesis by (auto simp: slots_ok_def ids_in_hand_def)
qed

definition sample_url_lib :: url_lib where
  "sample_url_lib = \<lparr>ul_Parse = (\<lambda>s. Inr \<lparr>ur_Scheme = ''https'', ur_Host = ''c'', ur_Path = [], ur_RawQuery = [], ur_Fragment = []\<rparr>),
     ul_String = (\<lambda>u. ur_Scheme u @ ''://'' @ ur_Host u @ ur_Path u), ul_PathEscape = (\<lambda>s. s), ul_EscapedPath = ur_Path,
     ul_PathUnescape = Inr\<rparr>"

definition sample_answers :: answer_codec where
  "sample_answers = \<lparr>dc_refresh = (\<lambda>s. Inr \<lparr>fa_SessionToken = ''t1'', fa_Error = []\<rparr>), dc_register = (\<lambda>s. Inl ErrSyntax)\<rparr>"

definition accepting_net :: net where
  "accepting_net = \<lparr>nt_do = (\<lambda>_ _. Inr \<lparr>hs_StatusCode = 200, hs_Body = []\<rparr>), nt_log = []\<rparr>"

definition sample_frame :: "string \<Rightarrow> WorkerDispatchFrame" where
  "sample_frame runID = \<lparr>wf_RunID = runID, wf_IssueRef = ''i'', wf_Branch = ''b'', wf_Prompt = ''p'', wf_ConfigHash = [],
     wf_LeaseSec = 30, wf_ArtifactUploadURLs = \<lparr>au_Logs = [], au_Diff = [], au_Screenshots = []\<rparr>, wf_ProtocolVersion = ''1''\<rparr>"

lemmas sample_worker_defs = sample_url_lib_def sample_answers_def accepting_net_def sample_registration_def sample_frame_def

lemmas ack_eval = ack_start_def newWorkerAckingDispatchHandler_def newWorkerSessionManager_def handle_begin_def handle_posted_def
  tryAcquire_def release_def cancel_ctx_def cancel_cause_def run_ended_def RevokeRun_def in_hand_def ids_in_hand_def fdel_def
  postWorkerDispatchAck_def post_run_def http_Do_def ok_status_def workerAPIEndpoint_def currentToken_def accepted_def at_capacity_def

theorem worker_runs_bounded_witness:
  "int (length (in_hand (aw_handler (foldl (ack_step sample_url_lib sample_answers) (ack_start sample_registration 1 accepting_net)
     [Dispatched (sample_frame ''a''), Posted, Dispatched (sample_frame ''b'')])))) \<le> max 1 1"
  by (rule conjunct1, rule worker_runs_bounded [OF _ refl]) (simp add: ack_eval sample_worker_defs)

text \<open>
  The same run dispatched three times to a worker that offered two: all are accepted, the table has one entry, and once
  the first of them ends the run cannot be revoked although it is still in hand twice.
\<close>

lemma redispatched_run_exceeds_limit:
  "let h = aw_handler (foldl (ack_step sample_url_lib sample_answers) (ack_start sample_registration 2 accepting_net)
     (concat (replicate 3 [Dispatched (sample_frame ''a''), Posted])));
       h' = run_ended 0 h
   in length (in_hand h) = 3 \<and> length (ah_inFlight h) = 1
     \<and> ids_in_hand h' = [''a'', ''a''] \<and> RevokeRun ''a'' h' = h'"
  by (simp add: ack_eval sample_worker_defs numeral_eq_Suc Let_def)

text \<open>Whatever the handler posts carries the session's present token.\<close>

lemma post_run_log:
  "nt_log (snd (post_run ul sm reg runID what body n)) = nt_log n
   \<or> (\<exists>q. nt_log (snd (post_run ul sm reg runID what body n)) = nt_log n @ [q] \<and> hq_Token q = Some (currentToken sm reg))"
  by (auto simp: post_run_def http_Do_def split: sum.splits)

lemma GetOrFetch_log:
  "nt_log (snd (snd (GetOrFetch ul reg teamID hash cache n))) = nt_log n
   \<or> (\<exists>q. nt_log (snd (snd (GetOrFetch ul reg teamID hash cache n))) = nt_log n @ [q] \<and> hq_Token q = Some (wr_SessionToken reg))"
  by (auto simp: GetOrFetch_def fetchWorkerConfig_def http_Do_def split: sum.splits option.splits)

end
