(* ===== verification/Worker_Heartbeat.thy ===== *)
theory Worker_Heartbeat
  imports Worker_Session
begin

text \<open>
  Models \<open>internal/cli/worker/worker_heartbeat.go\<close>: while a run is under way its worker posts heartbeats, at a
  third of the lease with some jitter, that carry the time and kind of the agent's last event. The random
  part of the jitter and the clock are arguments.
\<close>

section \<open>Progress\<close>

definition workerProgressLabelFromAgentEvent :: "AgentEvent \<Rightarrow> string" where
  "workerProgressLabelFromAgentEvent event = (case data_text event ''phase'' of
     Some phase \<Rightarrow> truncateWorkerEventString (trim_space phase) 64
   | None \<Rightarrow>
      (let eventType = to_lower (ae_Type event) in
       if str_contains eventType ''error'' then ''error''
       else if str_contains eventType ''tool'' then ''tooling''
       else if str_contains eventType ''diff'' \<or> str_contains eventType ''edit'' then ''editing''
       else if str_contains eventType ''complete'' \<or> str_contains eventType ''done'' then ''completing''
       else if str_contains eventType ''start'' then ''starting''
       else ''running''))"

record workerRunProgressTracker =
  pt_progress :: string
  pt_lastEventTs :: int

definition newWorkerRunProgressTracker :: "time \<Rightarrow> time \<Rightarrow> workerRunProgressTracker" where
  "newWorkerRunProgressTracker now startedAt =
     \<lparr>pt_progress = ''starting'', pt_lastEventTs = UnixMilli (if startedAt = zero_time then now else startedAt)\<rparr>"

definition progress_Observe :: "time \<Rightarrow> AgentEvent \<Rightarrow> time \<Rightarrow> workerRunProgressTracker \<Rightarrow> workerRunProgressTracker" where
  "progress_Observe now event fallback t =
     (let ts0 = (if ae_Timestamp event = zero_time then fallback else ae_Timestamp event);
          ts = (if ts0 = zero_time then now else ts0)
      in t\<lparr>pt_lastEventTs := UnixMilli ts, pt_progress := workerProgressLabelFromAgentEvent event\<rparr>)"

text \<open>The request of a heartbeat, also for a nil tracker.\<close>

definition progress_Snapshot :: "time \<Rightarrow> workerRunProgressTracker option \<Rightarrow> request_body" where
  "progress_Snapshot now t = (case t of
     None \<Rightarrow> HeartbeatBody (UnixMilli now) ''running''
   | Some t \<Rightarrow>
      (let lastEventTs = (if pt_lastEventTs t = 0 then UnixMilli now else pt_lastEventTs t);
           progress = trim_space (pt_progress t)
       in HeartbeatBody lastEventTs (if progress = [] then ''running'' else progress)))"

section \<open>Intervals\<close>

definition workerHeartbeatDefaultInterval :: duration where
  "workerHeartbeatDefaultInterval = 20 * second_ns"

definition workerHeartbeatMaxJitter :: duration where
  "workerHeartbeatMaxJitter = 2 * second_ns"

text \<open>Division of Go's integers, which truncates towards zero.\<close>

definition go_div :: "int \<Rightarrow> int \<Rightarrow> int" where
  "go_div a b = (if a < 0 then - ((- a) div b) else a div b)"

definition workerHeartbeatBaseInterval :: "workerRegistration \<Rightarrow> int \<Rightarrow> duration" where
  "workerHeartbeatBaseInterval registration frameLeaseSec =
     (let leaseSec = (if frameLeaseSec \<le> 0 then wr_LeaseSec registration else frameLeaseSec) in
      if leaseSec > 0
      then (let interval = go_div (duration_of leaseSec second_ns) 3 in
            if interval < second_ns then second_ns else interval)
      else if wr_HeartbeatIntervalSec registration > 0 then duration_of (wr_HeartbeatIntervalSec registration) second_ns
      else workerHeartbeatDefaultInterval)"

definition workerHeartbeatNextInterval :: "duration \<Rightarrow> (duration \<Rightarrow> duration) option \<Rightarrow> duration" where
  "workerHeartbeatNextInterval base0 jitter =
     (let base = (if base0 \<le> 0 then workerHeartbeatDefaultInterval else base0) in
      case jitter of
        None \<Rightarrow> base
      | Some j \<Rightarrow> (let next = wrap64 (base + j base) in if next < millisecond_ns then millisecond_ns else next))"

text \<open>\<open>rnd span\<close> is \<open>rand.Int63n(span)\<close>, a number from 0 to below \<open>span\<close>.\<close>

definition jitterWorkerHeartbeatInterval :: "(int \<Rightarrow> int) \<Rightarrow> duration \<Rightarrow> duration" where
  "jitterWorkerHeartbeatInterval rnd base =
     (if base \<le> 0 then 0
      else
       (let maxJitter0 = go_div base 10;
            maxJitter = (if maxJitter0 > workerHeartbeatMaxJitter then workerHeartbeatMaxJitter else maxJitter0)
        in if maxJitter \<le> 0 then 0
           else rnd (maxJitter * 2 + 1) - maxJitter))"

section \<open>The loop\<close>

text \<open>
  The cases of the \<open>select\<close>: the context ended, or the timer fired and the post gave an answer. The result is
  \<open>Some\<close> when \<open>Run\<close> returns, together with the intervals the timer was set to.
\<close>

datatype beat = BeatCtxDone | BeatPosted time "go_error option"

fun heartbeat_loop :: "duration \<Rightarrow> (nat \<Rightarrow> duration \<Rightarrow> duration) \<Rightarrow> nat \<Rightarrow> beat list \<Rightarrow> go_error option option \<times> duration list" where
  "heartbeat_loop base jitter k [] = (None, [workerHeartbeatNextInterval base (Some (jitter k))])"
| "heartbeat_loop base jitter k (b # bs) =
     (let next = workerHeartbeatNextInterval base (Some (jitter k)) in
      case b of
        BeatCtxDone \<Rightarrow> (Some None, [next])
      | BeatPosted now (Some err) \<Rightarrow> (Some (Some err), [next])
      | BeatPosted now None \<Rightarrow> (let (r, is) = heartbeat_loop base jitter (Suc k) bs in (r, next # is)))"

definition heartbeat_Run ::
  "workerRegistration \<Rightarrow> int \<Rightarrow> (nat \<Rightarrow> int \<Rightarrow> int) \<Rightarrow> beat list \<Rightarrow> go_error option option \<times> duration list" where
  "heartbeat_Run registration leaseSec rnd bs =
     heartbeat_loop (workerHeartbeatBaseInterval registration leaseSec) (\<lambda>k. jitterWorkerHeartbeatInterval (rnd k)) 0 bs"

section \<open>Bounds\<close>

text \<open>The longest lease whose duration does not wrap.\<close>

definition max_lease_sec :: int where
  "max_lease_sec = 9223372036"

lemma base_interval_of_lease:
  assumes "0 < l" "l \<le> max_lease_sec" "(if f \<le> 0 then wr_LeaseSec r else f) = l"
  shows "workerHeartbeatBaseInterval r f = max second_ns (l * second_ns div 3)"
proof -
  have "in_int64 (l * second_ns)" using assms(1, 2) by (simp add: in_int64_def second_ns_def max_lease_sec_def)
  with assms show ?thesis
    by (auto simp: workerHeartbeatBaseInterval_def Let_def go_div_def duration_of_def second_ns_def)
qed

lemma jitter_range:
  assumes "0 < base" and "\<And>s. 0 < s \<Longrightarrow> 0 \<le> rnd s \<and> rnd s < s"
  shows "\<bar>jitterWorkerHeartbeatInterval rnd base\<bar> \<le> min (base div 10) workerHeartbeatMaxJitter"
proof -
  define m where "m = min (base div 10) workerHeartbeatMaxJitter"
  have "jitterWorkerHeartbeatInterval rnd base = (if m \<le> 0 then 0 else rnd (m * 2 + 1) - m)"
    using assms(1) by (simp add: jitterWorkerHeartbeatInterval_def go_div_def Let_def min_def m_def)
  moreover have "0 \<le> m" using assms(1) by (simp add: workerHeartbeatMaxJitter_def second_ns_def m_def)
  ultimately have "\<bar>jitterWorkerHeartbeatInterval rnd base\<bar> \<le> m"
    using assms(2) [of "m * 2 + 1"] by (cases "m = 0") auto
  then show ?thesis by (simp add: m_def)
qed

lemma next_interval_range:
  assumes "second_ns \<le> base" "base < 2 ^ 62" and "\<And>s. 0 < s \<Longrightarrow> 0 \<le> rnd s \<and> rnd s < s"
  shows "base - base div 10 \<le> workerHeartbeatNextInterval base (Some (jitterWorkerHeartbeatInterval rnd)) \<and>
    workerHeartbeatNextInterval base (Some (jitterWorkerHeartbeatInterval rnd)) \<le> base + base div 10"
proof -
  have pos: "0 < base" using assms(1) by (simp add: second_ns_def)
  from jitter_range [OF this assms(3)] have j: "\<bar>jitterWorkerHeartbeatInterval rnd base\<bar> \<le> base div 10" by simp
  with pos assms(2) have "in_int64 (base + jitterWorkerHeartbeatInterval rnd base)" by (auto simp: in_int64_def abs_le_iff)
  with pos have "workerHeartbeatNextInterval base (Some (jitterWorkerHeartbeatInterval rnd)) =
      max millisecond_ns (base + jitterWorkerHeartbeatInterval rnd base)"
    by (simp add: workerHeartbeatNextInterval_def Let_def)
  moreover have "millisecond_ns \<le> base + jitterWorkerHeartbeatInterval rnd base"
    using j assms(1) unfolding second_ns_def millisecond_ns_def abs_le_iff by presburger
  ultimately show ?thesis using j by (simp add: abs_le_iff)
qed

lemma third_of_lease:
  assumes "b = l * second_ns div 3" "3 \<le> l" "b - b div 10 \<le> i" "i \<le> b + b div 10"
  shows "9 * second_ns div 10 \<le> i \<and> 2 * i < l * second_ns"
proof -
  from assms(1) have "3 * b \<le> l * second_ns" by (simp add: second_ns_def)
  moreover have "second_ns \<le> b" using assms(1, 2) by (simp add: second_ns_def)
  moreover have "10 * (b div 10) \<le> b" by simp
  ultimately show ?thesis using assms(3, 4) by (simp add: second_ns_def)
qed

lemma heartbeat_loop_intervals:
  "i \<in> set (snd (heartbeat_loop base jitter k bs)) \<Longrightarrow> \<exists>n. i = workerHeartbeatNextInterval base (Some (jitter n))"
proof (induction base jitter k bs rule: heartbeat_loop.induct)
  case (2 base jitter k b bs)
  then show ?case by (auto simp: Let_def split: beat.splits option.splits prod.splits)
qed auto

text \<open>
  With a lease of 3 seconds or more, from the frame or the registration, every interval between two
  heartbeats is at least 9/10 of a second and two of them fit into the lease, whatever the jitter. With a lease of one
  second a single interval already reaches nine tenths of it and may exceed it.
\<close>

theorem heartbeats_within_lease:
  assumes "(if frameLeaseSec \<le> 0 then wr_LeaseSec reg else frameLeaseSec) = l" and "3 \<le> l" and "l \<le> max_lease_sec"
    and "\<And>k s. 0 < s \<Longrightarrow> 0 \<le> rnd k s \<and> rnd k s < s"
    and "i \<in> set (snd (heartbeat_Run reg frameLeaseSec rnd bs))"
  shows "9 * second_ns div 10 \<le> i \<and> 2 * i < l * second_ns"
proof -
  let ?base = "workerHeartbeatBaseInterval reg frameLeaseSec"
  have base: "?base = l * second_ns div 3"
    using base_interval_of_lease [OF _ assms(3, 1)] assms(2) by (simp add: second_ns_def)
  then have range: "second_ns \<le> ?base" "?base < 2 ^ 62" using assms(2, 3) by (simp_all add: second_ns_def max_lease_sec_def)
  obtain n where "i = workerHeartbeatNextInterval ?base (Some (jitterWorkerHeartbeatInterval (rnd n)))"
    using heartbeat_loop_intervals assms(5) unfolding heartbeat_Run_def by blast
  with next_interval_range [OF range assms(4) [of _ n]]
  have "?base - ?base div 10 \<le> i \<and> i \<le> ?base + ?base div 10" by simp
  then show ?thesis using third_of_lease [OF base assms(2)] by blast
qed

theorem heartbeats_within_lease_witness:
  "list_all (\<lambda>i. 2 * i < 30 * second_ns) (snd (heartbeat_Run sample_registration 0 (\<lambda>k s. s - 1) [BeatPosted 5 None, BeatCtxDone]))"
  unfolding list_all_iff
proof
  fix i
  assume "i \<in> set (snd (heartbeat_Run sample_registration 0 (\<lambda>k s. s - 1) [BeatPosted 5 None, BeatCtxDone]))"
  with heartbeats_within_lease [of 0 sample_registration 30 "\<lambda>k s. s - 1" i]
  show "2 * i < 30 * second_ns" by (simp add: sample_registration_def max_lease_sec_def)
qed

text \<open>A lease of one second is not renewed in time when the jitter is positive.\<close>

lemma one_second_lease_expires:
  "snd (heartbeat_Run sample_registration 1 (\<lambda>k s. s - 1) []) = [1100000000]"
  by (simp add: heartbeat_Run_def workerHeartbeatBaseInterval_def workerHeartbeatNextInterval_def jitterWorkerHeartbeatInterval_def
      go_div_def Let_def duration_of_def second_ns_def millisecond_ns_def workerHeartbeatMaxJitter_def in_int64_def)

text \<open>The first heartbeat that is not accepted ends the scheduler, and with it the run.\<close>

lemma first_failed_beat_ends_run:
  "fst (heartbeat_Run reg lease rnd (replicate n (BeatPosted now None) @ BeatPosted now (Some err) # bs)) = Some (Some err)"
proof -
  have "fst (heartbeat_loop base j k (replicate n (BeatPosted now None) @ BeatPosted now (Some err) # bs)) = Some (Some err)" for base j k
    by (induction n arbitrary: k) (auto simp: Let_def split_beta)
  then show ?thesis by (simp add: heartbeat_Run_def)
qed

end
