(* ===== verification/Worker_Dispatch.thy ===== *)
theory Worker_Dispatch
  imports Worker_Ack_Props Worker_Heartbeat
begin

text \<open>
  Models \<open>internal/cli/worker/worker_dispatch.go\<close>: a worker receives its runs over a WebSocket and falls back to
  long polling when the WebSocket cannot be opened. One iteration of the loop is a turn; what its calls meet (the
  clock, the dial and what is read from the connection, the answer to a long poll, the end of a sleep) is
  a record. The handlers are functions on a state \<open>'s\<close>. Beside its result a turn gives the list of what it did.
\<close>

section \<open>Frames\<close>

record frame_codec =
  fc_type :: "string \<Rightarrow> string result"
  fc_dispatch :: "string \<Rightarrow> WorkerDispatchFrame result"
  fc_revoked :: "string \<Rightarrow> string result"

definition errWorkerWebSocketUpgrade :: go_error where
  "errWorkerWebSocketUpgrade = ErrMsg ''worker websocket upgrade failed''"

definition errWorkerWebSocketClosed :: go_error where
  "errWorkerWebSocketClosed = ErrMsg ''worker websocket closed''"

definition errWorkerDispatchUnsupported :: go_error where
  "errWorkerDispatchUnsupported = ErrMsg ''unsupported worker dispatch frame''"

definition ErrDeadlineExceeded :: go_error where
  "ErrDeadlineExceeded = ErrMsg ''context deadline exceeded''"

definition is_ctx_error :: "go_error \<Rightarrow> bool" where
  "is_ctx_error err \<longleftrightarrow> errors_is err ErrCanceled \<or> errors_is err ErrDeadlineExceeded"

definition ProtocolVersionCurrent :: string where
  "ProtocolVersionCurrent = ''1.0.0''"

definition decodeWorkerDispatchFrame :: "frame_codec \<Rightarrow> string \<Rightarrow> WorkerDispatchFrame result" where
  "decodeWorkerDispatchFrame fc data = (case fc_type fc data of
     Inl err \<Rightarrow> Inl (Wrap ''decoding dispatch frame envelope'' err)
   | Inr ty \<Rightarrow>
      (if ty \<noteq> ''dispatch'' then Inl (WrapPost errWorkerDispatchUnsupported (fmt_q ty))
       else (case fc_dispatch fc data of
         Inl err \<Rightarrow> Inl (Wrap ''decoding dispatch frame'' err)
       | Inr frame \<Rightarrow>
           Inr (if wf_ProtocolVersion frame = [] then frame\<lparr>wf_ProtocolVersion := ProtocolVersionCurrent\<rparr> else frame))))"

definition decodeLeaseRevokedFrame :: "frame_codec \<Rightarrow> string \<Rightarrow> string result" where
  "decodeLeaseRevokedFrame fc data = (case fc_revoked fc data of
     Inl err \<Rightarrow> Inl (Wrap ''decoding lease-revoked frame'' err)
   | Inr runID \<Rightarrow> if runID = [] then Inl (ErrMsg ''lease-revoked frame missing runId'') else Inr runID)"

section \<open>The WebSocket\<close>

text \<open>
  What a read gives: an error with its text, or a message. The reads of a connection are those made so far; when
  they are used up the loop waits in \<open>conn.Read\<close>.
\<close>

datatype ws_read = ReadErr go_error string | ReadMsg (is_text: bool) string

datatype ws_dial = DialErr string int | DialOk "ws_read list"

datatype channel_act =
    Dialed time string ws_dial time
  | Polled string
  | GotFrame WorkerDispatchFrame
  | GotRevoked string

datatype ws_end = WsOpen | WsReturned "go_error option"

type_synonym 's handlers = "(WorkerDispatchFrame \<Rightarrow> 's \<Rightarrow> go_error option \<times> 's) \<times> (string \<Rightarrow> 's \<Rightarrow> 's) option"

definition ws_message :: "frame_codec \<Rightarrow> 's handlers \<Rightarrow> string \<Rightarrow> 's \<Rightarrow> go_error option \<times> 's \<times> channel_act list" where
  "ws_message fc hs data s = (case fc_type fc data of
     Inl err \<Rightarrow> (Some (Wrap ''decoding frame type'' err), s, [])
   | Inr ty \<Rightarrow>
      (if ty = ''dispatch''
       then (case decodeWorkerDispatchFrame fc data of
          Inl err \<Rightarrow> (Some err, s, [])
        | Inr frame \<Rightarrow> (let (err, s') = fst hs frame s in (err, s', [GotFrame frame])))
       else if ty = ''lease-revoked''
       then (case decodeLeaseRevokedFrame fc data of
          Inl err \<Rightarrow> (Some err, s, [])
        | Inr runID \<Rightarrow> (None, case snd hs of None \<Rightarrow> s | Some h \<Rightarrow> h runID s, [GotRevoked runID]))
       else (None, s, [])))"

fun ws_loop :: "frame_codec \<Rightarrow> 's handlers \<Rightarrow> ws_read list \<Rightarrow> 's \<Rightarrow> ws_end \<times> 's \<times> channel_act list" where
  "ws_loop fc hs [] s = (WsOpen, s, [])"
| "ws_loop fc hs (ReadErr err txt # rs) s =
     (WsReturned (Some (if is_ctx_error err then err else WrapPost errWorkerWebSocketClosed txt)), s, [])"
| "ws_loop fc hs (ReadMsg text data # rs) s =
     (if \<not> text then ws_loop fc hs rs s
      else (case ws_message fc hs data s of
        (Some err, s1, as) \<Rightarrow> (WsReturned (Some err), s1, as)
      | (None, s1, as) \<Rightarrow> (let (r, s2, bs) = ws_loop fc hs rs s1 in (r, s2, as @ bs))))"

record turn =
  tn_ctxErr :: "go_error option"
  tn_now :: time
  tn_session :: "workerSessionManager option"
  tn_dial :: ws_dial
  tn_dialDone :: time
  tn_poll :: "(int \<times> string result) result"
  tn_sleep :: "go_error option"

definition consumeWorkerDispatchWebSocket ::
  "frame_codec \<Rightarrow> 's handlers \<Rightarrow> workerRegistration \<Rightarrow> turn \<Rightarrow> 's \<Rightarrow> ws_end \<times> 's \<times> channel_act list" where
  "consumeWorkerDispatchWebSocket fc hs reg tn s =
     (if wr_WsURL reg = [] then (WsReturned (Some (WrapPost errWorkerWebSocketUpgrade ''dispatchChannel.wsUrl is empty'')), s, [])
      else
       (let dialed = Dialed (tn_now tn) (currentToken (tn_session tn) reg) (tn_dial tn) (tn_dialDone tn) in
        case tn_dial tn of
          DialErr txt status \<Rightarrow>
            (WsReturned (Some (WrapPost errWorkerWebSocketUpgrade (txt @ '' (HTTP '' @ fmt_int status @ '')''))), s, [dialed])
        | DialOk reads \<Rightarrow> (let (r, s', as) = ws_loop fc hs reads s in (r, s', dialed # as))))"

section \<open>Long polling\<close>

definition longPollWorkerDispatch ::
  "frame_codec \<Rightarrow> 's handlers \<Rightarrow> workerRegistration \<Rightarrow> turn \<Rightarrow> 's \<Rightarrow> go_error option \<times> 's \<times> channel_act list" where
  "longPollWorkerDispatch fc hs reg tn s =
     (if wr_LongPollURL reg = [] then (Some (ErrMsg ''registration response missing dispatchChannel.longPollUrl''), s, [])
      else
       (let polled = Polled (currentToken (tn_session tn) reg) in
        case tn_poll tn of
          Inl err \<Rightarrow> (Some (Wrap ''long-poll dispatch request failed'' err), s, [polled])
        | Inr (status, body) \<Rightarrow>
            (if status = 204 then (None, s, [polled])
             else if \<not> ok_status status
             then (let text = (case body of Inl _ \<Rightarrow> [] | Inr b \<Rightarrow> take 1024 b) in
               (Some (ErrMsg (''long-poll dispatch failed: '' @ http_suffix status @ (if text \<noteq> [] then '': '' @ text else []))), s, [polled]))
             else (case body of
               Inl err \<Rightarrow> (Some (Wrap ''reading long-poll dispatch response'' err), s, [polled])
             | Inr data \<Rightarrow>
                (case decodeWorkerDispatchFrame fc data of
                   Inl err \<Rightarrow> (Some err, s, [polled])
                 | Inr frame \<Rightarrow> (let (err, s') = fst hs frame s in (err, s', [polled, GotFrame frame])))))))"

section \<open>The loop\<close>

definition workerWSFailureThreshold :: nat where
  "workerWSFailureThreshold = 3"

definition workerWSFallbackRetryDelay :: duration where
  "workerWSFallbackRetryDelay = 60 * second_ns"

record dispatch_loop =
  dl_wsFailures :: nat
  dl_inLongPollFallback :: bool
  dl_nextWSRetry :: time

datatype turn_end = Continue | Waiting | Returned go_error

definition ends :: "go_error option \<Rightarrow> turn_end" where
  "ends err = (case err of None \<Rightarrow> Continue | Some e \<Rightarrow> Returned e)"

definition dispatch_turn ::
  "frame_codec \<Rightarrow> 's handlers \<Rightarrow> workerRegistration \<Rightarrow> turn \<Rightarrow> dispatch_loop \<Rightarrow> 's
     \<Rightarrow> turn_end \<times> dispatch_loop \<times> 's \<times> channel_act list" where
  "dispatch_turn fc hs reg tn dl s = (case tn_ctxErr tn of
     Some err \<Rightarrow> (Returned err, dl, s, [])
   | None \<Rightarrow>
      (if dl_inLongPollFallback dl \<and> tn_now tn < dl_nextWSRetry dl
       then (let (err, s', as) = longPollWorkerDispatch fc hs reg tn s in (ends err, dl, s', as))
       else (case consumeWorkerDispatchWebSocket fc hs reg tn s of
          (WsOpen, s', as) \<Rightarrow> (Waiting, dl, s', as)
        | (WsReturned None, s', as) \<Rightarrow> (Continue, dl\<lparr>dl_wsFailures := 0, dl_inLongPollFallback := False\<rparr>, s', as)
        | (WsReturned (Some err), s', as) \<Rightarrow>
            (if is_ctx_error err then (Returned err, dl, s', as)
             else if errors_is err errWorkerWebSocketClosed
             then (ends (tn_sleep tn), dl\<lparr>dl_wsFailures := 0, dl_inLongPollFallback := False\<rparr>, s', as)
             else if \<not> errors_is err errWorkerWebSocketUpgrade then (Returned err, dl, s', as)
             else
              (let dl1 = dl\<lparr>dl_wsFailures := dl_wsFailures dl + 1\<rparr> in
               if workerWSFailureThreshold \<le> dl_wsFailures dl1
               then (let dl2 = dl1\<lparr>dl_inLongPollFallback := True,
                         dl_nextWSRetry := tn_dialDone tn + workerWSFallbackRetryDelay\<rparr>;
                         (perr, s2, bs) = longPollWorkerDispatch fc hs reg tn s'
                     in (ends perr, dl2, s2, as @ bs))
               else (ends (tn_sleep tn), dl1, s', as))))))"

fun dispatch_turns ::
  "frame_codec \<Rightarrow> 's handlers \<Rightarrow> workerRegistration \<Rightarrow> turn list \<Rightarrow> dispatch_loop \<Rightarrow> 's
     \<Rightarrow> turn_end \<times> 's \<times> channel_act list" where
  "dispatch_turns fc hs reg [] dl s = (Continue, s, [])"
| "dispatch_turns fc hs reg (tn # tns) dl s = (case dispatch_turn fc hs reg tn dl s of
     (Continue, dl', s', as) \<Rightarrow> (let (r, s2, bs) = dispatch_turns fc hs reg tns dl' s' in (r, s2, as @ bs))
   | (r, dl', s', as) \<Rightarrow> (r, s', as))"

definition consumeWorkerDispatches ::
  "frame_codec \<Rightarrow> 's handlers option \<Rightarrow> workerRegistration \<Rightarrow> time \<Rightarrow> turn list \<Rightarrow> 's
     \<Rightarrow> turn_end \<times> 's \<times> channel_act list" where
  "consumeWorkerDispatches fc handlers reg start tns s = (case handlers of
     None \<Rightarrow> (Returned (ErrMsg ''dispatch handler is required''), s, [])
   | Some hs \<Rightarrow>
      (if wr_WsURL reg = [] \<and> wr_LongPollURL reg = []
       then (Returned (ErrMsg ''registration response missing dispatch channel URLs''), s, [])
       else dispatch_turns fc hs reg tns \<lparr>dl_wsFailures = 0, dl_inLongPollFallback = False, dl_nextWSRetry = start\<rparr> s))"

end
