(* ===== verification/Worker_Dispatch_Props.thy ===== *)
theory Worker_Dispatch_Props
  imports Worker_Dispatch
begin

text \<open>
  What holds of the dispatch loop, for any handlers and whatever its turns meet: the handlers see exactly the frames
  received, in order, and the long poll is used only when and as long as the WebSocket cannot be opened.
\<close>

section \<open>The handlers see the frames in order\<close>

fun apply_act :: "'s handlers \<Rightarrow> 's \<Rightarrow> channel_act \<Rightarrow> 's" where
  "apply_act hs s (GotFrame frame) = snd (fst hs frame s)"
| "apply_act hs s (GotRevoked runID) = (case snd hs of None \<Rightarrow> s | Some h \<Rightarrow> h runID s)"
| "apply_act hs s _ = s"

lemma ws_message_acts: "ws_message fc hs data s = (r, s', as) \<Longrightarrow> s' = foldl (apply_act hs) s as"
  by (auto simp: ws_message_def split: sum.splits if_splits prod.splits)

lemma ws_loop_acts: "ws_loop fc hs rs s = (r, s', as) \<Longrightarrow> s' = foldl (apply_act hs) s as"
proof (induction fc hs rs s arbitrary: r s' "as" rule: ws_loop.induct)
  case (3 fc hs b data rs s)
  then show ?case
    by (cases b) (auto split: prod.splits option.splits dest: ws_message_acts)
qed auto

lemma ws_acts: "consumeWorkerDispatchWebSocket fc hs reg tn s = (r, s', as) \<Longrightarrow> s' = foldl (apply_act hs) s as"
  by (auto simp: consumeWorkerDispatchWebSocket_def Let_def split: if_splits ws_dial.splits prod.splits dest: ws_loop_acts)

lemma poll_acts: "longPollWorkerDispatch fc hs reg tn s = (r, s', as) \<Longrightarrow> s' = foldl (apply_act hs) s as"
  by (auto simp: longPollWorkerDispatch_def Let_def split: if_splits sum.splits prod.splits)

lemma turn_acts:
  assumes "dispatch_turn fc hs reg tn dl s = (r, dl', s', as)"
  shows "s' = foldl (apply_act hs) s as"
proof -
  obtain wr ws was where w: "consumeWorkerDispatchWebSocket fc hs reg tn s = (wr, ws, was)" by (metis prod_cases3)
  obtain pr ps pas where p: "longPollWorkerDispatch fc hs reg tn s = (pr, ps, pas)" by (metis prod_cases3)
  obtain qr qs qas where q: "longPollWorkerDispatch fc hs reg tn ws = (qr, qs, qas)" by (metis prod_cases3)
  from assms have "(s' = s \<and> as = []) \<or> (s' = ps \<and> as = pas) \<or> (s' = ws \<and> as = was) \<or> (s' = qs \<and> as = was @ qas)"
    by (auto simp: dispatch_turn_def w p q Let_def split: option.splits if_splits ws_end.splits)
  with ws_acts [OF w] poll_acts [OF p] poll_acts [OF q] show ?thesis by auto
qed

lemma turns_acts: "dispatch_turns fc hs reg tns dl s = (r, s', as) \<Longrightarrow> s' = foldl (apply_act hs) s as"
proof (induction tns arbitrary: dl s r s' "as")
  case (Cons tn tns)
  obtain r1 dl1 s1 as1 where t: "dispatch_turn fc hs reg tn dl s = (r1, dl1, s1, as1)" by (metis prod_cases4)
  with Cons turn_acts [OF t] show ?case by (cases r1) (auto split: prod.splits)
qed simp

lemma consume_acts:
  "consumeWorkerDispatches fc (Some hs) reg start tns s = (r, s', as) \<Longrightarrow> s' = foldl (apply_act hs) s as"
  by (auto simp: consumeWorkerDispatches_def split: if_splits dest: turns_acts)

section \<open>Histories of the channel\<close>

fun dial_failed :: "channel_act \<Rightarrow> bool" where
  "dial_failed (Dialed now tok (DialErr txt status) done_at) = True"
| "dial_failed _ = False"

fun is_dial :: "channel_act \<Rightarrow> bool" where
  "is_dial (Dialed now tok d done_at) = True"
| "is_dial _ = False"

fun dial_done :: "channel_act \<Rightarrow> time" where
  "dial_done (Dialed now tok d done_at) = done_at"
| "dial_done _ = zero_time"

fun is_poll :: "channel_act \<Rightarrow> bool" where
  "is_poll (Polled tok) = True"
| "is_poll _ = False"

text \<open>The number of dials at the end of a history that failed, and whether it has a poll after its last dial.\<close>

definition trailing_failures :: "channel_act list \<Rightarrow> nat" where
  "trailing_failures H = length (takeWhile dial_failed (rev (filter is_dial H)))"

definition polled_since_dial :: "channel_act list \<Rightarrow> bool" where
  "polled_since_dial H = list_ex is_poll (takeWhile (\<lambda>a. \<not> is_dial a) (rev H))"

definition last_dial_done :: "channel_act list \<Rightarrow> time" where
  "last_dial_done H = (case rev (filter is_dial H) of [] \<Rightarrow> zero_time | d # ds \<Rightarrow> dial_done d)"

definition act_ok :: "channel_act list \<Rightarrow> channel_act \<Rightarrow> bool" where
  "act_ok H a = (case a of
     Polled tok \<Rightarrow> workerWSFailureThreshold \<le> trailing_failures H
   | Dialed now tok d done_at \<Rightarrow> \<not> polled_since_dial H \<or> last_dial_done H + workerWSFallbackRetryDelay \<le> now
   | _ \<Rightarrow> True)"

fun trace_ok :: "channel_act list \<Rightarrow> channel_act list \<Rightarrow> bool" where
  "trace_ok H [] = True"
| "trace_ok H (a # as) = (act_ok H a \<and> trace_ok (H @ [a]) as)"

lemma trace_ok_append [simp]: "trace_ok H (as @ bs) \<longleftrightarrow> trace_ok H as \<and> trace_ok (H @ as) bs"
  by (induction as arbitrary: H) auto

definition is_frame :: "channel_act \<Rightarrow> bool" where
  "is_frame a \<longleftrightarrow> \<not> is_dial a \<and> \<not> is_poll a"

lemma frames_quiet:
  assumes "list_all is_frame as"
  shows "trailing_failures (H @ as) = trailing_failures H" "polled_since_dial (H @ as) = polled_since_dial H"
    "last_dial_done (H @ as) = last_dial_done H" "trace_ok H as"
proof -
  from assms have f: "filter is_dial as = []" "list_all (\<lambda>a. \<not> is_dial a \<and> \<not> is_poll a) as"
    by (auto simp: is_frame_def list_all_iff filter_empty_conv)
  then show "trailing_failures (H @ as) = trailing_failures H" "last_dial_done (H @ as) = last_dial_done H"
    by (simp_all add: trailing_failures_def last_dial_done_def)
  from f(2) show "polled_since_dial (H @ as) = polled_since_dial H"
    by (induction as rule: rev_induct) (auto simp: polled_since_dial_def)
  from assms show "trace_ok H as"
    by (induction as arbitrary: H) (auto simp: act_ok_def is_frame_def split: channel_act.split)
qed

lemma trailing_dial:
  "trailing_failures (H @ [Dialed now tok d t]) = (case d of DialErr _ _ \<Rightarrow> Suc (trailing_failures H) | DialOk _ \<Rightarrow> 0)"
  by (simp add: trailing_failures_def split: ws_dial.split)

lemma since_dial: "\<not> polled_since_dial (H @ [Dialed now tok d t])" "last_dial_done (H @ [Dialed now tok d t]) = t"
  by (simp_all add: polled_since_dial_def last_dial_done_def)

lemma after_poll:
  "trailing_failures (H @ [Polled tok]) = trailing_failures H" "last_dial_done (H @ [Polled tok]) = last_dial_done H"
  by (simp_all add: trailing_failures_def last_dial_done_def)

section \<open>The loop keeps to the discipline\<close>

lemma ws_message_frames: "ws_message fc hs data s = (r, s', as) \<Longrightarrow> list_all is_frame as"
  by (auto simp: ws_message_def is_frame_def split: sum.splits if_splits prod.splits)

lemma ws_loop_frames: "ws_loop fc hs rs s = (r, s', as) \<Longrightarrow> list_all is_frame as"
proof (induction fc hs rs s arbitrary: r s' "as" rule: ws_loop.induct)
  case (3 fc hs b data rs s)
  then show ?case by (cases b) (auto split: prod.splits option.splits dest: ws_message_frames)
qed auto

text \<open>What the loop knows agrees with the history.\<close>

definition loop_knows :: "dispatch_loop \<Rightarrow> channel_act list \<Rightarrow> bool" where
  "loop_knows dl H \<longleftrightarrow> dl_wsFailures dl = trailing_failures H
     \<and> (if dl_inLongPollFallback dl
        then workerWSFailureThreshold \<le> trailing_failures H \<and> dl_nextWSRetry dl = last_dial_done H + workerWSFallbackRetryDelay
        else \<not> polled_since_dial H)"


lemma poll_trace:
  assumes "longPollWorkerDispatch fc hs reg tn s = (r, s', as)" and "workerWSFailureThreshold \<le> trailing_failures H"
  shows "trace_ok H as \<and> trailing_failures (H @ as) = trailing_failures H \<and> last_dial_done (H @ as) = last_dial_done H"
proof -
  from assms(1) have "as = [] \<or> (\<exists>tok. as = [Polled tok] \<or> (\<exists>f. as = [Polled tok, GotFrame f]))"
    by (auto simp: longPollWorkerDispatch_def Let_def split: if_splits sum.splits prod.splits)
  moreover have "trailing_failures (H @ [Polled tok, GotFrame f]) = trailing_failures H"
    "last_dial_done (H @ [Polled tok, GotFrame f]) = last_dial_done H" for tok f
    by (simp_all add: trailing_failures_def last_dial_done_def)
  ultimately show ?thesis using assms(2) by (auto simp: act_ok_def after_poll)
qed

lemma ws_trace:
  assumes "consumeWorkerDispatchWebSocket fc hs reg tn s = (r, s', as)" and "wr_WsURL reg \<noteq> []"
    and "\<not> polled_since_dial H \<or> last_dial_done H + workerWSFallbackRetryDelay \<le> tn_now tn"
  shows "trace_ok H as \<and> \<not> polled_since_dial (H @ as) \<and> last_dial_done (H @ as) = tn_dialDone tn
    \<and> trailing_failures (H @ as) = (case tn_dial tn of DialErr _ _ \<Rightarrow> Suc (trailing_failures H) | DialOk _ \<Rightarrow> 0)"
proof -
  let ?d = "Dialed (tn_now tn) (currentToken (tn_session tn) reg) (tn_dial tn) (tn_dialDone tn)"
  from assms(1, 2) obtain bs where as: "as = ?d # bs" "list_all is_frame bs"
    by (auto simp: consumeWorkerDispatchWebSocket_def Let_def split: ws_dial.splits prod.splits dest: ws_loop_frames)
  then have H: "H @ as = (H @ [?d]) @ bs" by simp
  from as frames_quiet(4) [OF as(2)] assms(3) have "trace_ok H as" by (auto simp: act_ok_def)
  then show ?thesis unfolding H frames_quiet [OF as(2)] by (simp add: trailing_dial since_dial)
qed

text \<open>Errors of the decoder and of the handlers are not the two by which the loop knows the state of the channel.\<close>

definition channel_error :: "go_error \<Rightarrow> bool" where
  "channel_error e \<longleftrightarrow> errors_is e errWorkerWebSocketUpgrade \<or> errors_is e errWorkerWebSocketClosed"

definition own_errors :: "frame_codec \<Rightarrow> 's handlers \<Rightarrow> bool" where
  "own_errors fc hs \<longleftrightarrow> (\<forall>f s e. fst (fst hs f s) = Some e \<longrightarrow> \<not> channel_error e)
     \<and> (\<forall>data e. fc_type fc data = Inl e \<or> fc_dispatch fc data = Inl e \<or> fc_revoked fc data = Inl e \<longrightarrow> \<not> channel_error e)"

lemmas sentinel_defs = channel_error_def errWorkerWebSocketUpgrade_def errWorkerWebSocketClosed_def
  errWorkerDispatchUnsupported_def is_ctx_error_def ErrDeadlineExceeded_def

lemma ws_message_errors:
  assumes "own_errors fc hs" "ws_message fc hs data s = (Some e, s', as)"
  shows "\<not> errors_is e errWorkerWebSocketUpgrade"
proof -
  have own: "fst (fst hs f s) = Some e \<Longrightarrow> \<not> channel_error e" "fc_type fc d = Inl e \<Longrightarrow> \<not> channel_error e"
    "fc_dispatch fc d = Inl e \<Longrightarrow> \<not> channel_error e" "fc_revoked fc d = Inl e \<Longrightarrow> \<not> channel_error e" for f s d e
    using assms(1) by (auto simp: own_errors_def)
  have dec: "decodeWorkerDispatchFrame fc d = Inl e \<Longrightarrow> \<not> channel_error e" for d e
    using own(2, 3) by (fastforce simp: decodeWorkerDispatchFrame_def sentinel_defs split: sum.splits if_splits)
  have rev: "decodeLeaseRevokedFrame fc d = Inl e \<Longrightarrow> \<not> channel_error e" for d e
    using own(4) by (fastforce simp: decodeLeaseRevokedFrame_def sentinel_defs split: sum.splits if_splits)
  from assms(2) consider e' where "fc_type fc data = Inl e'" "e = Wrap ''decoding frame type'' e'"
    | "decodeWorkerDispatchFrame fc data = Inl e" | f where "fst (fst hs f s) = Some e"
    | "decodeLeaseRevokedFrame fc data = Inl e"
    by (auto simp: ws_message_def split: sum.splits if_splits prod.splits) (metis fst_conv)+
  then show ?thesis
    using own(1, 2) dec rev by cases (fastforce simp: channel_error_def errWorkerWebSocketUpgrade_def)+
qed

lemma ws_loop_errors:
  "own_errors fc hs \<Longrightarrow> ws_loop fc hs rs s = (r, s', as) \<Longrightarrow>
     r \<noteq> WsReturned None \<and> (\<forall>e. r = WsReturned (Some e) \<longrightarrow> is_ctx_error e \<or> \<not> errors_is e errWorkerWebSocketUpgrade)"
proof (induction fc hs rs s arbitrary: r s' "as" rule: ws_loop.induct)
  case (2 fc hs err t rs s)
  then show ?case
    by (cases "is_ctx_error err") (auto simp: errWorkerWebSocketUpgrade_def errWorkerWebSocketClosed_def)
next
  case (3 fc hs b data rs s)
  obtain e1 s1 as1 where m: "ws_message fc hs data s = (e1, s1, as1)" by (metis prod_cases3)
  obtain r2 s2 as2 where l: "ws_loop fc hs rs s1 = (r2, s2, as2)" by (metis prod_cases3)
  obtain r3 s3 as3 where l': "ws_loop fc hs rs s = (r3, s3, as3)" by (metis prod_cases3)
  show ?case
  proof (cases "b \<and> e1 \<noteq> None")
    case True
    with 3(4) m obtain e where "r = WsReturned (Some e)" "e1 = Some e" by (auto split: option.splits)
    with ws_message_errors [OF 3(3)] m show ?thesis by auto
  next
    case False
    with 3 m l l' show ?thesis by (cases b) auto
  qed
qed auto

lemma turn_discipline:
  assumes knows: "loop_knows dl H" and own: "own_errors fc hs" and url: "wr_WsURL reg \<noteq> []"
    and turn: "dispatch_turn fc hs reg tn dl s = (r, dl', s', as)"
  shows "trace_ok H as \<and> (r = Continue \<longrightarrow> loop_knows dl' (H @ as))"
proof (cases "tn_ctxErr tn")
  case (Some e)
  with turn show ?thesis by (auto simp: dispatch_turn_def)
next
  case None
  show ?thesis
  proof (cases "dl_inLongPollFallback dl \<and> tn_now tn < dl_nextWSRetry dl")
    case True
    obtain pr ps pas where p: "longPollWorkerDispatch fc hs reg tn s = (pr, ps, pas)" by (metis prod_cases3)
    from True knows have "workerWSFailureThreshold \<le> trailing_failures H" by (simp add: loop_knows_def)
    from poll_trace [OF p this] True None turn p knows show ?thesis
      by (auto simp: dispatch_turn_def loop_knows_def)
  next
    case False
    obtain wr ws was where w: "consumeWorkerDispatchWebSocket fc hs reg tn s = (wr, ws, was)" by (metis prod_cases3)
    obtain qr qs qas where q: "longPollWorkerDispatch fc hs reg tn ws = (qr, qs, qas)" by (metis prod_cases3)
    from False knows have "\<not> polled_since_dial H \<or> last_dial_done H + workerWSFallbackRetryDelay \<le> tn_now tn"
      by (auto simp: loop_knows_def split: if_splits)
    note trace = ws_trace [OF w url this]
    show ?thesis
    proof (cases "tn_dial tn")
      case (DialErr t status)
      with w url have wr: "wr = WsReturned (Some (WrapPost errWorkerWebSocketUpgrade (t @ '' (HTTP '' @ fmt_int status @ '')'')))"
        by (simp add: consumeWorkerDispatchWebSocket_def)
      from DialErr trace have tf: "trailing_failures (H @ was) = Suc (trailing_failures H)" by simp
      show ?thesis
      proof (cases "workerWSFailureThreshold \<le> Suc (dl_wsFailures dl)")
        case True
        with tf knows have "workerWSFailureThreshold \<le> trailing_failures (H @ was)" by (simp add: loop_knows_def split: if_splits)
        from poll_trace [OF q this] trace tf turn None False w wr q True knows show ?thesis
          by (auto simp: dispatch_turn_def loop_knows_def Let_def sentinel_defs split: if_splits)
      next
        case small: False
        with knows have "\<not> dl_inLongPollFallback dl" by (auto simp: loop_knows_def)
        with small trace tf turn None False w wr knows show ?thesis
          by (auto simp: dispatch_turn_def loop_knows_def Let_def sentinel_defs)
      qed
    next
      case (DialOk rs)
      with w url obtain was' where "ws_loop fc hs rs s = (wr, ws, was')"
        by (auto simp: consumeWorkerDispatchWebSocket_def Let_def split: prod.splits)
      from ws_loop_errors [OF own this]
      consider "wr = WsOpen" | e where "wr = WsReturned (Some e)" "is_ctx_error e \<or> \<not> errors_is e errWorkerWebSocketUpgrade"
        by (cases wr) auto
      then show ?thesis
        using DialOk trace turn None False w by cases (auto simp: dispatch_turn_def loop_knows_def Let_def split: if_splits)
    qed
  qed
qed

lemma turns_discipline:
  assumes "own_errors fc hs" and "wr_WsURL reg \<noteq> []"
  shows "loop_knows dl H \<Longrightarrow> dispatch_turns fc hs reg tns dl s = (r, s', as) \<Longrightarrow> trace_ok H as"
proof (induction tns arbitrary: dl H s r s' "as")
  case (Cons tn tns)
  obtain r1 dl1 s1 as1 where t: "dispatch_turn fc hs reg tn dl s = (r1, dl1, s1, as1)" by (metis prod_cases4)
  from turn_discipline [OF Cons(2) assms t] t Cons show ?case by (cases r1) (auto split: prod.splits)
qed simp

section \<open>What holds of the loop\<close>


definition sample_codec :: frame_codec where
  "sample_codec = \<lparr>fc_type = (\<lambda>d. Inr (if d = ''r'' then ''lease-revoked'' else ''dispatch'')), fc_dispatch = (\<lambda>d. Inr (sample_frame d)),
     fc_revoked = (\<lambda>d. Inr d)\<rparr>"

definition sample_handlers :: "string list handlers" where
  "sample_handlers = ((\<lambda>f s. (None, s @ [wf_RunID f])), None)"

definition failing_turn :: "time \<Rightarrow> turn" where
  "failing_turn now = \<lparr>tn_ctxErr = None, tn_now = now, tn_session = None, tn_dial = DialErr ''refused'' 503, tn_dialDone = now,
     tn_poll = Inr (200, Inr ''a''), tn_sleep = None\<rparr>"

abbreviation (input) failed_dial :: "time \<Rightarrow> channel_act" where
  "failed_dial now \<equiv> Dialed now ''t0'' (DialErr ''refused'' 503) now"

lemma sample_consume:
  "consumeWorkerDispatches sample_codec (Some sample_handlers) sample_registration 0 [failing_turn 0, failing_turn 1, failing_turn 2] []
   = (Continue, [''a''],
      [failed_dial 0, failed_dial 1, failed_dial 2, Polled ''t0'', GotFrame (sample_frame ''a'')])"
  by (simp add: consumeWorkerDispatches_def dispatch_turn_def consumeWorkerDispatchWebSocket_def longPollWorkerDispatch_def
      decodeWorkerDispatchFrame_def sample_codec_def sample_handlers_def sample_registration_def sample_frame_def failing_turn_def
      sentinel_defs workerWSFailureThreshold_def currentToken_def ok_status_def ends_def Let_def)


section \<open>What ends a worker\<close>

text \<open>
  One long poll that fails ends the worker, and so does a revocation delivered by a long poll; the WebSocket
  loop handles the one and is dialled again after the other.
\<close>

lemma failed_poll_ends_worker:
  assumes "dl_inLongPollFallback dl" "tn_now tn < dl_nextWSRetry dl" "tn_ctxErr tn = None" "wr_LongPollURL reg \<noteq> []"
    and "tn_poll tn = Inl err"
  shows "fst (dispatch_turn fc hs reg tn dl s) = Returned (Wrap ''long-poll dispatch request failed'' err)"
  using assms by (simp add: dispatch_turn_def longPollWorkerDispatch_def ends_def)

lemma polled_revocation_ends_worker:
  assumes "dl_inLongPollFallback dl" "tn_now tn < dl_nextWSRetry dl" "tn_ctxErr tn = None" "wr_LongPollURL reg \<noteq> []"
    and "tn_poll tn = Inr (200, Inr data)" "fc_type fc data = Inr ''lease-revoked''"
  shows "fst (dispatch_turn fc hs reg tn dl s) = Returned (WrapPost errWorkerDispatchUnsupported (fmt_q ''lease-revoked''))"
  using assms by (simp add: dispatch_turn_def longPollWorkerDispatch_def decodeWorkerDispatchFrame_def ok_status_def ends_def)

lemma closed_socket_is_redialled:
  assumes "tn_ctxErr tn = None" "\<not> dl_inLongPollFallback dl" "wr_WsURL reg \<noteq> []" "tn_dial tn = DialOk [ReadErr err t]"
    and "\<not> is_ctx_error err" "tn_sleep tn = None"
  shows "fst (dispatch_turn fc hs reg tn dl s) = Continue"
  using assms by (simp add: dispatch_turn_def consumeWorkerDispatchWebSocket_def sentinel_defs ends_def)

end
