(* ===== verification/Worker_Group.thy ===== *)
theory Worker_Group
  imports Worker_Dispatch
begin

text \<open>
  Models \<open>runAgentWithEventUpload\<close> of \<open>internal/cli/worker/worker_executor.go\<close>: the goroutines of a run, an
  \<open>errgroup\<close> of five, as a step relation. They forward the agent's events, upload them, post heartbeats, wait
  for the process and stop it when its lease has lapsed. The outside ends the process, cancels the context of
  the run and answers the posts.
\<close>

section \<open>State\<close>

datatype hb_state = HbRunning | HbReturning go_error | HbEnded

datatype wait_state = WaitRunning | WaitReturning "go_error option" | WaitEnded

datatype stop_state = StopWaiting | StopSent | StopEnded

datatype group_act = Heartbeat_revoked | Post_failed go_error | Stop_called | Kill_sent

text \<open>
  \<open>gr_outer\<close> is the cause of the context handed to the run, \<open>gr_cause\<close> that of the context made from it,
  \<open>gr_err\<close> the first error a goroutine returned, \<open>gr_exit\<close> how the process ended, and \<open>gr_done\<close> and
  \<open>gr_closed\<close> are its \<open>Done\<close> channel.
\<close>

record run_group =
  gr_outer :: "go_error option"
  gr_cause :: "go_error option"
  gr_err :: "go_error option"
  gr_hbStopped :: bool
  gr_exit :: "go_error option option"
  gr_done :: "go_error option list"
  gr_closed :: bool
  gr_forward :: bool
  gr_consume :: bool
  gr_hb :: hb_state
  gr_wait :: wait_state
  gr_stop :: stop_state
  gr_log :: "group_act list"

text \<open>The start, under a context that may have ended before.\<close>

definition group_start :: "go_error option \<Rightarrow> run_group" where
  "group_start outer = \<lparr>gr_outer = outer, gr_cause = outer, gr_err = None, gr_hbStopped = False, gr_exit = None, gr_done = [],
     gr_closed = False, gr_forward = True, gr_consume = True, gr_hb = HbRunning, gr_wait = WaitRunning,
     gr_stop = StopWaiting, gr_log = []\<rparr>"

text \<open>The group's context ends with its parent or with the first error; that of the heartbeats also by \<open>stopHeartbeat\<close>.\<close>

definition gctx_done :: "run_group \<Rightarrow> bool" where
  "gctx_done g \<longleftrightarrow> gr_cause g \<noteq> None \<or> gr_err g \<noteq> None"

definition hbctx_done :: "run_group \<Rightarrow> bool" where
  "hbctx_done g \<longleftrightarrow> gctx_done g \<or> gr_hbStopped g"

definition cancelWithCause :: "go_error \<Rightarrow> run_group \<Rightarrow> run_group" where
  "cancelWithCause c g = (if gr_cause g = None then g\<lparr>gr_cause := Some c\<rparr> else g)"

text \<open>A goroutine returns: the group keeps the first error.\<close>

definition report :: "go_error option \<Rightarrow> run_group \<Rightarrow> run_group" where
  "report e g = (case e of None \<Rightarrow> g | Some err \<Rightarrow> if gr_err g = None then g\<lparr>gr_err := Some err\<rparr> else g)"

definition note_act :: "group_act \<Rightarrow> run_group \<Rightarrow> run_group" where
  "note_act a g = g\<lparr>gr_log := gr_log g @ [a]\<rparr>"

definition lease_revoked :: "go_error \<Rightarrow> bool" where
  "lease_revoked err \<longleftrightarrow> errors_is err errWorkerLeaseRevoked"

section \<open>Steps of the outside\<close>

text \<open>
  The causes of an ended context are those of its cancel functions: the end of the worker, or a revocation. The error of a
  revoked lease comes from the post of a heartbeat only. A post that times out gives a context error, which the
  goroutine takes for the end of its own context.
\<close>

inductive outside_step :: "run_group \<Rightarrow> run_group \<Rightarrow> bool" where
  outer_cancelled: "gr_outer g = None \<Longrightarrow> c \<in> {ErrCanceled, errLeaseRevoked} \<Longrightarrow>
    outside_step g (cancelWithCause c (g\<lparr>gr_outer := Some c\<rparr>))"
| process_ended: "gr_exit g = None \<Longrightarrow> e = None \<or> \<not> lease_revoked (the e) \<Longrightarrow> outside_step g (g\<lparr>gr_exit := Some e, gr_done := [e]\<rparr>)"
| done_closed: "gr_exit g \<noteq> None \<Longrightarrow> \<not> gr_closed g \<Longrightarrow> outside_step g (g\<lparr>gr_closed := True\<rparr>)"
| kill_timer: "gr_stop g = StopSent \<Longrightarrow> outside_step g (note_act Kill_sent (g\<lparr>gr_stop := StopEnded\<rparr>))"
| events_closed: "gr_forward g \<Longrightarrow> outside_step g (g\<lparr>gr_forward := False\<rparr>)"
| upload_failed: "gr_consume g \<Longrightarrow> \<not> is_ctx_error err \<Longrightarrow> \<not> lease_revoked err \<Longrightarrow>
    outside_step g (report (Some err) (note_act (Post_failed err) (g\<lparr>gr_consume := False\<rparr>)))"
| upload_timed_out: "gr_consume g \<Longrightarrow> outside_step g (g\<lparr>gr_consume := False\<rparr>)"
| heartbeat_failed: "gr_hb g = HbRunning \<Longrightarrow> \<not> is_ctx_error err \<Longrightarrow> \<not> lease_revoked err \<Longrightarrow>
    outside_step g (report (Some err) (note_act (Post_failed err) (g\<lparr>gr_hb := HbEnded\<rparr>)))"
| heartbeat_timed_out: "gr_hb g = HbRunning \<Longrightarrow> outside_step g (g\<lparr>gr_hb := HbEnded\<rparr>)"
| heartbeat_revoked: "gr_hb g = HbRunning \<Longrightarrow> \<not> is_ctx_error err \<Longrightarrow> lease_revoked err \<Longrightarrow>
    outside_step g (cancelWithCause errLeaseRevoked (note_act Heartbeat_revoked (g\<lparr>gr_hb := HbReturning err\<rparr>)))"

section \<open>Steps of the goroutines\<close>

inductive goroutine_step :: "run_group \<Rightarrow> run_group \<Rightarrow> bool" where
  forwarder_ends: "gr_forward g \<Longrightarrow> gctx_done g \<Longrightarrow> goroutine_step g (g\<lparr>gr_forward := False\<rparr>)"
| consumer_ends: "gr_consume g \<Longrightarrow> gctx_done g \<or> \<not> gr_forward g \<Longrightarrow> goroutine_step g (g\<lparr>gr_consume := False\<rparr>)"
| heartbeat_ends: "gr_hb g = HbRunning \<Longrightarrow> hbctx_done g \<Longrightarrow> goroutine_step g (g\<lparr>gr_hb := HbEnded\<rparr>)"
| heartbeat_returns: "gr_hb g = HbReturning err \<Longrightarrow> goroutine_step g (report (Some err) (g\<lparr>gr_hb := HbEnded\<rparr>))"
| waiter_cancelled: "gr_wait g = WaitRunning \<Longrightarrow> gctx_done g \<Longrightarrow>
    goroutine_step g (report (Some ErrCanceled) (g\<lparr>gr_wait := WaitEnded\<rparr>))"
| waiter_done: "gr_wait g = WaitRunning \<Longrightarrow> gr_done g = e # es \<Longrightarrow>
    goroutine_step g ((case e of None \<Rightarrow> (\<lambda>g. g) | Some _ \<Rightarrow> cancelWithCause ErrCanceled)
      (g\<lparr>gr_done := es, gr_hbStopped := True, gr_wait := WaitReturning e\<rparr>))"
| waiter_closed: "gr_wait g = WaitRunning \<Longrightarrow> gr_done g = [] \<Longrightarrow> gr_closed g \<Longrightarrow>
    goroutine_step g (g\<lparr>gr_hbStopped := True, gr_wait := WaitReturning None\<rparr>)"
| waiter_returns: "gr_wait g = WaitReturning e \<Longrightarrow> goroutine_step g (report e (g\<lparr>gr_wait := WaitEnded\<rparr>))"
| stopper_idle: "gr_stop g = StopWaiting \<Longrightarrow> hbctx_done g \<Longrightarrow> gr_cause g \<noteq> Some errLeaseRevoked \<Longrightarrow>
    goroutine_step g (g\<lparr>gr_stop := StopEnded\<rparr>)"
| stopper_stops: "gr_stop g = StopWaiting \<Longrightarrow> hbctx_done g \<Longrightarrow> gr_cause g = Some errLeaseRevoked \<Longrightarrow>
    goroutine_step g (note_act Stop_called (g\<lparr>gr_stop := StopSent\<rparr>))"
| stopper_done: "gr_stop g = StopSent \<Longrightarrow> gr_done g = e # es \<Longrightarrow> goroutine_step g (g\<lparr>gr_done := es, gr_stop := StopEnded\<rparr>)"
| stopper_closed: "gr_stop g = StopSent \<Longrightarrow> gr_done g = [] \<Longrightarrow> gr_closed g \<Longrightarrow> goroutine_step g (g\<lparr>gr_stop := StopEnded\<rparr>)"

definition group_step :: "run_group \<Rightarrow> run_group \<Rightarrow> bool" where
  "group_step g g' \<longleftrightarrow> outside_step g g' \<or> goroutine_step g g'"

text \<open>\<open>g.Wait\<close> returns when every goroutine has.\<close>

definition all_returned :: "run_group \<Rightarrow> bool" where
  "all_returned g \<longleftrightarrow> \<not> gr_forward g \<and> \<not> gr_consume g \<and> gr_hb g = HbEnded \<and> gr_wait g = WaitEnded \<and> gr_stop g = StopEnded"

end
