(* ===== verification/Worker_Group_Props.thy ===== *)
theory Worker_Group_Props
  imports Worker_Group
begin

text \<open>What holds of the goroutines of a run in every order of their steps.\<close>

lemmas group_defs = cancelWithCause_def report_def note_act_def gctx_done_def hbctx_done_def

lemma lease_errors [simp]: "errLeaseRevoked \<noteq> ErrCanceled" "ErrCanceled \<noteq> errLeaseRevoked" "\<not> lease_revoked ErrCanceled"
  by (simp_all add: errLeaseRevoked_def lease_revoked_def errWorkerLeaseRevoked_def)

section \<open>Stopping\<close>

definition stop_inv :: "run_group \<Rightarrow> bool" where
  "stop_inv g \<longleftrightarrow> (Stop_called \<in> set (gr_log g) \<longrightarrow> gr_cause g = Some errLeaseRevoked)
     \<and> (gr_stop g = StopSent \<longrightarrow> Stop_called \<in> set (gr_log g))
     \<and> (Kill_sent \<in> set (gr_log g) \<longrightarrow> Stop_called \<in> set (gr_log g))
     \<and> (gr_cause g = Some errLeaseRevoked \<longrightarrow> gr_outer g = Some errLeaseRevoked \<or> Heartbeat_revoked \<in> set (gr_log g))
     \<and> (gr_outer g = Some errLeaseRevoked \<longrightarrow> gr_cause g \<noteq> None)
     \<and> (\<forall>err. gr_hb g = HbReturning err \<or> gr_err g = Some err \<longrightarrow> lease_revoked err \<longrightarrow> Heartbeat_revoked \<in> set (gr_log g))
     \<and> (\<forall>err. gr_exit g = Some (Some err) \<or> Some err \<in> set (gr_done g) \<or> gr_wait g = WaitReturning (Some err) \<longrightarrow> \<not> lease_revoked err)"

lemma stop_inv_outside: "outside_step g g' \<Longrightarrow> stop_inv g \<Longrightarrow> stop_inv g'"
  by (induction rule: outside_step.induct) (auto simp: stop_inv_def group_defs)

lemma stop_inv_goroutine: "goroutine_step g g' \<Longrightarrow> stop_inv g \<Longrightarrow> stop_inv g'"
  by (induction rule: goroutine_step.induct) (auto simp: stop_inv_def group_defs split: option.splits)

section \<open>The result\<close>

definition result_inv :: "run_group \<Rightarrow> bool" where
  "result_inv g \<longleftrightarrow>
     (case gr_exit g of None \<Rightarrow> gr_done g = [] \<and> \<not> gr_closed g | Some e \<Rightarrow> gr_done g \<in> {[], [e]})
     \<and> (gr_stop g = StopSent \<longrightarrow> Stop_called \<in> set (gr_log g))
     \<and> (gr_wait g = WaitRunning \<and> gr_exit g \<noteq> None \<and> gr_done g = [] \<longrightarrow> Stop_called \<in> set (gr_log g))
     \<and> (\<forall>r. gr_wait g = WaitReturning r \<longrightarrow> gr_exit g = Some r \<or> Stop_called \<in> set (gr_log g))
     \<and> (gr_wait g = WaitEnded \<longrightarrow> gr_err g \<noteq> None \<or> gr_exit g = Some None \<or> Stop_called \<in> set (gr_log g))"

lemma result_inv_outside: "outside_step g g' \<Longrightarrow> result_inv g \<Longrightarrow> result_inv g'"
  by (induction rule: outside_step.induct) (auto simp: result_inv_def group_defs split: option.splits)

lemma result_inv_goroutine: "goroutine_step g g' \<Longrightarrow> result_inv g \<Longrightarrow> result_inv g'"
  by (induction rule: goroutine_step.induct) (auto simp: result_inv_def group_defs split: option.splits)

text \<open>A run that nothing disturbs.\<close>

definition undisturbed :: "run_group \<Rightarrow> bool" where
  "undisturbed g \<longleftrightarrow> gr_outer g = None \<and> gr_log g = []"

definition quiet_inv :: "run_group \<Rightarrow> bool" where
  "quiet_inv g \<longleftrightarrow> result_inv g \<and> (undisturbed g \<longrightarrow>
     (gr_wait g = WaitRunning \<longrightarrow> gr_cause g = None) \<and> (gr_wait g \<noteq> WaitEnded \<longrightarrow> gr_err g = None)
     \<and> (gr_wait g = WaitEnded \<longrightarrow> gr_exit g = Some (gr_err g)) \<and> (\<forall>err. gr_hb g \<noteq> HbReturning err))"

lemma quiet_inv_outside: "outside_step g g' \<Longrightarrow> quiet_inv g \<Longrightarrow> quiet_inv g'"
proof -
  assume step: "outside_step g g'" and "quiet_inv g"
  moreover from this have "result_inv g'" by (auto simp: quiet_inv_def intro: result_inv_outside)
  ultimately show "quiet_inv g'"
    by (cases rule: outside_step.cases) (auto simp: quiet_inv_def undisturbed_def group_defs split: if_splits)
qed

lemma quiet_inv_goroutine: "goroutine_step g g' \<Longrightarrow> quiet_inv g \<Longrightarrow> quiet_inv g'"
proof -
  assume step: "goroutine_step g g'" and q: "quiet_inv g"
  then have r: "result_inv g" "result_inv g'" by (auto simp: quiet_inv_def intro: result_inv_goroutine)
  from step q r show "quiet_inv g'"
    by (cases rule: goroutine_step.cases)
      (auto simp: quiet_inv_def result_inv_def undisturbed_def group_defs split: option.splits if_splits)
qed

lemma group_reach_inv:
  assumes "group_step\<^sup>*\<^sup>* (group_start outer) g" and "outer \<in> {None, Some ErrCanceled, Some errLeaseRevoked}"
  shows "stop_inv g \<and> quiet_inv g"
  using assms(1)
proof induction
  case base
  from assms(2) show ?case by (auto simp: stop_inv_def quiet_inv_def result_inv_def undisturbed_def group_start_def)
next
  case (step g g')
  then show ?case
    unfolding group_step_def by (blast intro: stop_inv_outside stop_inv_goroutine quiet_inv_outside quiet_inv_goroutine)
qed

section \<open>A run ends\<close>

definition work_left :: "run_group \<Rightarrow> nat" where
  "work_left g = of_bool (gr_outer g = None) + of_bool (gr_exit g = None) + of_bool (\<not> gr_closed g)
     + of_bool (gr_forward g) + of_bool (gr_consume g)
     + (case gr_hb g of HbRunning \<Rightarrow> 2 | HbReturning _ \<Rightarrow> 1 | HbEnded \<Rightarrow> 0)
     + (case gr_wait g of WaitRunning \<Rightarrow> 2 | WaitReturning _ \<Rightarrow> 1 | WaitEnded \<Rightarrow> 0)
     + (case gr_stop g of StopWaiting \<Rightarrow> 2 | StopSent \<Rightarrow> 1 | StopEnded \<Rightarrow> 0)"

lemma work_left_same [simp]:
  "work_left (cancelWithCause c g) = work_left g" "work_left (report e g) = work_left g" "work_left (note_act a g) = work_left g"
  by (simp_all add: work_left_def group_defs split: option.split)

lemma outside_work: "outside_step g g' \<Longrightarrow> work_left g' < work_left g"
  by (induction rule: outside_step.induct) (simp_all, simp_all add: work_left_def)

lemma goroutine_work: "goroutine_step g g' \<Longrightarrow> work_left g' < work_left g"
proof (induction rule: goroutine_step.induct)
  case (waiter_done g e es)
  then show ?case by (cases e) (simp_all, simp_all add: work_left_def)
qed (simp_all, simp_all add: work_left_def)

lemma group_work: "(group_step ^^ n) g g' \<Longrightarrow> n + work_left g' \<le> work_left g"
proof (induction n arbitrary: g')
  case (Suc n)
  then obtain h where "(group_step ^^ n) g h" "group_step h g'" by auto
  with Suc(1) [of h] show ?case unfolding group_step_def using outside_work [of h g'] goroutine_work [of h g'] by auto
qed simp

lemma group_progress:
  assumes "gctx_done g" "\<not> all_returned g"
  shows "(\<exists>g'. goroutine_step g g') \<or> gr_stop g = StopSent"
proof -
  have hb: "hbctx_done g" using assms(1) by (simp add: hbctx_done_def)
  from assms(2) consider "gr_forward g" | "gr_consume g" | "gr_hb g \<noteq> HbEnded" | "gr_wait g \<noteq> WaitEnded" | "gr_stop g \<noteq> StopEnded"
    by (auto simp: all_returned_def)
  then show ?thesis
  proof cases
    case 1 then show ?thesis using assms(1) by (blast intro: forwarder_ends)
  next
    case 2 then show ?thesis using assms(1) by (blast intro: consumer_ends)
  next
    case 3 then show ?thesis using hb by (cases "gr_hb g") (blast intro: heartbeat_ends heartbeat_returns)+
  next
    case 4 then show ?thesis using assms(1) by (cases "gr_wait g") (blast intro: waiter_cancelled waiter_returns)+
  next
    case 5 then show ?thesis using hb
      by (cases "gr_stop g"; cases "gr_cause g = Some errLeaseRevoked") (blast intro: stopper_idle stopper_stops)+
  qed
qed


text \<open>The steps of an execution, one after the other.\<close>

lemma out_step: "outside_step g g' \<Longrightarrow> group_step\<^sup>*\<^sup>* g' h \<Longrightarrow> group_step\<^sup>*\<^sup>* g h"
  by (rule converse_rtranclp_into_rtranclp) (simp_all add: group_step_def)

lemma go_step: "goroutine_step g g' \<Longrightarrow> group_step\<^sup>*\<^sup>* g' h \<Longrightarrow> group_step\<^sup>*\<^sup>* g h"
  by (rule converse_rtranclp_into_rtranclp) (simp_all add: group_step_def)

definition cancelled_group :: run_group where
  "cancelled_group = \<lparr>gr_outer = Some ErrCanceled, gr_cause = Some ErrCanceled, gr_err = Some ErrCanceled, gr_hbStopped = False,
     gr_exit = None, gr_done = [], gr_closed = False, gr_forward = False, gr_consume = False, gr_hb = HbEnded,
     gr_wait = WaitEnded, gr_stop = StopEnded, gr_log = []\<rparr>"

lemma cancelled_execution: "group_step\<^sup>*\<^sup>* (group_start (Some ErrCanceled)) cancelled_group"
  apply (rule go_step, rule waiter_cancelled, simp add: group_start_def group_defs, simp add: group_start_def group_defs)
  apply (rule go_step, rule forwarder_ends, simp add: group_start_def group_defs, simp add: group_start_def group_defs)
  apply (rule go_step, rule consumer_ends, simp add: group_start_def group_defs, simp add: group_start_def group_defs)
  apply (rule go_step, rule heartbeat_ends, simp add: group_start_def group_defs, simp add: group_start_def group_defs)
  apply (rule go_step, rule stopper_idle)
     apply (simp_all add: group_start_def group_defs cancelled_group_def)
  done


end
