(* ===== verification/Worker_Artifacts.thy ===== *)
theory Worker_Artifacts
  imports Worker_Session
begin

text \<open>
  Models \<open>internal/cli/worker/worker_artifacts.go\<close> and \<open>collectPartialArtifacts\<close> of \<open>worker_lease_revoked.go\<close>: the
  files a run leaves are put to presigned URLs. The file system and the storage are parameters; an upload
  gives the puts it made beside its result.
\<close>

section \<open>Files\<close>

record file_world =
  fw_Join :: "string list \<Rightarrow> string"
  fw_Stat :: "string \<Rightarrow> bool"
  fw_Glob :: "string \<Rightarrow> string list"
  fw_Open :: "string \<Rightarrow> string result"
  fw_FStat :: "string \<Rightarrow> go_error option"
  fw_TypeByExtension :: "string \<Rightarrow> string"

record workerArtifactFileSet =
  fs_LogsPath :: string
  fs_DiffPath :: string
  fs_ScreenshotPaths :: "string list"

text \<open>\<open>path.Ext\<close>: what follows the last dot of the last element, with the dot.\<close>

definition path_Ext :: "string \<Rightarrow> string" where
  "path_Ext p = (let base = rev (takeWhile (\<lambda>c. c \<noteq> CHR 0x2F) (rev p)) in
     if CHR 0x2E \<in> set base then CHR 0x2E # rev (takeWhile (\<lambda>c. c \<noteq> CHR 0x2E) (rev base)) else [])"

definition collectPartialArtifacts :: "file_world \<Rightarrow> string \<Rightarrow> workerArtifactFileSet" where
  "collectPartialArtifacts fw workspacePath =
     (let logsPath = fw_Join fw [workspacePath, ''logs.ndjson''];
          diffPath = fw_Join fw [workspacePath, ''diff.patch''];
          matches = sort (fw_Glob fw (fw_Join fw [workspacePath, ''screenshots'', ''*'']))
      in \<lparr>fs_LogsPath = (if fw_Stat fw logsPath then logsPath else []),
          fs_DiffPath = (if fw_Stat fw diffPath then diffPath else []),
          fs_ScreenshotPaths = filter (\<lambda>m. to_lower (path_Ext m) \<in> {''.png'', ''.jpg'', ''.jpeg'', ''.webp''}) matches\<rparr>)"

section \<open>Object keys\<close>

definition trim_prefix :: "string \<Rightarrow> string \<Rightarrow> string" where
  "trim_prefix s p = (if has_prefix s p then drop (length p) s else s)"

text \<open>The second part of \<open>strings.SplitN(s, "/", 2)\<close>, when there is one.\<close>

definition after_slash :: "string \<Rightarrow> string option" where
  "after_slash s = (case dropWhile (\<lambda>c. c \<noteq> CHR 0x2F) s of [] \<Rightarrow> None | _ # rest \<Rightarrow> Some rest)"

definition workerR2ObjectKeyFromPresignedURL :: "url_lib \<Rightarrow> string \<Rightarrow> string result" where
  "workerR2ObjectKeyFromPresignedURL ul putURL = (case ul_Parse ul putURL of
     Inl err \<Rightarrow> Inl (Wrap ''parse presigned PUT URL'' err)
   | Inr parsed \<Rightarrow>
      (if ur_Scheme parsed = [] \<or> ur_Host parsed = [] then Inl (ErrMsg ''presigned PUT URL must be absolute'')
       else (case after_slash (trim_prefix (ul_EscapedPath ul parsed) ''/'') of
         None \<Rightarrow> Inl (ErrMsg ''presigned PUT URL path does not include an R2 object key'')
       | Some part \<Rightarrow>
          (if trim_space part = [] then Inl (ErrMsg ''presigned PUT URL path does not include an R2 object key'')
           else (case ul_PathUnescape ul part of
             Inl err \<Rightarrow> Inl (Wrap ''decode R2 object key'' err)
           | Inr objectKey \<Rightarrow>
              (if has_prefix objectKey ''/'' \<or> list_ex (\<lambda>c. c \<in> {CHR 0x00, CHR 0x0D, CHR 0x0A}) objectKey
               then Inl (ErrMsg ''presigned PUT URL path contains an invalid R2 object key'')
               else Inr objectKey))))))"

definition workerScreenshotContentType :: "file_world \<Rightarrow> string \<Rightarrow> string" where
  "workerScreenshotContentType fw filePath =
     (let contentType = fw_TypeByExtension fw (to_lower (path_Ext filePath)) in
      if contentType \<noteq> [] then contentType else ''application/octet-stream'')"

section \<open>Uploads\<close>

record artifact_put =
  ap_URL :: string
  ap_ContentType :: string
  ap_Body :: string

type_synonym storage = "artifact_put list \<Rightarrow> artifact_put \<Rightarrow> http_response result"

definition putWorkerArtifactFile ::
  "url_lib \<Rightarrow> file_world \<Rightarrow> storage \<Rightarrow> string \<Rightarrow> string \<Rightarrow> string \<Rightarrow> artifact_put list \<Rightarrow> string result \<times> artifact_put list" where
  "putWorkerArtifactFile ul fw st url filePath contentType puts =
     (let putURL = trim_space url in
      if putURL = [] then (Inl (ErrMsg ''presigned PUT URL is required''), puts)
      else (case fw_Open fw filePath of
        Inl err \<Rightarrow> (Inl (Wrap ''open artifact file'' err), puts)
      | Inr content \<Rightarrow>
         (case fw_FStat fw filePath of
            Some err \<Rightarrow> (Inl (Wrap ''stat artifact file'' err), puts)
          | None \<Rightarrow>
             (case workerR2ObjectKeyFromPresignedURL ul putURL of
                Inl err \<Rightarrow> (Inl err, puts)
              | Inr key \<Rightarrow>
                 (let p = \<lparr>ap_URL = putURL, ap_ContentType = contentType, ap_Body = content\<rparr> in
                  case st puts p of
                    Inl err \<Rightarrow> (Inl (Wrap ''send artifact PUT request'' err), puts @ [p])
                  | Inr resp \<Rightarrow>
                      (if ok_status (hs_StatusCode resp) then Inr key
                       else Inl (ErrMsg (''artifact PUT failed: '' @ http_suffix (hs_StatusCode resp) @
                         (if hs_Body resp \<noteq> [] then '': '' @ take 1024 (hs_Body resp) else []))), puts @ [p]))))))"

record artifact_keys =
  ak_Logs :: "string option"
  ak_Diff :: "string option"
  ak_Screenshots :: "string list"

definition upload_one ::
  "url_lib \<Rightarrow> file_world \<Rightarrow> storage \<Rightarrow> string \<Rightarrow> string \<Rightarrow> string \<Rightarrow> string \<Rightarrow> artifact_put list \<Rightarrow> string option result \<times> artifact_put list" where
  "upload_one ul fw st what url filePath contentType puts =
     (if trim_space filePath = [] then (Inr None, puts)
      else (case putWorkerArtifactFile ul fw st url filePath contentType puts of
        (Inl err, puts) \<Rightarrow> (Inl (Wrap (''upload '' @ what @ '' artifact'') err), puts)
      | (Inr key, puts) \<Rightarrow> (Inr (Some key), puts)))"

fun upload_screenshots ::
  "url_lib \<Rightarrow> file_world \<Rightarrow> storage \<Rightarrow> string list \<Rightarrow> nat \<Rightarrow> string list \<Rightarrow> artifact_put list \<Rightarrow> string list result \<times> artifact_put list" where
  "upload_screenshots ul fw st urls i [] puts = (Inr [], puts)"
| "upload_screenshots ul fw st urls i (p # ps) puts =
     (if trim_space p = [] then upload_screenshots ul fw st urls (Suc i) ps puts
      else if i \<ge> length urls
      then (Inl (ErrMsg (''upload screenshot artifact '' @ fmt_int (int i + 1) @ '': missing presigned URL'')), puts)
      else (case putWorkerArtifactFile ul fw st (urls ! i) p (workerScreenshotContentType fw p) puts of
        (Inl err, puts) \<Rightarrow> (Inl (Wrap (''upload screenshot artifact '' @ fmt_int (int i + 1)) err), puts)
      | (Inr key, puts) \<Rightarrow>
         (case upload_screenshots ul fw st urls (Suc i) ps puts of
            (Inl err, puts) \<Rightarrow> (Inl err, puts)
          | (Inr keys, puts) \<Rightarrow> (Inr (key # keys), puts))))"

definition UploadFiles ::
  "url_lib \<Rightarrow> file_world \<Rightarrow> storage \<Rightarrow> string \<Rightarrow> string \<Rightarrow> string list \<Rightarrow> workerArtifactFileSet
     \<Rightarrow> artifact_keys result \<times> artifact_put list" where
  "UploadFiles ul fw st logsURL diffURL shotURLs files =
     (case upload_one ul fw st ''logs'' logsURL (fs_LogsPath files) ''application/x-ndjson'' [] of
        (Inl err, puts) \<Rightarrow> (Inl err, puts)
      | (Inr logs, puts) \<Rightarrow>
         (case upload_one ul fw st ''diff'' diffURL (fs_DiffPath files) ''text/x-diff'' puts of
            (Inl err, puts) \<Rightarrow> (Inl err, puts)
          | (Inr diff, puts) \<Rightarrow>
             (case upload_screenshots ul fw st shotURLs 0 (fs_ScreenshotPaths files) puts of
                (Inl err, puts) \<Rightarrow> (Inl err, puts)
              | (Inr shots, puts) \<Rightarrow> (Inr \<lparr>ak_Logs = logs, ak_Diff = diff, ak_Screenshots = shots\<rparr>, puts))))"

section \<open>Every file to its own address\<close>

text \<open>The uploads a set of files asks for: address, content type and file, in order; a screenshot beyond the addresses has none.\<close>

definition wanted_file :: "string \<Rightarrow> string \<Rightarrow> string \<Rightarrow> (string \<times> string \<times> string) list" where
  "wanted_file url ct p = (if trim_space p = [] then [] else [(url, ct, p)])"

fun wanted_shots :: "file_world \<Rightarrow> string list \<Rightarrow> nat \<Rightarrow> string list \<Rightarrow> (string \<times> string \<times> string) list" where
  "wanted_shots fw urls i [] = []"
| "wanted_shots fw urls i (p # ps) =
     wanted_file (if i < length urls then urls ! i else []) (workerScreenshotContentType fw p) p @ wanted_shots fw urls (Suc i) ps"

definition wanted_uploads :: "file_world \<Rightarrow> string \<Rightarrow> string \<Rightarrow> string list \<Rightarrow> workerArtifactFileSet \<Rightarrow> (string \<times> string \<times> string) list" where
  "wanted_uploads fw logs diff shots files = wanted_file logs ''application/x-ndjson'' (fs_LogsPath files)
     @ wanted_file diff ''text/x-diff'' (fs_DiffPath files) @ wanted_shots fw shots 0 (fs_ScreenshotPaths files)"

definition put_of :: "file_world \<Rightarrow> string \<times> string \<times> string \<Rightarrow> artifact_put option" where
  "put_of fw t = (case t of (url, ct, p) \<Rightarrow> case fw_Open fw p of
     Inl _ \<Rightarrow> None
   | Inr content \<Rightarrow> Some \<lparr>ap_URL = trim_space url, ap_ContentType = ct, ap_Body = content\<rparr>)"

text \<open>\<open>put_run\<close>: what was put is a beginning of what was wanted, and all of it without an error.\<close>

definition put_run :: "file_world \<Rightarrow> (string \<times> string \<times> string) list \<Rightarrow> artifact_put list \<Rightarrow> bool \<Rightarrow> artifact_put list \<Rightarrow> bool" where
  "put_run fw ws puts ok puts' \<longleftrightarrow> (\<exists>k. k \<le> length ws \<and> map Some puts' = map Some puts @ map (put_of fw) (take k ws) \<and> (ok \<longrightarrow> k = length ws))"

lemma put_run_refl: "put_run fw ws puts False puts"
  unfolding put_run_def by (rule exI [of _ 0]) simp

lemma put_run_Nil: "put_run fw [] puts ok puts"
  by (simp add: put_run_def)

lemma put_run_append:
  assumes "put_run fw ws puts True puts1" "put_run fw ws' puts1 ok puts2"
  shows "put_run fw (ws @ ws') puts ok puts2"
proof -
  from assms(1) have 1: "map Some puts1 = map Some puts @ map (put_of fw) ws" by (auto simp: put_run_def)
  from assms(2) obtain k where k: "k \<le> length ws'" "map Some puts2 = map Some puts1 @ map (put_of fw) (take k ws')" "ok \<longrightarrow> k = length ws'"
    by (auto simp: put_run_def)
  show ?thesis unfolding put_run_def by (rule exI [of _ "length ws + k"]) (simp add: 1 k)
qed

lemma put_run_fails: "put_run fw ws puts False puts1 \<Longrightarrow> put_run fw (ws @ ws') puts False puts1"
  unfolding put_run_def by (elim exE conjE) (rule_tac x = k in exI, simp)

lemma put_one:
  assumes "putWorkerArtifactFile ul fw st url p ct puts = (r, puts')"
  shows "put_run fw [(url, ct, p)] puts (\<not> isl r) puts'"
proof (cases "puts' = puts")
  case True
  with assms have "isl r"
    by (auto simp: putWorkerArtifactFile_def Let_def split: if_splits sum.splits option.splits) (metis isl_def)
  with True show ?thesis by (simp add: put_run_refl)
next
  case False
  with assms obtain content where "fw_Open fw p = Inr content"
    "puts' = puts @ [\<lparr>ap_URL = trim_space url, ap_ContentType = ct, ap_Body = content\<rparr>]"
    by (auto simp: putWorkerArtifactFile_def Let_def split: if_splits sum.splits option.splits)
  then show ?thesis unfolding put_run_def by (intro exI [of _ 1]) (simp add: put_of_def)
qed

lemma upload_one_run:
  assumes "upload_one ul fw st what url p ct puts = (r, puts')"
  shows "put_run fw (wanted_file url ct p) puts (\<not> isl r) puts'"
proof (cases "trim_space p = []")
  case True
  with assms show ?thesis by (simp add: upload_one_def wanted_file_def put_run_Nil)
next
  case False
  obtain r1 puts1 where one: "putWorkerArtifactFile ul fw st url p ct puts = (r1, puts1)" by fastforce
  from False one assms have "puts' = puts1" "isl r = isl r1" by (auto simp: upload_one_def split: sum.splits)
  with put_one [OF one] False show ?thesis by (simp add: wanted_file_def)
qed

lemma upload_screenshots_run:
  "upload_screenshots ul fw st urls i ps puts = (r, puts') \<Longrightarrow> put_run fw (wanted_shots fw urls i ps) puts (\<not> isl r) puts'"
proof (induction ps arbitrary: i puts r puts')
  case Nil
  then show ?case by (simp add: put_run_Nil)
next
  case (Cons p ps)
  let ?url = "if i < length urls then urls ! i else []"
  let ?ct = "workerScreenshotContentType fw p"
  consider "trim_space p = []" | "trim_space p \<noteq> []" "\<not> i < length urls" | "trim_space p \<noteq> []" "i < length urls" by blast
  then show ?case
  proof cases
    case 1
    with Cons show ?thesis by (simp add: wanted_file_def)
  next
    case 2
    with Cons(2) show ?thesis by (auto simp: put_run_refl)
  next
    case 3
    obtain r1 puts1 where one: "putWorkerArtifactFile ul fw st (urls ! i) p ?ct puts = (r1, puts1)" by fastforce
    from put_one [OF one] 3 have run1: "put_run fw (wanted_file ?url ?ct p) puts (\<not> isl r1) puts1" by (simp add: wanted_file_def)
    show ?thesis
    proof (cases r1)
      case (Inl err)
      with 3 one Cons(2) have "puts' = puts1" "isl r" by auto
      with put_run_fails [of fw _ puts puts1] run1 Inl show ?thesis by simp
    next
      case (Inr key)
      obtain r2 puts2 where two: "upload_screenshots ul fw st urls (Suc i) ps puts1 = (r2, puts2)" by fastforce
      with 3 one Cons(2) Inr have "puts' = puts2" "isl r = isl r2" by (auto split: sum.splits)
      with put_run_append [OF _ Cons(1) [OF two]] run1 Inr show ?thesis by simp
    qed
  qed
qed

text \<open>
  Whatever the file system and the storage answer, an upload puts the files of a run in the order logs, diff, screenshots, each
  once, with its content, to its own presigned URL: what was put is a beginning of that list, and all of it when the upload
  succeeds.
\<close>

theorem UploadFiles_puts:
  "\<exists>k. map Some (snd (UploadFiles ul fw st logs diff shots files)) = map (put_of fw) (take k (wanted_uploads fw logs diff shots files))
     \<and> (isl (fst (UploadFiles ul fw st logs diff shots files)) \<or> k = length (wanted_uploads fw logs diff shots files))"
proof -
  let ?u = "UploadFiles ul fw st logs diff shots files"
  obtain r1 p1 where 1: "upload_one ul fw st ''logs'' logs (fs_LogsPath files) ''application/x-ndjson'' [] = (r1, p1)" by fastforce
  obtain r2 p2 where 2: "upload_one ul fw st ''diff'' diff (fs_DiffPath files) ''text/x-diff'' p1 = (r2, p2)" by fastforce
  obtain r3 p3 where 3: "upload_screenshots ul fw st shots 0 (fs_ScreenshotPaths files) p2 = (r3, p3)" by fastforce
  note runs = upload_one_run [OF 1] upload_one_run [OF 2] upload_screenshots_run [OF 3]
  have "put_run fw (wanted_uploads fw logs diff shots files) [] (\<not> isl (fst ?u)) (snd ?u)"
  proof (cases "isl r1")
    case True
    then have "isl (fst ?u)" "snd ?u = p1" using 1 by (auto simp: UploadFiles_def split: sum.splits)
    with True runs(1) show ?thesis by (simp add: wanted_uploads_def put_run_fails)
  next
    case ok1: False
    show ?thesis
    proof (cases "isl r2")
      case True
      with ok1 have "isl (fst ?u)" "snd ?u = p2" using 1 2 by (auto simp: UploadFiles_def split: sum.splits)
      with True ok1 put_run_append [OF _ runs(2)] runs(1) show ?thesis
        by (simp add: wanted_uploads_def put_run_fails flip: append_assoc)
    next
      case False
      with ok1 have "isl (fst ?u) = isl r3" "snd ?u = p3" using 1 2 3 by (auto simp: UploadFiles_def split: sum.splits)
      with False ok1 put_run_append [OF _ put_run_append [OF _ runs(3)]] runs(1, 2) show ?thesis
        by (simp add: wanted_uploads_def)
    qed
  qed
  then show ?thesis by (auto simp: put_run_def)
qed

end
