(* ===== verification/Worker_Executor.thy ===== *)
theory Worker_Executor
  imports Worker_Group_Props Worker_Artifacts
begin

text \<open>
  Models the executor of \<open>internal/cli/worker/worker_executor.go\<close> around the goroutines of \<open>Worker_Group\<close>: the choice of an
  agent, the steps that prepare a run, and what follows a revoked lease. Provisioning, the tmux pane, the
  making of a runner and \<open>agent.Start\<close> are answers of the outside.
\<close>

section \<open>Capabilities\<close>

definition runner_commands :: "string list" where
  "runner_commands = [''codex'', ''opencode'', ''omx'', ''omc'', ''mock'']"

definition detectWorkerCapabilities :: "(string \<Rightarrow> bool) \<Rightarrow> string \<Rightarrow> string \<Rightarrow> string list result" where
  "detectWorkerCapabilities on_path goos goarch =
     (let found = map (\<lambda>r. ''agent:'' @ r) (filter on_path runner_commands);
          missing = filter (\<lambda>r. \<not> on_path r) runner_commands
      in if found = []
         then Inl (ErrMsg (''no supported agent runner found on PATH; missing runners: '' @ str_join '', '' missing))
         else Inr (found @ (if on_path ''git'' then [''git''] else []) @ (if on_path ''tmux'' then [''tmux''] else [])
           @ [''os:'' @ goos, ''arch:'' @ goarch]))"

definition workerHasCapability :: "string list \<Rightarrow> string \<Rightarrow> bool" where
  "workerHasCapability capabilities want = list_ex (\<lambda>c. c = want) capabilities"

definition selectWorkerAgentType :: "string list \<Rightarrow> string result" where
  "selectWorkerAgentType capabilities =
     (case find (\<lambda>c. workerHasCapability capabilities (''agent:'' @ c)) [''codex'', ''opencode'', ''omx'', ''omc'', ''mock''] of
        Some candidate \<Rightarrow> Inr candidate
      | None \<Rightarrow> Inl (ErrMsg ''worker has no agent runner capability''))"

fun worker_firstNonEmpty :: "string list \<Rightarrow> string" where
  "worker_firstNonEmpty [] = []"
| "worker_firstNonEmpty (v # vs) = (if trim_space v \<noteq> [] then trim_space v else worker_firstNonEmpty vs)"

definition workerIssueFromDispatch :: "WorkerDispatchFrame \<Rightarrow> Issue" where
  "workerIssueFromDispatch frame =
     (let issueRef = trim_space (wf_IssueRef frame) in
      \<lparr>is_ID = trim_space (wf_RunID frame), is_Identifier = issueRef, is_Title = issueRef, is_Description = [],
       is_State = Running, is_Priority = 0, is_Labels = [], is_URL = [], is_BranchName = trim_space (wf_Branch frame),
       is_BlockedBy = [], is_ModelOverride = [], is_CreatedAt = zero_time, is_UpdatedAt = zero_time\<rparr>)"

section \<open>A run\<close>

record executor =
  ex_teamID :: string
  ex_agentType :: string
  ex_tmuxCapable :: bool
  ex_registration :: workerRegistration

definition newWorkerRunExecutor :: "string \<Rightarrow> string list \<Rightarrow> workerRegistration \<Rightarrow> executor result" where
  "newWorkerRunExecutor teamID capabilities registration = (case selectWorkerAgentType capabilities of
     Inl err \<Rightarrow> Inl err
   | Inr agentType \<Rightarrow> Inr \<lparr>ex_teamID = trim_space teamID, ex_agentType = agentType,
       ex_tmuxCapable = workerHasCapability capabilities ''tmux'', ex_registration = registration\<rparr>)"

text \<open>
  What a run meets: \<open>rw_start\<close> is the error of \<open>runner.Start\<close>, \<open>rw_group\<close> the goroutines when all have
  returned, \<open>rw_outer\<close> the cause of the context of the run at its end.
\<close>

record run_world =
  rw_provision :: "Issue \<Rightarrow> string result"
  rw_openPane :: "string \<Rightarrow> string \<Rightarrow> string result"
  rw_newRunner :: "string \<Rightarrow> go_error option"
  rw_start :: "go_error option"
  rw_nilProc :: bool
  rw_group :: run_group
  rw_outer :: "go_error option"
  rw_files :: file_world
  rw_storage :: storage
  rw_url :: url_lib

datatype run_effect =
    Provisioned Issue
  | Pane_opened string string
  | Agent_started string string
  | Artifacts_put "artifact_put list"
  | Worktree_cleaned string

definition runAgentWithEventUpload :: "run_world \<Rightarrow> go_error option" where
  "runAgentWithEventUpload rw = (case rw_start rw of
     Some err \<Rightarrow> Some (Wrap ''start agent process'' err)
   | None \<Rightarrow> if rw_nilProc rw then Some (ErrMsg ''agent runner returned nil process'') else gr_err (rw_group rw))"

definition revoked_at_end :: "run_world \<Rightarrow> go_error option \<Rightarrow> bool" where
  "revoked_at_end rw runErr \<longleftrightarrow>
     (case runErr of None \<Rightarrow> False | Some err \<Rightarrow> lease_revoked err)
     \<or> (case rw_outer rw of None \<Rightarrow> False | Some cause \<Rightarrow> errors_is cause errLeaseRevoked)"

definition after_revocation :: "run_world \<Rightarrow> WorkerDispatchFrame \<Rightarrow> Issue \<Rightarrow> string \<Rightarrow> run_effect list" where
  "after_revocation rw frame issue workspacePath =
     (let urls = wf_ArtifactUploadURLs frame in
      [Artifacts_put (snd (UploadFiles (rw_url rw) (rw_files rw) (rw_storage rw) (au_Logs urls) (au_Diff urls) (au_Screenshots urls)
         (collectPartialArtifacts (rw_files rw) workspacePath))),
       Worktree_cleaned (is_ID issue)])"

definition wrap_run :: "string \<Rightarrow> string \<Rightarrow> go_error \<Rightarrow> go_error" where
  "wrap_run what runID err = Wrap (what @ '' for run '' @ fmt_q runID) err"

definition run_agent_part ::
  "executor \<Rightarrow> run_world \<Rightarrow> WorkerDispatchFrame \<Rightarrow> Issue \<Rightarrow> string \<Rightarrow> run_effect list \<Rightarrow> go_error option \<times> run_effect list" where
  "run_agent_part ex rw frame issue workspacePath es = (case rw_newRunner rw (ex_agentType ex) of
     Some err \<Rightarrow> (Some err, es)
   | None \<Rightarrow>
      (let runErr = runAgentWithEventUpload rw;
           es1 = es @ [Agent_started (ex_agentType ex) workspacePath];
           es2 = (if revoked_at_end rw runErr then es1 @ after_revocation rw frame issue workspacePath else es1)
       in (case runErr of None \<Rightarrow> None | Some err \<Rightarrow> Some (wrap_run ''run agent'' (wf_RunID frame) err), es2)))"

definition executor_Run ::
  "executor \<Rightarrow> run_world \<Rightarrow> WorkerDispatchFrame \<Rightarrow> config_cache \<Rightarrow> net
     \<Rightarrow> (go_error option \<times> run_effect list) \<times> config_cache \<times> net" where
  "executor_Run ex rw frame cache n =
     (let issue = workerIssueFromDispatch frame in
      if is_ID issue = [] then ((Some (ErrMsg ''dispatch frame missing runId''), []), cache, n)
      else (case GetOrFetch (rw_url rw) (ex_registration ex) (ex_teamID ex) (wf_ConfigHash frame) cache n of
        (Inl err, cache, n) \<Rightarrow>
          ((Some (Wrap (''fetching config for run '' @ fmt_q (wf_RunID frame) @ '' (hash '' @ fmt_q (wf_ConfigHash frame) @ '')'') err), []), cache, n)
      | (Inr content, cache, n) \<Rightarrow>
          ((case rw_provision rw issue of
              Inl err \<Rightarrow> (Some (wrap_run ''provision worker workspace'' (wf_RunID frame) err), [])
            | Inr workspacePath \<Rightarrow>
                (if ex_tmuxCapable ex
                 then (let paneTitle = worker_firstNonEmpty [wf_IssueRef frame, wf_RunID frame] in
                   case rw_openPane rw paneTitle workspacePath of
                     Inl err \<Rightarrow> (Some (wrap_run ''open tmux pane'' (wf_RunID frame) err), [Provisioned issue])
                   | Inr _ \<Rightarrow> run_agent_part ex rw frame issue workspacePath [Provisioned issue, Pane_opened paneTitle workspacePath])
                 else run_agent_part ex rw frame issue workspacePath [Provisioned issue])),
           cache, n)))"

end
