(* ===== verification/Worker_Login.thy ===== *)
theory Worker_Login
  imports Worker_Executor
begin

text \<open>
  Models \<open>internal/cli/worker/worker_login.go\<close> (enrolment and the credential store) and \<open>Run\<close> of
  \<open>worker.go\<close>, which starts a worker. The keyring of the operating system is a directory of items that decode to
  an enrolment or do not, with the errors of its calls; the decoding of the enrolment answer is a parameter.
\<close>

section \<open>Enrolment\<close>

record workerLoginOptions =
  lo_Code :: string
  lo_APIBaseURL :: string
  lo_WorkerID :: string

definition workerLoginOptionsFromFlags :: "string \<Rightarrow> string \<Rightarrow> string \<Rightarrow> workerLoginOptions result" where
  "workerLoginOptionsFromFlags code apiBaseURL workerID =
     (if trim_space code = [] then Inl (ErrMsg ''code is required'')
      else Inr \<lparr>lo_Code = trim_space code, lo_APIBaseURL = trim_space apiBaseURL, lo_WorkerID = trim_space workerID\<rparr>)"

record enroll_answer =
  ea_TeamID :: string
  ea_WorkerID :: string
  ea_RefreshToken :: string
  ea_Error :: string

definition exchangeWorkerEnrollmentCode ::
  "url_lib \<Rightarrow> (string \<Rightarrow> enroll_answer result) \<Rightarrow> workerLoginOptions \<Rightarrow> net \<Rightarrow> workerEnrollment result \<times> net" where
  "exchangeWorkerEnrollmentCode ul decode opts n =
     (case workerAPIEndpoint ul (lo_APIBaseURL opts) ''/v1/workers/enroll'' of
        Inl err \<Rightarrow> (Inl err, n)
      | Inr endpoint \<Rightarrow>
         (case http_Do \<lparr>hq_Method = ''POST'', hq_URL = endpoint, hq_Token = None,
              hq_Body = EnrollBody (lo_Code opts) (if lo_WorkerID opts \<noteq> [] then Some (lo_WorkerID opts) else None)\<rparr> n of
            (Inl err, n) \<Rightarrow> (Inl (Wrap ''posting enrollment request'' err), n)
          | (Inr resp, n) \<Rightarrow>
             ((case decode (hs_Body resp) of
                 Inl err \<Rightarrow> Inl (Wrap ''decoding enrollment response'' err)
               | Inr response \<Rightarrow>
                  (if \<not> ok_status (hs_StatusCode resp)
                   then Inl (ErrMsg
                     (if ea_Error response = ''enrollment_invalid''
                      then ''enrollment code is invalid or expired; generate a fresh code from the dashboard''
                      else if ea_Error response \<noteq> []
                      then ''enrollment failed: '' @ ea_Error response @ '' ('' @ http_suffix (hs_StatusCode resp) @ '')''
                      else ''enrollment failed: '' @ http_suffix (hs_StatusCode resp)))
                   else if ea_TeamID response = [] \<or> ea_WorkerID response = [] \<or> ea_RefreshToken response = []
                   then Inl (ErrMsg ''enrollment response missing teamId, workerId, or refreshToken'')
                   else Inr \<lparr>we_TeamID = ea_TeamID response, we_WorkerID = ea_WorkerID response,
                       we_RefreshToken = ea_RefreshToken response\<rparr>)), n)))"

section \<open>The credential store\<close>

text \<open>An item that does not decode is \<open>None\<close>.\<close>

record keyring =
  kr_items :: "workerEnrollment option fdir"
  kr_setErr :: "string \<Rightarrow> go_error option"
  kr_getErr :: "string \<Rightarrow> go_error option"

definition errWorkerEnrollmentNotFound :: go_error where
  "errWorkerEnrollmentNotFound = ErrMsg ''worker enrollment not found''"

definition workerCredentialKey :: "string \<Rightarrow> string" where
  "workerCredentialKey teamID = ''worker/'' @ teamID"

definition workerNativeCredentialBackends :: "string \<Rightarrow> string list result" where
  "workerNativeCredentialBackends goos =
     (if goos = ''darwin'' then Inr [''keychain'']
      else if goos = ''linux'' then Inr [''secret-service'']
      else if goos = ''windows'' then Inr [''wincred'']
      else Inl (ErrMsg (''no OS-native credential store configured for '' @ goos)))"

definition StoreWorkerEnrollment :: "workerEnrollment \<Rightarrow> keyring \<Rightarrow> go_error option \<times> keyring" where
  "StoreWorkerEnrollment enrollment kr =
     (let key = workerCredentialKey (we_TeamID enrollment) in
      case kr_setErr kr key of
        Some err \<Rightarrow> (Some err, kr)
      | None \<Rightarrow> (None, kr\<lparr>kr_items := fput key (Some enrollment) (kr_items kr)\<rparr>))"

definition LoadWorkerEnrollment :: "string \<Rightarrow> keyring \<Rightarrow> workerEnrollment result" where
  "LoadWorkerEnrollment teamID kr =
     (let key = workerCredentialKey teamID in
      case kr_getErr kr key of
        Some err \<Rightarrow> Inl err
      | None \<Rightarrow>
         (case map_of (kr_items kr) key of
            None \<Rightarrow> Inl errWorkerEnrollmentNotFound
          | Some None \<Rightarrow> Inl (Wrap ''decoding credential payload'' ErrSyntax)
          | Some (Some enrollment) \<Rightarrow>
              (if we_TeamID enrollment = [] \<or> we_WorkerID enrollment = [] \<or> we_RefreshToken enrollment = []
               then Inl (ErrMsg ''stored worker enrollment is incomplete'')
               else if we_TeamID enrollment \<noteq> teamID
               then Inl (ErrMsg (''stored worker enrollment is for team '' @ fmt_q (we_TeamID enrollment) @ '', not '' @ fmt_q teamID))
               else Inr enrollment)))"

definition runWorkerLogin ::
  "url_lib \<Rightarrow> (string \<Rightarrow> enroll_answer result) \<Rightarrow> string \<Rightarrow> string \<Rightarrow> string \<Rightarrow> go_error option \<Rightarrow> keyring \<Rightarrow> net
     \<Rightarrow> go_error option \<times> keyring \<times> net" where
  "runWorkerLogin ul decode code apiBaseURL workerID openErr kr n =
     (case workerLoginOptionsFromFlags code apiBaseURL workerID of
        Inl err \<Rightarrow> (Some err, kr, n)
      | Inr opts \<Rightarrow>
         (case exchangeWorkerEnrollmentCode ul decode opts n of
            (Inl err, n) \<Rightarrow> (Some err, kr, n)
          | (Inr enrollment, n) \<Rightarrow>
             (case openErr of
                Some err \<Rightarrow> (Some (Wrap ''opening OS credential store'' err), kr, n)
              | None \<Rightarrow>
                 (case StoreWorkerEnrollment enrollment kr of
                    (Some err, kr) \<Rightarrow> (Some (Wrap ''storing worker refresh token in OS credential store'' err), kr, n)
                  | (None, kr) \<Rightarrow> (None, kr, n)))))"

section \<open>The start of a worker\<close>

record worker_os =
  os_onPath :: "string \<Rightarrow> bool"
  os_GOOS :: string
  os_GOARCH :: string
  os_openErr :: "go_error option"

record started_worker =
  sw_enrollment :: workerEnrollment
  sw_registration :: workerRegistration
  sw_session :: workerSessionManager
  sw_executor :: executor
  sw_handler :: ack_handler

definition storeRefreshedToken ::
  "workerRegistration \<Rightarrow> workerEnrollment \<Rightarrow> keyring \<Rightarrow> (go_error option \<times> keyring) \<times> workerEnrollment" where
  "storeRefreshedToken registration enrollment kr =
     (if wr_RefreshToken registration \<noteq> [] \<and> wr_RefreshToken registration \<noteq> we_RefreshToken enrollment
      then (let enrollment1 = enrollment\<lparr>we_RefreshToken := wr_RefreshToken registration\<rparr> in
            (StoreWorkerEnrollment enrollment1 kr, enrollment1))
      else ((None, kr), enrollment))"

definition start_worker ::
  "url_lib \<Rightarrow> answer_codec \<Rightarrow> worker_os \<Rightarrow> workerOptions \<Rightarrow> keyring \<Rightarrow> net \<Rightarrow> started_worker result \<times> keyring \<times> net" where
  "start_worker ul dc wos cfg kr n =
     (let opts = cfg\<lparr>wo_TeamID := trim_space (wo_TeamID cfg), wo_APIBaseURL := trim_space (wo_APIBaseURL cfg)\<rparr> in
      if wo_MaxConcurrency opts < 1 then (Inl (ErrMsg ''max-concurrency must be at least 1''), kr, n)
      else (case os_openErr wos of
        Some err \<Rightarrow> (Inl (Wrap ''opening OS credential store'' err), kr, n)
      | None \<Rightarrow>
         (case LoadWorkerEnrollment (wo_TeamID opts) kr of
            Inl err \<Rightarrow>
              (Inl (if errors_is err errWorkerEnrollmentNotFound
                    then ErrMsg (''worker enrollment not found for team '' @ fmt_q (wo_TeamID opts) @ ''; run '' @
                      fmt_q ''contrabass worker login'' @ '' first'')
                    else Wrap ''loading worker enrollment from OS credential store'' err), kr, n)
          | Inr enrollment \<Rightarrow>
             (case detectWorkerCapabilities (os_onPath wos) (os_GOOS wos) (os_GOARCH wos) of
                Inl err \<Rightarrow> (Inl err, kr, n)
              | Inr capabilities \<Rightarrow>
                 (case registerWorker ul dc opts enrollment capabilities n of
                    (Inl err, n) \<Rightarrow> (Inl err, kr, n)
                  | (Inr registration, n) \<Rightarrow>
                     (case storeRefreshedToken registration enrollment kr of
                        ((Some err, kr), _) \<Rightarrow> (Inl (Wrap ''storing refreshed worker token in OS credential store'' err), kr, n)
                      | ((None, kr), enrollment) \<Rightarrow>
                         (case newWorkerRunExecutor (we_TeamID enrollment) capabilities registration of
                            Inl err \<Rightarrow> (Inl err, kr, n)
                          | Inr ex \<Rightarrow>
                             (Inr \<lparr>sw_enrollment = enrollment, sw_registration = registration,
                                sw_session = newWorkerSessionManager registration, sw_executor = ex,
                                sw_handler = newWorkerAckingDispatchHandler registration (wo_MaxConcurrency opts)\<rparr>, kr, n))))))))"

end
