(* ===== verification/Worker_Executor_Props.thy ===== *)
theory Worker_Executor_Props
  imports Worker_Executor
begin

text \<open>What a run of the executor leaves behind, over every execution of its goroutines.\<close>

section \<open>The run and its goroutines\<close>

text \<open>The goroutines of a run that has started: they have all returned, and the run reads the outer context after that.\<close>

definition finished_run :: "run_world \<Rightarrow> bool" where
  "finished_run rw \<longleftrightarrow> (\<exists>outer \<in> {None, Some ErrCanceled, Some errLeaseRevoked}.
     group_step\<^sup>*\<^sup>* (group_start outer) (rw_group rw)) \<and> all_returned (rw_group rw) \<and> rw_outer rw = gr_outer (rw_group rw)"

definition revoked :: "run_group \<Rightarrow> bool" where
  "revoked g \<longleftrightarrow> gr_outer g = Some errLeaseRevoked \<or> Heartbeat_revoked \<in> set (gr_log g)"

lemma finished_inv: "finished_run rw \<Longrightarrow> stop_inv (rw_group rw) \<and> quiet_inv (rw_group rw)"
  by (auto simp: finished_run_def dest: group_reach_inv)

text \<open>The causes of the outer context are a revocation or the end of the worker.\<close>

lemma outer_causes:
  assumes "group_step\<^sup>*\<^sup>* (group_start outer) g" "outer \<in> {None, Some ErrCanceled, Some errLeaseRevoked}"
  shows "gr_outer g \<in> {None, Some ErrCanceled, Some errLeaseRevoked}"
  using assms(1)
proof induction
  case base
  with assms(2) show ?case by (simp add: group_start_def)
next
  case (step g h)
  have "outside_step g h \<Longrightarrow> gr_outer h = gr_outer g \<or> gr_outer h \<in> {Some ErrCanceled, Some errLeaseRevoked}"
    by (induction rule: outside_step.induct) (auto simp: group_defs)
  moreover have "goroutine_step g h \<Longrightarrow> gr_outer h = gr_outer g"
    by (induction rule: goroutine_step.induct) (auto simp: group_defs split: option.splits)
  ultimately show ?case using step unfolding group_step_def by auto
qed

lemma errLeaseRevoked_is [simp]: "errors_is errLeaseRevoked errLeaseRevoked" "\<not> errors_is ErrCanceled errLeaseRevoked"
  by (simp_all add: errLeaseRevoked_def)

lemma revoked_at_end_outer:
  assumes "finished_run rw"
  shows "(case rw_outer rw of None \<Rightarrow> False | Some c \<Rightarrow> errors_is c errLeaseRevoked) \<longleftrightarrow> gr_outer (rw_group rw) = Some errLeaseRevoked"
proof -
  from assms have "gr_outer (rw_group rw) \<in> {None, Some ErrCanceled, Some errLeaseRevoked}" and "rw_outer rw = gr_outer (rw_group rw)"
    using outer_causes unfolding finished_run_def by blast+
  then show ?thesis by auto
qed

lemma run_result:
  assumes fin: "finished_run rw" and started: "rw_start rw = None" "\<not> rw_nilProc rw"
  defines "e \<equiv> runAgentWithEventUpload rw" and "g \<equiv> rw_group rw"
  shows "e = gr_err g"
    and "e = None \<Longrightarrow> gr_exit g = Some None \<or> Stop_called \<in> set (gr_log g)"
    and "undisturbed g \<Longrightarrow> gr_exit g = Some e"
    and "revoked_at_end rw e \<Longrightarrow> revoked g"
    and "gr_outer g = Some errLeaseRevoked \<Longrightarrow> revoked_at_end rw e"
    and "Stop_called \<in> set (gr_log g) \<or> Kill_sent \<in> set (gr_log g) \<Longrightarrow> revoked g"
proof -
  show e: "e = gr_err g" using started by (simp add: e_def g_def runAgentWithEventUpload_def)
  have w: "gr_wait g = WaitEnded" using fin by (simp add: g_def finished_run_def all_returned_def)
  note inv = finished_inv [OF fin, folded g_def]
  from inv w e show "e = None \<Longrightarrow> gr_exit g = Some None \<or> Stop_called \<in> set (gr_log g)"
    by (auto simp: quiet_inv_def result_inv_def)
  from inv w e show "undisturbed g \<Longrightarrow> gr_exit g = Some e" by (auto simp: quiet_inv_def)
  from inv e show "revoked_at_end rw e \<Longrightarrow> revoked g"
    using revoked_at_end_outer [OF fin] by (auto simp: revoked_at_end_def stop_inv_def revoked_def g_def split: option.splits)
  show "gr_outer g = Some errLeaseRevoked \<Longrightarrow> revoked_at_end rw e"
    using revoked_at_end_outer [OF fin] by (simp add: revoked_at_end_def g_def)
  from inv show "Stop_called \<in> set (gr_log g) \<or> Kill_sent \<in> set (gr_log g) \<Longrightarrow> revoked g"
    by (auto simp: stop_inv_def revoked_def)
qed

lemma run_effects:
  assumes "executor_Run ex rw frame cache n = ((r, es), cache', n')"
  shows "(\<forall>t w. Agent_started t w \<notin> set es) \<and> (\<forall>i. Worktree_cleaned i \<notin> set es) \<and> r \<noteq> None
    \<or> (\<exists>t w. Agent_started t w \<in> set es) \<and> (r = None \<longleftrightarrow> runAgentWithEventUpload rw = None)
      \<and> (\<forall>i. Worktree_cleaned i \<in> set es \<longleftrightarrow>
           i = trim_space (wf_RunID frame) \<and> revoked_at_end rw (runAgentWithEventUpload rw))"
  using assms
  by (auto simp: executor_Run_def run_agent_part_def after_revocation_def workerIssueFromDispatch_def Let_def
      split: if_splits sum.splits prod.splits option.splits)

section \<open>What holds of a run\<close>


section \<open>Two executions\<close>

text \<open>An agent that ends well.\<close>

definition ended_group :: run_group where
  "ended_group = \<lparr>gr_outer = None, gr_cause = None, gr_err = None, gr_hbStopped = True, gr_exit = Some None, gr_done = [],
     gr_closed = False, gr_forward = False, gr_consume = False, gr_hb = HbEnded, gr_wait = WaitEnded,
     gr_stop = StopEnded, gr_log = []\<rparr>"

lemma good_execution: "group_step\<^sup>*\<^sup>* (group_start None) ended_group"
  apply (rule out_step, rule process_ended [where e = None], simp add: group_start_def, simp)
  apply (rule go_step, rule waiter_done [where e = None and es = "[]"], simp add: group_start_def, simp)
  apply (rule go_step, rule waiter_returns [where e = None], simp)
  apply (rule out_step, rule events_closed, simp add: group_start_def group_defs)
  apply (rule go_step, rule consumer_ends, simp add: group_start_def group_defs, simp)
  apply (rule go_step, rule heartbeat_ends, simp add: group_start_def group_defs, simp add: group_start_def group_defs)
  apply (rule go_step, rule stopper_idle)
     apply (simp_all add: group_start_def group_defs ended_group_def)
  done

text \<open>
  A heartbeat finds the lease revoked, and the waiter, which sees the context end, returns before the
  heartbeat does: the group's error is the cancellation, and the run neither uploads what there is nor removes the worktree.
\<close>

lemma revoked_heartbeat_loses_race:
  "\<exists>g. group_step\<^sup>*\<^sup>* (group_start None) g \<and> all_returned g \<and> Heartbeat_revoked \<in> set (gr_log g)
     \<and> Stop_called \<in> set (gr_log g) \<and> gr_outer g = None \<and> gr_err g = Some ErrCanceled"
  apply (rule exI, rule conjI)
   apply (rule out_step, rule heartbeat_revoked [where err = errWorkerLeaseRevoked])
      apply (simp add: group_start_def)
     apply (simp add: errWorkerLeaseRevoked_def is_ctx_error_def ErrDeadlineExceeded_def)
    apply (simp add: lease_revoked_def errWorkerLeaseRevoked_def)
   apply (rule go_step, rule waiter_cancelled, simp add: group_start_def group_defs, simp add: group_start_def group_defs)
   apply (rule go_step, rule stopper_stops)
      apply (simp add: group_start_def group_defs)
     apply (simp add: group_start_def group_defs)
    apply (simp add: group_start_def group_defs)
   apply (rule go_step, rule heartbeat_returns [where err = errWorkerLeaseRevoked], simp add: group_start_def group_defs)
   apply (rule go_step, rule forwarder_ends, simp add: group_start_def group_defs, simp add: group_start_def group_defs)
   apply (rule go_step, rule consumer_ends, simp add: group_start_def group_defs, simp add: group_start_def group_defs)
   apply (rule out_step, rule kill_timer, simp add: group_start_def group_defs)
   apply (rule rtranclp.rtrancl_refl)
  apply (simp add: all_returned_def group_start_def group_defs)
  done

section \<open>A run by example\<close>

definition sample_run :: run_world where
  "sample_run = \<lparr>rw_provision = (\<lambda>i. Inr ''w''), rw_openPane = (\<lambda>t w. Inr []), rw_newRunner = (\<lambda>a. None), rw_start = None,
     rw_nilProc = False, rw_group = ended_group, rw_outer = None,
     rw_files = \<lparr>fw_Join = concat, fw_Stat = (\<lambda>p. False), fw_Glob = (\<lambda>p. []), fw_Open = (\<lambda>p. Inr []), fw_FStat = (\<lambda>p. None),
       fw_TypeByExtension = (\<lambda>x. [])\<rparr>,
     rw_storage = (\<lambda>ps p. Inl ErrSyntax), rw_url = sample_url_lib\<rparr>"

definition sample_executor :: executor where
  "sample_executor = \<lparr>ex_teamID = ''t'', ex_agentType = ''mock'', ex_tmuxCapable = False, ex_registration = sample_registration\<rparr>"

lemma sample_run_result:
  "executor_Run sample_executor sample_run (sample_frame ''a'') [] accepting_net =
     ((None, [Provisioned (workerIssueFromDispatch (sample_frame ''a'')), Agent_started ''mock'' ''w'']), [], accepting_net)"
  by (simp add: executor_Run_def run_agent_part_def GetOrFetch_def runAgentWithEventUpload_def revoked_at_end_def ended_group_def
      sample_run_def sample_executor_def sample_frame_def workerIssueFromDispatch_def trim_space_def is_space_def Let_def)


end
