(* ===== verification/Worker_Login_Props.thy ===== *)
theory Worker_Login_Props
  imports Worker_Login Worker_Executor_Props
begin

text \<open>The credentials of a worker across logins and starts, and how a worker that started looks.\<close>

lemma key_inj [simp]: "workerCredentialKey a = workerCredentialKey b \<longleftrightarrow> a = b"
  by (simp add: workerCredentialKey_def)

section \<open>What is stored is what is loaded\<close>

definition complete_enrollment :: "workerEnrollment \<Rightarrow> bool" where
  "complete_enrollment e \<longleftrightarrow> we_TeamID e \<noteq> [] \<and> we_WorkerID e \<noteq> [] \<and> we_RefreshToken e \<noteq> []"

lemma load_after_store:
  assumes "StoreWorkerEnrollment e kr = (None, kr')"
  shows "LoadWorkerEnrollment t kr' =
    (if t = we_TeamID e \<and> kr_getErr kr (workerCredentialKey t) = None
     then (if complete_enrollment e then Inr e else Inl (ErrMsg ''stored worker enrollment is incomplete''))
     else LoadWorkerEnrollment t kr)"
proof -
  from assms have kr': "kr' = kr\<lparr>kr_items := fput (workerCredentialKey (we_TeamID e)) (Some e) (kr_items kr)\<rparr>"
    by (simp add: StoreWorkerEnrollment_def Let_def split: option.splits)
  show ?thesis
    by (cases "t = we_TeamID e"; cases "kr_getErr kr (workerCredentialKey t)")
      (simp_all add: kr' LoadWorkerEnrollment_def complete_enrollment_def Let_def map_of_fput)
qed

lemma loaded_complete: "LoadWorkerEnrollment t kr = Inr e \<Longrightarrow> complete_enrollment e \<and> we_TeamID e = t \<and> kr_getErr kr (workerCredentialKey t) = None"
  by (auto simp: LoadWorkerEnrollment_def complete_enrollment_def Let_def split: option.splits if_splits)

lemma exchanged_complete: "exchangeWorkerEnrollmentCode ul decode opts n = (Inr e, n') \<Longrightarrow> complete_enrollment e"
  by (auto simp: exchangeWorkerEnrollmentCode_def complete_enrollment_def split: sum.splits prod.splits if_splits)

section \<open>What a start leaves\<close>

lemma start_worker_steps:
  assumes "start_worker ul dc wos cfg kr n = (Inr w, kr', n')"
  obtains e caps r where "LoadWorkerEnrollment (trim_space (wo_TeamID cfg)) kr = Inr e" "1 \<le> wo_MaxConcurrency cfg"
    "detectWorkerCapabilities (os_onPath wos) (os_GOOS wos) (os_GOARCH wos) = Inr caps"
    "fst (registerWorker ul dc (cfg\<lparr>wo_TeamID := trim_space (wo_TeamID cfg), wo_APIBaseURL := trim_space (wo_APIBaseURL cfg)\<rparr>) e caps n) = Inr r"
    "storeRefreshedToken r e kr = ((None, kr'), sw_enrollment w)" "sw_registration w = r" "sw_session w = newWorkerSessionManager r"
    "sw_handler w = newWorkerAckingDispatchHandler r (wo_MaxConcurrency cfg)"
  using assms
  by (auto simp: start_worker_def Let_def split: if_splits option.splits sum.splits prod.splits)

lemma registered_channels:
  assumes "registerWorker ul dc opts e caps n = (Inr r, n')"
  shows "wr_WsURL r \<noteq> [] \<and> wr_LongPollURL r \<noteq> [] \<and> wr_SessionToken r \<noteq> []"
  using assms by (auto simp: registerWorker_def split: sum.splits prod.splits if_splits)

text \<open>
  C32. After a successful start the credential store holds the newest refresh token: loading gives the enrolment the worker runs
  with, which is that of the login with the token the registration returned when it returned one; other teams' enrolments are
  untouched. The worker starts without a run in hand, with the number of places it was asked for, and with both addresses
  of its dispatch channel.
\<close>

theorem start_keeps_newest_token:
  assumes "start_worker ul dc wos cfg kr n = (Inr w, kr', n')" and "LoadWorkerEnrollment (trim_space (wo_TeamID cfg)) kr = Inr e"
  shows "LoadWorkerEnrollment (trim_space (wo_TeamID cfg)) kr' = Inr (sw_enrollment w)
    \<and> sw_enrollment w = e\<lparr>we_RefreshToken := (if wr_RefreshToken (sw_registration w) = [] then we_RefreshToken e
        else wr_RefreshToken (sw_registration w))\<rparr>
    \<and> (\<forall>t. t \<noteq> we_TeamID e \<longrightarrow> LoadWorkerEnrollment t kr' = LoadWorkerEnrollment t kr)
    \<and> in_hand (sw_handler w) = [] \<and> ah_maxConcurrency (sw_handler w) = wo_MaxConcurrency cfg
    \<and> wr_WsURL (sw_registration w) \<noteq> [] \<and> wr_LongPollURL (sw_registration w) \<noteq> []"
proof (rule start_worker_steps [OF assms(1)])
  fix e' caps r
  let ?opts = "cfg\<lparr>wo_TeamID := trim_space (wo_TeamID cfg), wo_APIBaseURL := trim_space (wo_APIBaseURL cfg)\<rparr>"
  assume s: "LoadWorkerEnrollment (trim_space (wo_TeamID cfg)) kr = Inr e'" "1 \<le> wo_MaxConcurrency cfg"
    "fst (registerWorker ul dc ?opts e' caps n) = Inr r"
    "storeRefreshedToken r e' kr = ((None, kr'), sw_enrollment w)" "sw_registration w = r"
    "sw_handler w = newWorkerAckingDispatchHandler r (wo_MaxConcurrency cfg)"
  from s(1) assms(2) have e: "e' = e" by simp
  note c = loaded_complete [OF assms(2)]
  have "LoadWorkerEnrollment (trim_space (wo_TeamID cfg)) kr' = Inr (sw_enrollment w)
    \<and> sw_enrollment w = e\<lparr>we_RefreshToken := (if wr_RefreshToken r = [] then we_RefreshToken e else wr_RefreshToken r)\<rparr>
    \<and> (\<forall>t. t \<noteq> we_TeamID e \<longrightarrow> LoadWorkerEnrollment t kr' = LoadWorkerEnrollment t kr)"
  proof (cases "wr_RefreshToken r \<noteq> [] \<and> wr_RefreshToken r \<noteq> we_RefreshToken e")
    case True
    let ?new = "e\<lparr>we_RefreshToken := wr_RefreshToken r\<rparr>"
    from True e have "storeRefreshedToken r e' kr = (StoreWorkerEnrollment ?new kr, ?new)"
      by (simp add: storeRefreshedToken_def Let_def)
    with s(4) have "(StoreWorkerEnrollment ?new kr, ?new) = ((None, kr'), sw_enrollment w)" by (rule trans [OF sym, rotated])
    then have st: "StoreWorkerEnrollment ?new kr = (None, kr')" and w: "?new = sw_enrollment w"
      unfolding prod.inject by blast+
    from c True have "complete_enrollment ?new" by (auto simp: complete_enrollment_def)
    with load_after_store [OF st] c True show ?thesis unfolding w [symmetric] by simp
  next
    case False
    with s(4) e assms(2) show ?thesis by (auto simp: storeRefreshedToken_def)
  qed
  moreover obtain n1 where "registerWorker ul dc ?opts e' caps n = (Inr r, n1)" using s(3) by (metis prod.collapse)
  then have "wr_WsURL r \<noteq> [] \<and> wr_LongPollURL r \<noteq> []" using registered_channels by blast
  ultimately show ?thesis using s(2, 5, 6) by (simp add: in_hand_def newWorkerAckingDispatchHandler_def)
qed

text \<open>
  A registration answer without a refresh token is accepted, but the session refreshes with the empty token it
  took from the answer, not with that of the enrolment.
\<close>

lemma session_of_tokenless_registration:
  assumes "start_worker ul dc wos cfg kr n = (Inr w, kr', n')" and "wr_RefreshToken (sw_registration w) = []"
    and "workerAPIEndpoint ul (wr_APIBaseURL (sw_registration w)) ''/v1/workers/refresh'' = Inr url"
  shows "\<exists>q. nt_log (snd (snd (session_Refresh ul dc (sw_session w) m))) = nt_log m @ [q] \<and> hq_Body q = RefreshBody []"
proof -
  from assms(1) have "sw_session w = newWorkerSessionManager (sw_registration w)" by (rule start_worker_steps) simp
  with assms(2, 3) show ?thesis
    by (auto simp: session_Refresh_def refreshWorkerSession_def newWorkerSessionManager_def http_Do_def Let_def
        split: sum.splits if_splits prod.splits)
qed

section \<open>A login and a start by example\<close>

definition cloud_answers :: answer_codec where
  "cloud_answers = \<lparr>dc_refresh = (\<lambda>s. Inr \<lparr>fa_SessionToken = ''t0'', fa_Error = []\<rparr>),
     dc_register = (\<lambda>s. Inr \<lparr>ga_SessionToken = ''t1'', ga_RefreshToken = ''r1'', ga_WsURL = ''wss://c'', ga_LongPollURL = ''https://c/p'',
       ga_HeartbeatIntervalSec = 20, ga_LeaseSec = 60, ga_Error = []\<rparr>)\<rparr>"

definition sample_os :: worker_os where
  "sample_os = \<lparr>os_onPath = (\<lambda>c. c = ''codex''), os_GOOS = ''linux'', os_GOARCH = ''amd64'', os_openErr = None\<rparr>"

definition sample_keyring :: keyring where
  "sample_keyring = \<lparr>kr_items = [(''worker/t'', Some \<lparr>we_TeamID = ''t'', we_WorkerID = ''w'', we_RefreshToken = ''r0''\<rparr>)],
     kr_setErr = (\<lambda>k. None), kr_getErr = (\<lambda>k. None)\<rparr>"

definition sample_options :: workerOptions where
  "sample_options = \<lparr>wo_TeamID = ''t'', wo_APIBaseURL = ''https://c'', wo_MaxConcurrency = 2, wo_Ephemeral = False\<rparr>"

theorem start_keeps_newest_token_witness:
  "\<exists>w kr' n'. start_worker sample_url_lib cloud_answers sample_os sample_options sample_keyring accepting_net = (Inr w, kr', n')
     \<and> LoadWorkerEnrollment ''t'' kr' = Inr (sw_enrollment w)"
proof -
  have loaded: "LoadWorkerEnrollment (trim_space (wo_TeamID sample_options)) sample_keyring =
      Inr \<lparr>we_TeamID = ''t'', we_WorkerID = ''w'', we_RefreshToken = ''r0''\<rparr>"
    by (simp add: LoadWorkerEnrollment_def sample_options_def sample_keyring_def workerCredentialKey_def trim_space_def is_space_def)
  have "\<exists>w. fst (start_worker sample_url_lib cloud_answers sample_os sample_options sample_keyring accepting_net) = Inr w"
    using loaded
    by (simp add: start_worker_def registerWorker_def refreshWorkerSession_def detectWorkerCapabilities_def runner_commands_def
        selectWorkerAgentType_def workerHasCapability_def newWorkerRunExecutor_def storeRefreshedToken_def StoreWorkerEnrollment_def
        workerAPIEndpoint_def http_Do_def ok_status_def sample_worker_defs cloud_answers_def sample_os_def sample_options_def
        sample_keyring_def workerCredentialKey_def trim_space_def is_space_def Let_def)
  then obtain w kr' n' where
    start: "start_worker sample_url_lib cloud_answers sample_os sample_options sample_keyring accepting_net = (Inr w, kr', n')"
    by (metis prod.collapse)
  from start_keeps_newest_token [OF this loaded]
  have "LoadWorkerEnrollment (trim_space (wo_TeamID sample_options)) kr' = Inr (sw_enrollment w)" by blast
  moreover have "trim_space (wo_TeamID sample_options) = ''t''" by (simp add: sample_options_def trim_space_def is_space_def)
  ultimately show ?thesis using start by auto
qed

end
