(* ===== verification/Tracker_Text.thy ===== *)
theory Tracker_Text
  imports Prelude
begin

text \<open>
  Models \<open>internal/tracker/deps.go\<close> and \<open>model_override.go\<close>: what the text of an issue says about its blockers and its model.
  The regular expressions are written out as functions that find what Go's leftmost-first matching finds, on
  ASCII text.
\<close>

section \<open>Matching\<close>

definition re_space :: "char \<Rightarrow> bool" where
  "re_space c \<longleftrightarrow> (of_char c :: nat) \<in> {9, 10, 12, 13, 32}"

definition is_digit :: "char \<Rightarrow> bool" where
  "is_digit c \<longleftrightarrow> 48 \<le> (of_char c :: nat) \<and> (of_char c :: nat) \<le> 57"

definition newline :: char where
  "newline = CHR 0x0A"

text \<open>A literal, in any case, at the head of the text: what follows it.\<close>

definition after_fold :: "string \<Rightarrow> string \<Rightarrow> string option" where
  "after_fold word s = (if to_lower (take (length word) s) = word then Some (drop (length word) s) else None)"

definition after_word :: "string \<Rightarrow> string \<Rightarrow> string option" where
  "after_word word s = (if has_prefix s word then Some (drop (length word) s) else None)"

text \<open>\<open>\s+\<close>, and the class \<open>[\s-]\<close>.\<close>

definition after_spaces :: "string \<Rightarrow> string option" where
  "after_spaces s = (case s of [] \<Rightarrow> None | c # cs \<Rightarrow> if re_space c then Some (dropWhile re_space cs) else None)"

definition after_space_or_dash :: "string \<Rightarrow> string option" where
  "after_space_or_dash s = (case s of [] \<Rightarrow> None | c # cs \<Rightarrow> if re_space c \<or> c = CHR 0x2D then Some cs else None)"

definition then_match :: "string option \<Rightarrow> (string \<Rightarrow> string option) \<Rightarrow> string option" where
  "then_match m f = (case m of None \<Rightarrow> None | Some s \<Rightarrow> f s)"

definition or_match :: "'a option \<Rightarrow> 'a option \<Rightarrow> 'a option" where
  "or_match a b = (case a of None \<Rightarrow> b | Some x \<Rightarrow> Some x)"

section \<open>Dependencies\<close>

text \<open>\<open>(?:blocked\s+by|depends[\s-]on|requires):\<close>\<close>

definition after_keyword :: "string \<Rightarrow> string option" where
  "after_keyword s =
     then_match
       (or_match (then_match (then_match (after_fold ''blocked'' s) after_spaces) (after_fold ''by''))
       (or_match (then_match (then_match (after_fold ''depends'' s) after_space_or_dash) (after_fold ''on''))
         (after_fold ''requires'' s)))
       (after_word '':'')"

text \<open>
  \<open>\s*(.+)\<close>: the white space, line ends included, then the rest of the line that follows. At the end of the text
  the white space gives back its last part without a line end.
\<close>

definition declared_line :: "string \<Rightarrow> (string \<times> string) option" where
  "declared_line s =
     (case dropWhile re_space s of
        c # cs \<Rightarrow> Some (takeWhile (\<lambda>c. c \<noteq> newline) (c # cs), dropWhile (\<lambda>c. c \<noteq> newline) (c # cs))
      | [] \<Rightarrow>
         (case dropWhile (\<lambda>c. c = newline) (rev s) of
            [] \<Rightarrow> None
          | c # cs \<Rightarrow> Some ([c], drop (Suc (length cs)) s)))"

definition dependency_match :: "string \<Rightarrow> (string \<times> string) option" where
  "dependency_match s = (case after_keyword s of None \<Rightarrow> None | Some rest \<Rightarrow> declared_line rest)"

lemma declared_line_shorter: "declared_line s = Some (line, rest) \<Longrightarrow> length rest \<le> length s"
proof -
  have "length (dropWhile P (x # xs)) \<le> length s" if "dropWhile re_space s = x # xs" for P x xs
    using that by (metis le_trans length_dropWhile_le)
  then show "declared_line s = Some (line, rest) \<Longrightarrow> length rest \<le> length s"
    by (auto simp: declared_line_def split: list.splits simp del: dropWhile.simps)
qed

lemma match_le:
  "after_fold w s = Some r \<Longrightarrow> length r \<le> length s" "after_spaces s = Some r \<Longrightarrow> length r \<le> length s"
  "after_space_or_dash s = Some r \<Longrightarrow> length r \<le> length s"
  by (auto simp: after_fold_def after_spaces_def after_space_or_dash_def le_Suc_eq length_dropWhile_le split: if_splits list.splits)

lemma then_match_le:
  "then_match m f = Some r \<Longrightarrow> (\<And>t. m = Some t \<Longrightarrow> length t \<le> n) \<Longrightarrow> (\<And>t. f t = Some r \<Longrightarrow> length r \<le> length t) \<Longrightarrow> length r \<le> n"
  by (auto simp: then_match_def split: option.splits intro: le_trans)

lemma or_match_le:
  "or_match a b = Some r \<Longrightarrow> (a = Some r \<Longrightarrow> length r \<le> n) \<Longrightarrow> (b = Some r \<Longrightarrow> length r \<le> n) \<Longrightarrow> length r \<le> n"
  by (auto simp: or_match_def split: option.splits)

lemma after_keyword_shorter:
  assumes "after_keyword s = Some r"
  shows "length r < length s"
proof -
  from assms obtain t where t: "after_word '':'' t = Some r" and
    "or_match (then_match (then_match (after_fold ''blocked'' s) after_spaces) (after_fold ''by''))
       (or_match (then_match (then_match (after_fold ''depends'' s) after_space_or_dash) (after_fold ''on''))
         (after_fold ''requires'' s)) = Some t"
    by (auto simp: after_keyword_def then_match_def split: option.splits)
  then have "length t \<le> length s" by (elim or_match_le then_match_le) (rule match_le, assumption)+
  with t show ?thesis by (cases t) (auto simp: after_word_def has_prefix_def split: if_splits)
qed

lemma dependency_match_shorter: "dependency_match s = Some (line, rest) \<Longrightarrow> length rest < length s"
  unfolding dependency_match_def using after_keyword_shorter declared_line_shorter
  by (fastforce split: option.splits)

text \<open>All matches of the line pattern, from left to right.\<close>

function dependency_lines :: "string \<Rightarrow> string list" where
  "dependency_lines [] = []"
| "dependency_lines (c # s) = (case dependency_match (c # s) of
     Some (line, rest) \<Rightarrow> line # dependency_lines rest
   | None \<Rightarrow> dependency_lines s)"
  by pat_completeness auto
termination
  by (relation "measure length") (auto dest: dependency_match_shorter)

text \<open>All matches of \<open>#(\d+)\<close>.\<close>

function issue_refs :: "string \<Rightarrow> string list" where
  "issue_refs [] = []"
| "issue_refs (c # s) =
     (if c = CHR 0x23 \<and> takeWhile is_digit s \<noteq> []
      then takeWhile is_digit s # issue_refs (dropWhile is_digit s) else issue_refs s)"
  by pat_completeness auto
termination
  by (relation "measure length") (auto simp: less_Suc_eq_le length_dropWhile_le)

fun add_new :: "string list \<Rightarrow> string list \<Rightarrow> string list" where
  "add_new deps [] = deps"
| "add_new deps (ref # refs) = add_new (if ref \<in> set deps then deps else deps @ [ref]) refs"

definition parseDependencies :: "string \<Rightarrow> string list" where
  "parseDependencies body = add_new [] (concat (map issue_refs (dependency_lines body)))"

text \<open>\<open>strconv.Atoi\<close> of digits, which fails beyond the range of an \<open>int\<close>.\<close>

definition digits_value :: "string \<Rightarrow> int" where
  "digits_value s = foldl (\<lambda>v c. v * 10 + (int (of_char c) - 48)) 0 s"

definition ParseBlockedBy :: "string \<Rightarrow> int list" where
  "ParseBlockedBy body = map digits_value (filter (\<lambda>s. in_int64 (digits_value s)) (parseDependencies body))"

section \<open>The model of an issue\<close>

text \<open>
  The end of \<open>(\S+)\s*-->\<close> for a word \<open>u @ v\<close> whose first part is as long as possible; \<open>rest\<close> follows the word.
\<close>

fun word_then_close :: "string \<Rightarrow> string \<Rightarrow> string \<Rightarrow> (string \<times> string) option" where
  "word_then_close [] v rest = None"
| "word_then_close u v rest =
     (case after_word ''-->'' (if v = [] then dropWhile re_space rest else v @ rest) of
        Some after \<Rightarrow> Some (u, after)
      | None \<Rightarrow> word_then_close (butlast u) (last u # v) rest)"

definition override_match :: "string \<Rightarrow> (string \<times> string) option" where
  "override_match s =
     (case then_match (after_word ''<!--'' s) (\<lambda>r. after_word ''model:'' (dropWhile re_space r)) of
        None \<Rightarrow> None
      | Some r \<Rightarrow>
         (let t = dropWhile re_space r in
          word_then_close (takeWhile (\<lambda>c. \<not> re_space c) t) [] (dropWhile (\<lambda>c. \<not> re_space c) t)))"

text \<open>The first match whose model is not blank. After a match the search goes on behind it.\<close>

fun find_override :: "nat \<Rightarrow> string \<Rightarrow> string" where
  "find_override 0 s = []"
| "find_override (Suc k) s = (case s of
     [] \<Rightarrow> []
   | c # cs \<Rightarrow>
      (case override_match s of
         None \<Rightarrow> find_override k cs
       | Some (model, after) \<Rightarrow> if trim_space model \<noteq> [] then trim_space model else find_override k after))"

definition ParseModelOverride :: "string \<Rightarrow> string" where
  "ParseModelOverride body = find_override (length body) body"

section \<open>What is written is what is read\<close>

lemma add_new_distinct: "distinct (deps @ refs) \<Longrightarrow> add_new deps refs = deps @ refs"
  by (induction deps refs rule: add_new.induct) auto

definition is_number :: "string \<Rightarrow> bool" where
  "is_number s \<longleftrightarrow> s \<noteq> [] \<and> list_all is_digit s"

lemma number_chars: "is_digit c \<Longrightarrow> c \<noteq> newline \<and> c \<noteq> CHR 0x23 \<and> c \<noteq> CHR 0x2C \<and> c \<noteq> CHR 0x20"
  by (auto simp: is_digit_def newline_def)

lemma takeWhile_digits: "list_all is_digit d \<Longrightarrow> takeWhile is_digit (d @ r) = d @ takeWhile is_digit r"
  by (induction d) auto

lemma dropWhile_digits: "list_all is_digit d \<Longrightarrow> dropWhile is_digit (d @ r) = dropWhile is_digit r"
  by (induction d) auto

definition rendered_refs :: "string list \<Rightarrow> string" where
  "rendered_refs ns = str_join '', '' (map ((#) CHR 0x23) ns)"

lemma refs_of_rendered: "list_all is_number ns \<Longrightarrow> issue_refs (rendered_refs ns) = ns"
proof (induction ns rule: induct_list012)
  case (2 n)
  then have n: "takeWhile is_digit n = n" "dropWhile is_digit n = []" "n \<noteq> []"
    by (simp_all add: is_number_def takeWhile_eq_all_conv dropWhile_eq_Nil_conv list_all_iff)
  have "issue_refs (CHR 0x23 # n) = [n]"
    unfolding issue_refs.simps(2) n(1, 2) using n(3) by simp
  then show ?case by (simp add: rendered_refs_def)
next
  case (3 n m ns)
  then have n: "list_all is_digit n" "n \<noteq> []" by (simp_all add: is_number_def)
  have *: "rendered_refs (n # m # ns) = CHR 0x23 # n @ CHR 0x2C # CHR 0x20 # rendered_refs (m # ns)"
    by (simp add: rendered_refs_def)
  have "takeWhile is_digit (n @ CHR 0x2C # t) = n" "dropWhile is_digit (n @ CHR 0x2C # t) = CHR 0x2C # t" for t
    using n takeWhile_digits dropWhile_digits by (simp_all add: is_digit_def)
  then show ?case unfolding * using 3 n by simp
qed (simp add: rendered_refs_def)

lemma rendered_chars: "list_all is_number ns \<Longrightarrow> c \<in> set (rendered_refs ns) \<Longrightarrow> is_digit c \<or> c \<in> {CHR 0x23, CHR 0x2C, CHR 0x20}"
  by (induction ns rule: induct_list012) (auto simp: rendered_refs_def is_number_def list_all_iff)

definition dependency_text :: "string list \<Rightarrow> string" where
  "dependency_text ns = ''Blocked by: '' @ rendered_refs ns"

lemma lower_keyword [simp]: "to_lower ''Blocked'' = ''blocked''" "to_lower ''by'' = ''by''"
  by code_simp+

lemma dependency_text_match:
  assumes "ns \<noteq> []" "list_all is_number ns"
  shows "dependency_match (dependency_text ns @ newline # rest) = Some (rendered_refs ns, newline # rest)"
proof -
  obtain t where t: "rendered_refs ns = CHR 0x23 # t" using assms(1)
    by (cases ns rule: remdups_adj.cases) (auto simp: rendered_refs_def)
  have no: "newline \<notin> set (rendered_refs ns)"
    using rendered_chars [OF assms(2)] number_chars by (fastforce simp: newline_def)
  have "dropWhile re_space (CHR 0x20 # rendered_refs ns @ newline # rest) = rendered_refs ns @ newline # rest"
    by (simp add: t re_space_def)
  moreover have "takeWhile (\<lambda>c. c \<noteq> newline) (rendered_refs ns @ newline # rest) = rendered_refs ns"
    "dropWhile (\<lambda>c. c \<noteq> newline) (rendered_refs ns @ newline # rest) = newline # rest"
    using no by (auto simp: takeWhile_append dropWhile_append)
  ultimately have "declared_line (CHR 0x20 # rendered_refs ns @ newline # rest) = Some (rendered_refs ns, newline # rest)"
    by (simp add: declared_line_def t)
  moreover have "after_keyword (dependency_text ns @ newline # rest) = Some (CHR 0x20 # rendered_refs ns @ newline # rest)"
    by (simp add: after_keyword_def dependency_text_def after_fold_def after_spaces_def after_word_def then_match_def or_match_def
        re_space_def has_prefix_def)
  ultimately show ?thesis by (simp add: dependency_match_def)
qed



text \<open>
  A declaration that lists nothing takes the next line of the text for its list, as white space after the colon includes
  line ends.
\<close>

lemma empty_declaration_takes_next_line:
  "parseDependencies (''Blocked by:'' @ newline # newline # ''Fixes #7'') = [''7'']"
  by code_simp

lemma override_example: "ParseModelOverride ''text <!-- model: gpt-5.5 -->'' = ''gpt-5.5''"
  by code_simp

end
