(* ===== verification/Tracker_Http.thy ===== *)
theory Tracker_Http
  imports Tracker_Text Team_Types
begin

text \<open>What the clients of GitHub and Linear share; it stands in \<open>internal/tracker/linear.go\<close>.\<close>

datatype tracker_error = RateLimitError duration | AuthError int string | TrackerError go_error

definition defaultPageSize :: int where
  "defaultPageSize = 50"

text \<open>\<open>strconv.Atoi\<close>, \<open>None\<close> for an error.\<close>

definition go_atoi :: "string \<Rightarrow> int option" where
  "go_atoi s =
     (let (neg, ds) = (case s of [] \<Rightarrow> (False, [])
         | c # cs \<Rightarrow> if c = CHR 0x2D then (True, cs) else if c = CHR 0x2B then (False, cs) else (False, s));
          v = (if neg then - digits_value ds else digits_value ds)
      in if is_number ds \<and> in_int64 v then Some v else None)"

definition parseRetryAfter :: "string \<Rightarrow> duration" where
  "parseRetryAfter val = (if val = [] then 0 else case go_atoi val of None \<Rightarrow> 0 | Some seconds \<Rightarrow> duration_of seconds second_ns)"

definition truncateBody :: "string \<Rightarrow> string" where
  "truncateBody body = (if length body > 1000 then take 1000 body @ ''...<truncated>'' else body)"

end
