(* ===== verification/Github.thy ===== *)
theory Github
  imports Tracker_Http
begin

text \<open>
  Models \<open>internal/tracker/github.go\<close>. GitHub is a parameter: it answers a request given those made before, with a
  status, the headers the client reads and a body. The decoding of a page of issues and of times, and the
  clock, are parameters too. The path of a request is kept as the data it is made from.
\<close>

section \<open>Requests\<close>

datatype gh_path =
    IssuesPage (ip_perPage: int) (ip_page: int) (ip_labels: "string list")
  | AssigneesOf string
  | IssueAt string
  | CommentsOf string

datatype gh_payload = GhNone | GhAssignees "string list" | GhState string "string option" | GhBody string

record gh_request =
  gq_Method :: string
  gq_Owner :: string
  gq_Repo :: string
  gq_Path :: gh_path
  gq_Payload :: gh_payload

record gh_response =
  gr_Status :: int
  gr_RetryAfter :: string
  gr_Remaining :: string
  gr_Reset :: string
  gr_Body :: string

record githubIssue =
  gi_Number :: int
  gi_Title :: string
  gi_Body :: string
  gi_Labels :: "string list"
  gi_HTMLURL :: string
  gi_CreatedAt :: string
  gi_UpdatedAt :: string
  gi_PullRequest :: bool

record gh_world =
  gw_do :: "gh_request list \<Rightarrow> gh_request \<Rightarrow> gh_response result"
  gw_log :: "gh_request list"
  gw_decode :: "string \<Rightarrow> githubIssue list result"
  gw_time :: "string \<Rightarrow> time result"
  gw_now :: time

record GitHubClient =
  gc_apiToken :: string
  gc_owner :: string
  gc_repo :: string
  gc_labels :: "string list"
  gc_assignee :: string
  gc_endpoint :: string
  gc_pageSize :: int

definition NewGitHubClient :: "GitHubClient \<Rightarrow> GitHubClient result" where
  "NewGitHubClient cfg =
     (if trim_space (gc_apiToken cfg) = [] then Inl (ErrMsg ''github api token required'')
      else if trim_space (gc_owner cfg) = [] then Inl (ErrMsg ''github owner required'')
      else if trim_space (gc_repo cfg) = [] then Inl (ErrMsg ''github repo required'')
      else
       (let endpoint = (if gc_endpoint cfg = [] then ''https://api.github.com'' else gc_endpoint cfg) in
        Inr (cfg\<lparr>gc_endpoint := (if has_suffix endpoint ''/'' then butlast endpoint else endpoint),
             gc_pageSize := (if gc_pageSize cfg \<le> 0 then defaultPageSize else gc_pageSize cfg)\<rparr>)))"

section \<open>Headers\<close>

definition parseGitHubRateLimitReset :: "time \<Rightarrow> time \<Rightarrow> string \<Rightarrow> duration" where
  "parseGitHubRateLimitReset epoch now reset =
     (if reset = [] then 0
      else (case go_atoi reset of
        None \<Rightarrow> 0
      | Some unixTs \<Rightarrow>
          (let retryAfter = time_sub (epoch + unixTs * second_ns) now in if retryAfter < 0 then 0 else retryAfter)))"

text \<open>The time of the Unix epoch on the model's clock.\<close>

definition gh_epoch :: time where
  "gh_epoch = 62135596800 * second_ns"

section \<open>Calls\<close>

definition doRequestWithStatus ::
  "GitHubClient \<Rightarrow> string \<Rightarrow> gh_path \<Rightarrow> gh_payload \<Rightarrow> gh_world \<Rightarrow> (tracker_error + string \<times> int) \<times> gh_world" where
  "doRequestWithStatus c meth path payload w =
     (let q = \<lparr>gq_Method = meth, gq_Owner = gc_owner c, gq_Repo = gc_repo c, gq_Path = path, gq_Payload = payload\<rparr>;
          w' = w\<lparr>gw_log := gw_log w @ [q]\<rparr>
      in (case gw_do w (gw_log w) q of
            Inl err \<Rightarrow> Inl (TrackerError (Wrap ''executing request'' err))
          | Inr resp \<Rightarrow>
              (if gr_Status resp = 429 then Inl (RateLimitError (parseRetryAfter (gr_RetryAfter resp)))
               else if gr_Status resp = 403 \<and> gr_Remaining resp = ''0''
               then Inl (RateLimitError (parseGitHubRateLimitReset gh_epoch (gw_now w) (gr_Reset resp)))
               else if gr_Status resp = 401 then Inl (AuthError (gr_Status resp) (gr_Body resp))
               else if gr_Status resp < 200 \<or> gr_Status resp \<ge> 300
               then Inl (TrackerError (ErrMsg (''github API error (status '' @ fmt_int (gr_Status resp) @ ''): '' @ truncateBody (gr_Body resp))))
               else Inr (gr_Body resp, gr_Status resp)), w'))"

text \<open>A call that needs one status.\<close>

definition expect_status ::
  "GitHubClient \<Rightarrow> string \<Rightarrow> gh_path \<Rightarrow> gh_payload \<Rightarrow> int \<Rightarrow> gh_world \<Rightarrow> tracker_error option \<times> gh_world" where
  "expect_status c meth path payload wanted w = (case doRequestWithStatus c meth path payload w of
     (Inl err, w) \<Rightarrow> (Some err, w)
   | (Inr (body, status), w) \<Rightarrow>
       (if status \<noteq> wanted
        then Some (TrackerError (ErrMsg (''github API error: expected status '' @ fmt_int wanted @ '', got '' @ fmt_int status)))
        else None, w))"

definition gh_ClaimIssue :: "GitHubClient \<Rightarrow> string \<Rightarrow> gh_world \<Rightarrow> tracker_error option \<times> gh_world" where
  "gh_ClaimIssue c issueID w = expect_status c ''POST'' (AssigneesOf issueID) (GhAssignees [gc_assignee c]) 201 w"

definition gh_ReleaseIssue :: "GitHubClient \<Rightarrow> string \<Rightarrow> gh_world \<Rightarrow> tracker_error option \<times> gh_world" where
  "gh_ReleaseIssue c issueID w = expect_status c ''DELETE'' (AssigneesOf issueID) (GhAssignees [gc_assignee c]) 200 w"

definition gh_PostComment :: "GitHubClient \<Rightarrow> string \<Rightarrow> string \<Rightarrow> gh_world \<Rightarrow> tracker_error option \<times> gh_world" where
  "gh_PostComment c issueID body w = expect_status c ''POST'' (CommentsOf issueID) (GhBody body) 201 w"

definition any_success :: "(tracker_error + string \<times> int) \<times> gh_world \<Rightarrow> tracker_error option \<times> gh_world" where
  "any_success r = (case r of (Inl err, w) \<Rightarrow> (Some err, w) | (Inr _, w) \<Rightarrow> (None, w))"

definition gh_UpdateIssueState :: "GitHubClient \<Rightarrow> string \<Rightarrow> IssueState \<Rightarrow> gh_world \<Rightarrow> tracker_error option \<times> gh_world" where
  "gh_UpdateIssueState c issueID state w = (case state of
     Released \<Rightarrow> any_success (doRequestWithStatus c ''PATCH'' (IssueAt issueID) (GhState ''closed'' (Some ''completed'')) w)
   | Unclaimed \<Rightarrow> any_success (doRequestWithStatus c ''PATCH'' (IssueAt issueID) (GhState ''open'' None) w)
   | _ \<Rightarrow> (None, w))"

section \<open>Issues\<close>

definition gh_parse_time :: "gh_world \<Rightarrow> string \<Rightarrow> time" where
  "gh_parse_time w s = (case gw_time w s of Inl _ \<Rightarrow> zero_time | Inr t \<Rightarrow> t)"

definition gh_normalizeIssue :: "GitHubClient \<Rightarrow> gh_world \<Rightarrow> githubIssue \<Rightarrow> Issue" where
  "gh_normalizeIssue c w item =
     \<lparr>is_ID = fmt_int (gi_Number item),
      is_Identifier = gc_owner c @ ''/'' @ gc_repo c @ ''#'' @ fmt_int (gi_Number item),
      is_Title = gi_Title item, is_Description = gi_Body item, is_State = Unclaimed, is_Priority = 0,
      is_Labels = map to_lower (filter (\<lambda>l. l \<noteq> []) (gi_Labels item)), is_URL = gi_HTMLURL item,
      is_BranchName = ''symphony/'' @ to_lower (gc_repo c @ ''-'' @ fmt_int (gi_Number item)),
      is_BlockedBy = parseDependencies (gi_Body item), is_ModelOverride = ParseModelOverride (gi_Body item),
      is_CreatedAt = gh_parse_time w (gi_CreatedAt item), is_UpdatedAt = gh_parse_time w (gi_UpdatedAt item)\<rparr>"

text \<open>The loop over the pages; \<open>None\<close> when the fuel is used up.\<close>

fun gh_pages :: "nat \<Rightarrow> GitHubClient \<Rightarrow> int \<Rightarrow> Issue list \<Rightarrow> gh_world \<Rightarrow> ((tracker_error + Issue list) \<times> gh_world) option" where
  "gh_pages 0 c page issues w = None"
| "gh_pages (Suc k) c page issues w =
     (case doRequestWithStatus c ''GET'' (IssuesPage (gc_pageSize c) page (gc_labels c)) GhNone w of
        (Inl err, w) \<Rightarrow> Some (Inl err, w)
      | (Inr (body, _), w) \<Rightarrow>
         (case gw_decode w body of
            Inl err \<Rightarrow> Some (Inl (TrackerError (Wrap ''parsing GitHub issues response'' err)), w)
          | Inr pageItems \<Rightarrow>
             (let issues = issues @ map (gh_normalizeIssue c w) (filter (\<lambda>i. \<not> gi_PullRequest i) pageItems) in
              if int (length pageItems) < gc_pageSize c then Some (Inr issues, w)
              else gh_pages k c (page + 1) issues w)))"

definition gh_FetchIssues :: "nat \<Rightarrow> GitHubClient \<Rightarrow> gh_world \<Rightarrow> ((tracker_error + Issue list) \<times> gh_world) option" where
  "gh_FetchIssues fuel c w = gh_pages fuel c 1 [] w"

end
