(* ===== verification/Orchestrator.thy ===== *)
theory Orchestrator
  imports Run_Events "HOL-Library.Multiset"
begin

text \<open>
  \<open>internal/orchestrator/orchestrator.go\<close>, \<open>orchestrator_runtime.go\<close>, \<open>events.go\<close> and \<open>shutdown.go\<close>:
  the loop that claims issues of a tracker, starts an agent for each, watches the runs and retries
  the failed ones. The state is the record \<open>orch\<close>. Every call on the tracker, the workspace manager
  and the agent runner is appended to \<open>or_calls\<close>; its error is the world's answer, a function of the
  whole history of calls, so any behaviour of these services is a world. A Go map is an
  association list with distinct keys; the order in which \<open>range\<close> visits it is the world's
  \<open>ow_range\<close>. A handler runs to its end before the next one starts, as in the select loop of \<open>Run\<close>,
  and reads the clock once. Logging and the timeline store are left out: the first has no effect on
  the state, the second is a component of its own.
\<close>

section \<open>State\<close>

record Stats =
  st_Running :: int
  st_MaxAgents :: int
  st_TotalTokensIn :: int
  st_TotalTokensOut :: int
  st_StartTime :: time
  st_PollCount :: int

datatype EventType =
    EventStatusUpdate | EventAgentStarted | EventAgentFinished | EventBackoffEnqueued
  | EventIssueReleased | EventClaimSkippedAlreadyImplemented | EventClaimMainRefUnresolvable

datatype EventPayload =
    StatusUpdate Stats int string string string string
  | AgentStarted string string int int string string
  | AgentFinished int RunPhase int int string
  | BackoffEnqueued int time string
  | IssueReleased int
  | ClaimSkippedAlreadyImplemented string string string string
  | ClaimMainRefUnresolvable string

record OrchestratorEvent =
  oe_Type :: EventType
  oe_IssueID :: string
  oe_Data :: EventPayload
  oe_Timestamp :: time

text \<open>\<open>agent.AgentProcess\<close>, with whether it has a \<open>Done\<close> channel.\<close>

record process =
  pr_PID :: int
  pr_SessionID :: string
  pr_Done :: bool

record runEntry =
  re_issue :: Issue
  re_attempt :: RunAttempt
  re_process :: "process option"
  re_workspace :: string
  re_lastEventAt :: time
  re_lastActivityAt :: time
  re_lastActivityKind :: string
  re_lastHeartbeatAt :: time

datatype call =
    FetchIssues | ClaimIssue string | UpdateIssueState string IssueState | ReleaseIssue string
  | PostComment string string | TransitionToDone string string
  | workspace_Create string | workspace_Cleanup string | CleanupAll
  | agent_Start string string string | agent_Stop "process option"

record orch =
  or_running :: "runEntry fdir"
  or_backoff :: "BackoffEntry list"
  or_paused :: "string fdir"
  or_events :: "OrchestratorEvent list"
  or_eventsClosed :: bool
  or_stats :: Stats
  or_issueCache :: "Issue fdir"
  or_issueCacheOrder :: "string list"
  or_recoveredSet :: "string set"
  or_shutdownOnce :: bool
  or_calls :: "call list"

text \<open>The configuration values the orchestrator reads in one step.\<close>

record workflow_config =
  wc_MaxConcurrency :: int
  wc_MaxRetryBackoffMs :: int
  wc_AgentTimeoutMs :: int
  wc_StallTimeoutMs :: int
  wc_Model :: string
  wc_TrackerProjectURL :: string
  wc_TrackerType :: string
  wc_LocalBoardDir :: string
  wc_TrackerMainRef :: string
  wc_AutoCloseAlreadyImplemented :: bool
  wc_mainRefGate :: bool
  wc_suppressLegacyComment :: bool

text \<open>What one step observes: the clock, the services' answers, git and the order of map iteration.\<close>

record world =
  ow_now :: time
  ow_fails :: "call list \<Rightarrow> go_error option"
  ow_issues :: "Issue list"
  ow_workspace :: "string \<Rightarrow> string"
  ow_process :: "string \<Rightarrow> process"
  ow_prompt :: "Issue \<Rightarrow> string result"
  ow_revparse :: "string \<Rightarrow> string \<Rightarrow> string result"
  ow_gitlog :: "string \<Rightarrow> string \<Rightarrow> (string \<times> go_error) + string"
  ow_autoCloser :: bool
  ow_range :: "string list \<Rightarrow> string list"

definition call :: "world \<Rightarrow> call \<Rightarrow> orch \<Rightarrow> go_error option \<times> orch" where
  "call w c s = (ow_fails w (or_calls s @ [c]), s\<lparr>or_calls := or_calls s @ [c]\<rparr>)"

text \<open>A call whose error is only logged.\<close>

definition do_call :: "world \<Rightarrow> call \<Rightarrow> orch \<Rightarrow> orch" where
  "do_call w c s = snd (call w c s)"

definition defaultEventBufferSize :: nat where
  "defaultEventBufferSize = 256"

definition maxIssueCacheSize :: nat where
  "maxIssueCacheSize = 1000"

definition NewOrchestrator :: "workflow_config \<Rightarrow> time \<Rightarrow> orch" where
  "NewOrchestrator cfg now =
     \<lparr>or_running = [], or_backoff = [], or_paused = [], or_events = [], or_eventsClosed = False,
      or_stats = \<lparr>st_Running = 0, st_MaxAgents = wc_MaxConcurrency cfg, st_TotalTokensIn = 0,
        st_TotalTokensOut = 0, st_StartTime = now, st_PollCount = 0\<rparr>,
      or_issueCache = [], or_issueCacheOrder = [], or_recoveredSet = {}, or_shutdownOnce = False,
      or_calls = []\<rparr>"

section \<open>Events\<close>

definition orch_emitEvent :: "world \<Rightarrow> orch \<Rightarrow> OrchestratorEvent \<Rightarrow> orch" where
  "orch_emitEvent w s event =
     (let event' = (if oe_Timestamp event = zero_time then event\<lparr>oe_Timestamp := ow_now w\<rparr> else event)
      in if or_eventsClosed s then s
         else if length (or_events s) < defaultEventBufferSize then s\<lparr>or_events := or_events s @ [event']\<rparr>
         else s)"

definition emitIssueReleased :: "world \<Rightarrow> orch \<Rightarrow> string \<Rightarrow> int \<Rightarrow> orch" where
  "emitIssueReleased w s issueID attempt = orch_emitEvent w s
     \<lparr>oe_Type = EventIssueReleased, oe_IssueID = issueID, oe_Data = IssueReleased attempt, oe_Timestamp = ow_now w\<rparr>"

definition emitStatusUpdate :: "workflow_config \<Rightarrow> world \<Rightarrow> orch \<Rightarrow> orch" where
  "emitStatusUpdate cfg w s =
     (let trackerScope = (if wc_TrackerType cfg = ''internal'' \<or> wc_TrackerType cfg = ''local''
                          then wc_LocalBoardDir cfg else wc_TrackerProjectURL cfg)
      in orch_emitEvent w s
           \<lparr>oe_Type = EventStatusUpdate, oe_IssueID = [],
            oe_Data = StatusUpdate (or_stats s) (int (length (or_backoff s))) (wc_Model cfg)
              (wc_TrackerProjectURL cfg) (wc_TrackerType cfg) trackerScope,
            oe_Timestamp = zero_time\<rparr>)"

section \<open>The issue cache\<close>

text \<open>
  An insertion into a full cache evicts the oldest entry. Reading the head of an empty order would
  panic; the order lists exactly the cached keys (\<open>cache_ok\<close> below), so a full cache has one.
\<close>

definition putIssueCacheLocked :: "orch \<Rightarrow> string \<Rightarrow> Issue \<Rightarrow> orch" where
  "putIssueCacheLocked s k issue =
     (if map_of (or_issueCache s) k \<noteq> None then s\<lparr>or_issueCache := fput k issue (or_issueCache s)\<rparr>
      else
        (let s1 = (if length (or_issueCache s) \<ge> maxIssueCacheSize
                   then (case or_issueCacheOrder s of
                           [] \<Rightarrow> s
                         | oldest # order \<Rightarrow> s\<lparr>or_issueCacheOrder := order, or_issueCache := fdel oldest (or_issueCache s)\<rparr>)
                   else s)
         in s1\<lparr>or_issueCache := fput k issue (or_issueCache s1),
               or_issueCacheOrder := or_issueCacheOrder s1 @ [k]\<rparr>))"

section \<open>Back-off queue\<close>

fun upsertBackoff :: "BackoffEntry list \<Rightarrow> BackoffEntry \<Rightarrow> BackoffEntry list" where
  "upsertBackoff [] entry = [entry]"
| "upsertBackoff (e # es) entry =
     (if be_IssueID e = be_IssueID entry then entry # es else e # upsertBackoff es entry)"

definition requeueBackoff :: "orch \<Rightarrow> BackoffEntry \<Rightarrow> orch" where
  "requeueBackoff s entry = s\<lparr>or_backoff := or_backoff s @ [entry]\<rparr>"

definition retry_at :: "workflow_config \<Rightarrow> world \<Rightarrow> string \<Rightarrow> int \<Rightarrow> time" where
  "retry_at cfg w issueID attempt =
     ow_now w + duration_of (CalculateBackoff issueID attempt (wc_MaxRetryBackoffMs cfg)) millisecond_ns"

definition backoff_event :: "world \<Rightarrow> BackoffEntry \<Rightarrow> OrchestratorEvent" where
  "backoff_event w entry =
     \<lparr>oe_Type = EventBackoffEnqueued, oe_IssueID = be_IssueID entry,
      oe_Data = BackoffEnqueued (be_Attempt entry) (be_RetryAt entry) (be_Error entry), oe_Timestamp = ow_now w\<rparr>"

definition enqueueContinuation :: "workflow_config \<Rightarrow> world \<Rightarrow> orch \<Rightarrow> string \<Rightarrow> int \<Rightarrow> string \<Rightarrow> orch" where
  "enqueueContinuation cfg w s issueID attempt message =
     (let entry = \<lparr>be_IssueID = issueID, be_Attempt = attempt, be_RetryAt = retry_at cfg w issueID 0, be_Error = message\<rparr>
      in orch_emitEvent w (s\<lparr>or_backoff := upsertBackoff (or_backoff s) entry\<rparr>) (backoff_event w entry))"

definition enqueueBackoffFromRunResult :: "workflow_config \<Rightarrow> world \<Rightarrow> orch \<Rightarrow> Issue \<Rightarrow> RunAttempt \<Rightarrow> orch" where
  "enqueueBackoffFromRunResult cfg w s issue attempt =
     (let s1 = (if TransitionIssueState Running RetryQueued = None
                then do_call w (UpdateIssueState (is_ID issue) RetryQueued) s else s);
          s2 = (case call w (ReleaseIssue (is_ID issue)) s1 of
                  (Some _, s2) \<Rightarrow> s2
                | (None, s2) \<Rightarrow> emitIssueReleased w s2 (is_ID issue) (ra_Attempt attempt));
          entry = \<lparr>be_IssueID = is_ID issue, be_Attempt = ra_Attempt attempt + 1,
                   be_RetryAt = retry_at cfg w (is_ID issue) (ra_Attempt attempt), be_Error = ra_Error attempt\<rparr>;
          s3 = putIssueCacheLocked (s2\<lparr>or_backoff := upsertBackoff (or_backoff s2) entry\<rparr>) (is_ID issue) issue
      in orch_emitEvent w s3 (backoff_event w entry))"

definition enqueueBackoffFromRunning :: "workflow_config \<Rightarrow> world \<Rightarrow> orch \<Rightarrow> Issue \<Rightarrow> RunAttempt \<Rightarrow> go_error \<Rightarrow> orch" where
  "enqueueBackoffFromRunning cfg w s issue attempt startErr =
     enqueueBackoffFromRunResult cfg w s issue (attempt\<lparr>ra_Error := Error_text startErr,
       ra_Phase := (if isActiveRunPhase (ra_Phase attempt) then move_phase (ra_Phase attempt) Failed else ra_Phase attempt)\<rparr>)"

definition releaseClaimAndQueueContinuation ::
  "workflow_config \<Rightarrow> world \<Rightarrow> orch \<Rightarrow> string \<Rightarrow> int \<Rightarrow> go_error \<Rightarrow> orch" where
  "releaseClaimAndQueueContinuation cfg w s issueID attempt cause =
     (let s1 = do_call w (UpdateIssueState issueID Released) s;
          s2 = do_call w (ReleaseIssue issueID) s1;
          s3 = enqueueContinuation cfg w s2 issueID attempt (Error_text cause)
      in emitIssueReleased w s3 issueID attempt)"

definition releaseIssue :: "world \<Rightarrow> orch \<Rightarrow> string \<Rightarrow> IssueState \<Rightarrow> int \<Rightarrow> orch" where
  "releaseIssue w s issueID from attempt =
     (let s1 = (if TransitionIssueState from Released = None
                then do_call w (UpdateIssueState issueID Released) s else s)
      in case call w (ReleaseIssue issueID) s1 of
           (Some _, s2) \<Rightarrow> s2
         | (None, s2) \<Rightarrow> emitIssueReleased w s2 issueID attempt)"

section \<open>Git\<close>

definition workspaceRevParse :: "world \<Rightarrow> string \<Rightarrow> string \<Rightarrow> string result" where
  "workspaceRevParse w workspace rv = map_sum id trim_space (ow_revparse w workspace rv)"

definition workspaceHeadSHA :: "world \<Rightarrow> string \<Rightarrow> string result" where
  "workspaceHeadSHA w workspace = workspaceRevParse w workspace ''HEAD''"

definition verifyBranchAdvanced :: "world \<Rightarrow> string \<Rightarrow> string \<Rightarrow> string \<Rightarrow> bool \<times> string \<times> go_error option" where
  "verifyBranchAdvanced w workspace branch claimHead =
     (if trim_space claimHead = [] then (True, ''no_claim_head'', None)
      else (case workspaceRevParse w workspace (if trim_space branch = [] then ''HEAD'' else trim_space branch) of
          Inl err \<Rightarrow> (True, ''git_error'', Some err)
        | Inr currentHead \<Rightarrow>
            (if currentHead = trim_space claimHead then (False, ''branch_unchanged'', None) else (True, [], None))))"

datatype grep_result = GrepMiss | GrepUnresolvable | GrepError go_error | GrepFound string string

definition grepMainForIdentifier :: "world \<Rightarrow> string \<Rightarrow> string \<Rightarrow> grep_result" where
  "grepMainForIdentifier w mainRef identifier =
     (if trim_space identifier = [] then GrepMiss
      else (case ow_gitlog w mainRef ([CHR 0x5C, CHR ''b''] @ identifier @ [CHR 0x5C, CHR ''b'']) of
          Inl (stderr, err) \<Rightarrow>
            (if str_contains stderr ''unknown revision'' \<or> str_contains stderr ''ambiguous argument''
             then GrepUnresolvable else GrepError (Wrap ''git log'' err))
        | Inr out \<Rightarrow>
            (let text = trim_space out;
                 line0 = takeWhile (\<lambda>c. c \<noteq> CHR 0x0A) text;
                 line1 = drop 1 (dropWhile (\<lambda>c. c \<noteq> CHR 0x0A) text)
             in if trim_space line0 = [] then GrepMiss else GrepFound (trim_space line0) (trim_space line1))))"

definition grepFn :: "workflow_config \<Rightarrow> world \<Rightarrow> string \<Rightarrow> string \<Rightarrow> grep_result" where
  "grepFn cfg w mainRef identifier =
     (if wc_mainRefGate cfg then grepMainForIdentifier w mainRef identifier else GrepMiss)"

section \<open>Dispatching an issue\<close>

definition claimIssue :: "world \<Rightarrow> orch \<Rightarrow> Issue \<Rightarrow> go_error option \<times> orch" where
  "claimIssue w s issue =
     (if is_ID issue = [] then (Some (ErrMsg ''issue id is required''), s)
      else (case TransitionIssueState (is_State issue) Claimed of
          Some err \<Rightarrow> (Some err, s)
        | None \<Rightarrow>
            (case call w (ClaimIssue (is_ID issue)) s of
               (Some err, s1) \<Rightarrow> (Some err, s1)
             | (None, s1) \<Rightarrow>
                 (case call w (UpdateIssueState (is_ID issue) Claimed) s1 of
                    (Some err, s2) \<Rightarrow> (Some err, do_call w (ReleaseIssue (is_ID issue)) s2)
                  | (None, s2) \<Rightarrow> (None, s2)))))"

text \<open>The attempt as \<open>dispatchIssue\<close> builds it before the workspace exists.\<close>

definition new_attempt :: "world \<Rightarrow> Issue \<Rightarrow> int \<Rightarrow> RunAttempt" where
  "new_attempt w issue attemptNumber =
     \<lparr>ra_IssueID = is_ID issue, ra_IssueIdentifier = is_Identifier issue, ra_Phase = PreparingWorkspace,
      ra_Attempt = attemptNumber, ra_PID = 0, ra_StartTime = ow_now w, ra_TokensIn = 0, ra_TokensOut = 0,
      ra_SessionID = [], ra_LastEvent = [], ra_Error = [], ra_WorkspacePath = [], ra_ClaimHeadSha = []\<rparr>"

text \<open>The last part of \<open>dispatchIssue\<close>: the entry of a started agent.\<close>

definition register_run :: "world \<Rightarrow> orch \<Rightarrow> Issue \<Rightarrow> RunAttempt \<Rightarrow> process \<Rightarrow> string \<Rightarrow> orch" where
  "register_run w s issue a process path =
     (let a' = a\<lparr>ra_Phase := move_phase (ra_Phase a) InitializingSession, ra_PID := pr_PID process,
                 ra_SessionID := pr_SessionID process, ra_LastEvent := ''agent_started''\<rparr>;
          entry = \<lparr>re_issue = issue, re_attempt = a', re_process = Some process, re_workspace = path,
                   re_lastEventAt = ow_now w, re_lastActivityAt = zero_time, re_lastActivityKind = [],
                   re_lastHeartbeatAt = zero_time\<rparr>;
          s1 = putIssueCacheLocked (s\<lparr>or_running := fput (is_ID issue) entry (or_running s)\<rparr>) (is_ID issue) issue;
          s2 = s1\<lparr>or_stats := (or_stats s1)\<lparr>st_Running := int (length (or_running s1))\<rparr>\<rparr>
      in orch_emitEvent w s2
           \<lparr>oe_Type = EventAgentStarted, oe_IssueID = is_ID issue,
            oe_Data = AgentStarted (is_Identifier issue) (is_URL issue) (ra_Attempt a') (pr_PID process)
              (pr_SessionID process) path,
            oe_Timestamp = ow_now w\<rparr>)"

definition launch_agent :: "workflow_config \<Rightarrow> world \<Rightarrow> orch \<Rightarrow> Issue \<Rightarrow> RunAttempt \<Rightarrow> string \<Rightarrow> string \<Rightarrow> orch" where
  "launch_agent cfg w s issue a path prompt =
     (let s1 = (if TransitionIssueState Claimed Running = None
                then do_call w (UpdateIssueState (is_ID issue) Running) s else s);
          a' = a\<lparr>ra_Phase := move_phase (ra_Phase a) LaunchingAgentProcess\<rparr>
      in case call w (agent_Start (is_ID issue) path prompt) s1 of
           (Some err, s2) \<Rightarrow>
             enqueueBackoffFromRunning cfg w (do_call w (workspace_Cleanup (is_ID issue)) s2) issue a' err
         | (None, s2) \<Rightarrow> register_run w s2 issue a' (ow_process w (is_ID issue)) path)"

definition dispatchIssue :: "workflow_config \<Rightarrow> world \<Rightarrow> orch \<Rightarrow> Issue \<Rightarrow> int \<Rightarrow> orch" where
  "dispatchIssue cfg w s issue attemptNumber =
     (if is_ID issue = [] then s
      else (case claimIssue w s issue of
          (Some err, s1) \<Rightarrow> enqueueContinuation cfg w s1 (is_ID issue) attemptNumber (Error_text err)
        | (None, s1) \<Rightarrow>
            (case call w (workspace_Create (is_ID issue)) s1 of
               (Some err, s2) \<Rightarrow> releaseClaimAndQueueContinuation cfg w s2 (is_ID issue) attemptNumber err
             | (None, s2) \<Rightarrow>
                 (let path = ow_workspace w (is_ID issue);
                      sha = (case workspaceHeadSHA w path of Inr h \<Rightarrow> h | Inl _ \<Rightarrow> []);
                      a = new_attempt w issue attemptNumber;
                      a' = a\<lparr>ra_WorkspacePath := path, ra_ClaimHeadSha := sha,
                             ra_Phase := move_phase (ra_Phase a) BuildingPrompt\<rparr>
                  in case ow_prompt w issue of
                       Inl err \<Rightarrow>
                         releaseClaimAndQueueContinuation cfg w (do_call w (workspace_Cleanup (is_ID issue)) s2)
                           (is_ID issue) attemptNumber err
                     | Inr prompt \<Rightarrow> launch_agent cfg w s2 issue a' path prompt))))"

definition canDispatch :: "orch \<Rightarrow> int \<Rightarrow> bool" where
  "canDispatch s maxAgents = checkBoundedConcurrency (int (length (or_running s))) maxAgents"

definition isManagedIssue :: "orch \<Rightarrow> string \<Rightarrow> bool" where
  "isManagedIssue s issueID \<longleftrightarrow>
     map_of (or_running s) issueID \<noteq> None \<or> map_of (or_paused s) issueID \<noteq> None
   \<or> (\<exists>e \<in> set (or_backoff s). be_IssueID e = issueID)"

section \<open>Dispatching retries and unclaimed issues\<close>

fun dispatch_ready :: "workflow_config \<Rightarrow> world \<Rightarrow> Issue fdir \<Rightarrow> BackoffEntry list \<Rightarrow> orch \<Rightarrow> orch" where
  "dispatch_ready cfg w issuesByID [] s = s"
| "dispatch_ready cfg w issuesByID (e # ready) s =
     dispatch_ready cfg w issuesByID ready
       (if \<not> canDispatch s (wc_MaxConcurrency cfg) then requeueBackoff s e
        else (case (case map_of issuesByID (be_IssueID e) of
                      Some issue \<Rightarrow> Some issue
                    | None \<Rightarrow> map_of (or_issueCache s) (be_IssueID e)) of
            None \<Rightarrow> enqueueContinuation cfg w s (be_IssueID e) (be_Attempt e) ''issue details unavailable''
          | Some issue \<Rightarrow> dispatchIssue cfg w s (issue\<lparr>is_State := RetryQueued\<rparr>) (be_Attempt e)))"

definition dispatchReadyBackoff :: "workflow_config \<Rightarrow> world \<Rightarrow> Issue fdir \<Rightarrow> orch \<Rightarrow> orch" where
  "dispatchReadyBackoff cfg w issuesByID s =
     (if \<not> canDispatch s (wc_MaxConcurrency cfg) then s
      else
        (let remaining = filter (\<lambda>e. be_RetryAt e > ow_now w) (or_backoff s);
             ready = filter (\<lambda>e. \<not> be_RetryAt e > ow_now w) (or_backoff s)
         in dispatch_ready cfg w issuesByID ready (s\<lparr>or_backoff := remaining\<rparr>)))"

definition buildOpenIDSet :: "Issue list \<Rightarrow> string list" where
  "buildOpenIDSet issues = [is_Identifier i. i \<leftarrow> issues, is_Identifier i \<noteq> []]"

definition unresolvedBlockers :: "string list \<Rightarrow> string list \<Rightarrow> string list" where
  "unresolvedBlockers blockedBy openIDs = filter (\<lambda>b. b \<in> set openIDs) blockedBy"

definition autoCloseAlreadyImplemented :: "workflow_config \<Rightarrow> world \<Rightarrow> orch \<Rightarrow> Issue \<Rightarrow> string \<Rightarrow> string \<Rightarrow> orch" where
  "autoCloseAlreadyImplemented cfg w s issue sha subject =
     (if \<not> ow_autoCloser w then s
      else do_call w (TransitionToDone (is_ID issue)
             (''Contrabass: skipping claim '' @ [CHR 0xE2, CHR 0x80, CHR 0x94] @ '' commit '' @ [CHR 0x60] @ sha @ [CHR 0x60] @
              '' on '' @ [CHR 0x60] @ wc_TrackerMainRef cfg @ [CHR 0x60] @ '' already addresses this issue.'' @
              [CHR 0x0A, CHR 0x0A] @ ''> '' @ subject)) s)"

definition skip_implemented :: "workflow_config \<Rightarrow> world \<Rightarrow> orch \<Rightarrow> Issue \<Rightarrow> string \<Rightarrow> string \<Rightarrow> orch" where
  "skip_implemented cfg w s issue sha subject =
     (let s1 = orch_emitEvent w s
           \<lparr>oe_Type = EventClaimSkippedAlreadyImplemented, oe_IssueID = is_ID issue,
            oe_Data = ClaimSkippedAlreadyImplemented (is_Identifier issue) sha subject (wc_TrackerMainRef cfg),
            oe_Timestamp = zero_time\<rparr>
      in if wc_AutoCloseAlreadyImplemented cfg then autoCloseAlreadyImplemented cfg w s1 issue sha subject else s1)"

definition warn_unresolvable :: "workflow_config \<Rightarrow> world \<Rightarrow> orch \<Rightarrow> Issue \<Rightarrow> orch" where
  "warn_unresolvable cfg w s issue = orch_emitEvent w s
     \<lparr>oe_Type = EventClaimMainRefUnresolvable, oe_IssueID = is_ID issue,
      oe_Data = ClaimMainRefUnresolvable (wc_TrackerMainRef cfg), oe_Timestamp = zero_time\<rparr>"

text \<open>The loop of \<open>dispatchUnclaimedIssues\<close>; \<open>warned\<close> is \<open>mainRefUnresolvableWarnedThisCycle\<close>.\<close>

fun dispatch_unclaimed :: "workflow_config \<Rightarrow> world \<Rightarrow> string list \<Rightarrow> Issue list \<Rightarrow> bool \<Rightarrow> orch \<Rightarrow> orch" where
  "dispatch_unclaimed cfg w openIDs [] warned s = s"
| "dispatch_unclaimed cfg w openIDs (issue # issues) warned s =
     (if is_State issue \<noteq> Unclaimed then dispatch_unclaimed cfg w openIDs issues warned s
      else if unresolvedBlockers (is_BlockedBy issue) openIDs \<noteq> [] then dispatch_unclaimed cfg w openIDs issues warned s
      else
        (let g = grepFn cfg w (wc_TrackerMainRef cfg) (is_Identifier issue)
         in case g of
              GrepFound sha subject \<Rightarrow>
                dispatch_unclaimed cfg w openIDs issues warned (skip_implemented cfg w s issue sha subject)
            | _ \<Rightarrow>
                (let s1 = (if g = GrepUnresolvable \<and> \<not> warned then warn_unresolvable cfg w s issue else s);
                     warned' = (warned \<or> g = GrepUnresolvable)
                 in if \<not> canDispatch s1 (wc_MaxConcurrency cfg) then s1
                    else if isManagedIssue s1 (is_ID issue) then dispatch_unclaimed cfg w openIDs issues warned' s1
                    else dispatch_unclaimed cfg w openIDs issues warned' (dispatchIssue cfg w s1 issue 1))))"

definition dispatchUnclaimedIssues :: "workflow_config \<Rightarrow> world \<Rightarrow> Issue list \<Rightarrow> string list \<Rightarrow> orch \<Rightarrow> orch" where
  "dispatchUnclaimedIssues cfg w issues openIDs s = dispatch_unclaimed cfg w openIDs issues False s"

text \<open>\<open>recoverOrphanedClaims\<close>: the issues with their new states, and the state with the logged ids.\<close>

definition recoverOrphanedClaims :: "Issue list \<Rightarrow> orch \<Rightarrow> Issue list \<times> orch" where
  "recoverOrphanedClaims issues s =
     (let orphan = (\<lambda>i. is_State i = Claimed \<and> map_of (or_running s) (is_ID i) = None
                       \<and> map_of (or_paused s) (is_ID i) = None)
      in (map (\<lambda>i. if orphan i then i\<lparr>is_State := Unclaimed\<rparr> else i) issues,
          s\<lparr>or_recoveredSet := or_recoveredSet s \<union> is_ID ` set (filter orphan issues)\<rparr>))"

section \<open>Stopping runs\<close>

text \<open>
  \<open>stopRun\<close> waits for the process and takes the message of its \<open>Done\<close> channel itself, or gives up
  after five seconds; the entry is removed in both cases.
\<close>

definition stopRun :: "world \<Rightarrow> orch \<Rightarrow> string \<Rightarrow> orch" where
  "stopRun w s issueID = (case map_of (or_running s) issueID of
      None \<Rightarrow> s
    | Some entry \<Rightarrow>
        (let s1 = do_call w (agent_Stop (re_process entry)) s;
             running = fdel issueID (or_running s1)
         in s1\<lparr>or_running := running, or_stats := (or_stats s1)\<lparr>st_Running := int (length running)\<rparr>\<rparr>))"

definition StopAgent :: "workflow_config \<Rightarrow> world \<Rightarrow> orch \<Rightarrow> string \<Rightarrow> go_error option \<times> orch" where
  "StopAgent cfg w s issueID =
     (if map_of (or_running s) issueID = None then (Some ErrAgentNotRunning, s)
      else
        (let s1 = stopRun w s issueID;
             s2 = do_call w (UpdateIssueState issueID Released) s1;
             s3 = do_call w (ReleaseIssue issueID) s2
         in (None, emitStatusUpdate cfg w s3)))"

text \<open>The loop of \<open>releaseBlockedRunning\<close> over the running issues.\<close>

fun release_blocked :: "world \<Rightarrow> Issue fdir \<Rightarrow> string list \<Rightarrow> string list \<Rightarrow> orch \<Rightarrow> orch" where
  "release_blocked w issuesByID openIDs [] s = s"
| "release_blocked w issuesByID openIDs (k # managed) s = release_blocked w issuesByID openIDs managed
     (case map_of issuesByID k of
        None \<Rightarrow> s
      | Some issue \<Rightarrow>
          (if unresolvedBlockers (is_BlockedBy issue) openIDs = [] then s
           else do_call w (UpdateIssueState k Unclaimed) (stopRun w s k)))"

definition releaseBlockedRunning :: "world \<Rightarrow> Issue fdir \<Rightarrow> string list \<Rightarrow> orch \<Rightarrow> orch" where
  "releaseBlockedRunning w issuesByID openIDs s =
     release_blocked w issuesByID openIDs (ow_range w (map fst (or_running s))) s"

definition has_done :: "runEntry \<Rightarrow> bool" where
  "has_done entry = (case re_process entry of None \<Rightarrow> False | Some p \<Rightarrow> pr_Done p)"

definition mark_run :: "RunPhase \<Rightarrow> string \<Rightarrow> runEntry \<Rightarrow> runEntry" where
  "mark_run phase message entry = entry\<lparr>re_attempt := (re_attempt entry)
     \<lparr>ra_Phase := move_phase (ra_Phase (re_attempt entry)) phase, ra_Error := message\<rparr>\<rparr>"

definition timed_out :: "time \<Rightarrow> duration \<Rightarrow> runEntry \<Rightarrow> bool" where
  "timed_out now timeout entry \<longleftrightarrow>
     time_sub now (ra_StartTime (re_attempt entry)) > timeout \<and> isActiveRunPhase (ra_Phase (re_attempt entry))"

text \<open>The keys of the entries that satisfy a predicate, in the order of the iteration.\<close>

definition keys_where :: "world \<Rightarrow> (runEntry \<Rightarrow> bool) \<Rightarrow> runEntry fdir \<Rightarrow> string list" where
  "keys_where w P running =
     filter (\<lambda>k. case map_of running k of Some e \<Rightarrow> P e | None \<Rightarrow> False) (ow_range w (map fst running))"

definition reconcileRunning :: "workflow_config \<Rightarrow> world \<Rightarrow> orch \<Rightarrow> orch" where
  "reconcileRunning cfg w s =
     (let timeout = duration_of (wc_AgentTimeoutMs cfg) millisecond_ns
      in if timeout \<le> 0 then s
         else
           (let kept = filter (\<lambda>(k, e). has_done e) (or_running s);
                orphaned = keys_where w (timed_out (ow_now w) timeout) kept;
                running = map (\<lambda>(k, e). (k, if timed_out (ow_now w) timeout e
                                            then mark_run TimedOut ''run timed out'' e else e)) kept;
                s1 = s\<lparr>or_running := running, or_stats := (or_stats s)\<lparr>st_Running := int (length running)\<rparr>\<rparr>
            in foldl (stopRun w) s1 orphaned))"

definition stalled :: "time \<Rightarrow> int \<Rightarrow> runEntry \<Rightarrow> bool" where
  "stalled now stallTimeoutMs entry \<longleftrightarrow>
     isActiveRunPhase (ra_Phase (re_attempt entry)) \<and> detectStallAt now (re_lastEventAt entry) stallTimeoutMs"

definition detectStalledRuns :: "workflow_config \<Rightarrow> world \<Rightarrow> orch \<Rightarrow> orch" where
  "detectStalledRuns cfg w s =
     (let stale = stalled (ow_now w) (wc_StallTimeoutMs cfg);
          ids = keys_where w stale (or_running s);
          running = map (\<lambda>(k, e). (k, if stale e then mark_run Stalled ''run stalled'' e else e)) (or_running s)
      in foldl (stopRun w) (s\<lparr>or_running := running\<rparr>) ids)"

section \<open>Signals of a run\<close>

definition handleAgentEvent :: "world \<Rightarrow> orch \<Rightarrow> string \<Rightarrow> AgentEvent \<Rightarrow> orch" where
  "handleAgentEvent w s issueID event = (case map_of (or_running s) issueID of
      None \<Rightarrow> s
    | Some entry \<Rightarrow>
        (let (tokensIn, tokensOut) = parseUsageTokens (ae_Data event);
             ts = (if ae_Timestamp event = zero_time then ow_now w else ae_Timestamp event);
             a0 = re_attempt entry;
             phase1 = (if ra_Phase a0 = InitializingSession then move_phase (ra_Phase a0) StreamingTurn else ra_Phase a0);
             failing = (isFailureAgentEvent (ae_Type event) \<and> isActiveRunPhase phase1);
             message = extractEventError (ae_Data event);
             a1 = a0\<lparr>ra_LastEvent := ae_Type event,
                     ra_TokensIn := (if tokensIn > ra_TokensIn a0 then tokensIn else ra_TokensIn a0),
                     ra_TokensOut := (if tokensOut > ra_TokensOut a0 then tokensOut else ra_TokensOut a0),
                     ra_Phase := (if failing then move_phase phase1 Failed else phase1),
                     ra_Error := (if failing \<and> message \<noteq> [] then message else ra_Error a0)\<rparr>;
             entry' = entry\<lparr>re_attempt := a1, re_lastEventAt := ts, re_lastHeartbeatAt := ts,
                            re_lastActivityAt := (if IsHeartbeatEvent (ae_Type event) then re_lastActivityAt entry else ts),
                            re_lastActivityKind := (if IsHeartbeatEvent (ae_Type event) then re_lastActivityKind entry
                                                    else ae_Type event)\<rparr>;
             st = or_stats s;
             st' = st\<lparr>st_TotalTokensIn := (if tokensIn > ra_TokensIn a0
                         then wrap64 (st_TotalTokensIn st + wrap64 (tokensIn - ra_TokensIn a0)) else st_TotalTokensIn st),
                      st_TotalTokensOut := (if tokensOut > ra_TokensOut a0
                         then wrap64 (st_TotalTokensOut st + wrap64 (tokensOut - ra_TokensOut a0)) else st_TotalTokensOut st)\<rparr>
         in s\<lparr>or_running := fput issueID entry' (or_running s), or_stats := st'\<rparr>))"

text \<open>The \<open>%q\<close> verb, on ASCII.\<close>

definition quote_char :: "char \<Rightarrow> string" where
  "quote_char c =
     (let n = (of_char c :: nat); hex = (\<lambda>d. ''0123456789abcdef'' ! d); bs = CHR 0x5C
      in if n = 34 \<or> n = 92 then [bs, c]
         else if n = 7 then [bs, CHR ''a''] else if n = 8 then [bs, CHR ''b'']
         else if n = 9 then [bs, CHR ''t''] else if n = 10 then [bs, CHR ''n'']
         else if n = 11 then [bs, CHR ''v''] else if n = 12 then [bs, CHR ''f'']
         else if n = 13 then [bs, CHR ''r'']
         else if n < 32 \<or> 127 \<le> n then [bs, CHR ''x'', hex (n div 16), hex (n mod 16)]
         else [c])"

definition fmt_quote :: "string \<Rightarrow> string" where
  "fmt_quote s = [CHR 0x22] @ concat (map quote_char s) @ [CHR 0x22]"

definition post_comment :: "workflow_config \<Rightarrow> world \<Rightarrow> orch \<Rightarrow> string \<Rightarrow> string \<Rightarrow> orch" where
  "post_comment cfg w s issueID body =
     (if wc_suppressLegacyComment cfg then s else do_call w (PostComment issueID body) s)"

definition pauseUnverifiedSuccess ::
  "workflow_config \<Rightarrow> world \<Rightarrow> orch \<Rightarrow> runEntry \<Rightarrow> string \<Rightarrow> go_error option \<Rightarrow> orch" where
  "pauseUnverifiedSuccess cfg w s entry cause verifyErr =
     (let issueID = is_ID (re_issue entry);
          s1 = do_call w (workspace_Cleanup issueID) s;
          s2 = do_call w (UpdateIssueState issueID Running) s1;
          body = ''Agent reported success, but Contrabass could not verify branch changes ('' @ cause @
                 ''). Leaving the issue in progress for manual review; no retry was scheduled.'' @
                 (case verifyErr of None \<Rightarrow> [] | Some err \<Rightarrow> '' error='' @ fmt_quote (Error_text err));
          s3 = post_comment cfg w s2 issueID body
      in putIssueCacheLocked (s3\<lparr>or_paused := fput issueID cause (or_paused s3)\<rparr>) issueID
           ((re_issue entry)\<lparr>is_State := Running\<rparr>))"

definition completion_comment :: "RunAttempt \<Rightarrow> string" where
  "completion_comment a =
     ''Agent run completed: phase='' @ run_phase_String (ra_Phase a) @ '' attempt='' @ fmt_int (ra_Attempt a) @
     '' tokens_in='' @ fmt_int (ra_TokensIn a) @ '' tokens_out='' @ fmt_int (ra_TokensOut a) @
     (if ra_Error a \<noteq> [] then '' error='' @ fmt_quote (ra_Error a) else [])"

text \<open>The end of \<open>completeRun\<close>, when the run was not paused.\<close>

definition settle_run :: "workflow_config \<Rightarrow> world \<Rightarrow> orch \<Rightarrow> string \<Rightarrow> runEntry \<Rightarrow> RunAttempt \<Rightarrow> orch" where
  "settle_run cfg w s issueID entry a =
     (let s1 = do_call w (workspace_Cleanup issueID) s;
          s2 = post_comment cfg w s1 issueID (completion_comment a)
      in if ra_Phase a = Succeeded then releaseIssue w s2 issueID Running (ra_Attempt a)
         else enqueueBackoffFromRunResult cfg w s2 (re_issue entry) a)"

definition completeRun :: "workflow_config \<Rightarrow> world \<Rightarrow> orch \<Rightarrow> string \<Rightarrow> go_error option \<Rightarrow> orch" where
  "completeRun cfg w s issueID doneErr = (case map_of (or_running s) issueID of
      None \<Rightarrow> s
    | Some entry \<Rightarrow>
        (let running = fdel issueID (or_running s);
             s1 = s\<lparr>or_running := running, or_stats := (or_stats s)\<lparr>st_Running := int (length running)\<rparr>\<rparr>;
             a = final_attempt (re_attempt entry) doneErr;
             s2 = orch_emitEvent w s1
                \<lparr>oe_Type = EventAgentFinished, oe_IssueID = issueID,
                 oe_Data = AgentFinished (ra_Attempt a) (ra_Phase a) (ra_TokensIn a) (ra_TokensOut a) (ra_Error a),
                 oe_Timestamp = ow_now w\<rparr>
         in if ra_Phase a = Succeeded
            then (case verifyBranchAdvanced w (ra_WorkspacePath a) (is_BranchName (re_issue entry)) (ra_ClaimHeadSha a) of
                (advanced, reason, err) \<Rightarrow>
                  (if \<not> advanced \<and> reason = ''branch_unchanged''
                   then pauseUnverifiedSuccess cfg w s2 entry ''success_unverified_branch_unchanged'' None
                   else if advanced \<and> reason = ''git_error''
                   then pauseUnverifiedSuccess cfg w s2 entry ''success_unverified_workspace_invalid'' err
                   else settle_run cfg w s2 issueID entry a))
            else settle_run cfg w s2 issueID entry a))"

record runSignal =
  rs_issueID :: string
  rs_event :: "AgentEvent option"
  rs_done :: bool
  rs_err :: "go_error option"

definition handleRunSignal :: "workflow_config \<Rightarrow> world \<Rightarrow> orch \<Rightarrow> runSignal \<Rightarrow> orch" where
  "handleRunSignal cfg w s signal =
     (let s1 = (case rs_event signal of None \<Rightarrow> s | Some event \<Rightarrow> handleAgentEvent w s (rs_issueID signal) event)
      in if rs_done signal then completeRun cfg w s1 (rs_issueID signal) (rs_err signal) else s1)"

section \<open>The cycle, and the end of the loop\<close>

definition issues_by_id :: "Issue list \<Rightarrow> Issue fdir" where
  "issues_by_id issues = fput_all is_ID id issues []"

definition cache_issues :: "world \<Rightarrow> Issue fdir \<Rightarrow> orch \<Rightarrow> orch" where
  "cache_issues w issuesByID s =
     foldl (\<lambda>s k. case map_of issuesByID k of None \<Rightarrow> s | Some issue \<Rightarrow> putIssueCacheLocked s k issue) s
       (ow_range w (map fst issuesByID))"

definition runCycle :: "workflow_config \<Rightarrow> world \<Rightarrow> orch \<Rightarrow> orch" where
  "runCycle cfg w s0 =
     (let st = or_stats s0;
          s1 = s0\<lparr>or_stats := st\<lparr>st_MaxAgents := wc_MaxConcurrency cfg, st_PollCount := wrap64 (st_PollCount st + 1)\<rparr>\<rparr>;
          s2 = detectStalledRuns cfg w (reconcileRunning cfg w s1)
      in case call w FetchIssues s2 of
           (Some err, s3) \<Rightarrow> emitStatusUpdate cfg w s3
         | (None, s3) \<Rightarrow>
             (let issues = ow_issues w;
                  issuesByID = issues_by_id issues;
                  s4 = cache_issues w issuesByID s3;
                  openIDs = buildOpenIDSet issues;
                  s5 = dispatchReadyBackoff cfg w issuesByID s4;
                  (issues', s6) = recoverOrphanedClaims issues s5;
                  s7 = dispatchUnclaimedIssues cfg w issues' openIDs s6;
                  s8 = releaseBlockedRunning w issuesByID openIDs s7
              in emitStatusUpdate cfg w s8))"

definition shutdown_run :: "world \<Rightarrow> orch \<Rightarrow> runEntry \<Rightarrow> orch" where
  "shutdown_run w s run =
     do_call w (ReleaseIssue (is_ID (re_issue run)))
      (do_call w (UpdateIssueState (is_ID (re_issue run)) Released)
        (do_call w (workspace_Cleanup (is_ID (re_issue run)))
          (do_call w (agent_Stop (re_process run)) s)))"

definition orch_gracefulShutdown :: "world \<Rightarrow> orch \<Rightarrow> go_error option \<times> orch" where
  "orch_gracefulShutdown w s =
     (if or_shutdownOnce s then (None, s)
      else
        (let runs = [e. k \<leftarrow> ow_range w (map fst (or_running s)),
                        e \<leftarrow> (case map_of (or_running s) k of Some e \<Rightarrow> [e] | None \<Rightarrow> [])];
             s1 = s\<lparr>or_shutdownOnce := True, or_running := [], or_stats := (or_stats s)\<lparr>st_Running := 0\<rparr>\<rparr>
         in call w CleanupAll (foldl (shutdown_run w) s1 runs)))"

text \<open>The deferred function of \<open>Run\<close>: the event channel is closed.\<close>

definition close_events :: "orch \<Rightarrow> orch" where
  "close_events s = s\<lparr>or_eventsClosed := True\<rparr>"

text \<open>
  What happens to an orchestrator, in any order: the cases of the select loop of \<open>Run\<close>, a
  \<open>StopAgent\<close> request, a reader taking the oldest event, and the shutdown.
\<close>

inductive orch_step :: "orch \<Rightarrow> orch \<Rightarrow> bool" where
  step_cycle: "(\<And>xs. mset (ow_range w xs) = mset xs) \<Longrightarrow> orch_step s (runCycle cfg w s)"
| step_signal: "orch_step s (handleRunSignal cfg w s signal)"
| step_stop: "orch_step s (snd (StopAgent cfg w s issueID))"
| step_read: "or_events s = e # es \<Longrightarrow> orch_step s (s\<lparr>or_events := es\<rparr>)"
| step_shutdown: "(\<And>xs. mset (ow_range w xs) = mset xs) \<Longrightarrow> orch_step s (snd (orch_gracefulShutdown w s))"
| step_close: "orch_step s (close_events s)"

inductive orch_reachable :: "orch \<Rightarrow> bool" where
  start: "orch_reachable (NewOrchestrator cfg now)"
| more: "orch_reachable s \<Longrightarrow> orch_step s t \<Longrightarrow> orch_reachable t"

end
