(* ===== verification/Orchestrator_Runs.thy ===== *)
theory Orchestrator_Runs
  imports Orchestrator
begin

text \<open>
  Lemmas on the handlers of the orchestrator: what each changes of the running table, the retry
  queue, the paused issues and the cache, the invariant of the select loop, the number of running
  agents, the fate of retries, and the token counters.
\<close>

section \<open>What each helper leaves alone\<close>

lemma call_simps [simp]:
  "fst (call w c s) = ow_fails w (or_calls s @ [c])"
  "or_running (snd (call w c s)) = or_running s"
  "or_backoff (snd (call w c s)) = or_backoff s"
  "or_paused (snd (call w c s)) = or_paused s"
  "or_events (snd (call w c s)) = or_events s"
  "or_stats (snd (call w c s)) = or_stats s"
  "or_issueCache (snd (call w c s)) = or_issueCache s"
  "or_issueCacheOrder (snd (call w c s)) = or_issueCacheOrder s"
  "or_shutdownOnce (snd (call w c s)) = or_shutdownOnce s"
  "or_calls (snd (call w c s)) = or_calls s @ [c]"
  by (simp_all add: call_def)

lemma do_call_simps [simp]:
  "or_running (do_call w c s) = or_running s"
  "or_backoff (do_call w c s) = or_backoff s"
  "or_paused (do_call w c s) = or_paused s"
  "or_events (do_call w c s) = or_events s"
  "or_stats (do_call w c s) = or_stats s"
  "or_issueCache (do_call w c s) = or_issueCache s"
  "or_issueCacheOrder (do_call w c s) = or_issueCacheOrder s"
  "or_shutdownOnce (do_call w c s) = or_shutdownOnce s"
  "or_calls (do_call w c s) = or_calls s @ [c]"
  by (simp_all add: do_call_def)

lemma emit_simps [simp]:
  "or_running (orch_emitEvent w s e) = or_running s"
  "or_backoff (orch_emitEvent w s e) = or_backoff s"
  "or_paused (orch_emitEvent w s e) = or_paused s"
  "or_stats (orch_emitEvent w s e) = or_stats s"
  "or_issueCache (orch_emitEvent w s e) = or_issueCache s"
  "or_issueCacheOrder (orch_emitEvent w s e) = or_issueCacheOrder s"
  "or_shutdownOnce (orch_emitEvent w s e) = or_shutdownOnce s"
  "or_calls (orch_emitEvent w s e) = or_calls s"
  by (simp_all add: orch_emitEvent_def Let_def)

lemma emit_events [simp]: "length (or_events s) \<le> 256 \<Longrightarrow> length (or_events (orch_emitEvent w s e)) \<le> 256"
  by (simp add: orch_emitEvent_def Let_def defaultEventBufferSize_def)

lemma cache_simps [simp]:
  "or_running (putIssueCacheLocked s k i) = or_running s"
  "or_backoff (putIssueCacheLocked s k i) = or_backoff s"
  "or_paused (putIssueCacheLocked s k i) = or_paused s"
  "or_stats (putIssueCacheLocked s k i) = or_stats s"
  "or_events (putIssueCacheLocked s k i) = or_events s"
  "or_shutdownOnce (putIssueCacheLocked s k i) = or_shutdownOnce s"
  "or_calls (putIssueCacheLocked s k i) = or_calls s"
  by (simp_all add: putIssueCacheLocked_def Let_def split: list.split)

lemmas emitters = emitIssueReleased_def emitStatusUpdate_def Let_def

lemma upsert_ids:
  "be_IssueID ` set (upsertBackoff es e) = insert (be_IssueID e) (be_IssueID ` set es)"
  by (induction es) auto

lemma upsert_distinct:
  "distinct (map be_IssueID es) \<Longrightarrow> distinct (map be_IssueID (upsertBackoff es e))"
proof (induction es)
  case Nil
  then show ?case by simp
next
  case (Cons x es)
  then show ?case using upsert_ids [of es e] by (auto simp flip: set_map)
qed

lemma upsert_new: "be_IssueID e \<notin> be_IssueID ` set es \<Longrightarrow> upsertBackoff es e = es @ [e]"
  by (induction es) auto

section \<open>The invariant\<close>

definition cache_ok :: "orch \<Rightarrow> bool" where
  "cache_ok s \<longleftrightarrow> wf_dir (or_issueCache s) \<and> distinct (or_issueCacheOrder s)
     \<and> set (or_issueCacheOrder s) = fst ` set (or_issueCache s) \<and> length (or_issueCache s) \<le> maxIssueCacheSize
     \<and> (\<forall>k i. map_of (or_issueCache s) k = Some i \<longrightarrow> is_ID i = k)"

definition runs_ok :: "orch \<Rightarrow> bool" where
  "runs_ok s \<longleftrightarrow> wf_dir (or_running s) \<and> st_Running (or_stats s) = int (length (or_running s))
     \<and> (\<forall>k e. map_of (or_running s) k = Some e \<longrightarrow> is_ID (re_issue e) = k \<and> k \<noteq> [])"

definition backoff_ids :: "orch \<Rightarrow> string list" where
  "backoff_ids s = map be_IssueID (or_backoff s)"

definition queues_ok :: "orch \<Rightarrow> bool" where
  "queues_ok s \<longleftrightarrow> distinct (backoff_ids s) \<and> [] \<notin> set (backoff_ids s)
     \<and> (\<forall>k. map_of (or_running s) k \<noteq> None \<longrightarrow> k \<notin> set (backoff_ids s))
     \<and> (\<forall>k. map_of (or_paused s) k \<noteq> None \<longrightarrow> map_of (or_running s) k = None \<and> k \<notin> set (backoff_ids s))"

definition orch_inv :: "orch \<Rightarrow> bool" where
  "orch_inv s \<longleftrightarrow> runs_ok s \<and> queues_ok s \<and> cache_ok s \<and> length (or_events s) \<le> 256"

lemma managed_iff:
  "isManagedIssue s k \<longleftrightarrow> map_of (or_running s) k \<noteq> None \<or> map_of (or_paused s) k \<noteq> None \<or> k \<in> set (backoff_ids s)"
  by (auto simp: isManagedIssue_def backoff_ids_def)

lemma length_fput_new: "map_of d k = None \<Longrightarrow> length (fput k v d) = Suc (length d)"
  by (induction d) (auto split: if_splits)

lemma length_fput_old: "wf_dir d \<Longrightarrow> map_of d k \<noteq> None \<Longrightarrow> length (fput k v d) = length d"
  by (metis wf_dir_distinct wf_dir_fput set_fput_names length_map distinct_card image_set insert_absorb
      map_of_eq_None_iff)

lemma length_fdel_old: "wf_dir d \<Longrightarrow> map_of d k \<noteq> None \<Longrightarrow> Suc (length (fdel k d)) = length d"
proof -
  assume wf: "wf_dir d" and k: "map_of d k \<noteq> None"
  have keys: "set (map fst (fdel k d)) = set (map fst d) - {k}" by (auto simp: fdel_def)
  have "length (fdel k d) = card (set (map fst (fdel k d)))"
    using wf by (metis dir_wf(2) wf_dir_distinct distinct_card length_map)
  also have "\<dots> = card (set (map fst d)) - 1" using k unfolding keys by (simp add: map_of_eq_None_iff)
  also have "card (set (map fst d)) = length d" using wf by (metis wf_dir_distinct distinct_card length_map)
  finally show ?thesis using k by (cases d) auto
qed

lemma cache_ok_cong:
  "or_issueCache t = or_issueCache s \<Longrightarrow> or_issueCacheOrder t = or_issueCacheOrder s \<Longrightarrow> cache_ok t = cache_ok s"
  by (simp add: cache_ok_def)

lemma cache_ok_put:
  assumes ok: "cache_ok s" and i: "is_ID i = k"
  shows "cache_ok (putIssueCacheLocked s k i)"
proof (cases "map_of (or_issueCache s) k = None")
  case False
  then have "k \<in> fst ` set (or_issueCache s)" by (simp add: map_of_eq_None_iff)
  with ok i False show ?thesis
    by (auto simp: cache_ok_def putIssueCacheLocked_def set_fput_names length_fput_old dir_wf split: if_splits)
next
  case new: True
  have full: ?thesis if big: "length (or_issueCache s) \<ge> maxIssueCacheSize"
  proof -
    obtain old order where order: "or_issueCacheOrder s = old # order"
      using big ok by (cases "or_issueCacheOrder s") (auto simp: cache_ok_def maxIssueCacheSize_def)
    have old: "map_of (or_issueCache s) old \<noteq> None"
      using ok order by (auto simp: cache_ok_def map_of_eq_None_iff)
    have keys: "fst ` set (fdel old (or_issueCache s)) = fst ` set (or_issueCache s) - {old}"
      by (auto simp: fdel_def)
    have kn: "k \<notin> fst ` set (or_issueCache s)" using new by (simp add: map_of_eq_None_iff)
    have len: "length (fput k i (fdel old (or_issueCache s))) \<le> maxIssueCacheSize"
      using length_fdel_old [OF _ old] new ok by (simp add: length_fput_new cache_ok_def)
    show ?thesis
      using ok i new order big old kn len keys
      by (auto simp: cache_ok_def putIssueCacheLocked_def Let_def set_fput_names dir_wf split: if_splits)
  qed
  have room: ?thesis if "\<not> length (or_issueCache s) \<ge> maxIssueCacheSize"
    using ok i new that
    by (auto simp: cache_ok_def putIssueCacheLocked_def Let_def set_fput_names length_fput_new dir_wf
        map_of_eq_None_iff split: if_splits)
  show ?thesis using full room by blast
qed

section \<open>What dispatching does\<close>

lemma issue_moves [simp]:
  "TransitionIssueState Running RetryQueued = None"
  "TransitionIssueState Claimed Running = None"
  "TransitionIssueState st Released = None"
  by (simp_all add: TransitionIssueState_def)

text \<open>Nothing but the calls and the events changed.\<close>

definition quiet :: "orch \<Rightarrow> orch \<Rightarrow> bool" where
  "quiet s t \<longleftrightarrow> or_running t = or_running s \<and> or_backoff t = or_backoff s \<and> or_paused t = or_paused s
     \<and> or_stats t = or_stats s \<and> or_issueCache t = or_issueCache s \<and> or_issueCacheOrder t = or_issueCacheOrder s
     \<and> (length (or_events s) \<le> 256 \<longrightarrow> length (or_events t) \<le> 256)"

lemma quiet_refl [simp]: "quiet s s"
  by (simp add: quiet_def)

lemma quiet_trans [trans]: "quiet s t \<Longrightarrow> quiet t u \<Longrightarrow> quiet s u"
  by (simp add: quiet_def)

lemma quiet_do_call [simp]: "quiet s (do_call w c t) \<longleftrightarrow> quiet s t"
  by (simp add: quiet_def)

lemma quiet_call [simp]: "quiet s (snd (call w c t)) \<longleftrightarrow> quiet s t"
  by (simp add: quiet_def)

lemma quiet_emit: "quiet s t \<Longrightarrow> quiet s (orch_emitEvent w t e)"
  by (simp add: quiet_def)

lemma quiet_cache: "quiet s t \<Longrightarrow> cache_ok t = cache_ok s"
  by (simp add: quiet_def cache_ok_def)

text \<open>A retry of an issue was queued.\<close>

definition queued :: "BackoffEntry \<Rightarrow> orch \<Rightarrow> orch \<Rightarrow> bool" where
  "queued e s t \<longleftrightarrow> or_running t = or_running s \<and> or_paused t = or_paused s \<and> or_stats t = or_stats s
     \<and> or_backoff t = upsertBackoff (or_backoff s) e
     \<and> (cache_ok s \<longrightarrow> cache_ok t) \<and> (length (or_events s) \<le> 256 \<longrightarrow> length (or_events t) \<le> 256)"

text \<open>A run of an issue was started.\<close>

definition started :: "runEntry \<Rightarrow> orch \<Rightarrow> orch \<Rightarrow> bool" where
  "started e s t \<longleftrightarrow> or_backoff t = or_backoff s \<and> or_paused t = or_paused s
     \<and> or_running t = fput (is_ID (re_issue e)) e (or_running s)
     \<and> st_Running (or_stats t) = int (length (or_running t))
     \<and> (cache_ok s \<longrightarrow> cache_ok t) \<and> (length (or_events s) \<le> 256 \<longrightarrow> length (or_events t) \<le> 256)"

lemma quiet_queued: "quiet s t \<Longrightarrow> queued e t u \<Longrightarrow> queued e s u"
  using quiet_cache [of s t] by (auto simp: queued_def quiet_def)

lemma queued_quiet: "queued e s t \<Longrightarrow> quiet t u \<Longrightarrow> queued e s u"
  using quiet_cache [of t u] by (auto simp: queued_def quiet_def)

lemma quiet_started: "quiet s t \<Longrightarrow> started e t u \<Longrightarrow> started e s u"
  using quiet_cache [of s t] by (auto simp: started_def quiet_def)

definition continuation :: "workflow_config \<Rightarrow> world \<Rightarrow> string \<Rightarrow> int \<Rightarrow> string \<Rightarrow> BackoffEntry" where
  "continuation cfg w k n m = \<lparr>be_IssueID = k, be_Attempt = n, be_RetryAt = retry_at cfg w k 0, be_Error = m\<rparr>"

definition retry_entry :: "workflow_config \<Rightarrow> world \<Rightarrow> string \<Rightarrow> RunAttempt \<Rightarrow> BackoffEntry" where
  "retry_entry cfg w k a = \<lparr>be_IssueID = k, be_Attempt = ra_Attempt a + 1,
     be_RetryAt = retry_at cfg w k (ra_Attempt a), be_Error = ra_Error a\<rparr>"

lemma entry_simps [simp]:
  "be_IssueID (continuation cfg w k n m) = k" "be_Attempt (continuation cfg w k n m) = n"
  "be_IssueID (retry_entry cfg w k a) = k" "be_Attempt (retry_entry cfg w k a) = ra_Attempt a + 1"
  by (simp_all add: continuation_def retry_entry_def)

lemma enqueueContinuation_queued: "queued (continuation cfg w k n m) s (enqueueContinuation cfg w s k n m)"
  by (simp add: queued_def enqueueContinuation_def Let_def cache_ok_def continuation_def)

lemma releaseClaim_queued:
  "queued (continuation cfg w k n (Error_text err)) s (releaseClaimAndQueueContinuation cfg w s k n err)"
  unfolding releaseClaimAndQueueContinuation_def emitters
  by (rule queued_quiet [OF quiet_queued [OF _ enqueueContinuation_queued] quiet_emit [OF quiet_refl]]) simp

lemma released_quiet:
  "quiet s (case call w c (do_call w c' s) of (Some _, t) \<Rightarrow> t | (None, t) \<Rightarrow> emitIssueReleased w t k n)"
  by (auto simp: call_def emitters do_call_def quiet_def split: option.split)

lemma backoffFromRunResult_queued:
  "queued (retry_entry cfg w (is_ID issue) a) s (enqueueBackoffFromRunResult cfg w s issue a)"
proof -
  let ?s = "case call w (ReleaseIssue (is_ID issue)) (do_call w (UpdateIssueState (is_ID issue) RetryQueued) s) of
      (Some _, t) \<Rightarrow> t | (None, t) \<Rightarrow> emitIssueReleased w t (is_ID issue) (ra_Attempt a)"
  let ?e = "retry_entry cfg w (is_ID issue) a"
  let ?t = "?s\<lparr>or_backoff := upsertBackoff (or_backoff ?s) ?e\<rparr>"
  have t: "enqueueBackoffFromRunResult cfg w s issue a =
      orch_emitEvent w (putIssueCacheLocked ?t (is_ID issue) issue) (backoff_event w ?e)"
    by (simp add: enqueueBackoffFromRunResult_def Let_def retry_entry_def)
  have "cache_ok ?t = cache_ok ?s" by (simp add: cache_ok_def)
  then have "queued ?e ?s (putIssueCacheLocked ?t (is_ID issue) issue)"
    using cache_ok_put [of ?t issue] by (simp add: queued_def)
  from queued_quiet [OF quiet_queued [OF released_quiet this] quiet_emit [OF quiet_refl]]
  show ?thesis unfolding t .
qed

lemma register_started:
  "\<exists>e. re_issue e = issue \<and> ra_Attempt (re_attempt e) = ra_Attempt a \<and> ra_StartTime (re_attempt e) = ra_StartTime a
     \<and> started e s (register_run w s issue a p path)"
proof -
  define e where "e = \<lparr>re_issue = issue, re_attempt = a\<lparr>ra_Phase := move_phase (ra_Phase a) InitializingSession,
      ra_PID := pr_PID p, ra_SessionID := pr_SessionID p, ra_LastEvent := ''agent_started''\<rparr>,
      re_process = Some p, re_workspace = path, re_lastEventAt = ow_now w, re_lastActivityAt = zero_time,
      re_lastActivityKind = [], re_lastHeartbeatAt = zero_time\<rparr>"
  let ?t = "s\<lparr>or_running := fput (is_ID issue) e (or_running s)\<rparr>"
  let ?u = "putIssueCacheLocked ?t (is_ID issue) issue"
  let ?v = "?u\<lparr>or_stats := (or_stats ?u)\<lparr>st_Running := int (length (or_running ?u))\<rparr>\<rparr>"
  obtain ev where ev: "register_run w s issue a p path = orch_emitEvent w ?v ev"
    by (simp add: register_run_def Let_def e_def)
  have issue: "re_issue e = issue" by (simp add: e_def)
  have "cache_ok ?t = cache_ok s" by (rule cache_ok_cong) simp_all
  moreover have "cache_ok (orch_emitEvent w ?v ev) = cache_ok ?u" by (rule cache_ok_cong) simp_all
  ultimately have "cache_ok s \<Longrightarrow> cache_ok (orch_emitEvent w ?v ev)" using cache_ok_put [of ?t issue] by simp
  then have "started e s (register_run w s issue a p path)"
    by (simp add: started_def ev issue)
  then show ?thesis by (intro exI [of _ e]) (simp add: e_def)
qed

lemma claimIssue_quiet: "claimIssue w s issue = (r, t) \<Longrightarrow> quiet s t"
  by (auto simp: claimIssue_def call_def do_call_def quiet_def split: if_splits option.splits)

text \<open>
  What one dispatch does: a retry with the same attempt number when the issue could not be claimed,
  its workspace not created or its prompt not rendered, a retry with the next number when the agent
  did not start, or a run.
\<close>

definition dispatched :: "Issue \<Rightarrow> int \<Rightarrow> orch \<Rightarrow> orch \<Rightarrow> bool" where
  "dispatched issue n s t \<longleftrightarrow>
     (\<exists>e. be_IssueID e = is_ID issue \<and> be_Attempt e \<in> {n, n + 1} \<and> queued e s t)
   \<or> (\<exists>e. re_issue e = issue \<and> ra_Attempt (re_attempt e) = n \<and> started e s t)"

lemma dispatched_queued: "queued e s t \<Longrightarrow> be_IssueID e = is_ID issue \<Longrightarrow> be_Attempt e \<in> {n, n + 1} \<Longrightarrow> dispatched issue n s t"
  unfolding dispatched_def by blast

lemma quiet_dispatched: "quiet s t \<Longrightarrow> dispatched issue n t u \<Longrightarrow> dispatched issue n s u"
  unfolding dispatched_def using quiet_queued [of s t _ u] quiet_started [of s t _ u] by blast

lemma launch_dispatched: "ra_Attempt a = n \<Longrightarrow> dispatched issue n s (launch_agent cfg w s issue a path prompt)"
proof -
  assume n: "ra_Attempt a = n"
  let ?a = "a\<lparr>ra_Phase := move_phase (ra_Phase a) LaunchingAgentProcess\<rparr>"
  obtain r t where c: "call w (agent_Start (is_ID issue) path prompt)
      (do_call w (UpdateIssueState (is_ID issue) Running) s) = (r, t)" by (meson surj_pair)
  have q: "quiet s t" using c by (auto simp: call_def quiet_def)
  show ?thesis
  proof (cases r)
    case None
    obtain e where "re_issue e = issue" "ra_Attempt (re_attempt e) = n"
      "started e t (register_run w t issue ?a (ow_process w (is_ID issue)) path)"
      using register_started [of issue ?a t w "ow_process w (is_ID issue)" path] n by auto
    then have "dispatched issue n t (register_run w t issue ?a (ow_process w (is_ID issue)) path)"
      unfolding dispatched_def by blast
    with q show ?thesis by (simp add: launch_agent_def c None quiet_dispatched)
  next
    case (Some err)
    have "dispatched issue n t (enqueueBackoffFromRunning cfg w (do_call w (workspace_Cleanup (is_ID issue)) t) issue ?a err)"
      unfolding enqueueBackoffFromRunning_def
      by (rule dispatched_queued [OF quiet_queued [OF _ backoffFromRunResult_queued]]) (simp_all add: n)
    with q show ?thesis by (simp add: launch_agent_def c Some quiet_dispatched)
  qed
qed

lemma dispatchIssue_dispatched:
  assumes "is_ID issue \<noteq> []"
  shows "dispatched issue n s (dispatchIssue cfg w s issue n)"
proof -
  obtain r1 s1 where c1: "claimIssue w s issue = (r1, s1)" by (meson surj_pair)
  obtain r2 s2 where c2: "call w (workspace_Create (is_ID issue)) s1 = (r2, s2)" by (meson surj_pair)
  have q1: "quiet s s1" using c1 by (rule claimIssue_quiet)
  have q2: "quiet s1 s2" using c2 by (auto simp: call_def quiet_def)
  have q: "quiet s s2" using q1 q2 by (rule quiet_trans)
  have a: "dispatched issue n s (enqueueContinuation cfg w s1 (is_ID issue) n m)" for m
    by (rule dispatched_queued [OF quiet_queued [OF q1 enqueueContinuation_queued]]) simp_all
  have b: "dispatched issue n s (releaseClaimAndQueueContinuation cfg w s2 (is_ID issue) n err)" for err
    by (rule dispatched_queued [OF quiet_queued [OF q releaseClaim_queued]]) simp_all
  have c: "dispatched issue n s (releaseClaimAndQueueContinuation cfg w
      (do_call w (workspace_Cleanup (is_ID issue)) s2) (is_ID issue) n err)" for err
    by (rule dispatched_queued [OF quiet_queued [OF _ releaseClaim_queued]]) (simp_all add: q)
  have d: "dispatched issue n s (launch_agent cfg w s2 issue
      ((new_attempt w issue n)\<lparr>ra_WorkspacePath := p, ra_ClaimHeadSha := h, ra_Phase := ph\<rparr>) p prompt)" for p h ph prompt
    by (rule quiet_dispatched [OF q launch_dispatched]) (simp add: new_attempt_def)
  show ?thesis
    using assms a b c d by (auto simp: dispatchIssue_def c1 c2 Let_def split: option.split sum.split)
qed

section \<open>The invariant is kept\<close>

lemma quiet_inv: "quiet s t \<Longrightarrow> orch_inv s \<Longrightarrow> orch_inv t"
  using quiet_cache [of s t] by (simp add: orch_inv_def runs_ok_def queues_ok_def backoff_ids_def quiet_def)

lemma queued_inv:
  assumes "orch_inv s" and "queued e s t" and "be_IssueID e \<noteq> []"
    and "map_of (or_running s) (be_IssueID e) = None" and "map_of (or_paused s) (be_IssueID e) = None"
  shows "orch_inv t"
proof -
  have ids: "set (backoff_ids t) = insert (be_IssueID e) (set (backoff_ids s))"
    using assms(2) by (simp add: backoff_ids_def queued_def upsert_ids)
  have dist: "distinct (backoff_ids t)"
    using assms(1,2) by (simp add: backoff_ids_def queued_def orch_inv_def queues_ok_def upsert_distinct)
  have "queues_ok t"
    using assms dist unfolding queues_ok_def ids orch_inv_def queued_def by auto
  with assms(1,2) show ?thesis by (simp add: orch_inv_def runs_ok_def queued_def)
qed

lemma started_inv:
  assumes "orch_inv s" and "started e s t" and "is_ID (re_issue e) \<noteq> []" and "\<not> isManagedIssue s (is_ID (re_issue e))"
  shows "orch_inv t"
proof -
  have run: "or_running t = fput (is_ID (re_issue e)) e (or_running s)"
    and rest: "or_backoff t = or_backoff s" "or_paused t = or_paused s"
      "st_Running (or_stats t) = int (length (or_running t))" "cache_ok s \<longrightarrow> cache_ok t"
      "length (or_events s) \<le> 256 \<longrightarrow> length (or_events t) \<le> 256"
    using assms(2) by (simp_all add: started_def)
  have "runs_ok t" using assms(1,3) rest(3) by (auto simp: runs_ok_def orch_inv_def run dir_wf)
  moreover have "queues_ok t"
    using assms(1,4) by (auto simp: queues_ok_def orch_inv_def run rest backoff_ids_def managed_iff)
  ultimately show ?thesis using assms(1) rest by (simp add: orch_inv_def)
qed

lemma dispatched_inv:
  "orch_inv s \<Longrightarrow> dispatched issue n s t \<Longrightarrow> is_ID issue \<noteq> [] \<Longrightarrow> \<not> isManagedIssue s (is_ID issue) \<Longrightarrow> orch_inv t"
  unfolding dispatched_def by (elim disjE exE conjE) (auto intro: queued_inv started_inv simp: managed_iff)

lemma queued_managed: "queued e s t \<Longrightarrow> isManagedIssue t k \<longleftrightarrow> isManagedIssue s k \<or> k = be_IssueID e"
  by (auto simp: managed_iff queued_def backoff_ids_def upsert_ids)

lemma started_managed: "started e s t \<Longrightarrow> isManagedIssue t k \<longleftrightarrow> isManagedIssue s k \<or> k = is_ID (re_issue e)"
  by (auto simp: managed_iff started_def backoff_ids_def)

lemma dispatched_managed:
  "dispatched issue n s t \<Longrightarrow> isManagedIssue t k \<longleftrightarrow> isManagedIssue s k \<or> k = is_ID issue"
  unfolding dispatched_def by (elim disjE exE conjE) (simp_all add: queued_managed started_managed)

lemma dispatch_inv:
  "orch_inv s \<Longrightarrow> \<not> isManagedIssue s (is_ID issue) \<Longrightarrow> orch_inv (dispatchIssue cfg w s issue n)"
  using dispatched_inv [OF _ dispatchIssue_dispatched] by (cases "is_ID issue = []") (auto simp: dispatchIssue_def)

text \<open>The entries that \<open>dispatchReadyBackoff\<close> took from the queue and has not handled yet.\<close>

definition pending_ok :: "BackoffEntry list \<Rightarrow> orch \<Rightarrow> bool" where
  "pending_ok ready s \<longleftrightarrow> distinct (map be_IssueID ready) \<and> [] \<notin> be_IssueID ` set ready
     \<and> (\<forall>e \<in> set ready. \<not> isManagedIssue s (be_IssueID e))"

definition keyed_issues :: "Issue fdir \<Rightarrow> bool" where
  "keyed_issues m \<longleftrightarrow> (\<forall>k i. map_of m k = Some i \<longrightarrow> is_ID i = k)"

lemma keyed_issues_by_id: "keyed_issues (issues_by_id issues)"
proof -
  have put: "keyed_issues m \<Longrightarrow> keyed_issues (fput (is_ID i) i m)" for m i
    by (simp add: keyed_issues_def)
  have all: "keyed_issues m \<Longrightarrow> keyed_issues (fput_all is_ID id is m)" for m "is"
    by (induction "is" arbitrary: m) (simp_all add: put)
  have "keyed_issues []" by (simp add: keyed_issues_def)
  then show ?thesis unfolding issues_by_id_def by (rule all)
qed

text \<open>One turn of the loop of \<open>dispatchReadyBackoff\<close>.\<close>

definition ready_turn :: "workflow_config \<Rightarrow> world \<Rightarrow> Issue fdir \<Rightarrow> BackoffEntry \<Rightarrow> orch \<Rightarrow> orch" where
  "ready_turn cfg w m e s = dispatch_ready cfg w m [e] s"

lemma dispatch_ready_turn: "dispatch_ready cfg w m (e # ready) s = dispatch_ready cfg w m ready (ready_turn cfg w m e s)"
  by (simp add: ready_turn_def)

lemma requeue_queued:
  assumes "\<not> isManagedIssue s (be_IssueID e)"
  shows "queued e s (requeueBackoff s e)"
proof -
  have "be_IssueID e \<notin> be_IssueID ` set (or_backoff s)" using assms by (auto simp: isManagedIssue_def)
  from upsert_new [OF this] show ?thesis by (simp add: queued_def requeueBackoff_def cache_ok_def)
qed

lemma ready_turn_cases:
  assumes "keyed_issues m" and "cache_ok s" and "be_IssueID e \<noteq> []" and "\<not> isManagedIssue s (be_IssueID e)"
  shows "\<exists>i. is_ID i = be_IssueID e \<and> dispatched i (be_Attempt e) s (ready_turn cfg w m e s)"
proof -
  have q: "\<exists>i. is_ID i = be_IssueID e \<and> dispatched i (be_Attempt e) s t"
    if "queued e' s t" "be_IssueID e' = be_IssueID e" "be_Attempt e' = be_Attempt e" for e' t
    using that by (intro exI [of _ "undefined\<lparr>is_ID := be_IssueID e\<rparr>"]) (auto intro: dispatched_queued)
  show ?thesis
  proof (cases "canDispatch s (wc_MaxConcurrency cfg)")
    case False
    then show ?thesis using q [OF requeue_queued [OF assms(4)]] by (simp add: ready_turn_def)
  next
    case True
    define found where "found = (case map_of m (be_IssueID e) of Some i \<Rightarrow> Some i | None \<Rightarrow> map_of (or_issueCache s) (be_IssueID e))"
    have turn: "ready_turn cfg w m e s = (case found of
        None \<Rightarrow> enqueueContinuation cfg w s (be_IssueID e) (be_Attempt e) ''issue details unavailable''
      | Some issue \<Rightarrow> dispatchIssue cfg w s (issue\<lparr>is_State := RetryQueued\<rparr>) (be_Attempt e))"
      using True by (simp add: ready_turn_def found_def)
    show ?thesis
    proof (cases found)
      case None
      then show ?thesis using q [OF enqueueContinuation_queued] turn by simp
    next
      case (Some i)
      then have "is_ID i = be_IssueID e"
        using assms(1,2) by (auto simp: found_def keyed_issues_def cache_ok_def split: option.splits)
      then show ?thesis
        using dispatchIssue_dispatched [of "i\<lparr>is_State := RetryQueued\<rparr>"] assms(3) turn Some
        by (intro exI [of _ "i\<lparr>is_State := RetryQueued\<rparr>"]) simp
    qed
  qed
qed

lemma ready_turn_keeps:
  assumes "keyed_issues m" and "orch_inv s" and "pending_ok (e # ready) s"
  shows "orch_inv (ready_turn cfg w m e s) \<and> pending_ok ready (ready_turn cfg w m e s)"
proof -
  have e: "be_IssueID e \<noteq> []" "\<not> isManagedIssue s (be_IssueID e)" "cache_ok s"
    using assms(2,3) by (auto simp: pending_ok_def orch_inv_def)
  from ready_turn_cases [OF assms(1) e(3,1,2)] obtain i where i: "is_ID i = be_IssueID e"
    "dispatched i (be_Attempt e) s (ready_turn cfg w m e s)" by blast
  show ?thesis
    using dispatched_inv [OF assms(2) i(2)] dispatched_managed [OF i(2)] i(1) e assms(3)
    by (auto simp: pending_ok_def image_iff)
qed

lemma dispatch_ready_inv:
  "keyed_issues m \<Longrightarrow> orch_inv s \<Longrightarrow> pending_ok ready s \<Longrightarrow> orch_inv (dispatch_ready cfg w m ready s)"
proof (induction ready arbitrary: s)
  case (Cons e ready)
  then show ?case using ready_turn_keeps [of m s e ready] by (simp add: dispatch_ready_turn del: dispatch_ready.simps)
qed simp

lemma split_backoff:
  assumes "orch_inv s"
  shows "orch_inv (s\<lparr>or_backoff := filter P (or_backoff s)\<rparr>)"
    and "pending_ok (filter (\<lambda>e. \<not> P e) (or_backoff s)) (s\<lparr>or_backoff := filter P (or_backoff s)\<rparr>)"
proof -
  have q: "queues_ok s" using assms by (simp add: orch_inv_def)
  then have d: "distinct (map be_IssueID (filter P (or_backoff s)))" for P
    by (simp add: queues_ok_def backoff_ids_def distinct_map_filter)
  have inj: "be_IssueID e = be_IssueID e' \<Longrightarrow> e \<in> set (or_backoff s) \<Longrightarrow> e' \<in> set (or_backoff s) \<Longrightarrow> e = e'" for e e'
    using q by (auto simp: queues_ok_def backoff_ids_def distinct_map inj_on_def)
  have "queues_ok (s\<lparr>or_backoff := filter P (or_backoff s)\<rparr>)"
    using q d [of P] by (auto simp: queues_ok_def backoff_ids_def)
  then show "orch_inv (s\<lparr>or_backoff := filter P (or_backoff s)\<rparr>)"
    using assms by (simp add: orch_inv_def runs_ok_def cache_ok_def)
  show "pending_ok (filter (\<lambda>e. \<not> P e) (or_backoff s)) (s\<lparr>or_backoff := filter P (or_backoff s)\<rparr>)"
    using q d [of "\<lambda>e. \<not> P e"] inj
    by (fastforce simp: pending_ok_def managed_iff queues_ok_def backoff_ids_def)
qed

lemma dispatchReadyBackoff_inv: "keyed_issues m \<Longrightarrow> orch_inv s \<Longrightarrow> orch_inv (dispatchReadyBackoff cfg w m s)"
  using split_backoff [of s "\<lambda>e. be_RetryAt e > ow_now w"]
  by (simp add: dispatchReadyBackoff_def Let_def dispatch_ready_inv)

lemma skip_quiet: "quiet s (skip_implemented cfg w s i sha sub)"
  by (auto simp: skip_implemented_def autoCloseAlreadyImplemented_def Let_def quiet_emit)

lemma warn_quiet: "quiet s (warn_unresolvable cfg w s i)"
  by (simp add: warn_unresolvable_def quiet_emit)

text \<open>
  A property of states that the quiet steps keep and that every admissible dispatch keeps holds
  after the loop over the unclaimed issues: the loop dispatches an issue only when it is unclaimed,
  unblocked, not found on the main branch and not managed, and while there is room.
\<close>

definition dispatchable :: "workflow_config \<Rightarrow> world \<Rightarrow> string list \<Rightarrow> orch \<Rightarrow> Issue \<Rightarrow> bool" where
  "dispatchable cfg w openIDs s issue \<longleftrightarrow> is_State issue = Unclaimed
     \<and> unresolvedBlockers (is_BlockedBy issue) openIDs = []
     \<and> (\<forall>sha sub. grepFn cfg w (wc_TrackerMainRef cfg) (is_Identifier issue) \<noteq> GrepFound sha sub)
     \<and> canDispatch s (wc_MaxConcurrency cfg) \<and> \<not> isManagedIssue s (is_ID issue)"

lemma dispatch_unclaimed_induct:
  assumes quiet: "\<And>s t. P s \<Longrightarrow> quiet s t \<Longrightarrow> P t"
    and step: "\<And>s i. P s \<Longrightarrow> i \<in> set issues \<Longrightarrow> dispatchable cfg w openIDs s i \<Longrightarrow> P (dispatchIssue cfg w s i 1)"
    and "P s"
  shows "P (dispatch_unclaimed cfg w openIDs issues warned s)"
  using step \<open>P s\<close>
proof (induction issues arbitrary: s warned)
  case Nil
  then show ?case by simp
next
  case (Cons i issues)
  define g where "g = grepFn cfg w (wc_TrackerMainRef cfg) (is_Identifier i)"
  define s1 where "s1 = (if g = GrepUnresolvable \<and> \<not> warned then warn_unresolvable cfg w s i else s)"
  define warned' where "warned' = (warned \<or> g = GrepUnresolvable)"
  have IH: "P t \<Longrightarrow> P (dispatch_unclaimed cfg w openIDs issues b t)" for t b
    using Cons.IH [of t b] Cons.prems(1) by simp
  have s1: "P s1" using Cons.prems(2) quiet [OF Cons.prems(2) warn_quiet] by (simp add: s1_def)
  have skip: "P (dispatch_unclaimed cfg w openIDs issues warned (skip_implemented cfg w s i sha sub))" for sha sub
    by (rule IH [OF quiet [OF Cons.prems(2) skip_quiet]])
  consider "is_State i \<noteq> Unclaimed \<or> unresolvedBlockers (is_BlockedBy i) openIDs \<noteq> []"
    | sha sub where "is_State i = Unclaimed" "unresolvedBlockers (is_BlockedBy i) openIDs = []" "g = GrepFound sha sub"
    | "is_State i = Unclaimed" "unresolvedBlockers (is_BlockedBy i) openIDs = []" "\<forall>sha sub. g \<noteq> GrepFound sha sub"
    by blast
  then show ?case
  proof cases
    case 1
    then show ?thesis using IH [OF Cons.prems(2)] by auto
  next
    case 2
    then show ?thesis using skip by (simp add: g_def [symmetric])
  next
    case 3
    have eq: "dispatch_unclaimed cfg w openIDs (i # issues) warned s =
        (if \<not> canDispatch s1 (wc_MaxConcurrency cfg) then s1
         else if isManagedIssue s1 (is_ID i) then dispatch_unclaimed cfg w openIDs issues warned' s1
         else dispatch_unclaimed cfg w openIDs issues warned' (dispatchIssue cfg w s1 i 1))"
      using 3 by (cases g) (simp_all add: g_def [symmetric] s1_def warned'_def)
    have "P (dispatchIssue cfg w s1 i 1)" if "canDispatch s1 (wc_MaxConcurrency cfg)" "\<not> isManagedIssue s1 (is_ID i)"
      by (rule Cons.prems(1) [OF s1]) (use 3 that in \<open>simp_all add: dispatchable_def g_def\<close>)
    then show ?thesis unfolding eq using s1 IH by simp
  qed
qed

lemma dispatchUnclaimed_inv: "orch_inv s \<Longrightarrow> orch_inv (dispatchUnclaimedIssues cfg w issues openIDs s)"
  unfolding dispatchUnclaimedIssues_def
  by (rule dispatch_unclaimed_induct [where P = orch_inv]) (auto intro: quiet_inv dispatch_inv simp: dispatchable_def)

section \<open>Runs that are stopped or updated\<close>

lemma stopRun_simps [simp]:
  "or_running (stopRun w s k) = fdel k (or_running s)"
  "or_backoff (stopRun w s k) = or_backoff s"
  "or_paused (stopRun w s k) = or_paused s"
  "or_events (stopRun w s k) = or_events s"
  "or_issueCache (stopRun w s k) = or_issueCache s"
  "or_issueCacheOrder (stopRun w s k) = or_issueCacheOrder s"
  by (auto simp: stopRun_def Let_def fdel_absent split: option.split)

lemma foldl_stopRun [simp]:
  "or_running (foldl (stopRun w) s ks) = fdel_all ks (or_running s)"
  "or_backoff (foldl (stopRun w) s ks) = or_backoff s"
  "or_paused (foldl (stopRun w) s ks) = or_paused s"
  by (induction ks arbitrary: s) auto

text \<open>The running entries after an update that keeps the keys and the issues.\<close>

lemma runs_update_inv:
  assumes "orch_inv s" and "wf_dir running" and "st_Running st = int (length running)"
    and "\<And>k e. map_of running k = Some e \<Longrightarrow> \<exists>e'. map_of (or_running s) k = Some e' \<and> re_issue e = re_issue e'"
  shows "orch_inv (s\<lparr>or_running := running, or_stats := st\<rparr>)"
proof -
  let ?t = "s\<lparr>or_running := running, or_stats := st\<rparr>"
  have sub: "map_of running k \<noteq> None \<Longrightarrow> map_of (or_running s) k \<noteq> None" for k using assms(4) by fastforce
  have "runs_ok ?t" using assms by (fastforce simp: runs_ok_def orch_inv_def)
  moreover have "queues_ok ?t"
  proof -
    have q: "queues_ok s" using assms(1) by (simp add: orch_inv_def)
    have none: "map_of running k = None" if "map_of (or_running s) k = None" for k using sub [of k] that by blast
    show ?thesis unfolding queues_ok_def
      using q sub none by (simp add: queues_ok_def backoff_ids_def)
  qed
  ultimately show ?thesis using assms(1) by (simp add: orch_inv_def cache_ok_def)
qed

lemma stopRun_inv: "orch_inv s \<Longrightarrow> orch_inv (stopRun w s k)"
proof (cases "map_of (or_running s) k")
  case (Some e)
  assume inv: "orch_inv s"
  then have q: "orch_inv (do_call w (agent_Stop (re_process e)) s)" by (rule quiet_inv [rotated]) simp
  show ?thesis
    using inv unfolding stopRun_def Some Let_def option.case
    by (intro runs_update_inv [OF q]) (auto simp: dir_wf orch_inv_def runs_ok_def split: if_splits)
qed (simp add: stopRun_def)

lemma foldl_stopRun_inv: "orch_inv s \<Longrightarrow> orch_inv (foldl (stopRun w) s ks)"
  by (induction ks arbitrary: s) (auto intro: stopRun_inv)

lemma mapped_dir:
  "wf_dir (map (\<lambda>(k, e). (k, f e)) d) = wf_dir d"
  "map_of (map (\<lambda>(k, e). (k, f e)) d) k = map_option f (map_of d k)"
  by (simp_all add: wf_dir_def comp_def map_of_map split_def) (simp add: map_of_map [unfolded split_def])

lemma filtered_dir:
  assumes "wf_dir d"
  shows "wf_dir (filter P d)" and "map_of (filter P d) k = Some v \<longleftrightarrow> map_of d k = Some v \<and> P (k, v)"
proof -
  show wf: "wf_dir (filter P d)" using assms unfolding wf_dir_def sorted_wrt_map by (rule sorted_wrt_filter)
  show "map_of (filter P d) k = Some v \<longleftrightarrow> map_of d k = Some v \<and> P (k, v)"
    unfolding wf_dir_lookup [OF wf, symmetric] wf_dir_lookup [OF assms, symmetric] by auto
qed

lemma mark_run_issue [simp]: "re_issue (mark_run p m e) = re_issue e"
  by (simp add: mark_run_def)

lemma reconcileRunning_inv: "orch_inv s \<Longrightarrow> orch_inv (reconcileRunning cfg w s)"
proof -
  assume inv: "orch_inv s"
  then have wf: "wf_dir (or_running s)" by (simp add: orch_inv_def runs_ok_def)
  show ?thesis unfolding reconcileRunning_def Let_def
    by (auto simp: inv mapped_dir filtered_dir [OF wf] intro!: foldl_stopRun_inv runs_update_inv [OF inv])
qed

lemma detectStalledRuns_inv: "orch_inv s \<Longrightarrow> orch_inv (detectStalledRuns cfg w s)"
proof -
  assume inv: "orch_inv s"
  let ?r = "map (\<lambda>(k, e). (k, if stalled (ow_now w) (wc_StallTimeoutMs cfg) e then mark_run Stalled ''run stalled'' e else e)) (or_running s)"
  have "orch_inv (s\<lparr>or_running := ?r, or_stats := or_stats s\<rparr>)"
    using inv by (intro runs_update_inv) (auto simp: mapped_dir orch_inv_def runs_ok_def)
  then have "orch_inv (s\<lparr>or_running := ?r\<rparr>)" by simp
  then show ?thesis unfolding detectStalledRuns_def Let_def by (rule foldl_stopRun_inv)
qed

lemma release_blocked_inv: "orch_inv s \<Longrightarrow> orch_inv (release_blocked w m openIDs ks s)"
proof (induction ks arbitrary: s)
  case (Cons k ks)
  have "orch_inv (do_call w (UpdateIssueState k Unclaimed) (stopRun w s k))"
    by (rule quiet_inv [OF _ stopRun_inv [OF Cons.prems, of w k]]) simp
  with Cons show ?case by (simp split: option.split)
qed simp

lemma cached_inv:
  assumes "orch_inv s" and "is_ID i = k"
  shows "orch_inv (putIssueCacheLocked s k i)"
  using assms cache_ok_put [of s i k]
  by (simp add: orch_inv_def runs_ok_def queues_ok_def backoff_ids_def)

lemma cache_issues_inv: "keyed_issues m \<Longrightarrow> orch_inv s \<Longrightarrow> orch_inv (cache_issues w m s)"
proof -
  assume m: "keyed_issues m"
  have "orch_inv s \<Longrightarrow> orch_inv (foldl (\<lambda>s k. case map_of m k of None \<Rightarrow> s | Some issue \<Rightarrow> putIssueCacheLocked s k issue) s ks)" for s ks
    using m by (induction ks arbitrary: s) (auto simp: keyed_issues_def intro: cached_inv split: option.split)
  then show "orch_inv s \<Longrightarrow> orch_inv (cache_issues w m s)" by (simp add: cache_issues_def)
qed

lemma recover_inv: "orch_inv s \<Longrightarrow> orch_inv (snd (recoverOrphanedClaims issues s))"
  by (simp add: recoverOrphanedClaims_def Let_def orch_inv_def runs_ok_def queues_ok_def backoff_ids_def cache_ok_def)

lemma status_inv: "orch_inv s \<Longrightarrow> orch_inv (emitStatusUpdate cfg w s)"
  unfolding emitters by (rule quiet_inv [OF quiet_emit [OF quiet_refl]])

text \<open>The two halves of a cycle: the checks on the running agents, and the dispatch after a fetch.\<close>

definition before_fetch :: "workflow_config \<Rightarrow> world \<Rightarrow> orch \<Rightarrow> orch" where
  "before_fetch cfg w s = detectStalledRuns cfg w (reconcileRunning cfg w
     (s\<lparr>or_stats := (or_stats s)\<lparr>st_MaxAgents := wc_MaxConcurrency cfg,
        st_PollCount := wrap64 (st_PollCount (or_stats s) + 1)\<rparr>\<rparr>))"

definition retry_pass :: "workflow_config \<Rightarrow> world \<Rightarrow> orch \<Rightarrow> orch" where
  "retry_pass cfg w s = dispatchReadyBackoff cfg w (issues_by_id (ow_issues w)) (cache_issues w (issues_by_id (ow_issues w)) s)"

definition unclaimed_pass :: "workflow_config \<Rightarrow> world \<Rightarrow> orch \<Rightarrow> orch" where
  "unclaimed_pass cfg w s = dispatchUnclaimedIssues cfg w (fst (recoverOrphanedClaims (ow_issues w) s))
     (buildOpenIDSet (ow_issues w)) (snd (recoverOrphanedClaims (ow_issues w) s))"

definition after_fetch :: "workflow_config \<Rightarrow> world \<Rightarrow> orch \<Rightarrow> orch" where
  "after_fetch cfg w s = releaseBlockedRunning w (issues_by_id (ow_issues w)) (buildOpenIDSet (ow_issues w))
     (unclaimed_pass cfg w (retry_pass cfg w s))"

lemma runCycle_split:
  "runCycle cfg w s =
     (let s2 = before_fetch cfg w s; s3 = snd (call w FetchIssues s2)
      in emitStatusUpdate cfg w (if ow_fails w (or_calls s2 @ [FetchIssues]) = None then after_fetch cfg w s3 else s3))"
  unfolding runCycle_def before_fetch_def after_fetch_def retry_pass_def unclaimed_pass_def
  by (simp add: Let_def split_def call_def split: option.split)

lemma before_fetch_inv: "orch_inv s \<Longrightarrow> orch_inv (before_fetch cfg w s)"
  unfolding before_fetch_def
  by (intro detectStalledRuns_inv reconcileRunning_inv)
    (simp add: orch_inv_def runs_ok_def queues_ok_def backoff_ids_def cache_ok_def)

lemma retry_pass_inv: "orch_inv s \<Longrightarrow> orch_inv (retry_pass cfg w s)"
  by (simp add: retry_pass_def dispatchReadyBackoff_inv cache_issues_inv keyed_issues_by_id)

lemma unclaimed_pass_inv: "orch_inv s \<Longrightarrow> orch_inv (unclaimed_pass cfg w s)"
  by (simp add: unclaimed_pass_def dispatchUnclaimed_inv recover_inv)

lemma fetch_inv: "orch_inv s \<Longrightarrow> orch_inv (snd (call w FetchIssues s))"
  by (rule quiet_inv [of s]) simp_all

lemma runCycle_inv: "orch_inv s \<Longrightarrow> orch_inv (runCycle cfg w s)"
  by (simp add: runCycle_split Let_def status_inv fetch_inv before_fetch_inv after_fetch_def
      releaseBlockedRunning_def release_blocked_inv unclaimed_pass_inv retry_pass_inv)

lemma handleAgentEvent_inv: "orch_inv s \<Longrightarrow> orch_inv (handleAgentEvent w s k ev)"
proof (cases "map_of (or_running s) k")
  case (Some e)
  assume inv: "orch_inv s"
  then have "wf_dir (or_running s)" "st_Running (or_stats s) = int (length (or_running s))"
    by (simp_all add: orch_inv_def runs_ok_def)
  then show ?thesis unfolding handleAgentEvent_def Some option.case Let_def split_def
    by (intro runs_update_inv [OF inv]) (auto simp: dir_wf length_fput_old Some split: if_splits)
qed (simp add: handleAgentEvent_def)

section \<open>The end of a run\<close>

text \<open>The state in which the end of a run is handled: the entry removed, the finish announced.\<close>

definition removed :: "string \<Rightarrow> orch \<Rightarrow> orch" where
  "removed k s = s\<lparr>or_running := fdel k (or_running s),
     or_stats := (or_stats s)\<lparr>st_Running := int (length (fdel k (or_running s)))\<rparr>\<rparr>"

lemma removed_inv: "orch_inv s \<Longrightarrow> orch_inv (removed k s)"
  unfolding removed_def
  by (intro runs_update_inv) (auto simp: dir_wf orch_inv_def runs_ok_def split: if_splits)

lemma post_comment_quiet: "quiet s (post_comment cfg w s k b)"
  by (simp add: post_comment_def)

text \<open>The issue was set aside for review.\<close>

definition set_aside :: "string \<Rightarrow> string \<Rightarrow> orch \<Rightarrow> orch \<Rightarrow> bool" where
  "set_aside k cause s t \<longleftrightarrow> or_running t = or_running s \<and> or_backoff t = or_backoff s \<and> or_stats t = or_stats s
     \<and> or_paused t = fput k cause (or_paused s)
     \<and> (cache_ok s \<longrightarrow> cache_ok t) \<and> (length (or_events s) \<le> 256 \<longrightarrow> length (or_events t) \<le> 256)"

lemma pause_set_aside:
  "set_aside (is_ID (re_issue e)) cause s (pauseUnverifiedSuccess cfg w s e cause err)"
proof -
  obtain body where body: "pauseUnverifiedSuccess cfg w s e cause err =
      (let u = post_comment cfg w (do_call w (UpdateIssueState (is_ID (re_issue e)) Running)
             (do_call w (workspace_Cleanup (is_ID (re_issue e))) s)) (is_ID (re_issue e)) body
       in putIssueCacheLocked (u\<lparr>or_paused := fput (is_ID (re_issue e)) cause (or_paused u)\<rparr>) (is_ID (re_issue e))
            ((re_issue e)\<lparr>is_State := Running\<rparr>))"
    by (rule that, unfold pauseUnverifiedSuccess_def Let_def, rule refl)
  define u where "u = post_comment cfg w (do_call w (UpdateIssueState (is_ID (re_issue e)) Running)
    (do_call w (workspace_Cleanup (is_ID (re_issue e))) s)) (is_ID (re_issue e)) body"
  have u: "quiet s u" unfolding u_def by (rule quiet_trans [OF _ post_comment_quiet]) simp
  have eq: "pauseUnverifiedSuccess cfg w s e cause err =
      putIssueCacheLocked (u\<lparr>or_paused := fput (is_ID (re_issue e)) cause (or_paused u)\<rparr>) (is_ID (re_issue e))
        ((re_issue e)\<lparr>is_State := Running\<rparr>)"
    unfolding body Let_def u_def ..
  let ?v = "u\<lparr>or_paused := fput (is_ID (re_issue e)) cause (or_paused u)\<rparr>"
  have "cache_ok ?v = cache_ok u" by (rule cache_ok_cong) simp_all
  then show ?thesis
    using u quiet_cache [OF u] cache_ok_put [of ?v "(re_issue e)\<lparr>is_State := Running\<rparr>" "is_ID (re_issue e)"]
    by (simp add: eq set_aside_def quiet_def)
qed

lemma set_aside_inv:
  assumes "orch_inv s" and "set_aside k cause s t" and "map_of (or_running s) k = None" and "k \<notin> set (backoff_ids s)"
  shows "orch_inv t"
  using assms by (auto simp: orch_inv_def set_aside_def runs_ok_def queues_ok_def backoff_ids_def split: if_splits)

lemma quiet_set_aside: "quiet s t \<Longrightarrow> set_aside k c t u \<Longrightarrow> set_aside k c s u"
  using quiet_cache [of s t] by (auto simp: set_aside_def quiet_def)

lemma releaseIssue_quiet: "quiet s (releaseIssue w s k from n)"
  unfolding releaseIssue_def Let_def by (simp add: released_quiet)

lemma completeRun_unfold:
  fixes s :: orch and w :: world and d :: "go_error option" and cfg :: workflow_config
  assumes "map_of (or_running s) k = Some e"
  defines "a \<equiv> final_attempt (re_attempt e) d"
    and "v \<equiv> verifyBranchAdvanced w (ra_WorkspacePath (re_attempt e)) (is_BranchName (re_issue e)) (ra_ClaimHeadSha (re_attempt e))"
  shows "\<exists>s2. quiet (removed k s) s2 \<and> or_calls s2 = or_calls s \<and> completeRun cfg w s k d =
      (if ra_Phase a = Succeeded
       then (case v of (advanced, reason, err) \<Rightarrow>
               if \<not> advanced \<and> reason = ''branch_unchanged''
               then pauseUnverifiedSuccess cfg w s2 e ''success_unverified_branch_unchanged'' None
               else if advanced \<and> reason = ''git_error''
               then pauseUnverifiedSuccess cfg w s2 e ''success_unverified_workspace_invalid'' err
               else settle_run cfg w s2 k e a)
       else settle_run cfg w s2 k e a)"
proof -
  have path: "ra_WorkspacePath a = ra_WorkspacePath (re_attempt e)" "ra_ClaimHeadSha a = ra_ClaimHeadSha (re_attempt e)"
    by (simp_all add: a_def final_attempt_def Let_def split_def)
  let ?ev = "\<lparr>oe_Type = EventAgentFinished, oe_IssueID = k,
    oe_Data = AgentFinished (ra_Attempt a) (ra_Phase a) (ra_TokensIn a) (ra_TokensOut a) (ra_Error a),
    oe_Timestamp = ow_now w\<rparr>"
  show ?thesis
    by (rule exI [of _ "orch_emitEvent w (removed k s) ?ev"])
      (simp add: completeRun_def assms(1) Let_def a_def [symmetric] v_def path removed_def split_def quiet_emit)
qed

lemma verify_cases:
  "verifyBranchAdvanced w ws br ch \<in> {(True, ''no_claim_head'', None), (False, ''branch_unchanged'', None), (True, [], None)}
   \<or> (\<exists>err. verifyBranchAdvanced w ws br ch = (True, ''git_error'', Some err))"
  by (auto simp: verifyBranchAdvanced_def split: sum.split)

text \<open>
  The three ways in which \<open>completeRun\<close> ends: the issue is released (a verified success), set aside
  (a success without a verified change of the branch), or queued for its next attempt.
\<close>

lemma completeRun_cases:
  fixes s :: orch and w :: world and d :: "go_error option" and cfg :: workflow_config
  assumes "map_of (or_running s) k = Some e"
  defines "a \<equiv> final_attempt (re_attempt e) d"
    and "v \<equiv> verifyBranchAdvanced w (ra_WorkspacePath (re_attempt e)) (is_BranchName (re_issue e)) (ra_ClaimHeadSha (re_attempt e))"
  shows "if ra_Phase a = Succeeded
    then (if fst (snd v) \<in> {''branch_unchanged'', ''git_error''}
          then \<exists>cause. set_aside (is_ID (re_issue e)) cause (removed k s) (completeRun cfg w s k d)
          else quiet (removed k s) (completeRun cfg w s k d))
    else queued (retry_entry cfg w (is_ID (re_issue e)) a) (removed k s) (completeRun cfg w s k d)"
proof -
  obtain s2 where s2: "quiet (removed k s) s2" and eq: "completeRun cfg w s k d =
      (if ra_Phase a = Succeeded
       then (case v of (advanced, reason, err) \<Rightarrow>
               if \<not> advanced \<and> reason = ''branch_unchanged''
               then pauseUnverifiedSuccess cfg w s2 e ''success_unverified_branch_unchanged'' None
               else if advanced \<and> reason = ''git_error''
               then pauseUnverifiedSuccess cfg w s2 e ''success_unverified_workspace_invalid'' err
               else settle_run cfg w s2 k e a)
       else settle_run cfg w s2 k e a)"
    using completeRun_unfold [OF assms(1), where d = d and w = w and cfg = cfg] unfolding a_def [symmetric] v_def [symmetric] by blast
  have q: "quiet s2 (post_comment cfg w (do_call w (workspace_Cleanup k) s2) k (completion_comment a))"
    by (rule quiet_trans [OF _ post_comment_quiet]) simp
  note adv = verify_cases [of w "ra_WorkspacePath (re_attempt e)" "is_BranchName (re_issue e)"
    "ra_ClaimHeadSha (re_attempt e)", folded v_def]
  have success: "quiet (removed k s) (settle_run cfg w s2 k e a)" if "ra_Phase a = Succeeded"
    using quiet_trans [OF s2 quiet_trans [OF q releaseIssue_quiet]] that by (simp add: settle_run_def Let_def)
  have retry: "queued (retry_entry cfg w (is_ID (re_issue e)) a) (removed k s) (settle_run cfg w s2 k e a)"
    if "ra_Phase a \<noteq> Succeeded"
    using quiet_queued [OF quiet_trans [OF s2 q] backoffFromRunResult_queued] that by (simp add: settle_run_def Let_def)
  have aside: "\<exists>cause. set_aside (is_ID (re_issue e)) cause (removed k s) (pauseUnverifiedSuccess cfg w s2 e c err)" for c err
    by (rule exI) (rule quiet_set_aside [OF s2 pause_set_aside])
  show ?thesis
  proof (cases "ra_Phase a = Succeeded")
    case True
    from adv show ?thesis
      by (elim disjE insertE exE emptyE) (simp_all add: eq True aside success)
  qed (simp add: eq retry)
qed

text \<open>The calls that the end of a run makes.\<close>

lemma quiet_calls [simp]:
  "or_calls (emitIssueReleased w s k n) = or_calls s"
  by (simp add: emitters)

lemma releaseIssue_calls: "or_calls (releaseIssue w s k from n) = or_calls s @ [UpdateIssueState k Released, ReleaseIssue k]"
  by (simp add: releaseIssue_def Let_def call_def split: option.split)

lemma backoffFromRunResult_calls:
  "or_calls (enqueueBackoffFromRunResult cfg w s i a) = or_calls s @ [UpdateIssueState (is_ID i) RetryQueued, ReleaseIssue (is_ID i)]"
  by (simp add: enqueueBackoffFromRunResult_def Let_def call_def split: option.split)

lemma post_comment_calls: "\<exists>cs. or_calls (post_comment cfg w s k b) = or_calls s @ cs \<and> ReleaseIssue j \<notin> set cs"
  by (auto simp: post_comment_def)

lemma settle_calls:
  "\<exists>cs. or_calls (settle_run cfg w s k e a) = or_calls s @ cs @
     (if ra_Phase a = Succeeded then [UpdateIssueState k Released, ReleaseIssue k]
      else [UpdateIssueState (is_ID (re_issue e)) RetryQueued, ReleaseIssue (is_ID (re_issue e))])"
  using post_comment_calls [of cfg w "do_call w (workspace_Cleanup k) s" k "completion_comment a"]
  by (auto simp: settle_run_def Let_def releaseIssue_calls backoffFromRunResult_calls)

lemma pause_calls:
  "\<exists>cs. or_calls (pauseUnverifiedSuccess cfg w s e c err) = or_calls s @ cs \<and> ReleaseIssue j \<notin> set cs"
  by (auto simp: pauseUnverifiedSuccess_def Let_def post_comment_def)

lemma completeRun_calls:
  fixes s :: orch and w :: world and d :: "go_error option" and cfg :: workflow_config
  assumes "map_of (or_running s) k = Some e"
  defines "a \<equiv> final_attempt (re_attempt e) d"
    and "v \<equiv> verifyBranchAdvanced w (ra_WorkspacePath (re_attempt e)) (is_BranchName (re_issue e)) (ra_ClaimHeadSha (re_attempt e))"
  shows "if ra_Phase a = Succeeded \<and> fst (snd v) \<in> {''branch_unchanged'', ''git_error''}
    then \<exists>cs. or_calls (completeRun cfg w s k d) = or_calls s @ cs \<and> ReleaseIssue k \<notin> set cs
    else \<exists>cs. or_calls (completeRun cfg w s k d) = or_calls s @ cs @
      (if ra_Phase a = Succeeded then [UpdateIssueState k Released, ReleaseIssue k]
       else [UpdateIssueState (is_ID (re_issue e)) RetryQueued, ReleaseIssue (is_ID (re_issue e))])"
proof -
  obtain s2 where s2: "or_calls s2 = or_calls s" and eq: "completeRun cfg w s k d =
      (if ra_Phase a = Succeeded
       then (case v of (advanced, reason, err) \<Rightarrow>
               if \<not> advanced \<and> reason = ''branch_unchanged''
               then pauseUnverifiedSuccess cfg w s2 e ''success_unverified_branch_unchanged'' None
               else if advanced \<and> reason = ''git_error''
               then pauseUnverifiedSuccess cfg w s2 e ''success_unverified_workspace_invalid'' err
               else settle_run cfg w s2 k e a)
       else settle_run cfg w s2 k e a)"
    using completeRun_unfold [OF assms(1), where d = d and w = w and cfg = cfg] unfolding a_def [symmetric] v_def [symmetric] by blast
  have pause: "\<exists>cs. or_calls (pauseUnverifiedSuccess cfg w s2 e c err) = or_calls s @ cs \<and> ReleaseIssue k \<notin> set cs" for c err
    using pause_calls [of cfg w s2 e c err k] by (simp add: s2)
  note settle = settle_calls [of cfg w s2 k e a, unfolded s2]
  show ?thesis
  proof (cases "ra_Phase a = Succeeded")
    case True
    from verify_cases [of w "ra_WorkspacePath (re_attempt e)" "is_BranchName (re_issue e)"
      "ra_ClaimHeadSha (re_attempt e)", folded v_def] show ?thesis
      by (elim disjE insertE exE emptyE) (use pause settle in \<open>simp_all add: eq True\<close>)
  next
    case False
    with settle show ?thesis by (simp add: eq)
  qed
qed

lemma removed_free:
  assumes "orch_inv s" and "map_of (or_running s) k = Some e"
  shows "is_ID (re_issue e) = k" and "k \<noteq> []" and "\<not> isManagedIssue (removed k s) k"
proof -
  show "is_ID (re_issue e) = k" "k \<noteq> []" using assms by (auto simp: orch_inv_def runs_ok_def)
  have "k \<notin> set (backoff_ids s)" "map_of (or_paused s) k = None"
    using assms by (auto simp: orch_inv_def queues_ok_def)
  then show "\<not> isManagedIssue (removed k s) k"
    by (simp add: managed_iff removed_def backoff_ids_def)
qed

lemma completeRun_inv: "orch_inv s \<Longrightarrow> orch_inv (completeRun cfg w s k d)"
proof (cases "map_of (or_running s) k")
  case (Some e)
  assume inv: "orch_inv s"
  note free = removed_free [OF inv Some]
  have free': "map_of (or_running (removed k s)) k = None" "map_of (or_paused (removed k s)) k = None"
    "k \<notin> set (backoff_ids (removed k s))" using free(3) by (simp_all add: managed_iff)
  have a: "orch_inv t" if "set_aside k c (removed k s) t" for c t
    using set_aside_inv [OF removed_inv [OF inv] that] free' by blast
  have b: "orch_inv t" if "quiet (removed k s) t" for t
    using quiet_inv [OF that removed_inv [OF inv]] .
  have c: "orch_inv t" if "queued (retry_entry cfg w k a) (removed k s) t" for a t
    using queued_inv [OF removed_inv [OF inv] that] free(2) free' by simp
  show ?thesis
    using completeRun_cases [OF Some, where d = d and w = w and cfg = cfg] a b c unfolding free(1)
    by (auto split: if_splits)
qed (simp add: completeRun_def)

lemma handleRunSignal_inv: "orch_inv s \<Longrightarrow> orch_inv (handleRunSignal cfg w s sig)"
  by (simp add: handleRunSignal_def Let_def completeRun_inv handleAgentEvent_inv split: option.split)

lemma StopAgent_inv: "orch_inv s \<Longrightarrow> orch_inv (snd (StopAgent cfg w s k))"
proof -
  assume inv: "orch_inv s"
  have "orch_inv (do_call w c (do_call w c' (stopRun w s k)))" for c c'
    by (rule quiet_inv [OF _ stopRun_inv [OF inv, of w k]]) simp
  then show ?thesis using inv by (simp add: StopAgent_def Let_def status_inv)
qed

lemma shutdown_runs_quiet: "quiet s t \<Longrightarrow> quiet s (foldl (shutdown_run w) t runs)"
  by (induction runs arbitrary: t) (auto simp: shutdown_run_def)

lemma shutdown_inv: "orch_inv s \<Longrightarrow> orch_inv (snd (orch_gracefulShutdown w s))"
proof -
  assume inv: "orch_inv s"
  let ?t = "s\<lparr>or_shutdownOnce := True, or_running := [], or_stats := (or_stats s)\<lparr>st_Running := 0\<rparr>\<rparr>"
  have "orch_inv (s\<lparr>or_running := [], or_stats := (or_stats s)\<lparr>st_Running := 0\<rparr>\<rparr>)"
    by (rule runs_update_inv [OF inv]) simp_all
  then have t: "orch_inv ?t"
    by (simp add: orch_inv_def runs_ok_def queues_ok_def backoff_ids_def cache_ok_def)
  have "orch_inv (snd (call w CleanupAll (foldl (shutdown_run w) ?t runs)))" for runs
    by (rule quiet_inv [OF _ t]) (simp add: shutdown_runs_quiet)
  then show ?thesis using inv by (simp add: orch_gracefulShutdown_def Let_def)
qed

lemma orch_step_inv: "orch_step s t \<Longrightarrow> orch_inv s \<Longrightarrow> orch_inv t"
proof (induction rule: orch_step.induct)
  case (step_read s e es)
  then show ?case by (simp add: orch_inv_def runs_ok_def queues_ok_def backoff_ids_def cache_ok_def)
next
  case (step_close s)
  then show ?case
    by (simp add: close_events_def orch_inv_def runs_ok_def queues_ok_def backoff_ids_def cache_ok_def)
qed (auto intro: runCycle_inv handleRunSignal_inv StopAgent_inv shutdown_inv)

lemma orch_reachable_inv: "orch_reachable s \<Longrightarrow> orch_inv s"
proof (induction rule: orch_reachable.induct)
  case (start cfg now)
  then show ?case
    by (simp add: NewOrchestrator_def orch_inv_def runs_ok_def queues_ok_def backoff_ids_def cache_ok_def maxIssueCacheSize_def)
qed (auto intro: orch_step_inv)

section \<open>Sizes, blockers, retries and tokens\<close>

lemma length_fput_le: "length (fput k v d) \<le> Suc (length d)"
  by (induction d) auto

lemma length_fdel_le: "length (fdel k d) \<le> length d"
  by (simp add: fdel_def)

lemma length_fdel_all_le: "length (fdel_all ks d) \<le> length d"
  by (induction ks arbitrary: d) (auto intro: order_trans [OF _ length_fdel_le])

lemma dispatched_length: "dispatched issue n s t \<Longrightarrow> length (or_running t) \<le> Suc (length (or_running s))"
  unfolding dispatched_def queued_def started_def by (elim disjE exE conjE) (simp_all add: length_fput_le)

definition within :: "int \<Rightarrow> orch \<Rightarrow> bool" where
  "within m s \<longleftrightarrow> int (length (or_running s)) \<le> m"

lemma dispatch_within:
  "within m s \<Longrightarrow> canDispatch s c \<Longrightarrow> c \<le> m \<Longrightarrow> within m (dispatchIssue cfg w s issue n)"
  using dispatched_length [of issue n s "dispatchIssue cfg w s issue n"] dispatchIssue_dispatched [of issue n s cfg w]
  by (cases "is_ID issue = []") (auto simp: within_def canDispatch_def checkBoundedConcurrency_def dispatchIssue_def)

lemma dispatch_ready_within:
  "wc_MaxConcurrency cfg \<le> m \<Longrightarrow> within m s \<Longrightarrow> within m (dispatch_ready cfg w is ready s)"
proof (induction ready arbitrary: s)
  case (Cons e ready)
  have "within m (requeueBackoff s e)" "within m (enqueueContinuation cfg w s k n msg)" for k n msg
    using Cons.prems by (simp_all add: within_def requeueBackoff_def enqueueContinuation_def Let_def)
  with Cons dispatch_within [OF Cons.prems(2) _ Cons.prems(1)] show ?case by (simp split: option.split)
qed simp

lemma retry_pass_within: "wc_MaxConcurrency cfg \<le> m \<Longrightarrow> within m s \<Longrightarrow> within m (retry_pass cfg w s)"
proof -
  assume m: "wc_MaxConcurrency cfg \<le> m" "within m s"
  have "or_running (foldl (\<lambda>s k. case map_of d k of None \<Rightarrow> s | Some issue \<Rightarrow> putIssueCacheLocked s k issue) s ks) = or_running s" for d ks s
    by (induction ks arbitrary: s) (auto split: option.split)
  then have c: "within m (cache_issues w d s)" for d using m(2) by (simp add: within_def cache_issues_def)
  have "within m (s'\<lparr>or_backoff := b\<rparr>) = within m s'" for b s' by (simp add: within_def)
  with c m(1) show ?thesis by (simp add: retry_pass_def dispatchReadyBackoff_def Let_def dispatch_ready_within)
qed

lemma unclaimed_pass_within: "wc_MaxConcurrency cfg \<le> m \<Longrightarrow> within m s \<Longrightarrow> within m (unclaimed_pass cfg w s)"
  unfolding unclaimed_pass_def dispatchUnclaimedIssues_def
  by (rule dispatch_unclaimed_induct [where P = "within m"])
    (auto simp: within_def quiet_def recoverOrphanedClaims_def Let_def dispatchable_def
      intro!: dispatch_within [unfolded within_def])

lemma reconcile_length: "length (or_running (reconcileRunning cfg w s)) \<le> length (or_running s)"
proof -
  have "length (fdel_all ks (map f (filter P d))) \<le> length d" for ks P and f :: "string \<times> runEntry \<Rightarrow> string \<times> runEntry" and d
    using length_fdel_all_le [of ks "map f (filter P d)"] length_filter_le [of P d] by (simp del: length_filter_le)
  then show ?thesis by (simp add: reconcileRunning_def Let_def)
qed

lemma detectStalled_length: "length (or_running (detectStalledRuns cfg w s)) \<le> length (or_running s)"
proof -
  have "length (fdel_all ks (map f d)) \<le> length d" for ks and f :: "string \<times> runEntry \<Rightarrow> string \<times> runEntry" and d
    using length_fdel_all_le [of ks "map f d"] by simp
  then show ?thesis by (simp add: detectStalledRuns_def Let_def)
qed

lemma before_fetch_within: "within m s \<Longrightarrow> within m (before_fetch cfg w s)"
proof -
  assume "within m s"
  moreover have "length (or_running (before_fetch cfg w s)) \<le> length (or_running s)"
    unfolding before_fetch_def using detectStalled_length reconcile_length
    by (metis (no_types, lifting) le_trans orch.select_convs(1) orch.surjective orch.update_convs(6))
  ultimately show ?thesis by (simp add: within_def)
qed

lemma release_blocked_running:
  "or_running (release_blocked w m openIDs ks s) =
     fdel_all (filter (\<lambda>k. case map_of m k of None \<Rightarrow> False | Some i \<Rightarrow> unresolvedBlockers (is_BlockedBy i) openIDs \<noteq> []) ks) (or_running s)"
  by (induction ks arbitrary: s) (auto split: option.split)

lemma release_blocked_within: "within m s \<Longrightarrow> within m (release_blocked w d openIDs ks s)"
  unfolding within_def release_blocked_running by (meson length_fdel_all_le of_nat_mono order_trans)

text \<open>A retry is still known: in the queue, or running.\<close>

definition tracked :: "BackoffEntry \<Rightarrow> orch \<Rightarrow> bool" where
  "tracked e s \<longleftrightarrow>
     (\<exists>e' \<in> set (or_backoff s). be_IssueID e' = be_IssueID e \<and> be_Attempt e' \<in> {be_Attempt e, be_Attempt e + 1})
   \<or> (\<exists>r. map_of (or_running s) (be_IssueID e) = Some r \<and> ra_Attempt (re_attempt r) = be_Attempt e)"

lemma upsert_mem: "e \<in> set (upsertBackoff es e)"
  by (induction es) auto

lemma upsert_keeps: "x \<in> set es \<Longrightarrow> be_IssueID x \<noteq> be_IssueID e \<Longrightarrow> x \<in> set (upsertBackoff es e)"
  by (induction es) auto

lemma dispatched_tracks:
  "dispatched i (be_Attempt e) s t \<Longrightarrow> is_ID i = be_IssueID e \<Longrightarrow> tracked e t"
  unfolding dispatched_def
proof (elim disjE exE conjE)
  fix x assume "is_ID i = be_IssueID e" "be_IssueID x = is_ID i" "be_Attempt x \<in> {be_Attempt e, be_Attempt e + 1}" "queued x s t"
  then show "tracked e t" unfolding tracked_def queued_def using upsert_mem [of x "or_backoff s"] by auto
next
  fix x assume "is_ID i = be_IssueID e" "re_issue x = i" "ra_Attempt (re_attempt x) = be_Attempt e" "started x s t"
  then show "tracked e t" unfolding tracked_def started_def by simp
qed

lemma dispatched_keeps_tracked:
  "dispatched i n s t \<Longrightarrow> is_ID i \<noteq> be_IssueID e \<Longrightarrow> tracked e s \<Longrightarrow> tracked e t"
  unfolding dispatched_def
proof (elim disjE exE conjE)
  fix x assume "is_ID i \<noteq> be_IssueID e" "be_IssueID x = is_ID i" "queued x s t" "tracked e s"
  then show "tracked e t" unfolding tracked_def queued_def using upsert_keeps [of _ "or_backoff s" x] by fastforce
next
  fix x assume "is_ID i \<noteq> be_IssueID e" "re_issue x = i" "started x s t" "tracked e s"
  then show "tracked e t" unfolding tracked_def started_def by auto
qed

lemma dispatch_ready_tracks:
  assumes "keyed_issues m" and "orch_inv s" and "pending_ok ready s"
    and "e \<in> set ready \<or> tracked e s \<and> be_IssueID e \<notin> be_IssueID ` set ready"
  shows "tracked e (dispatch_ready cfg w m ready s)"
  using assms
proof (induction ready arbitrary: s)
  case Nil
  then show ?case by simp
next
  case (Cons x ready)
  let ?t = "ready_turn cfg w m x s"
  have x: "be_IssueID x \<noteq> []" "\<not> isManagedIssue s (be_IssueID x)" "cache_ok s" "be_IssueID x \<notin> be_IssueID ` set ready"
    using Cons.prems by (auto simp: pending_ok_def orch_inv_def)
  obtain i where i: "is_ID i = be_IssueID x" "dispatched i (be_Attempt x) s ?t"
    using ready_turn_cases [OF Cons.prems(1) x(3,1,2)] by blast
  have "e \<in> set ready \<or> tracked e ?t \<and> be_IssueID e \<notin> be_IssueID ` set ready"
    using Cons.prems(4) dispatched_tracks [OF i(2)] dispatched_keeps_tracked [OF i(2), of e] i(1) x(4) by auto
  then show ?case
    using Cons.IH [of ?t] ready_turn_keeps [OF Cons.prems(1,2,3)] Cons.prems(1)
    by (simp add: dispatch_ready_turn del: dispatch_ready.simps)
qed

lemma dispatched_keeps_entry:
  "dispatched i n s t \<Longrightarrow> e \<in> set (or_backoff s) \<Longrightarrow> be_IssueID e \<noteq> is_ID i \<Longrightarrow> e \<in> set (or_backoff t)"
  unfolding dispatched_def by (elim disjE exE conjE) (simp_all add: queued_def started_def upsert_keeps)

lemma dispatch_ready_keeps:
  "keyed_issues m \<Longrightarrow> orch_inv s \<Longrightarrow> pending_ok ready s \<Longrightarrow> e \<in> set (or_backoff s) \<Longrightarrow>
   be_IssueID e \<notin> be_IssueID ` set ready \<Longrightarrow> e \<in> set (or_backoff (dispatch_ready cfg w m ready s))"
proof (induction ready arbitrary: s)
  case (Cons x ready)
  let ?t = "ready_turn cfg w m x s"
  have x: "be_IssueID x \<noteq> []" "\<not> isManagedIssue s (be_IssueID x)" "cache_ok s"
    using Cons.prems by (auto simp: pending_ok_def orch_inv_def)
  obtain i where i: "is_ID i = be_IssueID x" "dispatched i (be_Attempt x) s ?t"
    using ready_turn_cases [OF Cons.prems(1) x(3,1,2)] by blast
  then have "e \<in> set (or_backoff ?t)"
    using dispatched_keeps_entry [OF i(2) Cons.prems(4)] Cons.prems(5) by simp
  then show ?case
    using Cons.IH [of ?t] ready_turn_keeps [OF Cons.prems(1,2,3)] Cons.prems(1,5)
    by (simp add: dispatch_ready_turn del: dispatch_ready.simps)
qed simp

lemma stopRun_calls: "\<exists>cs. or_calls (stopRun w s k) = or_calls s @ cs \<and> (\<forall>c \<in> set cs. \<exists>p. c = agent_Stop p)"
  by (auto simp: stopRun_def Let_def split: option.split)

lemma stopRuns_calls:
  "\<exists>cs. or_calls (foldl (stopRun w) s ks) = or_calls s @ cs \<and> (\<forall>c \<in> set cs. \<exists>p. c = agent_Stop p)"
proof (induction ks arbitrary: s)
  case (Cons k ks)
  obtain cs where cs: "or_calls (stopRun w s k) = or_calls s @ cs" "\<forall>c \<in> set cs. \<exists>p. c = agent_Stop p"
    using stopRun_calls by blast
  obtain cs' where cs': "or_calls (foldl (stopRun w) (stopRun w s k) ks) = or_calls (stopRun w s k) @ cs'"
    "\<forall>c \<in> set cs'. \<exists>p. c = agent_Stop p" using Cons.IH by blast
  show ?case by (rule exI [of _ "cs @ cs'"]) (use cs cs' in auto)
qed simp

lemma wrap64_add: "wrap64 (wrap64 a + b) = wrap64 (a + b)"
proof -
  have "((a + 2 ^ 63) mod 2 ^ 64 + b) mod 2 ^ 64 = (a + 2 ^ 63 + b) mod (2 ^ 64 :: int)"
    by (rule mod_add_left_eq)
  then show ?thesis by (simp add: wrap64_def algebra_simps)
qed

text \<open>The counters of the run of an issue, and the totals.\<close>

definition counted :: "string \<Rightarrow> int \<Rightarrow> int \<Rightarrow> orch \<Rightarrow> bool" where
  "counted k m n s \<longleftrightarrow> (\<exists>e. map_of (or_running s) k = Some e \<and> ra_TokensIn (re_attempt e) = m \<and> ra_TokensOut (re_attempt e) = n)"

lemma handleAgentEvent_counts:
  assumes "counted k m n s" and "parseUsageTokens (ae_Data ev) = (i, out)"
    and "st_TotalTokensIn (or_stats s) = wrap64 x" and "st_TotalTokensOut (or_stats s) = wrap64 y"
  shows "counted k (max m i) (max n out) (handleAgentEvent w s k ev)
    \<and> st_TotalTokensIn (or_stats (handleAgentEvent w s k ev)) = wrap64 (x + (max m i - m))
    \<and> st_TotalTokensOut (or_stats (handleAgentEvent w s k ev)) = wrap64 (y + (max n out - n))"
proof -
  obtain e where e: "map_of (or_running s) k = Some e" "ra_TokensIn (re_attempt e) = m" "ra_TokensOut (re_attempt e) = n"
    using assms(1) by (auto simp: counted_def)
  have w2: "wrap64 (wrap64 a + wrap64 b) = wrap64 (a + b)" for a b
    using wrap64_add [of a "wrap64 b"] wrap64_add [of b a] by (simp add: add.commute)
  show ?thesis
    unfolding handleAgentEvent_def e(1) option.case assms(2) Let_def split
    by (simp add: counted_def e assms(3,4) w2 max_def)
qed

lemma events_counted:
  assumes "counted k m n s" and "st_TotalTokensIn (or_stats s) = wrap64 x" and "st_TotalTokensOut (or_stats s) = wrap64 y"
  shows "let t = foldl (\<lambda>s (w, ev). handleAgentEvent w s k ev) s evs;
             reported = map (\<lambda>(w, ev). parseUsageTokens (ae_Data ev)) evs;
             m' = fold max (map fst reported) m; n' = fold max (map snd reported) n
         in counted k m' n' t \<and> st_TotalTokensIn (or_stats t) = wrap64 (x + (m' - m))
          \<and> st_TotalTokensOut (or_stats t) = wrap64 (y + (n' - n))"
  using assms
proof (induction evs arbitrary: s m n x y)
  case Nil
  then show ?case by simp
next
  case (Cons p evs)
  obtain w ev where p: "p = (w, ev)" by (cases p)
  obtain i out where u: "parseUsageTokens (ae_Data ev) = (i, out)" by (meson surj_pair)
  note step = handleAgentEvent_counts [OF Cons.prems(1) u Cons.prems(2,3), of w]
  have a: "x + (max m i - m) + (z - max m i) = x + (z - m)" "y + (max n out - n) + (z - max n out) = y + (z - n)" for z
    by simp_all
  show ?case
    using Cons.IH [OF conjunct1 [OF step] conjunct1 [OF conjunct2 [OF step]] conjunct2 [OF conjunct2 [OF step]]]
    by (simp add: p u Let_def a max.commute)
qed

text \<open>The calls of a shutdown.\<close>

lemma shutdown_runs_calls:
  "or_calls (foldl (shutdown_run w) s runs) = or_calls s @ concat (map (\<lambda>r. [agent_Stop (re_process r),
     workspace_Cleanup (is_ID (re_issue r)), UpdateIssueState (is_ID (re_issue r)) Released, ReleaseIssue (is_ID (re_issue r))]) runs)"
  by (induction runs arbitrary: s) (auto simp: shutdown_run_def)

lemma shutdown_runs_once: "or_shutdownOnce (foldl (shutdown_run w) s runs) = or_shutdownOnce s"
  by (induction runs arbitrary: s) (auto simp: shutdown_run_def)

lemma concat_singletons: "(\<And>x. x \<in> set xs \<Longrightarrow> f x = [g x]) \<Longrightarrow> concat (map f xs) = map g xs"
  by (induction xs) auto

section \<open>What a cycle adds\<close>

lemma before_fetch_managed: "isManagedIssue (before_fetch cfg w s) k \<Longrightarrow> isManagedIssue s k"
proof -
  have filtered: "map_of (filter P d) k \<noteq> None \<Longrightarrow> map_of d k \<noteq> None" for P and d :: "runEntry fdir"
    by (induction d) (auto split: if_splits)
  have r: "map_of (or_running (reconcileRunning cfg w u)) k \<noteq> None \<Longrightarrow> map_of (or_running u) k \<noteq> None" for u
    using filtered [of _ "or_running u"]
    by (simp add: reconcileRunning_def Let_def fdel_all_lookup mapped_dir split: if_splits)
  have d: "map_of (or_running (detectStalledRuns cfg w u)) k \<noteq> None \<Longrightarrow> map_of (or_running u) k \<noteq> None" for u
    by (simp add: detectStalledRuns_def Let_def fdel_all_lookup mapped_dir split: if_splits)
  have "map_of (or_running (before_fetch cfg w s)) k \<noteq> None \<Longrightarrow> map_of (or_running s) k \<noteq> None"
    unfolding before_fetch_def by (drule d, drule r) simp
  moreover have "or_backoff (before_fetch cfg w s) = or_backoff s" "or_paused (before_fetch cfg w s) = or_paused s"
    by (simp_all add: before_fetch_def detectStalledRuns_def reconcileRunning_def Let_def)
  ultimately show "isManagedIssue (before_fetch cfg w s) k \<Longrightarrow> isManagedIssue s k"
    unfolding managed_iff backoff_ids_def by auto
qed

lemma call_managed [simp]: "isManagedIssue (snd (call w c s)) k = isManagedIssue s k"
  by (simp add: isManagedIssue_def)

lemma dispatch_ready_managed:
  "keyed_issues m \<Longrightarrow> orch_inv s \<Longrightarrow> pending_ok ready s \<Longrightarrow>
   isManagedIssue (dispatch_ready cfg w m ready s) k \<Longrightarrow> isManagedIssue s k \<or> k \<in> be_IssueID ` set ready"
proof (induction ready arbitrary: s)
  case (Cons x ready)
  let ?t = "ready_turn cfg w m x s"
  have x: "be_IssueID x \<noteq> []" "\<not> isManagedIssue s (be_IssueID x)" "cache_ok s"
    using Cons.prems by (auto simp: pending_ok_def orch_inv_def)
  obtain i where i: "is_ID i = be_IssueID x" "dispatched i (be_Attempt x) s ?t"
    using ready_turn_cases [OF Cons.prems(1) x(3,1,2)] by blast
  have "isManagedIssue ?t k \<or> k \<in> be_IssueID ` set ready"
    using Cons.IH [of ?t] ready_turn_keeps [OF Cons.prems(1,2,3)] Cons.prems(1,4)
    by (simp add: dispatch_ready_turn del: dispatch_ready.simps)
  then show ?case using dispatched_managed [OF i(2), of k] i(1) by auto
qed simp

lemma cache_issues_frame:
  "or_running (cache_issues w d s) = or_running s" "or_backoff (cache_issues w d s) = or_backoff s"
  "or_paused (cache_issues w d s) = or_paused s"
proof -
  let ?f = "\<lambda>s k. case map_of d k of None \<Rightarrow> s | Some issue \<Rightarrow> putIssueCacheLocked s k issue"
  have "or_running (foldl ?f s ks) = or_running s \<and> or_backoff (foldl ?f s ks) = or_backoff s
      \<and> or_paused (foldl ?f s ks) = or_paused s" for ks
    by (induction ks arbitrary: s) (auto split: option.split)
  then show "or_running (cache_issues w d s) = or_running s" "or_backoff (cache_issues w d s) = or_backoff s"
    "or_paused (cache_issues w d s) = or_paused s" by (simp_all add: cache_issues_def)
qed

lemma retry_pass_managed:
  assumes "orch_inv s" and "isManagedIssue (retry_pass cfg w s) k"
  shows "isManagedIssue s k"
proof -
  let ?c = "cache_issues w (issues_by_id (ow_issues w)) s" and ?P = "\<lambda>e. be_RetryAt e > ow_now w"
  have c: "isManagedIssue ?c k = isManagedIssue s k" by (simp add: isManagedIssue_def cache_issues_frame)
  have inv: "orch_inv ?c" using assms(1) by (simp add: cache_issues_inv keyed_issues_by_id)
  show ?thesis
  proof (cases "canDispatch ?c (wc_MaxConcurrency cfg)")
    case True
    then have "isManagedIssue (?c\<lparr>or_backoff := filter ?P (or_backoff ?c)\<rparr>) k
        \<or> k \<in> be_IssueID ` set (filter (\<lambda>e. \<not> ?P e) (or_backoff ?c))"
      using dispatch_ready_managed [OF keyed_issues_by_id split_backoff [OF inv, of ?P]] assms(2)
      by (simp add: retry_pass_def dispatchReadyBackoff_def Let_def)
    then show ?thesis using c by (auto simp: isManagedIssue_def)
  next
    case False
    then show ?thesis using assms(2) c by (simp add: retry_pass_def dispatchReadyBackoff_def)
  qed
qed

lemma unclaimed_pass_managed:
  "isManagedIssue (unclaimed_pass cfg w s) k \<Longrightarrow> isManagedIssue s k \<or>
     (\<exists>i \<in> set (ow_issues w). is_ID i = k \<and> is_State i \<in> {Unclaimed, Claimed}
        \<and> unresolvedBlockers (is_BlockedBy i) (buildOpenIDSet (ow_issues w)) = []
        \<and> (\<forall>sha sub. grepFn cfg w (wc_TrackerMainRef cfg) (is_Identifier i) \<noteq> GrepFound sha sub))"
proof -
  let ?ok = "\<lambda>k. \<exists>i \<in> set (ow_issues w). is_ID i = k \<and> is_State i \<in> {Unclaimed, Claimed}
        \<and> unresolvedBlockers (is_BlockedBy i) (buildOpenIDSet (ow_issues w)) = []
        \<and> (\<forall>sha sub. grepFn cfg w (wc_TrackerMainRef cfg) (is_Identifier i) \<noteq> GrepFound sha sub)"
  let ?issues = "fst (recoverOrphanedClaims (ow_issues w) s)"
  have orig: "?ok (is_ID i)" if "i \<in> set ?issues" "dispatchable cfg w (buildOpenIDSet (ow_issues w)) u i" for i u
    using that by (fastforce simp: recoverOrphanedClaims_def Let_def dispatchable_def)
  have "\<forall>k. isManagedIssue (unclaimed_pass cfg w s) k \<longrightarrow> isManagedIssue s k \<or> ?ok k"
    unfolding unclaimed_pass_def dispatchUnclaimedIssues_def
  proof (rule dispatch_unclaimed_induct [where P = "\<lambda>u. \<forall>k. isManagedIssue u k \<longrightarrow> isManagedIssue s k \<or> ?ok k"])
    fix u v assume "\<forall>k. isManagedIssue u k \<longrightarrow> isManagedIssue s k \<or> ?ok k" "quiet u v"
    then show "\<forall>k. isManagedIssue v k \<longrightarrow> isManagedIssue s k \<or> ?ok k" by (simp add: isManagedIssue_def quiet_def)
  next
    fix u i assume IH: "\<forall>k. isManagedIssue u k \<longrightarrow> isManagedIssue s k \<or> ?ok k" and i: "i \<in> set ?issues"
      "dispatchable cfg w (buildOpenIDSet (ow_issues w)) u i"
    show "\<forall>k. isManagedIssue (dispatchIssue cfg w u i 1) k \<longrightarrow> isManagedIssue s k \<or> ?ok k"
    proof (cases "is_ID i = []")
      case True
      then show ?thesis using IH by (simp add: dispatchIssue_def)
    next
      case False
      then show ?thesis
        using IH orig [OF i] dispatched_managed [OF dispatchIssue_dispatched [OF False]] by blast
    qed
  next
    show "\<forall>k. isManagedIssue (snd (recoverOrphanedClaims (ow_issues w) s)) k \<longrightarrow> isManagedIssue s k \<or> ?ok k"
      by (simp add: recoverOrphanedClaims_def Let_def isManagedIssue_def)
  qed
  then show "isManagedIssue (unclaimed_pass cfg w s) k \<Longrightarrow> isManagedIssue s k \<or> ?ok k" by blast
qed

lemma release_blocked_managed: "isManagedIssue (release_blocked w m openIDs ks s) k \<Longrightarrow> isManagedIssue s k"
proof (induction ks arbitrary: s)
  case (Cons j ks)
  have "isManagedIssue (do_call w c (stopRun w s j)) k \<Longrightarrow> isManagedIssue s k" for c
    by (auto simp: managed_iff stopRun_def Let_def backoff_ids_def split: option.splits if_splits)
  with Cons show ?case by (auto split: option.splits if_splits)
qed simp

text \<open>A cycle takes up only issues of the snapshot that are unclaimed or have an orphaned claim.\<close>

lemma runCycle_managed:
  assumes inv: "orch_inv s" and managed: "isManagedIssue (runCycle cfg w s) k"
  shows "isManagedIssue s k \<or> (\<exists>i \<in> set (ow_issues w). is_ID i = k \<and> is_State i \<in> {Unclaimed, Claimed})"
proof -
  let ?f = "snd (call w FetchIssues (before_fetch cfg w s))"
  have status: "isManagedIssue (emitStatusUpdate cfg w u) k = isManagedIssue u k" for u
    by (simp add: isManagedIssue_def emitters)
  have fetch: "isManagedIssue ?f k \<Longrightarrow> isManagedIssue s k"
    using before_fetch_managed [of cfg w s k] by (simp add: isManagedIssue_def call_def split: option.splits)
  from managed have "isManagedIssue ?f k \<or> isManagedIssue (after_fetch cfg w ?f) k"
    by (auto simp: runCycle_split Let_def status split: if_splits)
  then show ?thesis
  proof
    assume "isManagedIssue (after_fetch cfg w ?f) k"
    then have "isManagedIssue (unclaimed_pass cfg w (retry_pass cfg w ?f)) k"
      unfolding after_fetch_def releaseBlockedRunning_def by (rule release_blocked_managed)
    then show ?thesis
      using unclaimed_pass_managed [of cfg w "retry_pass cfg w ?f" k] fetch
        retry_pass_managed [OF fetch_inv [OF before_fetch_inv [OF inv]], of cfg w w cfg w k] by blast
  qed (use fetch in blast)
qed

end
