(* ===== verification/Orchestrator_Props.thy ===== *)
theory Orchestrator_Props
  imports Orchestrator_Runs
begin

text \<open>
  What the orchestrator guarantees: its bookkeeping over every sequence of steps, the limit on
  concurrent agents, the fate of every run and of every retry, blockers, token accounting and
  shutdown; each with an instance on a sample orchestrator.
\<close>

section \<open>A sample world\<close>

definition sample_issue :: Issue where
  "sample_issue = \<lparr>is_ID = ''i1'', is_Identifier = ''ABC-1'', is_Title = ''t'', is_Description = ''d'',
     is_State = Unclaimed, is_Priority = 1, is_Labels = [], is_URL = ''u'', is_BranchName = ''b'', is_BlockedBy = [],
     is_ModelOverride = [], is_CreatedAt = 1, is_UpdatedAt = 1\<rparr>"

definition sample_cfg :: workflow_config where
  "sample_cfg = \<lparr>wc_MaxConcurrency = 2, wc_MaxRetryBackoffMs = 60000, wc_AgentTimeoutMs = 1000, wc_StallTimeoutMs = 500,
     wc_Model = ''m'', wc_TrackerProjectURL = ''p'', wc_TrackerType = ''linear'', wc_LocalBoardDir = ''d'',
     wc_TrackerMainRef = ''main'', wc_AutoCloseAlreadyImplemented = False, wc_mainRefGate = False,
     wc_suppressLegacyComment = False\<rparr>"

definition sample_world :: "time \<Rightarrow> Issue list \<Rightarrow> world" where
  "sample_world now issues = \<lparr>ow_now = now, ow_fails = (\<lambda>_. None), ow_issues = issues, ow_workspace = (\<lambda>k. ''/w/'' @ k),
     ow_process = (\<lambda>_. \<lparr>pr_PID = 7, pr_SessionID = ''s'', pr_Done = True\<rparr>), ow_prompt = (\<lambda>_. Inr ''do it''),
     ow_revparse = (\<lambda>_ _. Inr ''abc''), ow_gitlog = (\<lambda>_ _. Inr []), ow_autoCloser = False, ow_range = (\<lambda>xs. xs)\<rparr>"

text \<open>One cycle that starts the sample issue.\<close>

definition sample_started :: orch where
  "sample_started = runCycle sample_cfg (sample_world 10 [sample_issue]) (NewOrchestrator sample_cfg 1)"

lemma sample_reachable: "orch_reachable sample_started"
  unfolding sample_started_def
  by (rule orch_reachable.more [OF orch_reachable.start]) (rule orch_step.step_cycle, simp add: sample_world_def)

definition sample_entry :: runEntry where
  "sample_entry = \<lparr>re_issue = sample_issue, re_attempt =
     \<lparr>ra_IssueID = ''i1'', ra_IssueIdentifier = ''ABC-1'', ra_Phase = InitializingSession, ra_Attempt = 1,
      ra_PID = 7, ra_StartTime = 10, ra_TokensIn = 0, ra_TokensOut = 0, ra_SessionID = ''s'',
      ra_LastEvent = ''agent_started'', ra_Error = [], ra_WorkspacePath = ''/w/i1'', ra_ClaimHeadSha = ''abc''\<rparr>,
     re_process = Some \<lparr>pr_PID = 7, pr_SessionID = ''s'', pr_Done = True\<rparr>, re_workspace = ''/w/i1'',
     re_lastEventAt = 10, re_lastActivityAt = 0, re_lastActivityKind = [], re_lastHeartbeatAt = 0\<rparr>"

lemma sample_running: "or_running sample_started = [(''i1'', sample_entry)]"
  by code_simp

section \<open>Properties\<close>

text \<open>
  C4. Bookkeeping of the orchestrator, after any sequence of cycles, run signals, stop requests,
  reads of the event channel and shutdowns: every issue is in at most one of the running table, the
  retry queue and the set of paused issues, so an issue set aside for review is never started or
  retried again; the retry queue holds an issue once; a run is stored under the id of its issue; the
  number of running agents in the statistics is the size of the table; and the issue cache has at
  most 1000 entries, its eviction order naming exactly the cached issues.
\<close>

theorem orchestrator_bookkeeping:
  assumes "orch_reachable s"
  shows "distinct (map be_IssueID (or_backoff s))
    \<and> (\<forall>e \<in> set (or_backoff s). map_of (or_running s) (be_IssueID e) = None \<and> map_of (or_paused s) (be_IssueID e) = None)
    \<and> (\<forall>k r. map_of (or_running s) k = Some r \<longrightarrow> is_ID (re_issue r) = k \<and> map_of (or_paused s) k = None)
    \<and> st_Running (or_stats s) = int (length (or_running s))
    \<and> length (or_issueCache s) \<le> 1000 \<and> distinct (or_issueCacheOrder s)
    \<and> set (or_issueCacheOrder s) = fst ` set (or_issueCache s) \<and> length (or_events s) \<le> 256"
proof -
  have inv: "runs_ok s" "queues_ok s" "cache_ok s" "length (or_events s) \<le> 256"
    using orch_reachable_inv [OF assms] by (simp_all add: orch_inv_def)
  have "\<forall>e \<in> set (or_backoff s). map_of (or_running s) (be_IssueID e) = None \<and> map_of (or_paused s) (be_IssueID e) = None"
    using inv(2) by (force simp: queues_ok_def backoff_ids_def)
  moreover have "map_of (or_paused s) k = None" if "map_of (or_running s) k = Some r" for k r
    using inv(2) that by (force simp: queues_ok_def)
  ultimately show ?thesis
    using inv by (simp add: runs_ok_def queues_ok_def backoff_ids_def cache_ok_def maxIssueCacheSize_def)
qed

theorem orchestrator_bookkeeping_witness:
  "st_Running (or_stats sample_started) = 1 \<and> or_running sample_started \<noteq> []"
  using orchestrator_bookkeeping [OF sample_reachable] by (simp add: sample_running)

text \<open>
  C5. The limit on concurrent agents: a cycle never raises the number of running agents above the
  configured maximum (when it was above, because the configuration was lowered, the cycle does not
  raise it further), and no signal, stop request or shutdown raises it.
\<close>

theorem concurrency_bounded:
  assumes "orch_reachable s"
  shows "int (length (or_running (runCycle cfg w s))) \<le> max (wc_MaxConcurrency cfg) (int (length (or_running s)))
    \<and> length (or_running (handleRunSignal cfg w s sig)) \<le> length (or_running s)
    \<and> length (or_running (snd (StopAgent cfg w s k))) \<le> length (or_running s)
    \<and> length (or_running (snd (orch_gracefulShutdown w s))) \<le> length (or_running s)"
proof -
  let ?m = "max (wc_MaxConcurrency cfg) (int (length (or_running s)))"
  have inv: "wf_dir (or_running s)" using orch_reachable_inv [OF assms] by (simp add: orch_inv_def runs_ok_def)
  have fetched: "within ?m (snd (call w FetchIssues (before_fetch cfg w s)))"
    using before_fetch_within [of ?m s cfg w] by (simp add: within_def)
  have "within ?m (unclaimed_pass cfg w (retry_pass cfg w (snd (call w FetchIssues (before_fetch cfg w s)))))"
    by (intro unclaimed_pass_within retry_pass_within fetched) simp_all
  then have "within ?m (after_fetch cfg w (snd (call w FetchIssues (before_fetch cfg w s))))"
    unfolding after_fetch_def releaseBlockedRunning_def by (rule release_blocked_within)
  with fetched have cycle: "within ?m (runCycle cfg w s)" by (simp add: runCycle_split emitters within_def)
  have event: "length (or_running (handleAgentEvent w s k' ev)) = length (or_running s)" for k' ev
    using inv by (auto simp: handleAgentEvent_def Let_def split_def length_fput_old split: option.split)
  have complete: "length (or_running (completeRun cfg w t k' d)) \<le> length (or_running t)" for t k' d
  proof (cases "map_of (or_running t) k'")
    case (Some e)
    then show ?thesis
      using completeRun_cases [OF Some, where d = d and w = w and cfg = cfg] length_fdel_le [of k' "or_running t"]
      by (auto simp: set_aside_def quiet_def queued_def removed_def split: if_splits)
  qed (simp add: completeRun_def)
  have "length (or_running (handleRunSignal cfg w s sig)) \<le> length (or_running s)"
    using complete event by (simp add: handleRunSignal_def Let_def split: option.split) (metis complete event)
  moreover have "length (or_running (snd (StopAgent cfg w s k))) \<le> length (or_running s)"
    by (simp add: StopAgent_def Let_def emitters length_fdel_le)
  moreover have "length (or_running (snd (orch_gracefulShutdown w s))) \<le> length (or_running s)"
    using shutdown_runs_quiet [OF quiet_refl] by (simp add: orch_gracefulShutdown_def Let_def quiet_def)
  ultimately show ?thesis using cycle by (simp add: within_def)
qed

theorem concurrency_bounded_witness:
  "int (length (or_running (runCycle sample_cfg (sample_world 20 [sample_issue]) sample_started))) \<le> 2"
  using concurrency_bounded [OF sample_reachable, of sample_cfg "sample_world 20 [sample_issue]"]
  by (simp add: sample_running sample_cfg_def)

text \<open>
  C14. The end of a run. When the process of a running issue ends, the run leaves the table and
  nothing else in it changes; then exactly one of three things happens. A success whose branch moved
  since the claim (or whose claim commit is unknown) is released: the last two calls set the issue to
  released and give up the claim. A success whose branch did not move, or whose workspace git cannot
  read, is set aside for review: no claim is given up and no retry queued. Anything else is put in
  the retry queue with the next attempt number, the back-off of this attempt and its error, after the
  issue was marked as waiting for a retry and the claim given up.
\<close>

theorem completeRun_settles:
  assumes "orch_reachable s" and "map_of (or_running s) k = Some e"
  shows "let t = completeRun cfg w s k d; a = final_attempt (re_attempt e) d;
             (advanced, reason, err) = verifyBranchAdvanced w (ra_WorkspacePath (re_attempt e))
               (is_BranchName (re_issue e)) (ra_ClaimHeadSha (re_attempt e));
             new = drop (length (or_calls s)) (or_calls t)
         in or_running t = fdel k (or_running s)
          \<and> (if ra_Phase a = Succeeded \<and> reason \<notin> {''branch_unchanged'', ''git_error''}
             then \<not> isManagedIssue t k \<and> (\<exists>cs. new = cs @ [UpdateIssueState k Released, ReleaseIssue k])
             else if ra_Phase a = Succeeded
             then map_of (or_paused t) k \<noteq> None \<and> or_backoff t = or_backoff s \<and> ReleaseIssue k \<notin> set new
             else retry_entry cfg w k a \<in> set (or_backoff t) \<and> or_paused t = or_paused s
                \<and> (\<exists>cs. new = cs @ [UpdateIssueState k RetryQueued, ReleaseIssue k]))"
proof -
  let ?t = "completeRun cfg w s k d" and ?a = "final_attempt (re_attempt e) d"
  let ?v = "verifyBranchAdvanced w (ra_WorkspacePath (re_attempt e)) (is_BranchName (re_issue e)) (ra_ClaimHeadSha (re_attempt e))"
  note inv = orch_reachable_inv [OF assms(1)]
  note free = removed_free [OF inv assms(2)]
  note cases = completeRun_cases [OF assms(2), where d = d and w = w and cfg = cfg, unfolded free(1)]
  note calls = completeRun_calls [OF assms(2), where d = d and w = w and cfg = cfg, unfolded free(1)]
  obtain advanced reason err where v: "?v = (advanced, reason, err)" by (cases ?v)
  have rem: "or_running (removed k s) = fdel k (or_running s)" "or_backoff (removed k s) = or_backoff s"
    "or_paused (removed k s) = or_paused s" by (simp_all add: removed_def)
  have notman: "\<not> isManagedIssue t k" if "quiet (removed k s) t" for t
    using free(3) that by (simp add: managed_iff quiet_def backoff_ids_def)
  show ?thesis
    using cases calls upsert_mem notman unfolding v Let_def split
    by (simp add: rem set_aside_def queued_def quiet_def split: if_splits) (auto simp: rem)
qed

theorem completeRun_settles_witness:
  "map_of (or_paused (completeRun sample_cfg (sample_world 30 []) sample_started ''i1'' None)) ''i1'' \<noteq> None
 \<and> or_running (completeRun sample_cfg (sample_world 30 []) sample_started ''i1'' (Some (ErrMsg ''exit 1''))) = []"
proof -
  let ?w = "sample_world 30 []"
  have run: "map_of (or_running sample_started) ''i1'' = Some sample_entry" by (simp add: sample_running)
  have phase: "ra_Phase (final_attempt (re_attempt sample_entry) None) = Succeeded" by code_simp
  have v: "verifyBranchAdvanced ?w (ra_WorkspacePath (re_attempt sample_entry)) (is_BranchName (re_issue sample_entry))
      (ra_ClaimHeadSha (re_attempt sample_entry)) = (False, ''branch_unchanged'', None)" by code_simp
  show ?thesis
    using completeRun_settles [OF sample_reachable run, of sample_cfg ?w None]
      completeRun_settles [OF sample_reachable run, of sample_cfg ?w "Some (ErrMsg ''exit 1'')"]
    by (simp add: Let_def v phase sample_running fdel_def)
qed

text \<open>
  C6. No retry is lost when the queue is served: after \<open>dispatchReadyBackoff\<close> every entry that was in
  the retry queue is still in it with its attempt number or the next one (when the agent could not be
  started), or its issue is running with that attempt number; and an entry whose time has not come is
  kept as it is.
\<close>

theorem no_retry_is_lost:
  assumes "orch_reachable s" and "e \<in> set (or_backoff s)"
  shows "let t = dispatchReadyBackoff cfg w (issues_by_id issues) s in
      ((\<exists>e' \<in> set (or_backoff t). be_IssueID e' = be_IssueID e \<and> be_Attempt e' \<in> {be_Attempt e, be_Attempt e + 1})
     \<or> (\<exists>r. map_of (or_running t) (be_IssueID e) = Some r \<and> ra_Attempt (re_attempt r) = be_Attempt e))
    \<and> (be_RetryAt e > ow_now w \<longrightarrow> e \<in> set (or_backoff t))"
proof (cases "canDispatch s (wc_MaxConcurrency cfg)")
  case False
  then show ?thesis using assms(2) by (auto simp: dispatchReadyBackoff_def Let_def)
next
  case True
  let ?P = "\<lambda>x. be_RetryAt x > ow_now w"
  let ?u = "s\<lparr>or_backoff := filter ?P (or_backoff s)\<rparr>" and ?ready = "filter (\<lambda>x. \<not> ?P x) (or_backoff s)"
  let ?m = "issues_by_id issues"
  have inv: "orch_inv s" using orch_reachable_inv [OF assms(1)] .
  note split = split_backoff [OF inv, of ?P]
  have t: "dispatchReadyBackoff cfg w ?m s = dispatch_ready cfg w ?m ?ready ?u"
    using True by (simp add: dispatchReadyBackoff_def Let_def)
  have other: "be_IssueID e \<notin> be_IssueID ` set ?ready" if "?P e"
  proof
    assume "be_IssueID e \<in> be_IssueID ` set ?ready"
    then have "\<not> isManagedIssue ?u (be_IssueID e)" using split(2) unfolding pending_ok_def by auto
    with that assms(2) show False by (auto simp: isManagedIssue_def)
  qed
  have "tracked e ?u" if "?P e" using assms(2) that by (auto simp: tracked_def)
  then have "tracked e (dispatch_ready cfg w ?m ?ready ?u)"
    using dispatch_ready_tracks [OF keyed_issues_by_id split] assms(2) other by (cases "?P e") auto
  moreover have "e \<in> set (or_backoff (dispatch_ready cfg w ?m ?ready ?u))" if "?P e"
    using dispatch_ready_keeps [OF keyed_issues_by_id split] assms(2) that other by auto
  ultimately show ?thesis unfolding t Let_def tracked_def by blast
qed

text \<open>The sample run fails: its issue waits for the second attempt.\<close>

definition sample_failed :: orch where
  "sample_failed = handleRunSignal sample_cfg (sample_world 30 []) sample_started
     \<lparr>rs_issueID = ''i1'', rs_event = None, rs_done = True, rs_err = Some (ErrMsg ''exit 1'')\<rparr>"

definition sample_retry :: BackoffEntry where
  "sample_retry = retry_entry sample_cfg (sample_world 30 []) ''i1''
     (final_attempt (re_attempt sample_entry) (Some (ErrMsg ''exit 1'')))"

lemma sample_failed_reachable: "orch_reachable sample_failed"
  unfolding sample_failed_def by (rule orch_reachable.more [OF sample_reachable orch_step.step_signal])

lemma sample_failed_backoff: "or_backoff sample_failed = [sample_retry]"
proof -
  have run: "map_of (or_running sample_started) ''i1'' = Some sample_entry" by (simp add: sample_running)
  have empty: "or_backoff sample_started = []" by code_simp
  have phase: "ra_Phase (final_attempt (re_attempt sample_entry) (Some (ErrMsg ''exit 1''))) = Failed" by code_simp
  have k: "is_ID (re_issue sample_entry) = ''i1''" by code_simp
  show ?thesis
    using completeRun_cases [OF run, where d = "Some (ErrMsg ''exit 1'')" and w = "sample_world 30 []" and cfg = sample_cfg]
    by (simp add: phase k queued_def removed_def empty sample_failed_def handleRunSignal_def sample_retry_def)
qed

theorem no_retry_is_lost_witness:
  "let t = dispatchReadyBackoff sample_cfg (sample_world 40 []) (issues_by_id [sample_issue]) sample_failed
   in ''i1'' \<in> be_IssueID ` set (or_backoff t) \<union> dom (map_of (or_running t))"
  using no_retry_is_lost [OF sample_failed_reachable, of sample_retry sample_cfg "sample_world 40 []" "[sample_issue]"]
  by (auto simp: sample_failed_backoff Let_def sample_retry_def intro: rev_image_eqI)

text \<open>
  A run that stalls is stopped and dropped: it is no longer running and not paused, the retry queue and the paused issues are as before, the only calls
  made stop agents (the tracker is told nothing, the claim is not given up, the workspace is not
  cleaned up), and the signal that its process ended is ignored afterwards.
\<close>

theorem stalled_run_is_dropped:
  assumes "orch_reachable s" and "\<And>xs. mset (ow_range w xs) = mset xs"
    and "map_of (or_running s) k = Some e" and "stalled (ow_now w) (wc_StallTimeoutMs cfg) e"
  shows "let t = detectStalledRuns cfg w s in
      map_of (or_running t) k = None \<and> or_backoff t = or_backoff s \<and> or_paused t = or_paused s
    \<and> (\<exists>cs. or_calls t = or_calls s @ cs \<and> (\<forall>c \<in> set cs. \<exists>p. c = agent_Stop p))
    \<and> \<not> isManagedIssue t k \<and> completeRun cfg' w' t k d = t"
proof -
  let ?t = "detectStalledRuns cfg w s"
  have inv: "orch_inv s" using orch_reachable_inv [OF assms(1)] .
  have "k \<in> set (map fst (or_running s))" using assms(3) by (force dest: map_of_SomeD)
  then have "k \<in> set (ow_range w (map fst (or_running s)))" using assms(2) by (metis set_mset_mset)
  then have "k \<in> set (keys_where w (stalled (ow_now w) (wc_StallTimeoutMs cfg)) (or_running s))"
    using assms(3,4) by (simp add: keys_where_def)
  then have gone: "map_of (or_running ?t) k = None"
    by (simp add: detectStalledRuns_def Let_def fdel_all_lookup)
  have same: "or_backoff ?t = or_backoff s" "or_paused ?t = or_paused s"
    by (simp_all add: detectStalledRuns_def Let_def)
  have "\<not> isManagedIssue ?t k"
    using removed_free(3) [OF inv assms(3)] gone by (simp add: managed_iff same backoff_ids_def removed_def)
  moreover have "completeRun cfg' w' ?t k d = ?t" using gone by (simp add: completeRun_def)
  moreover have "\<exists>cs. or_calls ?t = or_calls s @ cs \<and> (\<forall>c \<in> set cs. \<exists>p. c = agent_Stop p)"
    using stopRuns_calls [of w "s\<lparr>or_running := r\<rparr>" for r] by (fastforce simp: detectStalledRuns_def Let_def)
  ultimately show ?thesis using gone same by (simp add: Let_def)
qed

theorem stalled_run_is_dropped_witness:
  "map_of (or_running (detectStalledRuns sample_cfg (sample_world 1000000000 []) sample_started)) ''i1'' = None
 \<and> or_backoff (detectStalledRuns sample_cfg (sample_world 1000000000 []) sample_started) = or_backoff sample_started"
proof -
  have run: "map_of (or_running sample_started) ''i1'' = Some sample_entry" by (simp add: sample_running)
  have stalled: "stalled (ow_now (sample_world 1000000000 [])) (wc_StallTimeoutMs sample_cfg) sample_entry" by code_simp
  have range: "mset (ow_range (sample_world 1000000000 []) xs) = mset xs" for xs by (simp add: sample_world_def)
  show ?thesis
    using stalled_run_is_dropped [OF sample_reachable range run stalled] by (simp add: Let_def)
qed

text \<open>
  C16. Token accounting: the agents report cumulative counters, possibly repeated or lower than
  before. After any events of a run its counters are the largest values reported so far, and the
  totals of the orchestrator grew by exactly what the run's counters grew by (in 64-bit arithmetic),
  so no token is counted twice.
\<close>

theorem tokens_counted_once:
  assumes "map_of (or_running s) k = Some e" and "in_int64 (st_TotalTokensIn (or_stats s))"
    and "in_int64 (st_TotalTokensOut (or_stats s))"
  shows "let t = foldl (\<lambda>s (w, ev). handleAgentEvent w s k ev) s evs;
             reported = map (\<lambda>(w, ev). parseUsageTokens (ae_Data ev)) evs;
             m = fold max (map fst reported) (ra_TokensIn (re_attempt e));
             n = fold max (map snd reported) (ra_TokensOut (re_attempt e))
         in (\<exists>e'. map_of (or_running t) k = Some e' \<and> ra_TokensIn (re_attempt e') = m \<and> ra_TokensOut (re_attempt e') = n)
          \<and> st_TotalTokensIn (or_stats t) = wrap64 (st_TotalTokensIn (or_stats s) + (m - ra_TokensIn (re_attempt e)))
          \<and> st_TotalTokensOut (or_stats t) = wrap64 (st_TotalTokensOut (or_stats s) + (n - ra_TokensOut (re_attempt e)))"
proof -
  have "counted k (ra_TokensIn (re_attempt e)) (ra_TokensOut (re_attempt e)) s" using assms(1) by (simp add: counted_def)
  from events_counted [OF this, of "st_TotalTokensIn (or_stats s)" "st_TotalTokensOut (or_stats s)" evs] show ?thesis
    using assms(2,3) by (simp add: Let_def counted_def case_prod_beta' comp_def)
qed

definition sample_event :: "int \<Rightarrow> AgentEvent" where
  "sample_event n = \<lparr>ae_Type = ''thread/tokenUsage/updated'', ae_IssueID = ''i1'',
     ae_Data = Some [(''usage'', JObj [(''input_tokens'', JFloat n), (''output_tokens'', JFloat 1)])], ae_Timestamp = 50\<rparr>"

theorem tokens_counted_once_witness:
  "st_TotalTokensIn (or_stats (foldl (\<lambda>s (w, ev). handleAgentEvent w s ''i1'' ev) sample_started
     (map (\<lambda>n. (sample_world 50 [], sample_event n)) [5, 9, 7]))) = 9"
proof -
  have run: "map_of (or_running sample_started) ''i1'' = Some sample_entry" by (simp add: sample_running)
  have tot: "st_TotalTokensIn (or_stats sample_started) = 0" "st_TotalTokensOut (or_stats sample_started) = 0" by code_simp+
  have usage: "parseUsageTokens (ae_Data (sample_event n)) = (n, 1)" if "n \<noteq> 0" for n
    using that by (simp add: sample_event_def parseUsageTokens_def usage_of_def Let_def)
  show ?thesis
    using tokens_counted_once [OF run, of "map (\<lambda>n. (sample_world 50 [], sample_event n)) [5, 9, 7]"]
    by (simp add: tot in_int64_def Let_def usage sample_entry_def)
qed

text \<open>
  Shutdown. The first shutdown empties the running table and, for every run in turn, stops its
  agent, cleans up its workspace, sets its issue to released and gives up the claim, whatever of this
  fails; then it removes all workspaces and returns the error of that. Every later shutdown does
  nothing.
\<close>

theorem shutdown_releases_all:
  assumes "orch_reachable s" and "\<And>xs. mset (ow_range w xs) = mset xs" and "\<not> or_shutdownOnce s"
  shows "let (err, t) = orch_gracefulShutdown w s in
      or_running t = [] \<and> err = ow_fails w (or_calls t)
    \<and> (\<exists>ks. mset ks = mset (map fst (or_running s)) \<and>
         or_calls t = or_calls s @ concat (map (\<lambda>k. [agent_Stop (re_process (the (map_of (or_running s) k))),
           workspace_Cleanup k, UpdateIssueState k Released, ReleaseIssue k]) ks) @ [CleanupAll])
    \<and> orch_gracefulShutdown w' t = (None, t)"
proof -
  let ?ks = "ow_range w (map fst (or_running s))"
  let ?runs = "[e. k \<leftarrow> ?ks, e \<leftarrow> (case map_of (or_running s) k of Some e \<Rightarrow> [e] | None \<Rightarrow> [])]"
  let ?u = "s\<lparr>or_shutdownOnce := True, or_running := [], or_stats := (or_stats s)\<lparr>st_Running := 0\<rparr>\<rparr>"
  let ?t = "foldl (shutdown_run w) ?u ?runs"
  have keys: "\<And>k. k \<in> set ?ks \<Longrightarrow> \<exists>e. map_of (or_running s) k = Some e \<and> is_ID (re_issue e) = k"
  proof -
    fix k assume "k \<in> set ?ks"
    then have "k \<in> set (map fst (or_running s))" using assms(2) by (metis set_mset_mset)
    then obtain e where "map_of (or_running s) k = Some e" by (metis list.set_map map_of_eq_None_iff not_Some_eq)
    with orch_reachable_inv [OF assms(1)] show "\<exists>e. map_of (or_running s) k = Some e \<and> is_ID (re_issue e) = k"
      by (auto simp: orch_inv_def runs_ok_def)
  qed
  have runs: "concat (map (\<lambda>k. case map_of (or_running s) k of None \<Rightarrow> [] | Some e \<Rightarrow> [e]) ?ks)
      = map (\<lambda>k. the (map_of (or_running s) k)) ?ks"
    using keys by (intro concat_singletons) fastforce
  have calls: "or_calls ?t = or_calls s @ concat (map (\<lambda>k. [agent_Stop (re_process (the (map_of (or_running s) k))),
      workspace_Cleanup k, UpdateIssueState k Released, ReleaseIssue k]) ?ks)"
    using keys by (simp add: shutdown_runs_calls runs comp_def) (intro arg_cong [where f = concat] map_cong; fastforce)
  have rest: "or_running ?t = []" "or_shutdownOnce ?t = True"
    using shutdown_runs_quiet [OF quiet_refl, of ?u w ?runs] shutdown_runs_once [of w ?u ?runs] by (simp_all add: quiet_def)
  show ?thesis
    using assms(2,3) calls rest
    by (simp add: orch_gracefulShutdown_def Let_def call_def) (metis mset_map)
qed

theorem shutdown_releases_all_witness:
  "or_running (snd (orch_gracefulShutdown (sample_world 60 []) sample_started)) = []"
proof -
  have once: "\<not> or_shutdownOnce sample_started" by code_simp
  have range: "mset (ow_range (sample_world 60 []) xs) = mset xs" for xs by (simp add: sample_world_def)
  show ?thesis using shutdown_releases_all [OF sample_reachable range once] by (simp add: split_def Let_def)
qed

text \<open>
  C17. Blocked issues do not run. After a cycle that fetched the issues, no issue that the fetched
  snapshot shows as blocked by an open issue is running, also when it was running before; and every
  issue that runs now and was not known to the orchestrator before is in the snapshot, unclaimed or
  with an orphaned claim, has no open blocker and was not found on the main branch.
\<close>

theorem blocked_issues_do_not_run:
  assumes "orch_reachable s" and "\<And>xs. mset (ow_range w xs) = mset xs"
    and "ow_fails w (or_calls (before_fetch cfg w s) @ [FetchIssues]) = None"
  shows "let t = runCycle cfg w s; openIDs = buildOpenIDSet (ow_issues w) in
      (\<forall>k i. map_of (issues_by_id (ow_issues w)) k = Some i \<and> unresolvedBlockers (is_BlockedBy i) openIDs \<noteq> []
         \<longrightarrow> map_of (or_running t) k = None)
    \<and> (\<forall>k. map_of (or_running t) k \<noteq> None \<and> \<not> isManagedIssue s k \<longrightarrow>
         (\<exists>i \<in> set (ow_issues w). is_ID i = k \<and> is_State i \<in> {Unclaimed, Claimed}
            \<and> unresolvedBlockers (is_BlockedBy i) openIDs = []
            \<and> (\<forall>sha sub. grepFn cfg w (wc_TrackerMainRef cfg) (is_Identifier i) \<noteq> GrepFound sha sub)))"
proof -
  let ?f = "snd (call w FetchIssues (before_fetch cfg w s))"
  let ?u = "unclaimed_pass cfg w (retry_pass cfg w ?f)"
  let ?open = "buildOpenIDSet (ow_issues w)" and ?m = "issues_by_id (ow_issues w)"
  let ?bad = "\<lambda>k. case map_of ?m k of None \<Rightarrow> False | Some i \<Rightarrow> unresolvedBlockers (is_BlockedBy i) ?open \<noteq> []"
  have inv: "orch_inv s" using orch_reachable_inv [OF assms(1)] .
  have t: "or_running (runCycle cfg w s) = fdel_all (filter ?bad (ow_range w (map fst (or_running ?u)))) (or_running ?u)"
    using assms(3) by (simp add: runCycle_split Let_def emitters after_fetch_def releaseBlockedRunning_def release_blocked_running)
  have key: "k \<in> set (ow_range w (map fst (or_running ?u))) \<longleftrightarrow> map_of (or_running ?u) k \<noteq> None" for k
  proof -
    have "set (ow_range w (map fst (or_running ?u))) = set (map fst (or_running ?u))" using assms(2) by (metis set_mset_mset)
    then show ?thesis by (simp add: map_of_eq_None_iff)
  qed
  have "map_of (or_running (runCycle cfg w s)) k = None" if "?bad k" for k
    using that key [of k] unfolding t fdel_all_lookup by auto
  moreover have "\<exists>i \<in> set (ow_issues w). is_ID i = k \<and> is_State i \<in> {Unclaimed, Claimed}
      \<and> unresolvedBlockers (is_BlockedBy i) ?open = []
      \<and> (\<forall>sha sub. grepFn cfg w (wc_TrackerMainRef cfg) (is_Identifier i) \<noteq> GrepFound sha sub)"
    if run: "map_of (or_running (runCycle cfg w s)) k \<noteq> None" and new: "\<not> isManagedIssue s k" for k
  proof -
    have "\<not> isManagedIssue (retry_pass cfg w ?f) k"
      using new before_fetch_managed [of cfg w s k]
        retry_pass_managed [OF fetch_inv [OF before_fetch_inv [OF inv]], of cfg w w cfg w k] by auto
    moreover have "isManagedIssue ?u k" using run unfolding t fdel_all_lookup by (auto simp: managed_iff split: if_splits)
    ultimately show ?thesis using unclaimed_pass_managed by blast
  qed
  ultimately show ?thesis unfolding Let_def by (auto split: option.splits)
qed

theorem blocked_issues_do_not_run_witness:
  "map_of (or_running (runCycle sample_cfg (sample_world 20 [sample_issue\<lparr>is_BlockedBy := [''ABC-1'']\<rparr>]) sample_started)) ''i1'' = None"
proof -
  let ?i = "sample_issue\<lparr>is_BlockedBy := [''ABC-1'']\<rparr>"
  have range: "mset (ow_range (sample_world 20 [?i]) xs) = mset xs" for xs by (simp add: sample_world_def)
  have fetch: "ow_fails (sample_world 20 [?i]) cs = None" for cs by (simp add: sample_world_def)
  have m: "map_of (issues_by_id (ow_issues (sample_world 20 [?i]))) ''i1'' = Some ?i"
    by (simp add: sample_world_def issues_by_id_def sample_issue_def)
  have b: "unresolvedBlockers (is_BlockedBy ?i) (buildOpenIDSet (ow_issues (sample_world 20 [?i]))) \<noteq> []"
    by (simp add: sample_world_def unresolvedBlockers_def buildOpenIDSet_def sample_issue_def)
  show ?thesis
    using blocked_issues_do_not_run [OF sample_reachable range fetch] m b unfolding Let_def by blast
qed

end
