(* ===== verification/Github_Props.thy ===== *)
theory Github_Props
  imports Github Orchestrator_Props
begin

text \<open>What the GitHub tracker hands to the orchestrator.\<close>

section \<open>All pages\<close>

text \<open>A repository whose list of open issues does not change while it is read, in pages of the client's size.\<close>

definition serves :: "GitHubClient \<Rightarrow> gh_world \<Rightarrow> githubIssue list \<Rightarrow> bool" where
  "serves c w xs \<longleftrightarrow> (\<forall>log q. gq_Method q = ''GET'' \<longrightarrow> gq_Owner q = gc_owner c \<longrightarrow> gq_Repo q = gc_repo c \<longrightarrow>
     (\<forall>p. gq_Path q = IssuesPage (gc_pageSize c) (int (Suc p)) (gc_labels c) \<longrightarrow>
       (case gw_do w log q of
          Inl _ \<Rightarrow> False
        | Inr resp \<Rightarrow> gr_Status resp = 200
            \<and> gw_decode w (gr_Body resp) = Inr (take (nat (gc_pageSize c)) (drop (p * nat (gc_pageSize c)) xs)))))"

definition page_request :: "GitHubClient \<Rightarrow> nat \<Rightarrow> gh_request" where
  "page_request c p = \<lparr>gq_Method = ''GET'', gq_Owner = gc_owner c, gq_Repo = gc_repo c,
     gq_Path = IssuesPage (gc_pageSize c) (int (Suc p)) (gc_labels c), gq_Payload = GhNone\<rparr>"

definition kept :: "GitHubClient \<Rightarrow> gh_world \<Rightarrow> githubIssue list \<Rightarrow> Issue list" where
  "kept c w xs = map (gh_normalizeIssue c w) (filter (\<lambda>i. \<not> gi_PullRequest i) xs)"

lemma kept_log [simp]: "kept c (w\<lparr>gw_log := l\<rparr>) xs = kept c w xs"
  by (simp add: kept_def gh_normalizeIssue_def gh_parse_time_def)

lemma serves_log [simp]: "serves c (w\<lparr>gw_log := l\<rparr>) xs = serves c w xs"
  by (simp add: serves_def split: sum.split)

lemma serves_page:
  assumes "serves c w xs"
  shows "\<exists>body. doRequestWithStatus c ''GET'' (IssuesPage (gc_pageSize c) (int (Suc p)) (gc_labels c)) GhNone w
      = (Inr (body, 200), w\<lparr>gw_log := gw_log w @ [page_request c p]\<rparr>)
    \<and> gw_decode w body = Inr (take (nat (gc_pageSize c)) (drop (p * nat (gc_pageSize c)) xs))"
proof -
  from assms have "case gw_do w (gw_log w) (page_request c p) of
      Inl _ \<Rightarrow> False
    | Inr resp \<Rightarrow> gr_Status resp = 200
        \<and> gw_decode w (gr_Body resp) = Inr (take (nat (gc_pageSize c)) (drop (p * nat (gc_pageSize c)) xs))"
    unfolding serves_def page_request_def by simp
  then obtain resp where "gw_do w (gw_log w) (page_request c p) = Inr resp" "gr_Status resp = 200"
    "gw_decode w (gr_Body resp) = Inr (take (nat (gc_pageSize c)) (drop (p * nat (gc_pageSize c)) xs))"
    by (auto split: sum.splits)
  then show ?thesis by (simp add: doRequestWithStatus_def page_request_def Let_def)
qed

lemma gh_pages_all:
  assumes "0 < gc_pageSize c"
  shows "serves c w xs \<Longrightarrow> length (drop (p * nat (gc_pageSize c)) xs) div nat (gc_pageSize c) < k \<Longrightarrow>
    \<exists>n \<le> length (drop (p * nat (gc_pageSize c)) xs) div nat (gc_pageSize c).
      gh_pages k c (int (Suc p)) acc w =
        Some (Inr (acc @ kept c w (drop (p * nat (gc_pageSize c)) xs)), w\<lparr>gw_log := gw_log w @ map (page_request c) [p..<Suc (p + n)]\<rparr>)"
proof (induction k arbitrary: p acc w)
  case (Suc k)
  let ?n = "nat (gc_pageSize c)"
  let ?ys = "drop (p * ?n) xs"
  let ?w1 = "w\<lparr>gw_log := gw_log w @ [page_request c p]\<rparr>"
  have n: "0 < ?n" "int ?n = gc_pageSize c" using assms by simp_all
  from serves_page [OF Suc.prems(1), of p] obtain body where page:
    "doRequestWithStatus c ''GET'' (IssuesPage (gc_pageSize c) (int (Suc p)) (gc_labels c)) GhNone w = (Inr (body, 200), ?w1)"
    "gw_decode w body = Inr (take ?n ?ys)" by blast
  have issues: "acc @ map (gh_normalizeIssue c ?w1) (filter (\<lambda>i. \<not> gi_PullRequest i) (take ?n ?ys)) = acc @ kept c w (take ?n ?ys)"
    using kept_log [of c _ w "take ?n ?ys"] by (simp add: kept_def)
  show ?case
  proof (cases "length ?ys < ?n")
    case True
    then have "int (length (take ?n ?ys)) < gc_pageSize c" "take ?n ?ys = ?ys" using n by auto
    with page issues show ?thesis by (intro exI [of _ 0]) (simp add: True)
  next
    case False
    then have "int (length (take ?n ?ys)) = gc_pageSize c" using n(2) by simp
    then have step: "gh_pages (Suc k) c (int (Suc p)) acc w = gh_pages k c (int (Suc (Suc p))) (acc @ kept c w (take ?n ?ys)) ?w1"
      using page issues by simp
    have rest: "drop (Suc p * ?n) xs = drop ?n ?ys" by (simp add: add.commute)
    have div: "length ?ys div ?n = Suc (length (drop ?n ?ys) div ?n)"
      using False n(1) by (simp add: le_div_geq add.commute)
    have "length (drop (Suc p * ?n) xs) div ?n < k" using Suc.prems(2) div unfolding rest by linarith
    with Suc.IH [of ?w1 "Suc p" "acc @ kept c w (take ?n ?ys)"] Suc.prems(1)
    obtain m where m: "m \<le> length (drop ?n ?ys) div ?n" and
      "gh_pages k c (int (Suc (Suc p))) (acc @ kept c w (take ?n ?ys)) ?w1 =
        Some (Inr ((acc @ kept c w (take ?n ?ys)) @ kept c ?w1 (drop ?n ?ys)),
          ?w1\<lparr>gw_log := gw_log ?w1 @ map (page_request c) [Suc p..<Suc (Suc p + m)]\<rparr>)"
      unfolding rest by auto
    moreover have "kept c w (take ?n ?ys) @ kept c w (drop ?n ?ys) = kept c w ?ys"
      unfolding kept_def by (metis append_take_drop_id filter_append map_append)
    moreover have "[p..<Suc (p + Suc m)] = p # [Suc p..<Suc (Suc p + m)]" by (simp add: upt_rec)
    ultimately show ?thesis using step m div by (intro exI [of _ "Suc m"]) simp
  qed
qed simp

text \<open>
  Reading a repository whose list of open issues stays the same, page by page, ends after at most one more request than there are
  full pages, and gives every issue of the list that is not a pull request once, in order, as an unclaimed issue.
\<close>

theorem gh_FetchIssues_all:
  assumes "0 < gc_pageSize c" and "serves c w xs" and "length xs div nat (gc_pageSize c) < fuel"
  shows "\<exists>n \<le> length xs div nat (gc_pageSize c). gh_FetchIssues fuel c w =
      Some (Inr (map (gh_normalizeIssue c w) (filter (\<lambda>i. \<not> gi_PullRequest i) xs)),
        w\<lparr>gw_log := gw_log w @ map (page_request c) [0..<Suc n]\<rparr>)"
  using gh_pages_all [OF assms(1), of w xs 0 fuel "[]"] assms(2, 3)
  by (simp add: gh_FetchIssues_def kept_def)

section \<open>Blockers\<close>

lemma issue_refs_digits: "r \<in> set (issue_refs s) \<Longrightarrow> list_all is_digit r"
  by (induction s rule: issue_refs.induct) (auto simp: list_all_iff split: if_splits dest: set_takeWhileD)

lemma add_new_set: "set (add_new deps refs) = set deps \<union> set refs"
  by (induction deps refs rule: add_new.induct) auto

lemma dependencies_digits: "d \<in> set (parseDependencies body) \<Longrightarrow> list_all is_digit d"
  by (auto simp: parseDependencies_def add_new_set dest: issue_refs_digits)

lemma gh_pages_from:
  "gh_pages k c page issues w = Some (Inr js, w') \<Longrightarrow> \<forall>i \<in> set issues. \<exists>v x. i = gh_normalizeIssue c v x \<Longrightarrow>
     \<forall>i \<in> set js. \<exists>v x. i = gh_normalizeIssue c v x"
proof (induction k c page issues w rule: gh_pages.induct)
  case (2 k c page issues w)
  obtain r w1 where req: "doRequestWithStatus c ''GET'' (IssuesPage (gc_pageSize c) page (gc_labels c)) GhNone w = (r, w1)" by fastforce
  with 2(2) obtain body st items where r: "r = Inr (body, st)" "gw_decode w1 body = Inr items"
    by (auto split: sum.splits prod.splits)
  let ?js = "issues @ map (gh_normalizeIssue c w1) (filter (\<lambda>i. \<not> gi_PullRequest i) items)"
  have new: "\<forall>i \<in> set ?js. \<exists>v x. i = gh_normalizeIssue c v x" using 2(3) by auto
  show ?case
  proof (cases "int (length items) < gc_pageSize c")
    case True
    with 2(2) req r have "?js = js" by auto
    with new show ?thesis by simp
  next
    case False
    with 2(2) req r have "gh_pages k c (page + 1) ?js w1 = Some (Inr js, w')" by simp
    with 2(1) [OF req [symmetric] r(1) refl r(2) refl False] new show ?thesis by blast
  qed
qed simp

lemma fetched_from:
  assumes "gh_FetchIssues fuel c w = Some (Inr issues, w')" "i \<in> set issues"
  obtains v x where "i = gh_normalizeIssue c v x"
  using gh_pages_from [of fuel c 1 "[]" w issues w'] assms by (auto simp: gh_FetchIssues_def)

text \<open>
  The orchestrator never sees a blocker of an issue it reads from GitHub: a declared blocker is a bare number, the open
  issues are known by identifiers of the form owner/repo#number, and no number is one of these. And it never sees a claim,
  as every issue it reads is unclaimed.
\<close>

theorem gh_blockers_never_block:
  assumes "gh_FetchIssues fuel c w = Some (Inr issues, w')"
  shows "list_all (\<lambda>i. unresolvedBlockers (is_BlockedBy i) (buildOpenIDSet issues) = [] \<and> is_State i = Unclaimed) issues"
proof -
  have "d \<notin> set (buildOpenIDSet issues)" if "i \<in> set issues" "d \<in> set (is_BlockedBy i)" for i d
  proof
    assume "d \<in> set (buildOpenIDSet issues)"
    then obtain j where j: "j \<in> set issues" "d = is_Identifier j" by (auto simp: buildOpenIDSet_def)
    with assms obtain v x where "j = gh_normalizeIssue c v x" by (metis fetched_from)
    with j have "CHR 0x23 \<in> set d" by (simp add: gh_normalizeIssue_def)
    moreover from assms that(1) obtain v' x' where "i = gh_normalizeIssue c v' x'" by (metis fetched_from)
    with that(2) have "list_all is_digit d" by (simp add: gh_normalizeIssue_def dependencies_digits)
    ultimately show False by (auto simp: list_all_iff is_digit_def)
  qed
  then have "unresolvedBlockers (is_BlockedBy i) (buildOpenIDSet issues) = []" if "i \<in> set issues" for i
    using that by (auto simp: unresolvedBlockers_def filter_empty_conv)
  moreover have "is_State i = Unclaimed" if "i \<in> set issues" for i
    using fetched_from [OF assms that] by (metis gh_normalizeIssue_def Issue.select_convs(5))
  ultimately show ?thesis by (simp add: list_all_iff)
qed

section \<open>A repository by example\<close>

definition gh_item :: "int \<Rightarrow> string \<Rightarrow> githubIssue" where
  "gh_item n body = \<lparr>gi_Number = n, gi_Title = ''t'', gi_Body = body, gi_Labels = [], gi_HTMLURL = [], gi_CreatedAt = [], gi_UpdatedAt = [],
     gi_PullRequest = False\<rparr>"

definition gh_list :: "githubIssue list" where
  "gh_list = [gh_item 1 ''Blocked by: #2'', gh_item 2 [], gh_item 3 []]"

definition gh_client :: GitHubClient where
  "gh_client = \<lparr>gc_apiToken = ''k'', gc_owner = ''o'', gc_repo = ''r'', gc_labels = [], gc_assignee = ''a'', gc_endpoint = ''e'', gc_pageSize = 2\<rparr>"

text \<open>A body is the number of its page, in unary.\<close>

definition gh_sample :: gh_world where
  "gh_sample = \<lparr>gw_do = (\<lambda>log q. Inr \<lparr>gr_Status = 200, gr_RetryAfter = [], gr_Remaining = [], gr_Reset = [],
       gr_Body = replicate (nat (ip_page (gq_Path q)) - 1) (CHR ''1'')\<rparr>),
     gw_log = [], gw_decode = (\<lambda>b. Inr (take 2 (drop (length b * 2) gh_list))), gw_time = (\<lambda>s. Inl ErrSyntax), gw_now = 0\<rparr>"

lemma gh_sample_serves: "serves gh_client gh_sample gh_list"
  by (simp add: serves_def gh_client_def gh_sample_def nat_add_distrib)

theorem gh_FetchIssues_all_witness:
  "\<exists>n \<le> 1. gh_FetchIssues 2 gh_client gh_sample =
      Some (Inr (map (gh_normalizeIssue gh_client gh_sample) gh_list),
        gh_sample\<lparr>gw_log := map (page_request gh_client) [0..<Suc n]\<rparr>)"
  using gh_FetchIssues_all [OF _ gh_sample_serves, of 2] by (simp add: gh_client_def gh_sample_def gh_list_def gh_item_def)

theorem gh_blockers_never_block_witness:
  "\<exists>issues. list_all (\<lambda>i. unresolvedBlockers (is_BlockedBy i) (buildOpenIDSet issues) = [] \<and> is_State i = Unclaimed) issues
     \<and> is_BlockedBy (hd issues) = [''2''] \<and> length issues = 3"
proof -
  have deps: "parseDependencies ''Blocked by: #2'' = [''2'']" by code_simp
  have "0 < gc_pageSize gh_client" "length gh_list div nat (gc_pageSize gh_client) < 2"
    by (simp_all add: gh_client_def gh_list_def)
  from gh_pages_all [OF this(1) gh_sample_serves, of 0 2 "[]"] this(2)
  obtain w' where w': "gh_FetchIssues 2 gh_client gh_sample = Some (Inr (kept gh_client gh_sample gh_list), w')"
    by (auto simp: gh_FetchIssues_def)
  moreover have "is_BlockedBy (hd (kept gh_client gh_sample gh_list)) = [''2'']" "length (kept gh_client gh_sample gh_list) = 3"
    using deps by (simp_all add: kept_def gh_list_def gh_item_def gh_normalizeIssue_def)
  ultimately show ?thesis using gh_blockers_never_block [OF w'] by blast
qed

end
