(* ===== verification/Go_Json.thy ===== *)
theory Go_Json
  imports Prelude
begin

text \<open>JSON values as Go's \<open>interface{}\<close> holds them; numbers are integers. Clients of services and command line tools use them.\<close>

datatype gjson = GNull | GBool bool | GNum int | GStr string | GArr "gjson list" | GObj "(string \<times> gjson) list"

type_synonym gobj = "(string \<times> gjson) list"

definition gstrs :: "string list \<Rightarrow> gjson" where
  "gstrs xs = GArr (map GStr xs)"

end
