(* ===== verification/Linear.thy ===== *)
theory Linear
  imports Tracker_Http Go_Json
begin

text \<open>
  Models \<open>internal/tracker/linear.go\<close> and \<open>linear_issue_detail.go\<close>. Linear is a parameter: it answers a GraphQL request given those
  made before with a status, the Retry-After header and a body, and \<open>lw_parse\<close> decodes a body into a JSON object. A request is the
  name of its operation with the variables. Numbers of the answers (priority, cycle number, estimate) are integers.
\<close>

section \<open>JSON\<close>

text \<open>Type assertions on the value under a key; \<open>None\<close> when the key or the type is missing.\<close>

definition obj_at :: "gobj \<Rightarrow> string \<Rightarrow> gobj option" where
  "obj_at m k = (case map_of m k of Some (GObj o1) \<Rightarrow> Some o1 | _ \<Rightarrow> None)"

definition nodes_at :: "gobj \<Rightarrow> string \<Rightarrow> gjson list option" where
  "nodes_at m k = (case map_of m k of Some (GArr xs) \<Rightarrow> Some xs | _ \<Rightarrow> None)"

definition getString :: "gobj \<Rightarrow> string \<Rightarrow> string" where
  "getString m k = (case map_of m k of Some (GStr s) \<Rightarrow> s | _ \<Rightarrow> [])"

definition getInt :: "gobj \<Rightarrow> string \<Rightarrow> int" where
  "getInt m k = (case map_of m k of Some (GNum n) \<Rightarrow> n | _ \<Rightarrow> 0)"

definition getBool :: "gobj \<Rightarrow> string \<Rightarrow> bool" where
  "getBool m k = (case map_of m k of Some (GBool b) \<Rightarrow> b | _ \<Rightarrow> False)"

fun as_obj :: "gjson \<Rightarrow> gobj option" where
  "as_obj (GObj m) = Some m"
| "as_obj _ = None"

section \<open>Requests\<close>

datatype operation =
    FetchIssuesQuery | ClaimIssueMutation | ReleaseIssueMutation | ResolveStateIDQuery | UpdateIssueStateMutation
  | CreateRootCommentMutation | CreateReplyCommentMutation | UpdateCommentMutation | ViewerQuery | ResolveDoneStateQuery
  | IssueDetailQuery

record lin_request =
  lq_op :: operation
  lq_vars :: gobj

record lin_world =
  lw_do :: "lin_request list \<Rightarrow> lin_request \<Rightarrow> (int \<times> string \<times> string) result"
  lw_log :: "lin_request list"
  lw_parse :: "string \<Rightarrow> gobj result"
  lw_time :: "string \<Rightarrow> time result"
  lw_now :: time

record LinearClient =
  lc_apiKey :: string
  lc_projectSlug :: string
  lc_endpoint :: string
  lc_assigneeID :: string
  lc_pageSize :: int

definition NewLinearClient :: "LinearClient \<Rightarrow> LinearClient result" where
  "NewLinearClient cfg =
     (if trim_space (lc_apiKey cfg) = [] then Inl (ErrMsg ''linear api key required'')
      else Inr (cfg\<lparr>lc_endpoint := (if lc_endpoint cfg = [] then ''https://api.linear.app/graphql'' else lc_endpoint cfg),
        lc_pageSize := (if lc_pageSize cfg \<le> 0 then defaultPageSize else lc_pageSize cfg)\<rparr>))"

definition tracker_msg :: "string \<Rightarrow> tracker_error" where
  "tracker_msg m = TrackerError (ErrMsg m)"

definition doGraphQL :: "operation \<Rightarrow> gobj \<Rightarrow> lin_world \<Rightarrow> (tracker_error + gobj) \<times> lin_world" where
  "doGraphQL op vars w =
     (let q = \<lparr>lq_op = op, lq_vars = vars\<rparr> in
      (case lw_do w (lw_log w) q of
         Inl err \<Rightarrow> Inl (TrackerError (Wrap ''executing request'' err))
       | Inr (status, retryAfter, body) \<Rightarrow>
           (if status = 429 then Inl (RateLimitError (parseRetryAfter retryAfter))
            else if status = 401 then Inl (AuthError status body)
            else if status \<noteq> 200
            then Inl (tracker_msg (''linear API error (status '' @ fmt_int status @ ''): '' @ truncateBody body))
            else (case lw_parse w body of
              Inl err \<Rightarrow> Inl (TrackerError (Wrap ''parsing response JSON'' err))
            | Inr result \<Rightarrow>
                (if map_of result ''errors'' \<noteq> None then Inl (tracker_msg ''linear GraphQL errors'')
                 else (case obj_at result ''data'' of
                   None \<Rightarrow> Inl (tracker_msg ''linear API: missing or invalid data field'')
                 | Some data \<Rightarrow> Inr data)))),
       w\<lparr>lw_log := lw_log w @ [q]\<rparr>))"

definition checkMutationSuccess :: "gobj \<Rightarrow> string \<Rightarrow> tracker_error option" where
  "checkMutationSuccess data mutationKey = (case obj_at data mutationKey of
     None \<Rightarrow> Some (tracker_msg (''missing '' @ mutationKey @ '' in response''))
   | Some mutation \<Rightarrow>
       if getBool mutation ''success'' then None else Some (tracker_msg (mutationKey @ '' mutation failed'')))"

definition decodeCommentRef :: "gobj \<Rightarrow> string \<Rightarrow> tracker_error + (string \<times> string)" where
  "decodeCommentRef data mutationKey = (case checkMutationSuccess data mutationKey of
     Some err \<Rightarrow> Inl err
   | None \<Rightarrow>
      (case obj_at (the (obj_at data mutationKey)) ''comment'' of
         None \<Rightarrow> Inl (tracker_msg (mutationKey @ '' response missing comment''))
       | Some comment \<Rightarrow>
           if getString comment ''id'' = [] then Inl (tracker_msg (mutationKey @ '' response missing comment id''))
           else Inr (getString comment ''id'', getString comment ''url'')))"

definition mutate :: "operation \<Rightarrow> gobj \<Rightarrow> lin_world \<Rightarrow> tracker_error option \<times> lin_world" where
  "mutate op vars w = (case doGraphQL op vars w of
     (Inl err, w) \<Rightarrow> (Some err, w)
   | (Inr data, w) \<Rightarrow> (checkMutationSuccess data ''issueUpdate'', w))"

definition comment_call :: "operation \<Rightarrow> gobj \<Rightarrow> string \<Rightarrow> lin_world \<Rightarrow> (tracker_error + (string \<times> string)) \<times> lin_world" where
  "comment_call op vars key w = (case doGraphQL op vars w of
     (Inl err, w) \<Rightarrow> (Inl err, w)
   | (Inr data, w) \<Rightarrow> (decodeCommentRef data key, w))"

section \<open>Issues\<close>

definition isClaimableLinearStateType :: "string \<Rightarrow> bool" where
  "isClaimableLinearStateType linearStateType =
     (let stateType = to_lower (trim_space linearStateType) in
      stateType = [] \<or> stateType \<notin> {''completed'', ''canceled'', ''backlog''})"

definition issueStateFromLinearStateType :: "string \<Rightarrow> IssueState" where
  "issueStateFromLinearStateType linearStateType =
     (if to_lower (trim_space linearStateType) \<in> {[], ''unstarted''} then Unclaimed else Claimed)"

definition extractLabels :: "gobj \<Rightarrow> string list" where
  "extractLabels node = (case obj_at node ''labels'' of
     None \<Rightarrow> []
   | Some labelsData \<Rightarrow>
      (case nodes_at labelsData ''nodes'' of
         None \<Rightarrow> []
       | Some ns \<Rightarrow>
          [to_lower (getString m ''name''). n \<leftarrow> ns, m \<leftarrow> (case as_obj n of None \<Rightarrow> [] | Some m \<Rightarrow> [m]), getString m ''name'' \<noteq> []]))"

definition blocker_of :: "gjson \<Rightarrow> string list" where
  "blocker_of n = (case as_obj n of
     None \<Rightarrow> []
   | Some rel \<Rightarrow>
      (if getString rel ''type'' \<noteq> ''blocks'' then []
       else (case obj_at rel ''issue'' of
         None \<Rightarrow> []
       | Some blocker \<Rightarrow> if getString blocker ''identifier'' = [] then [] else [getString blocker ''identifier''])))"

definition extractBlockedBy :: "gobj \<Rightarrow> string list" where
  "extractBlockedBy node = (case obj_at node ''inverseRelations'' of
     None \<Rightarrow> []
   | Some relationsData \<Rightarrow> (case nodes_at relationsData ''nodes'' of None \<Rightarrow> [] | Some ns \<Rightarrow> concat (map blocker_of ns)))"

definition linear_state_type :: "gobj \<Rightarrow> string" where
  "linear_state_type node = (case obj_at node ''state'' of None \<Rightarrow> [] | Some state \<Rightarrow> getString state ''type'')"

definition lin_getTime :: "lin_world \<Rightarrow> gobj \<Rightarrow> string \<Rightarrow> time" where
  "lin_getTime w m k = (if getString m k = [] then zero_time else case lw_time w (getString m k) of Inl _ \<Rightarrow> zero_time | Inr t \<Rightarrow> t)"

definition lin_normalizeIssue :: "lin_world \<Rightarrow> gobj \<Rightarrow> Issue" where
  "lin_normalizeIssue w node =
     (let identifier = getString node ''identifier'' in
      \<lparr>is_ID = getString node ''id'', is_Identifier = identifier, is_Title = getString node ''title'',
       is_Description = getString node ''description'', is_State = issueStateFromLinearStateType (linear_state_type node),
       is_Priority = getInt node ''priority'', is_Labels = extractLabels node, is_URL = getString node ''url'',
       is_BranchName = (if identifier \<noteq> [] then ''symphony/'' @ to_lower identifier else []),
       is_BlockedBy = extractBlockedBy node, is_ModelOverride = ParseModelOverride (getString node ''description''),
       is_CreatedAt = lin_getTime w node ''createdAt'', is_UpdatedAt = lin_getTime w node ''updatedAt''\<rparr>)"

text \<open>The nodes of a page that are objects, and its page information.\<close>

definition decodeIssuesResponse :: "gobj \<Rightarrow> tracker_error + (gobj list \<times> gobj)" where
  "decodeIssuesResponse data = (case obj_at data ''issues'' of
     None \<Rightarrow> Inl (tracker_msg ''missing issues field in response'')
   | Some issuesData \<Rightarrow>
      Inr (concat (map (\<lambda>n. case as_obj n of None \<Rightarrow> [] | Some m \<Rightarrow> [m])
             (case nodes_at issuesData ''nodes'' of None \<Rightarrow> [] | Some ns \<Rightarrow> ns)),
           case obj_at issuesData ''pageInfo'' of None \<Rightarrow> [(''hasNextPage'', GBool False)] | Some pageInfo \<Rightarrow> pageInfo))"

definition claimable_issues :: "lin_world \<Rightarrow> gobj list \<Rightarrow> Issue list" where
  "claimable_issues w nodes = map (lin_normalizeIssue w) (filter (\<lambda>n. isClaimableLinearStateType (linear_state_type n)) nodes)"

definition fetch_vars :: "LinearClient \<Rightarrow> gjson \<Rightarrow> gobj" where
  "fetch_vars c cursor = [(''projectSlug'', GStr (lc_projectSlug c)), (''first'', GNum (lc_pageSize c)), (''after'', cursor)]"

fun lin_pages :: "nat \<Rightarrow> LinearClient \<Rightarrow> gjson \<Rightarrow> Issue list \<Rightarrow> lin_world \<Rightarrow> ((tracker_error + Issue list) \<times> lin_world) option" where
  "lin_pages 0 c cursor issues w = None"
| "lin_pages (Suc k) c cursor issues w =
     (case doGraphQL FetchIssuesQuery (fetch_vars c cursor) w of
        (Inl err, w) \<Rightarrow> Some (Inl err, w)
      | (Inr data, w) \<Rightarrow>
         (case decodeIssuesResponse data of
            Inl err \<Rightarrow> Some (Inl err, w)
          | Inr (nodes, pageInfo) \<Rightarrow>
             (let issues = issues @ claimable_issues w nodes;
                  endCursor = getString pageInfo ''endCursor''
              in if \<not> getBool pageInfo ''hasNextPage'' \<or> endCursor = [] then Some (Inr issues, w)
                 else lin_pages k c (GStr endCursor) issues w)))"

definition lin_FetchIssues :: "nat \<Rightarrow> LinearClient \<Rightarrow> lin_world \<Rightarrow> ((tracker_error + Issue list) \<times> lin_world) option" where
  "lin_FetchIssues fuel c w = lin_pages fuel c GNull [] w"

section \<open>Changes\<close>

definition lin_ClaimIssue :: "LinearClient \<Rightarrow> string \<Rightarrow> lin_world \<Rightarrow> tracker_error option \<times> lin_world" where
  "lin_ClaimIssue c issueID w = mutate ClaimIssueMutation [(''issueId'', GStr issueID), (''assigneeId'', GStr (lc_assigneeID c))] w"

definition lin_ReleaseIssue :: "LinearClient \<Rightarrow> string \<Rightarrow> lin_world \<Rightarrow> tracker_error option \<times> lin_world" where
  "lin_ReleaseIssue c issueID w = mutate ReleaseIssueMutation [(''issueId'', GStr issueID)] w"

fun defaultStateNames :: "IssueState \<Rightarrow> string option" where
  "defaultStateNames Unclaimed = Some ''Todo''"
| "defaultStateNames Claimed = Some ''In Progress''"
| "defaultStateNames Running = Some ''In Progress''"
| "defaultStateNames RetryQueued = Some ''Todo''"
| "defaultStateNames Released = Some ''Done''"
| "defaultStateNames (IssueOther n) = None"

text \<open>The way from the data to the first state, with the message for an empty list.\<close>

definition first_state_id :: "gobj \<Rightarrow> string \<Rightarrow> string \<Rightarrow> string \<Rightarrow> tracker_error + string" where
  "first_state_id data issueID none_msg empty_msg = (case obj_at data ''issue'' of
     None \<Rightarrow> Inl (tracker_msg (''issue '' @ issueID @ '' not found''))
   | Some issue \<Rightarrow>
      (case obj_at issue ''team'' of
         None \<Rightarrow> Inl (tracker_msg (''team not found for issue '' @ issueID))
       | Some team \<Rightarrow>
          (case obj_at team ''states'' of
             None \<Rightarrow> Inl (tracker_msg (''states not found for issue '' @ issueID))
           | Some states \<Rightarrow>
              (case nodes_at states ''nodes'' of
                 None \<Rightarrow> Inl (tracker_msg none_msg)
               | Some [] \<Rightarrow> Inl (tracker_msg none_msg)
               | Some (n # ns) \<Rightarrow>
                  (case as_obj n of
                     None \<Rightarrow> Inl (tracker_msg (''invalid state node for issue '' @ issueID))
                   | Some m \<Rightarrow> if getString m ''id'' = [] then Inl (tracker_msg empty_msg) else Inr (getString m ''id''))))))"

definition resolveStateID :: "string \<Rightarrow> string \<Rightarrow> lin_world \<Rightarrow> (tracker_error + string) \<times> lin_world" where
  "resolveStateID issueID stateName w =
     (case doGraphQL ResolveStateIDQuery [(''issueId'', GStr issueID), (''stateName'', GStr stateName)] w of
        (Inl err, w) \<Rightarrow> (Inl err, w)
      | (Inr data, w) \<Rightarrow>
          (first_state_id data issueID (''state '' @ fmt_q stateName @ '' not found for issue '' @ issueID)
             (''empty state ID for issue '' @ issueID), w))"

text \<open>The errors of a call, wrapped once more; the kind of the error stays.\<close>

definition lin_wrap :: "string \<Rightarrow> tracker_error \<Rightarrow> tracker_error" where
  "lin_wrap m err = (case err of TrackerError e \<Rightarrow> TrackerError (Wrap m e) | _ \<Rightarrow> err)"

definition set_state :: "string \<Rightarrow> string \<Rightarrow> lin_world \<Rightarrow> tracker_error option \<times> lin_world" where
  "set_state issueID stateID w = mutate UpdateIssueStateMutation [(''issueId'', GStr issueID), (''stateId'', GStr stateID)] w"

definition lin_UpdateIssueState :: "string \<Rightarrow> IssueState \<Rightarrow> lin_world \<Rightarrow> tracker_error option \<times> lin_world" where
  "lin_UpdateIssueState issueID state w = (case defaultStateNames state of
     None \<Rightarrow> (Some (tracker_msg (''no Linear state mapping for '' @ issue_state_String state)), w)
   | Some stateName \<Rightarrow>
      (case resolveStateID issueID stateName w of
         (Inl err, w) \<Rightarrow> (Some (lin_wrap ''resolving state ID'' err), w)
       | (Inr stateID, w) \<Rightarrow> set_state issueID stateID w))"

definition lin_CreateRootComment :: "string \<Rightarrow> string \<Rightarrow> lin_world \<Rightarrow> (tracker_error + (string \<times> string)) \<times> lin_world" where
  "lin_CreateRootComment issueID body w =
     comment_call CreateRootCommentMutation [(''issueId'', GStr issueID), (''body'', GStr body)] ''commentCreate'' w"

definition lin_CreateReplyComment ::
  "string \<Rightarrow> string \<Rightarrow> string \<Rightarrow> lin_world \<Rightarrow> (tracker_error + (string \<times> string)) \<times> lin_world" where
  "lin_CreateReplyComment issueID parentID body w =
     comment_call CreateReplyCommentMutation [(''issueId'', GStr issueID), (''parentId'', GStr parentID), (''body'', GStr body)]
       ''commentCreate'' w"

definition lin_UpdateComment :: "string \<Rightarrow> string \<Rightarrow> lin_world \<Rightarrow> (tracker_error + (string \<times> string)) \<times> lin_world" where
  "lin_UpdateComment commentID body w =
     comment_call UpdateCommentMutation [(''commentId'', GStr commentID), (''body'', GStr body)] ''commentUpdate'' w"

definition lin_PostComment :: "string \<Rightarrow> string \<Rightarrow> lin_world \<Rightarrow> tracker_error option \<times> lin_world" where
  "lin_PostComment issueID body w = (case lin_CreateRootComment issueID body w of
     (Inl err, w) \<Rightarrow> (Some err, w)
   | (Inr _, w) \<Rightarrow> (None, w))"

definition TransitionToDone :: "string \<Rightarrow> string \<Rightarrow> lin_world \<Rightarrow> tracker_error option \<times> lin_world" where
  "TransitionToDone issueID commentBody w =
     (case doGraphQL ResolveDoneStateQuery [(''issueId'', GStr issueID)] w of
        (Inl err, w) \<Rightarrow> (Some (lin_wrap ''resolving done state'' err), w)
      | (Inr data, w) \<Rightarrow>
         (case first_state_id data issueID (''no completed state available for issue '' @ issueID)
             (''empty done state ID for issue '' @ issueID) of
            Inl err \<Rightarrow> (Some err, w)
          | Inr stateID \<Rightarrow>
             (case set_state issueID stateID w of
                (Some err, w) \<Rightarrow> (Some (lin_wrap ''transitioning to done'' err), w)
              | (None, w) \<Rightarrow>
                 (if commentBody = [] then (None, w)
                  else (case lin_CreateRootComment issueID commentBody w of
                    (Inl err, w) \<Rightarrow> (Some (lin_wrap ''posting already-implemented comment'' err), w)
                  | (Inr _, w) \<Rightarrow> (None, w))))))"

definition FetchViewerID :: "lin_world \<Rightarrow> (tracker_error + string) \<times> lin_world" where
  "FetchViewerID w = (case doGraphQL ViewerQuery [] w of
     (Inl err, w) \<Rightarrow> (Inl (lin_wrap ''fetching viewer'' err), w)
   | (Inr data, w) \<Rightarrow>
      ((case obj_at data ''viewer'' of
          None \<Rightarrow> Inl (tracker_msg ''unexpected viewer response shape'')
        | Some viewer \<Rightarrow>
            if getString viewer ''id'' = [] then Inl (tracker_msg ''viewer ID not found in response'')
            else Inr (getString viewer ''id'')), w))"

definition SetAssigneeID :: "string \<Rightarrow> LinearClient \<Rightarrow> LinearClient" where
  "SetAssigneeID i c = c\<lparr>lc_assigneeID := i\<rparr>"

end
