(* ===== verification/Linear_Detail.thy ===== *)
theory Linear_Detail
  imports Linear
begin

text \<open>Models \<open>internal/tracker/linear_issue_detail.go\<close> and \<open>issue_detail.go\<close>: the details of an issue that the dashboard shows.\<close>

record LinearUserSummary =
  lu_ID :: string
  lu_Name :: string
  lu_DisplayName :: string

record LinearNamedRef =
  ln_ID :: string
  ln_Key :: string
  ln_Name :: string
  ln_URL :: string

record LinearCycleSummary =
  ly_ID :: string
  ly_Name :: string
  ly_Number :: int
  ly_StartsAt :: string
  ly_EndsAt :: string

record LinearRelatedIssueSummary =
  lr_ID :: string
  lr_Identifier :: string
  lr_Title :: string
  lr_URL :: string
  lr_State :: string
  lr_StateType :: string

record LinearRelationSummary =
  ls_Type :: string
  ls_Direction :: string
  ls_Issue :: LinearRelatedIssueSummary

record LinearIssueDetail =
  ld_Assignee :: "LinearUserSummary option"
  ld_Creator :: "LinearUserSummary option"
  ld_Team :: "LinearNamedRef option"
  ld_Project :: "LinearNamedRef option"
  ld_Cycle :: "LinearCycleSummary option"
  ld_Estimate :: "int option"
  ld_DueDate :: string
  ld_Relations :: "LinearRelationSummary list"
  ld_FetchedAt :: time

definition linearUserSummary :: "gobj option \<Rightarrow> LinearUserSummary option" where
  "linearUserSummary value = (case value of
     None \<Rightarrow> None
   | Some node \<Rightarrow>
       if getString node ''id'' = [] then None
       else Some \<lparr>lu_ID = getString node ''id'', lu_Name = getString node ''name'', lu_DisplayName = getString node ''displayName''\<rparr>)"

definition linearNamedRef :: "gobj option \<Rightarrow> LinearNamedRef option" where
  "linearNamedRef value = (case value of
     None \<Rightarrow> None
   | Some node \<Rightarrow>
       if getString node ''id'' = [] then None
       else Some \<lparr>ln_ID = getString node ''id'', ln_Key = getString node ''key'', ln_Name = getString node ''name'',
         ln_URL = getString node ''url''\<rparr>)"

definition linearCycleSummary :: "gobj option \<Rightarrow> LinearCycleSummary option" where
  "linearCycleSummary value = (case value of
     None \<Rightarrow> None
   | Some node \<Rightarrow>
       if getString node ''id'' = [] then None
       else Some \<lparr>ly_ID = getString node ''id'', ly_Name = getString node ''name'', ly_Number = getInt node ''number'',
         ly_StartsAt = getString node ''startsAt'', ly_EndsAt = getString node ''endsAt''\<rparr>)"

definition linearOptionalFloat :: "gjson option \<Rightarrow> int option" where
  "linearOptionalFloat value = (case value of Some (GNum n) \<Rightarrow> Some n | _ \<Rightarrow> None)"

definition no_related :: LinearRelatedIssueSummary where
  "no_related = \<lparr>lr_ID = [], lr_Identifier = [], lr_Title = [], lr_URL = [], lr_State = [], lr_StateType = []\<rparr>"

definition linearRelatedIssueSummary :: "gobj option \<Rightarrow> LinearRelatedIssueSummary" where
  "linearRelatedIssueSummary value = (case value of
     None \<Rightarrow> no_related
   | Some node \<Rightarrow>
      (let state = obj_at node ''state'' in
       \<lparr>lr_ID = getString node ''id'', lr_Identifier = getString node ''identifier'', lr_Title = getString node ''title'',
        lr_URL = getString node ''url'',
        lr_State = (case state of None \<Rightarrow> [] | Some s \<Rightarrow> getString s ''name''),
        lr_StateType = (case state of None \<Rightarrow> [] | Some s \<Rightarrow> getString s ''type'')\<rparr>))"

definition relation_summary :: "string \<Rightarrow> gjson \<Rightarrow> LinearRelationSummary list" where
  "relation_summary direction n = (case as_obj n of
     None \<Rightarrow> []
   | Some node \<Rightarrow>
      (let related0 = linearRelatedIssueSummary (obj_at node ''relatedIssue'');
           related = (if lr_ID related0 = [] then linearRelatedIssueSummary (obj_at node ''issue'') else related0)
       in if lr_ID related = [] then []
          else [\<lparr>ls_Type = getString node ''type'', ls_Direction = direction, ls_Issue = related\<rparr>]))"

definition linearRelationSummariesFrom :: "gobj option \<Rightarrow> string \<Rightarrow> LinearRelationSummary list" where
  "linearRelationSummariesFrom value direction = (case value of
     None \<Rightarrow> []
   | Some container \<Rightarrow>
      (case nodes_at container ''nodes'' of None \<Rightarrow> [] | Some ns \<Rightarrow> concat (map (relation_summary direction) ns)))"

definition linearRelationSummaries :: "gobj \<Rightarrow> LinearRelationSummary list" where
  "linearRelationSummaries rawIssue = linearRelationSummariesFrom (obj_at rawIssue ''relations'') ''outbound''
     @ linearRelationSummariesFrom (obj_at rawIssue ''inverseRelations'') ''inverse''"

definition FetchIssueDetail :: "string \<Rightarrow> lin_world \<Rightarrow> (tracker_error + (Issue \<times> LinearIssueDetail)) \<times> lin_world" where
  "FetchIssueDetail issueID w = (case doGraphQL IssueDetailQuery [(''issueId'', GStr issueID)] w of
     (Inl err, w) \<Rightarrow> (Inl err, w)
   | (Inr data, w) \<Rightarrow>
      ((case obj_at data ''issue'' of
          None \<Rightarrow> Inl (tracker_msg (''issue '' @ issueID @ '' not found''))
        | Some raw \<Rightarrow>
            Inr (lin_normalizeIssue w raw,
              \<lparr>ld_Assignee = linearUserSummary (obj_at raw ''assignee''), ld_Creator = linearUserSummary (obj_at raw ''creator''),
               ld_Team = linearNamedRef (obj_at raw ''team''), ld_Project = linearNamedRef (obj_at raw ''project''),
               ld_Cycle = linearCycleSummary (obj_at raw ''cycle''), ld_Estimate = linearOptionalFloat (map_of raw ''estimate''),
               ld_DueDate = getString raw ''dueDate'', ld_Relations = linearRelationSummaries raw, ld_FetchedAt = lw_now w\<rparr>)), w))"

text \<open>
  A relation of Linear goes from \<open>issue\<close> to \<open>relatedIssue\<close>: seen from the issue it points to, the other end is \<open>issue\<close>. The summary
  takes \<open>relatedIssue\<close> in both directions, so that an inverse relation shows the issue itself and never the one
  that blocks it.
\<close>

lemma inverse_relation_shows_itself:
  assumes "as_obj n = Some rel" "obj_at rel ''relatedIssue'' = Some self" "getString self ''id'' \<noteq> []"
  shows "map (lr_ID \<circ> ls_Issue) (relation_summary ''inverse'' n) = [getString self ''id'']"
  using assms by (simp add: relation_summary_def linearRelatedIssueSummary_def Let_def)

end
