(* ===== verification/Linear_Props.thy ===== *)
theory Linear_Props
  imports Linear_Detail Orchestrator_Props
begin

text \<open>What the Linear tracker hands to the orchestrator.\<close>

section \<open>All pages\<close>

definition json_objects :: "gjson list \<Rightarrow> gobj list" where
  "json_objects ns = concat (map (\<lambda>n. case as_obj n of None \<Rightarrow> [] | Some m \<Rightarrow> [m]) ns)"

definition page_json :: "gjson list \<Rightarrow> bool \<Rightarrow> string \<Rightarrow> gobj" where
  "page_json nodes has_next cursor = [(''data'', GObj [(''issues'', GObj [(''nodes'', GArr nodes),
     (''pageInfo'', GObj [(''hasNextPage'', GBool has_next), (''endCursor'', GStr cursor)])])])]"

text \<open>\<open>cursor i\<close> leads to page \<open>i\<close>; the first page is read without one.\<close>

definition cursor_json :: "(nat \<Rightarrow> string) \<Rightarrow> nat \<Rightarrow> gjson" where
  "cursor_json cursor i = (if i = 0 then GNull else GStr (cursor i))"

definition page_query :: "LinearClient \<Rightarrow> (nat \<Rightarrow> string) \<Rightarrow> nat \<Rightarrow> lin_request" where
  "page_query c cursor i = \<lparr>lq_op = FetchIssuesQuery, lq_vars = fetch_vars c (cursor_json cursor i)\<rparr>"

text \<open>A project whose issues do not change while it is read.\<close>

definition lin_serves :: "LinearClient \<Rightarrow> (nat \<Rightarrow> string) \<Rightarrow> lin_world \<Rightarrow> gjson list list \<Rightarrow> bool" where
  "lin_serves c cursor w pages \<longleftrightarrow> (\<forall>i < length pages. \<forall>log. \<exists>ra body.
     lw_do w log (page_query c cursor i) = Inr (200, ra, body)
     \<and> lw_parse w body = Inr (page_json (pages ! i) (Suc i < length pages) (cursor (Suc i))))"

lemma lin_serves_log [simp]: "lin_serves c cursor (w\<lparr>lw_log := l\<rparr>) pages = lin_serves c cursor w pages"
  by (simp add: lin_serves_def)

lemma normalize_log [simp]: "lin_normalizeIssue (w\<lparr>lw_log := l\<rparr>) n = lin_normalizeIssue w n"
  by (simp add: lin_normalizeIssue_def lin_getTime_def)

lemma claimable_log [simp]: "claimable_issues (w\<lparr>lw_log := l\<rparr>) ns = claimable_issues w ns"
  by (simp add: claimable_issues_def)

lemma claimable_append: "claimable_issues w (json_objects (xs @ ys)) = claimable_issues w (json_objects xs) @ claimable_issues w (json_objects ys)"
  by (simp add: claimable_issues_def json_objects_def)

lemma one_page:
  assumes "lin_serves c cursor w pages" "i < length pages"
  shows "\<exists>data. doGraphQL FetchIssuesQuery (fetch_vars c (cursor_json cursor i)) w = (Inr data, w\<lparr>lw_log := lw_log w @ [page_query c cursor i]\<rparr>)
    \<and> decodeIssuesResponse data = Inr (json_objects (pages ! i),
        [(''hasNextPage'', GBool (Suc i < length pages)), (''endCursor'', GStr (cursor (Suc i)))])"
proof -
  from assms obtain ra body where "lw_do w (lw_log w) (page_query c cursor i) = Inr (200, ra, body)"
    "lw_parse w body = Inr (page_json (pages ! i) (Suc i < length pages) (cursor (Suc i)))"
    unfolding lin_serves_def by blast
  then show ?thesis
    by (simp add: doGraphQL_def page_query_def page_json_def decodeIssuesResponse_def obj_at_def nodes_at_def json_objects_def Let_def)
qed

lemma lin_pages_all:
  assumes "\<And>i. 0 < i \<Longrightarrow> i < length pages \<Longrightarrow> cursor i \<noteq> []"
  shows "lin_serves c cursor w pages \<Longrightarrow> i < length pages \<Longrightarrow> length pages \<le> i + k \<Longrightarrow>
    lin_pages k c (cursor_json cursor i) acc w =
      Some (Inr (acc @ claimable_issues w (json_objects (concat (drop i pages)))),
        w\<lparr>lw_log := lw_log w @ map (page_query c cursor) [i..<length pages]\<rparr>)"
proof (induction k arbitrary: i acc w)
  case (Suc k)
  let ?w1 = "w\<lparr>lw_log := lw_log w @ [page_query c cursor i]\<rparr>"
  from one_page [OF Suc.prems(1, 2)] obtain data where page:
    "doGraphQL FetchIssuesQuery (fetch_vars c (cursor_json cursor i)) w = (Inr data, ?w1)"
    "decodeIssuesResponse data = Inr (json_objects (pages ! i),
        [(''hasNextPage'', GBool (Suc i < length pages)), (''endCursor'', GStr (cursor (Suc i)))])" by blast
  have split: "drop i pages = pages ! i # drop (Suc i) pages" "[i..<length pages] = i # [Suc i..<length pages]"
    using Suc.prems(2) by (simp_all add: Cons_nth_drop_Suc upt_rec)
  show ?case
  proof (cases "Suc i < length pages")
    case True
    with assms [of "Suc i"] have "cursor (Suc i) \<noteq> []" by simp
    with page True have "lin_pages (Suc k) c (cursor_json cursor i) acc w =
        lin_pages k c (cursor_json cursor (Suc i)) (acc @ claimable_issues w (json_objects (pages ! i))) ?w1"
      by (simp add: getBool_def getString_def cursor_json_def Let_def)
    with Suc.IH [of ?w1 "Suc i" "acc @ claimable_issues w (json_objects (pages ! i))"] Suc.prems(1, 3) True show ?thesis
      unfolding split by (simp add: claimable_append)
  next
    case False
    with page have "lin_pages (Suc k) c (cursor_json cursor i) acc w = Some (Inr (acc @ claimable_issues w (json_objects (pages ! i))), ?w1)"
      by (simp add: getBool_def Let_def)
    with False Suc.prems(2) show ?thesis unfolding split by simp
  qed
qed simp


section \<open>A project by example\<close>

definition lin_node :: "string \<Rightarrow> string \<Rightarrow> gjson list \<Rightarrow> gjson" where
  "lin_node ident ty rels = GObj [(''id'', GStr ident), (''identifier'', GStr ident), (''state'', GObj [(''type'', GStr ty)]),
     (''inverseRelations'', GObj [(''nodes'', GArr rels)])]"

definition blocked_by :: "string \<Rightarrow> gjson" where
  "blocked_by ident = GObj [(''type'', GStr ''blocks''), (''issue'', GObj [(''identifier'', GStr ident)])]"

text \<open>A is blocked by B, which is still in the backlog; C waits for triage.\<close>

definition lin_sample_pages :: "gjson list list" where
  "lin_sample_pages = [[lin_node ''A'' ''unstarted'' [blocked_by ''B'']], [lin_node ''B'' ''backlog'' [], lin_node ''C'' ''triage'' []]]"

definition lin_client :: LinearClient where
  "lin_client = \<lparr>lc_apiKey = ''k'', lc_projectSlug = ''p'', lc_endpoint = ''e'', lc_assigneeID = ''u'', lc_pageSize = 1\<rparr>"

definition lin_sample :: lin_world where
  "lin_sample = \<lparr>lw_do = (\<lambda>log q. Inr (200, [], if map_of (lq_vars q) ''after'' = Some GNull then ''0'' else ''1'')), lw_log = [],
     lw_parse = (\<lambda>b. Inr (page_json (lin_sample_pages ! (if b = ''0'' then 0 else 1)) (b = ''0'') ''c'')), lw_time = (\<lambda>s. Inl ErrSyntax),
     lw_now = 0\<rparr>"

lemma lin_sample_serves: "lin_serves lin_client (\<lambda>i. ''c'') lin_sample lin_sample_pages"
  by (auto simp: lin_serves_def lin_sample_def lin_sample_pages_def page_query_def fetch_vars_def cursor_json_def less_Suc_eq)

lemma lin_sample_issues:
  "map (lin_normalizeIssue lin_sample)
     (filter (\<lambda>n. isClaimableLinearStateType (linear_state_type n)) (json_objects (concat lin_sample_pages))) =
   map (lin_normalizeIssue lin_sample) (json_objects [lin_node ''A'' ''unstarted'' [blocked_by ''B''], lin_node ''C'' ''triage'' []])"
proof -
  have "isClaimableLinearStateType ''unstarted''" "\<not> isClaimableLinearStateType ''backlog''" "isClaimableLinearStateType ''triage''"
    by code_simp+
  then show ?thesis
    by (simp add: lin_sample_pages_def json_objects_def lin_node_def linear_state_type_def obj_at_def getString_def)
qed


text \<open>
  A blocker that is in the backlog, as one of another project, is not among the issues fetched, and the orchestrator takes it for
  resolved: A starts although B is open.
\<close>

lemma backlog_blocker_is_ignored:
  "\<exists>issues w' i. lin_FetchIssues 2 lin_client lin_sample = Some (Inr issues, w') \<and> i \<in> set issues \<and> is_BlockedBy i = [''B'']
     \<and> is_State i = Unclaimed \<and> unresolvedBlockers (is_BlockedBy i) (buildOpenIDSet issues) = []"
proof -
  let ?node = "[(''id'', GStr ''A''), (''identifier'', GStr ''A''), (''state'', GObj [(''type'', GStr ''unstarted'')]),
     (''inverseRelations'', GObj [(''nodes'', GArr [blocked_by ''B''])])]"
  let ?i = "lin_normalizeIssue lin_sample ?node"
  let ?j = "lin_normalizeIssue lin_sample [(''id'', GStr ''C''), (''identifier'', GStr ''C''), (''state'', GObj [(''type'', GStr ''triage'')]),
     (''inverseRelations'', GObj [(''nodes'', GArr [])])]"
  have pages: "lin_sample_pages \<noteq> []" "length lin_sample_pages = 2" by (simp_all add: lin_sample_pages_def)
  have "\<exists>w'. lin_FetchIssues 2 lin_client lin_sample = Some (Inr [?i, ?j], w')"
    using lin_pages_all [OF _ lin_sample_serves, of 0 2 "[]"] lin_sample_issues pages(1)
    by (simp add: pages(2) lin_FetchIssues_def cursor_json_def claimable_issues_def json_objects_def lin_node_def)
  moreover have "issueStateFromLinearStateType ''unstarted'' = Unclaimed" by code_simp
  then have "is_BlockedBy ?i = [''B'']" "is_State ?i = Unclaimed" "is_Identifier ?i = ''A''" "is_Identifier ?j = ''C''"
    by (simp_all add: lin_normalizeIssue_def blocked_by_def obj_at_def nodes_at_def getString_def extractBlockedBy_def blocker_of_def
        linear_state_type_def Let_def)
  then have "is_BlockedBy ?i = [''B''] \<and> is_State ?i = Unclaimed \<and> unresolvedBlockers (is_BlockedBy ?i) (buildOpenIDSet [?i, ?j]) = []"
    by (simp add: unresolvedBlockers_def buildOpenIDSet_def)
  ultimately show ?thesis by (metis list.set_intros(1))
qed

text \<open>An issue in triage counts as claimable and claimed; the orchestrator takes the claim for one it lost and dispatches the issue.\<close>

lemma triage_issue_is_taken_up:
  assumes "linear_state_type node = ''triage''" "map_of (or_running s) (getString node ''id'') = None"
    "map_of (or_paused s) (getString node ''id'') = None"
  shows "isClaimableLinearStateType (linear_state_type node) \<and>
    map is_State (fst (recoverOrphanedClaims [lin_normalizeIssue w node] s)) = [Unclaimed]"
proof -
  have "isClaimableLinearStateType ''triage''" "issueStateFromLinearStateType ''triage'' = Claimed" by code_simp+
  with assms show ?thesis by (simp add: recoverOrphanedClaims_def lin_normalizeIssue_def Let_def)
qed

end
