(* ===== verification/Workspace.thy ===== *)
theory Workspace
  imports Go_Strings Team_Types
begin

text \<open>
  Models \<open>internal/workspace/manager.go\<close> and \<open>provision.go\<close>: one git worktree per issue. git and the file system are parameters
  that answer from what was done before. The lock of an issue makes each call on it one step; how the locks themselves work is the
  step relation at the end. Messages are joined by colons only.
\<close>

section \<open>The outside\<close>

datatype ws_op = WsStat string | WsGit "string list" | WsRemoveAll string | WsMkdirAll string

datatype stat_result = StatDir | StatOther | StatNotExist | StatError

datatype git_result = GitOk | GitNotFound go_error | GitFailed go_error

record ws_world =
  ww_log :: "ws_op list"
  ww_stat :: "ws_op list \<Rightarrow> string \<Rightarrow> stat_result"
  ww_git :: "ws_op list \<Rightarrow> string list \<Rightarrow> string \<times> git_result"
  ww_remove :: "ws_op list \<Rightarrow> string \<Rightarrow> go_error option"
  ww_mkdir :: "ws_op list \<Rightarrow> string \<Rightarrow> go_error option"
  ww_abs :: "ws_op list \<Rightarrow> string \<Rightarrow> string result"
  ww_eval_links :: "ws_op list \<Rightarrow> string \<Rightarrow> string result"

definition ws_did :: "ws_op \<Rightarrow> ws_world \<Rightarrow> ws_world" where
  "ws_did a w = w\<lparr>ww_log := ww_log w @ [a]\<rparr>"

definition ws_Stat :: "string \<Rightarrow> ws_world \<Rightarrow> stat_result \<times> ws_world" where
  "ws_Stat p w = (ww_stat w (ww_log w) p, ws_did (WsStat p) w)"

definition ws_RemoveAll :: "string \<Rightarrow> ws_world \<Rightarrow> go_error option \<times> ws_world" where
  "ws_RemoveAll p w = (ww_remove w (ww_log w) p, ws_did (WsRemoveAll p) w)"

definition ws_MkdirAll :: "string \<Rightarrow> ws_world \<Rightarrow> go_error option \<times> ws_world" where
  "ws_MkdirAll p w = (ww_mkdir w (ww_log w) p, ws_did (WsMkdirAll p) w)"

definition runGit :: "string list \<Rightarrow> ws_world \<Rightarrow> (string \<times> go_error option) \<times> ws_world" where
  "runGit args w = (let (output, r) = ww_git w (ww_log w) args in
     ((output, case r of
         GitOk \<Rightarrow> None
       | GitNotFound err \<Rightarrow> Some (Wrap ''git executable not found'' err)
       | GitFailed err \<Rightarrow> Some (Wrap (''git '' @ str_join '' '' args @ '' failed'') (WrapPost err (''output: '' @ trim_space output)))),
      ws_did (WsGit args) w))"

section \<open>Registered worktrees\<close>

definition resolvedAbs :: "ws_world \<Rightarrow> string \<Rightarrow> string" where
  "resolvedAbs w p =
     (let abs = (case ww_abs w (ww_log w) p of Inl _ \<Rightarrow> p | Inr a \<Rightarrow> a) in
      case ww_eval_links w (ww_log w) abs of Inr resolved \<Rightarrow> resolved | Inl _ \<Rightarrow> abs)"

definition list_args :: "string list" where
  "list_args = [''worktree'', ''list'', ''--porcelain'']"

definition porcelain_entries :: "string \<Rightarrow> string list" where
  "porcelain_entries output = concat (map (\<lambda>line. case cut_prefix ''worktree '' line of None \<Rightarrow> [] | Some rest \<Rightarrow> [trim_space rest])
     (split_lines output))"

definition isRegisteredWorktree :: "string \<Rightarrow> ws_world \<Rightarrow> bool \<times> ws_world" where
  "isRegisteredWorktree p w = (case runGit list_args w of
     ((output, Some err), w) \<Rightarrow> (False, w)
   | ((output, None), w) \<Rightarrow> (list_ex (\<lambda>e. resolvedAbs w e = resolvedAbs w p) (porcelain_entries output), w))"

section \<open>The manager\<close>

record Manager =
  ma_baseDir :: string
  ma_active :: "string fdir"

definition NewManager :: "string \<Rightarrow> Manager" where
  "NewManager base = \<lparr>ma_baseDir = base, ma_active = []\<rparr>"

definition workspacePath :: "Manager \<Rightarrow> string \<Rightarrow> string" where
  "workspacePath m issueID = path_join [ma_baseDir m, ''workspaces'', issueID]"

definition ws_track :: "string \<Rightarrow> string \<Rightarrow> Manager \<Rightarrow> Manager" where
  "ws_track issueID p m = m\<lparr>ma_active := fput issueID p (ma_active m)\<rparr>"

definition ws_untrack :: "string \<Rightarrow> Manager \<Rightarrow> Manager" where
  "ws_untrack issueID m = m\<lparr>ma_active := fdel issueID (ma_active m)\<rparr>"

definition branch_of :: "Issue \<Rightarrow> string" where
  "branch_of issue = (let b = trim_space (is_BranchName issue) in if b = [] then is_ID issue else b)"

text \<open>A new branch, else the branch made anew, else the branch as it is.\<close>

definition add_worktree :: "string \<Rightarrow> string \<Rightarrow> string \<Rightarrow> ws_world \<Rightarrow> go_error option \<times> ws_world" where
  "add_worktree issueID branch p w =
     (case runGit [''worktree'', ''add'', ''-b'', branch, p] w of
        ((_, None), w) \<Rightarrow> (None, w)
      | ((_, Some primaryErr), w) \<Rightarrow>
         (case runGit [''worktree'', ''add'', ''-B'', branch, p] w of
            ((_, None), w) \<Rightarrow> (None, w)
          | ((_, Some recreateErr), w) \<Rightarrow>
             (case runGit [''worktree'', ''add'', p, branch] w of
                ((_, None), w) \<Rightarrow> (None, w)
              | ((_, Some attachErr), w) \<Rightarrow>
                  (Some (Wrap (''create git worktree for issue '' @ issueID @ '' on branch '' @ branch) attachErr), w))))"

definition new_worktree :: "Manager \<Rightarrow> Issue \<Rightarrow> string \<Rightarrow> ws_world \<Rightarrow> string result \<times> Manager \<times> ws_world" where
  "new_worktree m issue p w =
     (case ws_MkdirAll (path_dir p) w of
        (Some err, w) \<Rightarrow> (Inl (Wrap ''create workspace parent directory'' err), m, w)
      | (None, w) \<Rightarrow>
         (case add_worktree (is_ID issue) (branch_of issue) p w of
            (Some err, w) \<Rightarrow> (Inl err, m, w)
          | (None, w) \<Rightarrow>
             (case isRegisteredWorktree p w of
                (False, w) \<Rightarrow>
                  (Inl (ErrMsg (''git worktree add for issue '' @ is_ID issue @ '' reported success but path '' @ p
                     @ '' is not a registered worktree'')), m, w)
              | (True, w) \<Rightarrow> (Inr p, ws_track (is_ID issue) p m, w))))"

text \<open>The path may exist: a registered worktree is used again, another directory is removed.\<close>

definition reuse_or_new :: "Manager \<Rightarrow> Issue \<Rightarrow> string \<Rightarrow> ws_world \<Rightarrow> string result \<times> Manager \<times> ws_world" where
  "reuse_or_new m issue p w =
     (case ws_Stat p w of (s, w) \<Rightarrow>
        if s \<noteq> StatDir then new_worktree m issue p w
        else (case isRegisteredWorktree p w of
          (True, w) \<Rightarrow> (Inr p, ws_track (is_ID issue) p m, w)
        | (False, w) \<Rightarrow>
           (case ws_RemoveAll p w of
              (Some err, w) \<Rightarrow> (Inl (Wrap (''clean stale workspace dir for issue '' @ is_ID issue) err), m, w)
            | (None, w) \<Rightarrow> new_worktree m issue p w)))"

definition ws_Create :: "Manager \<Rightarrow> Issue \<Rightarrow> ws_world \<Rightarrow> string result \<times> Manager \<times> ws_world" where
  "ws_Create m issue w =
     (if is_ID issue = [] then (Inl (ErrMsg ''issue id is required''), m, w)
      else (case map_of (ma_active m) (is_ID issue) of
        None \<Rightarrow> reuse_or_new m issue (workspacePath m (is_ID issue)) w
      | Some trackedPath \<Rightarrow>
         (case ws_Stat trackedPath w of (s, w) \<Rightarrow>
            if s = StatDir then (Inr trackedPath, m, w) else reuse_or_new m issue (workspacePath m (is_ID issue)) w)))"

definition ws_Cleanup :: "Manager \<Rightarrow> string \<Rightarrow> ws_world \<Rightarrow> go_error option \<times> Manager \<times> ws_world" where
  "ws_Cleanup m issueID w =
     (if issueID = [] then (None, m, w)
      else (let p = workspacePath m issueID in
        case ws_Stat p w of (s, w) \<Rightarrow>
          if s = StatNotExist then (None, ws_untrack issueID m, w)
          else (case runGit [''worktree'', ''remove'', p, ''--force''] w of
            ((output, r), w) \<Rightarrow>
              (case r of
                 Some err \<Rightarrow>
                   if \<not> str_contains output ''is not a working tree''
                   then (Some (Wrap (''remove git worktree for issue '' @ issueID) err), m, w)
                   else (None, ws_untrack issueID m, w)
               | None \<Rightarrow> (None, ws_untrack issueID m, w)))))"

definition ws_List :: "Manager \<Rightarrow> string list" where
  "ws_List m = sort (map fst (ma_active m))"

fun cleanup_each :: "string list \<Rightarrow> Manager \<Rightarrow> ws_world \<Rightarrow> go_error list \<times> Manager \<times> ws_world" where
  "cleanup_each [] m w = ([], m, w)"
| "cleanup_each (k # ks) m w = (case ws_Cleanup m k w of (r, m, w) \<Rightarrow>
     (case cleanup_each ks m w of (errs, m, w) \<Rightarrow> (case r of None \<Rightarrow> errs | Some err \<Rightarrow> err # errs, m, w)))"

text \<open>\<open>errors.Join\<close> of the errors, as their list.\<close>

definition CleanupAll :: "Manager \<Rightarrow> ws_world \<Rightarrow> go_error list \<times> Manager \<times> ws_world" where
  "CleanupAll m w = cleanup_each (ws_List m) m w"

definition ws_Exists :: "Manager \<Rightarrow> string \<Rightarrow> ws_world \<Rightarrow> bool \<times> ws_world" where
  "ws_Exists m issueID w = (case map_of (ma_active m) issueID of
     None \<Rightarrow> (False, w)
   | Some p \<Rightarrow> (case ws_Stat p w of (s, w) \<Rightarrow> (s = StatDir, w)))"

definition Provision :: "Manager option \<Rightarrow> Issue \<Rightarrow> ws_world \<Rightarrow> string result \<times> Manager option \<times> ws_world" where
  "Provision manager issue w = (case manager of
     None \<Rightarrow> (Inl (ErrMsg ''workspace manager is nil''), None, w)
   | Some m \<Rightarrow> (case ws_Create m issue w of (r, m, w) \<Rightarrow> (r, Some m, w)))"

section \<open>The locks of the issues\<close>

text \<open>
  A call on an issue takes the mutex stored for the issue, or stores a new one, and then waits for it. A clean-up that succeeds
  deletes the entry before it unlocks. \<open>lk_pc g\<close> says where goroutine \<open>g\<close> is.
\<close>

datatype lock_pc = Outside | Waiting string nat | Inside string nat

record locks =
  lk_issueLocks :: "string \<Rightarrow> nat option"
  lk_locked :: "nat \<Rightarrow> bool"
  lk_next :: nat
  lk_pc :: "nat \<Rightarrow> lock_pc"

definition no_locks :: locks where
  "no_locks = \<lparr>lk_issueLocks = (\<lambda>_. None), lk_locked = (\<lambda>_. False), lk_next = 0, lk_pc = (\<lambda>_. Outside)\<rparr>"

datatype lock_move = LoadOrStore nat string | LockIt nat | DeleteEntry nat | UnlockIt nat

definition at_pc :: "nat \<Rightarrow> lock_pc \<Rightarrow> locks \<Rightarrow> locks" where
  "at_pc g c s = s\<lparr>lk_pc := (lk_pc s)(g := c)\<rparr>"

fun lock_step :: "lock_move \<Rightarrow> locks \<Rightarrow> locks option" where
  "lock_step (LoadOrStore g k) s = (if lk_pc s g \<noteq> Outside then None
     else (case lk_issueLocks s k of
       Some i \<Rightarrow> Some (at_pc g (Waiting k i) s)
     | None \<Rightarrow> Some (at_pc g (Waiting k (lk_next s))
         (s\<lparr>lk_issueLocks := (lk_issueLocks s)(k := Some (lk_next s)), lk_next := Suc (lk_next s)\<rparr>))))"
| "lock_step (LockIt g) s = (case lk_pc s g of
     Waiting k i \<Rightarrow> if lk_locked s i then None else Some (at_pc g (Inside k i) (s\<lparr>lk_locked := (lk_locked s)(i := True)\<rparr>))
   | _ \<Rightarrow> None)"
| "lock_step (DeleteEntry g) s = (case lk_pc s g of
     Inside k i \<Rightarrow> Some (s\<lparr>lk_issueLocks := (lk_issueLocks s)(k := None)\<rparr>)
   | _ \<Rightarrow> None)"
| "lock_step (UnlockIt g) s = (case lk_pc s g of
     Inside k i \<Rightarrow> Some (at_pc g Outside (s\<lparr>lk_locked := (lk_locked s)(i := False)\<rparr>))
   | _ \<Rightarrow> None)"

fun lock_run :: "lock_move list \<Rightarrow> locks \<Rightarrow> locks option" where
  "lock_run [] s = Some s"
| "lock_run (m # ms) s = (case lock_step m s of None \<Rightarrow> None | Some s \<Rightarrow> lock_run ms s)"

end
