(* ===== verification/Workspace_Props.thy ===== *)
theory Workspace_Props
  imports Workspace
begin

text \<open>What the workspace manager relies on from git, what it promises then, and its locks.\<close>

section \<open>The locks exclude, unless entries are deleted\<close>

definition lock_inv :: "locks \<Rightarrow> bool" where
  "lock_inv s \<longleftrightarrow>
     (\<forall>g k i. lk_pc s g = Waiting k i \<longrightarrow> lk_issueLocks s k = Some i)
   \<and> (\<forall>g k i. lk_pc s g = Inside k i \<longrightarrow> lk_issueLocks s k = Some i \<and> lk_locked s i)
   \<and> (\<forall>g h k l i. lk_pc s g = Inside k i \<longrightarrow> lk_pc s h = Inside l i \<longrightarrow> g = h)"

lemma lock_invI:
  assumes "\<And>g k i. lk_pc s g = Waiting k i \<Longrightarrow> lk_issueLocks s k = Some i"
    and "\<And>g k i. lk_pc s g = Inside k i \<Longrightarrow> lk_issueLocks s k = Some i"
    and "\<And>g k i. lk_pc s g = Inside k i \<Longrightarrow> lk_locked s i"
    and "\<And>g h k l i. lk_pc s g = Inside k i \<Longrightarrow> lk_pc s h = Inside l i \<Longrightarrow> g = h"
  shows "lock_inv s"
  using assms unfolding lock_inv_def by blast

lemma lock_invD:
  assumes "lock_inv s"
  shows "lk_pc s g = Waiting k i \<Longrightarrow> lk_issueLocks s k = Some i" "lk_pc s g = Inside k i \<Longrightarrow> lk_issueLocks s k = Some i"
    "lk_pc s g = Inside k i \<Longrightarrow> lk_locked s i" "lk_pc s g = Inside k i \<Longrightarrow> lk_pc s h = Inside l i \<Longrightarrow> g = h"
  using assms unfolding lock_inv_def by blast+

lemma lock_inv_start: "lock_inv no_locks"
  by (simp add: lock_inv_def no_locks_def)

lemma lock_step_inv:
  assumes inv: "lock_inv s" and "lock_step m s = Some t" and "\<forall>g. m \<noteq> DeleteEntry g"
  shows "lock_inv t"
  using assms(2, 3)
proof (cases m)
  case (LoadOrStore g k)
  with assms(2) have "lk_pc s g = Outside" by (auto split: if_splits)
  with LoadOrStore assms(2) obtain i where "t = at_pc g (Waiting k i) s \<and> lk_issueLocks s k = Some i
      \<or> t = at_pc g (Waiting k i) (s\<lparr>lk_issueLocks := (lk_issueLocks s)(k := Some i), lk_next := Suc i\<rparr>) \<and> lk_issueLocks s k = None"
    by (auto split: option.splits)
  then show ?thesis
    by (elim disjE conjE; intro lock_invI) (auto simp: at_pc_def dest: lock_invD [OF inv] split: if_splits)
next
  case (LockIt g)
  with assms(2) obtain k i where at: "lk_pc s g = Waiting k i" "\<not> lk_locked s i"
    and t: "t = at_pc g (Inside k i) (s\<lparr>lk_locked := (lk_locked s)(i := True)\<rparr>)"
    by (auto split: lock_pc.splits if_splits)
  show ?thesis unfolding t
    by (rule lock_invI) (use at in \<open>auto simp: at_pc_def dest: lock_invD [OF inv] split: if_splits\<close>)
next
  case (UnlockIt g)
  with assms(2) obtain k i where at: "lk_pc s g = Inside k i"
    and t: "t = at_pc g Outside (s\<lparr>lk_locked := (lk_locked s)(i := False)\<rparr>)"
    by (auto split: lock_pc.splits)
  show ?thesis unfolding t
    by (rule lock_invI) (use at in \<open>auto simp: at_pc_def dest: lock_invD [OF inv] split: if_splits\<close>)
qed auto

lemma lock_run_inv: "lock_inv s \<Longrightarrow> lock_run ms s = Some t \<Longrightarrow> \<forall>g. DeleteEntry g \<notin> set ms \<Longrightarrow> lock_inv t"
proof (induction ms arbitrary: s)
  case (Cons m ms)
  then obtain u where u: "lock_step m s = Some u" "lock_run ms u = Some t" by (auto split: option.splits)
  moreover from Cons.prems(3) have "\<forall>g. m \<noteq> DeleteEntry g" by auto
  ultimately have "lock_inv u" using lock_step_inv [OF Cons.prems(1) u(1)] by blast
  with Cons.IH u(2) Cons.prems(3) show ?case by auto
qed simp

text \<open>
  C36. As long as no clean-up succeeds, two goroutines are never at work on one issue: the mutex stored for the issue stays the same.
\<close>

theorem issue_lock_excludes:
  assumes "lock_run ms no_locks = Some s" and "\<forall>g. DeleteEntry g \<notin> set ms"
    and "lk_pc s g = Inside k i" and "lk_pc s h = Inside k j"
  shows "g = h"
proof -
  have inv: "lock_inv s" by (rule lock_run_inv [OF lock_inv_start assms(1, 2)])
  from lock_invD(2) [OF inv assms(3)] lock_invD(2) [OF inv assms(4)] have "i = j" by simp
  with lock_invD(4) [OF inv assms(3)] assms(4) show ?thesis by blast
qed

definition busy_issue :: "lock_move list" where
  "busy_issue = [LoadOrStore 1 ''A'', LoadOrStore 2 ''A'', LockIt 1, UnlockIt 1, LockIt 2]"

theorem issue_lock_excludes_witness:
  "\<exists>s. lock_run busy_issue no_locks = Some s \<and> lk_pc s 2 = Inside ''A'' 0 \<and> (\<forall>h. lk_pc s h = Inside ''A'' 0 \<longrightarrow> 2 = h)"
proof -
  obtain s where s: "lock_run busy_issue no_locks = Some s" "lk_pc s 2 = Inside ''A'' 0"
    by (simp add: busy_issue_def no_locks_def at_pc_def)
  moreover have "\<forall>g. DeleteEntry g \<notin> set busy_issue" by (simp add: busy_issue_def)
  ultimately show ?thesis using issue_lock_excludes by blast
qed

text \<open>
  A clean-up deletes the entry while another call waits for the mutex; a third call stores a new mutex, and both are at work on the issue.
\<close>

lemma cleanup_breaks_lock:
  "\<exists>s. lock_run [LoadOrStore 1 ''A'', LockIt 1, LoadOrStore 2 ''A'', DeleteEntry 1, UnlockIt 1, LockIt 2, LoadOrStore 3 ''A'', LockIt 3]
      no_locks = Some s \<and> lk_pc s 2 = Inside ''A'' 0 \<and> lk_pc s 3 = Inside ''A'' 1"
  by (simp add: no_locks_def at_pc_def)

section \<open>What git is documented to do\<close>

text \<open>
  \<open>reg h\<close> are the paths of the worktrees git has registered after the history \<open>h\<close>. A listing shows them, a successful addition adds one, a
  successful removal takes one away, and nothing else changes them, the removal of a directory included.
\<close>

definition add_forms :: "string \<Rightarrow> string \<Rightarrow> string list set" where
  "add_forms b p = {[''worktree'', ''add'', ''-b'', b, p], [''worktree'', ''add'', ''-B'', b, p], [''worktree'', ''add'', p, b]}"

definition remove_args :: "string \<Rightarrow> string list" where
  "remove_args p = [''worktree'', ''remove'', p, ''--force'']"

definition git_ok :: "ws_world \<Rightarrow> ws_op list \<Rightarrow> string list \<Rightarrow> bool" where
  "git_ok w h args \<longleftrightarrow> snd (ww_git w h args) = GitOk"

definition documented_git :: "ws_world \<Rightarrow> (ws_op list \<Rightarrow> string set) \<Rightarrow> string set \<Rightarrow> bool" where
  "documented_git w reg P \<longleftrightarrow>
     (\<forall>h. \<forall>p \<in> P. fst (isRegisteredWorktree p (w\<lparr>ww_log := h\<rparr>)) = (p \<in> reg h))
   \<and> (\<forall>h q. reg (h @ [WsStat q]) = reg h \<and> reg (h @ [WsRemoveAll q]) = reg h \<and> reg (h @ [WsMkdirAll q]) = reg h
        \<and> reg (h @ [WsGit list_args]) = reg h)
   \<and> (\<forall>h b. \<forall>p \<in> P. \<forall>args \<in> add_forms b p. reg (h @ [WsGit args]) = (if git_ok w h args then insert p (reg h) else reg h))
   \<and> (\<forall>h. \<forall>p \<in> P. reg (h @ [WsGit (remove_args p)]) = (if git_ok w h (remove_args p) then reg h - {p} else reg h)
        \<and> (str_contains (fst (ww_git w h (remove_args p))) ''is not a working tree'' \<and> \<not> git_ok w h (remove_args p) \<longrightarrow> p \<notin> reg h))"

lemma git_log [simp]: "documented_git (w\<lparr>ww_log := l\<rparr>) reg P = documented_git w reg P"
  by (simp add: documented_git_def git_ok_def)

lemma git_did [simp]: "documented_git (ws_did a w) reg P = documented_git w reg P" "ww_log (ws_did a w) = ww_log w @ [a]"
  by (simp_all add: ws_did_def)

lemma documentedD:
  assumes "documented_git w reg P"
  shows "p \<in> P \<Longrightarrow> fst (isRegisteredWorktree p w) = (p \<in> reg (ww_log w))"
    and "reg (h @ [WsStat q]) = reg h" "reg (h @ [WsRemoveAll q]) = reg h" "reg (h @ [WsMkdirAll q]) = reg h"
    and "reg (h @ [WsGit list_args]) = reg h"
    and "p \<in> P \<Longrightarrow> args \<in> add_forms b p \<Longrightarrow> reg (h @ [WsGit args]) = (if git_ok w h args then insert p (reg h) else reg h)"
    and "p \<in> P \<Longrightarrow> reg (h @ [WsGit (remove_args p)]) = (if git_ok w h (remove_args p) then reg h - {p} else reg h)"
    and "p \<in> P \<Longrightarrow> str_contains (fst (ww_git w h (remove_args p))) ''is not a working tree'' \<Longrightarrow> \<not> git_ok w h (remove_args p) \<Longrightarrow> p \<notin> reg h"
proof -
  show "p \<in> P \<Longrightarrow> fst (isRegisteredWorktree p w) = (p \<in> reg (ww_log w))"
    using assms unfolding documented_git_def by (metis ws_world.surjective ws_world.update_convs(1))
qed (use assms in \<open>auto simp: documented_git_def\<close>)

lemma runGit_did:
  "runGit args w = ((out, e), w') \<Longrightarrow> w' = ws_did (WsGit args) w \<and> (e = None) = git_ok w (ww_log w) args \<and> out = fst (ww_git w (ww_log w) args)"
  by (auto simp: runGit_def git_ok_def split: prod.splits git_result.splits)

lemma listing_did: "isRegisteredWorktree p w = (b, w') \<Longrightarrow> w' = ws_did (WsGit list_args) w"
  by (auto simp: isRegisteredWorktree_def split: prod.splits option.splits dest: runGit_did)

lemma add_effect:
  assumes git: "documented_git w reg P" and p: "p \<in> P" and "add_worktree k b p w = (e, w')"
  shows "documented_git w' reg P \<and> reg (ww_log w') = (if e = None then insert p (reg (ww_log w)) else reg (ww_log w))"
proof -
  have one: "documented_git v reg P \<Longrightarrow> args \<in> add_forms b p \<Longrightarrow> runGit args v = ((out, r), v') \<Longrightarrow>
      documented_git v' reg P \<and> reg (ww_log v') = (if r = None then insert p (reg (ww_log v)) else reg (ww_log v))" for v args out r v'
    using documentedD(6) [of v reg P p args b "ww_log v"] p by (auto dest!: runGit_did)
  have forms: "[''worktree'', ''add'', ''-b'', b, p] \<in> add_forms b p" "[''worktree'', ''add'', ''-B'', b, p] \<in> add_forms b p"
    "[''worktree'', ''add'', p, b] \<in> add_forms b p" by (simp_all add: add_forms_def)
  obtain o1 r1 w1 where g1: "runGit [''worktree'', ''add'', ''-b'', b, p] w = ((o1, r1), w1)" by (metis surj_pair)
  obtain o2 r2 w2 where g2: "runGit [''worktree'', ''add'', ''-B'', b, p] w1 = ((o2, r2), w2)" by (metis surj_pair)
  obtain o3 r3 w3 where g3: "runGit [''worktree'', ''add'', p, b] w2 = ((o3, r3), w3)" by (metis surj_pair)
  from one [OF git forms(1) g1] one [OF _ forms(2) g2] one [OF _ forms(3) g3] assms(3) show ?thesis
    by (auto simp: add_worktree_def g1 g2 g3 split: option.splits)
qed

section \<open>The manager on a documented git\<close>

text \<open>Every tracked issue is one of \<open>K\<close> and has a registered worktree at its own path.\<close>

definition tracks :: "Manager \<Rightarrow> (ws_op list \<Rightarrow> string set) \<Rightarrow> ws_op list \<Rightarrow> string set \<Rightarrow> bool" where
  "tracks m reg h K \<longleftrightarrow> (\<forall>k p. map_of (ma_active m) k = Some p \<longrightarrow> k \<in> K \<and> p = workspacePath m k \<and> p \<in> reg h)"

lemma path_base [simp]: "workspacePath (ws_track k p m) = workspacePath m" "workspacePath (ws_untrack k m) = workspacePath m"
  by (rule ext, simp add: workspacePath_def ws_track_def ws_untrack_def)+

lemma active_track [simp]: "map_of (ma_active (ws_track k p m)) = (map_of (ma_active m))(k \<mapsto> p)"
  "map_of (ma_active (ws_untrack k m)) = (map_of (ma_active m))(k := None)"
  by (simp_all add: ws_track_def ws_untrack_def)

text \<open>The possible outcomes of a creation.\<close>

definition created :: "Manager \<Rightarrow> string \<Rightarrow> (ws_op list \<Rightarrow> string set) \<Rightarrow> string set \<Rightarrow> string set \<Rightarrow> string result \<times> Manager \<times> ws_world \<Rightarrow> bool" where
  "created m k reg P R x \<longleftrightarrow> (case x of (r, m', w') \<Rightarrow>
     documented_git w' reg P \<and> workspacePath m' = workspacePath m
     \<and> (case r of
          Inr p \<Rightarrow> p = workspacePath m k \<and> reg (ww_log w') = insert p R \<and> map_of (ma_active m') = (map_of (ma_active m))(k \<mapsto> p)
        | Inl err \<Rightarrow> m' = m \<and> reg (ww_log w') = R))"

lemma new_worktree_created:
  assumes git: "documented_git w reg P" and p: "workspacePath m (is_ID issue) \<in> P"
  shows "created m (is_ID issue) reg P (reg (ww_log w)) (new_worktree m issue (workspacePath m (is_ID issue)) w)"
proof -
  let ?p = "workspacePath m (is_ID issue)"
  obtain e1 w1 where mk: "ws_MkdirAll (path_dir ?p) w = (e1, w1)" by fastforce
  then have w1: "documented_git w1 reg P" "reg (ww_log w1) = reg (ww_log w)"
    using git documentedD(4) [OF git] by (auto simp: ws_MkdirAll_def)
  obtain e2 w2 where add: "add_worktree (is_ID issue) (branch_of issue) ?p w1 = (e2, w2)" by fastforce
  note w2 = add_effect [OF w1(1) p add]
  obtain b w3 where li: "isRegisteredWorktree ?p w2 = (b, w3)" by fastforce
  have w3: "documented_git w3 reg P" "reg (ww_log w3) = reg (ww_log w2)" "b = (?p \<in> reg (ww_log w2))"
    using w2 listing_did [OF li] documentedD(5) [of w2 reg P] documentedD(1) [of w2 reg P ?p] p li by simp_all
  show ?thesis
    using w1 w2 w3 by (auto simp: new_worktree_def mk add li created_def split: option.splits bool.splits)
qed

lemma reuse_or_new_created:
  assumes git: "documented_git w reg P" and p: "workspacePath m (is_ID issue) \<in> P"
  shows "created m (is_ID issue) reg P (reg (ww_log w)) (reuse_or_new m issue (workspacePath m (is_ID issue)) w)"
proof -
  let ?p = "workspacePath m (is_ID issue)"
  obtain s w1 where st: "ws_Stat ?p w = (s, w1)" by fastforce
  then have w1: "documented_git w1 reg P" "reg (ww_log w1) = reg (ww_log w)"
    using git documentedD(2) [OF git] by (auto simp: ws_Stat_def)
  obtain b w2 where li: "isRegisteredWorktree ?p w1 = (b, w2)" by fastforce
  have w2: "documented_git w2 reg P" "reg (ww_log w2) = reg (ww_log w1)" "b = (?p \<in> reg (ww_log w1))"
    using w1 listing_did [OF li] documentedD(5) [OF w1(1)] documentedD(1) [OF w1(1) p] li by auto
  obtain e w3 where rm: "ws_RemoveAll ?p w2 = (e, w3)" by fastforce
  then have w3: "documented_git w3 reg P" "reg (ww_log w3) = reg (ww_log w2)"
    using w2 documentedD(3) [OF w2(1)] by (auto simp: ws_RemoveAll_def)
  show ?thesis
    using new_worktree_created [OF w1(1) p, unfolded w1(2)] new_worktree_created [OF w3(1) p, unfolded w3(2) w2(2) w1(2)] w1 w2 w3
    by (auto simp: reuse_or_new_def st li rm created_def split: bool.splits option.splits)
qed

lemma Create_created:
  assumes git: "documented_git w reg P" and p: "workspacePath m (is_ID issue) \<in> P" and tr: "tracks m reg (ww_log w) K"
  shows "created m (is_ID issue) reg P (reg (ww_log w)) (ws_Create m issue w)"
proof (cases "map_of (ma_active m) (is_ID issue)")
  case None
  then show ?thesis
    using reuse_or_new_created [OF git p] git by (simp add: ws_Create_def created_def)
next
  case (Some t)
  with tr have t: "t = workspacePath m (is_ID issue)" "t \<in> reg (ww_log w)" by (auto simp: tracks_def)
  obtain s w1 where st: "ws_Stat t w = (s, w1)" by fastforce
  then have w1: "documented_git w1 reg P" "reg (ww_log w1) = reg (ww_log w)"
    using git documentedD(2) [OF git] by (auto simp: ws_Stat_def)
  have "(map_of (ma_active m))(is_ID issue \<mapsto> t) = map_of (ma_active m)" using Some by auto
  with Some t(2) st w1 reuse_or_new_created [OF w1(1) p, unfolded w1(2)] git show ?thesis
    unfolding t(1) by (auto simp: ws_Create_def created_def insert_absorb)
qed

text \<open>The possible outcomes of a clean-up.\<close>

definition cleaned :: "Manager \<Rightarrow> string \<Rightarrow> (ws_op list \<Rightarrow> string set) \<Rightarrow> string set \<Rightarrow> ws_world \<Rightarrow> go_error option \<times> Manager \<times> ws_world \<Rightarrow> bool" where
  "cleaned m k reg P w x \<longleftrightarrow> (case x of (r, m', w') \<Rightarrow>
     documented_git w' reg P \<and> workspacePath m' = workspacePath m \<and> reg (ww_log w) - {workspacePath m k} \<subseteq> reg (ww_log w')
     \<and> reg (ww_log w') \<subseteq> reg (ww_log w)
     \<and> (case r of
          None \<Rightarrow> map_of (ma_active m') = (map_of (ma_active m))(k := None)
            \<and> (fst (ws_Stat (workspacePath m k) w) \<noteq> StatNotExist \<longrightarrow> workspacePath m k \<notin> reg (ww_log w'))
        | Some err \<Rightarrow> m' = m \<and> reg (ww_log w') = reg (ww_log w)))"

lemma Cleanup_cleaned:
  assumes git: "documented_git w reg P" and p: "workspacePath m k \<in> P" and k: "k \<noteq> []"
  shows "cleaned m k reg P w (ws_Cleanup m k w)"
proof -
  let ?p = "workspacePath m k"
  obtain s w1 where st: "ws_Stat ?p w = (s, w1)" by fastforce
  then have w1: "documented_git w1 reg P" "reg (ww_log w1) = reg (ww_log w)"
    using git documentedD(2) [OF git] by (auto simp: ws_Stat_def)
  obtain out r w2 where rm: "runGit (remove_args ?p) w1 = ((out, r), w2)" by (metis surj_pair)
  from runGit_did [OF rm] have w2: "documented_git w2 reg P" "(r = None) = git_ok w1 (ww_log w1) (remove_args ?p)"
    "out = fst (ww_git w1 (ww_log w1) (remove_args ?p))" "reg (ww_log w2) = (if r = None then reg (ww_log w1) - {?p} else reg (ww_log w1))"
    using w1(1) documentedD(7) [OF w1(1) p] by auto
  have gone: "str_contains out ''is not a working tree'' \<Longrightarrow> r \<noteq> None \<Longrightarrow> ?p \<notin> reg (ww_log w1)"
    using documentedD(8) [OF w1(1) p] w2(2, 3) by auto
  show ?thesis
    using k w1 w2(1, 4) gone unfolding cleaned_def ws_Cleanup_def
    by (auto simp: st rm [unfolded remove_args_def] Let_def split: option.splits)
qed

section \<open>Any sequence of calls\<close>

datatype ws_call = WCreate Issue | WCleanup string | WCleanupAll

fun call_ids :: "ws_call \<Rightarrow> string set" where
  "call_ids (WCreate issue) = {is_ID issue}"
| "call_ids (WCleanup k) = {k}"
| "call_ids WCleanupAll = {}"

fun ws_do :: "ws_call \<Rightarrow> Manager \<times> ws_world \<Rightarrow> Manager \<times> ws_world" where
  "ws_do (WCreate issue) (m, w) = snd (ws_Create m issue w)"
| "ws_do (WCleanup k) (m, w) = snd (ws_Cleanup m k w)"
| "ws_do WCleanupAll (m, w) = snd (CleanupAll m w)"

definition ws_good :: "string \<Rightarrow> (ws_op list \<Rightarrow> string set) \<Rightarrow> string set \<Rightarrow> Manager \<times> ws_world \<Rightarrow> bool" where
  "ws_good base reg K x \<longleftrightarrow> (case x of (m, w) \<Rightarrow>
     workspacePath m = workspacePath (NewManager base) \<and> tracks m reg (ww_log w) K
     \<and> documented_git w reg (workspacePath (NewManager base) ` K))"

lemma created_good:
  assumes "ws_good base reg K (m, w)" "is_ID issue \<in> K"
  shows "created m (is_ID issue) reg (workspacePath (NewManager base) ` K) (reg (ww_log w)) (ws_Create m issue w)"
  using Create_created [of w reg _ m issue K] assms by (auto simp: ws_good_def)

lemma cleaned_good:
  assumes "ws_good base reg K (m, w)" "k \<in> K" "[] \<notin> K"
  shows "cleaned m k reg (workspacePath (NewManager base) ` K) w (ws_Cleanup m k w)"
proof -
  from assms(2, 3) have "k \<noteq> []" by blast
  then show ?thesis using Cleanup_cleaned [of w reg _ m k] assms(1, 2) by (auto simp: ws_good_def)
qed

lemma Create_good:
  assumes "ws_good base reg K (m, w)" "is_ID issue \<in> K"
  shows "ws_good base reg K (snd (ws_Create m issue w))"
proof -
  obtain r m' w' where c: "ws_Create m issue w = (r, m', w')" by (metis prod_cases3)
  with created_good [OF assms] show ?thesis
    using assms by (auto simp: created_def ws_good_def tracks_def split: sum.splits if_splits)
qed

lemma Cleanup_good:
  assumes "ws_good base reg K (m, w)" "k \<in> K" "[] \<notin> K" "inj_on (workspacePath (NewManager base)) K"
  shows "ws_good base reg K (snd (ws_Cleanup m k w))"
proof -
  obtain r m' w' where c: "ws_Cleanup m k w = (r, m', w')" by (metis prod_cases3)
  note cl = cleaned_good [OF assms(1-3), unfolded c cleaned_def prod.case]
  have kept: "p \<in> reg (ww_log w')" if "map_of (ma_active m) j = Some p" "j \<noteq> k" for j p
  proof -
    from that(1) assms(1) have j: "j \<in> K" "p = workspacePath m j" "p \<in> reg (ww_log w)" by (auto simp: ws_good_def tracks_def)
    with assms(1, 2, 4) that(2) have "p \<noteq> workspacePath m k" by (auto simp: ws_good_def inj_on_def)
    with cl j(3) show ?thesis by blast
  qed
  show ?thesis
    using cl kept assms(1) by (auto simp: c ws_good_def tracks_def split: option.splits if_splits)
qed

lemma cleanup_each_good:
  "ws_good base reg K (m, w) \<Longrightarrow> set ks \<subseteq> K \<Longrightarrow> [] \<notin> K \<Longrightarrow> inj_on (workspacePath (NewManager base)) K \<Longrightarrow>
     ws_good base reg K (snd (cleanup_each ks m w))"
proof (induction ks arbitrary: m w)
  case (Cons k ks)
  obtain r m1 w1 where c: "ws_Cleanup m k w = (r, m1, w1)" by (metis prod_cases3)
  with Cleanup_good [OF Cons.prems(1) _ Cons.prems(3, 4), of k] Cons.prems(2) have "ws_good base reg K (m1, w1)" by simp
  with Cons.IH [of m1 w1] Cons.prems(2-4) show ?case by (auto simp: c split: prod.splits)
qed simp

lemma ws_do_good:
  assumes "ws_good base reg K x" "call_ids c \<subseteq> K" "[] \<notin> K" "inj_on (workspacePath (NewManager base)) K"
  shows "ws_good base reg K (ws_do c x)"
proof -
  obtain m w where x: "x = (m, w)" by (cases x)
  have "set (ws_List m) \<subseteq> K"
    using assms(1) by (auto simp: x ws_good_def tracks_def ws_List_def dest: weak_map_of_SomeI)
  then show ?thesis
    using assms Create_good [of base reg K m w] Cleanup_good [of base reg K m w] cleanup_each_good [of base reg K m w]
    by (cases c) (simp_all add: x CleanupAll_def)
qed


section \<open>A repository by example\<close>

definition sample_ids :: "string list" where
  "sample_ids = [''A'', ''B'']"

definition sample_ws_issue :: "string \<Rightarrow> Issue" where
  "sample_ws_issue k = \<lparr>is_ID = k, is_Identifier = k, is_Title = [], is_Description = [], is_State = Unclaimed, is_Priority = 0,
     is_Labels = [], is_URL = [], is_BranchName = ''symphony/'' @ k, is_BlockedBy = [], is_ModelOverride = [], is_CreatedAt = 0,
     is_UpdatedAt = 0\<rparr>"

definition sample_paths :: "string list" where
  "sample_paths = map (workspacePath (NewManager ''/r'')) sample_ids"

fun after_op :: "string list \<Rightarrow> ws_op \<Rightarrow> string list" where
  "after_op ps (WsGit args) =
     (if length args = 5 \<and> args ! 1 = ''add'' then args ! 4 # ps
      else if length args = 4 \<and> args ! 1 = ''add'' then args ! 2 # ps
      else if length args = 4 \<and> args ! 1 = ''remove'' then removeAll (args ! 2) ps else ps)"
| "after_op ps _ = ps"

definition sample_reg :: "ws_op list \<Rightarrow> string list" where
  "sample_reg h = foldl after_op [] h"

definition entry_line :: "string \<Rightarrow> string" where
  "entry_line p = ''worktree '' @ p @ [line_feed]"

definition sample_git :: ws_world where
  "sample_git = \<lparr>ww_log = [], ww_stat = (\<lambda>h p. if p \<in> set (sample_reg h) then StatDir else StatNotExist),
     ww_git = (\<lambda>h args. (concat (map entry_line (filter (\<lambda>p. p \<in> set sample_paths) (sample_reg h))), GitOk)),
     ww_remove = (\<lambda>h p. None), ww_mkdir = (\<lambda>h p. None), ww_abs = (\<lambda>h p. Inr p), ww_eval_links = (\<lambda>h p. Inr p)\<rparr>"

lemma sample_paths_eq: "sample_paths = [''/r/workspaces/A'', ''/r/workspaces/B'']"
  by code_simp

lemma entries_of_lines: "set ps \<subseteq> set sample_paths \<Longrightarrow> porcelain_entries (concat (map entry_line ps)) = ps"
proof (induction ps)
  case Nil
  show ?case by (simp add: porcelain_entries_def split_lines_def cut_prefix_def has_prefix_def)
next
  case (Cons p ps)
  then have p: "line_feed \<notin> set (''worktree '' @ p)" "trim_space p = p" "porcelain_entries (concat (map entry_line ps)) = ps"
    by (auto simp: sample_paths_eq line_feed_def trim_space_def is_space_def)
  have "entry_line p @ concat (map entry_line ps) = (''worktree '' @ p) @ line_feed # concat (map entry_line ps)"
    by (simp add: entry_line_def)
  then have "split_lines (entry_line p @ concat (map entry_line ps)) = (''worktree '' @ p) # split_lines (concat (map entry_line ps))"
    unfolding split_lines_def using split_on_append [OF p(1)] by simp
  with p(2, 3) show ?case by (simp add: porcelain_entries_def cut_prefix_def has_prefix_def)
qed

lemma sample_entries:
  "porcelain_entries (concat (map entry_line (filter (\<lambda>p. p \<in> set sample_paths) xs))) = filter (\<lambda>p. p \<in> set sample_paths) xs"
  by (rule entries_of_lines) auto

lemma sample_documented: "documented_git sample_git (\<lambda>h. set (sample_reg h)) (workspacePath (NewManager ''/r'') ` set sample_ids)"
proof -
  have P: "workspacePath (NewManager ''/r'') ` set sample_ids = set sample_paths" by (simp add: sample_paths_def)
  have listing: "fst (isRegisteredWorktree p (sample_git\<lparr>ww_log := h\<rparr>)) = (p \<in> set (sample_reg h))" if "p \<in> set sample_paths" for h p
    using that
    by (auto simp: sample_entries isRegisteredWorktree_def runGit_def sample_git_def resolvedAbs_def ws_did_def list_ex_iff)
  have ok: "git_ok sample_git h args" for h args by (simp add: git_ok_def sample_git_def)
  have step: "sample_reg (h @ [a]) = after_op (sample_reg h) a" for h a by (simp add: sample_reg_def)
  show ?thesis
    unfolding documented_git_def P
    by (auto simp: listing step list_args_def add_forms_def remove_args_def ok)
qed

definition sample_calls :: "ws_call list" where
  "sample_calls = [WCreate (sample_ws_issue ''A''), WCreate (sample_ws_issue ''B''), WCleanup ''A'']"


section \<open>Where git is not enough\<close>

text \<open>A failed listing counts as an empty one: after a restart the worktree of an issue is removed with the work in it.\<close>

lemma failed_listing_removes_worktree:
  assumes "is_ID issue \<noteq> []" "map_of (ma_active m) (is_ID issue) = None" and p: "p = workspacePath m (is_ID issue)"
    and "ww_stat w (ww_log w) p = StatDir" "snd (ww_git w (ww_log w @ [WsStat p]) list_args) = GitFailed err"
    and "ww_remove w (ww_log w @ [WsStat p, WsGit list_args]) p = Some rerr"
  shows "ww_log (snd (snd (ws_Create m issue w))) = ww_log w @ [WsStat p, WsGit list_args, WsRemoveAll p]"
  using assms(1, 2, 4-6)
  by (auto simp: ws_Create_def reuse_or_new_def ws_Stat_def isRegisteredWorktree_def runGit_def ws_RemoveAll_def ws_did_def p [symmetric]
      split: prod.splits)

text \<open>
  When the directory of a registered worktree is lost, git refuses to add it again until it is pruned or removed: no creation succeeds any more,
  and the clean-up, which leaves git alone when the directory is missing, does not help.
\<close>

lemma missing_worktree_stays_broken:
  assumes git: "documented_git w reg P" "p \<in> P" and p: "p = workspacePath m (is_ID issue)" and "p \<in> reg (ww_log w)" "is_ID issue \<noteq> []"
    and gone: "\<And>h. ww_stat w h p = StatNotExist" and refused: "\<And>h b args. p \<in> reg h \<Longrightarrow> args \<in> add_forms b p \<Longrightarrow> \<not> git_ok w h args"
    and tracked: "map_of (ma_active m) (is_ID issue) \<in> {None, Some p}"
  shows "(\<exists>err. fst (ws_Create m issue w) = Inl err)
    \<and> ws_Cleanup m (is_ID issue) w = (None, ws_untrack (is_ID issue) m, ws_did (WsStat p) w) \<and> p \<in> reg (ww_log (ws_did (WsStat p) w))"
proof -
  have quiet: "reg (h @ [WsStat q]) = reg h" "reg (h @ [WsMkdirAll q]) = reg h" for h q
    using documentedD(2, 4) [OF git(1)] by blast+
  have failed: "fst (fst (runGit args v)) = fst (fst (runGit args v)) \<and> snd (fst (runGit args v)) \<noteq> None
      \<and> reg (ww_log (snd (runGit args v))) = reg (ww_log v) \<and> ww_git (snd (runGit args v)) = ww_git w"
    if "args \<in> add_forms b p" "p \<in> reg (ww_log v)" "ww_git v = ww_git w" for args b v
  proof -
    have bad: "\<not> git_ok w (ww_log v) args" by (rule refused [OF that(2, 1)])
    with that(3) have "\<not> git_ok v (ww_log v) args" by (simp add: git_ok_def)
    moreover obtain out r v' where run: "runGit args v = ((out, r), v')" by (metis surj_pair)
    ultimately show ?thesis
      using runGit_did [OF run] documentedD(6) [OF git(1, 2) that(1), of "ww_log v"] bad that(3) by (simp add: run ws_did_def)
  qed
  have forms: "[''worktree'', ''add'', ''-b'', b, p] \<in> add_forms b p" "[''worktree'', ''add'', ''-B'', b, p] \<in> add_forms b p"
    "[''worktree'', ''add'', p, b] \<in> add_forms b p" for b by (simp_all add: add_forms_def)
  have add: "fst (add_worktree k b p v) \<noteq> None" if v: "p \<in> reg (ww_log v)" "ww_git v = ww_git w" for k b v
    using failed [OF forms(1) [of b] v] failed [OF forms(2), of "snd (runGit [''worktree'', ''add'', ''-b'', b, p] v)" b]
      failed [OF forms(3), of "snd (runGit [''worktree'', ''add'', ''-B'', b, p] (snd (runGit [''worktree'', ''add'', ''-b'', b, p] v)))" b] v
    by (auto simp: add_worktree_def split: prod.splits option.splits)
  have new: "\<exists>err. fst (new_worktree m issue p v) = Inl err" if v: "p \<in> reg (ww_log v)" "ww_git v = ww_git w" for v
    using add [of "ws_did (WsMkdirAll (path_dir p)) v" "is_ID issue" "branch_of issue"] v
    by (auto simp: new_worktree_def ws_MkdirAll_def quiet ws_did_def split: prod.splits option.splits)
  have "\<exists>err. fst (reuse_or_new m issue p v) = Inl err" if v: "p \<in> reg (ww_log v)" "ww_git v = ww_git w" "ww_stat v = ww_stat w" for v
    using new [of "ws_did (WsStat p) v"] v by (simp add: reuse_or_new_def ws_Stat_def gone quiet ws_did_def)
  then have "\<exists>err. fst (ws_Create m issue w) = Inl err"
    using assms(4, 5) tracked by (auto simp: ws_Create_def ws_Stat_def gone p [symmetric] quiet ws_did_def)
  then show ?thesis
    using assms(4, 5) by (simp add: ws_Cleanup_def ws_Stat_def gone p [symmetric] quiet Let_def)
qed

end
