(* ===== verification/Team_Cli.thy ===== *)
theory Team_Cli
  imports Go_Strings Go_Json Tracker_Http
begin

text \<open>
  Models \<open>internal/agent/teamcli.go\<close>, the runner that drives a team through the command line of omx or omc: the names and texts it makes,
  and the calls of the team API. The tool is a parameter: it answers a command given the commands before it with its
  output and an error. The decoding of outputs is a parameter too.
\<close>

section \<open>The outside\<close>

text \<open>
  \<open>CliApi dir op input\<close> is the command \<open>team api op --input input --json\<close> in the directory \<open>dir\<close>, \<open>CliRun\<close> any other command. The files the
  runner writes and the waits are kept in the same history.
\<close>

datatype cli_cmd =
    CliRun string "string list"
  | CliApi string string gobj
  | CliMkdir string
  | CliWrite string string
  | CliMetrics string
  | CliWait

record teamCLIEnvelope =
  en_OK :: bool
  en_Status :: string
  en_Data :: string
  en_Error :: "(string \<times> string) option"

record teamSummaryTaskCounts =
  kc_Total :: int
  kc_Pending :: int
  kc_Blocked :: int
  kc_InProgress :: int
  kc_Completed :: int
  kc_Failed :: int

record teamSummaryWorker =
  kw_Name :: string
  kw_Alive :: bool
  kw_LastTurnAt :: string
  kw_TurnsWithoutProgress :: int

record teamSummary =
  ks_TeamName :: string
  ks_WorkerCount :: int
  ks_Tasks :: teamSummaryTaskCounts
  ks_Workers :: "teamSummaryWorker list"
  ks_NonReporting :: "string list"
  ks_Performance :: gobj

record teamTask =
  kt_ID :: string
  kt_Subject :: string
  kt_Description :: string
  kt_Status :: string
  kt_Result :: string
  kt_Error :: string
  kt_Owner :: string
  kt_CompletedAt :: string

record teamSnapshot =
  kn_Summary :: teamSummary
  kn_Tasks :: "teamTask list"

record OmxMetrics =
  ox_SessionInputTokens :: int
  ox_SessionOutputTokens :: int
  ox_SessionTotalTokens :: int

section \<open>Errors\<close>

datatype cli_error = ApiError string string | TeamMissing | CliOther go_error

text \<open>\<open>fmt.Errorf("m: %w", err)\<close>; the kind of the error stays visible.\<close>

definition cli_wrap :: "string \<Rightarrow> cli_error \<Rightarrow> cli_error" where
  "cli_wrap m err = (case err of CliOther e \<Rightarrow> CliOther (Wrap m e) | _ \<Rightarrow> err)"

definition isTeamMissingError :: "cli_error \<Rightarrow> bool" where
  "isTeamMissingError err \<longleftrightarrow> (case err of TeamMissing \<Rightarrow> True | ApiError code _ \<Rightarrow> code = ''team_not_found'' | CliOther _ \<Rightarrow> False)"

definition api_error_text :: "string \<Rightarrow> string \<Rightarrow> string" where
  "api_error_text code message =
     (if code \<noteq> [] \<and> message \<noteq> [] then code @ '': '' @ message else if code \<noteq> [] then code else message)"

section \<open>Names and texts\<close>

definition first_non_blank :: "string list \<Rightarrow> string" where
  "first_non_blank values = (case filter (\<lambda>v. trim_space v \<noteq> []) values of [] \<Rightarrow> [] | v # _ \<Rightarrow> v)"

definition dash :: char where
  "dash = CHR 0x2D"

definition slug_char :: "char \<Rightarrow> char" where
  "slug_char c = (let n = (of_char c :: nat) in if 97 \<le> n \<and> n \<le> 122 \<or> 48 \<le> n \<and> n \<le> 57 then c else dash)"

text \<open>One pass of \<open>strings.ReplaceAll(slug, "--", "-")\<close>, and the loop around it.\<close>

fun squeeze :: "string \<Rightarrow> string" where
  "squeeze (a # b # s) = (if a = dash \<and> b = dash then dash # squeeze s else a # squeeze (b # s))"
| "squeeze s = s"

lemma squeeze_le: "length (squeeze s) \<le> length s"
  by (induction s rule: squeeze.induct) auto

lemma squeeze_shorter: "str_contains s [dash, dash] \<Longrightarrow> length (squeeze s) < length s"
proof (induction s rule: squeeze.induct)
  case (1 a b s)
  then show ?case
    using squeeze_le [of s] by (auto simp: has_prefix_def less_Suc_eq_le intro: le_trans)
qed (simp_all add: has_prefix_def)

function collapse :: "string \<Rightarrow> string" where
  "collapse s = (if str_contains s [dash, dash] then collapse (squeeze s) else s)"
  by pat_completeness auto
termination
  by (relation "measure length") (auto simp: squeeze_shorter)

declare collapse.simps [simp del]

definition slugifyTeamName :: "string \<Rightarrow> string" where
  "slugifyTeamName input =
     (let slug0 = trim_char dash (collapse (map slug_char (to_lower input)));
          slug = (if length slug0 > 30 then trim_right_char dash (take 30 slug0) else slug0)
      in if slug = [] then ''team-task'' else slug)"

definition buildTeamTaskSeed :: "Issue \<Rightarrow> string \<Rightarrow> string" where
  "buildTeamTaskSeed issue prompt =
     (let seed = trim_space (trim_space (is_ID issue) @ '' '' @ trim_space (is_Title issue));
          p = trim_space prompt;
          line0 = trim_space (hd (split_lines p));
          line = (if line0 = [] then p else line0)
      in if seed \<noteq> [] then seed else if p = [] then ''team-task'' else take 80 line)"

definition buildLaunchTask :: "string \<Rightarrow> string \<Rightarrow> string" where
  "buildLaunchTask taskSeed relPromptPath =
     trim_space taskSeed @ ''. Read and execute the detailed task instructions in '' @ relPromptPath
     @ ''. Report completion through the team runtime.''"

definition prompt_line :: "string \<Rightarrow> string \<Rightarrow> string" where
  "prompt_line label v = (if v = [] then [] else ''- '' @ label @ '': '' @ v @ [line_feed])"

definition prompt_text :: "Issue \<Rightarrow> string \<Rightarrow> string" where
  "prompt_text issue prompt =
     ''# Contrabass Task'' @ [line_feed, line_feed]
     @ prompt_line ''Issue ID'' (is_ID issue) @ prompt_line ''Issue Title'' (is_Title issue)
     @ prompt_line ''Issue Identifier'' (is_Identifier issue) @ prompt_line ''Issue URL'' (is_URL issue)
     @ [line_feed] @ ''## Instructions'' @ [line_feed, line_feed] @ trim_space prompt @ [line_feed]"

definition formatCommandOutput :: "string \<Rightarrow> string" where
  "formatCommandOutput output = (let t = trim_space output in if t = [] then [] else '': '' @ t)"

definition started_name :: "string \<Rightarrow> string" where
  "started_name line = (case cut_prefix ''Team started:'' (trim_space line) of None \<Rightarrow> [] | Some rest \<Rightarrow> trim_space rest)"

definition parseTeamNameFromOutput :: "string \<Rightarrow> string" where
  "parseTeamNameFromOutput output = (case filter (\<lambda>n. n \<noteq> []) (map started_name (split_lines output)) of [] \<Rightarrow> [] | n # _ \<Rightarrow> n)"

section \<open>Snapshots\<close>

definition summarizePhase :: "teamSummary \<Rightarrow> string" where
  "summarizePhase summary =
     (let c = ks_Tasks summary in
      if kc_Failed c > 0 then ''failed''
      else if kc_Total c > 0 \<and> kc_Completed c = kc_Total c then ''completed''
      else if kc_InProgress c > 0 then ''in_progress''
      else if kc_Blocked c > 0 then ''blocked''
      else ''pending'')"

definition better_task :: "teamTask \<Rightarrow> teamTask \<Rightarrow> teamTask" where
  "better_task best task = (case (go_atoi (kt_ID best), go_atoi (kt_ID task)) of
     (Some bestNum, Some taskNum) \<Rightarrow> if taskNum < bestNum then task else best
   | _ \<Rightarrow> if kt_ID task < kt_ID best then task else best)"

definition primaryTask :: "teamTask list \<Rightarrow> teamTask option" where
  "primaryTask tasks = (case tasks of [] \<Rightarrow> None | t # ts \<Rightarrow> Some (foldl better_task t ts))"

text \<open>A struct as the map that \<open>mustJSONMap\<close> makes of it; a nil list is an empty one.\<close>

definition omit_empty :: "string \<Rightarrow> string \<Rightarrow> gobj" where
  "omit_empty k v = (if v = [] then [] else [(k, GStr v)])"

definition task_json :: "teamTask \<Rightarrow> gjson" where
  "task_json t = GObj ([(''id'', GStr (kt_ID t)), (''subject'', GStr (kt_Subject t)), (''description'', GStr (kt_Description t)),
     (''status'', GStr (kt_Status t))] @ omit_empty ''result'' (kt_Result t) @ omit_empty ''error'' (kt_Error t)
     @ omit_empty ''owner'' (kt_Owner t) @ omit_empty ''completed_at'' (kt_CompletedAt t))"

definition worker_json :: "teamSummaryWorker \<Rightarrow> gjson" where
  "worker_json w = GObj [(''name'', GStr (kw_Name w)), (''alive'', GBool (kw_Alive w)), (''lastTurnAt'', GStr (kw_LastTurnAt w)),
     (''turnsWithoutProgress'', GNum (kw_TurnsWithoutProgress w))]"

definition summary_json :: "teamSummary \<Rightarrow> gjson" where
  "summary_json s = (let c = ks_Tasks s in
     GObj ([(''teamName'', GStr (ks_TeamName s)), (''workerCount'', GNum (ks_WorkerCount s)),
       (''tasks'', GObj [(''total'', GNum (kc_Total c)), (''pending'', GNum (kc_Pending c)), (''blocked'', GNum (kc_Blocked c)),
          (''in_progress'', GNum (kc_InProgress c)), (''completed'', GNum (kc_Completed c)), (''failed'', GNum (kc_Failed c))]),
       (''workers'', GArr (map worker_json (ks_Workers s))), (''nonReportingWorkers'', gstrs (ks_NonReporting s))]
       @ (if ks_Performance s = [] then [] else [(''performance'', GObj (ks_Performance s))])))"

section \<open>Answers of the team API\<close>

record cliTaskClaim =
  kl_Owner :: string
  kl_Token :: string
  kl_LeasedUntil :: time

record cliTask =
  ct_ID :: string
  ct_Subject :: string
  ct_Description :: string
  ct_Status :: string
  ct_Result :: string
  ct_BlockedBy :: "string list"
  ct_DependsOn :: "string list"
  ct_Version :: int
  ct_Claim :: "cliTaskClaim option"
  ct_CreatedAt :: time
  ct_CompletedAt :: time

record ClaimTaskResult =
  cr_OK :: bool
  cr_RawTask :: "cliTask option"
  cr_ClaimToken :: string
  cr_Error :: string
  cr_Dependencies :: "string list"

record TransitionTaskResult =
  tr_OK :: bool
  tr_RawTask :: "cliTask option"
  tr_Error :: string

record cliMailboxMessage =
  cm_MessageID :: string
  cm_FromWorker :: string
  cm_ToWorker :: string
  cm_Body :: string
  cm_CreatedAt :: time
  cm_NotifiedAt :: time
  cm_DeliveredAt :: time

record cliEvent =
  ce_EventID :: string
  ce_Team :: string
  ce_Type :: string
  ce_Worker :: string
  ce_TaskID :: string
  ce_MessageID :: string
  ce_Reason :: string
  ce_State :: string
  ce_PrevState :: string
  ce_Metadata :: gobj
  ce_CreatedAt :: time

record IdleState =
  id_WorkerCount :: int
  id_IdleWorkers :: "string list"
  id_AllWorkersIdle :: bool

record StallState =
  sl_TeamStalled :: bool
  sl_StalledWorkers :: "string list"
  sl_DeadWorkers :: "string list"
  sl_PendingTaskCount :: int
  sl_AllWorkersIdle :: bool
  sl_IdleWorkers :: "string list"
  sl_Reasons :: "string list"

record workerHeartbeat =
  wh_PID :: int
  wh_LastTurnAt :: time
  wh_TurnCount :: int
  wh_Alive :: bool

record workerStatus =
  wt_State :: string
  wt_CurrentTaskID :: string
  wt_ConsecutiveErrors :: int

text \<open>How the payload of each operation is decoded. The event of \<open>await-event\<close> comes with the status of the wait.\<close>

record cli_codec =
  cd_summary :: "string \<Rightarrow> teamSummary result"
  cd_teamTasks :: "string \<Rightarrow> teamTask list result"
  cd_task :: "string \<Rightarrow> cliTask result"
  cd_tasks :: "string \<Rightarrow> cliTask list result"
  cd_claim :: "string \<Rightarrow> ClaimTaskResult result"
  cd_transition :: "string \<Rightarrow> TransitionTaskResult result"
  cd_message :: "string \<Rightarrow> cliMailboxMessage result"
  cd_messages :: "string \<Rightarrow> cliMailboxMessage list result"
  cd_event :: "string \<Rightarrow> cliEvent result"
  cd_events :: "string \<Rightarrow> cliEvent list result"
  cd_await :: "string \<Rightarrow> (string \<times> cliEvent option) result"
  cd_idle :: "string \<Rightarrow> IdleState result"
  cd_stall :: "string \<Rightarrow> StallState result"
  cd_heartbeat :: "string \<Rightarrow> workerHeartbeat option result"
  cd_status :: "string \<Rightarrow> workerStatus option result"
  cd_ack :: "string \<Rightarrow> string option result"

section \<open>Commands\<close>

text \<open>
  An event of the runner with its data. \<open>tw_run\<close> answers a command after a history, \<open>tw_file\<close> the operations on files, \<open>tw_now\<close> is the clock,
  \<open>tw_expired\<close> says whether the context of the wait in progress has ended, \<open>tw_stopped\<close> the same of the monitor's context. An event that is
  sent when the monitor's context has ended may be dropped; \<open>tw_drop n\<close> says so of the \<open>n\<close>-th.
\<close>

type_synonym cli_event = "string \<times> gobj"

record teamRunner =
  rn_name :: string
  rn_binaryPath :: string
  rn_teamSpec :: string
  rn_pollInterval :: duration
  rn_startupTimeout :: duration
  rn_restartGrace :: duration
  rn_selfHealing :: bool

record cli_world =
  tw_log :: "cli_cmd list"
  tw_run :: "cli_cmd list \<Rightarrow> cli_cmd \<Rightarrow> string \<times> go_error option"
  tw_file :: "cli_cmd list \<Rightarrow> cli_cmd \<Rightarrow> go_error option"
  tw_envelope :: "string \<Rightarrow> teamCLIEnvelope result"
  tw_codec :: cli_codec
  tw_now :: "cli_cmd list \<Rightarrow> time"
  tw_expired :: "cli_cmd list \<Rightarrow> bool"
  tw_stopped :: "cli_cmd list \<Rightarrow> bool"
  tw_metrics :: "cli_cmd list \<Rightarrow> OmxMetrics option result"
  tw_drop :: "nat \<Rightarrow> bool"
  tw_sent :: nat
  tw_events :: "cli_event list"

definition cli_did :: "cli_cmd \<Rightarrow> cli_world \<Rightarrow> cli_world" where
  "cli_did a w = w\<lparr>tw_log := tw_log w @ [a]\<rparr>"

definition emit :: "string \<Rightarrow> gobj \<Rightarrow> cli_world \<Rightarrow> cli_world" where
  "emit eventType data w = w\<lparr>tw_sent := Suc (tw_sent w),
     tw_events := (if tw_drop w (tw_sent w) then tw_events w else tw_events w @ [(eventType, data)])\<rparr>"

definition runCommand :: "teamRunner \<Rightarrow> cli_cmd \<Rightarrow> cli_world \<Rightarrow> (string \<times> go_error option) \<times> cli_world" where
  "runCommand r cmd w =
     (if trim_space (rn_binaryPath r) = [] then (([], Some (ErrMsg (rn_name r @ '' binary path is empty''))), w)
      else (tw_run w (tw_log w) cmd, cli_did cmd w))"

definition runTeamAPI ::
  "teamRunner \<Rightarrow> string \<Rightarrow> string \<Rightarrow> gobj \<Rightarrow> (string \<Rightarrow> 'a result) \<Rightarrow> 'a \<Rightarrow> cli_world \<Rightarrow> (cli_error + 'a) \<times> cli_world" where
  "runTeamAPI r workspace operation input decode zero w =
     (case runCommand r (CliApi workspace operation input) w of ((output, err), w) \<Rightarrow>
       ((case err of
          Some err \<Rightarrow> Inl (CliOther (Wrap (''run '' @ rn_name r @ '' team api '' @ operation) (WrapPost err (formatCommandOutput output))))
        | None \<Rightarrow>
           (case tw_envelope w output of
              Inl err \<Rightarrow> Inl (CliOther (Wrap (''decode '' @ rn_name r @ '' team api '' @ operation @ '' response'') err))
            | Inr envelope \<Rightarrow>
               (if en_Status envelope = ''missing'' then Inl TeamMissing
                else if \<not> en_OK envelope then
                  (case en_Error envelope of
                     Some (code, message) \<Rightarrow> Inl (ApiError code message)
                   | None \<Rightarrow> Inl (CliOther (ErrMsg (rn_name r @ '' team api '' @ operation @ '' returned ok=false''))))
                else if en_Data envelope = [] then Inr zero
                else (case decode (en_Data envelope) of
                  Inl err \<Rightarrow> Inl (CliOther (Wrap (''decode '' @ rn_name r @ '' team api '' @ operation @ '' payload'') err))
                | Inr v \<Rightarrow> Inr v)))), w))"

text \<open>A call whose answer nobody decodes.\<close>

definition apiCall :: "teamRunner \<Rightarrow> string \<Rightarrow> string \<Rightarrow> gobj \<Rightarrow> cli_world \<Rightarrow> cli_error option \<times> cli_world" where
  "apiCall r workspace operation input w = (case runTeamAPI r workspace operation input (\<lambda>_. Inr ()) () w of
     (Inl err, w) \<Rightarrow> (Some err, w) | (Inr _, w) \<Rightarrow> (None, w))"

definition shutdownTeam :: "teamRunner \<Rightarrow> string \<Rightarrow> string \<Rightarrow> cli_world \<Rightarrow> go_error option \<times> cli_world" where
  "shutdownTeam r workspace teamName w =
     (case runCommand r (CliRun workspace [''team'', ''shutdown'', teamName, ''--force'']) w of ((output, err), w) \<Rightarrow>
       (case err of
          None \<Rightarrow> None
        | Some err \<Rightarrow>
            if str_contains output ''No team state found'' then None
            else Some (Wrap (''shutdown '' @ rn_name r @ '' team '' @ fmt_q teamName) (WrapPost err (formatCommandOutput output))), w))"

definition newTeamCLIRunner :: "teamRunner \<Rightarrow> teamRunner" where
  "newTeamCLIRunner cfg = cfg\<lparr>
     rn_pollInterval := (if rn_pollInterval cfg \<le> 0 then second_ns else rn_pollInterval cfg),
     rn_startupTimeout := (if rn_startupTimeout cfg \<le> 0 then 15 * second_ns else rn_startupTimeout cfg),
     rn_teamSpec := (if rn_teamSpec cfg = [] then ''1:executor'' else rn_teamSpec cfg)\<rparr>"

end
