(* ===== verification/Team_Cli_Api.thy ===== *)
theory Team_Cli_Api
  imports Team_Cli
begin

text \<open>
  Models \<open>internal/agent/team_tasks.go\<close>, \<open>team_messaging.go\<close> and \<open>team_events.go\<close>: the operations of the team API with the input
  each sends, the checks before a call and what becomes of the answer. An answer without data is the zero value.
\<close>

section \<open>Calls with a result\<close>

definition call_with ::
  "string \<Rightarrow> teamRunner \<Rightarrow> string \<Rightarrow> string \<Rightarrow> gobj \<Rightarrow> (string \<Rightarrow> 'a result) \<Rightarrow> 'a \<Rightarrow> cli_world \<Rightarrow> (cli_error + 'a) \<times> cli_world" where
  "call_with m r workspace operation input decode zero w = (case runTeamAPI r workspace operation input decode zero w of
     (Inl err, w) \<Rightarrow> (Inl (cli_wrap m err), w) | (Inr v, w) \<Rightarrow> (Inr v, w))"

definition map_result :: "('a \<Rightarrow> 'b) \<Rightarrow> ('e + 'a) \<times> 'w \<Rightarrow> ('e + 'b) \<times> 'w" where
  "map_result f x = (case x of (Inl err, w) \<Rightarrow> (Inl err, w) | (Inr v, w) \<Rightarrow> (Inr (f v), w))"

definition team_input :: "string \<Rightarrow> gobj \<Rightarrow> gobj" where
  "team_input teamName rest = (''team_name'', GStr teamName) # rest"

section \<open>Tasks\<close>

text \<open>The status of a task is the string of the answer.\<close>

definition team_status :: "string \<Rightarrow> TeamTaskStatus" where
  "team_status s = (if s = ''pending'' then TaskPending else if s = ''in_progress'' then TaskInProgress
     else if s = ''completed'' then TaskCompleted else if s = ''failed'' then TaskFailed else TaskOther s)"

definition toTeamTask :: "cliTask \<Rightarrow> TeamTask" where
  "toTeamTask t =
     \<lparr>tt_ID = ct_ID t, tt_Subject = ct_Subject t, tt_Description = ct_Description t, tt_Status = team_status (ct_Status t),
      tt_BlockedBy = ct_BlockedBy t, tt_DependsOn = ct_DependsOn t,
      tt_Claim = (case ct_Claim t of
         None \<Rightarrow> None
       | Some c \<Rightarrow> Some \<lparr>tc_WorkerID = kl_Owner c, tc_Token = kl_Token c, tc_LeasedAt = ct_CreatedAt t, tc_LeasedUntil = kl_LeasedUntil c\<rparr>),
      tt_Version = ct_Version t, tt_CreatedAt = ct_CreatedAt t,
      tt_UpdatedAt = (if ct_CompletedAt t \<noteq> zero_time then ct_CompletedAt t else ct_CreatedAt t),
      tt_Result = ct_Result t, tt_FileOwnership = []\<rparr>"

definition no_task :: cliTask where
  "no_task = \<lparr>ct_ID = [], ct_Subject = [], ct_Description = [], ct_Status = [], ct_Result = [], ct_BlockedBy = [], ct_DependsOn = [],
     ct_Version = 0, ct_Claim = None, ct_CreatedAt = zero_time, ct_CompletedAt = zero_time\<rparr>"

definition no_claim_result :: ClaimTaskResult where
  "no_claim_result = \<lparr>cr_OK = False, cr_RawTask = None, cr_ClaimToken = [], cr_Error = [], cr_Dependencies = []\<rparr>"

definition no_transition :: TransitionTaskResult where
  "no_transition = \<lparr>tr_OK = False, tr_RawTask = None, tr_Error = []\<rparr>"

definition cli_CreateTask :: "teamRunner \<Rightarrow> string \<Rightarrow> string \<Rightarrow> TeamTask \<Rightarrow> cli_world \<Rightarrow> (cli_error + TeamTask) \<times> cli_world" where
  "cli_CreateTask r workspace teamName task w =
     map_result toTeamTask (call_with ''create task'' r workspace ''create-task''
       (team_input teamName ([(''subject'', GStr (tt_Subject task)), (''description'', GStr (tt_Description task))]
          @ (case tt_Claim task of
               None \<Rightarrow> [] | Some c \<Rightarrow> if tc_WorkerID c \<noteq> [] then [(''owner'', GStr (tc_WorkerID c))] else [])
          @ (if tt_BlockedBy task = [] then [] else [(''blocked_by'', gstrs (tt_BlockedBy task))])))
       (cd_task (tw_codec w)) no_task w)"

definition cli_ReadTask :: "teamRunner \<Rightarrow> string \<Rightarrow> string \<Rightarrow> string \<Rightarrow> cli_world \<Rightarrow> (cli_error + TeamTask) \<times> cli_world" where
  "cli_ReadTask r workspace teamName taskID w =
     map_result toTeamTask (call_with ''read task'' r workspace ''read-task'' (team_input teamName [(''task_id'', GStr taskID)])
       (cd_task (tw_codec w)) no_task w)"

text \<open>The updates, under the names of the team and the task, which win.\<close>

definition cli_UpdateTask :: "teamRunner \<Rightarrow> string \<Rightarrow> string \<Rightarrow> string \<Rightarrow> gobj \<Rightarrow> cli_world \<Rightarrow> (cli_error + TeamTask) \<times> cli_world" where
  "cli_UpdateTask r workspace teamName taskID updates w =
     map_result toTeamTask (call_with ''update task'' r workspace ''update-task''
       (team_input teamName ((''task_id'', GStr taskID) # filter (\<lambda>(k, v). k \<notin> {''team_name'', ''task_id''}) updates))
       (cd_task (tw_codec w)) no_task w)"

definition cli_ClaimTask ::
  "teamRunner \<Rightarrow> string \<Rightarrow> string \<Rightarrow> string \<Rightarrow> string \<Rightarrow> int option \<Rightarrow> cli_world \<Rightarrow> (cli_error + ClaimTaskResult) \<times> cli_world" where
  "cli_ClaimTask r workspace teamName taskID worker expectedVersion w =
     call_with ''claim task'' r workspace ''claim-task''
       (team_input teamName ([(''task_id'', GStr taskID), (''worker'', GStr worker)]
          @ (case expectedVersion of None \<Rightarrow> [] | Some v \<Rightarrow> [(''expected_version'', GNum v)])))
       (cd_claim (tw_codec w)) no_claim_result w"

definition cli_TransitionTaskStatus ::
  "teamRunner \<Rightarrow> string \<Rightarrow> string \<Rightarrow> string \<Rightarrow> string \<Rightarrow> string \<Rightarrow> string \<Rightarrow> string option \<Rightarrow> string option \<Rightarrow> cli_world
     \<Rightarrow> (cli_error + TransitionTaskResult) \<times> cli_world" where
  "cli_TransitionTaskStatus r workspace teamName taskID old_status new_status claimToken result errorMsg w =
     call_with ''transition task status'' r workspace ''transition-task-status''
       (team_input teamName ([(''task_id'', GStr taskID), (''from'', GStr old_status), (''to'', GStr new_status), (''claim_token'', GStr claimToken)]
          @ (case result of None \<Rightarrow> [] | Some v \<Rightarrow> [(''result'', GStr v)])
          @ (case errorMsg of None \<Rightarrow> [] | Some v \<Rightarrow> [(''error'', GStr v)])))
       (cd_transition (tw_codec w)) no_transition w"

definition cli_ReleaseTaskClaim ::
  "teamRunner \<Rightarrow> string \<Rightarrow> string \<Rightarrow> string \<Rightarrow> string \<Rightarrow> string \<Rightarrow> cli_world \<Rightarrow> (cli_error + TransitionTaskResult) \<times> cli_world" where
  "cli_ReleaseTaskClaim r workspace teamName taskID claimToken worker w =
     call_with ''release task claim'' r workspace ''release-task-claim''
       (team_input teamName [(''task_id'', GStr taskID), (''claim_token'', GStr claimToken), (''worker'', GStr worker)])
       (cd_transition (tw_codec w)) no_transition w"

definition ListAllTasks :: "teamRunner \<Rightarrow> string \<Rightarrow> string \<Rightarrow> cli_world \<Rightarrow> (cli_error + TeamTask list) \<times> cli_world" where
  "ListAllTasks r workspace teamName w =
     map_result (map toTeamTask) (call_with ''list tasks'' r workspace ''list-tasks'' (team_input teamName []) (cd_tasks (tw_codec w)) [] w)"

definition GetTasksByStatus :: "teamRunner \<Rightarrow> string \<Rightarrow> string \<Rightarrow> string \<Rightarrow> cli_world \<Rightarrow> (cli_error + TeamTask list) \<times> cli_world" where
  "GetTasksByStatus r workspace teamName status w =
     map_result (filter (\<lambda>t. task_status_string (tt_Status t) = status)) (ListAllTasks r workspace teamName w)"

definition held_by :: "string \<Rightarrow> TeamTask \<Rightarrow> bool" where
  "held_by worker t = (case tt_Claim t of None \<Rightarrow> False | Some c \<Rightarrow> tc_WorkerID c = worker)"

definition GetTasksByWorker :: "teamRunner \<Rightarrow> string \<Rightarrow> string \<Rightarrow> string \<Rightarrow> cli_world \<Rightarrow> (cli_error + TeamTask list) \<times> cli_world" where
  "GetTasksByWorker r workspace teamName worker w = map_result (filter (held_by worker)) (ListAllTasks r workspace teamName w)"

lemma team_status_string [simp]: "task_status_string (team_status s) = s"
  by (simp add: team_status_def)

section \<open>Messages\<close>

definition toMailboxMessage :: "cliMailboxMessage \<Rightarrow> MailboxMessage" where
  "toMailboxMessage m =
     (let status1 = (if cm_NotifiedAt m \<noteq> zero_time then MessageDelivered else MessagePending);
          status = (if cm_DeliveredAt m \<noteq> zero_time then MessageAcknowledged else status1)
      in \<lparr>mm_ID = cm_MessageID m, mm_From = cm_FromWorker m, mm_To = cm_ToWorker m, mm_Content = cm_Body m,
          mm_Timestamp = cm_CreatedAt m, mm_Status = status\<rparr>)"

definition no_message :: cliMailboxMessage where
  "no_message = \<lparr>cm_MessageID = [], cm_FromWorker = [], cm_ToWorker = [], cm_Body = [], cm_CreatedAt = zero_time,
     cm_NotifiedAt = zero_time, cm_DeliveredAt = zero_time\<rparr>"

definition refused :: "string \<Rightarrow> cli_world \<Rightarrow> (cli_error + 'a) \<times> cli_world" where
  "refused m w = (Inl (CliOther (ErrMsg m)), w)"

definition SendMessage ::
  "teamRunner \<Rightarrow> string \<Rightarrow> string \<Rightarrow> string \<Rightarrow> string \<Rightarrow> string \<Rightarrow> cli_world \<Rightarrow> (cli_error + MailboxMessage) \<times> cli_world" where
  "SendMessage r workspace teamName fromWorker toWorker body w =
     (if fromWorker = [] then refused ''from_worker is required'' w
      else if toWorker = [] then refused ''to_worker is required'' w
      else if body = [] then refused ''message body is required'' w
      else map_result toMailboxMessage (call_with ''send message'' r workspace ''send-message''
        (team_input teamName [(''from_worker'', GStr fromWorker), (''to_worker'', GStr toWorker), (''body'', GStr body)])
        (cd_message (tw_codec w)) no_message w))"

definition BroadcastMessage ::
  "teamRunner \<Rightarrow> string \<Rightarrow> string \<Rightarrow> string \<Rightarrow> string \<Rightarrow> cli_world \<Rightarrow> (cli_error + MailboxMessage list) \<times> cli_world" where
  "BroadcastMessage r workspace teamName fromWorker body w =
     (if fromWorker = [] then refused ''from_worker is required'' w
      else if body = [] then refused ''message body is required'' w
      else map_result (map toMailboxMessage) (call_with ''broadcast message'' r workspace ''broadcast''
        (team_input teamName [(''from_worker'', GStr fromWorker), (''body'', GStr body)]) (cd_messages (tw_codec w)) [] w))"

definition ListMailbox ::
  "teamRunner \<Rightarrow> string \<Rightarrow> string \<Rightarrow> string \<Rightarrow> bool \<Rightarrow> cli_world \<Rightarrow> (cli_error + MailboxMessage list) \<times> cli_world" where
  "ListMailbox r workspace teamName worker includeDelivered w =
     (if worker = [] then refused ''worker is required'' w
      else map_result (map toMailboxMessage) (call_with ''list mailbox'' r workspace ''mailbox-list''
        (team_input teamName [(''worker'', GStr worker), (''include_delivered'', GBool includeDelivered)]) (cd_messages (tw_codec w)) [] w))"

definition mark_message ::
  "string \<Rightarrow> string \<Rightarrow> teamRunner \<Rightarrow> string \<Rightarrow> string \<Rightarrow> string \<Rightarrow> string \<Rightarrow> cli_world \<Rightarrow> cli_error option \<times> cli_world" where
  "mark_message m operation r workspace teamName worker messageID w =
     (if worker = [] then (Some (CliOther (ErrMsg ''worker is required'')), w)
      else if messageID = [] then (Some (CliOther (ErrMsg ''message_id is required'')), w)
      else (case apiCall r workspace operation (team_input teamName [(''worker'', GStr worker), (''message_id'', GStr messageID)]) w of
        (err, w) \<Rightarrow> (map_option (cli_wrap m) err, w)))"

definition MarkMessageDelivered :: "teamRunner \<Rightarrow> string \<Rightarrow> string \<Rightarrow> string \<Rightarrow> string \<Rightarrow> cli_world \<Rightarrow> cli_error option \<times> cli_world" where
  "MarkMessageDelivered = mark_message ''mark message delivered'' ''mailbox-mark-delivered''"

definition MarkMessageNotified :: "teamRunner \<Rightarrow> string \<Rightarrow> string \<Rightarrow> string \<Rightarrow> string \<Rightarrow> cli_world \<Rightarrow> cli_error option \<times> cli_world" where
  "MarkMessageNotified = mark_message ''mark message notified'' ''mailbox-mark-notified''"

definition GetUnreadMessages ::
  "teamRunner \<Rightarrow> string \<Rightarrow> string \<Rightarrow> string \<Rightarrow> cli_world \<Rightarrow> (cli_error + MailboxMessage list) \<times> cli_world" where
  "GetUnreadMessages r workspace teamName worker w =
     map_result (filter (\<lambda>m. mm_Status m = MessagePending)) (ListMailbox r workspace teamName worker False w)"

section \<open>Events\<close>

record team_event =
  ev_Type :: string
  ev_TeamName :: string
  ev_Data :: gobj
  ev_Timestamp :: time

definition put_str :: "string \<Rightarrow> string \<Rightarrow> gobj \<Rightarrow> gobj" where
  "put_str k v m = (if v = [] then m else fput k (GStr v) m)"

fun put_all :: "gobj \<Rightarrow> gobj \<Rightarrow> gobj" where
  "put_all [] m = m"
| "put_all ((k, v) # ps) m = put_all ps (fput k v m)"

definition toTeamEvent :: "cliEvent \<Rightarrow> team_event" where
  "toTeamEvent e =
     (let data = put_str ''event_id'' (ce_EventID e) (put_str ''prev_state'' (ce_PrevState e) (put_str ''state'' (ce_State e)
        (put_str ''reason'' (ce_Reason e) (put_str ''message_id'' (ce_MessageID e) (put_str ''task_id'' (ce_TaskID e)
        (put_str ''worker'' (ce_Worker e) []))))))
      in \<lparr>ev_Type = ce_Type e, ev_TeamName = ce_Team e, ev_Data = put_all (ce_Metadata e) data, ev_Timestamp = ce_CreatedAt e\<rparr>)"

definition str_field :: "gobj \<Rightarrow> string \<Rightarrow> gobj" where
  "str_field data k = (case map_of data k of Some (GStr v) \<Rightarrow> if v = [] then [] else [(k, GStr v)] | _ \<Rightarrow> [])"

definition teamEventToCLI :: "string \<Rightarrow> team_event \<Rightarrow> gobj" where
  "teamEventToCLI teamName event = team_input teamName ((''type'', GStr (ev_Type event))
     # concat (map (str_field (ev_Data event)) [''worker'', ''task_id'', ''message_id'', ''reason'', ''state'', ''prev_state'']))"

record EventFilter =
  ef_AfterEventID :: string
  ef_Type :: string
  ef_Worker :: string
  ef_TaskID :: string
  ef_WakeableOnly :: bool

definition any_event :: EventFilter where
  "any_event = \<lparr>ef_AfterEventID = [], ef_Type = [], ef_Worker = [], ef_TaskID = [], ef_WakeableOnly = False\<rparr>"

definition filter_input :: "EventFilter \<Rightarrow> gobj" where
  "filter_input f = omit_empty ''after_event_id'' (ef_AfterEventID f) @ omit_empty ''type'' (ef_Type f) @ omit_empty ''worker'' (ef_Worker f)
     @ omit_empty ''task_id'' (ef_TaskID f) @ (if ef_WakeableOnly f then [(''wakeable_only'', GBool True)] else [])"

definition ReadEvents :: "teamRunner \<Rightarrow> string \<Rightarrow> string \<Rightarrow> EventFilter \<Rightarrow> cli_world \<Rightarrow> (cli_error + team_event list) \<times> cli_world" where
  "ReadEvents r workspace teamName f w =
     map_result (map toTeamEvent) (call_with ''read team events'' r workspace ''read-events'' (team_input teamName (filter_input f))
       (cd_events (tw_codec w)) [] w)"

definition AwaitEvent ::
  "teamRunner \<Rightarrow> string \<Rightarrow> string \<Rightarrow> EventFilter \<Rightarrow> duration \<Rightarrow> cli_world \<Rightarrow> (cli_error + team_event) \<times> cli_world" where
  "AwaitEvent r workspace teamName f timeout w =
     (case call_with ''await team event'' r workspace ''await-event''
         (team_input teamName ((''timeout_ms'', GNum (timeout div millisecond_ns)) # filter_input f)) (cd_await (tw_codec w)) ([], None) w of
        (Inl err, w) \<Rightarrow> (Inl err, w)
      | (Inr (status, event), w) \<Rightarrow>
          (if status = ''timeout'' then refused ''timeout waiting for event'' w
           else (case event of None \<Rightarrow> refused ''no event received'' w | Some e \<Rightarrow> (Inr (toTeamEvent e), w))))"

definition no_event :: cliEvent where
  "no_event = \<lparr>ce_EventID = [], ce_Team = [], ce_Type = [], ce_Worker = [], ce_TaskID = [], ce_MessageID = [], ce_Reason = [], ce_State = [],
     ce_PrevState = [], ce_Metadata = [], ce_CreatedAt = zero_time\<rparr>"

definition AppendEvent :: "teamRunner \<Rightarrow> string \<Rightarrow> string \<Rightarrow> team_event \<Rightarrow> cli_world \<Rightarrow> (cli_error + team_event) \<times> cli_world" where
  "AppendEvent r workspace teamName event w =
     map_result toTeamEvent (call_with ''append team event'' r workspace ''append-event'' (teamEventToCLI teamName event)
       (cd_event (tw_codec w)) no_event w)"

definition no_idle :: IdleState where
  "no_idle = \<lparr>id_WorkerCount = 0, id_IdleWorkers = [], id_AllWorkersIdle = False\<rparr>"

definition ReadIdleState :: "teamRunner \<Rightarrow> string \<Rightarrow> string \<Rightarrow> cli_world \<Rightarrow> (cli_error + IdleState) \<times> cli_world" where
  "ReadIdleState r workspace teamName w =
     call_with ''read idle state'' r workspace ''read-idle-state'' (team_input teamName []) (cd_idle (tw_codec w)) no_idle w"

definition no_stall :: StallState where
  "no_stall = \<lparr>sl_TeamStalled = False, sl_StalledWorkers = [], sl_DeadWorkers = [], sl_PendingTaskCount = 0, sl_AllWorkersIdle = False,
     sl_IdleWorkers = [], sl_Reasons = []\<rparr>"

definition ReadStallState :: "teamRunner \<Rightarrow> string \<Rightarrow> string \<Rightarrow> cli_world \<Rightarrow> (cli_error + StallState) \<times> cli_world" where
  "ReadStallState r workspace teamName w =
     call_with ''read stall state'' r workspace ''read-stall-state'' (team_input teamName []) (cd_stall (tw_codec w)) no_stall w"

end
