(* ===== verification/Team_Cli_Health.thy ===== *)
theory Team_Cli_Health
  imports Team_Cli_Api
begin

text \<open>
  Models \<open>internal/agent/team_health.go\<close> and \<open>team_restart.go\<close>: the health of the workers of a team and the restart of dead ones.
\<close>

section \<open>Snapshots\<close>

definition no_summary :: teamSummary where
  "no_summary = \<lparr>ks_TeamName = [], ks_WorkerCount = 0,
     ks_Tasks = \<lparr>kc_Total = 0, kc_Pending = 0, kc_Blocked = 0, kc_InProgress = 0, kc_Completed = 0, kc_Failed = 0\<rparr>,
     ks_Workers = [], ks_NonReporting = [], ks_Performance = []\<rparr>"

definition fetchSnapshot :: "teamRunner \<Rightarrow> string \<Rightarrow> string \<Rightarrow> cli_world \<Rightarrow> (cli_error + teamSnapshot) \<times> cli_world" where
  "fetchSnapshot r workspace teamName w =
     (case runTeamAPI r workspace ''get-summary'' (team_input teamName []) (cd_summary (tw_codec w)) no_summary w of
        (Inl err, w) \<Rightarrow> (Inl err, w)
      | (Inr summary, w) \<Rightarrow>
         (case runTeamAPI r workspace ''list-tasks'' (team_input teamName []) (cd_teamTasks (tw_codec w)) [] w of
            (Inl err, w) \<Rightarrow> (Inl err, w)
          | (Inr tasks, w) \<Rightarrow> (Inr \<lparr>kn_Summary = summary, kn_Tasks = tasks\<rparr>, w)))"

section \<open>Health\<close>

record WorkerHealthReport =
  hr_WorkerName :: string
  hr_IsAlive :: bool
  hr_HeartbeatAge :: "int option"
  hr_Status :: string
  hr_CurrentTaskID :: string
  hr_TotalTurns :: int
  hr_ConsecutiveErrors :: int
  hr_LastTurnAt :: time

definition worker_input :: "string \<Rightarrow> string \<Rightarrow> gobj" where
  "worker_input teamName worker = team_input teamName [(''worker'', GStr worker)]"

definition read_heartbeat :: "teamRunner \<Rightarrow> string \<Rightarrow> string \<Rightarrow> string \<Rightarrow> cli_world \<Rightarrow> (cli_error + workerHeartbeat option) \<times> cli_world" where
  "read_heartbeat r workspace teamName worker w =
     call_with ''read worker heartbeat'' r workspace ''read-worker-heartbeat'' (worker_input teamName worker) (cd_heartbeat (tw_codec w)) None w"

text \<open>\<open>Duration.Milliseconds\<close> truncates toward zero.\<close>

definition in_milliseconds :: "duration \<Rightarrow> int" where
  "in_milliseconds d = (if d < 0 then - (- d div millisecond_ns) else d div millisecond_ns)"

definition new_report :: "string \<Rightarrow> WorkerHealthReport" where
  "new_report worker = \<lparr>hr_WorkerName = worker, hr_IsAlive = False, hr_HeartbeatAge = None, hr_Status = ''unknown'',
     hr_CurrentTaskID = [], hr_TotalTurns = 0, hr_ConsecutiveErrors = 0, hr_LastTurnAt = zero_time\<rparr>"

definition with_heartbeat :: "time \<Rightarrow> duration \<Rightarrow> workerHeartbeat option \<Rightarrow> WorkerHealthReport \<Rightarrow> WorkerHealthReport" where
  "with_heartbeat now maxHeartbeatAge heartbeat report = (case heartbeat of
     None \<Rightarrow> report
   | Some hb \<Rightarrow>
      (let r1 = report\<lparr>hr_IsAlive := wh_Alive hb, hr_TotalTurns := wh_TurnCount hb, hr_LastTurnAt := wh_LastTurnAt hb\<rparr>;
           age = in_milliseconds (time_sub now (wh_LastTurnAt hb))
       in if wh_LastTurnAt hb = zero_time then r1
          else r1\<lparr>hr_HeartbeatAge := Some age, hr_IsAlive := (wh_Alive hb \<and> \<not> age > in_milliseconds maxHeartbeatAge)\<rparr>))"

definition with_status :: "workerStatus option \<Rightarrow> WorkerHealthReport \<Rightarrow> WorkerHealthReport" where
  "with_status status report = (case status of
     None \<Rightarrow> report
   | Some s \<Rightarrow> report\<lparr>hr_Status := wt_State s, hr_CurrentTaskID := wt_CurrentTaskID s, hr_ConsecutiveErrors := wt_ConsecutiveErrors s\<rparr>)"

definition declare_dead :: "WorkerHealthReport \<Rightarrow> WorkerHealthReport" where
  "declare_dead report =
     (if \<not> hr_IsAlive report \<and> hr_Status report \<noteq> ''quarantined'' then report\<lparr>hr_Status := ''dead''\<rparr> else report)"

definition GetWorkerHealth ::
  "teamRunner \<Rightarrow> string \<Rightarrow> string \<Rightarrow> string \<Rightarrow> duration \<Rightarrow> cli_world \<Rightarrow> (cli_error + WorkerHealthReport) \<times> cli_world" where
  "GetWorkerHealth r workspace teamName worker maxHeartbeatAge w =
     (case read_heartbeat r workspace teamName worker w of
        (Inl err, w) \<Rightarrow> (Inl err, w)
      | (Inr heartbeat, w) \<Rightarrow>
         (case call_with ''read worker status'' r workspace ''read-worker-status'' (worker_input teamName worker) (cd_status (tw_codec w)) None w of
            (Inl err, w) \<Rightarrow> (Inl err, w)
          | (Inr status, w) \<Rightarrow>
              (Inr (declare_dead (with_status status (with_heartbeat (tw_now w (tw_log w)) maxHeartbeatAge heartbeat (new_report worker)))), w)))"

record TeamHealthSummary =
  hs_TotalWorkers :: int
  hs_HealthyWorkers :: int
  hs_DeadWorkers :: int
  hs_QuarantinedWorkers :: int
  hs_WorkerReports :: "WorkerHealthReport list"

definition count_report :: "WorkerHealthReport \<Rightarrow> TeamHealthSummary \<Rightarrow> TeamHealthSummary" where
  "count_report report s0 =
     (let s = s0\<lparr>hs_WorkerReports := hs_WorkerReports s0 @ [report]\<rparr> in
      if hr_Status report = ''dead'' then s\<lparr>hs_DeadWorkers := hs_DeadWorkers s + 1\<rparr>
      else if hr_Status report = ''quarantined'' then s\<lparr>hs_QuarantinedWorkers := hs_QuarantinedWorkers s + 1\<rparr>
      else if hr_IsAlive report then s\<lparr>hs_HealthyWorkers := hs_HealthyWorkers s + 1\<rparr>
      else s\<lparr>hs_DeadWorkers := hs_DeadWorkers s + 1\<rparr>)"

text \<open>Workers whose health cannot be read are left out.\<close>

fun health_loop ::
  "teamRunner \<Rightarrow> string \<Rightarrow> string \<Rightarrow> duration \<Rightarrow> string list \<Rightarrow> TeamHealthSummary \<Rightarrow> cli_world \<Rightarrow> TeamHealthSummary \<times> cli_world" where
  "health_loop r workspace teamName age [] s w = (s, w)"
| "health_loop r workspace teamName age (worker # workers) s w =
     (case GetWorkerHealth r workspace teamName worker age w of
        (Inl err, w) \<Rightarrow> health_loop r workspace teamName age workers s w
      | (Inr report, w) \<Rightarrow> health_loop r workspace teamName age workers (count_report report s) w)"

definition GetTeamHealth :: "teamRunner \<Rightarrow> string \<Rightarrow> string \<Rightarrow> duration \<Rightarrow> cli_world \<Rightarrow> (cli_error + TeamHealthSummary) \<times> cli_world" where
  "GetTeamHealth r workspace teamName maxHeartbeatAge w =
     (case fetchSnapshot r workspace teamName w of
        (Inl err, w) \<Rightarrow> (Inl (cli_wrap ''fetch team snapshot'' err), w)
      | (Inr snapshot, w) \<Rightarrow>
          map_prod Inr (\<lambda>w. w) (health_loop r workspace teamName maxHeartbeatAge (map kw_Name (ks_Workers (kn_Summary snapshot)))
            \<lparr>hs_TotalWorkers = ks_WorkerCount (kn_Summary snapshot), hs_HealthyWorkers = 0, hs_DeadWorkers = 0, hs_QuarantinedWorkers = 0,
             hs_WorkerReports = []\<rparr> w))"

text \<open>The last message has a dash where this one has a colon.\<close>

definition intervention :: "WorkerHealthReport \<Rightarrow> string" where
  "intervention report =
     (if \<not> hr_IsAlive report then
        ''Worker is dead: heartbeat stale for ''
        @ (case hr_HeartbeatAge report of None \<Rightarrow> ''unknown'' | Some age \<Rightarrow> fmt_int (if age < 0 then - (- age div 1000) else age div 1000) @ ''s'')
      else if hr_Status report = ''quarantined'' then
        ''Worker self-quarantined after '' @ fmt_int (hr_ConsecutiveErrors report) @ '' consecutive errors''
      else if hr_ConsecutiveErrors report \<ge> 2 then
        ''Worker has '' @ fmt_int (hr_ConsecutiveErrors report) @ '' consecutive errors: at risk of quarantine''
      else [])"

definition CheckWorkerNeedsIntervention ::
  "teamRunner \<Rightarrow> string \<Rightarrow> string \<Rightarrow> string \<Rightarrow> duration \<Rightarrow> cli_world \<Rightarrow> (cli_error + string) \<times> cli_world" where
  "CheckWorkerNeedsIntervention r workspace teamName worker maxHeartbeatAge w =
     map_result intervention (GetWorkerHealth r workspace teamName worker maxHeartbeatAge w)"

section \<open>Restarts\<close>

record WorkerRestartOptions =
  wo_GracePeriod :: duration
  wo_PreserveState :: bool
  wo_ReassignTasks :: bool
  wo_MaxRetries :: int

record WorkerRestartResult =
  wr_WorkerName :: string
  wr_OldPID :: int
  wr_Success :: bool
  wr_Error :: "cli_error option"
  wr_ReassignedTasks :: "string list"

definition default_restart :: "teamRunner \<Rightarrow> WorkerRestartOptions" where
  "default_restart r = \<lparr>wo_GracePeriod = rn_restartGrace r, wo_PreserveState = True, wo_ReassignTasks = True, wo_MaxRetries = 3\<rparr>"

definition writeShutdownRequest ::
  "teamRunner \<Rightarrow> string \<Rightarrow> string \<Rightarrow> string \<Rightarrow> string \<Rightarrow> cli_world \<Rightarrow> cli_error option \<times> cli_world" where
  "writeShutdownRequest r workspace teamName worker requestedBy w =
     (case apiCall r workspace ''write-shutdown-request''
         (team_input teamName [(''worker'', GStr worker), (''requested_by'', GStr requestedBy)]) w of
        (err, w) \<Rightarrow> (map_option (cli_wrap ''write shutdown request'') err, w))"

text \<open>
  The wait for the acknowledgement: ten reads a second until it is accepted or the grace period has ended. The fuel bounds the
  number of reads.
\<close>

fun await_ack :: "nat \<Rightarrow> teamRunner \<Rightarrow> string \<Rightarrow> string \<Rightarrow> string \<Rightarrow> cli_world \<Rightarrow> cli_world option" where
  "await_ack 0 r workspace teamName worker w = None"
| "await_ack (Suc k) r workspace teamName worker w =
     (if tw_expired w (tw_log w) then Some w
      else (case runTeamAPI r workspace ''read-shutdown-ack'' (worker_input teamName worker) (cd_ack (tw_codec w)) None (cli_did CliWait w) of
        (Inr (Some status), w) \<Rightarrow> if status = ''accept'' then Some w else await_ack k r workspace teamName worker w
      | (_, w) \<Rightarrow> await_ack k r workspace teamName worker w))"

definition tasks_to_reassign :: "teamRunner \<Rightarrow> string \<Rightarrow> string \<Rightarrow> string \<Rightarrow> bool \<Rightarrow> cli_world \<Rightarrow> string list \<times> cli_world" where
  "tasks_to_reassign r workspace teamName worker reassign w =
     (if \<not> reassign then ([], w)
      else (case GetTasksByWorker r workspace teamName worker w of
        (Inl err, w) \<Rightarrow> ([], w)
      | (Inr tasks, w) \<Rightarrow> (map tt_ID (filter (\<lambda>t. tt_Status t = TaskInProgress) tasks), w)))"

fun reassign_loop :: "teamRunner \<Rightarrow> string \<Rightarrow> string \<Rightarrow> string \<Rightarrow> string list \<Rightarrow> cli_world \<Rightarrow> string list \<times> cli_world" where
  "reassign_loop r workspace teamName worker [] w = ([], w)"
| "reassign_loop r workspace teamName worker (taskID # ids) w =
     (case cli_ReadTask r workspace teamName taskID w of
        (Inl err, w) \<Rightarrow> reassign_loop r workspace teamName worker ids w
      | (Inr task, w) \<Rightarrow>
         (if held_by worker task then
            (case cli_ReleaseTaskClaim r workspace teamName taskID (tc_Token (the (tt_Claim task))) worker w of
               (Inl err, w) \<Rightarrow> reassign_loop r workspace teamName worker ids w
             | (Inr res, w) \<Rightarrow> (case reassign_loop r workspace teamName worker ids w of (done_ids, w) \<Rightarrow> (taskID # done_ids, w)))
          else reassign_loop r workspace teamName worker ids w))"

definition RestartWorker ::
  "nat \<Rightarrow> teamRunner \<Rightarrow> string \<Rightarrow> string \<Rightarrow> string \<Rightarrow> WorkerRestartOptions option \<Rightarrow> cli_world
     \<Rightarrow> ((cli_error + WorkerRestartResult) \<times> cli_world) option" where
  "RestartWorker fuel r workspace teamName worker opts w =
     (let o1 = (case opts of None \<Rightarrow> default_restart r | Some o1 \<Rightarrow> o1) in
      case read_heartbeat r workspace teamName worker w of
        (Inl err, w) \<Rightarrow> Some (Inl err, w)
      | (Inr heartbeat, w) \<Rightarrow>
         (let result = \<lparr>wr_WorkerName = worker, wr_OldPID = (case heartbeat of None \<Rightarrow> 0 | Some hb \<Rightarrow> wh_PID hb), wr_Success = False,
                wr_Error = None, wr_ReassignedTasks = []\<rparr>
          in case tasks_to_reassign r workspace teamName worker (wo_ReassignTasks o1) w of (ids, w) \<Rightarrow>
             (case writeShutdownRequest r workspace teamName worker ''restart'' w of
                (Some err, w) \<Rightarrow> Some (Inr (result\<lparr>wr_Error := Some (cli_wrap ''failed to write shutdown request'' err)\<rparr>), w)
              | (None, w) \<Rightarrow>
                 (case await_ack fuel r workspace teamName worker w of
                    None \<Rightarrow> None
                  | Some w \<Rightarrow>
                     (case (if wo_ReassignTasks o1 then reassign_loop r workspace teamName worker ids w else ([], w)) of (reassigned, w) \<Rightarrow>
                        Some (Inr (result\<lparr>wr_Success := True, wr_ReassignedTasks := reassigned\<rparr>), w))))))"

text \<open>A worker whose restart fails with an error is left out.\<close>

fun restart_loop ::
  "nat \<Rightarrow> teamRunner \<Rightarrow> string \<Rightarrow> string \<Rightarrow> WorkerHealthReport list \<Rightarrow> cli_world \<Rightarrow> (WorkerRestartResult list \<times> cli_world) option" where
  "restart_loop fuel r workspace teamName [] w = Some ([], w)"
| "restart_loop fuel r workspace teamName (report # reports) w =
     (if hr_Status report \<noteq> ''dead'' then restart_loop fuel r workspace teamName reports w
      else (case RestartWorker fuel r workspace teamName (hr_WorkerName report) None w of
        None \<Rightarrow> None
      | Some (Inl err, w) \<Rightarrow> restart_loop fuel r workspace teamName reports w
      | Some (Inr result, w) \<Rightarrow>
          map_option (\<lambda>(results, w). (result # results, w)) (restart_loop fuel r workspace teamName reports w)))"

definition RestartDeadWorkers ::
  "nat \<Rightarrow> teamRunner \<Rightarrow> string \<Rightarrow> string \<Rightarrow> duration \<Rightarrow> cli_world \<Rightarrow> ((cli_error + WorkerRestartResult list) \<times> cli_world) option" where
  "RestartDeadWorkers fuel r workspace teamName maxHeartbeatAge w =
     (case GetTeamHealth r workspace teamName maxHeartbeatAge w of
        (Inl err, w) \<Rightarrow> Some (Inl (cli_wrap ''get team health'' err), w)
      | (Inr health, w) \<Rightarrow>
          map_option (\<lambda>(results, w). (Inr results, w)) (restart_loop fuel r workspace teamName (hs_WorkerReports health) w))"

definition QuarantineWorker :: "teamRunner \<Rightarrow> string \<Rightarrow> string \<Rightarrow> string \<Rightarrow> string \<Rightarrow> cli_world \<Rightarrow> cli_error option \<times> cli_world" where
  "QuarantineWorker r workspace teamName worker reason w =
     (case AppendEvent r workspace teamName
         \<lparr>ev_Type = ''worker_state_changed'', ev_TeamName = teamName,
          ev_Data = [(''worker'', GStr worker), (''state'', GStr ''quarantined''), (''reason'', GStr reason)], ev_Timestamp = tw_now w (tw_log w)\<rparr> w of
        (Inl err, w) \<Rightarrow> (Some (cli_wrap ''append quarantine event'' err), w)
      | (Inr _, w) \<Rightarrow> (None, w))"

end
