(* ===== verification/Team_Cli_Monitor.thy ===== *)
theory Team_Cli_Monitor
  imports Team_Cli_Health Team_Store
begin

text \<open>
  Models the rest of \<open>internal/agent/teamcli.go\<close>: the checks of the health of a team, the loop that watches it, start and stop.
  Every function appends the events it emits to the world's. The fuel bounds the waits for a restart and the
  polls. Time stamps in the data of an event are numbers.
\<close>

section \<open>Reactions\<close>

definition ev :: "string \<Rightarrow> gobj \<Rightarrow> gobj" where
  "ev teamName rest = (''team_name'', GStr teamName) # rest"

definition checkIdleState :: "teamRunner \<Rightarrow> string \<Rightarrow> string \<Rightarrow> cli_world \<Rightarrow> cli_world" where
  "checkIdleState r workspace teamName w = (case ReadIdleState r workspace teamName w of
     (Inl err, w) \<Rightarrow> w
   | (Inr idle, w) \<Rightarrow>
      (if id_AllWorkersIdle idle
       then emit ''team/all_idle'' (ev teamName [(''worker_count'', GNum (id_WorkerCount idle)), (''idle_workers'', gstrs (id_IdleWorkers idle))]) w
       else w))"

definition read_message :: "teamRunner \<Rightarrow> string \<Rightarrow> string \<Rightarrow> MailboxMessage \<Rightarrow> cli_world \<Rightarrow> cli_world" where
  "read_message r workspace teamName msg w =
     (let w1 = emit ''message/received'' (ev teamName [(''message_id'', GStr (mm_ID msg)), (''from'', GStr (mm_From msg)),
                 (''content'', GStr (mm_Content msg))]) w
      in case MarkMessageDelivered r workspace teamName ''coordinator'' (mm_ID msg) w1 of
           (Some err, w) \<Rightarrow> w
         | (None, w) \<Rightarrow> snd (MarkMessageNotified r workspace teamName ''coordinator'' (mm_ID msg) w))"

definition processUnreadMessages :: "teamRunner \<Rightarrow> string \<Rightarrow> string \<Rightarrow> cli_world \<Rightarrow> cli_world" where
  "processUnreadMessages r workspace teamName w = (case GetUnreadMessages r workspace teamName ''coordinator'' w of
     (Inl err, w) \<Rightarrow> w
   | (Inr messages, w) \<Rightarrow> foldl (\<lambda>w msg. read_message r workspace teamName msg w) w messages)"

definition createSubtask :: "teamRunner \<Rightarrow> string \<Rightarrow> string \<Rightarrow> string \<Rightarrow> string \<Rightarrow> cli_world \<Rightarrow> cli_world" where
  "createSubtask r workspace teamName subject description w =
     (case cli_CreateTask r workspace teamName
         ((toTeamTask no_task)\<lparr>tt_Subject := subject, tt_Description := description\<rparr>) w of
        (Inl err, w) \<Rightarrow> w
      | (Inr created, w) \<Rightarrow>
          emit ''task/created'' (ev teamName [(''task_id'', GStr (tt_ID created)), (''subject'', GStr (tt_Subject created))]) w)"

definition error_text :: "cli_error \<Rightarrow> string" where
  "error_text err = (case err of
     ApiError code message \<Rightarrow> api_error_text code message | TeamMissing \<Rightarrow> ''team CLI team missing'' | CliOther e \<Rightarrow> Error_text e)"

definition report_restart :: "teamRunner \<Rightarrow> string \<Rightarrow> string \<Rightarrow> WorkerRestartResult \<Rightarrow> cli_world \<Rightarrow> cli_world" where
  "report_restart r workspace teamName result w =
     (let w1 = emit ''worker/restarted'' (ev teamName [(''worker'', GStr (wr_WorkerName result)), (''success'', GBool (wr_Success result)),
                 (''reassigned_tasks'', gstrs (wr_ReassignedTasks result))]) w
      in if wr_Success result then w1
         else createSubtask r workspace teamName (''Recover from dead worker '' @ wr_WorkerName result)
           (''Worker '' @ wr_WorkerName result @ '' died and restart failed: ''
            @ (case wr_Error result of None \<Rightarrow> [] | Some err \<Rightarrow> error_text err) @ ''. Reassign its tasks and resume work.'') w1)"

definition stall_data :: "string \<Rightarrow> StallState \<Rightarrow> cli_error + team_event list \<Rightarrow> gobj" where
  "stall_data teamName stall recent = ev teamName [(''reasons'', gstrs (sl_Reasons stall)), (''dead_workers'', gstrs (sl_DeadWorkers stall)),
     (''stalled_workers'', gstrs (sl_StalledWorkers stall)), (''pending_tasks'', GNum (sl_PendingTaskCount stall))]
   @ (case recent of
        Inr (e # es) \<Rightarrow> [(''last_event_type'', GStr (ev_Type (last (e # es)))), (''last_event_time'', GNum (ev_Timestamp (last (e # es))))]
      | _ \<Rightarrow> [])"

definition handleStalledTeam :: "nat \<Rightarrow> teamRunner \<Rightarrow> string \<Rightarrow> string \<Rightarrow> StallState \<Rightarrow> duration \<Rightarrow> cli_world \<Rightarrow> cli_world option" where
  "handleStalledTeam fuel r workspace teamName stall maxHeartbeatAge w =
     (case ReadEvents r workspace teamName any_event w of (recent, w) \<Rightarrow>
       let w1 = emit ''team/stalled'' (stall_data teamName stall recent) w
       in if rn_selfHealing r \<or> sl_DeadWorkers stall = [] then Some w1
          else (case RestartDeadWorkers fuel r workspace teamName maxHeartbeatAge w1 of
            None \<Rightarrow> None
          | Some (Inl err, w) \<Rightarrow> Some w
          | Some (Inr results, w) \<Rightarrow> Some (foldl (\<lambda>w result. report_restart r workspace teamName result w) w results)))"

definition intervene :: "teamRunner \<Rightarrow> string \<Rightarrow> string \<Rightarrow> duration \<Rightarrow> WorkerHealthReport \<Rightarrow> cli_world \<Rightarrow> cli_world" where
  "intervene r workspace teamName maxHeartbeatAge report w =
     (case CheckWorkerNeedsIntervention r workspace teamName (hr_WorkerName report) maxHeartbeatAge w of
        (Inl err, w) \<Rightarrow> w
      | (Inr reason, w) \<Rightarrow>
         (if reason = [] then w
          else
           (let w1 = emit ''worker/needs_intervention'' (ev teamName [(''worker'', GStr (hr_WorkerName report)), (''reason'', GStr reason)]) w
            in if rn_selfHealing r \<or> hr_ConsecutiveErrors report < 3 then w1
               else (case QuarantineWorker r workspace teamName (hr_WorkerName report) reason w1 of
                 (Some err, w) \<Rightarrow> w
               | (None, w) \<Rightarrow> emit ''worker/quarantined'' (ev teamName [(''worker'', GStr (hr_WorkerName report)), (''reason'', GStr reason)]) w))))"

definition checkWorkerInterventions :: "teamRunner \<Rightarrow> string \<Rightarrow> string \<Rightarrow> duration \<Rightarrow> cli_world \<Rightarrow> cli_world" where
  "checkWorkerInterventions r workspace teamName maxHeartbeatAge w = (case GetTeamHealth r workspace teamName maxHeartbeatAge w of
     (Inl err, w) \<Rightarrow> w
   | (Inr health, w) \<Rightarrow> foldl (\<lambda>w report. intervene r workspace teamName maxHeartbeatAge report w) w (hs_WorkerReports health))"

definition minute_ns :: duration where
  "minute_ns = 60 * second_ns"

definition dead_workers :: "TeamHealthSummary \<Rightarrow> string list" where
  "dead_workers health = map hr_WorkerName (filter (\<lambda>report. \<not> hr_IsAlive report) (hs_WorkerReports health))"

definition release_dead :: "teamRunner \<Rightarrow> string \<Rightarrow> string \<Rightarrow> string list \<Rightarrow> TeamTask \<Rightarrow> cli_world \<Rightarrow> cli_world" where
  "release_dead r workspace teamName dead task w = (case tt_Claim task of
     None \<Rightarrow> w
   | Some c \<Rightarrow>
      (if tc_WorkerID c \<notin> set dead then w
       else (case cli_ReleaseTaskClaim r workspace teamName (tt_ID task) (tc_Token c) (tc_WorkerID c) w of
         (Inl err, w) \<Rightarrow> w
       | (Inr _, w) \<Rightarrow>
           emit ''task/claim_released'' (ev teamName [(''task_id'', GStr (tt_ID task)), (''worker'', GStr (tc_WorkerID c)),
             (''reason'', GStr ''worker_dead'')])
             (snd (cli_UpdateTask r workspace teamName (tt_ID task) [(''status'', GStr ''pending'')] w)))))"

definition releaseExpiredClaims :: "teamRunner \<Rightarrow> string \<Rightarrow> string \<Rightarrow> cli_world \<Rightarrow> cli_world" where
  "releaseExpiredClaims r workspace teamName w = (case GetTasksByStatus r workspace teamName ''in_progress'' w of
     (Inl err, w) \<Rightarrow> w
   | (Inr tasks, w) \<Rightarrow>
      (case GetTeamHealth r workspace teamName minute_ns w of
         (Inl err, w) \<Rightarrow> w
       | (Inr health, w) \<Rightarrow> foldl (\<lambda>w task. release_dead r workspace teamName (dead_workers health) task w) w tasks))"

definition idle_workers :: "TeamHealthSummary \<Rightarrow> string list" where
  "idle_workers health = map hr_WorkerName
     (filter (\<lambda>report. hr_IsAlive report \<and> hr_Status report = ''idle'' \<and> hr_CurrentTaskID report = []) (hs_WorkerReports health))"

definition assign_task :: "teamRunner \<Rightarrow> string \<Rightarrow> string \<Rightarrow> TeamTask \<Rightarrow> string \<Rightarrow> cli_world \<Rightarrow> cli_world" where
  "assign_task r workspace teamName task worker w =
     (case cli_ClaimTask r workspace teamName (tt_ID task) worker None w of
        (Inl err, w) \<Rightarrow> w
      | (Inr claim, w) \<Rightarrow>
         (if \<not> cr_OK claim then w
          else (case cli_TransitionTaskStatus r workspace teamName (tt_ID task) ''pending'' ''in_progress'' (cr_ClaimToken claim) None None w of
            (Inl err, w) \<Rightarrow> snd (cli_ReleaseTaskClaim r workspace teamName (tt_ID task) (cr_ClaimToken claim) worker w)
          | (Inr _, w) \<Rightarrow>
              emit ''task/assigned'' (ev teamName [(''task_id'', GStr (tt_ID task)), (''worker'', GStr worker)])
                (snd (SendMessage r workspace teamName ''coordinator'' worker
                  (''Task '' @ tt_ID task @ '' ('' @ tt_Subject task @ '') has been assigned to you.'') w)))))"

definition reconcileTaskStates :: "teamRunner \<Rightarrow> string \<Rightarrow> string \<Rightarrow> cli_world \<Rightarrow> cli_world" where
  "reconcileTaskStates r workspace teamName w =
     (if rn_selfHealing r then w
      else (case GetTasksByStatus r workspace teamName ''pending'' w of
        (Inl err, w) \<Rightarrow> w
      | (Inr tasks, w) \<Rightarrow>
         (if tasks = [] then w
          else (case GetTeamHealth r workspace teamName minute_ns w of
            (Inl err, w) \<Rightarrow> w
          | (Inr health, w) \<Rightarrow>
              releaseExpiredClaims r workspace teamName
                (foldl (\<lambda>w (task, worker). assign_task r workspace teamName task worker w) w (zip tasks (idle_workers health)))))))"

definition nudgeIdleWorkers :: "teamRunner \<Rightarrow> string \<Rightarrow> string \<Rightarrow> StallState \<Rightarrow> cli_world \<Rightarrow> cli_world" where
  "nudgeIdleWorkers r workspace teamName stall w =
     (if sl_IdleWorkers stall = [] \<or> sl_PendingTaskCount stall = 0 then w
      else snd (BroadcastMessage r workspace teamName ''coordinator''
        (''There are '' @ fmt_int (sl_PendingTaskCount stall) @ '' pending tasks available. Read your inbox, continue your assigned task, and if blocked send the coordinator a concrete status update.'')
        (emit ''workers/idle_nudge'' (ev teamName [(''idle_workers'', gstrs (sl_IdleWorkers stall)),
           (''pending_tasks'', GNum (sl_PendingTaskCount stall))]) w)))"

definition checkTeamHealthAndStall :: "nat \<Rightarrow> teamRunner \<Rightarrow> string \<Rightarrow> string \<Rightarrow> cli_world \<Rightarrow> cli_world option" where
  "checkTeamHealthAndStall fuel r workspace teamName w = (case ReadStallState r workspace teamName w of
     (Inl err, w) \<Rightarrow> Some w
   | (Inr stall, w) \<Rightarrow>
      (if sl_PendingTaskCount stall = 0 \<and> sl_StalledWorkers stall = [] \<and> sl_DeadWorkers stall = [] \<and> sl_AllWorkersIdle stall then Some w
       else if rn_selfHealing r then
         (if sl_TeamStalled stall then handleStalledTeam fuel r workspace teamName stall minute_ns w else Some w)
       else
        (let w1 = processUnreadMessages r workspace teamName (checkIdleState r workspace teamName (nudgeIdleWorkers r workspace teamName stall w))
         in case (if sl_TeamStalled stall then handleStalledTeam fuel r workspace teamName stall minute_ns w1 else Some w1) of
              None \<Rightarrow> None
            | Some w \<Rightarrow> Some (reconcileTaskStates r workspace teamName (checkWorkerInterventions r workspace teamName minute_ns w)))))"

section \<open>The monitor\<close>

record monitor =
  mn_lastPhase :: string
  mn_lastTaskStatus :: string
  mn_seenStarted :: bool
  mn_errorCount :: nat
  mn_missingCount :: nat
  mn_pollCount :: nat
  mn_lastEventID :: string
  mn_lastUsage :: "(int \<times> int \<times> int) option"

definition new_monitor :: monitor where
  "new_monitor = \<lparr>mn_lastPhase = [], mn_lastTaskStatus = [], mn_seenStarted = False, mn_errorCount = 0, mn_missingCount = 0,
     mn_pollCount = 0, mn_lastEventID = [], mn_lastUsage = None\<rparr>"

definition show_phase :: "string \<Rightarrow> teamSummary \<Rightarrow> monitor \<Rightarrow> cli_world \<Rightarrow> monitor \<times> cli_world" where
  "show_phase teamName summary m w =
     (let phase = summarizePhase summary in
      if phase = mn_lastPhase m then (m, w)
      else (m\<lparr>mn_lastPhase := phase\<rparr>,
        emit ''session.status'' (ev teamName [(''phase'', GStr phase), (''summary'', summary_json summary)]) w))"

definition show_started :: "teamRunner \<Rightarrow> string \<Rightarrow> string \<Rightarrow> teamTask \<Rightarrow> monitor \<Rightarrow> cli_world \<Rightarrow> monitor \<times> cli_world" where
  "show_started r workspace teamName task m w =
     (if kt_Status task \<noteq> ''in_progress'' \<or> mn_seenStarted m then (m, w)
      else
       (let w1 = emit ''item/started'' (ev teamName [(''task'', task_json task)]) w
        in (m\<lparr>mn_seenStarted := True\<rparr>,
            if kt_Owner task = [] then w1
            else snd (SendMessage r workspace teamName ''coordinator'' (kt_Owner task)
              (''Task '' @ kt_ID task @ '' is now in progress. Good luck!'') w1))))"

text \<open>The outcome of a task whose status changed: nothing yet, or the end of the run with an error or none.\<close>

definition task_outcome :: "string \<Rightarrow> teamTask \<Rightarrow> cli_world \<Rightarrow> cli_error option option \<times> cli_world" where
  "task_outcome teamName task w =
     (let data = (\<lambda>rest. ev teamName ((''task'', task_json task) # rest)) in
      if kt_Status task \<in> {''pending'', ''blocked'', ''in_progress''} then (None, w)
      else if kt_Status task = ''completed'' then
        (let result = [(''result'', GStr (first_non_blank [kt_Result task, kt_Description task]))]
         in (Some None, emit ''task/completed'' (data result) (emit ''item/completed'' (data result) w)))
      else if kt_Status task = ''failed'' then
        (let message = first_non_blank [kt_Error task, kt_Result task, ''task failed'']
         in (Some (Some (CliOther (ErrMsg message))), emit ''turn/failed'' (data [(''error'', GStr message)]) w))
      else
        (Some (Some (CliOther (ErrMsg (''unknown task status '' @ fmt_q (kt_Status task))))),
         emit ''protocol/error'' (ev teamName [(''error'', GStr ''unknown task status''), (''status'', GStr (kt_Status task))]) w))"

definition handleSnapshot ::
  "teamRunner \<Rightarrow> string \<Rightarrow> string \<Rightarrow> teamSnapshot \<Rightarrow> monitor \<Rightarrow> cli_world \<Rightarrow> cli_error option option \<times> monitor \<times> cli_world" where
  "handleSnapshot r workspace teamName snapshot m w =
     (case show_phase teamName (kn_Summary snapshot) m w of (m, w) \<Rightarrow>
      (case primaryTask (kn_Tasks snapshot) of
         None \<Rightarrow> (None, m, w)
       | Some task \<Rightarrow>
          (case show_started r workspace teamName task m w of (m, w) \<Rightarrow>
             if kt_Status task = mn_lastTaskStatus m then (None, m, w)
             else (case task_outcome teamName task w of (outcome, w) \<Rightarrow> (outcome, m\<lparr>mn_lastTaskStatus := kt_Status task\<rparr>, w)))))"

text \<open>The end of a run: the team is shut down, and the error is handed over.\<close>

definition finish_run :: "teamRunner \<Rightarrow> string \<Rightarrow> string \<Rightarrow> cli_world \<Rightarrow> cli_world" where
  "finish_run r workspace teamName w = (case shutdownTeam r workspace teamName w of
     (None, w) \<Rightarrow> w
   | (Some err, w) \<Rightarrow> emit ''protocol/error'' (ev teamName [(''error'', GStr (Error_text err))]) w)"

definition show_usage :: "string \<Rightarrow> string \<Rightarrow> monitor \<Rightarrow> cli_world \<Rightarrow> monitor \<times> cli_world" where
  "show_usage workspace teamName m w = (let answer = tw_metrics w (tw_log w); w1 = cli_did (CliMetrics workspace) w in
     case answer of
       Inr (Some x) \<Rightarrow>
         (let new = (ox_SessionInputTokens x, ox_SessionOutputTokens x, ox_SessionTotalTokens x);
              changed = (case mn_lastUsage m of None \<Rightarrow> True
                | Some (i, out, t) \<Rightarrow> fst new > i \<or> fst (snd new) > out \<or> snd (snd new) > t)
          in if changed
             then (m\<lparr>mn_lastUsage := Some new\<rparr>,
               emit ''session.usage'' (ev teamName [(''usage'', GObj [(''input_tokens'', GNum (fst new)), (''output_tokens'', GNum (fst (snd new))),
                 (''total_tokens'', GNum (snd (snd new)))])]) w1)
             else (m, w1))
     | _ \<Rightarrow> (m, w1))"

definition awaitNextEvent :: "teamRunner \<Rightarrow> string \<Rightarrow> string \<Rightarrow> monitor \<Rightarrow> cli_world \<Rightarrow> monitor \<times> cli_world" where
  "awaitNextEvent r workspace teamName m w =
     (case AwaitEvent r workspace teamName (any_event\<lparr>ef_AfterEventID := mn_lastEventID m\<rparr>) (500 * millisecond_ns) w of
        (Inl err, w) \<Rightarrow> (m, w)
      | (Inr event, w) \<Rightarrow>
          (case map_of (ev_Data event) ''event_id'' of Some (GStr i) \<Rightarrow> if i \<noteq> [] then m\<lparr>mn_lastEventID := i\<rparr> else m | _ \<Rightarrow> m,
           emit ''team/event'' (ev teamName [(''event_type'', GStr (ev_Type event)), (''data'', GObj (ev_Data event))]) w))"

definition startup_grace :: "teamRunner \<Rightarrow> duration" where
  "startup_grace r = (if rn_startupTimeout r > minute_ns then rn_startupTimeout r else minute_ns)"

definition health_turn :: "nat \<Rightarrow> teamRunner \<Rightarrow> string \<Rightarrow> string \<Rightarrow> time \<Rightarrow> monitor \<Rightarrow> cli_world \<Rightarrow> (monitor \<times> cli_world) option" where
  "health_turn fuel r workspace teamName monitorStart m w =
     (let m1 = m\<lparr>mn_pollCount := Suc (mn_pollCount m)\<rparr> in
      if mn_pollCount m1 mod 5 \<noteq> 0 then Some (m1, w)
      else
       (case (if mn_seenStarted m1 \<or> time_sub (tw_now w (tw_log w)) monitorStart \<ge> startup_grace r
              then checkTeamHealthAndStall fuel r workspace teamName w else Some w) of
          None \<Rightarrow> None
        | Some w \<Rightarrow> Some (awaitNextEvent r workspace teamName m1 w)))"

text \<open>How a monitor ends: with an error or none, and whether the team was found missing.\<close>

datatype mon_end = Ended "cli_error option" bool

text \<open>One poll: the monitor goes on, or ends.\<close>

definition poll ::
  "nat \<Rightarrow> teamRunner \<Rightarrow> string \<Rightarrow> string \<Rightarrow> time \<Rightarrow> monitor \<Rightarrow> cli_world \<Rightarrow> ((mon_end + monitor) \<times> cli_world) option" where
  "poll fuel r workspace teamName monitorStart m w =
     (case fetchSnapshot r workspace teamName (cli_did CliWait w) of
        (Inl err, w) \<Rightarrow>
          (if isTeamMissingError err then
             (let m1 = m\<lparr>mn_missingCount := Suc (mn_missingCount m)\<rparr> in
              if mn_missingCount m1 \<ge> 2
              then Some (Inl (Ended (Some TeamMissing) True),
                emit ''team/missing'' (ev teamName [(''error'', GStr (error_text TeamMissing))]) w)
              else Some (Inr m1, w))
           else
             (let m1 = m\<lparr>mn_missingCount := 0, mn_errorCount := Suc (mn_errorCount m)\<rparr>;
                  w1 = emit ''protocol/error'' (ev teamName [(''error'', GStr (error_text err))]) w
              in if mn_errorCount m1 \<ge> 3 then Some (Inl (Ended (Some err) False), finish_run r workspace teamName w1)
                 else Some (Inr m1, w1)))
      | (Inr snapshot, w) \<Rightarrow>
          (case handleSnapshot r workspace teamName snapshot (m\<lparr>mn_missingCount := 0, mn_errorCount := 0\<rparr>) w of
             (Some err, m, w) \<Rightarrow> Some (Inl (Ended err False), finish_run r workspace teamName w)
           | (None, m, w) \<Rightarrow>
               (case show_usage workspace teamName m w of (m, w) \<Rightarrow>
                 map_option (\<lambda>(m, w). (Inr m, w)) (health_turn fuel r workspace teamName monitorStart m w))))"

fun poll_loop ::
  "nat \<Rightarrow> teamRunner \<Rightarrow> string \<Rightarrow> string \<Rightarrow> time \<Rightarrow> monitor \<Rightarrow> cli_world \<Rightarrow> (mon_end \<times> cli_world) option" where
  "poll_loop 0 r workspace teamName monitorStart m w = None"
| "poll_loop (Suc k) r workspace teamName monitorStart m w =
     (if tw_stopped w (tw_log w) then Some (Ended None False, w)
      else (case poll k r workspace teamName monitorStart m w of
        None \<Rightarrow> None
      | Some (Inl e, w) \<Rightarrow> Some (e, w)
      | Some (Inr m, w) \<Rightarrow> poll_loop k r workspace teamName monitorStart m w))"

definition monitorProcess ::
  "nat \<Rightarrow> teamRunner \<Rightarrow> string \<Rightarrow> string \<Rightarrow> string \<Rightarrow> teamSnapshot option \<Rightarrow> cli_world \<Rightarrow> (mon_end \<times> cli_world) option" where
  "monitorProcess fuel r workspace teamName promptPath initial w =
     (let monitorStart = tw_now w (tw_log w);
          w1 = emit ''turn/started'' (ev teamName [(''prompt_file'', GStr promptPath), (''runner'', GStr (rn_name r))]) w
      in case initial of
           None \<Rightarrow> poll_loop fuel r workspace teamName monitorStart new_monitor w1
         | Some snapshot \<Rightarrow>
            (case handleSnapshot r workspace teamName snapshot new_monitor w1 of
               (Some err, m, w) \<Rightarrow> Some (Ended err False, finish_run r workspace teamName w)
             | (None, m, w) \<Rightarrow> poll_loop fuel r workspace teamName monitorStart m w))"

section \<open>Start and stop\<close>

record team_proc =
  tp_teamName :: string
  tp_workspace :: string
  tp_promptPath :: string
  tp_missing :: bool

record cli_runner =
  cx_config :: teamRunner
  cx_pidSeq :: int
  cx_procs :: "(int \<times> team_proc) list"

definition prompt_paths :: "string \<Rightarrow> string \<Rightarrow> Issue \<Rightarrow> string \<Rightarrow> string \<times> string" where
  "prompt_paths workspace runnerName issue taskSeed =
     (let fileSlug = slugifyTeamName (first_non_blank [is_ID issue, is_Identifier issue, taskSeed]);
          relPath = path_join [''.contrabass'', ''runner'', runnerName, fileSlug @ ''-task.md'']
      in (path_join [workspace, relPath], relPath))"

definition writeTeamPromptFile ::
  "string \<Rightarrow> string \<Rightarrow> Issue \<Rightarrow> string \<Rightarrow> string \<Rightarrow> cli_world \<Rightarrow> (go_error + string \<times> string) \<times> cli_world" where
  "writeTeamPromptFile workspace runnerName issue taskSeed prompt w =
     (let (absPath, relPath) = prompt_paths workspace runnerName issue taskSeed;
          mk = CliMkdir (path_dir absPath); wr = CliWrite absPath (prompt_text issue prompt); w1 = cli_did mk w
      in (case tw_file w (tw_log w) mk of
            Some err \<Rightarrow> (Inl err, w1)
          | None \<Rightarrow>
             (case tw_file w1 (tw_log w1) wr of
                Some err \<Rightarrow> (Inl err, cli_did wr w1)
              | None \<Rightarrow> (Inr (absPath, relPath), cli_did wr w1))))"

text \<open>A team that is not found yet is asked for again until the context of the start ends.\<close>

fun waitForTeamReady :: "nat \<Rightarrow> teamRunner \<Rightarrow> string \<Rightarrow> string \<Rightarrow> cli_world \<Rightarrow> ((cli_error + teamSnapshot) \<times> cli_world) option" where
  "waitForTeamReady 0 r workspace teamName w = None"
| "waitForTeamReady (Suc k) r workspace teamName w =
     (case fetchSnapshot r workspace teamName w of
        (Inr snapshot, w) \<Rightarrow> Some (Inr snapshot, w)
      | (Inl err, w) \<Rightarrow>
          (case err of
             ApiError code message \<Rightarrow>
               if code \<noteq> ''team_not_found'' \<and> code \<noteq> ''manifest_not_found'' then Some (Inl err, w)
               else if tw_expired w (tw_log w) then Some (Inl (CliOther ErrCanceled), w)
               else waitForTeamReady k r workspace teamName (cli_did CliWait w)
           | _ \<Rightarrow> Some (Inl err, w)))"

definition cli_Start ::
  "nat \<Rightarrow> cli_runner \<Rightarrow> Issue \<Rightarrow> string \<Rightarrow> string \<Rightarrow> cli_world
     \<Rightarrow> ((cli_error + int \<times> string \<times> string \<times> teamSnapshot) \<times> cli_runner \<times> cli_world) option" where
  "cli_Start fuel x issue workspace prompt w =
     (let r = cx_config x in
      if trim_space (rn_binaryPath r) = [] then Some (Inl (CliOther (ErrMsg (rn_name r @ '' binary path is empty''))), x, w)
      else
       (let taskSeed = buildTeamTaskSeed issue prompt in
        case writeTeamPromptFile workspace (rn_name r) issue taskSeed prompt w of
          (Inl err, w) \<Rightarrow> Some (Inl (CliOther (Wrap (''write '' @ rn_name r @ '' prompt file'') err)), x, w)
        | (Inr (promptPath, relPromptPath), w) \<Rightarrow>
           (let launchTask = buildLaunchTask taskSeed relPromptPath; predicted = slugifyTeamName launchTask in
            case runCommand r (CliRun workspace [''team'', rn_teamSpec r, launchTask]) w of
              ((output, Some err), w) \<Rightarrow>
                Some (Inl (CliOther (Wrap (''start '' @ rn_name r @ '' team '' @ fmt_q predicted) (WrapPost err (formatCommandOutput output)))), x, w)
            | ((output, None), w) \<Rightarrow>
               (let parsed = parseTeamNameFromOutput output; teamName = (if parsed = [] then predicted else parsed) in
                case waitForTeamReady fuel r workspace teamName w of
                  None \<Rightarrow> None
                | Some (Inl err, w) \<Rightarrow>
                    Some (Inl (cli_wrap (''wait for '' @ rn_name r @ '' team '' @ fmt_q teamName @ '' readiness'') err), x,
                      if err = TeamMissing then w else snd (shutdownTeam r workspace teamName w))
                | Some (Inr snapshot, w) \<Rightarrow>
                    (let pid = cx_pidSeq x + 1 in
                     Some (Inr (pid, teamName, promptPath, snapshot),
                       x\<lparr>cx_pidSeq := pid, cx_procs := (pid, \<lparr>tp_teamName = teamName, tp_workspace = workspace, tp_promptPath = promptPath,
                            tp_missing = False\<rparr>) # cx_procs x\<rparr>, w))))))"

definition broadcastShutdownNotice :: "teamRunner \<Rightarrow> string \<Rightarrow> string \<Rightarrow> cli_world \<Rightarrow> cli_world" where
  "broadcastShutdownNotice r workspace teamName w =
     snd (BroadcastMessage r workspace teamName ''coordinator'' ''Team is shutting down. Finish current work and prepare to stop.'' w)"

definition gracefulShutdownWorkers :: "teamRunner \<Rightarrow> string \<Rightarrow> string \<Rightarrow> cli_world \<Rightarrow> cli_world" where
  "gracefulShutdownWorkers r workspace teamName w = (case fetchSnapshot r workspace teamName w of
     (Inl err, w) \<Rightarrow> w
   | (Inr snapshot, w) \<Rightarrow>
       cli_did CliWait (foldl (\<lambda>w worker. snd (writeShutdownRequest r workspace teamName (kw_Name worker) ''team-stop'' w)) w
         (filter kw_Alive (ks_Workers (kn_Summary snapshot)))))"

definition stop_team :: "teamRunner \<Rightarrow> team_proc \<Rightarrow> cli_world \<Rightarrow> go_error option \<times> cli_world" where
  "stop_team r p w = shutdownTeam r (tp_workspace p) (tp_teamName p)
     (gracefulShutdownWorkers r (tp_workspace p) (tp_teamName p) (broadcastShutdownNotice r (tp_workspace p) (tp_teamName p) w))"

definition cli_Stop :: "cli_runner \<Rightarrow> int \<Rightarrow> cli_world \<Rightarrow> go_error option \<times> cli_runner \<times> cli_world" where
  "cli_Stop x pid w = (case map_of (cx_procs x) pid of
     None \<Rightarrow> (Some (WrapPost (ErrMsg ''team CLI process already stopped'') (''pid '' @ fmt_int pid)), x, w)
   | Some p \<Rightarrow>
      (let x1 = x\<lparr>cx_procs := filter (\<lambda>(i, _). i \<noteq> pid) (cx_procs x)\<rparr> in
       if tp_missing p then (None, x1, w)
       else (case stop_team (cx_config x) p w of
         (None, w) \<Rightarrow> (None, x1, w)
       | (Some err, w) \<Rightarrow> (Some (WrapPost (ErrMsg ''team CLI stop failed'') (Error_text err)), x1, w))))"

fun close_each :: "teamRunner \<Rightarrow> team_proc list \<Rightarrow> cli_world \<Rightarrow> go_error list \<times> cli_world" where
  "close_each r [] w = ([], w)"
| "close_each r (p # ps) w = (case stop_team r p w of (e, w) \<Rightarrow>
     (case close_each r ps w of (errs, w) \<Rightarrow> (case e of None \<Rightarrow> errs | Some err \<Rightarrow> err # errs, w)))"

text \<open>Every team that was running, in some order.\<close>

definition cli_Close :: "cli_runner \<Rightarrow> cli_world \<Rightarrow> go_error list \<times> cli_runner \<times> cli_world" where
  "cli_Close x w = (case close_each (cx_config x) (map snd (cx_procs x)) w of (errs, w) \<Rightarrow> (errs, x\<lparr>cx_procs := []\<rparr>, w))"

text \<open>The end of the monitor of a process: it is marked first when its team was missing, and then forgotten.\<close>

definition mark_missing :: "int \<Rightarrow> cli_runner \<Rightarrow> cli_runner" where
  "mark_missing pid x = x\<lparr>cx_procs := map (\<lambda>(i, p). (i, if i = pid then p\<lparr>tp_missing := True\<rparr> else p)) (cx_procs x)\<rparr>"

definition monitor_ended :: "int \<Rightarrow> cli_runner \<Rightarrow> cli_runner" where
  "monitor_ended pid x = x\<lparr>cx_procs := filter (\<lambda>(i, _). i \<noteq> pid) (cx_procs x)\<rparr>"

end
