(* ===== verification/Team_Cli_Props.thy ===== *)
theory Team_Cli_Props
  imports Team_Cli_Monitor
begin

text \<open>What the runner of a team reports, when it ends, and what it does to the team.\<close>

section \<open>What a call changes\<close>

text \<open>Calls of the API only extend the history.\<close>

definition still :: "cli_world \<Rightarrow> cli_world" where
  "still w = w\<lparr>tw_log := []\<rparr>"

named_theorems still_rules

lemma still_did [simp]: "still (cli_did a w) = still w"
  by (simp add: still_def cli_did_def)

lemma runCommand_still [still_rules]: "runCommand r c w = (x, w') \<Longrightarrow> still w' = still w"
  by (auto simp: runCommand_def split: if_splits)

lemma runTeamAPI_still [still_rules]: "runTeamAPI r d op input dec z w = (x, w') \<Longrightarrow> still w' = still w"
  by (auto simp: runTeamAPI_def split: prod.splits dest!: still_rules)

lemma apiCall_still [still_rules]: "apiCall r d op input w = (x, w') \<Longrightarrow> still w' = still w"
  by (auto simp: apiCall_def split: prod.splits sum.splits dest!: still_rules)

lemma call_with_still [still_rules]: "call_with m r d op input dec z w = (x, w') \<Longrightarrow> still w' = still w"
  by (auto simp: call_with_def split: prod.splits sum.splits dest!: still_rules)

lemma map_result_still: "map_result f y = (x, w') \<Longrightarrow> snd y = w'"
  by (auto simp: map_result_def split: prod.splits sum.splits)

lemma still_snd: "f = (x, w') \<Longrightarrow> still (snd f) = v \<Longrightarrow> still w' = v"
  by simp

lemma map_result_snd [simp]: "snd (map_result f y) = snd y"
  by (auto simp: map_result_def split: prod.splits sum.splits)

lemma api_still [simp]:
  "still (snd (runCommand r c w)) = still w" "still (snd (runTeamAPI r d op input dec z w)) = still w"
  "still (snd (apiCall r d op input w)) = still w" "still (snd (call_with m r d op input dec2 z2 w)) = still w"
  by (metis prod.collapse still_rules)+

lemma tasks_still [simp]:
  "still (snd (cli_CreateTask r d t task w)) = still w" "still (snd (cli_ReadTask r d t i w)) = still w"
  "still (snd (cli_UpdateTask r d t i u w)) = still w" "still (snd (cli_ClaimTask r d t i k v w)) = still w"
  "still (snd (cli_TransitionTaskStatus r d t i a b c y e w)) = still w" "still (snd (cli_ReleaseTaskClaim r d t i c k w)) = still w"
  "still (snd (ListAllTasks r d t w)) = still w" "still (snd (GetTasksByStatus r d t s w)) = still w"
  "still (snd (GetTasksByWorker r d t k w)) = still w"
  by (simp_all add: cli_CreateTask_def cli_ReadTask_def cli_UpdateTask_def cli_ClaimTask_def cli_TransitionTaskStatus_def
      cli_ReleaseTaskClaim_def ListAllTasks_def GetTasksByStatus_def GetTasksByWorker_def)

lemma messages_still [simp]:
  "still (snd (SendMessage r d t a b c w)) = still w" "still (snd (BroadcastMessage r d t a c w)) = still w"
  "still (snd (ListMailbox r d t a i w)) = still w" "still (snd (MarkMessageDelivered r d t a m w)) = still w"
  "still (snd (MarkMessageNotified r d t a m w)) = still w" "still (snd (GetUnreadMessages r d t a w)) = still w"
  by (auto simp: SendMessage_def BroadcastMessage_def ListMailbox_def MarkMessageDelivered_def MarkMessageNotified_def mark_message_def
      GetUnreadMessages_def refused_def split: prod.splits dest: still_rules)

lemma events_still [simp]:
  "still (snd (ReadEvents r d t f w)) = still w" "still (snd (AwaitEvent r d t f o1 w)) = still w"
  "still (snd (AppendEvent r d t e w)) = still w" "still (snd (ReadIdleState r d t w)) = still w"
  "still (snd (ReadStallState r d t w)) = still w"
  by (auto simp: ReadEvents_def AwaitEvent_def AppendEvent_def ReadIdleState_def ReadStallState_def refused_def
      split: prod.splits sum.splits option.splits dest: still_rules)

lemma team_still [simp]:
  "still (snd (shutdownTeam r d t w)) = still w" "still (snd (fetchSnapshot r d t w)) = still w"
  "still (snd (GetWorkerHealth r d t k a w)) = still w" "still (snd (writeShutdownRequest r d t k b w)) = still w"
  by (auto simp: shutdownTeam_def fetchSnapshot_def GetWorkerHealth_def read_heartbeat_def writeShutdownRequest_def
      split: prod.splits sum.splits dest!: still_rules)

lemmas [still_rules] = tasks_still [THEN still_snd [rotated]] messages_still [THEN still_snd [rotated]]
  events_still [THEN still_snd [rotated]] team_still [THEN still_snd [rotated]]

lemma health_loop_still: "still (snd (health_loop r d t a ks s w)) = still w"
  by (induction r d t a ks s w rule: health_loop.induct) (auto split: prod.splits sum.splits dest!: still_rules)

lemma health_still [simp]:
  "still (snd (GetTeamHealth r d t a w)) = still w" "still (snd (CheckWorkerNeedsIntervention r d t k a w)) = still w"
  "still (snd (QuarantineWorker r d t k reason w)) = still w"
  by (auto simp: GetTeamHealth_def CheckWorkerNeedsIntervention_def QuarantineWorker_def health_loop_still
      split: prod.splits sum.splits dest!: still_rules)

lemmas [still_rules] = health_still [THEN still_snd [rotated]]

lemma await_ack_still [still_rules]: "await_ack n r d t k w = Some w' \<Longrightarrow> still w' = still w"
  by (induction n r d t k w arbitrary: w' rule: await_ack.induct)
    (auto split: prod.splits sum.splits option.splits if_splits dest!: still_rules)

lemma tasks_to_reassign_still [still_rules]: "tasks_to_reassign r d t k b w = (x, w') \<Longrightarrow> still w' = still w"
  by (auto simp: tasks_to_reassign_def split: prod.splits sum.splits if_splits dest!: still_rules)

lemma reassign_loop_still [still_rules]: "reassign_loop r d t k ids w = (x, w') \<Longrightarrow> still w' = still w"
  by (induction r d t k ids w arbitrary: x w' rule: reassign_loop.induct)
    (auto split: prod.splits sum.splits if_splits dest!: still_rules)

lemma RestartWorker_still [still_rules]: "RestartWorker n r d t k o1 w = Some (x, w') \<Longrightarrow> still w' = still w"
  unfolding RestartWorker_def read_heartbeat_def Let_def
  by (auto split: prod.splits sum.splits option.splits if_splits dest!: still_rules)

lemma restart_loop_still [still_rules]: "restart_loop n r d t reports w = Some (x, w') \<Longrightarrow> still w' = still w"
  by (induction n r d t reports w arbitrary: x w' rule: restart_loop.induct)
    (auto split: prod.splits sum.splits option.splits if_splits dest!: still_rules)

lemma RestartDeadWorkers_still [still_rules]: "RestartDeadWorkers n r d t a w = Some (x, w') \<Longrightarrow> still w' = still w"
  by (auto simp: RestartDeadWorkers_def split: prod.splits sum.splits dest!: still_rules)

section \<open>Reactions never report the end of a run\<close>

definition outcome_types :: "string set" where
  "outcome_types = {''item/completed'', ''task/completed'', ''turn/failed'', ''turn/cancelled'', ''turn/canceled'', ''team/missing''}"

definition frame :: "cli_world \<Rightarrow> cli_world" where
  "frame w = w\<lparr>tw_log := [], tw_sent := 0, tw_events := []\<rparr>"

text \<open>Only events that report no outcome are added.\<close>

definition calm :: "cli_world \<Rightarrow> cli_world \<Rightarrow> bool" where
  "calm w w' \<longleftrightarrow> frame w' = frame w
     \<and> (\<exists>es. tw_events w' = tw_events w @ es \<and> fst ` set es \<inter> outcome_types = {})"

lemma still_frame: "still w' = still w \<Longrightarrow> frame w' = frame w \<and> tw_events w' = tw_events w \<and> tw_sent w' = tw_sent w"
  by (cases w; cases w') (simp add: still_def frame_def)

lemma calm_still: "still w' = still w \<Longrightarrow> calm w w'"
  by (auto simp: calm_def dest: still_frame)

lemma calm_refl [simp]: "calm w w"
  by (rule calm_still) simp

lemma calm_trans: "calm u v \<Longrightarrow> calm v w \<Longrightarrow> calm u w"
  by (auto simp: calm_def image_Un Int_Un_distrib2)

lemma calm_emit [simp]: "t \<notin> outcome_types \<Longrightarrow> calm w (emit t data w)"
  by (auto simp: calm_def emit_def frame_def)

lemma calm_then: "calm u v \<Longrightarrow> still w = still v \<Longrightarrow> calm u w"
  by (rule calm_trans [OF _ calm_still])

lemma calm_after: "still v = still u \<Longrightarrow> calm v w \<Longrightarrow> calm u w"
  by (rule calm_trans [OF calm_still])

lemma calm_fold: "(\<And>x w. calm w (f w x)) \<Longrightarrow> calm w (foldl f w xs)"
  by (induction xs arbitrary: w) (auto intro: calm_trans)

lemma calm_types [simp]: "''team/all_idle'' \<notin> outcome_types" "''message/received'' \<notin> outcome_types" "''task/created'' \<notin> outcome_types"
  "''worker/restarted'' \<notin> outcome_types" "''team/stalled'' \<notin> outcome_types" "''worker/needs_intervention'' \<notin> outcome_types"
  "''worker/quarantined'' \<notin> outcome_types" "''task/claim_released'' \<notin> outcome_types" "''task/assigned'' \<notin> outcome_types"
  "''workers/idle_nudge'' \<notin> outcome_types" "''session.status'' \<notin> outcome_types" "''item/started'' \<notin> outcome_types"
  "''session.usage'' \<notin> outcome_types" "''team/event'' \<notin> outcome_types" "''protocol/error'' \<notin> outcome_types"
  "''turn/started'' \<notin> outcome_types"
  by (simp_all add: outcome_types_def)

text \<open>Rules by the shape of the later world.\<close>

named_theorems calm_rules

lemma calm_via: "still v = still u \<Longrightarrow> calm w u \<Longrightarrow> calm w v"
  by (rule calm_then)

lemma calm_emitI [calm_rules]: "calm w v \<Longrightarrow> t \<notin> outcome_types \<Longrightarrow> calm w (emit t data v)"
  by (rule calm_trans [OF _ calm_emit])

lemma calm_foldI [calm_rules]: "calm w v \<Longrightarrow> (\<And>x u. calm u (f u x)) \<Longrightarrow> calm w (foldl f v xs)"
  by (rule calm_trans [OF _ calm_fold])

lemma calm_callI [calm_rules]:
  "calm w v \<Longrightarrow> calm w (snd (SendMessage r d t a b c v))" "calm w v \<Longrightarrow> calm w (snd (BroadcastMessage r d t a c v))"
  "calm w v \<Longrightarrow> calm w (snd (cli_UpdateTask r d t i u v))" "calm w v \<Longrightarrow> calm w (snd (cli_ReleaseTaskClaim r d t i c k v))"
  "calm w v \<Longrightarrow> calm w (snd (MarkMessageNotified r d t a m v))" "calm w v \<Longrightarrow> calm w (cli_did x v)"
  by (rule calm_then; simp)+

lemmas [calm_rules] = calm_refl

lemma calm_idle [calm_rules]: "calm w v \<Longrightarrow> calm w (checkIdleState r d t v)"
  by (auto simp: checkIdleState_def split: prod.splits sum.splits dest!: still_rules intro!: calm_rules elim: calm_via)

lemma calm_nudge [calm_rules]: "calm w v \<Longrightarrow> calm w (nudgeIdleWorkers r d t s v)"
  unfolding nudgeIdleWorkers_def by (auto intro!: calm_rules)

lemma calm_read [calm_rules]: "calm w v \<Longrightarrow> calm w (read_message r d t m v)"
  by (auto simp: read_message_def split: prod.splits option.splits dest!: still_rules intro!: calm_rules elim!: calm_via)

lemma calm_unread [calm_rules]: "calm w v \<Longrightarrow> calm w (processUnreadMessages r d t v)"
  by (auto simp: processUnreadMessages_def split: prod.splits sum.splits dest!: still_rules intro!: calm_rules elim!: calm_via)

lemma calm_subtask [calm_rules]: "calm w v \<Longrightarrow> calm w (createSubtask r d t a b v)"
  by (auto simp: createSubtask_def split: prod.splits sum.splits dest!: still_rules intro!: calm_rules elim!: calm_via)

lemma calm_report [calm_rules]: "calm w v \<Longrightarrow> calm w (report_restart r d t res v)"
  unfolding report_restart_def Let_def by (auto intro!: calm_rules)

lemma calm_stalled: "handleStalledTeam n r d t s a v = Some w' \<Longrightarrow> calm w v \<Longrightarrow> calm w w'"
  by (auto simp: handleStalledTeam_def Let_def split: prod.splits option.splits sum.splits if_splits dest!: still_rules
      intro!: calm_rules elim!: calm_via)

lemma calm_intervene [calm_rules]: "calm w v \<Longrightarrow> calm w (intervene r d t a report v)"
  by (auto simp: intervene_def Let_def split: prod.splits option.splits sum.splits dest!: still_rules intro!: calm_rules elim!: calm_via)

lemma calm_interventions [calm_rules]: "calm w v \<Longrightarrow> calm w (checkWorkerInterventions r d t a v)"
  by (auto simp: checkWorkerInterventions_def split: prod.splits sum.splits dest!: still_rules intro!: calm_rules elim!: calm_via)

lemma calm_release [calm_rules]: "calm w v \<Longrightarrow> calm w (release_dead r d t dead task v)"
  by (auto simp: release_dead_def split: option.splits prod.splits sum.splits dest!: still_rules intro!: calm_rules elim!: calm_via)

lemma calm_expired [calm_rules]: "calm w v \<Longrightarrow> calm w (releaseExpiredClaims r d t v)"
  by (auto simp: releaseExpiredClaims_def split: prod.splits sum.splits dest!: still_rules intro!: calm_rules elim!: calm_via)

lemma calm_assign [calm_rules]: "calm w v \<Longrightarrow> calm w (assign_task r d t task k v)"
  by (auto simp: assign_task_def split: prod.splits sum.splits dest!: still_rules intro!: calm_rules elim!: calm_via)

lemma calm_reconcile [calm_rules]: "calm w v \<Longrightarrow> calm w (reconcileTaskStates r d t v)"
  by (auto simp: reconcileTaskStates_def split: prod.splits sum.splits dest!: still_rules intro!: calm_rules elim!: calm_via)

lemma calm_check: "checkTeamHealthAndStall n r d t v = Some w' \<Longrightarrow> calm w v \<Longrightarrow> calm w w'"
  by (auto simp: checkTeamHealthAndStall_def Let_def split: prod.splits option.splits sum.splits if_splits dest!: still_rules
      intro!: calm_rules elim!: calm_via elim: calm_stalled)

section \<open>The end of a run is reported once\<close>

definition types_of :: "cli_world \<Rightarrow> string list" where
  "types_of w = map fst (tw_events w)"

definition lossless :: "cli_world \<Rightarrow> bool" where
  "lossless w \<longleftrightarrow> (\<forall>n. \<not> tw_drop w n)"

lemma frame_same: "frame w' = frame w \<Longrightarrow> lossless w' = lossless w \<and> tw_stopped w' = tw_stopped w \<and> tw_expired w' = tw_expired w"
  by (cases w; cases w') (simp add: frame_def lossless_def)

lemma emit_types [simp]: "lossless w \<Longrightarrow> types_of (emit t data w) = types_of w @ [t]" "frame (emit t data w) = frame w"
  by (simp_all add: emit_def types_of_def lossless_def frame_def)

lemma emit_lossless [simp]: "lossless (emit t data w) = lossless w"
  by (rule conjunct1 [OF frame_same]) simp

text \<open>The events that end a run, for the error that is handed over. The last event may be the error of the shutdown.\<close>

definition ending :: "cli_world \<Rightarrow> mon_end \<Rightarrow> string list \<Rightarrow> bool" where
  "ending w' e tail \<longleftrightarrow> (case e of Ended err missing \<Rightarrow>
       missing \<and> err = Some TeamMissing \<and> tail = [''team/missing'']
     \<or> \<not> missing \<and> err = None \<and> tail = [] \<and> tw_stopped w' (tw_log w')
     \<or> \<not> missing \<and> err = None
        \<and> tail \<in> {[''item/completed'', ''task/completed''], [''item/completed'', ''task/completed'', ''protocol/error'']}
     \<or> \<not> missing \<and> (\<exists>msg. err = Some (CliOther (ErrMsg msg))) \<and> tail \<in> {[''turn/failed''], [''turn/failed'', ''protocol/error'']}
     \<or> \<not> missing \<and> err \<noteq> None \<and> tail \<in> {[''protocol/error''], [''protocol/error'', ''protocol/error'']})"

definition ended :: "cli_world \<Rightarrow> mon_end \<times> cli_world \<Rightarrow> bool" where
  "ended w x \<longleftrightarrow> (case x of (e, w') \<Rightarrow> frame w' = frame w
     \<and> (\<exists>mid tail. types_of w' = types_of w @ mid @ tail \<and> set mid \<inter> outcome_types = {} \<and> ending w' e tail))"

lemma endedI:
  "frame w' = frame w \<Longrightarrow> types_of w' = types_of w @ mid @ tail \<Longrightarrow> set mid \<inter> outcome_types = {} \<Longrightarrow> ending w' e tail \<Longrightarrow> ended w (e, w')"
  by (auto simp: ended_def)

lemma endedI0: "frame w' = frame w \<Longrightarrow> types_of w' = types_of w @ tail \<Longrightarrow> ending w' e tail \<Longrightarrow> ended w (e, w')"
  by (rule endedI [of _ _ "[]"]) simp_all

lemma quiet_types_of: "calm w v \<Longrightarrow> frame v = frame w \<and> (\<exists>mid. types_of v = types_of w @ mid \<and> set mid \<inter> outcome_types = {})"
  by (auto simp: calm_def types_of_def)

lemma ended_after: "calm w v \<Longrightarrow> ended v x \<Longrightarrow> ended w x"
proof -
  assume q: "calm w v" and "ended v x"
  then obtain e w' mid tail where x: "x = (e, w')" "frame w' = frame v" "types_of w' = types_of v @ mid @ tail"
    "set mid \<inter> outcome_types = {}" "ending w' e tail" by (auto simp: ended_def)
  from quiet_types_of [OF q] obtain m0 where "frame v = frame w" "types_of v = types_of w @ m0" "set m0 \<inter> outcome_types = {}" by blast
  with x show ?thesis by (auto intro!: endedI [of _ _ "m0 @ mid" tail])
qed

lemma lossless_calm: "calm w v \<Longrightarrow> lossless v = lossless w"
  using frame_same calm_def by blast

lemma finish_types:
  assumes "lossless w"
  shows "frame (finish_run r d t w) = frame w \<and> types_of (finish_run r d t w) \<in> {types_of w, types_of w @ [''protocol/error'']}"
proof -
  obtain e v where s: "shutdownTeam r d t w = (e, v)" by fastforce
  then have "still v = still w" by (rule still_rules)
  then have "frame v = frame w" "types_of v = types_of w" "lossless v"
    using still_frame [of v w] frame_same [of v w] assms by (auto simp: types_of_def)
  then show ?thesis by (cases e) (auto simp: finish_run_def s)
qed

lemma calm_phase: "show_phase t sm m v = (m', v') \<Longrightarrow> calm w v \<Longrightarrow> calm w v'"
  by (auto simp: show_phase_def Let_def split: if_splits intro!: calm_rules)

lemma calm_started: "show_started r d t task m v = (m', v') \<Longrightarrow> calm w v \<Longrightarrow> calm w v'"
  by (auto simp: show_started_def Let_def split: if_splits intro!: calm_rules)

lemma calm_usage: "show_usage d t m v = (m', v') \<Longrightarrow> calm w v \<Longrightarrow> calm w v'"
  by (auto simp: show_usage_def Let_def split: sum.splits option.splits if_splits prod.splits intro!: calm_rules)

lemma calm_await: "awaitNextEvent r d t m v = (m', v') \<Longrightarrow> calm w v \<Longrightarrow> calm w v'"
  by (auto simp: awaitNextEvent_def split: prod.splits sum.splits dest!: still_rules intro!: calm_rules elim!: calm_via)

lemma calm_health: "health_turn n r d t st m v = Some (m', v') \<Longrightarrow> calm w v \<Longrightarrow> calm w v'"
  by (auto simp: health_turn_def Let_def split: option.splits if_splits intro: calm_await calm_check)

lemma snapshot_cases:
  assumes "handleSnapshot r d t sn m w = (o1, m', w')"
  obtains (go_on) "o1 = None" "calm w w'"
    | (outcome) v task where "calm w v" "task_outcome t task v = (o1, w')" "primaryTask (kn_Tasks sn) = Some task"
proof (cases "primaryTask (kn_Tasks sn)")
  case None
  with assms show ?thesis by (intro go_on) (auto simp: handleSnapshot_def split: prod.splits intro: calm_phase calm_refl)
next
  case (Some task)
  obtain m1 w1 where a: "show_phase t (kn_Summary sn) m w = (m1, w1)" by fastforce
  obtain m2 w2 where b: "show_started r d t task m1 w1 = (m2, w2)" by fastforce
  have q: "calm w w2" by (rule calm_started [OF b calm_phase [OF a calm_refl]])
  show ?thesis
  proof (cases "kt_Status task = mn_lastTaskStatus m2")
    case True
    with assms Some a b q show ?thesis by (intro go_on) (auto simp: handleSnapshot_def)
  next
    case False
    with assms Some a b have "task_outcome t task w2 = (o1, w')" by (auto simp: handleSnapshot_def split: prod.splits)
    with q Some show ?thesis by (intro outcome)
  qed
qed

lemma outcome_ended:
  assumes "task_outcome t task w = (Some err, w')" "lossless w"
  shows "ended w (Ended err False, finish_run r d t w')"
proof -
  have l: "lossless w'" "frame w' = frame w"
    using assms by (auto simp: task_outcome_def Let_def split: if_splits)
  note f = finish_types [OF l(1), of r d t]
  have f2: "frame (finish_run r d t w') = frame w" using f l(2) by simp
  consider (completed) "types_of w' = types_of w @ [''item/completed'', ''task/completed'']" "err = None"
    | (failed) msg where "types_of w' = types_of w @ [''turn/failed'']" "err = Some (CliOther (ErrMsg msg))"
    | (odd) "types_of w' = types_of w @ [''protocol/error'']" "err \<noteq> None"
    using assms by (auto simp: task_outcome_def Let_def split: if_splits)
  moreover from f obtain xs where xs: "types_of (finish_run r d t w') = types_of w' @ xs" "xs \<in> {[], [''protocol/error'']}"
    by auto
  ultimately show ?thesis
  proof cases
    case completed
    with xs show ?thesis
      by (intro endedI0 [OF f2, where tail = "[''item/completed'', ''task/completed''] @ xs"]) (auto simp: ending_def)
  next
    case failed
    with xs show ?thesis by (intro endedI0 [OF f2, where tail = "[''turn/failed''] @ xs"]) (auto simp: ending_def)
  next
    case odd
    with xs show ?thesis by (intro endedI0 [OF f2, where tail = "[''protocol/error''] @ xs"]) (auto simp: ending_def)
  qed
qed

lemma snapshot_ended:
  assumes "handleSnapshot r d t sn m w = (Some err, m', w')" "lossless w"
  shows "ended w (Ended err False, finish_run r d t w')"
  using assms(1)
proof (cases rule: snapshot_cases)
  case (outcome v task)
  with assms(2) have "lossless v" by (simp add: lossless_calm)
  from ended_after [OF outcome(1) outcome_ended [OF outcome(2) this]] show ?thesis .
qed simp

lemma snapshot_calm:
  assumes "handleSnapshot r d t sn m v = (None, m', v')" "calm w v"
  shows "calm w v'"
  using assms(1)
proof (cases rule: snapshot_cases)
  case go_on
  with assms(2) show ?thesis by (blast intro: calm_trans)
next
  case (outcome u task)
  then have "v' = u" by (auto simp: task_outcome_def Let_def split: if_splits)
  with outcome(1) assms(2) show ?thesis by (blast intro: calm_trans)
qed

lemma poll_calm: "poll n r d t st m w = Some (Inr m', w') \<Longrightarrow> calm w w'"
  unfolding poll_def Let_def
  by (auto split: prod.splits sum.splits option.splits if_splits dest!: still_rules
      intro!: calm_rules elim!: calm_via intro: calm_health [OF _ calm_usage [OF _ snapshot_calm]])

lemma poll_ended:
  assumes "poll n r d t st m w = Some (Inl e, w')" "lossless w"
  shows "ended w (e, w')"
proof -
  obtain x v where f: "fetchSnapshot r d t (cli_did CliWait w) = (x, v)" by fastforce
  then have "still v = still w" by (auto dest: still_rules)
  then have q: "calm w v" by (rule calm_still)
  then have l: "lossless v" using assms(2) by (simp add: lossless_calm)
  show ?thesis
  proof (cases x)
    case (Inr sn)
    with assms(1) f obtain err m1 v1 where "handleSnapshot r d t sn (m\<lparr>mn_missingCount := 0, mn_errorCount := 0\<rparr>) v = (Some err, m1, v1)"
      "e = Ended err False" "w' = finish_run r d t v1"
      by (auto simp: poll_def split: prod.splits option.splits)
    with ended_after [OF q snapshot_ended [OF this(1) l]] show ?thesis by simp
  next
    case (Inl err)
    let ?v1 = "emit ''protocol/error'' (ev t [(''error'', GStr (error_text err))]) v"
    note fin = finish_types [of ?v1 r d t]
    have "ended v (e, w')"
    proof (cases "isTeamMissingError err")
      case True
      with assms(1) f Inl have "e = Ended (Some TeamMissing) True"
        "w' = emit ''team/missing'' (ev t [(''error'', GStr (error_text TeamMissing))]) v"
        by (auto simp: poll_def Let_def split: if_splits)
      with l show ?thesis by (auto intro!: endedI0 simp: ending_def)
    next
      case False
      with assms(1) f Inl have e: "e = Ended (Some err) False" "w' = finish_run r d t ?v1"
        by (auto simp: poll_def Let_def split: if_splits)
      then have "frame w' = frame v" using fin l by simp
      then show ?thesis using e fin l by (auto intro!: endedI0 simp: ending_def)
    qed
    with q show ?thesis by (rule ended_after)
  qed
qed

lemma poll_loop_ended: "poll_loop n r d t st m w = Some x \<Longrightarrow> lossless w \<Longrightarrow> ended w x"
proof (induction n r d t st m w rule: poll_loop.induct)
  case (2 k r d t st m w)
  show ?case
  proof (cases "tw_stopped w (tw_log w)")
    case True
    with 2(2) show ?thesis by (auto intro!: endedI0 simp: ending_def)
  next
    case False
    with 2(2) obtain y v where p: "poll k r d t st m w = Some (y, v)" by (auto split: option.splits)
    show ?thesis
    proof (cases y)
      case (Inl e)
      with p 2(2) False have "x = (e, v)" by simp
      with poll_ended [of k r d t st m w e v] p Inl 2(3) show ?thesis by simp
    next
      case (Inr m1)
      with p have q: "calm w v" by (simp add: poll_calm)
      moreover from 2(2) False p Inr have "poll_loop k r d t st m1 v = Some x" by simp
      ultimately have "ended v x" using 2(1) [OF False p refl Inr] 2(3) by (simp add: lossless_calm)
      with q show ?thesis by (rule ended_after)
    qed
  qed
qed simp

lemma monitor_outcome:
  assumes "monitorProcess fuel r workspace team prompt initial w = Some (Ended err missing, w')" and "\<forall>n. \<not> tw_drop w n"
  shows "\<exists>mid tail. map fst (tw_events w') = map fst (tw_events w) @ [''turn/started''] @ mid @ tail
    \<and> set mid \<inter> {''item/completed'', ''task/completed'', ''turn/failed'', ''turn/cancelled'', ''turn/canceled'', ''team/missing''} = {}
    \<and> (if missing then err = Some TeamMissing \<and> tail = [''team/missing'']
       else if err = None then tail = [] \<and> tw_stopped w (tw_log w')
         \<or> tail \<in> {[''item/completed'', ''task/completed''], [''item/completed'', ''task/completed'', ''protocol/error'']}
       else tail \<in> {[''turn/failed''], [''turn/failed'', ''protocol/error''], [''protocol/error''], [''protocol/error'', ''protocol/error'']})"
proof -
  let ?w1 = "emit ''turn/started'' (ev team [(''prompt_file'', GStr prompt), (''runner'', GStr (rn_name r))]) w"
  have l: "lossless w" using assms(2) by (simp add: lossless_def)
  have "ended ?w1 (Ended err missing, w')"
  proof (cases initial)
    case None
    with assms(1) l show ?thesis by (auto simp: monitorProcess_def Let_def dest: poll_loop_ended)
  next
    case (Some sn)
    obtain o1 m1 v where h: "handleSnapshot r workspace team sn new_monitor ?w1 = (o1, m1, v)" by (metis prod_cases3)
    show ?thesis
    proof (cases o1)
      case None
      with h have q: "calm ?w1 v" by (auto intro: snapshot_calm calm_refl)
      have "ended v (Ended err missing, w')"
        using assms(1) Some h None l lossless_calm [OF q] by (auto simp: monitorProcess_def Let_def dest: poll_loop_ended)
      with q show ?thesis by (rule ended_after)
    next
      case (Some err1)
      with h assms(1) \<open>initial = Some sn\<close> snapshot_ended [of r workspace team sn new_monitor ?w1 err1 m1 v] l show ?thesis
        by (auto simp: monitorProcess_def Let_def)
    qed
  qed
  then obtain mid tail where e: "frame w' = frame ?w1" "types_of w' = types_of ?w1 @ mid @ tail" "set mid \<inter> outcome_types = {}"
    "ending w' (Ended err missing) tail" by (auto simp: ended_def)
  moreover from e(1) have "tw_stopped w' = tw_stopped w" using frame_same [of w' w] by simp
  ultimately show ?thesis
    using l by (intro exI [of _ mid] exI [of _ tail]) (auto simp: types_of_def [symmetric] outcome_types_def ending_def)
qed


section \<open>A team by example\<close>

definition cli_sample_runner :: teamRunner where
  "cli_sample_runner = \<lparr>rn_name = ''omx'', rn_binaryPath = ''omx'', rn_teamSpec = ''1:executor'', rn_pollInterval = second_ns,
     rn_startupTimeout = second_ns, rn_restartGrace = second_ns, rn_selfHealing = True\<rparr>"

definition cli_sample_task :: "string \<Rightarrow> teamTask" where
  "cli_sample_task status = \<lparr>kt_ID = ''1'', kt_Subject = ''s'', kt_Description = ''d'', kt_Status = status, kt_Result = [], kt_Error = ''boom'',
     kt_Owner = [], kt_CompletedAt = []\<rparr>"

definition cli_sample_codec :: "string \<Rightarrow> cli_codec" where
  "cli_sample_codec status = \<lparr>cd_summary = (\<lambda>_. Inr no_summary), cd_teamTasks = (\<lambda>_. Inr [cli_sample_task status]), cd_task = (\<lambda>_. Inl ErrSyntax),
     cd_tasks = (\<lambda>_. Inl ErrSyntax), cd_claim = (\<lambda>_. Inl ErrSyntax), cd_transition = (\<lambda>_. Inl ErrSyntax), cd_message = (\<lambda>_. Inl ErrSyntax),
     cd_messages = (\<lambda>_. Inl ErrSyntax), cd_event = (\<lambda>_. Inl ErrSyntax), cd_events = (\<lambda>_. Inl ErrSyntax), cd_await = (\<lambda>_. Inl ErrSyntax),
     cd_idle = (\<lambda>_. Inl ErrSyntax), cd_stall = (\<lambda>_. Inl ErrSyntax), cd_heartbeat = (\<lambda>_. Inl ErrSyntax), cd_status = (\<lambda>_. Inl ErrSyntax),
     cd_ack = (\<lambda>_. Inl ErrSyntax)\<rparr>"

text \<open>The tool answers every call of the API with \<open>envelope\<close>, and fails to shut a team down when \<open>stuck\<close>.\<close>

definition cli_sample_world :: "teamCLIEnvelope \<Rightarrow> string \<Rightarrow> bool \<Rightarrow> cli_world" where
  "cli_sample_world envelope status stuck = \<lparr>tw_log = [],
     tw_run = (\<lambda>h c. ([], case c of CliRun _ _ \<Rightarrow> if stuck then Some (ErrMsg ''exit status 1'') else None | _ \<Rightarrow> None)),
     tw_file = (\<lambda>h c. None), tw_envelope = (\<lambda>_. Inr envelope), tw_codec = cli_sample_codec status, tw_now = (\<lambda>h. int (length h)),
     tw_expired = (\<lambda>h. False), tw_stopped = (\<lambda>h. False), tw_metrics = (\<lambda>h. Inr None), tw_drop = (\<lambda>n. False), tw_sent = 0, tw_events = []\<rparr>"

definition good_envelope :: teamCLIEnvelope where
  "good_envelope = \<lparr>en_OK = True, en_Status = ''ok'', en_Data = ''data'', en_Error = None\<rparr>"

definition missing_envelope :: teamCLIEnvelope where
  "missing_envelope = good_envelope\<lparr>en_Status := ''missing''\<rparr>"

definition cli_sample_run :: "teamCLIEnvelope \<Rightarrow> string \<Rightarrow> bool \<Rightarrow> (mon_end \<times> cli_world) option" where
  "cli_sample_run envelope status stuck =
     monitorProcess 9 cli_sample_runner ''w'' ''t'' ''p'' None (cli_sample_world envelope status stuck)"

lemma cli_sample_ends:
  "map_option (\<lambda>(e, w). (e, map fst (tw_events w))) (cli_sample_run missing_envelope [] False) =
     Some (Ended (Some TeamMissing) True, [''turn/started'', ''team/missing''])"
  "map_option (\<lambda>(e, w). (e, map fst (tw_events w))) (cli_sample_run good_envelope ''completed'' True) =
     Some (Ended None False, [''turn/started'', ''session.status'', ''item/completed'', ''task/completed'', ''protocol/error''])"
  by code_simp+


end
