(* ===== verification/Team_Cli_Runs.thy ===== *)
theory Team_Cli_Runs
  imports Team_Cli_Props
begin

text \<open>The names of teams, the end of the monitor when the team fails, and what goes wrong in the handling of tasks.\<close>

section \<open>Names\<close>

abbreviation no_pair :: "char \<Rightarrow> char \<Rightarrow> bool" where
  "no_pair a b \<equiv> \<not> (a = dash \<and> b = dash)"

lemma contains_pair: "str_contains s [dash, dash] \<longleftrightarrow> \<not> successively no_pair s"
proof (induction s rule: induct_list012)
  case (3 a b s)
  then show ?case by (auto simp: has_prefix_def)
qed (simp_all add: has_prefix_def)

lemma squeeze_set: "set (squeeze s) \<subseteq> set s"
  by (induction s rule: squeeze.induct) auto

lemma collapse_set: "set (collapse s) \<subseteq> set s"
proof (induction s rule: collapse.induct)
  case (1 s)
  then show ?case using squeeze_set [of s] by (subst collapse.simps) auto
qed

lemma collapse_successively: "successively no_pair (collapse s)"
proof (induction s rule: collapse.induct)
  case (1 s)
  then show ?case by (subst collapse.simps) (simp add: contains_pair)
qed

lemma collapse_id: "successively no_pair s \<Longrightarrow> collapse s = s"
  by (subst collapse.simps) (simp add: contains_pair)

lemma trim_right_prefix: "\<exists>u. s = trim_right_char c s @ u"
proof
  show "s = trim_right_char c s @ rev (takeWhile (\<lambda>x. x = c) (rev s))"
    unfolding trim_right_char_def rev_append [symmetric] takeWhile_dropWhile_id by simp
qed

lemma trim_right_last: "trim_right_char c s \<noteq> [] \<Longrightarrow> last (trim_right_char c s) \<noteq> c"
  using hd_dropWhile [of "\<lambda>x. x = c" "rev s"] by (simp add: trim_right_char_def last_rev)

lemma trim_right_id: "s = [] \<or> last s \<noteq> c \<Longrightarrow> trim_right_char c s = s"
  unfolding trim_right_char_def by (cases s rule: rev_cases) auto

definition slug_ok :: "string \<Rightarrow> bool" where
  "slug_ok s \<longleftrightarrow> list_all (\<lambda>c. slug_char c = c) s \<and> successively no_pair s \<and> (s = [] \<or> hd s \<noteq> dash \<and> last s \<noteq> dash)"

lemma slug_char_idem: "slug_char (slug_char c) = slug_char c"
  by (simp add: slug_char_def dash_def Let_def)

lemma part_ok: "list_all (\<lambda>c. slug_char c = c) (s @ t) \<Longrightarrow> successively no_pair (s @ t) \<Longrightarrow>
    list_all (\<lambda>c. slug_char c = c) s \<and> successively no_pair s \<and> list_all (\<lambda>c. slug_char c = c) t \<and> successively no_pair t"
  by (auto simp: successively_append_iff)

lemma trim_right_ok:
  assumes "list_all (\<lambda>c. slug_char c = c) s" "successively no_pair s" "s = [] \<or> hd s \<noteq> dash"
  shows "slug_ok (trim_right_char dash s)"
proof -
  obtain u where u: "s = trim_right_char dash s @ u" using trim_right_prefix by blast
  have "hd (trim_right_char dash s) = hd s" if "trim_right_char dash s \<noteq> []" using u that by (metis hd_append2)
  with part_ok [of "trim_right_char dash s" u] u assms trim_right_last [of dash s] show ?thesis
    unfolding slug_ok_def by auto
qed

lemma trim_ok:
  assumes "list_all (\<lambda>c. slug_char c = c) s" "successively no_pair s"
  shows "slug_ok (trim_char dash s)"
proof -
  let ?t = "dropWhile (\<lambda>x. x = dash) s"
  have "s = takeWhile (\<lambda>x. x = dash) s @ ?t" by simp
  with part_ok [of "takeWhile (\<lambda>x. x = dash) s" ?t] assms have "list_all (\<lambda>c. slug_char c = c) ?t" "successively no_pair ?t" by metis+
  moreover have "?t = [] \<or> hd ?t \<noteq> dash" using hd_dropWhile by blast
  ultimately show ?thesis unfolding trim_char_def by (rule trim_right_ok)
qed

lemma slug_fixed:
  assumes "slug_ok s" "s \<noteq> []" "length s \<le> 30"
  shows "slugifyTeamName s = s"
proof -
  have c: "char_lower c = c \<and> slug_char c = c" if "c \<in> set s" for c
    using assms(1) that by (auto simp: slug_ok_def list_all_iff slug_char_def char_lower_def dash_def Let_def split: if_splits)
  then have "map slug_char (to_lower s) = s" by (simp add: to_lower_def map_idI)
  moreover have "dropWhile (\<lambda>x. x = dash) s = s" using assms(1, 2) by (cases s) (auto simp: slug_ok_def)
  ultimately show ?thesis
    using assms collapse_id [of s] trim_right_id [of s dash]
    by (simp add: slugifyTeamName_def slug_ok_def trim_char_def)
qed

text \<open>
  The name of a team and of its prompt file has one to thirty characters, lower case letters, digits and single dashes, none at either end,
  and is its own name.
\<close>

theorem slugify_wellformed:
  "slugifyTeamName input \<noteq> [] \<and> length (slugifyTeamName input) \<le> 30 \<and> set (slugifyTeamName input) \<subseteq> set ''abcdefghijklmnopqrstuvwxyz0123456789-''
   \<and> \<not> str_contains (slugifyTeamName input) ''--'' \<and> hd (slugifyTeamName input) \<noteq> CHR ''-'' \<and> last (slugifyTeamName input) \<noteq> CHR ''-''
   \<and> slugifyTeamName (slugifyTeamName input) = slugifyTeamName input"
proof -
  let ?c = "collapse (map slug_char (to_lower input))"
  let ?s0 = "trim_char dash ?c"
  have "set ?c \<subseteq> range slug_char" using collapse_set [of "map slug_char (to_lower input)"] by auto
  then have valid: "list_all (\<lambda>c. slug_char c = c) ?c" by (auto simp: list_all_iff slug_char_idem)
  note s0 = trim_ok [OF valid collapse_successively]
  have short: "slug_ok (trim_right_char dash (take 30 ?s0))"
  proof (rule trim_right_ok)
    have "?s0 = take 30 ?s0 @ drop 30 ?s0" by simp
    with s0 part_ok [of "take 30 ?s0" "drop 30 ?s0"]
    show "list_all (\<lambda>c. slug_char c = c) (take 30 ?s0)" "successively no_pair (take 30 ?s0)" by (simp_all add: slug_ok_def)
    show "take 30 ?s0 = [] \<or> hd (take 30 ?s0) \<noteq> dash" using s0 by (auto simp: slug_ok_def)
  qed
  have len: "length (trim_right_char dash (take 30 ?s0)) \<le> 30"
    by (metis length_append length_take min.cobounded2 le_add1 order_trans trim_right_prefix)
  have default: "slug_ok ''team-task''" by code_simp
  have ok: "slug_ok (slugifyTeamName input) \<and> slugifyTeamName input \<noteq> [] \<and> length (slugifyTeamName input) \<le> 30"
    using s0 short len default by (auto simp: slugifyTeamName_def Let_def)
  have chars: "c \<in> set ''abcdefghijklmnopqrstuvwxyz0123456789-''" if "slug_char c = c" for c
  proof -
    have "of_char c \<in> {97..122} \<union> {48..57} \<union> {45::nat}" using that by (auto simp: slug_char_def dash_def Let_def split: if_splits)
    then have "c \<in> char_of ` ({97..122} \<union> {48..57} \<union> {45::nat})" by (metis char_of_char image_eqI)
    also have "char_of ` ({97..122} \<union> {48..57} \<union> {45::nat}) \<subseteq> set ''abcdefghijklmnopqrstuvwxyz0123456789-''" by code_simp
    finally show ?thesis .
  qed
  have "set (slugifyTeamName input) \<subseteq> set ''abcdefghijklmnopqrstuvwxyz0123456789-''"
  proof
    fix c assume "c \<in> set (slugifyTeamName input)"
    with ok have "slug_char c = c" unfolding slug_ok_def list_all_iff by blast
    then show "c \<in> set ''abcdefghijklmnopqrstuvwxyz0123456789-''" by (rule chars)
  qed
  moreover have "\<not> str_contains (slugifyTeamName input) [dash, dash]" using ok by (simp add: slug_ok_def contains_pair)
  moreover have "slugifyTeamName (slugifyTeamName input) = slugifyTeamName input" using ok by (blast intro: slug_fixed)
  moreover have "hd (slugifyTeamName input) \<noteq> dash \<and> last (slugifyTeamName input) \<noteq> dash" using ok by (auto simp: slug_ok_def)
  ultimately show ?thesis using ok unfolding dash_def by blast
qed

section \<open>A monitor ends\<close>

definition open_statuses :: "string set" where
  "open_statuses = {[], ''pending'', ''blocked'', ''in_progress''}"

text \<open>A snapshot that keeps no monitor going: it fails, or its primary task is settled.\<close>

definition settled :: "cli_error + teamSnapshot \<Rightarrow> bool" where
  "settled x = (case x of Inl _ \<Rightarrow> True
     | Inr snapshot \<Rightarrow> (case primaryTask (kn_Tasks snapshot) of None \<Rightarrow> False | Some task \<Rightarrow> kt_Status task \<notin> open_statuses))"

definition patience :: "monitor \<Rightarrow> nat" where
  "patience m = 2 * mn_errorCount m + mn_missingCount m"

definition watching :: "monitor \<Rightarrow> bool" where
  "watching m \<longleftrightarrow> mn_errorCount m \<le> 2 \<and> mn_missingCount m \<le> 1 \<and> mn_lastTaskStatus m \<in> open_statuses"

lemma phase_watching: "show_phase t sm m w = (m', w') \<Longrightarrow> watching m' = watching m \<and> patience m' = patience m
    \<and> mn_lastTaskStatus m' = mn_lastTaskStatus m"
  by (auto simp: show_phase_def watching_def patience_def Let_def split: if_splits)

lemma started_watching: "show_started r d t task m w = (m', w') \<Longrightarrow> watching m' = watching m \<and> patience m' = patience m
    \<and> mn_lastTaskStatus m' = mn_lastTaskStatus m"
  by (auto simp: show_started_def watching_def patience_def Let_def split: if_splits)

lemma settled_outcome: "kt_Status task \<notin> open_statuses \<Longrightarrow> \<exists>err w'. task_outcome t task w = (Some err, w')"
  by (auto simp: task_outcome_def open_statuses_def Let_def)

lemma settled_ends:
  assumes "settled (Inr sn)" "mn_lastTaskStatus m \<in> open_statuses"
  shows "\<exists>err m' w'. handleSnapshot r d t sn m w = (Some err, m', w')"
proof -
  from assms(1) obtain task where task: "primaryTask (kn_Tasks sn) = Some task" "kt_Status task \<notin> open_statuses"
    by (auto simp: settled_def split: option.splits)
  obtain m1 w1 where a: "show_phase t (kn_Summary sn) m w = (m1, w1)" by fastforce
  obtain m2 w2 where b: "show_started r d t task m1 w1 = (m2, w2)" by fastforce
  from phase_watching [OF a] started_watching [OF b] assms(2) task(2) have "kt_Status task \<noteq> mn_lastTaskStatus m2" by auto
  with settled_outcome [OF task(2), of t w2] a b task(1) show ?thesis by (auto simp: handleSnapshot_def)
qed

lemma first_watching:
  assumes "handleSnapshot r d t sn new_monitor w = (None, m, w')"
  shows "watching m \<and> patience m = 0"
proof -
  have start: "watching new_monitor" "patience new_monitor = 0"
    by (simp_all add: watching_def new_monitor_def open_statuses_def patience_def)
  obtain m1 w1 where a: "show_phase t (kn_Summary sn) new_monitor w = (m1, w1)" by fastforce
  show ?thesis
  proof (cases "primaryTask (kn_Tasks sn)")
    case None
    with assms a phase_watching [OF a] start show ?thesis by (simp add: handleSnapshot_def)
  next
    case (Some task)
    obtain m2 w2 where b: "show_started r d t task m1 w1 = (m2, w2)" by fastforce
    have m2: "watching m2" "patience m2 = 0" using phase_watching [OF a] started_watching [OF b] start by simp_all
    show ?thesis
    proof (cases "kt_Status task = mn_lastTaskStatus m2")
      case True
      with assms a b Some m2 show ?thesis by (simp add: handleSnapshot_def)
    next
      case False
      then obtain o1 w3 where c: "task_outcome t task w2 = (o1, w3)" by fastforce
      with assms a b Some False have "o1 = None" "m = m2\<lparr>mn_lastTaskStatus := kt_Status task\<rparr>" by (simp_all add: handleSnapshot_def)
      with c settled_outcome [of task t w2] m2 show ?thesis by (auto simp: watching_def patience_def)
    qed
  qed
qed

text \<open>A poll that sees no open task ends the monitor, or takes it nearer to its end.\<close>

lemma poll_settled:
  assumes "settled (fst (fetchSnapshot r d t (cli_did CliWait w)))" "watching m"
  shows "(\<exists>e w'. poll k r d t st m w = Some (Inl e, w')) \<or>
    (\<exists>m' w'. poll k r d t st m w = Some (Inr m', w') \<and> watching m' \<and> patience m' > patience m)"
proof -
  obtain x v where f: "fetchSnapshot r d t (cli_did CliWait w) = (x, v)" by fastforce
  show ?thesis
  proof (cases x)
    case (Inr sn)
    with assms f have "settled (Inr sn)" "mn_lastTaskStatus (m\<lparr>mn_missingCount := 0, mn_errorCount := 0\<rparr>) \<in> open_statuses"
      by (auto simp: watching_def)
    from settled_ends [OF this, of r d t v] f Inr show ?thesis by (auto simp: poll_def)
  next
    case (Inl err)
    with assms f show ?thesis by (auto simp: poll_def Let_def watching_def patience_def)
  qed
qed

lemma patience_bound: "watching m \<Longrightarrow> patience m \<le> 5"
  by (simp add: watching_def patience_def)

lemma poll_loop_settled:
  assumes "\<And>v. frame v = frame w0 \<Longrightarrow> settled (fst (fetchSnapshot r d t v))"
  shows "frame w = frame w0 \<Longrightarrow> watching m \<Longrightarrow> fuel + patience m \<ge> 6 \<Longrightarrow> poll_loop fuel r d t st m w \<noteq> None"
proof (induction fuel arbitrary: m w)
  case 0
  with patience_bound [of m] show ?case by simp
next
  case (Suc k)
  have "frame (cli_did CliWait w) = frame w0" using Suc.prems(1) by (simp add: frame_def cli_did_def)
  note p = poll_settled [OF assms [OF this] Suc.prems(2), of k st]
  show ?case
  proof (cases "tw_stopped w (tw_log w)")
    case False
    consider e w' where "poll k r d t st m w = Some (Inl e, w')"
      | m' w' where "poll k r d t st m w = Some (Inr m', w')" "watching m'" "patience m' > patience m" using p by blast
    then show ?thesis
    proof cases
      case 2
      from poll_calm [OF this(1)] Suc.prems(1) have "frame w' = frame w0" by (simp add: calm_def)
      moreover have "k + patience m' \<ge> 6" using 2(3) Suc.prems(3) by simp
      ultimately show ?thesis using Suc.IH [of w' m'] 2 False by simp
    qed (simp add: False)
  qed simp
qed

text \<open>
  C38. A team that fails cannot hold a run: when from some moment every snapshot of the team fails or shows a settled
  primary task, the monitor returns within six polls, whatever mixture of missing teams and other errors it sees.
\<close>

theorem monitor_gives_up:
  assumes "\<forall>v. frame v = frame w \<longrightarrow> (case fst (fetchSnapshot r workspace team v) of Inl _ \<Rightarrow> True
      | Inr snapshot \<Rightarrow> \<exists>task. primaryTask (kn_Tasks snapshot) = Some task
          \<and> kt_Status task \<notin> {[], ''pending'', ''blocked'', ''in_progress''})"
    and "6 \<le> fuel"
  shows "\<exists>err missing w'. monitorProcess fuel r workspace team prompt initial w = Some (Ended err missing, w')"
proof -
  let ?w1 = "emit ''turn/started'' (ev team [(''prompt_file'', GStr prompt), (''runner'', GStr (rn_name r))]) w"
  have hyp: "settled (fst (fetchSnapshot r workspace team v))" if "frame v = frame w" for v
    using assms(1) that by (auto simp: settled_def open_statuses_def split: sum.splits option.splits)
  have w1: "frame ?w1 = frame w" by (simp add: frame_def emit_def)
  have ends: "\<exists>err missing w'. x = Some (Ended err missing, w')" if "x \<noteq> None" for x :: "(mon_end \<times> cli_world) option"
    using that by (metis mon_end.exhaust not_None_eq surj_pair)
  have "monitorProcess fuel r workspace team prompt initial w \<noteq> None"
  proof (cases initial)
    case None
    have "watching new_monitor \<and> patience new_monitor = 0"
      by (simp add: watching_def new_monitor_def open_statuses_def patience_def)
    with poll_loop_settled [of w, OF hyp w1] assms(2) None show ?thesis by (simp add: monitorProcess_def Let_def)
  next
    case (Some sn)
    obtain o1 m1 v where h: "handleSnapshot r workspace team sn new_monitor ?w1 = (o1, m1, v)" by (metis prod_cases3)
    show ?thesis
    proof (cases o1)
      case None
      with h have m1: "watching m1" "patience m1 = 0" "calm ?w1 v" by (auto dest: first_watching intro: snapshot_calm calm_refl)
      then have "frame v = frame w" using w1 by (simp add: calm_def)
      with poll_loop_settled [of w, OF hyp] m1 assms(2) Some h None show ?thesis by (simp add: monitorProcess_def Let_def)
    next
      case (Some err1)
      with h \<open>initial = Some sn\<close> show ?thesis by (simp add: monitorProcess_def Let_def)
    qed
  qed
  then show ?thesis by (rule ends)
qed

lemma missing_snapshots:
  "frame v = frame (cli_sample_world missing_envelope [] False) \<Longrightarrow> \<exists>err. fst (fetchSnapshot cli_sample_runner d t v) = Inl err"
proof -
  assume f: "frame v = frame (cli_sample_world missing_envelope [] False)"
  from arg_cong [OF f, of tw_envelope] have e: "tw_envelope v = (\<lambda>_. Inr missing_envelope)"
    by (simp add: frame_def cli_sample_world_def)
  from arg_cong [OF f, of tw_run] have "tw_run v h (CliApi d op i) = ([], None)" for h op i
    by (simp add: frame_def cli_sample_world_def)
  moreover have "trim_space (rn_binaryPath cli_sample_runner) \<noteq> []" by code_simp
  ultimately have "fst (runTeamAPI cli_sample_runner d op i dec z v) = Inl TeamMissing" for op i z and dec :: "string \<Rightarrow> teamSummary result"
    using e by (simp add: runTeamAPI_def missing_envelope_def good_envelope_def runCommand_def cli_did_def)
  then show ?thesis
    by (auto simp: fetchSnapshot_def split: prod.splits sum.splits) (metis fst_conv sum.distinct(1))
qed

theorem monitor_gives_up_witness:
  "\<exists>err missing w'. monitorProcess 6 cli_sample_runner ''w'' ''t'' ''p'' None (cli_sample_world missing_envelope [] False)
     = Some (Ended err missing, w')"
proof (rule monitor_gives_up)
  show "\<forall>v. frame v = frame (cli_sample_world missing_envelope [] False) \<longrightarrow> (case fst (fetchSnapshot cli_sample_runner ''w'' ''t'' v) of Inl _ \<Rightarrow> True
      | Inr snapshot \<Rightarrow> \<exists>task. primaryTask (kn_Tasks snapshot) = Some task
          \<and> kt_Status task \<notin> {[], ''pending'', ''blocked'', ''in_progress''})"
    using missing_snapshots [of _ "''w''" "''t''"] by (metis (no_types, lifting) sum.simps(5))
qed simp

section \<open>Tasks handed to idle workers\<close>

text \<open>A tool that grants every claim and refuses every transition.\<close>

definition refusing_world :: cli_world where
  "refusing_world = (cli_sample_world good_envelope [] False)\<lparr>tw_codec := (cli_sample_codec [])\<lparr>
     cd_claim := (\<lambda>_. Inr (no_claim_result\<lparr>cr_OK := True, cr_ClaimToken := ''k''\<rparr>)),
     cd_transition := (\<lambda>_. Inr (no_transition\<lparr>tr_OK := False, tr_Error := ''invalid_transition''\<rparr>)),
     cd_message := (\<lambda>_. Inr no_message)\<rparr>\<rparr>"

definition op_of :: "cli_cmd \<Rightarrow> string" where
  "op_of c = (case c of CliApi _ operation _ \<Rightarrow> operation | _ \<Rightarrow> [])"

text \<open>
  The answer of the transition is not looked at: a task that the team refuses to start is reported as assigned, the worker is told so,
  and the claim is kept.
\<close>

lemma refused_transition_reported:
  "let w = assign_task cli_sample_runner ''w'' ''t'' ((toTeamTask no_task)\<lparr>tt_ID := ''1''\<rparr>) ''worker-1'' refusing_world
   in map fst (tw_events w) = [''task/assigned'']
      \<and> map op_of (tw_log w) = [''claim-task'', ''transition-task-status'', ''send-message'']"
  by code_simp

text \<open>The claims of dead workers are looked for only while some task is pending.\<close>

lemma claims_kept_without_pending:
  "GetTasksByStatus r d t ''pending'' w = (Inr [], w') \<Longrightarrow> reconcileTaskStates r d t w \<in> {w, w'}"
  by (simp add: reconcileTaskStates_def)

end
