(* ===== verification/Team_Run.thy ===== *)
theory Team_Run
  imports Team_Cli_Runs Orchestrator_Props Config
begin

text \<open>
  Models \<open>internal/agent/omx.go\<close> and \<open>omc.go\<close>, \<open>internal/agent/run.go\<close>, and \<open>watchProcess\<close> of \<open>internal/orchestrator/orchestrator.go\<close>: the
  runners of teams, one run of a runner, and how the events of a run reach the orchestrator.
\<close>

section \<open>The runners of teams\<close>

definition NewOMXRunner :: "WorkflowConfig option \<Rightarrow> duration \<Rightarrow> teamRunner" where
  "NewOMXRunner cfg timeout = newTeamCLIRunner
     \<lparr>rn_name = ''omx'', rn_binaryPath = OMXBinaryPath cfg, rn_teamSpec = OMXTeamSpec cfg,
      rn_pollInterval = duration_of (OMXPollIntervalMs cfg) millisecond_ns,
      rn_startupTimeout = (if timeout \<le> 0 then duration_of (OMXStartupTimeoutMs cfg) millisecond_ns else timeout),
      rn_restartGrace = TeamRestartGracePeriod cfg, rn_selfHealing = True\<rparr>"

definition NewOMCRunner :: "WorkflowConfig option \<Rightarrow> duration \<Rightarrow> teamRunner" where
  "NewOMCRunner cfg timeout = newTeamCLIRunner
     \<lparr>rn_name = ''omc'', rn_binaryPath = OMCBinaryPath cfg, rn_teamSpec = OMCTeamSpec cfg,
      rn_pollInterval = duration_of (OMCPollIntervalMs cfg) millisecond_ns,
      rn_startupTimeout = (if timeout \<le> 0 then duration_of (OMCStartupTimeoutMs cfg) millisecond_ns else timeout),
      rn_restartGrace = TeamRestartGracePeriod cfg, rn_selfHealing = False\<rparr>"

text \<open>Products of configured milliseconds may wrap around; the constructor puts a default in the place of what is not positive.\<close>

lemma runners_positive:
  "rn_pollInterval (NewOMXRunner cfg t) > 0 \<and> rn_startupTimeout (NewOMXRunner cfg t) > 0 \<and> rn_teamSpec (NewOMXRunner cfg t) \<noteq> []"
  "rn_pollInterval (NewOMCRunner cfg t) > 0 \<and> rn_startupTimeout (NewOMCRunner cfg t) > 0 \<and> rn_teamSpec (NewOMCRunner cfg t) \<noteq> []"
  by (simp_all add: NewOMXRunner_def NewOMCRunner_def newTeamCLIRunner_def second_ns_def)

text \<open>Two runners without a limit of their own and with the same configured commands differ in their name and in who heals the team.\<close>

lemma omc_as_omx: "OMCBinaryPath cfg = OMXBinaryPath cfg' \<Longrightarrow> OMCTeamSpec cfg = OMXTeamSpec cfg' \<Longrightarrow> OMCPollIntervalMs cfg = OMXPollIntervalMs cfg'
    \<Longrightarrow> TeamRestartGracePeriod cfg = TeamRestartGracePeriod cfg' \<Longrightarrow> t > 0
    \<Longrightarrow> NewOMCRunner cfg t = (NewOMXRunner cfg' t)\<lparr>rn_name := ''omc'', rn_selfHealing := False\<rparr>"
  by (simp add: NewOMXRunner_def NewOMCRunner_def newTeamCLIRunner_def)

section \<open>One run\<close>

text \<open>
  What the start of a runner gives: no runner, an error, no process, or a process. A process ends with the value of its channel, none when
  the channel is closed; or the context ends before it.
\<close>

datatype run_start = NoRunner | StartFailed go_error | NoProcess | Started
datatype run_end = ProcessDone "go_error option" | ContextDone go_error

definition agent_Run :: "run_start \<Rightarrow> run_end \<Rightarrow> go_error option" where
  "agent_Run begun outcome = (case begun of
     NoRunner \<Rightarrow> Some (ErrMsg ''agent runner is nil'')
   | StartFailed err \<Rightarrow> Some (Wrap ''start agent process'' err)
   | NoProcess \<Rightarrow> Some (ErrMsg ''agent runner returned nil process'')
   | Started \<Rightarrow> (case outcome of ProcessDone err \<Rightarrow> err | ContextDone err \<Rightarrow> Some err))"

lemma agent_Run_ok: "agent_Run begun outcome = None \<longleftrightarrow> begun = Started \<and> outcome = ProcessDone None"
  by (cases begun; cases outcome) (auto simp: agent_Run_def)

section \<open>The events of a run on their way\<close>

text \<open>
  The two channels of a process and the goroutine that reads them. \<open>pp_emitted\<close> and \<open>pp_result\<close> record what the process did. Its result stays in the
  channel until it is read; the channel of the events holds 128 of them and is closed after the result is there.
\<close>

record pipe =
  pp_buffer :: "AgentEvent list"
  pp_closed :: bool
  pp_done :: "go_error option option"
  pp_emitted :: "AgentEvent list"
  pp_result :: "go_error option option"
  pw_events :: bool
  pw_active :: bool
  pw_sent :: "runSignal list"

definition new_pipe :: pipe where
  "new_pipe = \<lparr>pp_buffer = [], pp_closed = False, pp_done = None, pp_emitted = [], pp_result = None, pw_events = True, pw_active = True, pw_sent = []\<rparr>"

definition stamped :: "time \<Rightarrow> AgentEvent \<Rightarrow> AgentEvent" where
  "stamped now e = (if ae_Timestamp e = zero_time then e\<lparr>ae_Timestamp := now\<rparr> else e)"

definition event_signal :: "string \<Rightarrow> time \<Rightarrow> AgentEvent \<Rightarrow> runSignal" where
  "event_signal issueID now e = \<lparr>rs_issueID = issueID, rs_event = Some (stamped now e), rs_done = False, rs_err = None\<rparr>"

definition done_signal :: "string \<Rightarrow> go_error option \<Rightarrow> runSignal" where
  "done_signal issueID err = \<lparr>rs_issueID = issueID, rs_event = None, rs_done = True, rs_err = err\<rparr>"

text \<open>The process sends an event, then its result, then closes its events; the goroutine takes what is ready, in any order, or ends with the context.\<close>

inductive watch_step :: "string \<Rightarrow> pipe \<Rightarrow> pipe \<Rightarrow> bool" for issueID where
  process_event: "pp_result p = None \<Longrightarrow> length (pp_buffer p) < 128 \<Longrightarrow>
    watch_step issueID p (p\<lparr>pp_buffer := pp_buffer p @ [e], pp_emitted := pp_emitted p @ [e]\<rparr>)"
| process_done: "pp_result p = None \<Longrightarrow> watch_step issueID p (p\<lparr>pp_result := Some err, pp_done := Some err\<rparr>)"
| process_close: "pp_result p \<noteq> None \<Longrightarrow> watch_step issueID p (p\<lparr>pp_closed := True\<rparr>)"
| take_event: "pw_active p \<Longrightarrow> pw_events p \<Longrightarrow> pp_buffer p = e # es \<Longrightarrow>
    watch_step issueID p (p\<lparr>pp_buffer := es, pw_sent := pw_sent p @ [event_signal issueID now e]\<rparr>)"
| lose_event: "pw_active p \<Longrightarrow> pw_events p \<Longrightarrow> pp_buffer p = e # es \<Longrightarrow> watch_step issueID p (p\<lparr>pp_buffer := es, pw_active := False\<rparr>)"
| end_of_events: "pw_active p \<Longrightarrow> pw_events p \<Longrightarrow> pp_buffer p = [] \<Longrightarrow> pp_closed p \<Longrightarrow> watch_step issueID p (p\<lparr>pw_events := False\<rparr>)"
| take_done: "pw_active p \<Longrightarrow> pp_done p = Some err \<Longrightarrow>
    watch_step issueID p (p\<lparr>pp_done := None, pw_active := False, pw_sent := pw_sent p @ [done_signal issueID err]\<rparr>)"
| lose_done: "pw_active p \<Longrightarrow> pp_done p = Some err \<Longrightarrow> watch_step issueID p (p\<lparr>pp_done := None, pw_active := False\<rparr>)"
| context_done: "pw_active p \<Longrightarrow> watch_step issueID p (p\<lparr>pw_active := False\<rparr>)"

inductive watched :: "string \<Rightarrow> pipe \<Rightarrow> bool" for issueID where
  start: "watched issueID new_pipe"
| step: "watched issueID p \<Longrightarrow> watch_step issueID p p' \<Longrightarrow> watched issueID p'"

inductive_cases watch_stepE: "watch_step issueID p p'"

definition forwards :: "string \<Rightarrow> AgentEvent list \<Rightarrow> runSignal list \<Rightarrow> bool" where
  "forwards issueID = list_all2 (\<lambda>e sig. \<exists>now. sig = event_signal issueID now e)"

definition watch_inv :: "string \<Rightarrow> pipe \<Rightarrow> bool" where
  "watch_inv issueID p \<longleftrightarrow> (\<forall>err. pp_done p = Some err \<longrightarrow> pp_result p = Some err)
     \<and> (\<exists>fwd rest taken tail. pp_emitted p = fwd @ rest \<and> pw_sent p = taken @ tail \<and> forwards issueID fwd taken
         \<and> (pw_active p \<longrightarrow> tail = [] \<and> rest = pp_buffer p)
         \<and> (tail = [] \<or> (\<exists>err. tail = [done_signal issueID err] \<and> pp_result p = Some err)))"

lemma watch_invI:
  assumes "pp_emitted p = fwd @ rest" "pw_sent p = taken @ tail" "forwards issueID fwd taken" "pw_active p \<Longrightarrow> tail = [] \<and> rest = pp_buffer p"
    and "tail = [] \<or> (\<exists>err. tail = [done_signal issueID err] \<and> pp_result p = Some err)"
    and "\<And>err. pp_done p = Some err \<Longrightarrow> pp_result p = Some err"
  shows "watch_inv issueID p"
  using assms unfolding watch_inv_def by blast

lemma watch_step_inv:
  assumes step: "watch_step issueID p p'" and inv: "watch_inv issueID p"
  shows "watch_inv issueID p'"
proof -
  from inv obtain fwd rest taken tail where i: "pp_emitted p = fwd @ rest" "pw_sent p = taken @ tail" "forwards issueID fwd taken"
    "pw_active p \<Longrightarrow> tail = [] \<and> rest = pp_buffer p" "tail = [] \<or> (\<exists>err. tail = [done_signal issueID err] \<and> pp_result p = Some err)"
    "\<And>err. pp_done p = Some err \<Longrightarrow> pp_result p = Some err" unfolding watch_inv_def by blast
  from step show ?thesis
  proof cases
    case (process_event e)
    with i show ?thesis by (intro watch_invI [where fwd = fwd and rest = "rest @ [e]" and taken = taken and tail = tail]) auto
  next
    case (take_event e es now)
    with i show ?thesis
      by (intro watch_invI [where fwd = "fwd @ [e]" and rest = es and taken = "taken @ [event_signal issueID now e]" and tail = "[]"])
        (auto simp: forwards_def intro!: list_all2_appendI)
  next
    case (take_done err)
    with i show ?thesis
      by (intro watch_invI [where fwd = fwd and rest = rest and taken = taken and tail = "[done_signal issueID err]"]) auto
  qed (use i in \<open>intro watch_invI [where fwd = fwd and rest = rest and taken = taken and tail = tail]; auto\<close>)+
qed

lemma watched_inv: "watched issueID p \<Longrightarrow> watch_inv issueID p"
proof (induction rule: watched.induct)
  case start
  show ?case by (rule watch_invI [where fwd = "[]" and rest = "[]" and taken = "[]" and tail = "[]"]) (simp_all add: new_pipe_def forwards_def)
qed (rule watch_step_inv)


section \<open>A run whose last events are lost\<close>

definition plain_event :: "string \<Rightarrow> AgentEvent" where
  "plain_event t = \<lparr>ae_Type = t, ae_IssueID = [], ae_Data = None, ae_Timestamp = 5\<rparr>"

definition pipe_after :: "AgentEvent list \<Rightarrow> runSignal list \<Rightarrow> AgentEvent list \<Rightarrow> bool \<Rightarrow> pipe" where
  "pipe_after emitted sent buffer finished = \<lparr>pp_buffer = buffer, pp_closed = False, pp_done = (if finished then Some None else None),
     pp_emitted = emitted, pp_result = (if finished then Some None else None), pw_events = True, pw_active = True, pw_sent = sent\<rparr>"

text \<open>The process is done with two events, of which the first was read.\<close>

lemma two_events_sent:
  "watched ''i1'' (pipe_after [plain_event ''item/started'', plain_event ''task/completed'']
     [event_signal ''i1'' 5 (plain_event ''item/started'')] [plain_event ''task/completed''] True)"
proof -
  let ?e = "plain_event ''item/started''" and ?f = "plain_event ''task/completed''"
  note more = watched.step [where issueID = "''i1''"]
  have "new_pipe = pipe_after [] [] [] False" by (simp add: new_pipe_def pipe_after_def)
  then have "watched ''i1'' (pipe_after [] [] [] False)" using watched.start by metis
  from more [OF this process_event [where e = ?e]] have "watched ''i1'' (pipe_after [?e] [] [?e] False)"
    by (simp add: pipe_after_def)
  from more [OF this take_event [where e = ?e and es = "[]" and now = 5]] have "watched ''i1'' (pipe_after [?e] [event_signal ''i1'' 5 ?e] [] False)"
    by (simp add: pipe_after_def)
  from more [OF this process_event [where e = ?f]] have "watched ''i1'' (pipe_after [?e, ?f] [event_signal ''i1'' 5 ?e] [?f] False)"
    by (simp add: pipe_after_def)
  from more [OF this process_done [where err = None]] show ?thesis
    by (simp add: pipe_after_def)
qed

text \<open>The reader may take the end of the run first: the completion that waits in the channel is never heard.\<close>

lemma completion_lost:
  "\<exists>p. watched ''i1'' p \<and> \<not> pw_active p \<and> pp_result p = Some None \<and> map ae_Type (pp_emitted p) = [''item/started'', ''task/completed'']
     \<and> pw_sent p = [event_signal ''i1'' 5 (plain_event ''item/started''), done_signal ''i1'' None]"
  by (rule exI, rule conjI, rule watched.step [OF two_events_sent take_done [where err = None]])
    (simp_all add: pipe_after_def plain_event_def)


section \<open>What the orchestrator makes of a run\<close>

text \<open>The orchestrator handles the signals of a run one by one, each at its time.\<close>

definition hear :: "workflow_config \<Rightarrow> orch \<Rightarrow> (world \<times> runSignal) list \<Rightarrow> orch" where
  "hear cfg s signals = foldl (\<lambda>s (w, sig). handleRunSignal cfg w s sig) s signals"

text \<open>The data of an event as the orchestrator reads it: it takes every numeric type alike.\<close>

fun to_json :: "gjson \<Rightarrow> json" where
  "to_json (GNum n) = JInt n"
| "to_json (GStr t) = JStr t"
| "to_json (GObj m) = JObj (map (\<lambda>(k, v). (k, to_json v)) m)"
| "to_json _ = JOther"

definition agent_event :: "time \<Rightarrow> cli_event \<Rightarrow> AgentEvent" where
  "agent_event now e = \<lparr>ae_Type = fst e, ae_IssueID = [], ae_Data = Some (map (\<lambda>(k, v). (k, to_json v)) (snd e)), ae_Timestamp = now\<rparr>"

lemma agent_event_type [simp]: "ae_Type (agent_event now e) = fst e"
  by (simp add: agent_event_def)

lemma stamped_type [simp]: "ae_Type (stamped now e) = ae_Type e"
  by (simp add: stamped_def)

text \<open>A run without an error so far.\<close>

definition fine :: "RunAttempt \<Rightarrow> bool" where
  "fine a \<longleftrightarrow> ra_Error a = [] \<and> ra_Phase a \<in> {InitializingSession, StreamingTurn}"

lemma hear_event:
  assumes "map_of (or_running s) k = Some entry" "fine (re_attempt entry)" "\<not> isFailureAgentEvent (ae_Type e)"
  shows "\<exists>entry'. map_of (or_running (handleRunSignal cfg w s (event_signal k now e))) k = Some entry' \<and> fine (re_attempt entry')
    \<and> ra_Phase (re_attempt entry') = StreamingTurn \<and> ra_LastEvent (re_attempt entry') = ae_Type e"
proof -
  have m: "move_phase InitializingSession StreamingTurn = StreamingTurn" by code_simp
  show ?thesis
    using assms m by (cases "parseUsageTokens (ae_Data (stamped now e))")
      (auto simp: handleRunSignal_def event_signal_def handleAgentEvent_def Let_def fine_def)
qed

lemma hear_events:
  assumes "length ws = length es" "list_all (\<lambda>e. \<not> isFailureAgentEvent (ae_Type e)) es"
    and "map_of (or_running s) k = Some entry" "fine (re_attempt entry)"
  shows "\<exists>entry'. map_of (or_running (hear cfg s (zip ws (map (event_signal k now) es)))) k = Some entry' \<and> fine (re_attempt entry')
    \<and> (es \<noteq> [] \<longrightarrow> ra_Phase (re_attempt entry') = StreamingTurn \<and> ra_LastEvent (re_attempt entry') = ae_Type (last es))
    \<and> (es = [] \<longrightarrow> entry' = entry)"
  using assms
proof (induction ws es arbitrary: s entry rule: list_induct2)
  case Nil
  then show ?case by (simp add: hear_def)
next
  case (Cons w ws e es)
  from hear_event [OF Cons.prems(2, 3), of e cfg w now] Cons.prems(1) obtain entry1 where
    one: "map_of (or_running (handleRunSignal cfg w s (event_signal k now e))) k = Some entry1" "fine (re_attempt entry1)"
      "ra_Phase (re_attempt entry1) = StreamingTurn" "ra_LastEvent (re_attempt entry1) = ae_Type e" by auto
  from Cons.IH [OF _ one(1, 2)] Cons.prems(1) obtain entry' where
    rest: "map_of (or_running (hear cfg (handleRunSignal cfg w s (event_signal k now e)) (zip ws (map (event_signal k now) es)))) k = Some entry'"
      "fine (re_attempt entry')"
      "es \<noteq> [] \<longrightarrow> ra_Phase (re_attempt entry') = StreamingTurn \<and> ra_LastEvent (re_attempt entry') = ae_Type (last es)"
      "es = [] \<longrightarrow> entry' = entry1" by auto
  have "hear cfg s (zip (w # ws) (map (event_signal k now) (e # es)))
      = hear cfg (handleRunSignal cfg w s (event_signal k now e)) (zip ws (map (event_signal k now) es))"
    by (simp add: hear_def)
  with rest one show ?case by (cases "es = []") auto
qed

lemma verdicts:
  "ra_Error a = [] \<Longrightarrow> ra_Phase a = StreamingTurn \<Longrightarrow> ra_LastEvent a = ''task/completed'' \<Longrightarrow>
     ra_Phase (final_attempt a None) = Succeeded \<and> ra_Error (final_attempt a None) = []"
  "ra_Error a = [] \<Longrightarrow> ra_Phase a = StreamingTurn \<Longrightarrow> ra_LastEvent a = ''protocol/error'' \<Longrightarrow>
     ra_Phase (final_attempt a None) = Finishing \<and> ra_Error (final_attempt a None) = ''missing explicit success signal''"
proof -
  have "completionSignalFromEvent ''task/completed'' = ''task/completed''" "completionSignalFromEvent ''protocol/error'' = []"
    "hasExplicitSuccessSignal ''task/completed''" "\<not> hasExplicitSuccessSignal []"
    "move_phase StreamingTurn Finishing = Finishing" "move_phase Finishing Succeeded = Succeeded" by code_simp+
  note eval = this
  show "ra_Error a = [] \<Longrightarrow> ra_Phase a = StreamingTurn \<Longrightarrow> ra_LastEvent a = ''task/completed'' \<Longrightarrow>
     ra_Phase (final_attempt a None) = Succeeded \<and> ra_Error (final_attempt a None) = []"
    by (simp add: final_attempt_def resolveFinalPhase_def eval canCompleteWithoutEvents_def or_message_def)
  show "ra_Error a = [] \<Longrightarrow> ra_Phase a = StreamingTurn \<Longrightarrow> ra_LastEvent a = ''protocol/error'' \<Longrightarrow>
     ra_Phase (final_attempt a None) = Finishing \<and> ra_Error (final_attempt a None) = ''missing explicit success signal''"
    by (simp add: final_attempt_def resolveFinalPhase_def eval canCompleteWithoutEvents_def or_message_def)
qed



text \<open>A completed run whose completion was lost on the way is no success: it is tried again.\<close>

lemma lost_completion_retried:
  "ra_Error a = [] \<Longrightarrow> ra_Phase a = StreamingTurn \<Longrightarrow> ra_LastEvent a = ''item/started'' \<Longrightarrow>
     ra_Phase (final_attempt a None) = Finishing \<and> ra_Error (final_attempt a None) = ''missing explicit success signal''"
proof -
  have "completionSignalFromEvent ''item/started'' = []" "\<not> hasExplicitSuccessSignal []" "move_phase StreamingTurn Finishing = Finishing"
    by code_simp+
  note eval = this
  show "ra_Error a = [] \<Longrightarrow> ra_Phase a = StreamingTurn \<Longrightarrow> ra_LastEvent a = ''item/started'' \<Longrightarrow>
     ra_Phase (final_attempt a None) = Finishing \<and> ra_Error (final_attempt a None) = ''missing explicit success signal''"
    by (simp add: final_attempt_def resolveFinalPhase_def eval canCompleteWithoutEvents_def or_message_def)
qed

end
