(* ===== verification/Task_Registry.thy ===== *)
theory Task_Registry
  imports Team_Store
begin

text \<open>
  \<open>internal/team/tasks.go\<close>: the task registry. Tasks are files of the \<open>tasks\<close> directory;
  a claim is a lease with a random token, guarded by a version number. Every operation takes the
  registry's \<open>leaseSeconds\<close> (\<open>L\<close>), the environment of the call and the directory, and
  returns its result and the new directory. The operations run under the store's mutex, so each is
  one atomic step.
\<close>

type_synonym tasks = "TeamTask node fdir"

definition task_file :: "string \<Rightarrow> string" where
  "task_file taskID = taskID @ ''.json''"

section \<open>Operations\<close>

definition applyLeaseExpiry :: "int \<Rightarrow> time \<Rightarrow> TeamTask \<Rightarrow> bool" where
  "applyLeaseExpiry L now t = (case tt_Claim t of
      None \<Rightarrow> False
    | Some c \<Rightarrow>
        (if tt_Status t \<noteq> TaskInProgress then False
         else if L \<le> 0 then False
         else if time_sub now (tc_LeasedAt c) \<le> duration_of L second_ns then False
         else True))"

text \<open>The block that follows every read: an expired claim is dropped from the copy in memory.\<close>

definition expire_claim :: "int \<Rightarrow> time \<Rightarrow> TeamTask \<Rightarrow> TeamTask" where
  "expire_claim L now t = (if applyLeaseExpiry L now t
     then t\<lparr>tt_Status := TaskPending, tt_Claim := None\<rparr> else t)"

definition isClaimable :: "int \<Rightarrow> time \<Rightarrow> TeamTask \<Rightarrow> bool" where
  "isClaimable L now t = (if applyLeaseExpiry L now t then True else tt_Status t = TaskPending)"

text \<open>Reading a task, with the not-found sentinel of the registry.\<close>

definition read_task :: "tasks \<Rightarrow> string \<Rightarrow> TeamTask result" where
  "read_task d taskID = (case ReadJSON d (task_file taskID) of
      Inl err \<Rightarrow> (if os_IsNotExist err then Inl ErrTaskNotFound
                   else Inl (Wrap ''read task'' err))
    | Inr t \<Rightarrow> Inr t)"

text \<open>Writing it back; the wrapping text differs between the operations.\<close>

definition write_task :: "env \<Rightarrow> tasks \<Rightarrow> string \<Rightarrow> string \<Rightarrow> TeamTask \<Rightarrow> unit result \<times> tasks" where
  "write_task e d msg taskID t = (case WriteJSON e d (task_file taskID) t of
      (Inl err, d') \<Rightarrow> (Inl (Wrap msg err), d')
    | (Inr _, d') \<Rightarrow> (Inr (), d'))"

definition CreateTask :: "env \<Rightarrow> tasks \<Rightarrow> TeamTask option \<Rightarrow> unit result \<times> tasks" where
  "CreateTask e d task = (case task of
      None \<Rightarrow> (Inl (ErrMsg ''task is required''), d)
    | Some t \<Rightarrow>
        (if tt_ID t = [] then (Inl (ErrMsg ''task ID is required''), d)
         else write_task e d ''create task'' (tt_ID t)
                (t\<lparr>tt_Status := TaskPending, tt_Claim := None, tt_Version := 1,
                   tt_CreatedAt := en_now e, tt_UpdatedAt := en_now e\<rparr>)))"

definition GetTask :: "int \<Rightarrow> env \<Rightarrow> tasks \<Rightarrow> string \<Rightarrow> TeamTask result" where
  "GetTask L e d taskID = (case read_task d taskID of
      Inl err \<Rightarrow> Inl err
    | Inr t \<Rightarrow> Inr (expire_claim L (en_now e) t))"

definition ListTasks :: "int \<Rightarrow> env \<Rightarrow> tasks \<Rightarrow> TeamTask list result" where
  "ListTasks L e d = (case en_dirfault e of
      Some err \<Rightarrow> (if os_IsNotExist err then Inr [] else Inl (Wrap ''read tasks dir'' err))
    | None \<Rightarrow> Inr (List.map_filter
        (\<lambda>n. case ReadJSON d n of Inl _ \<Rightarrow> None | Inr t \<Rightarrow> Some (expire_claim L (en_now e) t))
        (json_files d)))"

text \<open>The loop over \<open>DependsOn\<close>; it stops at the first dependency that is not completed.\<close>

fun isBlocked_loop :: "int \<Rightarrow> time \<Rightarrow> tasks \<Rightarrow> string list \<Rightarrow> bool result" where
  "isBlocked_loop L now d [] = Inr False"
| "isBlocked_loop L now d (depID # deps) = (case ReadJSON d (task_file depID) of
      Inl err \<Rightarrow> (if os_IsNotExist err then Inr True else Inl err)
    | Inr dep \<Rightarrow> (if tt_Status (expire_claim L now dep) \<noteq> TaskCompleted then Inr True
                   else isBlocked_loop L now d deps))"

definition isBlocked :: "int \<Rightarrow> time \<Rightarrow> tasks \<Rightarrow> TeamTask \<Rightarrow> bool result" where
  "isBlocked L now d t = (if tt_DependsOn t = [] then Inr False
     else isBlocked_loop L now d (tt_DependsOn t))"

definition ClaimTask ::
  "int \<Rightarrow> env \<Rightarrow> tasks \<Rightarrow> string \<Rightarrow> string \<Rightarrow> int \<Rightarrow> string result \<times> tasks" where
  "ClaimTask L e d taskID workerID expectedVersion = (case read_task d taskID of
      Inl err \<Rightarrow> (Inl err, d)
    | Inr t0 \<Rightarrow>
        (let t = expire_claim L (en_now e) t0 in
         if tt_Version t \<noteq> expectedVersion then (Inl ErrVersionConflict, d)
         else if \<not> isClaimable L (en_now e) t then (Inl ErrTaskNotClaimable, d)
         else (case isBlocked L (en_now e) d t of
             Inl err \<Rightarrow> (Inl (Wrap ''check dependencies'' err), d)
           | Inr True \<Rightarrow> (Inl ErrTaskBlocked, d)
           | Inr False \<Rightarrow> (case en_rand e of
                 Inl err \<Rightarrow> (Inl (Wrap ''generate token'' err), d)
               | Inr token \<Rightarrow>
                   (case write_task e d ''write claimed task'' taskID
                        (t\<lparr>tt_Status := TaskInProgress,
                           tt_Claim := Some \<lparr>tc_WorkerID = workerID, tc_Token = token,
                             tc_LeasedAt = en_now e, tc_LeasedUntil = zero_time\<rparr>,
                           tt_Version := tt_Version t + 1,
                           tt_UpdatedAt := en_now e\<rparr>) of
                      (Inl err, d') \<Rightarrow> (Inl err, d')
                    | (Inr _, d') \<Rightarrow> (Inr token, d'))))))"

text \<open>\<open>task.Claim == nil || task.Claim.Token != token\<close>\<close>

definition claim_mismatch :: "TeamTask \<Rightarrow> string \<Rightarrow> bool" where
  "claim_mismatch t token = (case tt_Claim t of None \<Rightarrow> True | Some c \<Rightarrow> tc_Token c \<noteq> token)"

definition RenewLease :: "int \<Rightarrow> env \<Rightarrow> tasks \<Rightarrow> string \<Rightarrow> string \<Rightarrow> unit result \<times> tasks" where
  "RenewLease L e d taskID token = (case read_task d taskID of
      Inl err \<Rightarrow> (Inl err, d)
    | Inr t0 \<Rightarrow>
        (let t = expire_claim L (en_now e) t0 in
         if claim_mismatch t token then (Inl ErrInvalidClaim, d)
         else write_task e d ''write task'' taskID
                (t\<lparr>tt_Claim := map_option (\<lambda>c. c\<lparr>tc_LeasedAt := en_now e\<rparr>) (tt_Claim t),
                   tt_UpdatedAt := en_now e, tt_Version := tt_Version t + 1\<rparr>)))"

definition CompleteTask ::
  "int \<Rightarrow> env \<Rightarrow> tasks \<Rightarrow> string \<Rightarrow> string \<Rightarrow> string \<Rightarrow> unit result \<times> tasks" where
  "CompleteTask L e d taskID token res = (case read_task d taskID of
      Inl err \<Rightarrow> (Inl err, d)
    | Inr t0 \<Rightarrow>
        (let t = expire_claim L (en_now e) t0 in
         if claim_mismatch t token then (Inl ErrInvalidClaim, d)
         else write_task e d ''write task'' taskID
                (t\<lparr>tt_Status := TaskCompleted, tt_Result := res, tt_Claim := None,
                   tt_Version := tt_Version t + 1, tt_UpdatedAt := en_now e\<rparr>)))"

definition FailTask ::
  "int \<Rightarrow> env \<Rightarrow> tasks \<Rightarrow> string \<Rightarrow> string \<Rightarrow> string \<Rightarrow> unit result \<times> tasks" where
  "FailTask L e d taskID token reason = (case read_task d taskID of
      Inl err \<Rightarrow> (Inl err, d)
    | Inr t0 \<Rightarrow>
        (let t = expire_claim L (en_now e) t0 in
         if claim_mismatch t token then (Inl ErrInvalidClaim, d)
         else write_task e d ''write task'' taskID
                (t\<lparr>tt_Status := TaskFailed, tt_Result := reason, tt_Claim := None,
                   tt_Version := tt_Version t + 1, tt_UpdatedAt := en_now e\<rparr>)))"

definition ReleaseTask :: "int \<Rightarrow> env \<Rightarrow> tasks \<Rightarrow> string \<Rightarrow> string \<Rightarrow> unit result \<times> tasks" where
  "ReleaseTask L e d taskID token = (case read_task d taskID of
      Inl err \<Rightarrow> (Inl err, d)
    | Inr t0 \<Rightarrow>
        (let t = expire_claim L (en_now e) t0 in
         if claim_mismatch t token then (Inl ErrInvalidClaim, d)
         else write_task e d ''write task'' taskID
                (t\<lparr>tt_Status := TaskPending, tt_Claim := None,
                   tt_Version := tt_Version t + 1, tt_UpdatedAt := en_now e\<rparr>)))"

definition ResetFailedTask :: "env \<Rightarrow> tasks \<Rightarrow> string \<Rightarrow> bool result \<times> tasks" where
  "ResetFailedTask e d taskID = (case read_task d taskID of
      Inl err \<Rightarrow> (Inl err, d)
    | Inr t \<Rightarrow>
        (if tt_Status t \<noteq> TaskFailed then (Inr False, d)
         else (case write_task e d ''write task'' taskID
                  (t\<lparr>tt_Status := TaskPending, tt_Claim := None,
                     tt_Version := tt_Version t + 1, tt_UpdatedAt := en_now e\<rparr>) of
                (Inl err, d') \<Rightarrow> (Inl err, d')
              | (Inr _, d') \<Rightarrow> (Inr True, d'))))"

text \<open>The claim errors after which the scan goes on to the next task.\<close>

definition claim_retryable :: "go_error \<Rightarrow> bool" where
  "claim_retryable err \<longleftrightarrow> errors_is err ErrVersionConflict \<or> errors_is err ErrTaskNotClaimable
     \<or> errors_is err ErrTaskBlocked"

fun ClaimNextTask_loop ::
  "int \<Rightarrow> env \<Rightarrow> string \<Rightarrow> tasks \<Rightarrow> TeamTask list \<Rightarrow> (TeamTask \<times> string) result \<times> tasks" where
  "ClaimNextTask_loop L e workerID d [] = (Inl ErrTaskNotClaimable, d)"
| "ClaimNextTask_loop L e workerID d (task # rest) =
     (if \<not> isClaimable L (en_now e) task then ClaimNextTask_loop L e workerID d rest
      else (case ClaimTask L e d (tt_ID task) workerID (tt_Version task) of
          (Inl err, d') \<Rightarrow> (if claim_retryable err then ClaimNextTask_loop L e workerID d' rest
                            else (Inl err, d'))
        | (Inr token, d') \<Rightarrow> (case GetTask L e d' (tt_ID task) of
              Inl err \<Rightarrow> (Inl err, d')
            | Inr claimed \<Rightarrow> (Inr (claimed, token), d'))))"

definition ClaimNextTask ::
  "int \<Rightarrow> env \<Rightarrow> tasks \<Rightarrow> string \<Rightarrow> (TeamTask \<times> string) result \<times> tasks" where
  "ClaimNextTask L e d workerID = (case ListTasks L e d of
      Inl err \<Rightarrow> (Inl err, d)
    | Inr ts \<Rightarrow> ClaimNextTask_loop L e workerID d ts)"

section \<open>Leases\<close>

lemma expire_claim_simps [simp]:
  "tt_ID (expire_claim L now t) = tt_ID t"
  "tt_Version (expire_claim L now t) = tt_Version t"
  "tt_DependsOn (expire_claim L now t) = tt_DependsOn t"
  "tt_Result (expire_claim L now t) = tt_Result t"
  by (simp_all add: expire_claim_def)

lemma not_expired_again [simp]: "\<not> applyLeaseExpiry L now (expire_claim L now t)"
  by (simp add: expire_claim_def applyLeaseExpiry_def split: option.splits)

lemma expire_claim_idem [simp]: "expire_claim L now (expire_claim L now t) = expire_claim L now t"
  by (subst (1) expire_claim_def) simp

lemma isClaimable_expired [simp]:
  "isClaimable L now (expire_claim L now t) \<longleftrightarrow> tt_Status (expire_claim L now t) = TaskPending"
  by (simp add: isClaimable_def)

lemma isClaimable_iff: "isClaimable L now t \<longleftrightarrow> tt_Status (expire_claim L now t) = TaskPending"
  by (simp add: isClaimable_def expire_claim_def)

lemma expire_claim_completed [simp]:
  "tt_Status (expire_claim L now t) = TaskCompleted \<longleftrightarrow> tt_Status t = TaskCompleted"
  by (auto simp: expire_claim_def applyLeaseExpiry_def split: option.splits if_splits)

lemma expire_claim_status:
  "tt_Status (expire_claim L now t) = tt_Status t \<or>
   tt_Status t = TaskInProgress \<and> tt_Status (expire_claim L now t) = TaskPending"
  by (auto simp: expire_claim_def applyLeaseExpiry_def split: option.splits if_splits)

text \<open>Time only ever ends a lease.\<close>

lemma applyLeaseExpiry_mono:
  "applyLeaseExpiry L now t \<Longrightarrow> now \<le> now' \<Longrightarrow> applyLeaseExpiry L now' t"
  by (auto simp: applyLeaseExpiry_def split: option.splits if_splits)
     (meson order_trans time_sub_mono)

section \<open>Dependencies\<close>

definition dep_completed :: "tasks \<Rightarrow> string \<Rightarrow> bool" where
  "dep_completed d depID \<longleftrightarrow> (case ReadJSON d (task_file depID) of
      Inl _ \<Rightarrow> False | Inr dep \<Rightarrow> tt_Status dep = TaskCompleted)"

lemma isBlocked_loop_False: "isBlocked_loop L now d deps = Inr False \<longleftrightarrow> (\<forall>x \<in> set deps. dep_completed d x)"
  by (induction deps) (auto simp: dep_completed_def split: sum.splits)

lemma isBlocked_False: "isBlocked L now d t = Inr False \<longleftrightarrow> (\<forall>x \<in> set (tt_DependsOn t). dep_completed d x)"
  by (simp add: isBlocked_def isBlocked_loop_False)

lemma isBlocked_DependsOn: "tt_DependsOn t = tt_DependsOn t' \<Longrightarrow> isBlocked L now d t = isBlocked L now d t'"
  by (simp add: isBlocked_def)

section \<open>Reading and writing tasks\<close>

lemma task_file_inject [simp]: "task_file a = task_file b \<longleftrightarrow> a = b"
  by (simp add: task_file_def)

lemma has_suffix_task_file [simp]: "has_suffix (task_file a) ''.json''"
  by (simp add: task_file_def)

lemma read_task_Inr: "read_task d taskID = Inr t \<longleftrightarrow> map_of d (task_file taskID) = Some (Doc t)"
  by (auto simp: read_task_def ReadJSON_Inr [symmetric] split: sum.splits)

lemma read_task_put [simp]: "read_task (fput (task_file i) (Doc t) d) i = Inr t"
  by (simp add: read_task_Inr)

lemma read_task_put_other: "i \<noteq> j \<Longrightarrow> read_task (fput (task_file i) v d) j = read_task d j"
  by (simp add: read_task_def ReadJSON_put_other)

lemma write_task_cases:
  obtains (err) err where "write_task e d msg i t = (Inl err, d)"
    | (ok) "write_task e d msg i t = (Inr (), fput (task_file i) (Doc t) d)"
  by (rule WriteJSON_cases [where e = e and d = d and n = "task_file i" and v = t])
     (auto simp: write_task_def)

lemma write_task_ok: "write_task e d msg i t = (Inr (), d') \<longleftrightarrow>
    en_wfault e (task_file i) = None \<and> map_of d (task_file i) \<noteq> Some SubDir
    \<and> d' = fput (task_file i) (Doc t) d"
  by (auto simp: write_task_def WriteJSON_ok split: prod.splits sum.splits)
     (auto simp: WriteJSON_def split: option.splits if_splits)

lemma write_task_step: "snd (write_task e d msg i t) = d
    \<or> snd (write_task e d msg i t) = fput (task_file i) (Doc t) d"
  by (rule write_task_cases [where e = e and d = d and msg = msg and i = i and t = t]) auto

section \<open>Operations guarded by a claim token\<close>

text \<open>
  \<open>RenewLease\<close>, \<open>CompleteTask\<close>, \<open>FailTask\<close> and \<open>ReleaseTask\<close> share one contract: read, drop
  an expired claim, compare the token, write the update. The consequences are proved once.
\<close>

locale claim_guarded =
  fixes opr :: "int \<Rightarrow> env \<Rightarrow> tasks \<Rightarrow> string \<Rightarrow> string \<Rightarrow> unit result \<times> tasks"
    and upd :: "time \<Rightarrow> TeamTask \<Rightarrow> TeamTask"
  assumes opr_eq: "opr L e d i tok = (case read_task d i of
        Inl err \<Rightarrow> (Inl err, d)
      | Inr t0 \<Rightarrow>
          (if claim_mismatch (expire_claim L (en_now e) t0) tok then (Inl ErrInvalidClaim, d)
           else write_task e d ''write task'' i (upd (en_now e) (expire_claim L (en_now e) t0))))"
    and upd_ID: "tt_ID (upd now t) = tt_ID t"
    and upd_Version: "tt_Version (upd now t) = tt_Version t + 1"
    and upd_claim: "tt_Claim t \<noteq> None \<Longrightarrow> tt_Status t = TaskInProgress \<Longrightarrow>
          tt_Claim (upd now t) \<noteq> None \<longleftrightarrow> tt_Status (upd now t) = TaskInProgress"
begin

lemma not_found: "map_of d (task_file i) = None \<Longrightarrow> opr L e d i tok = (Inl ErrTaskNotFound, d)"
  by (simp add: opr_eq read_task_def ReadJSON_def os_IsNotExist_def)

lemma wrong_token: "read_task d i = Inr t \<Longrightarrow> claim_mismatch t tok \<Longrightarrow>
    opr L e d i tok = (Inl ErrInvalidClaim, d)"
  by (auto simp: opr_eq claim_mismatch_def expire_claim_def)

lemma expired: "read_task d i = Inr t \<Longrightarrow> applyLeaseExpiry L (en_now e) t \<Longrightarrow>
    opr L e d i tok = (Inl ErrInvalidClaim, d)"
  by (auto simp: opr_eq claim_mismatch_def expire_claim_def)

lemma success_iff: "opr L e d i tok = (Inr (), d') \<longleftrightarrow>
    (\<exists>t c. read_task d i = Inr t \<and> tt_Claim t = Some c \<and> tc_Token c = tok
      \<and> \<not> applyLeaseExpiry L (en_now e) t \<and> en_wfault e (task_file i) = None
      \<and> d' = fput (task_file i) (Doc (upd (en_now e) t)) d)"
proof (cases "read_task d i")
  case (Inl err)
  then show ?thesis by (simp add: opr_eq)
next
  case (Inr t)
  then have "map_of d (task_file i) = Some (Doc t)" by (simp add: read_task_Inr)
  with Inr show ?thesis
    by (auto simp: opr_eq claim_mismatch_def expire_claim_def write_task_ok
             split: if_splits option.splits)
qed

lemma effect: "snd (opr L e d i tok) = d \<or>
    (\<exists>t c. read_task d i = Inr t \<and> tt_Claim t = Some c \<and> tc_Token c = tok
       \<and> \<not> applyLeaseExpiry L (en_now e) t
       \<and> snd (opr L e d i tok) = fput (task_file i) (Doc (upd (en_now e) t)) d)"
proof (cases "read_task d i")
  case (Inl err)
  then show ?thesis by (simp add: opr_eq)
next
  case (Inr t)
  then show ?thesis
    using write_task_step [of e d "''write task''" i "upd (en_now e) (expire_claim L (en_now e) t)"]
    by (auto simp: opr_eq claim_mismatch_def expire_claim_def split: if_splits option.splits)
qed

end

interpretation renew: claim_guarded RenewLease
  "\<lambda>now t. t\<lparr>tt_Claim := map_option (\<lambda>c. c\<lparr>tc_LeasedAt := now\<rparr>) (tt_Claim t),
            tt_UpdatedAt := now, tt_Version := tt_Version t + 1\<rparr>"
  by unfold_locales (auto simp: RenewLease_def Let_def split: sum.split)

interpretation complete: claim_guarded "\<lambda>L e d i tok. CompleteTask L e d i tok res"
  "\<lambda>now t. t\<lparr>tt_Status := TaskCompleted, tt_Result := res, tt_Claim := None,
            tt_Version := tt_Version t + 1, tt_UpdatedAt := now\<rparr>" for res
  by unfold_locales (auto simp: CompleteTask_def Let_def split: sum.split)

interpretation fail: claim_guarded "\<lambda>L e d i tok. FailTask L e d i tok res"
  "\<lambda>now t. t\<lparr>tt_Status := TaskFailed, tt_Result := res, tt_Claim := None,
            tt_Version := tt_Version t + 1, tt_UpdatedAt := now\<rparr>" for res
  by unfold_locales (auto simp: FailTask_def Let_def split: sum.split)

interpretation release: claim_guarded ReleaseTask
  "\<lambda>now t. t\<lparr>tt_Status := TaskPending, tt_Claim := None,
            tt_Version := tt_Version t + 1, tt_UpdatedAt := now\<rparr>"
  by unfold_locales (auto simp: ReleaseTask_def Let_def split: sum.split)

section \<open>Claiming\<close>

text \<open>The document a successful claim writes.\<close>

definition claim_upd :: "time \<Rightarrow> string \<Rightarrow> string \<Rightarrow> TeamTask \<Rightarrow> TeamTask" where
  "claim_upd now workerID token t =
     t\<lparr>tt_Status := TaskInProgress,
       tt_Claim := Some \<lparr>tc_WorkerID = workerID, tc_Token = token,
                         tc_LeasedAt = now, tc_LeasedUntil = zero_time\<rparr>,
       tt_Version := tt_Version t + 1, tt_UpdatedAt := now\<rparr>"

lemma claim_upd_simps [simp]:
  "tt_ID (claim_upd now w tok t) = tt_ID t"
  "tt_Status (claim_upd now w tok t) = TaskInProgress"
  "tt_Version (claim_upd now w tok t) = tt_Version t + 1"
  "tt_DependsOn (claim_upd now w tok t) = tt_DependsOn t"
  "tt_Claim (claim_upd now w tok t) = Some \<lparr>tc_WorkerID = w, tc_Token = tok,
     tc_LeasedAt = now, tc_LeasedUntil = zero_time\<rparr>"
  by (simp_all add: claim_upd_def)

lemma claim_upd_expire: "claim_upd now w tok (expire_claim L now' t) = claim_upd now w tok t"
  by (simp add: claim_upd_def expire_claim_def)

lemma ClaimTask_eq: "ClaimTask L e d i w v = (case read_task d i of
    Inl err \<Rightarrow> (Inl err, d)
  | Inr t \<Rightarrow>
      (if tt_Version t \<noteq> v then (Inl ErrVersionConflict, d)
       else if \<not> isClaimable L (en_now e) t then (Inl ErrTaskNotClaimable, d)
       else (case isBlocked L (en_now e) d t of
           Inl err \<Rightarrow> (Inl (Wrap ''check dependencies'' err), d)
         | Inr True \<Rightarrow> (Inl ErrTaskBlocked, d)
         | Inr False \<Rightarrow> (case en_rand e of
               Inl err \<Rightarrow> (Inl (Wrap ''generate token'' err), d)
             | Inr tok \<Rightarrow> (case write_task e d ''write claimed task'' i (claim_upd (en_now e) w tok t) of
                   (Inl err, d') \<Rightarrow> (Inl err, d')
                 | (Inr _, d') \<Rightarrow> (Inr tok, d'))))))"
proof (cases "read_task d i")
  case (Inl err)
  then show ?thesis by (simp add: ClaimTask_def)
next
  case (Inr t)
  let ?t = "expire_claim L (en_now e) t"
  have "isBlocked L (en_now e) d ?t = isBlocked L (en_now e) d t"
    by (rule isBlocked_DependsOn) simp
  moreover have "isClaimable L (en_now e) ?t = isClaimable L (en_now e) t"
    by (simp add: isClaimable_iff)
  moreover have "?t\<lparr>tt_Status := st, tt_Claim := c\<rparr> = t\<lparr>tt_Status := st, tt_Claim := c\<rparr>" for st c
    by (simp add: expire_claim_def)
  ultimately show ?thesis
    using Inr
    by (simp add: ClaimTask_def Let_def claim_upd_def del: isClaimable_expired split: sum.split bool.split)
qed

lemma ClaimTask_ok: "ClaimTask L e d i w v = (Inr tok, d') \<longleftrightarrow>
    (\<exists>t. read_task d i = Inr t \<and> tt_Version t = v \<and> isClaimable L (en_now e) t
       \<and> (\<forall>x \<in> set (tt_DependsOn t). dep_completed d x)
       \<and> en_rand e = Inr tok \<and> en_wfault e (task_file i) = None
       \<and> d' = fput (task_file i) (Doc (claim_upd (en_now e) w tok t)) d)"
proof (cases "read_task d i")
  case (Inl err)
  then show ?thesis by (simp add: ClaimTask_eq)
next
  case (Inr t)
  then have nodir: "map_of d (task_file i) \<noteq> Some SubDir" by (simp add: read_task_Inr)
  show ?thesis
    by (rule write_task_cases [where e = e and d = d and msg = "''write claimed task''" and i = i
          and t = "claim_upd (en_now e) w (case en_rand e of Inr x \<Rightarrow> x | Inl _ \<Rightarrow> []) t"])
       (use Inr nodir in \<open>auto simp: ClaimTask_eq isBlocked_False [of L "en_now e", symmetric] write_task_def
          WriteJSON_def split: sum.splits bool.splits option.splits\<close>)
qed

lemma ClaimTask_wrote:
  "ClaimTask L e d i w v = (Inr tok, d') \<Longrightarrow>
     \<exists>t. tt_Version t = v \<and> read_task d i = Inr t \<and> read_task d' i = Inr (claim_upd (en_now e) w tok t)"
  by (auto simp: ClaimTask_ok)

lemma ClaimTask_effect: "snd (ClaimTask L e d i w v) = d \<or>
    (\<exists>t tok. read_task d i = Inr t \<and> isClaimable L (en_now e) t \<and> tt_Version t = v
       \<and> snd (ClaimTask L e d i w v) = fput (task_file i) (Doc (claim_upd (en_now e) w tok t)) d)"
proof (cases "fst (ClaimTask L e d i w v)")
  case (Inl err)
  have "snd (ClaimTask L e d i w v) = d"
    using Inl write_task_step [of e d "''write claimed task''" i]
    by (auto simp: ClaimTask_eq write_task_def WriteJSON_def
             split: sum.splits if_splits bool.splits prod.splits option.splits)
  then show ?thesis ..
next
  case (Inr tok)
  then have "ClaimTask L e d i w v = (Inr tok, snd (ClaimTask L e d i w v))"
    by (metis prod.collapse)
  then show ?thesis by (auto simp: ClaimTask_ok)
qed

lemma ClaimTask_err: "ClaimTask L e d i w v = (Inl err, d') \<Longrightarrow> d' = d"
  by (auto simp: ClaimTask_eq write_task_def WriteJSON_def
           split: sum.splits if_splits bool.splits prod.splits option.splits)

section \<open>The registry invariant\<close>

text \<open>
  Every task file is named after its task, carries a claim exactly while the task is in progress,
  and has a positive version.
\<close>

definition task_ok :: "TeamTask \<Rightarrow> bool" where
  "task_ok t \<longleftrightarrow> (tt_Claim t \<noteq> None \<longleftrightarrow> tt_Status t = TaskInProgress) \<and> 1 \<le> tt_Version t"

definition registry_ok :: "tasks \<Rightarrow> bool" where
  "registry_ok d \<longleftrightarrow> wf_dir d \<and>
     list_all (\<lambda>(n, v). case v of Doc t \<Rightarrow> task_ok t \<and> n = task_file (tt_ID t) | _ \<Rightarrow> True) d"

lemma registry_ok_put:
  assumes "registry_ok d" and "task_ok t" and "tt_ID t = i"
  shows "registry_ok (fput (task_file i) (Doc t) d)"
  using assms set_fput [of "task_file i" "Doc t" d]
  by (auto simp: registry_ok_def list_all_iff split: node.splits)

lemma registry_ok_read:
  assumes "registry_ok d" and "read_task d i = Inr t"
  shows "task_ok t \<and> tt_ID t = i"
proof -
  have "(task_file i, Doc t) \<in> set d"
    using assms(2) by (auto simp: read_task_Inr dest: map_of_SomeD)
  with assms(1) show ?thesis by (auto simp: registry_ok_def list_all_iff)
qed

lemma task_ok_claim_upd: "task_ok t \<Longrightarrow> task_ok (claim_upd now w tok t)"
  by (simp add: task_ok_def)

context claim_guarded
begin

lemma registry_ok_opr: "registry_ok d \<Longrightarrow> registry_ok (snd (opr L e d i tok))"
proof -
  assume ok: "registry_ok d"
  have upd: "task_ok (upd (en_now e) t) \<and> tt_ID (upd (en_now e) t) = i"
    if "read_task d i = Inr t" and "tt_Claim t = Some c" for t c
    using that registry_ok_read [OF ok that(1)] upd_claim [of t "en_now e"]
    by (auto simp: task_ok_def upd_ID upd_Version)
  show ?thesis
    using effect [of L e d i tok] ok upd by (metis registry_ok_put)
qed

end

lemma registry_ok_ClaimTask: "registry_ok d \<Longrightarrow> registry_ok (snd (ClaimTask L e d i w v))"
  using ClaimTask_effect [of L e d i w v]
  by (metis registry_ok_put task_ok_claim_upd claim_upd_simps(1) registry_ok_read)

lemma registry_ok_ClaimNextTask_loop:
  "registry_ok d \<Longrightarrow> registry_ok (snd (ClaimNextTask_loop L e w d ts))"
proof (induction ts arbitrary: d)
  case Nil
  then show ?case by simp
next
  case (Cons t ts)
  from registry_ok_ClaimTask [OF Cons.prems]
  show ?case
    using Cons by (auto split: prod.splits sum.splits) (metis snd_conv)+
qed

lemma registry_ok_ClaimNextTask: "registry_ok d \<Longrightarrow> registry_ok (snd (ClaimNextTask L e d w))"
  by (simp add: ClaimNextTask_def registry_ok_ClaimNextTask_loop split: sum.split)

lemma registry_ok_write_task:
  "registry_ok d \<Longrightarrow> task_ok t \<Longrightarrow> tt_ID t = i \<Longrightarrow> registry_ok (snd (write_task e d msg i t))"
  using write_task_step [of e d msg i t] by (auto intro: registry_ok_put)

lemma registry_ok_CreateTask: "registry_ok d \<Longrightarrow> registry_ok (snd (CreateTask e d task))"
  by (auto simp: CreateTask_def task_ok_def intro!: registry_ok_write_task split: option.split)

lemma snd_ResetFailedTask: "snd (ResetFailedTask e d i) = (case read_task d i of
    Inl _ \<Rightarrow> d
  | Inr t \<Rightarrow> (if tt_Status t \<noteq> TaskFailed then d
      else snd (write_task e d ''write task'' i
             (t\<lparr>tt_Status := TaskPending, tt_Claim := None,
                tt_Version := tt_Version t + 1, tt_UpdatedAt := en_now e\<rparr>))))"
  by (auto simp: ResetFailedTask_def split: sum.split prod.split)

lemma registry_ok_ResetFailedTask: "registry_ok d \<Longrightarrow> registry_ok (snd (ResetFailedTask e d i))"
  by (auto simp: snd_ResetFailedTask task_ok_def dest: registry_ok_read
           intro!: registry_ok_write_task split: sum.split)

section \<open>Runs of the registry\<close>

datatype task_op =
    OpCreate env "TeamTask option"
  | OpClaim env string string int
  | OpRenew env string string
  | OpComplete env string string string
  | OpFail env string string string
  | OpRelease env string string
  | OpReset env string
  | OpClaimNext env string

fun task_step :: "int \<Rightarrow> tasks \<Rightarrow> task_op \<Rightarrow> tasks" where
  "task_step L d (OpCreate e t) = snd (CreateTask e d t)"
| "task_step L d (OpClaim e i w v) = snd (ClaimTask L e d i w v)"
| "task_step L d (OpRenew e i tok) = snd (RenewLease L e d i tok)"
| "task_step L d (OpComplete e i tok res) = snd (CompleteTask L e d i tok res)"
| "task_step L d (OpFail e i tok res) = snd (FailTask L e d i tok res)"
| "task_step L d (OpRelease e i tok) = snd (ReleaseTask L e d i tok)"
| "task_step L d (OpReset e i) = snd (ResetFailedTask e d i)"
| "task_step L d (OpClaimNext e w) = snd (ClaimNextTask L e d w)"

lemmas registry_ok_intros =
  registry_ok_CreateTask registry_ok_ClaimTask renew.registry_ok_opr complete.registry_ok_opr
  fail.registry_ok_opr release.registry_ok_opr registry_ok_ResetFailedTask registry_ok_ClaimNextTask

interpretation reg: step_invariant "task_step L" registry_ok for L
  by unfold_locales (metis task_step.simps task_op.exhaust registry_ok_intros)

section \<open>How tasks evolve\<close>

text \<open>
  Without \<open>CreateTask\<close>, which starts a task over, a task document either stays as it is or
  gets a larger version, and a completed task stays as it is.
\<close>

fun not_create :: "task_op \<Rightarrow> bool" where
  "not_create (OpCreate e t) = False"
| "not_create _ = True"

definition task_evolves :: "tasks \<Rightarrow> tasks \<Rightarrow> bool" where
  "task_evolves d d' \<longleftrightarrow> (registry_ok d \<longrightarrow> registry_ok d' \<and>
     (\<forall>i t. read_task d i = Inr t \<longrightarrow> (\<exists>t'. read_task d' i = Inr t' \<and>
        (t' = t \<or> tt_Version t < tt_Version t' \<and> tt_Status t \<noteq> TaskCompleted))))"

lemma task_evolves_refl: "task_evolves d d"
  by (simp add: task_evolves_def)

lemma task_evolves_trans: "task_evolves a b \<Longrightarrow> task_evolves b c \<Longrightarrow> task_evolves a c"
  unfolding task_evolves_def
proof (intro impI conjI allI)
  assume ab: "registry_ok a \<longrightarrow> registry_ok b \<and> (\<forall>i t. read_task a i = Inr t \<longrightarrow>
      (\<exists>t'. read_task b i = Inr t' \<and> (t' = t \<or> tt_Version t < tt_Version t' \<and> tt_Status t \<noteq> TaskCompleted)))"
    and bc: "registry_ok b \<longrightarrow> registry_ok c \<and> (\<forall>i t. read_task b i = Inr t \<longrightarrow>
      (\<exists>t'. read_task c i = Inr t' \<and> (t' = t \<or> tt_Version t < tt_Version t' \<and> tt_Status t \<noteq> TaskCompleted)))"
    and a: "registry_ok a"
  show "registry_ok c" using ab bc a by blast
  fix i t
  assume "read_task a i = Inr t"
  then obtain u where u: "read_task b i = Inr u"
      "u = t \<or> tt_Version t < tt_Version u \<and> tt_Status t \<noteq> TaskCompleted"
    using ab a by blast
  then obtain v where "read_task c i = Inr v"
      "v = u \<or> tt_Version u < tt_Version v \<and> tt_Status u \<noteq> TaskCompleted"
    using ab bc a by blast
  with u(2) show "\<exists>t'. read_task c i = Inr t' \<and>
      (t' = t \<or> tt_Version t < tt_Version t' \<and> tt_Status t \<noteq> TaskCompleted)"
    by (intro exI [of _ v]) auto
qed

lemma task_evolves_put:
  assumes "registry_ok d \<Longrightarrow> task_ok t' \<and> tt_ID t' = i"
    and "read_task d i = Inr t" and "tt_Version t < tt_Version t'"
    and "registry_ok d \<Longrightarrow> tt_Status t \<noteq> TaskCompleted"
  shows "task_evolves d (fput (task_file i) (Doc t') d)"
proof -
  have "\<exists>s'. read_task (fput (task_file i) (Doc t') d) j = Inr s' \<and>
        (s' = s \<or> tt_Version s < tt_Version s' \<and> tt_Status s \<noteq> TaskCompleted)"
    if "registry_ok d" and "read_task d j = Inr s" for j s
    using that assms(2-4) by (cases "j = i") (auto simp: read_task_put_other)
  then show ?thesis
    using assms(1) by (auto simp: task_evolves_def intro: registry_ok_put)
qed

context claim_guarded
begin

lemma evolves_opr: "task_evolves d (snd (opr L e d i tok))"
proof (cases "snd (opr L e d i tok) = d")
  case True
  then show ?thesis by (simp add: task_evolves_refl)
next
  case False
  then obtain t c where t: "read_task d i = Inr t" "tt_Claim t = Some c"
    and d': "snd (opr L e d i tok) = fput (task_file i) (Doc (upd (en_now e) t)) d"
    using effect [of L e d i tok] by auto
  have ok: "tt_Status t = TaskInProgress \<and> 1 \<le> tt_Version t \<and> tt_ID t = i" if "registry_ok d"
    using registry_ok_read [OF that t(1)] t(2) by (simp add: task_ok_def)
  show ?thesis
    unfolding d' using t ok upd_claim [of t "en_now e"]
    by (intro task_evolves_put [OF _ t(1)]) (auto simp: task_ok_def upd_ID upd_Version)
qed

end

lemma evolves_ClaimTask: "task_evolves d (snd (ClaimTask L e d i w v))"
proof (cases "snd (ClaimTask L e d i w v) = d")
  case True
  then show ?thesis by (simp add: task_evolves_refl)
next
  case False
  then obtain t tok where t: "read_task d i = Inr t" "isClaimable L (en_now e) t"
    and d': "snd (ClaimTask L e d i w v) = fput (task_file i) (Doc (claim_upd (en_now e) w tok t)) d"
    using ClaimTask_effect [of L e d i w v] by auto
  have "tt_Status t \<noteq> TaskCompleted"
    using t(2) expire_claim_status [of L "en_now e" t] by (auto simp: isClaimable_iff)
  then show ?thesis
    unfolding d' using registry_ok_read [OF _ t(1)]
    by (intro task_evolves_put [OF _ t(1)]) (auto intro: task_ok_claim_upd)
qed

lemma evolves_ClaimNextTask_loop: "task_evolves d (snd (ClaimNextTask_loop L e w d ts))"
proof (induction ts arbitrary: d)
  case Nil
  then show ?case by (simp add: task_evolves_refl)
next
  case (Cons t ts)
  have "task_evolves d (snd (ClaimTask L e d (tt_ID t) w (tt_Version t)))"
    by (rule evolves_ClaimTask)
  with Cons show ?case
    by (auto split: prod.splits sum.splits intro: task_evolves_trans)
qed

lemma evolves_ClaimNextTask: "task_evolves d (snd (ClaimNextTask L e d w))"
  by (simp add: ClaimNextTask_def evolves_ClaimNextTask_loop task_evolves_refl split: sum.split)

lemma evolves_ResetFailedTask: "task_evolves d (snd (ResetFailedTask e d i))"
proof (cases "snd (ResetFailedTask e d i) = d")
  case True
  then show ?thesis by (simp add: task_evolves_refl)
next
  case False
  then obtain t where t: "read_task d i = Inr t" "tt_Status t = TaskFailed"
    by (auto simp: snd_ResetFailedTask split: sum.splits if_splits)
  let ?t = "t\<lparr>tt_Status := TaskPending, tt_Claim := None, tt_Version := tt_Version t + 1,
              tt_UpdatedAt := en_now e\<rparr>"
  have d': "snd (ResetFailedTask e d i) = fput (task_file i) (Doc ?t) d"
    using False t write_task_step [of e d "''write task''" i ?t]
    by (auto simp: snd_ResetFailedTask)
  show ?thesis
    unfolding d' using t registry_ok_read [OF _ t(1)]
    by (intro task_evolves_put [OF _ t(1)]) (auto simp: task_ok_def)
qed

lemmas evolves_intros =
  evolves_ClaimTask renew.evolves_opr complete.evolves_opr fail.evolves_opr release.evolves_opr
  evolves_ResetFailedTask evolves_ClaimNextTask

lemma evolves_task_step: "not_create a \<Longrightarrow> task_evolves d (task_step L d a)"
  by (cases a) (simp_all add: evolves_intros)

interpretation evo: step_relation "task_step L" not_create task_evolves for L
  by unfold_locales (auto intro: task_evolves_refl task_evolves_trans evolves_task_step)

section \<open>The scan for the next task\<close>

text \<open>The tasks a scan sees, in file-name order, and the candidates among them.\<close>

definition listed_tasks :: "int \<Rightarrow> time \<Rightarrow> tasks \<Rightarrow> TeamTask list" where
  "listed_tasks L now d = List.map_filter
     (\<lambda>n. case ReadJSON d n of Inl _ \<Rightarrow> None | Inr t \<Rightarrow> Some (expire_claim L now t)) (json_files d)"

definition claim_candidate :: "int \<Rightarrow> time \<Rightarrow> tasks \<Rightarrow> TeamTask \<Rightarrow> bool" where
  "claim_candidate L now d t \<longleftrightarrow> isClaimable L now t \<and> isBlocked L now d t \<noteq> Inr True"

lemma ListTasks_quiet: "en_dirfault e = None \<Longrightarrow> ListTasks L e d = Inr (listed_tasks L (en_now e) d)"
  by (simp add: ListTasks_def listed_tasks_def)

lemma listed_tasks_sound:
  assumes "registry_ok d" and "t \<in> set (listed_tasks L now d)"
  shows "\<exists>t0. read_task d (tt_ID t) = Inr t0 \<and> t = expire_claim L now t0"
proof -
  from assms(2) obtain n t0 where n: "ReadJSON d n = Inr t0" "t = expire_claim L now t0"
    by (auto simp: listed_tasks_def List.map_filter_def split: sum.splits)
  then have "(n, Doc t0) \<in> set d" by (auto simp: ReadJSON_Inr dest: map_of_SomeD)
  with assms(1) have "n = task_file (tt_ID t0)" by (auto simp: registry_ok_def list_all_iff)
  with n show ?thesis by (auto simp: read_task_def)
qed

lemma listed_tasks_complete:
  assumes "registry_ok d" and "read_task d i = Inr t" and "CHR ''/'' \<notin> set i"
  shows "expire_claim L now t \<in> set (listed_tasks L now d)"
proof -
  have "map_of d (task_file i) = Some (Doc t)" using assms(2) by (simp add: read_task_Inr)
  moreover have "wf_dir d" using assms(1) by (simp add: registry_ok_def)
  ultimately have "task_file i \<in> set (json_files d)"
    using assms(3) by (auto simp: json_files_mem task_file_def)
  moreover have "ReadJSON d (task_file i) = Inr t"
    using assms(2) by (simp add: read_task_Inr ReadJSON_Inr)
  ultimately show ?thesis
    by (force simp: listed_tasks_def List.map_filter_def)
qed

lemma ReadJSON_err_not_claim: "ReadJSON d n = Inl err \<Longrightarrow> \<not> claim_retryable (Wrap m err)"
  by (auto simp: ReadJSON_def claim_retryable_def split: option.splits node.splits)

lemma isBlocked_err_not_claim: "isBlocked L now d t = Inl err \<Longrightarrow> \<not> claim_retryable (Wrap m err)"
proof -
  have "isBlocked_loop L now d deps = Inl err \<Longrightarrow> \<not> claim_retryable (Wrap m err)" for deps
    by (induction deps) (auto split: sum.splits if_splits dest: ReadJSON_err_not_claim)
  then show "isBlocked L now d t = Inl err \<Longrightarrow> \<not> claim_retryable (Wrap m err)"
    by (auto simp: isBlocked_def split: if_splits)
qed

lemma fresh_claim_alive:
  "0 \<le> duration_of L second_ns \<Longrightarrow> expire_claim L now (claim_upd now w tok t) = claim_upd now w tok t"
  by (simp add: expire_claim_def applyLeaseExpiry_def)

lemma ClaimTask_listed:
  assumes quiet: "en_rand e = Inr tok" "\<And>n. en_wfault e n = None"
    and t: "read_task d (tt_ID t) = Inr t0" "t = expire_claim L (en_now e) t0"
    and claimable: "isClaimable L (en_now e) t"
  shows "ClaimTask L e d (tt_ID t) w (tt_Version t) = (case isBlocked L (en_now e) d t of
      Inl err \<Rightarrow> (Inl (Wrap ''check dependencies'' err), d)
    | Inr True \<Rightarrow> (Inl ErrTaskBlocked, d)
    | Inr False \<Rightarrow> (Inr tok, fput (task_file (tt_ID t)) (Doc (claim_upd (en_now e) w tok t)) d))"
proof -
  have "isBlocked L (en_now e) d t0 = isBlocked L (en_now e) d t"
    by (rule isBlocked_DependsOn) (simp add: t(2))
  moreover have "isClaimable L (en_now e) t0"
    using claimable by (simp add: isClaimable_iff t(2))
  moreover have "write_task e d ''write claimed task'' (tt_ID t) (claim_upd (en_now e) w tok t0) =
      (Inr (), fput (task_file (tt_ID t)) (Doc (claim_upd (en_now e) w tok t)) d)"
    using quiet(2) t by (simp add: write_task_ok read_task_Inr claim_upd_expire)
  moreover have "tt_Version t0 = tt_Version t" by (simp add: t(2))
  ultimately show ?thesis
    using quiet(1) t(1) by (simp add: ClaimTask_eq split: sum.split bool.split)
qed

lemma ClaimNextTask_loop_spec:
  assumes quiet: "en_rand e = Inr tok" "\<And>n. en_wfault e n = None"
    and lease: "0 \<le> duration_of L second_ns"
    and ts: "\<And>t. t \<in> set ts \<Longrightarrow> \<exists>t0. read_task d (tt_ID t) = Inr t0 \<and> t = expire_claim L (en_now e) t0"
  shows "ClaimNextTask_loop L e w d ts =
    (case find (claim_candidate L (en_now e) d) ts of
       None \<Rightarrow> (Inl ErrTaskNotClaimable, d)
     | Some t \<Rightarrow> (case isBlocked L (en_now e) d t of
           Inl err \<Rightarrow> (Inl (Wrap ''check dependencies'' err), d)
         | Inr _ \<Rightarrow> (Inr (claim_upd (en_now e) w tok t, tok),
             fput (task_file (tt_ID t)) (Doc (claim_upd (en_now e) w tok t)) d)))"
  using ts
proof (induction ts)
  case Nil
  then show ?case by simp
next
  case (Cons t ts)
  then have IH: "ClaimNextTask_loop L e w d ts =
    (case find (claim_candidate L (en_now e) d) ts of
       None \<Rightarrow> (Inl ErrTaskNotClaimable, d)
     | Some t \<Rightarrow> (case isBlocked L (en_now e) d t of
           Inl err \<Rightarrow> (Inl (Wrap ''check dependencies'' err), d)
         | Inr _ \<Rightarrow> (Inr (claim_upd (en_now e) w tok t, tok),
             fput (task_file (tt_ID t)) (Doc (claim_upd (en_now e) w tok t)) d)))" by simp
  obtain t0 where t0: "read_task d (tt_ID t) = Inr t0" "t = expire_claim L (en_now e) t0"
    using Cons.prems [of t] by auto
  show ?case
  proof (cases "isClaimable L (en_now e) t")
    case False
    then show ?thesis using IH by (simp add: claim_candidate_def [of L "en_now e" d t])
  next
    case True
    note claim = ClaimTask_listed [OF quiet t0 True, of w]
    show ?thesis
    proof (cases "isBlocked L (en_now e) d t")
      case (Inl err)
      then show ?thesis
        using claim True isBlocked_err_not_claim [OF Inl] by (simp add: claim_candidate_def [of L "en_now e" d t])
    next
      case (Inr b)
      then show ?thesis
        using claim True IH fresh_claim_alive [OF lease, of "en_now e" w tok t]
        by (cases b) (simp_all add: claim_candidate_def [of L "en_now e" d t] claim_retryable_def GetTask_def)
    qed
  qed
qed

section \<open>Properties\<close>

text \<open>
  C24. A claim succeeds exactly when the task file can be read, its version is the expected one,
  the task is claimable now (pending, or in progress under an expired lease), every dependency is a
  readable completed task, a token could be drawn and the write goes through; the directory then
  differs only in this task's file, which holds the new claim and the next version.
\<close>

theorem ClaimTask_success_iff:
  "ClaimTask L e d i w v = (Inr tok, d') \<longleftrightarrow>
    (\<exists>t. read_task d i = Inr t \<and> tt_Version t = v \<and> isClaimable L (en_now e) t
       \<and> (\<forall>x \<in> set (tt_DependsOn t). dep_completed d x)
       \<and> en_rand e = Inr tok \<and> en_wfault e (task_file i) = None
       \<and> d' = fput (task_file i) (Doc (t\<lparr>tt_Status := TaskInProgress,
             tt_Claim := Some \<lparr>tc_WorkerID = w, tc_Token = tok,
                               tc_LeasedAt = en_now e, tc_LeasedUntil = zero_time\<rparr>,
             tt_Version := v + 1, tt_UpdatedAt := en_now e\<rparr>)) d)"
  by (auto simp: ClaimTask_ok claim_upd_def)

definition ex_task :: "string \<Rightarrow> string list \<Rightarrow> TeamTask" where
  "ex_task i deps = \<lparr>tt_ID = i, tt_Subject = [], tt_Description = [], tt_Status = TaskPending,
     tt_BlockedBy = [], tt_DependsOn = deps, tt_Claim = None, tt_Version = 1, tt_CreatedAt = 5,
     tt_UpdatedAt = 5, tt_Result = [], tt_FileOwnership = []\<rparr>"

definition ex_tasks :: tasks where
  "ex_tasks = [(''a.json'', Doc (ex_task ''a'' [])), (''b.json'', Doc (ex_task ''b'' [''a'']))]"

lemmas ex_defs = ex_task_def ex_tasks_def task_file_def

lemma ex_read: "read_task ex_tasks ''a'' = Inr (ex_task ''a'' [])"
    "read_task ex_tasks ''b'' = Inr (ex_task ''b'' [''a''])"
  by (simp_all add: read_task_Inr ex_tasks_def task_file_def)

lemma ex_claim: "ClaimTask 60 (quiet_env 9 ''tk'') ex_tasks ''a'' ''w0'' 1 =
    (Inr ''tk'', fput ''a.json'' (Doc (claim_upd 9 ''w0'' ''tk'' (ex_task ''a'' []))) ex_tasks)"
  unfolding ClaimTask_ok by (simp add: ex_read isClaimable_def ex_task_def task_file_def)

theorem ClaimTask_success_iff_witness:
  "\<exists>d'. ClaimTask 60 (quiet_env 9 ''tk'') ex_tasks ''a'' ''w0'' 1 = (Inr ''tk'', d')"
  by (simp only: ClaimTask_success_iff)
     (simp add: ex_read isClaimable_def ex_task_def)

text \<open>
  C1. Two workers that saw the same version of a task cannot both claim it: after one claim
  succeeds, a claim with the same expected version is refused with a version conflict, whatever the
  time and whatever else the call observes, and changes nothing.
\<close>

theorem claim_is_exclusive:
  assumes "ClaimTask L e d i w v = (Inr tok, d')"
  shows "ClaimTask L e' d' i w' v = (Inl ErrVersionConflict, d')"
  using ClaimTask_wrote [OF assms] by (auto simp: ClaimTask_eq)

theorem claim_is_exclusive_witness:
  "\<exists>d'. ClaimTask 60 (quiet_env 9 ''tk'') ex_tasks ''a'' ''w0'' 1 = (Inr ''tk'', d') \<and>
        ClaimTask 60 (quiet_env 9 ''tk2'') d' ''a'' ''w1'' 1 = (Inl ErrVersionConflict, d')"
  using ex_claim claim_is_exclusive [OF ex_claim] by blast

text \<open>
  C2. While a lease is alive (leases are switched off, or no more than the lease duration has
  passed since the claim), the task belongs to the holder of the token: every other claim is
  refused, every renewal, completion, failure or release with another token is refused with the
  invalid-claim error, and none of them changes the directory.
\<close>

theorem lease_excludes_others:
  assumes claim: "ClaimTask L e d i w v = (Inr tok, d')"
    and alive: "L \<le> 0 \<or> time_sub (en_now e') (en_now e) \<le> duration_of L second_ns"
    and other: "tok' \<noteq> tok"
  shows "ClaimTask L e' d' i w' v' =
           (Inl (if v' = v + 1 then ErrTaskNotClaimable else ErrVersionConflict), d')
       \<and> RenewLease L e' d' i tok' = (Inl ErrInvalidClaim, d')
       \<and> CompleteTask L e' d' i tok' res = (Inl ErrInvalidClaim, d')
       \<and> FailTask L e' d' i tok' res = (Inl ErrInvalidClaim, d')
       \<and> ReleaseTask L e' d' i tok' = (Inl ErrInvalidClaim, d')"
proof -
  obtain t where v: "tt_Version t = v"
    and rd: "read_task d' i = Inr (claim_upd (en_now e) w tok t)"
    using ClaimTask_wrote [OF claim] by blast
  have mism: "claim_mismatch (claim_upd (en_now e) w tok t) tok'"
    using other by (simp add: claim_mismatch_def)
  have "\<not> isClaimable L (en_now e') (claim_upd (en_now e) w tok t)"
    using alive by (auto simp: isClaimable_def applyLeaseExpiry_def)
  then have "ClaimTask L e' d' i w' v' =
      (Inl (if v' = v + 1 then ErrTaskNotClaimable else ErrVersionConflict), d')"
    using rd v by (auto simp: ClaimTask_eq)
  then show ?thesis
    using renew.wrong_token [OF rd mism] complete.wrong_token [OF rd mism]
      fail.wrong_token [OF rd mism] release.wrong_token [OF rd mism] by blast
qed

theorem lease_excludes_others_witness:
  "\<exists>d'. ClaimTask 60 (quiet_env 9 ''tk'') ex_tasks ''a'' ''w0'' 1 = (Inr ''tk'', d')
     \<and> ClaimTask 60 (quiet_env 30 ''x'') d' ''a'' ''w1'' 2 = (Inl ErrTaskNotClaimable, d')
     \<and> CompleteTask 60 (quiet_env 30 ''x'') d' ''a'' ''forged'' ''r'' = (Inl ErrInvalidClaim, d')"
proof -
  have alive: "(60::int) \<le> 0 \<or>
      time_sub (en_now (quiet_env 30 ''x'')) (en_now (quiet_env 9 ''tk'')) \<le> duration_of 60 second_ns"
    by code_simp
  show ?thesis
    using ex_claim lease_excludes_others [OF ex_claim alive, where tok' = "''forged''" and v' = 2]
    by auto
qed

text \<open>
  Once the lease has run out the former holder has lost the task: renewing, completing,
  failing and releasing are refused for every token without a change, and the task can be claimed
  anew at its current version when its dependencies are completed and no fault occurs.
\<close>

theorem expired_lease_frees_task:
  assumes t: "read_task d i = Inr t" and expired: "applyLeaseExpiry L (en_now e) t"
  shows "RenewLease L e d i tok = (Inl ErrInvalidClaim, d)
       \<and> CompleteTask L e d i tok res = (Inl ErrInvalidClaim, d)
       \<and> FailTask L e d i tok res = (Inl ErrInvalidClaim, d)
       \<and> ReleaseTask L e d i tok = (Inl ErrInvalidClaim, d)
       \<and> ((\<forall>x \<in> set (tt_DependsOn t). dep_completed d x) \<longrightarrow> en_rand e = Inr new
           \<longrightarrow> en_wfault e (task_file i) = None
           \<longrightarrow> fst (ClaimTask L e d i w (tt_Version t)) = Inr new)"
proof -
  have "isClaimable L (en_now e) t" using expired by (simp add: isClaimable_def)
  then have "(\<forall>x \<in> set (tt_DependsOn t). dep_completed d x) \<Longrightarrow> en_rand e = Inr new \<Longrightarrow>
      en_wfault e (task_file i) = None \<Longrightarrow>
      ClaimTask L e d i w (tt_Version t) =
        (Inr new, fput (task_file i) (Doc (claim_upd (en_now e) w new t)) d)"
    using t by (simp add: ClaimTask_ok)
  then show ?thesis
    using renew.expired [OF t expired] complete.expired [OF t expired]
      fail.expired [OF t expired] release.expired [OF t expired] by auto
qed

theorem expired_lease_frees_task_witness:
  "\<exists>d'. ClaimTask 1 (quiet_env 9 ''tk'') ex_tasks ''a'' ''w0'' 1 = (Inr ''tk'', d')
     \<and> CompleteTask 1 (quiet_env 2000000000 ''x'') d' ''a'' ''tk'' ''r'' = (Inl ErrInvalidClaim, d')
     \<and> fst (ClaimTask 1 (quiet_env 2000000000 ''x'') d' ''a'' ''w1'' 2) = Inr ''x''"
proof -
  let ?t = "claim_upd 9 ''w0'' ''tk'' (ex_task ''a'' [])"
  let ?d = "fput (task_file ''a'') (Doc ?t) ex_tasks"
  have c: "ClaimTask 1 (quiet_env 9 ''tk'') ex_tasks ''a'' ''w0'' 1 = (Inr ''tk'', ?d)"
    unfolding ClaimTask_ok by (simp add: ex_read isClaimable_def ex_task_def)
  have exp: "applyLeaseExpiry 1 (en_now (quiet_env 2000000000 ''x'')) ?t"
    by (simp add: applyLeaseExpiry_def) code_simp
  have rd: "read_task ?d ''a'' = Inr ?t" by simp
  show ?thesis
    using c expired_lease_frees_task [OF rd exp, of "''tk''" "''r''" "''x''" "''w1''"]
    by (auto simp: ex_task_def)
qed

text \<open>
  C3. In every registry reached from an empty one by any sequence of operations, failing ones
  included, a task file is named after the task it holds, the task carries a claim exactly while it
  is in progress, and its version is positive.
\<close>

theorem registry_invariant:
  assumes "read_task (foldl (task_step L) [] ops) i = Inr t"
  shows "tt_ID t = i \<and> (tt_Claim t \<noteq> None \<longleftrightarrow> tt_Status t = TaskInProgress) \<and> 1 \<le> tt_Version t"
proof -
  have "registry_ok (foldl (task_step L) [] ops)"
    by (rule reg.inv_run) (simp add: registry_ok_def)
  from registry_ok_read [OF this assms] show ?thesis by (simp add: task_ok_def)
qed

lemma ex_run: "read_task (foldl (task_step 60) []
      [OpCreate (quiet_env 5 []) (Some (ex_task ''a'' [])), OpClaim (quiet_env 9 ''tk'') ''a'' ''w0'' 1])
      ''a'' = Inr (claim_upd 9 ''w0'' ''tk'' (ex_task ''a'' []))"
  by (simp add: CreateTask_def write_task_def WriteJSON_def ClaimTask_eq isClaimable_def isBlocked_def
      applyLeaseExpiry_def ex_task_def read_task_def ReadJSON_def)

theorem registry_invariant_witness:
  "tt_Claim (claim_upd 9 ''w0'' ''tk'' (ex_task ''a'' [])) \<noteq> None \<and>
   tt_Status (claim_upd 9 ''w0'' ''tk'' (ex_task ''a'' [])) = TaskInProgress"
  using registry_invariant [OF ex_run] by simp

text \<open>
  C12. The version number makes the compare-and-swap of \<open>ClaimTask\<close> sound: along any run that does
  not recreate tasks, a task whose version is unchanged is itself unchanged, and a completed task
  is never changed at all.
\<close>

theorem version_detects_change:
  assumes "registry_ok d" and "list_all not_create ops" and "read_task d i = Inr t"
  shows "\<exists>t'. read_task (foldl (task_step L) d ops) i = Inr t' \<and> tt_Version t \<le> tt_Version t'
      \<and> (tt_Version t' = tt_Version t \<longrightarrow> t' = t) \<and> (tt_Status t = TaskCompleted \<longrightarrow> t' = t)"
proof -
  have "task_evolves d (foldl (task_step L) d ops)"
    using assms(2) by (rule evo.R_run)
  then obtain t' where "read_task (foldl (task_step L) d ops) i = Inr t'"
      "t' = t \<or> tt_Version t < tt_Version t' \<and> tt_Status t \<noteq> TaskCompleted"
    using assms(1,3) unfolding task_evolves_def by blast
  then show ?thesis by (intro exI [of _ t']) auto
qed

lemma ex_registry_ok: "registry_ok ex_tasks"
  by (simp add: registry_ok_def ex_tasks_def wf_dir_def ex_task_def task_ok_def task_file_def)

theorem version_detects_change_witness:
  "\<exists>t'. read_task (foldl (task_step 60) ex_tasks [OpClaim (quiet_env 9 ''tk'') ''a'' ''w0'' 1]) ''a'' = Inr t'
      \<and> 1 \<le> tt_Version t'"
  using version_detects_change [OF ex_registry_ok _ ex_read(1),
      of "[OpClaim (quiet_env 9 ''tk'') ''a'' ''w0'' 1]" 60]
  by (auto simp: ex_task_def)

text \<open>
  On a well-formed registry and without faults, \<open>ClaimNextTask\<close> takes the first listed
  task, in file-name order, that is claimable and not blocked by an unfinished dependency, and
  returns it as claimed; a dependency file that cannot be read ends the scan with an error; when
  there is no candidate it answers that no task is claimable and changes nothing.
\<close>

theorem ClaimNextTask_takes_first_candidate:
  assumes "registry_ok d" and "en_dirfault e = None" and "en_rand e = Inr tok"
    and "\<And>n. en_wfault e n = None" and "0 \<le> duration_of L second_ns"
  shows "ClaimNextTask L e d w =
    (case find (claim_candidate L (en_now e) d) (listed_tasks L (en_now e) d) of
       None \<Rightarrow> (Inl ErrTaskNotClaimable, d)
     | Some t \<Rightarrow> (case isBlocked L (en_now e) d t of
           Inl err \<Rightarrow> (Inl (Wrap ''check dependencies'' err), d)
         | Inr _ \<Rightarrow> (Inr (claim_upd (en_now e) w tok t, tok),
             fput (task_file (tt_ID t)) (Doc (claim_upd (en_now e) w tok t)) d)))"
  using ClaimNextTask_loop_spec [OF assms(3,4,5), of "listed_tasks L (en_now e) d" d w]
    listed_tasks_sound [OF assms(1)]
  by (simp add: ClaimNextTask_def ListTasks_quiet [OF assms(2)])

theorem ClaimNextTask_takes_first_candidate_witness:
  "\<exists>t. ClaimNextTask 60 (quiet_env 9 ''tk'') ex_tasks ''w0'' =
      (Inr (claim_upd 9 ''w0'' ''tk'' t, ''tk''),
       fput (task_file ''a'') (Doc (claim_upd 9 ''w0'' ''tk'' t)) ex_tasks)"
proof -
  have lease: "0 \<le> duration_of 60 second_ns" by code_simp
  have cand: "find (claim_candidate 60 9 ex_tasks) (listed_tasks 60 9 ex_tasks) = Some (ex_task ''a'' [])"
    by code_simp
  have "isBlocked 60 9 ex_tasks (ex_task ''a'' []) = Inr False" by code_simp
  with cand show ?thesis
    using ClaimNextTask_takes_first_candidate [OF ex_registry_ok _ _ _ lease,
        of "quiet_env 9 ''tk''" "''tk''" "''w0''"]
    by (auto simp: ex_task_def)
qed

text \<open>
  Progress of the scan: when the dependencies of all tasks can be read and some task with a
  plain file name is claimable and has all its dependencies completed, \<open>ClaimNextTask\<close> without
  faults does claim a task.
\<close>

theorem ClaimNextTask_progress:
  assumes ok: "registry_ok d" and quiet: "en_dirfault e = None" "en_rand e = Inr tok"
      "\<And>n. en_wfault e n = None" and lease: "0 \<le> duration_of L second_ns"
    and readable: "\<And>u err. isBlocked L (en_now e) d u \<noteq> Inl err"
    and t: "read_task d i = Inr t" "CHR ''/'' \<notin> set i"
    and claimable: "isClaimable L (en_now e) t" and deps: "\<forall>x \<in> set (tt_DependsOn t). dep_completed d x"
  shows "\<exists>u d'. ClaimNextTask L e d w = (Inr (u, tok), d') \<and> tt_Status u = TaskInProgress"
proof -
  let ?u = "expire_claim L (en_now e) t"
  have "isBlocked L (en_now e) d ?u = Inr False"
    using deps by (simp add: isBlocked_False)
  then have "claim_candidate L (en_now e) d ?u"
    using claimable by (simp add: claim_candidate_def isClaimable_iff)
  moreover have "?u \<in> set (listed_tasks L (en_now e) d)"
    by (rule listed_tasks_complete [OF ok t])
  ultimately obtain x where "find (claim_candidate L (en_now e) d) (listed_tasks L (en_now e) d) = Some x"
    by (cases "find (claim_candidate L (en_now e) d) (listed_tasks L (en_now e) d)")
       (auto simp: find_None_iff)
  moreover obtain b where "isBlocked L (en_now e) d x = Inr b"
    using readable by (cases "isBlocked L (en_now e) d x") auto
  ultimately show ?thesis
    using ClaimNextTask_loop_spec [OF quiet(2,3) lease, of "listed_tasks L (en_now e) d" d w]
      listed_tasks_sound [OF ok]
    by (simp add: ClaimNextTask_def ListTasks_quiet [OF quiet(1)])
qed

definition ex_single :: tasks where
  "ex_single = [(''a.json'', Doc (ex_task ''a'' []))]"

lemma ex_single_readable: "isBlocked L now ex_single u \<noteq> Inl err"
proof -
  have "isBlocked_loop L now ex_single deps \<noteq> Inl err" for deps
    by (induction deps)
       (auto simp: ReadJSON_def ex_single_def os_IsNotExist_def split: sum.splits option.splits if_splits)
  then show ?thesis by (simp add: isBlocked_def)
qed

theorem ClaimNextTask_progress_witness:
  "\<exists>u d'. ClaimNextTask 60 (quiet_env 9 ''tk'') ex_single ''w0'' = (Inr (u, ''tk''), d')
      \<and> tt_Status u = TaskInProgress"
proof -
  have ok: "registry_ok ex_single"
    by (simp add: registry_ok_def ex_single_def wf_dir_def ex_task_def task_ok_def task_file_def)
  have rd: "read_task ex_single ''a'' = Inr (ex_task ''a'' [])"
    by (simp add: read_task_Inr ex_single_def task_file_def)
  have lease: "0 \<le> duration_of 60 second_ns" by code_simp
  show ?thesis
    by (rule ClaimNextTask_progress [OF ok _ _ _ lease ex_single_readable rd])
       (simp_all add: isClaimable_def ex_task_def)
qed

end
