(* ===== verification/Phase_Machine.thy ===== *)
theory Phase_Machine
  imports Task_Registry
begin

text \<open>
  \<open>internal/team/phases.go\<close>: the phase machine of a team. Its state is the phase-state document
  of the store; \<open>maxFixLoops\<close> is the machine's bound on fix loops.
\<close>

type_synonym phases = "TeamPhaseState node fdir"

definition CurrentPhase :: "phases \<Rightarrow> TeamPhase result" where
  "CurrentPhase d = (case LoadPhaseState d of
      Inl err \<Rightarrow> Inl (Wrap ''load phase state'' err)
    | Inr st \<Rightarrow> Inr (ps_Phase st))"

text \<open>The function that \<open>Transition\<close> hands to \<open>UpdatePhaseState\<close>.\<close>

definition transition_fn ::
  "int \<Rightarrow> time \<Rightarrow> TeamPhase \<Rightarrow> string \<Rightarrow> TeamPhaseState \<Rightarrow> TeamPhaseState result" where
  "transition_fn maxFixLoops now to reason st =
     (let from = ps_Phase st in
      if IsTerminal from then Inl ErrPhaseTerminal
      else if to \<notin> set (ValidTransitions from) then
        Inl (WrapPost ErrInvalidTransition (phase_String from @ '' -> '' @ phase_String to))
      else
        (let (next, nextReason, count) =
           (if to = PhaseFix then
              (if ps_FixLoopCount st \<ge> maxFixLoops
               then (PhaseFailed,
                     Error_text ErrFixLoopExceeded @ '' ('' @ fmt_int maxFixLoops @ ''): '' @ reason,
                     ps_FixLoopCount st)
               else (to, reason, ps_FixLoopCount st + 1))
            else (to, reason, ps_FixLoopCount st))
         in Inr (st\<lparr>ps_FixLoopCount := count,
                    ps_Transitions := ps_Transitions st @
                      [\<lparr>pt_From = from, pt_To = next, pt_Reason = nextReason, pt_Timestamp = now\<rparr>],
                    ps_Phase := next\<rparr>)))"

definition Transition ::
  "int \<Rightarrow> env \<Rightarrow> phases \<Rightarrow> TeamPhase \<Rightarrow> string \<Rightarrow> unit result \<times> phases" where
  "Transition maxFixLoops e d to reason =
     UpdatePhaseState e d (transition_fn maxFixLoops (en_now e) to reason)"

definition SetArtifact :: "env \<Rightarrow> phases \<Rightarrow> string \<Rightarrow> string \<Rightarrow> unit result \<times> phases" where
  "SetArtifact e d key val = UpdatePhaseState e d (\<lambda>st.
     let artifacts = (case ps_Artifacts st of None \<Rightarrow> [] | Some m \<Rightarrow> m)
     in Inr (st\<lparr>ps_Artifacts := Some (fput key val artifacts)\<rparr>))"

text \<open>Reading a missing key of a Go map, or any key of a nil map, gives the zero value.\<close>

definition GetArtifact :: "phases \<Rightarrow> string \<Rightarrow> string result" where
  "GetArtifact d key = (case LoadPhaseState d of
      Inl err \<Rightarrow> Inl (Wrap ''load phase state'' err)
    | Inr st \<Rightarrow> Inr (case ps_Artifacts st of
          None \<Rightarrow> []
        | Some m \<Rightarrow> (case map_of m key of None \<Rightarrow> [] | Some v \<Rightarrow> v)))"

definition AllTasksTerminal :: "int \<Rightarrow> env \<Rightarrow> tasks \<Rightarrow> bool result" where
  "AllTasksTerminal L e d = (case ListTasks L e d of
      Inl err \<Rightarrow> Inl err
    | Inr ts \<Rightarrow> (if ts = [] then Inr True
        else Inr (list_all (\<lambda>t. tt_Status t = TaskCompleted \<or> tt_Status t = TaskFailed) ts)))"

definition AllTasksCompleted :: "int \<Rightarrow> env \<Rightarrow> tasks \<Rightarrow> bool result" where
  "AllTasksCompleted L e d = (case ListTasks L e d of
      Inl err \<Rightarrow> Inl err
    | Inr ts \<Rightarrow> (if ts = [] then Inr True
        else Inr (list_all (\<lambda>t. tt_Status t = TaskCompleted) ts)))"

definition AnyTaskFailed :: "int \<Rightarrow> env \<Rightarrow> tasks \<Rightarrow> bool result" where
  "AnyTaskFailed L e d = (case ListTasks L e d of
      Inl err \<Rightarrow> Inl err
    | Inr ts \<Rightarrow> Inr (list_ex (\<lambda>t. tt_Status t = TaskFailed) ts))"

definition FixLoopCount :: "phases \<Rightarrow> int result" where
  "FixLoopCount d = (case LoadPhaseState d of
      Inl err \<Rightarrow> Inl err
    | Inr st \<Rightarrow> Inr (ps_FixLoopCount st))"

definition Cancel :: "int \<Rightarrow> env \<Rightarrow> phases \<Rightarrow> string \<Rightarrow> unit result \<times> phases" where
  "Cancel maxFixLoops e d reason = Transition maxFixLoops e d PhaseCancelled reason"

definition TransitionHistory :: "phases \<Rightarrow> PhaseTransition list result" where
  "TransitionHistory d = (case LoadPhaseState d of
      Inl err \<Rightarrow> Inl err
    | Inr st \<Rightarrow> Inr (ps_Transitions st))"

section \<open>Updates of the phase document\<close>

lemma LoadPhaseState_Inr: "LoadPhaseState d = Inr st \<longleftrightarrow> map_of d phase_file = Some (Doc st)"
  by (auto simp: LoadPhaseState_def ReadJSON_Inr [symmetric] split: sum.splits)

lemma LoadPhaseState_put [simp]: "LoadPhaseState (fput phase_file (Doc st) d) = Inr st"
  by (simp add: LoadPhaseState_Inr)

lemma SavePhaseState_step: "snd (SavePhaseState e d st) = d
    \<or> snd (SavePhaseState e d st) = fput phase_file (Doc (json_PhaseState st)) d"
  by (rule WriteJSON_cases [where e = e and d = d and n = phase_file and v = "json_PhaseState st"])
     (auto simp: SavePhaseState_def)

lemma UpdatePhaseState_step:
  "snd (UpdatePhaseState e d fn) = d \<or>
   (\<exists>st st'. LoadPhaseState d = Inr st \<and> fn st = Inr st'
      \<and> snd (UpdatePhaseState e d fn) = fput phase_file (Doc (json_PhaseState st')) d)"
  using SavePhaseState_step by (auto simp: UpdatePhaseState_def split: sum.splits)

lemma UpdatePhaseState_ok: "UpdatePhaseState e d fn = (Inr (), d') \<longleftrightarrow>
   (\<exists>st st'. LoadPhaseState d = Inr st \<and> fn st = Inr st' \<and> en_wfault e phase_file = None
      \<and> d' = fput phase_file (Doc (json_PhaseState st')) d)"
proof (cases "LoadPhaseState d")
  case (Inl err)
  then show ?thesis by (simp add: UpdatePhaseState_def)
next
  case (Inr st)
  then have "map_of d phase_file = Some (Doc st)" by (simp add: LoadPhaseState_Inr)
  with Inr show ?thesis
    by (auto simp: UpdatePhaseState_def SavePhaseState_def WriteJSON_def
             split: sum.splits option.splits prod.splits)
qed

text \<open>What one successful transition does to the phase state.\<close>

definition phase_moves :: "int \<Rightarrow> TeamPhaseState \<Rightarrow> TeamPhaseState \<Rightarrow> bool" where
  "phase_moves m st st' \<longleftrightarrow>
     \<not> IsTerminal (ps_Phase st) \<and> ps_Phase st' \<in> set (ValidTransitions (ps_Phase st))
   \<and> ps_Artifacts st' = ps_Artifacts st
   \<and> (\<exists>h. ps_Transitions st' = ps_Transitions st @ [h] \<and> pt_From h = ps_Phase st \<and> pt_To h = ps_Phase st')
   \<and> (if ps_Phase st' = PhaseFix
      then ps_FixLoopCount st < m \<and> ps_FixLoopCount st' = ps_FixLoopCount st + 1
      else ps_FixLoopCount st' = ps_FixLoopCount st)"

lemma fix_only_from_verify: "PhaseFix \<in> set (ValidTransitions p) \<longleftrightarrow> p = PhaseVerify"
  by (cases p) auto

lemma transition_fn_moves: "transition_fn m now to reason st = Inr st' \<Longrightarrow> phase_moves m st st'"
  by (auto simp: transition_fn_def phase_moves_def Let_def fix_only_from_verify split: if_splits)

section \<open>The history invariant\<close>

text \<open>A history is a path of valid transitions from one phase to another.\<close>

fun phase_path :: "TeamPhase \<Rightarrow> PhaseTransition list \<Rightarrow> TeamPhase \<Rightarrow> bool" where
  "phase_path p [] q \<longleftrightarrow> p = q"
| "phase_path p (h # hs) q \<longleftrightarrow>
     pt_From h = p \<and> pt_To h \<in> set (ValidTransitions p) \<and> phase_path (pt_To h) hs q"

lemma phase_path_snoc: "phase_path p (hs @ [h]) q \<longleftrightarrow>
    phase_path p hs (pt_From h) \<and> pt_To h \<in> set (ValidTransitions (pt_From h)) \<and> pt_To h = q"
  by (induction hs arbitrary: p) auto

definition fix_entries :: "PhaseTransition list \<Rightarrow> nat" where
  "fix_entries hs = length (filter (\<lambda>h. pt_To h = PhaseFix) hs)"

text \<open>How many transitions a state can still make: three per fix loop left, and the way to the end.\<close>

fun phase_rank :: "TeamPhase \<Rightarrow> int" where
  "phase_rank PhasePlan = 4"
| "phase_rank PhasePRD = 3"
| "phase_rank PhaseExec = 2"
| "phase_rank PhaseVerify = 1"
| "phase_rank PhaseFix = 3"
| "phase_rank _ = 0"

definition phase_budget :: "int \<Rightarrow> TeamPhaseState \<Rightarrow> int" where
  "phase_budget m st = 3 * (max 0 m - ps_FixLoopCount st) + phase_rank (ps_Phase st)"

definition phase_ok :: "int \<Rightarrow> TeamPhaseState \<Rightarrow> bool" where
  "phase_ok m st \<longleftrightarrow> phase_path PhasePlan (ps_Transitions st) (ps_Phase st)
     \<and> ps_FixLoopCount st = int (fix_entries (ps_Transitions st))
     \<and> ps_FixLoopCount st \<le> max 0 m
     \<and> int (length (ps_Transitions st)) + phase_budget m st \<le> 3 * max 0 m + 4"

lemma phase_moves_budget: "phase_moves m st st' \<Longrightarrow> phase_budget m st' < phase_budget m st"
  unfolding phase_moves_def phase_budget_def
  by (cases "ps_Phase st"; auto split: if_splits)

lemma phase_moves_ok:
  assumes "phase_moves m st st'" and "phase_ok m st"
  shows "phase_ok m st'"
  using assms phase_moves_budget [OF assms(1)]
  by (auto simp: phase_ok_def phase_moves_def phase_path_snoc fix_entries_def split: if_splits)

lemma phase_ok_cong:
  "ps_Phase st' = ps_Phase st \<Longrightarrow> ps_Transitions st' = ps_Transitions st \<Longrightarrow>
   ps_FixLoopCount st' = ps_FixLoopCount st \<Longrightarrow> phase_ok m st' \<longleftrightarrow> phase_ok m st"
  by (simp add: phase_ok_def phase_budget_def)

lemma phase_rank_nonneg: "0 \<le> phase_rank p"
  by (cases p) auto

lemma phase_ok_length: "phase_ok m st \<Longrightarrow> int (length (ps_Transitions st)) \<le> 3 * max 0 m + 4"
  using phase_rank_nonneg [of "ps_Phase st"] by (auto simp: phase_ok_def phase_budget_def)

section \<open>Runs of the machine\<close>

datatype phase_op =
    OpTransition env TeamPhase string
  | OpSetArtifact env string string
  | OpCancel env string

fun phase_step :: "int \<Rightarrow> phases \<Rightarrow> phase_op \<Rightarrow> phases" where
  "phase_step m d (OpTransition e to reason) = snd (Transition m e d to reason)"
| "phase_step m d (OpSetArtifact e key val) = snd (SetArtifact e d key val)"
| "phase_step m d (OpCancel e reason) = snd (Cancel m e d reason)"

definition phases_ok :: "int \<Rightarrow> phases \<Rightarrow> bool" where
  "phases_ok m d \<longleftrightarrow> (case LoadPhaseState d of Inl _ \<Rightarrow> True | Inr st \<Rightarrow> phase_ok m st)"

lemma phases_ok_Update:
  assumes "phases_ok m d" and "\<And>st st'. phase_ok m st \<Longrightarrow> fn st = Inr st' \<Longrightarrow> phase_ok m st'"
  shows "phases_ok m (snd (UpdatePhaseState e d fn))"
  using UpdatePhaseState_step [of e d fn]
proof (elim disjE exE conjE)
  assume "snd (UpdatePhaseState e d fn) = d"
  with assms(1) show ?thesis by simp
next
  fix st st'
  assume "LoadPhaseState d = Inr st" and "fn st = Inr st'"
    and d': "snd (UpdatePhaseState e d fn) = fput phase_file (Doc (json_PhaseState st')) d"
  then have "phase_ok m st'" using assms by (simp add: phases_ok_def)
  then have "phase_ok m (json_PhaseState st')" by (simp add: phase_ok_cong [of "json_PhaseState st'" st'])
  with d' show ?thesis by (simp add: phases_ok_def)
qed

lemma phases_ok_Transition: "phases_ok m d \<Longrightarrow> phases_ok m (snd (Transition m e d to reason))"
  unfolding Transition_def
  by (rule phases_ok_Update) (auto dest: transition_fn_moves phase_moves_ok)

lemma phases_ok_SetArtifact: "phases_ok m d \<Longrightarrow> phases_ok m (snd (SetArtifact e d key val))"
  unfolding SetArtifact_def
  by (rule phases_ok_Update) (auto simp: Let_def phase_ok_def phase_budget_def)

interpretation ph: step_invariant "phase_step m" "phases_ok m" for m
proof
  fix d a
  assume "phases_ok m d"
  then show "phases_ok m (phase_step m d a)"
    by (cases a) (simp_all add: phases_ok_Transition phases_ok_SetArtifact Cancel_def)
qed

lemma CreateManifest_phase:
  assumes "CreateManifest e s name cfg = (Inr man, s')"
  shows "LoadPhaseState (td_phase s') = Inr \<lparr>ps_Phase = PhasePlan, ps_Artifacts = None,
     ps_Transitions = [], ps_FixLoopCount = 0\<rparr>"
  using assms
  by (auto simp: CreateManifest_def Let_def WriteJSON_def json_PhaseState_def
           split: sum.splits option.splits prod.splits if_splits)

section \<open>Properties\<close>

text \<open>
  C13. For a team created by \<open>CreateManifest\<close>, after any sequence of transitions, cancellations
  and artifact writes, failing ones included: the recorded history is a path of valid transitions
  from the plan phase to the current phase; the fix-loop counter is the number of entries into the
  fix phase and never exceeds the bound; and the history has at most three transitions per allowed
  fix loop plus four, so a pipeline cannot move between phases for ever.
\<close>

theorem phase_history_bounded:
  assumes "CreateManifest e s name cfg = (Inr man, s')"
    and "LoadPhaseState (foldl (phase_step m) (td_phase s') ops) = Inr st"
  shows "phase_path PhasePlan (ps_Transitions st) (ps_Phase st)
     \<and> ps_FixLoopCount st = int (fix_entries (ps_Transitions st))
     \<and> ps_FixLoopCount st \<le> max 0 m
     \<and> int (length (ps_Transitions st)) \<le> 3 * max 0 m + 4"
proof -
  have "phases_ok m (td_phase s')"
    using CreateManifest_phase [OF assms(1)]
    by (simp add: phases_ok_def phase_ok_def fix_entries_def phase_budget_def)
  then have "phases_ok m (foldl (phase_step m) (td_phase s') ops)"
    by (rule ph.inv_run)
  then have "phase_ok m st" using assms(2) by (simp add: phases_ok_def)
  then show ?thesis using phase_ok_length [of m st] by (simp add: phase_ok_def)
qed

definition ex_config :: TeamConfig where
  "ex_config = \<lparr>cf_MaxWorkers = 2, cf_MaxFixLoops = 1, cf_ClaimLeaseSeconds = 60,
     cf_StateDir = ''st'', cf_AgentType = ''codex'', cf_BoardIssueID = []\<rparr>"

lemma ex_create: "\<exists>man s'. CreateManifest (quiet_env 5 []) empty_team ''t'' ex_config = (Inr man, s')"
  by (simp add: CreateManifest_def EnsureDirs_def WriteJSON_def empty_team_def Let_def)

theorem phase_history_bounded_witness:
  "\<exists>man s' st. CreateManifest (quiet_env 5 []) empty_team ''t'' ex_config = (Inr man, s')
    \<and> LoadPhaseState (foldl (phase_step 1) (td_phase s') [OpTransition (quiet_env 6 []) PhasePRD ''r'']) = Inr st
    \<and> length (ps_Transitions st) = 1 \<and> phase_path PhasePlan (ps_Transitions st) (ps_Phase st)"
proof -
  obtain man s' where c: "CreateManifest (quiet_env 5 []) empty_team ''t'' ex_config = (Inr man, s')"
    using ex_create by blast
  note p = CreateManifest_phase [OF c]
  let ?st = "\<lparr>ps_Phase = PhasePRD, ps_Artifacts = None,
     ps_Transitions = [\<lparr>pt_From = PhasePlan, pt_To = PhasePRD, pt_Reason = ''r'', pt_Timestamp = 6\<rparr>],
     ps_FixLoopCount = 0\<rparr>"
  have "Transition 1 (quiet_env 6 []) (td_phase s') PhasePRD ''r'' = (Inr (), fput phase_file (Doc ?st) (td_phase s'))"
    unfolding Transition_def UpdatePhaseState_ok
    using p by (simp add: transition_fn_def Let_def json_PhaseState_def)
  then have l: "LoadPhaseState (foldl (phase_step 1) (td_phase s')
      [OpTransition (quiet_env 6 []) PhasePRD ''r'']) = Inr ?st" by simp
  show ?thesis using c l phase_history_bounded [OF c l] by (metis One_nat_def length_Cons list.size(3)
      TeamPhaseState.select_convs(3))
qed

text \<open>
  \<open>Transition\<close> on every branch, for a readable phase document: from a terminal phase it is
  refused with \<open>ErrPhaseTerminal\<close>, to a phase that is not a valid successor with
  \<open>ErrInvalidTransition\<close>, both without a change; otherwise, unless the write fails, the phase moves
  and one history entry is appended, where entering the fix phase counts a fix loop and, once the
  bound is reached, ends in the failed phase instead.
\<close>

theorem Transition_branches:
  assumes "LoadPhaseState d = Inr st"
  shows "(IsTerminal (ps_Phase st) \<longrightarrow> Transition m e d to r = (Inl ErrPhaseTerminal, d))
   \<and> (\<not> IsTerminal (ps_Phase st) \<and> to \<notin> set (ValidTransitions (ps_Phase st)) \<longrightarrow>
        (\<exists>err. Transition m e d to r = (Inl err, d) \<and> errors_is err ErrInvalidTransition))
   \<and> (to \<in> set (ValidTransitions (ps_Phase st)) \<and> en_wfault e phase_file = None \<longrightarrow>
        (\<exists>st' h. Transition m e d to r = (Inr (), fput phase_file (Doc st') d)
           \<and> ps_Phase st' = (if to = PhaseFix \<and> m \<le> ps_FixLoopCount st then PhaseFailed else to)
           \<and> ps_FixLoopCount st' = ps_FixLoopCount st +
                (if to = PhaseFix \<and> ps_FixLoopCount st < m then 1 else 0)
           \<and> ps_Transitions st' = ps_Transitions st @ [h]
           \<and> pt_From h = ps_Phase st \<and> pt_To h = ps_Phase st' \<and> pt_Timestamp h = en_now e))"
proof (intro conjI impI)
  assume "IsTerminal (ps_Phase st)"
  then show "Transition m e d to r = (Inl ErrPhaseTerminal, d)"
    using assms by (simp add: Transition_def UpdatePhaseState_def transition_fn_def)
next
  assume "\<not> IsTerminal (ps_Phase st) \<and> to \<notin> set (ValidTransitions (ps_Phase st))"
  then show "\<exists>err. Transition m e d to r = (Inl err, d) \<and> errors_is err ErrInvalidTransition"
    using assms by (simp add: Transition_def UpdatePhaseState_def transition_fn_def)
next
  assume ok: "to \<in> set (ValidTransitions (ps_Phase st)) \<and> en_wfault e phase_file = None"
  then have "\<not> IsTerminal (ps_Phase st)" using IsTerminal_no_transitions by fastforce
  then obtain st1 h where fn: "transition_fn m (en_now e) to r st = Inr st1"
    and st1: "ps_Phase st1 = (if to = PhaseFix \<and> m \<le> ps_FixLoopCount st then PhaseFailed else to)"
      "ps_FixLoopCount st1 = ps_FixLoopCount st + (if to = PhaseFix \<and> ps_FixLoopCount st < m then 1 else 0)"
      "ps_Transitions st1 = ps_Transitions st @ [h]"
    and h: "pt_From h = ps_Phase st" "pt_To h = ps_Phase st1" "pt_Timestamp h = en_now e"
    using ok by (cases "to = PhaseFix"; cases "m \<le> ps_FixLoopCount st")
      (auto simp: transition_fn_def Let_def)
  have "Transition m e d to r = (Inr (), fput phase_file (Doc (json_PhaseState st1)) d)"
    unfolding Transition_def UpdatePhaseState_ok using assms ok fn by blast
  with st1 h show "\<exists>st' h. Transition m e d to r = (Inr (), fput phase_file (Doc st') d)
           \<and> ps_Phase st' = (if to = PhaseFix \<and> m \<le> ps_FixLoopCount st then PhaseFailed else to)
           \<and> ps_FixLoopCount st' = ps_FixLoopCount st +
                (if to = PhaseFix \<and> ps_FixLoopCount st < m then 1 else 0)
           \<and> ps_Transitions st' = ps_Transitions st @ [h]
           \<and> pt_From h = ps_Phase st \<and> pt_To h = ps_Phase st' \<and> pt_Timestamp h = en_now e"
    by (intro exI [of _ "json_PhaseState st1"] exI [of _ h]) simp
qed

definition ex_phase :: "TeamPhase \<Rightarrow> int \<Rightarrow> phases" where
  "ex_phase p n = [(phase_file, Doc \<lparr>ps_Phase = p, ps_Artifacts = None, ps_Transitions = [],
     ps_FixLoopCount = n\<rparr>)]"

theorem Transition_branches_witness:
  "Transition 3 (quiet_env 5 []) (ex_phase PhaseComplete 0) PhaseExec ''r'' = (Inl ErrPhaseTerminal, ex_phase PhaseComplete 0)
   \<and> (\<exists>st'. Transition 3 (quiet_env 5 []) (ex_phase PhaseVerify 3) PhaseFix ''r'' =
          (Inr (), fput phase_file (Doc st') (ex_phase PhaseVerify 3)) \<and> ps_Phase st' = PhaseFailed)"
proof -
  let ?st = "\<lambda>p n. \<lparr>ps_Phase = p, ps_Artifacts = None, ps_Transitions = [], ps_FixLoopCount = n\<rparr>"
  have a: "LoadPhaseState (ex_phase PhaseComplete 0) = Inr (?st PhaseComplete 0)"
    and b: "LoadPhaseState (ex_phase PhaseVerify 3) = Inr (?st PhaseVerify 3)"
    by (simp_all add: LoadPhaseState_Inr ex_phase_def)
  show ?thesis
    using Transition_branches [OF a, of 3 "quiet_env 5 []" PhaseExec "''r''"]
      Transition_branches [OF b, of 3 "quiet_env 5 []" PhaseFix "''r''"] by auto
qed

text \<open>
  Artifacts round-trip through the document: after a successful \<open>SetArtifact\<close> the key
  reads back the value, every other key reads what it read before, and the phase, the history and
  the fix-loop counter are as they were.
\<close>

theorem SetArtifact_GetArtifact:
  assumes "SetArtifact e d key val = (Inr (), d')"
  shows "GetArtifact d' k = (if k = key then Inr val else GetArtifact d k)
     \<and> CurrentPhase d' = CurrentPhase d \<and> TransitionHistory d' = TransitionHistory d
     \<and> FixLoopCount d' = FixLoopCount d"
proof -
  define arts where "arts st = (case ps_Artifacts st of None \<Rightarrow> [] | Some m \<Rightarrow> m)" for st :: TeamPhaseState
  obtain st where st: "LoadPhaseState d = Inr st"
    and d': "d' = fput phase_file (Doc (st\<lparr>ps_Artifacts := Some (fput key val (arts st))\<rparr>)) d"
    using assms unfolding SetArtifact_def UpdatePhaseState_ok
    by (auto simp: Let_def json_PhaseState_def arts_def)
  show ?thesis
    using st by (auto simp: GetArtifact_def CurrentPhase_def TransitionHistory_def FixLoopCount_def
        d' arts_def split: option.splits)
qed

theorem SetArtifact_GetArtifact_witness:
  "\<exists>d'. SetArtifact (quiet_env 5 []) (ex_phase PhaseExec 0) ''plan'' ''x'' = (Inr (), d')
      \<and> GetArtifact d' ''plan'' = Inr ''x''"
proof -
  obtain d' where d': "SetArtifact (quiet_env 5 []) (ex_phase PhaseExec 0) ''plan'' ''x'' = (Inr (), d')"
    unfolding SetArtifact_def UpdatePhaseState_ok by (simp add: LoadPhaseState_Inr ex_phase_def Let_def)
  show ?thesis using d' SetArtifact_GetArtifact [OF d', of "''plan''"] by auto
qed

end
