(* ===== verification/Governance.thy ===== *)
theory Governance
  imports Team_Store
begin

text \<open>
  \<open>internal/team/governance.go\<close>: the governance policy that the coordinator consults before a
  claim and before a phase transition. A rule is one of the three built-in rules or a nil entry of
  the rule list; the context enters as the answer of \<open>ctx.Err()\<close>.
\<close>

datatype DecisionType = DecisionClaim | DecisionTransition | DecisionAssign

record Decision =
  dc_Type :: DecisionType
  dc_WorkerID :: string
  dc_TaskID :: string
  dc_Phase :: TeamPhase
  dc_TeamName :: string
  dc_WorkerActiveTasks :: int
  dc_ActiveWorkerCount :: int
  dc_CurrentPhaseTasksTerminal :: bool

datatype PolicyRule =
    MaxConcurrentTasksRule int
  | PhaseGateRule
  | WorkerCapacityRule int
  | NilRule

datatype GovernanceError =
    CtxError go_error
  | PolicyViolation string Decision go_error

fun rule_Name :: "PolicyRule \<Rightarrow> string" where
  "rule_Name (MaxConcurrentTasksRule n) = ''max_concurrent_tasks''"
| "rule_Name PhaseGateRule = ''phase_gate''"
| "rule_Name (WorkerCapacityRule n) = ''worker_capacity''"
| "rule_Name NilRule = ''''"

definition quote_str :: "string \<Rightarrow> string" where
  "quote_str s = CHR 34 # s @ [CHR 34]"

text \<open>The \<open>Check\<close> methods; every rule looks at the context first.\<close>

fun rule_Check :: "go_error option \<Rightarrow> PolicyRule \<Rightarrow> Decision \<Rightarrow> go_error option" where
  "rule_Check (Some err) r d = Some err"
| "rule_Check None (MaxConcurrentTasksRule maxTasks) d =
     (if dc_Type d \<noteq> DecisionClaim then None
      else if maxTasks \<le> 0 then None
      else if dc_WorkerActiveTasks d \<ge> maxTasks then
        Some (ErrMsg (''worker '' @ quote_str (dc_WorkerID d) @
                      '' has reached max concurrent tasks ('' @ fmt_int maxTasks @ '')''))
      else None)"
| "rule_Check None PhaseGateRule d =
     (if dc_Type d \<noteq> DecisionTransition then None
      else if \<not> dc_CurrentPhaseTasksTerminal d then
        Some (ErrMsg (''phase '' @ quote_str (phase_String (dc_Phase d)) @ '' still has non-terminal tasks''))
      else None)"
| "rule_Check None (WorkerCapacityRule maxWorkers) d =
     (if dc_Type d \<noteq> DecisionClaim then None
      else if maxWorkers \<le> 0 then None
      else if dc_ActiveWorkerCount d > maxWorkers then
        Some (ErrMsg (''active worker count ('' @ fmt_int (dc_ActiveWorkerCount d) @
                      '') exceeds max workers ('' @ fmt_int maxWorkers @ '')''))
      else None)"
| "rule_Check None NilRule d = None"

definition AddRule :: "PolicyRule list \<Rightarrow> PolicyRule \<Rightarrow> PolicyRule list" where
  "AddRule rules r = (if r = NilRule then rules else rules @ [r])"

text \<open>
  \<open>GovernancePolicy.Check\<close>: the rules in order; the built-in rules return plain errors, so the
  policy wraps the first one in a \<open>PolicyViolation\<close> with the rule's name and the decision.
\<close>

fun policy_Check :: "go_error option \<Rightarrow> PolicyRule list \<Rightarrow> Decision \<Rightarrow> GovernanceError option" where
  "policy_Check ctx [] d = None"
| "policy_Check ctx (r # rules) d =
     (case ctx of
        Some err \<Rightarrow> Some (CtxError err)
      | None \<Rightarrow>
          (if r = NilRule then policy_Check ctx rules d
           else (case rule_Check ctx r d of
               Some err \<Rightarrow> Some (PolicyViolation (rule_Name r) d err)
             | None \<Rightarrow> policy_Check ctx rules d)))"

fun violation_Unwrap :: "GovernanceError \<Rightarrow> go_error" where
  "violation_Unwrap (CtxError err) = err"
| "violation_Unwrap (PolicyViolation r d err) = err"

section \<open>What a policy allows\<close>

definition rule_allows :: "PolicyRule \<Rightarrow> Decision \<Rightarrow> bool" where
  "rule_allows r d \<longleftrightarrow> rule_Check None r d = None"

lemma policy_Check_None: "policy_Check None rules d = None \<longleftrightarrow> (\<forall>r \<in> set rules. rule_allows r d)"
  by (induction rules) (auto simp: rule_allows_def split: option.splits)

lemma policy_Check_first:
  "policy_Check None rules d = Some v \<Longrightarrow>
    \<exists>pre r post err. rules = pre @ r # post \<and> (\<forall>x \<in> set pre. rule_allows x d)
      \<and> rule_Check None r d = Some err \<and> v = PolicyViolation (rule_Name r) d err"
proof (induction rules)
  case Nil
  then show ?case by simp
next
  case (Cons r rules)
  show ?case
  proof (cases "rule_Check None r d")
    case (Some err)
    then have "r \<noteq> NilRule" by auto
    with Some Cons.prems show ?thesis
      by (intro exI [of _ "[]"] exI [of _ r] exI [of _ rules] exI [of _ err]) simp
  next
    case None
    with Cons.prems have "policy_Check None rules d = Some v" by (auto split: if_splits)
    with Cons.IH obtain pre r' post err where "rules = pre @ r' # post"
        "\<forall>x \<in> set pre. rule_allows x d" "rule_Check None r' d = Some err"
        "v = PolicyViolation (rule_Name r') d err" by blast
    with None show ?thesis
      by (intro exI [of _ "r # pre"] exI [of _ r'] exI [of _ post] exI [of _ err])
         (simp add: rule_allows_def)
  qed
qed

section \<open>Properties\<close>

text \<open>
  With a live context a policy rejects a decision exactly when some rule does, and then it
  reports the first rejecting rule, in the order the rules were added, with that rule's name, the
  decision and the rule's own error.
\<close>

theorem policy_reports_first_violation:
  "(policy_Check None rules d = None \<longleftrightarrow> (\<forall>r \<in> set rules. rule_Check None r d = None)) \<and>
   (\<forall>v. policy_Check None rules d = Some v \<longrightarrow>
     (\<exists>pre r post err. rules = pre @ r # post \<and> (\<forall>x \<in> set pre. rule_Check None x d = None)
        \<and> rule_Check None r d = Some err \<and> v = PolicyViolation (rule_Name r) d err))"
  using policy_Check_None [of rules d] policy_Check_first [of rules d]
  unfolding rule_allows_def by blast

definition ex_decision :: Decision where
  "ex_decision = \<lparr>dc_Type = DecisionClaim, dc_WorkerID = ''w'', dc_TaskID = [], dc_Phase = PhaseExec,
     dc_TeamName = ''t'', dc_WorkerActiveTasks = 3, dc_ActiveWorkerCount = 1,
     dc_CurrentPhaseTasksTerminal = False\<rparr>"

theorem policy_reports_first_violation_witness:
  "policy_Check None [MaxConcurrentTasksRule 3, PhaseGateRule] ex_decision \<noteq> None"
  using policy_reports_first_violation [of "[MaxConcurrentTasksRule 3, PhaseGateRule]" ex_decision]
  by (simp add: ex_decision_def)

text \<open>
  The policy of the coordinator (at most three tasks per worker, the phase gate, at most
  \<open>maxWorkers\<close> workers): a claim passes exactly when the worker has fewer than three active tasks
  and the bound on workers is off or not exceeded; a transition passes exactly when all tasks of
  the phase are terminal; an assignment always passes.
\<close>

theorem coordinator_policy_decides:
  "policy_Check None [MaxConcurrentTasksRule 3, PhaseGateRule, WorkerCapacityRule maxWorkers] d = None
   \<longleftrightarrow> (case dc_Type d of
         DecisionClaim \<Rightarrow> dc_WorkerActiveTasks d < 3
            \<and> (maxWorkers \<le> 0 \<or> dc_ActiveWorkerCount d \<le> maxWorkers)
       | DecisionTransition \<Rightarrow> dc_CurrentPhaseTasksTerminal d
       | DecisionAssign \<Rightarrow> True)"
  by (cases "dc_Type d") auto

end
