(* ===== verification/Ownership.thy ===== *)
theory Ownership
  imports Team_Store
begin

text \<open>
  \<open>internal/team/ownership.go\<close>: the advisory registry of file ownership, one document with a
  map from paths to owners (\<open>None\<close> is a document without the map). Iterating a Go map has no fixed
  order; the association list stands for the map and only look-ups are used in the statements.
\<close>

type_synonym ownership = "((string \<times> FileOwnership) list option) node fdir"

abbreviation ownership_file :: string where
  "ownership_file \<equiv> ''ownership.json''"

definition loadOwnership :: "ownership \<Rightarrow> ((string \<times> FileOwnership) list) result" where
  "loadOwnership d = (case ReadJSON d ownership_file of
      Inl err \<Rightarrow> (if os_IsNotExist err then Inr [] else Inl err)
    | Inr None \<Rightarrow> Inr []
    | Inr (Some m) \<Rightarrow> Inr m)"

definition saveOwnership ::
  "env \<Rightarrow> ownership \<Rightarrow> (string \<times> FileOwnership) list \<Rightarrow> unit result \<times> ownership" where
  "saveOwnership e d m = WriteJSON e d ownership_file (Some m)"

text \<open>The loop of \<open>Claim\<close> over the requested paths: the conflicts so far and the map.\<close>

fun claim_paths :: "time \<Rightarrow> string \<Rightarrow> string \<Rightarrow> string list \<Rightarrow> (string \<times> FileOwnership) list
     \<Rightarrow> FileOwnership list \<times> (string \<times> FileOwnership) list" where
  "claim_paths now workerID taskID [] m = ([], m)"
| "claim_paths now workerID taskID (p # ps) m =
     (let own = \<lparr>fo_Path = p, fo_WorkerID = workerID, fo_TaskID = taskID, fo_ClaimedAt = now\<rparr> in
      case map_of m p of
        Some existing \<Rightarrow>
          (if fo_WorkerID existing \<noteq> workerID then
             (let (cs, m') = claim_paths now workerID taskID ps m in (existing # cs, m'))
           else claim_paths now workerID taskID ps (fput p own m))
      | None \<Rightarrow> claim_paths now workerID taskID ps (fput p own m))"

definition ownership_Claim :: "env \<Rightarrow> ownership \<Rightarrow> string \<Rightarrow> string \<Rightarrow> string list
     \<Rightarrow> FileOwnership list result \<times> ownership" where
  "ownership_Claim e d workerID taskID paths = (case loadOwnership d of
      Inl err \<Rightarrow> (Inl (Wrap ''load ownership'' err), d)
    | Inr m \<Rightarrow>
        (let (conflicts, m') = claim_paths (en_now e) workerID taskID paths m
         in case saveOwnership e d m' of
              (Inl err, d') \<Rightarrow> (Inl (Wrap ''save ownership'' err), d')
            | (Inr _, d') \<Rightarrow> (Inr conflicts, d')))"

definition ownership_ReleaseTask :: "env \<Rightarrow> ownership \<Rightarrow> string \<Rightarrow> unit result \<times> ownership" where
  "ownership_ReleaseTask e d taskID = (case loadOwnership d of
      Inl err \<Rightarrow> (Inl (Wrap ''load ownership'' err), d)
    | Inr m \<Rightarrow> saveOwnership e d (filter (\<lambda>p. fo_TaskID (snd p) \<noteq> taskID) m))"

definition ownership_ListAll :: "ownership \<Rightarrow> FileOwnership list result" where
  "ownership_ListAll d = (case loadOwnership d of
      Inl err \<Rightarrow> Inl (Wrap ''load ownership'' err)
    | Inr m \<Rightarrow> Inr (map snd m))"

text \<open>Who owns a path according to the registry.\<close>

definition owner_of :: "ownership \<Rightarrow> string \<Rightarrow> FileOwnership option" where
  "owner_of d p = (case loadOwnership d of Inl _ \<Rightarrow> None | Inr m \<Rightarrow> map_of m p)"

section \<open>The claim loop\<close>

lemma claim_paths_lookup:
  "claim_paths now w t ps m = (cs, m') \<Longrightarrow>
   map_of m' p = (if p \<in> set ps \<and> (case map_of m p of None \<Rightarrow> True | Some o1 \<Rightarrow> fo_WorkerID o1 = w)
     then Some \<lparr>fo_Path = p, fo_WorkerID = w, fo_TaskID = t, fo_ClaimedAt = now\<rparr> else map_of m p)"
proof (induction ps arbitrary: m cs)
  case Nil
  then show ?case by simp
next
  case (Cons q ps)
  show ?case
  proof (cases "\<exists>o1. map_of m q = Some o1 \<and> fo_WorkerID o1 \<noteq> w")
    case True
    then obtain cs1 where "claim_paths now w t ps m = (cs1, m')"
      using Cons.prems by (auto split: prod.splits)
    from Cons.IH [OF this] True show ?thesis by (auto split: option.splits)
  next
    case False
    then have "claim_paths now w t ps
        (fput q \<lparr>fo_Path = q, fo_WorkerID = w, fo_TaskID = t, fo_ClaimedAt = now\<rparr> m) = (cs, m')"
      using Cons.prems by (auto simp: Let_def split: option.splits if_splits)
    from Cons.IH [OF this] False show ?thesis by (auto split: option.splits)
  qed
qed

lemma claim_paths_conflicts:
  "claim_paths now w t ps m = (cs, m') \<Longrightarrow>
   set cs = {o1. \<exists>p \<in> set ps. map_of m p = Some o1 \<and> fo_WorkerID o1 \<noteq> w}"
proof (induction ps arbitrary: m cs)
  case Nil
  then show ?case by simp
next
  case (Cons q ps)
  show ?case
  proof (cases "\<exists>o1. map_of m q = Some o1 \<and> fo_WorkerID o1 \<noteq> w")
    case True
    then obtain o1 cs1 where o1: "map_of m q = Some o1" "fo_WorkerID o1 \<noteq> w"
      and "claim_paths now w t ps m = (cs1, m')" and "cs = o1 # cs1"
      using Cons.prems by (auto split: prod.splits)
    with Cons.IH show ?thesis by auto
  next
    case False
    let ?m = "fput q \<lparr>fo_Path = q, fo_WorkerID = w, fo_TaskID = t, fo_ClaimedAt = now\<rparr> m"
    have "claim_paths now w t ps ?m = (cs, m')"
      using False Cons.prems by (auto simp: Let_def split: option.splits if_splits)
    from Cons.IH [OF this] False show ?thesis
      by (auto simp: map_of_fput split: if_splits)
  qed
qed

lemma loadOwnership_put [simp]: "loadOwnership (fput ownership_file (Doc (Some m)) d) = Inr m"
  by (simp add: loadOwnership_def)

section \<open>Properties\<close>

text \<open>
  A successful ownership claim reports as conflicts exactly the existing entries of other
  workers among the requested paths, leaves those entries alone, gives every other requested path
  to the caller's worker and task, and changes nothing else.
\<close>

theorem ownership_Claim_respects_owners:
  assumes "ownership_Claim e d w t ps = (Inr cs, d')"
  shows "set cs = {o1. \<exists>p \<in> set ps. owner_of d p = Some o1 \<and> fo_WorkerID o1 \<noteq> w}
    \<and> owner_of d' p = (if p \<in> set ps \<and> (case owner_of d p of None \<Rightarrow> True | Some o1 \<Rightarrow> fo_WorkerID o1 = w)
         then Some \<lparr>fo_Path = p, fo_WorkerID = w, fo_TaskID = t, fo_ClaimedAt = en_now e\<rparr>
         else owner_of d p)"
proof -
  obtain m m' where m: "loadOwnership d = Inr m"
    and loop: "claim_paths (en_now e) w t ps m = (cs, m')"
    and d': "d' = fput ownership_file (Doc (Some m')) d"
    using assms by (auto simp: ownership_Claim_def saveOwnership_def WriteJSON_def Let_def
        split: sum.splits prod.splits option.splits if_splits)
  show ?thesis
    using claim_paths_conflicts [OF loop] claim_paths_lookup [OF loop, of p]
    by (simp add: owner_of_def m d')
qed

theorem ownership_Claim_respects_owners_witness:
  "\<exists>cs d'. ownership_Claim (quiet_env 7 []) [] ''w0'' ''t1'' [''a.go''] = (Inr cs, d')
     \<and> owner_of d' ''a.go'' = Some \<lparr>fo_Path = ''a.go'', fo_WorkerID = ''w0'', fo_TaskID = ''t1'', fo_ClaimedAt = 7\<rparr>"
proof -
  obtain cs d' where c: "ownership_Claim (quiet_env 7 []) [] ''w0'' ''t1'' [''a.go''] = (Inr cs, d')"
    by (simp add: ownership_Claim_def loadOwnership_def ReadJSON_def os_IsNotExist_def saveOwnership_def
        WriteJSON_def)
  have "owner_of [] ''a.go'' = None"
    by (simp add: owner_of_def loadOwnership_def ReadJSON_def os_IsNotExist_def)
  with c ownership_Claim_respects_owners [OF c, of "''a.go''"] show ?thesis by auto
qed

text \<open>
  Releasing a task removes exactly the entries of that task: afterwards no path belongs to it,
  and the entry of every path of another task is unchanged.
\<close>

theorem ownership_ReleaseTask_removes_task:
  assumes "ownership_ReleaseTask e d t = (Inr (), d')"
    and "\<And>m. loadOwnership d = Inr m \<Longrightarrow> distinct (map fst m)"
  shows "owner_of d' p = (case owner_of d p of
      None \<Rightarrow> None | Some o1 \<Rightarrow> (if fo_TaskID o1 = t then None else Some o1))"
proof -
  obtain m where m: "loadOwnership d = Inr m"
    and d': "d' = fput ownership_file (Doc (Some (filter (\<lambda>p. fo_TaskID (snd p) \<noteq> t) m))) d"
    using assms(1) by (auto simp: ownership_ReleaseTask_def saveOwnership_def WriteJSON_ok split: sum.splits)
  have "map_of (filter (\<lambda>p. fo_TaskID (snd p) \<noteq> t) m) p = (case map_of m p of
      None \<Rightarrow> None | Some o1 \<Rightarrow> (if fo_TaskID o1 = t then None else Some o1))"
    using assms(2) [OF m] by (induction m) (auto split: option.splits dest: map_of_SomeD intro: rev_image_eqI)
  then show ?thesis by (simp add: owner_of_def m d')
qed

theorem ownership_ReleaseTask_removes_task_witness:
  "\<exists>d'. ownership_ReleaseTask (quiet_env 7 [])
       [(ownership_file, Doc (Some [(''a.go'', \<lparr>fo_Path = ''a.go'', fo_WorkerID = ''w0'', fo_TaskID = ''t1'', fo_ClaimedAt = 1\<rparr>)]))]
       ''t1'' = (Inr (), d') \<and> owner_of d' ''a.go'' = None"
proof -
  let ?o = "\<lparr>fo_Path = ''a.go'', fo_WorkerID = ''w0'', fo_TaskID = ''t1'', fo_ClaimedAt = 1\<rparr>"
  let ?d = "[(ownership_file, Doc (Some [(''a.go'', ?o)]))]"
  obtain d' where c: "ownership_ReleaseTask (quiet_env 7 []) ?d ''t1'' = (Inr (), d')"
    by (simp add: ownership_ReleaseTask_def loadOwnership_def ReadJSON_def saveOwnership_def WriteJSON_def)
  have l: "loadOwnership ?d = Inr [(''a.go'', ?o)]"
    by (simp add: loadOwnership_def ReadJSON_def)
  have "owner_of d' ''a.go'' = (case owner_of ?d ''a.go'' of
      None \<Rightarrow> None | Some o1 \<Rightarrow> (if fo_TaskID o1 = ''t1'' then None else Some o1))"
    by (rule ownership_ReleaseTask_removes_task [OF c]) (simp add: l)
  with c show ?thesis by (auto simp: owner_of_def l)
qed

end
