(* ===== verification/Mailbox.thy ===== *)
theory Mailbox
  imports Team_Store
begin

text \<open>
  \<open>internal/team/mailbox.go\<close>: messages between workers, one directory per recipient with one
  file per message, named by a random id. The state maps recipients to their directories; a
  recipient without a directory is one \<open>os.ReadDir\<close> does not find.
\<close>

type_synonym inbox = "MailboxMessage node fdir"
type_synonym mailbox = "(string \<times> inbox) list"

definition generateMessageID :: "env \<Rightarrow> string result" where
  "generateMessageID e = (case en_rand e of
      Inl err \<Rightarrow> Inl (Wrap ''generate message id'' err)
    | Inr i \<Rightarrow> Inr i)"

text \<open>
  The write fault named after the recipient is a failing \<open>MkdirAll\<close>; a directory that was
  created stays when the message cannot be written.
\<close>

definition Send :: "env \<Rightarrow> mailbox \<Rightarrow> string \<Rightarrow> string \<Rightarrow> string \<Rightarrow> unit result \<times> mailbox" where
  "Send e s from to content = (case generateMessageID e of
      Inl err \<Rightarrow> (Inl err, s)
    | Inr i \<Rightarrow>
        (let msg = \<lparr>mm_ID = i, mm_From = from, mm_To = to, mm_Content = content,
                    mm_Timestamp = en_now e, mm_Status = MessagePending\<rparr>
         in case en_wfault e to of
              Some err \<Rightarrow> (Inl (Wrap ''create mailbox dir'' err), s)
            | None \<Rightarrow>
                (let (r, d) = WriteJSON e (case map_of s to of None \<Rightarrow> [] | Some d \<Rightarrow> d) (i @ ''.json'') msg
                 in (r, fput to d s))))"

text \<open>\<open>es k\<close> is what the \<open>k\<close>-th recipient's turn observes.\<close>

fun Broadcast ::
  "(nat \<Rightarrow> env) \<Rightarrow> mailbox \<Rightarrow> string \<Rightarrow> string list \<Rightarrow> string \<Rightarrow> unit result \<times> mailbox" where
  "Broadcast es s from [] content = (Inr (), s)"
| "Broadcast es s from (to # recipients) content =
     (if to = from then Broadcast (\<lambda>k. es (Suc k)) s from recipients content
      else (case Send (es 0) s from to content of
          (Inl err, s') \<Rightarrow> (Inl (Wrap (''broadcast to '' @ to) err), s')
        | (Inr _, s') \<Rightarrow> Broadcast (\<lambda>k. es (Suc k)) s' from recipients content))"

definition inbox_ReadDir :: "env \<Rightarrow> mailbox \<Rightarrow> string \<Rightarrow> inbox result" where
  "inbox_ReadDir e s workerID = (case en_dirfault e of
      Some err \<Rightarrow> Inl err
    | None \<Rightarrow> (case map_of s workerID of None \<Rightarrow> Inl ErrNotExist | Some d \<Rightarrow> Inr d))"

definition read_pending :: "inbox \<Rightarrow> string \<Rightarrow> MailboxMessage option" where
  "read_pending d n = (case ReadJSON d n of
      Inl _ \<Rightarrow> None
    | Inr msg \<Rightarrow> (if mm_Status msg = MessagePending then Some msg else None))"

definition ListPending :: "env \<Rightarrow> mailbox \<Rightarrow> string \<Rightarrow> MailboxMessage list result" where
  "ListPending e s workerID = (case inbox_ReadDir e s workerID of
      Inl err \<Rightarrow> (if os_IsNotExist err then Inr [] else Inl (Wrap ''read mailbox dir'' err))
    | Inr d \<Rightarrow> Inr (List.map_filter (read_pending d) (json_files d)))"

definition message_part :: "MailboxMessage \<Rightarrow> string" where
  "message_part msg = ''[from '' @ mm_From msg @ '']: '' @ mm_Content msg"

text \<open>The loop of \<open>DrainPending\<close> over the listed files; a failing write is passed over.\<close>

fun drain_loop :: "env \<Rightarrow> inbox \<Rightarrow> string list \<Rightarrow> string list \<times> inbox" where
  "drain_loop e d [] = ([], d)"
| "drain_loop e d (n # ns) = (case ReadJSON d n of
      Inl _ \<Rightarrow> drain_loop e d ns
    | Inr msg \<Rightarrow>
        (if mm_Status msg \<noteq> MessagePending then drain_loop e d ns
         else (let (r, d') = WriteJSON e d n (msg\<lparr>mm_Status := MessageDelivered\<rparr>);
                   (parts, d'') = drain_loop e d' ns
               in (message_part msg # parts, d''))))"

abbreviation newline :: string where
  "newline \<equiv> [CHR 10]"

definition formatMailboxInjection :: "string list \<Rightarrow> string" where
  "formatMailboxInjection messages = (if messages = [] then []
     else newline @ ''--- Team Messages ---'' @ newline
          @ concat (map (\<lambda>m. m @ newline) messages)
          @ ''--- End Team Messages ---'' @ newline)"

definition DrainPending :: "env \<Rightarrow> mailbox \<Rightarrow> string \<Rightarrow> string result \<times> mailbox" where
  "DrainPending e s workerID = (case inbox_ReadDir e s workerID of
      Inl err \<Rightarrow> (if os_IsNotExist err then (Inr [], s) else (Inl (Wrap ''read mailbox dir'' err), s))
    | Inr d \<Rightarrow>
        (let (parts, d') = drain_loop e d (json_files d);
             s' = fput workerID d' s
         in if parts = [] then (Inr [], s') else (Inr (formatMailboxInjection parts), s')))"

section \<open>The drain loop\<close>

text \<open>The files of pending messages, and the state after they were marked, where that succeeds.\<close>

definition deliver :: "env \<Rightarrow> inbox \<Rightarrow> string \<Rightarrow> MailboxMessage node option" where
  "deliver e d n = (case read_pending d n of
      None \<Rightarrow> map_of d n
    | Some msg \<Rightarrow> (if en_wfault e n = None then Some (Doc (msg\<lparr>mm_Status := MessageDelivered\<rparr>)) else map_of d n))"

lemma read_pending_Some: "read_pending d n = Some msg \<longleftrightarrow>
    map_of d n = Some (Doc msg) \<and> mm_Status msg = MessagePending"
  by (auto simp: read_pending_def ReadJSON_Inr [symmetric] split: sum.splits)

lemma read_pending_cong: "map_of d n = map_of d' n \<Longrightarrow> read_pending d n = read_pending d' n"
  by (simp add: read_pending_def ReadJSON_def)

lemma map_filter_cong2: "(\<And>x. x \<in> set xs \<Longrightarrow> f x = g x) \<Longrightarrow> List.map_filter f xs = List.map_filter g xs"
  by (induction xs) (auto simp: List.map_filter_simps split: option.splits)

lemma drain_step:
  "drain_loop e d (n # ns) = (case read_pending d n of
      None \<Rightarrow> drain_loop e d ns
    | Some msg \<Rightarrow>
        (let (parts, d') = drain_loop e (snd (WriteJSON e d n (msg\<lparr>mm_Status := MessageDelivered\<rparr>))) ns
         in (message_part msg # parts, d')))"
  by (auto simp: read_pending_def Let_def split: sum.splits prod.splits)

lemma drain_write:
  assumes "read_pending d n = Some msg"
  shows "map_of (snd (WriteJSON e d n (msg\<lparr>mm_Status := MessageDelivered\<rparr>))) k =
    (if k = n then deliver e d n else map_of d k)"
proof -
  have "map_of d n = Some (Doc msg)" using assms by (simp add: read_pending_Some)
  then show ?thesis using assms by (auto simp: WriteJSON_def deliver_def split: option.splits)
qed

lemma drain_write_files:
  assumes "read_pending d n = Some msg" and "wf_dir d"
  shows "wf_dir (snd (WriteJSON e d n v)) \<and> json_files (snd (WriteJSON e d n v)) = json_files d"
proof -
  have "map_of d n = Some (Doc msg)" using assms by (simp add: read_pending_Some)
  with assms(2) show ?thesis
    by (auto simp: WriteJSON_def dir_wf json_files_overwrite split: option.splits)
qed

lemma drain_loop_spec:
  "distinct ns \<Longrightarrow> drain_loop e d ns = (parts, d') \<Longrightarrow>
     parts = map message_part (List.map_filter (read_pending d) ns)
   \<and> (\<forall>n. map_of d' n = (if n \<in> set ns then deliver e d n else map_of d n))
   \<and> (wf_dir d \<longrightarrow> wf_dir d' \<and> json_files d' = json_files d)"
proof (induction ns arbitrary: d parts)
  case Nil
  then show ?case by (simp add: List.map_filter_simps)
next
  case (Cons n ns)
  show ?case
  proof (cases "read_pending d n")
    case None
    then have "drain_loop e d ns = (parts, d')" using Cons.prems by (simp only: drain_step option.case)
    with Cons.IH Cons.prems(1) None show ?thesis
      by (auto simp: List.map_filter_simps deliver_def)
  next
    case (Some msg)
    let ?d = "snd (WriteJSON e d n (msg\<lparr>mm_Status := MessageDelivered\<rparr>))"
    obtain parts' where run: "drain_loop e ?d ns = (parts', d')" and parts: "parts = message_part msg # parts'"
      using Cons.prems(2) Some by (simp only: drain_step option.case) (auto simp: Let_def split: prod.splits)
    note new = drain_write [OF Some, of e]
    have other: "read_pending ?d k = read_pending d k" "deliver e ?d k = deliver e d k" if "k \<in> set ns" for k
    proof -
      have k: "map_of ?d k = map_of d k" using that Cons.prems(1) by (auto simp: new)
      then show "read_pending ?d k = read_pending d k" by (rule read_pending_cong)
      with k show "deliver e ?d k = deliver e d k"
        by (cases "read_pending d k") (simp_all add: deliver_def)
    qed
    have IH: "parts' = map message_part (List.map_filter (read_pending ?d) ns)"
        "\<And>k. map_of d' k = (if k \<in> set ns then deliver e ?d k else map_of ?d k)" 
        "wf_dir ?d \<longrightarrow> wf_dir d' \<and> json_files d' = json_files ?d"
      using Cons.IH [OF _ run] Cons.prems(1) by auto
    have "List.map_filter (read_pending ?d) ns = List.map_filter (read_pending d) ns"
      by (rule map_filter_cong2) (rule other)
    then show ?thesis
      using IH Some parts other Cons.prems(1) drain_write_files [OF Some]
      by (auto simp: List.map_filter_simps new)
  qed
qed

section \<open>Inboxes\<close>

definition inbox_of :: "mailbox \<Rightarrow> string \<Rightarrow> inbox" where
  "inbox_of s w = (case map_of s w of None \<Rightarrow> [] | Some d \<Rightarrow> d)"

lemma ListPending_inbox: "en_dirfault e = None \<Longrightarrow>
    ListPending e s w = Inr (List.map_filter (read_pending (inbox_of s w)) (json_files (inbox_of s w)))"
  by (auto simp: ListPending_def inbox_ReadDir_def inbox_of_def os_IsNotExist_def json_files_def
      List.map_filter_simps split: option.splits)

lemma DrainPending_inbox:
  assumes "en_dirfault e = None" and "drain_loop e (inbox_of s w) (json_files (inbox_of s w)) = (parts, d')"
  shows "fst (DrainPending e s w) = Inr (formatMailboxInjection parts)"
    and "inbox_of (snd (DrainPending e s w)) w = d'"
    and "v \<noteq> w \<Longrightarrow> map_of (snd (DrainPending e s w)) v = map_of s v"
  using assms by (auto simp: DrainPending_def inbox_ReadDir_def inbox_of_def os_IsNotExist_def
      json_files_def formatMailboxInjection_def Let_def split: option.splits)

lemma set_map_filter: "set (List.map_filter f xs) = {y. \<exists>x \<in> set xs. f x = Some y}"
  by (induction xs) (auto simp: List.map_filter_simps split: option.splits)

lemma set_pending:
  "wf_dir d \<Longrightarrow> set (List.map_filter (read_pending d) (json_files d)) =
     {m. \<exists>n. map_of d n = Some (Doc m) \<and> mm_Status m = MessagePending \<and> has_suffix n ''.json'' \<and> CHR ''/'' \<notin> set n}"
  by (auto simp: set_map_filter read_pending_Some json_files_mem)

section \<open>Properties\<close>

text \<open>
  \<open>DrainPending\<close> hands over every pending message of the worker exactly once, formatted in
  file-name order; afterwards exactly the messages whose file could not be rewritten are still
  pending (they are handed over again by the next call: delivery is at least once), so without
  write faults none is, and the mailboxes of other workers are untouched.
\<close>

theorem DrainPending_delivers_all:
  assumes dir: "en_dirfault e = None" and wf: "wf_dir (inbox_of s w)"
    and run: "DrainPending e s w = (r, s')"
  shows "\<exists>ms. ListPending e s w = Inr ms \<and> r = Inr (formatMailboxInjection (map message_part ms))
    \<and> ListPending e s' w = Inr (List.map_filter
         (\<lambda>n. if en_wfault e n = None then None else read_pending (inbox_of s w) n) (json_files (inbox_of s w)))
    \<and> (\<forall>v. v \<noteq> w \<longrightarrow> map_of s' v = map_of s v)"
proof -
  let ?d = "inbox_of s w"
  obtain parts d' where loop: "drain_loop e ?d (json_files ?d) = (parts, d')"
    by (cases "drain_loop e ?d (json_files ?d)")
  note spec = drain_loop_spec [OF json_files_distinct [OF wf] loop]
  have "read_pending d' n = (if en_wfault e n = None then None else read_pending ?d n)"
    if n: "n \<in> set (json_files ?d)" for n
  proof (cases "read_pending ?d n")
    case None
    then have "map_of d' n = map_of ?d n" using spec n by (simp add: deliver_def)
    with None show ?thesis by (metis read_pending_cong)
  next
    case (Some msg)
    then have "map_of d' n = (if en_wfault e n = None then Some (Doc (msg\<lparr>mm_Status := MessageDelivered\<rparr>))
        else map_of ?d n)"
      using spec n by (simp add: deliver_def)
    with Some show ?thesis
      by (cases "read_pending d' n") (auto simp: read_pending_Some, auto simp: read_pending_def ReadJSON_def)
  qed
  then have "List.map_filter (read_pending d') (json_files ?d) = List.map_filter
      (\<lambda>n. if en_wfault e n = None then None else read_pending ?d n) (json_files ?d)"
    by (rule map_filter_cong2)
  then show ?thesis
    using DrainPending_inbox [OF dir loop] run spec wf by (auto simp: ListPending_inbox [OF dir])
qed

definition ex_message :: MailboxMessage where
  "ex_message = \<lparr>mm_ID = ''m1'', mm_From = ''w0'', mm_To = ''w1'', mm_Content = ''hi'',
     mm_Timestamp = 5, mm_Status = MessagePending\<rparr>"

theorem DrainPending_delivers_all_witness:
  "\<exists>s'. DrainPending (quiet_env 9 []) [(''w1'', [(''m1.json'', Doc ex_message)])] ''w1'' =
       (Inr (formatMailboxInjection [''[from w0]: hi'']), s')
     \<and> ListPending (quiet_env 9 []) s' ''w1'' = Inr []"
proof -
  let ?s = "[(''w1'', [(''m1.json'', Doc ex_message)])]"
  obtain r s' where run: "DrainPending (quiet_env 9 []) ?s ''w1'' = (r, s')"
    by (cases "DrainPending (quiet_env 9 []) ?s ''w1''")
  have wf: "wf_dir (inbox_of ?s ''w1'')" by (simp add: inbox_of_def wf_dir_def)
  have "ListPending (quiet_env 9 []) ?s ''w1'' = Inr [ex_message]" by code_simp
  moreover have "message_part ex_message = ''[from w0]: hi''" by code_simp
  moreover have "List.map_filter (\<lambda>n. None :: MailboxMessage option) xs = []" for xs :: "string list"
    by (induction xs) (simp_all add: List.map_filter_simps)
  ultimately show ?thesis
    using DrainPending_delivers_all [OF _ wf run] run by auto
qed

text \<open>
  A message that was sent under a new id is pending for its recipient, with the sender and the
  content it was sent with, next to the messages that were pending before; no other worker's pending
  messages change.
\<close>

theorem Send_then_ListPending:
  assumes send: "Send e s from to content = (Inr (), s')" and i: "en_rand e = Inr i" "CHR ''/'' \<notin> set i"
    and fresh: "map_of (inbox_of s to) (i @ ''.json'') = None" and wf: "wf_dir (inbox_of s to)"
    and dir: "en_dirfault e' = None"
  shows "\<exists>ms ms'. ListPending e' s to = Inr ms \<and> ListPending e' s' to = Inr ms'
    \<and> set ms' = insert \<lparr>mm_ID = i, mm_From = from, mm_To = to, mm_Content = content,
                        mm_Timestamp = en_now e, mm_Status = MessagePending\<rparr> (set ms)
    \<and> (\<forall>v. v \<noteq> to \<longrightarrow> ListPending e' s' v = ListPending e' s v)"
proof -
  let ?msg = "\<lparr>mm_ID = i, mm_From = from, mm_To = to, mm_Content = content,
                mm_Timestamp = en_now e, mm_Status = MessagePending\<rparr>"
  let ?d = "fput (i @ ''.json'') (Doc ?msg) (inbox_of s to)"
  have s': "s' = fput to ?d s"
    using send i(1) by (auto simp: Send_def generateMessageID_def inbox_of_def WriteJSON_ok Let_def
        split: option.splits prod.splits)
  then have boxes: "inbox_of s' to = ?d" "\<And>v. v \<noteq> to \<Longrightarrow> inbox_of s' v = inbox_of s v"
    by (simp_all add: inbox_of_def)
  have "set (List.map_filter (read_pending ?d) (json_files ?d)) =
      insert ?msg (set (List.map_filter (read_pending (inbox_of s to)) (json_files (inbox_of s to))))"
    using fresh i(2) by (auto simp: set_pending [OF wf] set_pending [OF fd.wf_put [OF wf]] split: if_splits)
       (metis option.distinct(1))
  then show ?thesis by (simp add: ListPending_inbox [OF dir] boxes)
qed

theorem Send_then_ListPending_witness:
  "\<exists>s' ms'. Send (quiet_env 5 ''m1'') [] ''w0'' ''w1'' ''hi'' = (Inr (), s')
     \<and> ListPending (quiet_env 6 []) s' ''w1'' = Inr ms' \<and> ex_message \<in> set ms'"
proof -
  obtain s' where send: "Send (quiet_env 5 ''m1'') [] ''w0'' ''w1'' ''hi'' = (Inr (), s')"
    by (simp add: Send_def generateMessageID_def WriteJSON_def)
  show ?thesis
    using send Send_then_ListPending [OF send, of "''m1''" "quiet_env 6 []"]
    by (auto simp: inbox_of_def ex_message_def)
qed

end
