(* ===== verification/Heartbeat_Monitor.thy ===== *)
theory Heartbeat_Monitor
  imports Team_Store
begin

text \<open>
  \<open>internal/team/heartbeat.go\<close>: one heartbeat file per worker directory. The state maps the name
  of a worker directory to the modification time and the contents of its \<open>heartbeat.json\<close>; a
  worker directory without that file has no entry, and every scan passes over it. A worker id is
  taken to be a single path component.
\<close>

type_synonym heartbeats = "(time \<times> Heartbeat node) fdir"

definition hb_docs :: "heartbeats \<Rightarrow> Heartbeat node fdir" where
  "hb_docs s = map (\<lambda>(n, (_, v)). (n, v)) s"

definition heartbeat_Write :: "env \<Rightarrow> heartbeats \<Rightarrow> Heartbeat \<Rightarrow> unit result \<times> heartbeats" where
  "heartbeat_Write e s hb =
     (if hb_WorkerID hb = [] then (Inl (ErrMsg ''write heartbeat: worker ID is required''), s)
      else let hb' = (if hb_Timestamp hb = zero_time then hb\<lparr>hb_Timestamp := en_now e\<rparr> else hb)
           in case fst (WriteJSON e (hb_docs s) (hb_WorkerID hb') hb') of
                Inl err \<Rightarrow> (Inl (Wrap ''write heartbeat'' err), s)
              | Inr _ \<Rightarrow> (Inr (), fput (hb_WorkerID hb') (en_now e, Doc hb') s))"

definition heartbeat_readLocked :: "heartbeats \<Rightarrow> string \<Rightarrow> Heartbeat result" where
  "heartbeat_readLocked s workerID = (case ReadJSON (hb_docs s) workerID of
      Inl err \<Rightarrow> Inl (Wrap ''read heartbeat'' err)
    | Inr hb \<Rightarrow> Inr hb)"

definition heartbeat_Read :: "heartbeats \<Rightarrow> string \<Rightarrow> Heartbeat result" where
  "heartbeat_Read s workerID = heartbeat_readLocked s workerID"

definition isStaleAt :: "duration \<Rightarrow> time \<Rightarrow> time \<Rightarrow> bool" where
  "isStaleAt staleThreshold now mtime =
     (if staleThreshold \<le> 0 then False else time_sub now mtime > staleThreshold)"

text \<open>\<open>os.Stat\<close> of the heartbeat file, reduced to the modification time.\<close>

definition heartbeat_Stat :: "env \<Rightarrow> heartbeats \<Rightarrow> string \<Rightarrow> time result" where
  "heartbeat_Stat e s workerID = (case en_statfault e workerID of
      Some err \<Rightarrow> Inl err
    | None \<Rightarrow> (case map_of s workerID of None \<Rightarrow> Inl ErrNotExist | Some (mtime, _) \<Rightarrow> Inr mtime))"

definition IsStale :: "duration \<Rightarrow> env \<Rightarrow> heartbeats \<Rightarrow> string \<Rightarrow> bool result" where
  "IsStale staleThreshold e s workerID = (case heartbeat_Stat e s workerID of
      Inl err \<Rightarrow> (if errors_is err ErrNotExist then Inr True
                   else Inl (Wrap ''read heartbeat metadata'' err))
    | Inr mtime \<Rightarrow> Inr (isStaleAt staleThreshold (en_now e) mtime))"

text \<open>
  The scan of \<open>listAllLocked\<close> over the worker directories: missing and malformed heartbeats are
  passed over, another error ends it.
\<close>

fun read_heartbeats :: "heartbeats \<Rightarrow> string list \<Rightarrow> Heartbeat list result" where
  "read_heartbeats s [] = Inr []"
| "read_heartbeats s (n # ns) = (case heartbeat_readLocked s n of
      Inl err \<Rightarrow>
        (if errors_is err ErrNotExist then read_heartbeats s ns
         else if isJSONUnmarshalError err then read_heartbeats s ns
         else Inl (Wrap (''read heartbeat '' @ n) err))
    | Inr hb \<Rightarrow> (case read_heartbeats s ns of
          Inl err \<Rightarrow> Inl err
        | Inr hbs \<Rightarrow> Inr (hb # hbs)))"

definition heartbeat_listAllLocked :: "env \<Rightarrow> heartbeats \<Rightarrow> Heartbeat list result" where
  "heartbeat_listAllLocked e s = (case en_dirfault e of
      Some err \<Rightarrow> (if os_IsNotExist err then Inr [] else Inl (Wrap ''read workers dir'' err))
    | None \<Rightarrow> read_heartbeats s (map fst s))"

definition heartbeat_ListAll :: "env \<Rightarrow> heartbeats \<Rightarrow> Heartbeat list result" where
  "heartbeat_ListAll e s = heartbeat_listAllLocked e s"

fun stale_loop :: "duration \<Rightarrow> env \<Rightarrow> heartbeats \<Rightarrow> Heartbeat list \<Rightarrow> Heartbeat list result" where
  "stale_loop staleThreshold e s [] = Inr []"
| "stale_loop staleThreshold e s (hb # hbs) = (case heartbeat_Stat e s (hb_WorkerID hb) of
      Inl err \<Rightarrow> (if errors_is err ErrNotExist then stale_loop staleThreshold e s hbs
                   else Inl (Wrap (''read heartbeat metadata '' @ hb_WorkerID hb) err))
    | Inr mtime \<Rightarrow> (case stale_loop staleThreshold e s hbs of
          Inl err \<Rightarrow> Inl err
        | Inr r \<Rightarrow> Inr (if isStaleAt staleThreshold (en_now e) mtime then hb # r else r)))"

definition ListStale :: "duration \<Rightarrow> env \<Rightarrow> heartbeats \<Rightarrow> Heartbeat list result" where
  "ListStale staleThreshold e s = (case heartbeat_listAllLocked e s of
      Inl err \<Rightarrow> Inl err
    | Inr all \<Rightarrow> stale_loop staleThreshold e s all)"

section \<open>Laws\<close>

text \<open>A directory of heartbeats as the monitor's own writes leave it: each file names its worker.\<close>

definition heartbeats_ok :: "heartbeats \<Rightarrow> bool" where
  "heartbeats_ok s \<longleftrightarrow> wf_dir s \<and>
     (\<forall>n t hb. map_of s n = Some (t, Doc hb) \<longrightarrow> hb_WorkerID hb = n)"

lemma hb_docs_lookup: "map_of (hb_docs s) n = map_option snd (map_of s n)"
  by (induction s) (auto simp: hb_docs_def)

lemma heartbeat_readLocked_Inr:
  "heartbeat_readLocked s n = Inr hb \<longleftrightarrow> (\<exists>t. map_of s n = Some (t, Doc hb))"
  by (auto simp: heartbeat_readLocked_def ReadJSON_Inr hb_docs_lookup split: sum.splits)
     (auto simp: ReadJSON_def hb_docs_lookup)

lemma heartbeat_Write_ok: "heartbeat_Write e s hb = (Inr (), s') \<longleftrightarrow>
    hb_WorkerID hb \<noteq> [] \<and> en_wfault e (hb_WorkerID hb) = None
    \<and> map_option snd (map_of s (hb_WorkerID hb)) \<noteq> Some SubDir
    \<and> s' = fput (hb_WorkerID hb)
        (en_now e, Doc (if hb_Timestamp hb = 0 then hb\<lparr>hb_Timestamp := en_now e\<rparr> else hb)) s"
  by (auto simp: heartbeat_Write_def WriteJSON_def hb_docs_lookup Let_def split: option.splits if_splits)

lemma heartbeats_ok_Write: "heartbeats_ok s \<Longrightarrow> heartbeats_ok (snd (heartbeat_Write e s hb))"
  by (auto simp: heartbeats_ok_def heartbeat_Write_def Let_def dir_wf split: sum.splits if_splits)

lemma read_heartbeats_mem:
  "read_heartbeats s ns = Inr hbs \<Longrightarrow>
     hb \<in> set hbs \<longleftrightarrow> (\<exists>n \<in> set ns. heartbeat_readLocked s n = Inr hb)"
  by (induction ns arbitrary: hbs) (auto split: sum.splits if_splits)

lemma ListAll_mem:
  assumes "heartbeats_ok s" and "en_dirfault e = None" and "heartbeat_ListAll e s = Inr hbs"
  shows "hb \<in> set hbs \<longleftrightarrow> (\<exists>t. map_of s (hb_WorkerID hb) = Some (t, Doc hb))"
proof -
  have "hb \<in> set hbs \<longleftrightarrow> (\<exists>n \<in> fst ` set s. \<exists>t. map_of s n = Some (t, Doc hb))"
    using assms(2,3) read_heartbeats_mem [of s "map fst s" hbs hb]
    by (simp add: heartbeat_ListAll_def heartbeat_listAllLocked_def heartbeat_readLocked_Inr)
  also have "\<dots> \<longleftrightarrow> (\<exists>t. map_of s (hb_WorkerID hb) = Some (t, Doc hb))"
    using assms(1) unfolding heartbeats_ok_def by (metis domI dom_map_of_conv_image_fst)
  finally show ?thesis .
qed

section \<open>Properties\<close>

text \<open>
  After a heartbeat was written at time \<open>t\<close>, reading it gives what was written (stamped with
  the clock when it had no timestamp), and the worker counts as stale at a later time exactly when
  a threshold is set and more than the threshold has passed since \<open>t\<close>; other workers are unaffected.
\<close>

theorem heartbeat_freshness:
  assumes "heartbeat_Write e s hb = (Inr (), s')" and "\<And>w. en_statfault e' w = None"
  shows "heartbeat_Read s' (hb_WorkerID hb) =
           Inr (if hb_Timestamp hb = 0 then hb\<lparr>hb_Timestamp := en_now e\<rparr> else hb)
       \<and> IsStale T e' s' (hb_WorkerID hb) = Inr (0 < T \<and> T < time_sub (en_now e') (en_now e))
       \<and> (w \<noteq> hb_WorkerID hb \<longrightarrow> heartbeat_Read s' w = heartbeat_Read s w
            \<and> IsStale T e' s' w = IsStale T e' s w)"
  using assms unfolding heartbeat_Write_ok
  by (auto simp: heartbeat_Read_def heartbeat_readLocked_def IsStale_def heartbeat_Stat_def isStaleAt_def
      ReadJSON_def hb_docs_lookup)

theorem heartbeat_freshness_witness:
  "\<exists>s'. heartbeat_Write (quiet_env 100 []) [] \<lparr>hb_WorkerID = ''w0'', hb_PID = 7, hb_CurrentTask = [],
          hb_Status = ''idle'', hb_Timestamp = 0\<rparr> = (Inr (), s')
     \<and> IsStale 10 (quiet_env 105 []) s' ''w0'' = Inr False
     \<and> IsStale 10 (quiet_env 120 []) s' ''w0'' = Inr True"
proof -
  let ?hb = "\<lparr>hb_WorkerID = ''w0'', hb_PID = 7, hb_CurrentTask = [], hb_Status = ''idle'', hb_Timestamp = 0\<rparr>"
  obtain s' where w: "heartbeat_Write (quiet_env 100 []) [] ?hb = (Inr (), s')"
    by (simp add: heartbeat_Write_ok)
  have "time_sub 105 100 = 5" "time_sub 120 100 = 20" by code_simp+
  then show ?thesis
    using w heartbeat_freshness [OF w, of "quiet_env 105 []" 10] heartbeat_freshness [OF w, of "quiet_env 120 []" 10]
    by auto
qed

end
