(* ===== verification/Allocation.thy ===== *)
theory Allocation
  imports Team_Types "HOL-Library.Multiset"
begin

text \<open>
  \<open>internal/team/allocation.go\<close>: choosing an owner for a task, allocating a list of tasks, and
  proposing owners for unowned tasks. \<open>sort.Slice\<close> leaves the order of equal elements open; the
  model sorts stably, and \<open>choose_loop_perm\<close> shows that the order does not matter for the choice.
\<close>

record AllocationTaskInput =
  at_ID :: string
  at_Subject :: string
  at_Description :: string
  at_Role :: string
  at_BlockedBy :: "string list"
  at_DependsOn :: "string list"
  at_Status :: string
  at_Owner :: string

record AllocationWorkerInput =
  aw_Name :: string
  aw_Role :: string
  aw_PrimaryRole :: string

record AllocationDecision =
  ad_Owner :: string
  ad_Reason :: string

record RebalanceWorkerInput =
  rw_Worker :: AllocationWorkerInput
  rw_Alive :: bool
  rw_Status :: string

record RebalanceDecision =
  rd_Type :: string
  rd_TaskID :: string
  rd_WorkerName :: string
  rd_Reason :: string

definition scoreWorker :: "AllocationTaskInput \<Rightarrow> string \<Rightarrow> string \<Rightarrow> string \<Rightarrow> int \<Rightarrow> int" where
  "scoreWorker task name workerRole workerPrimaryRole assignedCount =
     (let taskRole = at_Role task in
      (if taskRole \<noteq> [] \<and> workerPrimaryRole = taskRole then 18 else 0)
    + (if taskRole \<noteq> [] \<and> workerRole = taskRole then 12 else 0)
    + (if taskRole \<noteq> [] \<and> workerPrimaryRole = [] \<and> assignedCount = 0 then 5 else 0)
    - assignedCount * 4
    - (if at_BlockedBy task \<noteq> [] then assignedCount else 0))"

fun countAssignments :: "AllocationDecision list \<Rightarrow> string \<Rightarrow> int" where
  "countAssignments [] workerName = 0"
| "countAssignments (a # as) workerName =
     (if ad_Owner a = workerName then 1 else 0) + countAssignments as workerName"

text \<open>The score of one worker as the loop of \<open>ChooseTaskOwner\<close> computes it.\<close>

definition worker_score ::
  "AllocationTaskInput \<Rightarrow> AllocationDecision list \<Rightarrow> AllocationWorkerInput \<Rightarrow> int" where
  "worker_score task current worker =
     (let primaryRole = aw_PrimaryRole worker;
          workerRole = (if aw_Role worker = [] then primaryRole else aw_Role worker)
      in scoreWorker task (aw_Name worker) workerRole primaryRole
           (countAssignments current (aw_Name worker)))"

text \<open>The loop; the accumulator is \<open>(bestOwner, bestScore, bestAssignedCount)\<close>, \<open>None\<close> before the first worker.\<close>

fun choose_loop ::
  "AllocationTaskInput \<Rightarrow> AllocationDecision list \<Rightarrow> (string \<times> int \<times> int) option
     \<Rightarrow> AllocationWorkerInput list \<Rightarrow> (string \<times> int \<times> int) option" where
  "choose_loop task current best [] = best"
| "choose_loop task current best (worker # ws) =
     (let score = worker_score task current worker;
          assignedCount = countAssignments current (aw_Name worker)
      in choose_loop task current
           (case best of
              None \<Rightarrow> Some (aw_Name worker, score, assignedCount)
            | Some (bestOwner, bestScore, bestAssignedCount) \<Rightarrow>
                (if score > bestScore \<or> score = bestScore \<and>
                     (assignedCount < bestAssignedCount \<or>
                      assignedCount = bestAssignedCount \<and> aw_Name worker < bestOwner)
                 then Some (aw_Name worker, score, assignedCount) else best)) ws)"

definition ChooseTaskOwner ::
  "AllocationTaskInput \<Rightarrow> AllocationWorkerInput list \<Rightarrow> AllocationDecision list \<Rightarrow> AllocationDecision" where
  "ChooseTaskOwner task workers current =
     (case choose_loop task current None (sort_key aw_Name workers) of
        None \<Rightarrow> \<lparr>ad_Owner = [], ad_Reason = ''no available workers''\<rparr>
      | Some (bestOwner, bestScore, _) \<Rightarrow>
          \<lparr>ad_Owner = bestOwner,
           ad_Reason = ''selected '' @ bestOwner @ '' with score '' @ fmt_int bestScore\<rparr>)"

fun allocate_loop ::
  "AllocationWorkerInput list \<Rightarrow> AllocationDecision list \<Rightarrow> AllocationTaskInput list \<Rightarrow> AllocationDecision list" where
  "allocate_loop workers decisions [] = decisions"
| "allocate_loop workers decisions (task # tasks) =
     allocate_loop workers (decisions @ [ChooseTaskOwner task workers decisions]) tasks"

definition AllocateTasksToWorkers ::
  "AllocationTaskInput list \<Rightarrow> AllocationWorkerInput list \<Rightarrow> AllocationDecision list" where
  "AllocateTasksToWorkers tasks workers = allocate_loop workers [] tasks"

definition isPendingStatus :: "string \<Rightarrow> bool" where
  "isPendingStatus status = (if status = [] then True else equal_fold status (task_status_string TaskPending))"

definition isCompletedStatus :: "string \<Rightarrow> bool" where
  "isCompletedStatus status = equal_fold status (task_status_string TaskCompleted)"

definition isAvailableWorkerStatus :: "string \<Rightarrow> bool" where
  "isAvailableWorkerStatus status =
     (let s = to_lower (trim_space status) in s \<in> {''idle'', ''done'', ''unknown''})"

definition HasCompletedDependencies ::
  "AllocationTaskInput \<Rightarrow> (string \<rightharpoonup> AllocationTaskInput) \<Rightarrow> bool" where
  "HasCompletedDependencies task taskByID =
     list_all (\<lambda>depID. case taskByID depID of
        None \<Rightarrow> False | Some dep \<Rightarrow> isCompletedStatus (at_Status dep)) (at_DependsOn task)"

definition available_workers :: "RebalanceWorkerInput list \<Rightarrow> AllocationWorkerInput list" where
  "available_workers workers =
     map rw_Worker (filter (\<lambda>w. rw_Alive w \<and> isAvailableWorkerStatus (rw_Status w)) workers)"

text \<open>A later task with the same id replaces an earlier one in \<open>taskByID\<close>.\<close>

definition task_by_id :: "AllocationTaskInput list \<Rightarrow> string \<rightharpoonup> AllocationTaskInput" where
  "task_by_id tasks = map_of (rev (map (\<lambda>t. (at_ID t, t)) tasks))"

definition rebalance_candidate :: "AllocationTaskInput list \<Rightarrow> AllocationTaskInput \<Rightarrow> bool" where
  "rebalance_candidate tasks task \<longleftrightarrow> isPendingStatus (at_Status task) \<and> at_Owner task = []
     \<and> HasCompletedDependencies task (task_by_id tasks)"

text \<open>The order of the candidates: reclaimed tasks first, then by id.\<close>

definition sort_candidates :: "string list \<Rightarrow> AllocationTaskInput list \<Rightarrow> AllocationTaskInput list" where
  "sort_candidates reclaimed ts =
     (let by_id = sort_key at_ID ts
      in filter (\<lambda>t. at_ID t \<in> set reclaimed) by_id @ filter (\<lambda>t. at_ID t \<notin> set reclaimed) by_id)"

fun rebalance_loop ::
  "AllocationWorkerInput list \<Rightarrow> string list \<Rightarrow> AllocationDecision list \<Rightarrow> AllocationTaskInput list
     \<Rightarrow> RebalanceDecision list" where
  "rebalance_loop workers reclaimed load [] = []"
| "rebalance_loop workers reclaimed load (task # tasks) =
     (let allocation = ChooseTaskOwner task workers load in
      if ad_Owner allocation = [] then rebalance_loop workers reclaimed load tasks
      else \<lparr>rd_Type = (if at_ID task \<in> set reclaimed then ''assign'' else ''recommend''),
            rd_TaskID = at_ID task, rd_WorkerName = ad_Owner allocation,
            rd_Reason = ad_Reason allocation\<rparr>
           # rebalance_loop workers reclaimed
               (load @ [\<lparr>ad_Owner = ad_Owner allocation, ad_Reason = []\<rparr>]) tasks)"

definition BuildRebalanceDecisions ::
  "AllocationTaskInput list \<Rightarrow> RebalanceWorkerInput list \<Rightarrow> string list \<Rightarrow> RebalanceDecision list" where
  "BuildRebalanceDecisions tasks workers reclaimed =
     (let available = available_workers workers in
      if available = [] then []
      else rebalance_loop available reclaimed []
             (sort_candidates reclaimed (filter (rebalance_candidate tasks) tasks)))"

section \<open>The choice is the best worker\<close>

text \<open>The order of preference of the loop, on name, score and number of assignments.\<close>

fun prefers :: "string \<times> int \<times> int \<Rightarrow> string \<times> int \<times> int \<Rightarrow> bool" where
  "prefers (n, s, c) (n', s', c') \<longleftrightarrow> s > s' \<or> s = s' \<and> (c < c' \<or> c = c' \<and> n \<le> n')"

definition rating :: "AllocationTaskInput \<Rightarrow> AllocationDecision list \<Rightarrow> AllocationWorkerInput \<Rightarrow> string \<times> int \<times> int" where
  "rating task current w = (aw_Name w, worker_score task current w, countAssignments current (aw_Name w))"

lemma prefers_refl [simp]: "prefers a a"
  by (cases a) simp

lemma prefers_trans: "prefers a b \<Longrightarrow> prefers b c \<Longrightarrow> prefers a c"
  by (cases a; cases b; cases c) auto

lemma prefers_antisym: "prefers a b \<Longrightarrow> prefers b a \<Longrightarrow> a = b"
  by (cases a; cases b) auto

lemma prefers_total: "\<not> prefers a b \<Longrightarrow> prefers b a"
  by (cases a; cases b) auto

lemma choose_loop_Cons:
  "choose_loop task current best (w # ws) = choose_loop task current
     (Some (case best of None \<Rightarrow> rating task current w
       | Some b \<Rightarrow> (if prefers b (rating task current w) then b else rating task current w))) ws"
  by (cases best) (auto simp: rating_def Let_def)

declare prefers.simps [simp del]

lemma choose_loop_best:
  assumes "choose_loop task current best ws = r"
  shows "case r of None \<Rightarrow> best = None \<and> ws = []
    | Some b \<Rightarrow> b \<in> set_option best \<union> rating task current ` set ws
        \<and> (\<forall>c \<in> set_option best \<union> rating task current ` set ws. prefers b c)"
  using assms
proof (induction ws arbitrary: best)
  case Nil
  then show ?case by (auto split: option.splits)
next
  case (Cons w ws)
  let ?w = "rating task current w"
  define b' where "b' = (case best of None \<Rightarrow> ?w | Some b \<Rightarrow> (if prefers b ?w then b else ?w))"
  have b': "prefers b' ?w" "b' \<in> set_option best \<union> {?w}" "\<And>b. best = Some b \<Longrightarrow> prefers b' b"
    using prefers_total by (auto simp: b'_def split: option.splits)
  have "choose_loop task current (Some b') ws = r"
    using Cons.prems unfolding choose_loop_Cons b'_def .
  from Cons.IH [OF this] show ?case
    using b' by (cases r) (auto intro: prefers_trans)
qed

lemma choose_loop_perm:
  assumes "mset ws = mset ws'"
  shows "choose_loop task current None ws = choose_loop task current None ws'"
proof -
  have sets: "set ws = set ws'" using assms by (rule mset_eq_setD)
  obtain r r' where r: "choose_loop task current None ws = r" "choose_loop task current None ws' = r'" by simp
  note best = choose_loop_best [OF r(1)] choose_loop_best [OF r(2)]
  show ?thesis
  proof (cases "r = None \<or> r' = None")
    case True
    with best sets r show ?thesis by (auto split: option.splits)
  next
    case False
    then obtain b b' where b: "r = Some b" "r' = Some b'" by auto
    with best sets have "prefers b b'" "prefers b' b" by auto
    then show ?thesis using r b by (simp add: prefers_antisym)
  qed
qed

lemma ChooseTaskOwner_loop: "ChooseTaskOwner task workers current =
     (case choose_loop task current None workers of
        None \<Rightarrow> \<lparr>ad_Owner = [], ad_Reason = ''no available workers''\<rparr>
      | Some (bestOwner, bestScore, _) \<Rightarrow>
          \<lparr>ad_Owner = bestOwner,
           ad_Reason = ''selected '' @ bestOwner @ '' with score '' @ fmt_int bestScore\<rparr>)"
  unfolding ChooseTaskOwner_def by (subst choose_loop_perm [of "sort_key aw_Name workers" workers]) simp_all

lemma ChooseTaskOwner_best:
  assumes "workers \<noteq> []"
  obtains w where "w \<in> set workers"
    "ChooseTaskOwner task workers current = \<lparr>ad_Owner = aw_Name w,
       ad_Reason = ''selected '' @ aw_Name w @ '' with score '' @ fmt_int (worker_score task current w)\<rparr>"
    "\<And>v. v \<in> set workers \<Longrightarrow> prefers (rating task current w) (rating task current v)"
proof -
  obtain r where r: "choose_loop task current None workers = r" by simp
  note best = choose_loop_best [OF r]
  from best assms obtain b where b: "r = Some b" by (cases r) auto
  with best obtain w where w: "w \<in> set workers" "b = rating task current w"
      "\<forall>v \<in> set workers. prefers b (rating task current v)" by auto
  show thesis
    by (rule that [OF w(1)]) (use w r b in \<open>auto simp: ChooseTaskOwner_loop rating_def\<close>)
qed

section \<open>Balanced loads\<close>

lemma countAssignments_append [simp]:
  "countAssignments (as @ bs) n = countAssignments as n + countAssignments bs n"
  by (induction as) auto

lemma countAssignments_nonneg: "0 \<le> countAssignments as n"
  by (induction as) auto

definition balanced :: "AllocationWorkerInput list \<Rightarrow> AllocationDecision list \<Rightarrow> bool" where
  "balanced workers ds \<longleftrightarrow> (\<forall>v \<in> set workers. \<forall>w \<in> set workers.
     countAssignments ds (aw_Name v) \<le> countAssignments ds (aw_Name w) + 1)"

lemma no_role_score: "at_Role task = [] \<Longrightarrow>
    worker_score task current w =
      (if at_BlockedBy task = [] then - 4 else - 5) * countAssignments current (aw_Name w)"
  by (simp add: worker_score_def scoreWorker_def Let_def)

lemma no_role_least_loaded:
  assumes "at_Role task = []" and "prefers (rating task current w) (rating task current v)"
  shows "countAssignments current (aw_Name w) \<le> countAssignments current (aw_Name v)"
  using assms by (auto simp: rating_def no_role_score prefers.simps split: if_splits)

lemma balanced_step:
  assumes "balanced workers ds" and "at_Role task = []"
  shows "balanced workers (ds @ [ChooseTaskOwner task workers ds])"
proof (cases "workers = []")
  case True
  then show ?thesis by (simp add: balanced_def)
next
  case False
  then obtain w where w: "w \<in> set workers" "ad_Owner (ChooseTaskOwner task workers ds) = aw_Name w"
      "\<And>v. v \<in> set workers \<Longrightarrow> prefers (rating task ds w) (rating task ds v)"
    using ChooseTaskOwner_best [of workers task ds] by (metis AllocationDecision.select_convs(1))
  have least: "countAssignments ds (aw_Name w) \<le> countAssignments ds (aw_Name v)" if "v \<in> set workers" for v
    using no_role_least_loaded [OF assms(2) w(3) [OF that]] .
  show ?thesis
    unfolding balanced_def
  proof (intro ballI)
    fix u v
    assume uv: "u \<in> set workers" "v \<in> set workers"
    show "countAssignments (ds @ [ChooseTaskOwner task workers ds]) (aw_Name u)
        \<le> countAssignments (ds @ [ChooseTaskOwner task workers ds]) (aw_Name v) + 1"
    proof (cases "aw_Name u = aw_Name w")
      case True
      then show ?thesis using least [OF uv(2)] w(2) by simp
    next
      case False
      have "countAssignments ds (aw_Name u) \<le> countAssignments ds (aw_Name v) + 1"
        using assms(1) uv by (simp add: balanced_def)
      with False w(2) show ?thesis by simp
    qed
  qed
qed

lemma allocate_loop_balanced:
  "balanced workers ds \<Longrightarrow> (\<And>t. t \<in> set tasks \<Longrightarrow> at_Role t = []) \<Longrightarrow>
   balanced workers (allocate_loop workers ds tasks)"
  by (induction tasks arbitrary: ds) (auto intro: balanced_step)

lemma allocate_loop_spec:
  "length (allocate_loop workers ds tasks) = length ds + length tasks \<and>
   take (length ds) (allocate_loop workers ds tasks) = ds \<and>
   (\<forall>k < length tasks. allocate_loop workers ds tasks ! (length ds + k) =
      ChooseTaskOwner (tasks ! k) workers (take (length ds + k) (allocate_loop workers ds tasks)))"
proof (induction tasks arbitrary: ds)
  case Nil
  then show ?case by simp
next
  case (Cons t tasks)
  let ?d = "ChooseTaskOwner t workers ds"
  let ?r = "allocate_loop workers (ds @ [?d]) tasks"
  have IH: "length ?r = Suc (length ds) + length tasks" "take (Suc (length ds)) ?r = ds @ [?d]"
      "\<And>k. k < length tasks \<Longrightarrow> ?r ! (Suc (length ds) + k) =
         ChooseTaskOwner (tasks ! k) workers (take (Suc (length ds) + k) ?r)"
    using Cons.IH [of "ds @ [?d]"] by auto
  have ds: "take (length ds) ?r = ds"
    using IH(2) by (metis append_eq_conv_conj le_SucI order_refl take_take min.absorb1)
  have head: "?r ! length ds = ?d"
    using IH(1,2) by (metis lessI nth_append_length nth_take)
  show ?case
    using IH ds head by (auto simp: less_Suc_eq_0_disj nth_Cons')
qed

section \<open>Rebalancing\<close>

lemma ChooseTaskOwner_owner:
  "workers \<noteq> [] \<Longrightarrow> ad_Owner (ChooseTaskOwner task workers current) \<in> aw_Name ` set workers"
  by (rule ChooseTaskOwner_best [of workers task current]) auto

definition proposes :: "AllocationWorkerInput list \<Rightarrow> string list \<Rightarrow> RebalanceDecision \<Rightarrow> AllocationTaskInput \<Rightarrow> bool" where
  "proposes workers reclaimed d t \<longleftrightarrow> rd_TaskID d = at_ID t \<and> rd_WorkerName d \<in> aw_Name ` set workers
     \<and> rd_Type d = (if at_ID t \<in> set reclaimed then ''assign'' else ''recommend'')"

lemma rebalance_loop_sound:
  "workers \<noteq> [] \<Longrightarrow> d \<in> set (rebalance_loop workers reclaimed load ts) \<Longrightarrow>
     \<exists>t \<in> set ts. proposes workers reclaimed d t"
proof (induction ts arbitrary: load)
  case Nil
  then show ?case by simp
next
  case (Cons t ts)
  let ?o = "ad_Owner (ChooseTaskOwner t workers load)"
  let ?d = "\<lparr>rd_Type = (if at_ID t \<in> set reclaimed then ''assign'' else ''recommend''),
    rd_TaskID = at_ID t, rd_WorkerName = ?o, rd_Reason = ad_Reason (ChooseTaskOwner t workers load)\<rparr>"
  have "proposes workers reclaimed ?d t"
    using ChooseTaskOwner_owner [OF Cons.prems(1), of t load] by (simp add: proposes_def)
  moreover have "d = ?d \<or> (\<exists>load'. d \<in> set (rebalance_loop workers reclaimed load' ts))"
    using Cons.prems(2) by (auto simp: Let_def split: if_splits)
  ultimately show ?case using Cons.IH [OF Cons.prems(1)] by auto
qed

lemma rebalance_loop_all:
  "workers \<noteq> [] \<Longrightarrow> [] \<notin> aw_Name ` set workers \<Longrightarrow>
   map rd_TaskID (rebalance_loop workers reclaimed load ts) = map at_ID ts"
proof (induction ts arbitrary: load)
  case Nil
  then show ?case by simp
next
  case (Cons t ts)
  have "ad_Owner (ChooseTaskOwner t workers load) \<noteq> []"
    using ChooseTaskOwner_owner [of workers t load] Cons.prems by auto
  with Cons show ?case by (simp add: Let_def)
qed

lemma set_sort_candidates [simp]: "set (sort_candidates reclaimed ts) = set ts"
  by (auto simp: sort_candidates_def Let_def)

section \<open>Properties\<close>

text \<open>
  The owner chosen for a task is one of the workers, it has the best score, among the workers
  with that score the fewest assignments, and among those the least name; the decision does not
  depend on the order in which the workers are given.
\<close>

theorem ChooseTaskOwner_optimal:
  assumes "workers \<noteq> []"
  shows "(\<exists>w \<in> set workers. ad_Owner (ChooseTaskOwner task workers current) = aw_Name w \<and>
      (\<forall>v \<in> set workers.
         worker_score task current v < worker_score task current w
       \<or> worker_score task current v = worker_score task current w
         \<and> (countAssignments current (aw_Name w) < countAssignments current (aw_Name v)
           \<or> countAssignments current (aw_Name w) = countAssignments current (aw_Name v)
             \<and> aw_Name w \<le> aw_Name v)))
    \<and> (\<forall>workers'. mset workers' = mset workers \<longrightarrow>
         ChooseTaskOwner task workers' current = ChooseTaskOwner task workers current)"
proof -
  obtain w where w: "w \<in> set workers" "ad_Owner (ChooseTaskOwner task workers current) = aw_Name w"
      "\<And>v. v \<in> set workers \<Longrightarrow> prefers (rating task current w) (rating task current v)"
    using ChooseTaskOwner_best [OF assms, of task current] by (metis AllocationDecision.select_convs(1))
  have "worker_score task current v < worker_score task current w
       \<or> worker_score task current v = worker_score task current w
         \<and> (countAssignments current (aw_Name w) < countAssignments current (aw_Name v)
           \<or> countAssignments current (aw_Name w) = countAssignments current (aw_Name v)
             \<and> aw_Name w \<le> aw_Name v)" if "v \<in> set workers" for v
    using w(3) [OF that] by (auto simp: rating_def prefers.simps)
  moreover have "ChooseTaskOwner task workers' current = ChooseTaskOwner task workers current"
    if "mset workers' = mset workers" for workers'
    unfolding ChooseTaskOwner_loop choose_loop_perm [OF that] ..
  ultimately show ?thesis using w(1,2) by blast
qed

definition ex_worker :: "string \<Rightarrow> string \<Rightarrow> AllocationWorkerInput" where
  "ex_worker n r = \<lparr>aw_Name = n, aw_Role = r, aw_PrimaryRole = []\<rparr>"

definition ex_work :: "string \<Rightarrow> string \<Rightarrow> AllocationTaskInput" where
  "ex_work i r = \<lparr>at_ID = i, at_Subject = [], at_Description = [], at_Role = r, at_BlockedBy = [],
     at_DependsOn = [], at_Status = ''pending'', at_Owner = []\<rparr>"

theorem ChooseTaskOwner_optimal_witness:
  "ad_Owner (ChooseTaskOwner (ex_work ''1'' ''tester'') [ex_worker ''b'' ''tester'', ex_worker ''a'' []] []) = ''b''"
proof -
  let ?t = "ex_work ''1'' ''tester''"
  let ?ws = "[ex_worker ''b'' ''tester'', ex_worker ''a'' []]"
  have sc: "worker_score ?t [] (ex_worker ''b'' ''tester'') = 17"
    "worker_score ?t [] (ex_worker ''a'' []) = 5" by code_simp+
  have "?ws \<noteq> []" by simp
  from conjunct1 [OF ChooseTaskOwner_optimal [OF this, of ?t "[]"]]
  obtain w where w: "w \<in> set ?ws" "ad_Owner (ChooseTaskOwner ?t ?ws []) = aw_Name w"
      "worker_score ?t [] (ex_worker ''b'' ''tester'') \<le> worker_score ?t [] w"
  proof (elim bexE conjE, goal_cases)
    case (1 w)
    then show ?case by (intro 1(1) [of w]) auto
  qed
  with sc have "w = ex_worker ''b'' ''tester''" by auto
  with w(2) show ?thesis by (simp add: ex_worker_def)
qed

text \<open>
  Allocating a list of tasks gives one decision per task, each the choice against the
  decisions before it; when no task names a role the loads are balanced: no worker gets more than
  one task more than another.
\<close>

theorem AllocateTasksToWorkers_balanced:
  "length (AllocateTasksToWorkers tasks workers) = length tasks
   \<and> (\<forall>k < length tasks. AllocateTasksToWorkers tasks workers ! k =
        ChooseTaskOwner (tasks ! k) workers (take k (AllocateTasksToWorkers tasks workers)))
   \<and> ((\<forall>t \<in> set tasks. at_Role t = []) \<longrightarrow>
        (\<forall>v \<in> set workers. \<forall>w \<in> set workers.
           \<bar>countAssignments (AllocateTasksToWorkers tasks workers) (aw_Name v)
            - countAssignments (AllocateTasksToWorkers tasks workers) (aw_Name w)\<bar> \<le> 1))"
proof -
  have "balanced workers []" by (simp add: balanced_def)
  then have bal: "balanced workers (allocate_loop workers [] tasks)" if "\<forall>t \<in> set tasks. at_Role t = []"
    using that by (intro allocate_loop_balanced) auto
  have "\<bar>countAssignments (AllocateTasksToWorkers tasks workers) (aw_Name v)
      - countAssignments (AllocateTasksToWorkers tasks workers) (aw_Name w)\<bar> \<le> 1"
    if "\<forall>t \<in> set tasks. at_Role t = []" "v \<in> set workers" "w \<in> set workers" for v w
  proof -
    have b: "balanced workers (AllocateTasksToWorkers tasks workers)"
      using bal that(1) by (simp add: AllocateTasksToWorkers_def)
    have "countAssignments (AllocateTasksToWorkers tasks workers) (aw_Name v)
        \<le> countAssignments (AllocateTasksToWorkers tasks workers) (aw_Name w) + 1"
      "countAssignments (AllocateTasksToWorkers tasks workers) (aw_Name w)
        \<le> countAssignments (AllocateTasksToWorkers tasks workers) (aw_Name v) + 1"
      using b that(2,3) by (simp_all add: balanced_def)
    then show ?thesis by linarith
  qed
  then show ?thesis
    using allocate_loop_spec [of workers "[]" tasks] by (auto simp: AllocateTasksToWorkers_def)
qed

theorem AllocateTasksToWorkers_balanced_witness:
  "\<bar>countAssignments (AllocateTasksToWorkers [ex_work ''1'' [], ex_work ''2'' []] [ex_worker ''a'' [], ex_worker ''b'' []]) ''a''
    - countAssignments (AllocateTasksToWorkers [ex_work ''1'' [], ex_work ''2'' []] [ex_worker ''a'' [], ex_worker ''b'' []]) ''b''\<bar> \<le> 1"
  using AllocateTasksToWorkers_balanced [of "[ex_work ''1'' [], ex_work ''2'' []]" "[ex_worker ''a'' [], ex_worker ''b'' []]"]
  by (auto simp: ex_work_def ex_worker_def)

text \<open>
  Every proposal of \<open>BuildRebalanceDecisions\<close> is for an unowned pending task all of whose
  dependencies are known and completed, goes to a live worker whose status is idle, done or unknown,
  and is an assignment exactly for a reclaimed task; when all available workers are named, each such
  task gets one proposal, reclaimed tasks first and in the order of their ids.
\<close>

theorem BuildRebalanceDecisions_sound:
  shows "(\<forall>d \<in> set (BuildRebalanceDecisions tasks workers reclaimed).
      (\<exists>t \<in> set tasks. rd_TaskID d = at_ID t \<and> isPendingStatus (at_Status t) \<and> at_Owner t = []
         \<and> (\<forall>x \<in> set (at_DependsOn t). \<exists>u. task_by_id tasks x = Some u \<and> isCompletedStatus (at_Status u))
         \<and> rd_Type d = (if at_ID t \<in> set reclaimed then ''assign'' else ''recommend''))
    \<and> (\<exists>w \<in> set workers. rw_Alive w \<and> isAvailableWorkerStatus (rw_Status w)
         \<and> aw_Name (rw_Worker w) = rd_WorkerName d))
    \<and> (available_workers workers \<noteq> [] \<longrightarrow> [] \<notin> aw_Name ` set (available_workers workers) \<longrightarrow>
        map rd_TaskID (BuildRebalanceDecisions tasks workers reclaimed) =
        map at_ID (sort_candidates reclaimed (filter (rebalance_candidate tasks) tasks)))"
proof -
  have deps: "\<forall>x \<in> set (at_DependsOn t). \<exists>u. task_by_id tasks x = Some u \<and> isCompletedStatus (at_Status u)"
    if "rebalance_candidate tasks t" for t
    using that by (auto simp: rebalance_candidate_def HasCompletedDependencies_def list_all_iff split: option.splits)
  have cand: "\<exists>t \<in> set tasks. rebalance_candidate tasks t \<and> proposes (available_workers workers) reclaimed d t"
    if "d \<in> set (BuildRebalanceDecisions tasks workers reclaimed)" for d
  proof -
    have "available_workers workers \<noteq> []"
      and "d \<in> set (rebalance_loop (available_workers workers) reclaimed []
          (sort_candidates reclaimed (filter (rebalance_candidate tasks) tasks)))"
      using that by (auto simp: BuildRebalanceDecisions_def Let_def split: if_splits)
    from rebalance_loop_sound [OF this] show ?thesis by auto
  qed
  have "(\<exists>t \<in> set tasks. rd_TaskID d = at_ID t \<and> isPendingStatus (at_Status t) \<and> at_Owner t = []
         \<and> (\<forall>x \<in> set (at_DependsOn t). \<exists>u. task_by_id tasks x = Some u \<and> isCompletedStatus (at_Status u))
         \<and> rd_Type d = (if at_ID t \<in> set reclaimed then ''assign'' else ''recommend''))
    \<and> (\<exists>w \<in> set workers. rw_Alive w \<and> isAvailableWorkerStatus (rw_Status w)
         \<and> aw_Name (rw_Worker w) = rd_WorkerName d)"
    if d: "d \<in> set (BuildRebalanceDecisions tasks workers reclaimed)" for d
  proof -
    obtain t where t: "t \<in> set tasks" "rebalance_candidate tasks t" "proposes (available_workers workers) reclaimed d t"
      using cand [OF d] by blast
    from t(3) obtain w where "w \<in> set workers" "rw_Alive w \<and> isAvailableWorkerStatus (rw_Status w)"
        "aw_Name (rw_Worker w) = rd_WorkerName d"
      by (auto simp: proposes_def available_workers_def)
    moreover have "rd_TaskID d = at_ID t \<and> rd_Type d = (if at_ID t \<in> set reclaimed then ''assign'' else ''recommend'')"
      using t(3) by (simp only: proposes_def)
    ultimately show ?thesis
      using t(1,2) deps [OF t(2)] unfolding rebalance_candidate_def by blast
  qed
  moreover have "map rd_TaskID (BuildRebalanceDecisions tasks workers reclaimed) =
        map at_ID (sort_candidates reclaimed (filter (rebalance_candidate tasks) tasks))"
    if "available_workers workers \<noteq> []" "[] \<notin> aw_Name ` set (available_workers workers)"
    using rebalance_loop_all [OF that] that(1) by (simp add: BuildRebalanceDecisions_def)
  ultimately show ?thesis by blast
qed

theorem BuildRebalanceDecisions_sound_witness:
  "map rd_TaskID (BuildRebalanceDecisions [ex_work ''1'' [], ex_work ''2'' []]
       [\<lparr>rw_Worker = ex_worker ''a'' [], rw_Alive = True, rw_Status = ''idle''\<rparr>] [''2'']) = [''2'', ''1'']"
proof -
  let ?ts = "[ex_work ''1'' [], ex_work ''2'' []]"
  let ?ws = "[\<lparr>rw_Worker = ex_worker ''a'' [], rw_Alive = True, rw_Status = ''idle''\<rparr>]"
  have ws: "available_workers ?ws = [ex_worker ''a'' []]" by code_simp
  have sorted: "map at_ID (sort_candidates [''2''] (filter (rebalance_candidate ?ts) ?ts)) = [''2'', ''1'']"
    by code_simp
  have "available_workers ?ws \<noteq> []" "[] \<notin> aw_Name ` set (available_workers ?ws)"
    unfolding ws by (simp_all add: ex_worker_def)
  from conjunct2 [OF BuildRebalanceDecisions_sound, rule_format, OF this] sorted
  show ?thesis by (rule trans)
qed

end
