(* ===== verification/Dispatch_Queue.thy ===== *)
theory Dispatch_Queue
  imports Team_Store "HOL-Library.Transitive_Closure_Table"
begin

text \<open>
  \<open>internal/team/dispatch.go\<close>: the queue of dispatch entries, one file per task. The status is a
  string, as in the source. Every operation runs under the store's mutex, so it is one atomic step;
  a failing lock of \<open><file>.lock\<close> is a write fault of that name, a failing release is a removal
  fault of that name.
\<close>

type_synonym dispatches = "DispatchEntry node fdir"

abbreviation DispatchStatusPending :: string where
  "DispatchStatusPending \<equiv> ''pending''"

abbreviation DispatchStatusAcked :: string where
  "DispatchStatusAcked \<equiv> ''acked''"

abbreviation DispatchStatusTimeout :: string where
  "DispatchStatusTimeout \<equiv> ''timeout''"

abbreviation DispatchStatusCompleted :: string where
  "DispatchStatusCompleted \<equiv> ''completed''"

definition dispatch_file :: "string \<Rightarrow> string" where
  "dispatch_file taskID = taskID @ ''.json''"

definition lock_file :: "string \<Rightarrow> string" where
  "lock_file name = name @ ''.lock''"

section \<open>Operations\<close>

text \<open>\<open>lock.Lock()\<close> around the rest of an operation.\<close>

definition under_lock ::
  "env \<Rightarrow> string \<Rightarrow> string \<Rightarrow> 's \<Rightarrow> ('b result \<times> 's) \<Rightarrow> 'b result \<times> 's" where
  "under_lock e op name d rest = (case en_wfault e (lock_file name) of
      Some err \<Rightarrow> (Inl (Wrap (op @ '': acquire lock for '' @ name) err), d)
    | None \<Rightarrow> rest)"

definition write_entry ::
  "env \<Rightarrow> dispatches \<Rightarrow> string \<Rightarrow> string \<Rightarrow> DispatchEntry \<Rightarrow> unit result \<times> dispatches" where
  "write_entry e d msg name entry = (case WriteJSON e d name entry of
      (Inl err, d') \<Rightarrow> (Inl (Wrap msg err), d')
    | (Inr _, d') \<Rightarrow> (Inr (), d'))"

definition dispatch_readLocked :: "dispatches \<Rightarrow> string \<Rightarrow> DispatchEntry result" where
  "dispatch_readLocked d taskID = (case ReadJSON d (dispatch_file taskID) of
      Inl err \<Rightarrow> Inl (Wrap ''read dispatch'' err)
    | Inr entry \<Rightarrow> Inr entry)"

definition Dispatch ::
  "env \<Rightarrow> dispatches \<Rightarrow> string \<Rightarrow> DispatchEntry \<Rightarrow> unit result \<times> dispatches" where
  "Dispatch e d teamName entry =
     (if teamName = [] then (Inl (ErrMsg ''dispatch: team name is required''), d)
      else if de_TaskID entry = [] then (Inl (ErrMsg ''dispatch: task ID is required''), d)
      else if de_WorkerID entry = [] then (Inl (ErrMsg ''dispatch: worker ID is required''), d)
      else if de_Prompt entry = [] then (Inl (ErrMsg ''dispatch: prompt is required''), d)
      else write_entry e d ''dispatch'' (dispatch_file (de_TaskID entry))
             (entry\<lparr>de_DispatchedAt := (if de_DispatchedAt entry = zero_time then en_now e
                                          else de_DispatchedAt entry),
                    de_AckedAt := None, de_Status := DispatchStatusPending\<rparr>))"

definition Ack :: "env \<Rightarrow> dispatches \<Rightarrow> string \<Rightarrow> string \<Rightarrow> string \<Rightarrow> unit result \<times> dispatches" where
  "Ack e d teamName taskID workerID =
     (if teamName = [] then (Inl (ErrMsg ''ack dispatch: team name is required''), d)
      else if taskID = [] then (Inl (ErrMsg ''ack dispatch: task ID is required''), d)
      else if workerID = [] then (Inl (ErrMsg ''ack dispatch: worker ID is required''), d)
      else under_lock e ''ack dispatch'' (dispatch_file taskID) d
        (case dispatch_readLocked d taskID of
           Inl err \<Rightarrow> (Inl err, d)
         | Inr entry \<Rightarrow>
             (if de_WorkerID entry \<noteq> workerID then
                (Inl (ErrMsg (''ack dispatch: worker mismatch for task '' @ taskID)), d)
              else if de_Status entry \<noteq> DispatchStatusPending then
                (Inl (ErrMsg (''ack dispatch: cannot ack task '' @ taskID @
                              '': current status is '' @ de_Status entry)), d)
              else write_entry e d ''ack dispatch'' (dispatch_file taskID)
                     (entry\<lparr>de_AckedAt := Some (en_now e), de_Status := DispatchStatusAcked\<rparr>))))"

definition Complete :: "env \<Rightarrow> dispatches \<Rightarrow> string \<Rightarrow> string \<Rightarrow> unit result \<times> dispatches" where
  "Complete e d teamName taskID =
     (if teamName = [] then (Inl (ErrMsg ''complete dispatch: team name is required''), d)
      else if taskID = [] then (Inl (ErrMsg ''complete dispatch: task ID is required''), d)
      else under_lock e ''complete dispatch'' (dispatch_file taskID) d
        (case dispatch_readLocked d taskID of
           Inl err \<Rightarrow> (Inl err, d)
         | Inr entry \<Rightarrow>
             (if de_Status entry \<noteq> DispatchStatusAcked then
                (Inl (ErrMsg (''complete dispatch: cannot complete task '' @ taskID @
                              '': current status is '' @ de_Status entry)), d)
              else write_entry e d ''complete dispatch'' (dispatch_file taskID)
                     (entry\<lparr>de_Status := DispatchStatusCompleted\<rparr>))))"

text \<open>The scan of \<open>listAllLocked\<close>; an entry that cannot be decoded ends it.\<close>

fun read_dispatches :: "dispatches \<Rightarrow> string list \<Rightarrow> DispatchEntry list result" where
  "read_dispatches d [] = Inr []"
| "read_dispatches d (n # ns) = (case ReadJSON d n of
      Inl err \<Rightarrow> (if os_IsNotExist err then read_dispatches d ns
                   else Inl (Wrap (''read dispatch entry '' @ n) err))
    | Inr entry \<Rightarrow> (case read_dispatches d ns of
          Inl err \<Rightarrow> Inl err
        | Inr es \<Rightarrow> Inr (entry # es)))"

definition dispatch_listAllLocked :: "env \<Rightarrow> dispatches \<Rightarrow> DispatchEntry list result" where
  "dispatch_listAllLocked e d = (case en_dirfault e of
      Some err \<Rightarrow> (if os_IsNotExist err then Inr [] else Inl (Wrap ''read dispatch dir'' err))
    | None \<Rightarrow> read_dispatches d (json_files d))"

definition dispatch_ListAll :: "env \<Rightarrow> dispatches \<Rightarrow> string \<Rightarrow> DispatchEntry list result" where
  "dispatch_ListAll e d teamName =
     (if teamName = [] then Inl (ErrMsg ''list dispatch: team name is required'')
      else dispatch_listAllLocked e d)"

definition entry_unacked :: "DispatchEntry \<Rightarrow> bool" where
  "entry_unacked entry \<longleftrightarrow> de_Status entry = DispatchStatusPending \<and> de_AckedAt entry = None"

definition GetPending :: "env \<Rightarrow> dispatches \<Rightarrow> string \<Rightarrow> DispatchEntry list result" where
  "GetPending e d teamName =
     (if teamName = [] then Inl (ErrMsg ''get pending dispatch: team name is required'')
      else (case dispatch_listAllLocked e d of
          Inl err \<Rightarrow> Inl err
        | Inr all \<Rightarrow> Inr (filter entry_unacked all)))"

definition ack_in_time :: "duration \<Rightarrow> time \<Rightarrow> DispatchEntry \<Rightarrow> bool" where
  "ack_in_time ackTimeout now entry \<longleftrightarrow>
     ackTimeout \<le> 0 \<or> time_sub now (de_DispatchedAt entry) \<le> ackTimeout"

text \<open>
  The loop of \<open>GetTimedOut\<close> over the listing; each candidate is read again before it is marked.
\<close>

fun GetTimedOut_loop ::
  "duration \<Rightarrow> env \<Rightarrow> dispatches \<Rightarrow> DispatchEntry list \<Rightarrow> DispatchEntry list result \<times> dispatches" where
  "GetTimedOut_loop ackTimeout e d [] = (Inr [], d)"
| "GetTimedOut_loop ackTimeout e d (x # xs) =
     (if \<not> entry_unacked x then GetTimedOut_loop ackTimeout e d xs
      else if ack_in_time ackTimeout (en_now e) x then GetTimedOut_loop ackTimeout e d xs
      else let name = dispatch_file (de_TaskID x) in
        under_lock e ''get timed out dispatch'' name d
        (case dispatch_readLocked d (de_TaskID x) of
           Inl err \<Rightarrow> (if os_IsNotExist err then GetTimedOut_loop ackTimeout e d xs else (Inl err, d))
         | Inr entry \<Rightarrow>
             (if \<not> entry_unacked entry then GetTimedOut_loop ackTimeout e d xs
              else if ack_in_time ackTimeout (en_now e) entry then GetTimedOut_loop ackTimeout e d xs
              else let entry' = entry\<lparr>de_Status := DispatchStatusTimeout\<rparr> in
                (case write_entry e d (''get timed out dispatch: write task '' @ de_TaskID entry') name entry' of
                   (Inl err, d') \<Rightarrow> (Inl err, d')
                 | (Inr _, d') \<Rightarrow>
                     (case en_rmfault e (lock_file name) of
                        Some err \<Rightarrow> (Inl (Wrap (''get timed out dispatch: release lock for '' @ name) err), d')
                      | None \<Rightarrow>
                          (case GetTimedOut_loop ackTimeout e d' xs of
                             (Inl err, d'') \<Rightarrow> (Inl err, d'')
                           | (Inr es, d'') \<Rightarrow> (Inr (entry' # es), d'')))))))"

definition GetTimedOut ::
  "duration \<Rightarrow> env \<Rightarrow> dispatches \<Rightarrow> string \<Rightarrow> DispatchEntry list result \<times> dispatches" where
  "GetTimedOut ackTimeout e d teamName =
     (if teamName = [] then (Inl (ErrMsg ''get timed out dispatch: team name is required''), d)
      else (case dispatch_listAllLocked e d of
          Inl err \<Rightarrow> (Inl err, d)
        | Inr all \<Rightarrow> GetTimedOut_loop ackTimeout e d all))"

definition Requeue :: "env \<Rightarrow> dispatches \<Rightarrow> string \<Rightarrow> string \<Rightarrow> unit result \<times> dispatches" where
  "Requeue e d teamName taskID =
     (if teamName = [] then (Inl (ErrMsg ''requeue dispatch: team name is required''), d)
      else if taskID = [] then (Inl (ErrMsg ''requeue dispatch: task ID is required''), d)
      else under_lock e ''requeue dispatch'' (dispatch_file taskID) d
        (case dispatch_readLocked d taskID of
           Inl err \<Rightarrow> (Inl err, d)
         | Inr entry \<Rightarrow>
             (if de_Status entry \<noteq> DispatchStatusTimeout then
                (Inl (ErrMsg (''requeue dispatch: task '' @ taskID @ '' is not timed out'')), d)
              else write_entry e d ''requeue dispatch'' (dispatch_file taskID)
                     (entry\<lparr>de_Status := DispatchStatusPending, de_WorkerID := [],
                            de_AckedAt := None, de_DispatchedAt := en_now e\<rparr>))))"

section \<open>The life of an entry\<close>

text \<open>One move of an entry other than being dispatched anew; \<open>now\<close> is the time of the move.\<close>

inductive entry_move :: "DispatchEntry \<Rightarrow> DispatchEntry \<Rightarrow> bool" where
  acked: "de_Status x = DispatchStatusPending \<Longrightarrow> de_WorkerID x \<noteq> [] \<Longrightarrow>
    entry_move x (x\<lparr>de_AckedAt := Some now, de_Status := DispatchStatusAcked\<rparr>)"
| completed: "de_Status x = DispatchStatusAcked \<Longrightarrow>
    entry_move x (x\<lparr>de_Status := DispatchStatusCompleted\<rparr>)"
| timed_out: "entry_unacked x \<Longrightarrow> entry_move x (x\<lparr>de_Status := DispatchStatusTimeout\<rparr>)"
| requeued: "de_Status x = DispatchStatusTimeout \<Longrightarrow>
    entry_move x (x\<lparr>de_Status := DispatchStatusPending, de_WorkerID := [],
                   de_AckedAt := None, de_DispatchedAt := now\<rparr>)"

inductive_cases entry_moveE: "entry_move x y"

definition entry_ok :: "DispatchEntry \<Rightarrow> bool" where
  "entry_ok x \<longleftrightarrow> de_TaskID x \<noteq> [] \<and>
     (de_Status x \<in> {DispatchStatusPending, DispatchStatusTimeout} \<and> de_AckedAt x = None
    \<or> de_Status x \<in> {DispatchStatusAcked, DispatchStatusCompleted} \<and> de_AckedAt x \<noteq> None
        \<and> de_WorkerID x \<noteq> [])"

lemma entry_move_ok: "entry_move x y \<Longrightarrow> entry_ok x \<Longrightarrow> entry_ok y \<and> de_TaskID y = de_TaskID x"
  by (auto elim!: entry_moveE simp: entry_ok_def entry_unacked_def)

lemma entry_moves_completed:
  "entry_move\<^sup>*\<^sup>* x y \<Longrightarrow> de_Status x = DispatchStatusCompleted \<Longrightarrow> y = x"
  by (induction rule: rtranclp_induct) (auto elim!: entry_moveE simp: entry_unacked_def)

lemma entry_moves_prompt: "entry_move\<^sup>*\<^sup>* x y \<Longrightarrow> de_Prompt y = de_Prompt x \<and> de_TaskID y = de_TaskID x"
  by (induction rule: rtranclp_induct) (auto elim!: entry_moveE)

section \<open>What the operations do to a directory\<close>

text \<open>
  The relation between two states of the directory: every document has made any number of moves,
  and nothing else has changed.
\<close>

fun file_evolves :: "DispatchEntry node option \<Rightarrow> DispatchEntry node option \<Rightarrow> bool" where
  "file_evolves (Some (Doc x)) v \<longleftrightarrow> (\<exists>y. v = Some (Doc y) \<and> entry_move\<^sup>*\<^sup>* x y)"
| "file_evolves u v \<longleftrightarrow> v = u"

definition dispatch_evolves :: "dispatches \<Rightarrow> dispatches \<Rightarrow> bool" where
  "dispatch_evolves d d' \<longleftrightarrow> (wf_dir d \<longrightarrow> wf_dir d') \<and> (\<forall>n. file_evolves (map_of d n) (map_of d' n))"

lemma file_evolves_refl: "file_evolves u u"
  by (cases "(u, u)" rule: file_evolves.cases) auto

lemma file_evolves_trans: "file_evolves u v \<Longrightarrow> file_evolves v w \<Longrightarrow> file_evolves u w"
  by (cases "(u, v)" rule: file_evolves.cases) auto

lemma file_evolves_back: "file_evolves u (Some (Doc y)) \<Longrightarrow> \<exists>x. u = Some (Doc x) \<and> entry_move\<^sup>*\<^sup>* x y"
  by (cases "(u, Some (Doc y))" rule: file_evolves.cases) auto

lemma dispatch_evolves_refl [simp]: "dispatch_evolves d d"
  by (simp add: dispatch_evolves_def file_evolves_refl)

lemma dispatch_evolves_trans: "dispatch_evolves a b \<Longrightarrow> dispatch_evolves b c \<Longrightarrow> dispatch_evolves a c"
  unfolding dispatch_evolves_def by (blast intro: file_evolves_trans)

lemma dispatch_evolves_doc:
  "dispatch_evolves d d' \<Longrightarrow> map_of d n = Some (Doc x) \<Longrightarrow>
     \<exists>y. map_of d' n = Some (Doc y) \<and> entry_move\<^sup>*\<^sup>* x y"
  unfolding dispatch_evolves_def by (metis file_evolves.simps(1))

lemma dispatch_evolves_back:
  "dispatch_evolves d d' \<Longrightarrow> map_of d' n = Some (Doc y) \<Longrightarrow>
     \<exists>x. map_of d n = Some (Doc x) \<and> entry_move\<^sup>*\<^sup>* x y"
  unfolding dispatch_evolves_def by (metis file_evolves_back)

lemma dispatch_evolves_move:
  "map_of d n = Some (Doc x) \<Longrightarrow> entry_move x y \<Longrightarrow> dispatch_evolves d (fput n (Doc y) d)"
  unfolding dispatch_evolves_def by (auto simp: dir_wf file_evolves_refl)

text \<open>The contract of an operation that moves the entry of one task.\<close>

locale entry_op =
  fixes opn :: "env \<Rightarrow> dispatches \<Rightarrow> string \<Rightarrow> unit result \<times> dispatches"
  assumes err_unchanged: "opn e d i = (Inl err, d') \<Longrightarrow> d' = d"
    and ok_moves: "opn e d i = (Inr (), d') \<Longrightarrow>
      \<exists>x y. map_of d (dispatch_file i) = Some (Doc x) \<and> entry_move x y
        \<and> d' = fput (dispatch_file i) (Doc y) d"
begin

lemma evolves: "dispatch_evolves d (snd (opn e d i))"
proof (cases "opn e d i")
  case (Pair r d')
  then show ?thesis
    using err_unchanged [of e d i _ d'] ok_moves [of e d i d']
    by (cases r) (auto intro: dispatch_evolves_move)
qed

lemma frame: "n \<noteq> dispatch_file i \<Longrightarrow> map_of (snd (opn e d i)) n = map_of d n"
proof (cases "opn e d i")
  case (Pair r d')
  assume "n \<noteq> dispatch_file i"
  with Pair show ?thesis
    using err_unchanged [of e d i] ok_moves [of e d i d'] by (cases r) auto
qed

end

lemma dispatch_readLocked_Inr:
  "dispatch_readLocked d i = Inr x \<longleftrightarrow> map_of d (dispatch_file i) = Some (Doc x)"
  by (auto simp: dispatch_readLocked_def ReadJSON_Inr [symmetric] split: sum.splits)

lemma write_entry_ok: "write_entry e d m n x = (Inr (), d') \<longleftrightarrow>
    en_wfault e n = None \<and> map_of d n \<noteq> Some SubDir \<and> d' = fput n (Doc x) d"
  by (auto simp: write_entry_def WriteJSON_ok [symmetric] split: prod.splits sum.splits)

lemma write_entry_err: "write_entry e d m n x = (Inl err, d') \<Longrightarrow> d' = d"
  by (auto simp: write_entry_def split: prod.splits sum.splits dest: WriteJSON_err)

lemmas entry_op_splits = if_splits option.splits sum.splits

interpretation ack: entry_op "\<lambda>e d i. Ack e d teamName i workerID" for teamName workerID
  by unfold_locales
     (auto simp: Ack_def under_lock_def dispatch_readLocked_Inr write_entry_ok
       split: entry_op_splits dest: write_entry_err intro: entry_move.acked)

interpretation complete_dispatch: entry_op "\<lambda>e d i. Complete e d teamName i" for teamName
  by unfold_locales
     (auto simp: Complete_def under_lock_def dispatch_readLocked_Inr write_entry_ok
       split: entry_op_splits dest: write_entry_err intro: entry_move.completed)

interpretation requeue: entry_op "\<lambda>e d i. Requeue e d teamName i" for teamName
  by unfold_locales
     (auto simp: Requeue_def under_lock_def dispatch_readLocked_Inr write_entry_ok
       split: entry_op_splits dest: write_entry_err intro: entry_move.requeued)

lemma GetTimedOut_loop_evolves: "dispatch_evolves d (snd (GetTimedOut_loop T e d xs))"
proof (induction xs arbitrary: d)
  case Nil
  then show ?case by simp
next
  case (Cons x xs)
  let ?n = "dispatch_file (de_TaskID x)"
  have marked: "dispatch_evolves d (snd (GetTimedOut_loop T e (fput ?n (Doc (y\<lparr>de_Status := DispatchStatusTimeout\<rparr>)) d) xs))"
    and marked1: "dispatch_evolves d (fput ?n (Doc (y\<lparr>de_Status := DispatchStatusTimeout\<rparr>)) d)"
    if "map_of d ?n = Some (Doc y)" "entry_unacked y" for y
  proof -
    show m: "dispatch_evolves d (fput ?n (Doc (y\<lparr>de_Status := DispatchStatusTimeout\<rparr>)) d)"
      by (rule dispatch_evolves_move [OF that(1) entry_move.timed_out [OF that(2)]])
    show "dispatch_evolves d (snd (GetTimedOut_loop T e (fput ?n (Doc (y\<lparr>de_Status := DispatchStatusTimeout\<rparr>)) d) xs))"
      by (rule dispatch_evolves_trans [OF m Cons.IH])
  qed
  show ?case
    using Cons.IH [of d] marked marked1
    by (auto simp: Let_def under_lock_def dispatch_readLocked_Inr write_entry_ok
        split: option.splits sum.splits prod.splits dest: write_entry_err)
qed

lemma GetTimedOut_evolves: "dispatch_evolves d (snd (GetTimedOut T e d teamName))"
  by (auto simp: GetTimedOut_def GetTimedOut_loop_evolves split: sum.splits)

section \<open>Runs\<close>

datatype dispatch_op =
    OpDispatch env string DispatchEntry
  | OpAck env string string string
  | OpComplete env string string
  | OpGetTimedOut env string
  | OpRequeue env string string

fun dispatch_step :: "duration \<Rightarrow> dispatches \<Rightarrow> dispatch_op \<Rightarrow> dispatches" where
  "dispatch_step T d (OpDispatch e team x) = snd (Dispatch e d team x)"
| "dispatch_step T d (OpAck e team i w) = snd (Ack e d team i w)"
| "dispatch_step T d (OpComplete e team i) = snd (Complete e d team i)"
| "dispatch_step T d (OpGetTimedOut e team) = snd (GetTimedOut T e d team)"
| "dispatch_step T d (OpRequeue e team i) = snd (Requeue e d team i)"

text \<open>Operations other than a new dispatch of the task \<open>i\<close>.\<close>

fun not_dispatch :: "string \<Rightarrow> dispatch_op \<Rightarrow> bool" where
  "not_dispatch i (OpDispatch e team x) \<longleftrightarrow> de_TaskID x \<noteq> i"
| "not_dispatch i _ \<longleftrightarrow> True"

definition dispatch_ok :: "dispatches \<Rightarrow> bool" where
  "dispatch_ok d \<longleftrightarrow> wf_dir d \<and>
     (\<forall>n x. map_of d n = Some (Doc x) \<longrightarrow> n = dispatch_file (de_TaskID x) \<and> entry_ok x)"

lemma dispatch_file_inject [simp]: "dispatch_file i = dispatch_file j \<longleftrightarrow> i = j"
  by (simp add: dispatch_file_def)

lemma entry_moves_ok: "entry_move\<^sup>*\<^sup>* x y \<Longrightarrow> entry_ok x \<Longrightarrow> entry_ok y \<and> de_TaskID y = de_TaskID x"
  by (induction rule: rtranclp_induct) (auto dest: entry_move_ok)

lemma dispatch_ok_evolves:
  assumes "dispatch_ok d" and "dispatch_evolves d d'"
  shows "dispatch_ok d'"
  unfolding dispatch_ok_def
proof (intro conjI allI impI)
  show "wf_dir d'" using assms by (simp add: dispatch_ok_def dispatch_evolves_def)
next
  fix n y
  assume "map_of d' n = Some (Doc y)"
  then obtain x where x: "map_of d n = Some (Doc x)" "entry_move\<^sup>*\<^sup>* x y"
    using dispatch_evolves_back [OF assms(2)] by blast
  then have "n = dispatch_file (de_TaskID x)" "entry_ok x"
    using assms(1) by (auto simp: dispatch_ok_def)
  with entry_moves_ok [OF x(2)] show "n = dispatch_file (de_TaskID y)" "entry_ok y" by auto
qed

lemma Dispatch_cases:
  obtains "snd (Dispatch e d team x) = d"
    | y where "snd (Dispatch e d team x) = fput (dispatch_file (de_TaskID x)) (Doc y) d"
        "de_TaskID y = de_TaskID x" "entry_ok y"
  by (cases "Dispatch e d team x"; cases "fst (Dispatch e d team x)")
     (auto simp: Dispatch_def entry_ok_def write_entry_ok split: if_splits dest: write_entry_err)

lemma dispatch_ok_Dispatch: "dispatch_ok d \<Longrightarrow> dispatch_ok (snd (Dispatch e d team x))"
  by (rule Dispatch_cases [where e = e and d = d and team = team and x = x])
     (auto simp: dispatch_ok_def dir_wf split: if_splits)

lemma dispatch_step_evolves:
  "(\<And>e team x. a \<noteq> OpDispatch e team x) \<Longrightarrow> dispatch_evolves d (dispatch_step T d a)"
  using ack.evolves complete_dispatch.evolves requeue.evolves
  by (cases a) (auto simp: GetTimedOut_evolves)

interpretation dq: step_invariant "dispatch_step T" dispatch_ok for T
proof
  fix d a
  assume ok: "dispatch_ok d"
  show "dispatch_ok (dispatch_step T d a)"
  proof (cases "\<exists>e team x. a = OpDispatch e team x")
    case True
    then show ?thesis using ok by (auto intro: dispatch_ok_Dispatch)
  next
    case False
    then have "dispatch_evolves d (dispatch_step T d a)" by (auto intro: dispatch_step_evolves)
    with ok show ?thesis by (rule dispatch_ok_evolves)
  qed
qed

interpretation life: step_relation "dispatch_step T" "not_dispatch i"
    "\<lambda>d d'. file_evolves (map_of d (dispatch_file i)) (map_of d' (dispatch_file i))" for T i
proof
  fix d a
  assume adm: "not_dispatch i a"
  show "file_evolves (map_of d (dispatch_file i)) (map_of (dispatch_step T d a) (dispatch_file i))"
  proof (cases "\<exists>e team x. a = OpDispatch e team x")
    case True
    then obtain e team x where a: "a = OpDispatch e team x" by blast
    show ?thesis
      by (rule Dispatch_cases [where e = e and d = d and team = team and x = x])
         (use adm a in \<open>auto simp: file_evolves_refl\<close>)
  next
    case False
    then have "dispatch_evolves d (dispatch_step T d a)" by (auto intro: dispatch_step_evolves)
    then show ?thesis by (simp add: dispatch_evolves_def)
  qed
qed (auto simp: file_evolves_refl intro: file_evolves_trans)

section \<open>The scan for timed-out entries\<close>

lemma read_dispatches_iff:
  "(\<And>n. n \<in> set ns \<Longrightarrow> map_of d n \<noteq> None) \<Longrightarrow>
   read_dispatches d ns = Inr es \<longleftrightarrow> list_all2 (\<lambda>n x. map_of d n = Some (Doc x)) ns es"
proof (induction ns arbitrary: es)
  case Nil
  then show ?case by auto
next
  case (Cons n ns)
  then have "map_of d n \<noteq> None" by simp
  then obtain v where v: "map_of d n = Some v" by blast
  have IH: "read_dispatches d ns = Inr es' \<longleftrightarrow> list_all2 (\<lambda>n x. map_of d n = Some (Doc x)) ns es'" for es'
    by (rule Cons.IH) (use Cons.prems in simp)
  show ?case
  proof (cases v)
    case (Doc x)
    with v have "read_dispatches d (n # ns) = Inr es \<longleftrightarrow>
        (\<exists>es'. es = x # es' \<and> read_dispatches d ns = Inr es')"
      by (auto simp: ReadJSON_def split: sum.splits)
    with v Doc IH show ?thesis by (auto simp: list_all2_Cons1)
  qed (use v in \<open>auto simp: ReadJSON_def os_IsNotExist_def list_all2_Cons1\<close>)
qed

lemma listAll_iff:
  assumes "wf_dir d" and "en_dirfault e = None"
  shows "dispatch_listAllLocked e d = Inr es \<longleftrightarrow>
    list_all2 (\<lambda>n x. map_of d n = Some (Doc x)) (json_files d) es"
proof -
  have "map_of d n \<noteq> None" if "n \<in> set (json_files d)" for n
    using that json_files_mem [OF assms(1)] by auto
  from read_dispatches_iff [OF this] show ?thesis
    using assms(2) by (simp add: dispatch_listAllLocked_def)
qed

lemma listAll_sound:
  assumes ok: "dispatch_ok d" and dir: "en_dirfault e = None" and all: "dispatch_listAllLocked e d = Inr es"
  shows "distinct (map de_TaskID es)"
    and "x \<in> set es \<Longrightarrow> map_of d (dispatch_file (de_TaskID x)) = Some (Doc x)"
proof -
  have wf: "wf_dir d" using ok by (simp add: dispatch_ok_def)
  have l2: "list_all2 (\<lambda>n x. map_of d n = Some (Doc x)) (json_files d) es"
    using all wf dir by (simp add: listAll_iff)
  have "list_all2 (\<lambda>n x. n = dispatch_file (de_TaskID x)) (json_files d) es"
    by (rule list_all2_mono [OF l2]) (use ok in \<open>auto simp: dispatch_ok_def\<close>)
  then have names: "json_files d = map (dispatch_file \<circ> de_TaskID) es"
    by (induction rule: list_all2_induct) auto
  with json_files_distinct [OF wf] show "distinct (map de_TaskID es)"
    by (metis distinct_map list.map_comp)
  show "map_of d (dispatch_file (de_TaskID x)) = Some (Doc x)" if "x \<in> set es"
    using that l2 unfolding names by (auto simp: list_all2_map1 list_all2_same)
qed

definition timed_out_now :: "duration \<Rightarrow> time \<Rightarrow> DispatchEntry \<Rightarrow> bool" where
  "timed_out_now T now x \<longleftrightarrow> entry_unacked x \<and> \<not> ack_in_time T now x"

definition mark_timeout :: "DispatchEntry \<Rightarrow> DispatchEntry" where
  "mark_timeout x = x\<lparr>de_Status := DispatchStatusTimeout\<rparr>"

lemma mark_timeout_simps [simp]: "de_TaskID (mark_timeout x) = de_TaskID x"
  "\<not> timed_out_now T now (mark_timeout x)"
  by (simp_all add: mark_timeout_def timed_out_now_def entry_unacked_def)

definition mark_all :: "dispatches \<Rightarrow> DispatchEntry list \<Rightarrow> dispatches" where
  "mark_all d xs = fput_all (\<lambda>x. dispatch_file (de_TaskID x)) (\<lambda>x. Doc (mark_timeout x)) xs d"

lemma GetTimedOut_loop_quiet:
  assumes quiet: "\<And>n. en_wfault e n = None" "\<And>n. en_rmfault e n = None"
  shows "distinct (map de_TaskID xs) \<Longrightarrow>
    (\<And>x. x \<in> set xs \<Longrightarrow> map_of d (dispatch_file (de_TaskID x)) = Some (Doc x)) \<Longrightarrow>
    GetTimedOut_loop T e d xs =
      (Inr (map mark_timeout (filter (timed_out_now T (en_now e)) xs)),
       mark_all d (filter (timed_out_now T (en_now e)) xs))"
proof (induction xs arbitrary: d)
  case Nil
  then show ?case by (simp add: mark_all_def)
next
  case (Cons x xs)
  show ?case
  proof (cases "timed_out_now T (en_now e) x")
    case False
    then show ?thesis using Cons by (auto simp: timed_out_now_def)
  next
    case True
    let ?d = "fput (dispatch_file (de_TaskID x)) (Doc (mark_timeout x)) d"
    have IH: "GetTimedOut_loop T e ?d xs =
      (Inr (map mark_timeout (filter (timed_out_now T (en_now e)) xs)),
       mark_all ?d (filter (timed_out_now T (en_now e)) xs))"
      by (rule Cons.IH) (use Cons.prems in \<open>auto simp: image_iff\<close>)
    have rd: "dispatch_readLocked d (de_TaskID x) = Inr x"
      using Cons.prems by (simp add: dispatch_readLocked_Inr)
    have wr: "write_entry e d m (dispatch_file (de_TaskID x)) (mark_timeout x) = (Inr (), ?d)" for m
      using Cons.prems quiet by (simp add: write_entry_ok)
    show ?thesis
      using True IH wr rd quiet
      by (simp add: timed_out_now_def [of T "en_now e" x] under_lock_def Let_def mark_timeout_def [symmetric])
         (simp add: mark_all_def)
  qed
qed

lemma mark_all_lookup:
  "distinct (map de_TaskID xs) \<Longrightarrow>
   map_of (mark_all d xs) n =
     (case find (\<lambda>x. dispatch_file (de_TaskID x) = n) xs of
        Some x \<Rightarrow> Some (Doc (mark_timeout x)) | None \<Rightarrow> map_of d n)"
  unfolding mark_all_def by (rule fput_all_lookup) (auto simp: distinct_map inj_on_def)

lemma mark_all_json_files:
  "wf_dir d \<Longrightarrow> (\<And>x. x \<in> set xs \<Longrightarrow> \<exists>y. map_of d (dispatch_file (de_TaskID x)) = Some (Doc y)) \<Longrightarrow>
     wf_dir (mark_all d xs) \<and> json_files (mark_all d xs) = json_files d"
proof (induction xs arbitrary: d)
  case Nil
  then show ?case by (simp add: mark_all_def)
next
  case (Cons x xs)
  let ?d = "fput (dispatch_file (de_TaskID x)) (Doc (mark_timeout x)) d"
  have "wf_dir (mark_all ?d xs) \<and> json_files (mark_all ?d xs) = json_files ?d"
    by (rule Cons.IH) (use Cons.prems in \<open>auto simp: dir_wf\<close>)
  moreover obtain y where "map_of d (dispatch_file (de_TaskID x)) = Some (Doc y)"
    using Cons.prems(2) by force
  ultimately show ?case
    using Cons.prems(1) by (simp add: mark_all_def json_files_overwrite)
qed

text \<open>What a scan without faults leaves behind.\<close>

lemma GetTimedOut_scan:
  assumes ok: "dispatch_ok d" and dir: "en_dirfault e = None"
    and quiet: "\<And>n. en_wfault e n = None" "\<And>n. en_rmfault e n = None"
    and all: "dispatch_listAllLocked e d = Inr es"
    and run: "GetTimedOut T e d team = (r, d')" and team: "team \<noteq> []"
  shows "r = Inr (map mark_timeout (filter (timed_out_now T (en_now e)) es))"
    and "dispatch_listAllLocked e d' =
           Inr (map (\<lambda>x. if timed_out_now T (en_now e) x then mark_timeout x else x) es)"
proof -
  let ?P = "timed_out_now T (en_now e)"
  note sound = listAll_sound [OF ok dir all]
  have loop: "GetTimedOut_loop T e d es = (Inr (map mark_timeout (filter ?P es)), mark_all d (filter ?P es))"
    by (rule GetTimedOut_loop_quiet [OF quiet sound])
  with run team all show "r = Inr (map mark_timeout (filter ?P es))" by (simp add: GetTimedOut_def)
  have d': "d' = mark_all d (filter ?P es)" using loop run team all by (simp add: GetTimedOut_def)
  have wf: "wf_dir d" using ok by (simp add: dispatch_ok_def)
  have files: "wf_dir d' \<and> json_files d' = json_files d"
    unfolding d' by (rule mark_all_json_files [OF wf]) (use sound in auto)
  have dist: "distinct (map de_TaskID (filter ?P es))" using sound(1) by (rule distinct_map_filter)
  have l2: "list_all2 (\<lambda>n x. map_of d n = Some (Doc x) \<and> x \<in> set es) (json_files d) es"
    using all wf dir by (auto simp: listAll_iff list_all2_conv_all_nth)
  have new: "map_of d' n = Some (Doc (if ?P x then mark_timeout x else x))"
    if x: "map_of d n = Some (Doc x)" "x \<in> set es" for n x
  proof -
    have n: "n = dispatch_file (de_TaskID x)" using ok x(1) by (auto simp: dispatch_ok_def)
    have uniq: "y = x" if "y \<in> set es" "de_TaskID y = de_TaskID x" for y
      using that x(2) sound(1) by (metis distinct_map inj_onD)
    show ?thesis
    proof (cases "find (\<lambda>y. dispatch_file (de_TaskID y) = n) (filter ?P es)")
      case None
      then have "\<not> ?P x" using x(2) n by (auto simp: find_None_iff)
      with None x(1) show ?thesis unfolding d' mark_all_lookup [OF dist] by simp
    next
      case (Some y)
      then have "y \<in> set es" "?P y" "de_TaskID y = de_TaskID x"
        using n by (auto simp: find_Some_iff dest!: nth_mem)
      with uniq have "y = x" "?P x" by auto
      with Some show ?thesis unfolding d' mark_all_lookup [OF dist] by simp
    qed
  qed
  have "list_all2 (\<lambda>n x. map_of d' n = Some (Doc x)) (json_files d')
      (map (\<lambda>x. if ?P x then mark_timeout x else x) es)"
    using l2 files by (auto simp: list_all2_map2 elim!: list_all2_mono dest: new)
  with files dir show "dispatch_listAllLocked e d' = Inr (map (\<lambda>x. if ?P x then mark_timeout x else x) es)"
    by (simp add: listAll_iff)
qed

lemma entry_moves_unassigned:
  "entry_move\<^sup>*\<^sup>* x y \<Longrightarrow> de_WorkerID x = [] \<Longrightarrow>
    de_Status x \<in> {DispatchStatusPending, DispatchStatusTimeout} \<Longrightarrow>
    de_WorkerID y = [] \<and> de_Status y \<in> {DispatchStatusPending, DispatchStatusTimeout}"
  by (induction rule: rtranclp_induct) (auto elim!: entry_moveE)

lemma life_readLocked:
  assumes "list_all (not_dispatch i) ops" and "dispatch_readLocked d i = Inr x"
  shows "\<exists>y. dispatch_readLocked (foldl (dispatch_step T) d ops) i = Inr y \<and> entry_move\<^sup>*\<^sup>* x y"
  using life.R_run [OF assms(1), of d T] assms(2) by (auto simp: dispatch_readLocked_Inr)

lemma dispatch_ok_read:
  assumes "dispatch_ok d" and "dispatch_readLocked d i = Inr x"
  shows "de_TaskID x = i \<and> entry_ok x"
proof -
  have "dispatch_file i = dispatch_file (de_TaskID x) \<and> entry_ok x"
    using assms by (auto simp only: dispatch_ok_def dispatch_readLocked_Inr)
  then show ?thesis by simp
qed

section \<open>Properties\<close>

text \<open>
  C15. The life of a dispatch entry. In every queue reached from an empty one by any operations,
  failing ones included, an entry is stored under its task, is unacknowledged exactly while it is
  pending or timed out, and an acknowledged or completed entry has a worker; until the task is
  dispatched anew it only makes the moves pending to acked, acked to completed, pending to timed
  out and timed out to pending, so a completed entry stays as it is.
\<close>

theorem dispatch_lifecycle:
  assumes x: "dispatch_readLocked (foldl (dispatch_step T) [] pre) i = Inr x"
    and "list_all (not_dispatch i) ops"
  shows "de_TaskID x = i \<and> entry_ok x
    \<and> (\<exists>y. dispatch_readLocked (foldl (dispatch_step T) [] (pre @ ops)) i = Inr y \<and> entry_move\<^sup>*\<^sup>* x y
         \<and> de_Prompt y = de_Prompt x \<and> (de_Status x = DispatchStatusCompleted \<longrightarrow> y = x))"
proof -
  have "dispatch_ok (foldl (dispatch_step T) [] pre)"
    by (rule dq.inv_run) (simp add: dispatch_ok_def)
  then have "de_TaskID x = i \<and> entry_ok x"
    using x by (rule dispatch_ok_read)
  then show ?thesis
    using life_readLocked [OF assms(2) x, of T] entry_moves_completed entry_moves_prompt by fastforce
qed

definition ex_entry :: DispatchEntry where
  "ex_entry = \<lparr>de_TaskID = ''t1'', de_WorkerID = ''w0'', de_Prompt = ''p'', de_DispatchedAt = 5,
     de_AckedAt = None, de_Status = DispatchStatusPending\<rparr>"

definition ex_queue :: dispatches where
  "ex_queue = [(''t1.json'', Doc ex_entry)]"

lemma ex_dispatched: "foldl (dispatch_step T) [] [OpDispatch (quiet_env 5 []) ''team'' ex_entry] = ex_queue"
  by (simp add: ex_queue_def Dispatch_def write_entry_def WriteJSON_def ex_entry_def dispatch_file_def)

lemma ex_queue_ok: "dispatch_ok ex_queue"
  by (simp add: dispatch_ok_def ex_queue_def ex_entry_def entry_ok_def dispatch_file_def wf_dir_def)

lemma ex_queue_read: "dispatch_readLocked ex_queue ''t1'' = Inr ex_entry"
  by (simp add: dispatch_readLocked_Inr ex_queue_def dispatch_file_def)

theorem dispatch_lifecycle_witness:
  "\<exists>y. dispatch_readLocked (foldl (dispatch_step 10) []
       [OpDispatch (quiet_env 5 []) ''team'' ex_entry, OpAck (quiet_env 6 []) ''team'' ''t1'' ''w0'']) ''t1'' = Inr y
     \<and> entry_move\<^sup>*\<^sup>* ex_entry y"
  using dispatch_lifecycle [of 10 "[OpDispatch (quiet_env 5 []) ''team'' ex_entry]" "''t1''" ex_entry
      "[OpAck (quiet_env 6 []) ''team'' ''t1'' ''w0'']", unfolded ex_dispatched, OF ex_queue_read]
  by (auto simp del: dispatch_step.simps)

text \<open>
  \<open>GetTimedOut\<close> without faults, on a well-formed queue whose entries can all be read, reports
  exactly the pending entries older than the acknowledgement timeout, in file-name order and marked
  as timed out; these entries and no others are changed; a second scan at that time reports nothing.
\<close>

theorem GetTimedOut_exact:
  assumes "dispatch_ok d" and "en_dirfault e = None"
    and "\<And>n. en_wfault e n = None" and "\<And>n. en_rmfault e n = None"
    and "dispatch_listAllLocked e d = Inr es" and "GetTimedOut T e d team = (r, d')" and "team \<noteq> []"
  shows "r = Inr [x\<lparr>de_Status := DispatchStatusTimeout\<rparr>. x \<leftarrow> es, entry_unacked x \<and> \<not> ack_in_time T (en_now e) x]
    \<and> dispatch_listAllLocked e d' =
        Inr (map (\<lambda>x. if entry_unacked x \<and> \<not> ack_in_time T (en_now e) x
                      then x\<lparr>de_Status := DispatchStatusTimeout\<rparr> else x) es)
    \<and> GetTimedOut T e d' team = (Inr [], d')"
proof -
  note scan = GetTimedOut_scan [OF assms]
  have ok': "dispatch_ok d'"
    using dispatch_ok_evolves [OF assms(1) GetTimedOut_evolves, of T e team] assms(6) by simp
  let ?f = "\<lambda>x. if timed_out_now T (en_now e) x then mark_timeout x else x"
  have "filter (timed_out_now T (en_now e)) (map ?f es) = []"
    by (auto simp: filter_empty_conv)
  moreover have "GetTimedOut T e d' team = (Inr (map mark_timeout (filter (timed_out_now T (en_now e)) (map ?f es))),
      mark_all d' (filter (timed_out_now T (en_now e)) (map ?f es)))"
    using scan(2) assms(7) GetTimedOut_loop_quiet [OF assms(3,4) listAll_sound [OF ok' assms(2) scan(2)]]
    by (simp add: GetTimedOut_def)
  ultimately have "GetTimedOut T e d' team = (Inr [], d')" by (simp add: mark_all_def)
  moreover have "[x\<lparr>de_Status := DispatchStatusTimeout\<rparr>. x \<leftarrow> es, entry_unacked x \<and> \<not> ack_in_time T (en_now e) x]
      = map mark_timeout (filter (timed_out_now T (en_now e)) es)"
    by (induction es) (auto simp: timed_out_now_def mark_timeout_def)
  ultimately show ?thesis
    using scan by (simp add: timed_out_now_def mark_timeout_def cong: if_cong)
qed

theorem GetTimedOut_exact_witness:
  "\<exists>d'. GetTimedOut 10 (quiet_env 20 []) ex_queue ''team'' =
     (Inr [ex_entry\<lparr>de_Status := DispatchStatusTimeout\<rparr>], d')"
proof -
  have all: "dispatch_listAllLocked (quiet_env 20 []) ex_queue = Inr [ex_entry]"
    by code_simp
  obtain r d' where run: "GetTimedOut 10 (quiet_env 20 []) ex_queue ''team'' = (r, d')"
    by (cases "GetTimedOut 10 (quiet_env 20 []) ex_queue ''team''")
  have "entry_unacked ex_entry \<and> \<not> ack_in_time 10 20 ex_entry" by code_simp
  with run show ?thesis
    using GetTimedOut_exact [OF ex_queue_ok _ _ _ all run] by simp
qed

text \<open>
  A requeued entry has no worker, and an acknowledgement needs one: after a successful
  \<open>Requeue\<close>, along every sequence of operations that does not dispatch the task anew, no
  acknowledgement of the task succeeds and the entry stays pending or timed out.
\<close>

theorem requeued_entry_needs_new_dispatch:
  assumes rq: "Requeue e d team i = (Inr (), d')" and ops: "list_all (not_dispatch i) ops"
  shows "(\<exists>y. dispatch_readLocked (foldl (dispatch_step T) d' ops) i = Inr y \<and> de_WorkerID y = []
            \<and> de_Status y \<in> {DispatchStatusPending, DispatchStatusTimeout})
       \<and> fst (Ack e' (foldl (dispatch_step T) d' ops) team' i w) \<noteq> Inr ()"
proof -
  obtain x where x: "dispatch_readLocked d' i = Inr x" "de_WorkerID x = []" "de_Status x = DispatchStatusPending"
    using rq by (auto simp: Requeue_def under_lock_def write_entry_ok dispatch_readLocked_Inr
        split: entry_op_splits)
  obtain y where y: "dispatch_readLocked (foldl (dispatch_step T) d' ops) i = Inr y" "entry_move\<^sup>*\<^sup>* x y"
    using life_readLocked [OF ops x(1)] by blast
  then have "de_WorkerID y = [] \<and> de_Status y \<in> {DispatchStatusPending, DispatchStatusTimeout}"
    using entry_moves_unassigned [OF y(2) x(2)] x(3) by simp
  with y(1) show ?thesis by (auto simp: Ack_def under_lock_def split: option.splits)
qed

theorem requeued_entry_needs_new_dispatch_witness:
  "\<exists>d'. Requeue (quiet_env 30 []) [(''t1.json'', Doc (ex_entry\<lparr>de_Status := DispatchStatusTimeout\<rparr>))] ''team'' ''t1''
       = (Inr (), d') \<and> fst (Ack (quiet_env 31 []) d' ''team'' ''t1'' ''w0'') \<noteq> Inr ()"
proof -
  obtain d' where rq: "Requeue (quiet_env 30 [])
      [(''t1.json'', Doc (ex_entry\<lparr>de_Status := DispatchStatusTimeout\<rparr>))] ''team'' ''t1'' = (Inr (), d')"
    by (simp add: Requeue_def under_lock_def dispatch_readLocked_def ReadJSON_def dispatch_file_def
        write_entry_def WriteJSON_def)
  then show ?thesis
    using requeued_entry_needs_new_dispatch [OF rq, of "[]" 10] by auto
qed

end
