(* ===== verification/Recovery.thy ===== *)
theory Recovery
  imports Task_Registry Dispatch_Queue Heartbeat_Monitor
begin

text \<open>
  \<open>internal/team/recovery.go\<close> and \<open>internal/team/cleanup.go\<close>: diagnosing a team after a crash,
  releasing the tasks of dead workers, and removing the state of workers and teams. The context is
  the sequence of answers of \<open>ctx.Err()\<close>, one per check. Removing the parent directory of a
  heartbeat file has no effect on the model: a worker directory without a heartbeat has no entry.
\<close>

record DiagnosisReport =
  dr_PhaseState :: "TeamPhaseState option"
  dr_StaleWorkers :: "Heartbeat list"
  dr_OrphanedTasks :: "TeamTask list"
  dr_PendingDispatch :: "DispatchEntry list"

text \<open>The loop of \<open>Diagnose\<close> over the heartbeats: the stale ones and the ids of the fresh ones.\<close>

fun split_heartbeats ::
  "duration \<Rightarrow> env \<Rightarrow> heartbeats \<Rightarrow> Heartbeat list \<Rightarrow> (Heartbeat list \<times> string list) result" where
  "split_heartbeats T e s [] = Inr ([], [])"
| "split_heartbeats T e s (hb # hbs) = (case IsStale T e s (hb_WorkerID hb) of
      Inl err \<Rightarrow> Inl (Wrap (''diagnose: check stale heartbeat for '' @ hb_WorkerID hb) err)
    | Inr stale \<Rightarrow> (case split_heartbeats T e s hbs of
          Inl err \<Rightarrow> Inl err
        | Inr (old, fresh) \<Rightarrow> Inr (if stale then (hb # old, fresh) else (old, hb_WorkerID hb # fresh))))"

definition orphaned :: "string list \<Rightarrow> TeamTask \<Rightarrow> bool" where
  "orphaned fresh t = (case tt_Claim t of
      None \<Rightarrow> False
    | Some c \<Rightarrow> (if tt_Status t \<noteq> TaskInProgress then False else tc_WorkerID c \<notin> set fresh))"

text \<open>
  \<open>L\<close> is the lease of the registry, \<open>T\<close> the threshold of the monitor; \<open>eh\<close>, \<open>et\<close> and \<open>ed\<close> are what
  the calls on heartbeats, tasks and dispatch entries observe.
\<close>

definition diagnose_phase :: "TeamPhaseState node fdir \<Rightarrow> TeamPhaseState option result" where
  "diagnose_phase d = (case LoadPhaseState d of
      Inl err \<Rightarrow>
        (if \<not> errors_is err ErrNotExist \<and> \<not> isJSONUnmarshalError err
         then Inl (Wrap ''diagnose: load phase state'' err) else Inr None)
    | Inr st \<Rightarrow> Inr (Some st))"

definition Diagnose ::
  "int \<Rightarrow> duration \<Rightarrow> env \<Rightarrow> env \<Rightarrow> env \<Rightarrow> team_dir \<Rightarrow> string \<Rightarrow> DiagnosisReport result" where
  "Diagnose L T eh et ed s teamName = (case diagnose_phase (td_phase s) of
      Inl err \<Rightarrow> Inl err
    | Inr phaseState \<Rightarrow> (case heartbeat_ListAll eh (td_heartbeats s) of
      Inl err \<Rightarrow> Inl (Wrap ''diagnose: list heartbeats'' err)
    | Inr allHeartbeats \<Rightarrow> (case split_heartbeats T eh (td_heartbeats s) allHeartbeats of
      Inl err \<Rightarrow> Inl err
    | Inr (staleWorkers, fresh) \<Rightarrow> (case ListTasks L et (td_tasks s) of
      Inl err \<Rightarrow> Inl (Wrap ''diagnose: list tasks'' err)
    | Inr tasks \<Rightarrow> (case GetPending ed (td_dispatch s) teamName of
      Inl err \<Rightarrow> Inl (Wrap ''diagnose: list pending dispatch'' err)
    | Inr pendingDispatch \<Rightarrow>
        Inr \<lparr>dr_PhaseState = phaseState, dr_StaleWorkers = staleWorkers,
             dr_OrphanedTasks = filter (orphaned fresh) tasks,
             dr_PendingDispatch = pendingDispatch\<rparr>)))))"

section \<open>Recover\<close>

definition release_task :: "time \<Rightarrow> TeamTask \<Rightarrow> TeamTask" where
  "release_task now t = t\<lparr>tt_Status := TaskPending, tt_Claim := None,
     tt_Version := tt_Version t + 1, tt_UpdatedAt := now\<rparr>"

fun release_orphans ::
  "(nat \<Rightarrow> go_error option) \<Rightarrow> env \<Rightarrow> tasks \<Rightarrow> TeamTask list \<Rightarrow> unit result \<times> tasks" where
  "release_orphans ctx e d [] = (Inr (), d)"
| "release_orphans ctx e d (t # ts) = (case ctx 0 of
      Some err \<Rightarrow> (Inl err, d)
    | None \<Rightarrow>
        (if tt_Status t \<noteq> TaskInProgress \<or> tt_Claim t = None then release_orphans (\<lambda>k. ctx (Suc k)) e d ts
         else (case WriteJSON e d (task_file (tt_ID t)) (release_task (en_now e) t) of
             (Inl err, d') \<Rightarrow> (Inl (Wrap (''recover: release orphaned task '' @ tt_ID t) err), d')
           | (Inr _, d') \<Rightarrow> release_orphans (\<lambda>k. ctx (Suc k)) e d' ts)))"

fun remove_heartbeats ::
  "(nat \<Rightarrow> go_error option) \<Rightarrow> env \<Rightarrow> heartbeats \<Rightarrow> Heartbeat list \<Rightarrow> unit result \<times> heartbeats" where
  "remove_heartbeats ctx e s [] = (Inr (), s)"
| "remove_heartbeats ctx e s (hb # hbs) = (case ctx 0 of
      Some err \<Rightarrow> (Inl err, s)
    | None \<Rightarrow> (case os_Remove e s (hb_WorkerID hb) of
          (Inl err, s') \<Rightarrow>
            (if \<not> os_IsNotExist err
             then (Inl (Wrap (''recover: remove stale heartbeat for '' @ hb_WorkerID hb) err), s')
             else remove_heartbeats (\<lambda>k. ctx (Suc k)) e s' hbs)
        | (Inr _, s') \<Rightarrow> remove_heartbeats (\<lambda>k. ctx (Suc k)) e s' hbs))"

definition stale_dispatch :: "duration \<Rightarrow> time \<Rightarrow> Heartbeat list \<Rightarrow> DispatchEntry \<Rightarrow> bool" where
  "stale_dispatch T now staleWorkers x \<longleftrightarrow>
     (0 < T \<and> time_sub now (de_DispatchedAt x) > T) \<or> de_WorkerID x \<in> hb_WorkerID ` set staleWorkers"

fun remove_dispatches ::
  "(nat \<Rightarrow> go_error option) \<Rightarrow> duration \<Rightarrow> env \<Rightarrow> Heartbeat list \<Rightarrow> dispatches \<Rightarrow> DispatchEntry list
     \<Rightarrow> unit result \<times> dispatches" where
  "remove_dispatches ctx T e stale d [] = (Inr (), d)"
| "remove_dispatches ctx T e stale d (x # xs) = (case ctx 0 of
      Some err \<Rightarrow> (Inl err, d)
    | None \<Rightarrow>
        (if \<not> stale_dispatch T (en_now e) stale x then remove_dispatches (\<lambda>k. ctx (Suc k)) T e stale d xs
         else (case os_Remove e d (dispatch_file (de_TaskID x)) of
             (Inl err, d') \<Rightarrow>
               (if \<not> os_IsNotExist err
                then (Inl (Wrap (''recover: remove stale pending dispatch for task '' @ de_TaskID x) err), d')
                else remove_dispatches (\<lambda>k. ctx (Suc k)) T e stale d' xs)
           | (Inr _, d') \<Rightarrow> remove_dispatches (\<lambda>k. ctx (Suc k)) T e stale d' xs)))"

text \<open>\<open>e\<close> is what the writes and removals of \<open>Recover\<close> itself observe.\<close>

definition Recover ::
  "(nat \<Rightarrow> go_error option) \<Rightarrow> int \<Rightarrow> duration \<Rightarrow> env \<Rightarrow> env \<Rightarrow> env \<Rightarrow> env \<Rightarrow> team_dir \<Rightarrow> string
     \<Rightarrow> unit result \<times> team_dir" where
  "Recover ctx L T eh et ed e s teamName = (case Diagnose L T eh et ed s teamName of
      Inl err \<Rightarrow> (Inl err, s)
    | Inr report \<Rightarrow>
        (let n1 = length (dr_OrphanedTasks report);
             n2 = n1 + length (dr_StaleWorkers report);
             (r1, tasks) = release_orphans ctx e (td_tasks s) (dr_OrphanedTasks report);
             s1 = s\<lparr>td_tasks := tasks\<rparr>
         in case r1 of
              Inl err \<Rightarrow> (Inl err, s1)
            | Inr _ \<Rightarrow>
                (let (r2, hbs) = remove_heartbeats (\<lambda>k. ctx (n1 + k)) e (td_heartbeats s1) (dr_StaleWorkers report);
                     s2 = s1\<lparr>td_heartbeats := hbs\<rparr>
                 in case r2 of
                      Inl err \<Rightarrow> (Inl err, s2)
                    | Inr _ \<Rightarrow>
                        (let (r3, ds) = remove_dispatches (\<lambda>k. ctx (n2 + k)) T e (dr_StaleWorkers report)
                               (td_dispatch s2) (dr_PendingDispatch report)
                         in (r3, s2\<lparr>td_dispatch := ds\<rparr>)))))"

section \<open>Cleanup (cleanup.go)\<close>

text \<open>
  Joined errors are the list of the errors joined, so \<open>[]\<close> is a nil error. \<open>inspect\<close> and
  \<open>stored\<close> say whether the cleaner has a heartbeat inspector and a store.
\<close>

fun clean_heartbeats_loop ::
  "duration \<Rightarrow> env \<Rightarrow> heartbeats \<Rightarrow> Heartbeat list \<Rightarrow> go_error list \<times> heartbeats" where
  "clean_heartbeats_loop T e s [] = ([], s)"
| "clean_heartbeats_loop T e s (hb # hbs) = (case IsStale T e s (hb_WorkerID hb) of
      Inl err \<Rightarrow>
        (let (errs, s') = clean_heartbeats_loop T e s hbs
         in (Wrap (''check stale heartbeat '' @ hb_WorkerID hb) err # errs, s'))
    | Inr False \<Rightarrow> clean_heartbeats_loop T e s hbs
    | Inr True \<Rightarrow> (case os_Remove e s (hb_WorkerID hb) of
          (Inl err, s1) \<Rightarrow>
            (let (errs, s') = clean_heartbeats_loop T e s1 hbs
             in (if errors_is err ErrNotExist then errs
                 else Wrap (''remove stale heartbeat '' @ hb_WorkerID hb) err # errs, s'))
        | (Inr _, s1) \<Rightarrow> clean_heartbeats_loop T e s1 hbs))"

definition cleanupStaleHeartbeatsLocked ::
  "bool \<Rightarrow> duration \<Rightarrow> env \<Rightarrow> heartbeats \<Rightarrow> go_error list \<times> heartbeats" where
  "cleanupStaleHeartbeatsLocked inspect T e s =
     (if \<not> inspect then ([], s)
      else (case heartbeat_ListAll e s of
          Inl err \<Rightarrow> ([Wrap ''list heartbeats'' err], s)
        | Inr hbs \<Rightarrow> clean_heartbeats_loop T e s hbs))"

definition CleanupStaleHeartbeats ::
  "bool \<Rightarrow> duration \<Rightarrow> env \<Rightarrow> heartbeats \<Rightarrow> string \<Rightarrow> go_error list \<times> heartbeats" where
  "CleanupStaleHeartbeats inspect T e s teamName =
     (if teamName = [] then ([], s) else cleanupStaleHeartbeatsLocked inspect T e s)"

fun clean_dispatch_loop ::
  "env \<Rightarrow> string \<Rightarrow> dispatches \<Rightarrow> string list \<Rightarrow> go_error list \<times> dispatches" where
  "clean_dispatch_loop e workerID d [] = ([], d)"
| "clean_dispatch_loop e workerID d (n # ns) = (case ReadJSON d n of
      Inl err \<Rightarrow>
        (if errors_is err ErrNotExist then clean_dispatch_loop e workerID d ns
         else if isJSONUnmarshalError err then clean_dispatch_loop e workerID d ns
         else (let (errs, d') = clean_dispatch_loop e workerID d ns
               in (Wrap (''read dispatch entry '' @ n) err # errs, d')))
    | Inr x \<Rightarrow>
        (if workerID \<noteq> [] \<and> de_WorkerID x \<noteq> workerID then clean_dispatch_loop e workerID d ns
         else if de_Status x \<noteq> DispatchStatusPending \<or> de_AckedAt x \<noteq> None
           then clean_dispatch_loop e workerID d ns
         else (case os_Remove e d n of
             (Inl err, d1) \<Rightarrow>
               (let (errs, d') = clean_dispatch_loop e workerID d1 ns
                in (if errors_is err ErrNotExist then errs
                    else Wrap (''remove dispatch entry '' @ n) err # errs, d'))
           | (Inr _, d1) \<Rightarrow> clean_dispatch_loop e workerID d1 ns)))"

definition cleanupPendingDispatchLocked ::
  "bool \<Rightarrow> env \<Rightarrow> dispatches \<Rightarrow> string \<Rightarrow> go_error list \<times> dispatches" where
  "cleanupPendingDispatchLocked stored e d workerID =
     (if \<not> stored then ([], d)
      else (case en_dirfault e of
          Some err \<Rightarrow> (if errors_is err ErrNotExist then ([], d) else ([Wrap ''read dispatch dir'' err], d))
        | None \<Rightarrow> clean_dispatch_loop e workerID d (json_files d)))"

text \<open>
  \<open>kill\<close> is the outcome of killing the team's session: \<open>None\<close> when there is no session provider or
  no session, \<open>Some None\<close> when the session was killed.
\<close>

definition CleanupTeam ::
  "go_error option option \<Rightarrow> bool \<Rightarrow> bool \<Rightarrow> duration \<Rightarrow> env \<Rightarrow> env \<Rightarrow> env \<Rightarrow> team_dir \<Rightarrow> string
     \<Rightarrow> go_error list \<times> team_dir" where
  "CleanupTeam kill inspect stored T eh ed e s teamName =
     (if teamName = [] then ([], s)
      else
        (let killErrs = (case kill of Some (Some err) \<Rightarrow> [Wrap ''kill tmux session'' err] | _ \<Rightarrow> []);
             (hbErrs, hbs) = cleanupStaleHeartbeatsLocked inspect T eh (td_heartbeats s);
             s1 = s\<lparr>td_heartbeats := hbs\<rparr>;
             (dErrs, ds) = cleanupPendingDispatchLocked stored ed (td_dispatch s1) [];
             s2 = s1\<lparr>td_dispatch := ds\<rparr>;
             (delErrs, s3) = (if stored then (case DeleteTeam e s2 teamName of
                                 (Inl err, s') \<Rightarrow> ([Wrap ''delete team state'' err], s')
                               | (Inr _, s') \<Rightarrow> ([], s'))
                              else ([], s2))
         in (killErrs @ hbErrs @ dErrs @ delErrs, s3)))"

text \<open>
  The removals of \<open>CleanupWorker\<close>: the worker file and the heartbeat by \<open>os.Remove\<close>, then the worker
  directory (with the heartbeat) and the mailbox by \<open>os.RemoveAll\<close>, whose faults are named after
  the directories.
\<close>

definition remove_file :: "env \<Rightarrow> 'v fdir \<Rightarrow> string \<Rightarrow> go_error list \<times> 'v fdir" where
  "remove_file e d n = (case os_Remove e d n of
      (Inl err, d') \<Rightarrow> (if errors_is err ErrNotExist then [] else [Wrap (''remove '' @ n) err], d')
    | (Inr _, d') \<Rightarrow> ([], d'))"

definition remove_all :: "env \<Rightarrow> string \<Rightarrow> 'v fdir \<Rightarrow> string \<Rightarrow> go_error list \<times> 'v fdir" where
  "remove_all e dir d n = (case en_rmfault e dir of
      Some err \<Rightarrow> ([Wrap (''remove '' @ dir) err], d)
    | None \<Rightarrow> ([], fdel n d))"

definition CleanupWorker ::
  "bool \<Rightarrow> env \<Rightarrow> team_dir \<Rightarrow> string \<Rightarrow> string \<Rightarrow> go_error list \<times> team_dir" where
  "CleanupWorker stored e s teamName workerID =
     (if teamName = [] \<or> workerID = [] then ([], s)
      else
        (let (e1, ws) = remove_file e (td_workers s) (workerID @ ''.json'');
             (e2, hbs) = remove_file e (td_heartbeats s) workerID;
             (e3, hbs') = remove_all e (''workers/'' @ workerID) hbs workerID;
             (e4, mb) = remove_all e (''mailbox/'' @ workerID) (td_mailbox s) workerID;
             (e5, ds) = cleanupPendingDispatchLocked stored e (td_dispatch s) workerID
         in (e1 @ e2 @ e3 @ e4 @ e5,
             s\<lparr>td_workers := ws, td_heartbeats := hbs', td_mailbox := mb, td_dispatch := ds\<rparr>)))"

section \<open>Recovery without faults\<close>

text \<open>A worker whose heartbeat is readable and recent.\<close>

definition fresh_worker :: "duration \<Rightarrow> time \<Rightarrow> heartbeats \<Rightarrow> string \<Rightarrow> bool" where
  "fresh_worker T now s w = (case map_of s w of Some (t, Doc hb) \<Rightarrow> \<not> isStaleAt T now t | _ \<Rightarrow> False)"

definition stale_worker :: "duration \<Rightarrow> time \<Rightarrow> heartbeats \<Rightarrow> string \<Rightarrow> bool" where
  "stale_worker T now s w = (case map_of s w of Some (t, Doc hb) \<Rightarrow> isStaleAt T now t | _ \<Rightarrow> False)"

lemma worker_iff:
  "stale_worker T now s w \<longleftrightarrow> (\<exists>t hb. map_of s w = Some (t, Doc hb) \<and> isStaleAt T now t = True)"
  "fresh_worker T now s w \<longleftrightarrow> (\<exists>t hb. map_of s w = Some (t, Doc hb) \<and> isStaleAt T now t = False)"
proof -
  consider "map_of s w = None" | t v where "map_of s w = Some (t, v)" by (cases "map_of s w") auto
  then show "stale_worker T now s w \<longleftrightarrow> (\<exists>t hb. map_of s w = Some (t, Doc hb) \<and> isStaleAt T now t = True)"
    "fresh_worker T now s w \<longleftrightarrow> (\<exists>t hb. map_of s w = Some (t, Doc hb) \<and> isStaleAt T now t = False)"
    by (cases; auto simp: stale_worker_def fresh_worker_def split: node.splits)+
qed

lemma split_heartbeats_spec:
  "split_heartbeats T e s hbs = Inr (old, fresh) \<Longrightarrow>
     old = filter (\<lambda>hb. IsStale T e s (hb_WorkerID hb) = Inr True) hbs \<and>
     set fresh = hb_WorkerID ` {hb \<in> set hbs. IsStale T e s (hb_WorkerID hb) = Inr False}"
  by (induction hbs arbitrary: old fresh) (auto split: sum.splits if_splits)

lemma os_Remove_quiet:
  "en_rmfault e n = None \<Longrightarrow> os_Remove e d n =
     (if map_of d n = None then Inl ErrNotExist else Inr (), fdel n d)"
  by (auto simp: os_Remove_def fdel_absent split: option.splits)

lemma release_orphans_quiet:
  "(\<And>n. en_wfault e n = None) \<Longrightarrow> (\<And>k. ctx k = None) \<Longrightarrow>
   (\<And>t. t \<in> set ts \<Longrightarrow> tt_Status t = TaskInProgress \<and> tt_Claim t \<noteq> None
      \<and> map_of d (task_file (tt_ID t)) \<noteq> Some SubDir) \<Longrightarrow>
   release_orphans ctx e d ts =
     (Inr (), fput_all (\<lambda>t. task_file (tt_ID t)) (\<lambda>t. Doc (release_task (en_now e) t)) ts d)"
proof (induction ts arbitrary: d ctx)
  case Nil
  then show ?case by simp
next
  case (Cons t ts)
  have t: "tt_Status t = TaskInProgress" "tt_Claim t \<noteq> None" "map_of d (task_file (tt_ID t)) \<noteq> Some SubDir"
    using Cons.prems(3) [of t] by simp_all
  then have wr: "WriteJSON e d (task_file (tt_ID t)) (release_task (en_now e) t) =
      (Inr (), fput (task_file (tt_ID t)) (Doc (release_task (en_now e) t)) d)"
    using Cons.prems(1) by (simp add: WriteJSON_def)
  have "release_orphans (\<lambda>k. ctx (Suc k)) e (fput (task_file (tt_ID t)) (Doc (release_task (en_now e) t)) d) ts =
     (Inr (), fput_all (\<lambda>t. task_file (tt_ID t)) (\<lambda>t. Doc (release_task (en_now e) t)) ts
        (fput (task_file (tt_ID t)) (Doc (release_task (en_now e) t)) d))"
    by (rule Cons.IH) (use Cons.prems in auto)
  with t wr Cons.prems(2) show ?case by auto
qed

lemma remove_heartbeats_quiet:
  "(\<And>n. en_rmfault e n = None) \<Longrightarrow> (\<And>k. ctx k = None) \<Longrightarrow>
   remove_heartbeats ctx e s hbs = (Inr (), fdel_all (map hb_WorkerID hbs) s)"
  by (induction hbs arbitrary: s ctx) (auto simp: os_Remove_quiet os_IsNotExist_def)

lemma remove_dispatches_quiet:
  "(\<And>n. en_rmfault e n = None) \<Longrightarrow> (\<And>k. ctx k = None) \<Longrightarrow>
   remove_dispatches ctx T e stale d xs =
     (Inr (), fdel_all (map (\<lambda>x. dispatch_file (de_TaskID x)) (filter (stale_dispatch T (en_now e) stale) xs)) d)"
  by (induction xs arbitrary: d ctx) (auto simp: os_Remove_quiet os_IsNotExist_def)

lemma Recover_quiet:
  assumes wf: "\<And>n. en_wfault e n = None" and rm: "\<And>n. en_rmfault e n = None" and ctx: "\<And>k. ctx k = None"
    and dg: "Diagnose L T eh et ed s team = Inr rep"
    and orphans: "\<And>t. t \<in> set (dr_OrphanedTasks rep) \<Longrightarrow> map_of (td_tasks s) (task_file (tt_ID t)) \<noteq> Some SubDir"
  shows "Recover ctx L T eh et ed e s team = (Inr (),
     s\<lparr>td_tasks := fput_all (\<lambda>t. task_file (tt_ID t)) (\<lambda>t. Doc (release_task (en_now e) t)) (dr_OrphanedTasks rep) (td_tasks s),
       td_heartbeats := fdel_all (map hb_WorkerID (dr_StaleWorkers rep)) (td_heartbeats s),
       td_dispatch := fdel_all (map (\<lambda>x. dispatch_file (de_TaskID x))
          (filter (stale_dispatch T (en_now e) (dr_StaleWorkers rep)) (dr_PendingDispatch rep))) (td_dispatch s)\<rparr>)"
proof -
  have "tt_Status t = TaskInProgress \<and> tt_Claim t \<noteq> None" if "t \<in> set (dr_OrphanedTasks rep)" for t
    using that dg by (auto simp: Diagnose_def orphaned_def split: sum.splits option.splits if_splits prod.splits)
  then have "release_orphans ctx e (td_tasks s) (dr_OrphanedTasks rep) = (Inr (),
      fput_all (\<lambda>t. task_file (tt_ID t)) (\<lambda>t. Doc (release_task (en_now e) t)) (dr_OrphanedTasks rep) (td_tasks s))"
    using orphans by (intro release_orphans_quiet wf ctx) auto
  then show ?thesis
    by (simp add: Recover_def dg remove_heartbeats_quiet [OF rm ctx] remove_dispatches_quiet [OF rm ctx])
qed

lemma Diagnose_workers:
  assumes ok: "heartbeats_ok (td_heartbeats s)" and quiet: "en_dirfault eh = None" "\<And>n. en_statfault eh n = None"
    and dg: "Diagnose L T eh et ed s team = Inr rep"
  shows "hb_WorkerID ` set (dr_StaleWorkers rep) = {w. stale_worker T (en_now eh) (td_heartbeats s) w}"
    and "\<exists>fresh ts. set fresh = {w. fresh_worker T (en_now eh) (td_heartbeats s) w}
       \<and> ListTasks L et (td_tasks s) = Inr ts \<and> dr_OrphanedTasks rep = filter (orphaned fresh) ts"
proof -
  let ?s = "td_heartbeats s"
  obtain hbs old fresh ts where all: "heartbeat_ListAll eh ?s = Inr hbs"
    and sp: "split_heartbeats T eh ?s hbs = Inr (old, fresh)" and ts: "ListTasks L et (td_tasks s) = Inr ts"
    and rep: "dr_StaleWorkers rep = old" "dr_OrphanedTasks rep = filter (orphaned fresh) ts"
    using dg by (auto simp: Diagnose_def split: sum.splits prod.splits)
  note mem = ListAll_mem [OF ok quiet(1) all]
  have st: "IsStale T eh ?s w = Inr (isStaleAt T (en_now eh) t)" if "map_of ?s w = Some (t, v)" for w t v
    using that quiet(2) by (simp add: IsStale_def heartbeat_Stat_def)
  have name: "hb_WorkerID hb = w" if "map_of ?s w = Some (t, Doc hb)" for w t hb
    using that ok by (auto simp: heartbeats_ok_def)
  have pick: "hb_WorkerID ` {hb \<in> set hbs. IsStale T eh ?s (hb_WorkerID hb) = Inr b} =
      {w. \<exists>t hb. map_of ?s w = Some (t, Doc hb) \<and> isStaleAt T (en_now eh) t = b}" for b
  proof (rule set_eqI)
    fix w
    have "w \<in> hb_WorkerID ` {hb \<in> set hbs. IsStale T eh ?s (hb_WorkerID hb) = Inr b} \<longleftrightarrow>
        (\<exists>hb t. map_of ?s w = Some (t, Doc hb) \<and> IsStale T eh ?s w = Inr b)"
      using mem name by blast
    also have "\<dots> \<longleftrightarrow> (\<exists>t hb. map_of ?s w = Some (t, Doc hb) \<and> isStaleAt T (en_now eh) t = b)"
      using st [of w] by auto
    finally show "w \<in> hb_WorkerID ` {hb \<in> set hbs. IsStale T eh ?s (hb_WorkerID hb) = Inr b} \<longleftrightarrow>
        w \<in> {w. \<exists>t hb. map_of ?s w = Some (t, Doc hb) \<and> isStaleAt T (en_now eh) t = b}" by simp
  qed
  show "hb_WorkerID ` set (dr_StaleWorkers rep) = {w. stale_worker T (en_now eh) ?s w}"
    using split_heartbeats_spec [OF sp] pick [of True] by (simp only: rep worker_iff set_filter)
  show "\<exists>fresh ts. set fresh = {w. fresh_worker T (en_now eh) ?s w}
       \<and> ListTasks L et (td_tasks s) = Inr ts \<and> dr_OrphanedTasks rep = filter (orphaned fresh) ts"
    using split_heartbeats_spec [OF sp] pick [of False]
    by (intro exI [of _ fresh] exI [of _ ts]) (simp only: rep ts worker_iff)
qed

lemma release_task_ID [simp]: "tt_ID (release_task now t) = tt_ID t"
  by (simp add: release_task_def)

lemma task_ok_release: "task_ok t \<Longrightarrow> task_ok (release_task now t)"
  by (simp add: task_ok_def release_task_def)

lemma registry_ok_release:
  "registry_ok d \<Longrightarrow> (\<And>t. t \<in> set ts \<Longrightarrow> task_ok t) \<Longrightarrow>
   registry_ok (fput_all (\<lambda>t. task_file (tt_ID t)) (\<lambda>t. Doc (release_task now t)) ts d)"
  by (induction ts arbitrary: d) (auto simp: registry_ok_put task_ok_release)

text \<open>A stored task as the scan of \<open>Diagnose\<close> judges it.\<close>

definition abandoned :: "int \<Rightarrow> duration \<Rightarrow> time \<Rightarrow> heartbeats \<Rightarrow> TeamTask \<Rightarrow> bool" where
  "abandoned L T now hbs t = (case tt_Claim t of
      None \<Rightarrow> False
    | Some c \<Rightarrow> tt_Status t = TaskInProgress \<and> \<not> applyLeaseExpiry L now t
               \<and> \<not> fresh_worker T now hbs (tc_WorkerID c))"

lemma orphaned_expire:
  assumes "set fresh = {w. fresh_worker T now hbs w}"
  shows "orphaned fresh (expire_claim L now t) \<longleftrightarrow> abandoned L T now hbs t"
    and "abandoned L T now hbs t \<Longrightarrow> expire_claim L now t = t"
  using assms by (auto simp: orphaned_def abandoned_def expire_claim_def split: option.splits)

lemma Recover_tasks:
  assumes ok: "registry_ok d" and fresh: "set fresh = {w. fresh_worker T now hbs w}"
    and t: "read_task d i = Inr t" and i: "CHR ''/'' \<notin> set i"
  shows "read_task (fput_all (\<lambda>t. task_file (tt_ID t)) (\<lambda>t. Doc (release_task now t))
           (filter (orphaned fresh) (listed_tasks L now d)) d) i =
         Inr (if abandoned L T now hbs t then release_task now t else t)"
proof -
  let ?os = "filter (orphaned fresh) (listed_tasks L now d)"
  have sound: "u = expire_claim L now t" if "u \<in> set ?os" "tt_ID u = i" for u
    using listed_tasks_sound [OF ok, of u L now] that t by auto
  have ID: "tt_ID t = i" using registry_ok_read [OF ok t] by simp
  show ?thesis
  proof (cases "abandoned L T now hbs t")
    case True
    then have "t \<in> set ?os"
      using listed_tasks_complete [OF ok t i, of L now] orphaned_expire [OF fresh, of L t] by auto
    moreover have "u = t" if "u \<in> set ?os" "task_file (tt_ID u) = task_file (tt_ID t)" for u
      using sound that ID orphaned_expire(2) [OF fresh True] by simp
    ultimately have "map_of (fput_all (\<lambda>t. task_file (tt_ID t)) (\<lambda>t. Doc (release_task now t)) ?os d)
        (task_file (tt_ID t)) = Some (Doc (release_task now t))"
      by (intro fput_all_lookup_mem) blast+
    with True ID show ?thesis by (simp add: read_task_Inr)
  next
    case False
    have "task_file i \<notin> (\<lambda>t. task_file (tt_ID t)) ` set ?os"
    proof
      assume "task_file i \<in> (\<lambda>t. task_file (tt_ID t)) ` set ?os"
      then obtain u where "u \<in> set ?os" "tt_ID u = i" by auto
      with sound have "orphaned fresh (expire_claim L now t)" by auto
      with False show False by (simp add: orphaned_expire(1) [OF fresh])
    qed
    with False t show ?thesis by (simp add: read_task_Inr fput_all_lookup_other)
  qed
qed

section \<open>Properties\<close>

text \<open>
  Recovery without faults and with a live context, on a well-formed team whose diagnosis
  succeeds: it returns without error; every stored task that is in progress under a live lease and
  whose worker has no fresh heartbeat becomes pending without a claim, at the next version, every
  other task is unchanged; exactly the stale heartbeats are removed; the registry stays well-formed.
\<close>

theorem Recover_releases_abandoned:
  assumes ok: "registry_ok (td_tasks s)" "heartbeats_ok (td_heartbeats s)"
    and quiet: "\<And>n. en_wfault e n = None" "\<And>n. en_rmfault e n = None" "\<And>n. en_statfault e n = None"
      "en_dirfault e = None" and ctx: "\<And>k. ctx k = None"
    and dg: "Diagnose L T e e e s team = Inr rep"
    and t: "read_task (td_tasks s) i = Inr t" "CHR ''/'' \<notin> set i"
  shows "\<exists>s'. Recover ctx L T e e e e s team = (Inr (), s')
    \<and> read_task (td_tasks s') i =
        Inr (if abandoned L T (en_now e) (td_heartbeats s) t
             then t\<lparr>tt_Status := TaskPending, tt_Claim := None,
                    tt_Version := tt_Version t + 1, tt_UpdatedAt := en_now e\<rparr> else t)
    \<and> map_of (td_heartbeats s') w =
        (if stale_worker T (en_now e) (td_heartbeats s) w then None else map_of (td_heartbeats s) w)
    \<and> registry_ok (td_tasks s')"
proof -
  obtain fresh where fresh: "set fresh = {w. fresh_worker T (en_now e) (td_heartbeats s) w}"
    and os: "dr_OrphanedTasks rep = filter (orphaned fresh) (listed_tasks L (en_now e) (td_tasks s))"
    using Diagnose_workers(2) [OF ok(2) quiet(4,3) dg] ListTasks_quiet [OF quiet(4)] by auto
  have stored: "\<exists>u0. read_task (td_tasks s) (tt_ID u) = Inr u0 \<and> u = u0" if "u \<in> set (dr_OrphanedTasks rep)" for u
  proof -
    have "u \<in> set (listed_tasks L (en_now e) (td_tasks s))" and o: "orphaned fresh u"
      using that by (simp_all add: os)
    then obtain u0 where u0: "read_task (td_tasks s) (tt_ID u) = Inr u0" "u = expire_claim L (en_now e) u0"
      using listed_tasks_sound [OF ok(1)] by blast
    with o have "expire_claim L (en_now e) u0 = u0"
      using orphaned_expire [OF fresh] by simp
    with u0 show ?thesis by simp
  qed
  have dirs: "map_of (td_tasks s) (task_file (tt_ID u)) \<noteq> Some SubDir" if "u \<in> set (dr_OrphanedTasks rep)" for u
    using stored [OF that] by (auto simp: read_task_Inr)
  have "task_ok u" if "u \<in> set (dr_OrphanedTasks rep)" for u
    using stored [OF that] registry_ok_read [OF ok(1)] by auto
  then have "registry_ok (fput_all (\<lambda>t. task_file (tt_ID t)) (\<lambda>t. Doc (release_task (en_now e) t))
      (dr_OrphanedTasks rep) (td_tasks s))"
    by (rule registry_ok_release [OF ok(1)])
  then show ?thesis
    using Recover_quiet [OF quiet(1,2) ctx dg dirs] Recover_tasks [OF ok(1) fresh t, of L]
      Diagnose_workers(1) [OF ok(2) quiet(4,3) dg]
    by (simp add: fdel_all_lookup release_task_def os)
qed

definition ex_abandoned :: team_dir where
  "ex_abandoned = empty_team\<lparr>
     td_tasks := [(''a.json'', Doc (claim_upd 9 ''w0'' ''tk'' (ex_task ''a'' [])))],
     td_heartbeats := [(''w0'', 10, Doc \<lparr>hb_WorkerID = ''w0'', hb_PID = 7, hb_CurrentTask = ''a'',
                                       hb_Status = ''busy'', hb_Timestamp = 10\<rparr>)]\<rparr>"

lemma ex_abandoned_diagnosis: "\<exists>rep. Diagnose 60 50 (quiet_env 100 []) (quiet_env 100 []) (quiet_env 100 []) ex_abandoned ''team'' = Inr rep"
proof -
  have "isl (Diagnose 60 50 (quiet_env 100 []) (quiet_env 100 []) (quiet_env 100 []) ex_abandoned ''team'') = False"
    by code_simp
  then show ?thesis
    by (cases "Diagnose 60 50 (quiet_env 100 []) (quiet_env 100 []) (quiet_env 100 []) ex_abandoned ''team''") auto
qed

theorem Recover_releases_abandoned_witness:
  "\<exists>s'. Recover (\<lambda>_. None) 60 50 (quiet_env 100 []) (quiet_env 100 []) (quiet_env 100 []) (quiet_env 100 [])
          ex_abandoned ''team'' = (Inr (), s')
     \<and> map_of (td_heartbeats s') ''w0'' = None
     \<and> (\<exists>t'. read_task (td_tasks s') ''a'' = Inr t' \<and> tt_Status t' = TaskPending \<and> tt_Version t' = 3)"
proof -
  let ?t = "claim_upd 9 ''w0'' ''tk'' (ex_task ''a'' [])"
  obtain rep where rep: "Diagnose 60 50 (quiet_env 100 []) (quiet_env 100 []) (quiet_env 100 []) ex_abandoned ''team'' = Inr rep"
    using ex_abandoned_diagnosis by blast
  have reg: "registry_ok (td_tasks ex_abandoned)"
    by (simp add: registry_ok_def ex_abandoned_def wf_dir_def ex_task_def task_ok_def task_file_def)
  have hbs: "heartbeats_ok (td_heartbeats ex_abandoned)"
    by (simp add: heartbeats_ok_def ex_abandoned_def wf_dir_def)
  have rd: "read_task (td_tasks ex_abandoned) ''a'' = Inr ?t"
    by (simp add: read_task_Inr ex_abandoned_def task_file_def)
  have ab: "abandoned 60 50 100 (td_heartbeats ex_abandoned) ?t"
    and st: "stale_worker 50 100 (td_heartbeats ex_abandoned) ''w0''" by code_simp+
  have v: "tt_Version ?t = 2" by (simp add: ex_task_def)
  show ?thesis
    using Recover_releases_abandoned [OF reg hbs _ _ _ _ _ rep rd, of "\<lambda>_. None" "''w0''"] ab st v
    by auto
qed

section \<open>Cleanup of a worker\<close>

definition removable :: "string \<Rightarrow> DispatchEntry \<Rightarrow> bool" where
  "removable workerID x \<longleftrightarrow> (workerID = [] \<or> de_WorkerID x = workerID) \<and> entry_unacked x"

lemma clean_dispatch_loop_spec:
  "(\<And>n. en_rmfault e n = None) \<Longrightarrow> clean_dispatch_loop e w d ns = (errs, d') \<Longrightarrow>
   map_of d' n = (case map_of d n of
      Some (Doc x) \<Rightarrow> (if n \<in> set ns \<and> removable w x then None else Some (Doc x))
    | v \<Rightarrow> v)"
proof (induction ns arbitrary: d errs)
  case Nil
  then show ?case by (auto split: option.splits node.splits)
next
  case (Cons m ns)
  show ?case
  proof (cases "\<exists>x. map_of d m = Some (Doc x) \<and> removable w x")
    case True
    then obtain x where x: "map_of d m = Some (Doc x)" "removable w x" by blast
    then have "clean_dispatch_loop e w (fdel m d) ns = (errs, d')"
      using Cons.prems by (auto simp: ReadJSON_def removable_def entry_unacked_def os_Remove_quiet split: if_splits)
    from Cons.IH [OF Cons.prems(1) this] x show ?thesis
      by (auto split: option.splits node.splits)
  next
    case False
    then obtain errs' where "clean_dispatch_loop e w d ns = (errs', d')"
      using Cons.prems by (cases "map_of d m")
        (auto simp: ReadJSON_def removable_def entry_unacked_def split: node.splits if_splits prod.splits)
    from Cons.IH [OF Cons.prems(1) this] False show ?thesis
      by (auto split: option.splits node.splits)
  qed
qed

lemma remove_file_quiet: "en_rmfault e n = None \<Longrightarrow> remove_file e d n = ([], fdel n d)"
  by (simp add: remove_file_def os_Remove_quiet)

text \<open>
  Removing a worker without removal faults: its worker file, heartbeat and mailbox are gone,
  its unacknowledged pending dispatch entries are gone, and everything that belongs to other workers
  and to other parts of the team is untouched.
\<close>

theorem CleanupWorker_removes_only_worker:
  assumes wf: "wf_dir (td_dispatch s)" and quiet: "\<And>n. en_rmfault e n = None" "en_dirfault e = None"
    and names: "team \<noteq> []" "w \<noteq> []" and run: "CleanupWorker True e s team w = (errs, s')"
  shows "map_of (td_workers s') n = (if n = w @ ''.json'' then None else map_of (td_workers s) n)
    \<and> map_of (td_heartbeats s') v = (if v = w then None else map_of (td_heartbeats s) v)
    \<and> map_of (td_mailbox s') v = (if v = w then None else map_of (td_mailbox s) v)
    \<and> map_of (td_dispatch s') n = (case map_of (td_dispatch s) n of
         Some (Doc x) \<Rightarrow> (if n \<in> set (json_files (td_dispatch s)) \<and> de_WorkerID x = w \<and> entry_unacked x
                         then None else Some (Doc x))
       | f \<Rightarrow> f)
    \<and> td_tasks s' = td_tasks s \<and> td_phase s' = td_phase s \<and> td_manifest s' = td_manifest s
    \<and> td_ownership s' = td_ownership s"
proof -
  obtain e5 ds where loop: "clean_dispatch_loop e w (td_dispatch s) (json_files (td_dispatch s)) = (e5, ds)"
    by (cases "clean_dispatch_loop e w (td_dispatch s) (json_files (td_dispatch s))")
  have s': "s' = s\<lparr>td_workers := fdel (w @ ''.json'') (td_workers s), td_heartbeats := fdel w (fdel w (td_heartbeats s)),
      td_mailbox := fdel w (td_mailbox s), td_dispatch := ds\<rparr>"
    using run names quiet loop
    by (simp add: CleanupWorker_def remove_file_quiet remove_all_def cleanupPendingDispatchLocked_def)
  show ?thesis
    using clean_dispatch_loop_spec [OF quiet(1) loop, of n] names(2)
    by (cases "map_of (td_dispatch s) n") (auto simp: s' removable_def split: node.splits)
qed

theorem CleanupWorker_removes_only_worker_witness:
  "\<exists>errs s'. CleanupWorker True (quiet_env 9 []) (empty_team\<lparr>td_dispatch := ex_queue\<rparr>) ''team'' ''w0'' = (errs, s')
     \<and> map_of (td_dispatch s') ''t1.json'' = None"
proof -
  obtain errs s' where run: "CleanupWorker True (quiet_env 9 []) (empty_team\<lparr>td_dispatch := ex_queue\<rparr>) ''team'' ''w0'' = (errs, s')"
    by (cases "CleanupWorker True (quiet_env 9 []) (empty_team\<lparr>td_dispatch := ex_queue\<rparr>) ''team'' ''w0''")
  have wf: "wf_dir (td_dispatch (empty_team\<lparr>td_dispatch := ex_queue\<rparr>))"
    by (simp add: ex_queue_def wf_dir_def)
  have "map_of ex_queue ''t1.json'' = Some (Doc ex_entry)" "''t1.json'' \<in> set (json_files ex_queue)"
      "de_WorkerID ex_entry = ''w0'' \<and> entry_unacked ex_entry" by code_simp+
  with run show ?thesis
    using CleanupWorker_removes_only_worker [OF wf _ _ _ _ run, of "''t1.json''"] by simp
qed

end
