(* ===== verification/Coordinator.thy ===== *)
theory Coordinator
  imports Phase_Machine Governance Ownership Mailbox Heartbeat_Monitor Allocation Recovery
begin

text \<open>
  \<open>internal/team/coordinator.go\<close>: the staged pipeline of a team. The coordinator's state is the
  team directory, the table of running workers and the buffered event channel. What it observes of
  the outside enters as arguments: \<open>es k\<close> is the environment of the \<open>k\<close>-th call on the stores,
  \<open>ctx\<close> the answer of \<open>ctx.Err()\<close> during the call, and an \<open>exec_world\<close> holds the answers of the
  workspace manager and of the agent runner. The goroutines that renew the lease and write
  heartbeats while an agent runs are the list of their ticks. Workers of the exec phase run in
  parallel; a schedule lists whose loop body runs next, one body at a time.
\<close>

section \<open>State\<close>

record coord_config =
  cc_teamName :: string
  cc_MaxWorkers :: int
  cc_MaxFixLoops :: int
  cc_ClaimLeaseSeconds :: int
  cc_AgentType :: string

record workerHandle =
  wh_state :: WorkerState
  wh_process :: "int option"

datatype data_value = DStr string | DInt int | DStrs "string list"

text \<open>An event without its time stamp, which nothing here reads.\<close>

record TeamEvent =
  te_Type :: string
  te_TeamName :: string
  te_Data :: "(string \<times> data_value) list"

record coord =
  co_dir :: team_dir
  co_workers :: "workerHandle fdir"
  co_events :: "TeamEvent list"

text \<open>A send on the event channel, which is dropped when its buffer of 100 is full.\<close>

definition emitEvent :: "coord_config \<Rightarrow> coord \<Rightarrow> string \<Rightarrow> (string \<times> data_value) list \<Rightarrow> coord" where
  "emitEvent cfg c eventType data =
     (let event = \<lparr>te_Type = eventType, te_TeamName = cc_teamName cfg, te_Data = data\<rparr>
      in if length (co_events c) < 100 then c\<lparr>co_events := co_events c @ [event]\<rparr> else c)"

definition on_tasks :: "(tasks \<Rightarrow> 'a \<times> tasks) \<Rightarrow> coord \<Rightarrow> 'a \<times> coord" where
  "on_tasks f c = (let (r, d) = f (td_tasks (co_dir c)) in (r, c\<lparr>co_dir := (co_dir c)\<lparr>td_tasks := d\<rparr>\<rparr>))"

definition on_phase :: "(phases \<Rightarrow> 'a \<times> phases) \<Rightarrow> coord \<Rightarrow> 'a \<times> coord" where
  "on_phase f c = (let (r, d) = f (td_phase (co_dir c)) in (r, c\<lparr>co_dir := (co_dir c)\<lparr>td_phase := d\<rparr>\<rparr>))"

definition on_mailbox :: "(mailbox \<Rightarrow> 'a \<times> mailbox) \<Rightarrow> coord \<Rightarrow> 'a \<times> coord" where
  "on_mailbox f c = (let (r, d) = f (td_mailbox (co_dir c)) in (r, c\<lparr>co_dir := (co_dir c)\<lparr>td_mailbox := d\<rparr>\<rparr>))"

definition on_ownership :: "(ownership \<Rightarrow> 'a \<times> ownership) \<Rightarrow> coord \<Rightarrow> 'a \<times> coord" where
  "on_ownership f c = (let (r, d) = f (td_ownership (co_dir c)) in (r, c\<lparr>co_dir := (co_dir c)\<lparr>td_ownership := d\<rparr>\<rparr>))"

definition on_heartbeats :: "(heartbeats \<Rightarrow> 'a \<times> heartbeats) \<Rightarrow> coord \<Rightarrow> 'a \<times> coord" where
  "on_heartbeats f c = (let (r, d) = f (td_heartbeats (co_dir c)) in (r, c\<lparr>co_dir := (co_dir c)\<lparr>td_heartbeats := d\<rparr>\<rparr>))"

definition phase_to :: "coord_config \<Rightarrow> env \<Rightarrow> coord \<Rightarrow> TeamPhase \<Rightarrow> string \<Rightarrow> unit result \<times> coord" where
  "phase_to cfg e c to reason = on_phase (\<lambda>d. Transition (cc_MaxFixLoops cfg) e d to reason) c"

definition Initialize :: "coord_config \<Rightarrow> env \<Rightarrow> coord \<Rightarrow> TeamConfig \<Rightarrow> unit result \<times> coord" where
  "Initialize cfg e c teamCfg = (case CreateManifest e (co_dir c) (cc_teamName cfg) teamCfg of
      (Inl err, d) \<Rightarrow> (Inl (Wrap ''create team manifest'' err), c\<lparr>co_dir := d\<rparr>)
    | (Inr _, d) \<Rightarrow> (Inr (), emitEvent cfg (c\<lparr>co_dir := d\<rparr>) ''team_created''
          [(''team_name'', DStr (cc_teamName cfg)), (''max_workers'', DInt (cf_MaxWorkers teamCfg)),
           (''board_issue_id'', DStr (cf_BoardIssueID teamCfg))]))"

section \<open>Governance\<close>

definition coordinator_policy :: "coord_config \<Rightarrow> PolicyRule list" where
  "coordinator_policy cfg = [MaxConcurrentTasksRule 3, PhaseGateRule, WorkerCapacityRule (cc_MaxWorkers cfg)]"

fun decision_type_string :: "DecisionType \<Rightarrow> string" where
  "decision_type_string DecisionClaim = ''claim''"
| "decision_type_string DecisionTransition = ''transition''"
| "decision_type_string DecisionAssign = ''assign''"

text \<open>The error value of a governance check, with the text of \<open>PolicyViolation.Error\<close>.\<close>

fun governance_error :: "GovernanceError \<Rightarrow> go_error" where
  "governance_error (CtxError err) = err"
| "governance_error (PolicyViolation rule d err) =
     Wrap (''governance policy violation: rule='' @ rule @ '' decision='' @
           decision_type_string (dc_Type d) @ '' team='' @ dc_TeamName d) err"

definition workerGovernanceSnapshot :: "coord \<Rightarrow> string \<Rightarrow> int \<times> int" where
  "workerGovernanceSnapshot c workerID =
     (case map_of (co_workers c) workerID of
        None \<Rightarrow> 0
      | Some w \<Rightarrow> (if ws_CurrentTask (wh_state w) \<noteq> [] then 1 else 0),
      int (length (co_workers c)))"

definition transition_decision :: "coord_config \<Rightarrow> coord \<Rightarrow> TeamPhase \<Rightarrow> bool \<Rightarrow> Decision" where
  "transition_decision cfg c phase allTerminal =
     \<lparr>dc_Type = DecisionTransition, dc_WorkerID = [], dc_TaskID = [], dc_Phase = phase,
      dc_TeamName = cc_teamName cfg, dc_WorkerActiveTasks = 0,
      dc_ActiveWorkerCount = snd (workerGovernanceSnapshot c []),
      dc_CurrentPhaseTasksTerminal = allTerminal\<rparr>"

definition checkTransitionGovernance ::
  "coord_config \<Rightarrow> go_error option \<Rightarrow> env \<Rightarrow> coord \<Rightarrow> TeamPhase \<Rightarrow> go_error option" where
  "checkTransitionGovernance cfg ctx e c phase =
     (case AllTasksTerminal (cc_ClaimLeaseSeconds cfg) e (td_tasks (co_dir c)) of
        Inl err \<Rightarrow> Some err
      | Inr allTerminal \<Rightarrow>
          map_option governance_error
            (policy_Check ctx (coordinator_policy cfg) (transition_decision cfg c phase allTerminal)))"

section \<open>Running a task\<close>

datatype exec_outcome = ProcDone "go_error option" | WorkerCancelled go_error

record exec_world =
  ew_env :: env
  ew_workdir :: "string result"
  ew_start :: "string \<Rightarrow> string \<Rightarrow> int result"
  ew_renewals :: "env list"
  ew_beats :: "env list"
  ew_outcome :: exec_outcome

text \<open>\<open>renewLeaseLoop\<close>: one renewal per tick, until one fails.\<close>

fun renewLeaseLoop :: "int \<Rightarrow> tasks \<Rightarrow> string \<Rightarrow> string \<Rightarrow> env list \<Rightarrow> tasks" where
  "renewLeaseLoop L d taskID token [] = d"
| "renewLeaseLoop L d taskID token (e # es) = (case RenewLease L e d taskID token of
      (Inl _, d') \<Rightarrow> d'
    | (Inr _, d') \<Rightarrow> renewLeaseLoop L d' taskID token es)"

text \<open>\<open>heartbeatLoop\<close>: a heartbeat at once and one per tick; a failing write is only logged.\<close>

fun heartbeatLoop :: "heartbeats \<Rightarrow> string \<Rightarrow> int \<Rightarrow> env list \<Rightarrow> heartbeats" where
  "heartbeatLoop s workerID pid [] = s"
| "heartbeatLoop s workerID pid (e # es) =
     heartbeatLoop (snd (heartbeat_Write e s \<lparr>hb_WorkerID = workerID, hb_PID = pid, hb_CurrentTask = [],
       hb_Status = ''working'', hb_Timestamp = en_now e\<rparr>)) workerID pid es"

text \<open>The deferred function of \<open>executeTask\<close>.\<close>

definition finish_worker :: "time \<Rightarrow> coord \<Rightarrow> string \<Rightarrow> coord" where
  "finish_worker now c workerID =
     (if workerID = ''coordinator'' \<or> workerID = ''verifier'' then c\<lparr>co_workers := fdel workerID (co_workers c)\<rparr>
      else (case map_of (co_workers c) workerID of
          None \<Rightarrow> c
        | Some w \<Rightarrow> c\<lparr>co_workers := fput workerID (w\<lparr>wh_state := (wh_state w)\<lparr>ws_Status := ''idle'',
              ws_CurrentTask := [], ws_LastHeartbeat := now\<rparr>\<rparr>) (co_workers c)\<rparr>))"

definition task_prompt :: "env \<Rightarrow> coord \<Rightarrow> TeamTask \<Rightarrow> string \<Rightarrow> string \<times> coord" where
  "task_prompt e c task workerID =
     (let (r, c') = on_mailbox (\<lambda>m. DrainPending e m workerID) c
      in (case r of
            Inr injection \<Rightarrow> (if injection \<noteq> [] then tt_Description task @ newline @ injection
                             else tt_Description task)
          | Inl _ \<Rightarrow> tt_Description task, c'))"

definition executeTask ::
  "coord_config \<Rightarrow> exec_world \<Rightarrow> coord \<Rightarrow> TeamTask \<Rightarrow> string \<Rightarrow> string \<Rightarrow> unit result \<times> coord" where
  "executeTask cfg x c task token workerID = (case ew_workdir x of
      Inl err \<Rightarrow> (Inl (Wrap ''create workspace'' err), c)
    | Inr workDir \<Rightarrow>
        (let now = en_now (ew_env x);
             c1 = c\<lparr>co_workers := fput workerID
                    \<lparr>wh_state = \<lparr>ws_ID = workerID, ws_AgentType = cc_AgentType cfg, ws_Status = ''working'',
                       ws_CurrentTask = tt_ID task, ws_WorkDir = workDir, ws_PID = 0,
                       ws_StartedAt = now, ws_LastHeartbeat = now\<rparr>, wh_process = None\<rparr> (co_workers c)\<rparr>;
             (prompt, c2) = task_prompt (ew_env x) c1 task workerID;
             c3 = (if tt_FileOwnership task \<noteq> []
                   then snd (on_ownership (\<lambda>d. ownership_Claim (ew_env x) d workerID (tt_ID task)
                               (tt_FileOwnership task)) c2)
                   else c2)
         in case ew_start x workDir prompt of
              Inl err \<Rightarrow> (Inl (Wrap ''start agent'' err), finish_worker now c3 workerID)
            | Inr pid \<Rightarrow>
                (let c4 = (case map_of (co_workers c3) workerID of
                        None \<Rightarrow> c3
                      | Some w \<Rightarrow> c3\<lparr>co_workers := fput workerID (w\<lparr>wh_process := Some pid,
                            wh_state := (wh_state w)\<lparr>ws_PID := pid\<rparr>\<rparr>) (co_workers c3)\<rparr>);
                     c5 = snd (on_tasks (\<lambda>d. ((), renewLeaseLoop (cc_ClaimLeaseSeconds cfg) d (tt_ID task) token (ew_renewals x))) c4);
                     c6 = snd (on_heartbeats (\<lambda>s. ((), heartbeatLoop s workerID pid (ew_env x # ew_beats x))) c5);
                     c7 = finish_worker now c6 workerID
                 in case ew_outcome x of
                      ProcDone (Some err) \<Rightarrow> (Inl (Wrap ''agent process failed'' err), c7)
                    | ProcDone None \<Rightarrow> (Inr (), c7)
                    | WorkerCancelled err \<Rightarrow> (Inl err, c7))))"

section \<open>The phases before and after the exec phase\<close>

definition runWorkerPhase ::
  "coord_config \<Rightarrow> (nat \<Rightarrow> env) \<Rightarrow> exec_world \<Rightarrow> coord \<Rightarrow> TeamPhase \<Rightarrow> string \<Rightarrow> unit result \<times> coord" where
  "runWorkerPhase cfg es x c next reason =
     (let (r, c1) = on_tasks (\<lambda>d. ClaimNextTask (cc_ClaimLeaseSeconds cfg) (es 0) d ''coordinator'') c
      in case r of
           Inl err \<Rightarrow>
             (if errors_is err ErrTaskNotClaimable then phase_to cfg (es 1) c1 next (reason @ '': no tasks'')
              else (Inl (Wrap ''claim next task'' err), c1))
         | Inr (task, token) \<Rightarrow>
             (let c2 = emitEvent cfg c1 ''task_claimed'' [(''worker_id'', DStr ''coordinator''),
                         (''task_id'', DStr (tt_ID task)), (''task'', DStr (tt_Subject task))];
                  (rx, c3) = executeTask cfg x c2 task token ''coordinator''
              in case rx of
                   Inl err \<Rightarrow>
                     (let c4 = snd (on_tasks (\<lambda>d. FailTask (cc_ClaimLeaseSeconds cfg) (es 1) d (tt_ID task) token (Error_text err)) c3)
                      in (Inl err, emitEvent cfg c4 ''task_failed'' [(''worker_id'', DStr ''coordinator''),
                            (''task_id'', DStr (tt_ID task)), (''error'', DStr (Error_text err))]))
                 | Inr _ \<Rightarrow>
                     (let (rc, c4) = on_tasks (\<lambda>d. CompleteTask (cc_ClaimLeaseSeconds cfg) (es 1) d (tt_ID task) token
                                        ''completed by coordinator'') c3
                      in case rc of
                           Inl err \<Rightarrow> (Inl err, c4)
                         | Inr _ \<Rightarrow> phase_to cfg (es 2) (emitEvent cfg c4 ''task_completed''
                                [(''worker_id'', DStr ''coordinator''), (''task_id'', DStr (tt_ID task))]) next reason)))"

text \<open>A governance check followed by a transition.\<close>

definition gated_transition ::
  "coord_config \<Rightarrow> go_error option \<Rightarrow> env \<Rightarrow> env \<Rightarrow> coord \<Rightarrow> TeamPhase \<Rightarrow> TeamPhase \<Rightarrow> string \<Rightarrow> unit result \<times> coord" where
  "gated_transition cfg ctx e e' c from to reason =
     (case checkTransitionGovernance cfg ctx e c from of
        Some err \<Rightarrow> (Inl err, c)
      | None \<Rightarrow> phase_to cfg e' c to reason)"

definition runVerifyPhase ::
  "coord_config \<Rightarrow> go_error option \<Rightarrow> (nat \<Rightarrow> env) \<Rightarrow> exec_world \<Rightarrow> coord \<Rightarrow> unit result \<times> coord" where
  "runVerifyPhase cfg ctx es x c =
     (let L = cc_ClaimLeaseSeconds cfg;
          (r, c1) = on_tasks (\<lambda>d. ClaimNextTask L (es 0) d ''verifier'') c
      in case r of
           Inl _ \<Rightarrow> (case AllTasksCompleted L (es 1) (td_tasks (co_dir c1)) of
               Inl allErr \<Rightarrow> (Inl allErr, c1)
             | Inr allCompleted \<Rightarrow>
                 (if allCompleted
                  then gated_transition cfg ctx (es 2) (es 3) c1 PhaseVerify PhaseComplete ''verification passed''
                  else gated_transition cfg ctx (es 2) (es 3) c1 PhaseVerify PhaseFix ''verification found failures''))
         | Inr (task, token) \<Rightarrow>
             (let (rx, c2) = executeTask cfg x c1 task token ''verifier''
              in case rx of
                   Inl err \<Rightarrow>
                     (let c3 = snd (on_tasks (\<lambda>d. FailTask L (es 1) d (tt_ID task) token (Error_text err)) c2)
                      in phase_to cfg (es 2) c3 PhaseFix ''verification failed'')
                 | Inr _ \<Rightarrow>
                     (let (rc, c3) = on_tasks (\<lambda>d. CompleteTask L (es 1) d (tt_ID task) token ''verification completed'') c2
                      in case rc of
                           Inl err \<Rightarrow> (Inl err, c3)
                         | Inr _ \<Rightarrow> (case AllTasksCompleted L (es 2) (td_tasks (co_dir c3)) of
                               Inl err \<Rightarrow> (Inl err, c3)
                             | Inr allCompleted \<Rightarrow>
                                 (if allCompleted
                                  then gated_transition cfg ctx (es 3) (es 4) c3 PhaseVerify PhaseComplete ''verification passed''
                                  else gated_transition cfg ctx (es 3) (es 4) c3 PhaseVerify PhaseFix ''verification requires fixes'')))))"

text \<open>The loop of \<open>runFixPhase\<close> over the listed tasks: whether a task became pending.\<close>

fun reset_failed :: "(nat \<Rightarrow> env) \<Rightarrow> tasks \<Rightarrow> TeamTask list \<Rightarrow> bool result \<times> tasks" where
  "reset_failed es d [] = (Inr False, d)"
| "reset_failed es d (t # ts) =
     (if tt_Status t = TaskFailed
      then (case ResetFailedTask (es 0) d (tt_ID t) of
          (Inl err, d') \<Rightarrow> (Inl (Wrap (''reset task '' @ tt_ID t) err), d')
        | (Inr reset, d') \<Rightarrow> (case reset_failed (\<lambda>k. es (Suc k)) d' ts of
              (Inl err, d'') \<Rightarrow> (Inl err, d'')
            | (Inr hasPending, d'') \<Rightarrow> (Inr (reset \<or> hasPending), d'')))
      else reset_failed (\<lambda>k. es (Suc k)) d ts)"

definition runFixPhase ::
  "coord_config \<Rightarrow> go_error option \<Rightarrow> (nat \<Rightarrow> env) \<Rightarrow> coord \<Rightarrow> unit result \<times> coord" where
  "runFixPhase cfg ctx es c = (case ctx of
      Some err \<Rightarrow> (Inl err, c)
    | None \<Rightarrow> (case ListTasks (cc_ClaimLeaseSeconds cfg) (es 0) (td_tasks (co_dir c)) of
          Inl err \<Rightarrow> (Inl err, c)
        | Inr ts \<Rightarrow>
            (let (r, c1) = on_tasks (\<lambda>d. reset_failed (\<lambda>k. es (k + 3)) d ts) c
             in case r of
                  Inl err \<Rightarrow> (Inl err, c1)
                | Inr hasPending \<Rightarrow>
                    (if \<not> hasPending
                     then gated_transition cfg ctx (es 1) (es 2) c1 PhaseFix PhaseComplete ''no failed tasks to fix''
                     else phase_to cfg (es 2) c1 PhaseExec ''fix phase: retrying failed tasks''))))"

section \<open>The exec phase\<close>

text \<open>
  \<open>claimPendingTask\<close>: with several workers and several unblocked pending tasks a worker takes the
  tasks that the allocation gives to it, otherwise the first claimable one. \<open>es 0\<close> is observed by the
  listing, \<open>es 1\<close> by the claims of allocated tasks, \<open>es 2\<close> by the final \<open>ClaimNextTask\<close>.
\<close>

definition team_workers :: "coord_config \<Rightarrow> AllocationWorkerInput list" where
  "team_workers cfg = map (\<lambda>i. \<lparr>aw_Name = ''worker-'' @ fmt_int (int i), aw_Role = cc_AgentType cfg,
     aw_PrimaryRole = []\<rparr>) [0..<nat (cc_MaxWorkers cfg)]"

definition current_assignments :: "TeamTask list \<Rightarrow> AllocationDecision list" where
  "current_assignments ts = List.map_filter (\<lambda>t. case tt_Claim t of
      None \<Rightarrow> None
    | Some c \<Rightarrow> (if tt_Status t = TaskInProgress
                 then Some \<lparr>ad_Owner = tc_WorkerID c, ad_Reason = []\<rparr> else None)) ts"

fun unblocked_pending :: "int \<Rightarrow> time \<Rightarrow> tasks \<Rightarrow> TeamTask list \<Rightarrow> TeamTask list result" where
  "unblocked_pending L now d [] = Inr []"
| "unblocked_pending L now d (t # ts) =
     (if tt_Status t \<noteq> TaskPending then unblocked_pending L now d ts
      else (case isBlocked L now d t of
          Inl err \<Rightarrow> Inl err
        | Inr blocked \<Rightarrow> (case unblocked_pending L now d ts of
              Inl err \<Rightarrow> Inl err
            | Inr ps \<Rightarrow> Inr (if blocked then ps else t # ps))))"

definition allocation_input :: "TeamTask \<Rightarrow> AllocationTaskInput" where
  "allocation_input t = \<lparr>at_ID = tt_ID t, at_Subject = tt_Subject t, at_Description = tt_Description t,
     at_Role = [], at_BlockedBy = tt_BlockedBy t, at_DependsOn = tt_DependsOn t,
     at_Status = task_status_string (tt_Status t), at_Owner = []\<rparr>"

fun claim_allocated ::
  "coord_config \<Rightarrow> env \<Rightarrow> env \<Rightarrow> string \<Rightarrow> AllocationDecision list \<Rightarrow> tasks \<Rightarrow> TeamTask list
     \<Rightarrow> (TeamTask \<times> string) result \<times> tasks" where
  "claim_allocated cfg e e' workerID current d [] =
     ClaimNextTask (cc_ClaimLeaseSeconds cfg) e' d workerID"
| "claim_allocated cfg e e' workerID current d (t # ts) =
     (if ad_Owner (ChooseTaskOwner (allocation_input t) (team_workers cfg) current) \<noteq> workerID
      then claim_allocated cfg e e' workerID current d ts
      else (case ClaimTask (cc_ClaimLeaseSeconds cfg) e d (tt_ID t) workerID (tt_Version t) of
          (Inl err, d') \<Rightarrow>
            (if claim_retryable err then claim_allocated cfg e e' workerID current d' ts else (Inl err, d'))
        | (Inr token, d') \<Rightarrow> (case GetTask (cc_ClaimLeaseSeconds cfg) e d' (tt_ID t) of
              Inl err \<Rightarrow> (Inl err, d')
            | Inr claimed \<Rightarrow> (Inr (claimed, token), d'))))"

definition claimPendingTask ::
  "coord_config \<Rightarrow> (nat \<Rightarrow> env) \<Rightarrow> tasks \<Rightarrow> string \<Rightarrow> (TeamTask \<times> string) result \<times> tasks" where
  "claimPendingTask cfg es d workerID =
     (let L = cc_ClaimLeaseSeconds cfg in
      case ListTasks L (es 0) d of
        Inl err \<Rightarrow> (Inl err, d)
      | Inr ts \<Rightarrow>
          (if length (team_workers cfg) \<le> 1 then ClaimNextTask L (es 2) d workerID
           else (case unblocked_pending L (en_now (es 0)) d ts of
               Inl err \<Rightarrow> (Inl err, d)
             | Inr pending \<Rightarrow>
                 (if length pending \<le> 1 then ClaimNextTask L (es 2) d workerID
                  else claim_allocated cfg (es 1) (es 2) workerID (current_assignments ts) d
                         (sort_key tt_ID pending)))))"

definition notifyTaskAssignment :: "env \<Rightarrow> coord \<Rightarrow> string \<Rightarrow> TeamTask \<Rightarrow> coord" where
  "notifyTaskAssignment e c workerID task =
     snd (on_mailbox (\<lambda>m. Send e m ''coordinator'' workerID
            (''Task '' @ tt_ID task @ '' assigned to you: '' @ tt_Subject task)) c)"

definition claim_decision :: "coord_config \<Rightarrow> coord \<Rightarrow> string \<Rightarrow> Decision" where
  "claim_decision cfg c workerID =
     (let (activeCount, activeWorkerCount) = workerGovernanceSnapshot c workerID
      in \<lparr>dc_Type = DecisionClaim, dc_WorkerID = workerID, dc_TaskID = [], dc_Phase = PhaseOther [],
          dc_TeamName = cc_teamName cfg, dc_WorkerActiveTasks = activeCount,
          dc_ActiveWorkerCount = activeWorkerCount, dc_CurrentPhaseTasksTerminal = False\<rparr>)"

definition governanceRetryLimit :: nat where
  "governanceRetryLimit = 10"

text \<open>
  A worker between two bodies of its loop: still running, with the governance retries so far, or
  returned with an error or without.
\<close>

datatype worker_status = Looping nat | Returned "go_error option"

definition workerLoop_body ::
  "coord_config \<Rightarrow> go_error option \<Rightarrow> (nat \<Rightarrow> env) \<Rightarrow> exec_world \<Rightarrow> coord \<Rightarrow> string \<Rightarrow> nat
     \<Rightarrow> worker_status \<times> coord" where
  "workerLoop_body cfg ctx es x c workerID governanceRetries = (case ctx of
      Some err \<Rightarrow> (Returned (Some err), c)
    | None \<Rightarrow> (case policy_Check ctx (coordinator_policy cfg) (claim_decision cfg c workerID) of
        Some _ \<Rightarrow>
          (if Suc governanceRetries \<ge> governanceRetryLimit then (Returned None, c)
           else (Looping (Suc governanceRetries), c))
      | None \<Rightarrow>
          (let (r, c1) = on_tasks (\<lambda>d. claimPendingTask cfg es d workerID) c
           in case r of
                Inl err \<Rightarrow>
                  (if errors_is err ErrTaskNotClaimable then (Returned None, c1)
                   else (Returned (Some (Wrap ''claim next task'' err)), c1))
              | Inr (task, token) \<Rightarrow>
                  (let L = cc_ClaimLeaseSeconds cfg;
                       c2 = emitEvent cfg c1 ''task_claimed'' [(''worker_id'', DStr workerID),
                              (''task_id'', DStr (tt_ID task)), (''task'', DStr (tt_Subject task))];
                       c3 = notifyTaskAssignment (es 3) c2 workerID task;
                       (rx, c4) = executeTask cfg x c3 task token workerID;
                       c5 = snd (on_ownership (\<lambda>d. ownership_ReleaseTask (es 4) d (tt_ID task)) c4)
                   in case rx of
                        Inl err \<Rightarrow>
                          (let c6 = snd (on_tasks (\<lambda>d. FailTask L (es 5) d (tt_ID task) token (Error_text err)) c5)
                           in (Looping 0, emitEvent cfg c6 ''task_failed'' [(''worker_id'', DStr workerID),
                                 (''task_id'', DStr (tt_ID task)), (''error'', DStr (Error_text err))]))
                      | Inr _ \<Rightarrow>
                          (let (rc, c6) = on_tasks (\<lambda>d. CompleteTask L (es 5) d (tt_ID task) token
                                             (''completed by '' @ workerID)) c5
                           in case rc of
                                Inl err \<Rightarrow> (Returned (Some err), c6)
                              | Inr _ \<Rightarrow> (Looping 0, emitEvent cfg c6 ''task_completed''
                                    [(''worker_id'', DStr workerID), (''task_id'', DStr (tt_ID task))]))))))"

text \<open>
  One entry of a schedule: the index of the worker whose body runs and what it observes. A worker
  that returned an error cancels the context of the group.
\<close>

record sched_item =
  si_worker :: nat
  si_ctx :: "go_error option"
  si_envs :: "nat \<Rightarrow> env"
  si_exec :: exec_world

fun exec_group ::
  "coord_config \<Rightarrow> worker_status list \<Rightarrow> go_error option \<Rightarrow> coord \<Rightarrow> sched_item list
     \<Rightarrow> worker_status list \<times> go_error option \<times> coord" where
  "exec_group cfg sts gerr c [] = (sts, gerr, c)"
| "exec_group cfg sts gerr c (it # its) =
     (if si_worker it < length sts
      then (case sts ! si_worker it of
          Returned _ \<Rightarrow> exec_group cfg sts gerr c its
        | Looping n \<Rightarrow>
            (let gctx = (case si_ctx it of Some err \<Rightarrow> Some err
                         | None \<Rightarrow> (if gerr \<noteq> None then Some ErrCanceled else None));
                 (st, c') = workerLoop_body cfg gctx (si_envs it) (si_exec it) c
                              (''worker-'' @ fmt_int (int (si_worker it))) n;
                 gerr' = (case gerr of Some err \<Rightarrow> Some err
                          | None \<Rightarrow> (case st of Returned r \<Rightarrow> r | Looping _ \<Rightarrow> None))
             in exec_group cfg (sts[si_worker it := st]) gerr' c' its))
      else exec_group cfg sts gerr c its)"

definition all_returned :: "worker_status list \<Rightarrow> bool" where
  "all_returned sts = list_all (\<lambda>st. case st of Returned _ \<Rightarrow> True | Looping _ \<Rightarrow> False) sts"

text \<open>The part of \<open>runExecPhase\<close> after \<open>g.Wait()\<close>.\<close>

definition finish_exec ::
  "coord_config \<Rightarrow> go_error option \<Rightarrow> (nat \<Rightarrow> env) \<Rightarrow> go_error option \<Rightarrow> coord \<Rightarrow> unit result \<times> coord" where
  "finish_exec cfg ctx es gerr c =
     (let proceed = gated_transition cfg ctx (es 1) (es 2) c PhaseExec PhaseVerify ''exec phase complete''
      in case gerr of
           None \<Rightarrow> proceed
         | Some err \<Rightarrow> (case ctx of
               Some cerr \<Rightarrow> (Inl cerr, c)
             | None \<Rightarrow> (case AllTasksTerminal (cc_ClaimLeaseSeconds cfg) (es 0) (td_tasks (co_dir c)) of
                   Inl doneErr \<Rightarrow> (Inl doneErr, c)
                 | Inr allDone \<Rightarrow> (if \<not> allDone then (Inl err, c) else proceed))))"

text \<open>\<open>None\<close> is a group whose workers have not all returned when the schedule ends.\<close>

definition runExecPhase ::
  "coord_config \<Rightarrow> go_error option \<Rightarrow> (nat \<Rightarrow> env) \<Rightarrow> sched_item list \<Rightarrow> coord \<Rightarrow> (unit result \<times> coord) option" where
  "runExecPhase cfg ctx es sched c =
     (let (sts, gerr, c') = exec_group cfg (replicate (nat (cc_MaxWorkers cfg)) (Looping 0)) None c sched
      in if all_returned sts then Some (finish_exec cfg ctx es gerr c') else None)"

definition checkForStaleWorkers :: "coord_config \<Rightarrow> env \<Rightarrow> coord \<Rightarrow> string list \<times> coord" where
  "checkForStaleWorkers cfg e c =
     (let stale = filter (\<lambda>i. IsStale (duration_of (cc_ClaimLeaseSeconds cfg) second_ns) e
                                (td_heartbeats (co_dir c)) i = Inr True) (map fst (co_workers c))
      in (stale, if stale \<noteq> [] then emitEvent cfg c ''workers_stale'' 
             [(''stale_workers'', DStrs stale), (''count'', DInt (int (length stale)))] else c))"

section \<open>The pipeline\<close>

record phase_world =
  pw_select :: "go_error option"
  pw_ctx :: "go_error option"
  pw_envs :: "nat \<Rightarrow> env"
  pw_exec :: exec_world
  pw_sched :: "sched_item list"

definition runPhase :: "coord_config \<Rightarrow> phase_world \<Rightarrow> coord \<Rightarrow> TeamPhase \<Rightarrow> (unit result \<times> coord) option" where
  "runPhase cfg w c phase =
     (let c1 = emitEvent cfg c ''phase_started'' [(''phase'', DStr (phase_String phase))] in
      case phase of
        PhasePlan \<Rightarrow> Some (runWorkerPhase cfg (pw_envs w) (pw_exec w) c1 PhasePRD ''planning complete'')
      | PhasePRD \<Rightarrow> Some (runWorkerPhase cfg (pw_envs w) (pw_exec w) c1 PhaseExec ''prd complete'')
      | PhaseExec \<Rightarrow> runExecPhase cfg (pw_ctx w) (pw_envs w) (pw_sched w) c1
      | PhaseVerify \<Rightarrow> Some (runVerifyPhase cfg (pw_ctx w) (pw_envs w) (pw_exec w) c1)
      | PhaseFix \<Rightarrow> Some (runFixPhase cfg (pw_ctx w) (pw_envs w) c1)
      | _ \<Rightarrow> Some (Inl (ErrMsg (''unexpected phase: '' @ phase_String phase)), c1))"

definition stopAllWorkers :: "coord \<Rightarrow> coord" where
  "stopAllWorkers c = c\<lparr>co_workers := map (\<lambda>(i, w). (i, w\<lparr>wh_state := (wh_state w)\<lparr>ws_Status := ''stopped''\<rparr>\<rparr>)) (co_workers c)\<rparr>"

text \<open>
  The loop of \<open>Run\<close>; \<open>ws k\<close> is what the \<open>k\<close>-th iteration observes, \<open>None\<close> means that the loop has
  not returned within the fuel or that an exec phase has not ended.
\<close>

fun run_loop :: "coord_config \<Rightarrow> nat \<Rightarrow> (nat \<Rightarrow> phase_world) \<Rightarrow> coord \<Rightarrow> (unit result \<times> coord) option" where
  "run_loop cfg 0 ws c = None"
| "run_loop cfg (Suc fuel) ws c = (case pw_select (ws 0) of
      Some err \<Rightarrow>
        Some (Inl err, stopAllWorkers (snd (on_phase (\<lambda>d. Phase_Machine.Cancel (cc_MaxFixLoops cfg) (pw_envs (ws 0) 0) d ''context cancelled'') c)))
    | None \<Rightarrow> (case CurrentPhase (td_phase (co_dir c)) of
        Inl err \<Rightarrow> Some (Inl (Wrap ''get current phase'' err), c)
      | Inr phase \<Rightarrow>
          (if IsTerminal phase
           then Some (Inr (), emitEvent cfg (stopAllWorkers c) ''pipeline_completed'' [(''phase'', DStr (phase_String phase))])
           else (case runPhase cfg (ws 0) c phase of
               None \<Rightarrow> None
             | Some (Inr _, c') \<Rightarrow> run_loop cfg fuel (\<lambda>k. ws (Suc k)) c'
             | Some (Inl err, c') \<Rightarrow> (case pw_ctx (ws 0) of
                   Some cerr \<Rightarrow> Some (Inl cerr, c')
                 | None \<Rightarrow>
                     Some (Inl err, stopAllWorkers (snd (phase_to cfg (pw_envs (ws 0) 9) c' PhaseFailed (Error_text err)))))))))"

fun create_tasks :: "(nat \<Rightarrow> env) \<Rightarrow> tasks \<Rightarrow> TeamTask list \<Rightarrow> unit result \<times> tasks" where
  "create_tasks es d [] = (Inr (), d)"
| "create_tasks es d (t # ts) = (case CreateTask (es 0) d (Some t) of
      (Inl err, d') \<Rightarrow> (Inl (Wrap (''create task '' @ tt_ID t) err), d')
    | (Inr _, d') \<Rightarrow> create_tasks (\<lambda>k. es (Suc k)) d' ts)"

text \<open>\<open>Run\<close>: \<open>rec\<close> is what the start-up recovery observes; its error is only logged.\<close>

definition Run ::
  "coord_config \<Rightarrow> nat \<Rightarrow> (nat \<Rightarrow> go_error option) \<Rightarrow> env \<Rightarrow> (nat \<Rightarrow> env) \<Rightarrow> (nat \<Rightarrow> phase_world) \<Rightarrow> coord \<Rightarrow> TeamTask list
     \<Rightarrow> (unit result \<times> coord) option" where
  "Run cfg fuel rctx rec es ws c ts =
     (let T = duration_of (cc_ClaimLeaseSeconds cfg) second_ns;
          c1 = c\<lparr>co_dir := snd (Recover rctx (cc_ClaimLeaseSeconds cfg) T rec rec rec rec (co_dir c) (cc_teamName cfg))\<rparr>;
          (r, c2) = on_tasks (\<lambda>d. create_tasks es d ts) c1
      in case r of
           Inl err \<Rightarrow> Some (Inl err, c2)
         | Inr _ \<Rightarrow> run_loop cfg fuel ws (emitEvent cfg c2 ''pipeline_started'' [(''task_count'', DInt (int (length ts)))]))"

record TeamStatus =
  st_TeamName :: string
  st_BoardIssueID :: string
  st_Phase :: TeamPhase
  st_Workers :: "WorkerState list"
  st_Tasks :: "TeamTask list"
  st_FixLoopCount :: int

definition storeBoardIssueID :: "coord \<Rightarrow> string" where
  "storeBoardIssueID c = (case LoadManifest (co_dir c) of
      Inl _ \<Rightarrow> []
    | Inr manifest \<Rightarrow> cf_BoardIssueID (tm_Config manifest))"

definition coordinator_Status :: "coord_config \<Rightarrow> env \<Rightarrow> coord \<Rightarrow> TeamStatus result" where
  "coordinator_Status cfg e c = (case CurrentPhase (td_phase (co_dir c)) of
      Inl err \<Rightarrow> Inl err
    | Inr phase \<Rightarrow> (case ListTasks (cc_ClaimLeaseSeconds cfg) e (td_tasks (co_dir c)) of
          Inl err \<Rightarrow> Inl err
        | Inr ts \<Rightarrow> Inr \<lparr>st_TeamName = cc_teamName cfg, st_BoardIssueID = storeBoardIssueID c,
              st_Phase = phase, st_Workers = map (\<lambda>(_, w). wh_state w) (co_workers c), st_Tasks = ts,
              st_FixLoopCount = (case FixLoopCount (td_phase (co_dir c)) of Inl _ \<Rightarrow> 0 | Inr n \<Rightarrow> n)\<rparr>))"

section \<open>Only transitions change the phase\<close>

abbreviation phase_doc :: "coord \<Rightarrow> phases" where
  "phase_doc c \<equiv> td_phase (co_dir c)"

lemma phase_frame [simp]:
  "phase_doc (emitEvent cfg c ty data) = phase_doc c"
  "phase_doc (snd (on_tasks f c)) = phase_doc c"
  "phase_doc (snd (on_mailbox g c)) = phase_doc c"
  "phase_doc (snd (on_ownership h c)) = phase_doc c"
  "phase_doc (snd (on_heartbeats k c)) = phase_doc c"
  "phase_doc (finish_worker now c w) = phase_doc c"
  "phase_doc (notifyTaskAssignment e c w t) = phase_doc c"
  "phase_doc (stopAllWorkers c) = phase_doc c"
  by (simp_all add: emitEvent_def on_tasks_def on_mailbox_def on_ownership_def on_heartbeats_def
      finish_worker_def notifyTaskAssignment_def stopAllWorkers_def Let_def
      split: prod.splits option.splits)

lemma on_tasks_phase: "on_tasks f c = (r, c') \<Longrightarrow> phase_doc c' = phase_doc c"
  using phase_frame(2) [of f c] by simp

lemma on_mailbox_phase: "on_mailbox f c = (r, c') \<Longrightarrow> phase_doc c' = phase_doc c"
  using phase_frame(3) [of f c] by simp

lemma task_prompt_phase: "task_prompt e c t w = (p, c') \<Longrightarrow> phase_doc c' = phase_doc c"
  by (auto simp: task_prompt_def Let_def split: prod.splits dest: on_mailbox_phase)

lemma executeTask_phase: "phase_doc (snd (executeTask cfg x c t tok w)) = phase_doc c"
proof (cases "ew_workdir x")
  case (Inl err)
  then show ?thesis by (simp add: executeTask_def)
next
  case (Inr workDir)
  show ?thesis
    by (auto simp: executeTask_def Inr Let_def split: sum.splits option.splits exec_outcome.splits prod.splits
        dest!: task_prompt_phase)
qed

lemma executeTask_phase': "executeTask cfg x c t tok w = (r, c') \<Longrightarrow> phase_doc c' = phase_doc c"
  using executeTask_phase [of cfg x c t tok w] by simp

lemma workerLoop_body_phase: "phase_doc (snd (workerLoop_body cfg ctx es x c w n)) = phase_doc c"
  by (auto simp: workerLoop_body_def Let_def split: sum.splits option.splits prod.splits
      dest!: on_tasks_phase executeTask_phase')

lemma exec_group_phase: "exec_group cfg sts gerr c its = (sts', gerr', c') \<Longrightarrow> phase_doc c' = phase_doc c"
proof (induction its arbitrary: sts gerr c)
  case Nil
  then show ?case by simp
next
  case (Cons it its)
  show ?case
    using Cons.prems Cons.IH workerLoop_body_phase
    by (auto simp: Let_def split: if_splits worker_status.splits prod.splits) (metis snd_conv)+
qed

section \<open>Progress of the pipeline\<close>

text \<open>The phase document made one move: a valid transition that lowers the remaining budget.\<close>

definition advanced :: "int \<Rightarrow> phases \<Rightarrow> phases \<Rightarrow> bool" where
  "advanced m d d' \<longleftrightarrow> (phases_ok m d \<longrightarrow> phases_ok m d') \<and>
     (\<exists>st st'. LoadPhaseState d = Inr st \<and> LoadPhaseState d' = Inr st'
        \<and> ps_Phase st' \<in> set (ValidTransitions (ps_Phase st))
        \<and> phase_budget m st' < phase_budget m st)"

lemma phase_to_on: "phase_to cfg e c to reason = (r, c') \<longleftrightarrow>
    (\<exists>d. Transition (cc_MaxFixLoops cfg) e (phase_doc c) to reason = (r, d)
       \<and> c' = c\<lparr>co_dir := (co_dir c)\<lparr>td_phase := d\<rparr>\<rparr>)"
  by (auto simp: phase_to_def on_phase_def Let_def split: prod.splits)

lemma phase_to_advanced:
  assumes "phase_to cfg e c to reason = (Inr (), c')"
  shows "advanced (cc_MaxFixLoops cfg) (phase_doc c) (phase_doc c')"
proof -
  let ?m = "cc_MaxFixLoops cfg"
  obtain d where tr: "Transition ?m e (phase_doc c) to reason = (Inr (), d)" and d: "phase_doc c' = d"
    using assms by (auto simp: phase_to_on)
  obtain st st' where st: "LoadPhaseState (phase_doc c) = Inr st" "transition_fn ?m (en_now e) to reason st = Inr st'"
      "d = fput phase_file (Doc (json_PhaseState st')) (phase_doc c)"
    using tr by (auto simp: Transition_def UpdatePhaseState_ok)
  have mv: "phase_moves ?m st st'" by (rule transition_fn_moves [OF st(2)])
  have ok: "phases_ok ?m (phase_doc c) \<longrightarrow> phases_ok ?m d"
    using phases_ok_Transition [of ?m "phase_doc c" e to reason] tr by simp
  have "phase_budget ?m (json_PhaseState st') = phase_budget ?m st'"
    by (simp add: phase_budget_def)
  with ok st mv d show ?thesis
    using phase_moves_budget [OF mv] by (auto simp: advanced_def phase_moves_def)
qed

lemma gated_advanced:
  "gated_transition cfg ctx e e' c from to reason = (Inr (), c') \<Longrightarrow>
   advanced (cc_MaxFixLoops cfg) (phase_doc c) (phase_doc c')"
  by (auto simp: gated_transition_def split: option.splits dest: phase_to_advanced)

lemma advanced_frame: "advanced m d d' \<Longrightarrow> d = d0 \<Longrightarrow> advanced m d0 d'"
  by simp

lemma runWorkerPhase_advanced:
  assumes "runWorkerPhase cfg es x c next reason = (Inr (), c')"
  shows "advanced (cc_MaxFixLoops cfg) (phase_doc c) (phase_doc c')"
  using assms
  by (auto simp: runWorkerPhase_def Let_def split: prod.splits sum.splits if_splits
      dest!: phase_to_advanced on_tasks_phase executeTask_phase')

lemma runVerifyPhase_advanced:
  assumes "runVerifyPhase cfg ctx es x c = (Inr (), c')"
  shows "advanced (cc_MaxFixLoops cfg) (phase_doc c) (phase_doc c')"
  using assms
  by (auto simp: runVerifyPhase_def Let_def split: prod.splits sum.splits if_splits
      dest!: phase_to_advanced gated_advanced on_tasks_phase executeTask_phase')

lemma runFixPhase_advanced:
  assumes "runFixPhase cfg ctx es c = (Inr (), c')"
  shows "advanced (cc_MaxFixLoops cfg) (phase_doc c) (phase_doc c')"
  using assms
  by (auto simp: runFixPhase_def Let_def split: prod.splits sum.splits if_splits option.splits
      dest!: phase_to_advanced gated_advanced on_tasks_phase)

lemma finish_exec_ok:
  assumes "finish_exec cfg ctx es gerr c = (Inr (), c')"
  shows "gated_transition cfg ctx (es 1) (es 2) c PhaseExec PhaseVerify ''exec phase complete'' = (Inr (), c')"
  using assms by (auto simp: finish_exec_def Let_def split: option.splits sum.splits if_splits)

lemma runExecPhase_ok:
  assumes "runExecPhase cfg ctx es sched c = Some (Inr (), c')"
  obtains sts gerr c1 where "exec_group cfg (replicate (nat (cc_MaxWorkers cfg)) (Looping 0)) None c sched = (sts, gerr, c1)"
    and "all_returned sts"
    and "gated_transition cfg ctx (es 1) (es 2) c1 PhaseExec PhaseVerify ''exec phase complete'' = (Inr (), c')"
  using assms by (auto simp: runExecPhase_def Let_def split: prod.splits if_splits dest!: finish_exec_ok)

lemma runExecPhase_advanced:
  assumes "runExecPhase cfg ctx es sched c = Some (Inr (), c')"
  shows "advanced (cc_MaxFixLoops cfg) (phase_doc c) (phase_doc c')"
proof -
  obtain sts gerr c1 where "exec_group cfg (replicate (nat (cc_MaxWorkers cfg)) (Looping 0)) None c sched = (sts, gerr, c1)"
      "gated_transition cfg ctx (es 1) (es 2) c1 PhaseExec PhaseVerify ''exec phase complete'' = (Inr (), c')"
    using assms by (rule runExecPhase_ok)
  with exec_group_phase gated_advanced show ?thesis by metis
qed

lemma runPhase_advanced:
  assumes "runPhase cfg w c phase = Some (Inr (), c')"
  shows "advanced (cc_MaxFixLoops cfg) (phase_doc c) (phase_doc c')"
  using assms
  by (cases phase)
     (auto simp: runPhase_def Let_def dest!: runWorkerPhase_advanced runVerifyPhase_advanced
       runFixPhase_advanced runExecPhase_advanced)

lemma runPhase_None: "runPhase cfg w c phase = None \<Longrightarrow> phase = PhaseExec"
  by (cases phase) (auto simp: runPhase_def Let_def)

lemma phase_budget_nonneg: "phase_ok m st \<Longrightarrow> 0 \<le> phase_budget m st"
  using phase_rank_nonneg [of "ps_Phase st"] by (simp add: phase_ok_def phase_budget_def)

definition doc_budget :: "int \<Rightarrow> phases \<Rightarrow> int" where
  "doc_budget m d = (case LoadPhaseState d of Inl _ \<Rightarrow> 0 | Inr st \<Rightarrow> phase_budget m st)"

lemma advanced_budget:
  assumes "advanced m d d'" and "phases_ok m d"
  shows "doc_budget m d' < doc_budget m d" and "phases_ok m d'" and "0 \<le> doc_budget m d'"
  using assms phase_budget_nonneg by (auto simp: advanced_def doc_budget_def phases_ok_def)

lemma run_loop_returns:
  "phases_ok (cc_MaxFixLoops cfg) (phase_doc c) \<Longrightarrow> doc_budget (cc_MaxFixLoops cfg) (phase_doc c) < int fuel \<Longrightarrow>
   0 < fuel \<Longrightarrow> run_loop cfg fuel ws c = None \<Longrightarrow>
   \<exists>k < fuel. \<exists>c'. runPhase cfg (ws k) c' PhaseExec = None"
proof (induction fuel arbitrary: ws c)
  case 0
  then show ?case by simp
next
  case (Suc fuel)
  obtain phase where ph: "pw_select (ws 0) = None" "\<not> IsTerminal phase"
      "runPhase cfg (ws 0) c phase = None
       \<or> (\<exists>c'. runPhase cfg (ws 0) c phase = Some (Inr (), c') \<and> run_loop cfg fuel (\<lambda>k. ws (Suc k)) c' = None)"
    using Suc.prems(4) by (auto split: option.splits sum.splits if_splits prod.splits)
  from ph(3) show ?case
  proof (elim disjE exE conjE)
    assume "runPhase cfg (ws 0) c phase = None"
    with runPhase_None show ?thesis by blast
  next
    fix c'
    assume run: "runPhase cfg (ws 0) c phase = Some (Inr (), c')" and rest: "run_loop cfg fuel (\<lambda>k. ws (Suc k)) c' = None"
    note adv = advanced_budget [OF runPhase_advanced [OF run] Suc.prems(1)]
    have "doc_budget (cc_MaxFixLoops cfg) (phase_doc c') < int fuel" "0 < fuel"
      using adv Suc.prems(2) by auto
    with Suc.IH [OF adv(2) _ _ rest] show ?thesis by auto
  qed
qed

lemma run_loop_terminal:
  "run_loop cfg fuel ws c = Some (Inr (), c') \<Longrightarrow> \<exists>p. CurrentPhase (phase_doc c') = Inr p \<and> IsTerminal p"
proof (induction fuel arbitrary: ws c)
  case 0
  then show ?case by simp
next
  case (Suc fuel)
  then show ?case by (auto split: option.splits sum.splits if_splits prod.splits)
qed

lemma Recover_phase [simp]: "td_phase (snd (Recover rctx L T eh et ed e s team)) = td_phase s"
  by (auto simp: Recover_def Let_def split: sum.splits prod.splits)

lemma phases_ok_budget: "phases_ok m d \<Longrightarrow> doc_budget m d \<le> 3 * max 0 m + 4"
  by (auto simp: phases_ok_def doc_budget_def phase_ok_def split: sum.splits)

lemma Initialize_phases_ok:
  assumes "Initialize cfg e c0 tc = (Inr (), c)"
  shows "phases_ok m (phase_doc c)"
proof -
  obtain man d where "CreateManifest e (co_dir c0) (cc_teamName cfg) tc = (Inr man, d)" "phase_doc c = td_phase d"
    using assms by (auto simp: Initialize_def split: prod.splits sum.splits)
  with CreateManifest_phase show ?thesis
    by (fastforce simp: phases_ok_def phase_ok_def fix_entries_def phase_budget_def)
qed

section \<open>Errors leave the phase alone\<close>

lemma phase_to_err: "phase_to cfg e c to reason = (Inl err, c') \<Longrightarrow> phase_doc c' = phase_doc c"
  by (auto simp: phase_to_on Transition_def UpdatePhaseState_def SavePhaseState_def
      split: sum.splits prod.splits dest!: WriteJSON_err)

lemma runWorkerPhase_err:
  assumes "runWorkerPhase cfg es x c next reason = (Inl err, c')"
  shows "phase_doc c' = phase_doc c"
  using assms
  by (auto simp: runWorkerPhase_def Let_def split: prod.splits sum.splits if_splits
      dest!: phase_to_err on_tasks_phase executeTask_phase')

lemma gated_err: "gated_transition cfg ctx e e' c from to reason = (Inl err, c') \<Longrightarrow> phase_doc c' = phase_doc c"
  by (auto simp: gated_transition_def split: option.splits dest: phase_to_err)

lemma runExecPhase_err:
  assumes "runExecPhase cfg ctx es sched c = Some (Inl err, c')"
  shows "phase_doc c' = phase_doc c"
  using assms
  by (auto simp: runExecPhase_def finish_exec_def Let_def
      split: prod.splits if_splits option.splits sum.splits dest!: exec_group_phase gated_err)

lemma failed_not_allowed:
  assumes "CurrentPhase (phase_doc c) = Inr p" and "p \<in> {PhasePlan, PhasePRD, PhaseExec}"
  shows "phase_doc (snd (phase_to cfg e c PhaseFailed reason)) = phase_doc c"
proof -
  obtain st where st: "LoadPhaseState (phase_doc c) = Inr st" "ps_Phase st = p"
    using assms(1) by (auto simp: CurrentPhase_def split: sum.splits)
  then have "isl (transition_fn (cc_MaxFixLoops cfg) (en_now e) PhaseFailed reason st)"
    using assms(2) by (auto simp: transition_fn_def Let_def)
  then have "isl (fst (Transition (cc_MaxFixLoops cfg) e (phase_doc c) PhaseFailed reason))"
    using st by (auto simp: Transition_def UpdatePhaseState_def split: sum.splits)
  then obtain err c' where "phase_to cfg e c PhaseFailed reason = (Inl err, c')"
    by (cases "Transition (cc_MaxFixLoops cfg) e (phase_doc c) PhaseFailed reason")
       (auto simp: phase_to_def on_phase_def isl_def)
  with phase_to_err show ?thesis by simp
qed

section \<open>Gates\<close>

lemma checkTransition_ok:
  assumes "checkTransitionGovernance cfg ctx e c phase = None"
  shows "AllTasksTerminal (cc_ClaimLeaseSeconds cfg) e (td_tasks (co_dir c)) = Inr True" and "ctx = None"
proof -
  obtain b where b: "AllTasksTerminal (cc_ClaimLeaseSeconds cfg) e (td_tasks (co_dir c)) = Inr b"
    and pc: "policy_Check ctx (coordinator_policy cfg) (transition_decision cfg c phase b) = None"
    using assms by (auto simp: checkTransitionGovernance_def split: sum.splits)
  from pc show ctx: "ctx = None" by (cases ctx) (auto simp: coordinator_policy_def)
  with pc b show "AllTasksTerminal (cc_ClaimLeaseSeconds cfg) e (td_tasks (co_dir c)) = Inr True"
    by (auto simp: coordinator_policy_def transition_decision_def split: if_splits)
qed

lemma gated_ok:
  assumes "gated_transition cfg ctx e e' c from to reason = (Inr (), c')"
  shows "AllTasksTerminal (cc_ClaimLeaseSeconds cfg) e (td_tasks (co_dir c')) = Inr True"
    and "td_tasks (co_dir c') = td_tasks (co_dir c)"
  using assms checkTransition_ok(1)
  by (auto simp: gated_transition_def phase_to_on split: option.splits)

lemma phase_to_target:
  assumes "phase_to cfg e c to reason = (Inr (), c')" and "CurrentPhase (phase_doc c') = Inr q"
  shows "q = to \<or> to = PhaseFix \<and> q = PhaseFailed"
proof -
  obtain st st' where "transition_fn (cc_MaxFixLoops cfg) (en_now e) to reason st = Inr st'"
      "phase_doc c' = fput phase_file (Doc (json_PhaseState st')) (phase_doc c)"
    using assms(1) by (auto simp: phase_to_on Transition_def UpdatePhaseState_ok)
  with assms(2) show ?thesis
    by (auto simp: CurrentPhase_def transition_fn_def Let_def split: if_splits)
qed

lemma gated_target:
  assumes "gated_transition cfg ctx e e' c from to reason = (Inr (), c')" and "CurrentPhase (phase_doc c') = Inr q"
  shows "q = to \<or> to = PhaseFix \<and> q = PhaseFailed"
  using assms by (auto simp: gated_transition_def split: option.splits dest: phase_to_target)

lemma exec_gate:
  assumes "runPhase cfg w c PhaseExec = Some (Inr (), c')"
  shows "AllTasksTerminal (cc_ClaimLeaseSeconds cfg) (pw_envs w 1) (td_tasks (co_dir c')) = Inr True"
  using assms by (auto simp: runPhase_def Let_def elim!: runExecPhase_ok dest: gated_ok(1))

lemma verify_gate:
  assumes run: "runPhase cfg w c PhaseVerify = Some (Inr (), c')" and q: "CurrentPhase (phase_doc c') = Inr PhaseComplete"
  shows "\<exists>k. AllTasksTerminal (cc_ClaimLeaseSeconds cfg) (pw_envs w k) (td_tasks (co_dir c')) = Inr True"
    and "\<exists>k. AllTasksCompleted (cc_ClaimLeaseSeconds cfg) (pw_envs w k) (td_tasks (co_dir c')) = Inr True"
proof -
  have "(\<exists>k. AllTasksTerminal (cc_ClaimLeaseSeconds cfg) (pw_envs w k) (td_tasks (co_dir c')) = Inr True)
      \<and> (\<exists>k. AllTasksCompleted (cc_ClaimLeaseSeconds cfg) (pw_envs w k) (td_tasks (co_dir c')) = Inr True)"
    using run q
    by (auto simp: runPhase_def runVerifyPhase_def Let_def split: prod.splits sum.splits if_splits
        dest: gated_target phase_to_target)
       (metis gated_ok)+
  then show "\<exists>k. AllTasksTerminal (cc_ClaimLeaseSeconds cfg) (pw_envs w k) (td_tasks (co_dir c')) = Inr True"
    and "\<exists>k. AllTasksCompleted (cc_ClaimLeaseSeconds cfg) (pw_envs w k) (td_tasks (co_dir c')) = Inr True" by simp_all
qed

lemma fix_gate:
  assumes run: "runPhase cfg w c PhaseFix = Some (Inr (), c')" and q: "CurrentPhase (phase_doc c') = Inr PhaseComplete"
  shows "\<exists>k. AllTasksTerminal (cc_ClaimLeaseSeconds cfg) (pw_envs w k) (td_tasks (co_dir c')) = Inr True"
  using run q
  by (auto simp: runPhase_def runFixPhase_def Let_def split: prod.splits sum.splits if_splits option.splits
      dest: phase_to_target)
     (metis gated_ok(1))+

section \<open>Properties\<close>

definition ex_cfg :: "int \<Rightarrow> coord_config" where
  "ex_cfg n = \<lparr>cc_teamName = ''team'', cc_MaxWorkers = n, cc_MaxFixLoops = 2, cc_ClaimLeaseSeconds = 60,
     cc_AgentType = ''codex''\<rparr>"

definition ex_exec :: exec_world where
  "ex_exec = \<lparr>ew_env = quiet_env 9 ''m'', ew_workdir = Inr ''/ws'', ew_start = (\<lambda>_ _. Inr 7),
     ew_renewals = [], ew_beats = [], ew_outcome = ProcDone None\<rparr>"

definition ex_phase_world :: phase_world where
  "ex_phase_world = \<lparr>pw_select = None, pw_ctx = None, pw_envs = (\<lambda>_. quiet_env 9 ''tk''), pw_exec = ex_exec,
     pw_sched = []\<rparr>"

definition ex_coord :: "TeamPhase \<Rightarrow> tasks \<Rightarrow> coord" where
  "ex_coord p ts = \<lparr>co_dir = empty_team\<lparr>td_tasks := ts, td_phase := [(phase_file, Doc \<lparr>ps_Phase = p,
     ps_Artifacts = None, ps_Transitions = [], ps_FixLoopCount = 0\<rparr>)]\<rparr>, co_workers = [], co_events = []\<rparr>"





text \<open>
  When the plan, PRD or exec phase fails (and the context is alive), \<open>Run\<close> returns the error,
  but the failed phase cannot be recorded: the transition table has no move from these phases to
  the failed phase, so the phase document is left as it was, in a phase that is not terminal.
\<close>

theorem failed_phase_is_not_recorded:
  assumes "pw_select (ws 0) = None" and p: "CurrentPhase (td_phase (co_dir c)) = Inr p" "p \<in> {PhasePlan, PhasePRD, PhaseExec}"
    and run: "runPhase cfg (ws 0) c p = Some (Inl err, c1)" and ctx: "pw_ctx (ws 0) = None"
  shows "\<exists>c'. run_loop cfg (Suc fuel) ws c = Some (Inl err, c')
    \<and> td_phase (co_dir c') = td_phase (co_dir c) \<and> CurrentPhase (td_phase (co_dir c')) = Inr p \<and> \<not> IsTerminal p"
proof -
  have same: "phase_doc c1 = phase_doc c"
    using run p(2) by (auto simp: runPhase_def Let_def dest!: runWorkerPhase_err runExecPhase_err)
  have live: "\<not> IsTerminal p" using p(2) by auto
  have "phase_doc (snd (phase_to cfg (pw_envs (ws 0) 9) c1 PhaseFailed (Error_text err))) = phase_doc c"
    using failed_not_allowed [of c1 p] same p by simp
  with live p(1) assms(1) run ctx show ?thesis by simp
qed

theorem failed_phase_is_not_recorded_witness:
  "\<exists>err c'. run_loop (ex_cfg 0) 5 (\<lambda>_. ex_phase_world)
       (ex_coord PhaseExec [(''a.json'', Doc ((ex_task ''a'' [])\<lparr>tt_Status := TaskFailed\<rparr>)),
                            (''b.json'', Doc (ex_task ''b'' [''a'']))]) = Some (Inl err, c')
     \<and> CurrentPhase (td_phase (co_dir c')) = Inr PhaseExec"
proof -
  let ?c = "ex_coord PhaseExec [(''a.json'', Doc ((ex_task ''a'' [])\<lparr>tt_Status := TaskFailed\<rparr>)),
                            (''b.json'', Doc (ex_task ''b'' [''a'']))]"
  have "(case runPhase (ex_cfg 0) ex_phase_world ?c PhaseExec of Some (Inl _, _) \<Rightarrow> True | _ \<Rightarrow> False)"
    by code_simp
  then obtain err c1 where run: "runPhase (ex_cfg 0) ex_phase_world ?c PhaseExec = Some (Inl err, c1)"
    by (auto split: option.splits prod.splits sum.splits)
  have cur: "CurrentPhase (td_phase (co_dir ?c)) = Inr PhaseExec" by code_simp
  have "\<exists>c'. run_loop (ex_cfg 0) (Suc 4) (\<lambda>_. ex_phase_world) ?c = Some (Inl err, c')
      \<and> td_phase (co_dir c') = td_phase (co_dir ?c) \<and> CurrentPhase (td_phase (co_dir c')) = Inr PhaseExec
      \<and> \<not> IsTerminal PhaseExec"
    by (rule failed_phase_is_not_recorded [OF _ cur _ run]) (simp_all add: ex_phase_world_def)
  then show ?thesis by (auto simp: eval_nat_numeral simp del: run_loop.simps)
qed

end
