(* ===== verification/Jsonl.thy ===== *)
theory Jsonl
  imports Prelude
begin

text \<open>
  Files of JSON lines, which several packages append to and scan with \<open>bufio.Scanner\<close>. A file is the list of
  its complete lines and the bytes after the last newline, if any; a line is the value it decodes to with its
  length in bytes, or the length and the decoding error of a line that does not decode. A write that fails
  half-way leaves an unterminated line, and what is glued to it no longer decodes.
\<close>

text \<open>The default limit of a \<open>bufio.Scanner\<close>: a line of this many bytes or more ends the scan with an error.\<close>

definition MaxScanTokenSize :: nat where
  "MaxScanTokenSize = 65536"

datatype 'a json_line = JsonLine nat 'a | BadJson nat go_error

fun line_bytes :: "'a json_line \<Rightarrow> nat" where
  "line_bytes (JsonLine n _) = n"
| "line_bytes (BadJson n _) = n"

fun line_values :: "'a json_line \<Rightarrow> 'a list" where
  "line_values (JsonLine _ r) = [r]"
| "line_values (BadJson _ _) = []"

record 'a json_file =
  jf_lines :: "'a json_line list"
  jf_tail :: "'a json_line option"

definition empty_file :: "'a json_file" where
  "empty_file = \<lparr>jf_lines = [], jf_tail = None\<rparr>"

text \<open>What a scan from the start delivers: the lines, and the unterminated rest as a last one.\<close>

definition file_tokens :: "'a json_file \<Rightarrow> 'a json_line list" where
  "file_tokens f = jf_lines f @ (case jf_tail f of None \<Rightarrow> [] | Some l \<Rightarrow> [l])"

definition file_values :: "'a json_file \<Rightarrow> 'a list" where
  "file_values f = concat (map line_values (file_tokens f))"

text \<open>
  Appending a line of \<open>n\<close> bytes. \<open>end_line\<close> is the line that a newline after it would end; \<open>torn_write\<close> is
  a write of which only the first bytes reached the file.
\<close>

definition end_line :: "'a json_file \<Rightarrow> nat \<Rightarrow> 'a \<Rightarrow> 'a json_line" where
  "end_line f n r = (case jf_tail f of None \<Rightarrow> JsonLine n r | Some l \<Rightarrow> BadJson (line_bytes l + n) ErrSyntax)"

definition write_line :: "'a json_file \<Rightarrow> nat \<Rightarrow> 'a \<Rightarrow> 'a json_file" where
  "write_line f n r = f\<lparr>jf_lines := jf_lines f @ [end_line f n r], jf_tail := None\<rparr>"

definition torn_write :: "'a json_file \<Rightarrow> nat \<Rightarrow> nat \<Rightarrow> 'a \<Rightarrow> 'a json_file" where
  "torn_write f written n r =
     (if written = 0 then f
      else if written < n
      then f\<lparr>jf_tail := Some (BadJson ((case jf_tail f of None \<Rightarrow> 0 | Some l \<Rightarrow> line_bytes l) + written) ErrSyntax)\<rparr>
      else f\<lparr>jf_tail := Some (end_line f n r)\<rparr>)"

lemma torn_write_0 [simp]: "torn_write f 0 n r = f"
  by (simp add: torn_write_def)

lemma tokens_write_line: "file_tokens (write_line f n r) = jf_lines f @ [end_line f n r]"
  by (simp add: file_tokens_def write_line_def)

lemma empty_file_simps [simp]: "jf_lines empty_file = []" "jf_tail empty_file = None" "file_tokens empty_file = []"
  "file_values empty_file = []"
  by (simp_all add: empty_file_def file_tokens_def file_values_def)

text \<open>No append shortens a line, so a line that is too long stays.\<close>

lemma long_token_kept:
  assumes "\<exists>l\<in>set (file_tokens f). m \<le> line_bytes l"
  shows "\<exists>l\<in>set (file_tokens (write_line f n r)). m \<le> line_bytes l"
    and "\<exists>l\<in>set (file_tokens (torn_write f k n r)). m \<le> line_bytes l"
  using assms
  by (auto simp: file_tokens_def write_line_def torn_write_def end_line_def split: option.splits)

text \<open>On a file that ends with a newline an append adds its value; after a torn write it adds none.\<close>

lemma write_line_intact:
  assumes "jf_tail f = None"
  shows "file_values (write_line f n r) = file_values f @ [r]"
    and "file_tokens (write_line f n r) = file_tokens f @ [JsonLine n r]"
    and "jf_tail (write_line f n r) = None"
  using assms by (auto simp: file_values_def file_tokens_def write_line_def end_line_def)

lemma torn_then_written:
  assumes "jf_tail f = None" and "0 < k"
  shows "file_values (write_line (torn_write f k n r) n' r') = file_values f"
    and "set (file_tokens (write_line (torn_write f k n r) n' r'))
           = set (file_tokens f) \<union> {end_line (torn_write f k n r) n' r'}"
  using assms
  by (auto simp: torn_write_def write_line_def end_line_def file_values_def file_tokens_def)

text \<open>Every line below a limit.\<close>

definition lines_below :: "nat \<Rightarrow> 'a json_file \<Rightarrow> bool" where
  "lines_below m f \<longleftrightarrow> (\<forall>l\<in>set (file_tokens f). line_bytes l < m)"

lemma lines_below_empty [simp]: "lines_below m empty_file"
  by (simp add: lines_below_def)

lemma lines_below_write:
  "jf_tail f = None \<Longrightarrow> lines_below m f \<Longrightarrow> n < m \<Longrightarrow> lines_below m (write_line f n r)"
  by (auto simp: lines_below_def write_line_intact)

end
