(* ===== verification/Local_Board.thy ===== *)
theory Local_Board
  imports Team_Store Jsonl "HOL-Library.Product_Lexorder"
begin

text \<open>
  \<open>internal/tracker/local.go\<close>: the issue board kept in files. The state is the manifest, the issue
  documents and the comment files of the board directory; a file is a node as in \<open>Team_Store\<close>. The
  context argument is the answer of \<open>checkLocalTrackerContext\<close>. \<open>en_statfault\<close> names the failing
  \<open>os.MkdirAll\<close> or \<open>os.Open\<close> of a comment file, \<open>en_dirfault\<close> a failing \<open>os.ReadDir\<close>, \<open>en_wfault\<close> a failing
  write or append, by path; it leaves the file as it was. The clock is read once per call. Issue ids are
  file names (no slashes); strings are ASCII. \<open>TrackerMeta\<close> is a map to
  strings, the only values the repository stores in it; nil and the empty map are one value, as they are
  after encoding.
\<close>

section \<open>Data\<close>

record LocalConfig =
  lc_BoardDir :: string
  lc_IssuePrefix :: string
  lc_Actor :: string

record LocalBoardManifest =
  lm_SchemaVersion :: string
  lm_IssuePrefix :: string
  lm_NextIssueNumber :: int
  lm_CreatedAt :: time
  lm_UpdatedAt :: time

type_synonym LocalBoardState = string

definition LocalBoardStateTodo :: LocalBoardState where
  "LocalBoardStateTodo = ''todo''"

definition LocalBoardStateInProgress :: LocalBoardState where
  "LocalBoardStateInProgress = ''in_progress''"

definition LocalBoardStateRetry :: LocalBoardState where
  "LocalBoardStateRetry = ''retry''"

definition LocalBoardStateDone :: LocalBoardState where
  "LocalBoardStateDone = ''done''"

lemmas board_states = LocalBoardStateTodo_def LocalBoardStateInProgress_def LocalBoardStateRetry_def LocalBoardStateDone_def

record LocalBoardIssue =
  lb_ID :: string
  lb_Identifier :: string
  lb_Title :: string
  lb_Description :: string
  lb_State :: LocalBoardState
  lb_ParentID :: string
  lb_ChildIDs :: "string list"
  lb_Assignee :: string
  lb_Labels :: "string list"
  lb_URL :: string
  lb_BranchName :: string
  lb_BlockedBy :: "string list"
  lb_ClaimedBy :: string
  lb_TrackerMeta :: "string fdir"
  lb_CreatedAt :: time
  lb_UpdatedAt :: time

record LocalBoardComment =
  lk_Author :: string
  lk_Body :: string
  lk_CreatedAt :: time

record LocalIssueCreateOptions =
  lo_Title :: string
  lo_Description :: string
  lo_ParentID :: string
  lo_Assignee :: string
  lo_Labels :: "string list"
  lo_BlockedBy :: "string list"
  lo_TrackerMeta :: "string fdir"

record LocalTracker =
  lt_boardDir :: string
  lt_issuePrefix :: string
  lt_actor :: string

text \<open>A line of a comment file, with its length in bytes: a comment, white space, or neither.\<close>

datatype comment_line = CommentLine nat LocalBoardComment | BlankLine nat | BadLine nat

record board =
  bd_manifest :: "LocalBoardManifest node option"
  bd_issues :: "LocalBoardIssue node fdir"
  bd_comments :: "comment_line list fdir"

section \<open>Names and states\<close>

definition keep_alnum :: "char \<Rightarrow> bool" where
  "keep_alnum c = (let n = (of_char c :: nat) in 48 \<le> n \<and> n \<le> 57 \<or> 65 \<le> n \<and> n \<le> 90 \<or> 97 \<le> n \<and> n \<le> 122)"

definition keep_lower_alnum :: "char \<Rightarrow> bool" where
  "keep_lower_alnum c = (let n = (of_char c :: nat) in 48 \<le> n \<and> n \<le> 57 \<or> 97 \<le> n \<and> n \<le> 122)"

definition char_upper :: "char \<Rightarrow> char" where
  "char_upper c = (let n = (of_char c :: nat) in if 97 \<le> n \<and> n \<le> 122 then char_of (n - 32) else c)"

definition sanitizeLocalIssuePrefix :: "string \<Rightarrow> string" where
  "sanitizeLocalIssuePrefix pfx =
     (let trimmed = trim_space (map char_upper pfx)
      in if trimmed = [] then ''CB''
         else (let sanitized = filter keep_alnum trimmed in if sanitized = [] then ''CB'' else sanitized))"

text \<open>\<open>ReplaceAllString\<close> with \<open>[^a-z0-9]+\<close>: every maximal run of other characters becomes one dash.\<close>

fun dash_runs :: "bool \<Rightarrow> string \<Rightarrow> string" where
  "dash_runs b [] = []"
| "dash_runs b (c # s) =
     (if keep_lower_alnum c then c # dash_runs False s
      else if b then dash_runs True s else CHR ''-'' # dash_runs True s)"

definition trim_dashes :: "string \<Rightarrow> string" where
  "trim_dashes s = rev (dropWhile (\<lambda>c. c = CHR ''-'') (rev (dropWhile (\<lambda>c. c = CHR ''-'') s)))"

definition normalizeLocalTeamName :: "string \<Rightarrow> string" where
  "normalizeLocalTeamName raw = trim_dashes (dash_runs False (to_lower (trim_space raw)))"

definition issueMatchesTeam :: "LocalBoardIssue \<Rightarrow> string \<Rightarrow> bool" where
  "issueMatchesTeam issue teamName =
     (let assignee = trim_space (lb_Assignee issue)
      in if assignee = [] then True
         else assignee = teamName \<or> normalizeLocalTeamName assignee = normalizeLocalTeamName teamName)"

text \<open>\<open>cfg.BoardDir\<close> is taken as clean; \<open>user\<close> is the value of \<open>USER\<close>.\<close>

definition NewLocalTracker :: "string \<Rightarrow> LocalConfig \<Rightarrow> LocalTracker" where
  "NewLocalTracker user cfg =
     (let boardDir = (if trim_space (lc_BoardDir cfg) = [] then ''.contrabass/board'' else lc_BoardDir cfg);
          actor1 = trim_space (lc_Actor cfg);
          actor2 = (if actor1 = [] then trim_space user else actor1);
          actor3 = (if actor2 = [] then ''contrabass'' else actor2)
      in \<lparr>lt_boardDir = boardDir, lt_issuePrefix = sanitizeLocalIssuePrefix (lc_IssuePrefix cfg), lt_actor = actor3\<rparr>)"

definition ParseLocalBoardState :: "string \<Rightarrow> LocalBoardState result" where
  "ParseLocalBoardState raw =
     (let s = trim_space raw
      in if s \<in> {LocalBoardStateTodo, LocalBoardStateInProgress, LocalBoardStateRetry, LocalBoardStateDone} then Inr s
         else Inl (ErrMsg (''unknown local board state: '' @ fmt_q raw @ '' (supported: todo, in_progress, retry, done)'')))"

definition board_IssueState :: "LocalBoardState \<Rightarrow> IssueState" where
  "board_IssueState s =
     (if s = LocalBoardStateInProgress then Running
      else if s = LocalBoardStateRetry then RetryQueued
      else if s = LocalBoardStateDone then Released
      else Unclaimed)"

fun localBoardStateFromIssueState :: "IssueState \<Rightarrow> LocalBoardState" where
  "localBoardStateFromIssueState Claimed = LocalBoardStateInProgress"
| "localBoardStateFromIssueState Running = LocalBoardStateInProgress"
| "localBoardStateFromIssueState RetryQueued = LocalBoardStateRetry"
| "localBoardStateFromIssueState Released = LocalBoardStateDone"
| "localBoardStateFromIssueState _ = LocalBoardStateTodo"

text \<open>\<open>ParseModelOverride\<close> of \<open>model_override.go\<close> is the argument \<open>override\<close>.\<close>

definition toIssue :: "(string \<Rightarrow> string) \<Rightarrow> LocalBoardIssue \<Rightarrow> Issue" where
  "toIssue override i =
     \<lparr>is_ID = lb_ID i, is_Identifier = lb_Identifier i, is_Title = lb_Title i, is_Description = lb_Description i,
      is_State = board_IssueState (lb_State i), is_Priority = 0, is_Labels = lb_Labels i, is_URL = lb_URL i,
      is_BranchName = lb_BranchName i, is_BlockedBy = lb_BlockedBy i, is_ModelOverride = override (lb_Description i),
      is_CreatedAt = lb_CreatedAt i, is_UpdatedAt = lb_UpdatedAt i\<rparr>"

section \<open>Files\<close>

definition issue_file :: "string \<Rightarrow> string" where
  "issue_file issueID = issueID @ ''.json''"

definition comments_file :: "string \<Rightarrow> string" where
  "comments_file issueID = issueID @ ''.jsonl''"

definition manifestPath :: "LocalTracker \<Rightarrow> string" where
  "manifestPath t = lt_boardDir t @ ''/manifest.json''"

definition issuePath :: "LocalTracker \<Rightarrow> string \<Rightarrow> string" where
  "issuePath t issueID = lt_boardDir t @ ''/issues/'' @ issue_file issueID"

definition commentsPath :: "LocalTracker \<Rightarrow> string \<Rightarrow> string" where
  "commentsPath t issueID = lt_boardDir t @ ''/comments/'' @ comments_file issueID"

definition readJSONFile :: "string \<Rightarrow> 'a node option \<Rightarrow> 'a result" where
  "readJSONFile path f = (case f of
      None \<Rightarrow> Inl ErrNotExist
    | Some (Doc v) \<Rightarrow> Inr v
    | Some Malformed \<Rightarrow> Inl (Wrap (''decoding '' @ path) ErrSyntax)
    | Some (Unreadable m) \<Rightarrow> Inl (ErrIO m)
    | Some SubDir \<Rightarrow> Inl (ErrIO ''is a directory''))"

text \<open>\<open>writeJSONAtomic\<close>: the new file, or an error that leaves the old one (temporary file and rename).\<close>

definition writeJSONAtomic :: "env \<Rightarrow> string \<Rightarrow> 'a node option \<Rightarrow> 'a \<Rightarrow> 'a node result" where
  "writeJSONAtomic e path old v = (case en_wfault e path of
      Some err \<Rightarrow> Inl (Wrap (''writing temp file for '' @ path) err)
    | None \<Rightarrow> (if old = Some SubDir then Inl (Wrap (''renaming temp file for '' @ path) (ErrIO ''file exists''))
                else Inr (Doc v)))"

definition write_issue :: "LocalTracker \<Rightarrow> env \<Rightarrow> board \<Rightarrow> string \<Rightarrow> LocalBoardIssue \<Rightarrow> unit result \<times> board" where
  "write_issue t e b issueID issue =
     (case writeJSONAtomic e (issuePath t issueID) (map_of (bd_issues b) (issue_file issueID)) issue of
        Inl err \<Rightarrow> (Inl err, b)
      | Inr f \<Rightarrow> (Inr (), b\<lparr>bd_issues := fput (issue_file issueID) f (bd_issues b)\<rparr>))"

definition write_manifest :: "LocalTracker \<Rightarrow> env \<Rightarrow> board \<Rightarrow> LocalBoardManifest \<Rightarrow> unit result \<times> board" where
  "write_manifest t e b m =
     (case writeJSONAtomic e (manifestPath t) (bd_manifest b) m of
        Inl err \<Rightarrow> (Inl err, b)
      | Inr f \<Rightarrow> (Inr (), b\<lparr>bd_manifest := Some f\<rparr>))"

definition ensureBoardLocked :: "LocalTracker \<Rightarrow> env \<Rightarrow> board \<Rightarrow> LocalBoardManifest result \<times> board" where
  "ensureBoardLocked t e b = (case en_statfault e ''issues'' of
      Some err \<Rightarrow> (Inl (Wrap ''creating issues directory'' err), b)
    | None \<Rightarrow> (case en_statfault e ''comments'' of
        Some err \<Rightarrow> (Inl (Wrap ''creating comments directory'' err), b)
      | None \<Rightarrow>
          (case readJSONFile (manifestPath t) (bd_manifest b) of
             Inl err \<Rightarrow>
               (if \<not> errors_is err ErrNotExist then (Inl err, b)
                else
                  (let manifest = \<lparr>lm_SchemaVersion = ''1'', lm_IssuePrefix = lt_issuePrefix t, lm_NextIssueNumber = 1,
                                   lm_CreatedAt = en_now e, lm_UpdatedAt = en_now e\<rparr>
                   in case write_manifest t e b manifest of
                        (Inl err', b') \<Rightarrow> (Inl err', b')
                      | (Inr _, b') \<Rightarrow> (Inr manifest, b')))
           | Inr m \<Rightarrow>
               (Inr (m\<lparr>lm_SchemaVersion := (if lm_SchemaVersion m = [] then ''1'' else lm_SchemaVersion m),
                       lm_IssuePrefix := (if lm_IssuePrefix m = [] then lt_issuePrefix t else lm_IssuePrefix m),
                       lm_NextIssueNumber := (if lm_NextIssueNumber m \<le> 0 then 1 else lm_NextIssueNumber m)\<rparr>), b))))"

definition loadIssueLocked :: "LocalTracker \<Rightarrow> board \<Rightarrow> string \<Rightarrow> LocalBoardIssue result" where
  "loadIssueLocked t b issueID =
     (case readJSONFile (issuePath t issueID) (map_of (bd_issues b) (issue_file issueID)) of
        Inl err \<Rightarrow> (if errors_is err ErrNotExist
                    then Inl (ErrMsg (''local board issue '' @ fmt_q issueID @ '' not found'')) else Inl err)
      | Inr issue \<Rightarrow> Inr issue)"

section \<open>Operations\<close>

definition InitBoard :: "LocalTracker \<Rightarrow> go_error option \<Rightarrow> env \<Rightarrow> board \<Rightarrow> LocalBoardManifest result \<times> board" where
  "InitBoard t ctx e b = (case ctx of Some err \<Rightarrow> (Inl err, b) | None \<Rightarrow> ensureBoardLocked t e b)"

text \<open>The common beginning of the operations on one issue.\<close>

definition with_issue ::
  "LocalTracker \<Rightarrow> go_error option \<Rightarrow> env \<Rightarrow> board \<Rightarrow> string \<Rightarrow> (LocalBoardIssue \<Rightarrow> board \<Rightarrow> 'a result \<times> board) \<Rightarrow> 'a result \<times> board" where
  "with_issue t ctx e b issueID f = (case ctx of
      Some err \<Rightarrow> (Inl err, b)
    | None \<Rightarrow> (case ensureBoardLocked t e b of
        (Inl err, b') \<Rightarrow> (Inl err, b')
      | (Inr _, b') \<Rightarrow> (case loadIssueLocked t b' issueID of
          Inl err \<Rightarrow> (Inl err, b')
        | Inr issue \<Rightarrow> f issue b')))"

definition board_ClaimIssue :: "LocalTracker \<Rightarrow> go_error option \<Rightarrow> env \<Rightarrow> board \<Rightarrow> string \<Rightarrow> unit result \<times> board" where
  "board_ClaimIssue t ctx e b issueID = with_issue t ctx e b issueID (\<lambda>issue b'.
     write_issue t e b' issueID (issue\<lparr>
       lb_State := (if lb_State issue \<noteq> LocalBoardStateDone then LocalBoardStateInProgress else lb_State issue),
       lb_ClaimedBy := lt_actor t, lb_UpdatedAt := en_now e\<rparr>))"

definition board_ReleaseIssue :: "LocalTracker \<Rightarrow> go_error option \<Rightarrow> env \<Rightarrow> board \<Rightarrow> string \<Rightarrow> unit result \<times> board" where
  "board_ReleaseIssue t ctx e b issueID = with_issue t ctx e b issueID (\<lambda>issue b'.
     write_issue t e b' issueID (issue\<lparr>lb_ClaimedBy := [], lb_UpdatedAt := en_now e\<rparr>))"

text \<open>The new state and the claim that goes with it, shared by \<open>UpdateIssueState\<close> and \<open>MoveIssue\<close>.\<close>

definition move_to :: "LocalTracker \<Rightarrow> time \<Rightarrow> LocalBoardState \<Rightarrow> LocalBoardIssue \<Rightarrow> LocalBoardIssue" where
  "move_to t now state issue = issue\<lparr>lb_State := state,
     lb_ClaimedBy := (if state = LocalBoardStateInProgress
                      then (if lb_ClaimedBy issue = [] then lt_actor t else lb_ClaimedBy issue) else []),
     lb_UpdatedAt := now\<rparr>"

definition board_UpdateIssueState ::
  "LocalTracker \<Rightarrow> go_error option \<Rightarrow> env \<Rightarrow> board \<Rightarrow> string \<Rightarrow> IssueState \<Rightarrow> unit result \<times> board" where
  "board_UpdateIssueState t ctx e b issueID state = with_issue t ctx e b issueID (\<lambda>issue b'.
     write_issue t e b' issueID (move_to t (en_now e) (localBoardStateFromIssueState state) issue))"

text \<open>A write that returns the issue.\<close>

definition write_returning :: "LocalTracker \<Rightarrow> env \<Rightarrow> board \<Rightarrow> string \<Rightarrow> LocalBoardIssue \<Rightarrow> LocalBoardIssue result \<times> board" where
  "write_returning t e b issueID issue = (case write_issue t e b issueID issue of
      (Inl err, b') \<Rightarrow> (Inl err, b') | (Inr _, b') \<Rightarrow> (Inr issue, b'))"

definition MoveIssue ::
  "LocalTracker \<Rightarrow> go_error option \<Rightarrow> env \<Rightarrow> board \<Rightarrow> string \<Rightarrow> LocalBoardState \<Rightarrow> LocalBoardIssue result \<times> board" where
  "MoveIssue t ctx e b issueID state = with_issue t ctx e b issueID (\<lambda>issue b'.
     write_returning t e b' issueID (move_to t (en_now e) state issue))"

text \<open>\<open>mutate\<close> is the callback, \<open>None\<close> when it is nil.\<close>

definition UpdateIssue ::
  "LocalTracker \<Rightarrow> go_error option \<Rightarrow> env \<Rightarrow> board \<Rightarrow> string \<Rightarrow> (LocalBoardIssue \<Rightarrow> LocalBoardIssue result) option
     \<Rightarrow> LocalBoardIssue result \<times> board" where
  "UpdateIssue t ctx e b issueID mutate = (case ctx of
      Some err \<Rightarrow> (Inl err, b)
    | None \<Rightarrow> (case mutate of
        None \<Rightarrow> (Inl (ErrMsg ''mutate callback is required''), b)
      | Some f \<Rightarrow> with_issue t ctx e b issueID (\<lambda>issue b'.
          case f issue of
            Inl err \<Rightarrow> (Inl err, b')
          | Inr issue' \<Rightarrow> write_returning t e b' issueID (issue'\<lparr>lb_UpdatedAt := en_now e\<rparr>))))"

definition AssignIssue ::
  "LocalTracker \<Rightarrow> go_error option \<Rightarrow> env \<Rightarrow> board \<Rightarrow> string \<Rightarrow> string \<Rightarrow> LocalBoardIssue result \<times> board" where
  "AssignIssue t ctx e b issueID assignee =
     UpdateIssue t ctx e b issueID (Some (\<lambda>issue. Inr (issue\<lparr>lb_Assignee := trim_space assignee\<rparr>)))"

definition GetIssue :: "LocalTracker \<Rightarrow> go_error option \<Rightarrow> env \<Rightarrow> board \<Rightarrow> string \<Rightarrow> LocalBoardIssue result \<times> board" where
  "GetIssue t ctx e b issueID = with_issue t ctx e b issueID (\<lambda>issue b'. (Inr issue, b'))"


text \<open>Comments. \<open>enc_len\<close> is the length of the line \<open>json.Marshal\<close> gives for a comment.\<close>

definition appendJSONLine ::
  "(LocalBoardComment \<Rightarrow> nat) \<Rightarrow> LocalTracker \<Rightarrow> env \<Rightarrow> board \<Rightarrow> string \<Rightarrow> LocalBoardComment \<Rightarrow> unit result \<times> board" where
  "appendJSONLine enc_len t e b issueID c = (case en_wfault e (commentsPath t issueID) of
      Some err \<Rightarrow> (Inl (Wrap (''appending '' @ commentsPath t issueID) err), b)
    | None \<Rightarrow>
        (let old = (case map_of (bd_comments b) (comments_file issueID) of None \<Rightarrow> [] | Some ls \<Rightarrow> ls)
         in (Inr (), b\<lparr>bd_comments := fput (comments_file issueID) (old @ [CommentLine (enc_len c) c]) (bd_comments b)\<rparr>)))"

definition board_PostComment ::
  "(LocalBoardComment \<Rightarrow> nat) \<Rightarrow> LocalTracker \<Rightarrow> go_error option \<Rightarrow> env \<Rightarrow> board \<Rightarrow> string \<Rightarrow> string \<Rightarrow> unit result \<times> board" where
  "board_PostComment enc_len t ctx e b issueID body = with_issue t ctx e b issueID (\<lambda>_ b'.
     appendJSONLine enc_len t e b' issueID \<lparr>lk_Author = lt_actor t, lk_Body = body, lk_CreatedAt = en_now e\<rparr>)"

fun line_len :: "comment_line \<Rightarrow> nat" where
  "line_len (CommentLine n _) = n"
| "line_len (BlankLine n) = n"
| "line_len (BadLine n) = n"

fun scan_comments :: "string \<Rightarrow> LocalBoardComment list \<Rightarrow> comment_line list \<Rightarrow> LocalBoardComment list result" where
  "scan_comments issueID comments [] = Inr comments"
| "scan_comments issueID comments (l # ls) =
     (if MaxScanTokenSize \<le> line_len l
      then Inl (Wrap ''reading comments file'' (ErrMsg ''bufio.Scanner: token too long''))
      else case l of
          BlankLine _ \<Rightarrow> scan_comments issueID comments ls
        | BadLine _ \<Rightarrow> Inl (Wrap (''parsing comment for '' @ issueID) ErrSyntax)
        | CommentLine _ c \<Rightarrow> scan_comments issueID (comments @ [c]) ls)"

definition ListComments ::
  "LocalTracker \<Rightarrow> go_error option \<Rightarrow> env \<Rightarrow> board \<Rightarrow> string \<Rightarrow> LocalBoardComment list result \<times> board" where
  "ListComments t ctx e b issueID = with_issue t ctx e b issueID (\<lambda>_ b'.
     (case en_statfault e (commentsPath t issueID) of
        Some err \<Rightarrow> Inl (Wrap ''opening comments file'' err)
      | None \<Rightarrow> (case map_of (bd_comments b') (comments_file issueID) of
          None \<Rightarrow> Inr []
        | Some ls \<Rightarrow> scan_comments issueID [] ls), b'))"

text \<open>Creation. The number is taken from the manifest before the issue is written.\<close>

definition zero_issue :: LocalBoardIssue where
  "zero_issue = \<lparr>lb_ID = [], lb_Identifier = [], lb_Title = [], lb_Description = [], lb_State = [],
     lb_ParentID = [], lb_ChildIDs = [], lb_Assignee = [], lb_Labels = [], lb_URL = [], lb_BranchName = [],
     lb_BlockedBy = [], lb_ClaimedBy = [], lb_TrackerMeta = [], lb_CreatedAt = zero_time, lb_UpdatedAt = zero_time\<rparr>"

text \<open>The parent and \<open>opts.ParentID\<close>; a blank id leaves the zero issue as the parent and itself as the id.\<close>

definition load_parent :: "LocalTracker \<Rightarrow> board \<Rightarrow> string \<Rightarrow> (LocalBoardIssue \<times> string) result" where
  "load_parent t b parentID =
     (if trim_space parentID = [] then Inr (zero_issue, parentID)
      else case loadIssueLocked t b (trim_space parentID) of Inl err \<Rightarrow> Inl err | Inr p \<Rightarrow> Inr (p, lb_ID p))"

definition new_issue :: "time \<Rightarrow> string \<Rightarrow> string \<Rightarrow> LocalIssueCreateOptions \<Rightarrow> LocalBoardIssue" where
  "new_issue now issueID parentID opts =
     \<lparr>lb_ID = issueID, lb_Identifier = issueID, lb_Title = lo_Title opts, lb_Description = lo_Description opts,
      lb_State = LocalBoardStateTodo, lb_ParentID = parentID, lb_ChildIDs = [], lb_Assignee = lo_Assignee opts,
      lb_Labels = lo_Labels opts, lb_URL = ''local://'' @ issueID, lb_BranchName = [],
      lb_BlockedBy = lo_BlockedBy opts, lb_ClaimedBy = [],
      lb_TrackerMeta = lo_TrackerMeta opts, lb_CreatedAt = now, lb_UpdatedAt = now\<rparr>"

definition link_parent ::
  "LocalTracker \<Rightarrow> env \<Rightarrow> board \<Rightarrow> LocalBoardIssue \<Rightarrow> LocalBoardIssue \<Rightarrow> LocalBoardIssue result \<times> board" where
  "link_parent t e b issue parent =
     (if lb_ParentID issue = [] \<or> lb_ID issue \<in> set (lb_ChildIDs parent) then (Inr issue, b)
      else case write_issue t e b (lb_ID parent)
                  (parent\<lparr>lb_ChildIDs := lb_ChildIDs parent @ [lb_ID issue], lb_UpdatedAt := en_now e\<rparr>) of
          (Inl err, b') \<Rightarrow> (Inl err, b')
        | (Inr _, b') \<Rightarrow> (Inr issue, b'))"

definition issue_id :: "LocalBoardManifest \<Rightarrow> string" where
  "issue_id m = lm_IssuePrefix m @ ''-'' @ fmt_int (lm_NextIssueNumber m)"

definition CreateIssueWithOptions ::
  "LocalTracker \<Rightarrow> go_error option \<Rightarrow> env \<Rightarrow> board \<Rightarrow> LocalIssueCreateOptions \<Rightarrow> LocalBoardIssue result \<times> board" where
  "CreateIssueWithOptions t ctx e b opts = (case ctx of
      Some err \<Rightarrow> (Inl err, b)
    | None \<Rightarrow> (case ensureBoardLocked t e b of
        (Inl err, b1) \<Rightarrow> (Inl err, b1)
      | (Inr manifest, b1) \<Rightarrow> (case load_parent t b1 (lo_ParentID opts) of
          Inl err \<Rightarrow> (Inl err, b1)
        | Inr (parent, parentID) \<Rightarrow>
            (let issueID = issue_id manifest
             in case write_manifest t e b1 (manifest\<lparr>lm_NextIssueNumber := wrap64 (lm_NextIssueNumber manifest + 1),
                                                    lm_UpdatedAt := en_now e\<rparr>) of
                  (Inl err, b2) \<Rightarrow> (Inl err, b2)
                | (Inr _, b2) \<Rightarrow>
                    (let issue = new_issue (en_now e) issueID parentID opts
                     in case write_issue t e b2 issueID issue of
                          (Inl err, b3) \<Rightarrow> (Inl err, b3)
                        | (Inr _, b3) \<Rightarrow> link_parent t e b3 issue parent)))))"

definition board_CreateIssue ::
  "LocalTracker \<Rightarrow> go_error option \<Rightarrow> env \<Rightarrow> board \<Rightarrow> string \<Rightarrow> string \<Rightarrow> string list \<Rightarrow> LocalBoardIssue result \<times> board" where
  "board_CreateIssue t ctx e b title description labels =
     CreateIssueWithOptions t ctx e b \<lparr>lo_Title = title, lo_Description = description, lo_ParentID = [],
       lo_Assignee = [], lo_Labels = labels, lo_BlockedBy = [], lo_TrackerMeta = []\<rparr>"

definition CreateChildIssue ::
  "LocalTracker \<Rightarrow> go_error option \<Rightarrow> env \<Rightarrow> board \<Rightarrow> string \<Rightarrow> string \<Rightarrow> string \<Rightarrow> string list
     \<Rightarrow> LocalBoardIssue result \<times> board" where
  "CreateChildIssue t ctx e b parentID title description labels =
     CreateIssueWithOptions t ctx e b \<lparr>lo_Title = title, lo_Description = description, lo_ParentID = parentID,
       lo_Assignee = [], lo_Labels = labels, lo_BlockedBy = [], lo_TrackerMeta = []\<rparr>"

text \<open>
  Listing. \<open>sort.Slice\<close> sorts by the creation time, then by the id; issues with equal keys have the same
  id, which the board does not produce.
\<close>

fun read_issues :: "LocalTracker \<Rightarrow> board \<Rightarrow> bool \<Rightarrow> string list \<Rightarrow> LocalBoardIssue list result" where
  "read_issues t b includeDone [] = Inr []"
| "read_issues t b includeDone (n # ns) =
     (case readJSONFile (lt_boardDir t @ ''/issues/'' @ n) (map_of (bd_issues b) n) of
        Inl err \<Rightarrow> Inl err
      | Inr issue \<Rightarrow> (case read_issues t b includeDone ns of
          Inl err \<Rightarrow> Inl err
        | Inr issues \<Rightarrow> Inr (if \<not> includeDone \<and> lb_State issue = LocalBoardStateDone then issues else issue # issues)))"

definition issue_key :: "LocalBoardIssue \<Rightarrow> time \<times> string" where
  "issue_key i = (lb_CreatedAt i, lb_ID i)"

definition ListIssues ::
  "LocalTracker \<Rightarrow> go_error option \<Rightarrow> env \<Rightarrow> board \<Rightarrow> bool \<Rightarrow> LocalBoardIssue list result \<times> board" where
  "ListIssues t ctx e b includeDone = (case ctx of
      Some err \<Rightarrow> (Inl err, b)
    | None \<Rightarrow> (case ensureBoardLocked t e b of
        (Inl err, b') \<Rightarrow> (Inl err, b')
      | (Inr _, b') \<Rightarrow> (case en_dirfault e of
          Some err \<Rightarrow> (Inl (Wrap ''reading issues directory'' err), b')
        | None \<Rightarrow> (case read_issues t b' includeDone (json_files (bd_issues b')) of
            Inl err \<Rightarrow> (Inl err, b')
          | Inr issues \<Rightarrow> (Inr (sort_key issue_key issues), b')))))"

definition board_FetchIssues ::
  "(string \<Rightarrow> string) \<Rightarrow> LocalTracker \<Rightarrow> go_error option \<Rightarrow> env \<Rightarrow> board \<Rightarrow> Issue list result \<times> board" where
  "board_FetchIssues override t ctx e b = (case ListIssues t ctx e b False of
      (Inl err, b') \<Rightarrow> (Inl err, b')
    | (Inr issues, b') \<Rightarrow> (Inr (map (toIssue override) issues), b'))"

fun load_children :: "LocalTracker \<Rightarrow> board \<Rightarrow> string list \<Rightarrow> LocalBoardIssue list result" where
  "load_children t b [] = Inr []"
| "load_children t b (c # cs) = (case loadIssueLocked t b c of
      Inl err \<Rightarrow> Inl err
    | Inr child \<Rightarrow> (case load_children t b cs of Inl err \<Rightarrow> Inl err | Inr children \<Rightarrow> Inr (child # children)))"

definition ListChildIssues ::
  "LocalTracker \<Rightarrow> go_error option \<Rightarrow> env \<Rightarrow> board \<Rightarrow> string \<Rightarrow> LocalBoardIssue list result \<times> board" where
  "ListChildIssues t ctx e b parentID = with_issue t ctx e b parentID (\<lambda>parent b'.
     (load_children t b' (lb_ChildIDs parent), b'))"

text \<open>The loops of \<open>FindDispatchableIssue\<close>; every \<open>GetIssue\<close> takes the lock and looks at the board anew.\<close>

fun blocked_loop :: "LocalTracker \<Rightarrow> go_error option \<Rightarrow> env \<Rightarrow> board \<Rightarrow> string list \<Rightarrow> bool result \<times> board" where
  "blocked_loop t ctx e b [] = (Inr False, b)"
| "blocked_loop t ctx e b (i # is') = (case GetIssue t ctx e b i of
      (Inl err, b') \<Rightarrow> (Inl err, b')
    | (Inr blocker, b') \<Rightarrow>
        (if lb_State blocker \<noteq> LocalBoardStateDone then (Inr True, b') else blocked_loop t ctx e b' is'))"

definition parent_open :: "LocalTracker \<Rightarrow> go_error option \<Rightarrow> env \<Rightarrow> board \<Rightarrow> LocalBoardIssue \<Rightarrow> bool result \<times> board" where
  "parent_open t ctx e b issue =
     (if lb_ParentID issue = [] then (Inr False, b)
      else case GetIssue t ctx e b (lb_ParentID issue) of
          (Inl err, b') \<Rightarrow> (Inl err, b')
        | (Inr parent, b') \<Rightarrow> (Inr (lb_State parent \<noteq> LocalBoardStateDone), b'))"

fun find_loop ::
  "LocalTracker \<Rightarrow> go_error option \<Rightarrow> env \<Rightarrow> string \<Rightarrow> board \<Rightarrow> LocalBoardIssue list \<Rightarrow> LocalBoardIssue option result \<times> board" where
  "find_loop t ctx e team b [] = (Inr None, b)"
| "find_loop t ctx e team b (issue # issues) =
     (if lb_ClaimedBy issue \<noteq> [] then find_loop t ctx e team b issues
      else case parent_open t ctx e b issue of
          (Inl err, b1) \<Rightarrow> (Inl err, b1)
        | (Inr True, b1) \<Rightarrow> find_loop t ctx e team b1 issues
        | (Inr False, b1) \<Rightarrow>
            (if lb_State issue \<noteq> LocalBoardStateTodo \<and> lb_State issue \<noteq> LocalBoardStateRetry
             then find_loop t ctx e team b1 issues
             else if team \<noteq> [] \<and> \<not> issueMatchesTeam issue team then find_loop t ctx e team b1 issues
             else case blocked_loop t ctx e b1 (lb_BlockedBy issue) of
                 (Inl err, b2) \<Rightarrow> (Inl err, b2)
               | (Inr True, b2) \<Rightarrow> find_loop t ctx e team b2 issues
               | (Inr False, b2) \<Rightarrow> (Inr (Some issue), b2)))"

definition FindDispatchableIssue ::
  "LocalTracker \<Rightarrow> go_error option \<Rightarrow> env \<Rightarrow> board \<Rightarrow> string \<Rightarrow> LocalBoardIssue option result \<times> board" where
  "FindDispatchableIssue t ctx e b teamName = (case ListIssues t ctx e b False of
      (Inl err, b') \<Rightarrow> (Inl err, b')
    | (Inr issues, b') \<Rightarrow> find_loop t ctx e (trim_space teamName) b' issues)"

end
