(* ===== verification/Local_Board_Runs.thy ===== *)
theory Local_Board_Runs
  imports Local_Board
begin

text \<open>
  Lemmas on the local board: look-ups and writes of single files, what each operation can end in, the
  commands several trackers run on a shared board, and the invariant every command keeps.
\<close>

section \<open>Look-ups and single writes\<close>

definition issue_at :: "board \<Rightarrow> string \<Rightarrow> LocalBoardIssue option" where
  "issue_at b issueID = (case map_of (bd_issues b) (issue_file issueID) of Some (Doc i) \<Rightarrow> Some i | _ \<Rightarrow> None)"

lemma issue_file_inject [simp]: "issue_file x = issue_file y \<longleftrightarrow> x = y"
  by (simp add: issue_file_def)

lemma comments_file_inject [simp]: "comments_file x = comments_file y \<longleftrightarrow> x = y"
  by (simp add: comments_file_def)

lemma loadIssueLocked_Inr: "loadIssueLocked t b issueID = Inr i \<longleftrightarrow> issue_at b issueID = Some i"
  by (auto simp: loadIssueLocked_def readJSONFile_def issue_at_def split: option.splits node.splits)

lemma loadIssueLocked_Inl: "loadIssueLocked t b issueID = Inl err \<Longrightarrow> issue_at b issueID = None"
  by (metis loadIssueLocked_Inr not_Some_eq sum.simps(4))

lemma load_issue_at [simp]: "issue_at b issueID = Some i \<Longrightarrow> loadIssueLocked t b issueID = Inr i"
  by (simp add: loadIssueLocked_Inr)

lemma issue_at_cong: "bd_issues b = bd_issues b' \<Longrightarrow> issue_at b = issue_at b'"
  by (simp add: issue_at_def fun_eq_iff)

definition with_number :: "board \<Rightarrow> LocalBoardManifest \<Rightarrow> board" where
  "with_number b m = b\<lparr>bd_manifest := Some (Doc m)\<rparr>"

definition with_doc :: "board \<Rightarrow> string \<Rightarrow> LocalBoardIssue \<Rightarrow> board" where
  "with_doc b issueID i = b\<lparr>bd_issues := fput (issue_file issueID) (Doc i) (bd_issues b)\<rparr>"

lemma with_doc_simps [simp]:
  "issue_at (with_doc b issueID i) = (issue_at b)(issueID \<mapsto> i)" "bd_manifest (with_doc b issueID i) = bd_manifest b"
  "bd_comments (with_doc b issueID i) = bd_comments b"
  by (auto simp: with_doc_def issue_at_def fun_eq_iff)

lemma with_number_simps [simp]:
  "issue_at (with_number b m) = issue_at b" "bd_manifest (with_number b m) = Some (Doc m)"
  "bd_issues (with_number b m) = bd_issues b" "bd_comments (with_number b m) = bd_comments b"
  by (simp_all add: with_number_def issue_at_def fun_eq_iff)

lemma write_manifest_cases:
  obtains err where "write_manifest t e b m = (Inl err, b)"
  | "write_manifest t e b m = (Inr (), with_number b m)"
  by (cases "en_wfault e (manifestPath t)"; cases "bd_manifest b = Some SubDir")
     (auto simp: with_number_def write_manifest_def writeJSONAtomic_def)

lemma write_issue_cases:
  obtains err where "write_issue t e b issueID i = (Inl err, b)"
  | "write_issue t e b issueID i = (Inr (), with_doc b issueID i)"
  by (cases "en_wfault e (issuePath t issueID)"; cases "map_of (bd_issues b) (issue_file issueID) = Some SubDir")
     (auto simp: with_doc_def write_issue_def writeJSONAtomic_def)

lemma write_issue_ok [simp]:
  assumes "en_wfault e (issuePath t issueID) = None" and "map_of (bd_issues b) (issue_file issueID) \<noteq> Some SubDir"
  shows "write_issue t e b issueID i = (Inr (), with_doc b issueID i)"
  using assms by (simp add: with_doc_def write_issue_def writeJSONAtomic_def)

lemma issue_at_other [simp]:
  "issue_at (b\<lparr>bd_manifest := m\<rparr>) = issue_at b" "issue_at (b\<lparr>bd_comments := c\<rparr>) = issue_at b"
  by (simp_all add: issue_at_def fun_eq_iff)

text \<open>What \<open>ensureBoardLocked\<close> finds or makes.\<close>

definition normal_manifest :: "LocalTracker \<Rightarrow> LocalBoardManifest \<Rightarrow> LocalBoardManifest" where
  "normal_manifest t m = m\<lparr>lm_SchemaVersion := (if lm_SchemaVersion m = [] then ''1'' else lm_SchemaVersion m),
     lm_IssuePrefix := (if lm_IssuePrefix m = [] then lt_issuePrefix t else lm_IssuePrefix m),
     lm_NextIssueNumber := (if lm_NextIssueNumber m \<le> 0 then 1 else lm_NextIssueNumber m)\<rparr>"

definition first_manifest :: "LocalTracker \<Rightarrow> time \<Rightarrow> LocalBoardManifest" where
  "first_manifest t now = \<lparr>lm_SchemaVersion = ''1'', lm_IssuePrefix = lt_issuePrefix t, lm_NextIssueNumber = 1,
     lm_CreatedAt = now, lm_UpdatedAt = now\<rparr>"

lemma ensureBoardLocked_outcome:
  "(\<exists>err. ensureBoardLocked t e b = (Inl err, b)) \<or>
   ensureBoardLocked t e b = (Inr (first_manifest t (en_now e)), b\<lparr>bd_manifest := Some (Doc (first_manifest t (en_now e)))\<rparr>)
     \<and> bd_manifest b = None \<or>
   (\<exists>m. ensureBoardLocked t e b = (Inr (normal_manifest t m), b) \<and> bd_manifest b = Some (Doc m))"
  unfolding ensureBoardLocked_def readJSONFile_def write_manifest_def writeJSONAtomic_def Let_def
    first_manifest_def [symmetric] normal_manifest_def [symmetric]
  by (auto split: option.split node.split)

lemma ensureBoardLocked_cases:
  obtains (error) err where "ensureBoardLocked t e b = (Inl err, b)"
  | (first) "ensureBoardLocked t e b = (Inr (first_manifest t (en_now e)), b\<lparr>bd_manifest := Some (Doc (first_manifest t (en_now e)))\<rparr>)"
      "bd_manifest b = None"
  | (found) m where "ensureBoardLocked t e b = (Inr (normal_manifest t m), b)" "bd_manifest b = Some (Doc m)"
  using ensureBoardLocked_outcome [of t e b] by (elim disjE exE conjE)

lemma ensureBoardLocked_keeps [simp]:
  "bd_issues (snd (ensureBoardLocked t e b)) = bd_issues b"
  "bd_comments (snd (ensureBoardLocked t e b)) = bd_comments b"
  by (cases rule: ensureBoardLocked_cases [of t e b]; simp)+

text \<open>A board an operation without faults can use.\<close>

definition usable :: "LocalTracker \<Rightarrow> env \<Rightarrow> board \<Rightarrow> bool" where
  "usable t e b \<longleftrightarrow> en_statfault e ''issues'' = None \<and> en_statfault e ''comments'' = None \<and>
     en_wfault e (manifestPath t) = None \<and> (bd_manifest b = None \<or> (\<exists>m. bd_manifest b = Some (Doc m)))"

lemma ensureBoardLocked_usable:
  "usable t e b \<Longrightarrow> \<exists>m. ensureBoardLocked t e b = (Inr m, snd (ensureBoardLocked t e b))"
  by (auto simp: usable_def ensureBoardLocked_def readJSONFile_def write_manifest_def writeJSONAtomic_def Let_def)

lemma usable_again: "usable t e b \<Longrightarrow> snd (ensureBoardLocked t e (snd (ensureBoardLocked t e b))) = snd (ensureBoardLocked t e b)"
  by (cases rule: ensureBoardLocked_cases [of t e b])
     (auto simp: usable_def ensureBoardLocked_def readJSONFile_def write_manifest_def writeJSONAtomic_def Let_def)

lemma usable_ensured: "usable t e b \<Longrightarrow> usable t e (snd (ensureBoardLocked t e b))"
  by (cases rule: ensureBoardLocked_cases [of t e b]) (auto simp: usable_def)

text \<open>The common beginning: an error that leaves the issues, or the issue and the rest of the operation.\<close>

lemma with_issue_cases:
  obtains (error) err b' where "with_issue t ctx e b issueID f = (Inl err, b')" "b' = b \<or> b' = snd (ensureBoardLocked t e b)"
  | (loaded) i where "with_issue t ctx e b issueID f = f i (snd (ensureBoardLocked t e b))" "issue_at b issueID = Some i"
      "ctx = None" "\<exists>m. fst (ensureBoardLocked t e b) = Inr m"
proof (cases ctx)
  case (Some err)
  then show thesis using error by (simp add: with_issue_def)
next
  case None
  have same: "issue_at (snd (ensureBoardLocked t e b)) = issue_at b" by (rule issue_at_cong) simp
  show thesis
  proof (cases "ensureBoardLocked t e b")
    case (Pair r b')
    then show thesis
    proof (cases r)
      case (Inl err)
      with None Pair show thesis using error [of err b'] by (simp add: with_issue_def)
    next
      case (Inr m)
      show thesis
      proof (cases "loadIssueLocked t b' issueID")
        case (Inl err)
        with None Pair Inr show thesis using error [of err b'] by (simp add: with_issue_def)
      next
        case (Inr i)
        with None Pair \<open>r = Inr m\<close> same show thesis using loaded [of i]
          by (simp add: with_issue_def loadIssueLocked_Inr)
      qed
    qed
  qed
qed

lemma with_issue_ok:
  assumes "usable t e b" and "issue_at b issueID = Some i"
  shows "with_issue t None e b issueID f = f i (snd (ensureBoardLocked t e b))"
proof -
  obtain m where m: "ensureBoardLocked t e b = (Inr m, snd (ensureBoardLocked t e b))"
    using ensureBoardLocked_usable [OF assms(1)] by blast
  have "issue_at (snd (ensureBoardLocked t e b)) issueID = Some i"
    using assms(2) issue_at_cong [of "snd (ensureBoardLocked t e b)" b] by simp
  then show ?thesis unfolding with_issue_def by (subst m) simp
qed

section \<open>Decimal numbers\<close>

lemma digit_char: "d < 10 \<Longrightarrow> of_char (char_of (48 + d) :: char) = (48 + d :: nat)"
  by (simp add: of_char_of)

lemma nat_digits_inject: "nat_digits m = nat_digits n \<Longrightarrow> m = n"
proof (induction m arbitrary: n rule: less_induct)
  case (less m)
  have ne: "nat_digits k \<noteq> []" for k by (subst nat_digits.simps) simp
  have last: "of_char (last (nat_digits k)) = 48 + k mod 10" for k :: nat
    by (subst nat_digits.simps) (simp add: digit_char)
  have butlast: "butlast (nat_digits k) = (if k < 10 then [] else nat_digits (k div 10))" for k
    by (subst nat_digits.simps) (simp add: butlast_append)
  have digit: "m mod 10 = n mod 10" using last [of m] last [of n] less.prems by simp
  have front: "(if m < 10 then [] else nat_digits (m div 10)) = (if n < 10 then [] else nat_digits (n div 10))"
    using butlast [of m] butlast [of n] less.prems by simp
  show ?case
  proof (cases "m < 10")
    case True
    with front ne have "n < 10" by (metis)
    with True digit show ?thesis by simp
  next
    case False
    with front ne have "\<not> n < 10" by (metis)
    with False front have "m div 10 = n div 10" using less.IH [of "m div 10" "n div 10"] by simp
    with digit show ?thesis by (metis div_mult_mod_eq)
  qed
qed

lemma fmt_int_inject: "0 \<le> i \<Longrightarrow> 0 \<le> j \<Longrightarrow> fmt_int i = fmt_int j \<longleftrightarrow> i = j"
  by (auto simp: fmt_int_def dest: nat_digits_inject)

section \<open>The commands on a board\<close>

datatype board_cmd =
    CClaim string
  | CRelease string
  | CState string IssueState
  | CMove string LocalBoardState
  | CAssign string string
  | CEdit string "LocalBoardIssue \<Rightarrow> LocalBoardIssue result"
  | CComment string string
  | CCreate LocalIssueCreateOptions
  | CInit

definition forget :: "'a result \<times> board \<Rightarrow> unit result \<times> board" where
  "forget p = (map_sum id (\<lambda>_. ()) (fst p), snd p)"

fun board_exec ::
  "(LocalBoardComment \<Rightarrow> nat) \<Rightarrow> LocalTracker \<Rightarrow> go_error option \<Rightarrow> env \<Rightarrow> board_cmd \<Rightarrow> board \<Rightarrow> unit result \<times> board" where
  "board_exec enc_len t ctx e (CClaim i) b = board_ClaimIssue t ctx e b i"
| "board_exec enc_len t ctx e (CRelease i) b = board_ReleaseIssue t ctx e b i"
| "board_exec enc_len t ctx e (CState i s) b = board_UpdateIssueState t ctx e b i s"
| "board_exec enc_len t ctx e (CMove i s) b = forget (MoveIssue t ctx e b i s)"
| "board_exec enc_len t ctx e (CAssign i a) b = forget (AssignIssue t ctx e b i a)"
| "board_exec enc_len t ctx e (CEdit i f) b = forget (UpdateIssue t ctx e b i (Some f))"
| "board_exec enc_len t ctx e (CComment i s) b = board_PostComment enc_len t ctx e b i s"
| "board_exec enc_len t ctx e (CCreate opts) b = forget (CreateIssueWithOptions t ctx e b opts)"
| "board_exec enc_len t ctx e CInit b = forget (InitBoard t ctx e b)"

text \<open>The commands that rewrite one issue, as functions on it.\<close>

fun edit_of :: "LocalTracker \<Rightarrow> env \<Rightarrow> board_cmd \<Rightarrow> (string \<times> (LocalBoardIssue \<Rightarrow> LocalBoardIssue result)) option" where
  "edit_of t e (CClaim i) = Some (i, \<lambda>x. Inr (x\<lparr>
     lb_State := (if lb_State x \<noteq> LocalBoardStateDone then LocalBoardStateInProgress else lb_State x),
     lb_ClaimedBy := lt_actor t, lb_UpdatedAt := en_now e\<rparr>))"
| "edit_of t e (CRelease i) = Some (i, \<lambda>x. Inr (x\<lparr>lb_ClaimedBy := [], lb_UpdatedAt := en_now e\<rparr>))"
| "edit_of t e (CState i s) = Some (i, \<lambda>x. Inr (move_to t (en_now e) (localBoardStateFromIssueState s) x))"
| "edit_of t e (CMove i s) = Some (i, \<lambda>x. Inr (move_to t (en_now e) s x))"
| "edit_of t e (CAssign i a) = Some (i, \<lambda>x. Inr (x\<lparr>lb_Assignee := trim_space a, lb_UpdatedAt := en_now e\<rparr>))"
| "edit_of t e (CEdit i f) = Some (i, \<lambda>x. map_sum id (\<lambda>y. y\<lparr>lb_UpdatedAt := en_now e\<rparr>) (f x))"
| "edit_of t e _ = None"

lemma forget_write_returning [simp]: "forget (write_returning t e b issueID i) = write_issue t e b issueID i"
  by (cases rule: write_issue_cases [of t e b issueID i]) (auto simp: write_returning_def forget_def)

lemma forget_with_issue:
  "forget (with_issue t ctx e b issueID f) = with_issue t ctx e b issueID (\<lambda>i b'. forget (f i b'))"
  by (simp add: with_issue_def forget_def split: option.split sum.split prod.split)

lemma exec_edit:
  "edit_of t e cmd = Some (issueID, f) \<Longrightarrow>
   board_exec enc_len t ctx e cmd b = with_issue t ctx e b issueID (\<lambda>i b'.
     case f i of Inl err \<Rightarrow> (Inl err, b') | Inr i' \<Rightarrow> write_issue t e b' issueID i')"
proof (cases cmd)
  case (CEdit i g)
  assume "edit_of t e cmd = Some (issueID, f)"
  with CEdit show ?thesis
    by (auto simp: UpdateIssue_def forget_with_issue with_issue_def forget_def [of "(Inl _, _)"]
        split: option.split sum.split prod.split)
qed (auto simp: board_ClaimIssue_def board_ReleaseIssue_def board_UpdateIssueState_def MoveIssue_def AssignIssue_def
      UpdateIssue_def forget_with_issue with_issue_def forget_def [of "(Inl _, _)"] split: option.split sum.split prod.split)

text \<open>A rewriting command fails and leaves the issues, or writes the rewritten issue.\<close>

lemma exec_edit_cases:
  assumes "edit_of t e cmd = Some (issueID, f)"
  obtains (error) err b' where "board_exec enc_len t ctx e cmd b = (Inl err, b')" "b' = b \<or> b' = snd (ensureBoardLocked t e b)"
  | (written) i i' where "issue_at b issueID = Some i" "f i = Inr i'"
      "board_exec enc_len t ctx e cmd b =
         (Inr (), with_doc (snd (ensureBoardLocked t e b)) issueID i')"
proof (cases rule: with_issue_cases [of t ctx e b issueID
    "\<lambda>i b'. case f i of Inl err \<Rightarrow> (Inl err, b') | Inr i' \<Rightarrow> write_issue t e b' issueID i'"])
  case (error err b')
  then show thesis using that(1) [of err b'] exec_edit [OF assms, of enc_len ctx b] by simp
next
  case (loaded i)
  let ?b = "snd (ensureBoardLocked t e b)"
  have run: "board_exec enc_len t ctx e cmd b = (case f i of Inl err \<Rightarrow> (Inl err, ?b) | Inr i' \<Rightarrow> write_issue t e ?b issueID i')"
    using loaded(1) exec_edit [OF assms] by simp
  show thesis
  proof (cases "f i")
    case (Inl err)
    with run that(1) show thesis by simp
  next
    case (Inr i')
    then show thesis
      using run that loaded(2) by (cases rule: write_issue_cases [of t e ?b issueID i']) auto
  qed
qed

section \<open>The invariant\<close>

definition board_columns :: "LocalBoardState list" where
  "board_columns = [LocalBoardStateTodo, LocalBoardStateInProgress, LocalBoardStateRetry, LocalBoardStateDone]"

definition good_prefix :: "string \<Rightarrow> bool" where
  "good_prefix s \<longleftrightarrow> s \<noteq> [] \<and> list_all keep_alnum s"

definition numbered :: "LocalBoardManifest \<Rightarrow> string \<Rightarrow> bool" where
  "numbered m issueID \<longleftrightarrow>
     (\<exists>k. 1 \<le> k \<and> k < lm_NextIssueNumber m \<and> issueID = lm_IssuePrefix m @ ''-'' @ fmt_int k)"

definition issue_ok :: "board \<Rightarrow> string \<Rightarrow> LocalBoardIssue \<Rightarrow> bool" where
  "issue_ok b issueID i \<longleftrightarrow>
     lb_ID i = issueID \<and> lb_State i \<in> set board_columns \<and>
     (lb_ParentID i \<noteq> [] \<longrightarrow> lb_ParentID i \<noteq> issueID \<and> issue_at b (lb_ParentID i) \<noteq> None) \<and> distinct (lb_ChildIDs i) \<and>
     (\<forall>c \<in> set (lb_ChildIDs i). \<exists>ci. issue_at b c = Some ci \<and> lb_ParentID ci = issueID)"

definition manifest_ok :: "board \<Rightarrow> bool" where
  "manifest_ok b \<longleftrightarrow> (case bd_manifest b of
      None \<Rightarrow> bd_issues b = []
    | Some (Doc m) \<Rightarrow> good_prefix (lm_IssuePrefix m) \<and> 1 \<le> lm_NextIssueNumber m \<and>
        (\<forall>issueID i. issue_at b issueID = Some i \<longrightarrow> numbered m issueID)
    | _ \<Rightarrow> False)"

definition board_inv :: "board \<Rightarrow> bool" where
  "board_inv b \<longleftrightarrow> wf_dir (bd_issues b) \<and> manifest_ok b \<and>
     (\<forall>n v. map_of (bd_issues b) n = Some v \<longrightarrow> (\<exists>i. v = Doc i \<and> n = issue_file (lb_ID i))) \<and>
     (\<forall>issueID i. issue_at b issueID = Some i \<longrightarrow> issue_ok b issueID i)"

definition empty_board :: board where
  "empty_board = \<lparr>bd_manifest = None, bd_issues = [], bd_comments = []\<rparr>"

lemma inv_empty: "board_inv empty_board"
  by (simp add: board_inv_def empty_board_def manifest_ok_def issue_at_def)

lemma inv_ensure:
  assumes "board_inv b" and "good_prefix (lt_issuePrefix t)"
  shows "board_inv (snd (ensureBoardLocked t e b))"
  using assms
  by (cases rule: ensureBoardLocked_cases [of t e b])
     (auto simp: board_inv_def manifest_ok_def first_manifest_def issue_at_def issue_ok_def)

lemma inv_comments: "board_inv b \<Longrightarrow> board_inv (b\<lparr>bd_comments := c\<rparr>)"
  by (auto simp: board_inv_def manifest_ok_def issue_ok_def split: option.splits node.splits)

text \<open>A manifest whose number has grown.\<close>

lemma inv_bump:
  assumes "board_inv b" and "bd_manifest b = Some (Doc m)" and "lm_IssuePrefix m' = lm_IssuePrefix m"
    and "lm_NextIssueNumber m \<le> lm_NextIssueNumber m'"
  shows "board_inv (with_number b m')"
  using assms by (fastforce simp: board_inv_def manifest_ok_def issue_ok_def numbered_def)

text \<open>An issue written under its own id, a new one or one that exists.\<close>

lemma inv_put:
  assumes inv: "board_inv b" and m: "bd_manifest b = Some (Doc m)"
    and new: "numbered m issueID" and id: "lb_ID i' = issueID" and col: "lb_State i' \<in> set board_columns"
    and parent: "lb_ParentID i' \<noteq> [] \<Longrightarrow> lb_ParentID i' \<noteq> issueID \<and> issue_at b (lb_ParentID i') \<noteq> None"
    and kept: "\<And>i. issue_at b issueID = Some i \<Longrightarrow> lb_ParentID i' = lb_ParentID i"
    and children: "distinct (lb_ChildIDs i')"
      "\<And>c. c \<in> set (lb_ChildIDs i') \<Longrightarrow> c \<noteq> issueID \<and> (\<exists>ci. issue_at b c = Some ci \<and> lb_ParentID ci = issueID)"
  shows "board_inv (with_doc b issueID i')"
proof -
  let ?b = "with_doc b issueID i'"
  have "issue_ok ?b x i" if at: "issue_at ?b x = Some i" for x i
  proof (cases "x = issueID")
    case True
    with at have "i = i'" by simp
    with True id col parent children show ?thesis by (auto simp: issue_ok_def)
  next
    case False
    with at have "issue_at b x = Some i" by simp
    then have "issue_ok b x i" using inv by (simp add: board_inv_def)
    with kept show ?thesis by (auto simp: issue_ok_def)
  qed
  moreover have "manifest_ok ?b"
    using inv m new by (auto simp: board_inv_def manifest_ok_def)
  ultimately show ?thesis
    using inv id by (auto simp: board_inv_def with_doc_def dir_wf)
qed

text \<open>
  Commands the invariant is about: trackers have an alphanumeric prefix (\<open>NewLocalTracker\<close> gives one), columns come from
  \<open>ParseLocalBoardState\<close>, edits through \<open>UpdateIssue\<close> leave the id and the links to other issues alone and
  set no column but the four, as every caller does, the parent of a new issue is not blank (it may be absent), and the counter
  has not reached the largest \<open>int\<close>.
\<close>

definition keeps_links :: "(LocalBoardIssue \<Rightarrow> LocalBoardIssue result) \<Rightarrow> bool" where
  "keeps_links f \<longleftrightarrow> (\<forall>i i'. f i = Inr i' \<longrightarrow> lb_ID i' = lb_ID i \<and> lb_ParentID i' = lb_ParentID i \<and>
     lb_ChildIDs i' = lb_ChildIDs i \<and> (lb_State i' = lb_State i \<or> lb_State i' \<in> set board_columns))"

definition counter_room :: "board \<Rightarrow> bool" where
  "counter_room b \<longleftrightarrow> (case bd_manifest b of Some (Doc m) \<Rightarrow> lm_NextIssueNumber m < 2 ^ 63 - 1 | _ \<Rightarrow> True)"

fun admissible :: "board_cmd \<Rightarrow> board \<Rightarrow> bool" where
  "admissible (CMove i s) b = (s \<in> set board_columns)"
| "admissible (CEdit i f) b = keeps_links f"
| "admissible (CCreate opts) b = ((lo_ParentID opts = [] \<or> trim_space (lo_ParentID opts) \<noteq> []) \<and> counter_room b)"
| "admissible _ b = True"

inductive board_reach :: "(LocalBoardComment \<Rightarrow> nat) \<Rightarrow> board \<Rightarrow> bool" for enc_len where
  start: "board_reach enc_len empty_board"
| step: "board_reach enc_len b \<Longrightarrow> good_prefix (lt_issuePrefix t) \<Longrightarrow> admissible cmd b
         \<Longrightarrow> board_reach enc_len (snd (board_exec enc_len t ctx e cmd b))"

lemma edit_keeps_links:
  assumes "edit_of t e cmd = Some (issueID, f)" and "admissible cmd b" and "f i = Inr i'" and "lb_State i \<in> set board_columns"
  shows "lb_ID i' = lb_ID i \<and> lb_State i' \<in> set board_columns \<and> lb_ParentID i' = lb_ParentID i \<and> lb_ChildIDs i' = lb_ChildIDs i"
proof (cases cmd)
  case (CState x s)
  with assms show ?thesis by (cases s) (auto simp: move_to_def board_columns_def)
next
  case (CEdit x g)
  then obtain y where y: "g i = Inr y" "i' = y\<lparr>lb_UpdatedAt := en_now e\<rparr>"
    using assms by (cases "g i") auto
  have "keeps_links g" using CEdit assms(2) by simp
  then have "lb_ID y = lb_ID i \<and> lb_ParentID y = lb_ParentID i \<and> lb_ChildIDs y = lb_ChildIDs i \<and>
      (lb_State y = lb_State i \<or> lb_State y \<in> set board_columns)"
    using y(1) unfolding keeps_links_def by blast
  with y(2) assms(4) show ?thesis by auto
qed (use assms in \<open>auto simp: move_to_def board_columns_def\<close>)

lemma numbered_not_Nil: "numbered m issueID \<Longrightarrow> issueID \<noteq> []"
  by (auto simp: numbered_def)

lemma inv_has_manifest: "board_inv b \<Longrightarrow> issue_at b issueID = Some i \<Longrightarrow> \<exists>m. bd_manifest b = Some (Doc m)"
  by (auto simp: board_inv_def manifest_ok_def issue_at_def split: option.splits node.splits)

lemma children_other:
  assumes inv: "board_inv b" and at: "issue_at b issueID = Some i" and c: "c \<in> set (lb_ChildIDs i)"
  shows "c \<noteq> issueID \<and> (\<exists>ci. issue_at b c = Some ci \<and> lb_ParentID ci = issueID)"
proof -
  obtain m where "bd_manifest b = Some (Doc m)" using inv_has_manifest [OF inv at] by blast
  then have "issueID \<noteq> []" and "issue_ok b issueID i"
    using inv at by (auto simp: board_inv_def manifest_ok_def dest: numbered_not_Nil)
  then show ?thesis using c at by (auto simp: issue_ok_def)
qed

lemma inv_edit:
  assumes inv: "board_inv b" and m: "bd_manifest b = Some (Doc m)" and at: "issue_at b issueID = Some i"
    and same: "lb_ID i' = lb_ID i" "lb_State i' \<in> set board_columns" "lb_ParentID i' = lb_ParentID i" "lb_ChildIDs i' = lb_ChildIDs i"
  shows "board_inv (with_doc b issueID i')"
proof -
  have ok: "issue_ok b issueID i" and "numbered m issueID"
    using inv m at by (auto simp: board_inv_def manifest_ok_def)
  moreover have "c \<noteq> issueID \<and> (\<exists>ci. issue_at b c = Some ci \<and> lb_ParentID ci = issueID)"
    if "c \<in> set (lb_ChildIDs i')" for c
    using that children_other [OF inv at] ok same by (auto simp: issue_ok_def)
  ultimately show ?thesis
    using inv m same at by (intro inv_put) (auto simp: issue_ok_def)
qed

lemma ensured_manifest:
  "board_inv b \<Longrightarrow> fst (ensureBoardLocked t e b) = Inr m \<Longrightarrow> \<exists>m'. bd_manifest (snd (ensureBoardLocked t e b)) = Some (Doc m')"
  by (cases rule: ensureBoardLocked_cases [of t e b]) auto

lemma inv_exec_edit:
  assumes inv: "board_inv b" and pfx: "good_prefix (lt_issuePrefix t)" and adm: "admissible cmd b"
    and edit: "edit_of t e cmd = Some (issueID, f)"
  shows "board_inv (snd (board_exec enc_len t ctx e cmd b))"
  using edit
proof (cases rule: exec_edit_cases [of t e cmd issueID f enc_len ctx b])
  case (error err b')
  then show ?thesis using inv inv_ensure [OF inv pfx] by auto
next
  case (written i i')
  let ?b = "snd (ensureBoardLocked t e b)"
  have invb: "board_inv ?b" by (rule inv_ensure [OF inv pfx])
  have at: "issue_at ?b issueID = Some i" using written(1) issue_at_cong [of ?b b] by simp
  obtain m where m: "bd_manifest ?b = Some (Doc m)" using inv_has_manifest [OF invb at] by blast
  have "lb_State i \<in> set board_columns" using inv written(1) by (auto simp: board_inv_def issue_ok_def)
  then have "board_inv (with_doc ?b issueID i')"
    using edit_keeps_links [OF edit adm written(2)] by (intro inv_edit [OF invb m at]) auto
  with written(3) show ?thesis by simp
qed

text \<open>
  Creation. With the parent resolved, either an error before the issue is written, or the issue under
  the next id and then the parent's list of children.
\<close>

definition bumped :: "env \<Rightarrow> LocalBoardManifest \<Rightarrow> LocalBoardManifest" where
  "bumped e m = m\<lparr>lm_NextIssueNumber := wrap64 (lm_NextIssueNumber m + 1), lm_UpdatedAt := en_now e\<rparr>"

lemma link_parent_cases:
  obtains (kept) "link_parent t e b i p = (Inr i, b)" "lb_ParentID i = [] \<or> lb_ID i \<in> set (lb_ChildIDs p)"
  | (failed) err where "link_parent t e b i p = (Inl err, b)" "lb_ParentID i \<noteq> []"
  | (linked) "link_parent t e b i p = (Inr i, with_doc b (lb_ID p)
        (p\<lparr>lb_ChildIDs := lb_ChildIDs p @ [lb_ID i], lb_UpdatedAt := en_now e\<rparr>))"
      "lb_ParentID i \<noteq> []" "lb_ID i \<notin> set (lb_ChildIDs p)"
proof (cases "lb_ParentID i = [] \<or> lb_ID i \<in> set (lb_ChildIDs p)")
  case True
  then show thesis using kept by (simp add: link_parent_def)
next
  case False
  let ?p = "p\<lparr>lb_ChildIDs := lb_ChildIDs p @ [lb_ID i], lb_UpdatedAt := en_now e\<rparr>"
  from False show thesis
    using failed linked
    by (cases rule: write_issue_cases [of t e b "lb_ID p" ?p]) (auto simp: link_parent_def)
qed

lemma create_cases:
  obtains (error) err b' where "CreateIssueWithOptions t ctx e b opts = (Inl err, b')" "b' = b \<or> b' = snd (ensureBoardLocked t e b)"
  | (number) m p pid err where "ensureBoardLocked t e b = (Inr m, snd (ensureBoardLocked t e b))"
      "CreateIssueWithOptions t ctx e b opts = (Inl err, with_number (snd (ensureBoardLocked t e b)) (bumped e m))"
      "load_parent t b (lo_ParentID opts) = Inr (p, pid)"
  | (created) m p pid where "ensureBoardLocked t e b = (Inr m, snd (ensureBoardLocked t e b))"
      "load_parent t b (lo_ParentID opts) = Inr (p, pid)"
      "CreateIssueWithOptions t ctx e b opts =
         link_parent t e (with_doc (with_number (snd (ensureBoardLocked t e b)) (bumped e m)) (issue_id m)
             (new_issue (en_now e) (issue_id m) pid opts)) (new_issue (en_now e) (issue_id m) pid opts) p"
proof (cases "\<exists>m. ctx = None \<and> fst (ensureBoardLocked t e b) = Inr m")
  case False
  then show thesis
    using error by (cases ctx; cases "ensureBoardLocked t e b"; cases "fst (ensureBoardLocked t e b)")
      (auto simp: CreateIssueWithOptions_def)
next
  case True
  let ?b = "snd (ensureBoardLocked t e b)"
  from True obtain m where ctx: "ctx = None" and m: "ensureBoardLocked t e b = (Inr m, ?b)" by (metis prod.collapse)
  have same: "load_parent t ?b = load_parent t b"
    by (simp add: load_parent_def loadIssueLocked_def fun_eq_iff)
  show thesis
  proof (cases "load_parent t b (lo_ParentID opts)")
    case (Inl err)
    with ctx same have "CreateIssueWithOptions t ctx e b opts = (Inl err, ?b)"
      unfolding CreateIssueWithOptions_def by (subst m) simp
    then show thesis using error by blast
  next
    case (Inr q)
    then obtain p pid where p: "load_parent t b (lo_ParentID opts) = Inr (p, pid)" by (metis prod.collapse)
    let ?i = "new_issue (en_now e) (issue_id m) pid opts"
    have step: "CreateIssueWithOptions t ctx e b opts = (case write_manifest t e ?b (bumped e m) of
        (Inl err, b2) \<Rightarrow> (Inl err, b2)
      | (Inr _, b2) \<Rightarrow> (case write_issue t e b2 (issue_id m) ?i of
          (Inl err, b3) \<Rightarrow> (Inl err, b3) | (Inr _, b3) \<Rightarrow> link_parent t e b3 ?i p))"
      using p ctx same unfolding CreateIssueWithOptions_def bumped_def Let_def by (subst m) simp
    show thesis
    proof (cases rule: write_manifest_cases [of t e ?b "bumped e m"])
      case (1 err)
      with step show thesis using error by simp
    next
      case 2
      then show thesis
        using step m p number created
        by (cases rule: write_issue_cases [of t e "with_number ?b (bumped e m)" "issue_id m" ?i])
           auto
    qed
  qed
qed

text \<open>Under the invariant the next id is free.\<close>

lemma ensured_ok:
  assumes inv: "board_inv b" and pfx: "good_prefix (lt_issuePrefix t)"
    and m: "ensureBoardLocked t e b = (Inr m, snd (ensureBoardLocked t e b))"
  obtains m0 where "bd_manifest (snd (ensureBoardLocked t e b)) = Some (Doc m0)" "lm_IssuePrefix m = lm_IssuePrefix m0"
    "lm_NextIssueNumber m = lm_NextIssueNumber m0" "1 \<le> lm_NextIssueNumber m" "good_prefix (lm_IssuePrefix m0)"
    "\<And>issueID i. issue_at b issueID = Some i \<Longrightarrow> numbered m0 issueID"
  using m
proof (cases rule: ensureBoardLocked_cases [of t e b])
  case first
  then show thesis
    using that [of "first_manifest t (en_now e)"] m inv pfx
    by (auto simp: first_manifest_def board_inv_def manifest_ok_def issue_at_def)
next
  case (found m0)
  then show thesis
    using that [of m0] m inv by (auto simp: normal_manifest_def board_inv_def manifest_ok_def good_prefix_def)
qed auto

lemma next_id_free:
  assumes "\<And>i. issue_at b (issue_id m) = Some i \<Longrightarrow> numbered m0 (issue_id m)" and "lm_IssuePrefix m = lm_IssuePrefix m0"
    and "lm_NextIssueNumber m = lm_NextIssueNumber m0" and "1 \<le> lm_NextIssueNumber m"
  shows "issue_at b (issue_id m) = None"
proof (rule ccontr)
  assume "issue_at b (issue_id m) \<noteq> None"
  then have "numbered m0 (issue_id m)" using assms(1) by auto
  then obtain k where "1 \<le> k" "k < lm_NextIssueNumber m0" "fmt_int (lm_NextIssueNumber m0) = fmt_int k"
    using assms(2, 3) by (auto simp: numbered_def issue_id_def)
  then show False using fmt_int_inject [of "lm_NextIssueNumber m0" k] by simp
qed

lemma counter_room_bump:
  "counter_room b \<Longrightarrow> ensureBoardLocked t e b = (Inr m, b') \<Longrightarrow> 1 \<le> lm_NextIssueNumber m
   \<Longrightarrow> lm_NextIssueNumber (bumped e m) = lm_NextIssueNumber m + 1"
  by (cases rule: ensureBoardLocked_cases [of t e b])
     (auto simp: counter_room_def bumped_def in_int64_def first_manifest_def normal_manifest_def split: if_splits)

lemma load_parent_ok:
  assumes "board_inv b" and "load_parent t b pid = Inr (p, pid')" and "pid = [] \<or> trim_space pid \<noteq> []"
  shows "pid' = [] \<and> p = zero_issue \<or> pid' \<noteq> [] \<and> issue_at b pid' = Some p \<and> lb_ID p = pid' \<and> pid' = trim_space pid"
proof (cases "trim_space pid = []")
  case True
  with assms show ?thesis by (auto simp: load_parent_def)
next
  case False
  with assms(2) have "issue_at b (trim_space pid) = Some p" "pid' = lb_ID p"
    by (auto simp: load_parent_def loadIssueLocked_Inr split: sum.splits)
  with False assms(1) show ?thesis by (auto simp: board_inv_def issue_ok_def)
qed

lemma inv_link_parent:
  assumes inv: "board_inv b" and m: "bd_manifest b = Some (Doc m)" and i: "issue_at b (lb_ID i) = Some i"
    and p: "lb_ParentID i \<noteq> [] \<Longrightarrow> issue_at b (lb_ParentID i) = Some p \<and> lb_ID p = lb_ParentID i"
  shows "board_inv (snd (link_parent t e b i p))"
proof (cases rule: link_parent_cases [of t e b i p])
  case linked
  let ?p = "p\<lparr>lb_ChildIDs := lb_ChildIDs p @ [lb_ID i], lb_UpdatedAt := en_now e\<rparr>"
  from linked(2) p have at: "issue_at b (lb_ID p) = Some p" and pid: "lb_ParentID i = lb_ID p" by auto
  have ok: "issue_ok b (lb_ID p) p" and num: "numbered m (lb_ID p)"
    using inv m at by (auto simp: board_inv_def manifest_ok_def)
  have child: "\<exists>ci. issue_at b c = Some ci \<and> lb_ParentID ci = lb_ID p" if "c \<in> set (lb_ChildIDs ?p)" for c
    using that ok i pid by (auto simp: issue_ok_def)
  have "c \<noteq> lb_ID p \<and> (\<exists>ci. issue_at b c = Some ci \<and> lb_ParentID ci = lb_ID p)"
    if "c \<in> set (lb_ChildIDs ?p)" for c
    using child [OF that] at ok num by (auto simp: issue_ok_def dest: numbered_not_Nil)
  then have "board_inv (with_doc b (lb_ID p) ?p)"
    using ok num linked(3) at
    by (intro inv_put [OF inv m]) (auto simp: issue_ok_def)
  with linked show ?thesis by simp
qed (use inv in auto)

lemma inv_create:
  assumes inv: "board_inv b" and pfx: "good_prefix (lt_issuePrefix t)" and adm: "admissible (CCreate opts) b"
  shows "board_inv (snd (CreateIssueWithOptions t ctx e b opts))"
proof (cases rule: create_cases [of t ctx e b opts])
  case (error err b')
  then show ?thesis using inv inv_ensure [OF inv pfx] by auto
next
  case (number m p pid err)
  obtain m0 where m0: "bd_manifest (snd (ensureBoardLocked t e b)) = Some (Doc m0)" "lm_IssuePrefix m = lm_IssuePrefix m0"
    "lm_NextIssueNumber m = lm_NextIssueNumber m0" "1 \<le> lm_NextIssueNumber m"
    using ensured_ok [OF inv pfx number(1)] by metis
  have "lm_NextIssueNumber (bumped e m) = lm_NextIssueNumber m0 + 1"
    using counter_room_bump [OF _ number(1) m0(4)] adm m0(3) by simp
  then have "board_inv (with_number (snd (ensureBoardLocked t e b)) (bumped e m))"
    using m0(2) by (intro inv_bump [OF inv_ensure [OF inv pfx] m0(1)]) (simp_all add: bumped_def)
  with number(2) show ?thesis by simp
next
  case (created m p pid)
  let ?b = "snd (ensureBoardLocked t e b)" and ?i = "new_issue (en_now e) (issue_id m) pid opts"
  let ?n = "with_number ?b (bumped e m)"
  have same: "issue_at ?b = issue_at b" by (rule issue_at_cong) simp
  obtain m0 where m0: "bd_manifest ?b = Some (Doc m0)" "lm_IssuePrefix m = lm_IssuePrefix m0"
    "lm_NextIssueNumber m = lm_NextIssueNumber m0" "1 \<le> lm_NextIssueNumber m"
    "\<And>issueID i. issue_at b issueID = Some i \<Longrightarrow> numbered m0 issueID"
    using ensured_ok [OF inv pfx created(1)] by metis
  have next': "lm_NextIssueNumber (bumped e m) = lm_NextIssueNumber m0 + 1"
    using counter_room_bump [OF _ created(1) m0(4)] adm m0(3) by simp
  then have invn: "board_inv ?n"
    using m0(2) by (intro inv_bump [OF inv_ensure [OF inv pfx] m0(1)]) (simp_all add: bumped_def)
  have free: "issue_at b (issue_id m) = None" by (rule next_id_free [OF m0(5, 2, 3, 4)])
  have parent: "pid = [] \<and> p = zero_issue \<or> pid \<noteq> [] \<and> issue_at b pid = Some p \<and> lb_ID p = pid"
    using load_parent_ok [OF inv created(2)] adm by auto
  have num: "numbered (bumped e m) (issue_id m)"
    unfolding numbered_def issue_id_def using next' m0(3, 4) by (intro exI [of _ "lm_NextIssueNumber m"]) (simp add: bumped_def)
  have "board_inv (with_doc ?n (issue_id m) ?i)"
    using num free same parent
    by (intro inv_put [OF invn, of "bumped e m"]) (auto simp: new_issue_def board_columns_def)
  then have "board_inv (snd (link_parent t e (with_doc ?n (issue_id m) ?i) ?i p))"
    using parent free same by (intro inv_link_parent [of _ "bumped e m"]) (auto simp: new_issue_def)
  with created(3) show ?thesis by simp
qed

lemma inv_exec:
  assumes "board_inv b" and "good_prefix (lt_issuePrefix t)" and "admissible cmd b"
  shows "board_inv (snd (board_exec enc_len t ctx e cmd b))"
proof (cases "edit_of t e cmd")
  case (Some q)
  then show ?thesis using inv_exec_edit [OF assms, of e "fst q" "snd q"] by simp
next
  case None
  then consider x y where "cmd = CComment x y" | opts where "cmd = CCreate opts" | "cmd = CInit" by (cases cmd) auto
  then show ?thesis
  proof cases
    case (1 x y)
    then show ?thesis
      using assms(1) inv_ensure [OF assms(1, 2), of e]
      by (cases rule: with_issue_cases [of t ctx e b x "\<lambda>_ b'. appendJSONLine enc_len t e b' x
            \<lparr>lk_Author = lt_actor t, lk_Body = y, lk_CreatedAt = en_now e\<rparr>"])
         (auto simp: board_PostComment_def appendJSONLine_def Let_def inv_comments split: option.split)
  next
    case (2 opts)
    then show ?thesis using inv_create [OF assms(1, 2)] assms(3) by (simp add: forget_def)
  next
    case 3
    then show ?thesis
      using assms(1) inv_ensure [OF assms(1, 2), of e] by (cases ctx) (simp_all add: InitBoard_def forget_def)
  qed
qed

lemma reach_inv: "board_reach enc_len b \<Longrightarrow> board_inv b"
  by (induction rule: board_reach.induct) (auto intro: inv_empty inv_exec)

end
