(* ===== verification/Local_Board_Props.thy ===== *)
theory Local_Board_Props
  imports Local_Board_Runs
begin

text \<open>
  Correctness of the local board: the settings of a tracker, the invariant of a board that several
  trackers share, the abstract view of an issue (its column and its claim) that the commands refine,
  creation under fresh ids, the choice of the next issue to dispatch, and the comments.
\<close>

section \<open>Settings\<close>

lemma trim_space_idem [simp]: "trim_space (trim_space s) = trim_space s"
proof -
  have "dropWhile is_space (dropWhile is_space (rev xs)) = dropWhile is_space (rev xs)" for xs
    by (simp add: dropWhile_idem)
  moreover have "dropWhile is_space (rev (dropWhile is_space (rev (dropWhile is_space s)))) =
      rev (dropWhile is_space (rev (dropWhile is_space s)))"
  proof (cases "rev (dropWhile is_space (rev (dropWhile is_space s)))")
    case (Cons c cs)
    let ?u = "dropWhile is_space s"
    have "?u = rev (dropWhile is_space (rev ?u)) @ rev (takeWhile is_space (rev ?u))"
      by (metis rev_append rev_rev_ident takeWhile_dropWhile_id)
    then obtain w where "?u = (c # cs) @ w" using Cons by metis
    then have "?u \<noteq> []" and "hd ?u = c" by simp_all
    then have "\<not> is_space c" using hd_dropWhile [of is_space s] by simp
    with Cons show ?thesis by simp
  next
    case Nil
    then show ?thesis by (metis dropWhile.simps(1))
  qed
  ultimately show ?thesis by (simp add: trim_space_def)
qed

lemma char_upper_alnum: "keep_alnum (char_upper c) \<Longrightarrow> \<not> (97 \<le> (of_char (char_upper c) :: nat) \<and> (of_char (char_upper c) :: nat) \<le> 122)"
  by (auto simp: char_upper_def Let_def of_char_of)

definition capital_or_digit :: "char \<Rightarrow> bool" where
  "capital_or_digit c \<longleftrightarrow> (let n = (of_char c :: nat) in 48 \<le> n \<and> n \<le> 57 \<or> 65 \<le> n \<and> n \<le> 90)"

lemma sanitize_prefix:
  "sanitizeLocalIssuePrefix s \<noteq> []" "list_all capital_or_digit (sanitizeLocalIssuePrefix s)"
proof -
  have trimmed: "set (trim_space u) \<subseteq> set u" for u
    unfolding trim_space_def by (auto dest!: set_dropWhileD)
  have "capital_or_digit c" if "c \<in> set (filter keep_alnum (trim_space (map char_upper s)))" for c
  proof -
    from that have "c \<in> set (map char_upper s)" and k: "keep_alnum c"
      using trimmed [of "map char_upper s"] by auto
    then obtain d where "c = char_upper d" by auto
    with k have "\<not> (97 \<le> (of_char c :: nat) \<and> (of_char c :: nat) \<le> 122)" using char_upper_alnum by simp
    with k show ?thesis by (simp add: keep_alnum_def capital_or_digit_def Let_def)
  qed
  moreover have "list_all capital_or_digit ''CB''" by (simp add: capital_or_digit_def)
  ultimately show "list_all capital_or_digit (sanitizeLocalIssuePrefix s)"
    unfolding sanitizeLocalIssuePrefix_def Let_def list_all_iff by auto
  show "sanitizeLocalIssuePrefix s \<noteq> []" by (simp add: sanitizeLocalIssuePrefix_def Let_def)
qed

lemma capital_or_digit_alnum: "list_all capital_or_digit s \<Longrightarrow> list_all keep_alnum s"
  by (auto simp: list_all_iff capital_or_digit_def keep_alnum_def Let_def)

text \<open>
  A tracker made by \<open>NewLocalTracker\<close> has a non-empty prefix of digits and capital letters, a
  non-empty actor without surrounding white space, and a board directory that is not blank, whatever the
  configuration and the environment.
\<close>

theorem NewLocalTracker_settings:
  "lt_issuePrefix (NewLocalTracker user cfg) \<noteq> [] \<and>
   list_all capital_or_digit (lt_issuePrefix (NewLocalTracker user cfg)) \<and>
   lt_actor (NewLocalTracker user cfg) \<noteq> [] \<and>
   trim_space (lt_actor (NewLocalTracker user cfg)) = lt_actor (NewLocalTracker user cfg) \<and>
   trim_space (lt_boardDir (NewLocalTracker user cfg)) \<noteq> []"
proof -
  have c: "trim_space ''contrabass'' = ''contrabass''" "trim_space ''.contrabass/board'' \<noteq> []" by code_simp+
  have "lt_actor (NewLocalTracker user cfg) \<noteq> [] \<and> trim_space (lt_actor (NewLocalTracker user cfg)) = lt_actor (NewLocalTracker user cfg)"
    by (simp add: NewLocalTracker_def Let_def c)
  moreover have "trim_space (lt_boardDir (NewLocalTracker user cfg)) \<noteq> []"
    by (simp add: NewLocalTracker_def Let_def c)
  ultimately show ?thesis by (simp add: NewLocalTracker_def Let_def sanitize_prefix)
qed

section \<open>The invariant\<close>


section \<open>Refinement of claims\<close>

text \<open>
  What a tracker promises about an issue is its column and who holds it. A command that succeeds makes
  the abstract move below; one that fails makes none.
\<close>

type_synonym claim_view = "string \<Rightarrow> (LocalBoardState \<times> string) option"

definition board_view :: "board \<Rightarrow> claim_view" where
  "board_view b = (\<lambda>issueID. map_option (\<lambda>i. (lb_State i, lb_ClaimedBy i)) (issue_at b issueID))"

definition moved :: "string \<Rightarrow> LocalBoardState \<Rightarrow> string \<Rightarrow> LocalBoardState \<times> string" where
  "moved actor s c = (s, if s = LocalBoardStateInProgress then (if c = [] then actor else c) else [])"

fun claim_spec :: "string \<Rightarrow> board_cmd \<Rightarrow> claim_view \<Rightarrow> claim_view \<Rightarrow> bool" where
  "claim_spec actor (CClaim i) v v' = (\<exists>s c. v i = Some (s, c) \<and>
     v' = v(i \<mapsto> (if s = LocalBoardStateDone then s else LocalBoardStateInProgress, actor)))"
| "claim_spec actor (CRelease i) v v' = (\<exists>s c. v i = Some (s, c) \<and> v' = v(i \<mapsto> (s, [])))"
| "claim_spec actor (CState i x) v v' =
     (\<exists>s c. v i = Some (s, c) \<and> v' = v(i \<mapsto> moved actor (localBoardStateFromIssueState x) c))"
| "claim_spec actor (CMove i x) v v' = (\<exists>s c. v i = Some (s, c) \<and> v' = v(i \<mapsto> moved actor x c))"
| "claim_spec actor (CAssign i a) v v' = (v i \<noteq> None \<and> v' = v)"
| "claim_spec actor (CEdit i f) v v' = (\<exists>q q'. v i = Some q \<and> v' = v(i \<mapsto> q') \<and> (fst q' = fst q \<or> fst q' \<in> set board_columns))"
| "claim_spec actor (CComment i a) v v' = (v i \<noteq> None \<and> v' = v)"
| "claim_spec actor (CCreate opts) v v' = (\<exists>i. v i = None \<and> v' = v(i \<mapsto> (LocalBoardStateTodo, [])))"
| "claim_spec actor CInit v v' = (v' = v)"

lemma board_view_cong: "bd_issues b = bd_issues b' \<Longrightarrow> board_view b = board_view b'"
  unfolding board_view_def using issue_at_cong by metis

lemma board_view_ensure [simp]: "board_view (snd (ensureBoardLocked t e b)) = board_view b"
  by (rule board_view_cong) simp

lemma board_view_with_doc [simp]: "board_view (with_doc b i x) = (board_view b)(i \<mapsto> (lb_State x, lb_ClaimedBy x))"
  by (auto simp: board_view_def fun_eq_iff)

lemma board_view_with_number [simp]: "board_view (with_number b m) = board_view b"
  by (simp add: board_view_def)

lemma edit_refines:
  assumes edit: "edit_of t e cmd = Some (issueID, f)" and adm: "admissible cmd b"
    and run: "board_exec enc_len t ctx e cmd b = (r, b')"
  shows "case r of Inr _ \<Rightarrow> claim_spec (lt_actor t) cmd (board_view b) (board_view b') | Inl _ \<Rightarrow> board_view b' = board_view b"
  using edit
proof (cases rule: exec_edit_cases [of t e cmd issueID f enc_len ctx b])
  case (error err b'')
  with run show ?thesis by auto
next
  case (written i i')
  have view: "board_view b issueID = Some (lb_State i, lb_ClaimedBy i)" using written(1) by (simp add: board_view_def)
  have "board_view b' = (board_view b)(issueID \<mapsto> (lb_State i', lb_ClaimedBy i'))" and r: "r = Inr ()"
    using written(3) run by auto
  moreover have "claim_spec (lt_actor t) cmd (board_view b) ((board_view b)(issueID \<mapsto> (lb_State i', lb_ClaimedBy i')))"
  proof (cases cmd)
    case (CEdit x g)
    then obtain y where "g i = Inr y" "i' = y\<lparr>lb_UpdatedAt := en_now e\<rparr>" "x = issueID"
      using edit written(2) by (cases "g i") auto
    with CEdit adm view show ?thesis by (auto simp: keeps_links_def)
  qed (use edit written(2) view in \<open>auto simp: move_to_def moved_def fun_upd_idem\<close>)
  ultimately show ?thesis by simp
qed

lemma link_parent_view:
  assumes "lb_ParentID i \<noteq> [] \<Longrightarrow> issue_at b (lb_ID p) = Some p"
  shows "board_view (snd (link_parent t e b i p)) = board_view b"
  using assms by (cases rule: link_parent_cases [of t e b i p]) (auto simp: board_view_def fun_eq_iff)

lemma new_issue_simps [simp]:
  "lb_ID (new_issue now issueID pid opts) = issueID" "lb_ParentID (new_issue now issueID pid opts) = pid"
  "lb_State (new_issue now issueID pid opts) = LocalBoardStateTodo" "lb_ClaimedBy (new_issue now issueID pid opts) = []"
  "lb_ChildIDs (new_issue now issueID pid opts) = []" "lb_CreatedAt (new_issue now issueID pid opts) = now"
  by (simp_all add: new_issue_def)

lemma create_refines:
  assumes inv: "board_inv b" and pfx: "good_prefix (lt_issuePrefix t)" and adm: "admissible (CCreate opts) b"
    and run: "CreateIssueWithOptions t ctx e b opts = (r, b')"
  shows "case r of Inr _ \<Rightarrow> claim_spec actor (CCreate opts) (board_view b) (board_view b')
           | Inl _ \<Rightarrow> board_view b' = board_view b \<or> claim_spec actor (CCreate opts) (board_view b) (board_view b')"
proof (cases rule: create_cases [of t ctx e b opts])
  case (error err b'')
  with run show ?thesis by auto
next
  case (number m p pid err)
  with run show ?thesis by auto
next
  case (created m p pid)
  let ?b = "snd (ensureBoardLocked t e b)" and ?i = "new_issue (en_now e) (issue_id m) pid opts"
  have same: "issue_at ?b = issue_at b" by (rule issue_at_cong) simp
  obtain m0 where m0: "lm_IssuePrefix m = lm_IssuePrefix m0" "lm_NextIssueNumber m = lm_NextIssueNumber m0" "1 \<le> lm_NextIssueNumber m"
    "\<And>issueID i. issue_at b issueID = Some i \<Longrightarrow> numbered m0 issueID"
    using ensured_ok [OF inv pfx created(1)] by metis
  have free: "issue_at b (issue_id m) = None" by (rule next_id_free [OF m0(4, 1, 2, 3)])
  have parent: "pid = [] \<or> issue_at b (lb_ID p) = Some p"
    using load_parent_ok [OF inv created(2)] adm by auto
  have b': "b' = snd (link_parent t e (with_doc (with_number ?b (bumped e m)) (issue_id m) ?i) ?i p)"
    using created(3) run by (metis snd_conv)
  have "board_view b' = board_view (with_doc (with_number ?b (bumped e m)) (issue_id m) ?i)"
    unfolding b' by (rule link_parent_view) (use parent free same in auto)
  then have "board_view b' = (board_view b)(issue_id m \<mapsto> (LocalBoardStateTodo, []))"
    by simp
  moreover have "board_view b (issue_id m) = None" using free by (simp add: board_view_def)
  ultimately show ?thesis by (cases r) auto
qed

text \<open>A simulation with stuttering: every run of the detailed steps is a run of the abstract ones.\<close>

locale simulation =
  fixes reach :: "'s \<Rightarrow> bool" and step :: "'s \<Rightarrow> 's \<Rightarrow> bool" and abs :: "'s \<Rightarrow> 'a" and spec :: "'a \<Rightarrow> 'a \<Rightarrow> bool"
  assumes reach_step: "reach s \<Longrightarrow> step s s' \<Longrightarrow> reach s'"
    and sim: "reach s \<Longrightarrow> step s s' \<Longrightarrow> abs s' = abs s \<or> spec (abs s) (abs s')"
begin

lemma run_refines: "step\<^sup>*\<^sup>* s s' \<Longrightarrow> reach s \<Longrightarrow> reach s' \<and> spec\<^sup>*\<^sup>* (abs s) (abs s')"
proof (induction rule: rtranclp_induct)
  case (step s' s'')
  then have "reach s'" and run: "spec\<^sup>*\<^sup>* (abs s) (abs s')" by auto
  then show ?case
    using reach_step [OF _ step.hyps(2)] sim [OF _ step.hyps(2)] by (metis rtranclp.rtrancl_into_rtrancl)
qed simp

end

definition board_step :: "(LocalBoardComment \<Rightarrow> nat) \<Rightarrow> board \<Rightarrow> board \<Rightarrow> bool" where
  "board_step enc_len b b' \<longleftrightarrow> (\<exists>t ctx e cmd. good_prefix (lt_issuePrefix t) \<and> admissible cmd b \<and>
     b' = snd (board_exec enc_len t ctx e cmd b))"

lemma exec_refines:
  assumes inv: "board_inv b" and pfx: "good_prefix (lt_issuePrefix t)" and adm: "admissible cmd b"
    and run: "board_exec enc_len t ctx e cmd b = (r, b')"
  shows "case r of
      Inr _ \<Rightarrow> claim_spec (lt_actor t) cmd (board_view b) (board_view b')
    | Inl _ \<Rightarrow> board_view b' = board_view b \<or>
        (\<exists>opts. cmd = CCreate opts) \<and> claim_spec (lt_actor t) cmd (board_view b) (board_view b')"
proof (cases "edit_of t e cmd")
  case (Some q)
  then show ?thesis using edit_refines [OF _ adm run, of "fst q" "snd q"] by (auto split: sum.splits)
next
  case None
  then consider x y where "cmd = CComment x y" | opts where "cmd = CCreate opts" | "cmd = CInit" by (cases cmd) auto
  then show ?thesis
  proof cases
    case (1 x y)
    let ?f = "\<lambda>_ b'. appendJSONLine enc_len t e b' x \<lparr>lk_Author = lt_actor t, lk_Body = y, lk_CreatedAt = en_now e\<rparr>"
    have view: "board_view (b\<lparr>bd_comments := c\<rparr>) = board_view b" for b c by (simp add: board_view_def)
    show ?thesis
      using 1 run
      by (cases rule: with_issue_cases [of t ctx e b x ?f])
         (auto simp: board_PostComment_def appendJSONLine_def Let_def view board_view_def [of b] split: option.splits)
  next
    case (2 opts)
    obtain r' where r': "CreateIssueWithOptions t ctx e b opts = (r', b')" "r = map_sum id (\<lambda>_. ()) r'"
      using run 2 by (cases "CreateIssueWithOptions t ctx e b opts") (auto simp: forget_def)
    show ?thesis
      using create_refines [OF inv pfx _ r'(1), of "lt_actor t"] adm r'(2) 2 by (cases r') auto
  next
    case 3
    with run show ?thesis by (cases ctx; cases r) (auto simp: InitBoard_def forget_def)
  qed
qed

interpretation board_claims: simulation "board_reach enc_len" "board_step enc_len" board_view
  "\<lambda>v v'. \<exists>actor cmd. claim_spec actor cmd v v'" for enc_len
proof
  show "board_reach enc_len b'" if "board_reach enc_len b" "board_step enc_len b b'" for b b'
    using that by (auto simp: board_step_def intro: board_reach.step)
  show "board_view b' = board_view b \<or> (\<exists>actor cmd. claim_spec actor cmd (board_view b) (board_view b'))"
    if reach: "board_reach enc_len b" and step: "board_step enc_len b b'" for b b'
  proof -
    obtain t ctx e cmd where pfx: "good_prefix (lt_issuePrefix t)" and adm: "admissible cmd b" and b': "b' = snd (board_exec enc_len t ctx e cmd b)"
      using step by (auto simp: board_step_def)
    obtain r where "board_exec enc_len t ctx e cmd b = (r, b')" using b' by (metis prod.collapse)
    from exec_refines [OF reach_inv [OF reach] pfx adm this] show ?thesis by (cases r) auto
  qed
qed

lemma reach_steps: "board_reach enc_len b \<Longrightarrow> (board_step enc_len)\<^sup>*\<^sup>* empty_board b"
proof (induction rule: board_reach.induct)
  case (step b t cmd ctx e)
  then have "board_step enc_len b (snd (board_exec enc_len t ctx e cmd b))" unfolding board_step_def by blast
  with step.IH show ?case by (rule rtranclp.rtrancl_into_rtrancl)
qed simp


section \<open>Samples\<close>

definition sample_tracker :: LocalTracker where
  "sample_tracker = \<lparr>lt_boardDir = ''board'', lt_issuePrefix = ''CB'', lt_actor = ''ann''\<rparr>"

definition sample_opts :: LocalIssueCreateOptions where
  "sample_opts = \<lparr>lo_Title = ''T'', lo_Description = [], lo_ParentID = [], lo_Assignee = [], lo_Labels = [],
     lo_BlockedBy = [], lo_TrackerMeta = []\<rparr>"

definition sample_board :: board where
  "sample_board = snd (CreateIssueWithOptions sample_tracker None (quiet_env 5 []) empty_board sample_opts)"

definition sample_doc :: LocalBoardIssue where
  "sample_doc = new_issue 5 ''CB-1'' [] sample_opts"

lemma sample_prefix: "good_prefix (lt_issuePrefix sample_tracker)"
  by (simp add: good_prefix_def sample_tracker_def keep_alnum_def)

lemma sample_create: "CreateIssueWithOptions sample_tracker None (quiet_env 5 []) empty_board sample_opts =
   (Inr sample_doc, \<lparr>bd_manifest = Some (Doc \<lparr>lm_SchemaVersion = ''1'', lm_IssuePrefix = ''CB'', lm_NextIssueNumber = 2,
      lm_CreatedAt = 5, lm_UpdatedAt = 5\<rparr>), bd_issues = [(''CB-1.json'', Doc sample_doc)], bd_comments = []\<rparr>)"
proof -
  have id: "issue_id (first_manifest sample_tracker 5) = ''CB-1''"
    by (simp add: issue_id_def first_manifest_def sample_tracker_def fmt_int_def nat_digits.simps) code_simp
  have w: "wrap64 2 = 2" by (simp add: wrap64_def)
  have ens: "ensureBoardLocked sample_tracker (quiet_env 5 []) empty_board =
      (Inr (first_manifest sample_tracker 5), empty_board\<lparr>bd_manifest := Some (Doc (first_manifest sample_tracker 5))\<rparr>)"
    by (simp add: ensureBoardLocked_def empty_board_def readJSONFile_def write_manifest_def writeJSONAtomic_def first_manifest_def Let_def)
  show ?thesis
    unfolding CreateIssueWithOptions_def ens
    by (simp add: id load_parent_def sample_opts_def trim_space_def write_manifest_def write_issue_def writeJSONAtomic_def
        Let_def empty_board_def link_parent_def new_issue_def issue_file_def sample_doc_def)
       (simp add: first_manifest_def sample_tracker_def w)
qed

lemma sample_board_eq: "sample_board = \<lparr>bd_manifest = Some (Doc \<lparr>lm_SchemaVersion = ''1'', lm_IssuePrefix = ''CB'', lm_NextIssueNumber = 2,
      lm_CreatedAt = 5, lm_UpdatedAt = 5\<rparr>), bd_issues = [(''CB-1.json'', Doc sample_doc)], bd_comments = []\<rparr>"
  by (simp add: sample_board_def sample_create)

lemma sample_board_issue: "issue_at sample_board ''CB-1'' = Some sample_doc"
  by (simp add: sample_board_eq issue_at_def issue_file_def)

lemma sample_board_reach: "board_reach enc_len sample_board"
proof -
  have "board_reach enc_len (snd (board_exec enc_len sample_tracker None (quiet_env 5 []) (CCreate sample_opts) empty_board))"
    by (rule board_reach.step [OF board_reach.start sample_prefix])
       (simp add: sample_opts_def counter_room_def empty_board_def)
  then show ?thesis by (simp add: sample_board_def forget_def)
qed

lemma sample_usable: "usable sample_tracker (quiet_env now rnd) sample_board"
  by (simp add: usable_def sample_board_eq)



section \<open>Creation\<close>

definition faultless :: "env \<Rightarrow> bool" where
  "faultless e \<longleftrightarrow> en_wfault e = (\<lambda>_. None) \<and> en_statfault e = (\<lambda>_. None) \<and> en_dirfault e = None"

lemma faultless_quiet [simp]: "faultless (quiet_env now rnd)"
  by (simp add: faultless_def)

lemma inv_usable: "board_inv b \<Longrightarrow> faultless e \<Longrightarrow> usable t e b"
  by (auto simp: board_inv_def manifest_ok_def usable_def faultless_def split: option.splits node.splits)

lemma inv_no_dir: "board_inv b \<Longrightarrow> map_of (bd_issues b) n \<noteq> Some SubDir"
  by (auto simp: board_inv_def)

lemma load_children_ok:
  "(\<And>c. c \<in> set cs \<Longrightarrow> issue_at b c \<noteq> None) \<Longrightarrow> load_children t b cs = Inr (map (\<lambda>c. the (issue_at b c)) cs)"
proof (induction cs)
  case (Cons c cs)
  then obtain i where "issue_at b c = Some i" by (meson list.set_intros(1) not_None_eq)
  with Cons show ?case by simp
qed simp

lemma ListChildIssues_ok:
  assumes inv: "board_inv b" and "usable t e b" and at: "issue_at b issueID = Some i"
  shows "fst (ListChildIssues t None e b issueID) = Inr (map (\<lambda>c. the (issue_at b c)) (lb_ChildIDs i))"
proof -
  have same: "issue_at (snd (ensureBoardLocked t e b)) = issue_at b" by (rule issue_at_cong) simp
  have "issue_at (snd (ensureBoardLocked t e b)) c \<noteq> None" if "c \<in> set (lb_ChildIDs i)" for c
    using children_other [OF inv at that] same by auto
  then show ?thesis
    by (simp add: ListChildIssues_def with_issue_ok [OF assms(2, 3)] load_children_ok same)
qed

lemma GetIssue_ok: "usable t e b \<Longrightarrow> issue_at b issueID = Some i \<Longrightarrow> GetIssue t None e b issueID = (Inr i, snd (ensureBoardLocked t e b))"
  by (simp add: GetIssue_def with_issue_ok)

lemma create_ok:
  assumes inv: "board_inv b" and pfx: "good_prefix (lt_issuePrefix t)" and e: "faultless e"
    and m: "ensureBoardLocked t e b = (Inr m, b1)" and p: "load_parent t b (lo_ParentID opts) = Inr (p, pid)"
    and parent: "pid = [] \<or> issue_at b pid = Some p \<and> lb_ID p = pid" and free: "issue_at b (issue_id m) = None"
    and child: "pid \<noteq> [] \<Longrightarrow> issue_id m \<notin> set (lb_ChildIDs p)"
  shows "CreateIssueWithOptions t None e b opts = (Inr (new_issue (en_now e) (issue_id m) pid opts),
     (let b2 = with_doc (with_number b1 (bumped e m)) (issue_id m) (new_issue (en_now e) (issue_id m) pid opts)
      in if pid = [] then b2
         else with_doc b2 pid (p\<lparr>lb_ChildIDs := lb_ChildIDs p @ [issue_id m], lb_UpdatedAt := en_now e\<rparr>)))"
proof -
  let ?i = "new_issue (en_now e) (issue_id m) pid opts"
  have b1: "b1 = snd (ensureBoardLocked t e b)" using m by simp
  then have inv1: "board_inv b1" and iss: "bd_issues b1 = bd_issues b" using inv_ensure [OF inv pfx] by simp_all
  have w: "write_issue t e b' x i = (Inr (), with_doc b' x i)" if "map_of (bd_issues b') (issue_file x) \<noteq> Some SubDir" for b' x i
    using e that by (intro write_issue_ok) (auto simp: faultless_def)
  have dir: "map_of (bd_issues b1) n \<noteq> Some SubDir" for n using inv_no_dir [OF inv1] .
  have wm: "write_manifest t e b1 (bumped e m) = (Inr (), with_number b1 (bumped e m))"
    using e inv1 by (auto simp: write_manifest_def writeJSONAtomic_def faultless_def with_number_def board_inv_def manifest_ok_def
        split: option.splits node.splits)
  have same: "load_parent t b1 = load_parent t b"
    by (simp add: load_parent_def loadIssueLocked_def iss fun_eq_iff)
  have "CreateIssueWithOptions t None e b opts =
      link_parent t e (with_doc (with_number b1 (bumped e m)) (issue_id m) ?i) ?i p"
    using m p same wm dir by (simp add: CreateIssueWithOptions_def bumped_def [symmetric] w Let_def)
  also have "\<dots> = (Inr ?i, (let b2 = with_doc (with_number b1 (bumped e m)) (issue_id m) ?i
      in if pid = [] then b2
         else with_doc b2 pid (p\<lparr>lb_ChildIDs := lb_ChildIDs p @ [issue_id m], lb_UpdatedAt := en_now e\<rparr>)))"
    using parent child dir by (auto simp: link_parent_def w Let_def with_doc_def)
  finally show ?thesis .
qed

lemma parent_of_options:
  assumes inv: "board_inv b"
    and "pid0 = [] \<or> trim_space pid0 \<noteq> [] \<and> issue_at b (trim_space pid0) \<noteq> None"
  shows "\<exists>p. load_parent t b pid0 = Inr (p, trim_space pid0) \<and>
    (trim_space pid0 \<noteq> [] \<longrightarrow> issue_at b (trim_space pid0) = Some p \<and> lb_ID p = trim_space pid0)"
proof (cases "trim_space pid0 = []")
  case True
  with assms(2) show ?thesis by (simp add: load_parent_def)
next
  case False
  with assms(2) obtain p where at: "issue_at b (trim_space pid0) = Some p" by (auto simp: trim_space_def)
  with inv have "lb_ID p = trim_space pid0" by (auto simp: board_inv_def issue_ok_def)
  with at False show ?thesis by (simp add: load_parent_def)
qed

text \<open>The listing of the children after a new child was linked to its parent.\<close>

lemma children_extended:
  assumes inv: "board_inv b" and inv': "board_inv b'" and use: "usable t e b" "usable t e b'"
    and old: "issue_at b pid = Some p" and free: "issue_at b k = None"
    and at: "issue_at b' = ((issue_at b)(pid \<mapsto> p\<lparr>lb_ChildIDs := lb_ChildIDs p @ [k], lb_UpdatedAt := now\<rparr>))(k \<mapsto> i)"
  shows "fst (ListChildIssues t None e b pid) = Inr (map (\<lambda>c. the (issue_at b c)) (lb_ChildIDs p)) \<and>
      fst (ListChildIssues t None e b' pid) = Inr (map (\<lambda>c. the (issue_at b c)) (lb_ChildIDs p) @ [i])"
proof -
  from old free have ne: "pid \<noteq> k" by auto
  then have new: "issue_at b' pid = Some (p\<lparr>lb_ChildIDs := lb_ChildIDs p @ [k], lb_UpdatedAt := now\<rparr>)"
    using at by simp
  have "k \<notin> set (lb_ChildIDs p)" using children_other [OF inv old] free by fastforce
  then have "issue_at b' c = issue_at b c" if "c \<in> set (lb_ChildIDs p)" for c
    using children_other [OF inv old that] at that by auto
  then show ?thesis
    using ListChildIssues_ok [OF inv use(1) old] ListChildIssues_ok [OF inv' use(2) new] at by simp
qed

text \<open>
  Without faults, on a board in use, creating an issue (with an existing parent, or none) gives a new
  issue in the todo column under an id that no issue had; it can be read back, no other issue but the
  parent changes, and the children of the parent are those it had, in order, and the new issue.
\<close>

theorem CreateIssue_fresh:
  assumes "board_reach enc_len b" and "good_prefix (lt_issuePrefix t)" and "faultless e" and "counter_room b"
    and "lo_ParentID opts = [] \<or> trim_space (lo_ParentID opts) \<noteq> [] \<and> issue_at b (trim_space (lo_ParentID opts)) \<noteq> None"
  shows "\<exists>i b'. CreateIssueWithOptions t None e b opts = (Inr i, b') \<and> issue_at b (lb_ID i) = None \<and>
    GetIssue t None e b' (lb_ID i) = (Inr i, b') \<and> lb_State i = LocalBoardStateTodo \<and> lb_ClaimedBy i = [] \<and>
    lb_ParentID i = trim_space (lo_ParentID opts) \<and>
    (\<forall>x. x \<noteq> lb_ID i \<longrightarrow> x \<noteq> trim_space (lo_ParentID opts) \<longrightarrow> issue_at b' x = issue_at b x) \<and>
    (lo_ParentID opts \<noteq> [] \<longrightarrow>
       (\<exists>cs. fst (ListChildIssues t None e b (trim_space (lo_ParentID opts))) = Inr cs \<and>
             fst (ListChildIssues t None e b' (trim_space (lo_ParentID opts))) = Inr (cs @ [i])))"
proof -
  let ?pid = "trim_space (lo_ParentID opts)" and ?b1 = "snd (ensureBoardLocked t e b)"
  have inv: "board_inv b" by (rule reach_inv [OF assms(1)])
  obtain m where m: "ensureBoardLocked t e b = (Inr m, ?b1)"
    using ensureBoardLocked_usable [OF inv_usable [OF inv assms(3)]] by blast
  obtain m0 where m0: "lm_IssuePrefix m = lm_IssuePrefix m0" "lm_NextIssueNumber m = lm_NextIssueNumber m0" "1 \<le> lm_NextIssueNumber m"
    "\<And>issueID i. issue_at b issueID = Some i \<Longrightarrow> numbered m0 issueID"
    using ensured_ok [OF inv assms(2) m] by metis
  have free: "issue_at b (issue_id m) = None" by (rule next_id_free [OF m0(4, 1, 2, 3)])
  have blank: "lo_ParentID opts = [] \<longleftrightarrow> ?pid = []" using assms(5) by (auto simp: trim_space_def)
  obtain p where p: "load_parent t b (lo_ParentID opts) = Inr (p, ?pid)" "?pid \<noteq> [] \<Longrightarrow> issue_at b ?pid = Some p \<and> lb_ID p = ?pid"
    using parent_of_options [OF inv assms(5), of t] by blast
  have child: "issue_id m \<notin> set (lb_ChildIDs p)" if "?pid \<noteq> []"
    using children_other [OF inv, of ?pid p] p(2) [OF that] free by fastforce
  let ?i = "new_issue (en_now e) (issue_id m) ?pid opts"
  define b' where "b' = (let b2 = with_doc (with_number ?b1 (bumped e m)) (issue_id m) ?i
      in if ?pid = [] then b2 else with_doc b2 ?pid (p\<lparr>lb_ChildIDs := lb_ChildIDs p @ [issue_id m], lb_UpdatedAt := en_now e\<rparr>))"
  have run: "CreateIssueWithOptions t None e b opts = (Inr ?i, b')"
    unfolding b'_def using create_ok [OF inv assms(2, 3) m p(1) _ free] p(2) child by blast
  have inv': "board_inv b'"
    using inv_create [OF inv assms(2), of opts None e] run assms(4, 5) by auto
  have same: "issue_at ?b1 = issue_at b" by (rule issue_at_cong) simp
  have at: "issue_at b' = (if ?pid = [] then issue_at b else (issue_at b)(?pid \<mapsto>
      p\<lparr>lb_ChildIDs := lb_ChildIDs p @ [issue_id m], lb_UpdatedAt := en_now e\<rparr>))(issue_id m \<mapsto> ?i)"
    using p(2) free same by (auto simp: b'_def Let_def fun_eq_iff)
  have use: "usable t e b'" and use0: "usable t e b" using inv_usable inv' inv assms(3) by auto
  have "bd_manifest b' \<noteq> None" by (simp add: b'_def Let_def)
  then have ens: "snd (ensureBoardLocked t e b') = b'"
    by (cases rule: ensureBoardLocked_cases [of t e b']) auto
  have get: "GetIssue t None e b' (issue_id m) = (Inr ?i, b')"
    using GetIssue_ok [OF use, of "issue_id m" ?i] at ens by simp
  have children: "fst (ListChildIssues t None e b ?pid) = Inr (map (\<lambda>c. the (issue_at b c)) (lb_ChildIDs p)) \<and>
      fst (ListChildIssues t None e b' ?pid) = Inr (map (\<lambda>c. the (issue_at b c)) (lb_ChildIDs p) @ [?i])" if ne: "?pid \<noteq> []"
    using children_extended [OF inv inv' use0 use _ free at [unfolded if_not_P [OF ne]]] p(2) [OF ne] by simp
  show ?thesis
    using run free get children blank at by (intro exI [of _ ?i] exI [of _ b']) auto
qed

theorem CreateIssue_fresh_witness:
  "\<exists>i b'. CreateIssueWithOptions sample_tracker None (quiet_env 7 []) sample_board (sample_opts\<lparr>lo_ParentID := ''CB-1''\<rparr>) = (Inr i, b') \<and>
     issue_at sample_board (lb_ID i) = None \<and> lb_ParentID i = ''CB-1'' \<and>
     (\<exists>cs. fst (ListChildIssues sample_tracker None (quiet_env 7 []) b' ''CB-1'') = Inr (cs @ [i]))"
proof -
  have pid: "trim_space ''CB-1'' = ''CB-1''" by code_simp
  have room: "counter_room sample_board" by (simp add: counter_room_def sample_board_eq)
  show ?thesis
    using CreateIssue_fresh [OF sample_board_reach [of "\<lambda>_. 0"] sample_prefix faultless_quiet room,
        of "sample_opts\<lparr>lo_ParentID := ''CB-1''\<rparr>" 7 "[]"] sample_board_issue
    by (auto simp: pid)
qed

section \<open>Listing\<close>

lemma nat_digits_no_slash: "CHR ''/'' \<notin> set (nat_digits n)"
proof (induction n rule: nat_digits.induct)
  case (1 n)
  have "CHR ''/'' \<noteq> char_of (48 + d)" if "d < 10" for d :: nat
  proof
    assume "CHR ''/'' = char_of (48 + d)"
    then have "(of_char CHR ''/'' :: nat) = of_char (char_of (48 + d) :: char)" by simp
    with that show False by (simp only: digit_char) simp
  qed
  with 1 show ?case by (subst nat_digits.simps) auto
qed

lemma numbered_no_slash: "numbered m issueID \<Longrightarrow> good_prefix (lm_IssuePrefix m) \<Longrightarrow> CHR ''/'' \<notin> set (issue_file issueID)"
proof -
  assume num: "numbered m issueID" and pfx: "good_prefix (lm_IssuePrefix m)"
  have "\<not> keep_alnum CHR ''/''" by (simp add: keep_alnum_def)
  then have "CHR ''/'' \<notin> set (lm_IssuePrefix m)" using pfx by (auto simp: good_prefix_def list_all_iff)
  then show ?thesis using num nat_digits_no_slash by (auto simp: numbered_def issue_file_def fmt_int_def)
qed

fun docs :: "'a node fdir \<Rightarrow> 'a list" where
  "docs [] = []"
| "docs ((n, Doc i) # d) = i # docs d"
| "docs (_ # d) = docs d"

lemma set_docs: "i \<in> set (docs d) \<longleftrightarrow> (\<exists>n. (n, Doc i) \<in> set d)"
  by (induction d rule: docs.induct) auto

definition board_docs :: "board \<Rightarrow> LocalBoardIssue list" where
  "board_docs b = docs (bd_issues b)"

lemma issue_at_Some: "issue_at b x = Some i \<longleftrightarrow> map_of (bd_issues b) (issue_file x) = Some (Doc i)"
  by (auto simp: issue_at_def split: option.splits node.splits)

text \<open>What listing needs: every file is an issue, under a name that is listed.\<close>

definition listable :: "board \<Rightarrow> bool" where
  "listable b \<longleftrightarrow> wf_dir (bd_issues b) \<and> (bd_manifest b = None \<or> (\<exists>m. bd_manifest b = Some (Doc m))) \<and>
     list_all (\<lambda>(n, v). (\<exists>i. v = Doc i) \<and> has_suffix n ''.json'' \<and> CHR ''/'' \<notin> set n) (bd_issues b)"

lemma inv_listable: assumes inv: "board_inv b" shows "listable b"
proof -
  have "(\<exists>i. v = Doc i) \<and> has_suffix n ''.json'' \<and> CHR ''/'' \<notin> set n" if "(n, v) \<in> set (bd_issues b)" for n v
  proof -
    from that inv have "map_of (bd_issues b) n = Some v" by (simp add: board_inv_def wf_dir_lookup)
    then obtain i where v: "v = Doc i" and n: "n = issue_file (lb_ID i)" using inv by (auto simp: board_inv_def)
    then have at: "issue_at b (lb_ID i) = Some i" using \<open>map_of _ n = Some v\<close> by (simp add: issue_at_def)
    then obtain m where "bd_manifest b = Some (Doc m)" using inv_has_manifest [OF inv] by blast
    then have "CHR ''/'' \<notin> set n"
      using inv at n numbered_no_slash by (auto simp: board_inv_def manifest_ok_def)
    with v n show ?thesis by (simp add: issue_file_def)
  qed
  then show ?thesis using inv
    by (auto simp: listable_def list_all_iff board_inv_def manifest_ok_def split: option.splits node.splits)
qed

lemma listable_files: "listable b \<Longrightarrow> json_files (bd_issues b) = map fst (bd_issues b)"
proof -
  have "[n. (n, v) \<leftarrow> d, v \<noteq> SubDir \<and> has_suffix n ''.json'' \<and> CHR ''/'' \<notin> set n] = map fst d"
    if "\<And>n v. (n, v) \<in> set d \<Longrightarrow> v \<noteq> SubDir \<and> has_suffix n ''.json'' \<and> CHR ''/'' \<notin> set n" for d :: "'a node fdir"
    using that by (induction d) fastforce+
  then show "listable b \<Longrightarrow> ?thesis" unfolding json_files_def by (auto simp: listable_def list_all_iff)
qed

lemma map_of_all_docs: "board_inv b \<Longrightarrow> (n, v) \<in> set (bd_issues b) \<Longrightarrow> \<exists>i. v = Doc i \<and> map_of (bd_issues b) n = Some (Doc i) \<and> n = issue_file (lb_ID i)"
  by (auto simp: board_inv_def wf_dir_lookup)

lemma read_issues_docs:
  "(\<And>n v. (n, v) \<in> set d \<Longrightarrow> \<exists>i. v = Doc i \<and> map_of (bd_issues b) n = Some (Doc i)) \<Longrightarrow>
   read_issues t b incl (map fst d) = Inr (filter (\<lambda>i. incl \<or> lb_State i \<noteq> LocalBoardStateDone) (docs d))"
proof (induction d)
  case (Cons q d)
  obtain n i where q: "q = (n, Doc i)" and m: "map_of (bd_issues b) n = Some (Doc i)"
    using Cons.prems [of "fst q" "snd q"] by (cases q) auto
  have "read_issues t b incl (map fst d) = Inr (filter (\<lambda>i. incl \<or> lb_State i \<noteq> LocalBoardStateDone) (docs d))"
    using Cons.IH Cons.prems by simp
  with q m show ?case by (auto simp: readJSONFile_def)
qed simp

lemma set_board_docs: "board_inv b \<Longrightarrow> set (board_docs b) = {i. \<exists>x. issue_at b x = Some i}"
proof (intro set_eqI iffI)
  fix i assume inv: "board_inv b"
  { assume "i \<in> set (board_docs b)"
    then obtain n where "(n, Doc i) \<in> set (bd_issues b)" by (auto simp: board_docs_def set_docs)
    then have "issue_at b (lb_ID i) = Some i"
      using map_of_all_docs [OF inv, of n "Doc i"] by (auto simp: issue_at_def)
    then show "i \<in> {i. \<exists>x. issue_at b x = Some i}" by blast }
  { assume "i \<in> {i. \<exists>x. issue_at b x = Some i}"
    then obtain n where "map_of (bd_issues b) n = Some (Doc i)"
      by (auto simp: issue_at_Some)
    then have "(n, Doc i) \<in> set (bd_issues b)" by (rule map_of_SomeD)
    then show "i \<in> set (board_docs b)" by (auto simp: board_docs_def set_docs) }
qed

lemma distinct_board_docs:
  assumes inv: "board_inv b" shows "distinct (map lb_ID (board_docs b))"
proof -
  have "map (\<lambda>i. issue_file (lb_ID i)) (docs d) = map fst d"
    if "\<And>n v. (n, v) \<in> set d \<Longrightarrow> \<exists>i. v = Doc i \<and> n = issue_file (lb_ID i)" for d :: "LocalBoardIssue node fdir"
    using that
  proof (induction d)
    case (Cons q d)
    obtain n v where q: "q = (n, v)" by (cases q)
    then obtain i where "v = Doc i" "n = issue_file (lb_ID i)" using Cons.prems [of n v] by auto
    with Cons q show ?case by simp
  qed simp
  then have "map issue_file (map lb_ID (board_docs b)) = map fst (bd_issues b)"
    using map_of_all_docs [OF inv] unfolding board_docs_def map_map comp_def by blast
  then have "distinct (map issue_file (map lb_ID (board_docs b)))"
    using inv by (simp add: board_inv_def wf_dir_distinct)
  then show ?thesis by (simp only: distinct_map [of issue_file])
qed

text \<open>The listing: all issues, or the open ones, by creation time and id.\<close>

lemma ListIssues_ok:
  assumes b: "listable b" and e: "faultless e"
  shows "ListIssues t None e b incl =
    (Inr (sort_key issue_key (filter (\<lambda>i. incl \<or> lb_State i \<noteq> LocalBoardStateDone) (board_docs b))), snd (ensureBoardLocked t e b))"
proof -
  let ?b = "snd (ensureBoardLocked t e b)"
  have "usable t e b" using b e by (auto simp: listable_def usable_def faultless_def)
  then obtain m where m: "ensureBoardLocked t e b = (Inr m, ?b)" using ensureBoardLocked_usable by blast
  have "\<exists>i. v = Doc i \<and> map_of (bd_issues b) n = Some (Doc i)" if "(n, v) \<in> set (bd_issues b)" for n v
  proof -
    have "map_of (bd_issues b) n = Some v" using b that by (simp add: listable_def wf_dir_lookup)
    moreover have "\<exists>i. v = Doc i" using b that by (auto simp: listable_def list_all_iff)
    ultimately show ?thesis by blast
  qed
  then have "read_issues t ?b incl (map fst (bd_issues ?b)) =
      Inr (filter (\<lambda>i. incl \<or> lb_State i \<noteq> LocalBoardStateDone) (board_docs b))"
    unfolding board_docs_def ensureBoardLocked_keeps(1) [of t e b] by (intro read_issues_docs) simp
  then show ?thesis
    unfolding ListIssues_def using e listable_files [OF b] by (subst m) (simp add: faultless_def)
qed

section \<open>Dispatch\<close>

definition column :: "board \<Rightarrow> string \<Rightarrow> LocalBoardState option" where
  "column b x = map_option lb_State (issue_at b x)"

text \<open>An issue that may be handed to a team.\<close>

definition team_ready :: "board \<Rightarrow> string \<Rightarrow> LocalBoardIssue \<Rightarrow> bool" where
  "team_ready b team i \<longleftrightarrow> lb_ClaimedBy i = [] \<and> lb_State i \<in> {LocalBoardStateTodo, LocalBoardStateRetry} \<and>
     (lb_ParentID i = [] \<or> column b (lb_ParentID i) = Some LocalBoardStateDone) \<and>
     list_all (\<lambda>x. column b x = Some LocalBoardStateDone) (lb_BlockedBy i) \<and>
     (team = [] \<or> issueMatchesTeam i team)"

lemma blocked_loop_ok:
  assumes use: "usable t e b" and ens: "snd (ensureBoardLocked t e b) = b"
  shows "list_all (\<lambda>x. issue_at b x \<noteq> None) xs \<Longrightarrow>
    blocked_loop t None e b xs = (Inr (\<not> list_all (\<lambda>x. column b x = Some LocalBoardStateDone) xs), b)"
proof (induction xs)
  case (Cons x xs)
  then obtain i where "issue_at b x = Some i" by auto
  with Cons GetIssue_ok [OF use, of x i] ens show ?case by (auto simp: column_def)
qed simp

lemma parent_open_ok:
  assumes use: "usable t e b" and ens: "snd (ensureBoardLocked t e b) = b" and "lb_ParentID i = [] \<or> issue_at b (lb_ParentID i) \<noteq> None"
  shows "parent_open t None e b i = (Inr (\<not> (lb_ParentID i = [] \<or> column b (lb_ParentID i) = Some LocalBoardStateDone)), b)"
proof (cases "lb_ParentID i = []")
  case True
  then show ?thesis by (simp add: parent_open_def)
next
  case False
  with assms(3) obtain p where "issue_at b (lb_ParentID i) = Some p" by auto
  with False GetIssue_ok [OF use] ens show ?thesis by (simp add: parent_open_def column_def)
qed

lemma find_loop_ok:
  assumes use: "usable t e b" and ens: "snd (ensureBoardLocked t e b) = b"
  shows "list_all (\<lambda>i. (lb_ParentID i = [] \<or> issue_at b (lb_ParentID i) \<noteq> None) \<and> list_all (\<lambda>x. issue_at b x \<noteq> None) (lb_BlockedBy i)) issues
    \<Longrightarrow> find_loop t None e team b issues = (Inr (find (team_ready b team) issues), b)"
proof (induction issues)
  case (Cons i issues)
  note parent = parent_open_ok [OF use ens, of i] and blocked = blocked_loop_ok [OF use ens, of "lb_BlockedBy i"]
  from Cons.prems have P: "parent_open t None e b i = (Inr (\<not> (lb_ParentID i = [] \<or> column b (lb_ParentID i) = Some LocalBoardStateDone)), b)"
    and B: "blocked_loop t None e b (lb_BlockedBy i) = (Inr (\<not> list_all (\<lambda>x. column b x = Some LocalBoardStateDone) (lb_BlockedBy i)), b)"
    using parent blocked by auto
  have IH: "find_loop t None e team b issues = (Inr (find (team_ready b team) issues), b)"
    using Cons by simp
  show ?case
    by (cases "lb_ParentID i = [] \<or> column b (lb_ParentID i) = Some LocalBoardStateDone";
        cases "list_all (\<lambda>x. column b x = Some LocalBoardStateDone) (lb_BlockedBy i)")
       (simp_all add: P B IH team_ready_def [of b team i])
qed simp

definition open_issues :: "board \<Rightarrow> LocalBoardIssue list" where
  "open_issues b = sort_key issue_key (filter (\<lambda>i. False \<or> lb_State i \<noteq> LocalBoardStateDone) (board_docs b))"

definition blockers_known :: "board \<Rightarrow> bool" where
  "blockers_known b \<longleftrightarrow> (\<forall>x i. issue_at b x = Some i \<longrightarrow> list_all (\<lambda>y. issue_at b y \<noteq> None) (lb_BlockedBy i))"

lemma open_issues:
  assumes "board_inv b"
  shows "set (open_issues b) = {i. \<exists>x. issue_at b x = Some i \<and> lb_State i \<noteq> LocalBoardStateDone}"
    and "distinct (map lb_ID (open_issues b))" and "sorted (map issue_key (open_issues b))"
  using set_board_docs [OF assms] distinct_board_docs [OF assms]
  by (auto simp: open_issues_def distinct_map inj_on_def)

lemma FindDispatchableIssue_ok:
  assumes inv: "board_inv b" and e: "faultless e" and known: "blockers_known b"
  shows "FindDispatchableIssue t None e b teamName =
    (Inr (find (team_ready b (trim_space teamName)) (open_issues b)), snd (ensureBoardLocked t e b))"
proof -
  let ?b = "snd (ensureBoardLocked t e b)"
  have use: "usable t e b" by (rule inv_usable [OF inv e])
  have same: "issue_at ?b = issue_at b" by (rule issue_at_cong) simp
  have "list_all (\<lambda>i. (lb_ParentID i = [] \<or> issue_at ?b (lb_ParentID i) \<noteq> None) \<and>
      list_all (\<lambda>x. issue_at ?b x \<noteq> None) (lb_BlockedBy i)) (open_issues b)"
    unfolding list_all_iff same
  proof
    fix i assume "i \<in> set (open_issues b)"
    then obtain x where at: "issue_at b x = Some i" using open_issues(1) [OF inv] by auto
    with inv have "issue_ok b x i" by (simp add: board_inv_def)
    with at known show "(lb_ParentID i = [] \<or> issue_at b (lb_ParentID i) \<noteq> None) \<and> (\<forall>x\<in>set (lb_BlockedBy i). issue_at b x \<noteq> None)"
      by (auto simp: issue_ok_def list_all_iff blockers_known_def)
  qed
  then have "find_loop t None e (trim_space teamName) ?b (open_issues b) =
      (Inr (find (team_ready ?b (trim_space teamName)) (open_issues b)), ?b)"
    by (rule find_loop_ok [OF usable_ensured [OF use] usable_again [OF use]])
  moreover have "team_ready ?b = team_ready b" by (simp add: team_ready_def column_def same fun_eq_iff)
  ultimately show ?thesis
    by (simp add: FindDispatchableIssue_def ListIssues_ok [OF inv_listable [OF inv] e] open_issues_def)
qed

text \<open>
  Without faults, and when every issue a listed issue is blocked by exists, \<open>FindDispatchableIssue\<close>
  answers the first issue, in the order of creation and id, that is open and unclaimed, in todo or
  retry, with its parent and all its blockers done, and assigned to the team or to nobody; it answers
  none exactly when there is no such issue.
\<close>

theorem FindDispatchableIssue_first:
  assumes "board_reach enc_len b" and "faultless e"
    and "\<forall>x i. issue_at b x = Some i \<longrightarrow> list_all (\<lambda>y. issue_at b y \<noteq> None) (lb_BlockedBy i)"
  shows "\<exists>issues b'. set issues = {i. \<exists>x. issue_at b x = Some i \<and> lb_State i \<noteq> LocalBoardStateDone} \<and>
    distinct (map lb_ID issues) \<and> sorted (map issue_key issues) \<and>
    FindDispatchableIssue t None e b teamName = (Inr (find (team_ready b (trim_space teamName)) issues), b') \<and>
    bd_issues b' = bd_issues b"
proof -
  have inv: "board_inv b" by (rule reach_inv [OF assms(1)])
  show ?thesis
    using open_issues [OF inv] FindDispatchableIssue_ok [OF inv assms(2), of t teamName] assms(3)
    by (intro exI [of _ "open_issues b"] exI [of _ "snd (ensureBoardLocked t e b)"]) (simp add: blockers_known_def)
qed

text \<open>The sample board's only issue is the one to dispatch.\<close>

theorem FindDispatchableIssue_first_witness:
  "fst (FindDispatchableIssue sample_tracker None (quiet_env 9 []) sample_board []) = Inr (Some sample_doc)"
proof -
  have at: "issue_at sample_board x = Some i \<longleftrightarrow> x = ''CB-1'' \<and> i = sample_doc" for x i
    using sample_board_issue by (auto simp: sample_board_eq issue_at_def issue_file_def split: if_splits)
  have dep: "\<forall>x i. issue_at sample_board x = Some i \<longrightarrow> list_all (\<lambda>y. issue_at sample_board y \<noteq> None) (lb_BlockedBy i)"
    by (simp add: at sample_doc_def sample_opts_def new_issue_def)
  obtain issues b' where set: "set issues = {i. \<exists>x. issue_at sample_board x = Some i \<and> lb_State i \<noteq> LocalBoardStateDone}"
    and find: "FindDispatchableIssue sample_tracker None (quiet_env 9 []) sample_board [] =
      (Inr (find (team_ready sample_board (trim_space [])) issues), b')"
    using FindDispatchableIssue_first [OF sample_board_reach [of "\<lambda>_. 0"] faultless_quiet dep, of sample_tracker 9 "[]" "[]"]
    by (elim exE conjE) (rule that; assumption)
  have "lb_State sample_doc \<noteq> LocalBoardStateDone" by (simp add: sample_doc_def board_states)
  with set have "set issues = {sample_doc}" by (auto simp: at)
  moreover have "team_ready sample_board (trim_space []) sample_doc"
    by (simp add: team_ready_def sample_doc_def sample_opts_def new_issue_def trim_space_def)
  ultimately have "find (team_ready sample_board (trim_space [])) issues = Some sample_doc"
    by (cases issues) auto
  with find show ?thesis by simp
qed

section \<open>Comments\<close>

lemma scan_comments_append:
  "scan_comments x cs (ls @ ls') = (case scan_comments x cs ls of Inl err \<Rightarrow> Inl err | Inr cs' \<Rightarrow> scan_comments x cs' ls')"
  by (induction ls arbitrary: cs) (auto split: comment_line.splits)

lemma scan_comments_long:
  "l \<in> set ls \<Longrightarrow> MaxScanTokenSize \<le> line_len l \<Longrightarrow> \<exists>err. scan_comments x cs ls = Inl err"
  by (induction ls arbitrary: cs) (auto split: comment_line.splits)

definition comment_lines :: "board \<Rightarrow> string \<Rightarrow> comment_line list" where
  "comment_lines b x = (case map_of (bd_comments b) (comments_file x) of None \<Rightarrow> [] | Some ls \<Rightarrow> ls)"

lemma ListComments_ok:
  assumes "usable t e b" and "faultless e" and "issue_at b x = Some i"
  shows "ListComments t None e b x = (scan_comments x [] (comment_lines b x), snd (ensureBoardLocked t e b))"
  using assms by (simp add: ListComments_def with_issue_ok comment_lines_def faultless_def split: option.split)

lemma PostComment_ok:
  assumes "usable t e b" and "faultless e" and "issue_at b x = Some i"
  shows "\<exists>b'. board_PostComment enc_len t None e b x body = (Inr (), b') \<and> usable t e b' \<and> issue_at b' = issue_at b \<and>
    comment_lines b' = (comment_lines b)(x := comment_lines b x @
      [CommentLine (enc_len \<lparr>lk_Author = lt_actor t, lk_Body = body, lk_CreatedAt = en_now e\<rparr>)
         \<lparr>lk_Author = lt_actor t, lk_Body = body, lk_CreatedAt = en_now e\<rparr>])"
proof -
  have "issue_at (snd (ensureBoardLocked t e b)) = issue_at b" by (rule issue_at_cong) simp
  moreover have "usable t e (snd (ensureBoardLocked t e b))" by (rule usable_ensured [OF assms(1)])
  ultimately show ?thesis
    using assms
    by (auto simp: board_PostComment_def with_issue_ok appendJSONLine_def Let_def faultless_def usable_def comment_lines_def fun_eq_iff
        split: option.split)
qed

text \<open>
  A comment whose line is shorter than the scanner's limit, posted without faults, is listed after
  those that were there; the issues and the comments of the other issues are as before.
\<close>

theorem PostComment_then_ListComments:
  assumes "usable t e b" and "faultless e" and "issue_at b x = Some i" and "fst (ListComments t None e b x) = Inr cs"
    and "enc_len \<lparr>lk_Author = lt_actor t, lk_Body = body, lk_CreatedAt = en_now e\<rparr> < MaxScanTokenSize"
  shows "\<exists>b'. board_PostComment enc_len t None e b x body = (Inr (), b') \<and>
    fst (ListComments t None e b' x) = Inr (cs @ [\<lparr>lk_Author = lt_actor t, lk_Body = body, lk_CreatedAt = en_now e\<rparr>]) \<and>
    issue_at b' = issue_at b \<and> (\<forall>y. y \<noteq> x \<longrightarrow> fst (ListComments t None e b' y) = fst (ListComments t None e b y))"
proof -
  let ?c = "\<lparr>lk_Author = lt_actor t, lk_Body = body, lk_CreatedAt = en_now e\<rparr>"
  obtain b' where b': "board_PostComment enc_len t None e b x body = (Inr (), b')" "usable t e b'" "issue_at b' = issue_at b"
    "comment_lines b' = (comment_lines b)(x := comment_lines b x @ [CommentLine (enc_len ?c) ?c])"
    using PostComment_ok [OF assms(1, 2, 3)] by blast
  have "fst (ListComments t None e b' x) = Inr (cs @ [?c])"
    using ListComments_ok [OF b'(2) assms(2)] ListComments_ok [OF assms(1, 2, 3)] b'(3, 4) assms(3, 4, 5)
    by (simp add: scan_comments_append)
  moreover have "fst (ListComments t None e b' y) = fst (ListComments t None e b y)" if "y \<noteq> x" for y
  proof (cases "issue_at b y")
    case (Some j)
    then show ?thesis
      using ListComments_ok [OF b'(2) assms(2)] ListComments_ok [OF assms(1, 2)] b'(3, 4) that by simp
  next
    case None
    have load: "loadIssueLocked t b1 y = loadIssueLocked t b y" if "bd_issues b1 = bd_issues b" for b1
      using that by (simp add: loadIssueLocked_def)
    have "bd_issues b' = bd_issues b"
      using b'(1) assms(2)
      by (auto simp: board_PostComment_def with_issue_ok [OF assms(1, 3)] appendJSONLine_def Let_def faultless_def)
    moreover obtain m m' where "ensureBoardLocked t e b = (Inr m, snd (ensureBoardLocked t e b))"
      "ensureBoardLocked t e b' = (Inr m', snd (ensureBoardLocked t e b'))"
      using ensureBoardLocked_usable assms(1) b'(2) by blast
    moreover obtain err where "loadIssueLocked t b y = Inl err"
      using None loadIssueLocked_Inr [of t b y] by (cases "loadIssueLocked t b y") auto
    ultimately show ?thesis
      unfolding ListComments_def with_issue_def
      using load [of "snd (ensureBoardLocked t e b)"] load [of "snd (ensureBoardLocked t e b')"]
      by (metis (no_types, lifting) ensureBoardLocked_keeps(1) fst_conv old.prod.case option.simps(4) sum.simps(5) sum.simps(6))
  qed
  ultimately show ?thesis using b'(1, 3) by blast
qed

theorem PostComment_then_ListComments_witness:
  "\<exists>b'. board_PostComment (\<lambda>c. 80 + length (lk_Body c)) sample_tracker None (quiet_env 6 []) sample_board ''CB-1'' ''hi'' = (Inr (), b') \<and>
     fst (ListComments sample_tracker None (quiet_env 6 []) b' ''CB-1'') =
       Inr [\<lparr>lk_Author = ''ann'', lk_Body = ''hi'', lk_CreatedAt = 6\<rparr>]"
proof -
  have empty: "fst (ListComments sample_tracker None (quiet_env 6 []) sample_board ''CB-1'') = Inr []"
    by (simp add: ListComments_ok [OF sample_usable faultless_quiet sample_board_issue] comment_lines_def)
       (simp add: sample_board_eq)
  show ?thesis
    using PostComment_then_ListComments [OF sample_usable faultless_quiet sample_board_issue empty,
        of "\<lambda>c. 80 + length (lk_Body c)" "''hi''"]
    by (auto simp: MaxScanTokenSize_def sample_tracker_def)
qed

text \<open>Comment files only grow, whatever the commands.\<close>

definition board_run ::
  "(LocalBoardComment \<Rightarrow> nat) \<Rightarrow> board \<Rightarrow> LocalTracker \<times> go_error option \<times> env \<times> board_cmd \<Rightarrow> board" where
  "board_run enc_len b q = (case q of (t, ctx, e, cmd) \<Rightarrow> snd (board_exec enc_len t ctx e cmd b))"

definition lines_kept :: "board \<Rightarrow> board \<Rightarrow> bool" where
  "lines_kept b b' \<longleftrightarrow> (\<forall>x. set (comment_lines b x) \<subseteq> set (comment_lines b' x))"

lemma lines_kept_same: "bd_comments b' = bd_comments b \<Longrightarrow> lines_kept b b'"
  by (simp add: lines_kept_def comment_lines_def)

lemma link_parent_comments [simp]: "bd_comments (snd (link_parent t e b i p)) = bd_comments b"
  by (cases rule: link_parent_cases [of t e b i p]) auto

lemma exec_keeps_lines: "lines_kept b (snd (board_exec enc_len t ctx e cmd b))"
proof (cases "edit_of t e cmd")
  case (Some q)
  then have "edit_of t e cmd = Some (fst q, snd q)" by simp
  then have "bd_comments (snd (board_exec enc_len t ctx e cmd b)) = bd_comments b"
    by (cases rule: exec_edit_cases [of t e cmd "fst q" "snd q" enc_len ctx b]) auto
  then show ?thesis by (rule lines_kept_same)
next
  case None
  then consider x y where "cmd = CComment x y" | opts where "cmd = CCreate opts" | "cmd = CInit" by (cases cmd) auto
  then show ?thesis
  proof cases
    case (1 x y)
    let ?f = "\<lambda>_ b'. appendJSONLine enc_len t e b' x \<lparr>lk_Author = lt_actor t, lk_Body = y, lk_CreatedAt = en_now e\<rparr>"
    show ?thesis
      unfolding 1
      by (cases rule: with_issue_cases [of t ctx e b x ?f])
         (auto simp: board_PostComment_def appendJSONLine_def Let_def lines_kept_def comment_lines_def split: option.split)
  next
    case (2 opts)
    have "bd_comments (snd (CreateIssueWithOptions t ctx e b opts)) = bd_comments b"
      by (cases rule: create_cases [of t ctx e b opts]) auto
    with 2 show ?thesis by (intro lines_kept_same) (simp add: forget_def)
  next
    case 3
    then show ?thesis by (cases ctx) (simp_all add: InitBoard_def forget_def lines_kept_def comment_lines_def)
  qed
qed

interpretation comment_log: step_relation "board_run enc_len" "\<lambda>_. True" lines_kept for enc_len
  by unfold_locales (auto simp: lines_kept_def board_run_def exec_keeps_lines [unfolded lines_kept_def, rule_format] dest: subsetD
      split: prod.split intro: exec_keeps_lines [unfolded lines_kept_def, rule_format, THEN subsetD])

lemma long_line_fails:
  assumes "l \<in> set (comment_lines b x)" and "MaxScanTokenSize \<le> line_len l"
  shows "\<exists>err. fst (ListComments t ctx e b x) = Inl err"
proof -
  have "\<exists>ls. map_of (bd_comments b) (comments_file x) = Some ls \<and> l \<in> set ls"
    using assms(1) by (cases "map_of (bd_comments b) (comments_file x)") (auto simp: comment_lines_def)
  then show ?thesis
    using scan_comments_long [OF _ assms(2)]
    by (cases rule: with_issue_cases [of t ctx e b x "\<lambda>_ b'. (case en_statfault e (commentsPath t x) of
          Some err \<Rightarrow> Inl (Wrap ''opening comments file'' err)
        | None \<Rightarrow> (case map_of (bd_comments b') (comments_file x) of None \<Rightarrow> Inr [] | Some ls \<Rightarrow> scan_comments x [] ls), b')"])
       (auto simp: ListComments_def split: option.split)
qed

text \<open>
  A comment with a body of at least 65536 bytes is accepted, and from then on the comments of the
  issue can never be listed again, whatever commands are run on the board. The hypothesis on
  \<open>enc_len\<close> is that a JSON string is no shorter than its contents.
\<close>

theorem long_comment_hides_comments:
  assumes "usable t e b" and "faultless e" and "issue_at b x = Some i" and "\<forall>c. length (lk_Body c) \<le> enc_len c"
    and "MaxScanTokenSize \<le> length body"
  shows "\<exists>b'. board_PostComment enc_len t None e b x body = (Inr (), b') \<and>
    (\<forall>cmds t' ctx' e'. \<exists>err. fst (ListComments t' ctx' e' (foldl (board_run enc_len) b' cmds) x) = Inl err)"
proof -
  let ?c = "\<lparr>lk_Author = lt_actor t, lk_Body = body, lk_CreatedAt = en_now e\<rparr>"
  obtain b' where b': "board_PostComment enc_len t None e b x body = (Inr (), b')"
    "comment_lines b' = (comment_lines b)(x := comment_lines b x @ [CommentLine (enc_len ?c) ?c])"
    using PostComment_ok [OF assms(1, 2, 3)] by blast
  have long: "MaxScanTokenSize \<le> line_len (CommentLine (enc_len ?c) ?c)"
    using assms(4) [rule_format, of ?c] assms(5) by simp
  have "CommentLine (enc_len ?c) ?c \<in> set (comment_lines (foldl (board_run enc_len) b' cmds) x)" for cmds
  proof -
    have "lines_kept b' (foldl (board_run enc_len) b' cmds)" by (rule comment_log.R_run) (simp add: list_all_iff)
    then have "set (comment_lines b' x) \<subseteq> set (comment_lines (foldl (board_run enc_len) b' cmds) x)"
      unfolding lines_kept_def by blast
    moreover have "CommentLine (enc_len ?c) ?c \<in> set (comment_lines b' x)" by (simp add: b'(2))
    ultimately show ?thesis by (rule subsetD)
  qed
  then show ?thesis using b'(1) long_line_fails [OF _ long] by blast
qed

theorem long_comment_hides_comments_witness:
  "\<exists>b'. board_PostComment (\<lambda>c. 80 + length (lk_Body c)) sample_tracker None (quiet_env 6 []) sample_board ''CB-1''
       (replicate 65536 CHR ''x'') = (Inr (), b') \<and>
     (\<exists>err. fst (ListComments sample_tracker None (quiet_env 7 []) b' ''CB-1'') = Inl err)"
proof -
  obtain b' where "board_PostComment (\<lambda>c. 80 + length (lk_Body c)) sample_tracker None (quiet_env 6 []) sample_board ''CB-1''
       (replicate 65536 CHR ''x'') = (Inr (), b')"
    and never: "\<forall>cmds t' ctx' e'. \<exists>err. fst (ListComments t' ctx' e'
       (foldl (board_run (\<lambda>c. 80 + length (lk_Body c))) b' cmds) ''CB-1'') = Inl err"
    using long_comment_hides_comments [OF sample_usable [of 6 "[]"] faultless_quiet sample_board_issue,
        of "\<lambda>c. 80 + length (lk_Body c)" "replicate 65536 CHR ''x''"]
    unfolding MaxScanTokenSize_def length_replicate by force
  then show ?thesis using never [rule_format, of sample_tracker None "quiet_env 7 []" "[]"] by auto
qed

section \<open>A blank parent\<close>

lemma listable_with_doc:
  "listable b \<Longrightarrow> CHR ''/'' \<notin> set x \<Longrightarrow> listable (with_doc b x i)"
proof -
  assume b: "listable b" and x: "CHR ''/'' \<notin> set x"
  have "(\<exists>j. v = Doc j) \<and> has_suffix n ''.json'' \<and> CHR ''/'' \<notin> set n" if "(n, v) \<in> set (fput (issue_file x) (Doc i) (bd_issues b))" for n v
  proof -
    from that have "(n, v) = (issue_file x, Doc i) \<or> (n, v) \<in> set (bd_issues b)" using set_fput by fastforce
    then show ?thesis using b x by (auto simp: listable_def list_all_iff issue_file_def)
  qed
  then show ?thesis using b by (auto simp: listable_def with_doc_def list_all_iff dir_wf)
qed

text \<open>
  A parent id of white space only is treated as no parent when the parent is loaded, but as a parent
  when the child is linked: besides the new issue, the creation writes an issue with an empty id and an
  empty column, and the tracker then offers it to the orchestrator as unclaimed work.
\<close>

theorem blank_parent_makes_stray_issue:
  assumes "board_reach enc_len b" and "good_prefix (lt_issuePrefix t)" and "faultless e" and "counter_room b"
    and "lo_ParentID opts \<noteq> []" and "trim_space (lo_ParentID opts) = []"
  shows "\<exists>i s b' issues. CreateIssueWithOptions t None e b opts = (Inr i, b') \<and> issue_at b [] = None \<and>
    issue_at b' [] = Some s \<and> lb_ID s = [] \<and> lb_State s = [] \<and> lb_ChildIDs s = [lb_ID i] \<and>
    fst (board_FetchIssues override t None e b') = Inr issues \<and> toIssue override s \<in> set issues \<and>
    is_State (toIssue override s) = Unclaimed"
proof -
  let ?b1 = "snd (ensureBoardLocked t e b)" and ?pid = "lo_ParentID opts"
  have inv: "board_inv b" by (rule reach_inv [OF assms(1)])
  have inv1: "board_inv ?b1" by (rule inv_ensure [OF inv assms(2)])
  obtain m where m: "ensureBoardLocked t e b = (Inr m, ?b1)"
    using ensureBoardLocked_usable [OF inv_usable [OF inv assms(3)]] by blast
  obtain m0 where m0: "bd_manifest ?b1 = Some (Doc m0)" "good_prefix (lm_IssuePrefix m0)" "lm_IssuePrefix m = lm_IssuePrefix m0"
    "lm_NextIssueNumber m = lm_NextIssueNumber m0" "1 \<le> lm_NextIssueNumber m"
    "\<And>issueID i. issue_at b issueID = Some i \<Longrightarrow> numbered m0 issueID"
    using ensured_ok [OF inv assms(2) m] by metis
  have none: "issue_at b [] = None" using m0(6) [of "[]"] numbered_not_Nil by (cases "issue_at b []") auto
  let ?i = "new_issue (en_now e) (issue_id m) ?pid opts" and ?s = "zero_issue\<lparr>lb_ChildIDs := [issue_id m], lb_UpdatedAt := en_now e\<rparr>"
  let ?b2 = "with_doc (with_number ?b1 (bumped e m)) (issue_id m) ?i"
  have w: "write_issue t e b' x i = (Inr (), with_doc b' x i)" if "map_of (bd_issues b') (issue_file x) \<noteq> Some SubDir" for b' x i
    using assms(3) that by (intro write_issue_ok) (auto simp: faultless_def)
  have dir: "map_of (bd_issues ?b1) n \<noteq> Some SubDir" for n by (rule inv_no_dir [OF inv1])
  have wm: "write_manifest t e ?b1 (bumped e m) = (Inr (), with_number ?b1 (bumped e m))"
    using assms(3) m0(1) by (simp add: write_manifest_def writeJSONAtomic_def faultless_def with_number_def)
  have "CreateIssueWithOptions t None e b opts = link_parent t e ?b2 ?i zero_issue"
    using wm dir assms(6) unfolding CreateIssueWithOptions_def
    by (subst m) (simp add: load_parent_def bumped_def [symmetric] w Let_def)
  also have "\<dots> = (Inr ?i, with_doc ?b2 [] ?s)"
    using assms(5) dir by (simp add: link_parent_def zero_issue_def w with_doc_def)
  finally have run: "CreateIssueWithOptions t None e b opts = (Inr ?i, with_doc ?b2 [] ?s)" .
  have "CHR ''/'' \<notin> set (issue_id m)"
    using numbered_no_slash [of "m0\<lparr>lm_NextIssueNumber := lm_NextIssueNumber m0 + 1\<rparr>" "issue_id m"] m0
    by (auto simp: numbered_def issue_id_def issue_file_def)
  moreover have "listable (with_number ?b1 (bumped e m))"
    using inv_listable [OF inv1] by (simp add: listable_def)
  ultimately have list: "listable (with_doc ?b2 [] ?s)" by (intro listable_with_doc) auto
  have "(issue_file [], Doc ?s) \<in> set (bd_issues (with_doc ?b2 [] ?s))"
    using map_of_SomeD [of "bd_issues (with_doc ?b2 [] ?s)" "issue_file []"] by (simp add: with_doc_def)
  then have "?s \<in> set (sort_key issue_key (filter (\<lambda>i. False \<or> lb_State i \<noteq> LocalBoardStateDone) (board_docs (with_doc ?b2 [] ?s))))"
    by (auto simp: board_docs_def set_docs zero_issue_def board_states)
  then have "toIssue override ?s \<in> set (map (toIssue override) (sort_key issue_key (filter (\<lambda>i. False \<or> lb_State i \<noteq> LocalBoardStateDone) (board_docs (with_doc ?b2 [] ?s)))))"
    by simp
  moreover have "is_State (toIssue override ?s) = Unclaimed"
    by (simp add: toIssue_def zero_issue_def board_IssueState_def board_states)
  ultimately show ?thesis
    using run none ListIssues_ok [OF list assms(3), of t False]
    by (intro exI [of _ ?i] exI [of _ ?s] exI [of _ "with_doc ?b2 [] ?s"]) (auto simp: board_FetchIssues_def zero_issue_def)
qed

theorem blank_parent_makes_stray_issue_witness:
  "\<exists>i s b'. CreateIssueWithOptions sample_tracker None (quiet_env 7 []) sample_board (sample_opts\<lparr>lo_ParentID := '' ''\<rparr>) = (Inr i, b') \<and>
     issue_at b' [] = Some s \<and> lb_ChildIDs s = [lb_ID i]"
proof -
  have room: "counter_room sample_board" by (simp add: counter_room_def sample_board_eq)
  have "trim_space '' '' = []" by code_simp
  then show ?thesis
    using blank_parent_makes_stray_issue [OF sample_board_reach [of "\<lambda>_. 0"] sample_prefix faultless_quiet room,
        of "sample_opts\<lparr>lo_ParentID := '' ''\<rparr>" 7 "[]" "\<lambda>_. []"]
    by auto
qed

end
