(* ===== verification/Board_Sync.thy ===== *)
theory Board_Sync
  imports Local_Board_Props Coordinator
begin

text \<open>
  \<open>internal/cli/team/board.go\<close> and \<open>internal/cli/server/dispatch.go\<close>: a team that works on an issue of the
  local board. The issue and its open children become the tasks of the team; the syncer writes the progress
  of the team back to the board; the dispatcher hands issues to teams until there is none left.
  \<open>sw_env k\<close> is what the \<open>k\<close>-th call of an operation on the tracker observes, \<open>sw_ctx\<close> the state of the
  context, \<open>sw_range\<close> the order in which Go walks over the keys of a map, \<open>sw_rfc3339\<close> the format of a
  time. The time stamp of an event, which \<open>TeamEvent\<close> does not carry in this development, is an argument.
\<close>

section \<open>Plans\<close>

record boardTeamPlan =
  bp_Tasks :: "TeamTask list"
  bp_TaskIssueIDs :: "string fdir"

definition newline :: string where
  "newline = [CHR 0x0A]"

definition sanitizeTeamName :: "string \<Rightarrow> string" where
  "sanitizeTeamName raw = trim_dashes (dash_runs False (to_lower (trim_space raw)))"

definition defaultTeamNameForIssue :: "string \<Rightarrow> string" where
  "defaultTeamNameForIssue issueID =
     (let normalized = sanitizeTeamName issueID in ''issue-'' @ (if normalized = [] then ''issue'' else normalized))"

definition resolveTeamNameForIssue :: "LocalBoardIssue \<Rightarrow> string \<Rightarrow> string" where
  "resolveTeamNameForIssue issue override =
     (if sanitizeTeamName override \<noteq> [] then sanitizeTeamName override
      else if sanitizeTeamName (lb_Assignee issue) \<noteq> [] then sanitizeTeamName (lb_Assignee issue)
      else defaultTeamNameForIssue (lb_ID issue))"

definition sanitizeTaskIDPart :: "string \<Rightarrow> string" where
  "sanitizeTaskIDPart raw = trim_dashes (dash_runs False (to_lower (trim_space raw)))"

definition opt_line :: "bool \<Rightarrow> string \<Rightarrow> string" where
  "opt_line c s = (if c then s @ newline else [])"

definition formatBoardIssueContext :: "LocalBoardIssue \<Rightarrow> string" where
  "formatBoardIssueContext issue = trim_space (
     ''Issue ID: '' @ lb_ID issue @ newline @
     ''Title: '' @ lb_Title issue @ newline @
     opt_line (lb_URL issue \<noteq> []) (''URL: '' @ lb_URL issue) @
     opt_line (lb_Labels issue \<noteq> []) (''Labels: '' @ str_join '', '' (lb_Labels issue)) @
     ''Current board state: '' @ lb_State issue @ newline @
     opt_line (lb_Assignee issue \<noteq> []) (''Assigned to: '' @ lb_Assignee issue) @
     opt_line (lb_ParentID issue \<noteq> []) (''Parent issue: '' @ lb_ParentID issue) @
     opt_line (lb_ChildIDs issue \<noteq> []) (''Child issues: '' @ str_join '', '' (lb_ChildIDs issue)) @
     opt_line (lb_BlockedBy issue \<noteq> []) (''Blocked by: '' @ str_join '', '' (lb_BlockedBy issue)) @
     opt_line (lb_ClaimedBy issue \<noteq> []) (''Claimed by: '' @ lb_ClaimedBy issue) @
     opt_line (trim_space (lb_Description issue) \<noteq> [])
       (newline @ ''Description:'' @ newline @ trim_space (lb_Description issue)))"

definition formatChildBoardTaskDescription :: "LocalBoardIssue \<Rightarrow> LocalBoardIssue \<Rightarrow> string" where
  "formatChildBoardTaskDescription parent child = trim_space (
     ''Implement the child internal board issue as part of the parent board ticket.'' @ newline @ newline @
     ''Parent issue:'' @ newline @ formatBoardIssueContext parent @
     newline @ newline @ ''Child issue:'' @ newline @ formatBoardIssueContext child)"

text \<open>A task literal: the fields that are not given have their zero values.\<close>

definition plan_task :: "string \<Rightarrow> string \<Rightarrow> string \<Rightarrow> string list \<Rightarrow> TeamTask" where
  "plan_task taskID subject description dependsOn =
     \<lparr>tt_ID = taskID, tt_Subject = subject, tt_Description = description, tt_Status = TaskOther [], tt_BlockedBy = [],
      tt_DependsOn = dependsOn, tt_Claim = None, tt_Version = 0, tt_CreatedAt = zero_time, tt_UpdatedAt = zero_time,
      tt_Result = [], tt_FileOwnership = []\<rparr>"

definition base_id :: "LocalBoardIssue \<Rightarrow> string" where
  "base_id issue = (let b = sanitizeTaskIDPart (lb_ID issue) in if b = [] then ''board-issue'' else b)"

definition planTaskID :: "LocalBoardIssue \<Rightarrow> string" where
  "planTaskID issue = ''001-'' @ base_id issue @ ''-plan''"

definition prdTaskID :: "LocalBoardIssue \<Rightarrow> string" where
  "prdTaskID issue = ''002-'' @ base_id issue @ ''-prd''"

definition buildRootBoardTeamPlan :: "LocalBoardIssue \<Rightarrow> boardTeamPlan" where
  "buildRootBoardTeamPlan issue =
     (let issueContext = formatBoardIssueContext issue;
          execTaskID = ''003-'' @ base_id issue @ ''-exec''
      in \<lparr>bp_Tasks =
            [plan_task (planTaskID issue) (''Plan '' @ lb_ID issue @ '' '' @ lb_Title issue)
               (''Analyze the internal board issue and produce an implementation plan.'' @ newline @ newline @ issueContext) [],
             plan_task (prdTaskID issue) (''Refine execution strategy for '' @ lb_ID issue)
               (''Turn the internal board issue into an executable implementation strategy with concrete files, risks, and validation steps.''
                 @ newline @ newline @ issueContext) [planTaskID issue],
             plan_task execTaskID (''Implement '' @ lb_ID issue @ '' '' @ lb_Title issue)
               (''Implement the internal board issue end to end, including tests and any required follow-up notes.''
                 @ newline @ newline @ issueContext) [prdTaskID issue]],
          bp_TaskIssueIDs = [(execTaskID, lb_ID issue)]\<rparr>)"

text \<open>\<open>%03d\<close> of a number that is not negative.\<close>

definition fmt_03d :: "nat \<Rightarrow> string" where
  "fmt_03d n = replicate (3 - length (nat_digits n)) CHR ''0'' @ nat_digits n"

definition activeBoardChildIssues :: "LocalBoardIssue list \<Rightarrow> LocalBoardIssue list" where
  "activeBoardChildIssues childIssues = filter (\<lambda>child. lb_State child \<noteq> LocalBoardStateDone) childIssues"

definition appendUniqueString :: "string list \<Rightarrow> string \<Rightarrow> string list" where
  "appendUniqueString values candidate = (if candidate \<in> set values then values else values @ [candidate])"

definition exec_task_id :: "nat \<Rightarrow> LocalBoardIssue \<Rightarrow> string" where
  "exec_task_id idx child = fmt_03d (idx + 3) @ ''-'' @ sanitizeTaskIDPart (lb_ID child) @ ''-exec''"

definition taskIDsByIssue :: "LocalBoardIssue list \<Rightarrow> string fdir" where
  "taskIDsByIssue childIssues = foldl (\<lambda>m (idx, child). fput (lb_ID child) (exec_task_id idx child) m) [] (enumerate 0 childIssues)"

definition child_depends :: "LocalBoardIssue \<Rightarrow> string fdir \<Rightarrow> LocalBoardIssue \<Rightarrow> string list" where
  "child_depends issue ids child =
     foldl (\<lambda>deps blockerID. case map_of ids blockerID of None \<Rightarrow> deps | Some taskID \<Rightarrow> appendUniqueString deps taskID)
       [prdTaskID issue] (lb_BlockedBy child)"

text \<open>\<open>taskIDsByIssue[child.ID]\<close>, the empty string when it is missing.\<close>

definition task_of :: "string fdir \<Rightarrow> LocalBoardIssue \<Rightarrow> string" where
  "task_of ids child = (case map_of ids (lb_ID child) of None \<Rightarrow> [] | Some taskID \<Rightarrow> taskID)"

definition buildChildBoardTeamPlan :: "LocalBoardIssue \<Rightarrow> LocalBoardIssue list \<Rightarrow> boardTeamPlan" where
  "buildChildBoardTeamPlan issue childIssues =
     (let issueContext = formatBoardIssueContext issue;
          ids = taskIDsByIssue childIssues
      in \<lparr>bp_Tasks =
            [plan_task (planTaskID issue) (''Plan '' @ lb_ID issue @ '' '' @ lb_Title issue)
               (''Analyze the parent internal board issue and its child tickets, then produce an execution plan.''
                 @ newline @ newline @ issueContext) [],
             plan_task (prdTaskID issue) (''Refine execution strategy for '' @ lb_ID issue)
               (''Turn the parent board issue and its child tickets into an executable implementation strategy with concrete files, risks, and validation steps.''
                 @ newline @ newline @ issueContext) [planTaskID issue]] @
            map (\<lambda>child. plan_task (task_of ids child) (''Implement '' @ lb_ID child @ '' '' @ lb_Title child)
                    (formatChildBoardTaskDescription issue child) (child_depends issue ids child)) childIssues,
          bp_TaskIssueIDs = foldl (\<lambda>m child. fput (task_of ids child) (lb_ID child) m) [] childIssues\<rparr>)"

definition buildBoardTeamPlan :: "LocalBoardIssue \<Rightarrow> LocalBoardIssue list \<Rightarrow> boardTeamPlan" where
  "buildBoardTeamPlan issue childIssues =
     (let activeChildren = activeBoardChildIssues childIssues
      in if activeChildren = [] then buildRootBoardTeamPlan issue else buildChildBoardTeamPlan issue activeChildren)"

definition buildTeamTasksFromBoardIssue :: "LocalBoardIssue \<Rightarrow> TeamTask list" where
  "buildTeamTasksFromBoardIssue issue = bp_Tasks (buildBoardTeamPlan issue [])"

section \<open>The syncer\<close>

record boardIssueSyncer =
  sy_tracker :: LocalTracker
  sy_issueID :: string
  sy_teamName :: string
  sy_taskIssueIDs :: "string fdir"
  sy_terminal :: bool

record sync_world =
  sw_ctx :: "go_error option"
  sw_env :: "nat \<Rightarrow> env"
  sw_range :: "string list \<Rightarrow> string list"
  sw_rfc3339 :: "time \<Rightarrow> string"
  sw_enc_len :: "LocalBoardComment \<Rightarrow> nat"

definition newBoardIssueSyncer :: "LocalTracker \<Rightarrow> string \<Rightarrow> string \<Rightarrow> string fdir \<Rightarrow> boardIssueSyncer" where
  "newBoardIssueSyncer localTracker issueID teamName taskIssueIDs =
     \<lparr>sy_tracker = localTracker, sy_issueID = issueID, sy_teamName = teamName, sy_taskIssueIDs = taskIssueIDs, sy_terminal = False\<rparr>"

text \<open>\<open>fmt.Sprint\<close> of the values the coordinator puts into its events.\<close>

fun sprint_value :: "data_value \<Rightarrow> string" where
  "sprint_value (DStr s) = s"
| "sprint_value (DInt n) = fmt_int n"
| "sprint_value (DStrs ss) = ''['' @ str_join '' '' ss @ '']''"

definition stringFromMap :: "(string \<times> data_value) list \<Rightarrow> string \<Rightarrow> string" where
  "stringFromMap values key = (case map_of values key of None \<Rightarrow> [] | Some raw \<Rightarrow> sprint_value raw)"

definition formatTaskIssueSyncComment :: "string \<Rightarrow> TeamEvent \<Rightarrow> string" where
  "formatTaskIssueSyncComment teamName event =
     (let worker = stringFromMap (te_Data event) ''worker_id''; task = stringFromMap (te_Data event) ''task_id''
      in if te_Type event = ''task_claimed'' then ''team '' @ teamName @ '': '' @ worker @ '' claimed '' @ task
         else if te_Type event = ''task_completed'' then ''team '' @ teamName @ '': '' @ worker @ '' completed '' @ task
         else if te_Type event = ''task_failed''
           then ''team '' @ teamName @ '': '' @ worker @ '' failed '' @ task @ '' ('' @ stringFromMap (te_Data event) ''error'' @ '')''
         else [])"

definition formatBoardSyncComment :: "string \<Rightarrow> TeamEvent \<Rightarrow> string" where
  "formatBoardSyncComment teamName event =
     (let phase = stringFromMap (te_Data event) ''phase''; worker = stringFromMap (te_Data event) ''worker_id'';
          task = stringFromMap (te_Data event) ''task_id''
      in if te_Type event = ''phase_started''
           then (if phase = [] then [] else ''team '' @ teamName @ '' entered phase '' @ phase)
         else if te_Type event = ''task_claimed''
           then ''team '' @ teamName @ '': '' @ worker @ '' claimed '' @ task @ '' '' @ stringFromMap (te_Data event) ''task''
         else if te_Type event = ''task_completed'' then ''team '' @ teamName @ '': '' @ worker @ '' completed '' @ task
         else if te_Type event = ''task_failed''
           then ''team '' @ teamName @ '': '' @ worker @ '' failed '' @ task @ '' ('' @ stringFromMap (te_Data event) ''error'' @ '')''
         else if te_Type event = ''pipeline_completed'' then ''team '' @ teamName @ '' completed with phase '' @ phase
         else [])"

definition set_meta :: "string \<Rightarrow> string \<Rightarrow> LocalBoardIssue \<Rightarrow> LocalBoardIssue" where
  "set_meta key value issue = issue\<lparr>lb_TrackerMeta := fput key value (lb_TrackerMeta issue)\<rparr>"

definition take_assignee :: "string \<Rightarrow> LocalBoardIssue \<Rightarrow> LocalBoardIssue" where
  "take_assignee teamName issue = (if trim_space (lb_Assignee issue) = [] then issue\<lparr>lb_Assignee := teamName\<rparr> else issue)"

text \<open>A call on the tracker whose error is dropped.\<close>

definition sync_update :: "sync_world \<Rightarrow> nat \<Rightarrow> boardIssueSyncer \<Rightarrow> board \<Rightarrow> string \<Rightarrow> (LocalBoardIssue \<Rightarrow> LocalBoardIssue) \<Rightarrow> board" where
  "sync_update w k s b issueID f = snd (UpdateIssue (sy_tracker s) (sw_ctx w) (sw_env w k) b issueID (Some (\<lambda>i. Inr (f i))))"

definition sync_comment :: "sync_world \<Rightarrow> nat \<Rightarrow> boardIssueSyncer \<Rightarrow> board \<Rightarrow> string \<Rightarrow> string \<Rightarrow> board" where
  "sync_comment w k s b issueID body =
     (if body = [] then b else snd (board_PostComment (sw_enc_len w) (sy_tracker s) (sw_ctx w) (sw_env w k) b issueID body))"

definition sync_state :: "sync_world \<Rightarrow> nat \<Rightarrow> boardIssueSyncer \<Rightarrow> board \<Rightarrow> IssueState \<Rightarrow> board" where
  "sync_state w k s b state = snd (board_UpdateIssueState (sy_tracker s) (sw_ctx w) (sw_env w k) b (sy_issueID s) state)"

definition mappedChildIssueIDs :: "sync_world \<Rightarrow> boardIssueSyncer \<Rightarrow> string list" where
  "mappedChildIssueIDs w s =
     foldl (\<lambda>ids taskID. case map_of (sy_taskIssueIDs s) taskID of
         None \<Rightarrow> ids
       | Some issueID \<Rightarrow> (if issueID = [] \<or> issueID = sy_issueID s then ids else appendUniqueString ids issueID))
       [] (sw_range w (map fst (sy_taskIssueIDs s)))"

definition start_issue :: "sync_world \<Rightarrow> nat \<Rightarrow> boardIssueSyncer \<Rightarrow> LocalBoardIssue \<Rightarrow> LocalBoardIssue" where
  "start_issue w k s issue =
     set_meta ''last_team_event_at'' (sw_rfc3339 w (en_now (sw_env w k)))
      (set_meta ''last_team_event'' ''pipeline_started''
       (set_meta ''team_status'' ''running''
        (set_meta ''team_name'' (sy_teamName s)
          ((take_assignee (sy_teamName s) issue)\<lparr>lb_ClaimedBy := ''team:'' @ sy_teamName s\<rparr>))))"

definition queue_child :: "sync_world \<Rightarrow> nat \<Rightarrow> boardIssueSyncer \<Rightarrow> LocalBoardIssue \<Rightarrow> LocalBoardIssue" where
  "queue_child w k s issue =
     set_meta ''last_team_event_at'' (sw_rfc3339 w (en_now (sw_env w k)))
      (set_meta ''last_team_event'' ''pipeline_started''
       (set_meta ''team_status'' ''queued''
        (set_meta ''parent_issue_id'' (sy_issueID s)
         (set_meta ''team_name'' (sy_teamName s) (take_assignee (sy_teamName s) issue)))))"

fun start_children :: "sync_world \<Rightarrow> nat \<Rightarrow> boardIssueSyncer \<Rightarrow> string list \<Rightarrow> board \<Rightarrow> unit result \<times> board" where
  "start_children w k s [] b =
     board_PostComment (sw_enc_len w) (sy_tracker s) (sw_ctx w) (sw_env w k) b (sy_issueID s)
       (''team '' @ sy_teamName s @ '' started execution'')"
| "start_children w k s (childIssueID # ids) b =
     (case UpdateIssue (sy_tracker s) (sw_ctx w) (sw_env w k) b childIssueID (Some (\<lambda>i. Inr (queue_child w k s i))) of
        (Inl err, b1) \<Rightarrow> (Inl err, b1)
      | (Inr _, b1) \<Rightarrow>
          (case board_PostComment (sw_enc_len w) (sy_tracker s) (sw_ctx w) (sw_env w (k + 1)) b1 childIssueID
                  (''queued in team '' @ sy_teamName s @ '' via parent '' @ sy_issueID s) of
             (Inl err, b2) \<Rightarrow> (Inl err, b2)
           | (Inr _, b2) \<Rightarrow> start_children w (k + 2) s ids b2))"

definition sync_Start :: "sync_world \<Rightarrow> boardIssueSyncer \<Rightarrow> board \<Rightarrow> unit result \<times> board" where
  "sync_Start w s b =
     (case UpdateIssue (sy_tracker s) (sw_ctx w) (sw_env w 0) b (sy_issueID s) (Some (\<lambda>i. Inr (start_issue w 0 s i))) of
        (Inl err, b1) \<Rightarrow> (Inl err, b1)
      | (Inr _, b1) \<Rightarrow>
          (case board_UpdateIssueState (sy_tracker s) (sw_ctx w) (sw_env w 1) b1 (sy_issueID s) Claimed of
             (Inl err, b2) \<Rightarrow> (Inl err, b2)
           | (Inr _, b2) \<Rightarrow> start_children w 2 s (mappedChildIssueIDs w s) b2))"

definition event_meta :: "boardIssueSyncer \<Rightarrow> TeamEvent \<Rightarrow> string \<Rightarrow> LocalBoardIssue \<Rightarrow> LocalBoardIssue" where
  "event_meta s event at issue =
     (let i = set_meta ''last_team_event_at'' at (set_meta ''last_team_event'' (te_Type event)
                (set_meta ''team_name'' (sy_teamName s) issue))
      in if te_Type event = ''phase_started'' then set_meta ''team_phase'' (stringFromMap (te_Data event) ''phase'') i
         else if te_Type event \<in> {''task_claimed'', ''task_completed'', ''task_failed''}
           then set_meta ''last_task_id'' (stringFromMap (te_Data event) ''task_id'')
                 (set_meta ''last_worker_id'' (stringFromMap (te_Data event) ''worker_id'') i)
         else if te_Type event = ''pipeline_completed'' then set_meta ''team_status'' (stringFromMap (te_Data event) ''phase'') i
         else i)"

definition task_issue_meta :: "boardIssueSyncer \<Rightarrow> TeamEvent \<Rightarrow> string \<Rightarrow> LocalBoardIssue \<Rightarrow> LocalBoardIssue" where
  "task_issue_meta s event at issue =
     (let i = set_meta ''last_task_id'' (stringFromMap (te_Data event) ''task_id'')
               (set_meta ''last_worker_id'' (stringFromMap (te_Data event) ''worker_id'')
                (set_meta ''last_team_event_at'' at (set_meta ''last_team_event'' (te_Type event)
                 (set_meta ''parent_issue_id'' (sy_issueID s) (set_meta ''team_name'' (sy_teamName s)
                   (take_assignee (sy_teamName s) issue))))))
      in if te_Type event = ''task_claimed''
           then set_meta ''team_status'' ''running'' (i\<lparr>lb_State := LocalBoardStateInProgress, lb_ClaimedBy := ''team:'' @ sy_teamName s\<rparr>)
         else if te_Type event = ''task_completed''
           then set_meta ''team_status'' ''complete'' (i\<lparr>lb_State := LocalBoardStateDone, lb_ClaimedBy := []\<rparr>)
         else if te_Type event = ''task_failed''
           then set_meta ''team_status'' ''retry'' (i\<lparr>lb_State := LocalBoardStateRetry, lb_ClaimedBy := []\<rparr>)
         else i)"

definition syncTaskIssue :: "sync_world \<Rightarrow> nat \<Rightarrow> boardIssueSyncer \<Rightarrow> TeamEvent \<Rightarrow> string \<Rightarrow> board \<Rightarrow> board" where
  "syncTaskIssue w k s event at b =
     (case map_of (sy_taskIssueIDs s) (stringFromMap (te_Data event) ''task_id'') of
        None \<Rightarrow> b
      | Some issueID \<Rightarrow>
          (if issueID = [] \<or> issueID = sy_issueID s then b
           else sync_comment w (k + 1) s (sync_update w k s b issueID (task_issue_meta s event at))
                  issueID (formatTaskIssueSyncComment (sy_teamName s) event)))"

text \<open>\<open>HandleEvent\<close>; \<open>ts\<close> is the time stamp of the event.\<close>

definition sync_HandleEvent :: "sync_world \<Rightarrow> boardIssueSyncer \<Rightarrow> TeamEvent \<Rightarrow> time \<Rightarrow> board \<Rightarrow> boardIssueSyncer \<times> board" where
  "sync_HandleEvent w s event ts b =
     (let at = sw_rfc3339 w ts;
          b1 = sync_update w 0 s b (sy_issueID s) (event_meta s event at);
          b2 = syncTaskIssue w 1 s event at b1;
          b3 = sync_comment w 3 s b2 (sy_issueID s) (formatBoardSyncComment (sy_teamName s) event)
      in if te_Type event \<noteq> ''pipeline_completed'' then (s, b3)
         else (s\<lparr>sy_terminal := True\<rparr>,
               sync_state w 4 s b3 (if stringFromMap (te_Data event) ''phase'' = phase_String PhaseComplete then Released else RetryQueued)))"

definition retry_child :: "sync_world \<Rightarrow> nat \<Rightarrow> boardIssueSyncer \<Rightarrow> LocalBoardIssue \<Rightarrow> LocalBoardIssue" where
  "retry_child w k s issue =
     set_meta ''last_team_event_at'' (sw_rfc3339 w (en_now (sw_env w k)))
      (set_meta ''last_team_event'' ''run_error''
       (set_meta ''team_status'' ''retry''
        (set_meta ''parent_issue_id'' (sy_issueID s)
         (set_meta ''team_name'' (sy_teamName s) (issue\<lparr>lb_State := LocalBoardStateRetry, lb_ClaimedBy := []\<rparr>)))))"

fun markClaimedChildIssuesForRetry :: "sync_world \<Rightarrow> nat \<Rightarrow> boardIssueSyncer \<Rightarrow> go_error \<Rightarrow> string list \<Rightarrow> board \<Rightarrow> board" where
  "markClaimedChildIssuesForRetry w k s runErr [] b = b"
| "markClaimedChildIssuesForRetry w k s runErr (issueID # ids) b =
     markClaimedChildIssuesForRetry w (k + 3) s runErr ids
       (case GetIssue (sy_tracker s) (sw_ctx w) (sw_env w k) b issueID of
          (Inl err, b1) \<Rightarrow> b1
        | (Inr issue, b1) \<Rightarrow>
            (if lb_State issue \<noteq> LocalBoardStateInProgress then b1
             else sync_comment w (k + 2) s (sync_update w (k + 1) s b1 issueID (retry_child w (k + 1) s)) issueID
                    (''team '' @ sy_teamName s @ '' aborted while executing child issue: '' @ Error_text runErr)))"

definition final_meta :: "sync_world \<Rightarrow> nat \<Rightarrow> boardIssueSyncer \<Rightarrow> string \<Rightarrow> string \<Rightarrow> LocalBoardIssue \<Rightarrow> LocalBoardIssue" where
  "final_meta w k s status event issue =
     set_meta ''last_team_event_at'' (sw_rfc3339 w (en_now (sw_env w k)))
      (set_meta ''last_team_event'' event (set_meta ''team_status'' status (set_meta ''team_name'' (sy_teamName s) issue)))"

definition sync_Finalize :: "sync_world \<Rightarrow> boardIssueSyncer \<Rightarrow> go_error option \<Rightarrow> board \<Rightarrow> board" where
  "sync_Finalize w s runErr b =
     (if sy_terminal s then b
      else case runErr of
          None \<Rightarrow>
            (let b1 = sync_state w 0 s b Released;
                 b2 = sync_update w 1 s b1 (sy_issueID s) (final_meta w 1 s ''complete'' ''pipeline_completed'')
             in sync_comment w 2 s b2 (sy_issueID s) (''team '' @ sy_teamName s @ '' completed successfully''))
        | Some err \<Rightarrow>
            (let b1 = sync_state w 0 s b RetryQueued;
                 b2 = markClaimedChildIssuesForRetry w 3 s err (mappedChildIssueIDs w s) b1;
                 b3 = sync_update w 1 s b2 (sy_issueID s) (final_meta w 1 s ''retry'' ''run_error'')
             in sync_comment w 2 s b3 (sy_issueID s) (''team '' @ sy_teamName s @ '' ended with error: '' @ Error_text err)))"

section \<open>Dispatch\<close>

record boardDispatchOptions =
  do_TeamName :: string
  do_UntilEmpty :: bool

text \<open>
  \<open>runTeam\<close> is the callback that runs a team on an issue: the team name, the issue id and the board to its
  error and the board it leaves. The loop of \<open>dispatchBoardIssues\<close> may run forever, so it takes fuel;
  \<open>es n\<close> is the environment of the \<open>n\<close>-th pass. What is printed is the list of the dispatched issues.
\<close>

definition dispatchNextBoardIssue ::
  "(LocalBoardComment \<Rightarrow> nat) \<Rightarrow> LocalTracker \<Rightarrow> go_error option \<Rightarrow> (string \<Rightarrow> string \<Rightarrow> board \<Rightarrow> unit result \<times> board)
     \<Rightarrow> env \<Rightarrow> boardDispatchOptions \<Rightarrow> board \<Rightarrow> (string \<times> string) option result \<times> board" where
  "dispatchNextBoardIssue enc_len t ctx runTeam e opts b =
     (case FindDispatchableIssue t ctx e b (do_TeamName opts) of
        (Inl err, b1) \<Rightarrow> (Inl err, b1)
      | (Inr None, b1) \<Rightarrow> (Inr None, b1)
      | (Inr (Some issue), b1) \<Rightarrow>
          (let team = resolveTeamNameForIssue issue (do_TeamName opts)
           in case AssignIssue t ctx e b1 (lb_ID issue) team of
                (Inl err, b2) \<Rightarrow> (Inl err, b2)
              | (Inr _, b2) \<Rightarrow>
                  (case board_PostComment enc_len t ctx e b2 (lb_ID issue) (''dispatch requested for team '' @ team) of
                     (Inl err, b3) \<Rightarrow> (Inl err, b3)
                   | (Inr _, b3) \<Rightarrow>
                       (case runTeam team (lb_ID issue) b3 of
                          (Inl err, b4) \<Rightarrow> (Inl (Wrap (''dispatching '' @ lb_ID issue @ '' to '' @ team) err), b4)
                        | (Inr _, b4) \<Rightarrow> (Inr (Some (lb_ID issue, team)), b4)))))"

fun dispatchBoardIssues ::
  "nat \<Rightarrow> (LocalBoardComment \<Rightarrow> nat) \<Rightarrow> LocalTracker \<Rightarrow> go_error option \<Rightarrow> (string \<Rightarrow> string \<Rightarrow> board \<Rightarrow> unit result \<times> board)
     \<Rightarrow> (nat \<Rightarrow> env) \<Rightarrow> nat \<Rightarrow> boardDispatchOptions \<Rightarrow> board \<Rightarrow> (unit result \<times> (string \<times> string) list \<times> board) option" where
  "dispatchBoardIssues 0 enc_len t ctx runTeam es n opts b = None"
| "dispatchBoardIssues (Suc fuel) enc_len t ctx runTeam es n opts b =
     (case dispatchNextBoardIssue enc_len t ctx runTeam (es n) opts b of
        (Inl err, b') \<Rightarrow> Some (Inl err, [], b')
      | (Inr None, b') \<Rightarrow>
          Some (if do_UntilEmpty opts then Inr () else Inl (ErrMsg ''no dispatchable internal board issue found''), [], b')
      | (Inr (Some d), b') \<Rightarrow>
          (if \<not> do_UntilEmpty opts then Some (Inr (), [d], b')
           else case dispatchBoardIssues fuel enc_len t ctx runTeam es (Suc n) opts b' of
               None \<Rightarrow> None
             | Some (r, ds, b'') \<Rightarrow> Some (r, d # ds, b'')))"

end
