(* ===== verification/Board_Sync_Props.thy ===== *)
theory Board_Sync_Props
  imports Board_Sync
begin

text \<open>
  Correctness of teams on the local board: the tasks of a plan form a closed dependency graph with
  distinct ids, the board follows the team from the start of the run to its end, and the dispatcher
  drains the board when the teams finish their issues, and only then.
\<close>

section \<open>Plans\<close>

lemma nat_digits_no_dash: "CHR ''-'' \<notin> set (nat_digits n)"
proof (induction n rule: nat_digits.induct)
  case (1 n)
  have "CHR ''-'' \<noteq> char_of (48 + d)" if "d < 10" for d :: nat
  proof
    assume "CHR ''-'' = char_of (48 + d)"
    then have "(of_char CHR ''-'' :: nat) = of_char (char_of (48 + d) :: char)" by simp
    with that show False by (simp only: digit_char) simp
  qed
  with 1 show ?case by (subst nat_digits.simps) auto
qed

lemma nat_digits_hd: "0 < n \<Longrightarrow> nat_digits n \<noteq> [] \<and> hd (nat_digits n) \<noteq> CHR ''0''"
proof (induction n rule: nat_digits.induct)
  case (1 n)
  show ?case
  proof (cases "n < 10")
    case True
    have "char_of (48 + n) \<noteq> CHR ''0''"
    proof
      assume "char_of (48 + n) = CHR ''0''"
      then have "(of_char (char_of (48 + n) :: char) :: nat) = of_char CHR ''0''" by simp
      with True 1(2) show False by (simp only: digit_char) simp
    qed
    with True show ?thesis by (subst (1 2) nat_digits.simps) simp
  next
    case False
    then show ?thesis using 1 by (subst (1 2) nat_digits.simps) simp
  qed
qed

lemma fmt_03d_inject: "0 < m \<Longrightarrow> 0 < n \<Longrightarrow> fmt_03d m = fmt_03d n \<Longrightarrow> m = n"
proof -
  assume "0 < m" "0 < n" and eq: "fmt_03d m = fmt_03d n"
  have strip: "dropWhile (\<lambda>c. c = CHR ''0'') (fmt_03d k) = nat_digits k" if "0 < k" for k
    using nat_digits_hd [OF that] by (cases "nat_digits k") (simp_all add: fmt_03d_def dropWhile_append)
  show "m = n" using strip \<open>0 < m\<close> \<open>0 < n\<close> eq nat_digits_inject by metis
qed

lemma numbered_task_inject:
  assumes "0 < m" "0 < n" and eq: "fmt_03d m @ ''-'' @ s = fmt_03d n @ ''-'' @ s'"
  shows "m = n"
proof -
  have take: "takeWhile (\<lambda>c. c \<noteq> CHR ''-'') (fmt_03d k @ ''-'' @ u) = fmt_03d k" for k u
    using nat_digits_no_dash [of k] by (simp add: fmt_03d_def takeWhile_append takeWhile_eq_all_conv)
  have "fmt_03d m = fmt_03d n" using take [of m s] take [of n s'] eq by simp
  then show ?thesis by (rule fmt_03d_inject [OF assms(1, 2)])
qed

lemma fmt_03d_12: "fmt_03d 1 = ''001''" "fmt_03d 2 = ''002''"
  by code_simp+

lemma foldl_fput_enumerate:
  "distinct (map key xs) \<Longrightarrow> n \<le> k \<Longrightarrow> k < n + length xs \<Longrightarrow>
   map_of (foldl (\<lambda>m (idx, x). fput (key x) (val idx x) m) d (enumerate n xs)) (key (xs ! (k - n))) = Some (val k (xs ! (k - n)))"
proof (induction xs arbitrary: n d)
  case (Cons x xs)
  have other: "key x \<notin> key ` set xs" using Cons.prems(1) by auto
  have keep: "map_of (foldl (\<lambda>m (idx, x). fput (key x) (val idx x) m) d' (enumerate j ys)) z = map_of d' z"
    if "z \<notin> key ` set ys" for d' j ys z
    using that by (induction ys arbitrary: d' j) auto
  show ?case
  proof (cases "k = n")
    case True
    then show ?thesis using keep [OF other] by simp
  next
    case False
    then have "k - n = Suc (k - Suc n)" using Cons.prems(2) by simp
    then have "xs ! (k - Suc n) = (x # xs) ! (k - n)" by simp
    then show ?thesis using Cons.IH [of "Suc n" "fput (key x) (val n x) d"] Cons.prems False by simp
  qed
qed simp

lemma foldl_fput_enumerate_dom:
  "map_of (foldl (\<lambda>m (idx, x). fput (key x) (val idx x) m) d (enumerate n xs)) z \<noteq> None \<longleftrightarrow> z \<in> key ` set xs \<or> map_of d z \<noteq> None"
  by (induction xs arbitrary: n d) auto

lemma task_of_nth:
  assumes "distinct (map lb_ID cs)" and "k < length cs"
  shows "task_of (taskIDsByIssue cs) (cs ! k) = exec_task_id k (cs ! k)"
  using foldl_fput_enumerate [OF assms(1), of 0 k exec_task_id "[]"] assms(2)
  by (simp add: task_of_def taskIDsByIssue_def)

lemma exec_task_distinct:
  assumes d: "distinct (map lb_ID cs)"
  shows "distinct (map (task_of (taskIDsByIssue cs)) cs)"
proof -
  have "map (task_of (taskIDsByIssue cs)) cs = map (\<lambda>k. exec_task_id k (cs ! k)) [0..<length cs]"
    using task_of_nth [OF d] by (auto intro: nth_equalityI)
  moreover have "inj_on (\<lambda>k. exec_task_id k (cs ! k)) (set [0..<length cs])"
  proof (rule inj_onI)
    fix j k assume "exec_task_id j (cs ! j) = exec_task_id k (cs ! k)"
    then have "j + 3 = k + 3" unfolding exec_task_id_def by (rule numbered_task_inject [rotated 2]) simp_all
    then show "j = k" by simp
  qed
  ultimately show ?thesis by (simp add: distinct_map)
qed

lemma child_depends_set:
  "set (child_depends issue ids child) = insert (prdTaskID issue) {t. \<exists>x \<in> set (lb_BlockedBy child). map_of ids x = Some t}"
proof -
  have "set (foldl (\<lambda>deps x. case map_of ids x of None \<Rightarrow> deps | Some t \<Rightarrow> appendUniqueString deps t) acc xs) =
      set acc \<union> {t. \<exists>x \<in> set xs. map_of ids x = Some t}" for acc xs
    by (induction xs arbitrary: acc) (auto simp: appendUniqueString_def split: option.split)
  then show ?thesis by (simp add: child_depends_def)
qed

lemma plan_ids_fresh:
  "planTaskID issue \<noteq> prdTaskID issue" "planTaskID issue \<noteq> exec_task_id k c" "prdTaskID issue \<noteq> exec_task_id k c"
proof -
  show "planTaskID issue \<noteq> prdTaskID issue" by (simp add: planTaskID_def prdTaskID_def)
  show "planTaskID issue \<noteq> exec_task_id k c"
    using numbered_task_inject [of 1 "k + 3" "base_id issue @ ''-plan''"] by (auto simp: planTaskID_def exec_task_id_def fmt_03d_12)
  show "prdTaskID issue \<noteq> exec_task_id k c"
    using numbered_task_inject [of 2 "k + 3" "base_id issue @ ''-prd''"] by (auto simp: prdTaskID_def exec_task_id_def fmt_03d_12)
qed

lemma plan_task_simps [simp]:
  "tt_ID (plan_task t subj d deps) = t" "tt_DependsOn (plan_task t subj d deps) = deps"
  by (simp_all add: plan_task_def)

lemma foldl_fput_lookup:
  "distinct (map key xs) \<Longrightarrow> x \<in> set xs \<Longrightarrow> map_of (foldl (\<lambda>m x. fput (key x) (val x) m) d xs) (key x) = Some (val x)"
proof (induction xs arbitrary: d)
  case (Cons y xs)
  have keep: "z \<notin> key ` set ys \<Longrightarrow> map_of (foldl (\<lambda>m x. fput (key x) (val x) m) d' ys) z = map_of d' z" for d' ys z
    by (induction ys arbitrary: d') auto
  show ?case
  proof (cases "x \<in> set xs")
    case True
    with Cons show ?thesis by simp
  next
    case False
    with Cons.prems have "x = y" "key y \<notin> key ` set xs" by auto
    then show ?thesis using keep by simp
  qed
qed simp

text \<open>The ids and dependencies of the plan of an issue with open children.\<close>

lemma child_plan:
  fixes issue :: LocalBoardIssue and cs :: "LocalBoardIssue list"
  assumes d: "distinct (map lb_ID cs)"
  defines "p \<equiv> buildChildBoardTeamPlan issue cs"
  shows "map tt_ID (bp_Tasks p) = [planTaskID issue, prdTaskID issue] @ map (\<lambda>k. exec_task_id k (cs ! k)) [0..<length cs]"
    and "k < length cs \<Longrightarrow> tt_ID (bp_Tasks p ! (k + 2)) = exec_task_id k (cs ! k)"
    and "k < length cs \<Longrightarrow> map_of (bp_TaskIssueIDs p) (exec_task_id k (cs ! k)) = Some (lb_ID (cs ! k))"
    and "k < length cs \<Longrightarrow> set (tt_DependsOn (bp_Tasks p ! (k + 2))) =
      insert (prdTaskID issue) {exec_task_id j (cs ! j) |j. j < length cs \<and> lb_ID (cs ! j) \<in> set (lb_BlockedBy (cs ! k))}"
proof -
  let ?ids = "taskIDsByIssue cs"
  show "map tt_ID (bp_Tasks p) = [planTaskID issue, prdTaskID issue] @ map (\<lambda>k. exec_task_id k (cs ! k)) [0..<length cs]"
    using task_of_nth [OF d] by (auto simp: p_def buildChildBoardTeamPlan_def Let_def intro: nth_equalityI)
  assume k: "k < length cs"
  show "tt_ID (bp_Tasks p ! (k + 2)) = exec_task_id k (cs ! k)"
    using k task_of_nth [OF d k] by (simp add: p_def buildChildBoardTeamPlan_def Let_def)
  have "map_of (bp_TaskIssueIDs p) (task_of ?ids (cs ! k)) = Some (lb_ID (cs ! k))"
    using foldl_fput_lookup [OF exec_task_distinct [OF d], of "cs ! k" lb_ID "[]"] k
    by (simp add: p_def buildChildBoardTeamPlan_def Let_def)
  then show "map_of (bp_TaskIssueIDs p) (exec_task_id k (cs ! k)) = Some (lb_ID (cs ! k))"
    using task_of_nth [OF d k] by simp
  have look: "map_of ?ids x = Some t \<longleftrightarrow> (\<exists>j < length cs. lb_ID (cs ! j) = x \<and> t = exec_task_id j (cs ! j))" for x t
  proof
    assume t: "map_of ?ids x = Some t"
    then have "x \<in> lb_ID ` set cs"
      using foldl_fput_enumerate_dom [of lb_ID exec_task_id "[]" 0 cs x] by (auto simp: taskIDsByIssue_def)
    then obtain j where j: "j < length cs" "lb_ID (cs ! j) = x" by (auto simp: in_set_conv_nth)
    with t task_of_nth [OF d j(1)] show "\<exists>j < length cs. lb_ID (cs ! j) = x \<and> t = exec_task_id j (cs ! j)"
      by (auto simp: task_of_def)
  next
    assume "\<exists>j < length cs. lb_ID (cs ! j) = x \<and> t = exec_task_id j (cs ! j)"
    then show "map_of ?ids x = Some t"
      using foldl_fput_enumerate [OF d, of 0 _ exec_task_id "[]"] by (auto simp: taskIDsByIssue_def)
  qed
  show "set (tt_DependsOn (bp_Tasks p ! (k + 2))) =
      insert (prdTaskID issue) {exec_task_id j (cs ! j) |j. j < length cs \<and> lb_ID (cs ! j) \<in> set (lb_BlockedBy (cs ! k))}"
    using k by (simp add: p_def buildChildBoardTeamPlan_def Let_def child_depends_set look) blast
qed

lemma child_plan_closed:
  assumes d: "distinct (map lb_ID cs)" and t: "t \<in> set (bp_Tasks (buildChildBoardTeamPlan issue cs))"
  shows "set (tt_DependsOn t) \<subseteq> set (map tt_ID (bp_Tasks (buildChildBoardTeamPlan issue cs)))"
proof -
  let ?p = "buildChildBoardTeamPlan issue cs"
  note plan = child_plan [where issue = issue, OF d]
  have "length (map tt_ID (bp_Tasks ?p)) = length cs + 2" unfolding plan(1) by simp
  with t obtain n where n: "n < length cs + 2" "t = bp_Tasks ?p ! n" by (auto simp: in_set_conv_nth)
  show ?thesis
  proof (cases "n < 2")
    case True
    then have "n = 0 \<or> n = 1" by auto
    then have "set (tt_DependsOn t) \<subseteq> {planTaskID issue}"
      using n(2) by (auto simp: buildChildBoardTeamPlan_def Let_def)
    then show ?thesis unfolding plan(1) by auto
  next
    case False
    then obtain k where k: "n = k + 2" "k < length cs" using n(1) by (metis add.commute add_less_cancel_right le_Suc_ex not_less)
    show ?thesis
      unfolding n(2) k(1) plan(4) [OF k(2)] plan(1) by auto
  qed
qed

text \<open>
  The tasks made from an issue and its children, whose ids are distinct, have distinct ids, and every
  dependency is a task of the plan. With open children, each has one exec task, which the plan maps back
  to it, and which depends on the strategy task and on the exec tasks of exactly those open siblings it
  is blocked by.
\<close>

theorem plan_is_closed:
  assumes "distinct (map lb_ID childIssues)"
  shows "let p = buildBoardTeamPlan issue childIssues; ids = map tt_ID (bp_Tasks p); cs = activeBoardChildIssues childIssues in
    distinct ids \<and> list_all (\<lambda>t. set (tt_DependsOn t) \<subseteq> set ids) (bp_Tasks p) \<and>
    (cs \<noteq> [] \<longrightarrow> length ids = length cs + 2 \<and>
      list_all (\<lambda>k. map_of (bp_TaskIssueIDs p) (ids ! (k + 2)) = Some (lb_ID (cs ! k)) \<and>
        set (tt_DependsOn (bp_Tasks p ! (k + 2))) =
          insert (ids ! 1) {ids ! (j + 2) |j. j < length cs \<and> lb_ID (cs ! j) \<in> set (lb_BlockedBy (cs ! k))}) [0..<length cs])"
proof (cases "activeBoardChildIssues childIssues = []")
  case True
  have "planTaskID issue \<noteq> prdTaskID issue" by (rule plan_ids_fresh)
  moreover have "planTaskID issue \<noteq> ''003-'' @ u" "prdTaskID issue \<noteq> ''003-'' @ u" for u
    by (simp_all add: planTaskID_def prdTaskID_def)
  ultimately show ?thesis
    using True by (simp add: buildBoardTeamPlan_def buildRootBoardTeamPlan_def Let_def)
next
  case False
  let ?cs = "activeBoardChildIssues childIssues"
  let ?p = "buildChildBoardTeamPlan issue ?cs"
  have p: "buildBoardTeamPlan issue childIssues = ?p" using False by (simp add: buildBoardTeamPlan_def Let_def)
  have d: "distinct (map lb_ID ?cs)" using assms by (simp add: activeBoardChildIssues_def distinct_map_filter)
  note plan = child_plan [where issue = issue, OF d]
  have inj: "distinct (map (\<lambda>k. exec_task_id k (?cs ! k)) [0..<length ?cs])"
    using exec_task_distinct [OF d] task_of_nth [OF d] by (metis (no_types, lifting) map_nth map_map comp_apply map_cong atLeastLessThan_iff atLeastLessThan_upt)
  have dist: "distinct (map tt_ID (bp_Tasks ?p))"
    unfolding plan(1) using inj plan_ids_fresh by auto
  have nth: "map tt_ID (bp_Tasks ?p) ! (k + 2) = exec_task_id k (?cs ! k)" if "k < length ?cs" for k
    unfolding plan(1) using that by (simp add: nth_append)
  have one: "map tt_ID (bp_Tasks ?p) ! 1 = prdTaskID issue" unfolding plan(1) by simp
  have len: "length (map tt_ID (bp_Tasks ?p)) = length ?cs + 2" unfolding plan(1) by simp
  have dep: "set (tt_DependsOn (bp_Tasks ?p ! (k + 2))) =
      insert (map tt_ID (bp_Tasks ?p) ! 1) {map tt_ID (bp_Tasks ?p) ! (j + 2) |j. j < length ?cs \<and> lb_ID (?cs ! j) \<in> set (lb_BlockedBy (?cs ! k))}"
    if "k < length ?cs" for k
    unfolding plan(4) [OF that] one
    by (rule arg_cong [of _ _ "insert (prdTaskID issue)"], rule Collect_cong, rule ex_cong1) (use nth in auto)
  have closed: "set (tt_DependsOn t) \<subseteq> set (map tt_ID (bp_Tasks ?p))" if "t \<in> set (bp_Tasks ?p)" for t
    using child_plan_closed [OF d that] .
  show ?thesis
    unfolding p Let_def using dist closed len dep plan(3) nth False
    by (auto simp: list_all_iff)
qed

section \<open>Single calls of the syncer\<close>

text \<open>A world without faults, in which the walk over a map visits every key once.\<close>

definition calm :: "sync_world \<Rightarrow> bool" where
  "calm w \<longleftrightarrow> sw_ctx w = None \<and> (\<forall>k. faultless (sw_env w k)) \<and> (\<forall>xs. mset (sw_range w xs) = mset xs)"

lemma calmD: "calm w \<Longrightarrow> sw_ctx w = None" "calm w \<Longrightarrow> faultless (sw_env w k)" "calm w \<Longrightarrow> set (sw_range w xs) = set xs"
  by (auto simp: calm_def) (metis set_mset_mset)+

lemma edit_run:
  assumes "edit_of t e cmd = Some (x, f)" and "board_exec enc_len t ctx e cmd b = (r, b')"
  shows "case r of Inl _ \<Rightarrow> issue_at b' = issue_at b
    | Inr _ \<Rightarrow> \<exists>i i'. issue_at b x = Some i \<and> f i = Inr i' \<and> issue_at b' = (issue_at b)(x \<mapsto> i')"
proof -
  have same: "issue_at (snd (ensureBoardLocked t e b)) = issue_at b" by (rule issue_at_cong) simp
  from assms(1) show ?thesis
  proof (cases rule: exec_edit_cases [of t e cmd x f enc_len ctx b])
    case (error err b'')
    then show ?thesis using assms(2) same by auto
  next
    case (written i i')
    then show ?thesis using assms(2) same by auto
  qed
qed

lemma edit_calm:
  assumes "edit_of t e cmd = Some (x, f)" and inv: "board_inv b" and e: "faultless e" and at: "issue_at b x = Some i" and f: "f i = Inr i'"
  shows "\<exists>b'. board_exec enc_len t None e cmd b = (Inr (), b') \<and> issue_at b' = (issue_at b)(x \<mapsto> i')"
proof -
  have same: "issue_at (snd (ensureBoardLocked t e b)) = issue_at b" by (rule issue_at_cong) simp
  have "write_issue t e (snd (ensureBoardLocked t e b)) x i' = (Inr (), with_doc (snd (ensureBoardLocked t e b)) x i')"
    using e inv_no_dir [OF inv] by (intro write_issue_ok) (simp_all add: faultless_def)
  then have "board_exec enc_len t None e cmd b = (Inr (), with_doc (snd (ensureBoardLocked t e b)) x i')"
    using f by (simp add: exec_edit [OF assms(1)] with_issue_ok [OF inv_usable [OF inv e] at])
  then show ?thesis using same by simp
qed

lemma board_view_fun_upd: "issue_at b' = (issue_at b)(x \<mapsto> i) \<Longrightarrow> board_view b' = (board_view b)(x \<mapsto> (lb_State i, lb_ClaimedBy i))"
  by (auto simp: board_view_def fun_eq_iff)

lemma board_view_same: "issue_at b' = issue_at b \<Longrightarrow> board_view b' = board_view b"
  by (simp add: board_view_def)

lemma UpdateIssue_exec: "forget (UpdateIssue t ctx e b x (Some f)) = board_exec enc_len t ctx e (CEdit x f) b"
  by simp

lemma sync_update_exec:
  "sync_update w k s b x f = snd (board_exec enc_len (sy_tracker s) (sw_ctx w) (sw_env w k) (CEdit x (\<lambda>i. Inr (f i))) b)"
  by (simp add: sync_update_def forget_def)

lemma sync_state_exec:
  "sync_state w k s b st = snd (board_exec enc_len (sy_tracker s) (sw_ctx w) (sw_env w k) (CState (sy_issueID s) st) b)"
  by (simp add: sync_state_def)

lemma PostComment_issue_at [simp]: "issue_at (snd (board_PostComment enc_len t ctx e b x body)) = issue_at b"
proof -
  have same: "issue_at (snd (ensureBoardLocked t e b)) = issue_at b" by (rule issue_at_cong) simp
  let ?f = "\<lambda>_ b'. appendJSONLine enc_len t e b' x \<lparr>lk_Author = lt_actor t, lk_Body = body, lk_CreatedAt = en_now e\<rparr>"
  show ?thesis
    using same by (cases rule: with_issue_cases [of t ctx e b x ?f])
      (auto simp: board_PostComment_def appendJSONLine_def Let_def split: option.split)
qed

lemma sync_comment_issue_at [simp]: "issue_at (sync_comment w k s b x body) = issue_at b"
  by (simp add: sync_comment_def)

lemma sync_comment_view [simp]: "board_view (sync_comment w k s b x body) = board_view b"
  by (simp add: board_view_def)

lemma sync_comment_inv: "board_inv b \<Longrightarrow> good_prefix (lt_issuePrefix (sy_tracker s)) \<Longrightarrow> board_inv (sync_comment w k s b x body)"
  using inv_exec [of b "sy_tracker s" "CComment x body" "sw_enc_len w" "sw_ctx w" "sw_env w k"] by (simp add: sync_comment_def)

lemma sync_update_inv:
  "board_inv b \<Longrightarrow> good_prefix (lt_issuePrefix (sy_tracker s)) \<Longrightarrow> keeps_links (\<lambda>i. Inr (f i)) \<Longrightarrow> board_inv (sync_update w k s b x f)"
  unfolding sync_update_exec [where enc_len = "\<lambda>_. 0"] by (rule inv_exec) simp_all

lemma sync_state_inv: "board_inv b \<Longrightarrow> good_prefix (lt_issuePrefix (sy_tracker s)) \<Longrightarrow> board_inv (sync_state w k s b st)"
  unfolding sync_state_exec [where enc_len = "\<lambda>_. 0"] by (rule inv_exec) simp_all

lemma sync_update_other: "y \<noteq> x \<Longrightarrow> board_view (sync_update w k s b x f) y = board_view b y"
proof -
  assume ne: "y \<noteq> x"
  let ?r = "board_exec (\<lambda>_. 0) (sy_tracker s) (sw_ctx w) (sw_env w k) (CEdit x (\<lambda>i. Inr (f i))) b"
  have "edit_of (sy_tracker s) (sw_env w k) (CEdit x (\<lambda>i. Inr (f i))) = Some (x, \<lambda>i. Inr ((f i)\<lparr>lb_UpdatedAt := en_now (sw_env w k)\<rparr>))"
    by simp
  from edit_run [OF this, of "\<lambda>_. 0" "sw_ctx w" b "fst ?r" "snd ?r"]
  show ?thesis unfolding sync_update_exec [where enc_len = "\<lambda>_. 0"] using ne
    by (auto simp: board_view_def split: sum.splits)
qed

lemma sync_update_at:
  assumes "calm w" and "board_inv b" and "issue_at b x = Some i"
  shows "issue_at (sync_update w k s b x f) = (issue_at b)(x \<mapsto> (f i)\<lparr>lb_UpdatedAt := en_now (sw_env w k)\<rparr>)"
  using edit_calm [of "sy_tracker s" "sw_env w k" "CEdit x (\<lambda>i. Inr (f i))" x "\<lambda>i. Inr ((f i)\<lparr>lb_UpdatedAt := en_now (sw_env w k)\<rparr>)" b i _ "\<lambda>_. 0"]
    assms calmD(1, 2) [OF assms(1)] unfolding sync_update_exec [where enc_len = "\<lambda>_. 0"] by auto

lemma sync_state_at:
  assumes "calm w" and "board_inv b" and "issue_at b (sy_issueID s) = Some i"
  shows "issue_at (sync_state w k s b st) = (issue_at b)(sy_issueID s \<mapsto>
    move_to (sy_tracker s) (en_now (sw_env w k)) (localBoardStateFromIssueState st) i)"
  using edit_calm [of "sy_tracker s" "sw_env w k" "CState (sy_issueID s) st" "sy_issueID s"
      "\<lambda>x. Inr (move_to (sy_tracker s) (en_now (sw_env w k)) (localBoardStateFromIssueState st) x)" b i _ "\<lambda>_. 0"]
    assms calmD(1, 2) [OF assms(1)] unfolding sync_state_exec [where enc_len = "\<lambda>_. 0"] by auto

lemma set_meta_simps [simp]:
  "lb_ID (set_meta key v i) = lb_ID i" "lb_State (set_meta key v i) = lb_State i" "lb_ParentID (set_meta key v i) = lb_ParentID i"
  "lb_ChildIDs (set_meta key v i) = lb_ChildIDs i" "lb_ClaimedBy (set_meta key v i) = lb_ClaimedBy i"
  by (simp_all add: set_meta_def)

lemma take_assignee_simps [simp]:
  "lb_ID (take_assignee n i) = lb_ID i" "lb_State (take_assignee n i) = lb_State i" "lb_ParentID (take_assignee n i) = lb_ParentID i"
  "lb_ChildIDs (take_assignee n i) = lb_ChildIDs i" "lb_ClaimedBy (take_assignee n i) = lb_ClaimedBy i"
  by (simp_all add: take_assignee_def)

lemma columns_mem [simp]:
  "LocalBoardStateTodo \<in> set board_columns" "LocalBoardStateInProgress \<in> set board_columns"
  "LocalBoardStateRetry \<in> set board_columns" "LocalBoardStateDone \<in> set board_columns"
  by (simp_all add: board_columns_def)

lemma edits_keep_links [simp]:
  "keeps_links (\<lambda>i. Inr (start_issue w k s i))" "keeps_links (\<lambda>i. Inr (queue_child w k s i))"
  "keeps_links (\<lambda>i. Inr (event_meta s ev at i))" "keeps_links (\<lambda>i. Inr (task_issue_meta s ev at i))"
  "keeps_links (\<lambda>i. Inr (retry_child w k s i))" "keeps_links (\<lambda>i. Inr (final_meta w k s st ev' i))"
  by (simp_all add: keeps_links_def start_issue_def queue_child_def event_meta_def task_issue_meta_def retry_child_def final_meta_def Let_def)

lemma event_meta_view [simp]:
  "lb_State (event_meta s ev at i) = lb_State i" "lb_ClaimedBy (event_meta s ev at i) = lb_ClaimedBy i"
  "lb_State (final_meta w k s st e' i) = lb_State i" "lb_ClaimedBy (final_meta w k s st e' i) = lb_ClaimedBy i"
  by (simp_all add: event_meta_def final_meta_def Let_def)

section \<open>A team run on the board\<close>

definition completes :: "TeamEvent \<Rightarrow> bool" where
  "completes ev \<longleftrightarrow> te_Type ev = ''pipeline_completed''"

definition phase_column :: "TeamEvent \<Rightarrow> LocalBoardState" where
  "phase_column ev = (if stringFromMap (te_Data ev) ''phase'' = ''complete'' then LocalBoardStateDone else LocalBoardStateRetry)"

lemma syncTaskIssue_root [simp]: "board_view (syncTaskIssue w k s ev at b) (sy_issueID s) = board_view b (sy_issueID s)"
proof (cases "map_of (sy_taskIssueIDs s) (stringFromMap (te_Data ev) ''task_id'')")
  case (Some x)
  then show ?thesis by (cases "x = sy_issueID s") (simp_all add: syncTaskIssue_def sync_update_other)
qed (simp add: syncTaskIssue_def)

lemma syncTaskIssue_inv: "board_inv b \<Longrightarrow> good_prefix (lt_issuePrefix (sy_tracker s)) \<Longrightarrow> board_inv (syncTaskIssue w k s ev at b)"
  by (simp add: syncTaskIssue_def sync_update_inv sync_comment_inv split: option.split)

lemma view_Some: "board_view b x = Some v \<longleftrightarrow> (\<exists>i. issue_at b x = Some i \<and> v = (lb_State i, lb_ClaimedBy i))"
  by (auto simp: board_view_def)

lemma sync_state_view:
  assumes "calm w" and "board_inv b" and "board_view b (sy_issueID s) = Some v" and "st \<in> {Released, RetryQueued}"
  shows "board_view (sync_state w k s b st) =
    (board_view b)(sy_issueID s \<mapsto> (if st = Released then LocalBoardStateDone else LocalBoardStateRetry, []))"
proof -
  obtain i where "issue_at b (sy_issueID s) = Some i" using assms(3) by (auto simp: view_Some)
  from board_view_fun_upd [OF sync_state_at [OF assms(1, 2) this, of k st]] show ?thesis
    using assms(4) by (auto simp: move_to_def board_states)
qed

lemma sync_update_view:
  assumes "calm w" and "board_inv b" and "\<And>i. lb_State (f i) = lb_State i" and "\<And>i. lb_ClaimedBy (f i) = lb_ClaimedBy i"
  shows "board_view (sync_update w k s b x f) x = board_view b x"
proof (cases "issue_at b x")
  case (Some i)
  then show ?thesis using board_view_fun_upd [OF sync_update_at [OF assms(1, 2) Some, of k s f]] assms(3, 4) by (simp add: board_view_def)
next
  case None
  let ?r = "board_exec (\<lambda>_. 0) (sy_tracker s) (sw_ctx w) (sw_env w k) (CEdit x (\<lambda>i. Inr (f i))) b"
  have "edit_of (sy_tracker s) (sw_env w k) (CEdit x (\<lambda>i. Inr (f i))) = Some (x, \<lambda>i. Inr ((f i)\<lparr>lb_UpdatedAt := en_now (sw_env w k)\<rparr>))"
    by simp
  from edit_run [OF this, of "\<lambda>_. 0" "sw_ctx w" b "fst ?r" "snd ?r"] None
  show ?thesis unfolding sync_update_exec [where enc_len = "\<lambda>_. 0"] by (auto simp: board_view_def split: sum.splits)
qed

lemma HandleEvent_root:
  assumes w: "calm w" and inv: "board_inv b" and pfx: "good_prefix (lt_issuePrefix (sy_tracker s))"
    and v: "board_view b (sy_issueID s) = Some v" and run: "sync_HandleEvent w s ev ts b = (s', b')"
  shows "board_inv b' \<and> s' = s\<lparr>sy_terminal := sy_terminal s \<or> completes ev\<rparr> \<and>
    board_view b' (sy_issueID s) = Some (if completes ev then (phase_column ev, []) else v)"
proof -
  let ?at = "sw_rfc3339 w ts"
  let ?b1 = "sync_update w 0 s b (sy_issueID s) (event_meta s ev ?at)"
  let ?b3 = "sync_comment w 3 s (syncTaskIssue w 1 s ev ?at ?b1) (sy_issueID s) (formatBoardSyncComment (sy_teamName s) ev)"
  have inv3: "board_inv ?b3"
    using inv pfx by (intro sync_comment_inv syncTaskIssue_inv sync_update_inv) simp_all
  have v3: "board_view ?b3 (sy_issueID s) = Some v"
    using sync_update_view [OF w inv, of "event_meta s ev ?at" 0 s "sy_issueID s"] v by simp
  show ?thesis
  proof (cases "completes ev")
    case True
    then have "s' = s\<lparr>sy_terminal := True\<rparr>"
      "b' = sync_state w 4 s ?b3 (if stringFromMap (te_Data ev) ''phase'' = ''complete'' then Released else RetryQueued)"
      using run by (simp_all add: sync_HandleEvent_def Let_def completes_def)
    then show ?thesis
      using True sync_state_view [OF w inv3 v3] sync_state_inv [OF inv3 pfx] by (simp add: phase_column_def)
  next
    case False
    then have "s' = s" "b' = ?b3" using run by (auto simp: sync_HandleEvent_def Let_def completes_def)
    then show ?thesis using False inv3 v3 by simp
  qed
qed

text \<open>The events of a run, each handled in its own world.\<close>

definition handle_all ::
  "boardIssueSyncer \<Rightarrow> board \<Rightarrow> (sync_world \<times> TeamEvent \<times> time) list \<Rightarrow> boardIssueSyncer \<times> board" where
  "handle_all s b evs = foldl (\<lambda>(s, b) (w, ev, ts). sync_HandleEvent w s ev ts b) (s, b) evs"

definition last_completed :: "(sync_world \<times> TeamEvent \<times> time) list \<Rightarrow> TeamEvent option" where
  "last_completed evs = (let es = filter completes (map (\<lambda>(w, ev, ts). ev) evs) in if es = [] then None else Some (last es))"

lemma last_completed_simps [simp]:
  "last_completed [] = None"
  "last_completed (evs @ [(w, ev, ts)]) = (if completes ev then Some ev else last_completed evs)"
  by (simp_all add: last_completed_def Let_def)

lemma handle_all_root:
  assumes "board_inv b" and "good_prefix (lt_issuePrefix (sy_tracker s))" and "board_view b (sy_issueID s) = Some v"
  shows "list_all (\<lambda>(w, ev, ts). calm w) evs \<Longrightarrow> handle_all s b evs = (s', b') \<Longrightarrow>
    board_inv b' \<and> s' = s\<lparr>sy_terminal := sy_terminal s \<or> last_completed evs \<noteq> None\<rparr> \<and>
    board_view b' (sy_issueID s) = Some (case last_completed evs of None \<Rightarrow> v | Some ev \<Rightarrow> (phase_column ev, []))"
proof (induction evs arbitrary: s' b' rule: rev_induct)
  case Nil
  then show ?case using assms by (simp add: handle_all_def)
next
  case (snoc x evs)
  obtain w ev ts where x: "x = (w, ev, ts)" by (cases x)
  obtain s1 b1 where one: "handle_all s b evs = (s1, b1)" by (cases "handle_all s b evs")
  have IH: "board_inv b1" "s1 = s\<lparr>sy_terminal := sy_terminal s \<or> last_completed evs \<noteq> None\<rparr>"
    "board_view b1 (sy_issueID s) = Some (case last_completed evs of None \<Rightarrow> v | Some ev \<Rightarrow> (phase_column ev, []))"
    using snoc.IH [OF _ one] snoc.prems(1) by simp_all
  have run: "sync_HandleEvent w s1 ev ts b1 = (s', b')"
    using snoc.prems(2) one x by (simp add: handle_all_def)
  have "board_inv b' \<and> s' = s1\<lparr>sy_terminal := sy_terminal s1 \<or> completes ev\<rparr> \<and>
      board_view b' (sy_issueID s1) = Some (if completes ev then (phase_column ev, []) else (case last_completed evs of None \<Rightarrow> v | Some ev \<Rightarrow> (phase_column ev, [])))"
    using snoc.prems(1) x IH assms(2) by (intro HandleEvent_root [OF _ IH(1) _ _ run]) simp_all
  then show ?case using x IH(2) by (auto simp: IH(2))
qed

text \<open>Start.\<close>

lemma mapped_children:
  "c \<in> set (mappedChildIssueIDs w s) \<longleftrightarrow>
     c \<noteq> [] \<and> c \<noteq> sy_issueID s \<and> (\<exists>t \<in> set (sw_range w (map fst (sy_taskIssueIDs s))). map_of (sy_taskIssueIDs s) t = Some c)"
proof -
  have "c \<in> set (foldl (\<lambda>ids taskID. case map_of m taskID of
         None \<Rightarrow> ids
       | Some issueID \<Rightarrow> (if issueID = [] \<or> issueID = root then ids else appendUniqueString ids issueID)) acc ts) \<longleftrightarrow>
      c \<in> set acc \<or> c \<noteq> [] \<and> c \<noteq> root \<and> (\<exists>t \<in> set ts. map_of m t = Some c)" for m :: "string fdir" and root acc ts
    by (induction ts arbitrary: acc) (auto simp: appendUniqueString_def split: option.split)
  then show ?thesis by (simp add: mappedChildIssueIDs_def)
qed

lemma UpdateIssue_result:
  assumes "UpdateIssue t ctx e b x (Some (\<lambda>i. Inr (f i))) = (Inr j, b')"
  shows "\<exists>i. issue_at b x = Some i \<and> issue_at b' = (issue_at b)(x \<mapsto> (f i)\<lparr>lb_UpdatedAt := en_now e\<rparr>)"
proof -
  have "board_exec (\<lambda>_. 0) t ctx e (CEdit x (\<lambda>i. Inr (f i))) b = (Inr (), b')"
    using assms by (simp add: forget_def)
  from edit_run [OF _ this, of x "\<lambda>i. Inr ((f i)\<lparr>lb_UpdatedAt := en_now e\<rparr>)"] show ?thesis by auto
qed

lemma UpdateIssue_inv:
  "board_inv b \<Longrightarrow> good_prefix (lt_issuePrefix t) \<Longrightarrow> keeps_links f \<Longrightarrow> board_inv (snd (UpdateIssue t ctx e b x (Some f)))"
  using inv_exec [of b t "CEdit x f" "\<lambda>_. 0" ctx e] by (simp add: forget_def)

lemma PostComment_inv:
  "board_inv b \<Longrightarrow> good_prefix (lt_issuePrefix t) \<Longrightarrow> board_inv (snd (board_PostComment enc_len t ctx e b x body))"
  using inv_exec [of b t "CComment x body" enc_len ctx e] by simp

lemma start_children_root:
  "start_children w k s ids b = (Inr (), b') \<Longrightarrow> sy_issueID s \<notin> set ids \<Longrightarrow> board_inv b \<Longrightarrow> good_prefix (lt_issuePrefix (sy_tracker s))
   \<Longrightarrow> board_inv b' \<and> board_view b' (sy_issueID s) = board_view b (sy_issueID s)"
proof (induction w k s ids b rule: start_children.induct)
  case (1 w k s b)
  then have b': "b' = snd (board_PostComment (sw_enc_len w) (sy_tracker s) (sw_ctx w) (sw_env w k) b (sy_issueID s)
       (''team '' @ sy_teamName s @ '' started execution''))" by simp
  show ?case unfolding b' using PostComment_inv [OF 1(3, 4)] by (simp add: board_view_def)
next
  case (2 w k s c ids b)
  obtain j b1 where u: "UpdateIssue (sy_tracker s) (sw_ctx w) (sw_env w k) b c (Some (\<lambda>i. Inr (queue_child w k s i))) = (Inr j, b1)"
    using 2(2) by (auto split: sum.splits prod.splits)
  obtain b2 where p: "board_PostComment (sw_enc_len w) (sy_tracker s) (sw_ctx w) (sw_env w (k + 1)) b1 c
      (''queued in team '' @ sy_teamName s @ '' via parent '' @ sy_issueID s) = (Inr (), b2)"
    using 2(2) u by (auto split: sum.splits prod.splits)
  have inv1: "board_inv b1" using UpdateIssue_inv [OF 2(4, 5) edits_keep_links(2)] u by (metis snd_conv)
  then have inv2: "board_inv b2" using PostComment_inv [OF inv1 2(5)] p by (metis snd_conv)
  have "issue_at b2 = issue_at b1" using PostComment_issue_at p by (metis snd_conv)
  moreover have "issue_at b1 (sy_issueID s) = issue_at b (sy_issueID s)"
    using UpdateIssue_result [OF u] 2(3) by auto
  ultimately have "board_view b2 (sy_issueID s) = board_view b (sy_issueID s)" by (simp add: board_view_def)
  moreover have "start_children w (k + 2) s ids b2 = (Inr (), b')" using 2(2) u p by simp
  ultimately show ?case using 2(1) [OF u [symmetric] refl p [symmetric] refl] inv2 2(3, 5) by simp
qed

lemma Start_root:
  assumes run: "sync_Start w s b = (Inr (), b')" and inv: "board_inv b" and pfx: "good_prefix (lt_issuePrefix (sy_tracker s))"
  shows "board_inv b' \<and> board_view b' (sy_issueID s) = Some (LocalBoardStateInProgress, ''team:'' @ sy_teamName s)"
proof -
  obtain j b1 where u: "UpdateIssue (sy_tracker s) (sw_ctx w) (sw_env w 0) b (sy_issueID s) (Some (\<lambda>i. Inr (start_issue w 0 s i))) = (Inr j, b1)"
    using run by (auto simp: sync_Start_def split: sum.splits prod.splits)
  obtain b2 where c: "board_UpdateIssueState (sy_tracker s) (sw_ctx w) (sw_env w 1) b1 (sy_issueID s) Claimed = (Inr (), b2)"
    using run u by (auto simp: sync_Start_def split: sum.splits prod.splits)
  have ch: "start_children w 2 s (mappedChildIssueIDs w s) b2 = (Inr (), b')"
    using run u c by (simp add: sync_Start_def)
  have inv1: "board_inv b1" using UpdateIssue_inv [OF inv pfx edits_keep_links(1)] u by (metis snd_conv)
  have exec: "board_exec (\<lambda>_. 0) (sy_tracker s) (sw_ctx w) (sw_env w 1) (CState (sy_issueID s) Claimed) b1 = (Inr (), b2)"
    using c by simp
  have inv2: "board_inv b2"
    using inv_exec [OF inv1 pfx, of "CState (sy_issueID s) Claimed" "\<lambda>_. 0" "sw_ctx w" "sw_env w 1"] exec by simp
  obtain i where "issue_at b1 (sy_issueID s) = Some ((start_issue w 0 s i)\<lparr>lb_UpdatedAt := en_now (sw_env w 0)\<rparr>)"
    using UpdateIssue_result [OF u] by auto
  then have v1: "board_view b1 (sy_issueID s) = Some (lb_State i, ''team:'' @ sy_teamName s)"
    by (simp add: board_view_def start_issue_def)
  have "claim_spec (lt_actor (sy_tracker s)) (CState (sy_issueID s) Claimed) (board_view b1) (board_view b2)"
    using exec_refines [OF inv1 pfx _ exec] by simp
  then have "board_view b2 (sy_issueID s) = Some (LocalBoardStateInProgress, ''team:'' @ sy_teamName s)"
    using v1 by (auto simp: moved_def)
  moreover have "sy_issueID s \<notin> set (mappedChildIssueIDs w s)" by (simp add: mapped_children)
  ultimately show ?thesis using start_children_root [OF ch _ inv2 pfx] by simp
qed

text \<open>The end of a run.\<close>

definition not_busy :: "board \<Rightarrow> string \<Rightarrow> bool" where
  "not_busy b c \<longleftrightarrow> map_option fst (board_view b c) \<noteq> Some LocalBoardStateInProgress"

definition retry_step :: "sync_world \<Rightarrow> nat \<Rightarrow> boardIssueSyncer \<Rightarrow> go_error \<Rightarrow> string \<Rightarrow> board \<Rightarrow> board" where
  "retry_step w k s runErr c b = (case GetIssue (sy_tracker s) (sw_ctx w) (sw_env w k) b c of
      (Inl err, b1) \<Rightarrow> b1
    | (Inr issue, b1) \<Rightarrow>
        (if lb_State issue \<noteq> LocalBoardStateInProgress then b1
         else sync_comment w (k + 2) s (sync_update w (k + 1) s b1 c (retry_child w (k + 1) s)) c
                (''team '' @ sy_teamName s @ '' aborted while executing child issue: '' @ Error_text runErr)))"

lemma retry_child_view [simp]:
  "lb_State (retry_child w k s i) = LocalBoardStateRetry" "lb_ClaimedBy (retry_child w k s i) = []"
  by (simp_all add: retry_child_def)

lemma retry_step_ok:
  assumes w: "calm w" and inv: "board_inv b" and pfx: "good_prefix (lt_issuePrefix (sy_tracker s))"
  shows "board_inv (retry_step w k s err c b) \<and>
    board_view (retry_step w k s err c b) = (if not_busy b c then board_view b else (board_view b)(c \<mapsto> (LocalBoardStateRetry, [])))"
proof -
  let ?b = "snd (ensureBoardLocked (sy_tracker s) (sw_env w k) b)"
  have same: "issue_at ?b = issue_at b" by (rule issue_at_cong) simp
  have invb: "board_inv ?b" by (rule inv_ensure [OF inv pfx])
  show ?thesis
  proof (cases "issue_at b c")
    case (Some i)
    have get: "GetIssue (sy_tracker s) (sw_ctx w) (sw_env w k) b c = (Inr i, ?b)"
      using GetIssue_ok [OF inv_usable [OF inv calmD(2) [OF w]] Some] calmD(1) [OF w] by simp
    have "board_view (sync_update w (k + 1) s ?b c (retry_child w (k + 1) s)) = (board_view b)(c \<mapsto> (LocalBoardStateRetry, []))"
      using board_view_fun_upd [OF sync_update_at [OF w invb, of c i "k + 1" s "retry_child w (k + 1) s"]] Some same by simp
    moreover have "not_busy b c \<longleftrightarrow> lb_State i \<noteq> LocalBoardStateInProgress" using Some by (simp add: not_busy_def board_view_def)
    ultimately show ?thesis
      using invb pfx by (auto simp: retry_step_def get sync_comment_inv sync_update_inv)
  next
    case None
    have "snd (GetIssue (sy_tracker s) (sw_ctx w) (sw_env w k) b c) \<in> {b, ?b}" and "\<exists>e. fst (GetIssue (sy_tracker s) (sw_ctx w) (sw_env w k) b c) = Inl e"
      by (cases rule: with_issue_cases [of "sy_tracker s" "sw_ctx w" "sw_env w k" b c "\<lambda>i b'. (Inr i, b')"];
          use None in \<open>auto simp: GetIssue_def\<close>)+
    then have "retry_step w k s err c b \<in> {b, ?b}" by (auto simp: retry_step_def split: prod.splits sum.splits)
    then show ?thesis using inv invb None same by (auto simp: not_busy_def board_view_def)
  qed
qed

lemma mark_children:
  assumes w: "calm w" and pfx: "good_prefix (lt_issuePrefix (sy_tracker s))"
  shows "board_inv b \<Longrightarrow> r \<notin> set ids \<Longrightarrow>
    board_inv (markClaimedChildIssuesForRetry w k s err ids b) \<and>
    board_view (markClaimedChildIssuesForRetry w k s err ids b) r = board_view b r \<and>
    (\<forall>c. c \<in> set ids \<or> not_busy b c \<longrightarrow> not_busy (markClaimedChildIssuesForRetry w k s err ids b) c)"
proof (induction ids arbitrary: k b)
  case (Cons x ids)
  let ?b = "retry_step w k s err x b"
  have step: "markClaimedChildIssuesForRetry w k s err (x # ids) b = markClaimedChildIssuesForRetry w (k + 3) s err ids ?b"
    by (simp add: retry_step_def)
  note ok = retry_step_ok [OF w Cons.prems(1) pfx, of k err x]
  have IH: "board_inv (markClaimedChildIssuesForRetry w (k + 3) s err ids ?b) \<and>
    board_view (markClaimedChildIssuesForRetry w (k + 3) s err ids ?b) r = board_view ?b r \<and>
    (\<forall>c. c \<in> set ids \<or> not_busy ?b c \<longrightarrow> not_busy (markClaimedChildIssuesForRetry w (k + 3) s err ids ?b) c)"
    using ok Cons.prems(2) by (intro Cons.IH) auto
  have "not_busy ?b x" "not_busy b c \<Longrightarrow> not_busy ?b c" for c
    using ok by (auto simp: not_busy_def board_states)
  moreover have "board_view ?b r = board_view b r" using ok Cons.prems(2) by auto
  ultimately show ?case unfolding step using IH by auto
qed simp

text \<open>A run that ended with an error, before its pipeline reported an end.\<close>

lemma Finalize_run_error:
  assumes calm: "calm w1" and inv: "board_inv b2" and good: "good_prefix (lt_issuePrefix (sy_tracker s))"
    and v: "board_view b2 (sy_issueID s) = Some v0" and open_run: "\<not> sy_terminal s"
  shows "board_view (sync_Finalize w1 s (Some err) b2) (sy_issueID s) = Some (LocalBoardStateRetry, []) \<and>
    (\<forall>taskID c. map_of (sy_taskIssueIDs s) taskID = Some c \<and> c \<noteq> [] \<longrightarrow> not_busy (sync_Finalize w1 s (Some err) b2) c)"
proof -
  let ?r = "sy_issueID s" and ?b1 = "sync_state w1 0 s b2 RetryQueued"
  let ?b2 = "markClaimedChildIssuesForRetry w1 3 s err (mappedChildIssueIDs w1 s) ?b1"
  have inv1: "board_inv ?b1" by (rule sync_state_inv [OF inv good])
  have r1: "board_view ?b1 ?r = Some (LocalBoardStateRetry, [])"
    using sync_state_view [OF calm inv v, of RetryQueued 0] by simp
  have mark: "board_inv ?b2" "board_view ?b2 ?r = board_view ?b1 ?r" "\<And>c. c \<in> set (mappedChildIssueIDs w1 s) \<Longrightarrow> not_busy ?b2 c"
    using mark_children [OF calm good inv1, of ?r "mappedChildIssueIDs w1 s" 3 err] by (auto simp: mapped_children)
  have fin: "board_view (sync_Finalize w1 s (Some err) b2) =
      board_view (sync_update w1 1 s ?b2 ?r (final_meta w1 1 s ''retry'' ''run_error''))"
    using open_run by (simp add: sync_Finalize_def Let_def)
  have root: "board_view (sync_Finalize w1 s (Some err) b2) ?r = Some (LocalBoardStateRetry, [])"
    unfolding fin using sync_update_view [OF calm mark(1)] mark(2) r1 by simp
  have "not_busy (sync_Finalize w1 s (Some err) b2) c" if m: "map_of (sy_taskIssueIDs s) taskID = Some c" "c \<noteq> []" for taskID c
  proof (cases "c = ?r")
    case True
    then show ?thesis using root by (simp add: not_busy_def board_states)
  next
    case False
    have "taskID \<in> set (sw_range w1 (map fst (sy_taskIssueIDs s)))"
      using calmD(3) [OF calm] m(1) map_of_SomeD by force
    then have "c \<in> set (mappedChildIssueIDs w1 s)" using m False by (auto simp: mapped_children)
    then have "not_busy ?b2 c" by (rule mark(3))
    then show ?thesis unfolding not_busy_def fin using False by (simp add: sync_update_other)
  qed
  with root show ?thesis by blast
qed

text \<open>
  C18. The board follows a team run. When \<open>Start\<close> succeeds the issue is in progress and held by the team.
  After the events of the run and \<open>Finalize\<close>, handled without faults, nobody holds the issue; it is done
  when the last pipeline report says complete, in retry when it says anything else, and without a report
  done or in retry as the run returned no error or one; in the last case no child issue of the plan is
  left in progress.
\<close>

theorem board_follows_team:
  assumes "board_reach enc_len b" and "good_prefix (lt_issuePrefix (sy_tracker s))" and "\<not> sy_terminal s"
    and "sync_Start w0 s b = (Inr (), b1)" and "list_all (\<lambda>(w, ev, ts). calm w) evs" and "calm w1"
    and "handle_all s b1 evs = (s2, b2)"
  shows "board_view b1 (sy_issueID s) = Some (LocalBoardStateInProgress, ''team:'' @ sy_teamName s) \<and>
    board_view (sync_Finalize w1 s2 runErr b2) (sy_issueID s) = Some (case last_completed evs of
        Some ev \<Rightarrow> (phase_column ev, [])
      | None \<Rightarrow> (if runErr = None then LocalBoardStateDone else LocalBoardStateRetry, [])) \<and>
    (last_completed evs = None \<and> runErr \<noteq> None \<longrightarrow>
      (\<forall>taskID c. map_of (sy_taskIssueIDs s) taskID = Some c \<and> c \<noteq> [] \<longrightarrow> not_busy (sync_Finalize w1 s2 runErr b2) c))"
proof -
  let ?r = "sy_issueID s"
  have start: "board_inv b1" "board_view b1 ?r = Some (LocalBoardStateInProgress, ''team:'' @ sy_teamName s)"
    using Start_root [OF assms(4) reach_inv [OF assms(1)] assms(2)] by auto
  have inv: "board_inv b2" and s2: "s2 = s\<lparr>sy_terminal := last_completed evs \<noteq> None\<rparr>"
    and v: "board_view b2 ?r = Some (case last_completed evs of None \<Rightarrow> (LocalBoardStateInProgress, ''team:'' @ sy_teamName s) | Some ev \<Rightarrow> (phase_column ev, []))"
    using handle_all_root [OF start(1) assms(2) start(2) assms(5, 7)] assms(3) by auto
  show ?thesis
  proof (cases "last_completed evs")
    case (Some ev)
    then show ?thesis using start v s2 by (simp add: sync_Finalize_def)
  next
    case None
    then have s2: "s2 = s" using s2 assms(3) by simp
    note state = sync_state_view [OF assms(6) inv v, of _ 0]
    show ?thesis
    proof (cases runErr)
      case None
      note None' = \<open>last_completed evs = None\<close> None
      have "board_inv (sync_state w1 0 s b2 Released)" by (rule sync_state_inv [OF inv assms(2)])
      then show ?thesis
        using None' s2 start state [of Released] sync_update_view [OF assms(6)] assms(3)
        by (simp add: sync_Finalize_def Let_def)
    next
      case (Some err)
      have "board_view (sync_Finalize w1 s2 runErr b2) ?r = Some (LocalBoardStateRetry, []) \<and>
          (\<forall>taskID c. map_of (sy_taskIssueIDs s) taskID = Some c \<and> c \<noteq> [] \<longrightarrow> not_busy (sync_Finalize w1 s2 runErr b2) c)"
        unfolding s2 Some by (rule Finalize_run_error [OF assms(6) inv assms(2) v assms(3)])
      then show ?thesis using start \<open>last_completed evs = None\<close> Some by auto
    qed
  qed
qed

theorem plan_is_closed_witness:
  "distinct (map tt_ID (bp_Tasks (buildBoardTeamPlan sample_doc [sample_doc, sample_doc\<lparr>lb_ID := ''CB-2'', lb_BlockedBy := [''CB-1'']\<rparr>])))"
proof -
  have "distinct (map lb_ID [sample_doc, sample_doc\<lparr>lb_ID := ''CB-2'', lb_BlockedBy := [''CB-1'']\<rparr>])" by (simp add: sample_doc_def)
  from plan_is_closed [OF this, of sample_doc] show ?thesis unfolding Let_def by blast
qed

definition calm_world :: "time \<Rightarrow> sync_world" where
  "calm_world now = \<lparr>sw_ctx = None, sw_env = (\<lambda>_. quiet_env now []), sw_range = (\<lambda>xs. xs), sw_rfc3339 = (\<lambda>_. []), sw_enc_len = (\<lambda>_. 0)\<rparr>"

lemma calm_calm_world [simp]: "calm (calm_world now)"
  by (simp add: calm_def calm_world_def)

definition sample_syncer :: boardIssueSyncer where
  "sample_syncer = newBoardIssueSyncer sample_tracker ''CB-1'' ''alpha'' [(''003-cb-1-exec'', ''CB-1'')]"

lemma sample_syncer_simps [simp]:
  "sy_tracker sample_syncer = sample_tracker" "sy_issueID sample_syncer = ''CB-1''" "sy_teamName sample_syncer = ''alpha''"
  "sy_taskIssueIDs sample_syncer = [(''003-cb-1-exec'', ''CB-1'')]" "\<not> sy_terminal sample_syncer"
  by (simp_all add: sample_syncer_def newBoardIssueSyncer_def)

lemma sample_Start: "\<exists>b1. sync_Start (calm_world 6) sample_syncer sample_board = (Inr (), b1)"
proof -
  let ?w = "calm_world 6" and ?e = "quiet_env 6 []"
  let ?f = "\<lambda>i. Inr (start_issue ?w 0 sample_syncer i) :: LocalBoardIssue result"
  have w: "sw_ctx ?w = None" "sw_env ?w k = ?e" "sw_enc_len ?w = (\<lambda>_. 0)" for k by (simp_all add: calm_world_def)
  have inv: "board_inv sample_board" by (rule reach_inv [OF sample_board_reach])
  obtain b1 where b1: "board_exec (\<lambda>_. 0) sample_tracker None ?e (CEdit ''CB-1'' ?f) sample_board = (Inr (), b1)"
    "issue_at b1 ''CB-1'' \<noteq> None"
    using edit_calm [of sample_tracker ?e "CEdit ''CB-1'' ?f" "''CB-1''" _ sample_board sample_doc _ "\<lambda>_. 0"] inv sample_board_issue by fastforce
  have inv1: "board_inv b1"
    using inv_exec [OF inv sample_prefix, of "CEdit ''CB-1'' ?f" "\<lambda>_. 0" None ?e] b1(1) by simp
  obtain j where u: "UpdateIssue sample_tracker None ?e sample_board ''CB-1'' (Some ?f) = (Inr j, b1)"
    using b1(1) by (cases "UpdateIssue sample_tracker None ?e sample_board ''CB-1'' (Some ?f)"; cases "fst (UpdateIssue sample_tracker None ?e sample_board ''CB-1'' (Some ?f))")
      (auto simp: forget_def)
  obtain i where i: "issue_at b1 ''CB-1'' = Some i" using b1(2) by auto
  obtain b2 where b2: "board_UpdateIssueState sample_tracker None ?e b1 ''CB-1'' Claimed = (Inr (), b2)" "issue_at b2 ''CB-1'' \<noteq> None"
    using edit_calm [of sample_tracker ?e "CState ''CB-1'' Claimed" "''CB-1''" _ b1 i _ "\<lambda>_. 0"] inv1 i by fastforce
  have inv2: "board_inv b2"
    using inv_exec [OF inv1 sample_prefix, of "CState ''CB-1'' Claimed" "\<lambda>_. 0" None ?e] b2(1) by simp
  obtain i2 where "issue_at b2 ''CB-1'' = Some i2" using b2(2) by auto
  then obtain b3 where "board_PostComment (\<lambda>_. 0) sample_tracker None ?e b2 ''CB-1'' (''team alpha started execution'') = (Inr (), b3)"
    using PostComment_ok [OF inv_usable [OF inv2 faultless_quiet] faultless_quiet] by blast
  moreover have "mappedChildIssueIDs ?w sample_syncer = []" by (simp add: mappedChildIssueIDs_def calm_world_def)
  ultimately show ?thesis using u b2(1) by (simp add: sync_Start_def w)
qed

theorem board_follows_team_witness:
  "\<exists>b1 b3. sync_Start (calm_world 6) sample_syncer sample_board = (Inr (), b1) \<and>
     board_view b1 ''CB-1'' = Some (LocalBoardStateInProgress, ''team:alpha'') \<and>
     board_view b3 ''CB-1'' = Some (LocalBoardStateRetry, [])"
proof -
  let ?ev = "\<lparr>te_Type = ''pipeline_completed'', te_TeamName = ''alpha'', te_Data = [(''phase'', DStr ''failed'')]\<rparr>"
  obtain b1 where b1: "sync_Start (calm_world 6) sample_syncer sample_board = (Inr (), b1)" using sample_Start by blast
  obtain s2 b2 where h: "handle_all sample_syncer b1 [(calm_world 7, ?ev, 7)] = (s2, b2)" by (cases "handle_all sample_syncer b1 [(calm_world 7, ?ev, 7)]")
  have "last_completed [(calm_world 7, ?ev, 7)] = Some ?ev" "phase_column ?ev = LocalBoardStateRetry"
    by (simp_all add: last_completed_def completes_def phase_column_def stringFromMap_def)
  then show ?thesis
    using board_follows_team [OF sample_board_reach [of "\<lambda>_. 0"] _ _ b1 _ calm_calm_world h, of 8 None] sample_prefix b1 by auto
qed

section \<open>Draining the board\<close>

definition open_ids :: "board \<Rightarrow> string set" where
  "open_ids b = {x. column b x \<noteq> None \<and> column b x \<noteq> Some LocalBoardStateDone}"

lemma finite_open_ids: "finite (open_ids b)"
proof -
  have "open_ids b \<subseteq> (\<lambda>n. take (length n - 5) n) ` fst ` set (bd_issues b)"
  proof
    fix x assume "x \<in> open_ids b"
    then have "map_of (bd_issues b) (issue_file x) \<noteq> None"
      by (auto simp: open_ids_def column_def issue_at_def split: option.splits)
    then have "issue_file x \<in> fst ` set (bd_issues b)" by (metis map_of_eq_None_iff)
    moreover have "x = take (length (issue_file x) - 5) (issue_file x)" by (simp add: issue_file_def)
    ultimately show "x \<in> (\<lambda>n. take (length n - 5) n) ` fst ` set (bd_issues b)" by blast
  qed
  then show ?thesis by (rule finite_subset) simp
qed

text \<open>One pass, without faults, up to the call of the team.\<close>

lemma dispatch_next:
  assumes reach: "board_reach enc_len b" and pfx: "good_prefix (lt_issuePrefix t)" and e: "faultless e" and known: "blockers_known b"
  shows "case find (team_ready b (trim_space (do_TeamName opts))) (open_issues b) of
      None \<Rightarrow> dispatchNextBoardIssue enc_len t None runTeam e opts b = (Inr None, snd (ensureBoardLocked t e b))
    | Some issue \<Rightarrow> (\<exists>b3 i3. board_reach enc_len b3 \<and> blockers_known b3 \<and> issue_at b3 (lb_ID issue) = Some i3 \<and>
        team_ready b3 [] i3 \<and> column b3 = column b \<and>
        dispatchNextBoardIssue enc_len t None runTeam e opts b =
          (case runTeam (resolveTeamNameForIssue issue (do_TeamName opts)) (lb_ID issue) b3 of
             (Inl err, b4) \<Rightarrow> (Inl (Wrap (''dispatching '' @ lb_ID issue @ '' to '' @ resolveTeamNameForIssue issue (do_TeamName opts)) err), b4)
           | (Inr _, b4) \<Rightarrow> (Inr (Some (lb_ID issue, resolveTeamNameForIssue issue (do_TeamName opts))), b4)))"
proof (cases "find (team_ready b (trim_space (do_TeamName opts))) (open_issues b)")
  case None
  then show ?thesis
    by (simp add: dispatchNextBoardIssue_def FindDispatchableIssue_ok [OF reach_inv [OF reach] e known])
next
  case (Some issue)
  let ?b1 = "snd (ensureBoardLocked t e b)" and ?team = "resolveTeamNameForIssue issue (do_TeamName opts)" and ?x = "lb_ID issue"
  have inv: "board_inv b" by (rule reach_inv [OF reach])
  have same: "issue_at ?b1 = issue_at b" by (rule issue_at_cong) simp
  have reach1: "board_reach enc_len ?b1"
    using board_reach.step [OF reach pfx, of CInit None e] by (simp add: forget_def InitBoard_def)
  have "issue \<in> set (open_issues b)" using Some by (metis find_Some_iff nth_mem)
  then obtain x where "issue_at b x = Some issue" using open_issues(1) [OF inv] by auto
  with inv have at: "issue_at b ?x = Some issue" by (auto simp: board_inv_def issue_ok_def)
  obtain b2 where b2: "board_exec enc_len t None e (CAssign ?x ?team) ?b1 = (Inr (), b2)"
    "issue_at b2 = (issue_at b)(?x \<mapsto> issue\<lparr>lb_Assignee := trim_space ?team, lb_UpdatedAt := en_now e\<rparr>)"
    using edit_calm [of t e "CAssign ?x ?team" ?x _ ?b1 issue _ enc_len] reach_inv [OF reach1] e at same by fastforce
  have reach2: "board_reach enc_len b2"
    using board_reach.step [OF reach1 pfx, of "CAssign ?x ?team" None e] b2(1) by simp
  obtain j where a: "AssignIssue t None e ?b1 ?x ?team = (Inr j, b2)"
    using b2(1) by (cases "AssignIssue t None e ?b1 ?x ?team"; cases "fst (AssignIssue t None e ?b1 ?x ?team)") (auto simp: forget_def)
  obtain b3 where b3: "board_PostComment enc_len t None e b2 ?x (''dispatch requested for team '' @ ?team) = (Inr (), b3)" "issue_at b3 = issue_at b2"
    using PostComment_ok [where t = t and x = ?x, OF inv_usable [OF reach_inv [OF reach2] e] e] b2(2) by fastforce
  have reach3: "board_reach enc_len b3"
    using board_reach.step [OF reach2 pfx, of "CComment ?x (''dispatch requested for team '' @ ?team)" None e] b3(1) by simp
  have "column b3 = column b" using b3(2) b2(2) at by (auto simp: column_def fun_eq_iff)
  moreover have "blockers_known b3"
    using known at unfolding blockers_known_def b3(2) b2(2) by (auto simp: list_all_iff)
  moreover have at3: "issue_at b3 ?x = Some (issue\<lparr>lb_Assignee := trim_space ?team, lb_UpdatedAt := en_now e\<rparr>)"
    using b3(2) b2(2) by simp
  moreover have "team_ready b (trim_space (do_TeamName opts)) issue" using Some by (metis find_Some_iff)
  then have "team_ready b3 [] (issue\<lparr>lb_Assignee := trim_space ?team, lb_UpdatedAt := en_now e\<rparr>)"
    using \<open>column b3 = column b\<close> by (simp add: team_ready_def)
  moreover have "dispatchNextBoardIssue enc_len t None runTeam e opts b =
          (case runTeam ?team ?x b3 of
             (Inl err, b4) \<Rightarrow> (Inl (Wrap (''dispatching '' @ ?x @ '' to '' @ ?team) err), b4)
           | (Inr _, b4) \<Rightarrow> (Inr (Some (?x, ?team)), b4))"
    using a b3(1) by (simp add: dispatchNextBoardIssue_def FindDispatchableIssue_ok [OF inv e known] Some Let_def)
  ultimately show ?thesis using Some reach3 by (simp add: exI) blast
qed


text \<open>
  When the run of a team on a ready issue returns without an error but leaves the issue ready, as a
  failed pipeline does, which puts its issue into retry and releases it, then dispatching for any team
  until the board is empty never returns once an issue is ready.
\<close>

theorem dispatch_repeats_forever:
  assumes "board_reach enc_len b" and "good_prefix (lt_issuePrefix t)" and "\<forall>n. faultless (es n)" and "blockers_known b"
    and "\<forall>team x b i. board_reach enc_len b \<and> blockers_known b \<and> issue_at b x = Some i \<and> team_ready b [] i \<longrightarrow>
      (\<exists>b' i'. runTeam team x b = (Inr (), b') \<and> board_reach enc_len b' \<and> blockers_known b' \<and>
        issue_at b' x = Some i' \<and> team_ready b' [] i')"
    and "do_UntilEmpty opts" and "issue_at b x = Some i" and "team_ready b [] i" and "trim_space (do_TeamName opts) = []"
  shows "dispatchBoardIssues fuel enc_len t None runTeam es n opts b = None"
  using assms(1, 4, 7, 8)
proof (induction fuel arbitrary: b n x i)
  case (Suc fuel)
  let ?find = "find (team_ready b []) (open_issues b)"
  note pass = dispatch_next [OF Suc.prems(1) assms(2) assms(3) [rule_format, of n] Suc.prems(2), of runTeam opts]
  have "lb_State i \<noteq> LocalBoardStateDone" using Suc.prems(4) by (auto simp: team_ready_def board_states)
  then have "i \<in> set (open_issues b)" using open_issues(1) [OF reach_inv [OF Suc.prems(1)]] Suc.prems(3) by auto
  then obtain issue where find: "?find = Some issue" using Suc.prems(4) by (cases ?find) (auto simp: find_None_iff)
  let ?team = "resolveTeamNameForIssue issue (do_TeamName opts)" and ?x = "lb_ID issue"
  obtain b3 i3 where b3: "board_reach enc_len b3" "blockers_known b3" "issue_at b3 ?x = Some i3" "team_ready b3 [] i3"
    and run: "dispatchNextBoardIssue enc_len t None runTeam (es n) opts b = (case runTeam ?team ?x b3 of
           (Inl err, b4) \<Rightarrow> (Inl (Wrap (''dispatching '' @ ?x @ '' to '' @ ?team) err), b4)
         | (Inr _, b4) \<Rightarrow> (Inr (Some (?x, ?team)), b4))"
    using pass find assms(9) by auto
  obtain b4 j where b4: "runTeam ?team ?x b3 = (Inr (), b4)" "board_reach enc_len b4" "blockers_known b4"
    "issue_at b4 ?x = Some j" "team_ready b4 [] j"
    using assms(5) b3 by blast
  show ?case using Suc.IH [OF b4(2, 3, 4, 5), of "Suc n"] run b4(1) assms(6) by simp
qed simp

text \<open>A run that only moves its issue to a column.\<close>

definition move_run :: "LocalBoardState \<Rightarrow> string \<Rightarrow> string \<Rightarrow> board \<Rightarrow> unit result \<times> board" where
  "move_run st team x b = (Inr (), snd (board_exec (\<lambda>_. 0) sample_tracker None (quiet_env 9 []) (CMove x st) b))"

lemma move_run_ok:
  assumes reach: "board_reach (\<lambda>_. 0) b" and known: "blockers_known b" and at: "issue_at b x = Some i" and st: "st \<in> set board_columns"
  shows "\<exists>b'. move_run st team x b = (Inr (), b') \<and> board_reach (\<lambda>_. 0) b' \<and> blockers_known b' \<and>
    issue_at b' = (issue_at b)(x \<mapsto> move_to sample_tracker 9 st i)"
proof -
  let ?b = "snd (board_exec (\<lambda>_. 0) sample_tracker None (quiet_env 9 []) (CMove x st) b)"
  have at': "issue_at ?b = (issue_at b)(x \<mapsto> move_to sample_tracker 9 st i)"
    using edit_calm [of sample_tracker "quiet_env 9 []" "CMove x st" x _ b i _ "\<lambda>_. 0"] reach_inv [OF reach] at by fastforce
  moreover have "blockers_known ?b"
    using known at unfolding blockers_known_def at' by (auto simp: list_all_iff move_to_def)
  moreover have "board_reach (\<lambda>_. 0) ?b"
    by (rule board_reach.step [OF reach sample_prefix]) (simp add: st)
  ultimately show ?thesis unfolding move_run_def by blast
qed

lemma sample_issue_at: "issue_at sample_board x = Some i \<longleftrightarrow> x = ''CB-1'' \<and> i = sample_doc"
  using sample_board_issue by (auto simp: sample_board_eq issue_at_def issue_file_def split: if_splits)

lemma sample_known: "blockers_known sample_board"
  by (simp add: blockers_known_def sample_issue_at sample_doc_def sample_opts_def new_issue_def)

definition drain_opts :: boardDispatchOptions where
  "drain_opts = \<lparr>do_TeamName = [], do_UntilEmpty = True\<rparr>"


theorem dispatch_repeats_forever_witness:
  "dispatchBoardIssues 1000 (\<lambda>_. 0) sample_tracker None (move_run LocalBoardStateRetry) (\<lambda>_. quiet_env 8 []) 0 drain_opts sample_board = None"
proof -
  have run: "\<exists>b' i'. move_run LocalBoardStateRetry team x b = (Inr (), b') \<and> board_reach (\<lambda>_. 0) b' \<and> blockers_known b' \<and>
      issue_at b' x = Some i' \<and> team_ready b' [] i'"
    if b: "board_reach (\<lambda>_. 0) b \<and> blockers_known b \<and> issue_at b x = Some i \<and> team_ready b [] i" for team x b i
  proof -
    obtain b' where b': "move_run LocalBoardStateRetry team x b = (Inr (), b')" "board_reach (\<lambda>_. 0) b'" "blockers_known b'"
      "issue_at b' = (issue_at b)(x \<mapsto> move_to sample_tracker 9 LocalBoardStateRetry i)"
      using move_run_ok [of b x i LocalBoardStateRetry team] b by auto
    have "column b x \<noteq> Some LocalBoardStateDone" using b by (auto simp: column_def team_ready_def board_states)
    then have "column b y = Some LocalBoardStateDone \<Longrightarrow> column b' y = Some LocalBoardStateDone" for y
      using b'(4) by (cases "y = x") (auto simp: column_def)
    then have "team_ready b' [] (move_to sample_tracker 9 LocalBoardStateRetry i)"
      using b by (auto simp: team_ready_def move_to_def board_states list_all_iff)
    then show ?thesis using b' by auto
  qed
  have ready: "team_ready sample_board [] sample_doc"
    by (simp add: team_ready_def sample_doc_def sample_opts_def new_issue_def)
  have runs: "\<forall>team x b i. board_reach (\<lambda>_. 0) b \<and> blockers_known b \<and> issue_at b x = Some i \<and> team_ready b [] i \<longrightarrow>
      (\<exists>b' i'. move_run LocalBoardStateRetry team x b = (Inr (), b') \<and> board_reach (\<lambda>_. 0) b' \<and> blockers_known b' \<and>
      issue_at b' x = Some i' \<and> team_ready b' [] i')"
    using run by blast
  have calm: "\<forall>n::nat. faultless (quiet_env 8 [])" and opts: "do_UntilEmpty drain_opts" and team: "trim_space (do_TeamName drain_opts) = []"
    by (simp_all add: drain_opts_def trim_space_def)
  show ?thesis
    by (rule dispatch_repeats_forever [OF sample_board_reach sample_prefix calm sample_known runs opts sample_board_issue ready team])
qed

end
