(* ===== verification/Timeline.thy ===== *)
theory Timeline
  imports Team_Store Jsonl "HOL-Library.Product_Lexorder"
begin

text \<open>
  \<open>internal/timeline\<close>: the workflow timeline of an issue, an append-only file of JSON records (\<open>store.go\<close>,
  \<open>types.go\<close>), the comments rendered from it (\<open>render.go\<close>, \<open>types.go\<close>), the syncer that posts them to Linear
  (\<open>linear_syncer.go\<close>), and the records the orchestrator writes (\<open>internal/orchestrator/timeline.go\<close>).
  The files are those of \<open>Jsonl\<close>. The field
  \<open>Metadata\<close>, which the program never fills, is left out. SHA-256 of a node's encoding, the length of an encoded
  record and the texts of Linear's errors come as a \<open>codec\<close>: everything proved here holds for any of them.
  Linear itself answers calls through \<open>se_answer\<close>, by the number of calls made before.
\<close>

section \<open>Data\<close>

definition SyncTargetLinear :: string where "SyncTargetLinear = ''linear''"
definition CommentModeReplyThread :: string where "CommentModeReplyThread = ''reply_thread''"
definition CommentModeTopLevel :: string where "CommentModeTopLevel = ''top_level''"
definition NodeStatusStarted :: string where "NodeStatusStarted = ''started''"
definition NodeStatusSucceeded :: string where "NodeStatusSucceeded = ''completed''"
definition NodeStatusFailed :: string where "NodeStatusFailed = ''failed''"
definition NodeStatusNeedsReview :: string where "NodeStatusNeedsReview = ''needs_review''"
definition NodeStatusRetryQueued :: string where "NodeStatusRetryQueued = ''retry_queued''"
definition SyncStatusSynced :: string where "SyncStatusSynced = ''synced''"
definition SyncStatusFailed :: string where "SyncStatusFailed = ''failed''"

lemmas status_defs = SyncTargetLinear_def CommentModeReplyThread_def CommentModeTopLevel_def
  NodeStatusStarted_def NodeStatusSucceeded_def NodeStatusFailed_def NodeStatusNeedsReview_def
  NodeStatusRetryQueued_def SyncStatusSynced_def SyncStatusFailed_def

record WorkflowRunSummary =
  wr_IssueID :: string
  wr_IssueIdentifier :: string
  wr_RunID :: string
  wr_Attempt :: int
  wr_Status :: string
  wr_Title :: string
  wr_Summary :: string
  wr_URL :: string
  wr_StartedAt :: time
  wr_FinishedAt :: time

record WorkflowNodeSummary =
  wn_IssueID :: string
  wn_RunID :: string
  wn_NodeID :: string
  wn_Attempt :: int
  wn_Kind :: string
  wn_Status :: string
  wn_Title :: string
  wn_Body :: string
  wn_ContentHash :: string
  wn_Summary :: string
  wn_Error :: string
  wn_Syncable :: bool
  wn_StartedAt :: time
  wn_CompletedAt :: time
  wn_RuntimeMs :: int
  wn_TokensIn :: int
  wn_TokensOut :: int

record RunSyncState =
  ys_IssueID :: string
  ys_RunID :: string
  ys_Target :: string
  ys_Status :: string
  ys_CommentID :: string
  ys_CommentURL :: string
  ys_RetryAfter :: time
  ys_UpdatedAt :: time
  ys_Error :: string
  ys_LastError :: string

record NodeSyncState =
  ns_IssueID :: string
  ns_RunID :: string
  ns_NodeID :: string
  ns_Attempt :: int
  ns_Target :: string
  ns_ContentHash :: string
  ns_Status :: string
  ns_CommentID :: string
  ns_CommentURL :: string
  ns_RetryAfter :: time
  ns_UpdatedAt :: time
  ns_Error :: string
  ns_LastError :: string

text \<open>The four types of record, and any other string a file may hold.\<close>

definition recordRunUpsert :: string where "recordRunUpsert = ''run_upsert''"
definition recordNodeUpsert :: string where "recordNodeUpsert = ''node_upsert''"
definition recordRunSyncUpsert :: string where "recordRunSyncUpsert = ''run_sync_upsert''"
definition recordNodeSyncUpsert :: string where "recordNodeSyncUpsert = ''node_sync_upsert''"

lemmas record_type_defs = recordRunUpsert_def recordNodeUpsert_def recordRunSyncUpsert_def recordNodeSyncUpsert_def

record timelineRecord =
  tr_Type :: string
  tr_Timestamp :: time
  tr_RunSummary :: "WorkflowRunSummary option"
  tr_NodeSummary :: "WorkflowNodeSummary option"
  tr_RunSync :: "RunSyncState option"
  tr_NodeSync :: "NodeSyncState option"

record WorkflowTimelineSnapshot =
  sn_IssueID :: string
  sn_Runs :: "WorkflowRunSummary list"
  sn_Nodes :: "WorkflowNodeSummary list"
  sn_RunSyncStates :: "RunSyncState list"
  sn_NodeSyncStates :: "NodeSyncState list"
  sn_GeneratedAt :: time
  sn_RunsByID :: "WorkflowRunSummary fdir"
  sn_NodesByKey :: "WorkflowNodeSummary fdir"
  sn_RunSyncByID :: "RunSyncState fdir"
  sn_NodeSyncByKey :: "NodeSyncState fdir"

text \<open>The fields of a node that its content hash covers.\<close>

record node_payload =
  np_IssueID :: string
  np_RunID :: string
  np_NodeID :: string
  np_Attempt :: int
  np_Kind :: string
  np_Status :: string
  np_Title :: string
  np_Body :: string
  np_Summary :: string
  np_Error :: string
  np_TokensIn :: int
  np_TokensOut :: int

text \<open>Linear's answers: \<open>tracker.CommentRef\<close>, or an error with its wrapping.\<close>

record CommentRef =
  cr_ID :: string
  cr_URL :: string

datatype comment_error =
    ErrLinearReplyCommentsUnsupported
  | ErrLinearCommentUpdateUnsupported
  | RateLimitError duration
  | OtherCommentError string
  | CommentWrap string comment_error

fun comment_is :: "comment_error \<Rightarrow> comment_error \<Rightarrow> bool" where
  "comment_is (CommentWrap m e) t = (CommentWrap m e = t \<or> comment_is e t)"
| "comment_is e t = (e = t)"

record codec =
  cd_sha :: "node_payload \<Rightarrow> string"
  cd_len :: "timelineRecord \<Rightarrow> nat"
  cd_text :: "comment_error \<Rightarrow> string"

section \<open>Identifiers, content hash and rendering\<close>

definition RunID :: "int \<Rightarrow> string" where
  "RunID attempt = (let attempt = (if attempt \<le> 0 then 1 else attempt) in ''run:attempt-'' @ fmt_int attempt)"

definition NodeID :: "int \<Rightarrow> string \<Rightarrow> string" where
  "NodeID attempt sfx = (let
      attempt = (if attempt \<le> 0 then 1 else attempt);
      name = trim_space sfx;
      name = (if name = [] then ''unknown'' else name)
    in RunID attempt @ '':'' @ name)"

definition payload_of :: "WorkflowNodeSummary \<Rightarrow> node_payload" where
  "payload_of node = \<lparr>np_IssueID = wn_IssueID node, np_RunID = wn_RunID node, np_NodeID = wn_NodeID node,
     np_Attempt = wn_Attempt node, np_Kind = wn_Kind node, np_Status = wn_Status node, np_Title = wn_Title node,
     np_Body = wn_Body node, np_Summary = wn_Summary node, np_Error = wn_Error node,
     np_TokensIn = wn_TokensIn node, np_TokensOut = wn_TokensOut node\<rparr>"

text \<open>\<open>json.Marshal\<close> of strings and integers does not fail, so the code's fallback is never taken.\<close>

definition EnsureNodeHash :: "codec \<Rightarrow> WorkflowNodeSummary \<Rightarrow> WorkflowNodeSummary" where
  "EnsureNodeHash cd node =
     (if trim_space (wn_ContentHash node) \<noteq> [] then node
      else node\<lparr>wn_ContentHash := cd_sha cd (payload_of node)\<rparr>)"

text \<open>\<open>strings.ReplaceAll\<close> with a non-empty old string: matches do not overlap.\<close>

function ReplaceAll :: "string \<Rightarrow> string \<Rightarrow> string \<Rightarrow> string" where
  "ReplaceAll s old new =
     (if s = [] \<or> old = [] then s
      else if has_prefix s old then new @ ReplaceAll (drop (length old) s) old new
      else hd s # ReplaceAll (tl s) old new)"
  by pat_completeness auto
termination
  by (relation "measure (\<lambda>(s, old, new). length s)") auto

declare ReplaceAll.simps [simp del]

definition markerValue :: "string \<Rightarrow> string" where
  "markerValue value =
     (let v1 = ReplaceAll value [CHR 0x5C] [CHR 0x5C, CHR 0x5C];
          v2 = ReplaceAll v1 [CHR 0x22] [CHR 0x5C, CHR 0x22]
      in ReplaceAll v2 ''--'' ''- -'')"

definition nodeMarkerName :: string where
  "nodeMarkerName = ''contrabass:workflow-node''"

definition attr :: "string \<Rightarrow> string \<Rightarrow> string" where
  "attr name value = '' '' @ name @ ''='' @ [CHR 0x22] @ value @ [CHR 0x22]"

definition HiddenNodeMarker :: "WorkflowNodeSummary \<Rightarrow> string" where
  "HiddenNodeMarker node = ''<!-- '' @ nodeMarkerName
     @ attr ''issue_id'' (markerValue (wn_IssueID node))
     @ attr ''run_id'' (markerValue (wn_RunID node))
     @ attr ''node_id'' (markerValue (wn_NodeID node))
     @ attr ''attempt'' (fmt_int (wn_Attempt node))
     @ attr ''content_hash'' (markerValue (wn_ContentHash node)) @ '' -->''"

definition newline :: string where
  "newline = [CHR 0x0A]"

definition RenderNodeCommentBody :: "WorkflowNodeSummary \<Rightarrow> string" where
  "RenderNodeCommentBody node =
     ''Contrabass workflow node `'' @ wn_NodeID node @ ''` is `'' @ wn_Status node @ ''`.''
     @ (if wn_Summary node \<noteq> [] then newline @ newline @ wn_Summary node else [])
     @ newline @ newline @ HiddenNodeMarker node"

text \<open>The \<open>%q\<close> verb on ASCII strings.\<close>

definition quote_char :: "char \<Rightarrow> string" where
  "quote_char c = (let n = (of_char c :: nat) in
     if n = 34 \<or> n = 92 then [CHR 0x5C, c]
     else if n = 7 then [CHR 0x5C, CHR ''a''] else if n = 8 then [CHR 0x5C, CHR ''b'']
     else if n = 9 then [CHR 0x5C, CHR ''t''] else if n = 10 then [CHR 0x5C, CHR ''n'']
     else if n = 11 then [CHR 0x5C, CHR ''v''] else if n = 12 then [CHR 0x5C, CHR ''f'']
     else if n = 13 then [CHR 0x5C, CHR ''r'']
     else if n < 32 \<or> n = 127 then [CHR 0x5C, CHR ''x'', hex_digit (n div 16), hex_digit (n mod 16)]
     else [c])"

definition go_quote :: "string \<Rightarrow> string" where
  "go_quote s = [CHR 0x22] @ concat (map quote_char s) @ [CHR 0x22]"

definition RenderRunRootComment :: "WorkflowRunSummary \<Rightarrow> string" where
  "RenderRunRootComment run = (let
      status = trim_space (wr_Status run);
      status = (if status = [] then ''started'' else status);
      identifier = trim_space (wr_IssueIdentifier run);
      identifier = (if identifier = [] then wr_IssueID run else identifier)
    in ''Contrabass workflow run '' @ identifier @ '' (attempt '' @ fmt_int (wr_Attempt run) @ '') is '' @ status
       @ ''.'' @ newline @ newline @ ''<!-- contrabass:workflow-run issue_id='' @ go_quote (wr_IssueID run)
       @ '' run_id='' @ go_quote (wr_RunID run) @ '' -->'')"

definition RenderNodeComment :: "WorkflowNodeSummary \<Rightarrow> string" where
  "RenderNodeComment node = (let
      title = trim_space (wn_Title node);
      title = (if title = [] then wn_NodeID node else title)
    in ''Contrabass workflow node: '' @ title @ newline
       @ ''Status: '' @ wn_Status node
       @ (if 0 < wn_Attempt node then '' (attempt '' @ fmt_int (wn_Attempt node) @ '')'' else [])
       @ newline
       @ (if wn_Summary node \<noteq> [] then newline @ wn_Summary node @ newline else [])
       @ (if wn_Error node \<noteq> [] then newline @ ''Error: '' @ wn_Error node @ newline else [])
       @ (if 0 < wn_TokensIn node \<or> 0 < wn_TokensOut node
          then newline @ ''Tokens: in='' @ fmt_int (wn_TokensIn node) @ '' out='' @ fmt_int (wn_TokensOut node) @ newline
          else [])
       @ newline @ ''<!-- contrabass:workflow-node issue_id='' @ go_quote (wn_IssueID node)
       @ '' run_id='' @ go_quote (wn_RunID node) @ '' node_id='' @ go_quote (wn_NodeID node)
       @ '' content_hash='' @ go_quote (wn_ContentHash node) @ '' -->'')"

section \<open>The store\<close>

text \<open>The file of one issue.\<close>

type_synonym timeline_file = "timelineRecord json_file"

type_synonym timeline_dir = "timeline_file fdir"

text \<open>
  What a call of the store observes: the context, the clock, and by path the failures of creating and
  locking the lock file (\<open>te_lock\<close>), of opening the file for reading or appending, and of the write, which
  may have written some bytes of the line before it failed.
\<close>

record timeline_env =
  te_ctx :: "go_error option"
  te_now :: time
  te_lock :: "string \<Rightarrow> go_error option"
  te_read :: "string \<Rightarrow> go_error option"
  te_open :: "string \<Rightarrow> go_error option"
  te_write :: "string \<Rightarrow> (nat \<times> go_error) option"
  te_readdir :: "go_error option"

definition calm_env :: "time \<Rightarrow> timeline_env" where
  "calm_env now = \<lparr>te_ctx = None, te_now = now, te_lock = (\<lambda>_. None), te_read = (\<lambda>_. None),
     te_open = (\<lambda>_. None), te_write = (\<lambda>_. None), te_readdir = None\<rparr>"

definition timeline_path :: "string \<Rightarrow> string" where
  "timeline_path issueID = issueID @ ''.jsonl''"

definition nodeKey :: "WorkflowNodeSummary \<Rightarrow> string" where
  "nodeKey n = wn_IssueID n @ '':'' @ wn_RunID n @ '':'' @ wn_NodeID n @ '':'' @ fmt_int (wn_Attempt n)"

definition runSyncKey :: "RunSyncState \<Rightarrow> string" where
  "runSyncKey n = ys_IssueID n @ '':'' @ ys_RunID n @ '':'' @ ys_Target n"

definition nodeSyncKey :: "NodeSyncState \<Rightarrow> string" where
  "nodeSyncKey n = ns_IssueID n @ '':'' @ ns_RunID n @ '':'' @ ns_NodeID n @ '':'' @ fmt_int (ns_Attempt n)
     @ '':'' @ ns_Target n"

definition newSnapshot :: "string \<Rightarrow> time \<Rightarrow> WorkflowTimelineSnapshot" where
  "newSnapshot issueID now = \<lparr>sn_IssueID = issueID, sn_Runs = [], sn_Nodes = [], sn_RunSyncStates = [],
     sn_NodeSyncStates = [], sn_GeneratedAt = now, sn_RunsByID = [], sn_NodesByKey = [], sn_RunSyncByID = [],
     sn_NodeSyncByKey = []\<rparr>"

definition snapshot_apply :: "timelineRecord \<Rightarrow> WorkflowTimelineSnapshot \<Rightarrow> WorkflowTimelineSnapshot" where
  "snapshot_apply r s =
     (if tr_Type r = recordRunUpsert then (case tr_RunSummary r of None \<Rightarrow> s
        | Some v \<Rightarrow> s\<lparr>sn_RunsByID := fput (wr_RunID v) v (sn_RunsByID s)\<rparr>)
      else if tr_Type r = recordNodeUpsert then (case tr_NodeSummary r of None \<Rightarrow> s
        | Some v \<Rightarrow> s\<lparr>sn_NodesByKey := fput (nodeKey v) v (sn_NodesByKey s)\<rparr>)
      else if tr_Type r = recordRunSyncUpsert then (case tr_RunSync r of None \<Rightarrow> s
        | Some v \<Rightarrow> s\<lparr>sn_RunSyncByID := fput (runSyncKey v) v (sn_RunSyncByID s)\<rparr>)
      else if tr_Type r = recordNodeSyncUpsert then (case tr_NodeSync r of None \<Rightarrow> s
        | Some v \<Rightarrow> s\<lparr>sn_NodeSyncByKey := fput (nodeSyncKey v) v (sn_NodeSyncByKey s)\<rparr>)
      else s)"

text \<open>
  The lists of a snapshot. Go visits the maps in an arbitrary order before sorting; the order of the result
  is fixed where the sort keys differ, and nodes of one issue with the same run, node and attempt are one
  entry of the map.
\<close>

definition node_order :: "WorkflowNodeSummary \<Rightarrow> string \<times> string \<times> int" where
  "node_order n = (wn_RunID n, wn_NodeID n, wn_Attempt n)"

definition snapshot_finalize :: "WorkflowTimelineSnapshot \<Rightarrow> WorkflowTimelineSnapshot" where
  "snapshot_finalize s = s\<lparr>
     sn_Runs := sort_key wr_RunID (sn_Runs s @ map snd (sn_RunsByID s)),
     sn_Nodes := sort_key node_order (sn_Nodes s @ map snd (sn_NodesByKey s)),
     sn_RunSyncStates := sort_key runSyncKey (sn_RunSyncStates s @ map snd (sn_RunSyncByID s)),
     sn_NodeSyncStates := sort_key nodeSyncKey (sn_NodeSyncStates s @ map snd (sn_NodeSyncByKey s))\<rparr>"

fun scan_records :: "string \<Rightarrow> WorkflowTimelineSnapshot \<Rightarrow> timelineRecord json_line list \<Rightarrow> WorkflowTimelineSnapshot result" where
  "scan_records path s [] = Inr s"
| "scan_records path s (l # ls) =
     (if MaxScanTokenSize \<le> line_bytes l
      then Inl (Wrap (''scan timeline file '' @ path) (ErrMsg ''bufio.Scanner: token too long''))
      else case l of
          BadJson _ _ \<Rightarrow> scan_records path s ls
        | JsonLine _ r \<Rightarrow> scan_records path (snapshot_apply r s) ls)"

definition loadSnapshotNoLock :: "timeline_env \<Rightarrow> timeline_dir \<Rightarrow> string \<Rightarrow> WorkflowTimelineSnapshot result" where
  "loadSnapshotNoLock e d issueID = (let path = timeline_path issueID in
     case te_read e path of
       Some err \<Rightarrow> Inl (Wrap (''open timeline file '' @ path) err)
     | None \<Rightarrow> (case map_of d path of
         None \<Rightarrow> Inr (newSnapshot issueID (te_now e))
       | Some f \<Rightarrow> (case scan_records path (newSnapshot issueID (te_now e)) (file_tokens f) of
           Inl err \<Rightarrow> Inl err
         | Inr s \<Rightarrow> Inr (snapshot_finalize s))))"

definition LoadSnapshot :: "timeline_env \<Rightarrow> timeline_dir \<Rightarrow> string \<Rightarrow> WorkflowTimelineSnapshot result" where
  "LoadSnapshot e d issueID = (case te_lock e (timeline_path issueID) of
     Some err \<Rightarrow> Inl err
   | None \<Rightarrow> loadSnapshotNoLock e d issueID)"

definition Snapshot :: "timeline_env \<Rightarrow> timeline_dir \<Rightarrow> string \<Rightarrow> WorkflowTimelineSnapshot result" where
  "Snapshot e d issueID = (case te_ctx e of
     Some err \<Rightarrow> Inl err
   | None \<Rightarrow> LoadSnapshot e d issueID)"

definition ListIssueIDs :: "timeline_env \<Rightarrow> timeline_dir \<Rightarrow> string list result" where
  "ListIssueIDs e d = (case te_ctx e of
     Some err \<Rightarrow> Inl err
   | None \<Rightarrow> (case te_readdir e of
       Some err \<Rightarrow> (if errors_is err ErrNotExist then Inr [] else Inl (Wrap ''read timeline dir'' err))
     | None \<Rightarrow> Inr (sort [take (length n - 6) n. (n, v) \<leftarrow> d,
                           has_suffix n ''.jsonl'' \<and> \<not> has_suffix n ''.lock'' \<and> CHR ''/'' \<notin> set n])))"

definition node_known :: "timeline_env \<Rightarrow> timeline_dir \<Rightarrow> string \<Rightarrow> timelineRecord \<Rightarrow> bool result" where
  "node_known e d issueID r =
     (case tr_NodeSummary r of
        Some node \<Rightarrow>
          if tr_Type r = recordNodeUpsert then (case loadSnapshotNoLock e d issueID of
              Inl err \<Rightarrow> Inl err
            | Inr s \<Rightarrow> Inr (case map_of (sn_NodesByKey s) (nodeKey node) of
                None \<Rightarrow> False | Some ex \<Rightarrow> wn_ContentHash ex = wn_ContentHash node))
          else Inr False
      | None \<Rightarrow> Inr False)"

definition file_at :: "timeline_dir \<Rightarrow> string \<Rightarrow> timeline_file" where
  "file_at d path = (case map_of d path of None \<Rightarrow> empty_file | Some f \<Rightarrow> f)"

definition store_append ::
  "codec \<Rightarrow> timeline_env \<Rightarrow> timeline_dir \<Rightarrow> string \<Rightarrow> timelineRecord \<Rightarrow> unit result \<times> timeline_dir" where
  "store_append cd e d issueID r = (let path = timeline_path issueID in
     case te_lock e path of
       Some err \<Rightarrow> (Inl err, d)
     | None \<Rightarrow> (case node_known e d issueID r of
         Inl err \<Rightarrow> (Inl err, d)
       | Inr True \<Rightarrow> (Inr (), d)
       | Inr False \<Rightarrow> (case te_open e path of
           Some err \<Rightarrow> (Inl (Wrap (''open timeline file '' @ path) err), d)
         | None \<Rightarrow> (case te_write e path of
             Some (written, err) \<Rightarrow>
               (Inl (Wrap ''append timeline record'' err), fput path (torn_write (file_at d path) written (cd_len cd r) r) d)
           | None \<Rightarrow> (Inr (), fput path (write_line (file_at d path) (cd_len cd r) r) d)))))"

definition blank_record :: "string \<Rightarrow> time \<Rightarrow> timelineRecord" where
  "blank_record type now = \<lparr>tr_Type = type, tr_Timestamp = now, tr_RunSummary = None, tr_NodeSummary = None,
     tr_RunSync = None, tr_NodeSync = None\<rparr>"

definition AppendRunUpsert where
  "AppendRunUpsert cd e d issueID (summary :: WorkflowRunSummary) =
     store_append cd e d issueID ((blank_record recordRunUpsert (te_now e))\<lparr>tr_RunSummary := Some summary\<rparr>)"

definition AppendNodeUpsert where
  "AppendNodeUpsert cd e d issueID summary =
     store_append cd e d issueID ((blank_record recordNodeUpsert (te_now e))\<lparr>tr_NodeSummary := Some (EnsureNodeHash cd summary)\<rparr>)"

definition AppendRunSyncUpsert where
  "AppendRunSyncUpsert cd e d issueID state =
     store_append cd e d issueID ((blank_record recordRunSyncUpsert (te_now e))\<lparr>tr_RunSync :=
       Some (if ys_UpdatedAt state = zero_time then state\<lparr>ys_UpdatedAt := te_now e\<rparr> else state)\<rparr>)"

definition AppendNodeSyncUpsert where
  "AppendNodeSyncUpsert cd e d issueID state =
     store_append cd e d issueID ((blank_record recordNodeSyncUpsert (te_now e))\<lparr>tr_NodeSync :=
       Some (if ns_UpdatedAt state = zero_time then state\<lparr>ns_UpdatedAt := te_now e\<rparr> else state)\<rparr>)"

text \<open>The four upserts check the context first; \<open>with_ctx\<close> is that check.\<close>

definition with_ctx :: "timeline_env \<Rightarrow> timeline_dir \<Rightarrow> unit result \<times> timeline_dir \<Rightarrow> unit result \<times> timeline_dir" where
  "with_ctx e d res = (case te_ctx e of Some err \<Rightarrow> (Inl err, d) | None \<Rightarrow> res)"

definition UpsertRun where
  "UpsertRun cd e d summary = with_ctx e d (AppendRunUpsert cd e d (wr_IssueID summary) summary)"

definition UpsertNode where
  "UpsertNode cd e d summary = with_ctx e d (AppendNodeUpsert cd e d (wn_IssueID summary) summary)"

definition UpsertRunSync where
  "UpsertRunSync cd e d state = with_ctx e d (AppendRunSyncUpsert cd e d (ys_IssueID state) state)"

definition UpsertNodeSync where
  "UpsertNodeSync cd e d state = with_ctx e d (AppendNodeSyncUpsert cd e d (ns_IssueID state) state)"

end
