(* ===== verification/Timeline_Sync.thy ===== *)
theory Timeline_Sync
  imports Timeline
begin

text \<open>
  \<open>internal/timeline/linear_syncer.go\<close>: the syncer that posts the nodes of a timeline as Linear comments and
  keeps what it did in the same file, and \<open>internal/orchestrator/timeline.go\<close>: the records the orchestrator
  writes. The state of a syncer is the timeline directory, the queue of notified issues, and the calls made
  so far with Linear's answers. The world (\<open>sync_world\<close>) gives what the code observes after a number of calls:
  between two calls the clock, the context and the faults of the file system do not change.
\<close>

section \<open>Configuration and state\<close>

record LinearSyncerConfig =
  lsc_Target :: string
  lsc_Mode :: string
  lsc_AllowReplyFallback :: bool
  lsc_QueueSize :: int
  lsc_PollInterval :: duration

record LinearSyncer =
  lsy_store :: bool
  lsy_writer :: bool
  lsy_cfg :: LinearSyncerConfig

text \<open>\<open>lsy_store\<close> and \<open>lsy_writer\<close> say that the two are not nil; the queue is part of the state below.\<close>

definition NewLinearSyncer :: "bool \<Rightarrow> bool \<Rightarrow> LinearSyncerConfig \<Rightarrow> LinearSyncer" where
  "NewLinearSyncer store writer cfg = (let
      cfg = (if lsc_Target cfg = [] then cfg\<lparr>lsc_Target := SyncTargetLinear\<rparr> else cfg);
      cfg = (if lsc_Mode cfg = [] then cfg\<lparr>lsc_Mode := CommentModeReplyThread\<rparr> else cfg);
      cfg = (if lsc_QueueSize cfg \<le> 0 then cfg\<lparr>lsc_QueueSize := 100\<rparr> else cfg);
      cfg = (if lsc_PollInterval cfg \<le> 0 then cfg\<lparr>lsc_PollInterval := 5 * second_ns\<rparr> else cfg)
    in \<lparr>lsy_store = store, lsy_writer = writer, lsy_cfg = cfg\<rparr>)"

datatype writer_call =
    CreateRootComment string string
  | CreateReplyComment string string string
  | UpdateComment string string

type_synonym writer_answer = "comment_error + CommentRef"

record sync_world =
  se_env :: "nat \<Rightarrow> timeline_env"
  se_answer :: "nat \<Rightarrow> writer_call \<Rightarrow> writer_answer"

record sync_state =
  ss_dir :: timeline_dir
  ss_queue :: "string list"
  ss_calls :: "(writer_call \<times> writer_answer) list"

definition env_now :: "sync_world \<Rightarrow> sync_state \<Rightarrow> timeline_env" where
  "env_now W st = se_env W (length (ss_calls st))"

definition clock :: "sync_world \<Rightarrow> sync_state \<Rightarrow> time" where
  "clock W st = te_now (env_now W st)"

definition writer_ask :: "sync_world \<Rightarrow> writer_call \<Rightarrow> sync_state \<Rightarrow> writer_answer \<times> sync_state" where
  "writer_ask W c st = (let a = se_answer W (length (ss_calls st)) c
     in (a, st\<lparr>ss_calls := ss_calls st @ [(c, a)]\<rparr>))"

text \<open>A write to the store in the current environment.\<close>

definition on_store ::
  "(timeline_env \<Rightarrow> timeline_dir \<Rightarrow> unit result \<times> timeline_dir) \<Rightarrow> sync_world \<Rightarrow> sync_state \<Rightarrow> unit result \<times> sync_state" where
  "on_store f W st = (let (res, d) = f (env_now W st) (ss_dir st) in (res, st\<lparr>ss_dir := d\<rparr>))"

section \<open>Syncing one issue\<close>

definition nodeSyncLookupKey :: "string \<Rightarrow> string \<Rightarrow> int \<Rightarrow> string" where
  "nodeSyncLookupKey runID nodeID attempt = runID @ [CHR 0x00] @ nodeID @ [CHR 0x00] @ fmt_int attempt"

text \<open>\<open>errors.As\<close> for a rate limit: the first one along the wrapping.\<close>

fun as_rate_limit :: "comment_error \<Rightarrow> duration option" where
  "as_rate_limit (RateLimitError d) = Some d"
| "as_rate_limit (CommentWrap _ e) = as_rate_limit e"
| "as_rate_limit _ = None"

definition retryAfterTime :: "time \<Rightarrow> comment_error \<Rightarrow> time" where
  "retryAfterTime now err = (case as_rate_limit err of
     Some d \<Rightarrow> if 0 < d then now + d else zero_time
   | None \<Rightarrow> zero_time)"

definition zero_run_sync :: RunSyncState where
  "zero_run_sync = \<lparr>ys_IssueID = [], ys_RunID = [], ys_Target = [], ys_Status = [], ys_CommentID = [],
     ys_CommentURL = [], ys_RetryAfter = zero_time, ys_UpdatedAt = zero_time, ys_Error = [], ys_LastError = []\<rparr>"

definition zero_node_sync :: NodeSyncState where
  "zero_node_sync = \<lparr>ns_IssueID = [], ns_RunID = [], ns_NodeID = [], ns_Attempt = 0, ns_Target = [],
     ns_ContentHash = [], ns_Status = [], ns_CommentID = [], ns_CommentURL = [], ns_RetryAfter = zero_time,
     ns_UpdatedAt = zero_time, ns_Error = [], ns_LastError = []\<rparr>"

definition ensureRoot ::
  "codec \<Rightarrow> LinearSyncerConfig \<Rightarrow> sync_world \<Rightarrow> WorkflowRunSummary \<Rightarrow> RunSyncState \<Rightarrow> sync_state
     \<Rightarrow> RunSyncState result \<times> sync_state" where
  "ensureRoot cd cfg W run state st =
     (if ys_Status state = SyncStatusSynced \<and> ys_CommentID state \<noteq> [] then (Inr state, st)
      else if ys_RetryAfter state \<noteq> zero_time \<and> clock W st < ys_RetryAfter state then (Inr state, st)
      else
        let (answer, st) = writer_ask W (CreateRootComment (wr_IssueID run) (RenderRunRootComment run)) st;
            fresh = zero_run_sync\<lparr>ys_IssueID := wr_IssueID run, ys_RunID := wr_RunID run, ys_Target := lsc_Target cfg,
                      ys_UpdatedAt := clock W st\<rparr>;
            state = (case answer of
                Inl err \<Rightarrow> fresh\<lparr>ys_Status := SyncStatusFailed, ys_LastError := cd_text cd err,
                             ys_Error := cd_text cd err, ys_RetryAfter := retryAfterTime (clock W st) err\<rparr>
              | Inr ref \<Rightarrow> fresh\<lparr>ys_Status := SyncStatusSynced, ys_CommentID := cr_ID ref, ys_CommentURL := cr_URL ref\<rparr>);
            (res, st) = on_store (\<lambda>e d. UpsertRunSync cd e d state) W st
        in (case res of Inl err \<Rightarrow> (Inl err, st) | Inr _ \<Rightarrow> (Inr state, st)))"

definition node_sync_for :: "LinearSyncerConfig \<Rightarrow> WorkflowNodeSummary \<Rightarrow> time \<Rightarrow> NodeSyncState" where
  "node_sync_for cfg node now = zero_node_sync\<lparr>ns_IssueID := wn_IssueID node, ns_RunID := wn_RunID node,
     ns_NodeID := wn_NodeID node, ns_Attempt := wn_Attempt node, ns_Target := lsc_Target cfg,
     ns_ContentHash := wn_ContentHash node, ns_UpdatedAt := now\<rparr>"

definition markNodeSynced ::
  "codec \<Rightarrow> LinearSyncerConfig \<Rightarrow> sync_world \<Rightarrow> WorkflowNodeSummary \<Rightarrow> CommentRef \<Rightarrow> sync_state \<Rightarrow> unit result \<times> sync_state" where
  "markNodeSynced cd cfg W node ref st = on_store (\<lambda>e d. UpsertNodeSync cd e d
     ((node_sync_for cfg node (clock W st))\<lparr>ns_Status := SyncStatusSynced, ns_CommentID := cr_ID ref,
        ns_CommentURL := cr_URL ref\<rparr>)) W st"

definition markNodeFailed ::
  "codec \<Rightarrow> LinearSyncerConfig \<Rightarrow> sync_world \<Rightarrow> WorkflowNodeSummary \<Rightarrow> comment_error \<Rightarrow> sync_state \<Rightarrow> unit result \<times> sync_state" where
  "markNodeFailed cd cfg W node cause st = on_store (\<lambda>e d. UpsertNodeSync cd e d
     ((node_sync_for cfg node (clock W st))\<lparr>ns_Status := SyncStatusFailed, ns_LastError := cd_text cd cause,
        ns_Error := cd_text cd cause, ns_RetryAfter := retryAfterTime (clock W st) cause\<rparr>)) W st"

text \<open>
  \<open>post_node\<close> is the second half of \<open>syncNode\<close>, which makes a new comment: at the top level, or as a reply
  with the top level as fallback.
\<close>

definition post_node ::
  "codec \<Rightarrow> LinearSyncerConfig \<Rightarrow> sync_world \<Rightarrow> WorkflowNodeSummary \<Rightarrow> RunSyncState \<Rightarrow> sync_state \<Rightarrow> unit result \<times> sync_state" where
  "post_node cd cfg W node runState st = (let
      body = RenderNodeComment node;
      (answer, st) =
        (if lsc_Mode cfg = CommentModeTopLevel then writer_ask W (CreateRootComment (wn_IssueID node) body) st
         else let (answer, st) = writer_ask W (CreateReplyComment (wn_IssueID node) (ys_CommentID runState) body) st
              in (case answer of
                  Inl err \<Rightarrow> if comment_is err ErrLinearReplyCommentsUnsupported \<and> lsc_AllowReplyFallback cfg
                             then writer_ask W (CreateRootComment (wn_IssueID node) body) st
                             else (answer, st)
                | Inr _ \<Rightarrow> (answer, st)))
    in (case answer of
        Inl err \<Rightarrow> markNodeFailed cd cfg W node err st
      | Inr ref \<Rightarrow> markNodeSynced cd cfg W node ref st))"

definition syncNode ::
  "codec \<Rightarrow> LinearSyncerConfig \<Rightarrow> sync_world \<Rightarrow> WorkflowNodeSummary \<Rightarrow> RunSyncState \<Rightarrow> NodeSyncState \<Rightarrow> sync_state
     \<Rightarrow> unit result \<times> sync_state" where
  "syncNode cd cfg W node runState state st =
     (if ns_CommentID state \<noteq> [] \<and> ns_ContentHash state \<noteq> [] \<and> ns_ContentHash state \<noteq> wn_ContentHash node
      then let (answer, st) = writer_ask W (UpdateComment (ns_CommentID state) (RenderNodeComment node)) st
           in (case answer of
               Inr ref \<Rightarrow> markNodeSynced cd cfg W node ref st
             | Inl err \<Rightarrow> if comment_is err ErrLinearCommentUpdateUnsupported
                          then post_node cd cfg W node runState st
                          else markNodeFailed cd cfg W node err st)
      else post_node cd cfg W node runState st)"

text \<open>The maps that \<open>ProcessIssue\<close> builds from a snapshot; a later entry of a key overwrites an earlier one.\<close>

definition index_by :: "('a \<Rightarrow> string) \<Rightarrow> 'a list \<Rightarrow> 'a fdir" where
  "index_by key xs = fold (\<lambda>x. fput (key x) x) xs []"

definition runs_of :: "WorkflowTimelineSnapshot \<Rightarrow> WorkflowRunSummary fdir" where
  "runs_of s = index_by wr_RunID (sn_Runs s)"

definition run_syncs_of :: "string \<Rightarrow> WorkflowTimelineSnapshot \<Rightarrow> RunSyncState fdir" where
  "run_syncs_of target s = index_by ys_RunID (filter (\<lambda>x. ys_Target x = target) (sn_RunSyncStates s))"

definition node_syncs_of :: "string \<Rightarrow> WorkflowTimelineSnapshot \<Rightarrow> NodeSyncState fdir" where
  "node_syncs_of target s = index_by (\<lambda>x. nodeSyncLookupKey (ns_RunID x) (ns_NodeID x) (ns_Attempt x))
     (filter (\<lambda>x. ns_Target x = target) (sn_NodeSyncStates s))"

definition find_or :: "'a \<Rightarrow> 'a fdir \<Rightarrow> string \<Rightarrow> 'a" where
  "find_or z m k = (case map_of m k of None \<Rightarrow> z | Some v \<Rightarrow> v)"

definition run_for :: "WorkflowRunSummary fdir \<Rightarrow> WorkflowNodeSummary \<Rightarrow> WorkflowRunSummary" where
  "run_for runs node =
     (let made = \<lparr>wr_IssueID = wn_IssueID node, wr_IssueIdentifier = [], wr_RunID = wn_RunID node,
                  wr_Attempt = wn_Attempt node, wr_Status = wn_Status node, wr_Title = [], wr_Summary = [], wr_URL = [],
                  wr_StartedAt = wn_StartedAt node, wr_FinishedAt = zero_time\<rparr>
      in case map_of runs (wn_RunID node) of
           None \<Rightarrow> made
         | Some run \<Rightarrow> if wr_IssueID run = [] then made else run)"

definition node_settled :: "WorkflowNodeSummary \<Rightarrow> NodeSyncState \<Rightarrow> bool" where
  "node_settled node state \<longleftrightarrow> ns_Status state = SyncStatusSynced \<and> ns_ContentHash state = wn_ContentHash node"

definition must_wait :: "time \<Rightarrow> NodeSyncState \<Rightarrow> bool" where
  "must_wait now state \<longleftrightarrow> ns_RetryAfter state \<noteq> zero_time \<and> now < ns_RetryAfter state"

fun process_nodes ::
  "codec \<Rightarrow> LinearSyncerConfig \<Rightarrow> sync_world \<Rightarrow> WorkflowRunSummary fdir \<Rightarrow> NodeSyncState fdir \<Rightarrow> RunSyncState fdir
     \<Rightarrow> WorkflowNodeSummary list \<Rightarrow> sync_state \<Rightarrow> unit result \<times> sync_state" where
  "process_nodes cd cfg W runs nodeSyncs runSyncs [] st = (Inr (), st)"
| "process_nodes cd cfg W runs nodeSyncs runSyncs (n # ns) st =
     (if \<not> wn_Syncable n then process_nodes cd cfg W runs nodeSyncs runSyncs ns st
      else
        let node = EnsureNodeHash cd n;
            state = find_or zero_node_sync nodeSyncs
                      (nodeSyncLookupKey (wn_RunID node) (wn_NodeID node) (wn_Attempt node))
        in if node_settled node state \<or> must_wait (clock W st) state
           then process_nodes cd cfg W runs nodeSyncs runSyncs ns st
           else (case ensureRoot cd cfg W (run_for runs node) (find_or zero_run_sync runSyncs (wn_RunID node)) st of
               (Inl err, st') \<Rightarrow> (Inl err, st')
             | (Inr runState, st') \<Rightarrow> (case syncNode cd cfg W node runState state st' of
                   (Inl err, st'') \<Rightarrow> (Inl err, st'')
                 | (Inr _, st'') \<Rightarrow>
                     process_nodes cd cfg W runs nodeSyncs (fput (wn_RunID node) runState runSyncs) ns st'')))"

definition ProcessIssue ::
  "codec \<Rightarrow> LinearSyncer \<Rightarrow> sync_world \<Rightarrow> string \<Rightarrow> sync_state \<Rightarrow> unit result \<times> sync_state" where
  "ProcessIssue cd s W issueID st =
     (if \<not> (lsy_store s \<and> lsy_writer s) then (Inr (), st)
      else case Snapshot (env_now W st) (ss_dir st) issueID of
          Inl err \<Rightarrow> (Inl err, st)
        | Inr snap \<Rightarrow> (let target = lsc_Target (lsy_cfg s) in
            process_nodes cd (lsy_cfg s) W (runs_of snap) (node_syncs_of target snap) (run_syncs_of target snap)
              (sn_Nodes snap) st))"

section \<open>The queue and the loop\<close>

definition Notify :: "LinearSyncer \<Rightarrow> string \<Rightarrow> sync_state \<Rightarrow> sync_state" where
  "Notify s issueID st =
     (if issueID = [] then st
      else if int (length (ss_queue st)) < lsc_QueueSize (lsy_cfg s) then st\<lparr>ss_queue := ss_queue st @ [issueID]\<rparr>
      else st)"

fun drain_queue ::
  "codec \<Rightarrow> LinearSyncer \<Rightarrow> sync_world \<Rightarrow> string list \<Rightarrow> sync_state \<Rightarrow> unit result \<times> sync_state" where
  "drain_queue cd s W [] st = (Inr (), st)"
| "drain_queue cd s W (issueID # q) st = (case ProcessIssue cd s W issueID (st\<lparr>ss_queue := q\<rparr>) of
     (Inl err, st') \<Rightarrow> (Inl err, st')
   | (Inr _, st') \<Rightarrow> drain_queue cd s W q st')"

text \<open>No notification comes in while the queue is drained, as after the end of the orchestrator.\<close>

definition Drain :: "codec \<Rightarrow> LinearSyncer \<Rightarrow> sync_world \<Rightarrow> sync_state \<Rightarrow> unit result \<times> sync_state" where
  "Drain cd s W st = drain_queue cd s W (ss_queue st) st"

fun process_ids ::
  "codec \<Rightarrow> LinearSyncer \<Rightarrow> sync_world \<Rightarrow> string list \<Rightarrow> sync_state \<Rightarrow> unit result \<times> sync_state" where
  "process_ids cd s W [] st = (Inr (), st)"
| "process_ids cd s W (issueID # ids) st = (case ProcessIssue cd s W issueID st of
     (Inl err, st') \<Rightarrow> (Inl err, st')
   | (Inr _, st') \<Rightarrow> process_ids cd s W ids st')"

definition ProcessAll :: "codec \<Rightarrow> LinearSyncer \<Rightarrow> sync_world \<Rightarrow> sync_state \<Rightarrow> unit result \<times> sync_state" where
  "ProcessAll cd s W st = (case ListIssueIDs (env_now W st) (ss_dir st) of
     Inl err \<Rightarrow> (Inl err, st)
   | Inr ids \<Rightarrow> process_ids cd s W ids st)"

text \<open>
  One turn of \<open>Run\<close> for each case of its \<open>select\<close>; \<open>Got_issue\<close> only happens with a non-empty queue. The last
  \<open>Drain\<close> runs without the cancelled context. The result is None while the loop goes on.
\<close>

datatype syncer_event = Ctx_done | Got_issue | Poll_tick

definition background :: "sync_world \<Rightarrow> sync_world" where
  "background W = W\<lparr>se_env := (\<lambda>n. (se_env W n)\<lparr>te_ctx := None\<rparr>)\<rparr>"

fun syncer_turn ::
  "codec \<Rightarrow> LinearSyncer \<Rightarrow> sync_world \<Rightarrow> syncer_event \<Rightarrow> sync_state \<Rightarrow> unit result option \<times> sync_state" where
  "syncer_turn cd s W Ctx_done st = (case Drain cd s (background W) st of (res, st') \<Rightarrow> (Some res, st'))"
| "syncer_turn cd s W Got_issue st = (case ss_queue st of
      [] \<Rightarrow> (None, st)
    | issueID # q \<Rightarrow> (None, snd (ProcessIssue cd s W issueID (st\<lparr>ss_queue := q\<rparr>))))"
| "syncer_turn cd s W Poll_tick st = (None, snd (ProcessAll cd s W st))"

fun syncer_loop ::
  "codec \<Rightarrow> LinearSyncer \<Rightarrow> sync_world \<Rightarrow> syncer_event list \<Rightarrow> sync_state \<Rightarrow> unit result option \<times> sync_state" where
  "syncer_loop cd s W [] st = (None, st)"
| "syncer_loop cd s W (ev # evs) st = (case syncer_turn cd s W ev st of
     (Some res, st') \<Rightarrow> (Some res, st')
   | (None, st') \<Rightarrow> syncer_loop cd s W evs st')"

definition syncer_Run ::
  "codec \<Rightarrow> LinearSyncer \<Rightarrow> sync_world \<Rightarrow> syncer_event list \<Rightarrow> sync_state \<Rightarrow> unit result option \<times> sync_state" where
  "syncer_Run cd s W evs st =
     (if \<not> (lsy_store s \<and> lsy_writer s) then (Some (Inr ()), st) else syncer_loop cd s W evs st)"

section \<open>The records of the orchestrator\<close>

definition runStatusFromNodeStatus :: "string \<Rightarrow> string" where
  "runStatusFromNodeStatus status =
     (if status \<in> {NodeStatusSucceeded, NodeStatusFailed, NodeStatusNeedsReview, NodeStatusRetryQueued} then status
      else NodeStatusStarted)"

definition runFinishedAt :: "string \<Rightarrow> time \<Rightarrow> time" where
  "runFinishedAt status ts =
     (if status \<in> {NodeStatusSucceeded, NodeStatusFailed, NodeStatusNeedsReview} then ts else zero_time)"

fun timelineStatusForPhase :: "RunPhase \<Rightarrow> string \<times> string \<times> string" where
  "timelineStatusForPhase Succeeded = (''complete'', NodeStatusSucceeded, ''Agent run completed'')"
| "timelineStatusForPhase CanceledByReconciliation = (''failed'', NodeStatusFailed, ''Agent run canceled'')"
| "timelineStatusForPhase _ = (''failed'', NodeStatusFailed, ''Agent run failed'')"

text \<open>
  An error of the store is logged and dropped. The flag says that the orchestrator has a timeline.
\<close>

definition recordTimelineRun ::
  "codec \<Rightarrow> timeline_env \<Rightarrow> bool \<Rightarrow> timeline_dir \<Rightarrow> Issue \<Rightarrow> int \<Rightarrow> string \<Rightarrow> time \<Rightarrow> time \<Rightarrow> timeline_dir" where
  "recordTimelineRun cd e enabled d issue attempt status startedAt finishedAt =
     (if \<not> enabled \<or> is_ID issue = [] then d
      else snd (UpsertRun cd e d \<lparr>wr_IssueID = is_ID issue, wr_IssueIdentifier = is_Identifier issue,
             wr_RunID = RunID attempt, wr_Attempt = attempt, wr_Status = status, wr_Title = is_Title issue, wr_Summary = [],
             wr_URL = is_URL issue, wr_StartedAt = (if startedAt = zero_time then te_now e else startedAt),
             wr_FinishedAt = finishedAt\<rparr>))"

definition recordTimelineNode ::
  "codec \<Rightarrow> timeline_env \<Rightarrow> bool \<Rightarrow> timeline_dir \<Rightarrow> Issue \<Rightarrow> RunAttempt \<Rightarrow> string \<Rightarrow> string \<Rightarrow> string \<Rightarrow> string \<Rightarrow> string
     \<Rightarrow> bool \<Rightarrow> timeline_dir" where
  "recordTimelineNode cd e enabled d issue attempt sfx status title summary errText syncable =
     (if \<not> enabled \<or> is_ID issue = [] then d
      else let
        attemptNumber = (if ra_Attempt attempt \<le> 0 then 1 else ra_Attempt attempt);
        now = te_now e;
        runStarted = (if ra_StartTime attempt = zero_time then now else ra_StartTime attempt);
        d = recordTimelineRun cd e enabled d issue attemptNumber (runStatusFromNodeStatus status) runStarted
              (runFinishedAt status now)
      in snd (UpsertNode cd e d \<lparr>wn_IssueID = is_ID issue, wn_RunID = RunID attemptNumber,
           wn_NodeID = NodeID attemptNumber sfx, wn_Attempt = attemptNumber, wn_Kind = sfx, wn_Status = status,
           wn_Title = title, wn_Body = [], wn_ContentHash = [], wn_Summary = summary, wn_Error = errText,
           wn_Syncable = syncable, wn_StartedAt = runStarted, wn_CompletedAt = now, wn_RuntimeMs = 0,
           wn_TokensIn = ra_TokensIn attempt, wn_TokensOut = ra_TokensOut attempt\<rparr>))"

definition preAgentTimelineAttempt :: "time \<Rightarrow> Issue \<Rightarrow> int \<Rightarrow> RunPhase \<Rightarrow> go_error \<Rightarrow> RunAttempt" where
  "preAgentTimelineAttempt now issue attempt phase cause = \<lparr>ra_IssueID = is_ID issue,
     ra_IssueIdentifier = is_Identifier issue, ra_Phase = phase, ra_Attempt = attempt, ra_PID = 0, ra_StartTime = now,
     ra_TokensIn = 0, ra_TokensOut = 0, ra_SessionID = [], ra_LastEvent = [], ra_Error = Error_text cause,
     ra_WorkspacePath = [], ra_ClaimHeadSha = []\<rparr>"

definition shouldSuppressLegacyComment :: "bool \<Rightarrow> bool \<Rightarrow> bool" where
  "shouldSuppressLegacyComment suppressLinearLegacyComments isLinear \<longleftrightarrow> suppressLinearLegacyComments \<and> isLinear"

end
