(* ===== verification/Timeline_Runs.thy ===== *)
theory Timeline_Runs
  imports Timeline_Sync
begin

text \<open>
  The abstract view of a timeline, four maps that hold the last record of each key, and the lemmas that the
  store and the syncer keep it: which lines a scan reads, what an append does to the view of each issue, and
  what a long line does to both.
\<close>

section \<open>The view of a file\<close>

record timeline_view =
  tv_runs :: "string \<rightharpoonup> WorkflowRunSummary"
  tv_nodes :: "string \<rightharpoonup> WorkflowNodeSummary"
  tv_run_syncs :: "string \<rightharpoonup> RunSyncState"
  tv_node_syncs :: "string \<rightharpoonup> NodeSyncState"

definition empty_view :: timeline_view where
  "empty_view = \<lparr>tv_runs = Map.empty, tv_nodes = Map.empty, tv_run_syncs = Map.empty, tv_node_syncs = Map.empty\<rparr>"

definition snap_view :: "WorkflowTimelineSnapshot \<Rightarrow> timeline_view" where
  "snap_view s = \<lparr>tv_runs = map_of (sn_RunsByID s), tv_nodes = map_of (sn_NodesByKey s),
     tv_run_syncs = map_of (sn_RunSyncByID s), tv_node_syncs = map_of (sn_NodeSyncByKey s)\<rparr>"

lemma snap_view_simps [simp]:
  "tv_runs (snap_view s) = map_of (sn_RunsByID s)"
  "tv_nodes (snap_view s) = map_of (sn_NodesByKey s)"
  "tv_run_syncs (snap_view s) = map_of (sn_RunSyncByID s)"
  "tv_node_syncs (snap_view s) = map_of (sn_NodeSyncByKey s)"
  by (simp_all add: snap_view_def)

text \<open>What one record does to the view.\<close>

definition view_update :: "timelineRecord \<Rightarrow> timeline_view \<Rightarrow> timeline_view" where
  "view_update r v =
     (if tr_Type r = recordRunUpsert then (case tr_RunSummary r of None \<Rightarrow> v
        | Some x \<Rightarrow> v\<lparr>tv_runs := (tv_runs v)(wr_RunID x \<mapsto> x)\<rparr>)
      else if tr_Type r = recordNodeUpsert then (case tr_NodeSummary r of None \<Rightarrow> v
        | Some x \<Rightarrow> v\<lparr>tv_nodes := (tv_nodes v)(nodeKey x \<mapsto> x)\<rparr>)
      else if tr_Type r = recordRunSyncUpsert then (case tr_RunSync r of None \<Rightarrow> v
        | Some x \<Rightarrow> v\<lparr>tv_run_syncs := (tv_run_syncs v)(runSyncKey x \<mapsto> x)\<rparr>)
      else if tr_Type r = recordNodeSyncUpsert then (case tr_NodeSync r of None \<Rightarrow> v
        | Some x \<Rightarrow> v\<lparr>tv_node_syncs := (tv_node_syncs v)(nodeSyncKey x \<mapsto> x)\<rparr>)
      else v)"

lemma snap_view_apply: "snap_view (snapshot_apply r s) = view_update r (snap_view s)"
  by (simp add: snapshot_apply_def view_update_def snap_view_def split: option.split)

lemma snap_view_fold: "snap_view (fold snapshot_apply rs s) = fold view_update rs (snap_view s)"
  by (induction rs arbitrary: s) (simp_all add: snap_view_apply)

definition file_view :: "timeline_file \<Rightarrow> timeline_view" where
  "file_view f = fold view_update (file_values f) empty_view"

definition dir_view :: "timeline_dir \<Rightarrow> string \<Rightarrow> timeline_view" where
  "dir_view d issueID = file_view (file_at d (timeline_path issueID))"

abbreviation readable :: "timeline_file \<Rightarrow> bool" where
  "readable \<equiv> lines_below MaxScanTokenSize"

definition store_ok :: "timeline_dir \<Rightarrow> bool" where
  "store_ok d \<longleftrightarrow> (\<forall>path. jf_tail (file_at d path) = None \<and> readable (file_at d path))"

definition long_line :: "timeline_dir \<Rightarrow> string \<Rightarrow> bool" where
  "long_line d issueID \<longleftrightarrow> (\<exists>l\<in>set (file_tokens (file_at d (timeline_path issueID))). MaxScanTokenSize \<le> line_bytes l)"

lemma scan_readable:
  "\<forall>l\<in>set ls. line_bytes l < MaxScanTokenSize \<Longrightarrow>
     scan_records path s ls = Inr (fold snapshot_apply (concat (map line_values ls)) s)"
  by (induction path s ls rule: scan_records.induct) (auto split: json_line.split)

lemma scan_long:
  "\<exists>l\<in>set ls. MaxScanTokenSize \<le> line_bytes l \<Longrightarrow> \<exists>err. scan_records path s ls = Inl err"
proof (induction ls arbitrary: s)
  case (Cons l ls)
  show ?case
  proof (cases "MaxScanTokenSize \<le> line_bytes l")
    case False
    then have "\<exists>l\<in>set ls. MaxScanTokenSize \<le> line_bytes l" using Cons.prems by auto
    from Cons.IH [OF this] show ?thesis by (cases l) (use False in simp_all)
  qed simp
qed simp

lemma timeline_path_inj [simp]: "timeline_path i = timeline_path j \<longleftrightarrow> i = j"
  by (simp add: timeline_path_def)

lemma file_at_fput: "file_at (fput path f d) p = (if p = path then f else file_at d p)"
  by (simp add: file_at_def)

lemma file_at_Nil [simp]: "file_at [] path = empty_file"
  by (simp add: file_at_def)

lemma store_ok_Nil [simp]: "store_ok []"
  by (simp add: store_ok_def)

lemma dir_view_Nil [simp]: "dir_view [] = (\<lambda>_. empty_view)"
  by (simp add: fun_eq_iff dir_view_def file_view_def file_tokens_def)

section \<open>Loading a snapshot\<close>

text \<open>The maps of a snapshot stay sorted by key, so the lists hold each value of a map once.\<close>

definition snapshot_wf :: "WorkflowTimelineSnapshot \<Rightarrow> bool" where
  "snapshot_wf s \<longleftrightarrow> wf_dir (sn_RunsByID s) \<and> wf_dir (sn_NodesByKey s) \<and> wf_dir (sn_RunSyncByID s)
     \<and> wf_dir (sn_NodeSyncByKey s)"

lemma snapshot_wf_apply: "snapshot_wf s \<Longrightarrow> snapshot_wf (snapshot_apply r s)"
  by (simp add: snapshot_wf_def snapshot_apply_def wf_dir_fput split: option.split)

lemma snapshot_wf_fold: "snapshot_wf s \<Longrightarrow> snapshot_wf (fold snapshot_apply rs s)"
  by (induction rs arbitrary: s) (simp_all add: snapshot_wf_apply)

lemma apply_lists:
  "sn_Runs (snapshot_apply r s) = sn_Runs s" "sn_Nodes (snapshot_apply r s) = sn_Nodes s"
  "sn_RunSyncStates (snapshot_apply r s) = sn_RunSyncStates s"
  "sn_NodeSyncStates (snapshot_apply r s) = sn_NodeSyncStates s"
  by (simp_all add: snapshot_apply_def split: option.split)

lemma fold_apply_lists:
  "sn_Runs (fold snapshot_apply rs s) = sn_Runs s" "sn_Nodes (fold snapshot_apply rs s) = sn_Nodes s"
  "sn_RunSyncStates (fold snapshot_apply rs s) = sn_RunSyncStates s"
  "sn_NodeSyncStates (fold snapshot_apply rs s) = sn_NodeSyncStates s"
  by (induction rs arbitrary: s) (simp_all add: apply_lists)

lemma ran_map_of_wf: "wf_dir d \<Longrightarrow> ran (map_of d) = snd ` set d"
  by (simp add: ran_distinct wf_dir_distinct)

definition loaded :: "timeline_view \<Rightarrow> WorkflowTimelineSnapshot \<Rightarrow> bool" where
  "loaded v s \<longleftrightarrow> snap_view s = v \<and> snapshot_wf s
     \<and> sn_Runs s = sort_key wr_RunID (map snd (sn_RunsByID s))
     \<and> sn_Nodes s = sort_key node_order (map snd (sn_NodesByKey s))
     \<and> sn_RunSyncStates s = sort_key runSyncKey (map snd (sn_RunSyncByID s))
     \<and> sn_NodeSyncStates s = sort_key nodeSyncKey (map snd (sn_NodeSyncByKey s))"

lemma loaded_lists:
  assumes "loaded v s"
  shows "set (sn_Runs s) = ran (tv_runs v)" and "set (sn_Nodes s) = ran (tv_nodes v)"
    and "set (sn_RunSyncStates s) = ran (tv_run_syncs v)" and "set (sn_NodeSyncStates s) = ran (tv_node_syncs v)"
    and "sorted (map wr_RunID (sn_Runs s))" and "sorted (map node_order (sn_Nodes s))"
proof -
  have v: "tv_runs v = map_of (sn_RunsByID s)" "tv_nodes v = map_of (sn_NodesByKey s)"
    "tv_run_syncs v = map_of (sn_RunSyncByID s)" "tv_node_syncs v = map_of (sn_NodeSyncByKey s)"
    using assms by (auto simp: loaded_def simp del: snap_view_simps simp add: snap_view_simps [symmetric])
  have wf: "snapshot_wf s"
    and "sn_Runs s = sort_key wr_RunID (map snd (sn_RunsByID s))"
    and "sn_Nodes s = sort_key node_order (map snd (sn_NodesByKey s))"
    and "sn_RunSyncStates s = sort_key runSyncKey (map snd (sn_RunSyncByID s))"
    and "sn_NodeSyncStates s = sort_key nodeSyncKey (map snd (sn_NodeSyncByKey s))"
    using assms by (simp_all add: loaded_def)
  then show "set (sn_Runs s) = ran (tv_runs v)" "set (sn_Nodes s) = ran (tv_nodes v)"
    "set (sn_RunSyncStates s) = ran (tv_run_syncs v)" "set (sn_NodeSyncStates s) = ran (tv_node_syncs v)"
    "sorted (map wr_RunID (sn_Runs s))" "sorted (map node_order (sn_Nodes s))"
    by (simp_all add: v snapshot_wf_def ran_map_of_wf)
qed

lemma snap_view_finalize [simp]: "snap_view (snapshot_finalize s) = snap_view s"
  by (simp add: snap_view_def snapshot_finalize_def)

lemma snapshot_wf_finalize [simp]: "snapshot_wf (snapshot_finalize s) = snapshot_wf s"
  by (simp add: snapshot_wf_def snapshot_finalize_def)

lemma newSnapshot_facts [simp]:
  "snap_view (newSnapshot i now) = empty_view" "snapshot_wf (newSnapshot i now)"
  "sn_Runs (newSnapshot i now) = []" "sn_Nodes (newSnapshot i now) = []"
  "sn_RunSyncStates (newSnapshot i now) = []" "sn_NodeSyncStates (newSnapshot i now) = []"
  "sn_RunsByID (newSnapshot i now) = []" "sn_NodesByKey (newSnapshot i now) = []"
  "sn_RunSyncByID (newSnapshot i now) = []" "sn_NodeSyncByKey (newSnapshot i now) = []"
  by (simp_all add: newSnapshot_def snap_view_def empty_view_def snapshot_wf_def wf_dir_def)

lemma loaded_fold: "loaded (fold view_update rs empty_view) (snapshot_finalize (fold snapshot_apply rs (newSnapshot i now)))"
proof -
  let ?s = "fold snapshot_apply rs (newSnapshot i now)"
  have "snap_view ?s = fold view_update rs empty_view" by (simp add: snap_view_fold)
  moreover have "snapshot_wf ?s" by (simp add: snapshot_wf_fold)
  ultimately show ?thesis
    using fold_apply_lists [of rs "newSnapshot i now"]
    by (simp add: loaded_def) (simp add: snapshot_finalize_def)
qed

definition dir_records :: "timeline_dir \<Rightarrow> string \<Rightarrow> timelineRecord list" where
  "dir_records d i = file_values (file_at d (timeline_path i))"

lemma dir_view_records: "dir_view d i = fold view_update (dir_records d i) empty_view"
  by (simp add: dir_view_def file_view_def dir_records_def)

lemma finalize_new [simp]: "snapshot_finalize (newSnapshot i now) = newSnapshot i now"
  by (simp add: snapshot_finalize_def newSnapshot_def)

lemma load_records:
  assumes "te_read e (timeline_path i) = None" and "readable (file_at d (timeline_path i))"
  shows "loadSnapshotNoLock e d i = Inr (snapshot_finalize (fold snapshot_apply (dir_records d i) (newSnapshot i (te_now e))))"
  using assms
  by (auto simp: loadSnapshotNoLock_def Let_def lines_below_def scan_readable dir_records_def file_at_def file_values_def
      split: option.splits)

lemma load_readable:
  assumes "te_read e (timeline_path i) = None" and "readable (file_at d (timeline_path i))"
  obtains s where "loadSnapshotNoLock e d i = Inr s" and "loaded (dir_view d i) s"
  using that load_records [OF assms] loaded_fold by (simp add: dir_view_records)

lemma load_long: "long_line d i \<Longrightarrow> \<exists>err. loadSnapshotNoLock e d i = Inl err"
proof -
  assume long: "long_line d i"
  then obtain f where f: "map_of d (timeline_path i) = Some f"
    by (auto simp: long_line_def file_at_def file_tokens_def split: option.splits)
  have "\<exists>l\<in>set (file_tokens f). MaxScanTokenSize \<le> line_bytes l"
    using long f by (simp add: long_line_def file_at_def)
  from scan_long [OF this] obtain err
    where "scan_records (timeline_path i) (newSnapshot i (te_now e)) (file_tokens f) = Inl err" by blast
  then show ?thesis
    using f by (simp add: loadSnapshotNoLock_def Let_def split: option.split)
qed

section \<open>Appending\<close>

lemma store_append_long:
  "long_line d i \<Longrightarrow> long_line (snd (store_append cd e d j r)) i"
  using long_token_kept [of "file_at d (timeline_path i)" MaxScanTokenSize]
  by (auto simp: store_append_def Let_def long_line_def file_at_fput split: option.split sum.split bool.split)

text \<open>
  \<open>clean_write\<close>: a write that fails has written nothing. Then an append either fails and changes nothing,
  or adds its record to the view of its issue.
\<close>

definition clean_write :: "timeline_env \<Rightarrow> bool" where
  "clean_write e \<longleftrightarrow> (\<forall>path. case te_write e path of None \<Rightarrow> True | Some (k, _) \<Rightarrow> k = 0)"

definition short_records :: "codec \<Rightarrow> bool" where
  "short_records cd \<longleftrightarrow> (\<forall>r. cd_len cd r < MaxScanTokenSize)"

lemma file_view_write: "jf_tail f = None \<Longrightarrow> file_view (write_line f n r) = view_update r (file_view f)"
  by (simp add: file_view_def write_line_intact)

lemma store_ok_fput:
  "store_ok d \<Longrightarrow> jf_tail f = None \<Longrightarrow> readable f \<Longrightarrow> store_ok (fput path f d)"
  by (simp add: store_ok_def file_at_fput)

lemma dir_view_fput: "dir_view (fput (timeline_path i) f d) j = (if j = i then file_view f else dir_view d j)"
  by (auto simp: dir_view_def file_at_fput)

lemma fput_file_at: "dir_view (fput path (file_at d path) d) j = dir_view d j"
  by (simp add: dir_view_def file_at_fput)

definition append_spec :: "string \<Rightarrow> timelineRecord \<Rightarrow> bool \<Rightarrow> (string \<Rightarrow> timeline_view) \<Rightarrow> string \<Rightarrow> timeline_view" where
  "append_spec i r known V = (if known then V else V(i := view_update r (V i)))"

definition node_known_in :: "timelineRecord \<Rightarrow> timeline_view \<Rightarrow> bool" where
  "node_known_in r v \<longleftrightarrow> tr_Type r = recordNodeUpsert \<and>
     (case tr_NodeSummary r of None \<Rightarrow> False
      | Some n \<Rightarrow> (case tv_nodes v (nodeKey n) of None \<Rightarrow> False | Some ex \<Rightarrow> wn_ContentHash ex = wn_ContentHash n))"

lemma node_known_view:
  assumes "node_known e d i r = Inr b" and "store_ok d"
  shows "b = node_known_in r (dir_view d i)"
proof (cases "tr_Type r = recordNodeUpsert \<and> tr_NodeSummary r \<noteq> None")
  case True
  show ?thesis
  proof (cases "te_read e (timeline_path i)")
    case None
    have "readable (file_at d (timeline_path i))" using assms(2) by (simp add: store_ok_def)
    then obtain s where s: "loadSnapshotNoLock e d i = Inr s" "loaded (dir_view d i) s"
      using load_readable [OF None] by blast
    then have "map_of (sn_NodesByKey s) = tv_nodes (dir_view d i)" by (metis loaded_def snap_view_simps(2))
    then show ?thesis using assms(1) s True by (auto simp: node_known_def node_known_in_def)
  next
    case (Some err)
    then show ?thesis using assms(1) True by (auto simp: node_known_def loadSnapshotNoLock_def Let_def)
  qed
next
  case False
  then show ?thesis using assms(1) by (auto simp: node_known_def node_known_in_def split: option.splits)
qed

lemma store_append_Inr:
  assumes "store_append cd e d i r = (Inr (), d')" and "store_ok d" and "short_records cd"
  shows "store_ok d' \<and> dir_view d' = append_spec i r (node_known_in r (dir_view d i)) (dir_view d)"
proof -
  let ?p = "timeline_path i"
  obtain b where b: "node_known e d i r = Inr b"
    using assms(1) by (auto simp: store_append_def Let_def split: option.splits sum.splits)
  note known = node_known_view [OF b assms(2)]
  show ?thesis
  proof (cases b)
    case True
    then have "d' = d" using assms(1) b by (auto simp: store_append_def Let_def split: option.splits)
    then show ?thesis using True known assms(2) by (simp add: append_spec_def)
  next
    case False
    then have d': "d' = fput ?p (write_line (file_at d ?p) (cd_len cd r) r) d"
      using assms(1) b by (auto simp: store_append_def Let_def split: option.splits)
    have "jf_tail (file_at d ?p) = None" "readable (file_at d ?p)" using assms(2) by (auto simp: store_ok_def)
    then show ?thesis
      using assms(2,3) False known write_line_intact [of "file_at d ?p"] file_view_write [of "file_at d ?p"]
      by (auto simp: d' store_ok_fput short_records_def lines_below_write fun_eq_iff dir_view_fput append_spec_def) (simp add: dir_view_def)
  qed
qed

lemma store_append_Inl:
  assumes "store_append cd e d i r = (Inl err, d')" and "store_ok d" and "clean_write e"
  shows "store_ok d' \<and> dir_view d' = dir_view d"
proof -
  have "d' = d \<or> d' = fput (timeline_path i) (file_at d (timeline_path i)) d"
    using assms(1,3)
    by (auto simp: store_append_def Let_def clean_write_def split: option.splits sum.splits bool.splits) (metis case_prodD option.simps(5) torn_write_0)
  then show ?thesis
    using assms(2) by (auto simp: fun_eq_iff fput_file_at store_ok_fput store_ok_def [of d] intro: store_ok_fput)
qed

section \<open>Upserts\<close>

text \<open>The four operations as commands, and their abstract counterparts on the view of the issue.\<close>

datatype upsert = Up_run WorkflowRunSummary | Up_node WorkflowNodeSummary
  | Up_run_sync RunSyncState | Up_node_sync NodeSyncState

fun upsert_issue :: "upsert \<Rightarrow> string" where
  "upsert_issue (Up_run x) = wr_IssueID x"
| "upsert_issue (Up_node x) = wn_IssueID x"
| "upsert_issue (Up_run_sync x) = ys_IssueID x"
| "upsert_issue (Up_node_sync x) = ns_IssueID x"

fun upsert_exec :: "codec \<Rightarrow> timeline_env \<Rightarrow> timeline_dir \<Rightarrow> upsert \<Rightarrow> unit result \<times> timeline_dir" where
  "upsert_exec cd e d (Up_run x) = UpsertRun cd e d x"
| "upsert_exec cd e d (Up_node x) = UpsertNode cd e d x"
| "upsert_exec cd e d (Up_run_sync x) = UpsertRunSync cd e d x"
| "upsert_exec cd e d (Up_node_sync x) = UpsertNodeSync cd e d x"

fun upsert_spec :: "codec \<Rightarrow> time \<Rightarrow> upsert \<Rightarrow> timeline_view \<Rightarrow> timeline_view" where
  "upsert_spec cd now (Up_run x) v = v\<lparr>tv_runs := (tv_runs v)(wr_RunID x \<mapsto> x)\<rparr>"
| "upsert_spec cd now (Up_node x) v = (let n = EnsureNodeHash cd x in
     case tv_nodes v (nodeKey n) of
       Some ex \<Rightarrow> if wn_ContentHash ex = wn_ContentHash n then v else v\<lparr>tv_nodes := (tv_nodes v)(nodeKey n \<mapsto> n)\<rparr>
     | None \<Rightarrow> v\<lparr>tv_nodes := (tv_nodes v)(nodeKey n \<mapsto> n)\<rparr>)"
| "upsert_spec cd now (Up_run_sync x) v = (let x = (if ys_UpdatedAt x = zero_time then x\<lparr>ys_UpdatedAt := now\<rparr> else x)
     in v\<lparr>tv_run_syncs := (tv_run_syncs v)(runSyncKey x \<mapsto> x)\<rparr>)"
| "upsert_spec cd now (Up_node_sync x) v = (let x = (if ns_UpdatedAt x = zero_time then x\<lparr>ns_UpdatedAt := now\<rparr> else x)
     in v\<lparr>tv_node_syncs := (tv_node_syncs v)(nodeSyncKey x \<mapsto> x)\<rparr>)"

lemmas upsert_defs = UpsertRun_def UpsertNode_def UpsertRunSync_def UpsertNodeSync_def
  AppendRunUpsert_def AppendNodeUpsert_def AppendRunSyncUpsert_def AppendNodeSyncUpsert_def with_ctx_def

lemma EnsureNodeHash_id [simp]: "wn_IssueID (EnsureNodeHash cd n) = wn_IssueID n"
  "wn_RunID (EnsureNodeHash cd n) = wn_RunID n" "wn_NodeID (EnsureNodeHash cd n) = wn_NodeID n"
  "wn_Attempt (EnsureNodeHash cd n) = wn_Attempt n" "wn_Syncable (EnsureNodeHash cd n) = wn_Syncable n"
  "nodeKey (EnsureNodeHash cd n) = nodeKey n"
  by (simp_all add: EnsureNodeHash_def nodeKey_def)

fun upsert_record :: "codec \<Rightarrow> time \<Rightarrow> upsert \<Rightarrow> timelineRecord" where
  "upsert_record cd now (Up_run x) = (blank_record recordRunUpsert now)\<lparr>tr_RunSummary := Some x\<rparr>"
| "upsert_record cd now (Up_node x) = (blank_record recordNodeUpsert now)\<lparr>tr_NodeSummary := Some (EnsureNodeHash cd x)\<rparr>"
| "upsert_record cd now (Up_run_sync x) = (blank_record recordRunSyncUpsert now)\<lparr>tr_RunSync :=
     Some (if ys_UpdatedAt x = zero_time then x\<lparr>ys_UpdatedAt := now\<rparr> else x)\<rparr>"
| "upsert_record cd now (Up_node_sync x) = (blank_record recordNodeSyncUpsert now)\<lparr>tr_NodeSync :=
     Some (if ns_UpdatedAt x = zero_time then x\<lparr>ns_UpdatedAt := now\<rparr> else x)\<rparr>"

lemma upsert_exec_append:
  "upsert_exec cd e d u = (case te_ctx e of Some err \<Rightarrow> (Inl err, d)
     | None \<Rightarrow> store_append cd e d (upsert_issue u) (upsert_record cd (te_now e) u))"
  by (cases u) (simp_all add: upsert_defs split: option.split)

lemma append_spec_upsert:
  "append_spec i (upsert_record cd now u) (node_known_in (upsert_record cd now u) (V i)) V
     = V(i := upsert_spec cd now u (V i))"
  by (cases u)
     (auto simp: append_spec_def node_known_in_def view_update_def blank_record_def record_type_defs Let_def fun_eq_iff
       split: option.split)

lemma upsert_Inr:
  assumes "upsert_exec cd e d u = (Inr (), d')" and "store_ok d" and "short_records cd"
  shows "store_ok d'"
    and "dir_view d' = (dir_view d)(upsert_issue u := upsert_spec cd (te_now e) u (dir_view d (upsert_issue u)))"
proof -
  have "store_append cd e d (upsert_issue u) (upsert_record cd (te_now e) u) = (Inr (), d')"
    using assms(1) by (simp add: upsert_exec_append split: option.splits)
  note step = store_append_Inr [OF this assms(2,3)]
  then show "store_ok d'" by simp
  show "dir_view d' = (dir_view d)(upsert_issue u := upsert_spec cd (te_now e) u (dir_view d (upsert_issue u)))"
    using step append_spec_upsert [of "upsert_issue u" cd "te_now e" u "dir_view d"] by simp
qed

lemma upsert_Inl:
  "upsert_exec cd e d u = (Inl err, d') \<Longrightarrow> store_ok d \<Longrightarrow> clean_write e \<Longrightarrow> store_ok d' \<and> dir_view d' = dir_view d"
  using store_append_Inl [of cd e d "upsert_issue u" "upsert_record cd (te_now e) u" err d']
  by (auto simp: upsert_exec_append split: option.splits)

lemma upsert_long: "long_line d i \<Longrightarrow> long_line (snd (upsert_exec cd e d u)) i"
  by (simp add: upsert_exec_append store_append_long split: option.split)

text \<open>Without faults an upsert succeeds.\<close>

definition calm :: "timeline_env \<Rightarrow> bool" where
  "calm e \<longleftrightarrow> te_ctx e = None \<and> (\<forall>p. te_lock e p = None \<and> te_read e p = None \<and> te_open e p = None \<and> te_write e p = None)"

lemma calm_clean: "calm e \<Longrightarrow> clean_write e"
  by (simp add: calm_def clean_write_def)

lemma upsert_calm:
  assumes "calm e" and "store_ok d"
  obtains d' where "upsert_exec cd e d u = (Inr (), d')"
proof -
  have "\<exists>b. node_known e d i r = Inr b" for i r
  proof -
    have "te_read e (timeline_path i) = None" "readable (file_at d (timeline_path i))"
      using assms by (simp_all add: calm_def store_ok_def)
    then obtain s where "loadSnapshotNoLock e d i = Inr s" by (rule load_readable)
    then show ?thesis by (auto simp: node_known_def split: option.split)
  qed
  then obtain b where "node_known e d (upsert_issue u) (upsert_record cd (te_now e) u) = Inr b" by blast
  then show ?thesis
    using assms(1) that by (cases b) (auto simp: upsert_exec_append store_append_def calm_def Let_def)
qed

section \<open>Relations kept by every step of the syncer\<close>

text \<open>
  Everything the syncer does is made of calls on Linear and upserts. A reflexive and transitive relation
  that both kinds of step establish holds between the states before and after each of its operations.
\<close>

fun is_sync :: "upsert \<Rightarrow> bool" where
  "is_sync (Up_run_sync _) = True"
| "is_sync (Up_node_sync _) = True"
| "is_sync _ = False"

locale syncer_relation =
  fixes cd :: codec and W :: sync_world and R :: "sync_state \<Rightarrow> sync_state \<Rightarrow> bool"
  assumes R_refl: "R st st"
    and R_trans: "R s t \<Longrightarrow> R t u \<Longrightarrow> R s u"
    and R_ask: "R st (snd (writer_ask W c st))"
    and R_store: "is_sync x \<Longrightarrow> R st (snd (on_store (\<lambda>e d. upsert_exec cd e d x) W st))"
begin

lemma ask: "writer_ask W c st = (a, st') \<Longrightarrow> R st st'"
  using R_ask [of st c] by simp

lemma store_run: "on_store (\<lambda>e d. UpsertRunSync cd e d x) W st = (a, st') \<Longrightarrow> R st st'"
  using R_store [of "Up_run_sync x" st] by simp

lemma store_node: "on_store (\<lambda>e d. UpsertNodeSync cd e d x) W st = (a, st') \<Longrightarrow> R st st'"
  using R_store [of "Up_node_sync x" st] by simp

lemma mark_synced: "markNodeSynced cd cfg W node ref st = (a, st') \<Longrightarrow> R st st'"
  by (simp add: markNodeSynced_def store_node)

lemma mark_failed: "markNodeFailed cd cfg W node cause st = (a, st') \<Longrightarrow> R st st'"
  by (simp add: markNodeFailed_def store_node)

lemma root: "ensureRoot cd cfg W run state st = (a, st') \<Longrightarrow> R st st'"
  by (auto simp: ensureRoot_def Let_def R_refl split: if_splits prod.splits sum.splits
      intro: R_trans [OF ask store_run] R_trans dest!: ask store_run)

lemma post: "post_node cd cfg W node rs st = (a, st') \<Longrightarrow> R st st'"
  by (auto simp: post_node_def Let_def split: if_splits prod.splits sum.splits
      dest!: ask mark_synced mark_failed intro: R_trans)

lemma sync_node: "syncNode cd cfg W node rs state st = (a, st') \<Longrightarrow> R st st'"
  by (auto simp: syncNode_def Let_def split: if_splits prod.splits sum.splits
      dest!: ask mark_synced mark_failed post intro: R_trans)

lemma nodes: "process_nodes cd cfg W runs nss rss ns st = (a, st') \<Longrightarrow> R st st'"
proof (induction ns arbitrary: rss st)
  case (Cons n ns)
  then show ?case
    by (auto simp: Let_def split: if_splits prod.splits sum.splits dest!: root sync_node intro: R_trans)
qed (simp add: R_refl)

lemma issue: "ProcessIssue cd s W i st = (a, st') \<Longrightarrow> R st st'"
  by (auto simp: ProcessIssue_def Let_def R_refl split: if_splits sum.splits dest!: nodes)

lemma ids: "process_ids cd s W is st = (a, st') \<Longrightarrow> R st st'"
proof (induction "is" arbitrary: st)
  case (Cons i "is")
  then show ?case by (auto split: prod.splits sum.splits dest!: issue intro: R_trans)
qed (simp add: R_refl)

lemma all_issues: "ProcessAll cd s W st = (a, st') \<Longrightarrow> R st st'"
  by (auto simp: ProcessAll_def R_refl split: sum.splits dest!: ids)

end

text \<open>Long lines stay, and the calls made are never forgotten.\<close>

lemma on_store_dir: "ss_dir (snd (on_store f W st)) = snd (f (env_now W st) (ss_dir st))"
  and on_store_calls: "ss_calls (snd (on_store f W st)) = ss_calls st"
  and on_store_fst: "fst (on_store f W st) = fst (f (env_now W st) (ss_dir st))"
  by (simp_all add: on_store_def split: prod.split)

lemma writer_ask_simps [simp]:
  "ss_dir (snd (writer_ask W c st)) = ss_dir st"
  "fst (writer_ask W c st) = se_answer W (length (ss_calls st)) c"
  "ss_calls (snd (writer_ask W c st)) = ss_calls st @ [(c, se_answer W (length (ss_calls st)) c)]"
  by (simp_all add: writer_ask_def Let_def)

interpretation long_kept: syncer_relation cd W "\<lambda>st st'. \<forall>i. long_line (ss_dir st) i \<longrightarrow> long_line (ss_dir st') i" for cd W
  by unfold_locales (auto simp: on_store_dir upsert_long)

interpretation calls_kept: syncer_relation cd W "\<lambda>st st'. \<exists>new. ss_calls st' = ss_calls st @ new" for cd W
  by unfold_locales (auto simp: on_store_calls)

section \<open>Sample values\<close>

definition sample_codec :: codec where
  "sample_codec = \<lparr>cd_sha = (\<lambda>p. np_Status p), cd_len = (\<lambda>_. 100), cd_text = (\<lambda>_. ''error'')\<rparr>"

definition sample_node :: WorkflowNodeSummary where
  "sample_node = \<lparr>wn_IssueID = ''i'', wn_RunID = ''r'', wn_NodeID = ''n'', wn_Attempt = 1, wn_Kind = [],
     wn_Status = ''started'', wn_Title = [], wn_Body = [], wn_ContentHash = ''h'', wn_Summary = [], wn_Error = [],
     wn_Syncable = True, wn_StartedAt = 1, wn_CompletedAt = 2, wn_RuntimeMs = 0, wn_TokensIn = 0, wn_TokensOut = 0\<rparr>"

definition sample_record :: timelineRecord where
  "sample_record = (blank_record recordNodeUpsert 3)\<lparr>tr_NodeSummary := Some sample_node\<rparr>"

definition sample_timeline :: timeline_dir where
  "sample_timeline = [(''i.jsonl'', \<lparr>jf_lines = [JsonLine 100 sample_record], jf_tail = None\<rparr>)]"

definition timeline_world :: sync_world where
  "timeline_world = \<lparr>se_env = (\<lambda>_. calm_env 9), se_answer = (\<lambda>_ _. Inr \<lparr>cr_ID = ''c'', cr_URL = ''u''\<rparr>)\<rparr>"

definition sample_sync :: "timeline_dir \<Rightarrow> sync_state" where
  "sample_sync d = \<lparr>ss_dir = d, ss_queue = [], ss_calls = []\<rparr>"

definition linear_sample :: LinearSyncer where
  "linear_sample = NewLinearSyncer True True
     \<lparr>lsc_Target = [], lsc_Mode = [], lsc_AllowReplyFallback = True, lsc_QueueSize = 0, lsc_PollInterval = 0\<rparr>"

lemma calm_calm_env [simp]: "calm (calm_env now)"
  by (simp add: calm_def calm_env_def)

lemma short_sample [simp]: "short_records sample_codec"
  by (simp add: short_records_def sample_codec_def MaxScanTokenSize_def)

lemma linear_sample_simps [simp]: "lsy_store linear_sample" "lsy_writer linear_sample"
  by (simp_all add: linear_sample_def NewLinearSyncer_def Let_def)

lemma sample_sync_simps [simp]: "ss_dir (sample_sync d) = d" "ss_calls (sample_sync d) = []"
  by (simp_all add: sample_sync_def)

lemma sample_timeline_ok: "store_ok sample_timeline"
  by (auto simp: store_ok_def sample_timeline_def file_at_def lines_below_def file_tokens_def MaxScanTokenSize_def)

lemma sample_view: "dir_view sample_timeline ''i'' = empty_view\<lparr>tv_nodes := [nodeKey sample_node \<mapsto> sample_node]\<rparr>"
  by (simp add: dir_view_records dir_records_def sample_timeline_def file_at_def timeline_path_def file_values_def file_tokens_def
      sample_record_def view_update_def blank_record_def record_type_defs empty_view_def)

end
