(* ===== verification/Timeline_Props.thy ===== *)
theory Timeline_Props
  imports Timeline_Runs
begin

text \<open>
  What the timeline promises: its snapshots are the last records of each key, a syncer without faults posts
  every node once, and what torn writes, long records and failed updates do to that.
\<close>

section \<open>Snapshots hold the last records\<close>

text \<open>A run of upserts with the environment of each, the outcomes, and the abstract run of those that succeeded.\<close>

fun timeline_run :: "codec \<Rightarrow> (timeline_env \<times> upsert) list \<Rightarrow> timeline_dir \<Rightarrow> bool list \<times> timeline_dir" where
  "timeline_run cd [] d = ([], d)"
| "timeline_run cd ((e, u) # us) d = (case upsert_exec cd e d u of (res, d') \<Rightarrow>
     (case timeline_run cd us d' of (oks, d'') \<Rightarrow> ((\<not> isl res) # oks, d'')))"

fun view_run :: "codec \<Rightarrow> (timeline_env \<times> upsert) list \<Rightarrow> bool list \<Rightarrow> (string \<Rightarrow> timeline_view) \<Rightarrow> string \<Rightarrow> timeline_view" where
  "view_run cd ((e, u) # us) (ok # oks) V = view_run cd us oks
     (if ok then V(upsert_issue u := upsert_spec cd (te_now e) u (V (upsert_issue u))) else V)"
| "view_run cd _ _ V = V"

lemma timeline_run_view:
  assumes "store_ok d" and "short_records cd" and "\<forall>(e, u)\<in>set us. clean_write e"
  shows "store_ok (snd (timeline_run cd us d))
       \<and> dir_view (snd (timeline_run cd us d)) = view_run cd us (fst (timeline_run cd us d)) (dir_view d)"
  using assms(1,3)
proof (induction us arbitrary: d)
  case (Cons eu us)
  obtain e u where eu: "eu = (e, u)" by (cases eu)
  obtain res d' where step: "upsert_exec cd e d u = (res, d')" by (cases "upsert_exec cd e d u")
  have clean: "clean_write e" using Cons.prems(2) eu by simp
  have "store_ok d' \<and> dir_view d' = (if \<not> isl res then (dir_view d)(upsert_issue u := upsert_spec cd (te_now e) u
      (dir_view d (upsert_issue u))) else dir_view d)"
  proof (cases res)
    case (Inl err)
    then show ?thesis using upsert_Inl [OF _ Cons.prems(1) clean] step by auto
  next
    case (Inr x)
    then show ?thesis using upsert_Inr [OF _ Cons.prems(1) assms(2)] step by auto
  qed
  then show ?case
    using Cons.IH [of d'] Cons.prems(2) eu step by (auto split: prod.split)
qed simp



section \<open>Torn writes\<close>

text \<open>
  After a write to a timeline that failed with a part of the line on disk, the next record is reported as
  written and is lost: every snapshot reads as it did before both, the torn record and the acknowledged one
  missing.
\<close>

theorem torn_write_loses_next_record:
  assumes "store_ok d" and "te_write e1 (timeline_path i) = Some (k, err)" and "0 < k"
    and "store_append cd e1 d i r1 = (Inl err', d1)" and "d1 \<noteq> d"
    and "calm e2" and "node_known e2 d1 i r2 = Inr False"
    and "cd_len cd r1 + k + cd_len cd r2 < MaxScanTokenSize"
  shows "\<exists>d2. store_append cd e2 d1 i r2 = (Inr (), d2) \<and> (\<forall>e. Snapshot e d2 i = Snapshot e d i)"
proof -
  let ?p = "timeline_path i" and ?f = "file_at d (timeline_path i)"
  let ?t = "torn_write ?f k (cd_len cd r1) r1"
  have d1: "d1 = fput ?p ?t d"
    using assms(2,4,5) by (auto simp: store_append_def Let_def split: option.splits sum.splits bool.splits)
  define d2 where "d2 = fput ?p (write_line ?t (cd_len cd r2) r2) d1"
  have append: "store_append cd e2 d1 i r2 = (Inr (), d2)"
    using assms(6,7) by (simp add: store_append_def Let_def calm_def d2_def d1 file_at_fput)
  have f: "jf_tail ?f = None" "readable ?f" using assms(1) by (auto simp: store_ok_def)
  have "line_bytes (end_line ?t (cd_len cd r2) r2) < MaxScanTokenSize"
    using assms(3,8) f(1) by (auto simp: torn_write_def end_line_def)
  then have "readable (write_line ?t (cd_len cd r2) r2)"
    using f(2) torn_then_written(2) [OF f(1) assms(3), of "cd_len cd r1" r1 "cd_len cd r2" r2] by (simp add: lines_below_def)
  moreover have "file_at d2 ?p = write_line ?t (cd_len cd r2) r2" by (simp add: d2_def file_at_fput)
  ultimately have "readable (file_at d2 ?p)" "dir_records d2 i = dir_records d i"
    using torn_then_written(1) [OF f(1) assms(3)] by (simp_all add: dir_records_def)
  then have "loadSnapshotNoLock e d2 i = loadSnapshotNoLock e d i" for e
    using load_records [of e i] f(2)
    by (cases "te_read e ?p") (auto simp: loadSnapshotNoLock_def Let_def)
  then show ?thesis using append by (auto simp: Snapshot_def LoadSnapshot_def split: option.split)
qed

theorem torn_write_loses_next_record_witness:
  "let e1 = (calm_env 5)\<lparr>te_write := \<lambda>_. Some (40, ErrIO ''no space left'')\<rparr>;
       r = (blank_record recordRunUpsert 5);
       d1 = snd (store_append sample_codec e1 [] ''i'' r)
   in \<exists>d2. store_append sample_codec (calm_env 6) d1 ''i'' r = (Inr (), d2) \<and> (\<forall>e. Snapshot e d2 ''i'' = Snapshot e [] ''i'')"
proof -
  let ?e = "(calm_env 5)\<lparr>te_write := \<lambda>_. Some (40, ErrIO ''no space left'')\<rparr>" and ?r = "blank_record recordRunUpsert 5"
  let ?d = "[(''i.jsonl'', \<lparr>jf_lines = [], jf_tail = Some (BadJson 40 ErrSyntax)\<rparr>)]"
  have known: "node_known e d ''i'' ?r = Inr False" for e d by (simp add: node_known_def blank_record_def)
  have torn: "store_append sample_codec ?e [] ''i'' ?r = (Inl (Wrap ''append timeline record'' (ErrIO ''no space left'')), ?d)"
    by (simp add: store_append_def known calm_env_def timeline_path_def torn_write_def sample_codec_def)
  have "\<exists>d2. store_append sample_codec (calm_env 6) ?d ''i'' ?r = (Inr (), d2) \<and> (\<forall>e. Snapshot e d2 ''i'' = Snapshot e [] ''i'')"
    by (rule torn_write_loses_next_record [OF store_ok_Nil _ _ torn, where k = 40 and err = "ErrIO ''no space left''"])
       (simp_all add: known sample_codec_def MaxScanTokenSize_def)
  then show ?thesis unfolding Let_def torn by simp
qed

section \<open>Long records\<close>

lemma Snapshot_long: "long_line d i \<Longrightarrow> \<exists>err. Snapshot e d i = Inl err"
  using load_long by (auto simp: Snapshot_def LoadSnapshot_def split: option.split)

lemma ProcessIssue_long:
  assumes "long_line (ss_dir st) i" and "lsy_store s" and "lsy_writer s"
  shows "\<exists>err. ProcessIssue cd s W i st = (Inl err, st)"
proof -
  obtain err where "Snapshot (env_now W st) (ss_dir st) i = Inl err" using Snapshot_long [OF assms(1)] by blast
  then show ?thesis using assms(2,3) by (simp add: ProcessIssue_def)
qed

lemma process_ids_append:
  "process_ids cd s W (xs @ ys) st = (case process_ids cd s W xs st of
     (Inl err, st') \<Rightarrow> (Inl err, st')
   | (Inr _, st') \<Rightarrow> process_ids cd s W ys st')"
  by (induction xs arbitrary: st) (auto split: prod.split sum.split)

text \<open>
  One record of 64 KiB or more in the timeline of an issue stops the polling syncer there: every poll ends
  with an error at that issue, after the issues before it and without a look at those after it, and leaves
  the long record in place, whose issue accepts no further node.
\<close>

theorem long_record_stops_polling:
  assumes "long_line (ss_dir st) i" and "lsy_store s" and "lsy_writer s"
    and "ListIssueIDs (env_now W st) (ss_dir st) = Inr (before @ i # after)"
  shows "(\<exists>err. fst (ProcessAll cd s W st) = Inl err)
       \<and> snd (ProcessAll cd s W st) = snd (process_ids cd s W before st)
       \<and> long_line (ss_dir (snd (ProcessAll cd s W st))) i
       \<and> (\<forall>e n. wn_IssueID n = i \<longrightarrow> (\<exists>err. UpsertNode cd e (ss_dir (snd (ProcessAll cd s W st))) n
              = (Inl err, ss_dir (snd (ProcessAll cd s W st)))))"
proof -
  obtain res st' where pre: "process_ids cd s W before st = (res, st')" by (cases "process_ids cd s W before st")
  have long: "long_line (ss_dir st') i" using long_kept.ids [OF pre] assms(1) by blast
  obtain err where stop: "ProcessIssue cd s W i st' = (Inl err, st')"
    using ProcessIssue_long [OF long assms(2,3)] by blast
  have all: "snd (ProcessAll cd s W st) = st'" "\<exists>err. fst (ProcessAll cd s W st) = Inl err"
    using pre stop by (auto simp: ProcessAll_def assms(4) process_ids_append split: sum.split)
  have "\<exists>err. UpsertNode cd e (ss_dir st') n = (Inl err, ss_dir st')" if "wn_IssueID n = i" for e n
    using load_long [OF long, of e] that
    by (auto simp: UpsertNode_def with_ctx_def AppendNodeUpsert_def store_append_def Let_def node_known_def blank_record_def
        split: option.split)
  then show ?thesis using all long pre by auto
qed

definition blocked_timelines :: timeline_dir where
  "blocked_timelines = [(''a.jsonl'', \<lparr>jf_lines = [BadJson 70000 ErrSyntax], jf_tail = None\<rparr>), hd sample_timeline]"

theorem long_record_stops_polling_witness:
  "let st' = ProcessAll sample_codec linear_sample timeline_world (sample_sync blocked_timelines)
   in (\<exists>err. fst st' = Inl err) \<and> snd st' = sample_sync blocked_timelines"
proof -
  have list: "ListIssueIDs (env_now timeline_world (sample_sync blocked_timelines)) (ss_dir (sample_sync blocked_timelines))
      = Inr ([] @ ''a'' # [''i''])"
    by (simp add: env_now_def timeline_world_def ListIssueIDs_def calm_env_def blocked_timelines_def sample_timeline_def has_suffix_def)
  have "long_line (ss_dir (sample_sync blocked_timelines)) ''a''"
    by (simp add: long_line_def blocked_timelines_def file_at_def timeline_path_def file_tokens_def MaxScanTokenSize_def)
  from long_record_stops_polling [OF this _ _ list, of linear_sample sample_codec] show ?thesis by simp
qed

section \<open>Hidden markers\<close>

text \<open>
  The marker is meant to stay inside one HTML comment, and \<open>markerValue\<close> to break up double hyphens; three
  hyphens keep one, and end the comment.
\<close>

lemma markerValue_closes_comment: "str_contains (markerValue ''--->'') ''-->''"
  by code_simp

end
