(* ===== verification/Timeline_Pass.thy ===== *)
theory Timeline_Pass
  imports Timeline_Runs
begin

text \<open>
  One pass of the syncer over an issue: how many calls it makes, and that without faults it settles every node,
  so that the next pass makes none.
\<close>

section \<open>Look-ups in the maps of a pass\<close>

lemma index_by_fold:
  assumes "\<forall>y\<in>set xs. key y = k \<longrightarrow> y = x"
  shows "map_of (fold (\<lambda>x. fput (key x) x) xs m) k = (if \<exists>y\<in>set xs. key y = k then Some x else map_of m k)"
  using assms
proof (induction xs arbitrary: m)
  case (Cons y ys)
  have all: "\<forall>y\<in>set ys. key y = k \<longrightarrow> y = x" and y: "key y = k \<Longrightarrow> y = x" using Cons.prems by simp_all
  note IH = Cons.IH [OF all, of "fput (key y) y m"]
  show ?case
  proof (cases "key y = k")
    case True
    then show ?thesis using IH y [OF True] by simp
  next
    case False
    then show ?thesis using IH by simp
  qed
qed simp

lemma index_by_unique:
  assumes "x \<in> set xs" and "key x = k" and "\<And>y. y \<in> set xs \<Longrightarrow> key y = k \<Longrightarrow> y = x"
  shows "map_of (index_by key xs) k = Some x"
proof -
  have "\<forall>y\<in>set xs. key y = k \<longrightarrow> y = x" using assms(3) by blast
  from index_by_fold [OF this, of "[]"] have
    "map_of (index_by key xs) k = (if \<exists>y\<in>set xs. key y = k then Some x else None)" by (simp add: index_by_def)
  moreover have "\<exists>y\<in>set xs. key y = k" using assms(1,2) by blast
  ultimately show ?thesis by (simp only: if_True)
qed

lemma index_by_None: "(\<And>y. y \<in> set xs \<Longrightarrow> key y \<noteq> k) \<Longrightarrow> map_of (index_by key xs) k = None"
  using index_by_fold [of xs key k undefined "[]"] by (auto simp: index_by_def)

definition no_nul :: "string \<Rightarrow> bool" where
  "no_nul s \<longleftrightarrow> CHR 0x00 \<notin> set s"

lemma split_at_first:
  "c \<notin> set a \<Longrightarrow> c \<notin> set a' \<Longrightarrow> a @ c # b = a' @ c # b' \<longleftrightarrow> a = a' \<and> b = b'"
proof (induction a arbitrary: a')
  case Nil
  then show ?case by (cases a') auto
next
  case (Cons x a)
  then show ?case by (cases a') auto
qed

lemma nodeSyncLookupKey_inj:
  assumes "no_nul r" "no_nul r'" "no_nul n" "no_nul n'"
  shows "nodeSyncLookupKey r n a = nodeSyncLookupKey r' n' a' \<longleftrightarrow> r = r' \<and> n = n' \<and> fmt_int a = fmt_int a'"
  using assms by (simp add: nodeSyncLookupKey_def no_nul_def split_at_first)

text \<open>
  \<open>own i v\<close>: the nodes and node sync states of a view belong to issue \<open>i\<close>, and their run and node ids have no
  zero byte. Every view files its entries under their own keys.
\<close>

definition own :: "string \<Rightarrow> timeline_view \<Rightarrow> bool" where
  "own i v \<longleftrightarrow> (\<forall>n\<in>ran (tv_nodes v). wn_IssueID n = i \<and> no_nul (wn_RunID n) \<and> no_nul (wn_NodeID n))
     \<and> (\<forall>x\<in>ran (tv_node_syncs v). ns_IssueID x = i \<and> no_nul (ns_RunID x) \<and> no_nul (ns_NodeID x))"

definition keyed :: "timeline_view \<Rightarrow> bool" where
  "keyed v \<longleftrightarrow> (\<forall>k n. tv_nodes v k = Some n \<longrightarrow> k = nodeKey n) \<and> (\<forall>k x. tv_node_syncs v k = Some x \<longrightarrow> k = nodeSyncKey x)"

lemma keyed_update: "keyed v \<Longrightarrow> keyed (view_update r v)"
  by (auto simp: keyed_def view_update_def split: option.split)

lemma keyed_fold: "keyed v \<Longrightarrow> keyed (fold view_update rs v)"
  by (induction rs arbitrary: v) (simp_all add: keyed_update)

lemma keyed_dir_view: "keyed (dir_view d i)"
  by (simp add: dir_view_records keyed_fold) (rule keyed_fold, simp add: keyed_def empty_view_def)

definition node_sync_key :: "LinearSyncerConfig \<Rightarrow> WorkflowNodeSummary \<Rightarrow> string" where
  "node_sync_key cfg n = nodeKey n @ '':'' @ lsc_Target cfg"

lemma node_sync_key_state:
  "ns_IssueID x = wn_IssueID n \<Longrightarrow> ns_RunID x = wn_RunID n \<Longrightarrow> ns_NodeID x = wn_NodeID n \<Longrightarrow>
   fmt_int (ns_Attempt x) = fmt_int (wn_Attempt n) \<Longrightarrow> ns_Target x = lsc_Target cfg \<Longrightarrow>
   nodeSyncKey x = node_sync_key cfg n"
  by (simp add: nodeSyncKey_def node_sync_key_def nodeKey_def)

abbreviation node_lookup :: "WorkflowNodeSummary \<Rightarrow> string" where
  "node_lookup n \<equiv> nodeSyncLookupKey (wn_RunID n) (wn_NodeID n) (wn_Attempt n)"

text \<open>\<open>records_state cfg n x\<close>: \<open>x\<close> is a sync state of the node \<open>n\<close> for the syncer's target.\<close>

definition records_state :: "LinearSyncerConfig \<Rightarrow> WorkflowNodeSummary \<Rightarrow> NodeSyncState \<Rightarrow> bool" where
  "records_state cfg n x \<longleftrightarrow> ns_IssueID x = wn_IssueID n \<and> ns_RunID x = wn_RunID n \<and> ns_NodeID x = wn_NodeID n
     \<and> fmt_int (ns_Attempt x) = fmt_int (wn_Attempt n) \<and> ns_Target x = lsc_Target cfg"

text \<open>The state that a pass finds for a node is one that the view records for it.\<close>

lemma node_syncs_find:
  assumes "loaded v s" and "own i v" and "keyed v" and "n \<in> ran (tv_nodes v)"
    and "tv_node_syncs v k = Some x" and "records_state cfg n x"
  shows "find_or zero_node_sync (node_syncs_of (lsc_Target cfg) s) (node_lookup n) = x"
proof -
  let ?xs = "filter (\<lambda>x. ns_Target x = lsc_Target cfg) (sn_NodeSyncStates s)"
  have set: "set ?xs = {x \<in> ran (tv_node_syncs v). ns_Target x = lsc_Target cfg}"
    using loaded_lists [OF assms(1)] by auto
  have x: "x \<in> set ?xs" using assms(5,6) unfolding set by (auto simp: records_state_def intro: ranI)
  have n: "wn_IssueID n = i" "no_nul (wn_RunID n)" "no_nul (wn_NodeID n)" using assms(2,4) by (auto simp: own_def)
  have "map_of (index_by (\<lambda>x. nodeSyncLookupKey (ns_RunID x) (ns_NodeID x) (ns_Attempt x)) ?xs) (node_lookup n) = Some x"
  proof (rule index_by_unique [OF x])
    show "nodeSyncLookupKey (ns_RunID x) (ns_NodeID x) (ns_Attempt x) = node_lookup n"
      using assms(6) by (simp add: records_state_def nodeSyncLookupKey_def)
    fix y assume y: "y \<in> set ?xs" and key: "nodeSyncLookupKey (ns_RunID y) (ns_NodeID y) (ns_Attempt y) = node_lookup n"
    obtain k' where k': "tv_node_syncs v k' = Some y" using y unfolding set by (auto simp: ran_def)
    have own_y: "ns_IssueID y = i" "no_nul (ns_RunID y)" "no_nul (ns_NodeID y)"
      using y assms(2) unfolding set by (auto simp: own_def)
    have "nodeSyncKey y = node_sync_key cfg n"
      using key n own_y y by (intro node_sync_key_state) (auto simp: nodeSyncLookupKey_inj)
    moreover have "nodeSyncKey x = node_sync_key cfg n"
      using assms(6) by (intro node_sync_key_state) (auto simp: records_state_def)
    ultimately have "k = k'" using assms(3,5) k' by (simp add: keyed_def)
    then show "y = x" using assms(5) k' by simp
  qed
  then show ?thesis by (simp add: find_or_def node_syncs_of_def)
qed

lemma node_syncs_found:
  assumes "loaded v s" and "own i v" and "keyed v" and "n \<in> ran (tv_nodes v)"
    and "find_or zero_node_sync (node_syncs_of (lsc_Target cfg) s) (node_lookup n) = x" and "ns_Status x \<noteq> []"
  shows "tv_node_syncs v (node_sync_key cfg n) = Some x \<and> records_state cfg n x"
proof -
  let ?key = "\<lambda>x. nodeSyncLookupKey (ns_RunID x) (ns_NodeID x) (ns_Attempt x)"
  let ?xs = "filter (\<lambda>x. ns_Target x = lsc_Target cfg) (sn_NodeSyncStates s)"
  have set: "set ?xs = {x \<in> ran (tv_node_syncs v). ns_Target x = lsc_Target cfg}"
    using loaded_lists [OF assms(1)] by auto
  have "\<exists>y\<in>set ?xs. ?key y = node_lookup n"
  proof (rule ccontr)
    assume none: "\<not> ?thesis"
    have "map_of (index_by ?key ?xs) (node_lookup n) = None" by (rule index_by_None) (use none in auto)
    then have "x = zero_node_sync" using assms(5) by (simp add: find_or_def node_syncs_of_def)
    then show False using assms(6) by (simp add: zero_node_sync_def)
  qed
  then obtain y where y: "y \<in> set ?xs" "?key y = node_lookup n" by blast
  obtain k where k: "tv_node_syncs v k = Some y" using y(1) unfolding set by (auto simp: ran_def)
  have n: "wn_IssueID n = i" "no_nul (wn_RunID n)" "no_nul (wn_NodeID n)" using assms(2,4) by (auto simp: own_def)
  have rec: "records_state cfg n z" if "z \<in> set ?xs" "?key z = node_lookup n" for z
  proof -
    have "ns_IssueID z = i" "no_nul (ns_RunID z)" "no_nul (ns_NodeID z)"
      using that(1) assms(2) unfolding set by (auto simp: own_def)
    then show ?thesis using that n by (auto simp: nodeSyncLookupKey_inj records_state_def)
  qed
  then have keys: "nodeSyncKey z = node_sync_key cfg n" if "z \<in> set ?xs" "?key z = node_lookup n" for z
    using that by (simp add: node_sync_key_state records_state_def)
  have uniq: "z = y" if "z \<in> set ?xs" "?key z = node_lookup n" for z
    using that keys [OF that] keys [OF y] k assms(3) unfolding set by (auto simp: ran_def keyed_def)
  have "map_of (index_by ?key ?xs) (node_lookup n) = Some y"
    by (rule index_by_unique [where key = ?key, OF y]) (rule uniq)
  then have "x = y" using assms(5) by (simp add: find_or_def node_syncs_of_def)
  moreover have "k = node_sync_key cfg n" using keys [OF y] k assms(3) by (simp add: keyed_def)
  ultimately show ?thesis using k rec [OF y] by simp
qed

section \<open>A pass without faults\<close>

definition calm_world :: "sync_world \<Rightarrow> bool" where
  "calm_world W \<longleftrightarrow> (\<forall>n. calm (se_env W n))"

definition answering :: "sync_world \<Rightarrow> bool" where
  "answering W \<longleftrightarrow> (\<forall>n c. \<not> isl (se_answer W n c))"

lemma on_store_calm:
  assumes "calm_world W" and "short_records cd" and "store_ok (ss_dir st)"
  obtains st' where "on_store (\<lambda>e d. upsert_exec cd e d u) W st = (Inr (), st')" and "store_ok (ss_dir st')"
    and "dir_view (ss_dir st') = (dir_view (ss_dir st))(upsert_issue u :=
           upsert_spec cd (clock W st) u (dir_view (ss_dir st) (upsert_issue u)))"
    and "ss_calls st' = ss_calls st"
proof -
  have "calm (env_now W st)" using assms(1) by (simp add: calm_world_def env_now_def)
  then obtain d' where d': "upsert_exec cd (env_now W st) (ss_dir st) u = (Inr (), d')"
    using upsert_calm assms(3) by blast
  note view = upsert_Inr [OF d' assms(3,2)]
  show ?thesis
    by (rule that [of "st\<lparr>ss_dir := d'\<rparr>"]) (use d' view in \<open>simp_all add: on_store_def clock_def\<close>)
qed

text \<open>What the steps of a pass keep of the stored timelines, whatever Linear answers.\<close>

definition sync_kept :: "(string \<Rightarrow> timeline_view) \<Rightarrow> (string \<Rightarrow> timeline_view) \<Rightarrow> bool" where
  "sync_kept V V' \<longleftrightarrow> (\<forall>i. tv_nodes (V' i) = tv_nodes (V i) \<and> tv_runs (V' i) = tv_runs (V i))"

lemma sync_kept_spec: "is_sync u \<Longrightarrow> sync_kept V (V(upsert_issue u := upsert_spec cd now u (V (upsert_issue u))))"
  by (cases u) (auto simp: sync_kept_def Let_def)

interpretation nodes_kept: syncer_relation cd W
  "\<lambda>st st'. short_records cd \<and> (\<forall>n. clean_write (se_env W n)) \<and> store_ok (ss_dir st) \<longrightarrow>
     store_ok (ss_dir st') \<and> sync_kept (dir_view (ss_dir st)) (dir_view (ss_dir st'))" for cd W
proof (unfold_locales, goal_cases)
  case (4 x st)
  obtain res d' where step: "upsert_exec cd (env_now W st) (ss_dir st) x = (res, d')"
    by (cases "upsert_exec cd (env_now W st) (ss_dir st) x")
  show ?case
  proof (cases res)
    case (Inl err)
    then show ?thesis
      using upsert_Inl step by (auto simp: on_store_dir sync_kept_def env_now_def)
  next
    case (Inr u)
    then show ?thesis
      using upsert_Inr [of cd "env_now W st" "ss_dir st" x d'] step sync_kept_spec [OF 4]
      by (auto simp: on_store_dir)
  qed
qed (auto simp: sync_kept_def)

lemma ensureRoot_calm:
  assumes "calm_world W" and "short_records cd" and "store_ok (ss_dir st)"
  obtains rs st' where "ensureRoot cd cfg W run state st = (Inr rs, st')" and "store_ok (ss_dir st')"
    and "\<And>i. tv_node_syncs (dir_view (ss_dir st') i) = tv_node_syncs (dir_view (ss_dir st) i)"
proof (cases "(ys_Status state = SyncStatusSynced \<and> ys_CommentID state \<noteq> []) \<or>
    (ys_RetryAfter state \<noteq> zero_time \<and> clock W st < ys_RetryAfter state)")
  case True
  then have "ensureRoot cd cfg W run state st = (Inr state, st)" by (auto simp: ensureRoot_def)
  then show ?thesis using that assms(3) by blast
next
  case False
  obtain a st1 where ask: "writer_ask W (CreateRootComment (wr_IssueID run) (RenderRunRootComment run)) st = (a, st1)"
    by (cases "writer_ask W (CreateRootComment (wr_IssueID run) (RenderRunRootComment run)) st")
  have st1: "ss_dir st1 = ss_dir st"
    using writer_ask_simps(1) [of W "CreateRootComment (wr_IssueID run) (RenderRunRootComment run)" st] ask by simp
  have eq: "\<exists>x. ensureRoot cd cfg W run state st =
      (case on_store (\<lambda>e d. upsert_exec cd e d (Up_run_sync x)) W st1 of (res, st2) \<Rightarrow>
         (case res of Inl err \<Rightarrow> (Inl err, st2) | Inr _ \<Rightarrow> (Inr x, st2)))"
    using False ask by (auto simp: ensureRoot_def Let_def)
  then obtain x where x: "ensureRoot cd cfg W run state st =
      (case on_store (\<lambda>e d. upsert_exec cd e d (Up_run_sync x)) W st1 of (res, st2) \<Rightarrow>
         (case res of Inl err \<Rightarrow> (Inl err, st2) | Inr _ \<Rightarrow> (Inr x, st2)))" by blast
  obtain st2 where st2: "on_store (\<lambda>e d. upsert_exec cd e d (Up_run_sync x)) W st1 = (Inr (), st2)" "store_ok (ss_dir st2)"
    and view: "dir_view (ss_dir st2) = (dir_view (ss_dir st1))(upsert_issue (Up_run_sync x) :=
        upsert_spec cd (clock W st1) (Up_run_sync x) (dir_view (ss_dir st1) (upsert_issue (Up_run_sync x))))"
    using on_store_calm [OF assms(1,2), of st1 "Up_run_sync x"] assms(3) st1 by auto
  have "ensureRoot cd cfg W run state st = (Inr x, st2)" using x st2(1) by simp
  moreover have "tv_node_syncs (dir_view (ss_dir st2) i) = tv_node_syncs (dir_view (ss_dir st) i)" for i
    using view st1 by (simp add: Let_def)
  ultimately show ?thesis using that st2(2) by blast
qed

text \<open>
  \<open>posted cfg n V V'\<close>: the views differ in the sync state of node \<open>n\<close> only, which is settled in \<open>V'\<close>.
\<close>

definition posted :: "LinearSyncerConfig \<Rightarrow> WorkflowNodeSummary \<Rightarrow> (string \<Rightarrow> timeline_view) \<Rightarrow> (string \<Rightarrow> timeline_view) \<Rightarrow> bool" where
  "posted cfg n V V' \<longleftrightarrow> (\<exists>x. records_state cfg n x \<and> node_settled n x \<and>
     (\<forall>i. tv_node_syncs (V' i) = (if i = wn_IssueID n then (tv_node_syncs (V i))(node_sync_key cfg n \<mapsto> x)
                                  else tv_node_syncs (V i))))"

lemma posted_state:
  "records_state cfg n x \<Longrightarrow> nodeSyncKey x = node_sync_key cfg n"
  by (simp add: records_state_def node_sync_key_state)

lemma mark_synced_calm:
  assumes "calm_world W" and "short_records cd" and "store_ok (ss_dir st)"
  obtains st' where "markNodeSynced cd cfg W n ref st = (Inr (), st')" and "store_ok (ss_dir st')"
    and "posted cfg n (dir_view (ss_dir st)) (dir_view (ss_dir st'))"
proof -
  let ?x = "(node_sync_for cfg n (clock W st))\<lparr>ns_Status := SyncStatusSynced, ns_CommentID := cr_ID ref,
        ns_CommentURL := cr_URL ref\<rparr>"
  let ?y = "if ns_UpdatedAt ?x = zero_time then ?x\<lparr>ns_UpdatedAt := clock W st\<rparr> else ?x"
  obtain st' where st': "on_store (\<lambda>e d. upsert_exec cd e d (Up_node_sync ?x)) W st = (Inr (), st')" "store_ok (ss_dir st')"
    and view: "dir_view (ss_dir st') = (dir_view (ss_dir st))(upsert_issue (Up_node_sync ?x) :=
        upsert_spec cd (clock W st) (Up_node_sync ?x) (dir_view (ss_dir st) (upsert_issue (Up_node_sync ?x))))"
    using on_store_calm [OF assms] by blast
  have x: "records_state cfg n ?y" "node_settled n ?y"
    by (simp_all add: records_state_def node_settled_def node_sync_for_def)
  have issue: "upsert_issue (Up_node_sync ?x) = wn_IssueID n" by (simp add: node_sync_for_def)
  have spec: "upsert_spec cd (clock W st) (Up_node_sync ?x) v
      = v\<lparr>tv_node_syncs := (tv_node_syncs v)(node_sync_key cfg n \<mapsto> ?y)\<rparr>" for v
    using posted_state [OF x(1)] by (simp only: upsert_spec.simps Let_def)
  have "posted cfg n (dir_view (ss_dir st)) (dir_view (ss_dir st'))"
    unfolding posted_def by (rule exI [of _ ?y]) (use x in \<open>simp add: view issue spec del: upsert_issue.simps upsert_spec.simps\<close>)
  then show ?thesis using that st' by (simp add: markNodeSynced_def)
qed

lemma posted_dir: "ss_dir st1 = ss_dir st \<Longrightarrow> posted cfg n (dir_view (ss_dir st1)) V \<Longrightarrow> posted cfg n (dir_view (ss_dir st)) V"
  by simp

text \<open>When Linear answers every call, a node is posted by one call.\<close>

lemma writer_ask_answering:
  assumes "answering W"
  obtains ref where "writer_ask W c st = (Inr ref, st\<lparr>ss_calls := ss_calls st @ [(c, Inr ref)]\<rparr>)"
proof -
  have "\<not> isl (se_answer W (length (ss_calls st)) c)" using assms by (simp add: answering_def)
  then obtain ref where "se_answer W (length (ss_calls st)) c = Inr ref"
    by (cases "se_answer W (length (ss_calls st)) c") auto
  then show ?thesis using that by (simp add: writer_ask_def Let_def)
qed

lemma syncNode_answering:
  assumes "answering W"
  obtains c ref where "syncNode cd cfg W n rs state st = markNodeSynced cd cfg W n ref (st\<lparr>ss_calls := ss_calls st @ [(c, Inr ref)]\<rparr>)"
proof -
  have post: "\<exists>c ref. post_node cd cfg W n rs st = markNodeSynced cd cfg W n ref (st\<lparr>ss_calls := ss_calls st @ [(c, Inr ref)]\<rparr>)"
  proof (cases "lsc_Mode cfg = CommentModeTopLevel")
    case True
    obtain ref where "writer_ask W (CreateRootComment (wn_IssueID n) (RenderNodeComment n)) st
        = (Inr ref, st\<lparr>ss_calls := ss_calls st @ [(CreateRootComment (wn_IssueID n) (RenderNodeComment n), Inr ref)]\<rparr>)"
      using writer_ask_answering [OF assms] by blast
    then show ?thesis using True by (auto simp: post_node_def Let_def)
  next
    case False
    obtain ref where "writer_ask W (CreateReplyComment (wn_IssueID n) (ys_CommentID rs) (RenderNodeComment n)) st
        = (Inr ref, st\<lparr>ss_calls := ss_calls st @ [(CreateReplyComment (wn_IssueID n) (ys_CommentID rs) (RenderNodeComment n), Inr ref)]\<rparr>)"
      using writer_ask_answering [OF assms] by blast
    then show ?thesis using False by (auto simp: post_node_def Let_def)
  qed
  obtain ref where upd: "writer_ask W (UpdateComment (ns_CommentID state) (RenderNodeComment n)) st
      = (Inr ref, st\<lparr>ss_calls := ss_calls st @ [(UpdateComment (ns_CommentID state) (RenderNodeComment n), Inr ref)]\<rparr>)"
    using writer_ask_answering [OF assms] by blast
  have "\<exists>c ref. syncNode cd cfg W n rs state st = markNodeSynced cd cfg W n ref (st\<lparr>ss_calls := ss_calls st @ [(c, Inr ref)]\<rparr>)"
    using post upd by (auto simp: syncNode_def)
  then show ?thesis using that by blast
qed

lemma syncNode_calm:
  assumes "calm_world W" and "answering W" and "short_records cd" and "store_ok (ss_dir st)"
  obtains st' where "syncNode cd cfg W n rs state st = (Inr (), st')" and "store_ok (ss_dir st')"
    and "posted cfg n (dir_view (ss_dir st)) (dir_view (ss_dir st'))"
proof -
  obtain c ref where eq: "syncNode cd cfg W n rs state st
      = markNodeSynced cd cfg W n ref (st\<lparr>ss_calls := ss_calls st @ [(c, Inr ref)]\<rparr>)"
    by (rule syncNode_answering [OF assms(2)])
  have "store_ok (ss_dir (st\<lparr>ss_calls := ss_calls st @ [(c, Inr ref)]\<rparr>))" using assms(4) by simp
  then show ?thesis
    by (rule mark_synced_calm [OF assms(1,3), of _ cfg n ref], intro that) (use eq in simp_all)
qed

section \<open>All nodes of an issue\<close>

lemma posted_kept:
  assumes "posted cfg n V V'" and "node_sync_key cfg m \<noteq> node_sync_key cfg n \<or> i \<noteq> wn_IssueID n"
  shows "tv_node_syncs (V' i) (node_sync_key cfg m) = tv_node_syncs (V i) (node_sync_key cfg m)"
  using assms by (auto simp: posted_def)

lemma node_sync_key_eq [simp]: "node_sync_key cfg m = node_sync_key cfg n \<longleftrightarrow> nodeKey m = nodeKey n"
  by (simp add: node_sync_key_def)

definition settled_in :: "LinearSyncerConfig \<Rightarrow> WorkflowNodeSummary \<Rightarrow> timeline_view \<Rightarrow> bool" where
  "settled_in cfg n v \<longleftrightarrow> (\<exists>x. tv_node_syncs v (node_sync_key cfg n) = Some x \<and> records_state cfg n x \<and> node_settled n x)"

lemma posted_settled: "posted cfg n V V' \<Longrightarrow> settled_in cfg n (V' (wn_IssueID n))"
  by (auto simp: posted_def settled_in_def)

lemma settled_in_cong:
  "tv_node_syncs v' (node_sync_key cfg n) = tv_node_syncs v (node_sync_key cfg n) \<Longrightarrow> settled_in cfg n v' = settled_in cfg n v"
  by (simp add: settled_in_def)

text \<open>
  What a pass over nodes of issue \<open>i\<close> does to the stored view of the issue: entries of other nodes stay, new
  entries are states of these nodes, and a syncable node ends up settled or was found settled and kept.
\<close>

definition pass_effect ::
  "codec \<Rightarrow> LinearSyncerConfig \<Rightarrow> NodeSyncState fdir \<Rightarrow> WorkflowNodeSummary list \<Rightarrow> timeline_view \<Rightarrow> timeline_view \<Rightarrow> bool" where
  "pass_effect cd cfg nss ns v v' \<longleftrightarrow>
     (\<forall>m. nodeKey m \<notin> nodeKey ` set ns \<longrightarrow> tv_node_syncs v' (node_sync_key cfg m) = tv_node_syncs v (node_sync_key cfg m))
   \<and> (\<forall>x\<in>ran (tv_node_syncs v'). x \<in> ran (tv_node_syncs v) \<or> (\<exists>n\<in>set ns. records_state cfg n x))
   \<and> (\<forall>n\<in>set ns. wn_Syncable n \<longrightarrow> settled_in cfg (EnsureNodeHash cd n) v' \<or>
        (node_settled (EnsureNodeHash cd n) (find_or zero_node_sync nss (node_lookup n))
         \<and> tv_node_syncs v' (node_sync_key cfg n) = tv_node_syncs v (node_sync_key cfg n)))"

lemma ran_upd: "x \<in> ran (m(k \<mapsto> y)) \<Longrightarrow> x = y \<or> x \<in> ran m"
  by (auto simp: ran_def split: if_splits)

lemma node_sync_key_hash [simp]: "node_sync_key cfg (EnsureNodeHash cd n) = node_sync_key cfg n"
  "records_state cfg (EnsureNodeHash cd n) x = records_state cfg n x"
  by (simp_all add: node_sync_key_def records_state_def)

lemma pass_effect_skip:
  assumes "pass_effect cd cfg nss ns v v'" and "nodeKey n \<notin> nodeKey ` set ns"
    and "wn_Syncable n \<Longrightarrow> node_settled (EnsureNodeHash cd n) (find_or zero_node_sync nss (node_lookup n))"
  shows "pass_effect cd cfg nss (n # ns) v v'"
  using assms by (auto simp: pass_effect_def)

lemma pass_effect_post:
  assumes "pass_effect cd cfg nss ns v1 v'" and "nodeKey n \<notin> nodeKey ` set ns"
    and x: "records_state cfg n x" "node_settled (EnsureNodeHash cd n) x"
      "tv_node_syncs v1 = (tv_node_syncs v)(node_sync_key cfg n \<mapsto> x)"
  shows "pass_effect cd cfg nss (n # ns) v v'"
proof -
  have kept: "tv_node_syncs v' (node_sync_key cfg m) = tv_node_syncs v1 (node_sync_key cfg m)"
    if "nodeKey m \<notin> nodeKey ` set ns" for m using assms(1) that by (simp add: pass_effect_def)
  have "settled_in cfg (EnsureNodeHash cd n) v'"
    using x kept [OF assms(2)] by (auto simp: settled_in_def)
  moreover have "tv_node_syncs v1 (node_sync_key cfg m) = tv_node_syncs v (node_sync_key cfg m)"
    if "nodeKey m \<noteq> nodeKey n" for m using x(3) that by simp
  moreover have "y \<in> ran (tv_node_syncs v) \<or> records_state cfg n y" if "y \<in> ran (tv_node_syncs v1)" for y
    using x that by (auto dest: ran_upd)
  ultimately show ?thesis
    using assms(1,2) by (auto simp: pass_effect_def) (metis image_eqI)+
qed

lemma process_nodes_calm:
  assumes "calm_world W" and "answering W" and "short_records cd" and "store_ok (ss_dir st)"
    and "distinct (map nodeKey ns)" and "\<forall>n\<in>set ns. wn_IssueID n = i"
    and "\<forall>n\<in>set ns. \<forall>m. \<not> must_wait (te_now (se_env W m)) (find_or zero_node_sync nss (node_lookup n))"
  shows "\<exists>st'. process_nodes cd cfg W runs nss rss ns st = (Inr (), st') \<and> store_ok (ss_dir st')
           \<and> pass_effect cd cfg nss ns (dir_view (ss_dir st) i) (dir_view (ss_dir st') i)"
  using assms(4-)
proof (induction ns arbitrary: rss st)
  case Nil
  then show ?case by (simp add: pass_effect_def)
next
  case (Cons n ns)
  have key: "nodeKey n \<notin> nodeKey ` set ns" and rest: "distinct (map nodeKey ns)" "\<forall>n\<in>set ns. wn_IssueID n = i"
    "\<forall>n\<in>set ns. \<forall>m. \<not> must_wait (te_now (se_env W m)) (find_or zero_node_sync nss (node_lookup n))"
    using Cons.prems by auto
  let ?n = "EnsureNodeHash cd n" and ?x = "find_or zero_node_sync nss (node_lookup n)"
  have wait: "\<not> must_wait (clock W st) ?x" using Cons.prems(4) by (simp add: clock_def env_now_def)
  show ?case
  proof (cases "wn_Syncable n \<and> \<not> node_settled ?n ?x")
    case False
    then have "process_nodes cd cfg W runs nss rss (n # ns) st = process_nodes cd cfg W runs nss rss ns st"
      by (auto simp: Let_def)
    then show ?thesis
      using Cons.IH [OF Cons.prems(1) rest, of rss] False by (auto intro: pass_effect_skip [OF _ key])
  next
    case True
    obtain rs st1 where root: "ensureRoot cd cfg W (run_for runs ?n) (find_or zero_run_sync rss (wn_RunID n)) st = (Inr rs, st1)"
      and ok1: "store_ok (ss_dir st1)"
      and view1: "\<And>j. tv_node_syncs (dir_view (ss_dir st1) j) = tv_node_syncs (dir_view (ss_dir st) j)"
      using ensureRoot_calm [OF assms(1,3) Cons.prems(1)] by blast
    obtain st2 where node: "syncNode cd cfg W ?n rs ?x st1 = (Inr (), st2)" and ok2: "store_ok (ss_dir st2)"
      and post: "posted cfg ?n (dir_view (ss_dir st1)) (dir_view (ss_dir st2))"
      using syncNode_calm [OF assms(1-3) ok1] by blast
    obtain st' where rec: "process_nodes cd cfg W runs nss (fput (wn_RunID n) rs rss) ns st2 = (Inr (), st')"
      and ok': "store_ok (ss_dir st')" and eff: "pass_effect cd cfg nss ns (dir_view (ss_dir st2) i) (dir_view (ss_dir st') i)"
      using Cons.IH [OF ok2 rest] by blast
    have "process_nodes cd cfg W runs nss rss (n # ns) st = (Inr (), st')"
      using True wait root node rec by (simp add: Let_def)
    moreover obtain x where "records_state cfg n x" "node_settled ?n x"
      "tv_node_syncs (dir_view (ss_dir st2) i) = (tv_node_syncs (dir_view (ss_dir st) i))(node_sync_key cfg n \<mapsto> x)"
      using post Cons.prems(3) view1 by (auto simp: posted_def)
    from pass_effect_post [OF eff key this]
    have "pass_effect cd cfg nss (n # ns) (dir_view (ss_dir st) i) (dir_view (ss_dir st') i)" .
    ultimately show ?thesis using ok' by blast
  qed
qed

section \<open>Passes over an issue\<close>

lemma index_by_in: "map_of (index_by key xs) k = Some x \<Longrightarrow> x \<in> set xs"
proof -
  have "map_of (fold (\<lambda>x. fput (key x) x) xs m) k = Some x \<Longrightarrow> x \<in> set xs \<or> map_of m k = Some x" for m
    by (induction xs arbitrary: m) (fastforce split: if_splits)+
  then show "map_of (index_by key xs) k = Some x \<Longrightarrow> x \<in> set xs" by (fastforce simp: index_by_def)
qed

lemma node_syncs_known:
  assumes "loaded v s" and "P zero_node_sync" and "\<forall>x\<in>ran (tv_node_syncs v). P x"
  shows "P (find_or zero_node_sync (node_syncs_of target s) k)"
proof (cases "map_of (node_syncs_of target s) k")
  case (Some x)
  then have "x \<in> set (sn_NodeSyncStates s)" by (auto simp: node_syncs_of_def dest!: index_by_in)
  then show ?thesis using Some loaded_lists [OF assms(1)] assms(3) by (simp add: find_or_def)
qed (simp add: find_or_def assms(2))

lemma nodes_distinct:
  assumes "loaded v s" and "keyed v"
  shows "distinct (map nodeKey (sn_Nodes s))"
proof -
  have v: "v = snap_view s" and wf: "wf_dir (sn_NodesByKey s)"
    and nodes: "sn_Nodes s = sort_key node_order (map snd (sn_NodesByKey s))"
    using assms(1) by (simp_all add: loaded_def snapshot_wf_def)
  have "map nodeKey (map snd (sn_NodesByKey s)) = map fst (sn_NodesByKey s)"
    using assms(2) wf by (auto simp: v keyed_def wf_dir_lookup)
  then have "distinct (map nodeKey (map snd (sn_NodesByKey s)))" using wf_dir_distinct [OF wf] by (simp only:)
  then show ?thesis by (simp only: nodes distinct_map [of nodeKey] set_sort distinct_sort)
qed

lemma process_nodes_idle:
  assumes "\<forall>n\<in>set ns. wn_Syncable n \<longrightarrow>
     node_settled (EnsureNodeHash cd n) (find_or zero_node_sync nss (node_lookup n))"
  shows "process_nodes cd cfg W runs nss rss ns st = (Inr (), st)"
  using assms by (induction ns arbitrary: rss) (auto simp: Let_def)

definition all_settled :: "codec \<Rightarrow> LinearSyncerConfig \<Rightarrow> timeline_view \<Rightarrow> bool" where
  "all_settled cd cfg v \<longleftrightarrow> (\<forall>n\<in>ran (tv_nodes v). wn_Syncable n \<longrightarrow> settled_in cfg (EnsureNodeHash cd n) v)"

lemma Snapshot_calm:
  assumes "calm e" and "store_ok d"
  obtains s where "Snapshot e d i = Inr s" and "loaded (dir_view d i) s"
proof -
  have "te_read e (timeline_path i) = None" "readable (file_at d (timeline_path i))"
    using assms by (simp_all add: calm_def store_ok_def)
  then obtain s where "loadSnapshotNoLock e d i = Inr s" "loaded (dir_view d i) s" by (rule load_readable)
  then show ?thesis using that assms(1) by (simp add: Snapshot_def LoadSnapshot_def calm_def)
qed

lemma ProcessIssue_idle:
  assumes "calm (env_now W st)" and "store_ok (ss_dir st)" and "own i (dir_view (ss_dir st) i)"
    and "all_settled cd (lsy_cfg s) (dir_view (ss_dir st) i)"
  shows "ProcessIssue cd s W i st = (Inr (), st)"
proof (cases "lsy_store s \<and> lsy_writer s")
  case True
  let ?v = "dir_view (ss_dir st) i" and ?cfg = "lsy_cfg s"
  obtain snap where snap: "Snapshot (env_now W st) (ss_dir st) i = Inr snap" and loaded: "loaded ?v snap"
    using Snapshot_calm [OF assms(1,2)] by blast
  have "node_settled (EnsureNodeHash cd n) (find_or zero_node_sync (node_syncs_of (lsc_Target ?cfg) snap) (node_lookup n))"
    if n: "n \<in> set (sn_Nodes snap)" "wn_Syncable n" for n
  proof -
    have ran: "n \<in> ran (tv_nodes ?v)" using n(1) loaded_lists [OF loaded] by simp
    obtain x where x: "tv_node_syncs ?v (node_sync_key ?cfg n) = Some x" "records_state ?cfg n x"
      "node_settled (EnsureNodeHash cd n) x"
      using assms(4) ran n(2) by (auto simp: all_settled_def settled_in_def)
    from node_syncs_find [OF loaded assms(3) keyed_dir_view ran x(1,2)] show ?thesis using x(3) by simp
  qed
  then show ?thesis using True snap by (simp add: ProcessIssue_def Let_def process_nodes_idle)
qed (auto simp: ProcessIssue_def)

lemma pass_effect_own:
  assumes "pass_effect cd cfg nss ns v v'" and "own i v" and "tv_nodes v' = tv_nodes v" and "set ns = ran (tv_nodes v)"
  shows "own i v'"
  unfolding own_def
proof (intro conjI ballI)
  fix x assume "x \<in> ran (tv_node_syncs v')"
  then have "x \<in> ran (tv_node_syncs v) \<or> (\<exists>n\<in>ran (tv_nodes v). records_state cfg n x)"
    using assms(1,4) by (simp add: pass_effect_def)
  then have "ns_IssueID x = i \<and> no_nul (ns_RunID x) \<and> no_nul (ns_NodeID x)"
    using assms(2) by (metis own_def records_state_def)
  then show "ns_IssueID x = i" "no_nul (ns_RunID x)" "no_nul (ns_NodeID x)" by simp_all
qed (use assms(2,3) in \<open>simp_all add: own_def\<close>)


lemma timeline_world_ok: "calm_world timeline_world" "answering timeline_world"
  by (simp_all add: calm_world_def answering_def timeline_world_def)


section \<open>Failed updates\<close>

definition is_update :: "writer_call \<Rightarrow> bool" where
  "is_update c = (case c of UpdateComment _ _ \<Rightarrow> True | _ \<Rightarrow> False)"

lemma post_node_calls:
  "\<exists>new. ss_calls (snd (post_node cd cfg W n rs st)) = ss_calls st @ new \<and> (\<forall>c\<in>set new. \<not> is_update (fst c))"
  by (auto simp: post_node_def Let_def markNodeSynced_def markNodeFailed_def on_store_calls writer_ask_def is_update_def
      split: sum.split)

text \<open>
  When Linear refuses the update of a node's comment, other than by not supporting updates, the syncer
  records the failure without the comment's id: whatever version of the node is synced from that record later,
  no update is tried, and a success is a second comment for the node.
\<close>

theorem failed_update_forgets_comment:
  assumes "calm_world W" and "short_records cd" and "store_ok (ss_dir st)"
    and "ns_CommentID state \<noteq> []" and "ns_ContentHash state \<noteq> []" and "ns_ContentHash state \<noteq> wn_ContentHash n"
    and "se_answer W (length (ss_calls st)) (UpdateComment (ns_CommentID state) (RenderNodeComment n)) = Inl err"
    and "\<not> comment_is err ErrLinearCommentUpdateUnsupported"
  shows "\<exists>st' x. syncNode cd cfg W n rs state st = (Inr (), st')
      \<and> tv_node_syncs (dir_view (ss_dir st') (wn_IssueID n)) (node_sync_key cfg n) = Some x
      \<and> ns_Status x = SyncStatusFailed \<and> ns_CommentID x = []
      \<and> (\<forall>W' m rs' st''. \<exists>new. ss_calls (snd (syncNode cd cfg W' m rs' x st'')) = ss_calls st'' @ new
           \<and> (\<forall>c\<in>set new. \<not> is_update (fst c)))"
proof -
  let ?st = "st\<lparr>ss_calls := ss_calls st @ [(UpdateComment (ns_CommentID state) (RenderNodeComment n), Inl err)]\<rparr>"
  let ?x = "(node_sync_for cfg n (clock W ?st))\<lparr>ns_Status := SyncStatusFailed, ns_LastError := cd_text cd err,
        ns_Error := cd_text cd err, ns_RetryAfter := retryAfterTime (clock W ?st) err\<rparr>"
  let ?y = "if ns_UpdatedAt ?x = zero_time then ?x\<lparr>ns_UpdatedAt := clock W ?st\<rparr> else ?x"
  have sync: "syncNode cd cfg W n rs state st = on_store (\<lambda>e d. upsert_exec cd e d (Up_node_sync ?x)) W ?st"
    using assms(4-8) by (simp add: syncNode_def writer_ask_def Let_def markNodeFailed_def)
  have "store_ok (ss_dir ?st)" using assms(3) by simp
  from on_store_calm [OF assms(1,2) this, of "Up_node_sync ?x"] obtain st'
    where st': "on_store (\<lambda>e d. upsert_exec cd e d (Up_node_sync ?x)) W ?st = (Inr (), st')"
    and view: "dir_view (ss_dir st') = (dir_view (ss_dir ?st))(upsert_issue (Up_node_sync ?x) :=
        upsert_spec cd (clock W ?st) (Up_node_sync ?x) (dir_view (ss_dir ?st) (upsert_issue (Up_node_sync ?x))))" .
  have key: "nodeSyncKey ?y = node_sync_key cfg n" and issue: "ns_IssueID ?x = wn_IssueID n"
    by (simp_all add: nodeSyncKey_def node_sync_key_def nodeKey_def node_sync_for_def)
  have "tv_node_syncs (dir_view (ss_dir st') (wn_IssueID n)) (node_sync_key cfg n) = Some ?y"
    unfolding view upsert_issue.simps issue upsert_spec.simps Let_def key [symmetric] by simp
  moreover have "ns_Status ?y = SyncStatusFailed" "ns_CommentID ?y = []"
    by (simp_all add: node_sync_for_def zero_node_sync_def)
  moreover have "syncNode cd cfg W' m rs' ?y st'' = post_node cd cfg W' m rs' st''" for W' m rs' st''
    by (simp add: syncNode_def node_sync_for_def zero_node_sync_def)
  ultimately show ?thesis
    using sync st' post_node_calls by (intro exI [of _ st'] exI [of _ ?y]) simp
qed

theorem failed_update_forgets_comment_witness:
  "\<exists>st' x. syncNode sample_codec (lsy_cfg linear_sample) (timeline_world\<lparr>se_answer := \<lambda>_ _. Inl (OtherCommentError ''500'')\<rparr>)
        sample_node zero_run_sync (zero_node_sync\<lparr>ns_CommentID := ''c'', ns_ContentHash := ''old''\<rparr>) (sample_sync sample_timeline)
        = (Inr (), st')
      \<and> tv_node_syncs (dir_view (ss_dir st') ''i'') (node_sync_key (lsy_cfg linear_sample) sample_node) = Some x
      \<and> ns_Status x = SyncStatusFailed \<and> ns_CommentID x = []"
proof -
  have "calm_world (timeline_world\<lparr>se_answer := \<lambda>_ _. Inl (OtherCommentError ''500'')\<rparr>)"
    by (simp add: calm_world_def timeline_world_def)
  from failed_update_forgets_comment [OF this short_sample,
      of "sample_sync sample_timeline" "zero_node_sync\<lparr>ns_CommentID := ''c'', ns_ContentHash := ''old''\<rparr>" sample_node
        "OtherCommentError ''500''" "lsy_cfg linear_sample" zero_run_sync]
  show ?thesis using sample_timeline_ok by (auto simp: sample_node_def)
qed

end
