(* ===== verification/Hub.thy ===== *)
theory Hub
  imports Prelude
begin

text \<open>
  \<open>internal/hub/hub.go\<close>: the fan-out of one stream of events to buffered channels. A channel is its buffer,
  its capacity and whether it is closed. The loop of \<open>Run\<close> and the calls of other goroutines are the steps of
  \<open>hub_step\<close>, in any order; a subscriber's receive is one of them.
\<close>

record 'a channel =
  ch_buf :: "'a list"
  ch_cap :: nat
  ch_closed :: bool

definition make_chan :: "nat \<Rightarrow> 'a channel" where
  "make_chan cap = \<lparr>ch_buf = [], ch_cap = cap, ch_closed = False\<rparr>"

text \<open>A send in a \<open>select\<close> with a \<open>default\<close> case: dropped when the buffer is full.\<close>

definition try_send :: "'a \<Rightarrow> 'a channel \<Rightarrow> 'a channel" where
  "try_send v c = (if length (ch_buf c) < ch_cap c then c\<lparr>ch_buf := ch_buf c @ [v]\<rparr> else c)"

definition close_chan :: "'a channel \<Rightarrow> 'a channel" where
  "close_chan c = c\<lparr>ch_closed := True\<rparr>"

definition defaultSubscriberBufferSize :: nat where
  "defaultSubscriberBufferSize = 256"

text \<open>
  The subscribers by id, in the order of the ids, and the channels handed out so far, which subscribers keep
  after they are removed from the map. \<open>hb_running\<close> says that \<open>Run\<close> has not returned.
\<close>

record 'a hub =
  hb_subscribers :: "nat list"
  hb_nextID :: nat
  hb_chans :: "'a channel list"
  hb_running :: bool

definition NewHub :: "'a hub" where
  "NewHub = \<lparr>hb_subscribers = [], hb_nextID = 0, hb_chans = [], hb_running = True\<rparr>"

definition hub_Subscribe :: "'a hub \<Rightarrow> nat \<times> 'a hub" where
  "hub_Subscribe h = (let i = hb_nextID h in
     (i, h\<lparr>hb_nextID := i + 1, hb_subscribers := hb_subscribers h @ [i],
           hb_chans := hb_chans h @ [make_chan defaultSubscriberBufferSize]\<rparr>))"

definition on_chan :: "nat \<Rightarrow> ('a channel \<Rightarrow> 'a channel) \<Rightarrow> 'a channel list \<Rightarrow> 'a channel list" where
  "on_chan i f cs = (if i < length cs then cs[i := f (cs ! i)] else cs)"

definition hub_Unsubscribe :: "nat \<Rightarrow> 'a hub \<Rightarrow> 'a hub" where
  "hub_Unsubscribe i h =
     (if i \<notin> set (hb_subscribers h) then h
      else h\<lparr>hb_subscribers := removeAll i (hb_subscribers h), hb_chans := on_chan i close_chan (hb_chans h)\<rparr>)"

definition SubscriberCount :: "'a hub \<Rightarrow> nat" where
  "SubscriberCount h = length (hb_subscribers h)"

definition publish :: "'a \<Rightarrow> 'a hub \<Rightarrow> 'a hub" where
  "publish v h = h\<lparr>hb_chans := fold (\<lambda>i. on_chan i (try_send v)) (hb_subscribers h) (hb_chans h)\<rparr>"

definition closeAllSubscribersLocked :: "'a hub \<Rightarrow> 'a hub" where
  "closeAllSubscribersLocked h =
     h\<lparr>hb_chans := fold (\<lambda>i. on_chan i close_chan) (hb_subscribers h) (hb_chans h), hb_subscribers := []\<rparr>"

datatype 'a hub_event =
    Hub_subscribe
  | Hub_unsubscribe nat
  | Hub_event 'a
  | Hub_end
  | Hub_receive nat

text \<open>
  One step: a subscriber comes or goes, \<open>Run\<close> takes an event of its source, the source is closed or the
  context cancelled (\<open>Hub_end\<close>), or a subscriber receives from its channel.
\<close>

fun hub_step :: "'a hub \<Rightarrow> 'a hub_event \<Rightarrow> 'a hub" where
  "hub_step h Hub_subscribe = snd (hub_Subscribe h)"
| "hub_step h (Hub_unsubscribe i) = hub_Unsubscribe i h"
| "hub_step h (Hub_event v) = (if hb_running h then publish v h else h)"
| "hub_step h Hub_end = (if hb_running h then (closeAllSubscribersLocked h)\<lparr>hb_running := False\<rparr> else h)"
| "hub_step h (Hub_receive i) = h\<lparr>hb_chans := on_chan i (\<lambda>c. c\<lparr>ch_buf := tl (ch_buf c)\<rparr>) (hb_chans h)\<rparr>"

section \<open>What a subscriber gets\<close>

text \<open>
  The ghost history of one subscriber: what it received so far, and what was published while it was
  subscribed.
\<close>

fun received_in :: "nat \<Rightarrow> 'a hub \<Rightarrow> 'a hub_event \<Rightarrow> 'a list" where
  "received_in i h (Hub_receive j) = (if j = i \<and> i < length (hb_chans h) then take 1 (ch_buf (hb_chans h ! i)) else [])"
| "received_in i h _ = []"

fun published_in :: "nat \<Rightarrow> 'a hub \<Rightarrow> 'a hub_event \<Rightarrow> 'a list" where
  "published_in i h (Hub_event v) = (if hb_running h \<and> i \<in> set (hb_subscribers h) then [v] else [])"
| "published_in i h _ = []"

fun hub_trace :: "nat \<Rightarrow> 'a hub \<Rightarrow> 'a hub_event list \<Rightarrow> 'a list \<times> 'a list \<times> 'a hub" where
  "hub_trace i h [] = ([], [], h)"
| "hub_trace i h (e # es) = (case hub_trace i (hub_step h e) es of (r, p, h') \<Rightarrow>
     (received_in i h e @ r, published_in i h e @ p, h'))"

definition hub_buf :: "nat \<Rightarrow> 'a hub \<Rightarrow> 'a list" where
  "hub_buf i h = (if i < length (hb_chans h) then ch_buf (hb_chans h ! i) else [])"

definition hub_ok :: "'a hub \<Rightarrow> bool" where
  "hub_ok h \<longleftrightarrow> distinct (hb_subscribers h) \<and> (\<forall>i\<in>set (hb_subscribers h). i < hb_nextID h)
     \<and> length (hb_chans h) = hb_nextID h
     \<and> (\<forall>i<hb_nextID h. ch_cap (hb_chans h ! i) = defaultSubscriberBufferSize
          \<and> length (ch_buf (hb_chans h ! i)) \<le> defaultSubscriberBufferSize
          \<and> (ch_closed (hb_chans h ! i) \<longleftrightarrow> i \<notin> set (hb_subscribers h)))"

lemma length_on_chan [simp]: "length (on_chan i f cs) = length cs"
  by (simp add: on_chan_def)

lemma nth_on_chan: "j < length cs \<Longrightarrow> on_chan i f cs ! j = (if j = i then f (cs ! j) else cs ! j)"
  by (simp add: on_chan_def nth_list_update)

lemma length_fold_on_chan [simp]: "length (fold (\<lambda>i. on_chan i f) is cs) = length cs"
  by (induction "is" arbitrary: cs) simp_all

lemma nth_fold_on_chan:
  "distinct is \<Longrightarrow> j < length cs \<Longrightarrow> fold (\<lambda>i. on_chan i f) is cs ! j = (if j \<in> set is then f (cs ! j) else cs ! j)"
  by (induction "is" arbitrary: cs) (auto simp: nth_on_chan)

lemma try_send_simps [simp]:
  "ch_cap (try_send v c) = ch_cap c" "ch_closed (try_send v c) = ch_closed c"
  "length (ch_buf c) \<le> ch_cap c \<Longrightarrow> length (ch_buf (try_send v c)) \<le> ch_cap c"
  by (simp_all add: try_send_def)

lemma close_chan_simps [simp]:
  "ch_cap (close_chan c) = ch_cap c" "ch_buf (close_chan c) = ch_buf c" "ch_closed (close_chan c)"
  by (simp_all add: close_chan_def)

lemma hub_ok_new: "hub_ok NewHub"
  by (simp add: hub_ok_def NewHub_def)

lemma hub_ok_step:
  assumes "hub_ok h"
  shows "hub_ok (hub_step h e)"
proof (cases e)
  case Hub_subscribe
  then show ?thesis
    using assms by (auto simp: hub_ok_def hub_Subscribe_def Let_def make_chan_def nth_append less_Suc_eq)
next
  case (Hub_unsubscribe i)
  then show ?thesis
    using assms by (auto simp: hub_ok_def hub_Unsubscribe_def nth_on_chan distinct_removeAll)
next
  case (Hub_event v)
  then show ?thesis
    using assms by (auto simp: hub_ok_def publish_def nth_fold_on_chan) (metis try_send_simps(3))
next
  case Hub_end
  then show ?thesis
    using assms by (auto simp: hub_ok_def closeAllSubscribersLocked_def nth_fold_on_chan)
next
  case (Hub_receive i)
  have "length (tl xs) \<le> n" if "length xs \<le> n" for xs :: "'a list" and n using that by auto
  then show ?thesis using assms Hub_receive by (auto simp: hub_ok_def nth_on_chan)
qed

interpretation hub_inv: step_invariant hub_step hub_ok
  by unfold_locales (rule hub_ok_step)

lemma hub_end_closes:
  "hub_ok h \<Longrightarrow> hb_running h \<Longrightarrow> j < hb_nextID h \<Longrightarrow> ch_closed (hb_chans (hub_step h Hub_end) ! j)"
  by (auto simp: hub_ok_def closeAllSubscribersLocked_def nth_fold_on_chan)

text \<open>One step of the history of subscriber \<open>i\<close>.\<close>

lemma hub_history_step:
  assumes "hub_ok h"
  shows "subseq (received_in i h e @ hub_buf i (hub_step h e)) (hub_buf i h @ published_in i h e)"
    and "length (hub_buf i h @ published_in i h e) \<le> defaultSubscriberBufferSize \<Longrightarrow>
           received_in i h e @ hub_buf i (hub_step h e) = hub_buf i h @ published_in i h e"
proof -
  have new: "hub_buf i h = []" if "\<not> i < length (hb_chans h)" using that by (simp add: hub_buf_def)
  consider (other) "hub_buf i (hub_step h e) = hub_buf i h" "received_in i h e = []" "published_in i h e = []"
    | (event) v where "e = Hub_event v" "hb_running h" "i \<in> set (hb_subscribers h)"
    | (receive) "e = Hub_receive i" "i < length (hb_chans h)"
  proof (cases e)
    case Hub_subscribe
    show ?thesis
      by (rule other) (use Hub_subscribe in \<open>auto simp: hub_buf_def hub_Subscribe_def Let_def nth_append make_chan_def\<close>)
  next
    case (Hub_unsubscribe j)
    show ?thesis
      by (rule other) (use Hub_unsubscribe in \<open>auto simp: hub_buf_def hub_Unsubscribe_def nth_on_chan\<close>)
  next
    case (Hub_event v)
    then show ?thesis
      using event other assms
      by (cases "hb_running h \<and> i \<in> set (hb_subscribers h)") (auto simp: hub_buf_def publish_def nth_fold_on_chan hub_ok_def)
  next
    case Hub_end
    show ?thesis
      by (rule other) (use Hub_end assms in \<open>auto simp: hub_buf_def closeAllSubscribersLocked_def nth_fold_on_chan hub_ok_def\<close>)
  next
    case (Hub_receive j)
    then show ?thesis
      using receive other new by (cases "j = i \<and> i < length (hb_chans h)") (auto simp: hub_buf_def nth_on_chan)
  qed
  note step = this
  show "subseq (received_in i h e @ hub_buf i (hub_step h e)) (hub_buf i h @ published_in i h e)"
  proof (cases rule: step)
    case event
    then have "hub_buf i (hub_step h e) = ch_buf (try_send v (hb_chans h ! i))"
      using assms by (auto simp: hub_buf_def publish_def nth_fold_on_chan hub_ok_def)
    then show ?thesis using event assms by (auto simp: hub_buf_def try_send_def hub_ok_def)
  next
    case receive
    then show ?thesis by (cases "ch_buf (hb_chans h ! i)") (auto simp: hub_buf_def nth_on_chan)
  qed auto
  assume room: "length (hub_buf i h @ published_in i h e) \<le> defaultSubscriberBufferSize"
  show "received_in i h e @ hub_buf i (hub_step h e) = hub_buf i h @ published_in i h e"
  proof (cases rule: step)
    case event
    then show ?thesis
      using room assms by (auto simp: hub_buf_def publish_def nth_fold_on_chan hub_ok_def try_send_def)
  next
    case receive
    then show ?thesis by (cases "ch_buf (hb_chans h ! i)") (auto simp: hub_buf_def nth_on_chan)
  qed auto
qed

lemma subseq_relay:
  assumes "subseq (r1 @ b1) (b0 @ p1)" and "subseq (r2 @ b2) (b1 @ p2)"
  shows "subseq ((r1 @ r2) @ b2) (b0 @ p1 @ p2)"
proof -
  have "subseq (r1 @ (r2 @ b2)) (r1 @ (b1 @ p2))" using assms(2) by (rule list_emb_append_mono [OF subseq_order.refl])
  also have "subseq \<dots> ((b0 @ p1) @ p2)"
    using list_emb_append_mono [OF assms(1) subseq_order.refl [of p2]] by simp
  finally show ?thesis by simp
qed

text \<open>
  C21. Whatever else happens to a hub, a subscriber receives events in the order of their publication, each at
  most once and none published while it was not subscribed; nothing is lost as long as at most 256 events
  are published to it in all, and in the end the channel of everyone who was subscribed is closed.
\<close>

theorem hub_delivers_in_order:
  assumes "hub_ok h" and "hub_trace i h es = (received, published, h')"
  shows "subseq (received @ hub_buf i h') (hub_buf i h @ published)
       \<and> (length (hub_buf i h @ published) \<le> defaultSubscriberBufferSize \<longrightarrow>
            received @ hub_buf i h' = hub_buf i h @ published)
       \<and> (hb_running h' \<longrightarrow> (\<forall>j<hb_nextID h'. ch_closed (hb_chans (hub_step h' Hub_end) ! j)))"
  using assms
proof (induction es arbitrary: h received published)
  case Nil
  then show ?case using hub_end_closes [OF Nil.prems(1)] by auto
next
  case (Cons e es)
  obtain r p where tr: "hub_trace i (hub_step h e) es = (r, p, h')"
    and r: "received = received_in i h e @ r" and p: "published = published_in i h e @ p"
    using Cons.prems(2) by (auto split: prod.splits)
  note IH = Cons.IH [OF hub_ok_step [OF Cons.prems(1)] tr]
  note step = hub_history_step [OF Cons.prems(1), of i e]
  have "subseq (received @ hub_buf i h') (hub_buf i h @ published)"
    using subseq_relay [OF step(1)] IH r p by simp
  moreover have "received @ hub_buf i h' = hub_buf i h @ published"
    if "length (hub_buf i h @ published) \<le> defaultSubscriberBufferSize"
  proof -
    have here: "received_in i h e @ hub_buf i (hub_step h e) = hub_buf i h @ published_in i h e"
      by (rule step(2)) (use that p in simp)
    then have "length (hub_buf i (hub_step h e)) \<le> length (hub_buf i h @ published_in i h e)"
      by (metis length_append le_add2)
    then have "r @ hub_buf i h' = hub_buf i (hub_step h e) @ p" using IH that p by simp
    then show ?thesis using here r p by (metis append.assoc)
  qed
  ultimately show ?case using IH by blast
qed

theorem hub_delivers_in_order_witness:
  "let es = [Hub_subscribe, Hub_event (1::nat), Hub_event 2, Hub_receive 0, Hub_event 3];
       (received, published, h') = hub_trace 0 NewHub es
   in subseq (received @ hub_buf 0 h') published \<and> published = [1, 2, 3] \<and> received = [1]"
proof -
  let ?es = "[Hub_subscribe, Hub_event (1::nat), Hub_event 2, Hub_receive 0, Hub_event 3]"
  have tr: "fst (hub_trace 0 NewHub ?es) = [1]" "fst (snd (hub_trace 0 NewHub ?es)) = [1, 2, 3]"
    by code_simp+
  obtain r p h' where eq: "hub_trace 0 NewHub ?es = (r, p, h')" by (cases "hub_trace 0 NewHub ?es")
  from hub_delivers_in_order [OF hub_ok_new eq] show ?thesis
    using tr eq by (simp add: hub_buf_def NewHub_def)
qed

end
