(* ===== verification/Event_Log.thy ===== *)
theory Event_Log
  imports Coordinator Jsonl Hub "HOL-Library.Word"
begin

text \<open>
  \<open>internal/team/events.go\<close>, \<open>event_consumer.go\<close> and \<open>rotation.go\<close>: the event log of a team, its readers by
  byte offset, and its rotation. The state is the directory of event files, each with its time of
  modification; the active log is \<open>events.ndjson\<close>. A cursor that falls into a line reads the rest of it, which
  is taken not to decode. The length of an encoded event is a parameter, the sizes of the files follow.
\<close>

unbundle bit_operations_syntax

section \<open>Events\<close>

record LoggedEvent =
  ev_ID :: string
  ev_Type :: string
  ev_TeamName :: string
  ev_WorkerID :: string
  ev_TaskID :: string
  ev_Data :: "(string \<times> data_value) list"
  ev_Timestamp :: time

record EventFilter =
  ef_Type :: string
  ef_WorkerID :: string
  ef_TaskID :: string

definition matchesFilter :: "LoggedEvent \<Rightarrow> EventFilter option \<Rightarrow> bool" where
  "matchesFilter event flt = (case flt of
      None \<Rightarrow> True
    | Some f \<Rightarrow>
        if ef_Type f \<noteq> [] \<and> ev_Type event \<noteq> ef_Type f then False
        else if ef_WorkerID f \<noteq> [] \<and> ev_WorkerID event \<noteq> ef_WorkerID f then False
        else if ef_TaskID f \<noteq> [] \<and> ev_TaskID event \<noteq> ef_TaskID f then False
        else True)"

definition hex_byte :: "8 word \<Rightarrow> string" where
  "hex_byte b = [hex_digit (unat b div 16), hex_digit (unat b mod 16)]"

definition hex_bytes :: "8 word list \<Rightarrow> string" where
  "hex_bytes bs = concat (map hex_byte bs)"

text \<open>The argument is what \<open>rand.Read\<close> put into the sixteen bytes.\<close>

definition generateEventID :: "8 word list result \<Rightarrow> string result" where
  "generateEventID rand = (case rand of
      Inl err \<Rightarrow> Inl (Wrap ''generate event id'' err)
    | Inr b \<Rightarrow>
        let b = b[6 := (b ! 6 AND 0x0f) OR 0x40];
            b = b[8 := (b ! 8 AND 0x3f) OR 0x80];
            h = hex_bytes b
        in Inr (take 8 h @ ''-'' @ take 4 (drop 8 h) @ ''-'' @ take 4 (drop 12 h) @ ''-'' @ take 4 (drop 16 h) @ ''-''
                @ take 12 (drop 20 h)))"

text \<open>The event that \<open>runner.go\<close> logs for an event of the coordinator, whose record has no time stamp here.\<close>

definition loggedEventFromTeamEvent :: "TeamEvent \<Rightarrow> time \<Rightarrow> LoggedEvent" where
  "loggedEventFromTeamEvent event timestamp = \<lparr>ev_ID = [], ev_Type = te_Type event, ev_TeamName = te_TeamName event,
     ev_WorkerID = [], ev_TaskID = [], ev_Data = te_Data event, ev_Timestamp = timestamp\<rparr>"

section \<open>Files and byte offsets\<close>

type_synonym log_file = "LoggedEvent json_file"

type_synonym events_dir = "(log_file \<times> time) fdir"

definition eventsFileName :: string where
  "eventsFileName = ''events.ndjson''"

definition lines_size :: "'a json_line list \<Rightarrow> nat" where
  "lines_size ls = (\<Sum>l\<leftarrow>ls. line_bytes l + 1)"

definition file_size :: "'a json_file \<Rightarrow> nat" where
  "file_size f = lines_size (jf_lines f) + (case jf_tail f of None \<Rightarrow> 0 | Some l \<Rightarrow> line_bytes l)"

text \<open>The complete lines from an offset, the rest of a line first.\<close>

fun lines_from :: "nat \<Rightarrow> 'a json_line list \<Rightarrow> 'a json_line list" where
  "lines_from c [] = []"
| "lines_from c (l # ls) =
     (if c = 0 then l # ls
      else if c \<le> line_bytes l then BadJson (line_bytes l - c) ErrSyntax # ls
      else lines_from (c - (line_bytes l + 1)) ls)"

definition tail_from :: "nat \<Rightarrow> 'a json_line option \<Rightarrow> 'a json_line list" where
  "tail_from c t = (case t of
      None \<Rightarrow> []
    | Some l \<Rightarrow> if c = 0 then [l] else if c < line_bytes l then [BadJson (line_bytes l - c) ErrSyntax] else [])"

definition tokens_from :: "nat \<Rightarrow> 'a json_file \<Rightarrow> 'a json_line list" where
  "tokens_from c f = lines_from c (jf_lines f) @ tail_from (c - lines_size (jf_lines f)) (jf_tail f)"

text \<open>The scanner of the log is given a buffer of up to a mebibyte.\<close>

definition maxEventLine :: nat where
  "maxEventLine = 1024 * 1024"

fun scan_events :: "EventFilter option \<Rightarrow> LoggedEvent list \<Rightarrow> LoggedEvent json_line list \<Rightarrow> LoggedEvent list result" where
  "scan_events flt events [] = Inr events"
| "scan_events flt events (l # ls) =
     (if maxEventLine \<le> line_bytes l
      then Inl (Wrap ''scan events file'' (ErrMsg ''bufio.Scanner: token too long''))
      else case l of
          BadJson _ err \<Rightarrow>
            if isJSONUnmarshalError err then scan_events flt events ls else Inl (Wrap ''decode event line'' err)
        | JsonLine _ event \<Rightarrow> scan_events flt (if matchesFilter event flt then events @ [event] else events) ls)"

section \<open>The logger\<close>

text \<open>
  The logger is \<open>None\<close> when it has no paths. \<open>log_env\<close> is what a call observes: the clock, the random source
  and the failures of the system calls, a failing write with the number of bytes it wrote.
\<close>

record log_env =
  le_now :: time
  le_rand :: "8 word list result"
  le_mkdir :: "go_error option"
  le_lock :: "go_error option"
  le_open :: "go_error option"
  le_write :: "(nat \<times> go_error) option"
  le_stat :: "go_error option"
  le_seek :: "go_error option"
  le_tell :: "go_error option"
  le_rename :: "go_error option"
  le_close :: "go_error option"
  le_readdir :: "go_error option"
  le_info :: "string \<Rightarrow> go_error option"
  le_remove :: "string \<Rightarrow> go_error option"

definition quiet_log :: "time \<Rightarrow> log_env" where
  "quiet_log now = \<lparr>le_now = now, le_rand = Inr (replicate 16 0), le_mkdir = None, le_lock = None, le_open = None,
     le_write = None, le_stat = None, le_seek = None, le_tell = None, le_rename = None, le_close = None, le_readdir = None,
     le_info = (\<lambda>_. None), le_remove = (\<lambda>_. None)\<rparr>"

definition active_log :: "events_dir \<Rightarrow> log_file" where
  "active_log d = (case map_of d eventsFileName of None \<Rightarrow> empty_file | Some (f, _) \<Rightarrow> f)"

definition prepare_event :: "log_env \<Rightarrow> string \<Rightarrow> LoggedEvent \<Rightarrow> LoggedEvent result" where
  "prepare_event e teamName event =
     (case (if ev_ID event = [] then generateEventID (le_rand e) else Inr (ev_ID event)) of
        Inl err \<Rightarrow> Inl err
      | Inr i \<Rightarrow> (let
          event = event\<lparr>ev_ID := i\<rparr>;
          event = (if ev_Timestamp event = zero_time then event\<lparr>ev_Timestamp := le_now e\<rparr> else event)
        in Inr (event\<lparr>ev_TeamName := teamName\<rparr>)))"

definition event_Log ::
  "(LoggedEvent \<Rightarrow> nat) \<Rightarrow> log_env \<Rightarrow> bool \<Rightarrow> string \<Rightarrow> LoggedEvent \<Rightarrow> events_dir \<Rightarrow> unit result \<times> events_dir" where
  "event_Log enc_len e initialized teamName event d =
     (if \<not> initialized then (Inl (ErrMsg ''event logger is not initialized''), d)
      else if teamName = [] then (Inl (ErrMsg ''team name is required''), d)
      else case prepare_event e teamName event of
          Inl err \<Rightarrow> (Inl err, d)
        | Inr event \<Rightarrow> (case le_mkdir e of
              Some err \<Rightarrow> (Inl (Wrap ''create events dir'' err), d)
            | None \<Rightarrow> (case le_lock e of
                Some err \<Rightarrow> (Inl (Wrap ''acquire lock'' err), d)
              | None \<Rightarrow> (case le_open e of
                  Some err \<Rightarrow> (Inl (Wrap ''open events file'' err), d)
                | None \<Rightarrow> (case le_write e of
                    Some (written, err) \<Rightarrow> (Inl (Wrap ''append event'' err),
                      fput eventsFileName (torn_write (active_log d) written (enc_len event) event, le_now e) d)
                  | None \<Rightarrow> (Inr (),
                      fput eventsFileName (write_line (active_log d) (enc_len event) event, le_now e) d))))))"

text \<open>A failed read gives the error and the cursor returned with it.\<close>

type_synonym log_read = "go_error \<times> int + LoggedEvent list \<times> int"

definition ReadSince :: "log_env \<Rightarrow> bool \<Rightarrow> string \<Rightarrow> int \<Rightarrow> EventFilter option \<Rightarrow> events_dir \<Rightarrow> log_read" where
  "ReadSince e initialized teamName cursor flt d =
     (if \<not> initialized then Inl (ErrMsg ''event logger is not initialized'', cursor)
      else if teamName = [] then Inl (ErrMsg ''team name is required'', cursor)
      else if cursor < 0 then Inl (ErrMsg ''cursor must be non-negative'', cursor)
      else case le_open e of
          Some err \<Rightarrow> Inl (Wrap ''open events file'' err, cursor)
        | None \<Rightarrow> (case map_of d eventsFileName of
            None \<Rightarrow> Inr ([], 0)
          | Some (f, _) \<Rightarrow> (case le_stat e of
              Some err \<Rightarrow> Inl (Wrap ''stat event log'' err, cursor)
            | None \<Rightarrow> (let cursor = (if cursor > int (file_size f) then 0 else cursor) in
                case le_seek e of
                  Some err \<Rightarrow> Inl (Wrap ''seek events file'' err, cursor)
                | None \<Rightarrow> (case scan_events flt [] (tokens_from (nat cursor) f) of
                    Inl err \<Rightarrow> Inl (err, cursor)
                  | Inr events \<Rightarrow> (case le_tell e of
                        Some err \<Rightarrow> Inl (Wrap ''read cursor position'' err, cursor)
                      | None \<Rightarrow> Inr (events, int (file_size f))))))))"

definition event_Read :: "log_env \<Rightarrow> bool \<Rightarrow> string \<Rightarrow> EventFilter option \<Rightarrow> events_dir \<Rightarrow> LoggedEvent list result" where
  "event_Read e initialized teamName flt d = (case ReadSince e initialized teamName 0 flt d of
     Inl (err, _) \<Rightarrow> Inl err
   | Inr (events, _) \<Rightarrow> Inr events)"

section \<open>Rotation and clean-up\<close>

text \<open>
  \<open>time.Time.Format("20060102-150405")\<close> of a UTC time, by the civil calendar: days since 1 March of year 0
  are split into 400-year, 100-year, 4-year and 1-year cycles.
\<close>

definition pad :: "nat \<Rightarrow> int \<Rightarrow> string" where
  "pad w i = (let s = fmt_int i in replicate (w - length s) (CHR ''0'') @ s)"

definition civil_date :: "int \<Rightarrow> int \<times> int \<times> int" where
  "civil_date days = (let
      z = days + 306;
      era = z div 146097;
      doe = z mod 146097;
      yoe = (doe - doe div 1460 + doe div 36524 - doe div 146096) div 365;
      doy = doe - (365 * yoe + yoe div 4 - yoe div 100);
      mp = (5 * doy + 2) div 153;
      d = doy - (153 * mp + 2) div 5 + 1;
      m = (if mp < 10 then mp + 3 else mp - 9);
      y = yoe + era * 400
    in (if m \<le> 2 then y + 1 else y, m, d))"

definition utc_stamp :: "time \<Rightarrow> string" where
  "utc_stamp t = (let
      secs = t div second_ns;
      (y, m, d) = civil_date (secs div 86400);
      s = secs mod 86400
    in pad 4 y @ pad 2 m @ pad 2 d @ ''-'' @ pad 2 (s div 3600) @ pad 2 (s div 60 mod 60) @ pad 2 (s mod 60))"

text \<open>The Unix epoch is this many seconds after Go's zero time.\<close>

definition unix_epoch :: int where
  "unix_epoch = 62135596800"

definition archiveLogName :: "time \<Rightarrow> string" where
  "archiveLogName now = ''events-'' @ utc_stamp now @ ''_'' @ fmt_int ((now - unix_epoch * second_ns) mod 1000000) @ ''.jsonl''"

definition isArchiveLogName :: "string \<Rightarrow> bool" where
  "isArchiveLogName name \<longleftrightarrow> has_prefix name ''events-'' \<and> has_suffix name ''.jsonl''"

definition Rotate :: "log_env \<Rightarrow> bool \<Rightarrow> string \<Rightarrow> events_dir \<Rightarrow> unit result \<times> events_dir" where
  "Rotate e initialized teamName d =
     (if \<not> initialized then (Inl (ErrMsg ''event log rotator is not initialized''), d)
      else if teamName = [] then (Inl (ErrMsg ''team name is required''), d)
      else case le_mkdir e of
          Some err \<Rightarrow> (Inl (Wrap ''create events dir'' err), d)
        | None \<Rightarrow> (case le_stat e of
            Some err \<Rightarrow> (Inl (Wrap ''stat active event log'' err), d)
          | None \<Rightarrow> (let
              (failed, d) = (case map_of d eventsFileName of
                  None \<Rightarrow> (None, d)
                | Some f \<Rightarrow> (case le_rename e of
                    Some err \<Rightarrow> (Some (Wrap ''archive event log'' err), d)
                  | None \<Rightarrow> (None, fput (archiveLogName (le_now e)) f (fdel eventsFileName d))))
            in case failed of
                Some err \<Rightarrow> (Inl err, d)
              | None \<Rightarrow> (case le_open e of
                  Some err \<Rightarrow> (Inl (Wrap ''create new active event log'' err), d)
                | None \<Rightarrow> (let d = fput eventsFileName (empty_file, le_now e) d
                    in case le_close e of
                        Some err \<Rightarrow> (Inl (Wrap ''close new active event log'' err), d)
                      | None \<Rightarrow> (Inr (), d))))))"

text \<open>The errors of the files are joined; an empty list is no error.\<close>

fun clean_entries :: "log_env \<Rightarrow> time \<Rightarrow> string list \<Rightarrow> go_error list \<Rightarrow> 'a fdir \<Rightarrow> ('a \<Rightarrow> time) \<Rightarrow> (string \<Rightarrow> bool)
    \<Rightarrow> go_error list \<times> 'a fdir" where
  "clean_entries e cutoff [] errs d mtime sel = (errs, d)"
| "clean_entries e cutoff (name # names) errs d mtime sel =
     (case map_of d name of
        None \<Rightarrow> clean_entries e cutoff names errs d mtime sel
      | Some f \<Rightarrow>
          if \<not> sel name then clean_entries e cutoff names errs d mtime sel
          else case le_info e name of
              Some err \<Rightarrow> clean_entries e cutoff names (errs @ [Wrap (''stat '' @ name) err]) d mtime sel
            | None \<Rightarrow>
                if cutoff < mtime f then clean_entries e cutoff names errs d mtime sel
                else (case le_remove e name of
                    Some err \<Rightarrow> if errors_is err ErrNotExist then clean_entries e cutoff names errs (fdel name d) mtime sel
                                else clean_entries e cutoff names (errs @ [Wrap (''remove '' @ name) err]) d mtime sel
                  | None \<Rightarrow> clean_entries e cutoff names errs (fdel name d) mtime sel))"

definition CleanupOldLogs :: "log_env \<Rightarrow> bool \<Rightarrow> string \<Rightarrow> duration \<Rightarrow> events_dir \<Rightarrow> go_error list \<times> events_dir" where
  "CleanupOldLogs e initialized teamName maxAge d =
     (if \<not> initialized then ([ErrMsg ''event log rotator is not initialized''], d)
      else if teamName = [] then ([ErrMsg ''team name is required''], d)
      else if maxAge \<le> 0 then ([ErrMsg ''maxAge must be greater than zero''], d)
      else case le_readdir e of
          Some err \<Rightarrow> if errors_is err ErrNotExist then ([], d) else ([Wrap ''read events dir'' err], d)
        | None \<Rightarrow> clean_entries e (le_now e - maxAge) (map fst d) [] d snd isArchiveLogName)"

text \<open>
  \<open>RecoverStaleLocks\<close> walks the files of a team directory, here their paths with the times of modification,
  and removes old files with the suffix \<open>.tmp\<close>. A directory that cannot be walked is left out.
\<close>

definition defaultStaleLockThreshold :: duration where
  "defaultStaleLockThreshold = 300 * second_ns"

definition NewStaleLockRecovery :: "duration list \<Rightarrow> duration" where
  "NewStaleLockRecovery staleThreshold =
     (case staleThreshold of [] \<Rightarrow> defaultStaleLockThreshold
      | x # _ \<Rightarrow> if 0 < x then x else defaultStaleLockThreshold)"

definition RecoverStaleLocks :: "log_env \<Rightarrow> bool \<Rightarrow> duration \<Rightarrow> string \<Rightarrow> time fdir \<Rightarrow> go_error list \<times> time fdir" where
  "RecoverStaleLocks e initialized threshold teamName d =
     (if \<not> initialized then ([ErrMsg ''stale lock recovery is not initialized''], d)
      else if teamName = [] then ([ErrMsg ''team name is required''], d)
      else case le_stat e of
          Some err \<Rightarrow> if errors_is err ErrNotExist then ([], d) else ([Wrap ''stat team dir'' err], d)
        | None \<Rightarrow> clean_entries e (le_now e - threshold) (map fst d) [] d id (\<lambda>n. has_suffix n ''.tmp''))"

section \<open>The consumer\<close>

definition defaultEventConsumerPollInterval :: duration where
  "defaultEventConsumerPollInterval = 500 * millisecond_ns"

text \<open>The channels handed out, by number, and the numbers of the current subscribers.\<close>

record EventConsumer =
  ec_teamName :: string
  ec_pollInterval :: duration
  ec_cursor :: int
  ec_subs :: "nat list"
  ec_chans :: "LoggedEvent channel list"
  ec_running :: bool

definition NewEventConsumer :: "string \<Rightarrow> duration \<Rightarrow> EventConsumer" where
  "NewEventConsumer teamName pollInterval = \<lparr>ec_teamName = teamName,
     ec_pollInterval = (if pollInterval \<le> 0 then defaultEventConsumerPollInterval else pollInterval),
     ec_cursor = 0, ec_subs = [], ec_chans = [], ec_running = True\<rparr>"

definition consumer_Subscribe :: "EventConsumer \<Rightarrow> nat \<times> EventConsumer" where
  "consumer_Subscribe c = (length (ec_chans c),
     c\<lparr>ec_chans := ec_chans c @ [make_chan 64], ec_subs := ec_subs c @ [length (ec_chans c)]\<rparr>)"

definition consumer_Unsubscribe :: "nat \<Rightarrow> EventConsumer \<Rightarrow> EventConsumer" where
  "consumer_Unsubscribe ch c = c\<lparr>ec_subs := filter (\<lambda>sub. sub \<noteq> ch) (ec_subs c)\<rparr>"

definition consumer_SubscriberCount :: "EventConsumer \<Rightarrow> nat" where
  "consumer_SubscriberCount c = length (ec_subs c)"

definition broadcast :: "LoggedEvent \<Rightarrow> EventConsumer \<Rightarrow> EventConsumer" where
  "broadcast event c = c\<lparr>ec_chans := fold (\<lambda>i. on_chan i (try_send event)) (ec_subs c) (ec_chans c)\<rparr>"

definition closeSubscribers :: "EventConsumer \<Rightarrow> EventConsumer" where
  "closeSubscribers c = c\<lparr>ec_chans := fold (\<lambda>i. on_chan i close_chan) (ec_subs c) (ec_chans c), ec_subs := []\<rparr>"

text \<open>The two cases of the \<open>select\<close> in \<open>Run\<close>: a tick of the poll timer, and the end of the context.\<close>

definition consumer_tick :: "log_env \<Rightarrow> bool \<Rightarrow> events_dir \<Rightarrow> EventConsumer \<Rightarrow> EventConsumer" where
  "consumer_tick e initialized d c =
     (if \<not> ec_running c then c
      else case ReadSince e initialized (ec_teamName c) (ec_cursor c) None d of
          Inl _ \<Rightarrow> c
        | Inr (events, nextCursor) \<Rightarrow> fold broadcast events (c\<lparr>ec_cursor := nextCursor\<rparr>))"

definition consumer_done :: "EventConsumer \<Rightarrow> EventConsumer" where
  "consumer_done c = (if \<not> ec_running c then c else (closeSubscribers c)\<lparr>ec_running := False\<rparr>)"

end
