(* ===== verification/Event_Log_Props.thy ===== *)
theory Event_Log_Props
  imports Event_Log
begin

text \<open>
  What the event log promises: a reader with a cursor gets every event once while the log is only appended to,
  what rotation loses, and what the clean-up removes.
\<close>

section \<open>Reading from a cursor\<close>

lemma lines_size_simps [simp]:
  "lines_size [] = 0" "lines_size (l # ls) = line_bytes l + 1 + lines_size ls" "lines_size (xs @ ys) = lines_size xs + lines_size ys"
  by (simp_all add: lines_size_def)

lemma lines_from_boundary: "lines_from (lines_size (take k ls)) ls = drop k ls"
proof (induction ls arbitrary: k)
  case (Cons l ls)
  then show ?case by (cases k) auto
qed simp

text \<open>A cursor inside the log skips at least the lines whose bytes it has passed.\<close>

lemma lines_from_values:
  "\<exists>k. concat (map line_values (lines_from c ls)) = concat (map line_values (drop k ls)) \<and> (0 < c \<longrightarrow> 0 < k)
     \<and> (c \<le> lines_size ls \<longrightarrow> k \<le> length ls)"
proof (induction ls arbitrary: c)
  case Nil
  show ?case by (rule exI [of _ "if c = 0 then 0 else 1"]) simp
next
  case (Cons l ls)
  consider "c = 0" | "0 < c" "c \<le> line_bytes l" | "line_bytes l < c" by linarith
  then show ?case
  proof cases
    case 1
    then show ?thesis by (intro exI [of _ 0]) simp
  next
    case 2
    then show ?thesis by (intro exI [of _ 1]) simp
  next
    case 3
    obtain k where k: "concat (map line_values (lines_from (c - (line_bytes l + 1)) ls)) = concat (map line_values (drop k ls))"
      "c - (line_bytes l + 1) \<le> lines_size ls \<longrightarrow> k \<le> length ls"
      using Cons.IH [of "c - (line_bytes l + 1)"] by blast
    show ?thesis using 3 k by (intro exI [of _ "Suc k"]) auto
  qed
qed

lemma scan_events_values:
  assumes "\<forall>l\<in>set ls. line_bytes l < maxEventLine \<and> (\<forall>n err. l = BadJson n err \<longrightarrow> isJSONUnmarshalError err)"
  shows "scan_events None evs ls = Inr (evs @ concat (map line_values ls))"
  using assms
proof (induction ls arbitrary: evs)
  case (Cons l ls)
  then show ?case by (cases l) (auto simp: matchesFilter_def)
qed simp

lemma unmarshal_syntax [simp]: "isJSONUnmarshalError ErrSyntax"
  by (simp add: isJSONUnmarshalError_def)

text \<open>\<open>sound f\<close>: every line of the file decodes and is below the limit, and the file ends with a newline.\<close>

definition sound :: "log_file \<Rightarrow> bool" where
  "sound f \<longleftrightarrow> jf_tail f = None \<and> (\<forall>l\<in>set (jf_lines f). line_bytes l < maxEventLine \<and> (\<exists>n x. l = JsonLine n x))"

lemma lines_from_sound:
  "\<forall>l\<in>set ls. line_bytes l < m \<and> (\<exists>n x. l = JsonLine n x) \<Longrightarrow> l \<in> set (lines_from c ls) \<Longrightarrow>
     line_bytes l < m \<and> (\<forall>n err. l = BadJson n err \<longrightarrow> isJSONUnmarshalError err)"
  by (induction c ls rule: lines_from.induct) (fastforce split: if_splits)+

lemma ReadSince_sound:
  assumes "sound f" and "map_of d eventsFileName = Some (f, t)" and "teamName \<noteq> []" and "0 \<le> cursor"
    and "le_open e = None" "le_stat e = None" "le_seek e = None" "le_tell e = None"
  shows "ReadSince e True teamName cursor None d = Inr
     (concat (map line_values (lines_from (if nat cursor > file_size f then 0 else nat cursor) (jf_lines f))), int (file_size f))"
proof -
  let ?c = "if nat cursor > file_size f then 0 else nat cursor"
  have tail: "jf_tail f = None" and lines: "\<forall>l\<in>set (jf_lines f). line_bytes l < maxEventLine \<and> (\<exists>n x. l = JsonLine n x)"
    using assms(1) by (auto simp: sound_def)
  have "scan_events None [] (lines_from ?c (jf_lines f)) = Inr ([] @ concat (map line_values (lines_from ?c (jf_lines f))))"
    by (rule scan_events_values) (use lines_from_sound [OF lines] in blast)
  then show ?thesis
    using assms(2-) tail by (auto simp: ReadSince_def tokens_from_def tail_from_def Let_def)
qed

section \<open>Exactly once without rotation\<close>

datatype log_step = Step_log log_env LoggedEvent | Step_poll log_env

record reader_run =
  rr_dir :: events_dir
  rr_cursor :: int
  rr_got :: "LoggedEvent list"
  rr_logged :: "LoggedEvent list"

fun reader_step :: "(LoggedEvent \<Rightarrow> nat) \<Rightarrow> string \<Rightarrow> reader_run \<Rightarrow> log_step \<Rightarrow> reader_run" where
  "reader_step enc_len team s (Step_log e event) = (case event_Log enc_len e True team event (rr_dir s) of
      (Inl _, d) \<Rightarrow> s\<lparr>rr_dir := d\<rparr>
    | (Inr _, d) \<Rightarrow> s\<lparr>rr_dir := d, rr_logged := rr_logged s @ [projr (prepare_event e team event)]\<rparr>)"
| "reader_step enc_len team s (Step_poll e) = (case ReadSince e True team (rr_cursor s) None (rr_dir s) of
      Inl _ \<Rightarrow> s
    | Inr (events, c) \<Rightarrow> s\<lparr>rr_cursor := c, rr_got := rr_got s @ events\<rparr>)"

definition reader_start :: reader_run where
  "reader_start = \<lparr>rr_dir = [], rr_cursor = 0, rr_got = [], rr_logged = []\<rparr>"

definition reader_inv :: "reader_run \<Rightarrow> bool" where
  "reader_inv s \<longleftrightarrow> (let f = active_log (rr_dir s) in
     sound f \<and> file_values f = rr_logged s
     \<and> (\<exists>k\<le>length (jf_lines f). rr_cursor s = int (lines_size (take k (jf_lines f))) \<and> rr_got s = take k (rr_logged s)))"

lemma values_map:
  "\<forall>l\<in>set ls. \<exists>n x. l = JsonLine n x \<Longrightarrow> concat (map line_values ls) = map (\<lambda>l. hd (line_values l)) ls"
  by (induction ls) auto

lemma sound_lines: "sound f \<Longrightarrow> \<forall>l\<in>set (jf_lines f). \<exists>n x. l = JsonLine n x"
  by (auto simp: sound_def)

lemma sound_values:
  assumes "sound f"
  shows "file_values f = map (\<lambda>l. hd (line_values l)) (jf_lines f)"
proof -
  have "jf_tail f = None" using assms by (simp add: sound_def)
  then show ?thesis using values_map [OF sound_lines [OF assms]] by (simp add: file_values_def file_tokens_def)
qed

lemma sound_drop:
  assumes "sound f"
  shows "concat (map line_values (drop k (jf_lines f))) = drop k (file_values f)"
proof -
  have "\<forall>l\<in>set (drop k (jf_lines f)). \<exists>n x. l = JsonLine n x"
    using sound_lines [OF assms] by (meson in_set_dropD)
  from values_map [OF this] show ?thesis using sound_values [OF assms] by (simp add: drop_map)
qed

lemma sound_append: "sound f \<Longrightarrow> n < maxEventLine \<Longrightarrow> sound (write_line f n x)"
  by (auto simp: sound_def write_line_def end_line_def)

lemma length_sound: "sound f \<Longrightarrow> length (file_values f) = length (jf_lines f)"
  by (simp add: sound_values)

lemma active_log_fput [simp]: "active_log (fput eventsFileName (f, t) d) = f"
  by (simp add: active_log_def)

definition clean_step :: "log_step \<Rightarrow> bool" where
  "clean_step st = (case st of Step_log e _ \<Rightarrow> (case le_write e of Some (k, _) \<Rightarrow> k = 0 | None \<Rightarrow> True) | Step_poll _ \<Rightarrow> True)"

lemma reader_step_inv:
  assumes "reader_inv s" and "clean_step st" and "\<forall>x. enc_len x < maxEventLine" and "team \<noteq> []"
  shows "reader_inv (reader_step enc_len team s st)"
proof (cases st)
  case (Step_log e event)
  let ?f = "active_log (rr_dir s)"
  obtain res d where log: "event_Log enc_len e True team event (rr_dir s) = (res, d)"
    by (cases "event_Log enc_len e True team event (rr_dir s)")
  show ?thesis
  proof (cases res)
    case (Inl err)
    then have "active_log d = ?f"
      using log assms(2) Step_log
      by (auto simp: event_Log_def clean_step_def split: if_splits sum.splits option.splits)
    then show ?thesis using assms(1) Step_log log Inl by (simp add: reader_inv_def Let_def)
  next
    case (Inr u)
    then obtain x where x: "prepare_event e team event = Inr x" and d: "active_log d = write_line ?f (enc_len x) x"
      using log by (auto simp: event_Log_def split: if_splits sum.splits option.splits)
    have f: "sound ?f" "file_values ?f = rr_logged s" using assms(1) by (simp_all add: reader_inv_def Let_def)
    have tail: "jf_tail ?f = None" using f(1) by (simp add: sound_def)
    have lines: "jf_lines (write_line ?f (enc_len x) x) = jf_lines ?f @ [JsonLine (enc_len x) x]"
      using tail by (simp add: write_line_def end_line_def)
    have new: "sound (write_line ?f (enc_len x) x)" using sound_append f(1) assms(3) by blast
    obtain k where k: "k \<le> length (jf_lines ?f)" "rr_cursor s = int (lines_size (take k (jf_lines ?f)))"
      "rr_got s = take k (rr_logged s)" using assms(1) by (auto simp: reader_inv_def Let_def)
    have "k \<le> length (rr_logged s)" using k(1) f length_sound by metis
    then have "rr_got s = take k (rr_logged s @ [x])" using k(3) by simp
    then show ?thesis
      using Step_log log Inr x d lines new f(2) k tail write_line_intact(1) [OF tail, of "enc_len x" x]
      by (auto simp: reader_inv_def Let_def intro!: exI [of _ k])
  qed
next
  case (Step_poll e)
  let ?f = "active_log (rr_dir s)"
  have f: "sound ?f" "file_values ?f = rr_logged s" using assms(1) by (simp_all add: reader_inv_def Let_def)
  obtain k where k: "k \<le> length (jf_lines ?f)" "rr_cursor s = int (lines_size (take k (jf_lines ?f)))"
    "rr_got s = take k (rr_logged s)" using assms(1) by (auto simp: reader_inv_def Let_def)
  show ?thesis
  proof (cases "ReadSince e True team (rr_cursor s) None (rr_dir s)")
    case (Inl err)
    then show ?thesis using assms(1) Step_poll by simp
  next
    case (Inr res)
    show ?thesis
    proof (cases "map_of (rr_dir s) eventsFileName")
      case None
      then have "res = ([], 0)" using Inr assms(4) by (auto simp: ReadSince_def split: if_splits option.splits)
      then show ?thesis using Step_poll Inr None f k by (auto simp: reader_inv_def Let_def active_log_def)
    next
      case (Some ft)
      then obtain t where ft: "ft = (?f, t)" by (cases ft) (auto simp: active_log_def)
      have quiet: "le_open e = None" "le_stat e = None" "le_seek e = None" "le_tell e = None"
        using Inr Some [unfolded ft] assms(4) by (auto simp: ReadSince_def Let_def split: if_splits option.splits sum.splits)
      have size: "file_size ?f = lines_size (jf_lines ?f)" using f(1) by (simp add: sound_def file_size_def)
      have le: "lines_size (take k ls) \<le> lines_size ls" for ls :: "LoggedEvent json_line list"
        by (metis append_take_drop_id le_add1 lines_size_simps(3))
      have "res = (drop k (rr_logged s), int (lines_size (jf_lines ?f)))"
        using ReadSince_sound [OF f(1) Some [unfolded ft] assms(4), of "rr_cursor s" e] quiet Inr k(2) size le [of "jf_lines ?f"]
        by (auto simp: lines_from_boundary sound_drop [OF f(1)] f(2))
      then have "reader_step enc_len team s st
          = s\<lparr>rr_cursor := int (lines_size (jf_lines ?f)), rr_got := rr_logged s\<rparr>"
        using Step_poll Inr k(3) by simp
      then show ?thesis
        using f length_sound [OF f(1)] by (auto simp: reader_inv_def Let_def intro!: exI [of _ "length (jf_lines ?f)"])
    qed
  qed
qed

lemma reader_start_inv: "reader_inv reader_start"
  by (simp add: reader_inv_def reader_start_def active_log_def sound_def Let_def)

lemma reader_run_inv:
  assumes "\<forall>x. enc_len x < maxEventLine" and "team \<noteq> []" and "reader_inv s" and "list_all clean_step steps"
  shows "reader_inv (foldl (reader_step enc_len team) s steps)"
  using assms(3,4) by (induction steps arbitrary: s) (simp_all add: reader_step_inv [OF _ _ assms(1,2)])

definition quiet_poll :: "log_env \<Rightarrow> bool" where
  "quiet_poll e \<longleftrightarrow> le_open e = None \<and> le_stat e = None \<and> le_seek e = None \<and> le_tell e = None"


definition sample_event :: "string \<Rightarrow> LoggedEvent" where
  "sample_event i = \<lparr>ev_ID = i, ev_Type = ''task_created'', ev_TeamName = [], ev_WorkerID = [], ev_TaskID = [],
     ev_Data = [], ev_Timestamp = 5\<rparr>"


section \<open>Rotation\<close>

definition logged_file :: "(LoggedEvent \<Rightarrow> nat) \<Rightarrow> LoggedEvent list \<Rightarrow> log_file" where
  "logged_file enc_len evs = \<lparr>jf_lines = map (\<lambda>x. JsonLine (enc_len x) x) evs, jf_tail = None\<rparr>"

text \<open>
  Rotation moves the log to an archive that no reader looks at and starts an empty one. A reader whose
  cursor is not yet past the end of the new log when it polls next takes it for an offset into the new log:
  it misses at least the first event there, and the next cursor is past what it missed.
\<close>

theorem rotation_loses_events:
  assumes "Rotate e1 True team d = (Inr (), d1)" and "team \<noteq> []" and "\<forall>x. enc_len x < maxEventLine"
    and "0 < cursor" and "cursor \<le> int (lines_size (map (\<lambda>x. JsonLine (enc_len x) x) evs))" and "quiet_poll e2"
  shows "active_log d1 = empty_file
       \<and> (\<exists>k. 0 < k \<and> k \<le> length evs \<and> ReadSince e2 True team cursor None
              (fput eventsFileName (logged_file enc_len evs, t) d1)
            = Inr (drop k evs, int (lines_size (map (\<lambda>x. JsonLine (enc_len x) x) evs))))"
proof -
  let ?f = "logged_file enc_len evs" and ?d = "fput eventsFileName (logged_file enc_len evs, t) d1"
  have "active_log d1 = empty_file"
    using assms(1) by (auto simp: Rotate_def Let_def split: if_splits option.splits prod.splits)
  moreover have sound: "sound ?f" using assms(3) by (auto simp: sound_def logged_file_def)
  have size: "file_size ?f = lines_size (jf_lines ?f)" by (simp add: file_size_def logged_file_def)
  have vals: "file_values ?f = evs"
    by (simp add: file_values_def file_tokens_def logged_file_def comp_def concat_map_singleton)
  obtain k where k: "concat (map line_values (lines_from (nat cursor) (jf_lines ?f))) = concat (map line_values (drop k (jf_lines ?f)))"
    "0 < k" "k \<le> length (jf_lines ?f)"
    using lines_from_values [of "nat cursor" "jf_lines ?f"] assms(4,5) by (auto simp: logged_file_def)
  have "map_of ?d eventsFileName = Some (?f, t)" by simp
  from ReadSince_sound [OF sound this assms(2), of cursor e2]
  have "ReadSince e2 True team cursor None ?d = Inr (drop k evs, int (lines_size (jf_lines ?f)))"
    using assms(4-6) size k(1) sound_drop [OF sound, of k] vals by (simp add: quiet_poll_def logged_file_def)
  then have "\<exists>k. 0 < k \<and> k \<le> length evs \<and> ReadSince e2 True team cursor None ?d
      = Inr (drop k evs, int (lines_size (map (\<lambda>x. JsonLine (enc_len x) x) evs)))"
    using k(2,3) by (auto simp: logged_file_def intro!: exI [of _ k])
  ultimately show ?thesis by blast
qed

theorem rotation_loses_events_witness:
  "\<exists>k. 0 < k \<and> ReadSince (quiet_log 9) True ''t'' 91 None
     (fput eventsFileName (logged_file (\<lambda>_. 90) [sample_event ''b'', sample_event ''c''], 8)
        (snd (Rotate (quiet_log 7) True ''t'' [(eventsFileName, (logged_file (\<lambda>_. 90) [sample_event ''a''], 6))])))
     = Inr (drop k [sample_event ''b'', sample_event ''c''], 182)"
proof -
  let ?d = "[(eventsFileName, (logged_file (\<lambda>_. 90) [sample_event ''a''], 6))]"
  obtain d1 where rot: "Rotate (quiet_log 7) True ''t'' ?d = (Inr (), d1)"
    by (simp add: Rotate_def quiet_log_def Let_def)
  have len: "\<forall>x :: LoggedEvent. (90::nat) < maxEventLine" by (simp add: maxEventLine_def)
  have "quiet_poll (quiet_log 9)" by (simp add: quiet_poll_def quiet_log_def)
  from rotation_loses_events [OF rot _ len _ _ this, of 91 "[sample_event ''b'', sample_event ''c'']" 8]
  show ?thesis using rot by auto
qed

section \<open>Clean-up\<close>

lemma clean_entries_kept:
  assumes "clean_entries e cutoff names errs d mtime sel = (errs', d')"
  shows "map_of d' n = map_of d n \<or> (n \<in> set names \<and> sel n \<and> (\<exists>f. map_of d n = Some f \<and> mtime f \<le> cutoff) \<and> map_of d' n = None)"
  using assms
proof (induction e cutoff names errs d mtime sel rule: clean_entries.induct)
  case (2 e cutoff name names errs d mtime sel)
  have removed: "map_of d' n = map_of d n \<or> (n \<in> set (name # names) \<and> sel n \<and> (\<exists>f. map_of d n = Some f \<and> mtime f \<le> cutoff) \<and> map_of d' n = None)"
    if IH: "map_of d' n = map_of (fdel name d) n \<or>
        (n \<in> set names \<and> sel n \<and> (\<exists>f. map_of (fdel name d) n = Some f \<and> mtime f \<le> cutoff) \<and> map_of d' n = None)"
      and f: "map_of d name = Some f" "sel name" "\<not> cutoff < mtime f" for f
    using IH f by (cases "n = name") auto
  show ?case
  proof (cases "map_of d name")
    case None
    then show ?thesis using 2 by simp blast
  next
    case (Some f)
    show ?thesis
    proof (cases "sel name \<and> le_info e name = None \<and> \<not> cutoff < mtime f
        \<and> (le_remove e name = None \<or> errors_is (the (le_remove e name)) ErrNotExist)")
      case True
      then show ?thesis
        using 2 Some by (intro removed [OF _ Some]) (auto split: option.splits if_splits)
    next
      case False
      then show ?thesis using 2 Some by (auto split: option.splits if_splits)
    qed
  qed
qed simp

lemma clean_entries_quiet:
  assumes "\<forall>n. le_info e n = None \<and> le_remove e n = None" and "n \<in> set names" and "distinct names"
    and "map_of d n = Some f" and "sel n" and "mtime f \<le> cutoff"
  shows "map_of (snd (clean_entries e cutoff names errs d mtime sel)) n = None"
  using assms(2-4)
proof (induction names arbitrary: d errs)
  case (Cons m names)
  show ?case
  proof (cases "n = m")
    case True
    obtain errs' d' where rest: "clean_entries e cutoff names errs (fdel m d) mtime sel = (errs', d')"
      by (cases "clean_entries e cutoff names errs (fdel m d) mtime sel")
    have "map_of d' n = None" using clean_entries_kept [OF rest, of n] True by auto
    then show ?thesis using True Cons.prems(3) assms(1,5,6) rest by simp
  next
    case False
    then show ?thesis
      using Cons assms(1) by (auto split: option.split)
  qed
qed simp

text \<open>
  Clean-up removes archives that are older than the limit and nothing else, the active log least of
  all; without faults it removes them all.
\<close>

theorem cleanup_removes_old_archives:
  assumes "CleanupOldLogs e initialized team maxAge d = (errs, d')"
  shows "(map_of d' n = map_of d n \<or>
            (isArchiveLogName n \<and> n \<noteq> eventsFileName \<and> (\<exists>f t. map_of d n = Some (f, t) \<and> t \<le> le_now e - maxAge) \<and> map_of d' n = None))
       \<and> (initialized \<and> team \<noteq> [] \<and> 0 < maxAge \<and> wf_dir d \<and> le_readdir e = None \<and> (\<forall>n. le_info e n = None \<and> le_remove e n = None)
            \<longrightarrow> isArchiveLogName n \<and> (\<exists>f t. map_of d n = Some (f, t) \<and> t \<le> le_now e - maxAge) \<longrightarrow> map_of d' n = None)"
proof -
  have active: "\<not> isArchiveLogName eventsFileName" by code_simp
  have "d' = d \<or> clean_entries e (le_now e - maxAge) (map fst d) [] d snd isArchiveLogName = (errs, d')"
    using assms by (auto simp: CleanupOldLogs_def split: if_splits option.splits)
  then have safe: "map_of d' n = map_of d n \<or>
      (isArchiveLogName n \<and> n \<noteq> eventsFileName \<and> (\<exists>f t. map_of d n = Some (f, t) \<and> t \<le> le_now e - maxAge) \<and> map_of d' n = None)"
    using clean_entries_kept [of e "le_now e - maxAge" "map fst d" "[]" d snd isArchiveLogName errs d' n] active by fastforce
  have "map_of d' n = None"
    if "initialized \<and> team \<noteq> [] \<and> 0 < maxAge \<and> wf_dir d \<and> le_readdir e = None \<and> (\<forall>n. le_info e n = None \<and> le_remove e n = None)"
      "isArchiveLogName n" "map_of d n = Some (f, t)" "t \<le> le_now e - maxAge" for f t
  proof -
    have "clean_entries e (le_now e - maxAge) (map fst d) [] d snd isArchiveLogName = (errs, d')"
      using assms that(1) by (auto simp: CleanupOldLogs_def)
    moreover have "n \<in> set (map fst d)" using that(3) by (metis domI dom_map_of_conv_image_fst list.set_map)
    ultimately show ?thesis
      using clean_entries_quiet [of e n "map fst d" d "(f, t)" isArchiveLogName snd "le_now e - maxAge" "[]"] that
        wf_dir_distinct by auto
  qed
  then show ?thesis using safe by blast
qed

text \<open>
  The recovery of stale files looks for the suffix \<open>.tmp\<close>; the temporary files of \<open>WriteJSON\<close> are named after
  the process and the time, and are never removed.
\<close>

lemma fmt_int_last: "fmt_int i \<noteq> [] \<and> (0 \<le> i \<longrightarrow> last (fmt_int i) \<noteq> CHR ''p'')"
proof -
  have digits: "nat_digits m \<noteq> [] \<and> last (nat_digits m) \<noteq> CHR ''p''" for m
  proof -
    have "char_of (48 + k) \<noteq> CHR ''p''" if "k < 10" for k :: nat
    proof
      assume "char_of (48 + k) = CHR ''p''"
      then have "(of_char (char_of (48 + k) :: char) :: nat) = of_char (CHR ''p'')" by simp
      then show False using that by simp
    qed
    then show ?thesis by (subst (1 2) nat_digits.simps) simp
  qed
  then show ?thesis by (simp add: fmt_int_def)
qed

theorem stale_temporaries_survive:
  assumes "0 \<le> nanos" and "n = path @ ''.tmp.'' @ fmt_int pid @ ''.'' @ fmt_int nanos"
  shows "map_of (snd (RecoverStaleLocks e initialized threshold team d)) n = map_of d n"
proof -
  have "last n \<noteq> CHR ''p''" using fmt_int_last [of nanos] assms by simp
  then have sel: "\<not> has_suffix n ''.tmp''" by (auto simp: has_suffix_iff)
  obtain errs d' where res: "RecoverStaleLocks e initialized threshold team d = (errs, d')"
    by (cases "RecoverStaleLocks e initialized threshold team d")
  have "d' = d \<or> clean_entries e (le_now e - threshold) (map fst d) [] d id (\<lambda>n. has_suffix n ''.tmp'') = (errs, d')"
    using res by (auto simp: RecoverStaleLocks_def split: if_splits option.splits)
  then show ?thesis
    using clean_entries_kept [of e "le_now e - threshold" "map fst d" "[]" d id "\<lambda>n. has_suffix n ''.tmp''" errs d' n] sel res
    by auto
qed

text \<open>The stamp of an archive: the last second of 1969 and the leap day of 2024.\<close>

lemma utc_stamp_samples:
  "utc_stamp ((unix_epoch - 1) * second_ns) = ''19691231-235959''"
  "utc_stamp ((unix_epoch + 1709210096) * second_ns) = ''20240229-123456''"
  by code_simp+

end
