(* ===== verification/Spec2Isabelle.thy ===== *)
theory Spec2Isabelle
  imports Config_Props Worker_Events_Props Worker_Dispatch_Props Worker_Login_Props Github_Props Linear_Props Workspace_Props Team_Run Coordinator Dispatch_Queue Orchestrator_Props Board_Sync_Props Timeline_Props Timeline_Pass Event_Log_Props
begin

text \<open>
  A verification development of contrabass, a Go program that lets coding agents work on the issues
  of a tracker. It has two engines. The \<^emph>\<open>orchestrator\<close> (\<open>internal/orchestrator\<close>) polls a tracker,
  claims issues, runs one agent per issue in a workspace, and retries failed runs. The \<^emph>\<open>team
  coordinator\<close> (\<open>internal/team\<close>) splits one job into tasks and drives workers through the phases plan,
  PRD, exec, verify and fix; its state is a directory of JSON documents shared by the workers.

  \<^bold>\<open>Conventions.\<close> A definition keeps the name of the Go function it translates, prefixed where two
  components use one name (\<open>heartbeat_Read\<close>, \<open>orch_emitEvent\<close>). A struct is a record whose fields carry
  a two-letter prefix, an enumeration a datatype. A function that returns an error returns
  \<open>go_error + 'a\<close>; state is passed and returned. Go's \<open>int\<close> is \<open>int\<close> with \<open>wrap64\<close> where a product or
  sum can leave the range, hashes are \<open>64 word\<close>, a \<open>time.Time\<close> is a number of nanoseconds. What the
  code observes of the outside is an argument: \<open>env\<close> for one call on the stores (clock, random source,
  failing reads and writes), \<open>exec_world\<close> and \<open>phase_world\<close> for the agents and the schedule of a team,
  \<open>world\<close> for the tracker, workspace manager, agent runner and git of the orchestrator. Mutexes make
  each call atomic, so interleavings are sequences of calls. Loggers are left out.

  \<^bold>\<open>Theories.\<close>
  \<^item> \<open>Prelude\<close>: integers and durations, strings, errors, directories as sorted association lists, and
    the shared locales \<open>kv_store\<close> (look-up laws of a directory), \<open>step_invariant\<close> and \<open>step_relation\<close>
    (what holds along a run of operations).
  \<^item> \<open>Team_Types\<close>: \<open>types/team.go\<close>, \<open>types/types.go\<close>, \<open>ipc/ipc.go\<close>.
  \<^item> \<open>Team_Store\<close>: \<open>team/store.go\<close>, \<open>json_errors.go\<close>, \<open>paths.go\<close>: reading and writing documents.
  \<^item> \<open>Task_Registry\<close>: \<open>team/tasks.go\<close>. Claims are exclusive and need the current version, a live lease
    excludes others, an expired one frees the task, every change of a task changes its version.
  \<^item> \<open>Phase_Machine\<close>: \<open>team/phases.go\<close>. The recorded history is a path of the transition table with a
    bounded number of fix loops.
  \<^item> \<open>Governance\<close>, \<open>Ownership\<close>, \<open>Allocation\<close>: \<open>team/governance.go\<close>, \<open>ownership.go\<close>, \<open>allocation.go\<close>. The
    first violated rule is reported; file claims never overwrite other workers; owners are chosen
    optimally and loads stay balanced.
  \<^item> \<open>Dispatch_Queue\<close>, \<open>Mailbox\<close>, \<open>Heartbeat_Monitor\<close>: \<open>team/dispatch.go\<close>, \<open>mailbox.go\<close>, \<open>heartbeat.go\<close>.
    The life cycle of a dispatch entry, at-least-once delivery, freshness of workers.
  \<^item> \<open>Recovery\<close>: \<open>team/recovery.go\<close> and \<open>cleanup.go\<close>, over all the stores.
  \<^item> \<open>Coordinator\<close>: \<open>team/coordinator.go\<close>, over all of the above: \<open>Run\<close> returns, the gates between the
    phases hold, and what a failing phase leaves behind. The loop of \<open>Run\<close> takes fuel;
    \<open>3 * maxFixLoops + 5\<close> iterations are proved to be enough. An exec phase takes a schedule of worker
    turns; that it ends is a hypothesis of the theorem on \<open>Run\<close>.
  \<^item> \<open>Orch_State\<close>, \<open>Run_Events\<close>: \<open>orchestrator/state.go\<close> and the pure functions of
    \<open>orchestrator_runtime.go\<close>: transitions, back-off, token counters, the final phase of a run.
  \<^item> \<open>Orchestrator\<close>: the handlers of \<open>orchestrator.go\<close> and \<open>orchestrator_runtime.go\<close> and the relation
    \<open>orch_step\<close> of what can happen in any order. \<open>Orchestrator_Runs\<close> has the lemmas on the handlers and
    the invariant, \<open>Orchestrator_Props\<close> the properties: bookkeeping, concurrency, the end of a run,
    retries, stalls, tokens, shutdown, blockers.
  \<^item> \<open>Local_Board\<close>: \<open>tracker/local.go\<close>, the tracker kept in files. \<open>Local_Board_Runs\<close> has the lemmas on
    single operations, the commands several trackers run on one board, and the invariant;
    \<open>Local_Board_Props\<close> the properties: the abstract machine of columns and claims that the board
    refines (locale \<open>simulation\<close>), fresh ids, the choice of the issue to dispatch, comments. This theory
    puts the orchestrator on the local board.
  \<^item> \<open>Board_Sync\<close>: \<open>cli/team/board.go\<close> and \<open>cli/server/dispatch.go\<close>, teams on the local board: the plan made
    from an issue and its children, the syncer that writes the progress of a team to the board, the
    dispatcher. \<open>Board_Sync_Props\<close>: plans are closed, the board follows the run, and the dispatcher drains
    the board when the teams finish their issues. Its loop takes fuel: one more than the number of open
    issues is proved to be enough then, and no fuel is enough when a failing issue goes back to retry.
  \<^item> \<open>Jsonl\<close>: files of JSON lines with torn writes, for the two logs below.
  \<^item> \<open>Event_Log\<close>: \<open>team/events.go\<close>, \<open>event_consumer.go\<close>, \<open>rotation.go\<close>, the event log of a team read by byte
    offsets; \<open>Hub\<close>: \<open>hub/hub.go\<close>, the fan-out of events to channels. \<open>Event_Log_Props\<close>: every event once
    without rotation, what rotation loses, what the clean-up removes.
  \<^item> \<open>Timeline\<close>, \<open>Timeline_Sync\<close>: \<open>internal/timeline\<close> and \<open>orchestrator/timeline.go\<close>, the append-only record of
    what happened to an issue and the syncer that posts it to Linear. \<open>Timeline_Runs\<close> has the view of a
    file as four maps, what an append does to it, and the locale \<open>syncer_relation\<close> for what every step of
    the syncer keeps; \<open>Timeline_Props\<close>: snapshots hold the last records, torn writes and long records;
    \<open>Timeline_Pass\<close>: a pass posts every node and the next one makes no call, and what a refused update loses.
    The syncer's loop is a list of the cases its \<open>select\<close> takes.

  \<^item> \<open>Config\<close>, \<open>Config_Parser\<close>, \<open>Config_Compose\<close>, \<open>Config_Watcher\<close>: \<open>internal/config\<close>: the structures and
    getters, front matter and environment references, the presets in layers, the reloading watcher.
    \<open>Config_Views\<close> has a configuration as a map from document paths to values and shows that the merge
    functions are \<open>++\<close> on it; \<open>Config_Props\<close>: ranges, \<open>Resolve\<close> against that specification, the round trip of
    front matter, what the watcher holds.

  \<^item> \<open>Worker_Events\<close>: \<open>cli/worker/worker_events.go\<close>, how a cloud worker batches and posts the events of an
    agent. \<open>Worker_Events_Props\<close>: the cloud has them once and in order (locale \<open>event_sink\<close>, provided by the
    post function that halves refused batches).
  \<^item> The rest of the cloud worker, \<open>internal/cli/worker\<close>: \<open>Worker_Session\<close> (registration, refreshed tokens, the requests,
    the configuration cache), \<open>Worker_Heartbeat\<close> (intervals that fit into a lease), \<open>Worker_Ack\<close> (the table of runs in
    flight; \<open>Worker_Ack_Props\<close>: it is bounded and exact unless a run is dispatched twice), \<open>Worker_Dispatch\<close> (WebSocket and
    long poll, a turn of the loop per record; \<open>Worker_Dispatch_Props\<close>: frames in order, when the poll is used),
    \<open>Worker_Group\<close> (the goroutines of a run as a step relation; \<open>Worker_Group_Props\<close>: they all return),
    \<open>Worker_Artifacts\<close> (uploads), \<open>Worker_Executor\<close> (a run around its goroutines; \<open>Worker_Executor_Props\<close>: when it is
    stopped, cleaned up and reported as a success), \<open>Worker_Login\<close> (enrolment, credentials and the start of a worker;
    \<open>Worker_Login_Props\<close>: the store holds the newest token). The worker is the one \<open>Run\<close> builds: it has an API address and
    therefore posts events and heartbeats, and no injected agent.

  \<^item> \<open>Tracker_Text\<close>: \<open>tracker/deps.go\<close> and \<open>model_override.go\<close>, the regular expressions on the text of an issue as functions.
    \<open>Tracker_Http\<close>, \<open>Github\<close>, \<open>Linear\<close>, \<open>Linear_Detail\<close>: the clients \<open>tracker/github.go\<close>, \<open>linear.go\<close>,
    \<open>linear_issue_detail.go\<close> against a service that answers from the requests made before. \<open>Github_Props\<close>,
    \<open>Linear_Props\<close>: all pages are read, each once, and what the orchestrator makes of the issues, their blockers
    above all. The loops over pages take fuel, one more than the full pages, or the number of pages, is proved enough.

  \<^item> \<open>Workspace\<close>: \<open>internal/workspace\<close>, one git worktree per issue, and the mutexes of the issues as a step relation.
    \<open>Workspace_Props\<close>: on a git that does what it documents tracked issues have registered worktrees, what the mutexes
    exclude, and the three ways in which that breaks. \<open>Go_Strings\<close> has strings and paths, \<open>Go_Json\<close> the values of JSON.
  \<^item> \<open>Team_Cli\<close>, \<open>Team_Cli_Api\<close>, \<open>Team_Cli_Health\<close>, \<open>Team_Cli_Monitor\<close>: the runner that drives a team through the command line of
    omx or omc, \<open>agent/teamcli.go\<close> and \<open>team_tasks.go\<close>, \<open>team_messaging.go\<close>, \<open>team_events.go\<close>, \<open>team_health.go\<close>, \<open>team_restart.go\<close>: names and
    texts, the calls of the API, the health of the workers, the monitor with its reactions, start and stop. The tool answers a
    command from those before it. \<open>Team_Cli_Props\<close>: what a run reports. \<open>Team_Cli_Runs\<close>: the names of teams,
    and that a monitor of a failing team ends. The fuel bounds the polls and the waits.
  \<^item> \<open>Team_Run\<close>: \<open>agent/omx.go\<close>, \<open>omc.go\<close>, \<open>run.go\<close> and \<open>watchProcess\<close>: how the events of a process reach the orchestrator, as
    a step relation over its channels, and what the orchestrator makes of a completed run of a team.

  \<^bold>\<open>Not modelled.\<close> Byte-level JSON and file locks (a file is a document, its decoded lines, or a fault), the
  other agent clients (HTTP and child processes; the orchestrator sees their answers), tmux command
  lines, the terminal and web interfaces, the command line, generated protocol types, and the
  TypeScript part of the repository, the YAML library and the template engine. The engines above take the
  configuration values they read as arguments.
\<close>

section \<open>The orchestrator on the local board\<close>

lemma fetched_issue:
  assumes inv: "board_inv b" and "faultless e" and "fst (board_FetchIssues override t None e b) = Inr issues"
    and at: "issue_at b k = Some i" and j: "j \<in> set issues" "is_ID j = k"
  shows "j = toIssue override i"
proof -
  have "set issues = toIssue override ` {x \<in> set (board_docs b). lb_State x \<noteq> LocalBoardStateDone}"
    using assms(3) ListIssues_ok [OF inv_listable [OF inv] assms(2), of t False] by (auto simp: board_FetchIssues_def)
  with j obtain x where x: "j = toIssue override x" "x \<in> set (board_docs b)" by auto
  then obtain y where "issue_at b y = Some x" using set_board_docs [OF inv] by auto
  moreover from this inv have "lb_ID x = y" by (auto simp: board_inv_def issue_ok_def)
  moreover have "lb_ID x = k" using x(1) j(2) by (simp add: toIssue_def)
  ultimately show ?thesis using at x(1) by simp
qed

text \<open>
  C26. An orchestrator that does not know of an issue, as after a restart or after it dropped a stalled
  run, never takes it up again while the local board shows it in progress or in retry: those columns are
  reported as running and queued, and only unclaimed issues and orphaned claims are dispatched. The
  recovery of orphaned claims has no effect on the local board, which never reports a claim.
\<close>

theorem local_issue_is_not_resumed:
  assumes "orch_reachable s" and "\<not> isManagedIssue s k" and "board_reach enc_len b" and "faultless e"
    and "fst (board_FetchIssues override t None e b) = Inr issues"
    and "issue_at b k = Some i" and "lb_State i \<in> {LocalBoardStateInProgress, LocalBoardStateRetry}"
    and "list_all (\<lambda>(cfg, w). ow_issues w = issues) cycles"
  shows "list_all (\<lambda>j. is_State j \<noteq> Claimed) issues \<and>
    \<not> isManagedIssue (foldl (\<lambda>s (cfg, w). runCycle cfg w s) s cycles) k"
proof -
  have inv: "board_inv b" by (rule reach_inv [OF assms(3)])
  have unclaimed: "is_State (toIssue override x) \<noteq> Claimed" for x
    by (simp add: toIssue_def board_IssueState_def)
  have "list_all (\<lambda>j. is_State j \<noteq> Claimed) issues"
    using assms(5) ListIssues_ok [OF inv_listable [OF inv] assms(4), of t False] unclaimed
    by (auto simp: board_FetchIssues_def list_all_iff)
  moreover have busy: "is_State j \<notin> {Unclaimed, Claimed}" if "j \<in> set issues" "is_ID j = k" for j
    using fetched_issue [OF inv assms(4, 5, 6) that] assms(7)
    by (auto simp: toIssue_def board_IssueState_def board_states)
  have "orch_inv s \<Longrightarrow> \<not> isManagedIssue s k \<Longrightarrow> \<not> isManagedIssue (foldl (\<lambda>s (cfg, w). runCycle cfg w s) s cycles) k" for s
    using assms(8)
  proof (induction cycles arbitrary: s)
    case (Cons c cycles)
    obtain cfg w where c: "c = (cfg, w)" by (cases c)
    then have "ow_issues w = issues" using Cons.prems(3) by simp
    then have "\<not> isManagedIssue (runCycle cfg w s) k"
      using runCycle_managed [OF Cons.prems(1), of cfg w k] Cons.prems(2) busy by auto
    with Cons c show ?case by (simp add: runCycle_inv)
  qed simp
  ultimately show ?thesis using orch_reachable_inv [OF assms(1)] assms(2) by blast
qed

definition claimed_doc :: LocalBoardIssue where
  "claimed_doc = sample_doc\<lparr>lb_State := LocalBoardStateInProgress, lb_ClaimedBy := ''ann'', lb_UpdatedAt := 6\<rparr>"

definition claimed_board :: board where
  "claimed_board = snd (board_exec (\<lambda>_. 0) sample_tracker None (quiet_env 6 []) (CClaim ''CB-1'') sample_board)"

lemma claimed_board_eq: "claimed_board = with_doc sample_board ''CB-1'' claimed_doc"
proof -
  have ens: "snd (ensureBoardLocked sample_tracker (quiet_env 6 []) sample_board) = sample_board"
    by (cases rule: ensureBoardLocked_cases [of sample_tracker "quiet_env 6 []" sample_board]) (auto simp: sample_board_eq)
  have w: "write_issue sample_tracker (quiet_env 6 []) sample_board ''CB-1'' i = (Inr (), with_doc sample_board ''CB-1'' i)" for i
    by (rule write_issue_ok) (simp_all add: sample_board_eq issue_file_def)
  show ?thesis
    by (simp add: claimed_board_def board_ClaimIssue_def with_issue_ok [OF sample_usable sample_board_issue] ens w)
       (simp add: claimed_doc_def sample_doc_def board_states sample_tracker_def)
qed

lemma claimed_board_reach: "board_reach (\<lambda>_. 0) claimed_board"
  unfolding claimed_board_def by (rule board_reach.step [OF sample_board_reach sample_prefix]) simp

lemma claimed_board_fetch:
  "fst (board_FetchIssues (\<lambda>_. []) sample_tracker None (quiet_env 7 []) claimed_board) = Inr [toIssue (\<lambda>_. []) claimed_doc]"
proof -
  have "board_docs claimed_board = [claimed_doc]"
    by (simp add: claimed_board_eq board_docs_def with_doc_def sample_board_eq issue_file_def)
  moreover have "lb_State claimed_doc \<noteq> LocalBoardStateDone" by (simp add: claimed_doc_def board_states)
  ultimately show ?thesis
    by (simp add: board_FetchIssues_def ListIssues_ok [OF inv_listable [OF reach_inv [OF claimed_board_reach]] faultless_quiet])
qed

theorem local_issue_is_not_resumed_witness:
  "\<not> isManagedIssue (runCycle sample_cfg (sample_world 20 [toIssue (\<lambda>_. []) claimed_doc]) (NewOrchestrator sample_cfg 10)) ''CB-1''"
proof -
  have at: "issue_at claimed_board ''CB-1'' = Some claimed_doc" by (simp add: claimed_board_eq)
  have new: "\<not> isManagedIssue (NewOrchestrator sample_cfg 10) ''CB-1''"
    by (simp add: isManagedIssue_def NewOrchestrator_def)
  have col: "lb_State claimed_doc \<in> {LocalBoardStateInProgress, LocalBoardStateRetry}" by (simp add: claimed_doc_def)
  have cyc: "list_all (\<lambda>(cfg, w). ow_issues w = [toIssue (\<lambda>_. []) claimed_doc])
      [(sample_cfg, sample_world 20 [toIssue (\<lambda>_. []) claimed_doc])]"
    by (simp add: sample_world_def)
  show ?thesis
    using local_issue_is_not_resumed [OF orch_reachable.start new claimed_board_reach faultless_quiet claimed_board_fetch at col cyc]
    by simp
qed

end
